(* ===== verification/Prelude.thy ===== *)
theory Prelude
  imports Main "HOL-Library.Word"
begin

text \<open>
  The shared ground of the development: the values an exception of the program carries,
  JavaScript strings and the string operations the sources call, and tables of rows with
  the statements the SQL of the sources is made of.

  A JavaScript string is modelled as the list of its code units, for code units below 256
  (\<open>string\<close> is \<open>char list\<close>, and a \<open>char\<close> is an 8-bit value). The code under model
  compares, slices and matches strings against ASCII patterns only.
  Points in time are \<open>int\<close>: milliseconds since the epoch. The sources store them as
  \<open>toISOString()\<close> text of one fixed width and compare that text, which orders the same way.
\<close>

section \<open>Collections of facts\<close>

named_theorems row_simps \<open>how tables react to inserts, updates and deletes\<close>
named_theorems js_simps \<open>string and character facts\<close>

section \<open>Types shared by every component\<close>

type_synonym byte = "8 word"
type_synonym time = int

datatype limit_code = FileTooLarge | TooManyFiles | QuotaExceeded

text \<open>
  What a \<open>throw\<close> of the sources carries: a plain \<open>Error\<close> with its message, the error
  classes of the program, and the failures SQLite reports for a violated constraint.
\<close>

datatype exn =
    JsError string
  | UserError string "(string \<times> string) list"
  | LimitError limit_code string int
  | WebAuthnError string
  | DbscError string
  | StorageLimitError int
  | StorageNotFoundError string
  | SqliteConstraint

type_synonym 'a result = "exn + 'a"

text \<open>The next statement of a function that can throw.\<close>

fun and_then :: "'a result \<Rightarrow> ('a \<Rightarrow> 'b result) \<Rightarrow> 'b result" where
  "and_then (Inl e) f = Inl e"
| "and_then (Inr x) f = f x"

lemma and_then_Inr_iff: "and_then r f = Inr y \<longleftrightarrow> (\<exists>x. r = Inr x \<and> f x = Inr y)"
  by (cases r) auto

lemma and_then_InrE: "and_then r f = Inr y \<Longrightarrow> (\<And>x. r = Inr x \<Longrightarrow> f x = Inr y \<Longrightarrow> Q) \<Longrightarrow> Q"
  by (cases r) auto

section \<open>Characters and strings\<close>

definition code :: "char \<Rightarrow> nat" where
  "code c = of_char c"

definition chr_of :: "nat \<Rightarrow> char" where
  "chr_of n = char_of n"

definition is_digit :: "char \<Rightarrow> bool" where
  "is_digit c \<longleftrightarrow> 48 \<le> code c \<and> code c \<le> 57"

definition is_lower :: "char \<Rightarrow> bool" where
  "is_lower c \<longleftrightarrow> 97 \<le> code c \<and> code c \<le> 122"

definition is_upper :: "char \<Rightarrow> bool" where
  "is_upper c \<longleftrightarrow> 65 \<le> code c \<and> code c \<le> 90"

definition is_alpha :: "char \<Rightarrow> bool" where
  "is_alpha c \<longleftrightarrow> is_lower c \<or> is_upper c"

definition is_alnum :: "char \<Rightarrow> bool" where
  "is_alnum c \<longleftrightarrow> is_alpha c \<or> is_digit c"

text \<open>\<open>\\w\<close> of a regular expression, and the base64url alphabet \<open>[A-Za-z0-9_-]\<close>.\<close>

definition is_word_char :: "char \<Rightarrow> bool" where
  "is_word_char c \<longleftrightarrow> is_alnum c \<or> c = CHR ''_''"

definition is_url_char :: "char \<Rightarrow> bool" where
  "is_url_char c \<longleftrightarrow> is_alnum c \<or> c = CHR ''_'' \<or> c = CHR ''-''"

text \<open>\<open>\\s\<close> and the characters \<open>trim()\<close> removes: tab to carriage return, space, no-break space.\<close>

definition is_ws :: "char \<Rightarrow> bool" where
  "is_ws c \<longleftrightarrow> (9 \<le> code c \<and> code c \<le> 13) \<or> code c = 32 \<or> code c = 160"

definition js_trim :: "string \<Rightarrow> string" where
  "js_trim s = rev (dropWhile is_ws (rev (dropWhile is_ws s)))"

text \<open>\<open>toLowerCase()\<close>: A-Z and the capital letters of the Latin-1 block.\<close>

definition lower_char :: "char \<Rightarrow> char" where
  "lower_char c =
     (if is_upper c \<or> (192 \<le> code c \<and> code c \<le> 222 \<and> code c \<noteq> 215)
      then chr_of (code c + 32) else c)"

definition js_lower :: "string \<Rightarrow> string" where
  "js_lower = map lower_char"

definition starts_with :: "string \<Rightarrow> string \<Rightarrow> bool" where
  "starts_with p s \<longleftrightarrow> take (length p) s = p"

definition ends_with :: "string \<Rightarrow> string \<Rightarrow> bool" where
  "ends_with p s \<longleftrightarrow> starts_with (rev p) (rev s)"

text \<open>\<open>split\<close> at every character of a class; the result is never empty.\<close>

fun split_by :: "(char \<Rightarrow> bool) \<Rightarrow> string \<Rightarrow> string list" where
  "split_by P [] = [[]]"
| "split_by P (c # cs) =
     (if P c then [] # split_by P cs
      else (case split_by P cs of [] \<Rightarrow> [[c]] | w # ws \<Rightarrow> (c # w) # ws))"

text \<open>\<open>indexOf\<close> and \<open>lastIndexOf\<close> of one character, \<open>-1\<close> when absent.\<close>

fun index_of :: "char \<Rightarrow> string \<Rightarrow> int" where
  "index_of c [] = - 1"
| "index_of c (d # ds) = (if c = d then 0 else let i = index_of c ds in if i < 0 then - 1 else i + 1)"

definition last_index_of :: "char \<Rightarrow> string \<Rightarrow> int" where
  "last_index_of c s =
     (let i = index_of c (rev s) in if i < 0 then - 1 else int (length s) - 1 - i)"

fun js_join :: "string \<Rightarrow> string list \<Rightarrow> string" where
  "js_join sep [] = []"
| "js_join sep [s] = s"
| "js_join sep (s # t # ts) = s @ sep @ js_join sep (t # ts)"

text \<open>\<open>String(n)\<close> of a natural number.\<close>

definition digit_char :: "nat \<Rightarrow> char" where
  "digit_char n = chr_of (48 + n)"

fun string_of_nat :: "nat \<Rightarrow> string" where
  "string_of_nat n = (if n < 10 then [digit_char n] else string_of_nat (n div 10) @ [digit_char (n mod 10)])"

declare string_of_nat.simps [simp del]

definition string_of_int :: "int \<Rightarrow> string" where
  "string_of_int i = (if i < 0 then CHR ''-'' # string_of_nat (nat (- i)) else string_of_nat (nat i))"

text \<open>The value of a run of decimal digits.\<close>

definition digit_val :: "char \<Rightarrow> nat" where
  "digit_val c = code c - 48"

definition nat_of_digits :: "string \<Rightarrow> nat" where
  "nat_of_digits s = foldl (\<lambda>n c. 10 * n + digit_val c) 0 s"

text \<open>\<open>v || null\<close> and the truth value of a string that may be missing.\<close>

definition truthy :: "string option \<Rightarrow> bool" where
  "truthy v \<longleftrightarrow> (case v of None \<Rightarrow> False | Some s \<Rightarrow> s \<noteq> [])"

definition or_else :: "string \<Rightarrow> string \<Rightarrow> string" where
  "or_else s d = (if s = [] then d else s)"

section \<open>Facts about characters and strings\<close>

lemma code_less_256 [js_simps, simp]: "code c < 256"
  by (simp add: code_def)

lemma code_inject [js_simps, simp]: "code c = code d \<longleftrightarrow> c = d"
  by (simp add: code_def)

lemma code_chr_of [js_simps, simp]: "n < 256 \<Longrightarrow> code (chr_of n) = n"
  by (simp add: code_def chr_of_def)

lemma chr_of_code [js_simps, simp]: "chr_of (code c) = c"
  by (simp add: code_def chr_of_def)

lemma all_chars_by_code: "(\<forall>c. P c) \<longleftrightarrow> (\<forall>n < 256. P (chr_of n))"
  by (metis chr_of_code code_less_256)

lemma split_by_not_Nil [simp]: "split_by P s \<noteq> []"
  by (cases s) (auto split: list.splits)

lemma split_by_none [js_simps]: "(\<forall>c \<in> set s. \<not> P c) \<Longrightarrow> split_by P s = [s]"
  by (induction s) auto

lemma split_by_pieces: "w \<in> set (split_by P s) \<Longrightarrow> c \<in> set w \<Longrightarrow> c \<in> set s \<and> \<not> P c"
proof (induction s arbitrary: w)
  case Nil
  then show ?case by simp
next
  case (Cons a s)
  show ?case
  proof (cases "P a")
    case True
    with Cons show ?thesis by auto
  next
    case False
    obtain v vs where v: "split_by P s = v # vs"
      using split_by_not_Nil by (metis neq_Nil_conv)
    with Cons.prems False have "w = a # v \<or> w \<in> set vs" by simp
    then show ?thesis
    proof
      assume w: "w = a # v"
      then consider "c = a" | "c \<in> set v" using Cons.prems(2) by auto
      then show ?thesis
      proof cases
        case 1
        with False show ?thesis by simp
      next
        case 2
        with v Cons.IH [of v] show ?thesis by simp
      qed
    next
      assume "w \<in> set vs"
      with v Cons.IH [of w] Cons.prems(2) show ?thesis by simp
    qed
  qed
qed

lemma split_by_append:
  "\<forall>c \<in> set s. \<not> P c \<Longrightarrow> P d \<Longrightarrow> split_by P (s @ d # t) = s # split_by P t"
  by (induction s) auto

lemma set_js_trim: "set (js_trim s) \<subseteq> set s"
  unfolding js_trim_def
  by (metis set_dropWhileD set_rev subsetI)

lemma length_js_trim: "length (js_trim s) \<le> length s"
  unfolding js_trim_def
  by (metis (no_types) length_dropWhile_le length_rev le_trans)

lemma js_trim_id: "\<forall>c \<in> set s. \<not> is_ws c \<Longrightarrow> js_trim s = s"
  by (cases s; cases s rule: rev_cases)
    (auto simp: js_trim_def dropWhile_eq_self_iff hd_append hd_rev last_in_set)

lemma index_of_ge: "- 1 \<le> index_of c s"
  by (induction s) (auto simp: Let_def)

lemma index_of_neg: "index_of c s < 0 \<longleftrightarrow> c \<notin> set s"
  by (induction s) (auto simp: Let_def)

lemma index_of_less: "index_of c s < int (length s)"
  by (induction s) (auto simp: Let_def)

lemma last_index_of_less: "last_index_of c s < int (length s)"
  using index_of_ge [of c "rev s"] by (auto simp: last_index_of_def Let_def)

lemma starts_with_append [simp]: "starts_with p (p @ s)"
  by (simp add: starts_with_def)

lemma starts_with_iff: "starts_with p s \<longleftrightarrow> (\<exists>t. s = p @ t)"
  by (metis append_take_drop_id starts_with_def append_eq_conv_conj)

lemma code_digit_char: "n < 10 \<Longrightarrow> code (digit_char n) = 48 + n"
  by (simp add: digit_char_def)

lemma digit_val_digit_char [simp]: "n < 10 \<Longrightarrow> digit_val (digit_char n) = n"
  by (simp add: digit_val_def code_digit_char)

lemma is_digit_digit_char [simp]: "n < 10 \<Longrightarrow> is_digit (digit_char n)"
  by (simp add: is_digit_def code_digit_char)

lemma string_of_nat_digits: "c \<in> set (string_of_nat n) \<Longrightarrow> is_digit c"
proof (induction n rule: string_of_nat.induct)
  case (1 n)
  then show ?case
    by (cases "n < 10") (auto simp: string_of_nat.simps [of n])
qed

lemma string_of_nat_not_Nil [simp]: "string_of_nat n \<noteq> []"
  by (simp add: string_of_nat.simps [of n])

lemma nat_of_digits_snoc: "nat_of_digits (s @ [c]) = 10 * nat_of_digits s + digit_val c"
  by (simp add: nat_of_digits_def)

lemma nat_of_digits_string_of_nat [simp]: "nat_of_digits (string_of_nat n) = n"
proof (induction n rule: string_of_nat.induct)
  case (1 n)
  show ?case
  proof (cases "n < 10")
    case True
    then show ?thesis
      by (simp add: string_of_nat.simps [of n] nat_of_digits_def)
  next
    case False
    with 1 show ?thesis
      by (simp add: string_of_nat.simps [of n] nat_of_digits_snoc)
  qed
qed

section \<open>Tables\<close>

text \<open>
  A table is the list of its rows in insertion order. The statements of the sources are
  the following: \<open>SELECT ... WHERE key = k\<close> read with \<open>.get()\<close>, \<open>UPDATE ... WHERE\<close>,
  \<open>DELETE ... WHERE\<close> and the number of rows a statement touched (\<open>changes\<close>).
\<close>

definition get_by :: "('r \<Rightarrow> 'k) \<Rightarrow> 'k \<Rightarrow> 'r list \<Rightarrow> 'r option" where
  "get_by key k t = find (\<lambda>r. key r = k) t"

definition update_where :: "('r \<Rightarrow> bool) \<Rightarrow> ('r \<Rightarrow> 'r) \<Rightarrow> 'r list \<Rightarrow> 'r list" where
  "update_where P f t = map (\<lambda>r. if P r then f r else r) t"

definition delete_where :: "('r \<Rightarrow> bool) \<Rightarrow> 'r list \<Rightarrow> 'r list" where
  "delete_where P t = filter (\<lambda>r. \<not> P r) t"

definition changes :: "('r \<Rightarrow> bool) \<Rightarrow> 'r list \<Rightarrow> nat" where
  "changes P t = length (filter P t)"

lemma get_by_Nil [row_simps, simp]: "get_by key k [] = None"
  by (simp add: get_by_def)

lemma get_by_Cons [row_simps]: "get_by key k (r # t) = (if key r = k then Some r else get_by key k t)"
  by (simp add: get_by_def)

lemma get_by_append [row_simps]:
  "get_by key k (t @ u) = (case get_by key k t of None \<Rightarrow> get_by key k u | Some r \<Rightarrow> Some r)"
  by (induction t) (auto simp: get_by_def)

lemma get_by_SomeD: "get_by key k t = Some r \<Longrightarrow> r \<in> set t \<and> key r = k"
  by (auto simp: get_by_def find_Some_iff)

lemma get_by_None_iff: "get_by key k t = None \<longleftrightarrow> k \<notin> key ` set t"
  by (auto simp: get_by_def find_None_iff)

lemma get_by_SomeI: "distinct (map key t) \<Longrightarrow> r \<in> set t \<Longrightarrow> get_by key (key r) t = Some r"
  by (induction t) (auto simp: get_by_Cons)

lemma distinct_key_eq: "distinct (map key t) \<Longrightarrow> r \<in> set t \<Longrightarrow> r' \<in> set t \<Longrightarrow> key r = key r' \<Longrightarrow> r = r'"
  by (metis get_by_SomeI option.inject)

lemma get_by_update_same [row_simps]:
  "(\<And>r. key (f r) = key r) \<Longrightarrow>
   get_by key k (update_where (\<lambda>r. key r = k) f t) = map_option f (get_by key k t)"
  by (induction t) (auto simp: get_by_Cons update_where_def)

lemma get_by_update_keep:
  "(\<And>r. key (f r) = key r) \<Longrightarrow>
   get_by key k (update_where P f t) = map_option (\<lambda>r. if P r then f r else r) (get_by key k t)"
  by (induction t) (auto simp: get_by_Cons update_where_def)

lemma get_by_delete_key [row_simps]:
  "get_by key k (delete_where (\<lambda>r. key r = j) t) = (if k = j then None else get_by key k t)"
  by (induction t) (auto simp: get_by_Cons delete_where_def)

lemma get_by_delete_keep:
  "distinct (map key t) \<Longrightarrow>
   get_by key k (delete_where P t) =
     (case get_by key k t of None \<Rightarrow> None | Some r \<Rightarrow> if P r then None else Some r)"
proof (induction t)
  case Nil
  then show ?case by (simp add: delete_where_def)
next
  case (Cons r t)
  then have IH: "get_by key k (delete_where P t) =
      (case get_by key k t of None \<Rightarrow> None | Some r \<Rightarrow> if P r then None else Some r)" by simp
  show ?case
  proof (cases "key r = k")
    case True
    with Cons.prems have "get_by key k t = None" by (auto simp: get_by_None_iff)
    with True IH show ?thesis by (simp add: delete_where_def get_by_Cons)
  next
    case False
    with IH show ?thesis by (simp add: delete_where_def get_by_Cons)
  qed
qed

lemma set_update_where [row_simps]: "set (update_where P f t) = (\<lambda>r. if P r then f r else r) ` set t"
  by (simp add: update_where_def)

lemma set_delete_where [row_simps]: "set (delete_where P t) = {r \<in> set t. \<not> P r}"
  by (auto simp: delete_where_def)

lemma map_update_where [row_simps]:
  "(\<And>r. g (f r) = g r) \<Longrightarrow> map g (update_where P f t) = map g t"
  by (simp add: update_where_def)

lemma distinct_delete_where [intro]: "distinct (map key t) \<Longrightarrow> distinct (map key (delete_where P t))"
  by (simp add: delete_where_def distinct_map_filter)

lemma length_update_where [row_simps, simp]: "length (update_where P f t) = length t"
  by (simp add: update_where_def)

lemma filter_update_where:
  "filter Q (update_where P f t) = map (\<lambda>r. if P r then f r else r) (filter (\<lambda>r. Q (if P r then f r else r)) t)"
  by (induction t) (auto simp: update_where_def)

lemma update_where_none [row_simps]: "(\<forall>r \<in> set t. \<not> P r) \<Longrightarrow> update_where P f t = t"
  by (simp add: update_where_def map_idI)

lemma delete_where_none: "(\<forall>r \<in> set t. \<not> P r) \<Longrightarrow> delete_where P t = t"
  by (simp add: delete_where_def)

lemma changes_0_iff: "changes P t = 0 \<longleftrightarrow> (\<forall>r \<in> set t. \<not> P r)"
  by (simp add: changes_def filter_empty_conv)

section \<open>Two contracts\<close>

text \<open>
  A codec: whatever was encoded decodes to itself. The encodings of the program
  (base64url, base32, HTML escaping, shell quoting, cookies) provide it.
\<close>

locale codec =
  fixes enc :: "'a \<Rightarrow> 'b"
    and dec :: "'b \<Rightarrow> 'a option"
  assumes dec_enc: "dec (enc x) = Some x"
begin

lemma enc_inject: "enc x = enc y \<longleftrightarrow> x = y"
  by (metis dec_enc option.inject)

lemma inj_enc: "inj enc"
  by (rule injI) (simp add: enc_inject)

lemma enc_in_dom: "enc x \<in> dom dec"
  by (simp add: dom_def dec_enc)

end

text \<open>
  A machine with an invariant: runs of steps from a good state stay in good states.
\<close>

locale invariant_machine =
  fixes step :: "'s \<Rightarrow> 'e \<Rightarrow> 's"
    and good :: "'s \<Rightarrow> bool"
  assumes step_good: "good s \<Longrightarrow> good (step s e)"
begin

lemma run_good: "good s \<Longrightarrow> good (foldl step s es)"
  by (induction es arbitrary: s) (auto intro: step_good)

lemma run_prefix_good: "good s \<Longrightarrow> es = us @ vs \<Longrightarrow> good (foldl step s us) \<and> good (foldl step s es)"
  by (auto intro: run_good)

end

end
