(* ===== verification/JsNumber.thy ===== *)
theory JsNumber
  imports Prelude Complex_Main "HOL-Library.Log_Nat"
begin

text \<open>
  The part of JavaScript's numbers the sources use: \<open>Number(text)\<close>, the test
  \<open>Number.isSafeInteger\<close> and \<open>Math.floor\<close>. A finite double is the rational it denotes
  (the sign of zero is not observed by the sources).
\<close>

datatype jsnum = NaN | Infinite bool | Num rat

text \<open>
  The double nearest to a rational, ties to even. Integers up to 2^53 are doubles, so they
  denote themselves; any other rational is scaled to a 53-bit significand and rounded.
\<close>

definition round_half_even :: "rat \<Rightarrow> int" where
  "round_half_even m =
     (let r = \<lfloor>m\<rfloor>; f = m - of_int r
      in if f > 1 / 2 \<or> (f = 1 / 2 \<and> odd r) then r + 1 else r)"

definition pow2 :: "int \<Rightarrow> rat" where
  "pow2 k = (if 0 \<le> k then 2 ^ nat k else 1 / 2 ^ nat (- k))"

definition round_pos :: "rat \<Rightarrow> jsnum" where
  "round_pos a =
     (let (n, d) = quotient_of a;
          k0 = int (floorlog 2 (nat n)) - int (floorlog 2 (nat d)) - 53;
          k1 = (if a / pow2 k0 < 2 ^ 53 then k0 else k0 + 1);
          k2 = (if a / pow2 k1 < 2 ^ 52 then k1 - 1 else k1);
          k = max k2 (- 1074);
          v = of_int (round_half_even (a / pow2 k)) * pow2 k
      in if v < 2 ^ 1024 then Num v else Infinite False)"

fun js_neg :: "jsnum \<Rightarrow> jsnum" where
  "js_neg NaN = NaN"
| "js_neg (Infinite s) = Infinite (\<not> s)"
| "js_neg (Num q) = Num (- q)"

definition to_double :: "rat \<Rightarrow> jsnum" where
  "to_double q =
     (if q = of_int \<lfloor>q\<rfloor> \<and> \<bar>\<lfloor>q\<rfloor>\<bar> \<le> 9007199254740992 then Num q
      else if q < 0 then js_neg (round_pos (- q)) else round_pos q)"

text \<open>
  \<open>Number(text)\<close>: white space around the literal is dropped, the empty literal is 0, a
  literal is hexadecimal, octal, binary (no sign) or a signed decimal with an optional
  fraction and exponent, or \<open>Infinity\<close>; anything else is \<open>NaN\<close>.
\<close>

definition radix_digit :: "nat \<Rightarrow> char \<Rightarrow> nat option" where
  "radix_digit b c =
     (let v = (if is_digit c then Some (code c - 48)
               else if is_lower c then Some (code c - 87)
               else if is_upper c then Some (code c - 55) else None)
      in case v of None \<Rightarrow> None | Some n \<Rightarrow> if n < b then Some n else None)"

fun radix_value :: "nat \<Rightarrow> string \<Rightarrow> nat \<Rightarrow> nat option" where
  "radix_value b [] acc = Some acc"
| "radix_value b (c # cs) acc =
     (case radix_digit b c of None \<Rightarrow> None | Some d \<Rightarrow> radix_value b cs (b * acc + d))"

definition radix_literal :: "nat \<Rightarrow> string \<Rightarrow> jsnum" where
  "radix_literal b s =
     (if s = [] then NaN
      else case radix_value b s 0 of None \<Rightarrow> NaN | Some n \<Rightarrow> to_double (of_nat n))"

definition take_digits :: "string \<Rightarrow> string \<times> string" where
  "take_digits s = (takeWhile is_digit s, dropWhile is_digit s)"

text \<open>The exponent part: absent, or \<open>e\<close> with an optional sign and at least one digit.\<close>

definition exponent_part :: "string \<Rightarrow> int option" where
  "exponent_part s =
     (case s of [] \<Rightarrow> Some 0
      | c # t \<Rightarrow>
        if c = CHR ''e'' \<or> c = CHR ''E'' then
          (let (neg, ds) = (case t of [] \<Rightarrow> (False, [])
                            | x # u \<Rightarrow> if x = CHR ''-'' then (True, u) else if x = CHR ''+'' then (False, u) else (False, t))
           in if ds \<noteq> [] \<and> list_all is_digit ds
              then Some (if neg then - int (nat_of_digits ds) else int (nat_of_digits ds)) else None)
        else None)"

definition decimal_value :: "string \<Rightarrow> string \<Rightarrow> int \<Rightarrow> rat" where
  "decimal_value ip fp e =
     (let x = e - int (length fp); m = of_nat (nat_of_digits (ip @ fp))
      in if 0 \<le> x then m * 10 ^ nat x else m / 10 ^ nat (- x))"

text \<open>The same value with the digits read as an integer.\<close>

lemma digits_as_int: "int (nat_of_digits s) = foldl (\<lambda>n c. 10 * n + int (digit_val c)) 0 s"
proof -
  have "int (foldl (\<lambda>n c. 10 * n + digit_val c) k s) = foldl (\<lambda>n c. 10 * n + int (digit_val c)) (int k) s" for k
    by (induction s arbitrary: k) simp_all
  from this [of 0] show ?thesis by (simp add: nat_of_digits_def)
qed

lemma decimal_value_code [code]:
  "decimal_value ip fp e =
     (let x = e - int (length fp); m = of_int (foldl (\<lambda>n c. 10 * n + int (digit_val c)) 0 (ip @ fp))
      in if 0 \<le> x then m * 10 ^ nat x else m / 10 ^ nat (- x))"
  unfolding decimal_value_def Let_def digits_as_int [symmetric] by simp

definition unsigned_decimal :: "string \<Rightarrow> jsnum" where
  "unsigned_decimal s =
     (if s = ''Infinity'' then Infinite False
      else let (ip, r) = take_digits s;
               (fp, r2) = (case r of c # t \<Rightarrow> if c = CHR ''.'' then take_digits t else ([], r) | [] \<Rightarrow> ([], []))
           in if ip = [] \<and> fp = [] then NaN
              else case exponent_part r2 of None \<Rightarrow> NaN | Some e \<Rightarrow> to_double (decimal_value ip fp e))"

definition js_Number :: "string \<Rightarrow> jsnum" where
  "js_Number text =
     (let s = js_trim text; p = js_lower (take 2 s)
      in if s = [] then Num 0
         else if p = ''0x'' then radix_literal 16 (drop 2 s)
         else if p = ''0o'' then radix_literal 8 (drop 2 s)
         else if p = ''0b'' then radix_literal 2 (drop 2 s)
         else case s of
             [] \<Rightarrow> Num 0
           | c # t \<Rightarrow> if c = CHR ''-'' then js_neg (unsigned_decimal t)
                      else if c = CHR ''+'' then unsigned_decimal t
                      else unsigned_decimal s)"

definition max_safe :: int where
  "max_safe = 2 ^ 53 - 1"

fun is_safe_integer :: "jsnum \<Rightarrow> bool" where
  "is_safe_integer (Num q) \<longleftrightarrow> q = of_int \<lfloor>q\<rfloor> \<and> \<bar>\<lfloor>q\<rfloor>\<bar> \<le> max_safe"
| "is_safe_integer _ \<longleftrightarrow> False"

fun is_finite_num :: "jsnum \<Rightarrow> bool" where
  "is_finite_num (Num q) \<longleftrightarrow> True"
| "is_finite_num _ \<longleftrightarrow> False"

section \<open>Facts\<close>

lemma to_double_int [simp]: "\<bar>i\<bar> \<le> 2 ^ 53 \<Longrightarrow> to_double (of_int i) = Num (of_int i)"
  by (simp add: to_double_def)

lemma to_double_nat [simp]: "n \<le> 2 ^ 53 \<Longrightarrow> to_double (of_nat n) = Num (of_nat n)"
  using to_double_int [of "int n"] by simp

lemma digits_not_ws: "is_digit c \<Longrightarrow> \<not> is_ws c"
  by (auto simp: is_digit_def is_ws_def)

lemma lower_char_digit: "is_digit c \<Longrightarrow> lower_char c = c"
  by (auto simp: lower_char_def is_digit_def is_upper_def)

lemma takeWhile_digits: "list_all is_digit s \<Longrightarrow> takeWhile is_digit s = s"
  by (induction s) auto

lemma dropWhile_digits: "list_all is_digit s \<Longrightarrow> dropWhile is_digit s = []"
  by (induction s) auto

text \<open>\<open>Number\<close> reads a run of decimal digits as the number it writes.\<close>

lemma js_Number_digits:
  assumes "s \<noteq> []" and "list_all is_digit s" and "nat_of_digits s \<le> 2 ^ 53"
  shows "js_Number s = Num (of_nat (nat_of_digits s))"
proof -
  have ws: "\<forall>c \<in> set s. \<not> is_ws c"
    using assms(2) by (auto simp: list_all_iff digits_not_ws)
  then have t: "js_trim s = s" by (rule js_trim_id)
  obtain c r where s: "s = c # r" using assms(1) by (cases s) auto
  have c: "is_digit c" using assms(2) s by simp
  have p: "js_lower (take 2 s) \<noteq> ''0x'' \<and> js_lower (take 2 s) \<noteq> ''0o'' \<and> js_lower (take 2 s) \<noteq> ''0b''"
  proof -
    have "list_all is_digit (js_lower (take 2 s))"
      using assms(2) by (auto simp: js_lower_def list_all_iff lower_char_digit dest: in_set_takeD)
    moreover have "\<not> list_all is_digit ''0x'' \<and> \<not> list_all is_digit ''0o'' \<and> \<not> list_all is_digit ''0b''"
      by (simp add: is_digit_def code_def)
    ultimately show ?thesis by metis
  qed
  have inf: "s \<noteq> ''Infinity''"
    using assms(2) by (auto simp: is_digit_def code_def)
  have sign: "c \<noteq> CHR ''-'' \<and> c \<noteq> CHR ''+''"
    using c by (auto simp: is_digit_def code_def)
  have "unsigned_decimal s = Num (of_nat (nat_of_digits s))"
    using inf assms by (simp add: unsigned_decimal_def take_digits_def takeWhile_digits dropWhile_digits
        exponent_part_def decimal_value_def)
  with t p sign s show ?thesis
    by (simp add: js_Number_def Let_def)
qed

lemma js_Number_string_of_nat [simp]: "n \<le> 2 ^ 53 \<Longrightarrow> js_Number (string_of_nat n) = Num (of_nat n)"
  by (subst js_Number_digits) (auto simp: list_all_iff dest: string_of_nat_digits)

end
