(* ===== verification/Crypto.thy ===== *)
theory Crypto
  imports JsNumber
begin

text \<open>
  src/crypto.ts: identifiers, tokens, temporary passwords, the password hash, constant-time
  comparison and the two identifier patterns. Node's \<open>Buffer\<close> encodings (base64,
  base64url, hex, UTF-8) are modelled; the cryptographic primitives of \<open>node:crypto\<close> are
  the fields of a record every operation that uses them takes, and random bytes are
  arguments.
\<close>

section \<open>The primitives of node:crypto\<close>

datatype hash_alg = Sha1 | Sha256 | Sha512

text \<open>What \<open>KeyObject\<close> reveals about an imported public key.\<close>

datatype key_kind = KeyEd25519 | KeyEc string | KeyRsa nat | KeyOther

record node_key =
  nk_kind :: key_kind
  nk_data :: "byte list"

text \<open>The public half of a device key; its members are code units of parsed JSON.\<close>

datatype json_web_key = JwkEC "nat list" "nat list" | JwkRSA "nat list" "nat list"

text \<open>
  \<open>nc_scrypt\<close> takes the normalised password, the salt, the key length and N, r, p; \<open>None\<close>
  is the exception for parameters it refuses. \<open>nc_verify\<close> takes the digest name (\<open>None\<close> for
  Ed25519), whether the signature is the raw \<open>r||s\<close> pair, the signed bytes, key and signature.
\<close>

record node_crypto =
  nc_sha256 :: "byte list \<Rightarrow> byte list"
  nc_hmac :: "hash_alg \<Rightarrow> byte list \<Rightarrow> byte list \<Rightarrow> byte list"
  nc_nfkc :: "string \<Rightarrow> string"
  nc_scrypt :: "string \<Rightarrow> byte list \<Rightarrow> nat \<Rightarrow> jsnum \<Rightarrow> jsnum \<Rightarrow> jsnum \<Rightarrow> byte list option"
  nc_spki :: "byte list \<Rightarrow> node_key option"
  nc_jwk :: "json_web_key \<Rightarrow> node_key option"
  nc_verify :: "string option \<Rightarrow> bool \<Rightarrow> byte list \<Rightarrow> node_key \<Rightarrow> byte list \<Rightarrow> bool"

section \<open>Buffer encodings\<close>

definition utf8_char :: "char \<Rightarrow> byte list" where
  "utf8_char c =
     (if code c < 128 then [of_nat (code c)]
      else [of_nat (192 + code c div 64), of_nat (128 + code c mod 64)])"

definition utf8 :: "string \<Rightarrow> byte list" where
  "utf8 s = concat (map utf8_char s)"

definition hex_char :: "nat \<Rightarrow> char" where
  "hex_char n = ''0123456789abcdef'' ! n"

definition hex :: "byte list \<Rightarrow> string" where
  "hex bs = concat (map (\<lambda>b. [hex_char (unat b div 16), hex_char (unat b mod 16)]) bs)"

text \<open>Groups of three bytes become four 6-bit values; a short last group two or three.\<close>

fun b64_sextets :: "byte list \<Rightarrow> nat list" where
  "b64_sextets [] = []"
| "b64_sextets [a] = [unat a div 4, (unat a mod 4) * 16]"
| "b64_sextets [a, b] = [unat a div 4, (unat a mod 4) * 16 + unat b div 16, (unat b mod 16) * 4]"
| "b64_sextets (a # b # c # r) =
     [unat a div 4, (unat a mod 4) * 16 + unat b div 16, (unat b mod 16) * 4 + unat c div 64, unat c mod 64]
       @ b64_sextets r"

fun b64_bytes :: "nat list \<Rightarrow> byte list" where
  "b64_bytes (a # b # c # d # r) =
     of_nat (a * 4 + b div 16) # of_nat ((b mod 16) * 16 + c div 4) # of_nat ((c mod 4) * 64 + d)
       # b64_bytes r"
| "b64_bytes [a, b, c] = [of_nat (a * 4 + b div 16), of_nat ((b mod 16) * 16 + c div 4)]"
| "b64_bytes [a, b] = [of_nat (a * 4 + b div 16)]"
| "b64_bytes _ = []"

definition b64url_alphabet :: string where
  "b64url_alphabet = ''ABCDEFGHIJKLMNOPQRSTUVWXYZabcdefghijklmnopqrstuvwxyz0123456789-_''"

definition b64std_alphabet :: string where
  "b64std_alphabet = ''ABCDEFGHIJKLMNOPQRSTUVWXYZabcdefghijklmnopqrstuvwxyz0123456789+/''"

definition b64url_char :: "nat \<Rightarrow> char" where
  "b64url_char n = b64url_alphabet ! n"

definition b64std_char :: "nat \<Rightarrow> char" where
  "b64std_char n = b64std_alphabet ! n"

text \<open>\<open>toString('base64url')\<close> has no padding; \<open>toString('base64')\<close> pads to a multiple of four.\<close>

definition b64url_of :: "byte list \<Rightarrow> string" where
  "b64url_of bs = map b64url_char (b64_sextets bs)"

definition b64std_of :: "byte list \<Rightarrow> string" where
  "b64std_of bs = map b64std_char (b64_sextets bs) @ replicate ((3 - length bs mod 3) mod 3) (CHR ''='')"

text \<open>
  \<open>Buffer.from(text, 'base64')\<close> and \<open>'base64url'\<close> accept both alphabets and skip every other
  character.
\<close>

definition b64_val :: "char \<Rightarrow> nat option" where
  "b64_val c =
     (if is_upper c then Some (code c - 65)
      else if is_lower c then Some (code c - 71)
      else if is_digit c then Some (code c + 4)
      else if c = CHR ''-'' \<or> c = CHR ''+'' then Some 62
      else if c = CHR ''_'' \<or> c = CHR ''/'' then Some 63 else None)"

definition b64_decode :: "string \<Rightarrow> byte list" where
  "b64_decode s = b64_bytes (List.map_filter b64_val s)"

section \<open>Identifiers, tokens and hashes\<close>

definition newId :: "string \<Rightarrow> byte list \<Rightarrow> string" where
  "newId pre rnd = pre @ ''_'' @ b64url_of rnd"

definition newToken :: "byte list \<Rightarrow> string" where
  "newToken rnd = b64url_of rnd"

definition newSessionId :: "byte list \<Rightarrow> string" where
  "newSessionId rnd = b64url_of rnd"

definition newCsrfToken :: "byte list \<Rightarrow> string" where
  "newCsrfToken rnd = b64url_of rnd"

definition sha256Hex :: "node_crypto \<Rightarrow> string \<Rightarrow> string" where
  "sha256Hex C v = hex (nc_sha256 C (utf8 v))"

definition READABLE_ALPHABET :: string where
  "READABLE_ALPHABET = ''abcdefghjkmnpqrstuvwxyz23456789''"

text \<open>
  The inner loop over one 32-byte draw, then the outer loop over draws. The draws are a
  list; running out of them is \<open>None\<close> (the code would draw again).
\<close>

fun temp_push :: "string \<Rightarrow> byte list \<Rightarrow> string" where
  "temp_push chars [] = chars"
| "temp_push chars (b # bs) =
     temp_push (if unat b < 248 \<and> length chars < 20 then chars @ [READABLE_ALPHABET ! (unat b mod 31)] else chars) bs"

fun temp_chars :: "string \<Rightarrow> byte list list \<Rightarrow> string option" where
  "temp_chars chars draws =
     (if length chars < 20
      then (case draws of [] \<Rightarrow> None | d # ds \<Rightarrow> temp_chars (temp_push chars d) ds)
      else Some chars)"

declare temp_chars.simps [simp del]

text \<open>\<open>replace(/(.{5})(?!$)/g, '$1-')\<close>.\<close>

function dash5 :: "string \<Rightarrow> string" where
  "dash5 s = (if 5 < length s then take 5 s @ CHR ''-'' # dash5 (drop 5 s) else s)"
  by pat_completeness auto
termination
  by (relation "measure length") auto

declare dash5.simps [simp del]

definition newTempPassword :: "byte list list \<Rightarrow> string option" where
  "newTempPassword draws = map_option dash5 (temp_chars [] draws)"

section \<open>The password hash\<close>

definition SCRYPT_N :: nat where "SCRYPT_N = 32768"
definition SCRYPT_R :: nat where "SCRYPT_R = 8"
definition SCRYPT_P :: nat where "SCRYPT_P = 1"
definition KEYLEN :: nat where "KEYLEN = 32"

definition hashPassword :: "node_crypto \<Rightarrow> string \<Rightarrow> byte list \<Rightarrow> string result" where
  "hashPassword C password salt =
     (case nc_scrypt C (nc_nfkc C password) salt KEYLEN (Num (of_nat SCRYPT_N)) (Num (of_nat SCRYPT_R)) (Num (of_nat SCRYPT_P)) of
        None \<Rightarrow> Inl (JsError ''scrypt'')
      | Some key \<Rightarrow> Inr (js_join ''$'' [''scrypt'', string_of_nat SCRYPT_N, string_of_nat SCRYPT_R,
                                     string_of_nat SCRYPT_P, b64std_of salt, b64std_of key]))"

definition verifyPassword :: "node_crypto \<Rightarrow> string \<Rightarrow> string \<Rightarrow> bool result" where
  "verifyPassword C password stored =
     (case split_by (\<lambda>c. c = CHR ''$'') stored of
        [tag, n, r, p, s, e] \<Rightarrow>
          if tag \<noteq> ''scrypt'' then Inr False
          else (let salt = b64_decode s; expected = b64_decode e
                in case nc_scrypt C (nc_nfkc C password) salt (length expected) (js_Number n) (js_Number r) (js_Number p) of
                     None \<Rightarrow> Inl (JsError ''scrypt'')
                   | Some actual \<Rightarrow> Inr (length actual = length expected \<and> actual = expected))
      | _ \<Rightarrow> Inr False)"

definition safeEqual :: "string \<Rightarrow> string \<Rightarrow> bool" where
  "safeEqual a b = (if length (utf8 a) \<noteq> length (utf8 b) then False else utf8 a = utf8 b)"

section \<open>The two patterns\<close>

definition TOKEN_RE :: "string \<Rightarrow> bool" where
  "TOKEN_RE s \<longleftrightarrow> length s = 43 \<and> list_all is_url_char s"

definition ID_RE :: "string \<Rightarrow> bool" where
  "ID_RE s \<longleftrightarrow>
     (let n = length s - 17
      in 18 \<le> length s \<and> list_all is_lower (take n s) \<and> s ! n = CHR ''_'' \<and> list_all is_url_char (drop (Suc n) s))"

section \<open>Base64 decodes what it encodes\<close>

lemma unat_byte [simp]: "unat (b :: byte) < 256"
proof -
  have "unat b < 2 ^ LENGTH(8)" by (rule unsigned_less)
  then show ?thesis by simp
qed

lemma div_part: "(b :: nat) < k \<Longrightarrow> (a * k + b) div k = a"
  by simp

lemma mod_part: "(b :: nat) < k \<Longrightarrow> (a * k + b) mod k = b"
  by simp

lemma div_256_16: "(y :: nat) < 256 \<Longrightarrow> y div 16 < 16"
  by (simp add: less_mult_imp_div_less)

lemma div_256_64: "(y :: nat) < 256 \<Longrightarrow> y div 64 < 4"
  by (simp add: less_mult_imp_div_less)

lemma b64_group1: "(y :: nat) < 256 \<Longrightarrow> x div 4 * 4 + (x mod 4 * 16 + y div 16) div 16 = x"
  by (simp add: div_part div_256_16)

lemma b64_group2: "(y :: nat) < 256 \<Longrightarrow> z < 256 \<Longrightarrow>
    (x mod 4 * 16 + y div 16) mod 16 * 16 + (y mod 16 * 4 + z div 64) div 4 = y"
  by (simp only: div_part mod_part div_256_16 div_256_64 div_mult_mod_eq)

lemma b64_group3: "(z :: nat) < 256 \<Longrightarrow> (y mod 16 * 4 + z div 64) mod 4 * 64 + z mod 64 = z"
  by (simp only: mod_part div_256_64 div_mult_mod_eq)

lemma b64_group2': "(y :: nat) < 256 \<Longrightarrow> (x mod 4 * 16 + y div 16) mod 16 * 16 + (y mod 16 * 4) div 4 = y"
  by (simp add: mod_part div_256_16 div_mult_mod_eq)

lemma b64_bytes_sextets: "b64_bytes (b64_sextets bs) = bs"
proof (induction bs rule: b64_sextets.induct)
  case (4 a b c r)
  show ?case
    unfolding b64_sextets.simps append.simps b64_bytes.simps
    using 4 by (simp only: b64_group1 b64_group2 b64_group3 unat_byte of_nat_unat ucast_id)
next
  case (3 a b)
  show ?case
    unfolding b64_sextets.simps b64_bytes.simps
    by (simp only: b64_group1 b64_group2' unat_byte of_nat_unat ucast_id)
next
  case (2 a)
  have "unat a div 4 * 4 + (unat a mod 4 * 16) div 16 = unat a" by simp
  then show ?case by (simp only: b64_sextets.simps b64_bytes.simps of_nat_unat ucast_id)
qed simp

lemma div_256_4: "(x :: nat) < 256 \<Longrightarrow> x div 4 < 64"
  by (simp add: less_mult_imp_div_less)

lemma sextet_bounds:
  fixes x y :: nat
  assumes "y < 256"
  shows "(x mod 4) * 16 + y div 16 < 64" and "(x mod 16) * 4 + y div 64 < 64"
proof -
  have "x mod 4 < 4" "x mod 16 < 16" by simp_all
  moreover have "y div 16 < 16" "y div 64 < 4" using assms by (rule div_256_16, rule div_256_64)
  ultimately show "(x mod 4) * 16 + y div 16 < 64" "(x mod 16) * 4 + y div 64 < 64" by linarith+
qed

lemma sextet_bounds': "(x mod 4) * 16 < (64 :: nat)" "(x mod 16) * 4 < (64 :: nat)"
  using sextet_bounds [of 0 x] by simp_all

lemma sextets_less: "n \<in> set (b64_sextets bs) \<Longrightarrow> n < 64"
  by (induction bs rule: b64_sextets.induct)
    (auto simp: div_256_4 sextet_bounds sextet_bounds')

lemma length_sextets: "length (b64_sextets bs) = (4 * length bs + 2) div 3"
proof (induction bs rule: b64_sextets.induct)
  case (4 a b c r)
  have "4 * Suc (Suc (Suc (length r))) + 2 = (4 * length r + 2) + 4 * 3" by simp
  then have "(4 * Suc (Suc (Suc (length r))) + 2) div 3 = 4 + (4 * length r + 2) div 3"
    by (simp only: div_mult_self3)
  with 4 show ?case by simp
qed simp_all

lemma alphabet_values:
  "map b64_val b64url_alphabet = map Some [0..<64]" "map b64_val b64std_alphabet = map Some [0..<64]"
  "list_all is_url_char b64url_alphabet" "CHR ''$'' \<notin> set b64std_alphabet"
  by code_simp+

lemma alphabet_at:
  assumes "map f xs = map Some [0..<n]" and "k < n"
  shows "f (xs ! k) = Some k" and "xs ! k \<in> set xs"
proof -
  have "length xs = n" by (metis assms(1) diff_zero length_map length_upt)
  with assms show "f (xs ! k) = Some k" "xs ! k \<in> set xs"
    by (metis add_0 nth_map nth_upt length_map length_upt diff_zero, simp)
qed

lemma b64url_char_ok: "n < 64 \<Longrightarrow> is_url_char (b64url_char n) \<and> b64_val (b64url_char n) = Some n"
  using alphabet_at [OF alphabet_values(1)] alphabet_values(3)
  by (simp add: b64url_char_def list_all_iff)

lemma b64std_char_ok: "n < 64 \<Longrightarrow> b64_val (b64std_char n) = Some n \<and> b64std_char n \<noteq> CHR ''$''"
  using alphabet_at [OF alphabet_values(2), of n] alphabet_values(4)
  by (auto simp: b64std_char_def)

lemma map_filter_inverse: "(\<And>x. x \<in> set xs \<Longrightarrow> f (g x) = Some x) \<Longrightarrow> List.map_filter f (map g xs) = xs"
  by (induction xs) (auto simp: List.map_filter_simps)

lemma map_filter_append: "List.map_filter f (xs @ ys) = List.map_filter f xs @ List.map_filter f ys"
  by (simp add: List.map_filter_def)

lemma map_filter_none: "(\<And>x. x \<in> set xs \<Longrightarrow> f x = None) \<Longrightarrow> List.map_filter f xs = []"
  by (induction xs) (auto simp: List.map_filter_simps)

lemma b64_decode_url [simp]: "b64_decode (b64url_of bs) = bs"
  unfolding b64_decode_def b64url_of_def
  by (subst map_filter_inverse) (auto simp: b64_bytes_sextets b64url_char_ok dest: sextets_less)

lemma b64_decode_std [simp]: "b64_decode (b64std_of bs) = bs"
proof -
  have "List.map_filter b64_val (map b64std_char (b64_sextets bs)) = b64_sextets bs"
    by (rule map_filter_inverse) (auto simp: b64std_char_ok dest: sextets_less)
  moreover have "List.map_filter b64_val (replicate k (CHR ''='')) = []" for k
    by (rule map_filter_none) (auto simp: b64_val_def is_upper_def is_lower_def is_digit_def code_def)
  ultimately show ?thesis
    by (simp add: b64_decode_def b64std_of_def map_filter_append b64_bytes_sextets)
qed

interpretation b64url: codec b64url_of "\<lambda>s. Some (b64_decode s)"
  by unfold_locales simp

lemma b64url_of_url: "c \<in> set (b64url_of bs) \<Longrightarrow> is_url_char c"
  by (auto simp: b64url_of_def b64url_char_ok dest: sextets_less)

lemma length_b64url_of [simp]: "length (b64url_of bs) = (4 * length bs + 2) div 3"
  by (simp add: b64url_of_def length_sextets)

lemma b64url_of_inject [simp]: "b64url_of a = b64url_of b \<longleftrightarrow> a = b"
  by (rule b64url.enc_inject)

section \<open>Identifiers match the patterns that guard them\<close>

lemma newToken_matches: "length rnd = 32 \<Longrightarrow> TOKEN_RE (newToken rnd)"
  by (auto simp: TOKEN_RE_def newToken_def list_all_iff b64url_of_url)

lemma newId_matches:
  assumes "length rnd = 12" and "pre \<noteq> []" and "list_all is_lower pre"
  shows "ID_RE (newId pre rnd)"
proof -
  have len: "length (newId pre rnd) = length pre + 17"
    using assms(1) by (simp add: newId_def)
  have "1 \<le> length pre" using assms(2) by (cases pre) auto
  with len assms(3) show ?thesis
    by (auto simp: ID_RE_def Let_def newId_def list_all_iff nth_append b64url_of_url)
qed

lemma newId_inject: "newId pre a = newId pre b \<longleftrightarrow> a = b"
  by (simp add: newId_def)

section \<open>safeEqual is equality\<close>

lemma utf8_char_not_Nil [simp]: "utf8_char c \<noteq> []"
  by (simp add: utf8_char_def)

lemma of_nat_byte_eq: "m < 256 \<Longrightarrow> n < 256 \<Longrightarrow> (of_nat m :: byte) = of_nat n \<longleftrightarrow> m = n"
  by (auto simp: word_of_nat_eq_iff take_bit_eq_mod)

lemma utf8_char_append: "utf8_char c @ x = utf8_char d @ y \<Longrightarrow> c = d \<and> x = y"
proof -
  assume eq: "utf8_char c @ x = utf8_char d @ y"
  have b: "192 + code e div 64 < 256" "128 + code e mod 64 < 256" "code e < 256" for e
    using code_less_256 [of e] div_256_64 [of "code e"] mod_less_divisor [of 64 "code e"] by linarith+
  consider "code c < 128" "code d < 128" | "code c < 128" "\<not> code d < 128"
    | "\<not> code c < 128" "code d < 128" | "\<not> code c < 128" "\<not> code d < 128" by blast
  then show "c = d \<and> x = y"
  proof cases
    case 1
    with eq show ?thesis by (simp add: utf8_char_def of_nat_byte_eq b)
  next
    case 2
    with eq have "(of_nat (code c) :: byte) = of_nat (192 + code d div 64)"
      by (simp only: utf8_char_def if_True if_False append.simps list.inject)
    with 2 show ?thesis by (simp only: of_nat_byte_eq b)
  next
    case 3
    with eq have "(of_nat (192 + code c div 64) :: byte) = of_nat (code d)"
      by (simp only: utf8_char_def if_True if_False append.simps list.inject)
    with 3 show ?thesis by (simp only: of_nat_byte_eq b)
  next
    case 4
    with eq have h: "(of_nat (192 + code c div 64) :: byte) = of_nat (192 + code d div 64)"
      and l: "(of_nat (128 + code c mod 64) :: byte) = of_nat (128 + code d mod 64)" and xy: "x = y"
      by (simp_all only: utf8_char_def if_False append.simps list.inject)
    from h l have "code c div 64 = code d div 64" "code c mod 64 = code d mod 64"
      by (simp_all only: of_nat_byte_eq b add_left_cancel)
    then have "code c = code d" by (metis div_mult_mod_eq)
    with xy show ?thesis by simp
  qed
qed

lemma utf8_Cons: "utf8 (c # s) = utf8_char c @ utf8 s"
  by (simp add: utf8_def)

lemma utf8_inject [simp]: "utf8 a = utf8 b \<longleftrightarrow> a = b"
proof
  assume "utf8 a = utf8 b"
  then show "a = b"
  proof (induction a arbitrary: b)
    case Nil
    then show ?case by (cases b) (auto simp: utf8_def)
  next
    case (Cons c a)
    then obtain d b' where b: "b = d # b'"
      by (cases b) (auto simp: utf8_def)
    with Cons.prems have "utf8_char c @ utf8 a = utf8_char d @ utf8 b'" by (simp add: utf8_Cons)
    then have "c = d \<and> utf8 a = utf8 b'" by (rule utf8_char_append)
    with Cons.IH b show ?case by simp
  qed
qed simp

lemma safeEqual_iff [simp]: "safeEqual a b \<longleftrightarrow> a = b"
  by (auto simp: safeEqual_def)

section \<open>Temporary passwords\<close>

lemma temp_push_length: "length chars \<le> 20 \<Longrightarrow> length (temp_push chars bs) \<le> 20"
  by (induction bs arbitrary: chars) auto

lemma temp_push_alphabet:
  "set chars \<subseteq> set READABLE_ALPHABET \<Longrightarrow> set (temp_push chars bs) \<subseteq> set READABLE_ALPHABET"
proof (induction bs arbitrary: chars)
  case Nil
  then show ?case by simp
next
  case (Cons b bs)
  have "READABLE_ALPHABET ! (unat b mod 31) \<in> set READABLE_ALPHABET"
    by (rule nth_mem) (simp add: READABLE_ALPHABET_def)
  with Cons show ?case by simp
qed

lemma temp_push_count:
  "length chars \<le> 20 \<Longrightarrow>
   length (temp_push chars bs) = min 20 (length chars + length (filter (\<lambda>b. unat b < 248) bs))"
  by (induction bs arbitrary: chars) auto

lemma temp_chars_shape:
  "length chars \<le> 20 \<Longrightarrow> set chars \<subseteq> set READABLE_ALPHABET \<Longrightarrow> temp_chars chars draws = Some p
   \<Longrightarrow> length p = 20 \<and> set p \<subseteq> set READABLE_ALPHABET"
proof (induction chars draws rule: temp_chars.induct)
  case (1 chars draws)
  show ?case
  proof (cases "length chars < 20")
    case False
    with 1 show ?thesis by (simp add: temp_chars.simps [of chars])
  next
    case True
    with 1(4) obtain d ds where d: "draws = d # ds"
      by (cases draws) (auto simp: temp_chars.simps [of chars])
    show ?thesis
      using True d 1 temp_push_length [of chars d] temp_push_alphabet [of chars d]
      by (simp add: temp_chars.simps [of chars])
  qed
qed

lemma temp_chars_enough:
  "length chars \<le> 20 \<Longrightarrow> 20 \<le> length chars + length (filter (\<lambda>b. unat b < 248) (concat draws))
   \<Longrightarrow> \<exists>p. temp_chars chars draws = Some p"
proof (induction draws arbitrary: chars)
  case Nil
  then show ?case by (simp add: temp_chars.simps)
next
  case (Cons d ds)
  have "\<exists>p. temp_chars (temp_push chars d) ds = Some p"
    by (rule Cons.IH) (use Cons.prems in \<open>auto simp: temp_push_count min_def\<close>)
  then show ?case by (simp add: temp_chars.simps)
qed

lemma dash5_20:
  assumes "length p = 20"
  shows "dash5 p = take 5 p @ ''-'' @ take 5 (drop 5 p) @ ''-'' @ take 5 (drop 10 p) @ ''-'' @ drop 15 p"
  using assms by (simp add: dash5.simps)

section \<open>The password hash verifies its own password\<close>

definition scrypt_answers :: "node_crypto \<Rightarrow> bool" where
  "scrypt_answers C \<longleftrightarrow> (\<forall>p salt. \<exists>key. nc_scrypt C p salt KEYLEN (Num (of_nat SCRYPT_N)) (Num (of_nat SCRYPT_R)) (Num (of_nat SCRYPT_P)) = Some key \<and> length key = KEYLEN)"

lemma b64std_no_dollar: "c \<in> set (b64std_of bs) \<Longrightarrow> c \<noteq> CHR ''$''"
  using sextets_less b64std_char_ok by (fastforce simp: b64std_of_def)

lemma string_of_nat_no_dollar: "c \<in> set (string_of_nat n) \<Longrightarrow> c \<noteq> CHR ''$''"
  by (auto simp: is_digit_def code_def dest: string_of_nat_digits)

lemma split_hash:
  "split_by (\<lambda>c. c = CHR ''$'') (js_join ''$'' [''scrypt'', string_of_nat a, string_of_nat b, string_of_nat c, b64std_of s, b64std_of k])
     = [''scrypt'', string_of_nat a, string_of_nat b, string_of_nat c, b64std_of s, b64std_of k]"
  by (simp add: split_by_append string_of_nat_no_dollar b64std_no_dollar split_by_none)

lemma verify_hashPassword:
  assumes "hashPassword C password salt = Inr h" and "scrypt_answers C"
  shows "verifyPassword C attempt h =
    Inr (nc_scrypt C (nc_nfkc C attempt) salt KEYLEN (Num (of_nat SCRYPT_N)) (Num (of_nat SCRYPT_R)) (Num (of_nat SCRYPT_P))
       = nc_scrypt C (nc_nfkc C password) salt KEYLEN (Num (of_nat SCRYPT_N)) (Num (of_nat SCRYPT_R)) (Num (of_nat SCRYPT_P)))"
proof -
  obtain key where key: "nc_scrypt C (nc_nfkc C password) salt KEYLEN (Num (of_nat SCRYPT_N)) (Num (of_nat SCRYPT_R)) (Num (of_nat SCRYPT_P)) = Some key"
    and lk: "length key = KEYLEN"
    using assms(2) by (auto simp: scrypt_answers_def)
  obtain key' where key': "nc_scrypt C (nc_nfkc C attempt) salt KEYLEN (Num (of_nat SCRYPT_N)) (Num (of_nat SCRYPT_R)) (Num (of_nat SCRYPT_P)) = Some key'"
    and lk': "length key' = KEYLEN"
    using assms(2) by (auto simp: scrypt_answers_def)
  have h: "h = js_join ''$'' [''scrypt'', string_of_nat SCRYPT_N, string_of_nat SCRYPT_R, string_of_nat SCRYPT_P, b64std_of salt, b64std_of key]"
    using assms(1) key by (simp add: hashPassword_def)
  have num: "js_Number (string_of_nat SCRYPT_N) = Num (of_nat SCRYPT_N)"
    "js_Number (string_of_nat SCRYPT_R) = Num (of_nat SCRYPT_R)"
    "js_Number (string_of_nat SCRYPT_P) = Num (of_nat SCRYPT_P)"
    by (rule js_Number_string_of_nat; simp add: SCRYPT_N_def SCRYPT_R_def SCRYPT_P_def)+
  show ?thesis
    unfolding verifyPassword_def h split_hash
    using key key' lk lk' by (auto simp: num Let_def)
qed

section \<open>A concrete instance\<close>

text \<open>
  Primitives to evaluate examples with: the identity as hash, a scrypt that mixes password and
  salt, signatures that repeat the signed bytes.
\<close>

definition demo_crypto :: node_crypto where
  "demo_crypto =
     \<lparr>nc_sha256 = (\<lambda>b. b), nc_hmac = (\<lambda>h k m. replicate 20 0), nc_nfkc = (\<lambda>s. s),
      nc_scrypt = (\<lambda>p s l n r q. Some (take l (utf8 p @ s @ replicate l 0))),
      nc_spki = (\<lambda>b. Some \<lparr>nk_kind = KeyEd25519, nk_data = b\<rparr>),
      nc_jwk = (\<lambda>j. case j of JwkEC x y \<Rightarrow> Some \<lparr>nk_kind = KeyEc ''prime256v1'', nk_data = map of_nat (x @ y)\<rparr>
                        | JwkRSA n e \<Rightarrow> Some \<lparr>nk_kind = KeyRsa 2048, nk_data = map of_nat (n @ e)\<rparr>),
      nc_verify = (\<lambda>h ieee d k s. s = d)\<rparr>"

end
