(* ===== verification/Uri.thy ===== *)
theory Uri
  imports Crypto
begin

text \<open>
  \<open>encodeURIComponent\<close>, \<open>decodeURIComponent\<close> and \<open>URLSearchParams\<close>, the parts of the
  language the cookie code, the redirects and the otpauth links call. Decoding answers \<open>None\<close>
  for the malformed input on which the language throws, and for text outside the modelled
  range of code units.
\<close>

definition HEX_char :: "nat \<Rightarrow> char" where
  "HEX_char n = ''0123456789ABCDEF'' ! n"

definition pct :: "byte \<Rightarrow> string" where
  "pct b = [CHR ''%'', HEX_char (unat b div 16), HEX_char (unat b mod 16)]"

definition uri_plain :: "char \<Rightarrow> bool" where
  "uri_plain c \<longleftrightarrow> is_alnum c \<or> c \<in> set ''-_.!~*'' \<or> code c = 39 \<or> c \<in> set ''()''"

definition encodeURIComponent :: "string \<Rightarrow> string" where
  "encodeURIComponent s = concat (map (\<lambda>c. if uri_plain c then [c] else concat (map pct (utf8_char c))) s)"

definition form_plain :: "char \<Rightarrow> bool" where
  "form_plain c \<longleftrightarrow> is_alnum c \<or> c \<in> set ''*-._''"

definition form_encode :: "string \<Rightarrow> string" where
  "form_encode s =
     concat (map (\<lambda>c. if form_plain c then [c] else if c = CHR '' '' then ''+'' else concat (map pct (utf8_char c))) s)"

definition search_params :: "(string \<times> string) list \<Rightarrow> string" where
  "search_params ps = js_join ''&'' (map (\<lambda>(k, v). form_encode k @ ''='' @ form_encode v) ps)"

definition hex_val :: "char \<Rightarrow> nat option" where
  "hex_val c =
     (if is_digit c then Some (code c - 48)
      else if 65 \<le> code c \<and> code c \<le> 70 then Some (code c - 55)
      else if 97 \<le> code c \<and> code c \<le> 102 then Some (code c - 87) else None)"

definition hex_byte :: "char \<Rightarrow> char \<Rightarrow> nat option" where
  "hex_byte a b = (case (hex_val a, hex_val b) of (Some x, Some y) \<Rightarrow> Some (16 * x + y) | _ \<Rightarrow> None)"

text \<open>One percent-escaped byte at the front of the text, and what follows it.\<close>

fun pct_byte :: "string \<Rightarrow> (nat \<times> string) option" where
  "pct_byte (p # a # b # r) =
     (if p = CHR ''%'' then (case hex_byte a b of None \<Rightarrow> None | Some n \<Rightarrow> Some (n, r)) else None)"
| "pct_byte _ = None"

lemma pct_byte_shorter: "pct_byte s = Some (n, r) \<Longrightarrow> length r < length s"
  by (induction s rule: pct_byte.induct) (auto split: if_splits option.splits)

function decodeURIComponent :: "string \<Rightarrow> string option" where
  "decodeURIComponent s =
     (case s of
        [] \<Rightarrow> Some []
      | c # cs \<Rightarrow>
        if c \<noteq> CHR ''%'' then map_option (Cons c) (decodeURIComponent cs)
        else (case pct_byte s of
            None \<Rightarrow> None
          | Some (n, r) \<Rightarrow>
            if n < 128 then map_option (Cons (chr_of n)) (decodeURIComponent r)
            else if n = 194 \<or> n = 195 then
              (case pct_byte r of
                 None \<Rightarrow> None
               | Some (m, q) \<Rightarrow>
                 if 128 \<le> m \<and> m < 192
                 then map_option (Cons (chr_of ((n - 192) * 64 + (m - 128)))) (decodeURIComponent q) else None)
            else None))"
  by pat_completeness auto
termination
  by (relation "measure length") (auto dest!: pct_byte_shorter)

declare decodeURIComponent.simps [simp del]

section \<open>Decoding inverts encoding\<close>

lemma HEX_table: "list_all (\<lambda>n. hex_val (HEX_char n) = Some n) [0..<16]"
  by code_simp

lemma hex_val_HEX: "n < 16 \<Longrightarrow> hex_val (HEX_char n) = Some n"
  using HEX_table by (simp add: list_all_iff)

lemma pct_byte_pct: "pct_byte (pct b @ r) = Some (unat b, r)"
proof -
  have "unat b div 16 < 16" by (simp add: div_256_16)
  then have "hex_byte (HEX_char (unat b div 16)) (HEX_char (unat b mod 16)) = Some (unat b)"
    by (simp add: hex_byte_def hex_val_HEX)
  then show ?thesis by (simp add: pct_def)
qed

lemma decode_at_pct:
  "decodeURIComponent (pct b @ r) =
     (if unat b < 128 then map_option (Cons (chr_of (unat b))) (decodeURIComponent r)
      else if unat b = 194 \<or> unat b = 195 then
        (case pct_byte r of
           None \<Rightarrow> None
         | Some (m, q) \<Rightarrow>
           if 128 \<le> m \<and> m < 192
           then map_option (Cons (chr_of ((unat b - 192) * 64 + (m - 128)))) (decodeURIComponent q) else None)
      else None)"
proof -
  obtain t where t: "pct b @ r = CHR ''%'' # t" by (simp add: pct_def)
  have "pct_byte (CHR ''%'' # t) = Some (unat b, r)" using pct_byte_pct [of b r] t by simp
  then show ?thesis unfolding t by (subst decodeURIComponent.simps) simp
qed

lemma unat_of_nat_byte: "n < 256 \<Longrightarrow> unat (of_nat n :: byte) = n"
  by (simp add: unat_of_nat)

lemma decode_encoded_char:
  "decodeURIComponent (concat (map pct (utf8_char c)) @ r) = map_option (Cons c) (decodeURIComponent r)"
proof (cases "code c < 128")
  case True
  then show ?thesis by (simp add: utf8_char_def decode_at_pct unat_of_nat_byte)
next
  case False
  define n where "n = 192 + code c div 64"
  define m where "m = 128 + code c mod 64"
  have "code c div 64 < 4" "2 \<le> code c div 64"
    using False div_256_64 [OF code_less_256] by (simp_all add: less_eq_div_iff_mult_less_eq)
  then have n: "n = 194 \<or> n = 195" "n < 256" by (auto simp: n_def)
  have m: "128 \<le> m" "m < 192" "m < 256" using mod_less_divisor [of 64 "code c"] by (simp_all add: m_def)
  have "(n - 192) * 64 + (m - 128) = code c" by (simp add: n_def m_def)
  then have again: "chr_of ((n - 192) * 64 + (m - 128)) = c" by simp
  have "decodeURIComponent (pct (of_nat n) @ pct (of_nat m) @ r) = map_option (Cons c) (decodeURIComponent r)"
    using n m again by (subst decode_at_pct) (auto simp: unat_of_nat_byte pct_byte_pct)
  with False show ?thesis by (simp add: utf8_char_def n_def m_def)
qed

lemma decode_encodeURIComponent: "decodeURIComponent (encodeURIComponent s) = Some s"
proof (induction s)
  case Nil
  show ?case by (simp add: encodeURIComponent_def decodeURIComponent.simps)
next
  case (Cons c s)
  let ?r = "encodeURIComponent s"
  show ?case
  proof (cases "uri_plain c")
    case True
    then have "c \<noteq> CHR ''%''"
      by (auto simp: uri_plain_def is_alnum_def is_alpha_def is_lower_def is_upper_def is_digit_def code_def)
    then have "decodeURIComponent (c # ?r) = map_option (Cons c) (decodeURIComponent ?r)"
      by (subst decodeURIComponent.simps) simp
    with True Cons show ?thesis by (simp add: encodeURIComponent_def)
  next
    case False
    then have "encodeURIComponent (c # s) = concat (map pct (utf8_char c)) @ ?r"
      by (simp add: encodeURIComponent_def)
    with Cons show ?thesis by (simp only: decode_encoded_char) simp
  qed
qed

interpretation uri: codec encodeURIComponent decodeURIComponent
  by unfold_locales (rule decode_encodeURIComponent)

text \<open>The encoded text is made of plain characters and percent signs.\<close>

lemma HEX_plain: "n < 16 \<Longrightarrow> is_alnum (HEX_char n)"
proof -
  have "list_all (\<lambda>n. is_alnum (HEX_char n)) [0..<16]" by code_simp
  then show "n < 16 \<Longrightarrow> ?thesis" by (simp add: list_all_iff)
qed

lemma encoded_chars: "c \<in> set (encodeURIComponent s) \<Longrightarrow> uri_plain c \<or> c = CHR ''%''"
proof -
  have "c \<in> set (pct b) \<Longrightarrow> is_alnum c \<or> c = CHR ''%''" for b
    using HEX_plain [of "unat b div 16"] HEX_plain [of "unat b mod 16"]
    by (auto simp: pct_def div_256_16)
  then show "c \<in> set (encodeURIComponent s) \<Longrightarrow> ?thesis"
    by (fastforce simp: encodeURIComponent_def uri_plain_def split: if_splits)
qed

lemma encode_id: "list_all uri_plain s \<Longrightarrow> encodeURIComponent s = s"
  by (induction s) (auto simp: encodeURIComponent_def)

lemma decode_id: "\<forall>c \<in> set s. c \<noteq> CHR ''%'' \<Longrightarrow> decodeURIComponent s = Some s"
proof (induction s)
  case Nil
  show ?case by (simp add: decodeURIComponent.simps)
next
  case (Cons c s)
  then show ?case by (subst decodeURIComponent.simps) simp
qed

end
