(* ===== verification/Totp.thy ===== *)
theory Totp
  imports Uri
begin

unbundle bit_operations_syntax

text \<open>
  src/totp.ts: base32 on 32-bit integers, HOTP and TOTP codes, the verification loop, the
  otpauth link and recovery codes.
\<close>

section \<open>Base32\<close>

definition ALPHABET :: string where
  "ALPHABET = ''ABCDEFGHIJKLMNOPQRSTUVWXYZ234567''"

text \<open>
  The accumulator \<open>value\<close> is a JavaScript 32-bit integer: bits shifted past position 31 are
  lost, and only the low \<open>bits\<close> of them are ever read. \<open>enc_drain\<close> is the inner
  \<open>while (bits >= 5)\<close>.
\<close>

function enc_drain :: "nat \<Rightarrow> 32 word \<Rightarrow> string \<Rightarrow> nat \<times> string" where
  "enc_drain bits val out =
     (if 5 \<le> bits then enc_drain (bits - 5) val (out @ [ALPHABET ! unat (drop_bit (bits - 5) val AND 31)])
      else (bits, out))"
  by pat_completeness auto
termination
  by (relation "measure (\<lambda>(bits, val, out). bits)") auto

declare enc_drain.simps [simp del]

fun enc_bytes :: "byte list \<Rightarrow> nat \<Rightarrow> 32 word \<Rightarrow> string \<Rightarrow> nat \<times> 32 word \<times> string" where
  "enc_bytes [] bits val out = (bits, val, out)"
| "enc_bytes (b # bs) bits val out =
     (let val' = push_bit 8 val OR ucast b;
          (bits', out') = enc_drain (bits + 8) val' out
      in enc_bytes bs bits' val' out')"

definition base32Encode :: "byte list \<Rightarrow> string" where
  "base32Encode buf =
     (let (bits, val, out) = enc_bytes buf 0 0 []
      in if 0 < bits then out @ [ALPHABET ! unat (push_bit (5 - bits) val AND 31)] else out)"

text \<open>\<open>toUpperCase()\<close> on Latin-1 text (sharp s becomes two letters).\<close>

definition upper_char :: "char \<Rightarrow> string" where
  "upper_char c =
     (if is_lower c \<or> (224 \<le> code c \<and> code c \<le> 254 \<and> code c \<noteq> 247) then [chr_of (code c - 32)]
      else if code c = 223 then ''SS'' else [c])"

definition js_upper :: "string \<Rightarrow> string" where
  "js_upper s = concat (map upper_char s)"

fun dec_chars :: "string \<Rightarrow> nat \<Rightarrow> 32 word \<Rightarrow> byte list \<Rightarrow> byte list result" where
  "dec_chars [] bits val out = Inr out"
| "dec_chars (ch # cs) bits val out =
     (let idx = index_of ch ALPHABET
      in if idx < 0 then Inl (JsError ''invalid base32'')
         else (let val' = push_bit 5 val OR of_int idx; bits' = bits + 5
               in if 8 \<le> bits'
                  then dec_chars cs (bits' - 8) val' (out @ [ucast (drop_bit (bits' - 8) val' AND 255)])
                  else dec_chars cs bits' val' out))"

definition base32Decode :: "string \<Rightarrow> byte list result" where
  "base32Decode str =
     (let clean = filter (\<lambda>c. \<not> (c = CHR ''='' \<or> is_ws c \<or> c = CHR ''-'')) (js_upper str)
      in dec_chars clean 0 0 [])"

section \<open>Codes\<close>

record totp_options =
  digits :: nat
  stepSeconds :: nat
  algorithm :: hash_alg

definition DEFAULTS :: totp_options where
  "DEFAULTS = \<lparr>digits = 6, stepSeconds = 30, algorithm = Sha1\<rparr>"

definition generateTotpSecret :: "byte list \<Rightarrow> string" where
  "generateTotpSecret rnd = base32Encode rnd"

text \<open>The eight big-endian bytes of the counter; \<open>writeBigUInt64BE\<close> throws outside its range.\<close>

definition counter_bytes :: "int \<Rightarrow> byte list" where
  "counter_bytes n = map (\<lambda>i. of_int (n div 2 ^ (8 * i))) [7, 6, 5, 4, 3, 2, 1, 0]"

text \<open>Reading past the end of the digest gives \<open>undefined\<close>, which the bit operators take as 0.\<close>

definition byte_at :: "byte list \<Rightarrow> nat \<Rightarrow> 32 word" where
  "byte_at bs i = (if i < length bs then ucast (bs ! i) else 0)"

definition pad_start :: "nat \<Rightarrow> char \<Rightarrow> string \<Rightarrow> string" where
  "pad_start n c s = replicate (n - length s) c @ s"

definition truncate_mac :: "byte list \<Rightarrow> 32 word" where
  "truncate_mac mac =
     (let offset = unat (byte_at mac (length mac - 1) AND 15)
      in push_bit 24 (byte_at mac offset AND 127) OR push_bit 16 (byte_at mac (offset + 1))
         OR push_bit 8 (byte_at mac (offset + 2)) OR byte_at mac (offset + 3))"

definition hotp :: "node_crypto \<Rightarrow> string \<Rightarrow> int \<Rightarrow> totp_options \<Rightarrow> string result" where
  "hotp C secret counter opts =
     (if counter < 0 \<or> 2 ^ 64 \<le> counter then Inl (JsError ''out of range'')
      else case base32Decode secret of
        Inl e \<Rightarrow> Inl e
      | Inr key \<Rightarrow>
        Inr (pad_start (digits opts) (CHR ''0'')
              (string_of_nat (unat (truncate_mac (nc_hmac C (algorithm opts) key (counter_bytes counter))) mod 10 ^ digits opts))))"

definition totpStep :: "time \<Rightarrow> nat \<Rightarrow> int" where
  "totpStep nowMs step = nowMs div (1000 * int step)"

definition totp :: "node_crypto \<Rightarrow> string \<Rightarrow> time \<Rightarrow> totp_options \<Rightarrow> string result" where
  "totp C secret nowMs opts = hotp C secret (totpStep nowMs (stepSeconds opts)) opts"

text \<open>The loop over candidate steps: no early exit, the last match wins.\<close>

fun verify_loop :: "node_crypto \<Rightarrow> string \<Rightarrow> string \<Rightarrow> totp_options \<Rightarrow> int option \<Rightarrow> int list \<Rightarrow> int option \<Rightarrow> int option result" where
  "verify_loop C secret given opts minStep [] matched = Inr matched"
| "verify_loop C secret given opts minStep (s # ss) matched =
     (case hotp C secret s opts of
        Inl e \<Rightarrow> Inl e
      | Inr expected \<Rightarrow>
        verify_loop C secret given opts minStep ss
          (if length expected = length given \<and> expected = given
              \<and> (case minStep of None \<Rightarrow> True | Some m \<Rightarrow> m < s)
           then Some s else matched))"

definition verifyTotp_window :: "node_crypto \<Rightarrow> string \<Rightarrow> string \<Rightarrow> totp_options \<Rightarrow> int \<Rightarrow> time \<Rightarrow> int option \<Rightarrow> int option result" where
  "verifyTotp_window C secret cd opts window nowMs minStep =
     (let clean = filter (\<lambda>c. \<not> is_ws c) cd
      in if \<not> (length clean = digits opts \<and> list_all is_digit clean) then Inr None
         else (let current = totpStep nowMs (stepSeconds opts)
               in verify_loop C secret clean opts minStep [current - window..current + window] None))"

text \<open>The call every service makes: default options, window 1.\<close>

definition verifyTotp :: "node_crypto \<Rightarrow> string \<Rightarrow> string \<Rightarrow> time \<Rightarrow> int option \<Rightarrow> int option result" where
  "verifyTotp C secret cd nowMs minStep = verifyTotp_window C secret cd DEFAULTS 1 nowMs minStep"

definition otpauthUri :: "string \<Rightarrow> string \<Rightarrow> string \<Rightarrow> string" where
  "otpauthUri secret account issuer =
     (let label = encodeURIComponent (issuer @ '':'' @ account);
          q = search_params [(''secret'', secret), (''issuer'', issuer), (''algorithm'', ''SHA1''), (''digits'', ''6''), (''period'', ''30'')]
      in ''otpauth://totp/'' @ label @ ''?'' @ q)"

definition recovery_code :: "byte list \<Rightarrow> string" where
  "recovery_code rnd =
     (let raw = js_lower (take 10 (base32Encode rnd))
      in take 5 raw @ ''-'' @ drop 5 raw)"

definition generateRecoveryCodes :: "byte list list \<Rightarrow> string list" where
  "generateRecoveryCodes rnds = map recovery_code rnds"

definition recovery_char :: "char \<Rightarrow> bool" where
  "recovery_char c \<longleftrightarrow> is_lower c \<or> (50 \<le> code c \<and> code c \<le> 55)"

definition normalizeRecoveryCode :: "string \<Rightarrow> string" where
  "normalizeRecoveryCode cd = filter recovery_char (js_lower cd)"

section \<open>Base32 as a stream of bits\<close>

definition wbits :: "nat \<Rightarrow> 'a :: len word \<Rightarrow> bool list" where
  "wbits k w = map (bit w) (rev [0..<k])"

definition b32c :: "32 word \<Rightarrow> char" where
  "b32c w = ALPHABET ! unat w"

lemma length_wbits [simp]: "length (wbits k w) = k"
  by (simp add: wbits_def)

lemma wbits_split:
  assumes "k \<le> n"
  shows "wbits n w = wbits k (drop_bit (n - k) w) @ wbits (n - k) w"
proof -
  have "[0..<n] = [0..<n - k] @ [n - k..<n]"
    using assms by (metis diff_le_self le0 upt_add_eq_append le_add_diff_inverse2 add.commute diff_zero add_0)
  moreover have "[n - k..<n] = map (\<lambda>i. i + (n - k)) [0..<k]"
    using map_add_upt [of "n - k" k] assms by simp
  ultimately show ?thesis
    by (simp add: wbits_def rev_map bit_drop_bit_eq comp_def add.commute)
qed

lemma wbits_cong: "(\<And>i. i < k \<Longrightarrow> bit v i = bit w i) \<Longrightarrow> wbits k v = wbits k w"
  by (simp add: wbits_def)

lemma bit_31: "bit (31 :: 32 word) i \<longleftrightarrow> i < 5"
proof -
  have "bit (mask 5 :: 32 word) i \<longleftrightarrow> i < 5" unfolding bit_mask_iff by auto
  then show ?thesis by (simp add: mask_eq_decr_exp)
qed

lemma bit_255: "bit (255 :: 32 word) i \<longleftrightarrow> i < 8"
proof -
  have "bit (mask 8 :: 32 word) i \<longleftrightarrow> i < 8" unfolding bit_mask_iff by auto
  then show ?thesis by (simp add: mask_eq_decr_exp)
qed

lemma wbits_and_31: "wbits 5 (x AND (31 :: 32 word)) = wbits 5 x"
  by (rule wbits_cong) (simp only: bit_and_iff bit_31 simp_thms)

lemma and_31_less: "(x AND 31 :: 32 word) < 32"
proof -
  have "x AND 31 \<le> 31" by (rule word_and_le1)
  then show ?thesis by (rule le_less_trans) simp
qed

lemma wbits_low_byte: "wbits 8 (ucast (x AND (255 :: 32 word)) :: byte) = wbits 8 x"
proof -
  have "bit (ucast (x AND 255) :: byte) i = bit x i" if "i < 8" for i
    using that unfolding bit_unsigned_iff bit_and_iff bit_255 by simp
  then show ?thesis by (simp add: wbits_def)
qed

lemma wbits_shift_in:
  fixes b :: byte and v :: "32 word"
  assumes "n \<le> 24"
  shows "wbits (n + 8) (push_bit 8 v OR ucast b) = wbits n v @ wbits 8 b"
proof -
  let ?w = "push_bit 8 v OR ucast b :: 32 word"
  have "wbits (n + 8) ?w = wbits n (drop_bit 8 ?w) @ wbits 8 ?w"
    using wbits_split [of n "n + 8" ?w] by simp
  moreover have "wbits n (drop_bit 8 ?w) = wbits n v"
    using assms by (intro wbits_cong) (auto simp: bit_simps dest: bit_imp_le_length)
  moreover have "wbits 8 ?w = wbits 8 b"
    by (auto simp: wbits_def bit_simps)
  ultimately show ?thesis by simp
qed

lemma wbits_shift_in5:
  fixes v w :: "32 word"
  assumes "n \<le> 24" and "w < 32"
  shows "wbits (n + 5) (push_bit 5 v OR w) = wbits n v @ wbits 5 w"
proof -
  have "w = w mod 32" using assms(2) by (simp add: word_unat_eq_iff unat_mod word_less_nat_alt)
  then have "w = take_bit 5 w" by (simp add: take_bit_eq_mod)
  then have hi: "\<not> bit w (i + 5)" for i by (metis bit_take_bit_iff not_add_less2)
  let ?w = "push_bit 5 v OR w"
  have "wbits (n + 5) ?w = wbits n (drop_bit 5 ?w) @ wbits 5 ?w"
    using wbits_split [of n "n + 5" ?w] by simp
  moreover have "wbits n (drop_bit 5 ?w) = wbits n v"
    using assms(1) hi by (intro wbits_cong) (auto simp: bit_simps add.commute)
  moreover have "wbits 5 ?w = wbits 5 w"
    by (auto simp: wbits_def bit_simps)
  ultimately show ?thesis by simp
qed

lemma wbits_byte_inject: "wbits 8 (a :: byte) = wbits 8 b \<Longrightarrow> a = b"
proof -
  assume "wbits 8 a = wbits 8 b"
  then have "\<forall>i < 8. bit a i = bit b i" by (auto simp: wbits_def)
  then show "a = b" by (intro bit_word_eqI) simp
qed

text \<open>The encoder: the bits that went in are the bits of the digits written plus those still pending.\<close>

lemma enc_drain_bits:
  "\<exists>ws. enc_drain bits val out = (bits mod 5, out @ map b32c ws) \<and> (\<forall>w \<in> set ws. w < 32)
     \<and> wbits bits val = concat (map (wbits 5) ws) @ wbits (bits mod 5) val"
proof (induction bits val out rule: enc_drain.induct)
  case (1 bits val out)
  show ?case
  proof (cases "5 \<le> bits")
    case False
    then show ?thesis by (intro exI [of _ "[]"]) (simp add: enc_drain.simps)
  next
    case True
    let ?w = "drop_bit (bits - 5) val AND 31"
    from True "1" obtain ws where
      ws: "enc_drain (bits - 5) val (out @ [ALPHABET ! unat ?w]) = ((bits - 5) mod 5, (out @ [ALPHABET ! unat ?w]) @ map b32c ws)"
      and lt: "\<forall>w \<in> set ws. w < 32"
      and wb: "wbits (bits - 5) val = concat (map (wbits 5) ws) @ wbits ((bits - 5) mod 5) val"
      by blast
    have m: "(bits - 5) mod 5 = bits mod 5" using True by (simp add: le_mod_geq)
    have "wbits bits val = wbits 5 (drop_bit (bits - 5) val) @ wbits (bits - 5) val"
      using True by (rule wbits_split)
    then have "wbits bits val = concat (map (wbits 5) (?w # ws)) @ wbits (bits mod 5) val"
      using wb m by (simp only: wbits_and_31 list.map concat.simps append_assoc)
    moreover have "enc_drain bits val out = (bits mod 5, out @ map b32c (?w # ws))"
      using True ws m by (simp add: enc_drain.simps [of bits] b32c_def)
    moreover have "\<forall>w \<in> set (?w # ws). w < 32" using lt and_31_less by auto
    ultimately show ?thesis by blast
  qed
qed

lemma enc_bytes_bits:
  "bits < 5 \<Longrightarrow>
   \<exists>ws n v. enc_bytes bs bits val out = (n, v, out @ map b32c ws) \<and> n < 5 \<and> (\<forall>w \<in> set ws. w < 32)
     \<and> wbits bits val @ concat (map (wbits 8) bs) = concat (map (wbits 5) ws) @ wbits n v"
proof (induction bs arbitrary: bits val out)
  case Nil
  then show ?case by (intro exI [of _ "[]"]) simp
next
  case (Cons b bs)
  let ?v = "push_bit 8 val OR ucast b :: 32 word"
  obtain ws where ws: "enc_drain (bits + 8) ?v out = ((bits + 8) mod 5, out @ map b32c ws)"
    and lt: "\<forall>w \<in> set ws. w < 32"
    and wb: "wbits (bits + 8) ?v = concat (map (wbits 5) ws) @ wbits ((bits + 8) mod 5) ?v"
    using enc_drain_bits by blast
  have "(bits + 8) mod 5 < 5" by simp
  from Cons.IH [OF this] obtain us n v where
    us: "enc_bytes bs ((bits + 8) mod 5) ?v (out @ map b32c ws) = (n, v, (out @ map b32c ws) @ map b32c us)"
    and n: "n < 5" and lt': "\<forall>w \<in> set us. w < 32"
    and wb': "wbits ((bits + 8) mod 5) ?v @ concat (map (wbits 8) bs) = concat (map (wbits 5) us) @ wbits n v"
    by blast
  have sh: "wbits (bits + 8) ?v = wbits bits val @ wbits 8 b"
    using Cons.prems by (intro wbits_shift_in) simp
  have "wbits bits val @ concat (map (wbits 8) (b # bs)) = wbits (bits + 8) ?v @ concat (map (wbits 8) bs)"
    by (simp add: sh)
  also have "\<dots> = concat (map (wbits 5) (ws @ us)) @ wbits n v"
    by (simp only: wb append_assoc wb' map_append concat_append)
  finally have "wbits bits val @ concat (map (wbits 8) (b # bs)) = concat (map (wbits 5) (ws @ us)) @ wbits n v" .
  moreover have "enc_bytes (b # bs) bits val out = (n, v, out @ map b32c (ws @ us))"
    using ws us by (simp add: Let_def)
  ultimately show ?case using n lt lt' by (intro exI [of _ "ws @ us"]) auto
qed

lemma base32Encode_bits:
  "\<exists>ws z. base32Encode bs = map b32c ws \<and> (\<forall>w \<in> set ws. w < 32) \<and> z < 5
     \<and> concat (map (wbits 5) ws) = concat (map (wbits 8) bs) @ replicate z False"
proof -
  obtain ws n v where e: "enc_bytes bs 0 0 [] = (n, v, map b32c ws)" and n: "n < 5"
    and lt: "\<forall>w \<in> set ws. w < 32"
    and wb: "concat (map (wbits 8) bs) = concat (map (wbits 5) ws) @ wbits n v"
    using enc_bytes_bits [of 0 bs 0 "[]"] by (auto simp: wbits_def)
  show ?thesis
  proof (cases "n = 0")
    case True
    then show ?thesis using e lt wb
      by (intro exI [of _ ws] exI [of _ 0]) (simp add: base32Encode_def wbits_def)
  next
    case False
    let ?w = "push_bit (5 - n) v AND 31"
    have "wbits 5 ?w = wbits 5 (push_bit (5 - n) v)" by (rule wbits_and_31)
    also have "\<dots> = wbits n (drop_bit (5 - n) (push_bit (5 - n) v)) @ wbits (5 - n) (push_bit (5 - n) v)"
      using n wbits_split [of n 5 "push_bit (5 - n) v"] by simp
    also have "wbits n (drop_bit (5 - n) (push_bit (5 - n) v)) = wbits n v"
      using n by (intro wbits_cong) (auto simp: bit_simps)
    also have "wbits (5 - n) (push_bit (5 - n) v) = replicate (5 - n) False"
      by (rule nth_equalityI) (auto simp: wbits_def bit_simps rev_nth)
    finally have w: "wbits 5 ?w = wbits n v @ replicate (5 - n) False" .
    then show ?thesis using e lt wb False n
      by (intro exI [of _ "ws @ [?w]"] exI [of _ "5 - n"])
        (auto simp: base32Encode_def b32c_def and_31_less)
  qed
qed

lemma index_of_nth: "distinct xs \<Longrightarrow> i < length xs \<Longrightarrow> index_of (xs ! i) xs = int i"
proof (induction xs arbitrary: i)
  case Nil
  then show ?case by simp
next
  case (Cons x xs)
  then show ?case by (cases i) (auto simp: Let_def)
qed

lemma alphabet_index: "n < 32 \<Longrightarrow> index_of (ALPHABET ! n) ALPHABET = int n"
  by (rule index_of_nth) (simp_all add: ALPHABET_def)

lemma index_b32c: "w < 32 \<Longrightarrow> index_of (b32c w) ALPHABET = int (unat w)"
  by (simp add: b32c_def alphabet_index word_less_nat_alt)

lemma dec_chars_bits:
  "bits < 8 \<Longrightarrow> \<forall>w \<in> set ws. w < 32 \<Longrightarrow>
   \<exists>bs r. dec_chars (map b32c ws) bits val out = Inr (out @ bs) \<and> length r < 8
     \<and> wbits bits val @ concat (map (wbits 5) ws) = concat (map (wbits 8) bs) @ r"
proof (induction ws arbitrary: bits val out)
  case Nil
  then show ?case by (intro exI [of _ "[]"] exI [of _ "wbits bits val"]) simp
next
  case (Cons w ws)
  have w: "w < 32" and ws: "\<forall>w \<in> set ws. w < 32" using Cons.prems by auto
  let ?v = "push_bit 5 val OR w"
  have idx: "of_int (index_of (b32c w) ALPHABET) = w" "\<not> index_of (b32c w) ALPHABET < 0"
    using w by (simp_all add: index_b32c ucast_id)
  have sh: "wbits (bits + 5) ?v = wbits bits val @ wbits 5 w"
    using Cons.prems w by (intro wbits_shift_in5) simp_all
  show ?case
  proof (cases "8 \<le> bits + 5")
    case False
    from Cons.IH [of "bits + 5" ?v out] False ws obtain bs r where
      "dec_chars (map b32c ws) (bits + 5) ?v out = Inr (out @ bs)" "length r < 8"
      "wbits (bits + 5) ?v @ concat (map (wbits 5) ws) = concat (map (wbits 8) bs) @ r" by auto
    with False sh idx show ?thesis by (intro exI [of _ bs] exI [of _ r]) (simp add: Let_def)
  next
    case True
    let ?b = "ucast (drop_bit (bits + 5 - 8) ?v AND 255) :: byte"
    have lt: "bits + 5 - 8 < 8" using Cons.prems by simp
    from Cons.IH [OF this ws, of ?v "out @ [?b]"] obtain bs r where
      d: "dec_chars (map b32c ws) (bits + 5 - 8) ?v (out @ [?b]) = Inr ((out @ [?b]) @ bs)" "length r < 8"
      and wb: "wbits (bits + 5 - 8) ?v @ concat (map (wbits 5) ws) = concat (map (wbits 8) bs) @ r" by auto
    have "wbits (bits + 5) ?v = wbits 8 (drop_bit (bits + 5 - 8) ?v) @ wbits (bits + 5 - 8) ?v"
      using True by (rule wbits_split)
    moreover have "wbits 8 (drop_bit (bits + 5 - 8) ?v) = wbits 8 ?b"
      by (rule wbits_low_byte [symmetric])
    ultimately have out: "wbits (bits + 5) ?v = wbits 8 ?b @ wbits (bits + 5 - 8) ?v" by simp
    have "wbits bits val @ concat (map (wbits 5) (w # ws)) = wbits (bits + 5) ?v @ concat (map (wbits 5) ws)"
      by (simp only: sh list.map concat.simps append_assoc)
    also have "\<dots> = concat (map (wbits 8) (?b # bs)) @ r"
      by (simp only: out wb append_assoc list.map concat.simps)
    finally have "wbits bits val @ concat (map (wbits 5) (w # ws)) = concat (map (wbits 8) (?b # bs)) @ r" .
    moreover have "dec_chars (map b32c (w # ws)) bits val out = Inr (out @ (?b # bs))"
      using True d idx by (simp add: Let_def)
    ultimately show ?thesis using d(2) by blast
  qed
qed

lemma alphabet_chars:
  "\<forall>c \<in> set ALPHABET. upper_char c = [c] \<and> \<not> (c = CHR ''='' \<or> is_ws c \<or> c = CHR ''-'')"
  by code_simp

lemma b32c_in: "w < 32 \<Longrightarrow> b32c w \<in> set ALPHABET"
  by (simp add: b32c_def ALPHABET_def word_less_nat_alt del: set_simps) 

lemma clean_encoded:
  "\<forall>c \<in> set s. c \<in> set ALPHABET \<Longrightarrow>
   filter (\<lambda>c. \<not> (c = CHR ''='' \<or> is_ws c \<or> c = CHR ''-'')) (js_upper s) = s"
  using alphabet_chars by (induction s) (auto simp: js_upper_def)

lemma bytes_of_bits_unique:
  "concat (map (wbits 8) bs) @ x = concat (map (wbits 8) cs) @ y \<Longrightarrow> length x < 8 \<Longrightarrow> length y < 8
   \<Longrightarrow> bs = (cs :: byte list)"
proof (induction bs arbitrary: cs)
  case Nil
  then show ?case by (cases cs) auto
next
  case (Cons b bs)
  then obtain c cs' where cs: "cs = c # cs'" by (cases cs) auto
  with Cons.prems(1) have "wbits 8 b = wbits 8 c"
    and "concat (map (wbits 8) bs) @ x = concat (map (wbits 8) cs') @ y" by simp_all
  with Cons cs show ?case by (auto dest: wbits_byte_inject)
qed

lemma base32_decode_encode: "base32Decode (base32Encode bs) = Inr bs"
proof -
  obtain ws z where e: "base32Encode bs = map b32c ws" and lt: "\<forall>w \<in> set ws. w < 32" and z: "z < 5"
    and wb: "concat (map (wbits 5) ws) = concat (map (wbits 8) bs) @ replicate z False"
    using base32Encode_bits by blast
  obtain cs r where d: "dec_chars (map b32c ws) 0 0 [] = Inr cs" and r: "length r < 8"
    and wb': "concat (map (wbits 5) ws) = concat (map (wbits 8) cs) @ r"
    using dec_chars_bits [of 0 ws 0 "[]"] lt by (auto simp: wbits_def)
  have "bs = cs"
    using wb wb' z r by (intro bytes_of_bits_unique [of bs "replicate z False" cs r]) simp_all
  moreover have "filter (\<lambda>c. \<not> (c = CHR ''='' \<or> is_ws c \<or> c = CHR ''-'')) (js_upper (map b32c ws)) = map b32c ws"
    using lt by (intro clean_encoded) (auto simp: b32c_in)
  ultimately show ?thesis using d e by (simp add: base32Decode_def)
qed

interpretation base32: codec base32Encode "\<lambda>s. case base32Decode s of Inr bs \<Rightarrow> Some bs | Inl _ \<Rightarrow> None"
  by unfold_locales (simp add: base32_decode_encode)

section \<open>What a verified code says\<close>

lemma verify_loop_Some:
  "verify_loop C secret given opts minStep ss matched = Inr (Some s) \<Longrightarrow>
   matched = Some s \<or>
   (s \<in> set ss \<and> hotp C secret s opts = Inr given \<and> (\<forall>m. minStep = Some m \<longrightarrow> m < s))"
proof (induction ss arbitrary: matched)
  case Nil
  then show ?case by simp
next
  case (Cons a ss)
  then obtain expected where e: "hotp C secret a opts = Inr expected"
    by (cases "hotp C secret a opts") auto
  with Cons.IH Cons.prems show ?case
    by (fastforce split: if_splits option.splits)
qed

lemma verify_loop_keeps:
  "verify_loop C secret given opts minStep ss (Some t) = Inr r \<Longrightarrow> r \<noteq> None"
proof (induction ss arbitrary: t)
  case Nil
  then show ?case by auto
next
  case (Cons a ss)
  then show ?case by (auto split: sum.splits if_splits)
qed

lemma verify_loop_finds:
  "verify_loop C secret given opts minStep ss matched = Inr r \<Longrightarrow> s \<in> set ss \<Longrightarrow>
   hotp C secret s opts = Inr given \<Longrightarrow> (\<forall>m. minStep = Some m \<longrightarrow> m < s) \<Longrightarrow> r \<noteq> None"
proof (induction ss arbitrary: matched)
  case Nil
  then show ?case by simp
next
  case (Cons a ss)
  show ?case
  proof (cases "a = s")
    case True
    have "(case minStep of None \<Rightarrow> True | Some m \<Rightarrow> m < s)" using Cons.prems(4) by (cases minStep) auto
    with True Cons.prems have "verify_loop C secret given opts minStep ss (Some s) = Inr r" by simp
    then show ?thesis by (rule verify_loop_keeps)
  next
    case False
    with Cons show ?thesis by (auto split: sum.splits)
  qed
qed

lemma verifyTotp_SomeD:
  assumes "verifyTotp C secret cd nowMs minStep = Inr (Some s)"
  shows "totpStep nowMs 30 - 1 \<le> s" and "s \<le> totpStep nowMs 30 + 1"
    and "hotp C secret s DEFAULTS = Inr (filter (\<lambda>c. \<not> is_ws c) cd)"
    and "minStep = Some m \<Longrightarrow> m < s"
proof -
  have "verify_loop C secret (filter (\<lambda>c. \<not> is_ws c) cd) DEFAULTS minStep
      [totpStep nowMs 30 - 1..totpStep nowMs 30 + 1] None = Inr (Some s)"
    using assms by (simp add: verifyTotp_def verifyTotp_window_def Let_def DEFAULTS_def split: if_splits)
  from verify_loop_Some [OF this]
  show "totpStep nowMs 30 - 1 \<le> s" "s \<le> totpStep nowMs 30 + 1"
    "hotp C secret s DEFAULTS = Inr (filter (\<lambda>c. \<not> is_ws c) cd)" "minStep = Some m \<Longrightarrow> m < s"
    by simp_all
qed

lemma length_string_of_nat: "n < 10 ^ d \<Longrightarrow> 0 < d \<Longrightarrow> length (string_of_nat n) \<le> d"
proof (induction n arbitrary: d rule: string_of_nat.induct)
  case (1 n)
  show ?case
  proof (cases "n < 10")
    case True
    with 1(3) show ?thesis by (simp add: string_of_nat.simps [of n])
  next
    case False
    then obtain e where d: "d = Suc e" "0 < e"
      using "1.prems" by (cases d; cases "d - 1") auto
    with "1.prems" have "n div 10 < 10 ^ e" by (simp add: less_mult_imp_div_less mult.commute)
    with "1.IH" [OF False this] d False show ?thesis by (simp add: string_of_nat.simps [of n])
  qed
qed

lemma hotp_digits:
  assumes "hotp C secret n opts = Inr s" and "0 < digits opts"
  shows "length s = digits opts \<and> list_all is_digit s"
proof -
  define v where "v m = unat (truncate_mac m) mod 10 ^ digits opts" for m
  have "length (string_of_nat (v m)) \<le> digits opts" for m
    unfolding v_def by (rule length_string_of_nat) (use assms(2) in simp_all)
  moreover have "is_digit (CHR ''0'')" by (simp add: is_digit_def code_def)
  ultimately show ?thesis
    using assms(1)
    by (auto simp: hotp_def pad_start_def list_all_iff v_def dest: string_of_nat_digits split: if_splits sum.splits)
qed

lemma hotp_not_ws: "hotp C secret n DEFAULTS = Inr s \<Longrightarrow> filter (\<lambda>c. \<not> is_ws c) s = s"
  using hotp_digits [of C secret n DEFAULTS s]
  by (auto simp: DEFAULTS_def list_all_iff digits_not_ws intro!: filter_True)

lemma hotp_total:
  "base32Decode secret = Inr key \<Longrightarrow> 0 \<le> n \<Longrightarrow> n < 2 ^ 64 \<Longrightarrow> \<exists>s. hotp C secret n opts = Inr s"
  by (simp add: hotp_def)

lemma verify_loop_total:
  "\<forall>s \<in> set ss. \<exists>x. hotp C secret s opts = Inr x \<Longrightarrow> \<exists>r. verify_loop C secret given opts minStep ss matched = Inr r"
  by (induction ss arbitrary: matched) auto

text \<open>Recovery codes survive the way they are shown and typed.\<close>

lemma normalize_no_dash: "normalizeRecoveryCode (a @ ''-'' @ b) = normalizeRecoveryCode (a @ b)"
  by (simp add: normalizeRecoveryCode_def js_lower_def lower_char_def recovery_char_def
      is_lower_def is_upper_def code_def)

lemma lowered_alphabet:
  "\<forall>c \<in> set ALPHABET. recovery_char (lower_char c) \<and> lower_char (lower_char c) = lower_char c"
proof -
  have "map lower_char ALPHABET = ''abcdefghijklmnopqrstuvwxyz234567''" by code_simp
  moreover have "\<forall>c \<in> set ''abcdefghijklmnopqrstuvwxyz234567''. recovery_char c \<and> lower_char c = c" by code_simp
  ultimately show ?thesis by (metis image_eqI set_map)
qed

lemma base32Encode_chars: "c \<in> set (base32Encode bs) \<Longrightarrow> c \<in> set ALPHABET"
  using base32Encode_bits [of bs] by (auto simp: b32c_in)

lemma normalize_recovery_code:
  "normalizeRecoveryCode (recovery_code rnd) = js_lower (take 10 (base32Encode rnd))"
proof -
  let ?raw = "js_lower (take 10 (base32Encode rnd))"
  have "\<forall>c \<in> set (take 10 (base32Encode rnd)). c \<in> set ALPHABET"
    by (auto dest: in_set_takeD base32Encode_chars)
  then have "\<forall>c \<in> set ?raw. recovery_char c \<and> lower_char c = c"
    using lowered_alphabet by (auto simp: js_lower_def)
  moreover have "\<forall>c \<in> set s. recovery_char c \<and> lower_char c = c \<Longrightarrow> normalizeRecoveryCode s = s" for s
    by (induction s) (auto simp: normalizeRecoveryCode_def js_lower_def)
  ultimately have "normalizeRecoveryCode ?raw = ?raw" by blast
  then show ?thesis
    using normalize_no_dash [of "take 5 ?raw" "drop 5 ?raw"] by (simp add: recovery_code_def Let_def)
qed

text \<open>The example primitives answer every counter with the same code.\<close>

lemma demo_hotp:
  assumes "0 \<le> n" and "n < 2 ^ 64"
  shows "hotp demo_crypto (base32Encode bs) n DEFAULTS = Inr ''000000''"
proof -
  have "truncate_mac (replicate 20 0) = 0" by (simp add: truncate_mac_def Let_def byte_at_def)
  moreover have "pad_start 6 (CHR ''0'') (string_of_nat 0) = ''000000''" by code_simp
  ultimately show ?thesis
    using assms by (simp add: hotp_def base32_decode_encode demo_crypto_def DEFAULTS_def)
qed

lemma totpStep_bounds:
  assumes "30000 * k \<le> nowMs" and "nowMs < 2 ^ 60" and "0 \<le> k"
  shows "k \<le> totpStep nowMs 30 \<and> totpStep nowMs 30 < 2 ^ 60"
proof -
  have "nowMs = 30000 * (nowMs div 30000) + nowMs mod 30000" "0 \<le> nowMs mod 30000" "nowMs mod 30000 < 30000" by simp_all
  with assms show ?thesis unfolding totpStep_def by simp linarith
qed

lemma demo_verifyTotp:
  assumes "60000 \<le> nowMs" and "nowMs < 2 ^ 60" and "\<forall>m. minStep = Some m \<longrightarrow> m < totpStep nowMs 30 + 1"
  shows "verifyTotp demo_crypto (base32Encode bs) ''000000'' nowMs minStep = Inr (Some (totpStep nowMs 30 + 1))"
proof -
  define t where "t = totpStep nowMs 30"
  have t: "1 \<le> t" "t < 2 ^ 60"
    using totpStep_bounds [of 1 nowMs] assms(1,2) by (simp_all add: t_def)
  have w: "[t - 1..t + 1] = [t - 1, t, t + 1]" by (simp add: upto.simps)
  have c: "filter (\<lambda>c. \<not> is_ws c) ''000000'' = ''000000''" "list_all is_digit ''000000''" by code_simp+
  have h: "hotp demo_crypto (base32Encode bs) k DEFAULTS = Inr ''000000''" if "k \<in> {t - 1, t, t + 1}" for k
    using t that by (intro demo_hotp) auto
  have m: "case minStep of None \<Rightarrow> True | Some m \<Rightarrow> m < totpStep nowMs 30 + 1"
    using assms(3) by (simp split: option.split)
  show ?thesis
    using m h [of "t - 1"] h [of t] h [of "t + 1"] c w
    by (simp add: verifyTotp_def verifyTotp_window_def Let_def DEFAULTS_def t_def)
qed

text \<open>C23: an enrolled authenticator works: the code it shows at \<open>t\<close> is accepted at any server time whose 30-second
  step is the same or a neighbour, as long as no code of that step or a later one was accepted before.\<close>

theorem totp_code_accepted:
  assumes "30000 \<le> nowMs" and "nowMs < 2 ^ 60" and "\<bar>totpStep t 30 - totpStep nowMs 30\<bar> \<le> 1"
    and "\<forall>m. minStep = Some m \<longrightarrow> m < totpStep t 30"
  shows "\<exists>cd s. totp C (generateTotpSecret rnd) t DEFAULTS = Inr cd \<and>
    verifyTotp C (generateTotpSecret rnd) cd nowMs minStep = Inr (Some s)"
proof -
  let ?s = "base32Encode rnd" and ?n = "totpStep nowMs 30"
  have n: "1 \<le> ?n" "?n < 2 ^ 60"
    using totpStep_bounds [of 1 nowMs] assms(1,2) by simp_all
  have all: "\<exists>x. hotp C ?s k DEFAULTS = Inr x" if "?n - 1 \<le> k" "k \<le> ?n + 1" for k
    by (rule hotp_total [OF base32_decode_encode]) (use that n in auto)
  obtain cd where cd: "hotp C ?s (totpStep t 30) DEFAULTS = Inr cd" using all assms(3) by fastforce
  have clean: "filter (\<lambda>c. \<not> is_ws c) cd = cd" by (rule hotp_not_ws [OF cd])
  have shape: "length cd = 6 \<and> list_all is_digit cd" using hotp_digits [OF cd] by (simp add: DEFAULTS_def)
  obtain r where r: "verify_loop C ?s cd DEFAULTS minStep [?n - 1..?n + 1] None = Inr r"
    using verify_loop_total [of "[?n - 1..?n + 1]" C ?s DEFAULTS cd minStep None] all by auto
  have "r \<noteq> None"
    by (rule verify_loop_finds [OF r _ cd]) (use assms(3,4) in auto)
  moreover have "verifyTotp C ?s cd nowMs minStep = Inr r"
    using r clean shape by (simp add: verifyTotp_def verifyTotp_window_def DEFAULTS_def Let_def)
  moreover have "totp C ?s t DEFAULTS = Inr cd" using cd by (simp add: totp_def DEFAULTS_def)
  ultimately show ?thesis by (auto simp: generateTotpSecret_def)
qed

theorem totp_code_accepted_witness:
  "\<exists>cd s. totp demo_crypto (generateTotpSecret (replicate 20 5)) 89999 DEFAULTS = Inr cd \<and>
     verifyTotp demo_crypto (generateTotpSecret (replicate 20 5)) cd 95000 (Some 1) = Inr (Some s)"
  by (rule totp_code_accepted) (simp_all add: totpStep_def)

end
