(* ===== verification/Json.thy ===== *)
theory Json
  imports Crypto
begin

text \<open>
  What the sources use of JSON and UTF-8 decoding: \<open>Buffer.toString('utf8')\<close> with the replacement
  character for malformed sequences, and \<open>JSON.parse\<close>. Texts here are lists of UTF-16 code units
  (\<open>nat\<close>), because decoded text is not limited to the Latin-1 block. Both are structurally recursive.
\<close>

section \<open>UTF-8 decoding\<close>

text \<open>Continuation bytes still needed, the range of the next one, and the value so far.\<close>

type_synonym utf8_state = "(nat \<times> nat \<times> nat \<times> nat) option"

definition utf16_units :: "nat \<Rightarrow> nat list" where
  "utf16_units cp =
     (if cp < 0x10000 then [cp] else [0xD800 + (cp - 0x10000) div 1024, 0xDC00 + (cp - 0x10000) mod 1024])"

definition u8_start :: "nat \<Rightarrow> nat list \<times> utf8_state" where
  "u8_start b =
     (if b < 0x80 then ([b], None)
      else if 0xC2 \<le> b \<and> b \<le> 0xDF then ([], Some (1, 0x80, 0xBF, b - 0xC0))
      else if b = 0xE0 then ([], Some (2, 0xA0, 0xBF, 0))
      else if b = 0xED then ([], Some (2, 0x80, 0x9F, 13))
      else if 0xE1 \<le> b \<and> b \<le> 0xEF then ([], Some (2, 0x80, 0xBF, b - 0xE0))
      else if b = 0xF0 then ([], Some (3, 0x90, 0xBF, 0))
      else if 0xF1 \<le> b \<and> b \<le> 0xF3 then ([], Some (3, 0x80, 0xBF, b - 0xF0))
      else if b = 0xF4 then ([], Some (3, 0x80, 0x8F, 4))
      else ([0xFFFD], None))"

fun u8_run :: "utf8_state \<Rightarrow> nat list \<Rightarrow> nat list" where
  "u8_run None [] = []"
| "u8_run (Some st) [] = [0xFFFD]"
| "u8_run None (b # bs) = (case u8_start b of (out, st) \<Rightarrow> out @ u8_run st bs)"
| "u8_run (Some (k, lo, hi, cp)) (b # bs) =
     (if lo \<le> b \<and> b \<le> hi then
        (let cp' = cp * 64 + (b - 0x80)
         in if k \<le> 1 then utf16_units cp' @ u8_run None bs else u8_run (Some (k - 1, 0x80, 0xBF, cp')) bs)
      else 0xFFFD # (case u8_start b of (out, st) \<Rightarrow> out @ u8_run st bs))"

definition utf8_decode :: "byte list \<Rightarrow> nat list" where
  "utf8_decode bs = u8_run None (map unat bs)"

definition units :: "string \<Rightarrow> nat list" where
  "units s = map code s"

section \<open>JSON.parse\<close>

text \<open>Numbers keep their literal: the sources never read the value of one.\<close>

datatype json = JNull | JBool bool | JNum "nat list" | JStr "nat list" | JArr "json list" | JObj "(nat list \<times> json) list"

datatype token = TLBrace | TRBrace | TLBrack | TRBrack | TColon | TComma | TStr "nat list" | TLit json

definition json_ws :: "nat \<Rightarrow> bool" where
  "json_ws c \<longleftrightarrow> c \<in> {9, 10, 13, 32}"

definition hex_unit :: "nat \<Rightarrow> nat option" where
  "hex_unit c =
     (if 48 \<le> c \<and> c \<le> 57 then Some (c - 48)
      else if 97 \<le> c \<and> c \<le> 102 then Some (c - 87)
      else if 65 \<le> c \<and> c \<le> 70 then Some (c - 55) else None)"

definition hex4 :: "nat \<Rightarrow> nat \<Rightarrow> nat \<Rightarrow> nat \<Rightarrow> nat option" where
  "hex4 a b c d =
     (case (hex_unit a, hex_unit b, hex_unit c, hex_unit d) of
        (Some w, Some x, Some y, Some z) \<Rightarrow> Some (((w * 16 + x) * 16 + y) * 16 + z)
      | _ \<Rightarrow> None)"

text \<open>The escapes of one character after the backslash.\<close>

definition simple_escape :: "nat \<Rightarrow> nat option" where
  "simple_escape c = map_of [(34, 34), (92, 92), (47, 47), (98, 8), (102, 12), (110, 10), (114, 13), (116, 9)] c"

text \<open>The rest of a string literal: its characters and what follows the closing quote.\<close>

fun lex_string :: "nat list \<Rightarrow> (nat list \<times> nat list) option" where
  "lex_string [] = None"
| "lex_string (c # cs) =
     (if c = 34 then Some ([], cs)
      else if c < 32 then None
      else if c = 92 then
        (case cs of
           [] \<Rightarrow> None
         | e # r \<Rightarrow>
           if e = 117 then
             (case r of
                h1 # h2 # h3 # h4 # r' \<Rightarrow>
                  (case hex4 h1 h2 h3 h4 of
                     None \<Rightarrow> None
                   | Some u \<Rightarrow> map_option (\<lambda>(s, t). (u # s, t)) (lex_string r'))
              | _ \<Rightarrow> None)
           else
             (case simple_escape e of
                None \<Rightarrow> None
              | Some u \<Rightarrow> map_option (\<lambda>(s, t). (u # s, t)) (lex_string r)))
      else map_option (\<lambda>(s, t). (c # s, t)) (lex_string cs))"

lemma lex_string_shorter: "lex_string cs = Some (s, r) \<Longrightarrow> length r < length cs"
proof (induction "length cs" arbitrary: cs s r rule: less_induct)
  case less
  have step: "length r < length cs" if "map_option (\<lambda>(s, t). (u # s, t)) (lex_string x) = Some (s, r)" "length x < length cs" for u x
    using that less.hyps [OF that(2)] by (auto simp: map_option_eq_Some intro: less_trans)
  show ?case
  proof (cases cs)
    case Nil
    with less.prems show ?thesis by simp
  next
    case (Cons c ds)
    consider "c = 34" | "c \<noteq> 34" "c \<noteq> 92" | "c = 92" by blast
    then show ?thesis
    proof cases
      case 1
      with less.prems Cons show ?thesis by simp
    next
      case 2
      with less.prems Cons step [of c ds] show ?thesis by (simp split: if_splits)
    next
      case 3
      note c = this
      show ?thesis
      proof (cases ds)
        case Nil
        with less.prems Cons c show ?thesis by simp
      next
        case ds: (Cons e t)
        show ?thesis
        proof (cases "e = 117")
          case True
          show ?thesis
          proof (cases "length t < 4")
            case True
            then consider "t = []" | h1 where "t = [h1]" | h1 h2 where "t = [h1, h2]" | h1 h2 h3 where "t = [h1, h2, h3]"
              by (cases t; cases "tl t"; cases "tl (tl t)"; cases "tl (tl (tl t))") auto
            then show ?thesis using less.prems Cons c ds \<open>e = 117\<close> by cases simp_all
          next
            case False
            then obtain h1 h2 h3 h4 r' where t: "t = h1 # h2 # h3 # h4 # r'"
              by (cases t; cases "tl t"; cases "tl (tl t)"; cases "tl (tl (tl t))") auto
            with less.prems Cons c ds True step [of _ r'] show ?thesis by (simp split: option.splits)
          qed
        next
          case False
          with less.prems Cons c ds step [of _ t] show ?thesis by (simp split: option.splits)
        qed
      qed
    qed
  qed
qed

text \<open>Number literals: \<open>-?(0|[1-9]\d*)(\.\d+)?([eE][+-]?\d+)?\<close>.\<close>

definition digit_unit :: "nat \<Rightarrow> bool" where
  "digit_unit c \<longleftrightarrow> 48 \<le> c \<and> c \<le> 57"

definition num_unit :: "nat \<Rightarrow> bool" where
  "num_unit c \<longleftrightarrow> digit_unit c \<or> c \<in> {43, 45, 46, 69, 101}"

definition json_exponent :: "nat list \<Rightarrow> bool" where
  "json_exponent s =
     (case s of
        [] \<Rightarrow> True
      | e # r \<Rightarrow> e \<in> {69, 101} \<and>
          (let d = (case r of x # t \<Rightarrow> if x \<in> {43, 45} then t else r | [] \<Rightarrow> []) in d \<noteq> [] \<and> list_all digit_unit d))"

definition json_fraction :: "nat list \<Rightarrow> bool" where
  "json_fraction s =
     (case s of
        [] \<Rightarrow> True
      | p # r \<Rightarrow> if p = 46 then takeWhile digit_unit r \<noteq> [] \<and> json_exponent (dropWhile digit_unit r) else json_exponent s)"

definition json_number :: "nat list \<Rightarrow> bool" where
  "json_number s =
     (let u = (case s of x # t \<Rightarrow> if x = 45 then t else s | [] \<Rightarrow> []);
          ip = takeWhile digit_unit u
      in ip \<noteq> [] \<and> (hd ip = 48 \<longrightarrow> length ip = 1) \<and> json_fraction (dropWhile digit_unit u))"

definition json_punct :: "nat \<Rightarrow> token option" where
  "json_punct c = map_of [(123, TLBrace), (125, TRBrace), (91, TLBrack), (93, TRBrack), (58, TColon), (44, TComma)] c"

definition json_word :: "nat list \<Rightarrow> (json \<times> nat) option" where
  "json_word s =
     (if take 4 s = units ''true'' then Some (JBool True, 4)
      else if take 5 s = units ''false'' then Some (JBool False, 5)
      else if take 4 s = units ''null'' then Some (JNull, 4) else None)"

lemma json_word_pos: "json_word s = Some (j, n) \<Longrightarrow> 0 < n"
  by (auto simp: json_word_def split: if_splits)

function lex :: "nat list \<Rightarrow> token list option" where
  "lex [] = Some []"
| "lex (c # cs) =
     (if json_ws c then lex cs
      else case json_punct c of
        Some t \<Rightarrow> map_option (\<lambda>ts. t # ts) (lex cs)
      | None \<Rightarrow>
        if c = 34 then
          (case lex_string cs of None \<Rightarrow> None | Some (s, r) \<Rightarrow> map_option (\<lambda>ts. TStr s # ts) (lex r))
        else if num_unit c then
          (if json_number (takeWhile num_unit (c # cs))
           then map_option (\<lambda>ts. TLit (JNum (takeWhile num_unit (c # cs))) # ts) (lex (dropWhile num_unit cs))
           else None)
        else
          (case json_word (c # cs) of
             None \<Rightarrow> None
           | Some (j, n) \<Rightarrow> map_option (\<lambda>ts. TLit j # ts) (lex (drop n (c # cs)))))"
  by pat_completeness auto
termination
  by (relation "measure length")
    (auto dest: lex_string_shorter json_word_pos simp: le_imp_less_Suc length_dropWhile_le)

text \<open>
  A stack of open arrays and objects; an object remembers its members and the key a value is
  awaited for. The mode says what may come next.
\<close>

datatype frame = InArr "json list" | InObj "(nat list \<times> json) list" "nat list option"

datatype mode = WantValue | WantValueOrEnd | WantKey | WantKeyOrEnd | WantColon | GotValue json

fun open_value :: "token \<Rightarrow> frame list \<Rightarrow> (mode \<times> frame list) option" where
  "open_value TLBrace fs = Some (WantKeyOrEnd, InObj [] None # fs)"
| "open_value TLBrack fs = Some (WantValueOrEnd, InArr [] # fs)"
| "open_value (TStr s) fs = Some (GotValue (JStr s), fs)"
| "open_value (TLit j) fs = Some (GotValue j, fs)"
| "open_value _ fs = None"

fun take_key :: "token \<Rightarrow> frame list \<Rightarrow> (mode \<times> frame list) option" where
  "take_key (TStr k) (InObj ms None # fs) = Some (WantColon, InObj ms (Some k) # fs)"
| "take_key _ fs = None"

fun after_value :: "json \<Rightarrow> token \<Rightarrow> frame list \<Rightarrow> (mode \<times> frame list) option" where
  "after_value v TComma (InArr vs # fs) = Some (WantValue, InArr (vs @ [v]) # fs)"
| "after_value v TRBrack (InArr vs # fs) = Some (GotValue (JArr (vs @ [v])), fs)"
| "after_value v TComma (InObj ms (Some k) # fs) = Some (WantKey, InObj (ms @ [(k, v)]) None # fs)"
| "after_value v TRBrace (InObj ms (Some k) # fs) = Some (GotValue (JObj (ms @ [(k, v)])), fs)"
| "after_value v t fs = None"

definition token_step :: "mode \<Rightarrow> token \<Rightarrow> frame list \<Rightarrow> (mode \<times> frame list) option" where
  "token_step m t fs =
     (case m of
        GotValue v \<Rightarrow> after_value v t fs
      | WantValue \<Rightarrow> open_value t fs
      | WantValueOrEnd \<Rightarrow>
          (if t = TRBrack then (case fs of InArr [] # fs' \<Rightarrow> Some (GotValue (JArr []), fs') | _ \<Rightarrow> None) else open_value t fs)
      | WantKey \<Rightarrow> take_key t fs
      | WantKeyOrEnd \<Rightarrow>
          (if t = TRBrace then (case fs of InObj [] None # fs' \<Rightarrow> Some (GotValue (JObj []), fs') | _ \<Rightarrow> None) else take_key t fs)
      | WantColon \<Rightarrow> if t = TColon then Some (WantValue, fs) else None)"

fun parse_tokens :: "mode \<Rightarrow> frame list \<Rightarrow> token list \<Rightarrow> json option" where
  "parse_tokens m fs [] = (case m of GotValue v \<Rightarrow> if fs = [] then Some v else None | _ \<Rightarrow> None)"
| "parse_tokens m fs (t # ts) =
     (case token_step m t fs of None \<Rightarrow> None | Some (m', fs') \<Rightarrow> parse_tokens m' fs' ts)"

definition json_parse :: "nat list \<Rightarrow> json option" where
  "json_parse s = (case lex s of None \<Rightarrow> None | Some ts \<Rightarrow> parse_tokens WantValue [] ts)"

text \<open>\<open>v.key\<close> of a parsed value: the last member of that name; \<open>None\<close> is \<open>undefined\<close>.\<close>

definition json_get :: "string \<Rightarrow> json \<Rightarrow> json option" where
  "json_get key j = (case j of JObj ms \<Rightarrow> map_of (rev ms) (units key) | _ \<Rightarrow> None)"

text \<open>A string as JSON writes it, for the examples: no character of theirs needs an escape.\<close>

definition json_quoted :: "string \<Rightarrow> string" where
  "json_quoted s = [chr_of 34] @ s @ [chr_of 34]"

end
