(* ===== verification/Dbsc.thy ===== *)
theory Dbsc
  imports Json
begin

text \<open>
  src/dbsc.ts: the proof a browser sends to show it still holds the device key of a bound session,
  a compact JWS. Keys are imported and signatures verified by node:crypto (\<open>nc_jwk\<close>, \<open>nc_verify\<close>).
\<close>

section \<open>The header\<close>

datatype dbsc_alg = ES256 | RS256

text \<open>A request header as Node hands it over: one value or several.\<close>

datatype header_value = HOne string | HMany "string list"

definition header_first :: "header_value option \<Rightarrow> string option" where
  "header_first raw =
     (case raw of
        None \<Rightarrow> None
      | Some (HOne s) \<Rightarrow> Some s
      | Some (HMany ss) \<Rightarrow> (case ss of [] \<Rightarrow> None | s # _ \<Rightarrow> Some s))"

definition jwt_char :: "char \<Rightarrow> bool" where
  "jwt_char c \<longleftrightarrow> is_url_char c \<or> c = CHR ''.''"

text \<open>The text between double quotes, when there is nothing else.\<close>

definition unquote :: "string \<Rightarrow> string option" where
  "unquote s =
     (if 2 \<le> length s \<and> hd s = chr_of 34 \<and> last s = chr_of 34 then Some (butlast (tl s)) else None)"

definition jwt_text :: "string \<Rightarrow> bool" where
  "jwt_text s \<longleftrightarrow> s \<noteq> [] \<and> list_all jwt_char s"

definition proofFromHeader :: "header_value option \<Rightarrow> string option" where
  "proofFromHeader raw =
     (case header_first raw of
        None \<Rightarrow> None
      | Some v \<Rightarrow>
        if v = [] then None
        else
          let s = js_trim v;
              m = (case unquote s of
                     Some q \<Rightarrow> if jwt_text q then Some q else if jwt_text s then Some s else None
                   | None \<Rightarrow> if jwt_text s then Some s else None)
          in (case m of None \<Rightarrow> None | Some t \<Rightarrow> if length t \<le> 8192 then Some t else None))"

section \<open>The proof\<close>

record dbsc_proof =
  dp_alg :: dbsc_alg
  dp_jwk :: "json_web_key option"
  dp_jti :: "nat list"

definition part :: "string \<Rightarrow> json result" where
  "part s =
     (case json_parse (utf8_decode (b64_decode s)) of
        Some (JObj ms) \<Rightarrow> Inr (JObj ms)
      | _ \<Rightarrow> Inl (DbscError ''malformed JWT''))"

text \<open>\<open>typeof k.key === 'string'\<close>, with its value.\<close>

definition str_member :: "string \<Rightarrow> json \<Rightarrow> nat list option" where
  "str_member key j = (case json_get key j of Some (JStr s) \<Rightarrow> Some s | _ \<Rightarrow> None)"

text \<open>Objects and arrays pass the \<open>typeof\<close> test; an array has none of the members.\<close>

definition publicJwk :: "json option \<Rightarrow> json_web_key result" where
  "publicJwk jwk =
     (case jwk of
        Some k \<Rightarrow>
          (case k of
             JNull \<Rightarrow> Inl (DbscError ''missing key'')
           | JBool _ \<Rightarrow> Inl (DbscError ''missing key'')
           | JNum _ \<Rightarrow> Inl (DbscError ''missing key'')
           | JStr _ \<Rightarrow> Inl (DbscError ''missing key'')
           | _ \<Rightarrow>
             if str_member ''kty'' k = Some (units ''EC'') \<and> str_member ''crv'' k = Some (units ''P-256'') \<and>
                str_member ''x'' k \<noteq> None \<and> str_member ''y'' k \<noteq> None \<and> json_get ''d'' k = None
             then Inr (JwkEC (the (str_member ''x'' k)) (the (str_member ''y'' k)))
             else if str_member ''kty'' k = Some (units ''RSA'') \<and> str_member ''n'' k \<noteq> None \<and> str_member ''e'' k \<noteq> None \<and>
                json_get ''d'' k = None
             then Inr (JwkRSA (the (str_member ''n'' k)) (the (str_member ''e'' k)))
             else Inl (DbscError ''unsupported key''))
      | None \<Rightarrow> Inl (DbscError ''missing key''))"

definition keyFor :: "node_crypto \<Rightarrow> dbsc_alg \<Rightarrow> json_web_key \<Rightarrow> node_key result" where
  "keyFor C alg jwk =
     (case nc_jwk C jwk of
        None \<Rightarrow> Inl (DbscError ''unreadable key'')
      | Some key \<Rightarrow>
        if alg = ES256 \<and> nk_kind key \<noteq> KeyEc ''prime256v1'' then Inl (DbscError ''key does not match ES256'')
        else if alg = RS256 \<and> \<not> (case nk_kind key of KeyRsa n \<Rightarrow> 2048 \<le> n | _ \<Rightarrow> False)
        then Inl (DbscError ''key does not match RS256'')
        else Inr key)"

definition alg_of :: "json \<Rightarrow> dbsc_alg option" where
  "alg_of header =
     (if str_member ''alg'' header = Some (units ''ES256'') then Some ES256
      else if str_member ''alg'' header = Some (units ''RS256'') then Some RS256 else None)"

definition proof_verifies :: "node_crypto \<Rightarrow> dbsc_alg \<Rightarrow> string \<Rightarrow> node_key \<Rightarrow> byte list \<Rightarrow> bool" where
  "proof_verifies C alg txt key signature =
     nc_verify C (Some ''sha256'') (alg = ES256) (map (of_nat \<circ> code) txt) key signature"

text \<open>The second half of \<open>verifyProof\<close>, once the key to check against is known.\<close>

definition check_proof ::
  "node_crypto \<Rightarrow> dbsc_alg \<Rightarrow> json_web_key \<Rightarrow> bool \<Rightarrow> string \<Rightarrow> string \<Rightarrow> string \<Rightarrow> json \<Rightarrow> dbsc_proof result" where
  "check_proof C alg jwk known h p sig payload =
     and_then (keyFor C alg jwk) (\<lambda>key.
       if \<not> proof_verifies C alg (h @ ''.'' @ p) key (b64_decode sig) then Inl (DbscError ''bad signature'')
       else case str_member ''jti'' payload of
         None \<Rightarrow> Inl (DbscError ''missing jti'')
       | Some jti \<Rightarrow>
         if jti = [] then Inl (DbscError ''missing jti'')
         else Inr \<lparr>dp_alg = alg, dp_jwk = (if known then None else Some jwk), dp_jti = jti\<rparr>)"

definition proof_key :: "dbsc_alg \<Rightarrow> (dbsc_alg \<times> json_web_key) option \<Rightarrow> json \<Rightarrow> json_web_key result" where
  "proof_key alg knownKey header =
     (case knownKey of
        Some k \<Rightarrow>
          if alg \<noteq> fst k then Inl (DbscError ''alg differs from the registered key'') else Inr (snd k)
      | None \<Rightarrow> publicJwk (json_get ''jwk'' header))"

definition verifyProof :: "node_crypto \<Rightarrow> string \<Rightarrow> (dbsc_alg \<times> json_web_key) option \<Rightarrow> dbsc_proof result" where
  "verifyProof C jwt knownKey =
     (case split_by (\<lambda>c. c = CHR ''.'') jwt of
        [h, p, sig] \<Rightarrow>
          and_then (part h) (\<lambda>header.
          and_then (part p) (\<lambda>payload.
          if str_member ''typ'' header \<noteq> Some (units ''dbsc+jwt'') then Inl (DbscError ''wrong typ'')
          else case alg_of header of
            None \<Rightarrow> Inl (DbscError ''unsupported alg'')
          | Some alg \<Rightarrow>
            and_then (proof_key alg knownKey header) (\<lambda>jwk.
            check_proof C alg jwk (knownKey \<noteq> None) h p sig payload)))
      | _ \<Rightarrow> Inl (DbscError ''malformed JWT''))"

section \<open>What a verified proof is\<close>

lemma keyFor_Inr:
  "keyFor C alg jwk = Inr key \<Longrightarrow> nc_jwk C jwk = Some key \<and>
    (alg = ES256 \<longrightarrow> nk_kind key = KeyEc ''prime256v1'') \<and> (alg = RS256 \<longrightarrow> (\<exists>n \<ge> 2048. nk_kind key = KeyRsa n))"
  by (auto simp: keyFor_def split: option.splits if_splits key_kind.splits)

text \<open>A proof's three pieces, its signature under a key, and the challenge it answers.\<close>

definition signed_by :: "node_crypto \<Rightarrow> string \<Rightarrow> dbsc_alg \<Rightarrow> json_web_key \<Rightarrow> nat list \<Rightarrow> bool" where
  "signed_by C jwt alg jwk jti \<longleftrightarrow> (\<exists>h p sig key payload. split_by (\<lambda>c. c = CHR ''.'') jwt = [h, p, sig] \<and>
     keyFor C alg jwk = Inr key \<and> proof_verifies C alg (h @ ''.'' @ p) key (b64_decode sig) \<and>
     part p = Inr payload \<and> str_member ''jti'' payload = Some jti \<and> jti \<noteq> [])"

lemma check_proof_Inr:
  assumes "check_proof C alg jwk known h p sig payload = Inr r"
  shows "\<exists>key jti. keyFor C alg jwk = Inr key \<and> proof_verifies C alg (h @ ''.'' @ p) key (b64_decode sig) \<and>
    str_member ''jti'' payload = Some jti \<and> jti \<noteq> [] \<and> r = \<lparr>dp_alg = alg, dp_jwk = (if known then None else Some jwk), dp_jti = jti\<rparr>"
  using assms unfolding check_proof_def and_then_Inr_iff
  by (elim exE conjE) (simp split: option.splits if_splits)

lemma verifyProof_Inr:
  assumes "verifyProof C jwt k = Inr r"
  shows "\<exists>h p sig header payload alg jwk. split_by (\<lambda>c. c = CHR ''.'') jwt = [h, p, sig] \<and> part h = Inr header \<and> part p = Inr payload \<and>
    alg_of header = Some alg \<and> proof_key alg k header = Inr jwk \<and> check_proof C alg jwk (k \<noteq> None) h p sig payload = Inr r"
proof -
  obtain h p sig where pieces: "split_by (\<lambda>c. c = CHR ''.'') jwt = [h, p, sig]"
    using assms by (auto simp: verifyProof_def split: list.splits)
  with assms show ?thesis unfolding verifyProof_def pieces list.case and_then_Inr_iff
    by (elim exE conjE) (auto simp: and_then_Inr_iff split: option.splits if_splits)
qed

lemma verifyProof_signed:
  assumes "verifyProof C jwt k = Inr r"
  shows "\<exists>jwk. (case k of None \<Rightarrow> dp_jwk r = Some jwk | Some (a, j) \<Rightarrow> dp_alg r = a \<and> jwk = j \<and> dp_jwk r = None) \<and>
    signed_by C jwt (dp_alg r) jwk (dp_jti r)"
proof -
  obtain h p sig header payload alg jwk where v: "split_by (\<lambda>c. c = CHR ''.'') jwt = [h, p, sig]" "part p = Inr payload"
      "proof_key alg k header = Inr jwk" "check_proof C alg jwk (k \<noteq> None) h p sig payload = Inr r"
    using verifyProof_Inr [OF assms] by blast
  obtain key jti where c: "keyFor C alg jwk = Inr key" "proof_verifies C alg (h @ ''.'' @ p) key (b64_decode sig)"
      "str_member ''jti'' payload = Some jti" "jti \<noteq> []" "r = \<lparr>dp_alg = alg, dp_jwk = (if k \<noteq> None then None else Some jwk), dp_jti = jti\<rparr>"
    using check_proof_Inr [OF v(4)] by blast
  have "signed_by C jwt (dp_alg r) jwk (dp_jti r)" using v c by (auto simp: signed_by_def)
  moreover have "case k of None \<Rightarrow> dp_jwk r = Some jwk | Some (a, j) \<Rightarrow> dp_alg r = a \<and> jwk = j \<and> dp_jwk r = None"
    using v(3) c(5) by (auto simp: proof_key_def split: option.splits if_splits)
  ultimately show ?thesis by blast
qed

lemmas verifyProof_known = verifyProof_signed [where k = "Some (alg, jwk)" for alg jwk, simplified]
lemmas verifyProof_new = verifyProof_signed [where k = None, simplified]

text \<open>Whatever text arrives, a refusal is a \<open>DbscError\<close>, the class the handlers catch.\<close>

definition dbsc_refusal :: "'a result \<Rightarrow> bool" where
  "dbsc_refusal r \<longleftrightarrow> (\<forall>e. r = Inl e \<longrightarrow> (\<exists>m. e = DbscError m))"

lemma dbsc_refusal_and_then: "dbsc_refusal r \<Longrightarrow> (\<And>x. dbsc_refusal (f x)) \<Longrightarrow> dbsc_refusal (and_then r f)"
  by (cases r) (auto simp: dbsc_refusal_def)

lemma dbsc_refusal_simps [simp]: "dbsc_refusal (Inr x)" "dbsc_refusal (Inl (DbscError m))"
  by (simp_all add: dbsc_refusal_def)

lemma dbsc_refusal_steps:
  "dbsc_refusal (part s)" "dbsc_refusal (publicJwk j)" "dbsc_refusal (keyFor C alg jwk)"
  by (simp_all add: part_def publicJwk_def keyFor_def split: option.split json.split)

lemma dbsc_refusal_check: "dbsc_refusal (check_proof C alg jwk known h p sig payload)"
  unfolding check_proof_def by (intro dbsc_refusal_and_then dbsc_refusal_steps) (simp split: option.split)

lemma verifyProof_refusal: "dbsc_refusal (verifyProof C jwt k)"
proof -
  have "dbsc_refusal (proof_key alg k header)" for alg header
    using dbsc_refusal_steps(2) by (simp add: proof_key_def split: option.split)
  then have "dbsc_refusal (and_then (part h) (\<lambda>header. and_then (part p) (\<lambda>payload.
      if str_member ''typ'' header \<noteq> Some (units ''dbsc+jwt'') then Inl (DbscError ''wrong typ'')
      else case alg_of header of None \<Rightarrow> Inl (DbscError ''unsupported alg'')
        | Some alg \<Rightarrow> and_then (proof_key alg k header) (\<lambda>jwk. check_proof C alg jwk (k \<noteq> None) h p sig payload))))" for h p sig
    by (intro dbsc_refusal_and_then dbsc_refusal_steps) (simp add: dbsc_refusal_and_then dbsc_refusal_check split: option.split)
  then show ?thesis unfolding verifyProof_def by (simp split: list.split)
qed

section \<open>A proof\<close>

definition demo_member :: "string \<Rightarrow> string \<Rightarrow> string" where
  "demo_member k v = json_quoted k @ '':'' @ json_quoted v"

definition demo_header :: string where
  "demo_header = ''{'' @ demo_member ''typ'' ''dbsc+jwt'' @ '','' @ demo_member ''alg'' ''ES256'' @ '','' @ json_quoted ''jwk'' @ '':{''
     @ demo_member ''kty'' ''EC'' @ '','' @ demo_member ''crv'' ''P-256'' @ '','' @ demo_member ''x'' ''x'' @ '','' @ demo_member ''y'' ''y'' @ ''}}''"

definition demo_payload :: string where
  "demo_payload = ''{'' @ demo_member ''jti'' ''abcd'' @ ''}''"

definition demo_signed :: string where
  "demo_signed = b64url_of (utf8 demo_header) @ ''.'' @ b64url_of (utf8 demo_payload)"

definition demo_jwt :: string where
  "demo_jwt = demo_signed @ ''.'' @ b64url_of (map (of_nat \<circ> code) demo_signed)"

definition demo_jwk :: json_web_key where
  "demo_jwk = JwkEC (units ''x'') (units ''y'')"

lemma b64url_no_dot: "\<forall>c \<in> set (b64url_of bs). c \<noteq> CHR ''.''"
proof
  fix c assume "c \<in> set (b64url_of bs)"
  then have "is_url_char c" by (rule b64url_of_url)
  moreover have "\<not> is_url_char CHR ''.''" by code_simp
  ultimately show "c \<noteq> CHR ''.''" by blast
qed

lemma demo_jwt_accepted:
  "verifyProof demo_crypto demo_jwt (Some (ES256, demo_jwk)) = Inr \<lparr>dp_alg = ES256, dp_jwk = None, dp_jti = units ''abcd''\<rparr>"
  "verifyProof demo_crypto demo_jwt None = Inr \<lparr>dp_alg = ES256, dp_jwk = Some demo_jwk, dp_jti = units ''abcd''\<rparr>"
proof -
  let ?h = "b64url_of (utf8 demo_header)" and ?p = "b64url_of (utf8 demo_payload)" and ?s = "b64url_of (map (of_nat \<circ> code) demo_signed)"
  let ?key = "JObj [(units ''kty'', JStr (units ''EC'')), (units ''crv'', JStr (units ''P-256'')), (units ''x'', JStr (units ''x'')), (units ''y'', JStr (units ''y''))]"
  let ?header = "JObj [(units ''typ'', JStr (units ''dbsc+jwt'')), (units ''alg'', JStr (units ''ES256'')), (units ''jwk'', ?key)]"
  let ?payload = "JObj [(units ''jti'', JStr (units ''abcd''))]"
  have pieces: "split_by (\<lambda>c. c = CHR ''.'') demo_jwt = [?h, ?p, ?s]"
    using b64url_no_dot by (simp add: demo_jwt_def demo_signed_def split_by_append split_by_none)
  have "json_parse (utf8_decode (utf8 demo_header)) = Some ?header" "json_parse (utf8_decode (utf8 demo_payload)) = Some ?payload"
    by code_simp+
  then have parts: "part ?h = Inr ?header" "part ?p = Inr ?payload" by (simp_all add: part_def)
  have members: "str_member ''typ'' ?header = Some (units ''dbsc+jwt'')" "alg_of ?header = Some ES256"
    "publicJwk (json_get ''jwk'' ?header) = Inr demo_jwk" "str_member ''jti'' ?payload = Some (units ''abcd'')" by code_simp+
  have ver: "proof_verifies demo_crypto ES256 (?h @ ''.'' @ ?p) k (b64_decode ?s)" for k
    by (simp add: proof_verifies_def demo_crypto_def demo_signed_def)
  have key: "keyFor demo_crypto ES256 demo_jwk = Inr \<lparr>nk_kind = KeyEc ''prime256v1'', nk_data = [120, 121]\<rparr>" by code_simp
  have chk: "check_proof demo_crypto ES256 demo_jwk known ?h ?p ?s ?payload = Inr \<lparr>dp_alg = ES256, dp_jwk = (if known then None else Some demo_jwk), dp_jti = units ''abcd''\<rparr>" for known
    unfolding check_proof_def key and_then.simps members using ver by (simp add: units_def)
  show "verifyProof demo_crypto demo_jwt (Some (ES256, demo_jwk)) = Inr \<lparr>dp_alg = ES256, dp_jwk = None, dp_jti = units ''abcd''\<rparr>"
    unfolding verifyProof_def pieces list.case parts and_then.simps members by (simp add: proof_key_def chk)
  show "verifyProof demo_crypto demo_jwt None = Inr \<lparr>dp_alg = ES256, dp_jwk = Some demo_jwk, dp_jti = units ''abcd''\<rparr>"
    unfolding verifyProof_def pieces list.case parts and_then.simps members by (simp add: proof_key_def members chk)
qed

end
