(* ===== verification/Db.thy ===== *)
theory Db
  imports Totp Dbsc "HOL-Library.List_Lexorder"
begin

text \<open>
  The database: one record per table of migrations/*.sql as the row interfaces of src/services
  read it, the constraints SQLite enforces on inserts, the cascades of deletes, and
  \<open>transaction\<close> and \<open>migrate\<close> of src/db.ts.
\<close>

section \<open>Rows\<close>

datatype role = RoleAdmin | RoleUser
datatype second_factor = FTotp | FRecovery | FPasskey
datatype ceremony = PRegister | PLogin | PConfirm
datatype case_status = CaseOpen | CaseClosed
datatype upload_kind = KTus | KDirect
datatype file_status = Uploading | Complete | Aborted | Expired | Missing | Deleted
datatype actor_type = ActorAdmin | ActorLink | ActorSystem

record admin_row =
  a_id :: string
  a_username :: string
  a_password_hash :: string
  a_created_at :: time
  a_role :: role
  a_disabled_at :: "time option"
  a_must_change :: bool
  a_last_login_at :: "time option"
  a_totp_secret :: "string option"
  a_totp_enabled_at :: "time option"
  a_totp_last_step :: "int option"
  a_totp_failed :: nat
  a_totp_locked_until :: "time option"

record session_row =
  s_id_hash :: string
  s_admin_id :: string
  s_csrf_token :: string
  s_created_at :: time
  s_last_seen_at :: time
  s_expires_at :: time
  s_totp_verified :: bool
  s_totp_attempts :: nat
  s_public_id :: string
  s_ip :: "string option"
  s_user_agent :: "string option"
  s_second_factor :: "second_factor option"
  s_confirmed_until :: "time option"
  s_wa_challenge :: "string option"
  s_wa_purpose :: "ceremony option"
  s_wa_expires_at :: "time option"
  s_dbsc_challenge :: "string option"
  s_dbsc_offered_at :: "time option"

record recovery_row =
  r_admin_id :: string
  r_code_hash :: string
  r_used_at :: "time option"

record passkey_row =
  p_id :: string
  p_admin_id :: string
  p_credential_id :: string
  p_public_key :: string
  p_algorithm :: int
  p_sign_count :: nat
  p_name :: string
  p_created_at :: time
  p_last_used_at :: "time option"

record binding_row =
  b_id :: string
  b_session_hash :: string
  b_alg :: dbsc_alg
  b_jwk :: json_web_key
  b_cookie_hash :: string
  b_cookie_expires_at :: time
  b_prev_cookie_hash :: "string option"
  b_prev_cookie_expires_at :: "time option"
  b_challenge :: "string option"
  b_challenge_expires_at :: "time option"
  b_created_at :: time
  b_refreshed_at :: time

record case_row =
  c_id :: string
  c_name :: string
  c_description :: string
  c_status :: case_status
  c_created_at :: time
  c_updated_at :: time

record member_row =
  m_case_id :: string
  m_admin_id :: string
  m_created_at :: time

record link_row =
  l_id :: string
  l_case_id :: string
  l_label :: string
  l_token_hash :: string
  l_token_hint :: string
  l_expires_at :: "time option"
  l_revoked_at :: "time option"
  l_max_file_bytes :: "int option"
  l_max_files :: "int option"
  l_max_total_bytes :: "int option"
  l_created_at :: time
  l_last_used_at :: "time option"

record file_row =
  f_id :: string
  f_case_id :: string
  f_link_id :: string
  f_original_name :: string
  f_upload_kind :: upload_kind
  f_status :: file_status
  f_declared_size :: "int option"
  f_reserved_bytes :: int
  f_size :: "int option"
  f_sha256 :: "string option"
  f_client_ip :: "string option"
  f_created_at :: time
  f_completed_at :: "time option"
  f_deleted_at :: "time option"

text \<open>The values the audit details hold; a member whose value is \<open>undefined\<close> is not written.\<close>

datatype detail = DStr string | DNum int | DNull

record audit_row =
  au_ts :: time
  au_actor_type :: actor_type
  au_actor_id :: "string option"
  au_action :: string
  au_case_id :: "string option"
  au_link_id :: "string option"
  au_file_id :: "string option"
  au_ip :: "string option"
  au_details :: "(string \<times> detail) list option"

record db =
  admins :: "admin_row list"
  sessions :: "session_row list"
  recovery_codes :: "recovery_row list"
  passkeys :: "passkey_row list"
  bindings :: "binding_row list"
  cases :: "case_row list"
  members :: "member_row list"
  links :: "link_row list"
  files :: "file_row list"
  audit_log :: "audit_row list"

definition empty_db :: db where
  "empty_db = \<lparr>admins = [], sessions = [], recovery_codes = [], passkeys = [], bindings = [],
     cases = [], members = [], links = [], files = [], audit_log = []\<rparr>"

section \<open>Inserts and their constraints\<close>

text \<open>Primary keys, unique columns and foreign keys; a violation throws and writes nothing.\<close>

definition has_admin :: "string \<Rightarrow> db \<Rightarrow> bool" where
  "has_admin i d \<longleftrightarrow> i \<in> a_id ` set (admins d)"

definition has_session :: "string \<Rightarrow> db \<Rightarrow> bool" where
  "has_session h d \<longleftrightarrow> h \<in> s_id_hash ` set (sessions d)"

definition has_case :: "string \<Rightarrow> db \<Rightarrow> bool" where
  "has_case i d \<longleftrightarrow> i \<in> c_id ` set (cases d)"

definition has_link :: "string \<Rightarrow> db \<Rightarrow> bool" where
  "has_link i d \<longleftrightarrow> i \<in> l_id ` set (links d)"

definition insert_admin :: "admin_row \<Rightarrow> db \<Rightarrow> exn + db" where
  "insert_admin r d =
     (if has_admin (a_id r) d \<or> a_username r \<in> a_username ` set (admins d) then Inl SqliteConstraint
      else Inr (d\<lparr>admins := admins d @ [r]\<rparr>))"

definition insert_session :: "session_row \<Rightarrow> db \<Rightarrow> exn + db" where
  "insert_session r d =
     (if has_session (s_id_hash r) d \<or> s_public_id r \<in> s_public_id ` set (sessions d)
         \<or> \<not> has_admin (s_admin_id r) d then Inl SqliteConstraint
      else Inr (d\<lparr>sessions := sessions d @ [r]\<rparr>))"

definition insert_recovery :: "recovery_row \<Rightarrow> db \<Rightarrow> exn + db" where
  "insert_recovery r d =
     (if \<not> has_admin (r_admin_id r) d then Inl SqliteConstraint
      else Inr (d\<lparr>recovery_codes := recovery_codes d @ [r]\<rparr>))"

definition insert_passkey :: "passkey_row \<Rightarrow> db \<Rightarrow> exn + db" where
  "insert_passkey r d =
     (if p_id r \<in> p_id ` set (passkeys d) \<or> p_credential_id r \<in> p_credential_id ` set (passkeys d)
         \<or> \<not> has_admin (p_admin_id r) d then Inl SqliteConstraint
      else Inr (d\<lparr>passkeys := passkeys d @ [r]\<rparr>))"

definition insert_binding :: "binding_row \<Rightarrow> db \<Rightarrow> exn + db" where
  "insert_binding r d =
     (if b_id r \<in> b_id ` set (bindings d) \<or> b_session_hash r \<in> b_session_hash ` set (bindings d)
         \<or> \<not> has_session (b_session_hash r) d then Inl SqliteConstraint
      else Inr (d\<lparr>bindings := bindings d @ [r]\<rparr>))"

definition insert_case :: "case_row \<Rightarrow> db \<Rightarrow> exn + db" where
  "insert_case r d =
     (if has_case (c_id r) d then Inl SqliteConstraint else Inr (d\<lparr>cases := cases d @ [r]\<rparr>))"

definition insert_link :: "link_row \<Rightarrow> db \<Rightarrow> exn + db" where
  "insert_link r d =
     (if has_link (l_id r) d \<or> l_token_hash r \<in> l_token_hash ` set (links d) \<or> \<not> has_case (l_case_id r) d
      then Inl SqliteConstraint else Inr (d\<lparr>links := links d @ [r]\<rparr>))"

definition insert_file :: "file_row \<Rightarrow> db \<Rightarrow> exn + db" where
  "insert_file r d =
     (if f_id r \<in> f_id ` set (files d) \<or> \<not> has_case (f_case_id r) d \<or> \<not> has_link (f_link_id r) d
      then Inl SqliteConstraint else Inr (d\<lparr>files := files d @ [r]\<rparr>))"

section \<open>Deletes and their cascades\<close>

text \<open>\<open>PRAGMA foreign_keys = ON\<close>: a deleted session takes its binding with it, a deleted account
  its sessions, recovery codes, passkeys and case assignments.\<close>

definition delete_sessions :: "(session_row \<Rightarrow> bool) \<Rightarrow> db \<Rightarrow> db" where
  "delete_sessions P d =
     (let gone = s_id_hash ` {s \<in> set (sessions d). P s}
      in d\<lparr>sessions := delete_where P (sessions d),
           bindings := delete_where (\<lambda>b. b_session_hash b \<in> gone) (bindings d)\<rparr>)"

definition delete_admins :: "(admin_row \<Rightarrow> bool) \<Rightarrow> db \<Rightarrow> db" where
  "delete_admins P d =
     (let gone = a_id ` {a \<in> set (admins d). P a};
          d1 = delete_sessions (\<lambda>s. s_admin_id s \<in> gone) d
      in d1\<lparr>admins := delete_where P (admins d),
            recovery_codes := delete_where (\<lambda>r. r_admin_id r \<in> gone) (recovery_codes d),
            passkeys := delete_where (\<lambda>p. p_admin_id p \<in> gone) (passkeys d),
            members := delete_where (\<lambda>m. m_admin_id m \<in> gone) (members d)\<rparr>)"

text \<open>The updates, by table.\<close>

definition update_admins :: "(admin_row \<Rightarrow> bool) \<Rightarrow> (admin_row \<Rightarrow> admin_row) \<Rightarrow> db \<Rightarrow> db" where
  "update_admins P f d = d\<lparr>admins := update_where P f (admins d)\<rparr>"

definition update_sessions :: "(session_row \<Rightarrow> bool) \<Rightarrow> (session_row \<Rightarrow> session_row) \<Rightarrow> db \<Rightarrow> db" where
  "update_sessions P f d = d\<lparr>sessions := update_where P f (sessions d)\<rparr>"

definition update_files :: "(file_row \<Rightarrow> bool) \<Rightarrow> (file_row \<Rightarrow> file_row) \<Rightarrow> db \<Rightarrow> db" where
  "update_files P f d = d\<lparr>files := update_where P f (files d)\<rparr>"

definition update_links :: "(link_row \<Rightarrow> bool) \<Rightarrow> (link_row \<Rightarrow> link_row) \<Rightarrow> db \<Rightarrow> db" where
  "update_links P f d = d\<lparr>links := update_where P f (links d)\<rparr>"

definition update_passkeys :: "(passkey_row \<Rightarrow> bool) \<Rightarrow> (passkey_row \<Rightarrow> passkey_row) \<Rightarrow> db \<Rightarrow> db" where
  "update_passkeys P f d = d\<lparr>passkeys := update_where P f (passkeys d)\<rparr>"

definition update_bindings :: "(binding_row \<Rightarrow> bool) \<Rightarrow> (binding_row \<Rightarrow> binding_row) \<Rightarrow> db \<Rightarrow> db" where
  "update_bindings P f d = d\<lparr>bindings := update_where P f (bindings d)\<rparr>"

section \<open>transaction\<close>

text \<open>
  \<open>BEGIN IMMEDIATE\<close>, the body, \<open>COMMIT\<close>; a thrown error rolls back and is thrown again. The
  body answers with its outcome and the database it left; a rollback restores the one it got.
\<close>

definition transaction :: "(db \<Rightarrow> 'a result \<times> db) \<Rightarrow> db \<Rightarrow> 'a result \<times> db" where
  "transaction body d =
     (case body d of
        (Inr x, d') \<Rightarrow> (Inr x, d')
      | (Inl e, d') \<Rightarrow> (Inl e, d))"

lemma transaction_Inl: "transaction body d = (Inl e, d') \<Longrightarrow> d' = d"
  by (auto simp: transaction_def split: prod.splits sum.splits)

lemma transaction_Inr: "transaction body d = (Inr x, d') \<longleftrightarrow> body d = (Inr x, d')"
  by (auto simp: transaction_def split: prod.splits sum.splits)

section \<open>migrate\<close>

text \<open>
  Applied migrations are rows of \<open>schema_migrations\<close>; the files are the sorted \<open>.sql\<close> names of
  the directory. \<open>apply_sql\<close> is SQLite executing one file: it fails or changes the schema.
\<close>

record 's migration_state =
  mg_schema :: 's
  mg_applied :: "(string \<times> time) list"

fun migrate_loop :: "(string \<Rightarrow> 's \<Rightarrow> exn + 's) \<Rightarrow> time \<Rightarrow> string list \<Rightarrow> string list \<Rightarrow> string list
    \<Rightarrow> 's migration_state \<Rightarrow> string list result \<times> 's migration_state" where
  "migrate_loop apply_sql nw applied [] acc st = (Inr acc, st)"
| "migrate_loop apply_sql nw applied (f # fs) acc st =
     (if f \<in> set applied then migrate_loop apply_sql nw applied fs acc st
      else case apply_sql f (mg_schema st) of
        Inl e \<Rightarrow> (Inl e, st)
      | Inr sch \<Rightarrow>
        if f \<in> fst ` set (mg_applied st) then (Inl SqliteConstraint, st)
        else migrate_loop apply_sql nw applied fs (acc @ [f])
               (st\<lparr>mg_schema := sch, mg_applied := mg_applied st @ [(f, nw)]\<rparr>))"

definition migrate :: "(string \<Rightarrow> 's \<Rightarrow> exn + 's) \<Rightarrow> time \<Rightarrow> string list \<Rightarrow> 's migration_state
    \<Rightarrow> string list result \<times> 's migration_state" where
  "migrate apply_sql nw dir st =
     (let applied = map fst (mg_applied st);
          fs = sort_key (map code) (filter (ends_with ''.sql'') dir)
      in migrate_loop apply_sql nw applied fs [] st)"

section \<open>What each statement leaves alone\<close>

lemma update_admins_simps [simp]:
  "admins (update_admins P f d) = update_where P f (admins d)"
  "sessions (update_admins P f d) = sessions d"
  "recovery_codes (update_admins P f d) = recovery_codes d"
  "passkeys (update_admins P f d) = passkeys d"
  "bindings (update_admins P f d) = bindings d"
  "cases (update_admins P f d) = cases d"
  "members (update_admins P f d) = members d"
  "links (update_admins P f d) = links d"
  "files (update_admins P f d) = files d"
  "audit_log (update_admins P f d) = audit_log d"
  by (simp_all add: update_admins_def)

lemma update_sessions_simps [simp]:
  "sessions (update_sessions P f d) = update_where P f (sessions d)"
  "admins (update_sessions P f d) = admins d"
  "recovery_codes (update_sessions P f d) = recovery_codes d"
  "passkeys (update_sessions P f d) = passkeys d"
  "bindings (update_sessions P f d) = bindings d"
  "cases (update_sessions P f d) = cases d"
  "members (update_sessions P f d) = members d"
  "links (update_sessions P f d) = links d"
  "files (update_sessions P f d) = files d"
  "audit_log (update_sessions P f d) = audit_log d"
  by (simp_all add: update_sessions_def)

lemma update_files_simps [simp]:
  "files (update_files P f d) = update_where P f (files d)"
  "admins (update_files P f d) = admins d"
  "sessions (update_files P f d) = sessions d"
  "recovery_codes (update_files P f d) = recovery_codes d"
  "passkeys (update_files P f d) = passkeys d"
  "bindings (update_files P f d) = bindings d"
  "cases (update_files P f d) = cases d"
  "members (update_files P f d) = members d"
  "links (update_files P f d) = links d"
  "audit_log (update_files P f d) = audit_log d"
  by (simp_all add: update_files_def)

lemma update_links_simps [simp]:
  "links (update_links P f d) = update_where P f (links d)"
  "admins (update_links P f d) = admins d"
  "sessions (update_links P f d) = sessions d"
  "recovery_codes (update_links P f d) = recovery_codes d"
  "passkeys (update_links P f d) = passkeys d"
  "bindings (update_links P f d) = bindings d"
  "cases (update_links P f d) = cases d"
  "members (update_links P f d) = members d"
  "files (update_links P f d) = files d"
  "audit_log (update_links P f d) = audit_log d"
  by (simp_all add: update_links_def)

lemma update_passkeys_simps [simp]:
  "passkeys (update_passkeys P f d) = update_where P f (passkeys d)"
  "admins (update_passkeys P f d) = admins d"
  "sessions (update_passkeys P f d) = sessions d"
  "recovery_codes (update_passkeys P f d) = recovery_codes d"
  "bindings (update_passkeys P f d) = bindings d"
  "cases (update_passkeys P f d) = cases d"
  "members (update_passkeys P f d) = members d"
  "links (update_passkeys P f d) = links d"
  "files (update_passkeys P f d) = files d"
  "audit_log (update_passkeys P f d) = audit_log d"
  by (simp_all add: update_passkeys_def)

lemma update_bindings_simps [simp]:
  "bindings (update_bindings P f d) = update_where P f (bindings d)"
  "admins (update_bindings P f d) = admins d"
  "sessions (update_bindings P f d) = sessions d"
  "recovery_codes (update_bindings P f d) = recovery_codes d"
  "passkeys (update_bindings P f d) = passkeys d"
  "cases (update_bindings P f d) = cases d"
  "members (update_bindings P f d) = members d"
  "links (update_bindings P f d) = links d"
  "files (update_bindings P f d) = files d"
  "audit_log (update_bindings P f d) = audit_log d"
  by (simp_all add: update_bindings_def)

lemma delete_sessions_simps [simp]:
  "sessions (delete_sessions P d) = delete_where P (sessions d)"
  "admins (delete_sessions P d) = admins d"
  "recovery_codes (delete_sessions P d) = recovery_codes d"
  "passkeys (delete_sessions P d) = passkeys d"
  "cases (delete_sessions P d) = cases d"
  "members (delete_sessions P d) = members d"
  "links (delete_sessions P d) = links d"
  "files (delete_sessions P d) = files d"
  "audit_log (delete_sessions P d) = audit_log d"
  by (simp_all add: delete_sessions_def Let_def)

lemma delete_admins_simps [simp]:
  "admins (delete_admins P d) = delete_where P (admins d)"
  "cases (delete_admins P d) = cases d"
  "links (delete_admins P d) = links d"
  "files (delete_admins P d) = files d"
  "audit_log (delete_admins P d) = audit_log d"
  by (simp_all add: delete_admins_def Let_def)

lemma insert_admin_Inr: "insert_admin r d = Inr d' \<Longrightarrow> d' = d\<lparr>admins := admins d @ [r]\<rparr>"
  by (auto simp: insert_admin_def split: if_splits)

lemma insert_session_Inr: "insert_session r d = Inr d' \<Longrightarrow> d' = d\<lparr>sessions := sessions d @ [r]\<rparr>"
  by (auto simp: insert_session_def split: if_splits)

lemma insert_recovery_Inr: "insert_recovery r d = Inr d' \<Longrightarrow> d' = d\<lparr>recovery_codes := recovery_codes d @ [r]\<rparr>"
  by (auto simp: insert_recovery_def split: if_splits)

lemma insert_passkey_Inr: "insert_passkey r d = Inr d' \<Longrightarrow> d' = d\<lparr>passkeys := passkeys d @ [r]\<rparr>"
  by (auto simp: insert_passkey_def split: if_splits)

lemma insert_binding_Inr: "insert_binding r d = Inr d' \<Longrightarrow> d' = d\<lparr>bindings := bindings d @ [r]\<rparr>"
  by (auto simp: insert_binding_def split: if_splits)

lemma insert_case_Inr: "insert_case r d = Inr d' \<Longrightarrow> d' = d\<lparr>cases := cases d @ [r]\<rparr>"
  by (auto simp: insert_case_def split: if_splits)

lemma insert_link_Inr: "insert_link r d = Inr d' \<Longrightarrow> d' = d\<lparr>links := links d @ [r]\<rparr>"
  by (auto simp: insert_link_def split: if_splits)

lemma insert_file_Inr: "insert_file r d = Inr d' \<Longrightarrow> d' = d\<lparr>files := files d @ [r]\<rparr>"
  by (auto simp: insert_file_def split: if_splits)

lemmas insert_Inr = insert_admin_Inr insert_session_Inr insert_recovery_Inr insert_passkey_Inr insert_binding_Inr insert_case_Inr insert_link_Inr insert_file_Inr

section \<open>The schema's invariant\<close>

definition ok_admins :: "db \<Rightarrow> bool" where
  "ok_admins d \<longleftrightarrow> distinct (map a_id (admins d)) \<and> distinct (map a_username (admins d))"

definition ok_sessions :: "db \<Rightarrow> bool" where
  "ok_sessions d \<longleftrightarrow> distinct (map s_id_hash (sessions d)) \<and> distinct (map s_public_id (sessions d))
     \<and> (\<forall>s \<in> set (sessions d). has_admin (s_admin_id s) d)"

definition ok_recovery :: "db \<Rightarrow> bool" where
  "ok_recovery d \<longleftrightarrow> (\<forall>r \<in> set (recovery_codes d). has_admin (r_admin_id r) d)"

definition ok_passkeys :: "db \<Rightarrow> bool" where
  "ok_passkeys d \<longleftrightarrow> distinct (map p_id (passkeys d)) \<and> distinct (map p_credential_id (passkeys d))
     \<and> (\<forall>p \<in> set (passkeys d). has_admin (p_admin_id p) d)"

definition ok_bindings :: "db \<Rightarrow> bool" where
  "ok_bindings d \<longleftrightarrow> distinct (map b_id (bindings d)) \<and> distinct (map b_session_hash (bindings d))
     \<and> (\<forall>b \<in> set (bindings d). has_session (b_session_hash b) d)"

definition ok_members :: "db \<Rightarrow> bool" where
  "ok_members d \<longleftrightarrow> distinct (map (\<lambda>m. (m_case_id m, m_admin_id m)) (members d))
     \<and> (\<forall>m \<in> set (members d). has_case (m_case_id m) d \<and> has_admin (m_admin_id m) d)"

definition ok_links :: "db \<Rightarrow> bool" where
  "ok_links d \<longleftrightarrow> distinct (map c_id (cases d)) \<and> distinct (map l_id (links d)) \<and> distinct (map l_token_hash (links d))
     \<and> (\<forall>l \<in> set (links d). has_case (l_case_id l) d)"

definition ok_files :: "db \<Rightarrow> bool" where
  "ok_files d \<longleftrightarrow> distinct (map f_id (files d))
     \<and> (\<forall>f \<in> set (files d). has_case (f_case_id f) d \<and> has_link (f_link_id f) d)"

text \<open>Primary keys and unique columns are unique, and no row refers to a row that is gone.\<close>

definition db_ok :: "db \<Rightarrow> bool" where
  "db_ok d \<longleftrightarrow> ok_admins d \<and> ok_sessions d \<and> ok_recovery d \<and> ok_passkeys d \<and> ok_bindings d
     \<and> ok_members d \<and> ok_links d \<and> ok_files d"

named_theorems db_intros \<open>statements keep the schema's invariant\<close>

lemmas ok_defs = ok_admins_def ok_sessions_def ok_recovery_def ok_passkeys_def ok_bindings_def
  ok_members_def ok_links_def ok_files_def

lemmas has_defs = has_admin_def has_session_def has_case_def has_link_def

lemma db_ok_empty: "db_ok empty_db"
  by (simp add: db_ok_def ok_defs empty_db_def)

lemma db_ok_audit [simp]: "db_ok (d\<lparr>audit_log := x\<rparr>) = db_ok d"
  by (simp add: db_ok_def ok_defs has_defs)

lemma image_update_where: "(\<And>r. g (f r) = g r) \<Longrightarrow> g ` set (update_where P f t) = g ` set t"
  by (metis map_update_where set_map)

lemma ball_update_where: "(\<And>r. Q (f r) = Q r) \<Longrightarrow> (\<forall>r \<in> set (update_where P f t). Q r) = (\<forall>r \<in> set t. Q r)"
  by (induction t) (simp_all add: update_where_def)

text \<open>A key that is not among the deleted ones still has its row.\<close>

lemma key_survives: "k \<in> g ` S \<Longrightarrow> k \<notin> g ` {s \<in> S. P s} \<Longrightarrow> k \<in> g ` {s \<in> S. \<not> P s}"
  by blast

lemma db_ok_update_admins [db_intros]:
  assumes "\<And>r. a_id (f r) = a_id r" and "\<And>r. a_username (f r) = a_username r"
  shows "db_ok (update_admins P f d) = db_ok d"
  by (simp add: db_ok_def ok_defs has_defs map_update_where [of a_id, OF assms(1)]
      map_update_where [of a_username, OF assms(2)] image_update_where [of a_id, OF assms(1)])

lemma db_ok_update_sessions [db_intros]:
  assumes "\<And>r. s_id_hash (f r) = s_id_hash r" and "\<And>r. s_public_id (f r) = s_public_id r"
    and "\<And>r. s_admin_id (f r) = s_admin_id r"
  shows "db_ok (update_sessions P f d) = db_ok d"
  by (simp add: db_ok_def ok_defs has_defs map_update_where [of s_id_hash, OF assms(1)]
      map_update_where [of s_public_id, OF assms(2)] image_update_where [of s_id_hash, OF assms(1)]
      ball_update_where [of "\<lambda>s. s_admin_id s \<in> a_id ` set (admins d)"] assms(3))

lemma db_ok_update_files [db_intros]:
  assumes "\<And>r. f_id (f r) = f_id r" and "\<And>r. f_case_id (f r) = f_case_id r"
    and "\<And>r. f_link_id (f r) = f_link_id r"
  shows "db_ok (update_files P f d) = db_ok d"
  by (simp add: db_ok_def ok_defs has_defs map_update_where [of f_id, OF assms(1)]
      ball_update_where [of "\<lambda>r. f_case_id r \<in> c_id ` set (cases d) \<and> f_link_id r \<in> l_id ` set (links d)"] assms(2,3))

lemma db_ok_update_links [db_intros]:
  assumes "\<And>r. l_id (f r) = l_id r" and "\<And>r. l_token_hash (f r) = l_token_hash r"
    and "\<And>r. l_case_id (f r) = l_case_id r"
  shows "db_ok (update_links P f d) = db_ok d"
  by (simp add: db_ok_def ok_defs has_defs map_update_where [of l_id, OF assms(1)]
      map_update_where [of l_token_hash, OF assms(2)] image_update_where [of l_id, OF assms(1)]
      ball_update_where [of "\<lambda>r. l_case_id r \<in> c_id ` set (cases d)"] assms(3))

lemma db_ok_update_passkeys [db_intros]:
  assumes "\<And>r. p_id (f r) = p_id r" and "\<And>r. p_credential_id (f r) = p_credential_id r"
    and "\<And>r. p_admin_id (f r) = p_admin_id r"
  shows "db_ok (update_passkeys P f d) = db_ok d"
  by (simp add: db_ok_def ok_defs has_defs map_update_where [of p_id, OF assms(1)]
      map_update_where [of p_credential_id, OF assms(2)]
      ball_update_where [of "\<lambda>r. p_admin_id r \<in> a_id ` set (admins d)"] assms(3))

lemma db_ok_update_bindings [db_intros]:
  assumes "\<And>r. b_id (f r) = b_id r" and "\<And>r. b_session_hash (f r) = b_session_hash r"
  shows "db_ok (update_bindings P f d) = db_ok d"
  by (simp add: db_ok_def ok_defs has_defs map_update_where [of b_id, OF assms(1)]
      map_update_where [of b_session_hash, OF assms(2)]
      ball_update_where [of "\<lambda>r. b_session_hash r \<in> s_id_hash ` set (sessions d)"] assms(2))

lemma db_ok_delete_sessions [db_intros]:
  assumes "db_ok d"
  shows "db_ok (delete_sessions P d)"
proof -
  have "ok_bindings (delete_sessions P d)"
    using assms key_survives [of _ s_id_hash "set (sessions d)" P]
    by (simp add: db_ok_def ok_bindings_def has_session_def delete_sessions_def Let_def set_delete_where
        distinct_delete_where)
  moreover have "ok_sessions (delete_sessions P d)"
    using assms by (auto simp: db_ok_def ok_sessions_def has_admin_def set_delete_where)
  ultimately show ?thesis
    using assms by (simp add: db_ok_def ok_admins_def ok_recovery_def ok_passkeys_def ok_members_def
        ok_links_def ok_files_def has_defs)
qed

lemma db_ok_delete_recovery [db_intros]:
  "db_ok d \<Longrightarrow> db_ok (d\<lparr>recovery_codes := delete_where P (recovery_codes d)\<rparr>)"
  by (auto simp: db_ok_def ok_defs has_defs set_delete_where)

lemma db_ok_update_recovery [db_intros]:
  assumes "\<And>r. r_admin_id (f r) = r_admin_id r"
  shows "db_ok (d\<lparr>recovery_codes := update_where P f (recovery_codes d)\<rparr>) = db_ok d"
  by (simp add: db_ok_def ok_defs has_defs assms
      ball_update_where [of "\<lambda>r. r_admin_id r \<in> a_id ` set (admins d)"])

lemma db_ok_delete_passkeys [db_intros]:
  "db_ok d \<Longrightarrow> db_ok (d\<lparr>passkeys := delete_where P (passkeys d)\<rparr>)"
  by (auto simp: db_ok_def ok_defs has_defs set_delete_where)

lemma db_ok_delete_members [db_intros]:
  "db_ok d \<Longrightarrow> db_ok (d\<lparr>members := delete_where P (members d)\<rparr>)"
  by (auto simp: db_ok_def ok_defs has_defs set_delete_where)


lemma db_ok_insert_admin [db_intros]: "db_ok d \<Longrightarrow> insert_admin r d = Inr d' \<Longrightarrow> db_ok d'"
  by (auto simp: db_ok_def ok_defs has_defs insert_admin_def split: if_splits)

lemma db_ok_insert_session [db_intros]: "db_ok d \<Longrightarrow> insert_session r d = Inr d' \<Longrightarrow> db_ok d'"
  by (auto simp: db_ok_def ok_defs has_defs insert_session_def split: if_splits)

lemma db_ok_insert_recovery [db_intros]: "db_ok d \<Longrightarrow> insert_recovery r d = Inr d' \<Longrightarrow> db_ok d'"
  by (auto simp: db_ok_def ok_defs has_defs insert_recovery_def split: if_splits)

lemma db_ok_insert_passkey [db_intros]: "db_ok d \<Longrightarrow> insert_passkey r d = Inr d' \<Longrightarrow> db_ok d'"
  by (auto simp: db_ok_def ok_defs has_defs insert_passkey_def split: if_splits)

lemma db_ok_insert_binding [db_intros]: "db_ok d \<Longrightarrow> insert_binding r d = Inr d' \<Longrightarrow> db_ok d'"
  by (auto simp: db_ok_def ok_defs has_defs insert_binding_def split: if_splits)

lemma db_ok_insert_case [db_intros]: "db_ok d \<Longrightarrow> insert_case r d = Inr d' \<Longrightarrow> db_ok d'"
  by (auto simp: db_ok_def ok_defs has_defs insert_case_def split: if_splits)

lemma db_ok_insert_link [db_intros]: "db_ok d \<Longrightarrow> insert_link r d = Inr d' \<Longrightarrow> db_ok d'"
  by (auto simp: db_ok_def ok_defs has_defs insert_link_def split: if_splits)

lemma db_ok_insert_file [db_intros]: "db_ok d \<Longrightarrow> insert_file r d = Inr d' \<Longrightarrow> db_ok d'"
  by (auto simp: db_ok_def ok_defs has_defs insert_file_def split: if_splits)

lemma db_ok_delete_admins [db_intros]:
  assumes "db_ok d"
  shows "db_ok (delete_admins P d)"
proof -
  let ?gone = "a_id ` {a \<in> set (admins d). P a}"
  let ?d1 = "delete_sessions (\<lambda>s. s_admin_id s \<in> ?gone) d"
  have d1: "db_ok ?d1" by (rule db_ok_delete_sessions [OF assms])
  note stays = key_survives [of _ a_id "set (admins d)" P]
  have "ok_sessions (delete_admins P d)" "ok_recovery (delete_admins P d)" "ok_passkeys (delete_admins P d)"
    "ok_members (delete_admins P d)"
    using assms stays
    by (simp_all add: db_ok_def ok_sessions_def ok_recovery_def ok_passkeys_def ok_members_def has_defs
        delete_admins_def Let_def set_delete_where distinct_delete_where)
  moreover have "ok_bindings (delete_admins P d)"
    using d1 by (simp add: db_ok_def ok_bindings_def has_session_def delete_admins_def Let_def)
  moreover have "ok_admins (delete_admins P d)" "ok_links (delete_admins P d)" "ok_files (delete_admins P d)"
    using assms by (simp_all add: db_ok_def ok_admins_def ok_links_def ok_files_def has_defs distinct_delete_where)
  ultimately show ?thesis by (simp add: db_ok_def)
qed

section \<open>Migrations run once\<close>

lemma migrate_loop_applied:
  "migrate_loop ap nw applied fs acc st = (Inr r, st') \<Longrightarrow> set applied \<subseteq> fst ` set (mg_applied st) \<Longrightarrow>
   set fs \<union> fst ` set (mg_applied st) \<subseteq> fst ` set (mg_applied st')"
proof (induction fs arbitrary: acc st)
  case Nil
  then show ?case by simp
next
  case (Cons f fs)
  show ?case
  proof (cases "f \<in> set applied")
    case True
    then have "migrate_loop ap nw applied fs acc st = (Inr r, st')" using Cons.prems(1) by simp
    note ih = Cons.IH [OF this Cons.prems(2)]
    have "f \<in> fst ` set (mg_applied st)" using True Cons.prems(2) by (rule rev_subsetD)
    with ih have "f \<in> fst ` set (mg_applied st')" by (simp only: Un_subset_iff) (erule conjE, erule subsetD)
    with ih show ?thesis by simp
  next
    case False
    then obtain sch where "ap f (mg_schema st) = Inr sch"
      using Cons.prems(1) by (cases "ap f (mg_schema st)") simp_all
    with False Cons.prems(1)
    have *: "migrate_loop ap nw applied fs (acc @ [f]) (st\<lparr>mg_schema := sch, mg_applied := mg_applied st @ [(f, nw)]\<rparr>) = (Inr r, st')"
      by (simp split: if_splits)
    from Cons.prems(2) have "set applied \<subseteq> fst ` set (mg_applied (st\<lparr>mg_schema := sch, mg_applied := mg_applied st @ [(f, nw)]\<rparr>))"
     by auto
    from Cons.IH [OF * this] show ?thesis by simp
  qed
qed
lemma migrate_loop_done: "set fs \<subseteq> set applied \<Longrightarrow> migrate_loop ap nw applied fs acc st = (Inr acc, st)"
  by (induction fs) auto

lemma migrate_loop_ran: "migrate_loop ap nw applied fs acc st = (Inr r, st') \<Longrightarrow> r = acc @ filter (\<lambda>f. f \<notin> set applied) fs"
proof (induction fs arbitrary: acc st)
  case (Cons f fs)
  then show ?case by (cases "ap f (mg_schema st)") (auto split: if_splits dest!: Cons.IH)
qed simp

text \<open>The SQL of some files, one after the other; the first that fails ends it.\<close>

primrec run_sql :: "(string \<Rightarrow> 's \<Rightarrow> exn + 's) \<Rightarrow> string list \<Rightarrow> 's \<Rightarrow> exn + 's" where
  "run_sql apply_sql [] s = Inr s"
| "run_sql apply_sql (f # fs) s = (case apply_sql f s of Inl e \<Rightarrow> Inl e | Inr s1 \<Rightarrow> run_sql apply_sql fs s1)"

lemma migrate_loop_effect:
  "migrate_loop ap nw applied fs acc st = (Inr r, st') \<Longrightarrow>
   run_sql ap (filter (\<lambda>f. f \<notin> set applied) fs) (mg_schema st) = Inr (mg_schema st') \<and>
   mg_applied st' = mg_applied st @ map (\<lambda>f. (f, nw)) (filter (\<lambda>f. f \<notin> set applied) fs)"
proof (induction fs arbitrary: acc st)
  case (Cons f fs)
  then show ?case by (cases "ap f (mg_schema st)") (auto split: if_splits dest!: Cons.IH)
qed simp

text \<open>C29: a migration run that succeeds runs the SQL of exactly the files that were not applied before, each once and in
  sorted order, on the schema, and records exactly these names; running it again on what it left
  applies nothing and changes nothing.\<close>

theorem migrate_idempotent:
  assumes "migrate apply_sql nw dir st = (Inr r, st')"
  shows "r = filter (\<lambda>f. f \<notin> fst ` set (mg_applied st)) (sort_key (map code) (filter (ends_with ''.sql'') dir)) \<and>
    run_sql apply_sql r (mg_schema st) = Inr (mg_schema st') \<and> mg_applied st' = mg_applied st @ map (\<lambda>f. (f, nw)) r \<and>
    migrate apply_sql nw' dir st' = (Inr [], st')"
proof -
  let ?fs = "sort_key (map code) (filter (ends_with ''.sql'') dir)"
  have run: "migrate_loop apply_sql nw (map fst (mg_applied st)) ?fs [] st = (Inr r, st')"
    using assms by (simp add: migrate_def Let_def)
  have "set ?fs \<subseteq> fst ` set (mg_applied st')"
    using migrate_loop_applied [OF run] by simp
  then have "migrate apply_sql nw' dir st' = (Inr [], st')"
    unfolding migrate_def Let_def by (intro migrate_loop_done) simp
  with migrate_loop_ran [OF run] migrate_loop_effect [OF run] show ?thesis by simp
qed

theorem migrate_idempotent_witness:
  "migrate (\<lambda>f s. if f = ''002.sql'' \<and> s = (0::nat) then Inl SqliteConstraint else Inr (s + 1)) 7
     [''002.sql'', ''README.md'', ''001.sql''] \<lparr>mg_schema = 0, mg_applied = []\<rparr>
     = (Inr [''001.sql'', ''002.sql''], \<lparr>mg_schema = 2, mg_applied = [(''001.sql'', 7), (''002.sql'', 7)]\<rparr>) \<and>
   migrate (\<lambda>f s. if f = ''002.sql'' \<and> s = (0::nat) then Inl SqliteConstraint else Inr (s + 1)) 8
     [''002.sql'', ''README.md'', ''001.sql''] \<lparr>mg_schema = 2, mg_applied = [(''001.sql'', 7), (''002.sql'', 7)]\<rparr>
     = (Inr [], \<lparr>mg_schema = 2, mg_applied = [(''001.sql'', 7), (''002.sql'', 7)]\<rparr>)"
proof -
  have run: "migrate (\<lambda>f s. if f = ''002.sql'' \<and> s = (0::nat) then Inl SqliteConstraint else Inr (s + 1)) 7
     [''002.sql'', ''README.md'', ''001.sql''] \<lparr>mg_schema = 0, mg_applied = []\<rparr>
     = (Inr [''001.sql'', ''002.sql''], \<lparr>mg_schema = 2, mg_applied = [(''001.sql'', 7), (''002.sql'', 7)]\<rparr>)"
    by code_simp
  from migrate_idempotent [OF run, of 8] run show ?thesis by blast
qed

end
