(* ===== verification/Auth.thy ===== *)
theory Auth
  imports Db
begin

text \<open>
  src/services/auth.ts: panel accounts, the password login, sessions, the TOTP second factor
  with its lockouts, and recovery codes. \<open>C\<close> is node:crypto, \<open>nw\<close> the moment \<open>now()\<close> and
  \<open>Date.now()\<close> read in one synchronous call, and the arguments named after a draw are the random
  bytes the code takes. A function that can throw answers with its outcome and the database it
  leaves.
\<close>

section \<open>Accounts\<close>

record admin =
  ad_id :: string
  ad_username :: string
  ad_created_at :: time
  ad_totp_enabled :: bool
  ad_role :: role
  ad_must_change :: bool
  ad_passkeys :: nat

record session_meta =
  meta_ip :: "string option"
  meta_user_agent :: "string option"

record session =
  sv_admin :: admin
  sv_csrf_token :: string
  sv_expires_at :: time
  sv_totp_verified :: bool
  sv_totp_attempts :: nat
  sv_public_id :: string
  sv_second_factor :: "second_factor option"
  sv_confirmed_until :: "time option"

definition hasSecondFactor :: "admin \<Rightarrow> bool" where
  "hasSecondFactor a \<longleftrightarrow> ad_totp_enabled a \<or> 0 < ad_passkeys a"

definition MIN_PASSWORD_LENGTH :: nat where "MIN_PASSWORD_LENGTH = 12"
definition MAX_TOTP_ATTEMPTS :: nat where "MAX_TOTP_ATTEMPTS = 5"
definition TOTP_ACCOUNT_LOCK_THRESHOLD :: nat where "TOTP_ACCOUNT_LOCK_THRESHOLD = 10"
definition TOTP_ACCOUNT_LOCK_MS :: time where "TOTP_ACCOUNT_LOCK_MS = 15 * 60000"

definition passkey_count :: "db \<Rightarrow> string \<Rightarrow> nat" where
  "passkey_count d i = length (filter (\<lambda>p. p_admin_id p = i) (passkeys d))"

definition toAdmin :: "db \<Rightarrow> admin_row \<Rightarrow> admin" where
  "toAdmin d r =
     \<lparr>ad_id = a_id r, ad_username = a_username r, ad_created_at = a_created_at r,
      ad_totp_enabled = (a_totp_enabled_at r \<noteq> None), ad_role = a_role r,
      ad_must_change = a_must_change r, ad_passkeys = passkey_count d (a_id r)\<rparr>"

definition adminById :: "db \<Rightarrow> string \<Rightarrow> admin_row option" where
  "adminById d i = get_by a_id i (admins d)"

definition adminByName :: "db \<Rightarrow> string \<Rightarrow> admin_row option" where
  "adminByName d u = get_by a_username u (admins d)"

definition isValidUsername :: "string \<Rightarrow> bool" where
  "isValidUsername u \<longleftrightarrow> 2 \<le> length u \<and> length u \<le> 64 \<and> list_all (\<lambda>c. is_alnum c \<or> c \<in> set ''._@-'') u"

definition password_too_short :: exn where
  "password_too_short = JsError (''Password must be at least '' @ string_of_nat MIN_PASSWORD_LENGTH @ '' characters'')"

definition createAdmin ::
  "node_crypto \<Rightarrow> time \<Rightarrow> byte list \<Rightarrow> byte list \<Rightarrow> string \<Rightarrow> string \<Rightarrow> role \<Rightarrow> bool \<Rightarrow> db \<Rightarrow> admin result \<times> db" where
  "createAdmin C nw id_rnd salt username password role must_change d =
     (if \<not> isValidUsername username then (Inl (JsError ''Username must be 2-64 chars: letters, digits, . _ @ -''), d)
      else if length password < MIN_PASSWORD_LENGTH then (Inl password_too_short, d)
      else
        let adm = \<lparr>ad_id = newId ''a'' id_rnd, ad_username = username, ad_created_at = nw, ad_totp_enabled = False,
                   ad_role = role, ad_must_change = must_change, ad_passkeys = 0\<rparr>
        in case hashPassword C password salt of
             Inl e \<Rightarrow> (Inl e, d)
           | Inr h \<Rightarrow>
             (case insert_admin
                  \<lparr>a_id = ad_id adm, a_username = username, a_password_hash = h, a_created_at = nw, a_role = role,
                   a_disabled_at = None, a_must_change = must_change, a_last_login_at = None, a_totp_secret = None,
                   a_totp_enabled_at = None, a_totp_last_step = None, a_totp_failed = 0, a_totp_locked_until = None\<rparr> d of
                Inl e \<Rightarrow> (Inl e, d)
              | Inr d' \<Rightarrow> (Inr adm, d')))"

definition countAdmins :: "db \<Rightarrow> nat" where
  "countAdmins d = length (admins d)"

definition getAdmin :: "db \<Rightarrow> string \<Rightarrow> admin option" where
  "getAdmin d i = map_option (toAdmin d) (adminById d i)"

definition findAdminByUsername :: "db \<Rightarrow> string \<Rightarrow> admin option" where
  "findAdminByUsername d u = map_option (toAdmin d) (adminByName d u)"

definition setAdminPassword ::
  "node_crypto \<Rightarrow> byte list \<Rightarrow> string \<Rightarrow> string \<Rightarrow> db \<Rightarrow> bool result \<times> db" where
  "setAdminPassword C salt username password d =
     (if length password < MIN_PASSWORD_LENGTH then (Inl password_too_short, d)
      else case hashPassword C password salt of
        Inl e \<Rightarrow> (Inl e, d)
      | Inr h \<Rightarrow>
        let n = changes (\<lambda>a. a_username a = username) (admins d);
            d1 = update_admins (\<lambda>a. a_username a = username) (\<lambda>a. a\<lparr>a_password_hash := h, a_must_change := False\<rparr>) d;
            ids = a_id ` {a \<in> set (admins d1). a_username a = username};
            d2 = delete_sessions (\<lambda>s. s_admin_id s \<in> ids) d1
        in (Inr (0 < n), d2))"

definition changeAdminPassword ::
  "node_crypto \<Rightarrow> byte list \<Rightarrow> string \<Rightarrow> string \<Rightarrow> string \<Rightarrow> db \<Rightarrow> bool result \<times> db" where
  "changeAdminPassword C salt adminId current new d =
     (if length new < MIN_PASSWORD_LENGTH then (Inl password_too_short, d)
      else case adminById d adminId of
        None \<Rightarrow> (Inr False, d)
      | Some a \<Rightarrow>
        (case verifyPassword C current (a_password_hash a) of
           Inl e \<Rightarrow> (Inl e, d)
         | Inr False \<Rightarrow> (Inr False, d)
         | Inr True \<Rightarrow>
           if new = current then (Inl (JsError ''The new password must differ from the current one''), d)
           else (case hashPassword C new salt of
                   Inl e \<Rightarrow> (Inl e, d)
                 | Inr h \<Rightarrow>
                   (Inr True, update_admins (\<lambda>r. a_id r = a_id a) (\<lambda>r. r\<lparr>a_password_hash := h, a_must_change := False\<rparr>) d))))"

text \<open>\<open>dummy\<close> is the hash computed at start-up that unknown names are checked against.\<close>

definition authenticate :: "node_crypto \<Rightarrow> string \<Rightarrow> string \<Rightarrow> string \<Rightarrow> db \<Rightarrow> admin option result" where
  "authenticate C dummy username password d =
     (let row = adminByName d username
      in case verifyPassword C password (case row of None \<Rightarrow> dummy | Some r \<Rightarrow> a_password_hash r) of
           Inl e \<Rightarrow> Inl e
         | Inr ok \<Rightarrow>
           Inr (case row of
                  None \<Rightarrow> None
                | Some r \<Rightarrow> if \<not> ok \<or> a_disabled_at r \<noteq> None then None else Some (toAdmin d r)))"

definition recordLogin :: "time \<Rightarrow> string \<Rightarrow> db \<Rightarrow> db" where
  "recordLogin nw i d = update_admins (\<lambda>a. a_id a = i) (\<lambda>a. a\<lparr>a_last_login_at := Some nw\<rparr>) d"

section \<open>Sessions\<close>

record session_draws =
  sd_id :: "byte list"
  sd_csrf :: "byte list"
  sd_public :: "byte list"

definition createSession ::
  "node_crypto \<Rightarrow> time \<Rightarrow> session_draws \<Rightarrow> admin \<Rightarrow> time \<Rightarrow> session_meta \<Rightarrow> db \<Rightarrow> (string \<times> string) result \<times> db" where
  "createSession C nw rnd adm ttlMs meta d =
     (let sessionId = newSessionId (sd_id rnd); csrfToken = newCsrfToken (sd_csrf rnd)
      in case insert_session
             \<lparr>s_id_hash = sha256Hex C sessionId, s_admin_id = ad_id adm, s_csrf_token = csrfToken, s_created_at = nw,
              s_last_seen_at = nw, s_expires_at = nw + ttlMs, s_totp_verified = (\<not> hasSecondFactor adm),
              s_totp_attempts = 0, s_public_id = newId ''s'' (sd_public rnd),
              s_ip = map_option (take 64) (meta_ip meta), s_user_agent = map_option (take 300) (meta_user_agent meta),
              s_second_factor = None, s_confirmed_until = None, s_wa_challenge = None, s_wa_purpose = None,
              s_wa_expires_at = None, s_dbsc_challenge = None, s_dbsc_offered_at = None\<rparr> d of
           Inl e \<Rightarrow> (Inl e, d)
         | Inr d' \<Rightarrow> (Inr (sessionId, csrfToken), d'))"

definition markConfirmed :: "node_crypto \<Rightarrow> time \<Rightarrow> string \<Rightarrow> time \<Rightarrow> db \<Rightarrow> time \<times> db" where
  "markConfirmed C nw sessionId ms d =
     (let until = nw + ms
      in (until, update_sessions (\<lambda>s. s_id_hash s = sha256Hex C sessionId) (\<lambda>s. s\<lparr>s_confirmed_until := Some until\<rparr>) d))"

definition completeSecondFactor ::
  "node_crypto \<Rightarrow> time \<Rightarrow> session_draws \<Rightarrow> string \<Rightarrow> admin \<Rightarrow> time \<Rightarrow> second_factor \<Rightarrow> db \<Rightarrow> (string \<times> string) result \<times> db" where
  "completeSecondFactor C nw rnd pendingIdHash adm ttlMs factor d =
     (let old = get_by s_id_hash pendingIdHash (sessions d);
          meta = \<lparr>meta_ip = Option.bind old s_ip, meta_user_agent = Option.bind old s_user_agent\<rparr>;
          d1 = update_admins (\<lambda>a. a_id a = ad_id adm) (\<lambda>a. a\<lparr>a_totp_failed := 0, a_totp_locked_until := None\<rparr>) d;
          d2 = delete_sessions (\<lambda>s. s_id_hash s = pendingIdHash) d1
      in case createSession C nw rnd adm ttlMs meta d2 of
           (Inl e, d3) \<Rightarrow> (Inl e, d3)
         | (Inr fresh, d3) \<Rightarrow>
           (Inr fresh, update_sessions (\<lambda>s. s_id_hash s = sha256Hex C (fst fresh))
                         (\<lambda>s. s\<lparr>s_totp_verified := True, s_second_factor := Some factor\<rparr>) d3))"

definition getSession :: "node_crypto \<Rightarrow> time \<Rightarrow> string \<Rightarrow> db \<Rightarrow> session option \<times> db" where
  "getSession C nw sessionId d =
     (if sessionId = [] \<or> 128 < length sessionId then (None, d)
      else
        let idHash = sha256Hex C sessionId
        in case get_by s_id_hash idHash (sessions d) of
             None \<Rightarrow> (None, d)
           | Some s \<Rightarrow>
             (case adminById d (s_admin_id s) of
                None \<Rightarrow> (None, d)
              | Some a \<Rightarrow>
                if s_expires_at s \<le> nw \<or> a_disabled_at a \<noteq> None
                then (None, delete_sessions (\<lambda>r. s_id_hash r = idHash) d)
                else
                  let adm = toAdmin d a
                  in (Some \<lparr>sv_admin = adm, sv_csrf_token = s_csrf_token s, sv_expires_at = s_expires_at s,
                            sv_totp_verified = (\<not> hasSecondFactor adm \<or> s_totp_verified s),
                            sv_totp_attempts = s_totp_attempts s, sv_public_id = s_public_id s,
                            sv_second_factor = s_second_factor s, sv_confirmed_until = s_confirmed_until s\<rparr>,
                      update_sessions (\<lambda>r. s_id_hash r = idHash) (\<lambda>r. r\<lparr>s_last_seen_at := nw\<rparr>) d)))"

definition destroySession :: "node_crypto \<Rightarrow> string \<Rightarrow> db \<Rightarrow> db" where
  "destroySession C sessionId d = delete_sessions (\<lambda>s. s_id_hash s = sha256Hex C sessionId) d"

definition destroyOtherSessions :: "node_crypto \<Rightarrow> string \<Rightarrow> string \<Rightarrow> db \<Rightarrow> db" where
  "destroyOtherSessions C adminId keep d =
     delete_sessions (\<lambda>s. s_admin_id s = adminId \<and> s_id_hash s \<noteq> sha256Hex C keep) d"

definition purgeExpiredSessions :: "time \<Rightarrow> db \<Rightarrow> nat \<times> db" where
  "purgeExpiredSessions nw d =
     (changes (\<lambda>s. s_expires_at s \<le> nw) (sessions d), delete_sessions (\<lambda>s. s_expires_at s \<le> nw) d)"

section \<open>The second factor\<close>

datatype totp_login_result =
    TotpOk string string second_factor
  | TotpInvalid
  | TotpLocked "time option"

datatype confirm_result = ConfirmOk | ConfirmInvalid | ConfirmLocked

definition recordTotpFailure :: "admin_row \<Rightarrow> time \<Rightarrow> db \<Rightarrow> time option \<times> db" where
  "recordTotpFailure a nowMs d =
     (let count = a_totp_failed a + 1
      in if TOTP_ACCOUNT_LOCK_THRESHOLD \<le> count
         then
           let until = nowMs + TOTP_ACCOUNT_LOCK_MS;
               d1 = update_admins (\<lambda>r. a_id r = a_id a) (\<lambda>r. r\<lparr>a_totp_failed := 0, a_totp_locked_until := Some until\<rparr>) d;
               d2 = delete_sessions (\<lambda>s. s_admin_id s = a_id a \<and> \<not> s_totp_verified s) d1
           in (Some until, d2)
         else (None, update_admins (\<lambda>r. a_id r = a_id a) (\<lambda>r. r\<lparr>a_totp_failed := count\<rparr>) d))"

definition isTotpLocked :: "admin_row \<Rightarrow> time \<Rightarrow> bool" where
  "isTotpLocked a nowMs \<longleftrightarrow> (case a_totp_locked_until a of None \<Rightarrow> False | Some u \<Rightarrow> nowMs < u)"

definition totpLockedUntil :: "db \<Rightarrow> string \<Rightarrow> time \<Rightarrow> time option" where
  "totpLockedUntil d adminId nowMs =
     (case adminById d adminId of
        None \<Rightarrow> None
      | Some a \<Rightarrow> if isTotpLocked a nowMs then a_totp_locked_until a else None)"

definition consumeRecoveryCode :: "node_crypto \<Rightarrow> time \<Rightarrow> string \<Rightarrow> string \<Rightarrow> db \<Rightarrow> bool \<times> db" where
  "consumeRecoveryCode C nw adminId cd d =
     (let norm = normalizeRecoveryCode cd
      in if length norm \<noteq> 10 then (False, d)
         else
           let hit = (\<lambda>r. r_admin_id r = adminId \<and> r_code_hash r = sha256Hex C norm \<and> r_used_at r = None)
           in (0 < changes hit (recovery_codes d),
               d\<lparr>recovery_codes := update_where hit (\<lambda>r. r\<lparr>r_used_at := Some nw\<rparr>) (recovery_codes d)\<rparr>))"

text \<open>The expression both login and confirmation evaluate: the accepted time step, if any.\<close>

definition totp_step_of :: "node_crypto \<Rightarrow> admin_row \<Rightarrow> string \<Rightarrow> time \<Rightarrow> int option result" where
  "totp_step_of C a cd nowMs =
     (case a_totp_secret a of
        None \<Rightarrow> Inr None
      | Some secret \<Rightarrow>
        if secret \<noteq> [] \<and> a_totp_enabled_at a \<noteq> None
        then verifyTotp C secret cd nowMs (a_totp_last_step a) else Inr None)"

text \<open>A code is an accepted TOTP code (its step is remembered) or an unused recovery code (now used).\<close>

definition session_factor :: "node_crypto \<Rightarrow> time \<Rightarrow> admin_row \<Rightarrow> string \<Rightarrow> time \<Rightarrow> db \<Rightarrow> second_factor option result \<times> db" where
  "session_factor C nw a cd nowMs d =
     (case totp_step_of C a cd nowMs of
        Inl e \<Rightarrow> (Inl e, d)
      | Inr (Some step) \<Rightarrow>
        (Inr (Some FTotp), update_admins (\<lambda>r. a_id r = a_id a) (\<lambda>r. r\<lparr>a_totp_last_step := Some step\<rparr>) d)
      | Inr None \<Rightarrow>
        (case consumeRecoveryCode C nw (a_id a) cd d of
           (True, d1) \<Rightarrow> (Inr (Some FRecovery), d1)
         | (False, d1) \<Rightarrow> (Inr None, d1)))"

definition verifySessionTotp_body ::
  "node_crypto \<Rightarrow> time \<Rightarrow> session_draws \<Rightarrow> string \<Rightarrow> string \<Rightarrow> time \<Rightarrow> time \<Rightarrow> db \<Rightarrow> totp_login_result result \<times> db" where
  "verifySessionTotp_body C nw rnd idHash cd ttlMs nowMs d =
     (case get_by s_id_hash idHash (sessions d) of
        None \<Rightarrow> (Inr (TotpLocked None), d)
      | Some s \<Rightarrow>
        (case adminById d (s_admin_id s) of
           None \<Rightarrow> (Inr TotpInvalid, d)
         | Some a \<Rightarrow>
           if \<not> hasSecondFactor (toAdmin d a) then (Inr TotpInvalid, d)
           else if isTotpLocked a nowMs then (Inr (TotpLocked (a_totp_locked_until a)), d)
           else
             (case session_factor C nw a cd nowMs d of
                (Inl e, d1) \<Rightarrow> (Inl e, d1)
              | (Inr (Some factor), d1) \<Rightarrow>
                (case completeSecondFactor C nw rnd idHash (toAdmin d a) ttlMs factor d1 of
                   (Inl e, d2) \<Rightarrow> (Inl e, d2)
                 | (Inr (sid, csrf), d2) \<Rightarrow> (Inr (TotpOk sid csrf factor), d2))
              | (Inr None, d1) \<Rightarrow>
                (case recordTotpFailure a nowMs d1 of
                   (Some until, d2) \<Rightarrow> (Inr (TotpLocked (Some until)), d2)
                 | (None, d2) \<Rightarrow>
                   let attempts = s_totp_attempts s + 1
                   in if MAX_TOTP_ATTEMPTS \<le> attempts
                      then (Inr (TotpLocked None), delete_sessions (\<lambda>r. s_id_hash r = idHash) d2)
                      else (Inr TotpInvalid,
                            update_sessions (\<lambda>r. s_id_hash r = idHash) (\<lambda>r. r\<lparr>s_totp_attempts := attempts\<rparr>) d2)))))"

definition verifySessionTotp ::
  "node_crypto \<Rightarrow> time \<Rightarrow> session_draws \<Rightarrow> string \<Rightarrow> string \<Rightarrow> time \<Rightarrow> time \<Rightarrow> db \<Rightarrow> totp_login_result result \<times> db" where
  "verifySessionTotp C nw rnd sessionId cd ttlMs nowMs =
     transaction (verifySessionTotp_body C nw rnd (sha256Hex C sessionId) cd ttlMs nowMs)"

definition verifyConfirmCode_body ::
  "node_crypto \<Rightarrow> time \<Rightarrow> string \<Rightarrow> string \<Rightarrow> time \<Rightarrow> db \<Rightarrow> confirm_result result \<times> db" where
  "verifyConfirmCode_body C nw adminId cd nowMs d =
     (case adminById d adminId of
        None \<Rightarrow> (Inr ConfirmInvalid, d)
      | Some a \<Rightarrow>
        if isTotpLocked a nowMs then (Inr ConfirmLocked, d)
        else
          (case totp_step_of C a cd nowMs of
             Inl e \<Rightarrow> (Inl e, d)
           | Inr (Some step) \<Rightarrow>
             (Inr ConfirmOk, update_admins (\<lambda>r. a_id r = adminId) (\<lambda>r. r\<lparr>a_totp_last_step := Some step, a_totp_failed := 0\<rparr>) d)
           | Inr None \<Rightarrow>
             (case consumeRecoveryCode C nw adminId cd d of
                (True, d1) \<Rightarrow> (Inr ConfirmOk, d1)
              | (False, d1) \<Rightarrow>
                (case recordTotpFailure a nowMs d1 of
                   (Some until, d2) \<Rightarrow> (Inr ConfirmLocked, d2)
                 | (None, d2) \<Rightarrow> (Inr ConfirmInvalid, d2)))))"

definition verifyConfirmCode ::
  "node_crypto \<Rightarrow> time \<Rightarrow> string \<Rightarrow> string \<Rightarrow> time \<Rightarrow> db \<Rightarrow> confirm_result result \<times> db" where
  "verifyConfirmCode C nw adminId cd nowMs = transaction (verifyConfirmCode_body C nw adminId cd nowMs)"

section \<open>Enrolment and removal\<close>

definition beginTotpEnrolment :: "byte list \<Rightarrow> string \<Rightarrow> db \<Rightarrow> string result \<times> db" where
  "beginTotpEnrolment rnd adminId d =
     (case adminById d adminId of
        None \<Rightarrow> (Inl (JsError ''admin not found''), d)
      | Some a \<Rightarrow>
        if a_totp_enabled_at a \<noteq> None then (Inl (JsError ''TOTP is already enabled''), d)
        else
          let secret = generateTotpSecret rnd
          in (Inr secret, update_admins (\<lambda>r. a_id r = adminId) (\<lambda>r. r\<lparr>a_totp_secret := Some secret, a_totp_last_step := None\<rparr>) d))"

definition pendingTotpSecret :: "db \<Rightarrow> string \<Rightarrow> string option" where
  "pendingTotpSecret d adminId =
     (case adminById d adminId of
        None \<Rightarrow> None
      | Some a \<Rightarrow> if a_totp_enabled_at a = None then a_totp_secret a else None)"

fun insert_codes :: "node_crypto \<Rightarrow> string \<Rightarrow> string list \<Rightarrow> db \<Rightarrow> exn + db" where
  "insert_codes C adminId [] d = Inr d"
| "insert_codes C adminId (c # cs) d =
     (case insert_recovery \<lparr>r_admin_id = adminId, r_code_hash = sha256Hex C (normalizeRecoveryCode c), r_used_at = None\<rparr> d of
        Inl e \<Rightarrow> Inl e
      | Inr d' \<Rightarrow> insert_codes C adminId cs d')"

text \<open>Called inside a transaction, so a failed insert has no database of its own to leave.\<close>

definition replaceRecoveryCodes :: "node_crypto \<Rightarrow> byte list list \<Rightarrow> string \<Rightarrow> db \<Rightarrow> string list result \<times> db" where
  "replaceRecoveryCodes C rnds adminId d =
     (let d1 = d\<lparr>recovery_codes := delete_where (\<lambda>r. r_admin_id r = adminId) (recovery_codes d)\<rparr>;
          codes = generateRecoveryCodes rnds
      in case insert_codes C adminId codes d1 of
           Inl e \<Rightarrow> (Inl e, d1)
         | Inr d2 \<Rightarrow> (Inr codes, d2))"

definition some_codes :: "string list result \<times> db \<Rightarrow> string list option result \<times> db" where
  "some_codes r = (case r of (Inl e, d) \<Rightarrow> (Inl e, d) | (Inr cs, d) \<Rightarrow> (Inr (Some cs), d))"

definition confirmTotpEnrolment_body ::
  "node_crypto \<Rightarrow> time \<Rightarrow> byte list list \<Rightarrow> string \<Rightarrow> string \<Rightarrow> time \<Rightarrow> db \<Rightarrow> string list option result \<times> db" where
  "confirmTotpEnrolment_body C nw rnds adminId cd nowMs d =
     (case adminById d adminId of
        None \<Rightarrow> (Inr None, d)
      | Some a \<Rightarrow>
        if \<not> truthy (a_totp_secret a) \<or> a_totp_enabled_at a \<noteq> None then (Inr None, d)
        else
          (case verifyTotp C (the (a_totp_secret a)) cd nowMs None of
             Inl e \<Rightarrow> (Inl e, d)
           | Inr None \<Rightarrow> (Inr None, d)
           | Inr (Some step) \<Rightarrow>
             let d1 = update_admins (\<lambda>r. a_id r = adminId) (\<lambda>r. r\<lparr>a_totp_enabled_at := Some nw, a_totp_last_step := Some step\<rparr>) d;
                 d2 = update_sessions (\<lambda>s. s_admin_id s = adminId) (\<lambda>s. s\<lparr>s_totp_verified := True\<rparr>) d1
             in some_codes (replaceRecoveryCodes C rnds adminId d2)))"

definition confirmTotpEnrolment ::
  "node_crypto \<Rightarrow> time \<Rightarrow> byte list list \<Rightarrow> string \<Rightarrow> string \<Rightarrow> time \<Rightarrow> db \<Rightarrow> string list option result \<times> db" where
  "confirmTotpEnrolment C nw rnds adminId cd nowMs = transaction (confirmTotpEnrolment_body C nw rnds adminId cd nowMs)"

definition regenerateRecoveryCodes ::
  "node_crypto \<Rightarrow> byte list list \<Rightarrow> string \<Rightarrow> string \<Rightarrow> time \<Rightarrow> db \<Rightarrow> string list option result \<times> db" where
  "regenerateRecoveryCodes C rnds adminId cd nowMs = transaction (\<lambda>d.
     case adminById d adminId of
        None \<Rightarrow> (Inr None, d)
      | Some a \<Rightarrow>
        if \<not> truthy (a_totp_secret a) \<or> a_totp_enabled_at a = None then (Inr None, d)
        else
          (case verifyTotp C (the (a_totp_secret a)) cd nowMs (a_totp_last_step a) of
             Inl e \<Rightarrow> (Inl e, d)
           | Inr None \<Rightarrow> (Inr None, d)
           | Inr (Some step) \<Rightarrow>
             some_codes (replaceRecoveryCodes C rnds adminId
               (update_admins (\<lambda>r. a_id r = adminId) (\<lambda>r. r\<lparr>a_totp_last_step := Some step\<rparr>) d))))"

definition regenerateRecoveryCodesConfirmed ::
  "node_crypto \<Rightarrow> byte list list \<Rightarrow> string \<Rightarrow> db \<Rightarrow> string list option result \<times> db" where
  "regenerateRecoveryCodesConfirmed C rnds adminId = transaction (\<lambda>d.
     case adminById d adminId of
        None \<Rightarrow> (Inr None, d)
      | Some a \<Rightarrow>
        if \<not> hasSecondFactor (toAdmin d a) then (Inr None, d)
        else some_codes (replaceRecoveryCodes C rnds adminId d))"

definition remainingRecoveryCodes :: "db \<Rightarrow> string \<Rightarrow> nat" where
  "remainingRecoveryCodes d adminId = changes (\<lambda>r. r_admin_id r = adminId \<and> r_used_at r = None) (recovery_codes d)"

definition dropRecoveryCodesIfUnused :: "string \<Rightarrow> db \<Rightarrow> db" where
  "dropRecoveryCodesIfUnused adminId d =
     (case adminById d adminId of
        None \<Rightarrow> d
      | Some a \<Rightarrow>
        if \<not> hasSecondFactor (toAdmin d a)
        then d\<lparr>recovery_codes := delete_where (\<lambda>r. r_admin_id r = adminId) (recovery_codes d)\<rparr> else d)"

definition endSessions :: "node_crypto \<Rightarrow> string \<Rightarrow> string option \<Rightarrow> db \<Rightarrow> db" where
  "endSessions C adminId keep d =
     (if truthy keep then delete_sessions (\<lambda>s. s_admin_id s = adminId \<and> s_id_hash s \<noteq> sha256Hex C (the keep)) d
      else delete_sessions (\<lambda>s. s_admin_id s = adminId) d)"

definition forceDisableTotp :: "node_crypto \<Rightarrow> string \<Rightarrow> string option \<Rightarrow> db \<Rightarrow> db" where
  "forceDisableTotp C adminId keep d =
     endSessions C adminId keep
       (dropRecoveryCodesIfUnused adminId
         (update_admins (\<lambda>r. a_id r = adminId)
           (\<lambda>r. r\<lparr>a_totp_secret := None, a_totp_enabled_at := None, a_totp_last_step := None, a_totp_failed := 0,
                  a_totp_locked_until := None\<rparr>) d))"

definition disableTotp_body ::
  "node_crypto \<Rightarrow> time \<Rightarrow> string \<Rightarrow> string \<Rightarrow> string \<Rightarrow> time \<Rightarrow> db \<Rightarrow> bool result \<times> db" where
  "disableTotp_body C nw adminId cd keep nowMs d =
     (case adminById d adminId of
        None \<Rightarrow> (Inr False, d)
      | Some a \<Rightarrow>
        if \<not> truthy (a_totp_secret a) \<or> a_totp_enabled_at a = None then (Inr False, d)
        else
          (case verifyTotp C (the (a_totp_secret a)) cd nowMs (a_totp_last_step a) of
             Inl e \<Rightarrow> (Inl e, d)
           | Inr (Some step) \<Rightarrow> (Inr True, forceDisableTotp C adminId (Some keep) d)
           | Inr None \<Rightarrow>
             (case consumeRecoveryCode C nw adminId cd d of
                (True, d1) \<Rightarrow> (Inr True, forceDisableTotp C adminId (Some keep) d1)
              | (False, d1) \<Rightarrow> (Inr False, d1))))"

definition disableTotp ::
  "node_crypto \<Rightarrow> time \<Rightarrow> string \<Rightarrow> string \<Rightarrow> string \<Rightarrow> time \<Rightarrow> db \<Rightarrow> bool result \<times> db" where
  "disableTotp C nw adminId cd keep nowMs = transaction (disableTotp_body C nw adminId cd keep nowMs)"

text \<open>No statement of this one can fail, so its transaction always commits.\<close>

definition resetSecondFactors :: "node_crypto \<Rightarrow> string \<Rightarrow> db \<Rightarrow> db" where
  "resetSecondFactors C adminId d =
     forceDisableTotp C adminId None (d\<lparr>passkeys := delete_where (\<lambda>p. p_admin_id p = adminId) (passkeys d)\<rparr>)"

end
