(* ===== verification/AuthProps.thy ===== *)
theory AuthProps
  imports Auth
begin

text \<open>
  What the second factor of src/services/auth.ts guarantees: what a successful login proves, that
  codes are single use, how many guesses a session and an account allow, and that a locked
  account takes no code.
\<close>

section \<open>The session a second factor opens\<close>

definition session_fields :: "session_row \<Rightarrow> string \<Rightarrow> string \<Rightarrow> time \<Rightarrow> bool" where
  "session_fields s adminId csrf expires \<longleftrightarrow> s_admin_id s = adminId \<and> s_csrf_token s = csrf \<and> s_expires_at s = expires"

lemma createSession_Inr:
  assumes "createSession C nw rnd adm ttl meta d = (Inr (sid, csrf), d')"
  shows "sid = newSessionId (sd_id rnd) \<and> csrf = newCsrfToken (sd_csrf rnd) \<and>
    (\<exists>row. s_id_hash row = sha256Hex C sid \<and> session_fields row (ad_id adm) csrf (nw + ttl) \<and>
       s_totp_verified row = (\<not> hasSecondFactor adm) \<and> s_totp_attempts row = 0 \<and> s_second_factor row = None \<and>
       s_confirmed_until row = None \<and> s_wa_challenge row = None \<and>
       \<not> has_session (sha256Hex C sid) d \<and> has_admin (ad_id adm) d \<and>
       s_public_id row \<notin> s_public_id ` set (sessions d) \<and>
       insert_session row d = Inr d' \<and> d' = d\<lparr>sessions := sessions d @ [row]\<rparr>)"
proof -
  define row where "row = \<lparr>s_id_hash = sha256Hex C (newSessionId (sd_id rnd)), s_admin_id = ad_id adm,
      s_csrf_token = newCsrfToken (sd_csrf rnd), s_created_at = nw, s_last_seen_at = nw, s_expires_at = nw + ttl,
      s_totp_verified = (\<not> hasSecondFactor adm), s_totp_attempts = 0, s_public_id = newId ''s'' (sd_public rnd),
      s_ip = map_option (take 64) (meta_ip meta), s_user_agent = map_option (take 300) (meta_user_agent meta),
      s_second_factor = None, s_confirmed_until = None, s_wa_challenge = None, s_wa_purpose = None,
      s_wa_expires_at = None, s_dbsc_challenge = None, s_dbsc_offered_at = None\<rparr>"
  have ins: "insert_session row d = Inr d'" and "sid = newSessionId (sd_id rnd)" "csrf = newCsrfToken (sd_csrf rnd)"
    using assms by (auto simp: createSession_def Let_def row_def split: sum.splits)
  moreover have "\<not> has_session (s_id_hash row) d" "has_admin (s_admin_id row) d" "s_public_id row \<notin> s_public_id ` set (sessions d)"
    using ins by (auto simp: insert_session_def split: if_splits)
  moreover have "d' = d\<lparr>sessions := sessions d @ [row]\<rparr>" using ins by (rule insert_session_Inr)
  ultimately show ?thesis by (intro conjI exI [of _ row]) (simp_all add: row_def session_fields_def)
qed

lemma createSession_Inl: "createSession C nw rnd adm ttl meta d = (Inl e, d') \<Longrightarrow> d' = d"
  by (auto simp: createSession_def Let_def split: sum.splits)

definition reset_lock :: "admin_row \<Rightarrow> admin_row" where
  "reset_lock a = a\<lparr>a_totp_failed := 0, a_totp_locked_until := None\<rparr>"

lemma completeSecondFactor_Inr:
  assumes "completeSecondFactor C nw rnd pend adm ttl factor d = (Inr (sid, csrf), d')"
  shows "sid = newSessionId (sd_id rnd) \<and>
    (\<exists>row. s_id_hash row = sha256Hex C sid \<and> session_fields row (ad_id adm) csrf (nw + ttl) \<and>
       s_totp_verified row \<and> s_second_factor row = Some factor \<and> s_totp_attempts row = 0 \<and>
       s_confirmed_until row = None \<and> s_wa_challenge row = None \<and>
       (\<forall>s \<in> set (sessions d). s_id_hash s \<noteq> pend \<longrightarrow> s_id_hash s \<noteq> sha256Hex C sid) \<and>
       sessions d' = delete_where (\<lambda>s. s_id_hash s = pend) (sessions d) @ [row] \<and>
       admins d' = update_where (\<lambda>a. a_id a = ad_id adm) reset_lock (admins d) \<and>
       recovery_codes d' = recovery_codes d \<and> passkeys d' = passkeys d)"
proof -
  define d1 where "d1 = update_admins (\<lambda>a. a_id a = ad_id adm) (\<lambda>a. a\<lparr>a_totp_failed := 0, a_totp_locked_until := None\<rparr>) d"
  define d2 where "d2 = delete_sessions (\<lambda>s. s_id_hash s = pend) d1"
  define old where "old = get_by s_id_hash pend (sessions d)"
  obtain d3 where cs: "createSession C nw rnd adm ttl \<lparr>meta_ip = Option.bind old s_ip, meta_user_agent = Option.bind old s_user_agent\<rparr> d2 =
        (Inr (sid, csrf), d3)"
      and d': "d' = update_sessions (\<lambda>s. s_id_hash s = sha256Hex C sid) (\<lambda>s. s\<lparr>s_totp_verified := True, s_second_factor := Some factor\<rparr>) d3"
    using assms unfolding completeSecondFactor_def Let_def
    by (auto simp: d1_def d2_def old_def split: prod.splits sum.splits)
  from createSession_Inr [OF cs] obtain row where row: "s_id_hash row = sha256Hex C sid"
      "session_fields row (ad_id adm) csrf (nw + ttl)" "s_totp_attempts row = 0" "s_confirmed_until row = None" "s_wa_challenge row = None"
      "\<not> has_session (sha256Hex C sid) d2" "d3 = d2\<lparr>sessions := sessions d2 @ [row]\<rparr>" "sid = newSessionId (sd_id rnd)"
    by blast
  have none: "\<forall>s \<in> set (sessions d2). s_id_hash s \<noteq> sha256Hex C sid" using row(6) unfolding has_session_def by (metis imageI)
  let ?f = "\<lambda>s. s\<lparr>s_totp_verified := True, s_second_factor := Some factor\<rparr>"
  have "sessions d' = sessions d2 @ [?f row]"
    using row none d' update_where_none [of "sessions d2" "\<lambda>s. s_id_hash s = sha256Hex C sid" ?f]
    by (simp add: update_where_def)
  moreover have "sessions d2 = delete_where (\<lambda>s. s_id_hash s = pend) (sessions d)" by (simp add: d2_def d1_def)
  moreover have "admins d' = update_where (\<lambda>a. a_id a = ad_id adm) reset_lock (admins d)"
    using row d' by (simp add: d2_def d1_def reset_lock_def [abs_def])
  moreover have "recovery_codes d' = recovery_codes d" "passkeys d' = passkeys d"
    using row d' by (simp_all add: d2_def d1_def)
  moreover have "\<forall>s \<in> set (sessions d). s_id_hash s \<noteq> pend \<longrightarrow> s_id_hash s \<noteq> sha256Hex C sid"
    using none by (auto simp: d2_def d1_def set_delete_where)
  ultimately show ?thesis using row by (intro conjI exI [of _ "?f row"]) (simp_all add: session_fields_def)
qed

section \<open>What a successful login proves\<close>

text \<open>An accepted step of an account: enabled, within the window, later than the last one accepted.\<close>

lemma totp_step_of_Some:
  assumes "totp_step_of C a cd nowMs = Inr (Some step)"
  shows "a_totp_enabled_at a \<noteq> None \<and> truthy (a_totp_secret a) \<and>
    totpStep nowMs 30 - 1 \<le> step \<and> step \<le> totpStep nowMs 30 + 1 \<and>
    hotp C (the (a_totp_secret a)) step DEFAULTS = Inr (filter (\<lambda>c. \<not> is_ws c) cd) \<and>
    (\<forall>m. a_totp_last_step a = Some m \<longrightarrow> m < step)"
proof -
  obtain secret where s: "a_totp_secret a = Some secret" "secret \<noteq> []" "a_totp_enabled_at a \<noteq> None"
      "verifyTotp C secret cd nowMs (a_totp_last_step a) = Inr (Some step)"
    using assms by (auto simp: totp_step_of_def split: option.splits if_splits)
  with verifyTotp_SomeD [OF s(4)] show ?thesis by (auto simp: truthy_def)
qed

definition unused_code :: "node_crypto \<Rightarrow> string \<Rightarrow> string \<Rightarrow> db \<Rightarrow> bool" where
  "unused_code C adminId cd d \<longleftrightarrow> length (normalizeRecoveryCode cd) = 10 \<and>
     (\<exists>r \<in> set (recovery_codes d). r_admin_id r = adminId \<and> r_code_hash r = sha256Hex C (normalizeRecoveryCode cd) \<and> r_used_at r = None)"

lemma consume_iff: "fst (consumeRecoveryCode C nw i cd d) \<longleftrightarrow> unused_code C i cd d"
  using changes_0_iff [of "\<lambda>r. r_admin_id r = i \<and> r_code_hash r = sha256Hex C (normalizeRecoveryCode cd) \<and> r_used_at r = None" "recovery_codes d"]
  by (auto simp: consumeRecoveryCode_def unused_code_def Let_def)

lemma consume_frame:
  "snd (consumeRecoveryCode C nw i cd d) = d\<lparr>recovery_codes := recovery_codes (snd (consumeRecoveryCode C nw i cd d))\<rparr>"
  by (simp add: consumeRecoveryCode_def Let_def)

lemma unused_after_update:
  assumes "r \<in> set (update_where P (\<lambda>r. r\<lparr>r_used_at := Some nw\<rparr>) t)" and "r_used_at r = None"
  shows "r \<in> set t \<and> \<not> P r"
proof -
  obtain q where q: "q \<in> set t" "r = (if P q then q\<lparr>r_used_at := Some nw\<rparr> else q)"
    using assms(1) unfolding set_update_where by (elim imageE)
  with assms(2) show ?thesis by (cases "P q") simp_all
qed

lemma consume_rows:
  assumes "r \<in> set (recovery_codes (snd (consumeRecoveryCode C nw i cd d)))" and "r_used_at r = None"
  shows "r \<in> set (recovery_codes d) \<and>
    \<not> (length (normalizeRecoveryCode cd) = 10 \<and> r_admin_id r = i \<and> r_code_hash r = sha256Hex C (normalizeRecoveryCode cd))"
proof (cases "length (normalizeRecoveryCode cd) = 10")
  case True
  let ?P = "\<lambda>r. r_admin_id r = i \<and> r_code_hash r = sha256Hex C (normalizeRecoveryCode cd) \<and> r_used_at r = None"
  have "r \<in> set (update_where ?P (\<lambda>r. r\<lparr>r_used_at := Some nw\<rparr>) (recovery_codes d))"
    using assms(1) True by (simp add: consumeRecoveryCode_def Let_def)
  from unused_after_update [OF this assms(2)] assms(2) show ?thesis by simp
next
  case False
  with assms show ?thesis by (simp add: consumeRecoveryCode_def Let_def)
qed

lemma consume_uses: "\<not> unused_code C i cd (snd (consumeRecoveryCode C nw i cd d))"
  unfolding unused_code_def using consume_rows by blast

lemma consume_no_new:
  "unused_code C j c (snd (consumeRecoveryCode C nw i cd d)) \<Longrightarrow> unused_code C j c d"
  unfolding unused_code_def using consume_rows by blast

lemma session_factor_Some:
  assumes "session_factor C nw a cd nowMs d = (Inr (Some factor), d')"
  shows "(factor = FTotp \<and> (\<exists>step. totp_step_of C a cd nowMs = Inr (Some step) \<and>
            d' = update_admins (\<lambda>r. a_id r = a_id a) (\<lambda>r. r\<lparr>a_totp_last_step := Some step\<rparr>) d)) \<or>
    (factor = FRecovery \<and> unused_code C (a_id a) cd d \<and> d' = snd (consumeRecoveryCode C nw (a_id a) cd d))"
proof -
  obtain b d1 where c: "consumeRecoveryCode C nw (a_id a) cd d = (b, d1)" by (cases "consumeRecoveryCode C nw (a_id a) cd d")
  with assms consume_iff [of C nw "a_id a" cd d] show ?thesis
    by (cases b) (auto simp: session_factor_def split: sum.splits option.splits)
qed

lemma adminById_id: "adminById d i = Some a \<Longrightarrow> a_id a = i \<and> a \<in> set (admins d)"
  unfolding adminById_def using get_by_SomeD by metis

lemma verifySessionTotp_steps:
  assumes "verifySessionTotp_body C nw rnd h cd ttl nowMs d = (Inr (TotpOk nsid csrf factor), d')"
  shows "\<exists>s a d1. get_by s_id_hash h (sessions d) = Some s \<and> adminById d (s_admin_id s) = Some a \<and>
    hasSecondFactor (toAdmin d a) \<and> \<not> isTotpLocked a nowMs \<and>
    session_factor C nw a cd nowMs d = (Inr (Some factor), d1) \<and>
    completeSecondFactor C nw rnd h (toAdmin d a) ttl factor d1 = (Inr (nsid, csrf), d')"
  using assms unfolding verifySessionTotp_body_def
  by (auto simp: Let_def split: option.splits if_splits prod.splits sum.splits)

text \<open>The database after a second factor: the new session in place of the pending one, the lock reset.\<close>

lemma completeSecondFactor_login:
  assumes "completeSecondFactor C nw rnd h adm ttl factor d1 = (Inr (nsid, csrf), d')"
  obtains row where "get_by s_id_hash (sha256Hex C nsid) (sessions d') = Some row" "session_fields row (ad_id adm) csrf (nw + ttl)"
    "s_totp_verified row" "s_second_factor row = Some factor" "nsid = newSessionId (sd_id rnd)" "s_id_hash row = sha256Hex C nsid"
    "sessions d' = delete_where (\<lambda>s. s_id_hash s = h) (sessions d1) @ [row]"
    "\<forall>s \<in> set (sessions d1). s_id_hash s \<noteq> h \<longrightarrow> s_id_hash s \<noteq> sha256Hex C nsid"
    "adminById d' (ad_id adm) = map_option reset_lock (adminById d1 (ad_id adm))" "recovery_codes d' = recovery_codes d1"
proof -
  obtain row where row: "s_id_hash row = sha256Hex C nsid" "session_fields row (ad_id adm) csrf (nw + ttl)"
      "s_totp_verified row" "s_second_factor row = Some factor" and new: "nsid = newSessionId (sd_id rnd)"
      and rest: "\<forall>s \<in> set (sessions d1). s_id_hash s \<noteq> h \<longrightarrow> s_id_hash s \<noteq> sha256Hex C nsid"
      "sessions d' = delete_where (\<lambda>s. s_id_hash s = h) (sessions d1) @ [row]"
      "admins d' = update_where (\<lambda>r. a_id r = ad_id adm) reset_lock (admins d1)" "recovery_codes d' = recovery_codes d1"
    using completeSecondFactor_Inr [OF assms] by blast
  have "get_by s_id_hash (sha256Hex C nsid) (delete_where (\<lambda>s. s_id_hash s = h) (sessions d1)) = None"
    using rest(1) by (auto simp: get_by_None_iff set_delete_where)
  then have "get_by s_id_hash (sha256Hex C nsid) (sessions d') = Some row" using row(1) rest(2) by (simp add: get_by_append get_by_Cons)
  moreover have "adminById d' (ad_id adm) = map_option reset_lock (adminById d1 (ad_id adm))"
    by (simp add: adminById_def rest(3) get_by_update_same reset_lock_def)
  ultimately show ?thesis using that row new rest by blast
qed

text \<open>A session that was looked up and is not complete: its row is a pending one.\<close>

lemma pending_session:
  assumes "getSession C nw sid d0 = (Some v, d)" "\<not> sv_totp_verified v"
    and "get_by s_id_hash (sha256Hex C sid) (sessions d) = Some s" "adminById d (s_admin_id s) = Some a"
  shows "\<not> s_totp_verified s \<and> nw < s_expires_at s \<and> a_disabled_at a = None"
  using assms by (auto simp: getSession_def Let_def get_by_update_same adminById_def split: if_splits option.splits)

lemma session_factor_sessions: "sessions (snd (session_factor C nw a cd nowMs d)) = sessions d"
  by (simp add: session_factor_def consumeRecoveryCode_def Let_def split: sum.split option.split bool.split)

text \<open>C8: a second-factor login that succeeds on a session that was looked up and is not complete was made from an
  unexpired pending session of an enabled account with a second factor that is not locked, with a TOTP code of its
  enabled secret and a step later than the last, or an unused recovery code. It rotates the session: the pending
  row is deleted, and the one row added has an id drawn in this call that no other session has, belongs to that
  account and records the factor. It clears the failure count, and the code cannot be used again.\<close>

theorem login_second_factor_sound:
  assumes look: "getSession C nw0 sid d0 = (Some v, d)" and pending: "\<not> sv_totp_verified v"
    and run: "verifySessionTotp C nw rnd sid cd ttl nowMs d = (Inr (TotpOk nsid csrf factor), d')"
  shows "\<exists>s a s' a'. get_by s_id_hash (sha256Hex C sid) (sessions d) = Some s \<and> adminById d (s_admin_id s) = Some a \<and>
    \<not> s_totp_verified s \<and> nw0 < s_expires_at s \<and> a_disabled_at a = None \<and>
    hasSecondFactor (toAdmin d a) \<and> \<not> isTotpLocked a nowMs \<and>
    nsid = newSessionId (sd_id rnd) \<and> sessions d' = delete_where (\<lambda>x. s_id_hash x = sha256Hex C sid) (sessions d) @ [s'] \<and>
    s_id_hash s' = sha256Hex C nsid \<and>
    (\<forall>x \<in> set (sessions d). s_id_hash x \<noteq> sha256Hex C sid \<longrightarrow> s_id_hash x \<noteq> sha256Hex C nsid) \<and>
    get_by s_id_hash (sha256Hex C nsid) (sessions d') = Some s' \<and> session_fields s' (a_id a) csrf (nw + ttl) \<and>
    s_totp_verified s' \<and> s_second_factor s' = Some factor \<and>
    adminById d' (a_id a) = Some a' \<and> a_totp_failed a' = 0 \<and> a_totp_locked_until a' = None \<and>
    (factor = FTotp \<longrightarrow> (\<exists>step. a_totp_last_step a' = Some step \<and> (\<forall>m. a_totp_last_step a = Some m \<longrightarrow> m < step) \<and>
       totpStep nowMs 30 - 1 \<le> step \<and> step \<le> totpStep nowMs 30 + 1 \<and> a_totp_enabled_at a \<noteq> None \<and>
       hotp C (the (a_totp_secret a)) step DEFAULTS = Inr (filter (\<lambda>c. \<not> is_ws c) cd))) \<and>
    (factor = FRecovery \<longrightarrow> unused_code C (a_id a) cd d \<and> \<not> unused_code C (a_id a) cd d') \<and>
    factor \<noteq> FPasskey"
proof -
  let ?h = "sha256Hex C sid"
  have body: "verifySessionTotp_body C nw rnd ?h cd ttl nowMs d = (Inr (TotpOk nsid csrf factor), d')"
    using run by (simp add: verifySessionTotp_def transaction_Inr)
  obtain s a d1 where s: "get_by s_id_hash ?h (sessions d) = Some s" and a: "adminById d (s_admin_id s) = Some a"
      and hf: "hasSecondFactor (toAdmin d a)" "\<not> isTotpLocked a nowMs"
      and sf: "session_factor C nw a cd nowMs d = (Inr (Some factor), d1)"
      and cf: "completeSecondFactor C nw rnd ?h (toAdmin d a) ttl factor d1 = (Inr (nsid, csrf), d')"
    using verifySessionTotp_steps [OF body] by blast
  note wait = pending_session [OF look pending s a]
  have ida: "a_id a = s_admin_id s" using adminById_id [OF a] by simp
  have tid: "ad_id (toAdmin d a) = a_id a" by (simp add: toAdmin_def)
  have same: "sessions d1 = sessions d" using session_factor_sessions [of C nw a cd nowMs d] sf by simp
  obtain row where row: "get_by s_id_hash (sha256Hex C nsid) (sessions d') = Some row" "session_fields row (a_id a) csrf (nw + ttl)"
      "s_totp_verified row" "s_second_factor row = Some factor" "nsid = newSessionId (sd_id rnd)" "s_id_hash row = sha256Hex C nsid"
      "sessions d' = delete_where (\<lambda>x. s_id_hash x = ?h) (sessions d) @ [row]"
      "\<forall>x \<in> set (sessions d). s_id_hash x \<noteq> ?h \<longrightarrow> s_id_hash x \<noteq> sha256Hex C nsid"
      and adm': "adminById d' (a_id a) = map_option reset_lock (adminById d1 (a_id a))" and codes: "recovery_codes d' = recovery_codes d1"
    using completeSecondFactor_login [OF cf] unfolding tid same by blast
  note found = s a wait hf row
  from session_factor_Some [OF sf] show ?thesis
  proof (elim disjE conjE exE)
    fix step
    assume "factor = FTotp" and st: "totp_step_of C a cd nowMs = Inr (Some step)"
      and d1: "d1 = update_admins (\<lambda>r. a_id r = a_id a) (\<lambda>r. r\<lparr>a_totp_last_step := Some step\<rparr>) d"
    have "adminById d' (a_id a) = Some (reset_lock (a\<lparr>a_totp_last_step := Some step\<rparr>))"
      unfolding adm' using a ida by (simp add: d1 adminById_def get_by_update_same)
    with \<open>factor = FTotp\<close> totp_step_of_Some [OF st] found show ?thesis
      by (intro exI [of _ s] exI [of _ a] exI [of _ row] exI [of _ "reset_lock (a\<lparr>a_totp_last_step := Some step\<rparr>)"])
        (simp add: reset_lock_def)
  next
    assume "factor = FRecovery" and un: "unused_code C (a_id a) cd d" and d1: "d1 = snd (consumeRecoveryCode C nw (a_id a) cd d)"
    have "admins d1 = admins d" unfolding d1 by (subst consume_frame) simp
    then have "adminById d' (a_id a) = Some (reset_lock a)" unfolding adm' using a ida by (simp add: adminById_def)
    moreover have "\<not> unused_code C (a_id a) cd d'"
      using consume_uses [of C "a_id a" cd nw d] codes by (simp add: d1 unused_code_def)
    ultimately show ?thesis
      using \<open>factor = FRecovery\<close> un found
      by (intro exI [of _ s] exI [of _ a] exI [of _ row] exI [of _ "reset_lock a"]) (simp add: reset_lock_def)
  qed
qed

section \<open>Wrong codes\<close>

lemma consume_False:
  assumes "\<not> unused_code C i cd d" shows "consumeRecoveryCode C nw i cd d = (False, d)"
proof -
  let ?P = "\<lambda>r. r_admin_id r = i \<and> r_code_hash r = sha256Hex C (normalizeRecoveryCode cd) \<and> r_used_at r = None"
  have none: "\<forall>r \<in> set (recovery_codes d). \<not> ?P r" if "length (normalizeRecoveryCode cd) = 10"
    using assms that unfolding unused_code_def by blast
  show ?thesis
  proof (cases "length (normalizeRecoveryCode cd) = 10")
    case True
    with none update_where_none [OF none] changes_0_iff [of ?P "recovery_codes d"] show ?thesis
      by (simp add: consumeRecoveryCode_def Let_def)
  qed (simp add: consumeRecoveryCode_def Let_def)
qed

lemma session_factor_None:
  assumes "totp_step_of C a cd nowMs = Inr None" and "\<not> unused_code C (a_id a) cd d"
  shows "session_factor C nw a cd nowMs d = (Inr None, d)"
  using assms by (simp add: session_factor_def consume_False)

text \<open>A code that is neither: wrong for this account at this moment.\<close>

definition wrong_code :: "node_crypto \<Rightarrow> admin_row \<Rightarrow> string \<Rightarrow> time \<Rightarrow> db \<Rightarrow> bool" where
  "wrong_code C a cd nowMs d \<longleftrightarrow> totp_step_of C a cd nowMs = Inr None \<and> \<not> unused_code C (a_id a) cd d"

lemma recordTotpFailure_few:
  "a_totp_failed a + 1 < TOTP_ACCOUNT_LOCK_THRESHOLD \<Longrightarrow>
   recordTotpFailure a nowMs d = (None, update_admins (\<lambda>r. a_id r = a_id a) (\<lambda>r. r\<lparr>a_totp_failed := a_totp_failed a + 1\<rparr>) d)"
  by (simp add: recordTotpFailure_def)

lemma recordTotpFailure_lock:
  "TOTP_ACCOUNT_LOCK_THRESHOLD \<le> a_totp_failed a + 1 \<Longrightarrow>
   recordTotpFailure a nowMs d = (Some (nowMs + TOTP_ACCOUNT_LOCK_MS),
     delete_sessions (\<lambda>s. s_admin_id s = a_id a \<and> \<not> s_totp_verified s)
       (update_admins (\<lambda>r. a_id r = a_id a)
         (\<lambda>r. r\<lparr>a_totp_failed := 0, a_totp_locked_until := Some (nowMs + TOTP_ACCOUNT_LOCK_MS)\<rparr>) d))"
  by (simp add: recordTotpFailure_def Let_def)

text \<open>C21: a wrong second-factor code is counted: the tenth in a row locks the account for fifteen minutes and ends
  all its pending sessions; before that, the fifth of one session ends that session; otherwise the
  session stays pending with its counter raised. It never verifies anything.\<close>

theorem wrong_code_counts:
  assumes s: "get_by s_id_hash (sha256Hex C sid) (sessions d) = Some s" and a: "adminById d (s_admin_id s) = Some a"
    and hf: "hasSecondFactor (toAdmin d a)" and nl: "\<not> isTotpLocked a nowMs" and wrong: "wrong_code C a cd nowMs d"
    and run: "verifySessionTotp C nw rnd sid cd ttl nowMs d = (r, d')"
  shows "(TOTP_ACCOUNT_LOCK_THRESHOLD \<le> a_totp_failed a + 1 \<longrightarrow>
      r = Inr (TotpLocked (Some (nowMs + TOTP_ACCOUNT_LOCK_MS))) \<and>
      totpLockedUntil d' (a_id a) nowMs = Some (nowMs + TOTP_ACCOUNT_LOCK_MS) \<and>
      (\<forall>x \<in> set (sessions d'). s_admin_id x = a_id a \<longrightarrow> s_totp_verified x)) \<and>
    (a_totp_failed a + 1 < TOTP_ACCOUNT_LOCK_THRESHOLD \<longrightarrow>
      adminById d' (a_id a) = Some (a\<lparr>a_totp_failed := a_totp_failed a + 1\<rparr>) \<and>
      (if MAX_TOTP_ATTEMPTS \<le> s_totp_attempts s + 1
       then r = Inr (TotpLocked None) \<and> get_by s_id_hash (sha256Hex C sid) (sessions d') = None
       else r = Inr TotpInvalid \<and>
         get_by s_id_hash (sha256Hex C sid) (sessions d') = Some (s\<lparr>s_totp_attempts := s_totp_attempts s + 1\<rparr>)))"
proof -
  have ida: "a_id a = s_admin_id s" using adminById_id [OF a] by simp
  have sf: "session_factor C nw a cd nowMs d = (Inr None, d)"
    using session_factor_None wrong by (simp add: wrong_code_def)
  show ?thesis
  proof (cases "a_totp_failed a + 1 < TOTP_ACCOUNT_LOCK_THRESHOLD")
    case True
    show ?thesis
    proof (cases "MAX_TOTP_ATTEMPTS \<le> s_totp_attempts s + 1")
      case max: True
      with run s a hf nl sf recordTotpFailure_few [OF True] True ida show ?thesis
        by (auto simp: verifySessionTotp_def verifySessionTotp_body_def transaction_def Let_def adminById_def
            get_by_update_same get_by_delete_key)
    next
      case max: False
      with run s a hf nl sf recordTotpFailure_few [OF True] True ida show ?thesis
        by (auto simp: verifySessionTotp_def verifySessionTotp_body_def transaction_def Let_def adminById_def
            get_by_update_same)
    qed
  next
    case False
    then have lock: "TOTP_ACCOUNT_LOCK_THRESHOLD \<le> a_totp_failed a + 1" by simp
    have "nowMs < nowMs + TOTP_ACCOUNT_LOCK_MS" by (simp add: TOTP_ACCOUNT_LOCK_MS_def)
    with run s a hf nl sf recordTotpFailure_lock [OF lock] False ida show ?thesis
      by (auto simp: verifySessionTotp_def verifySessionTotp_body_def transaction_def Let_def adminById_def
          get_by_update_same totpLockedUntil_def isTotpLocked_def set_delete_where)
  qed
qed

text \<open>While an account is locked, no code is looked at: a login and a confirmation with a code both answer locked and
  change nothing, even for the right one. Passkeys do not look at the lock.\<close>

lemma locked_account_answers:
  assumes "adminById d i = Some a" and "isTotpLocked a nowMs"
  shows "verifyConfirmCode C nw i cd nowMs d = (Inr ConfirmLocked, d) \<and>
    (get_by s_id_hash (sha256Hex C sid) (sessions d) = Some s \<and> s_admin_id s = i \<and> hasSecondFactor (toAdmin d a) \<longrightarrow>
     verifySessionTotp C nw rnd sid cd ttl nowMs d = (Inr (TotpLocked (a_totp_locked_until a)), d))"
  using assms
  by (simp add: verifyConfirmCode_def verifyConfirmCode_body_def verifySessionTotp_def verifySessionTotp_body_def
      transaction_def)

text \<open>A recovery code is accepted exactly when it is one of the account's unused codes, and after the call,
  accepted or not, the same code is refused.\<close>

lemma recovery_code_single_use:
  "\<not> fst (consumeRecoveryCode C nw' i cd (snd (consumeRecoveryCode C nw i cd d))) \<and>
   fst (consumeRecoveryCode C nw i cd d) = unused_code C i cd d"
  using consume_uses [of C i cd nw d] by (simp add: consume_iff)

section \<open>Sessions\<close>

text \<open>C22: a cookie opens a session only while it is unexpired and its account is enabled; it counts as verified
  only when the account has no second factor or the session proved one; anything else of a known
  session is deleted on sight.\<close>

theorem getSession_sound:
  assumes "getSession C nw sid d = (Some v, d')"
  shows "\<exists>s a. get_by s_id_hash (sha256Hex C sid) (sessions d) = Some s \<and> adminById d (s_admin_id s) = Some a \<and>
    sid \<noteq> [] \<and> length sid \<le> 128 \<and> nw < s_expires_at s \<and> a_disabled_at a = None \<and>
    ad_id (sv_admin v) = a_id a \<and> ad_role (sv_admin v) = a_role a \<and> sv_csrf_token v = s_csrf_token s \<and>
    (sv_totp_verified v \<longleftrightarrow> \<not> hasSecondFactor (sv_admin v) \<or> s_totp_verified s) \<and>
    d' = update_sessions (\<lambda>r. s_id_hash r = sha256Hex C sid) (\<lambda>r. r\<lparr>s_last_seen_at := nw\<rparr>) d"
  using assms
  by (auto simp: getSession_def Let_def toAdmin_def split: if_splits option.splits)

section \<open>Examples\<close>

text \<open>
  An account with an authenticator app and one recovery code, two pending sessions of it, and a
  locked copy of the account.
\<close>

definition demo_admin :: "string \<Rightarrow> string \<Rightarrow> role \<Rightarrow> admin_row" where
  "demo_admin i u r =
     \<lparr>a_id = i, a_username = u, a_password_hash = [], a_created_at = 0, a_role = r, a_disabled_at = None,
      a_must_change = False, a_last_login_at = None, a_totp_secret = None, a_totp_enabled_at = None,
      a_totp_last_step = None, a_totp_failed = 0, a_totp_locked_until = None\<rparr>"

definition demo_session :: "string \<Rightarrow> string \<Rightarrow> bool \<Rightarrow> session_row" where
  "demo_session sid i v =
     \<lparr>s_id_hash = sha256Hex demo_crypto sid, s_admin_id = i, s_csrf_token = ''csrf'', s_created_at = 0, s_last_seen_at = 0,
      s_expires_at = 1000000, s_totp_verified = v, s_totp_attempts = 0, s_public_id = sid, s_ip = None, s_user_agent = None,
      s_second_factor = None, s_confirmed_until = None, s_wa_challenge = None, s_wa_purpose = None, s_wa_expires_at = None,
      s_dbsc_challenge = None, s_dbsc_offered_at = None\<rparr>"

definition demo_totp_admin :: admin_row where
  "demo_totp_admin = (demo_admin ''a_1'' ''ann'' RoleAdmin)
     \<lparr>a_totp_secret := Some (base32Encode (replicate 20 0)), a_totp_enabled_at := Some 1\<rparr>"

definition demo_2fa :: db where
  "demo_2fa = empty_db\<lparr>admins := [demo_totp_admin], sessions := [demo_session ''sx'' ''a_1'' False, demo_session ''sy'' ''a_1'' False],
     recovery_codes := [\<lparr>r_admin_id = ''a_1'', r_code_hash = sha256Hex demo_crypto ''abcdefghij'', r_used_at = None\<rparr>]\<rparr>"

definition demo_draws :: session_draws where
  "demo_draws = \<lparr>sd_id = replicate 32 9, sd_csrf = replicate 24 8, sd_public = replicate 12 7\<rparr>"

theorem login_second_factor_sound_witness:
  "\<exists>nsid csrf d'. verifySessionTotp demo_crypto 60000 demo_draws ''sx'' ''ABCDE-fghij'' 1000 60000 (snd (getSession demo_crypto 5 ''sx'' demo_2fa)) =
       (Inr (TotpOk nsid csrf FRecovery), d') \<and> \<not> unused_code demo_crypto ''a_1'' ''ABCDE-fghij'' d' \<and> length (sessions d') = 2"
proof -
  let ?d = "snd (getSession demo_crypto 5 ''sx'' demo_2fa)"
  let ?run = "verifySessionTotp demo_crypto 60000 demo_draws ''sx'' ''ABCDE-fghij'' 1000 60000 ?d"
  have "case fst (getSession demo_crypto 5 ''sx'' demo_2fa) of None \<Rightarrow> False | Some v \<Rightarrow> \<not> sv_totp_verified v" by code_simp
  then obtain v where look: "getSession demo_crypto 5 ''sx'' demo_2fa = (Some v, ?d)" "\<not> sv_totp_verified v"
    by (cases "getSession demo_crypto 5 ''sx'' demo_2fa") (auto split: option.splits)
  have "fst ?run = Inr (TotpOk (newSessionId (replicate 32 9)) (newCsrfToken (replicate 24 8)) FRecovery)" by code_simp
  then have run: "?run = (Inr (TotpOk (newSessionId (replicate 32 9)) (newCsrfToken (replicate 24 8)) FRecovery), snd ?run)"
    by (cases ?run) simp
  have adm: "admins ?d = [demo_totp_admin]"
    "length (delete_where (\<lambda>x. s_id_hash x = sha256Hex demo_crypto ''sx'') (sessions ?d)) = 1" by code_simp+
  have one: "a = demo_totp_admin" if "adminById ?d i = Some a" for i a
    using that adm by (simp add: adminById_def get_by_Cons split: if_splits)
  have "a_id demo_totp_admin = ''a_1''" by (simp add: demo_totp_admin_def demo_admin_def)
  with login_second_factor_sound [OF look run] run one adm show ?thesis by fastforce
qed

theorem wrong_code_counts_witness:
  "fst (verifySessionTotp demo_crypto 60000 demo_draws ''sx'' ''12'' 1000 60000 demo_2fa) = Inr TotpInvalid"
proof -
  have s: "get_by s_id_hash (sha256Hex demo_crypto ''sx'') (sessions demo_2fa) = Some (demo_session ''sx'' ''a_1'' False)"
    by (simp add: demo_2fa_def get_by_Cons demo_session_def)
  have a: "adminById demo_2fa (s_admin_id (demo_session ''sx'' ''a_1'' False)) = Some demo_totp_admin"
    by (simp add: adminById_def demo_2fa_def get_by_Cons demo_session_def demo_totp_admin_def demo_admin_def)
  have hf: "hasSecondFactor (toAdmin demo_2fa demo_totp_admin)" "\<not> isTotpLocked demo_totp_admin 60000" by code_simp+
  have "totp_step_of demo_crypto demo_totp_admin ''12'' 60000 = Inr None" "length (normalizeRecoveryCode ''12'') \<noteq> 10" by code_simp+
  then have w: "wrong_code demo_crypto demo_totp_admin ''12'' 60000 demo_2fa"
    by (simp add: wrong_code_def unused_code_def)
  have k: "a_totp_failed demo_totp_admin + 1 < TOTP_ACCOUNT_LOCK_THRESHOLD"
    "\<not> MAX_TOTP_ATTEMPTS \<le> s_totp_attempts (demo_session ''sx'' ''a_1'' False) + 1" by code_simp+
  obtain r d' where run: "verifySessionTotp demo_crypto 60000 demo_draws ''sx'' ''12'' 1000 60000 demo_2fa = (r, d')"
    by (cases "verifySessionTotp demo_crypto 60000 demo_draws ''sx'' ''12'' 1000 60000 demo_2fa")
  show ?thesis using wrong_code_counts [OF s a hf w run] k run by simp
qed

theorem getSession_sound_witness:
  "\<exists>v d'. getSession demo_crypto 5 ''sx'' demo_2fa = (Some v, d') \<and> \<not> sv_totp_verified v"
proof -
  have "case fst (getSession demo_crypto 5 ''sx'' demo_2fa) of None \<Rightarrow> False | Some v \<Rightarrow> hasSecondFactor (sv_admin v)" by code_simp
  then obtain v d' where run: "getSession demo_crypto 5 ''sx'' demo_2fa = (Some v, d')" and h: "hasSecondFactor (sv_admin v)"
    by (cases "getSession demo_crypto 5 ''sx'' demo_2fa") (auto split: option.splits)
  have s: "s_totp_verified s = False" if "get_by s_id_hash (sha256Hex demo_crypto ''sx'') (sessions demo_2fa) = Some s" for s
    using that by (auto simp: demo_2fa_def get_by_Cons demo_session_def)
  from getSession_sound [OF run] s h run show ?thesis by blast
qed

end
