(* ===== verification/Users.thy ===== *)
theory Users
  imports AuthProps "HOL-Library.Product_Lexorder"
begin

text \<open>
  src/services/users.ts: accounts managed from the panel, the rule that an active administrator
  always remains, and the case assignments that decide who sees which case.
\<close>

section \<open>What the panel lists\<close>

record user_summary =
  us_id :: string
  us_username :: string
  us_role :: role
  us_created_at :: time
  us_last_login_at :: "time option"
  us_disabled_at :: "time option"
  us_must_change :: bool
  us_totp_enabled :: bool
  us_case_count :: nat

record case_member =
  cm_id :: string
  cm_username :: string
  cm_role :: role
  cm_disabled_at :: "time option"

record viewer =
  vw_id :: string
  vw_role :: role

definition viewer_of :: "admin \<Rightarrow> viewer" where
  "viewer_of a = \<lparr>vw_id = ad_id a, vw_role = ad_role a\<rparr>"

definition role_text :: "role \<Rightarrow> string" where
  "role_text r = (case r of RoleAdmin \<Rightarrow> ''admin'' | RoleUser \<Rightarrow> ''user'')"

definition isRole :: "string \<Rightarrow> role option" where
  "isRole v = find (\<lambda>r. role_text r = v) [RoleAdmin, RoleUser]"

text \<open>SQLite's \<open>COLLATE NOCASE\<close> folds the ASCII capitals.\<close>

definition nocase :: "string \<Rightarrow> nat list" where
  "nocase s = map (\<lambda>c. if is_upper c then code c + 32 else code c) s"

definition user_of :: "db \<Rightarrow> admin_row \<Rightarrow> user_summary" where
  "user_of d a =
     \<lparr>us_id = a_id a, us_username = a_username a, us_role = a_role a, us_created_at = a_created_at a,
      us_last_login_at = a_last_login_at a, us_disabled_at = a_disabled_at a, us_must_change = a_must_change a,
      us_totp_enabled = (a_totp_enabled_at a \<noteq> None \<or> (\<exists>p \<in> set (passkeys d). p_admin_id p = a_id a)),
      us_case_count = changes (\<lambda>m. m_admin_id m = a_id a) (members d)\<rparr>"

definition listUsers :: "db \<Rightarrow> user_summary list" where
  "listUsers d =
     map (user_of d)
       (sort_key (\<lambda>a. (a_disabled_at a \<noteq> None, map code (role_text (a_role a)), nocase (a_username a))) (admins d))"

definition getUser :: "db \<Rightarrow> string \<Rightarrow> user_summary option" where
  "getUser d i = find (\<lambda>u. us_id u = i) (listUsers d)"

section \<open>Account changes\<close>

definition activeAdminsOtherThan :: "db \<Rightarrow> string \<Rightarrow> nat" where
  "activeAdminsOtherThan d i = changes (\<lambda>a. a_role a = RoleAdmin \<and> a_disabled_at a = None \<and> a_id a \<noteq> i) (admins d)"

definition requireUser :: "db \<Rightarrow> string \<Rightarrow> string \<Rightarrow> user_summary result" where
  "requireUser d actorId i =
     (case getUser d i of
        None \<Rightarrow> Inl (UserError ''users.missing'' [])
      | Some u \<Rightarrow> if us_id u = actorId then Inl (UserError ''users.not_self'' []) else Inr u)"

text \<open>
  \<open>None\<close>: the random bytes given are not enough for the password loop, which then draws more.
\<close>

definition createUser ::
  "node_crypto \<Rightarrow> time \<Rightarrow> byte list list \<Rightarrow> byte list \<Rightarrow> byte list \<Rightarrow> string \<Rightarrow> string \<Rightarrow> db
    \<Rightarrow> ((admin \<times> string) result \<times> db) option" where
  "createUser C nw draws id_rnd salt rawName role d =
     (let username = js_trim rawName
      in if \<not> isValidUsername username then Some (Inl (UserError ''users.invalid_username'' []), d)
         else case isRole role of
           None \<Rightarrow> Some (Inl (UserError ''users.invalid_role'' []), d)
         | Some r \<Rightarrow>
           if findAdminByUsername d username \<noteq> None
           then Some (Inl (UserError ''users.exists'' [(''username'', username)]), d)
           else (case newTempPassword draws of
                   None \<Rightarrow> None
                 | Some password \<Rightarrow>
                   (case createAdmin C nw id_rnd salt username password r True d of
                      (Inl e, d') \<Rightarrow> Some (Inl e, d')
                    | (Inr u, d') \<Rightarrow> Some (Inr (u, password), d'))))"

definition setUserRole :: "string \<Rightarrow> string \<Rightarrow> role \<Rightarrow> db \<Rightarrow> user_summary result \<times> db" where
  "setUserRole actorId i role = transaction (\<lambda>d.
     case requireUser d actorId i of
       Inl e \<Rightarrow> (Inl e, d)
     | Inr u \<Rightarrow>
       if us_role u = RoleAdmin \<and> role \<noteq> RoleAdmin \<and> activeAdminsOtherThan d i = 0
       then (Inl (UserError ''users.last_admin'' []), d)
       else (Inr (u\<lparr>us_role := role\<rparr>), update_admins (\<lambda>a. a_id a = i) (\<lambda>a. a\<lparr>a_role := role\<rparr>) d))"

text \<open>The panel hands the role over as text; the service refuses text that is no role.\<close>

definition setUserRole_text :: "string \<Rightarrow> string \<Rightarrow> string \<Rightarrow> db \<Rightarrow> user_summary result \<times> db" where
  "setUserRole_text actorId i role d =
     (case isRole role of
        None \<Rightarrow> (Inl (UserError ''users.invalid_role'' []), d)
      | Some r \<Rightarrow> setUserRole actorId i r d)"

definition setUserDisabled :: "time \<Rightarrow> string \<Rightarrow> string \<Rightarrow> bool \<Rightarrow> db \<Rightarrow> user_summary result \<times> db" where
  "setUserDisabled nw actorId i disabled = transaction (\<lambda>d.
     case requireUser d actorId i of
       Inl e \<Rightarrow> (Inl e, d)
     | Inr u \<Rightarrow>
       if disabled \<and> us_role u = RoleAdmin \<and> activeAdminsOtherThan d i = 0
       then (Inl (UserError ''users.last_admin'' []), d)
       else
         let stamp = (if disabled then Some nw else None);
             d1 = update_admins (\<lambda>a. a_id a = i) (\<lambda>a. a\<lparr>a_disabled_at := stamp\<rparr>) d
         in (Inr (u\<lparr>us_disabled_at := stamp\<rparr>), if disabled then delete_sessions (\<lambda>s. s_admin_id s = i) d1 else d1))"

definition resetUserPassword ::
  "node_crypto \<Rightarrow> byte list list \<Rightarrow> byte list \<Rightarrow> string \<Rightarrow> string \<Rightarrow> db
    \<Rightarrow> ((user_summary \<times> string) result \<times> db) option" where
  "resetUserPassword C draws salt actorId i d =
     (case requireUser d actorId i of
        Inl e \<Rightarrow> Some (Inl e, d)
      | Inr u \<Rightarrow>
        (case newTempPassword draws of
           None \<Rightarrow> None
         | Some password \<Rightarrow>
           (case hashPassword C password salt of
              Inl e \<Rightarrow> Some (Inl e, d)
            | Inr h \<Rightarrow>
              Some (Inr (u, password),
                delete_sessions (\<lambda>s. s_admin_id s = i)
                  (update_admins (\<lambda>a. a_id a = i) (\<lambda>a. a\<lparr>a_password_hash := h, a_must_change := True\<rparr>) d)))))"

definition resetUserTotp :: "node_crypto \<Rightarrow> string \<Rightarrow> string \<Rightarrow> db \<Rightarrow> user_summary result \<times> db" where
  "resetUserTotp C actorId i d =
     (case requireUser d actorId i of
        Inl e \<Rightarrow> (Inl e, d)
      | Inr u \<Rightarrow> (Inr u, resetSecondFactors C i d))"

definition deleteUser :: "string \<Rightarrow> string \<Rightarrow> db \<Rightarrow> user_summary result \<times> db" where
  "deleteUser actorId i = transaction (\<lambda>d.
     case requireUser d actorId i of
       Inl e \<Rightarrow> (Inl e, d)
     | Inr u \<Rightarrow>
       if us_role u = RoleAdmin \<and> activeAdminsOtherThan d i = 0
       then (Inl (UserError ''users.last_admin'' []), d)
       else (Inr u, delete_admins (\<lambda>a. a_id a = i) d))"

section \<open>Case assignments\<close>

definition canAccessCase :: "db \<Rightarrow> viewer \<Rightarrow> string \<Rightarrow> bool" where
  "canAccessCase d v caseId \<longleftrightarrow>
     vw_role v = RoleAdmin \<or> (\<exists>m \<in> set (members d). m_case_id m = caseId \<and> m_admin_id m = vw_id v)"

definition member_of :: "admin_row \<Rightarrow> case_member" where
  "member_of a = \<lparr>cm_id = a_id a, cm_username = a_username a, cm_role = a_role a, cm_disabled_at = a_disabled_at a\<rparr>"

definition caseMembers :: "db \<Rightarrow> string \<Rightarrow> case_member list" where
  "caseMembers d caseId =
     sort_key (\<lambda>m. nocase (cm_username m))
       (map member_of (List.map_filter (\<lambda>m. adminById d (m_admin_id m)) (filter (\<lambda>m. m_case_id m = caseId) (members d))))"

definition assignableUsers :: "db \<Rightarrow> string \<Rightarrow> case_member list" where
  "assignableUsers d caseId =
     sort_key (\<lambda>m. nocase (cm_username m))
       (map member_of
         (filter (\<lambda>a. a_role a = RoleUser \<and> a_disabled_at a = None \<and>
                      \<not> (\<exists>m \<in> set (members d). m_case_id m = caseId \<and> m_admin_id m = a_id a)) (admins d)))"

text \<open>\<open>INSERT OR IGNORE\<close> skips an assignment that exists; a missing case or account still throws.\<close>

definition addCaseMember :: "time \<Rightarrow> string \<Rightarrow> string \<Rightarrow> db \<Rightarrow> bool result \<times> db" where
  "addCaseMember nw caseId adminId d =
     (if (\<exists>m \<in> set (members d). m_case_id m = caseId \<and> m_admin_id m = adminId) then (Inr False, d)
      else if \<not> has_case caseId d \<or> \<not> has_admin adminId d then (Inl SqliteConstraint, d)
      else (Inr True, d\<lparr>members := members d @ [\<lparr>m_case_id = caseId, m_admin_id = adminId, m_created_at = nw\<rparr>]\<rparr>))"

definition removeCaseMember :: "string \<Rightarrow> string \<Rightarrow> db \<Rightarrow> bool \<times> db" where
  "removeCaseMember caseId adminId d =
     (let hit = (\<lambda>m. m_case_id m = caseId \<and> m_admin_id m = adminId)
      in (0 < changes hit (members d), d\<lparr>members := delete_where hit (members d)\<rparr>))"

section \<open>An active administrator always remains\<close>

definition active_admins :: "db \<Rightarrow> admin_row list" where
  "active_admins d = filter (\<lambda>a. a_role a = RoleAdmin \<and> a_disabled_at a = None) (admins d)"

lemma activeAdminsOtherThan_0:
  "activeAdminsOtherThan d i \<noteq> 0 \<longleftrightarrow> (\<exists>a \<in> set (active_admins d). a_id a \<noteq> i)"
  by (auto simp: activeAdminsOtherThan_def active_admins_def changes_def filter_empty_conv)

lemma getUser_Some:
  assumes "getUser d i = Some u"
  shows "\<exists>a \<in> set (admins d). a_id a = i \<and> u = user_of d a"
proof -
  have "us_id u = i" "u \<in> set (listUsers d)"
    using assms by (auto simp: getUser_def find_Some_iff)
  then show ?thesis by (auto simp: listUsers_def user_of_def)
qed

lemma requireUser_Inr:
  assumes "requireUser d actorId i = Inr u"
  shows "i \<noteq> actorId \<and> (\<exists>a \<in> set (admins d). a_id a = i \<and> u = user_of d a)"
  using assms getUser_Some [of d i u]
  by (auto simp: requireUser_def user_of_def split: option.splits if_splits)

text \<open>An account operation of the panel, with its arguments.\<close>

datatype user_op =
    OpRole string string role
  | OpDisabled time string string bool
  | OpDelete string string

fun run_user_op :: "db \<Rightarrow> user_op \<Rightarrow> db" where
  "run_user_op d (OpRole actor i r) = snd (setUserRole actor i r d)"
| "run_user_op d (OpDisabled nw actor i b) = snd (setUserDisabled nw actor i b d)"
| "run_user_op d (OpDelete actor i) = snd (deleteUser actor i d)"

definition keeps_admin :: "db \<Rightarrow> bool" where
  "keeps_admin d \<longleftrightarrow> ok_admins d \<and> active_admins d \<noteq> []"

lemma user_role_unique:
  assumes "ok_admins d" "a \<in> set (admins d)" "b \<in> set (admins d)" "a_id a = a_id b"
  shows "a = b"
  using assms distinct_key_eq [of a_id "admins d" a b] by (simp add: ok_admins_def)

lemma active_witness: "active_admins d \<noteq> [] \<longleftrightarrow> (\<exists>a \<in> set (admins d). a_role a = RoleAdmin \<and> a_disabled_at a = None)"
  by (auto simp: active_admins_def filter_empty_conv)

lemma active_after_update:
  assumes ok: "keeps_admin d"
    and safe: "(\<exists>a \<in> set (active_admins d). a_id a \<noteq> i) \<or>
      (\<forall>a \<in> set (admins d). a_id a = i \<and> a_role a = RoleAdmin \<and> a_disabled_at a = None \<longrightarrow>
         a_role (f a) = RoleAdmin \<and> a_disabled_at (f a) = None)"
  shows "active_admins (update_admins (\<lambda>a. a_id a = i) f d) \<noteq> []"
proof -
  obtain a where a: "a \<in> set (admins d)" "a_role a = RoleAdmin" "a_disabled_at a = None"
    and act: "a_id a \<noteq> i \<or> (a_role (f a) = RoleAdmin \<and> a_disabled_at (f a) = None)"
    using ok safe by (auto simp: keeps_admin_def active_witness) (auto simp: active_admins_def)
  let ?r = "if a_id a = i then f a else a"
  have "?r \<in> set (admins (update_admins (\<lambda>a. a_id a = i) f d))"
    using a(1) by (simp add: set_update_where)
  moreover have "a_role ?r = RoleAdmin \<and> a_disabled_at ?r = None" using a act by auto
  ultimately show ?thesis unfolding active_witness by blast
qed

lemma guard_other:
  assumes ok: "keeps_admin d" and u: "requireUser d actor i = Inr u"
    and g: "us_role u = RoleAdmin \<Longrightarrow> P \<Longrightarrow> activeAdminsOtherThan d i \<noteq> 0"
  shows "(\<exists>a \<in> set (active_admins d). a_id a \<noteq> i) \<or> \<not> P \<or>
    (\<forall>a \<in> set (admins d). a_id a = i \<longrightarrow> a_role a \<noteq> RoleAdmin)"
proof -
  obtain b where b: "b \<in> set (admins d)" "a_id b = i" "us_role u = a_role b"
    using requireUser_Inr [OF u] by (auto simp: user_of_def)
  have "\<forall>a \<in> set (admins d). a_id a = i \<longrightarrow> a = b"
    using b user_role_unique [of d] ok by (auto simp: keeps_admin_def)
  then show ?thesis using g b(3) activeAdminsOtherThan_0 [of d i] by metis
qed

lemma keeps_admin_update:
  assumes ok: "keeps_admin d" and f: "\<And>a. a_id (f a) = a_id a \<and> a_username (f a) = a_username a"
    and act: "active_admins (update_admins (\<lambda>a. a_id a = i) f d) \<noteq> []"
  shows "keeps_admin (update_admins (\<lambda>a. a_id a = i) f d)"
  using assms by (simp add: keeps_admin_def ok_admins_def map_update_where)

lemma setUserRole_keeps:
  assumes ok: "keeps_admin d" shows "keeps_admin (snd (setUserRole actor i r d))"
proof (cases "requireUser d actor i")
  case (Inl e)
  then show ?thesis using ok by (simp add: setUserRole_def transaction_def)
next
  case (Inr u)
  show ?thesis
  proof (cases "us_role u = RoleAdmin \<and> r \<noteq> RoleAdmin \<and> activeAdminsOtherThan d i = 0")
    case True
    then show ?thesis using ok Inr by (simp add: setUserRole_def transaction_def)
  next
    case False
    then have "snd (setUserRole actor i r d) = update_admins (\<lambda>a. a_id a = i) (\<lambda>a. a\<lparr>a_role := r\<rparr>) d"
      using Inr by (auto simp: setUserRole_def transaction_def)
    moreover have "active_admins (update_admins (\<lambda>a. a_id a = i) (\<lambda>a. a\<lparr>a_role := r\<rparr>) d) \<noteq> []"
      using guard_other [OF ok Inr, of "r \<noteq> RoleAdmin"] False
      by (intro active_after_update [OF ok]) auto
    ultimately show ?thesis using keeps_admin_update [OF ok] by simp
  qed
qed

lemma keeps_admin_delete_sessions [simp]: "keeps_admin (delete_sessions P d) = keeps_admin d"
  by (simp add: keeps_admin_def ok_admins_def active_admins_def)

lemma setUserDisabled_keeps:
  assumes ok: "keeps_admin d" shows "keeps_admin (snd (setUserDisabled nw actor i b d))"
proof (cases "requireUser d actor i")
  case (Inl e)
  then show ?thesis using ok by (simp add: setUserDisabled_def transaction_def)
next
  case (Inr u)
  let ?f = "\<lambda>a. a\<lparr>a_disabled_at := if b then Some nw else None\<rparr>"
  show ?thesis
  proof (cases "b \<and> us_role u = RoleAdmin \<and> activeAdminsOtherThan d i = 0")
    case True
    then show ?thesis using ok Inr by (simp add: setUserDisabled_def transaction_def)
  next
    case False
    then have "snd (setUserDisabled nw actor i b d) =
        (let d1 = update_admins (\<lambda>a. a_id a = i) ?f d
         in if b then delete_sessions (\<lambda>s. s_admin_id s = i) d1 else d1)"
      using Inr by (auto simp: setUserDisabled_def transaction_def Let_def)
    moreover have "active_admins (update_admins (\<lambda>a. a_id a = i) ?f d) \<noteq> []"
      using guard_other [OF ok Inr, of b] False
      by (intro active_after_update [OF ok]) auto
    ultimately show ?thesis using keeps_admin_update [OF ok, of ?f i] by (cases b) (simp_all add: Let_def)
  qed
qed

lemma deleteUser_keeps:
  assumes ok: "keeps_admin d" shows "keeps_admin (snd (deleteUser actor i d))"
proof (cases "requireUser d actor i")
  case (Inl e)
  then show ?thesis using ok by (simp add: deleteUser_def transaction_def)
next
  case (Inr u)
  show ?thesis
  proof (cases "us_role u = RoleAdmin \<and> activeAdminsOtherThan d i = 0")
    case True
    then show ?thesis using ok Inr by (simp add: deleteUser_def transaction_def)
  next
    case False
    then have "snd (deleteUser actor i d) = delete_admins (\<lambda>a. a_id a = i) d"
      using Inr by (auto simp: deleteUser_def transaction_def)
    moreover have "\<exists>a \<in> set (active_admins d). a_id a \<noteq> i"
    proof -
      obtain a where "a \<in> set (active_admins d)" using ok by (auto simp: keeps_admin_def) (meson last_in_set)
      moreover then have "a \<in> set (admins d)" "a_role a = RoleAdmin" by (simp_all add: active_admins_def)
      moreover have "(\<exists>a \<in> set (active_admins d). a_id a \<noteq> i) \<or> \<not> True \<or> (\<forall>a \<in> set (admins d). a_id a = i \<longrightarrow> a_role a \<noteq> RoleAdmin)"
        by (rule guard_other [OF ok Inr]) (use False in simp)
      ultimately show ?thesis by blast
    qed
    then have "active_admins (delete_admins (\<lambda>a. a_id a = i) d) \<noteq> []"
      unfolding active_witness by (auto simp: active_admins_def set_delete_where)
    ultimately show ?thesis
      using ok by (auto simp: keeps_admin_def ok_admins_def)
  qed
qed

lemma run_user_op_keeps: "keeps_admin d \<Longrightarrow> keeps_admin (run_user_op d op)"
  by (cases op) (simp_all add: setUserRole_keeps setUserDisabled_keeps deleteUser_keeps)

interpretation accounts: invariant_machine run_user_op keeps_admin
  by unfold_locales (rule run_user_op_keeps)

text \<open>Whatever role changes, disablings and deletions administrators perform, in any order, an account
  that is an enabled administrator remains.\<close>

lemma active_admin_remains:
  assumes "ok_admins d" and "\<exists>a \<in> set (admins d). a_role a = RoleAdmin \<and> a_disabled_at a = None"
  shows "\<exists>a \<in> set (admins (foldl run_user_op d ops)). a_role a = RoleAdmin \<and> a_disabled_at a = None"
  using accounts.run_good [of d ops] assms by (simp add: keeps_admin_def active_witness)

text \<open>Two administrators to evaluate on.\<close>

definition demo_accounts :: db where
  "demo_accounts = empty_db\<lparr>admins := [demo_admin ''a_1'' ''ann'' RoleAdmin, demo_admin ''a_2'' ''bob'' RoleAdmin]\<rparr>"

lemma active_admin_remains_witness:
  "\<exists>a \<in> set (admins (foldl run_user_op demo_accounts
      [OpDelete ''a_1'' ''a_2'', OpDelete ''a_2'' ''a_1'', OpRole ''a_9'' ''a_1'' RoleUser])).
     a_role a = RoleAdmin \<and> a_disabled_at a = None"
  by (rule active_admin_remains) (simp_all add: demo_accounts_def demo_admin_def ok_admins_def)

end
