(* ===== verification/Cases.thy ===== *)
theory Cases
  imports Users
begin

text \<open>
  src/services/audit.ts and src/services/cases.ts: the audit trail, and the cases files are
  collected in, with the listing every page of the panel starts from.
\<close>

section \<open>The audit trail\<close>

record audit_event =
  ev_actorType :: actor_type
  ev_actorId :: "string option"
  ev_action :: string
  ev_caseId :: "string option"
  ev_linkId :: "string option"
  ev_fileId :: "string option"
  ev_ip :: "string option"
  ev_details :: "(string \<times> detail) list option"

definition audit :: "time \<Rightarrow> audit_event \<Rightarrow> db \<Rightarrow> db" where
  "audit nw ev d = d\<lparr>audit_log := audit_log d @
     [\<lparr>au_ts = nw, au_actor_type = ev_actorType ev, au_actor_id = ev_actorId ev, au_action = ev_action ev,
       au_case_id = ev_caseId ev, au_link_id = ev_linkId ev, au_file_id = ev_fileId ev, au_ip = ev_ip ev,
       au_details = ev_details ev\<rparr>]\<rparr>"

text \<open>A row with its autoincremented id and the current name of a panel actor that still exists.\<close>

record audit_view =
  av_id :: nat
  av_row :: audit_row
  av_actor_name :: "string option"

definition audit_view_of :: "db \<Rightarrow> nat \<times> audit_row \<Rightarrow> audit_view" where
  "audit_view_of d p =
     \<lparr>av_id = fst p, av_row = snd p,
      av_actor_name =
        (if au_actor_type (snd p) = ActorAdmin
         then map_option a_username (Option.bind (au_actor_id (snd p)) (adminById d)) else None)\<rparr>"

definition listAudit :: "db \<Rightarrow> nat \<Rightarrow> audit_view list" where
  "listAudit d limit = take limit (rev (map (audit_view_of d) (enumerate 1 (audit_log d))))"

lemma audit_simps [simp]:
  "admins (audit nw ev d) = admins d" "sessions (audit nw ev d) = sessions d"
  "recovery_codes (audit nw ev d) = recovery_codes d" "passkeys (audit nw ev d) = passkeys d"
  "bindings (audit nw ev d) = bindings d" "cases (audit nw ev d) = cases d" "members (audit nw ev d) = members d"
  "links (audit nw ev d) = links d" "files (audit nw ev d) = files d"
  by (simp_all add: audit_def)

lemma db_ok_audit_event [simp]: "db_ok (audit nw ev d) = db_ok d"
  by (simp add: audit_def)

section \<open>Cases\<close>

record case_summary =
  cs_case :: case_row
  cs_link_count :: nat
  cs_file_count :: nat
  cs_total_bytes :: int

definition size_of :: "file_row \<Rightarrow> int" where
  "size_of f = (case f_size f of None \<Rightarrow> 0 | Some n \<Rightarrow> n)"

definition case_name_error :: exn where
  "case_name_error = JsError ''Case name must be 1-200 characters''"

definition createCase :: "time \<Rightarrow> byte list \<Rightarrow> string \<Rightarrow> string option \<Rightarrow> db \<Rightarrow> case_row result \<times> db" where
  "createCase nw rnd rawName description d =
     (let name = js_trim rawName
      in if name = [] \<or> 200 < length name then (Inl case_name_error, d)
         else
           let c = \<lparr>c_id = newId ''c'' rnd, c_name = name,
                    c_description = take 5000 (js_trim (case description of None \<Rightarrow> [] | Some s \<Rightarrow> s)),
                    c_status = CaseOpen, c_created_at = nw, c_updated_at = nw\<rparr>
           in case insert_case c d of Inl e \<Rightarrow> (Inl e, d) | Inr d' \<Rightarrow> (Inr c, d'))"

definition getCase :: "db \<Rightarrow> string \<Rightarrow> case_row option" where
  "getCase d i = get_by c_id i (cases d)"

definition summary_of :: "db \<Rightarrow> case_row \<Rightarrow> case_summary" where
  "summary_of d c =
     (let done = filter (\<lambda>f. f_case_id f = c_id c \<and> f_status f = Complete) (files d)
      in \<lparr>cs_case = c, cs_link_count = changes (\<lambda>l. l_case_id l = c_id c \<and> l_revoked_at l = None) (links d),
          cs_file_count = length done, cs_total_bytes = sum_list (map size_of done)\<rparr>)"

definition listCases :: "db \<Rightarrow> viewer \<Rightarrow> case_summary list" where
  "listCases d v =
     map (summary_of d)
       (sort_key (\<lambda>c. (c_status c \<noteq> CaseOpen, - c_created_at c))
         (if vw_role v = RoleAdmin then cases d
          else filter (\<lambda>c. \<exists>m \<in> set (members d). m_case_id m = c_id c \<and> m_admin_id m = vw_id v) (cases d)))"

record case_update =
  cu_name :: "string option"
  cu_description :: "string option"
  cu_status :: "case_status option"

definition updateCase :: "time \<Rightarrow> string \<Rightarrow> case_update \<Rightarrow> db \<Rightarrow> case_row option result \<times> db" where
  "updateCase nw i u d =
     (case getCase d i of
        None \<Rightarrow> (Inr None, d)
      | Some existing \<Rightarrow>
        let name = (case cu_name u of None \<Rightarrow> c_name existing | Some n \<Rightarrow> js_trim n)
        in if name = [] \<or> 200 < length name then (Inl case_name_error, d)
           else
             let description = (case cu_description u of None \<Rightarrow> c_description existing | Some s \<Rightarrow> take 5000 (js_trim s));
                 status = (case cu_status u of None \<Rightarrow> c_status existing | Some s \<Rightarrow> s);
                 d' = d\<lparr>cases := update_where (\<lambda>c. c_id c = i)
                          (\<lambda>c. c\<lparr>c_name := name, c_description := description, c_status := status, c_updated_at := nw\<rparr>) (cases d)\<rparr>
             in (Inr (getCase d' i), d'))"

section \<open>Who sees which case\<close>

lemma listed_access: "s \<in> set (listCases d v) \<Longrightarrow> canAccessCase d v (c_id (cs_case s))"
  by (auto simp: listCases_def summary_of_def Let_def canAccessCase_def split: if_splits)

text \<open>C26: the listing and the access rule agree: an account may open exactly the existing cases its
  listing shows, whatever its role.\<close>

theorem access_iff_listed:
  "canAccessCase d v i \<and> getCase d i \<noteq> None \<longleftrightarrow> i \<in> (\<lambda>s. c_id (cs_case s)) ` set (listCases d v)"
proof -
  have "getCase d i \<noteq> None \<longleftrightarrow> i \<in> c_id ` set (cases d)"
    using get_by_None_iff [of c_id i "cases d"] by (auto simp: getCase_def)
  moreover have "(\<lambda>s. c_id (cs_case s)) ` set (listCases d v) =
      c_id ` (if vw_role v = RoleAdmin then set (cases d)
              else {c \<in> set (cases d). \<exists>m \<in> set (members d). m_case_id m = c_id c \<and> m_admin_id m = vw_id v})"
    by (simp add: listCases_def summary_of_def Let_def image_image)
  ultimately show ?thesis
    by (auto simp: canAccessCase_def)
qed

lemma db_ok_update_case [db_intros]:
  "db_ok d \<Longrightarrow> (\<And>c. c_id (f c) = c_id c) \<Longrightarrow> db_ok (d\<lparr>cases := update_where P f (cases d)\<rparr>)"
  by (auto simp: db_ok_def ok_defs has_defs map_update_where image_update_where)

text \<open>What \<open>updateCase\<close> leaves: only the addressed case changes, its name stays within bounds.\<close>

lemma updateCase_frame:
  assumes "updateCase nw i u d = (r, d')"
  shows "filter (\<lambda>c. c_id c \<noteq> i) (cases d') = filter (\<lambda>c. c_id c \<noteq> i) (cases d) \<and>
    d'\<lparr>cases := cases d\<rparr> = d"
proof -
  have *: "filter (\<lambda>c. c_id c \<noteq> i) (update_where (\<lambda>c. c_id c = i) f t) = filter (\<lambda>c. c_id c \<noteq> i) t"
    if "\<And>c. c_id (f c) = c_id c" for f :: "case_row \<Rightarrow> case_row" and t
    using that by (induction t) (auto simp: update_where_def)
  show ?thesis
    using assms by (auto simp: updateCase_def Let_def * split: option.splits if_splits)
qed

end
