(* ===== verification/Paths.thy ===== *)
theory Paths
  imports Prelude
begin

text \<open>
  What the sources use of node:path on POSIX systems: \<open>resolve\<close> of one argument, \<open>join\<close>,
  \<open>dirname\<close>, \<open>extname\<close>. \<open>cwd\<close> is the absolute working directory of the process.
\<close>

definition is_slash :: "char \<Rightarrow> bool" where
  "is_slash c \<longleftrightarrow> c = CHR ''/''"

text \<open>\<open>normalizeString\<close>: empty and \<open>.\<close> segments go, \<open>..\<close> removes the segment before it.\<close>

fun normal_segments :: "bool \<Rightarrow> string list \<Rightarrow> string list \<Rightarrow> string list" where
  "normal_segments up acc [] = rev acc"
| "normal_segments up acc (s # ss) =
     (if s = [] \<or> s = ''.'' then normal_segments up acc ss
      else if s = ''..'' then
        (case acc of
           [] \<Rightarrow> normal_segments up (if up then [s] else []) ss
         | a # as \<Rightarrow> normal_segments up (if a = ''..'' then (if up then s # acc else acc) else as) ss)
      else normal_segments up (s # acc) ss)"

definition path_normal :: "bool \<Rightarrow> string \<Rightarrow> string" where
  "path_normal up p = js_join ''/'' (normal_segments up [] (split_by is_slash p))"

definition path_absolute :: "string \<Rightarrow> bool" where
  "path_absolute p \<longleftrightarrow> starts_with ''/'' p"

definition path_resolve :: "string \<Rightarrow> string \<Rightarrow> string" where
  "path_resolve cwd p =
     CHR ''/'' # path_normal False (if path_absolute p then p else if p = [] then cwd else cwd @ ''/'' @ p)"

definition path_normalize :: "string \<Rightarrow> string" where
  "path_normalize p =
     (if p = [] then ''.''
      else
        let ab = path_absolute p; n = path_normal (\<not> ab) p
        in if n = [] then (if ab then ''/'' else if ends_with ''/'' p then ''./'' else ''.'')
           else (if ab then ''/'' else []) @ n @ (if ends_with ''/'' p then ''/'' else []))"

definition path_join :: "string \<Rightarrow> string \<Rightarrow> string" where
  "path_join a b = path_normalize (js_join ''/'' (filter (\<lambda>s. s \<noteq> []) [a, b]))"

definition strip_slashes :: "string \<Rightarrow> string" where
  "strip_slashes p = rev (dropWhile is_slash (rev p))"

definition path_dirname :: "string \<Rightarrow> string" where
  "path_dirname p =
     (if p = [] then ''.''
      else
        let i = last_index_of CHR ''/'' (strip_slashes (drop 1 p))
        in if i < 0 then (if path_absolute p then ''/'' else ''.'')
           else if i = 0 \<and> path_absolute p then ''//''
           else take (nat i + 1) p)"

definition path_basename :: "string \<Rightarrow> string" where
  "path_basename p = last (split_by is_slash (strip_slashes p))"

definition path_extname :: "string \<Rightarrow> string" where
  "path_extname p =
     (let b = path_basename p; k = last_index_of CHR ''.'' b
      in if k \<le> 0 \<or> b = ''..'' then [] else drop (nat k) b)"

section \<open>A resolved path is absolute and has no relative segments\<close>

lemma normal_segments_clean:
  "(\<forall>s \<in> set acc. s \<notin> {[], ''.'', ''..''} \<and> s \<in> S) \<Longrightarrow> set ss \<subseteq> S \<Longrightarrow>
   s \<in> set (normal_segments False acc ss) \<Longrightarrow> s \<notin> {[], ''.'', ''..''} \<and> s \<in> S"
proof (induction ss arbitrary: acc)
  case Nil
  then show ?case by simp
next
  case (Cons t ss)
  consider "t = [] \<or> t = ''.''" | "t = ''..''" "acc = []" | a as where "t = ''..''" "acc = a # as"
    | "t \<notin> {[], ''.'', ''..''}" by (cases acc) auto
  then show ?case
  proof cases
    case 1
    with Cons show ?thesis by auto
  next
    case 2
    then have "s \<in> set (normal_segments False [] ss)" using Cons.prems(3) by simp
    then show ?thesis using Cons.IH [of "[]"] Cons.prems(2) by auto
  next
    case 3
    have "a \<noteq> ''..''" using Cons.prems(1) 3 by auto
    with 3 Cons.prems(3) have "s \<in> set (normal_segments False as ss)" by simp
    then show ?thesis using Cons.IH [of as] Cons.prems(1,2) 3 by auto
  next
    case 4
    then have "normal_segments False acc (t # ss) = normal_segments False (t # acc) ss" by auto
    then have "s \<in> set (normal_segments False (t # acc) ss)" using Cons.prems(3) by simp
    then show ?thesis using Cons.IH [of "t # acc"] Cons.prems(1,2) 4 by auto
  qed
qed

lemma path_resolve_segments:
  "\<exists>segs. path_resolve cwd p = CHR ''/'' # js_join ''/'' segs \<and>
     (\<forall>s \<in> set segs. s \<noteq> [] \<and> s \<noteq> ''.'' \<and> s \<noteq> ''..'' \<and> CHR ''/'' \<notin> set s)"
proof -
  let ?q = "if path_absolute p then p else if p = [] then cwd else cwd @ ''/'' @ p"
  let ?segs = "normal_segments False [] (split_by is_slash ?q)"
  have "\<forall>s \<in> set (split_by is_slash ?q). CHR ''/'' \<notin> set s"
    using split_by_pieces by (fastforce simp: is_slash_def)
  then have sub: "set (split_by is_slash ?q) \<subseteq> {s. CHR ''/'' \<notin> set s}" by blast
  have "\<forall>s \<in> set ?segs. s \<noteq> [] \<and> s \<noteq> ''.'' \<and> s \<noteq> ''..'' \<and> CHR ''/'' \<notin> set s"
    using normal_segments_clean [of "[]", OF _ sub] by simp
  moreover have "path_resolve cwd p = CHR ''/'' # js_join ''/'' ?segs"
    by (simp only: path_resolve_def path_normal_def)
  ultimately show ?thesis by blast
qed

section \<open>Files of a resolved directory\<close>

definition clean_segment :: "string \<Rightarrow> bool" where
  "clean_segment s \<longleftrightarrow> s \<noteq> [] \<and> s \<noteq> ''.'' \<and> s \<noteq> ''..'' \<and> CHR ''/'' \<notin> set s"

lemma normal_segments_id: "list_all clean_segment ss \<Longrightarrow> normal_segments up acc ss = rev acc @ ss"
  by (induction ss arbitrary: acc) (auto simp: clean_segment_def)

lemma js_join_snoc: "ss \<noteq> [] \<Longrightarrow> js_join sep (ss @ [k]) = js_join sep ss @ sep @ k"
  by (induction ss rule: induct_list012) auto

lemma split_js_join: "ss \<noteq> [] \<Longrightarrow> list_all clean_segment ss \<Longrightarrow> split_by is_slash (js_join ''/'' ss) = ss"
proof (induction ss rule: induct_list012)
  case (2 s)
  then have "\<forall>c \<in> set s. \<not> is_slash c" by (auto simp: clean_segment_def is_slash_def)
  with split_by_none show ?case by simp
next
  case (3 s t ss)
  then have "split_by is_slash (s @ CHR ''/'' # js_join ''/'' (t # ss)) = s # split_by is_slash (js_join ''/'' (t # ss))"
    by (intro split_by_append) (auto simp: clean_segment_def is_slash_def)
  with 3 show ?case by simp
qed simp

lemma index_of_skip: "c \<notin> set s \<Longrightarrow> index_of c (s @ c # t) = int (length s)"
  by (induction s) (auto simp: Let_def)

lemma last_index_of_key: "c \<notin> set k \<Longrightarrow> last_index_of c (s @ c # k) = int (length s)"
  using index_of_skip [of c "rev k" "rev s"] by (simp add: last_index_of_def Let_def)

lemma strip_slashes_key: "clean_segment k \<Longrightarrow> strip_slashes (s @ k) = s @ k"
  by (cases k rule: rev_cases) (auto simp: strip_slashes_def clean_segment_def is_slash_def)

lemma js_join_Nil: "list_all clean_segment ss \<Longrightarrow> js_join ''/'' ss = [] \<longleftrightarrow> ss = []"
  by (cases "(''/'', ss)" rule: js_join.cases) (auto simp: clean_segment_def)

text \<open>A file of a resolved directory: its path is the directory, a slash and the name, and its
  directory is that directory.\<close>

lemma path_in_directory:
  assumes dir: "dir = CHR ''/'' # js_join ''/'' segs" and segs: "segs \<noteq> []" "list_all clean_segment segs" and k: "clean_segment k"
  shows "path_join dir k = dir @ ''/'' @ k \<and> path_dirname (path_join dir k) = dir"
proof -
  let ?p = "CHR ''/'' # js_join ''/'' (segs @ [k])"
  have p: "?p = dir @ ''/'' @ k" using dir js_join_snoc [OF segs(1)] by simp
  have all: "list_all clean_segment (segs @ [k])" using segs k by simp
  have "split_by is_slash ?p = [] # segs @ [k]" using split_js_join [OF _ all] by (simp add: is_slash_def)
  then have n: "path_normal False ?p = js_join ''/'' (segs @ [k])"
    using normal_segments_id [OF all, of False "[]"] by (simp add: path_normal_def)
  have e: "\<not> ends_with ''/'' ?p"
    using k unfolding p by (cases k rule: rev_cases) (auto simp: ends_with_def starts_with_def clean_segment_def)
  have "path_normalize ?p = ?p"
    using n e js_join_Nil [OF all] by (simp add: path_normalize_def path_absolute_def starts_with_def Let_def)
  moreover have "js_join ''/'' (filter (\<lambda>s. s \<noteq> []) [dir, k]) = ?p"
    using k p dir by (simp add: clean_segment_def)
  ultimately have j: "path_join dir k = dir @ ''/'' @ k" by (simp add: path_join_def p)
  have "strip_slashes (js_join ''/'' segs @ ''/'' @ k) = js_join ''/'' segs @ ''/'' @ k"
    using strip_slashes_key [OF k, of "js_join ''/'' segs @ ''/''"] by simp
  moreover have "last_index_of CHR ''/'' (js_join ''/'' segs @ CHR ''/'' # k) = int (length (js_join ''/'' segs))"
    using k by (intro last_index_of_key) (simp add: clean_segment_def)
  moreover have "js_join ''/'' segs \<noteq> []" using js_join_Nil segs by blast
  ultimately have "path_dirname (dir @ ''/'' @ k) = dir"
    using dir by (simp add: path_dirname_def Let_def)
  with j show ?thesis by simp
qed

end
