(* ===== verification/Log.thy ===== *)
theory Log
  imports Prelude
begin

text \<open>
  src/log.ts: the level threshold, what \<open>redact\<close> removes from text before it is logged, and the
  fields \<open>emit\<close> writes. A line is the ordered members of the JSON object and the stream it goes to.
\<close>

section \<open>Levels\<close>

datatype level = Debug | Info | Warn | Error

fun ORDER :: "level \<Rightarrow> nat" where
  "ORDER Debug = 10"
| "ORDER Info = 20"
| "ORDER Warn = 30"
| "ORDER Error = 40"

instantiation level :: linorder
begin

definition less_eq_level :: "level \<Rightarrow> level \<Rightarrow> bool" where
  "less_eq_level a b \<longleftrightarrow> ORDER a \<le> ORDER b"

definition less_level :: "level \<Rightarrow> level \<Rightarrow> bool" where
  "less_level a b \<longleftrightarrow> ORDER a < ORDER b"

lemma ORDER_inject: "ORDER a = ORDER b \<Longrightarrow> a = b"
  by (cases a; cases b) auto

instance
  by standard (auto simp: less_eq_level_def less_level_def intro: ORDER_inject)

end

section \<open>redact\<close>

text \<open>
  \<open>/\/u\/[^/?#\s]+/g\<close>, \<open>/(\/api\/upload\/)[^?#\s]+/g\<close> and
  \<open>/([?&](?:token|access_token|sig)=)[^&#\s]*/gi\<close>, each replaced from left to right.
\<close>

definition link_char :: "char \<Rightarrow> bool" where
  "link_char c \<longleftrightarrow> c \<notin> set ''/?#'' \<and> \<not> is_ws c"

definition name_char :: "char \<Rightarrow> bool" where
  "name_char c \<longleftrightarrow> c \<notin> set ''?#'' \<and> \<not> is_ws c"

definition param_char :: "char \<Rightarrow> bool" where
  "param_char c \<longleftrightarrow> c \<notin> set ''&#'' \<and> \<not> is_ws c"

lemma dropWhile_shorter: "takeWhile P s \<noteq> [] \<Longrightarrow> length (dropWhile P s) < length s"
  by (cases s) (auto simp: le_imp_less_Suc length_dropWhile_le split: if_splits)

function redact_run :: "string \<Rightarrow> (char \<Rightarrow> bool) \<Rightarrow> string \<Rightarrow> string \<Rightarrow> string" where
  "redact_run pre P mark [] = []"
| "redact_run pre P mark (c # cs) =
     (if starts_with pre (c # cs) \<and> takeWhile P (drop (length pre) (c # cs)) \<noteq> []
      then pre @ mark @ redact_run pre P mark (dropWhile P (drop (length pre) (c # cs)))
      else c # redact_run pre P mark cs)"
  by pat_completeness auto
termination
proof (relation "measure (\<lambda>(pre, P, mark, s). length s)", goal_cases)
  case (2 pre P mark c cs)
  then show ?case
    using dropWhile_shorter [of P "drop (length pre) (c # cs)"] by (simp del: length_dropWhile_le)
qed simp_all

text \<open>The parameter names in the order the alternation tries them, letter case ignored.\<close>

definition param_key :: "string \<Rightarrow> string option" where
  "param_key s =
     (case s of
        [] \<Rightarrow> None
      | c # t \<Rightarrow>
        if c \<noteq> CHR ''?'' \<and> c \<noteq> CHR ''&'' then None
        else
          (case find (\<lambda>n. starts_with n (js_lower t)) [''token='', ''access_token='', ''sig=''] of
             None \<Rightarrow> None
           | Some n \<Rightarrow> Some (c # take (length n) t)))"

lemma param_key_length: "param_key s = Some k \<Longrightarrow> 0 < length k"
  by (auto simp: param_key_def split: list.splits option.splits if_splits)

function redact_params :: "string \<Rightarrow> string" where
  "redact_params [] = []"
| "redact_params (c # cs) =
     (case param_key (c # cs) of
        Some k \<Rightarrow> k @ ''[redacted]'' @ redact_params (dropWhile param_char (drop (length k) (c # cs)))
      | None \<Rightarrow> c # redact_params cs)"
  by pat_completeness auto
termination
proof (relation "measure length", goal_cases)
  case prems: (3 c cs k)
  then show ?case
    using param_key_length [of "c # cs" k] length_dropWhile_le [of param_char "drop (length k) (c # cs)"]
    by (simp del: length_greater_0_conv)
qed simp_all

definition redact :: "string \<Rightarrow> string" where
  "redact value =
     redact_params (redact_run ''/api/upload/'' name_char ''[filename]''
       (redact_run ''/u/'' link_char ''[redacted]'' value))"

section \<open>emit\<close>

text \<open>Field values: text, an \<open>Error\<close> with its name and message, anything else, or \<open>undefined\<close>.\<close>

datatype 'v log_value = LvText string | LvError string string | LvOther 'v | LvUndefined

datatype stream = Stdout | Stderr

type_synonym 'v fields = "(string \<times> 'v log_value) list"

text \<open>\<open>line[k] = v\<close> on an object: a known member keeps its place.\<close>

fun obj_set :: "string \<Rightarrow> 'v \<Rightarrow> (string \<times> 'v) list \<Rightarrow> (string \<times> 'v) list" where
  "obj_set k v [] = [(k, v)]"
| "obj_set k v ((j, w) # r) = (if j = k then (k, v) # r else (j, w) # obj_set k v r)"

fun log_safe :: "'v log_value \<Rightarrow> 'v log_value" where
  "log_safe (LvText s) = LvText (redact s)"
| "log_safe (LvError n m) = LvError n (redact m)"
| "log_safe (LvOther v) = LvOther v"
| "log_safe LvUndefined = LvUndefined"

definition secret_field :: "string \<Rightarrow> bool" where
  "secret_field k \<longleftrightarrow> k \<in> {''authorization'', ''cookie'', ''token'', ''password''}"

fun emit_fields :: "'v fields \<Rightarrow> 'v fields \<Rightarrow> 'v fields" where
  "emit_fields line [] = line"
| "emit_fields line ((k, v) # r) =
     (if v = LvUndefined \<or> secret_field k then emit_fields line r
      else emit_fields (obj_set k (log_safe v) line) r)"

fun level_name :: "level \<Rightarrow> string" where
  "level_name Debug = ''debug''"
| "level_name Info = ''info''"
| "level_name Warn = ''warn''"
| "level_name Error = ''error''"

definition emit :: "level \<Rightarrow> string \<Rightarrow> level \<Rightarrow> string \<Rightarrow> 'v fields \<Rightarrow> (stream \<times> 'v fields) option" where
  "emit current ts lvl msg fields =
     (if ORDER lvl < ORDER current then None
      else Some (if lvl = Error \<or> lvl = Warn then Stderr else Stdout,
                 emit_fields [(''ts'', LvText ts), (''level'', LvText (level_name lvl)), (''msg'', LvText msg)] fields))"

section \<open>What reaches a log line\<close>

lemma obj_set_mem: "(j, w) \<in> set (obj_set k v r) \<Longrightarrow> (j, w) \<in> set r \<or> (j = k \<and> w = v)"
  by (induction r) (auto split: if_splits)

lemma emit_fields_mem:
  "(k, v) \<in> set (emit_fields line fs) \<Longrightarrow>
   (k, v) \<in> set line \<or> (\<not> secret_field k \<and> (\<exists>w. (k, w) \<in> set fs \<and> w \<noteq> LvUndefined \<and> v = log_safe w))"
proof (induction fs arbitrary: line)
  case (Cons f fs)
  obtain j w where f: "f = (j, w)" by (cases f)
  show ?case
  proof (cases "w = LvUndefined \<or> secret_field j")
    case True
    then show ?thesis using Cons f by auto
  next
    case False
    with Cons f have "(k, v) \<in> set (obj_set j (log_safe w) line) \<or>
        (\<not> secret_field k \<and> (\<exists>w. (k, w) \<in> set fs \<and> w \<noteq> LvUndefined \<and> v = log_safe w))"
      by simp
    then show ?thesis using False f by (auto dest: obj_set_mem)
  qed
qed simp

text \<open>A run of the class right after the prefix is replaced whole, whatever it is.\<close>

lemma takeWhile_run: "list_all P t \<Longrightarrow> (\<forall>c \<in> set (take 1 y). \<not> P c) \<Longrightarrow> takeWhile P (t @ y) = t"
  by (induction t) (auto, cases y, auto)

lemma dropWhile_run: "list_all P t \<Longrightarrow> (\<forall>c \<in> set (take 1 y). \<not> P c) \<Longrightarrow> dropWhile P (t @ y) = y"
  by (induction t) (auto, cases y, auto)

lemma redact_run_hit:
  assumes "pre \<noteq> []" "t \<noteq> []" "list_all P t" "\<forall>c \<in> set (take 1 y). \<not> P c"
  shows "redact_run pre P mark (pre @ t @ y) = pre @ mark @ redact_run pre P mark y"
proof -
  obtain c cs where pre: "pre = c # cs" using assms(1) by (cases pre) auto
  have tk: "takeWhile P (t @ y) = t" and dr: "dropWhile P (t @ y) = y"
    using assms(3,4) by (simp_all add: takeWhile_run dropWhile_run)
  have "starts_with pre (c # (cs @ t @ y))" using pre by (simp add: starts_with_def)
  moreover have "drop (length pre) (c # (cs @ t @ y)) = t @ y" using pre by simp
  ultimately have "redact_run pre P mark (c # (cs @ t @ y)) = pre @ mark @ redact_run pre P mark y"
    using tk dr assms(2) by simp
  then show ?thesis using pre by simp
qed

lemma redact_run_step:
  "s \<noteq> [] \<Longrightarrow> starts_with pre s \<and> takeWhile P (drop (length pre) s) \<noteq> [] \<Longrightarrow>
   redact_run pre P mark s = pre @ mark @ redact_run pre P mark (dropWhile P (drop (length pre) s))"
  by (cases s) simp_all

lemma redact_run_skip:
  "s = c # cs \<Longrightarrow> \<not> (starts_with pre s \<and> takeWhile P (drop (length pre) s) \<noteq> []) \<Longrightarrow>
   redact_run pre P mark s = c # redact_run pre P mark cs"
  by (simp only: redact_run.simps if_False)

text \<open>Text that does not end in a started prefix is scanned on its own.\<close>

lemma ends_with_append: "s \<noteq> [] \<Longrightarrow> length p \<le> length s \<Longrightarrow> ends_with p (x @ s) = ends_with p s"
  by (simp add: ends_with_def starts_with_def)

lemma ends_with_suffix: "ends_with p s \<Longrightarrow> ends_with p (x @ s)"
  by (auto simp: ends_with_def starts_with_iff)

lemma link_prefix_start: "starts_with ''/u/'' (x @ ''/u/'' @ z) \<longleftrightarrow> x = [] \<or> starts_with ''/u/'' x \<or> x = ''/u''"
proof (cases x)
  case (Cons a r)
  note x = this
  show ?thesis
  proof (cases r)
    case (Cons b s)
    with x show ?thesis by (cases s) (auto simp: starts_with_def)
  qed (use x in \<open>auto simp: starts_with_def\<close>)
qed (simp add: starts_with_def)

lemma run_append_stop:
  "\<not> P c \<Longrightarrow> takeWhile P (r @ c # z) = takeWhile P r \<and> dropWhile P (r @ c # z) = dropWhile P r @ c # z"
  by (induction r) auto

abbreviation redact_links :: "string \<Rightarrow> string" where
  "redact_links \<equiv> redact_run ''/u/'' link_char ''[redacted]''"

lemma redact_links_append:
  "\<not> ends_with ''/u'' x \<Longrightarrow> redact_links (x @ ''/u/'' @ z) = redact_links x @ redact_links (''/u/'' @ z)"
proof (induction "length x" arbitrary: x rule: less_induct)
  case less
  show ?case
  proof (cases x)
    case (Cons c cs)
    let ?r = "drop 3 x"
    have nlc: "\<not> link_char (CHR ''/'')" by (simp add: link_char_def)
    have st: "starts_with ''/u/'' (x @ ''/u/'' @ z) \<longleftrightarrow> starts_with ''/u/'' x"
    proof -
      have "x \<noteq> ''/u''" using less.prems by (auto simp: ends_with_def starts_with_def)
      then show ?thesis using link_prefix_start [of x z] Cons by blast
    qed
    have suf: "\<not> ends_with ''/u'' y" if "x = w @ y" for w y
      using that less.prems ends_with_suffix by blast
    show ?thesis
    proof (cases "starts_with ''/u/'' x \<and> takeWhile link_char ?r \<noteq> []")
      case True
      then have len: "3 \<le> length x" by (auto simp: starts_with_iff)
      have dr: "drop 3 (x @ ''/u/'' @ z) = ?r @ ''/u/'' @ z" using len by simp
      have tk: "takeWhile link_char (?r @ ''/u/'' @ z) = takeWhile link_char ?r"
        and dw: "dropWhile link_char (?r @ ''/u/'' @ z) = dropWhile link_char ?r @ ''/u/'' @ z"
        using run_append_stop [of link_char "CHR ''/''" ?r "''u/'' @ z"] nlc by simp_all
      have less': "length (dropWhile link_char ?r) < length x"
        using len length_dropWhile_le [of link_char ?r] by simp
      have "x = (take 3 x @ takeWhile link_char ?r) @ dropWhile link_char ?r" by simp
      then have ih: "redact_links (dropWhile link_char ?r @ ''/u/'' @ z) =
          redact_links (dropWhile link_char ?r) @ redact_links (''/u/'' @ z)"
        using less.hyps [OF less'] suf by metis
      have l3: "length ''/u/'' = 3" by simp
      note hit = redact_run_step [of _ "''/u/''" link_char "''[redacted]''", unfolded l3]
      have "redact_links (x @ ''/u/'' @ z) = ''/u/'' @ ''[redacted]'' @ redact_links (dropWhile link_char ?r @ ''/u/'' @ z)"
        using hit [of "x @ ''/u/'' @ z"] True st dr tk dw by (simp only: append_is_Nil_conv) simp
      moreover have "redact_links x = ''/u/'' @ ''[redacted]'' @ redact_links (dropWhile link_char ?r)"
        using hit [of x] True Cons by (simp only: simp_thms) blast
      ultimately show ?thesis using ih by (simp only: append_assoc)
    next
      case False
      have no: "\<not> (starts_with ''/u/'' (x @ ''/u/'' @ z) \<and> takeWhile link_char (drop 3 (x @ ''/u/'' @ z)) \<noteq> [])"
      proof
        assume a: "starts_with ''/u/'' (x @ ''/u/'' @ z) \<and> takeWhile link_char (drop 3 (x @ ''/u/'' @ z)) \<noteq> []"
        then have sx: "starts_with ''/u/'' x" using st by simp
        then have "3 \<le> length x" by (auto simp: starts_with_iff)
        then have "drop 3 (x @ ''/u/'' @ z) = ?r @ ''/u/'' @ z" by simp
        then show False
          using a sx False run_append_stop [of link_char "CHR ''/''" ?r "''u/'' @ z"] nlc by simp
      qed
      have "redact_links (cs @ ''/u/'' @ z) = redact_links cs @ redact_links (''/u/'' @ z)"
        using less.hyps [of cs] suf [of "[c]" cs] Cons by simp
      moreover
      have l3: "length ''/u/'' = 3" by simp
      note miss = redact_run_skip [of _ c _ "''/u/''" link_char "''[redacted]''", unfolded l3]
      have "redact_links (x @ ''/u/'' @ z) = c # redact_links (cs @ ''/u/'' @ z)"
        by (rule miss [OF _ no]) (simp only: Cons append_Cons)
      moreover have "redact_links x = c # redact_links cs"
        by (rule miss [OF Cons False])
      ultimately show ?thesis by (simp only: append_Cons)
    qed
  qed simp
qed

text \<open>Two values that are logged the same way are interchangeable in every line.\<close>

lemma emit_fields_safe:
  assumes "log_safe v = log_safe w" "v \<noteq> LvUndefined" "w \<noteq> LvUndefined"
  shows "emit_fields line (fs @ (k, v) # gs) = emit_fields line (fs @ (k, w) # gs)"
  using assms by (induction fs arbitrary: line) auto

lemma emit_safe:
  assumes "log_safe v = log_safe w" "v \<noteq> LvUndefined" "w \<noteq> LvUndefined"
  shows "emit current ts lvl msg (fs @ (k, v) # gs) = emit current ts lvl msg (fs @ (k, w) # gs)"
  by (simp add: emit_def emit_fields_safe [OF assms])

text \<open>
  The scan goes on behind the run it replaced, so \<open>/u\<close> in the place of a token uses up the slash the next
  \<open>/u/\<close> would need: the token behind it stays.
\<close>

lemma redact_keeps_second_segment:
  "redact ''GET /u/u/AbC_123-x'' = ''GET /u/[redacted]/AbC_123-x''" by code_simp

text \<open>C28: a field of a log line, a text or the message of an error, does not depend on the token of an upload link:
  where \<open>/u/<token>\<close> stands in it and is not itself preceded by \<open>/u\<close>, the redacted text and the whole line are
  the same for every token. The message of the line itself is not redacted.\<close>

theorem redact_hides_token:
  fixes fs gs :: "'v fields"
  assumes "\<not> ends_with ''/u'' before" and "after = [] \<or> \<not> link_char (hd after)"
    and "token \<noteq> []" and "list_all link_char token" and "other \<noteq> []" and "list_all link_char other"
  shows "redact (before @ ''/u/'' @ token @ after) = redact (before @ ''/u/'' @ other @ after) \<and>
    emit current ts lvl msg (fs @ (k, LvText (before @ ''/u/'' @ token @ after)) # gs) =
      emit current ts lvl msg (fs @ (k, LvText (before @ ''/u/'' @ other @ after)) # gs) \<and>
    emit current ts lvl msg (fs @ (k, LvError e (before @ ''/u/'' @ token @ after)) # gs) =
      emit current ts lvl msg (fs @ (k, LvError e (before @ ''/u/'' @ other @ after)) # gs)"
proof -
  have y: "\<forall>c \<in> set (take 1 after). \<not> link_char c" using assms(2) by (cases after) auto
  have "redact_links (before @ ''/u/'' @ t @ after) = redact_links before @ ''/u/[redacted]'' @ redact_links after"
    if "t \<noteq> []" "list_all link_char t" for t
    using redact_links_append [OF assms(1)] redact_run_hit [OF _ that y, of "''/u/''" "''[redacted]''"] by simp
  from this [OF assms(3,4)] this [OF assms(5,6)]
  have same: "redact (before @ ''/u/'' @ token @ after) = redact (before @ ''/u/'' @ other @ after)" by (simp add: redact_def)
  show ?thesis by (intro conjI emit_safe same) (simp_all only: log_safe.simps same log_value.distinct simp_thms)
qed

theorem redact_hides_token_witness:
  "redact (''GET /u/AbC_123-x'' @ ''?lang=pl&token=t0p'') = ''GET /u/[redacted]?lang=pl&token=[redacted]'' \<and>
   redact (''GET '' @ ''/u/'' @ ''AbC_123-x'' @ ''?lang=pl&token=t0p'') = redact (''GET '' @ ''/u/'' @ ''zz'' @ ''?lang=pl&token=t0p'')"
proof
  show "redact (''GET /u/AbC_123-x'' @ ''?lang=pl&token=t0p'') = ''GET /u/[redacted]?lang=pl&token=[redacted]''"
    by code_simp
  have "\<not> ends_with ''/u'' ''GET ''" "\<not> link_char (hd ''?lang=pl&token=t0p'')" "list_all link_char ''AbC_123-x''" "list_all link_char ''zz''"
    by code_simp+
  with redact_hides_token [of "''GET ''" "''?lang=pl&token=t0p''" "''AbC_123-x''" "''zz''"]
  show "redact (''GET '' @ ''/u/'' @ ''AbC_123-x'' @ ''?lang=pl&token=t0p'') = redact (''GET '' @ ''/u/'' @ ''zz'' @ ''?lang=pl&token=t0p'')"
    by blast
qed

end
