(* ===== verification/Config.thy ===== *)
theory Config
  imports JsNumber Paths Log
begin

text \<open>
  src/config.ts: sizes, the settings read from the environment and the checks \<open>loadConfig\<close> makes.
  The environment is the map \<open>process.env\<close>; the platform gives the working directory and the
  protocol of a URL the WHATWG parser accepts (\<open>None\<close> when \<open>new URL\<close> throws).
\<close>

section \<open>Types\<close>

datatype storage_kind = Local | S3

record brand =
  br_name :: string
  br_logoPath :: "string option"
  br_colorPrimary :: string
  br_colorTopbar :: string
  br_colorAccent :: string
  br_footerText :: string

record s3_config =
  s3_endpoint :: "string option"
  s3_region :: string
  s3_bucket :: string
  s3_accessKeyId :: "string option"
  s3_secretAccessKey :: "string option"
  s3_forcePathStyle :: bool
  s3_partSize :: int

datatype trust_proxy = TrustNone | TrustHops jsnum | TrustList string

record config =
  cf_publicUrl :: string
  cf_brand :: brand
  cf_host :: string
  cf_port :: jsnum
  cf_trustProxy :: trust_proxy
  cf_dataDir :: string
  cf_databasePath :: string
  cf_storage :: storage_kind
  cf_localStorageDir :: string
  cf_s3 :: s3_config
  cf_maxFileBytes :: int
  cf_uploadChunkBytes :: int
  cf_incompleteUploadTtlMs :: jsnum
  cf_cleanupIntervalMs :: jsnum
  cf_sessionTtlMs :: jsnum
  cf_adminRequireTotp :: bool
  cf_reauthWindowMs :: jsnum
  cf_deviceBoundSessions :: bool
  cf_cookieSecure :: bool
  cf_loginRateLimitPer15Min :: jsnum
  cf_tokenFailureRateLimitPer15Min :: jsnum
  cf_publicRateLimitPerMinute :: jsnum
  cf_logLevel :: level

record platform =
  pl_cwd :: string
  pl_url_protocol :: "string \<Rightarrow> string option"

type_synonym env = "string \<Rightarrow> string option"

section \<open>Arithmetic on numbers\<close>

fun js_mul :: "jsnum \<Rightarrow> int \<Rightarrow> jsnum" where
  "js_mul NaN k = NaN"
| "js_mul (Infinite s) k = (if k = 0 then NaN else Infinite (if k < 0 then \<not> s else s))"
| "js_mul (Num q) k = to_double (q * of_int k)"

fun js_floor :: "jsnum \<Rightarrow> jsnum" where
  "js_floor (Num q) = Num (of_int \<lfloor>q\<rfloor>)"
| "js_floor x = x"

text \<open>The integer part of a finite number, as \<open>new Date\<close> and SQLite read it.\<close>

fun whole :: "jsnum \<Rightarrow> int" where
  "whole (Num q) = \<lfloor>q\<rfloor>"
| "whole _ = 0"

section \<open>Sizes\<close>

text \<open>
  \<open>SIZE_UNITS[unit]\<close> looks an object up: the one inherited member whose name is all lower-case
  letters is the function \<open>constructor\<close>, whose product with a number is NaN.
\<close>

definition size_unit :: "string \<Rightarrow> int option option" where
  "size_unit u =
     (if u = [] \<or> u = ''b'' then Some (Some 1)
      else if u \<in> {''k'', ''kb'', ''kib''} then Some (Some 1024)
      else if u \<in> {''m'', ''mb'', ''mib''} then Some (Some (1024 ^ 2))
      else if u \<in> {''g'', ''gb'', ''gib''} then Some (Some (1024 ^ 3))
      else if u \<in> {''t'', ''tb'', ''tib''} then Some (Some (1024 ^ 4))
      else if u = ''constructor'' then Some None
      else None)"

text \<open>\<open>/^\s*(\d+(?:\.\d+)?)\s*([a-zA-Z]*)\s*$/\<close>: the number and the unit it captures.\<close>

definition size_match :: "string \<Rightarrow> (string \<times> string) option" where
  "size_match input =
     (let s = dropWhile is_ws input;
          ip = takeWhile is_digit s; r = dropWhile is_digit s;
          fp = (case r of [] \<Rightarrow> [] | c # t \<Rightarrow> if c = CHR ''.'' then takeWhile is_digit t else []);
          number = (if fp = [] then ip else ip @ CHR ''.'' # fp);
          s2 = dropWhile is_ws (drop (length number) s);
          unit = takeWhile is_alpha s2;
          s3 = dropWhile is_ws (dropWhile is_alpha s2)
      in if ip = [] \<or> s3 \<noteq> [] then None else Some (number, unit))"

definition invalid_size :: "string \<Rightarrow> string \<Rightarrow> exn" where
  "invalid_size name input = JsError (''Invalid '' @ name @ '': '' @ [CHR 0x22] @ input @ [CHR 0x22])"

definition parseSize :: "string \<Rightarrow> string \<Rightarrow> int result" where
  "parseSize input name =
     (case size_match input of
        None \<Rightarrow> Inl (invalid_size name input)
      | Some (number, unit) \<Rightarrow>
        (case size_unit (js_lower unit) of
           None \<Rightarrow> Inl (JsError (''Invalid unit in '' @ name @ '': '' @ [CHR 0x22] @ input @ [CHR 0x22]))
         | Some mult \<Rightarrow>
           let value = js_floor (case mult of None \<Rightarrow> NaN | Some m \<Rightarrow> js_mul (js_Number number) m)
           in if \<not> is_safe_integer value \<or> whole value < 0 then Inl (invalid_size name input)
              else Inr (whole value)))"

text \<open>\<open>toFixed\<close> and \<open>Math.round\<close> of a non-negative number: halves go up.\<close>

definition to_fixed :: "nat \<Rightarrow> rat \<Rightarrow> string" where
  "to_fixed d v =
     (let n = nat \<lfloor>v * 10 ^ d + 1 / 2\<rfloor>; s = string_of_nat n;
          p = replicate (Suc d - length s) CHR ''0'' @ s
      in if d = 0 then s else take (length p - d) p @ CHR ''.'' # drop (length p - d) p)"

fun size_scale :: "rat \<Rightarrow> string list \<Rightarrow> rat \<times> string" where
  "size_scale v [] = (v, [])"
| "size_scale v [u] = (v, u)"
| "size_scale v (u # w # us) = (if 1024 \<le> v then size_scale (v / 1024) (w # us) else (v, u))"

definition formatSize :: "int \<Rightarrow> string" where
  "formatSize bytes =
     (if bytes < 1024 then string_of_int bytes @ '' B''
      else case size_scale (of_int bytes / 1024) [''KB'', ''MB'', ''GB'', ''TB''] of
        (v, u) \<Rightarrow> to_fixed (if v < 10 then 2 else if v < 100 then 1 else 0) v @ '' '' @ u)"

section \<open>Settings\<close>

definition env_or :: "env \<Rightarrow> string \<Rightarrow> string \<Rightarrow> string" where
  "env_or env key d = (case env key of None \<Rightarrow> d | Some v \<Rightarrow> v)"

definition env_some :: "env \<Rightarrow> string \<Rightarrow> string option" where
  "env_some env key = (if truthy (env key) then env key else None)"

fun negative_num :: "jsnum \<Rightarrow> bool" where
  "negative_num (Num q) \<longleftrightarrow> q < 0"
| "negative_num _ \<longleftrightarrow> False"

definition num :: "env \<Rightarrow> string \<Rightarrow> int \<Rightarrow> jsnum result" where
  "num env key d =
     (case env key of
        None \<Rightarrow> Inr (Num (of_int d))
      | Some raw \<Rightarrow>
        if raw = [] then Inr (Num (of_int d))
        else let n = js_Number raw
             in if \<not> is_finite_num n \<or> negative_num n then Inl (invalid_size key raw) else Inr n)"

definition bool_setting :: "env \<Rightarrow> string \<Rightarrow> bool \<Rightarrow> bool" where
  "bool_setting env key d =
     (case env key of
        None \<Rightarrow> d
      | Some raw \<Rightarrow> if raw = [] then d else js_lower raw \<in> {''1'', ''true'', ''yes'', ''on''})"

definition is_hex_digit :: "char \<Rightarrow> bool" where
  "is_hex_digit c \<longleftrightarrow> is_digit c \<or> (97 \<le> code c \<and> code c \<le> 102) \<or> (65 \<le> code c \<and> code c \<le> 70)"

definition HEX_COLOR_RE :: "string \<Rightarrow> bool" where
  "HEX_COLOR_RE s \<longleftrightarrow> length s = 7 \<and> starts_with ''#'' s \<and> list_all is_hex_digit (drop 1 s)"

definition LOGO_EXTENSIONS :: "string list" where
  "LOGO_EXTENSIONS = [''.png'', ''.svg'', ''.jpg'', ''.jpeg'', ''.webp'']"

definition color :: "env \<Rightarrow> string \<Rightarrow> string \<Rightarrow> string result" where
  "color env key d =
     (let raw = js_trim (env_or env key [])
      in if raw = [] then Inr d
         else if \<not> HEX_COLOR_RE raw then Inl (JsError (key @ '' must be a hex colour like #0f766e''))
         else Inr (js_lower raw))"

definition logo_path :: "platform \<Rightarrow> env \<Rightarrow> string option result" where
  "logo_path P env =
     (let raw = js_trim (env_or env ''BRAND_LOGO_PATH'' [])
      in if raw = [] then Inr None
         else let p = path_resolve (pl_cwd P) raw
              in if js_lower (path_extname p) \<notin> set LOGO_EXTENSIONS
                 then Inl (JsError (''BRAND_LOGO_PATH must point to a '' @ js_join ''/'' LOGO_EXTENSIONS @ '' file''))
                 else Inr (Some p))"

definition loadBrand :: "platform \<Rightarrow> env \<Rightarrow> brand result" where
  "loadBrand P env =
     (let name = or_else (take 60 (js_trim (env_or env ''BRAND_NAME'' []))) ''inletbox''
      in and_then (logo_path P env) (\<lambda>logo.
         and_then (color env ''BRAND_COLOR_PRIMARY'' ''#1f6feb'') (\<lambda>primary.
         and_then (color env ''BRAND_COLOR_TOPBAR'' ''#101418'') (\<lambda>topbar.
         and_then (color env ''BRAND_COLOR_ACCENT'' primary) (\<lambda>accent.
         Inr \<lparr>br_name = name, br_logoPath = logo, br_colorPrimary = primary, br_colorTopbar = topbar,
              br_colorAccent = accent, br_footerText = take 200 (js_trim (env_or env ''BRAND_FOOTER_TEXT'' []))\<rparr>)))))"

definition parse_trust :: "string \<Rightarrow> trust_proxy result" where
  "parse_trust raw =
     (let t = js_trim raw
      in if js_lower t \<in> {''true'', ''yes'', ''on''}
         then Inl (JsError ''TRUST_PROXY=true is not allowed: use the number of proxy hops (e.g. 1) or a list of proxy addresses/CIDRs'')
         else if t \<noteq> [] \<and> list_all is_digit t then Inr (TrustHops (js_Number t))
         else if t \<noteq> [] \<and> js_lower t \<notin> {''false'', ''0'', ''no'', ''off''} then Inr (TrustList t)
         else Inr TrustNone)"

definition parse_level :: "string \<Rightarrow> level option" where
  "parse_level s = find (\<lambda>l. level_name l = s) [Debug, Info, Warn, Error]"

definition parse_storage :: "string \<Rightarrow> storage_kind option" where
  "parse_storage s = (if s = ''local'' then Some Local else if s = ''s3'' then Some S3 else None)"

definition guard :: "bool \<Rightarrow> string \<Rightarrow> unit result" where
  "guard b msg = (if b then Inr () else Inl (JsError msg))"

definition clamp :: "jsnum \<Rightarrow> int \<Rightarrow> int \<Rightarrow> jsnum" where
  "clamp n lo hi = (case n of Num q \<Rightarrow> Num (min (max q (of_int lo)) (of_int hi)) | _ \<Rightarrow> n)"

definition quoted :: "string \<Rightarrow> string" where
  "quoted s = [CHR 0x22] @ s @ [CHR 0x22]"

section \<open>loadConfig\<close>

definition load_publicUrl :: "platform \<Rightarrow> env \<Rightarrow> (string \<times> string) result" where
  "load_publicUrl P env =
     (let url = strip_slashes (env_or env ''PUBLIC_URL'' ''http://localhost:3000'')
      in case pl_url_protocol P url of
           None \<Rightarrow> Inl (JsError (''PUBLIC_URL is not a valid URL: '' @ quoted url))
         | Some protocol \<Rightarrow>
           if protocol \<notin> {''http:'', ''https:''} then Inl (JsError ''PUBLIC_URL must start with http:// or https://'')
           else Inr (url, protocol))"

definition load_storage :: "env \<Rightarrow> storage_kind result" where
  "load_storage env =
     (let s = env_or env ''STORAGE_BACKEND'' ''local''
      in case parse_storage s of
           None \<Rightarrow> Inl (JsError (''STORAGE_BACKEND must be '' @ quoted ''local'' @ '' or '' @ quoted ''s3'' @ '', got '' @ quoted s))
         | Some k \<Rightarrow> Inr k)"

definition load_level :: "env \<Rightarrow> level result" where
  "load_level env =
     (let s = env_or env ''LOG_LEVEL'' ''info''
      in case parse_level s of None \<Rightarrow> Inl (JsError (''Invalid LOG_LEVEL: '' @ s)) | Some l \<Rightarrow> Inr l)"

definition path_setting :: "platform \<Rightarrow> env \<Rightarrow> string \<Rightarrow> string \<Rightarrow> string" where
  "path_setting P env key d = (if truthy (env key) then path_resolve (pl_cwd P) (the (env key)) else d)"

definition s3_of :: "env \<Rightarrow> int \<Rightarrow> s3_config" where
  "s3_of env partSize =
     \<lparr>s3_endpoint = env_some env ''S3_ENDPOINT'', s3_region = or_else (env_or env ''S3_REGION'' []) ''us-east-1'',
      s3_bucket = env_or env ''S3_BUCKET'' [], s3_accessKeyId = env_some env ''S3_ACCESS_KEY_ID'',
      s3_secretAccessKey = env_some env ''S3_SECRET_ACCESS_KEY'',
      s3_forcePathStyle = bool_setting env ''S3_FORCE_PATH_STYLE'' True, s3_partSize = partSize\<rparr>"

definition loadConfig :: "platform \<Rightarrow> env \<Rightarrow> config result" where
  "loadConfig P env =
     and_then (load_publicUrl P env) (\<lambda>(publicUrl, protocol).
     let dataDir = path_resolve (pl_cwd P) (env_or env ''DATA_DIR'' ''./data'') in
     and_then (load_storage env) (\<lambda>storage.
     and_then (parse_trust (env_or env ''TRUST_PROXY'' ''false'')) (\<lambda>trustProxy.
     and_then (parseSize (env_or env ''S3_PART_SIZE'' ''8MB'') ''S3_PART_SIZE'') (\<lambda>s3PartSize.
     and_then (guard (storage = S3 \<longrightarrow> truthy (env ''S3_BUCKET'')) ''S3_BUCKET is required when STORAGE_BACKEND=s3'') (\<lambda>_.
     and_then (guard (storage = S3 \<longrightarrow> 5 * 1024 * 1024 \<le> s3PartSize) ''S3_PART_SIZE must be at least 5MB'') (\<lambda>_.
     and_then (parseSize (env_or env ''MAX_FILE_SIZE'' ''10GB'') ''MAX_FILE_SIZE'') (\<lambda>maxFileBytes.
     and_then (guard (1 \<le> maxFileBytes) ''MAX_FILE_SIZE must be positive'') (\<lambda>_.
     and_then (parseSize (env_or env ''UPLOAD_CHUNK_SIZE'' ''32MB'') ''UPLOAD_CHUNK_SIZE'') (\<lambda>uploadChunkBytes.
     and_then (guard (1024 * 1024 \<le> uploadChunkBytes) ''UPLOAD_CHUNK_SIZE must be at least 1MB'') (\<lambda>_.
     and_then (load_level env) (\<lambda>logLevel.
     let databasePath = path_setting P env ''DATABASE_PATH'' (path_join dataDir ''inletbox.sqlite'');
         localStorageDir = path_setting P env ''LOCAL_STORAGE_DIR'' (path_join dataDir ''files'') in
     and_then (guard (\<not> (storage = Local \<and> path_dirname databasePath = localStorageDir))
       ''The database must not live inside LOCAL_STORAGE_DIR (the orphan sweep only touches that directory, keep them apart)'') (\<lambda>_.
     and_then (loadBrand P env) (\<lambda>brand.
     and_then (num env ''PORT'' 3000) (\<lambda>port.
     and_then (num env ''INCOMPLETE_UPLOAD_TTL_HOURS'' 24) (\<lambda>uploadTtl.
     and_then (num env ''CLEANUP_INTERVAL_MINUTES'' 30) (\<lambda>cleanupInterval.
     and_then (num env ''SESSION_TTL_HOURS'' 12) (\<lambda>sessionTtl.
     and_then (num env ''REAUTH_WINDOW_MINUTES'' 10) (\<lambda>reauth.
     and_then (num env ''LOGIN_RATE_LIMIT_PER_15MIN'' 10) (\<lambda>loginRate.
     and_then (num env ''TOKEN_FAILURE_RATE_LIMIT_PER_15MIN'' 30) (\<lambda>tokenRate.
     and_then (num env ''PUBLIC_RATE_LIMIT_PER_MINUTE'' 600) (\<lambda>publicRate.
     Inr \<lparr>cf_publicUrl = publicUrl, cf_brand = brand, cf_host = env_or env ''HOST'' ''0.0.0.0'', cf_port = port,
          cf_trustProxy = trustProxy, cf_dataDir = dataDir, cf_databasePath = databasePath, cf_storage = storage,
          cf_localStorageDir = localStorageDir, cf_s3 = s3_of env s3PartSize, cf_maxFileBytes = maxFileBytes,
          cf_uploadChunkBytes = uploadChunkBytes,
          cf_incompleteUploadTtlMs = js_mul uploadTtl 3600000,
          cf_cleanupIntervalMs = js_mul cleanupInterval 60000,
          cf_sessionTtlMs = js_mul sessionTtl 3600000,
          cf_adminRequireTotp = bool_setting env ''ADMIN_REQUIRE_TOTP'' False,
          cf_reauthWindowMs = js_mul (clamp reauth 1 720) 60000,
          cf_deviceBoundSessions = bool_setting env ''DEVICE_BOUND_SESSIONS'' True,
          cf_cookieSecure = bool_setting env ''COOKIE_SECURE'' (protocol = ''https:''),
          cf_loginRateLimitPer15Min = loginRate, cf_tokenFailureRateLimitPer15Min = tokenRate,
          cf_publicRateLimitPerMinute = publicRate, cf_logLevel = logLevel\<rparr>)))))))))))))))))))))"

section \<open>Facts\<close>

lemma parseSize_bounds: "parseSize s name = Inr n \<Longrightarrow> 0 \<le> n \<and> n \<le> max_safe"
  by (cases "size_match s")
    (auto simp: parseSize_def Let_def not_less split: option.splits if_splits jsnum.splits elim!: is_safe_integer.elims)

lemma guard_Inr [simp]: "guard b msg = Inr u \<longleftrightarrow> b"
  by (simp add: guard_def)

lemma num_nonneg: "num env key d = Inr n \<Longrightarrow> 0 \<le> d \<Longrightarrow> \<exists>q. n = Num q \<and> 0 \<le> q"
  by (cases n) (auto simp: num_def Let_def split: option.splits if_splits)

lemma js_mul_clamp:
  assumes "num env key d = Inr n" "0 \<le> d" and "1 \<le> lo" "lo \<le> hi" "hi \<le> 10000"
  shows "\<exists>q. clamp n lo hi = Num q \<and> of_int lo \<le> q \<and> q \<le> of_int hi"
  using num_nonneg [OF assms(1,2)] assms(3-) by (auto simp: clamp_def min_def max_def)


lemma strip_slashes_last: "strip_slashes s = [] \<or> last (strip_slashes s) \<noteq> CHR ''/''"
proof -
  have "dropWhile is_slash (rev s) = [] \<or> \<not> is_slash (hd (dropWhile is_slash (rev s)))"
    using hd_dropWhile by blast
  then show ?thesis by (auto simp: strip_slashes_def last_rev is_slash_def)
qed

lemma parse_trust_Inr:
  assumes "parse_trust raw = Inr tp"
  shows "case tp of TrustNone \<Rightarrow> True | TrustHops n \<Rightarrow> \<exists>t. list_all is_digit t \<and> n = js_Number t
    | TrustList t \<Rightarrow> t \<noteq> [] \<and> js_lower t \<notin> {''true'', ''yes'', ''on''}"
  using assms by (auto simp: parse_trust_def Let_def split: if_splits)

lemma color_Inr: "color env key d = Inr c \<Longrightarrow> c = d \<or> (\<exists>raw. HEX_COLOR_RE raw \<and> c = js_lower raw)"
  by (auto simp: color_def Let_def split: if_splits)

lemma lower_hex_digit: "is_hex_digit c \<Longrightarrow> is_hex_digit (lower_char c)"
proof -
  have "\<forall>n < 256. is_hex_digit (chr_of n) \<longrightarrow> is_hex_digit (lower_char (chr_of n))"
    by (auto simp: is_hex_digit_def lower_char_def is_upper_def is_digit_def)
  then show "is_hex_digit c \<Longrightarrow> is_hex_digit (lower_char c)"
    using chr_of_code [of c] code_less_256 [of c] by metis
qed

lemma lower_HEX_COLOR:
  assumes "HEX_COLOR_RE raw" shows "HEX_COLOR_RE (js_lower raw)"
proof -
  obtain t where raw: "raw = CHR ''#'' # t" and "length t = 6" "list_all is_hex_digit t"
    using assms by (cases raw) (auto simp: HEX_COLOR_RE_def starts_with_def)
  moreover have "lower_char CHR ''#'' = CHR ''#''" by (simp add: lower_char_def is_upper_def code_def)
  ultimately show ?thesis
    by (simp add: HEX_COLOR_RE_def js_lower_def starts_with_def list_all_iff lower_hex_digit)
qed

lemma color_ok: "color env key d = Inr c \<Longrightarrow> HEX_COLOR_RE d \<Longrightarrow> HEX_COLOR_RE c"
  by (auto dest!: color_Inr simp: lower_HEX_COLOR)

lemma loadBrand_colours:
  assumes "loadBrand P env = Inr b"
  shows "HEX_COLOR_RE (br_colorPrimary b) \<and> HEX_COLOR_RE (br_colorTopbar b) \<and> HEX_COLOR_RE (br_colorAccent b)"
proof -
  have d: "HEX_COLOR_RE ''#1f6feb''" "HEX_COLOR_RE ''#101418''" by code_simp+
  obtain p t a where p: "color env ''BRAND_COLOR_PRIMARY'' ''#1f6feb'' = Inr p"
      and t: "color env ''BRAND_COLOR_TOPBAR'' ''#101418'' = Inr t"
      and a: "color env ''BRAND_COLOR_ACCENT'' p = Inr a"
      and b: "br_colorPrimary b = p" "br_colorTopbar b = t" "br_colorAccent b = a"
    using assms by (auto simp: loadBrand_def Let_def and_then_Inr_iff)
  show ?thesis using color_ok [OF p d(1)] color_ok [OF t d(2)] color_ok [OF a] b by simp
qed

lemma loadBrand_name: "loadBrand P env = Inr b \<Longrightarrow> br_name b \<noteq> [] \<and> length (br_name b) \<le> 60"
  by (auto simp: loadBrand_def Let_def and_then_Inr_iff or_else_def split: if_splits)

lemma loadConfig_steps:
  assumes "loadConfig P env = Inr c"
  obtains protocol n where "load_publicUrl P env = Inr (cf_publicUrl c, protocol)"
    and "parse_trust (env_or env ''TRUST_PROXY'' ''false'') = Inr (cf_trustProxy c)"
    and "parseSize (env_or env ''MAX_FILE_SIZE'' ''10GB'') ''MAX_FILE_SIZE'' = Inr (cf_maxFileBytes c)"
    and "1 \<le> cf_maxFileBytes c" and "1024 * 1024 \<le> cf_uploadChunkBytes c"
    and "cf_storage c = S3 \<longrightarrow> truthy (env ''S3_BUCKET'')"
    and "cf_storage c = S3 \<longrightarrow> 5 * 1024 * 1024 \<le> s3_partSize (cf_s3 c)"
    and "s3_bucket (cf_s3 c) = env_or env ''S3_BUCKET'' []"
    and "\<not> (cf_storage c = Local \<and> path_dirname (cf_databasePath c) = cf_localStorageDir c)"
    and "loadBrand P env = Inr (cf_brand c)"
    and "num env ''REAUTH_WINDOW_MINUTES'' 10 = Inr n" and "cf_reauthWindowMs c = js_mul (clamp n 1 720) 60000"
proof -
  note run = assms [unfolded loadConfig_def Let_def]
  show thesis
    using run
    apply -
    apply (erule and_then_InrE, (simp only: prod.case split_paired_all)?)+
    apply (erule and_then_InrE | clarify)+
    apply (rule that; simp add: s3_of_def)
    done
qed

text \<open>C27: a configuration that loads is sound: sizes are positive safe integers above their floors, a
  bucket is set for S3, the confirmation window is between one minute and twelve hours, no blanket
  proxy trust, a public URL with an http scheme and no trailing slash, colours that are plain hex
  colours, a non-empty brand name, and a database outside the swept storage directory.\<close>

theorem loadConfig_sound:
  assumes "loadConfig P env = Inr c"
  shows "1 \<le> cf_maxFileBytes c \<and> cf_maxFileBytes c \<le> max_safe \<and> 1024 * 1024 \<le> cf_uploadChunkBytes c \<and>
    (cf_storage c = S3 \<longrightarrow> s3_bucket (cf_s3 c) \<noteq> [] \<and> 5 * 1024 * 1024 \<le> s3_partSize (cf_s3 c)) \<and>
    (cf_storage c = Local \<longrightarrow> path_dirname (cf_databasePath c) \<noteq> cf_localStorageDir c) \<and>
    (\<exists>q. cf_reauthWindowMs c = js_mul (Num q) 60000 \<and> 1 \<le> q \<and> q \<le> 720) \<and>
    (\<forall>t. cf_trustProxy c = TrustList t \<longrightarrow> t \<noteq> [] \<and> js_lower t \<notin> {''true'', ''yes'', ''on''}) \<and>
    pl_url_protocol P (cf_publicUrl c) \<in> {Some ''http:'', Some ''https:''} \<and>
    (cf_publicUrl c = [] \<or> last (cf_publicUrl c) \<noteq> CHR ''/'') \<and>
    HEX_COLOR_RE (br_colorPrimary (cf_brand c)) \<and> HEX_COLOR_RE (br_colorTopbar (cf_brand c)) \<and>
    HEX_COLOR_RE (br_colorAccent (cf_brand c)) \<and>
    br_name (cf_brand c) \<noteq> [] \<and> length (br_name (cf_brand c)) \<le> 60"
proof -
  obtain protocol n where url: "load_publicUrl P env = Inr (cf_publicUrl c, protocol)"
    and trust: "parse_trust (env_or env ''TRUST_PROXY'' ''false'') = Inr (cf_trustProxy c)"
    and sizes: "parseSize (env_or env ''MAX_FILE_SIZE'' ''10GB'') ''MAX_FILE_SIZE'' = Inr (cf_maxFileBytes c)"
      "1 \<le> cf_maxFileBytes c" "1024 * 1024 \<le> cf_uploadChunkBytes c"
    and s3: "cf_storage c = S3 \<longrightarrow> truthy (env ''S3_BUCKET'')"
      "cf_storage c = S3 \<longrightarrow> 5 * 1024 * 1024 \<le> s3_partSize (cf_s3 c)"
      "s3_bucket (cf_s3 c) = env_or env ''S3_BUCKET'' []"
    and dirs: "\<not> (cf_storage c = Local \<and> path_dirname (cf_databasePath c) = cf_localStorageDir c)"
    and brand: "loadBrand P env = Inr (cf_brand c)"
    and n: "num env ''REAUTH_WINDOW_MINUTES'' 10 = Inr n" "cf_reauthWindowMs c = js_mul (clamp n 1 720) 60000"
    by (rule loadConfig_steps [OF assms])
  have "\<exists>q. cf_reauthWindowMs c = js_mul (Num q) 60000 \<and> 1 \<le> q \<and> q \<le> 720"
    using js_mul_clamp [OF n(1), of 1 720] n(2) by auto
  moreover have "pl_url_protocol P (cf_publicUrl c) \<in> {Some ''http:'', Some ''https:''} \<and>
      (cf_publicUrl c = [] \<or> last (cf_publicUrl c) \<noteq> CHR ''/'')"
    using url strip_slashes_last [of "env_or env ''PUBLIC_URL'' ''http://localhost:3000''"]
    by (auto simp: load_publicUrl_def Let_def split: option.splits if_splits)
  moreover have "cf_storage c = S3 \<longrightarrow> s3_bucket (cf_s3 c) \<noteq> []"
    using s3 by (auto simp: truthy_def env_or_def split: option.splits)
  ultimately show ?thesis
    using sizes parseSize_bounds [OF sizes(1)] s3 dirs parse_trust_Inr [OF trust] loadBrand_colours [OF brand]
      loadBrand_name [OF brand] by auto
qed

theorem loadConfig_sound_witness:
  "\<exists>c. loadConfig \<lparr>pl_cwd = ''/srv'', pl_url_protocol = (\<lambda>u. Some ''https:'')\<rparr>
      [''PUBLIC_URL'' \<mapsto> ''https://box.example//'', ''REAUTH_WINDOW_MINUTES'' \<mapsto> ''5000'', ''MAX_FILE_SIZE'' \<mapsto> ''1536 MiB''] = Inr c \<and>
    1 \<le> cf_maxFileBytes c \<and> cf_maxFileBytes c = 1610612736 \<and> cf_reauthWindowMs c = Num (720 * 60000) \<and>
    cf_publicUrl c = ''https://box.example''"
proof -
  let ?run = "loadConfig \<lparr>pl_cwd = ''/srv'', pl_url_protocol = (\<lambda>u. Some ''https:'')\<rparr>
      [''PUBLIC_URL'' \<mapsto> ''https://box.example//'', ''REAUTH_WINDOW_MINUTES'' \<mapsto> ''5000'', ''MAX_FILE_SIZE'' \<mapsto> ''1536 MiB'']"
  have "case ?run of Inl e \<Rightarrow> False | Inr c \<Rightarrow> cf_maxFileBytes c = 1610612736 \<and> cf_reauthWindowMs c = Num (720 * 60000) \<and>
      cf_publicUrl c = ''https://box.example''"
    by code_simp
  then obtain c where run: "?run = Inr c" and c: "cf_maxFileBytes c = 1610612736" "cf_reauthWindowMs c = Num (720 * 60000)"
      "cf_publicUrl c = ''https://box.example''"
    by (auto split: sum.splits)
  from loadConfig_sound [OF run] run c show ?thesis by auto
qed

text \<open>The configuration of the examples: the defaults, with small limits.\<close>

definition demo_config :: config where
  "demo_config =
     \<lparr>cf_publicUrl = ''https://box.example'',
      cf_brand = \<lparr>br_name = ''inletbox'', br_logoPath = None, br_colorPrimary = ''#1f6feb'', br_colorTopbar = ''#101418'',
                 br_colorAccent = ''#1f6feb'', br_footerText = []\<rparr>,
      cf_host = ''0.0.0.0'', cf_port = Num 3000, cf_trustProxy = TrustNone, cf_dataDir = ''/data'',
      cf_databasePath = ''/data/inletbox.sqlite'', cf_storage = Local, cf_localStorageDir = ''/data/files'',
      cf_s3 = \<lparr>s3_endpoint = None, s3_region = ''us-east-1'', s3_bucket = [], s3_accessKeyId = None,
               s3_secretAccessKey = None, s3_forcePathStyle = True, s3_partSize = 8388608\<rparr>,
      cf_maxFileBytes = 1000, cf_uploadChunkBytes = 1048576, cf_incompleteUploadTtlMs = Num 86400000,
      cf_cleanupIntervalMs = Num 1800000, cf_sessionTtlMs = Num 43200000, cf_adminRequireTotp = False,
      cf_reauthWindowMs = Num 600000, cf_deviceBoundSessions = True, cf_cookieSecure = True,
      cf_loginRateLimitPer15Min = Num 10, cf_tokenFailureRateLimitPer15Min = Num 30,
      cf_publicRateLimitPerMinute = Num 600, cf_logLevel = Info\<rparr>"

end
