(* ===== verification/Links.thy ===== *)
theory Links
  imports Cases Config
begin

text \<open>
  src/services/links.ts: upload links. The clear-text token leaves \<open>createLink\<close> once; the
  database keeps its SHA-256, and \<open>resolveToken\<close> finds the link again by hash.
\<close>

record link_usage =
  lu_file_count :: nat
  lu_used_bytes :: int
  lu_reserved_bytes :: int
  lu_uploading_count :: nat

record effective_limits =
  el_maxFileBytes :: int
  el_maxFiles :: "int option"
  el_maxTotalBytes :: "int option"

datatype link_state = LinkActive | LinkExpired | LinkRevoked | LinkCaseClosed

record resolved_link =
  rl_link :: link_row
  rl_case :: case_row
  rl_state :: link_state

record create_link_input =
  ci_caseId :: string
  ci_label :: string
  ci_expiresAt :: "time option"
  ci_maxFileBytes :: "int option"
  ci_maxFiles :: "jsnum option"
  ci_maxTotalBytes :: "int option"

definition linkUrl :: "config \<Rightarrow> string \<Rightarrow> string" where
  "linkUrl cfg token = cf_publicUrl cfg @ ''/u/'' @ token"

text \<open>\<open>Number.isInteger\<close> and \<open>< 1\<close> of a number the form gave.\<close>

fun positive_integer :: "jsnum \<Rightarrow> bool" where
  "positive_integer (Num q) \<longleftrightarrow> q = of_int \<lfloor>q\<rfloor> \<and> 1 \<le> q"
| "positive_integer _ \<longleftrightarrow> False"

definition createLink ::
  "node_crypto \<Rightarrow> time \<Rightarrow> byte list \<Rightarrow> byte list \<Rightarrow> config \<Rightarrow> create_link_input \<Rightarrow> db
    \<Rightarrow> (link_row \<times> string \<times> string) result \<times> db" where
  "createLink C nw token_rnd id_rnd cfg inp d =
     (let label = or_else (take 200 (js_trim (ci_label inp))) ''Odbiorca'';
          checks =
            and_then (guard (case ci_maxFileBytes inp of None \<Rightarrow> True | Some n \<Rightarrow> 1 \<le> n \<and> n \<le> cf_maxFileBytes cfg)
              (''Per-link file size limit must be between 1 and the global limit ('' @ string_of_int (cf_maxFileBytes cfg) @ '' bytes)'')) (\<lambda>_.
            and_then (guard (case ci_maxFiles inp of None \<Rightarrow> True | Some n \<Rightarrow> positive_integer n) ''max files must be a positive integer'') (\<lambda>_.
            and_then (guard (case ci_maxTotalBytes inp of None \<Rightarrow> True | Some n \<Rightarrow> 1 \<le> n) ''max total bytes must be positive'') (\<lambda>_.
            and_then (guard (case ci_expiresAt inp of None \<Rightarrow> True | Some t \<Rightarrow> nw < t) ''Expiry must be in the future'') (\<lambda>_.
            guard (getCase d (ci_caseId inp) \<noteq> None) ''Case not found''))))
      in case checks of
           Inl e \<Rightarrow> (Inl e, d)
         | Inr _ \<Rightarrow>
           let token = newToken token_rnd;
               link = \<lparr>l_id = newId ''l'' id_rnd, l_case_id = ci_caseId inp, l_label = label,
                       l_token_hash = sha256Hex C token, l_token_hint = take 6 token, l_expires_at = ci_expiresAt inp,
                       l_revoked_at = None, l_max_file_bytes = ci_maxFileBytes inp,
                       l_max_files = map_option whole (ci_maxFiles inp), l_max_total_bytes = ci_maxTotalBytes inp,
                       l_created_at = nw, l_last_used_at = None\<rparr>
           in case insert_link link d of
                Inl e \<Rightarrow> (Inl e, d)
              | Inr d' \<Rightarrow> (Inr (link, token, linkUrl cfg token), d'))"

definition getLink :: "db \<Rightarrow> string \<Rightarrow> link_row option" where
  "getLink d i = get_by l_id i (links d)"

definition linkUsage :: "db \<Rightarrow> string \<Rightarrow> link_usage" where
  "linkUsage d i =
     (let done = filter (\<lambda>f. f_link_id f = i \<and> f_status f = Complete) (files d);
          running = filter (\<lambda>f. f_link_id f = i \<and> f_status f = Uploading) (files d)
      in \<lparr>lu_file_count = length done, lu_used_bytes = sum_list (map size_of done),
          lu_reserved_bytes = sum_list (map f_reserved_bytes running), lu_uploading_count = length running\<rparr>)"

definition listLinksForCase :: "db \<Rightarrow> string \<Rightarrow> (link_row \<times> link_usage) list" where
  "listLinksForCase d caseId =
     map (\<lambda>l. (l, linkUsage d (l_id l)))
       (sort_key (\<lambda>l. - l_created_at l) (filter (\<lambda>l. l_case_id l = caseId) (links d)))"

definition revokeLink :: "time \<Rightarrow> string \<Rightarrow> db \<Rightarrow> bool \<times> db" where
  "revokeLink nw i d =
     (let hit = (\<lambda>l. l_id l = i \<and> l_revoked_at l = None)
      in (0 < changes hit (links d), update_links hit (\<lambda>l. l\<lparr>l_revoked_at := Some nw\<rparr>) d))"

definition linkState :: "time \<Rightarrow> link_row \<Rightarrow> case_row \<Rightarrow> link_state" where
  "linkState nw l c =
     (if l_revoked_at l \<noteq> None then LinkRevoked
      else if (case l_expires_at l of None \<Rightarrow> False | Some t \<Rightarrow> t \<le> nw) then LinkExpired
      else if c_status c \<noteq> CaseOpen then LinkCaseClosed
      else LinkActive)"

definition resolveToken :: "node_crypto \<Rightarrow> time \<Rightarrow> string \<Rightarrow> db \<Rightarrow> resolved_link option" where
  "resolveToken C nw token d =
     (if \<not> TOKEN_RE token then None
      else case get_by l_token_hash (sha256Hex C token) (links d) of
        None \<Rightarrow> None
      | Some l \<Rightarrow>
        (case getCase d (l_case_id l) of
           None \<Rightarrow> None
         | Some c \<Rightarrow> Some \<lparr>rl_link = l, rl_case = c, rl_state = linkState nw l c\<rparr>))"

definition touchLink :: "time \<Rightarrow> string \<Rightarrow> db \<Rightarrow> db" where
  "touchLink nw i d = update_links (\<lambda>l. l_id l = i) (\<lambda>l. l\<lparr>l_last_used_at := Some nw\<rparr>) d"

definition effectiveLimits :: "config \<Rightarrow> link_row \<Rightarrow> effective_limits" where
  "effectiveLimits cfg l =
     \<lparr>el_maxFileBytes = min (cf_maxFileBytes cfg) (case l_max_file_bytes l of None \<Rightarrow> cf_maxFileBytes cfg | Some n \<Rightarrow> n),
      el_maxFiles = l_max_files l, el_maxTotalBytes = l_max_total_bytes l\<rparr>"

section \<open>A new link is found by its token until it is revoked, expires or its case closes\<close>

lemma createLink_Inr:
  assumes "createLink C nw trnd irnd cfg inp d = (Inr (l, token, url), d')"
  shows "token = newToken trnd \<and> l_token_hash l = sha256Hex C token \<and> l_case_id l = ci_caseId inp \<and>
    l_revoked_at l = None \<and> l_expires_at l = ci_expiresAt inp \<and> (\<forall>t. ci_expiresAt inp = Some t \<longrightarrow> nw < t) \<and>
    insert_link l d = Inr d' \<and> getCase d (ci_caseId inp) \<noteq> None \<and> url = linkUrl cfg token"
  using assms
  by (auto simp: createLink_def Let_def split: sum.splits elim!: and_then_InrE split: option.splits)

lemma get_by_insert_link:
  "insert_link l d = Inr d' \<Longrightarrow> get_by l_token_hash (l_token_hash l) (links d') = Some l"
proof -
  assume ins: "insert_link l d = Inr d'"
  then have "get_by l_token_hash (l_token_hash l) (links d) = None"
    by (auto simp: insert_link_def get_by_None_iff split: if_splits)
  then show ?thesis
    using insert_link_Inr [OF ins] by (simp add: get_by_append get_by_Cons)
qed


lemma resolveToken_iff:
  "resolveToken C nw token d = Some r \<longleftrightarrow>
     TOKEN_RE token \<and> get_by l_token_hash (sha256Hex C token) (links d) = Some (rl_link r) \<and>
     getCase d (l_case_id (rl_link r)) = Some (rl_case r) \<and> rl_state r = linkState nw (rl_link r) (rl_case r)"
  by (cases r) (auto simp: resolveToken_def split: option.splits)

end
