(* ===== verification/Files.thy ===== *)
theory Files
  imports Links
begin

text \<open>
  src/services/files.ts: file names as clients send them, the reservation that enforces every
  limit of a link atomically, and the life of a file row from \<open>uploading\<close> on.
\<close>

section \<open>File names\<close>

definition is_control :: "char \<Rightarrow> bool" where
  "is_control c \<longleftrightarrow> code c \<le> 31 \<or> code c = 127"

definition path_sep :: "char \<Rightarrow> bool" where
  "path_sep c \<longleftrightarrow> c = CHR 0x5C \<or> c = CHR ''/''"

text \<open>
  \<open>normalize('NFC')\<close> leaves every character below 256 as it is: the block holds no combining mark.
\<close>

definition sanitizeFilename :: "string option \<Rightarrow> string" where
  "sanitizeFilename raw =
     (let name = last (split_by path_sep (case raw of None \<Rightarrow> [] | Some s \<Rightarrow> s));
          name = js_trim (filter (\<lambda>c. \<not> is_control c) name);
          name = (if list_all (\<lambda>c. c = CHR ''.'') name then [] else name);
          name = (if 255 < length name then
                    let dot = last_index_of CHR ''.'' name;
                        ext = (if 0 < dot \<and> int (length name) - dot \<le> 16 then drop (nat dot) name else [])
                    in take (255 - length ext) name @ ext
                  else name)
      in or_else name ''unnamed'')"

section \<open>Reservations\<close>

record reserve_input =
  ri_link :: link_row
  ri_originalName :: "string option"
  ri_uploadKind :: upload_kind
  ri_declaredSize :: "jsnum option"
  ri_clientIp :: "string option"
  ri_id :: "string option"

definition too_many_files :: "int \<Rightarrow> exn" where
  "too_many_files n = LimitError TooManyFiles (''This link accepts at most '' @ string_of_int n @ '' files'') n"

definition file_too_large :: "int \<Rightarrow> exn" where
  "file_too_large n = LimitError FileTooLarge (''File exceeds the maximum size of '' @ string_of_int n @ '' bytes'') n"

definition quota_exceeded :: "int \<Rightarrow> int \<Rightarrow> exn" where
  "quota_exceeded remaining n =
     LimitError QuotaExceeded (''This link has '' @ string_of_int (max remaining 0) @ '' bytes of quota left'') n"

text \<open>The room an upload gets: the per-file limit, cut to what the total quota leaves.\<close>

definition reserve_room :: "effective_limits \<Rightarrow> link_usage \<Rightarrow> int option \<Rightarrow> int result" where
  "reserve_room limits usage declared =
     (if (case el_maxFiles limits of None \<Rightarrow> False | Some n \<Rightarrow> n \<le> int (lu_file_count usage) + int (lu_uploading_count usage))
      then Inl (too_many_files (the (el_maxFiles limits)))
      else if (case declared of None \<Rightarrow> False | Some n \<Rightarrow> el_maxFileBytes limits < n)
      then Inl (file_too_large (el_maxFileBytes limits))
      else case el_maxTotalBytes limits of
        None \<Rightarrow> Inr (el_maxFileBytes limits)
      | Some cap \<Rightarrow>
        let remaining = cap - lu_used_bytes usage - lu_reserved_bytes usage
        in if (case declared of None \<Rightarrow> False | Some n \<Rightarrow> remaining < n) then Inl (quota_exceeded remaining cap)
           else if remaining \<le> 0 then Inl (LimitError QuotaExceeded ''This link has no quota left'' cap)
           else Inr (min (el_maxFileBytes limits) remaining))"

definition reserved_row :: "time \<Rightarrow> byte list \<Rightarrow> reserve_input \<Rightarrow> int option \<Rightarrow> int \<Rightarrow> file_row" where
  "reserved_row nw rnd inp declared reserved =
     \<lparr>f_id = (case ri_id inp of None \<Rightarrow> newId ''f'' rnd | Some i \<Rightarrow> i), f_case_id = l_case_id (ri_link inp),
      f_link_id = l_id (ri_link inp), f_original_name = sanitizeFilename (ri_originalName inp),
      f_upload_kind = ri_uploadKind inp, f_status = Uploading, f_declared_size = declared,
      f_reserved_bytes = reserved, f_size = None, f_sha256 = None, f_client_ip = ri_clientIp inp,
      f_created_at = nw, f_completed_at = None, f_deleted_at = None\<rparr>"

definition reserveUpload ::
  "time \<Rightarrow> byte list \<Rightarrow> config \<Rightarrow> reserve_input \<Rightarrow> db \<Rightarrow> (file_row \<times> int) result \<times> db" where
  "reserveUpload nw rnd cfg inp d =
     (let limits = effectiveLimits cfg (ri_link inp); declared = map_option whole (ri_declaredSize inp)
      in if (case ri_declaredSize inp of None \<Rightarrow> False | Some n \<Rightarrow> \<not> is_safe_integer n \<or> whole n < 0)
         then (Inl (JsError ''invalid declared size''), d)
         else transaction (\<lambda>d.
           case reserve_room limits (linkUsage d (l_id (ri_link inp))) declared of
             Inl e \<Rightarrow> (Inl e, d)
           | Inr maxBytes \<Rightarrow>
             let reserved = (case declared of None \<Rightarrow> maxBytes | Some n \<Rightarrow> n);
                 file = reserved_row nw rnd inp declared reserved
             in case insert_file file d of
                  Inl e \<Rightarrow> (Inl e, d)
                | Inr d' \<Rightarrow> (Inr (file, reserved), d')) d)"

section \<open>The life of a row\<close>

definition completeUpload :: "time \<Rightarrow> string \<Rightarrow> int \<Rightarrow> string option \<Rightarrow> db \<Rightarrow> bool \<times> db" where
  "completeUpload nw i bytes sha d =
     (let hit = (\<lambda>f. f_id f = i \<and> f_status f = Uploading)
      in (0 < changes hit (files d),
          update_files hit (\<lambda>f. f\<lparr>f_status := Complete, f_size := Some bytes,
              f_sha256 := (case sha of None \<Rightarrow> f_sha256 f | Some h \<Rightarrow> Some h),
              f_reserved_bytes := 0, f_completed_at := Some nw\<rparr>) d))"

datatype fail_status = FailAborted | FailExpired

definition fail_as :: "fail_status \<Rightarrow> file_status" where
  "fail_as s = (case s of FailAborted \<Rightarrow> Aborted | FailExpired \<Rightarrow> Expired)"

definition failUpload :: "string \<Rightarrow> fail_status \<Rightarrow> db \<Rightarrow> bool \<times> db" where
  "failUpload i s d =
     (let hit = (\<lambda>f. f_id f = i \<and> f_status f = Uploading)
      in (0 < changes hit (files d),
          update_files hit (\<lambda>f. f\<lparr>f_status := fail_as s, f_reserved_bytes := 0\<rparr>) d))"

definition markMissing :: "string \<Rightarrow> db \<Rightarrow> db" where
  "markMissing i d = update_files (\<lambda>f. f_id f = i \<and> f_status f = Complete) (\<lambda>f. f\<lparr>f_status := Missing\<rparr>) d"

definition markDeleted :: "time \<Rightarrow> string \<Rightarrow> db \<Rightarrow> bool \<times> db" where
  "markDeleted nw i d =
     (let hit = (\<lambda>f. f_id f = i \<and> f_status f \<in> {Complete, Missing})
      in (0 < changes hit (files d),
          update_files hit (\<lambda>f. f\<lparr>f_status := Deleted, f_reserved_bytes := 0, f_deleted_at := Some nw\<rparr>) d))"

definition getFile :: "db \<Rightarrow> string \<Rightarrow> file_row option" where
  "getFile d i = get_by f_id i (files d)"

record public_file_view =
  pf_id :: string
  pf_name :: string
  pf_size :: "int option"
  pf_status :: file_status
  pf_created_at :: time
  pf_completed_at :: "time option"

definition public_view :: "file_row \<Rightarrow> public_file_view" where
  "public_view f =
     \<lparr>pf_id = f_id f, pf_name = f_original_name f,
      pf_size = (case f_size f of None \<Rightarrow> f_declared_size f | Some n \<Rightarrow> Some n),
      pf_status = f_status f, pf_created_at = f_created_at f, pf_completed_at = f_completed_at f\<rparr>"

definition listFilesForLink :: "db \<Rightarrow> string \<Rightarrow> public_file_view list" where
  "listFilesForLink d i =
     map public_view (sort_key (\<lambda>f. - f_created_at f)
       (filter (\<lambda>f. f_link_id f = i \<and> f_status f \<in> {Uploading, Complete}) (files d)))"

text \<open>The join drops a file whose link is gone; the foreign key makes sure there is none.\<close>

definition listFilesForCase :: "db \<Rightarrow> string \<Rightarrow> (file_row \<times> string) list" where
  "listFilesForCase d i =
     List.map_filter (\<lambda>f. map_option (\<lambda>l. (f, l_label l)) (getLink d (f_link_id f)))
       (sort_key (\<lambda>f. - f_created_at f)
         (filter (\<lambda>f. f_case_id f = i \<and> f_status f \<notin> {Aborted, Expired}) (files d)))"

definition listStaleUploads :: "time \<Rightarrow> int \<Rightarrow> db \<Rightarrow> file_row list" where
  "listStaleUploads nowMs olderThanMs d =
     filter (\<lambda>f. f_status f = Uploading \<and> f_created_at f < nowMs - olderThanMs) (files d)"

definition listUploadingForLink :: "db \<Rightarrow> string \<Rightarrow> file_row list" where
  "listUploadingForLink d i = filter (\<lambda>f. f_status f = Uploading \<and> f_link_id f = i) (files d)"

definition listCompleteFiles :: "db \<Rightarrow> file_row list" where
  "listCompleteFiles d = filter (\<lambda>f. f_status f = Complete) (files d)"

definition liveStorageKeys :: "db \<Rightarrow> string list" where
  "liveStorageKeys d = map f_id (filter (\<lambda>f. f_status f \<in> {Uploading, Complete}) (files d))"

section \<open>Names come out safe\<close>

text \<open>A name of 300 characters can still be cut down to dots: the all-dots check runs before the cut.\<close>

lemma sanitize_cut_to_dots:
  "sanitizeFilename (Some (replicate 255 CHR ''.'' @ replicate 50 CHR ''a'')) = replicate 255 CHR ''.''"
  by code_simp

text \<open>C24: whatever a client sends, the stored name is non-empty, at most 255 characters, and holds no path
  separator and no control character.\<close>

theorem sanitizeFilename_safe:
  "sanitizeFilename raw \<noteq> [] \<and> length (sanitizeFilename raw) \<le> 255 \<and>
   list_all (\<lambda>c. \<not> path_sep c \<and> \<not> is_control c) (sanitizeFilename raw)"
proof -
  define n0 where "n0 = last (split_by path_sep (case raw of None \<Rightarrow> [] | Some s \<Rightarrow> s))"
  define n1 where "n1 = js_trim (filter (\<lambda>c. \<not> is_control c) n0)"
  define n2 where "n2 = (if list_all (\<lambda>c. c = CHR ''.'') n1 then [] else n1)"
  define ext where "ext = (let dot = last_index_of CHR ''.'' n2
      in if 0 < dot \<and> int (length n2) - dot \<le> 16 then drop (nat dot) n2 else [])"
  define n3 where "n3 = (if 255 < length n2 then take (255 - length ext) n2 @ ext else n2)"
  have eq: "sanitizeFilename raw = or_else n3 ''unnamed''"
    unfolding n3_def ext_def n2_def n1_def n0_def by (simp add: sanitizeFilename_def Let_def)
  have "\<forall>c \<in> set n0. \<not> path_sep c"
    using split_by_pieces [of n0 path_sep] last_in_set [OF split_by_not_Nil [of path_sep]]
    unfolding n0_def by blast
  then have "\<forall>c \<in> set n1. \<not> path_sep c \<and> \<not> is_control c"
    using set_js_trim [of "filter (\<lambda>c. \<not> is_control c) n0"] by (auto simp: n1_def)
  then have n2: "\<forall>c \<in> set n2. \<not> path_sep c \<and> \<not> is_control c" by (simp add: n2_def)
  have ext: "set ext \<subseteq> set n2" "length ext \<le> 16"
    using set_drop_subset [of "nat (last_index_of CHR ''.'' n2)" n2] by (auto simp: ext_def Let_def)
  have len3: "length n3 \<le> 255" using ext by (auto simp: n3_def)
  have n3: "\<forall>c \<in> set n3. \<not> path_sep c \<and> \<not> is_control c"
    using n2 ext by (auto simp: n3_def dest: in_set_takeD)
  have "list_all (\<lambda>c. \<not> path_sep c \<and> \<not> is_control c) ''unnamed''" by code_simp
  with eq len3 n3 show ?thesis by (auto simp: or_else_def list_all_iff)
qed

end
