(* ===== verification/Quota.thy ===== *)
theory Quota
  imports Files
begin

text \<open>
  The limits of a link under concurrency. Every synchronous stretch of the program that touches
  links or files is one step; requests interleave as sequences of steps in any order. The
  invariant is that no link ever holds more bytes or more files than its limits allow.
\<close>

section \<open>Steps\<close>

text \<open>
  A request works on the link row it resolved earlier, so the step only asks that the link
  stored now has the same identity and limits. The size a completion reports is bounded by the
  reservation: the storage writer and the tus server stop at it. \<open>other\<close> is everything else the
  program does to the database: sessions, accounts, new cases, the audit log.
\<close>

definition snapshot_of :: "link_row \<Rightarrow> db \<Rightarrow> bool" where
  "snapshot_of l d \<longleftrightarrow> (\<exists>m \<in> set (links d). l_id m = l_id l \<and> l_case_id m = l_case_id l \<and>
     l_max_file_bytes m = l_max_file_bytes l \<and> l_max_files m = l_max_files l \<and> l_max_total_bytes m = l_max_total_bytes l)"

inductive upload_step :: "node_crypto \<Rightarrow> config \<Rightarrow> db \<Rightarrow> db \<Rightarrow> bool" for C cfg where
  create: "upload_step C cfg d (snd (createLink C nw trnd irnd cfg linp d))"
| revoke: "upload_step C cfg d (snd (revokeLink nw i d))"
| touch: "upload_step C cfg d (touchLink nw i d)"
| reserve: "snapshot_of (ri_link rinp) d \<Longrightarrow> upload_step C cfg d (snd (reserveUpload nw rnd cfg rinp d))"
| complete: "getFile d i = Some f \<Longrightarrow> 0 \<le> n \<Longrightarrow> n \<le> f_reserved_bytes f \<Longrightarrow> upload_step C cfg d (snd (completeUpload nw i n sha d))"
| fail: "upload_step C cfg d (snd (failUpload i s d))"
| missing: "upload_step C cfg d (markMissing i d)"
| deleted: "upload_step C cfg d (snd (markDeleted nw i d))"
| other: "links d' = links d \<Longrightarrow> files d' = files d \<Longrightarrow> distinct (map c_id (cases d')) \<Longrightarrow>
    c_id ` set (cases d) \<subseteq> c_id ` set (cases d') \<Longrightarrow> upload_step C cfg d d'"

abbreviation upload_run :: "node_crypto \<Rightarrow> config \<Rightarrow> db \<Rightarrow> db \<Rightarrow> bool" where
  "upload_run C cfg \<equiv> (upload_step C cfg)\<^sup>*\<^sup>*"

inductive_cases upload_stepE: "upload_step C cfg d d'"

section \<open>The invariant\<close>

definition held_bytes :: "string \<Rightarrow> file_row list \<Rightarrow> int" where
  "held_bytes i fs = sum_list (map (\<lambda>f. if f_link_id f \<noteq> i then 0 else if f_status f = Complete then size_of f
     else if f_status f = Uploading then f_reserved_bytes f else 0) fs)"

definition held_files :: "string \<Rightarrow> file_row list \<Rightarrow> nat" where
  "held_files i fs = length (filter (\<lambda>f. f_link_id f = i \<and> f_status f \<in> {Uploading, Complete}) fs)"

lemma usage_held:
  "lu_used_bytes (linkUsage d i) + lu_reserved_bytes (linkUsage d i) = held_bytes i (files d)"
  "lu_file_count (linkUsage d i) + lu_uploading_count (linkUsage d i) = held_files i (files d)"
proof -
  have "sum_list (map size_of (filter (\<lambda>f. f_link_id f = i \<and> f_status f = Complete) fs)) +
      sum_list (map f_reserved_bytes (filter (\<lambda>f. f_link_id f = i \<and> f_status f = Uploading) fs)) = held_bytes i fs"
    "length (filter (\<lambda>f. f_link_id f = i \<and> f_status f = Complete) fs) +
      length (filter (\<lambda>f. f_link_id f = i \<and> f_status f = Uploading) fs) = held_files i fs" for fs
    by (induction fs) (auto simp: held_bytes_def held_files_def)
  then show "lu_used_bytes (linkUsage d i) + lu_reserved_bytes (linkUsage d i) = held_bytes i (files d)"
    "lu_file_count (linkUsage d i) + lu_uploading_count (linkUsage d i) = held_files i (files d)"
    by (simp_all add: linkUsage_def Let_def)
qed

definition link_within :: "file_row list \<Rightarrow> link_row \<Rightarrow> bool" where
  "link_within fs l \<longleftrightarrow>
     (\<forall>n. l_max_total_bytes l = Some n \<longrightarrow> held_bytes (l_id l) fs \<le> n) \<and>
     (\<forall>n. l_max_files l = Some n \<longrightarrow> int (held_files (l_id l) fs) \<le> n)"

text \<open>Rows of a file: a reservation is never negative, a completed file has its size and no reservation.\<close>

definition row_sane :: "file_row \<Rightarrow> bool" where
  "row_sane f \<longleftrightarrow> 0 \<le> f_reserved_bytes f \<and> 0 \<le> size_of f \<and> (f_status f = Complete \<or> f_status f = Missing \<longrightarrow> f_size f \<noteq> None) \<and>
     (f_status f \<noteq> Uploading \<longrightarrow> f_reserved_bytes f = 0)"

definition quota_ok :: "db \<Rightarrow> bool" where
  "quota_ok d \<longleftrightarrow> ok_links d \<and> ok_files d \<and> (\<forall>l \<in> set (links d). link_within (files d) l) \<and>
     (\<forall>f \<in> set (files d). row_sane f) \<and>
     (\<forall>l \<in> set (links d). \<forall>n. l_max_file_bytes l = Some n \<longrightarrow> 1 \<le> n)"

section \<open>Steps keep it\<close>

lemma held_Cons:
  "held_bytes i (f # fs) = held_bytes i [f] + held_bytes i fs"
  "held_files i (f # fs) = held_files i [f] + held_files i fs"
  by (simp_all add: held_bytes_def held_files_def)

lemma held_update:
  assumes "\<And>f. f \<in> set fs \<Longrightarrow> P f \<Longrightarrow> held_bytes i [g f] \<le> held_bytes i [f] \<and> held_files i [g f] \<le> held_files i [f]"
  shows "held_bytes i (update_where P g fs) \<le> held_bytes i fs \<and> held_files i (update_where P g fs) \<le> held_files i fs"
  using assms
proof (induction fs)
  case Nil
  then show ?case by (simp add: update_where_def)
next
  case (Cons f fs)
  let ?x = "if P f then g f else f"
  have ih: "held_bytes i (update_where P g fs) \<le> held_bytes i fs" "held_files i (update_where P g fs) \<le> held_files i fs"
    using Cons by simp_all
  have one: "held_bytes i [?x] \<le> held_bytes i [f]" "held_files i [?x] \<le> held_files i [f]"
    using Cons.prems [of f] by auto
  have up: "update_where P g (f # fs) = ?x # update_where P g fs"
    by (simp add: update_where_def)
  show ?case
    unfolding up using ih one held_Cons [of i ?x "update_where P g fs"] held_Cons [of i f fs] by linarith
qed

lemma quota_ok_update_files:
  assumes ok: "quota_ok d"
    and keep: "\<And>f. f_id (g f) = f_id f \<and> f_link_id (g f) = f_link_id f \<and> f_case_id (g f) = f_case_id f"
    and less: "\<And>f i. f \<in> set (files d) \<Longrightarrow> P f \<Longrightarrow>
        held_bytes i [g f] \<le> held_bytes i [f] \<and> held_files i [g f] \<le> held_files i [f] \<and> row_sane (g f)"
  shows "quota_ok (update_files P g d)"
proof -
  have held: "held_bytes i (files (update_files P g d)) \<le> held_bytes i (files d)"
    "held_files i (files (update_files P g d)) \<le> held_files i (files d)" for i
    using held_update [of "files d" P i g] less by auto
  have "\<forall>l \<in> set (links d). link_within (files (update_files P g d)) l"
    using ok held unfolding quota_ok_def link_within_def by (meson int_ops(1) of_nat_mono order_trans)
  moreover have "\<forall>f \<in> set (files (update_files P g d)). row_sane f"
    using ok less by (auto simp: quota_ok_def set_update_where)
  moreover have "ok_files (update_files P g d)"
    using ok keep by (auto simp: quota_ok_def ok_files_def has_defs map_update_where set_update_where)
  moreover have "ok_links (update_files P g d)" using ok by (simp add: quota_ok_def ok_links_def has_defs)
  ultimately show ?thesis using ok by (simp add: quota_ok_def)
qed

lemma quota_ok_row: "quota_ok d \<Longrightarrow> f \<in> set (files d) \<Longrightarrow> row_sane f"
  by (simp add: quota_ok_def)

lemma quota_ok_complete:
  assumes ok: "quota_ok d" and f: "getFile d i = Some f" and n: "0 \<le> n" "n \<le> f_reserved_bytes f"
  shows "quota_ok (snd (completeUpload nw i n sha d))"
proof -
  have d: "distinct (map f_id (files d))" using ok by (simp add: quota_ok_def ok_files_def)
  have mem: "f \<in> set (files d)" "f_id f = i" using f get_by_SomeD by (fastforce simp: getFile_def)+
  have uniq: "g = f" if "g \<in> set (files d)" "f_id g = i" for g
    using distinct_key_eq [OF d that(1) mem(1)] that(2) mem(2) by simp
  show ?thesis
    unfolding completeUpload_def Let_def snd_conv
  proof (rule quota_ok_update_files [OF ok], goal_cases)
    case (2 g j)
    then have "g = f" using uniq by simp
    with 2 n show ?case by (simp add: held_bytes_def held_files_def size_of_def row_sane_def)
  qed simp
qed

lemma quota_ok_fail: "quota_ok d \<Longrightarrow> quota_ok (snd (failUpload i s d))"
  unfolding failUpload_def Let_def snd_conv
proof (rule quota_ok_update_files, goal_cases)
  case (3 f j)
  then show ?case
    using quota_ok_row [of d f]
    by (cases s) (simp_all add: held_bytes_def held_files_def row_sane_def fail_as_def size_of_def)
qed simp_all

lemma quota_ok_missing: "quota_ok d \<Longrightarrow> quota_ok (markMissing i d)"
  unfolding markMissing_def
proof (rule quota_ok_update_files, goal_cases)
  case (3 f j)
  then show ?case
    using quota_ok_row [of d f] by (simp add: held_bytes_def held_files_def row_sane_def size_of_def)
qed simp_all

lemma quota_ok_deleted: "quota_ok d \<Longrightarrow> quota_ok (snd (markDeleted nw i d))"
  unfolding markDeleted_def Let_def snd_conv
proof (rule quota_ok_update_files, goal_cases)
  case (3 f j)
  then show ?case
    using quota_ok_row [of d f] by (auto simp: held_bytes_def held_files_def row_sane_def size_of_def)
qed simp_all

lemma quota_ok_update_links:
  assumes ok: "quota_ok d"
    and keep: "\<And>l. l_id (g l) = l_id l \<and> l_case_id (g l) = l_case_id l \<and> l_token_hash (g l) = l_token_hash l \<and>
      l_max_file_bytes (g l) = l_max_file_bytes l \<and> l_max_files (g l) = l_max_files l \<and>
      l_max_total_bytes (g l) = l_max_total_bytes l"
  shows "quota_ok (update_links P g d)"
proof -
  have "\<forall>l \<in> set (links (update_links P g d)). link_within (files d) l \<and> (\<forall>n. l_max_file_bytes l = Some n \<longrightarrow> 1 \<le> n)"
    using ok keep by (auto simp: quota_ok_def set_update_where link_within_def)
  moreover have "ok_links (update_links P g d)"
    using ok keep by (auto simp: quota_ok_def ok_links_def has_defs map_update_where set_update_where)
  moreover have "ok_files (update_links P g d)"
    using ok keep by (simp add: quota_ok_def ok_files_def has_defs image_update_where)
  ultimately show ?thesis using ok by (simp add: quota_ok_def)
qed

lemma quota_ok_insert_link:
  assumes ok: "quota_ok d" and ins: "insert_link l d = Inr d'"
    and pos: "\<And>n. l_max_file_bytes l = Some n \<Longrightarrow> 1 \<le> n" "\<And>n. l_max_files l = Some n \<Longrightarrow> 1 \<le> n"
      "\<And>n. l_max_total_bytes l = Some n \<Longrightarrow> 1 \<le> n"
  shows "quota_ok d'"
proof -
  have d': "d' = d\<lparr>links := links d @ [l]\<rparr>" and new: "\<not> has_link (l_id l) d" and
    more: "l_token_hash l \<notin> l_token_hash ` set (links d)" "has_case (l_case_id l) d"
    using ins by (auto simp: insert_link_def split: if_splits)
  have none: "f_link_id f \<noteq> l_id l" if "f \<in> set (files d)" for f
    using ok new that by (auto simp: quota_ok_def ok_files_def)
  have "held_bytes (l_id l) fs = 0 \<and> held_files (l_id l) fs = 0" if "set fs \<subseteq> set (files d)" for fs
    using that by (induction fs) (auto simp: held_bytes_def held_files_def none)
  then have "link_within (files d) l" using pos by (auto simp: link_within_def intro: order_trans [of 0 1])
  moreover have "ok_links d'"
    using ok more new d' by (auto simp: quota_ok_def ok_links_def has_defs)
  moreover have "ok_files d'" using ok d' by (auto simp: quota_ok_def ok_files_def has_defs)
  ultimately show ?thesis using ok pos(1) d' by (simp add: quota_ok_def)
qed

lemma createLink_limits:
  assumes "createLink C nw trnd irnd cfg inp d = (Inr (l, token, url), d')"
  shows "(\<forall>n. l_max_file_bytes l = Some n \<longrightarrow> 1 \<le> n \<and> n \<le> cf_maxFileBytes cfg) \<and> (\<forall>n. l_max_files l = Some n \<longrightarrow> 1 \<le> n) \<and>
    (\<forall>n. l_max_total_bytes l = Some n \<longrightarrow> 1 \<le> n)"
proof -
  have "1 \<le> whole n" if "positive_integer n" for n
    using that by (cases n) (auto simp: le_floor_iff)
  then show ?thesis
    using assms
    by (auto simp: createLink_def Let_def split: sum.splits elim!: and_then_InrE split: option.splits)
qed

lemma quota_ok_createLink: "quota_ok d \<Longrightarrow> quota_ok (snd (createLink C nw trnd irnd cfg inp d))"
proof -
  assume ok: "quota_ok d"
  obtain r d' where run: "createLink C nw trnd irnd cfg inp d = (r, d')" by (cases "createLink C nw trnd irnd cfg inp d")
  show ?thesis
  proof (cases r)
    case (Inl e)
    with run have "d' = d" by (auto simp: createLink_def Let_def split: sum.splits)
    with run ok show ?thesis by simp
  next
    case (Inr x)
    obtain l token url where x: "x = (l, token, url)" by (cases x)
    from createLink_Inr [OF run [unfolded Inr x]] have "insert_link l d = Inr d'" by simp
    from quota_ok_insert_link [OF ok this] createLink_limits [OF run [unfolded Inr x]] run
    show ?thesis by simp
  qed
qed


lemma reserve_room_bounds:
  assumes "reserve_room limits usage declared = Inr room" and "0 \<le> el_maxFileBytes limits"
    and "\<And>n. declared = Some n \<Longrightarrow> 0 \<le> n"
  defines "r \<equiv> (case declared of None \<Rightarrow> room | Some n \<Rightarrow> n)"
  shows "0 \<le> r \<and> r \<le> el_maxFileBytes limits \<and>
    (\<forall>n. el_maxFiles limits = Some n \<longrightarrow> int (lu_file_count usage) + int (lu_uploading_count usage) < n) \<and>
    (\<forall>n. el_maxTotalBytes limits = Some n \<longrightarrow> lu_used_bytes usage + lu_reserved_bytes usage + r \<le> n)"
  using assms
  by (cases declared; cases "el_maxTotalBytes limits"; cases "el_maxFiles limits")
    (auto simp: reserve_room_def Let_def split: if_splits)

lemma reserveUpload_Inr:
  assumes "reserveUpload nw rnd cfg inp d = (Inr (f, room), d')"
  shows "\<exists>declared r0. reserve_room (effectiveLimits cfg (ri_link inp)) (linkUsage d (l_id (ri_link inp))) declared = Inr r0 \<and>
     (\<forall>n. declared = Some n \<longrightarrow> 0 \<le> n) \<and> declared = map_option whole (ri_declaredSize inp) \<and>
     room = (case declared of None \<Rightarrow> r0 | Some n \<Rightarrow> n) \<and> f = reserved_row nw rnd inp declared room \<and>
     insert_file f d = Inr d'"
  using assms
  by (auto simp: reserveUpload_def Let_def transaction_Inr split: sum.splits if_splits option.splits)

lemma reserveUpload_Inl: "reserveUpload nw rnd cfg inp d = (Inl e, d') \<Longrightarrow> d' = d"
  by (auto simp: reserveUpload_def Let_def split: if_splits dest: transaction_Inl)

lemma quota_ok_insert_file:
  assumes ok: "quota_ok d" and ins: "insert_file f d = Inr d'" and sane: "row_sane f" and up: "f_status f = Uploading"
    and fits: "\<And>m. m \<in> set (links d) \<Longrightarrow> l_id m = f_link_id f \<Longrightarrow>
        (\<forall>n. l_max_total_bytes m = Some n \<longrightarrow> held_bytes (l_id m) (files d) + f_reserved_bytes f \<le> n) \<and>
        (\<forall>n. l_max_files m = Some n \<longrightarrow> int (held_files (l_id m) (files d)) < n)"
  shows "quota_ok d'"
proof -
  have d': "d' = d\<lparr>files := files d @ [f]\<rparr>" and new: "f_id f \<notin> f_id ` set (files d)"
    and fk: "has_case (f_case_id f) d" "has_link (f_link_id f) d"
    using ins by (auto simp: insert_file_def split: if_splits)
  have held: "held_bytes i (files d @ [f]) = held_bytes i (files d) + held_bytes i [f]"
    "held_files i (files d @ [f]) = held_files i (files d) + held_files i [f]" for i
    by (simp_all add: held_bytes_def held_files_def)
  have one: "held_bytes i [f] = (if f_link_id f = i then f_reserved_bytes f else 0)"
    "held_files i [f] = (if f_link_id f = i then 1 else 0)" for i
    using up by (simp_all add: held_bytes_def held_files_def)
  have "link_within (files d @ [f]) m" if m: "m \<in> set (links d)" for m
  proof (cases "l_id m = f_link_id f")
    case True
    with fits [OF m True] show ?thesis unfolding link_within_def held one by auto
  next
    case False
    with m ok show ?thesis unfolding link_within_def held one by (auto simp: quota_ok_def link_within_def)
  qed
  moreover have "ok_files d'" using ok d' new fk by (auto simp: quota_ok_def ok_files_def has_defs)
  moreover have "ok_links d'" using ok d' by (auto simp: quota_ok_def ok_links_def has_defs)
  ultimately show ?thesis using ok d' sane by (simp add: quota_ok_def)
qed

lemma quota_ok_reserve:
  assumes ok: "quota_ok d" and snap: "snapshot_of (ri_link inp) d" and cfg: "0 \<le> cf_maxFileBytes cfg"
  shows "quota_ok (snd (reserveUpload nw rnd cfg inp d))"
proof -
  obtain r d' where run: "reserveUpload nw rnd cfg inp d = (r, d')" by (cases "reserveUpload nw rnd cfg inp d")
  show ?thesis
  proof (cases r)
    case (Inl e)
    with run have "d' = d" by (simp add: reserveUpload_Inl)
    with run ok show ?thesis by simp
  next
    case (Inr x)
    obtain f room where x: "x = (f, room)" by (cases x)
    let ?l = "ri_link inp"
    obtain declared r0 where room: "reserve_room (effectiveLimits cfg ?l) (linkUsage d (l_id ?l)) declared = Inr r0"
      and pos: "\<And>n. declared = Some n \<Longrightarrow> 0 \<le> n" and r: "room = (case declared of None \<Rightarrow> r0 | Some n \<Rightarrow> n)"
      and f: "f = reserved_row nw rnd inp declared room" and ins: "insert_file f d = Inr d'"
      using reserveUpload_Inr [OF run [unfolded Inr x]] by blast
    obtain m where m: "m \<in> set (links d)" "l_id m = l_id ?l" "l_max_file_bytes m = l_max_file_bytes ?l"
      "l_max_files m = l_max_files ?l" "l_max_total_bytes m = l_max_total_bytes ?l"
      using snap by (auto simp: snapshot_of_def)
    have pos1: "1 \<le> n" if "l_max_file_bytes m = Some n" for n
      using ok m(1) that by (simp add: quota_ok_def)
    have "0 \<le> el_maxFileBytes (effectiveLimits cfg ?l)"
    proof (cases "l_max_file_bytes m")
      case None
      then show ?thesis using cfg by (simp add: effectiveLimits_def m(3) [symmetric])
    next
      case (Some a)
      then show ?thesis using cfg pos1 [OF Some] by (simp add: effectiveLimits_def m(3) [symmetric])
    qed
    note b = reserve_room_bounds [OF room this pos, folded r]
    have uniq: "n = m" if "n \<in> set (links d)" "l_id n = l_id m" for n
      using distinct_key_eq [of l_id "links d" n m] that m(1) ok by (simp add: quota_ok_def ok_links_def)
    have row: "f_link_id f = l_id ?l" "f_reserved_bytes f = room" "f_status f = Uploading" "f_size f = None"
      by (simp_all add: f reserved_row_def)
    have tot: "el_maxTotalBytes (effectiveLimits cfg ?l) = l_max_total_bytes m" "el_maxFiles (effectiveLimits cfg ?l) = l_max_files m"
      using m by (simp_all add: effectiveLimits_def)
    have fits: "(\<forall>n. l_max_total_bytes m = Some n \<longrightarrow> held_bytes (l_id m) (files d) + f_reserved_bytes f \<le> n) \<and>
        (\<forall>n. l_max_files m = Some n \<longrightarrow> int (held_files (l_id m) (files d)) < n)"
      using b unfolding tot row m(2) usage_held(1) usage_held(2) [of d "l_id ?l", symmetric] of_nat_add by blast
    have "quota_ok d'"
    proof (rule quota_ok_insert_file [OF ok ins])
      show "row_sane f" using row b by (simp add: row_sane_def size_of_def)
      show "f_status f = Uploading" by (rule row)
      fix n assume "n \<in> set (links d)" "l_id n = f_link_id f"
      then have "n = m" using uniq row m by simp
      with fits show "(\<forall>k. l_max_total_bytes n = Some k \<longrightarrow> held_bytes (l_id n) (files d) + f_reserved_bytes f \<le> k) \<and>
        (\<forall>k. l_max_files n = Some k \<longrightarrow> int (held_files (l_id n) (files d)) < k)" by simp
    qed
    with run show ?thesis by simp
  qed
qed

lemma upload_step_quota:
  "upload_step C cfg d d' \<Longrightarrow> 0 \<le> cf_maxFileBytes cfg \<Longrightarrow> quota_ok d \<Longrightarrow> quota_ok d'"
proof (induction rule: upload_step.induct)
  case (revoke d nw i)
  then show ?case unfolding revokeLink_def Let_def snd_conv by (intro quota_ok_update_links) simp_all
next
  case (touch d nw i)
  then show ?case unfolding touchLink_def by (intro quota_ok_update_links) simp_all
next
  case (other d' d)
  then show ?case by (auto simp: quota_ok_def ok_links_def ok_files_def has_defs)
qed (simp_all add: quota_ok_createLink quota_ok_reserve quota_ok_complete quota_ok_fail quota_ok_missing quota_ok_deleted)

lemma upload_run_quota:
  "upload_run C cfg d d' \<Longrightarrow> 0 \<le> cf_maxFileBytes cfg \<Longrightarrow> quota_ok d \<Longrightarrow> quota_ok d'"
  by (induction rule: rtranclp_induct) (auto intro: upload_step_quota)


lemma quota_ok_empty: "quota_ok empty_db"
  by (simp add: quota_ok_def ok_links_def ok_files_def empty_db_def)

text \<open>Whatever requests do, and however their steps interleave, no link of an instance that started
  empty ever holds more bytes (stored and reserved together) than its total limit, or more files
  than its file limit.\<close>

lemma quota_never_exceeded:
  assumes "upload_run C cfg empty_db d" and "0 \<le> cf_maxFileBytes cfg" and "l \<in> set (links d)"
  shows "(\<forall>n. l_max_total_bytes l = Some n \<longrightarrow>
      lu_used_bytes (linkUsage d (l_id l)) + lu_reserved_bytes (linkUsage d (l_id l)) \<le> n) \<and>
    (\<forall>n. l_max_files l = Some n \<longrightarrow>
      int (lu_file_count (linkUsage d (l_id l))) + int (lu_uploading_count (linkUsage d (l_id l))) \<le> n)"
proof -
  have "quota_ok d" using upload_run_quota [OF assms(1,2) quota_ok_empty] .
  then have "link_within (files d) l" using assms(3) by (simp add: quota_ok_def)
  then show ?thesis
    unfolding link_within_def usage_held(1) using usage_held(2) [of d "l_id l"] by (metis of_nat_add)
qed

section \<open>The life of a file\<close>

fun status_next :: "file_status \<Rightarrow> file_status \<Rightarrow> bool" where
  "status_next Uploading t \<longleftrightarrow> t \<in> {Complete, Aborted, Expired}"
| "status_next Complete t \<longleftrightarrow> t \<in> {Missing, Deleted}"
| "status_next Missing t \<longleftrightarrow> t = Deleted"
| "status_next _ t \<longleftrightarrow> False"

text \<open>What never changes about a file, and what is fixed once it left \<open>uploading\<close>.\<close>

definition same_file :: "file_row \<Rightarrow> file_row \<Rightarrow> bool" where
  "same_file f g \<longleftrightarrow> f_id g = f_id f \<and> f_case_id g = f_case_id f \<and> f_link_id g = f_link_id f \<and>
     f_original_name g = f_original_name f \<and> f_upload_kind g = f_upload_kind f \<and>
     f_declared_size g = f_declared_size f \<and> f_created_at g = f_created_at f \<and>
     (f_status f \<noteq> Uploading \<longrightarrow> f_size g = f_size f \<and> f_sha256 g = f_sha256 f \<and> f_completed_at g = f_completed_at f)"

definition later :: "file_row \<Rightarrow> file_row \<Rightarrow> bool" where
  "later f g \<longleftrightarrow> same_file f g \<and> status_next\<^sup>*\<^sup>* (f_status f) (f_status g)"

lemma later_refl: "later f f"
  by (simp add: later_def same_file_def)

lemma Uploading_only_start: "status_next\<^sup>*\<^sup>* s Uploading \<Longrightarrow> s = Uploading"
proof (induction "Uploading" rule: rtranclp.induct)
  case (rtrancl_into_rtrancl a b)
  then show ?case by (cases b) auto
qed simp

lemma later_trans: "later f g \<Longrightarrow> later g h \<Longrightarrow> later f h"
  using Uploading_only_start [of "f_status f"] unfolding later_def same_file_def
  by (metis (no_types, lifting) rtranclp_trans)

definition files_evolve :: "db \<Rightarrow> db \<Rightarrow> bool" where
  "files_evolve d d' \<longleftrightarrow> (\<exists>hs new. files d' = hs @ new \<and> list_all2 later (files d) hs \<and> (\<forall>f \<in> set new. f_status f = Uploading))"

lemma evolve_update:
  assumes "\<And>f. P f \<Longrightarrow> later f (g f)"
  shows "files_evolve d (update_files P g d)"
proof -
  have "list_all2 later fs (update_where P g fs)" for fs
    using assms by (induction fs) (auto simp: update_where_def later_refl)
  then show ?thesis unfolding files_evolve_def
    by (intro exI [of _ "update_where P g (files d)"] exI [of _ "[]"]) simp
qed

lemma later_step: "same_file f g \<Longrightarrow> status_next (f_status f) (f_status g) \<Longrightarrow> later f g"
  by (simp add: later_def r_into_rtranclp)

lemma evolve_same: "files d' = files d \<Longrightarrow> files_evolve d d'"
  unfolding files_evolve_def
  by (intro exI [of _ "files d"] exI [of _ "[]"]) (simp add: list.rel_refl later_refl)

lemma createLink_files: "files (snd (createLink C nw trnd irnd cfg inp d)) = files d"
  by (auto simp: createLink_def Let_def dest: insert_link_Inr split: sum.splits)

lemma reserve_evolve: "files_evolve d (snd (reserveUpload nw rnd cfg inp d))"
proof -
  obtain r d' where run: "reserveUpload nw rnd cfg inp d = (r, d')" by (cases "reserveUpload nw rnd cfg inp d")
  show ?thesis
  proof (cases r)
    case (Inl e)
    with run show ?thesis using reserveUpload_Inl evolve_same by fastforce
  next
    case (Inr x)
    obtain f room where x: "x = (f, room)" by (cases x)
    from reserveUpload_Inr [OF run [unfolded Inr x]] have "insert_file f d = Inr d'" "f_status f = Uploading"
      by (auto simp: reserved_row_def)
    then have "files d' = files d @ [f]" "f_status f = Uploading" by (auto dest: insert_file_Inr)
    with run show ?thesis unfolding files_evolve_def
      by (intro exI [of _ "files d"] exI [of _ "[f]"]) (simp add: list.rel_refl later_refl)
  qed
qed

lemma step_evolve: "upload_step C cfg d d' \<Longrightarrow> files_evolve d d'"
proof (induction rule: upload_step.induct)
  case (complete d i f n nw sha)
  show ?case unfolding completeUpload_def Let_def snd_conv
    by (rule evolve_update, rule later_step) (auto simp: same_file_def)
next
  case (fail d i s)
  show ?case unfolding failUpload_def Let_def snd_conv
    by (rule evolve_update, rule later_step) (auto simp: same_file_def fail_as_def split: fail_status.split)
next
  case (missing d i)
  show ?case unfolding markMissing_def
    by (rule evolve_update, rule later_step) (auto simp: same_file_def)
next
  case (deleted d nw i)
  show ?case unfolding markDeleted_def Let_def snd_conv
    by (rule evolve_update, rule later_step) (auto simp: same_file_def)
qed (simp_all add: evolve_same createLink_files revokeLink_def touchLink_def Let_def reserve_evolve)

lemma evolve_lookup:
  assumes "files_evolve d d'" and "getFile d i = Some f"
  shows "\<exists>g. getFile d' i = Some g \<and> later f g"
proof -
  obtain hs new where e: "files d' = hs @ new" "list_all2 later (files d) hs"
    using assms(1) by (auto simp: files_evolve_def)
  have "list_all2 later fs hs \<Longrightarrow> get_by f_id i fs = Some f \<Longrightarrow> \<exists>g. get_by f_id i hs = Some g \<and> later f g" for fs
    by (induction fs hs rule: list_all2_induct) (auto simp: get_by_Cons later_def same_file_def split: if_splits)
  with e assms(2) show ?thesis by (fastforce simp: getFile_def get_by_append)
qed

text \<open>A file row is never lost and only moves forward: uploading to complete, aborted or expired,
  complete to missing or deleted, missing to deleted; its identity, link, name and declared size never
  change, and its size and hash are final once the upload ended.\<close>

lemma file_life:
  assumes "upload_run C cfg d d'" and "getFile d i = Some f"
  shows "\<exists>g. getFile d' i = Some g \<and> same_file f g \<and> status_next\<^sup>*\<^sup>* (f_status f) (f_status g)"
proof -
  have "\<exists>g. getFile d' i = Some g \<and> later f g"
    using assms(1)
  proof (induction rule: rtranclp_induct)
    case base
    then show ?case using assms(2) later_refl by blast
  next
    case (step d1 d2)
    then show ?case using evolve_lookup [OF step_evolve] later_trans by blast
  qed
  then show ?thesis by (simp add: later_def)
qed

section \<open>A run\<close>

definition demo_case :: case_row where
  "demo_case = \<lparr>c_id = ''c_1'', c_name = ''Case'', c_description = [], c_status = CaseOpen, c_created_at = 0, c_updated_at = 0\<rparr>"

definition demo_link_input :: create_link_input where
  "demo_link_input = \<lparr>ci_caseId = ''c_1'', ci_label = ''Client'', ci_expiresAt = None, ci_maxFileBytes = None,
     ci_maxFiles = Some (Num 2), ci_maxTotalBytes = Some 100\<rparr>"

definition demo_q1 :: db where "demo_q1 = empty_db\<lparr>cases := [demo_case]\<rparr>"

definition demo_q2 :: db where
  "demo_q2 = snd (createLink demo_crypto 0 (replicate 32 7) (replicate 12 1) demo_config demo_link_input demo_q1)"

definition demo_reserve :: "int \<Rightarrow> reserve_input" where
  "demo_reserve n = \<lparr>ri_link = hd (links demo_q2), ri_originalName = Some ''a.pdf'', ri_uploadKind = KTus,
     ri_declaredSize = Some (Num (of_int n)), ri_clientIp = None, ri_id = None\<rparr>"

definition demo_q3 :: db where "demo_q3 = snd (reserveUpload 1 (replicate 12 2) demo_config (demo_reserve 60) demo_q2)"
definition demo_q4 :: db where "demo_q4 = snd (reserveUpload 2 (replicate 12 3) demo_config (demo_reserve 60) demo_q3)"
definition demo_q5 :: db where
  "demo_q5 = snd (completeUpload 3 (newId ''f'' (replicate 12 2)) 60 (Some ''00'') demo_q4)"

lemma demo_q2_links: "links demo_q2 = [hd (links demo_q2)] \<and> l_max_total_bytes (hd (links demo_q2)) = Some 100"
  by code_simp

lemma demo_q5_file: "\<exists>f. getFile demo_q4 (newId ''f'' (replicate 12 2)) = Some f \<and> f_reserved_bytes f = 60"
proof -
  have "case getFile demo_q4 (newId ''f'' (replicate 12 2)) of None \<Rightarrow> False | Some f \<Rightarrow> f_reserved_bytes f = 60" by code_simp
  then show ?thesis by (cases "getFile demo_q4 (newId ''f'' (replicate 12 2))") auto
qed

lemma demo_run4: "upload_run demo_crypto demo_config empty_db demo_q4"
proof -
  have snap: "snapshot_of (hd (links demo_q2)) d" if "links d = links demo_q2" for d
    using that demo_q2_links unfolding snapshot_of_def by (metis list.set_intros(1))
  have l3: "links demo_q3 = links demo_q2" by code_simp
  have "upload_step demo_crypto demo_config empty_db demo_q1"
    by (rule upload_step.other) (simp_all add: demo_q1_def empty_db_def)
  moreover have "upload_step demo_crypto demo_config demo_q1 demo_q2"
    unfolding demo_q2_def by (rule upload_step.create)
  moreover have "upload_step demo_crypto demo_config demo_q2 demo_q3"
    unfolding demo_q3_def by (rule upload_step.reserve) (simp add: demo_reserve_def snap)
  moreover have "upload_step demo_crypto demo_config demo_q3 demo_q4"
    unfolding demo_q4_def by (rule upload_step.reserve) (simp add: demo_reserve_def snap l3)
  ultimately show ?thesis by (meson converse_rtranclp_into_rtranclp rtranclp.rtrancl_refl)
qed

lemma demo_run5: "upload_run demo_crypto demo_config demo_q4 demo_q5"
  using demo_q5_file unfolding demo_q5_def
  by (auto intro!: r_into_rtranclp upload_step.complete)

lemma quota_never_exceeded_witness:
  "lu_used_bytes (linkUsage demo_q5 (l_id (hd (links demo_q5)))) +
   lu_reserved_bytes (linkUsage demo_q5 (l_id (hd (links demo_q5)))) \<le> 100"
proof -
  have l: "hd (links demo_q5) \<in> set (links demo_q5)" "l_max_total_bytes (hd (links demo_q5)) = Some 100" by code_simp+
  show ?thesis
    using quota_never_exceeded [OF rtranclp_trans [OF demo_run4 demo_run5] _ l(1)] l(2)
    by (simp add: demo_config_def)
qed

lemma file_life_witness:
  "\<exists>f g. getFile demo_q4 (newId ''f'' (replicate 12 2)) = Some f \<and>
     getFile demo_q5 (newId ''f'' (replicate 12 2)) = Some g \<and> same_file f g \<and>
     status_next\<^sup>*\<^sup>* (f_status f) (f_status g)"
  using demo_q5_file file_life [OF demo_run5] by blast


end
