(* ===== verification/WebAuthn.thy ===== *)
theory WebAuthn
  imports Json
begin

text \<open>
  src/webauthn.ts: what the server checks of a passkey ceremony. Keys are imported and signatures
  verified by node:crypto (\<open>nc_spki\<close>, \<open>nc_verify\<close>); a refused check throws \<open>WebAuthnError\<close>.
\<close>

unbundle bit_operations_syntax

section \<open>Encodings\<close>

definition COSE_ALGS :: "int list" where
  "COSE_ALGS = [- 8, - 7, - 257]"

definition FLAG_UP :: byte where "FLAG_UP = 0x01"
definition FLAG_UV :: byte where "FLAG_UV = 0x04"
definition FLAG_AT :: byte where "FLAG_AT = 0x40"

definition b64url :: "byte list \<Rightarrow> string" where
  "b64url buf = b64url_of buf"

definition malformed :: "string \<Rightarrow> exn" where
  "malformed what = WebAuthnError (''malformed '' @ what)"

definition fromB64url :: "string \<Rightarrow> string \<Rightarrow> byte list result" where
  "fromB64url s what =
     (if \<not> list_all is_url_char s \<or> length s = 0 \<or> 16384 < length s then Inl (malformed what)
      else Inr (b64_decode s))"

text \<open>The same on parsed text, whose code units may be any.\<close>

definition fromB64url_units :: "nat list \<Rightarrow> string \<Rightarrow> byte list result" where
  "fromB64url_units u what =
     (if list_all (\<lambda>n. n < 256) u then fromB64url (map chr_of u) what else Inl (malformed what))"

section \<open>Authenticator data\<close>

record expected =
  ex_challenge :: string
  ex_origin :: string
  ex_rpId :: string

record auth_data =
  ad_rpIdHash :: "byte list"
  ad_flags :: byte
  ad_signCount :: nat
  ad_credentialId :: "byte list option"

definition be_value :: "byte list \<Rightarrow> nat" where
  "be_value bs = foldl (\<lambda>n b. 256 * n + unat b) 0 bs"

definition slice :: "nat \<Rightarrow> nat \<Rightarrow> 'a list \<Rightarrow> 'a list" where
  "slice i n xs = take n (drop i xs)"

definition parseAuthData :: "byte list \<Rightarrow> auth_data result" where
  "parseAuthData data =
     (if length data < 37 then Inl (WebAuthnError ''authenticator data too short'')
      else
        let flags = data ! 32;
            out = \<lparr>ad_rpIdHash = take 32 data, ad_flags = flags, ad_signCount = be_value (slice 33 4 data), ad_credentialId = None\<rparr>
        in if flags AND FLAG_AT \<noteq> 0 then
             (if length data < 55 then Inl (WebAuthnError ''attested credential data too short'')
              else
                let len = be_value (slice 53 2 data)
                in if length data < 55 + len then Inl (WebAuthnError ''credential id truncated'')
                   else Inr (out\<lparr>ad_credentialId := Some (slice 55 len data)\<rparr>))
           else Inr out)"

section \<open>The checks\<close>

datatype ceremony_type = Webauthn_create | Webauthn_get

definition ceremony_text :: "ceremony_type \<Rightarrow> string" where
  "ceremony_text t = (case t of Webauthn_create \<Rightarrow> ''webauthn.create'' | Webauthn_get \<Rightarrow> ''webauthn.get'')"

definition check :: "bool \<Rightarrow> string \<Rightarrow> unit result" where
  "check b msg = (if b then Inr () else Inl (WebAuthnError msg))"

text \<open>Reading a member of \<open>null\<close> is a \<open>TypeError\<close>, not one of the refusals.\<close>

definition checkClientData :: "byte list \<Rightarrow> ceremony_type \<Rightarrow> expected \<Rightarrow> unit result" where
  "checkClientData clientDataJSON t ex =
     (case json_parse (utf8_decode clientDataJSON) of
        None \<Rightarrow> Inl (WebAuthnError ''client data is not JSON'')
      | Some JNull \<Rightarrow> Inl (JsError ''Cannot read properties of null'')
      | Some cd \<Rightarrow>
        and_then (check (json_get ''type'' cd = Some (JStr (units (ceremony_text t)))) ''wrong ceremony type'') (\<lambda>_.
        and_then (case json_get ''challenge'' cd of
                    Some (JStr c) \<Rightarrow>
                      and_then (fromB64url_units c ''challenge'') (\<lambda>given.
                      and_then (fromB64url (ex_challenge ex) ''challenge'') (\<lambda>issued.
                      check (given = issued) ''challenge mismatch''))
                  | _ \<Rightarrow> check False ''challenge mismatch'') (\<lambda>_.
        and_then (check (json_get ''origin'' cd = Some (JStr (units (ex_origin ex)))) ''origin mismatch'') (\<lambda>_.
        check (json_get ''crossOrigin'' cd \<noteq> Some (JBool True)) ''cross-origin ceremony''))))"

definition checkAuthData :: "node_crypto \<Rightarrow> auth_data \<Rightarrow> expected \<Rightarrow> unit result" where
  "checkAuthData C ad ex =
     and_then (check (ad_rpIdHash ad = nc_sha256 C (utf8 (ex_rpId ex))) ''RP id mismatch'') (\<lambda>_.
     check (ad_flags ad AND FLAG_UP \<noteq> 0) ''user not present'')"

definition key_fits :: "int \<Rightarrow> key_kind \<Rightarrow> bool" where
  "key_fits alg k \<longleftrightarrow>
     (alg = - 8 \<and> k = KeyEd25519) \<or> (alg = - 7 \<and> k = KeyEc ''prime256v1'') \<or>
     (alg = - 257 \<and> (case k of KeyRsa n \<Rightarrow> 2048 \<le> n | _ \<Rightarrow> False))"

definition importCredentialKey :: "node_crypto \<Rightarrow> byte list \<Rightarrow> int \<Rightarrow> node_key result" where
  "importCredentialKey C spki alg =
     (case nc_spki C spki of
        None \<Rightarrow> Inl (WebAuthnError ''unreadable public key'')
      | Some key \<Rightarrow> if key_fits alg (nk_kind key) then Inr key else Inl (WebAuthnError ''unsupported key type''))"

section \<open>Registration\<close>

record registration_input =
  rg_clientDataJSON :: string
  rg_authenticatorData :: string
  rg_publicKey :: string
  rg_algorithm :: jsnum
  rg_credentialId :: string

record verified_registration =
  vr_credentialId :: string
  vr_publicKey :: string
  vr_algorithm :: int
  vr_signCount :: nat
  vr_userVerified :: bool

text \<open>\<open>COSE_ALGS.includes(n)\<close> for a number of the form.\<close>

definition cose_alg :: "jsnum \<Rightarrow> int option" where
  "cose_alg n = find (\<lambda>a. n = Num (of_int a)) COSE_ALGS"

definition verifyRegistration :: "node_crypto \<Rightarrow> registration_input \<Rightarrow> expected \<Rightarrow> verified_registration result" where
  "verifyRegistration C inp ex =
     and_then (fromB64url (rg_clientDataJSON inp) ''client data'') (\<lambda>cd.
     and_then (checkClientData cd Webauthn_create ex) (\<lambda>_.
     and_then (fromB64url (rg_authenticatorData inp) ''authenticator data'') (\<lambda>raw.
     and_then (parseAuthData raw) (\<lambda>ad.
     and_then (checkAuthData C ad ex) (\<lambda>_.
     case ad_credentialId ad of
       None \<Rightarrow> Inl (WebAuthnError ''no credential in authenticator data'')
     | Some cid \<Rightarrow>
     and_then (fromB64url (rg_credentialId inp) ''credential id'') (\<lambda>credId.
     and_then (check (credId = cid \<and> length credId \<le> 1023) ''credential id mismatch'') (\<lambda>_.
     case cose_alg (rg_algorithm inp) of
       None \<Rightarrow> Inl (WebAuthnError ''unsupported algorithm'')
     | Some alg \<Rightarrow>
     and_then (fromB64url (rg_publicKey inp) ''public key'') (\<lambda>spki.
     and_then (importCredentialKey C spki alg) (\<lambda>_.
     Inr \<lparr>vr_credentialId = b64url credId, vr_publicKey = b64url spki, vr_algorithm = alg,
          vr_signCount = ad_signCount ad, vr_userVerified = (ad_flags ad AND FLAG_UV \<noteq> 0)\<rparr>)))))))))"

section \<open>Assertion\<close>

record assertion_input =
  as_clientDataJSON :: string
  as_authenticatorData :: string
  as_signature :: string

record stored_credential =
  st_publicKey :: string
  st_algorithm :: int
  st_signCount :: nat

definition assertion_verifies :: "node_crypto \<Rightarrow> int \<Rightarrow> byte list \<Rightarrow> node_key \<Rightarrow> byte list \<Rightarrow> bool" where
  "assertion_verifies C alg payload key sig =
     (if alg = - 8 then nc_verify C None False payload key sig else nc_verify C (Some ''sha256'') False payload key sig)"

definition verifyAssertion :: "node_crypto \<Rightarrow> assertion_input \<Rightarrow> stored_credential \<Rightarrow> expected \<Rightarrow> (nat \<times> bool) result" where
  "verifyAssertion C inp cred ex =
     and_then (fromB64url (as_clientDataJSON inp) ''client data'') (\<lambda>clientData.
     and_then (fromB64url (as_authenticatorData inp) ''authenticator data'') (\<lambda>authData.
     and_then (fromB64url (as_signature inp) ''signature'') (\<lambda>signature.
     and_then (checkClientData clientData Webauthn_get ex) (\<lambda>_.
     and_then (parseAuthData authData) (\<lambda>ad.
     and_then (checkAuthData C ad ex) (\<lambda>_.
     and_then (importCredentialKey C (b64_decode (st_publicKey cred)) (st_algorithm cred)) (\<lambda>key.
     let payload = authData @ nc_sha256 C clientData in
     and_then (check (assertion_verifies C (st_algorithm cred) payload key signature) ''bad signature'') (\<lambda>_.
     and_then (check (\<not> ((ad_signCount ad \<noteq> 0 \<or> st_signCount cred \<noteq> 0) \<and> ad_signCount ad \<le> st_signCount cred))
       ''signature counter went backwards'') (\<lambda>_.
     Inr (ad_signCount ad, ad_flags ad AND FLAG_UV \<noteq> 0))))))))))"

section \<open>What an accepted ceremony was\<close>

lemma check_Inr [simp]: "check b msg = Inr u \<longleftrightarrow> b"
  by (simp add: check_def)

lemma fromB64url_Inr: "fromB64url s what = Inr bs \<longleftrightarrow> list_all is_url_char s \<and> s \<noteq> [] \<and> length s \<le> 16384 \<and> bs = b64_decode s"
  by (auto simp: fromB64url_def malformed_def)

text \<open>The client data a browser signed: its type, our challenge, our origin, not framed elsewhere.\<close>

definition client_data_ok :: "byte list \<Rightarrow> ceremony_type \<Rightarrow> expected \<Rightarrow> bool" where
  "client_data_ok bs t ex \<longleftrightarrow> (\<exists>cd c. json_parse (utf8_decode bs) = Some cd \<and>
     json_get ''type'' cd = Some (JStr (units (ceremony_text t))) \<and>
     json_get ''challenge'' cd = Some (JStr (units c)) \<and> list_all is_url_char c \<and> c \<noteq> [] \<and>
     b64_decode c = b64_decode (ex_challenge ex) \<and>
     json_get ''origin'' cd = Some (JStr (units (ex_origin ex))) \<and> json_get ''crossOrigin'' cd \<noteq> Some (JBool True))"

lemma units_chr: "list_all (\<lambda>n. n < 256) u \<Longrightarrow> units (map chr_of u) = u"
  by (induction u) (auto simp: units_def)

lemma checkClientData_Inr:
  assumes "checkClientData bs t ex = Inr u" shows "client_data_ok bs t ex"
proof -
  obtain cd where cd: "json_parse (utf8_decode bs) = Some cd"
    and ty: "json_get ''type'' cd = Some (JStr (units (ceremony_text t)))"
    and ch: "(case json_get ''challenge'' cd of
                Some (JStr c) \<Rightarrow> and_then (fromB64url_units c ''challenge'') (\<lambda>given.
                  and_then (fromB64url (ex_challenge ex) ''challenge'') (\<lambda>issued. check (given = issued) ''challenge mismatch''))
              | _ \<Rightarrow> check False ''challenge mismatch'') = Inr ()"
    and og: "json_get ''origin'' cd = Some (JStr (units (ex_origin ex)))" "json_get ''crossOrigin'' cd \<noteq> Some (JBool True)"
    using assms by (auto simp: checkClientData_def and_then_Inr_iff split: option.splits json.splits)
  obtain c where c: "json_get ''challenge'' cd = Some (JStr c)"
    using ch by (auto split: option.splits json.splits)
  have c2: "list_all (\<lambda>n. n < 256) c" "fromB64url (map chr_of c) ''challenge'' = Inr (b64_decode (ex_challenge ex))"
    using ch c by (auto simp: and_then_Inr_iff fromB64url_units_def fromB64url_Inr malformed_def split: if_splits)
  have "json_get ''challenge'' cd = Some (JStr (units (map chr_of c)))" using c units_chr [OF c2(1)] by simp
  moreover have "list_all is_url_char (map chr_of c) \<and> map chr_of c \<noteq> [] \<and>
      b64_decode (map chr_of c) = b64_decode (ex_challenge ex)"
    using c2(2) unfolding fromB64url_Inr by simp
  ultimately show ?thesis unfolding client_data_ok_def using cd ty og by blast
qed

lemma parseAuthData_flags: "parseAuthData data = Inr ad \<Longrightarrow> ad_flags ad = data ! 32 \<and> ad_rpIdHash ad = take 32 data \<and>
    ad_signCount ad = be_value (slice 33 4 data) \<and> 37 \<le> length data"
  by (auto simp: parseAuthData_def Let_def split: if_splits)

text \<open>C18: an assertion is accepted only when it answers our challenge for our origin and RP id with the user present,
  when the signature over the authenticator data and the hash of the client data verifies under the
  stored key, which fits the stored algorithm, and when the counter moved forward or is not used.\<close>

theorem verifyAssertion_sound:
  assumes "verifyAssertion C inp cred ex = Inr (n, uv)"
  shows "\<exists>key authData clientData. authData = b64_decode (as_authenticatorData inp) \<and> clientData = b64_decode (as_clientDataJSON inp) \<and>
    client_data_ok clientData Webauthn_get ex \<and>
    take 32 authData = nc_sha256 C (utf8 (ex_rpId ex)) \<and> authData ! 32 AND FLAG_UP \<noteq> 0 \<and>
    nc_spki C (b64_decode (st_publicKey cred)) = Some key \<and> key_fits (st_algorithm cred) (nk_kind key) \<and>
    assertion_verifies C (st_algorithm cred) (authData @ nc_sha256 C clientData) key (b64_decode (as_signature inp)) \<and>
    n = be_value (slice 33 4 authData) \<and> (st_signCount cred < n \<or> (n = 0 \<and> st_signCount cred = 0))"
proof -
  let ?a = "b64_decode (as_authenticatorData inp)" and ?c = "b64_decode (as_clientDataJSON inp)"
  show ?thesis
    using assms unfolding verifyAssertion_def Let_def
  proof (elim and_then_InrE, goal_cases)
    case (1 c a sig u ad u2 key u3 u4)
    then have cd: "checkClientData ?c Webauthn_get ex = Inr u" and ad: "parseAuthData ?a = Inr ad"
      and chk: "checkAuthData C ad ex = Inr u2"
      and key: "importCredentialKey C (b64_decode (st_publicKey cred)) (st_algorithm cred) = Inr key"
      and sig: "assertion_verifies C (st_algorithm cred) (?a @ nc_sha256 C ?c) key (b64_decode (as_signature inp))"
      and n: "n = ad_signCount ad"
      by (simp_all add: fromB64url_Inr)
    have cnt: "\<not> ((ad_signCount ad \<noteq> 0 \<or> st_signCount cred \<noteq> 0) \<and> ad_signCount ad \<le> st_signCount cred)"
      using 1 by (simp only: check_Inr not_False_eq_True)
    note f = parseAuthData_flags [OF ad]
    have "take 32 ?a = nc_sha256 C (utf8 (ex_rpId ex))" "?a ! 32 AND FLAG_UP \<noteq> 0"
      using chk f by (auto simp: checkAuthData_def and_then_Inr_iff)
    moreover have "nc_spki C (b64_decode (st_publicKey cred)) = Some key" "key_fits (st_algorithm cred) (nk_kind key)"
      using key by (auto simp: importCredentialKey_def split: option.splits if_splits)
    moreover have "st_signCount cred < n \<or> (n = 0 \<and> st_signCount cred = 0)" using cnt n by (cases "n = 0") auto
    ultimately show ?case using checkClientData_Inr [OF cd] sig f n
      by (intro exI [of _ key] exI [of _ ?a] exI [of _ ?c] conjI) simp_all
  qed
qed

section \<open>An assertion\<close>

definition demo_client_data :: "ceremony_type \<Rightarrow> string \<Rightarrow> string" where
  "demo_client_data t c =
     ''{'' @ json_quoted ''type'' @ '':'' @ json_quoted (ceremony_text t) @ '','' @ json_quoted ''challenge'' @ '':'' @ json_quoted c
       @ '','' @ json_quoted ''origin'' @ '':'' @ json_quoted ''o'' @ ''}''"

definition demo_rp :: string where
  "demo_rp = replicate 32 (CHR ''r'')"

definition demo_auth_data :: "byte list" where
  "demo_auth_data = utf8 demo_rp @ [1, 0, 0, 0, 5]"

definition demo_assertion :: "string \<Rightarrow> assertion_input" where
  "demo_assertion c =
     (let cd = utf8 (demo_client_data Webauthn_get c)
      in \<lparr>as_clientDataJSON = b64url_of cd, as_authenticatorData = b64url_of demo_auth_data,
          as_signature = b64url_of (demo_auth_data @ cd)\<rparr>)"

definition demo_credential :: stored_credential where
  "demo_credential = \<lparr>st_publicKey = ''AAAA'', st_algorithm = - 8, st_signCount = 4\<rparr>"

definition demo_expected :: expected where
  "demo_expected = \<lparr>ex_challenge = ''abcd'', ex_origin = ''o'', ex_rpId = demo_rp\<rparr>"

lemma fromB64url_enc: "bs \<noteq> [] \<Longrightarrow> length bs \<le> 12000 \<Longrightarrow> fromB64url (b64url_of bs) what = Inr bs"
proof -
  assume "bs \<noteq> []" "length bs \<le> 12000"
  then have "length (b64url_of bs) \<noteq> 0 \<and> length (b64url_of bs) \<le> 16384"
    by (cases bs) (auto simp: b64url_of_def length_sextets)
  moreover have "list_all is_url_char (b64url_of bs)"
    by (auto simp: list_all_iff b64url_of_def b64url_char_ok dest: sextets_less)
  ultimately show ?thesis by (simp add: fromB64url_def)
qed

lemma demo_client_data_accepted:
  "checkClientData (utf8 (demo_client_data Webauthn_get ''abcd'')) Webauthn_get demo_expected = Inr ()"
proof -
  have "json_parse (utf8_decode (utf8 (demo_client_data Webauthn_get ''abcd''))) =
    Some (JObj [(units ''type'', JStr (units ''webauthn.get'')), (units ''challenge'', JStr (units ''abcd'')), (units ''origin'', JStr (units ''o''))])"
    by code_simp
  then show ?thesis by (simp add: checkClientData_def) code_simp
qed

lemma demo_assertion_accepted:
  "verifyAssertion demo_crypto (demo_assertion ''abcd'') demo_credential demo_expected = Inr (5, False)"
proof -
  let ?cd = "utf8 (demo_client_data Webauthn_get ''abcd'')"
  have "?cd \<noteq> [] \<and> length ?cd \<le> 12000" "demo_auth_data \<noteq> [] \<and> length demo_auth_data \<le> 12000"
    "(demo_auth_data @ ?cd) \<noteq> [] \<and> length (demo_auth_data @ ?cd) \<le> 12000" by code_simp+
  then have enc: "fromB64url (as_clientDataJSON (demo_assertion ''abcd'')) w = Inr ?cd"
    "fromB64url (as_authenticatorData (demo_assertion ''abcd'')) w = Inr demo_auth_data"
    "fromB64url (as_signature (demo_assertion ''abcd'')) w = Inr (demo_auth_data @ ?cd)" for w
    by (simp_all add: demo_assertion_def Let_def fromB64url_enc)
  have ad: "parseAuthData demo_auth_data = Inr \<lparr>ad_rpIdHash = utf8 demo_rp, ad_flags = 1, ad_signCount = 5, ad_credentialId = None\<rparr>"
    by code_simp
  have chk: "checkAuthData demo_crypto \<lparr>ad_rpIdHash = utf8 demo_rp, ad_flags = 1, ad_signCount = 5, ad_credentialId = None\<rparr> demo_expected = Inr ()"
    by (simp add: checkAuthData_def demo_expected_def demo_crypto_def check_def FLAG_UP_def)
  have key: "importCredentialKey demo_crypto (b64_decode (st_publicKey demo_credential)) (st_algorithm demo_credential) =
      Inr \<lparr>nk_kind = KeyEd25519, nk_data = b64_decode ''AAAA''\<rparr>"
    by (simp add: importCredentialKey_def demo_crypto_def demo_credential_def key_fits_def)
  show ?thesis
    unfolding verifyAssertion_def enc demo_client_data_accepted ad chk key and_then.simps Let_def
    by (simp add: check_def assertion_verifies_def demo_credential_def demo_crypto_def FLAG_UV_def)
qed

theorem verifyAssertion_sound_witness:
  "\<exists>authData. authData = b64_decode (as_authenticatorData (demo_assertion ''abcd'')) \<and> authData ! 32 AND FLAG_UP \<noteq> 0 \<and>
     st_signCount demo_credential < be_value (slice 33 4 authData)"
  using verifyAssertion_sound [OF demo_assertion_accepted] by auto

end
