(* ===== verification/Passkeys.thy ===== *)
theory Passkeys
  imports AuthProps WebAuthn
begin

text \<open>
  src/services/passkeys.ts: passkeys as a second factor and as confirmation. The challenge of a
  ceremony lives on the session row that asked for it, with a purpose and a deadline.
\<close>

section \<open>Ceremonies\<close>

record passkey =
  pk_id :: string
  pk_name :: string
  pk_created_at :: time
  pk_last_used_at :: "time option"

definition CEREMONY_TTL_MS :: time where "CEREMONY_TTL_MS = 5 * 60000"
definition MAX_PASSKEYS :: nat where "MAX_PASSKEYS = 10"
definition PASSKEY_NAME_MAX :: nat where "PASSKEY_NAME_MAX = 64"

definition passkey_of :: "passkey_row \<Rightarrow> passkey" where
  "passkey_of p = \<lparr>pk_id = p_id p, pk_name = p_name p, pk_created_at = p_created_at p, pk_last_used_at = p_last_used_at p\<rparr>"

definition listPasskeys :: "db \<Rightarrow> string \<Rightarrow> passkey list" where
  "listPasskeys d adminId = map passkey_of (sort_key p_created_at (filter (\<lambda>p. p_admin_id p = adminId) (passkeys d)))"

definition beginCeremony :: "node_crypto \<Rightarrow> time \<Rightarrow> byte list \<Rightarrow> string \<Rightarrow> ceremony \<Rightarrow> db \<Rightarrow> string \<times> db" where
  "beginCeremony C nw rnd sessionId purpose d =
     (let challenge = b64url rnd
      in (challenge,
          update_sessions (\<lambda>s. s_id_hash s = sha256Hex C sessionId)
            (\<lambda>s. s\<lparr>s_wa_challenge := Some challenge, s_wa_purpose := Some purpose, s_wa_expires_at := Some (nw + CEREMONY_TTL_MS)\<rparr>) d))"

definition clear_challenge :: "session_row \<Rightarrow> session_row" where
  "clear_challenge s = s\<lparr>s_wa_challenge := None, s_wa_purpose := None, s_wa_expires_at := None\<rparr>"

definition takeChallenge :: "time \<Rightarrow> string \<Rightarrow> ceremony \<Rightarrow> db \<Rightarrow> string result \<times> db" where
  "takeChallenge nw idHash purpose d =
     (let row = get_by s_id_hash idHash (sessions d);
          d1 = update_sessions (\<lambda>s. s_id_hash s = idHash) clear_challenge d
      in case row of
           None \<Rightarrow> (Inl (WebAuthnError ''no pending challenge''), d1)
         | Some s \<Rightarrow>
           if \<not> truthy (s_wa_challenge s) \<or> s_wa_purpose s \<noteq> Some purpose \<or>
              (case s_wa_expires_at s of None \<Rightarrow> True | Some t \<Rightarrow> t \<le> nw)
           then (Inl (WebAuthnError ''no pending challenge''), d1)
           else (Inr (the (s_wa_challenge s)), d1))"

definition credentialIds :: "db \<Rightarrow> string \<Rightarrow> string list" where
  "credentialIds d adminId = map p_credential_id (filter (\<lambda>p. p_admin_id p = adminId) (passkeys d))"

text \<open>The site's part of \<open>Expected\<close>, without the challenge: origin and RP id.\<close>

definition expect :: "string \<times> string \<Rightarrow> string \<Rightarrow> expected" where
  "expect rp challenge = \<lparr>ex_challenge = challenge, ex_origin = fst rp, ex_rpId = snd rp\<rparr>"

definition new_passkey :: "time \<Rightarrow> byte list \<Rightarrow> string \<Rightarrow> string \<Rightarrow> verified_registration \<Rightarrow> passkey_row" where
  "new_passkey nw rnd adminId name reg =
     \<lparr>p_id = newId ''pk'' rnd, p_admin_id = adminId, p_credential_id = vr_credentialId reg,
      p_public_key = vr_publicKey reg, p_algorithm = vr_algorithm reg, p_sign_count = vr_signCount reg,
      p_name = or_else (take PASSKEY_NAME_MAX (js_trim name)) ''Passkey'', p_created_at = nw, p_last_used_at = None\<rparr>"

definition registerPasskey ::
  "node_crypto \<Rightarrow> time \<Rightarrow> byte list \<Rightarrow> string \<Rightarrow> string \<Rightarrow> string \<Rightarrow> registration_input \<Rightarrow> string \<times> string \<Rightarrow> db
    \<Rightarrow> passkey result \<times> db" where
  "registerPasskey C nw rnd sessionId adminId name inp rp = transaction (\<lambda>d.
     case takeChallenge nw (sha256Hex C sessionId) PRegister d of
       (Inl e, d1) \<Rightarrow> (Inl e, d1)
     | (Inr challenge, d1) \<Rightarrow>
       (case verifyRegistration C inp (expect rp challenge) of
          Inl e \<Rightarrow> (Inl e, d1)
        | Inr reg \<Rightarrow>
          if MAX_PASSKEYS \<le> passkey_count d1 adminId then (Inl (WebAuthnError ''too many passkeys''), d1)
          else if vr_credentialId reg \<in> p_credential_id ` set (passkeys d1)
          then (Inl (WebAuthnError ''passkey already registered''), d1)
          else
            let row = new_passkey nw rnd adminId name reg
            in case insert_passkey row d1 of
                 Inl e \<Rightarrow> (Inl e, d1)
               | Inr d2 \<Rightarrow>
                 (Inr (passkey_of row),
                  update_sessions (\<lambda>s. s_id_hash s = sha256Hex C sessionId) (\<lambda>s. s\<lparr>s_totp_verified := True\<rparr>) d2)))"

definition stored_of :: "passkey_row \<Rightarrow> stored_credential" where
  "stored_of p = \<lparr>st_publicKey = p_public_key p, st_algorithm = p_algorithm p, st_signCount = p_sign_count p\<rparr>"

definition checkAssertion ::
  "node_crypto \<Rightarrow> time \<Rightarrow> string \<Rightarrow> string \<Rightarrow> ceremony \<Rightarrow> string \<Rightarrow> assertion_input \<Rightarrow> string \<times> string \<Rightarrow> db \<Rightarrow> unit result \<times> db" where
  "checkAssertion C nw idHash adminId purpose credentialId inp rp d =
     (case takeChallenge nw idHash purpose d of
        (Inl e, d1) \<Rightarrow> (Inl e, d1)
      | (Inr challenge, d1) \<Rightarrow>
        (case find (\<lambda>p. p_credential_id p = credentialId \<and> p_admin_id p = adminId) (passkeys d1) of
           None \<Rightarrow> (Inl (WebAuthnError ''unknown passkey''), d1)
         | Some cred \<Rightarrow>
           (case verifyAssertion C inp (stored_of cred) (expect rp challenge) of
              Inl e \<Rightarrow> (Inl e, d1)
            | Inr (n, uv) \<Rightarrow>
              (Inr (), update_passkeys (\<lambda>p. p_id p = p_id cred) (\<lambda>p. p\<lparr>p_sign_count := n, p_last_used_at := Some nw\<rparr>) d1))))"

text \<open>A refused assertion is caught inside the transaction, so its challenge is spent all the same.\<close>

definition verifyPasskeyLogin ::
  "node_crypto \<Rightarrow> time \<Rightarrow> session_draws \<Rightarrow> string \<Rightarrow> admin \<Rightarrow> time \<Rightarrow> string \<Rightarrow> assertion_input \<Rightarrow> string \<times> string \<Rightarrow> db
    \<Rightarrow> (string \<times> string) result \<times> db" where
  "verifyPasskeyLogin C nw rnd sessionId adm ttlMs credentialId inp rp d =
     (let idHash = sha256Hex C sessionId
      in case transaction (\<lambda>d.
             case checkAssertion C nw idHash (ad_id adm) PLogin credentialId inp rp d of
               (Inl e, d1) \<Rightarrow> (Inr (Inl e), d1)
             | (Inr _, d1) \<Rightarrow>
               (case completeSecondFactor C nw rnd idHash adm ttlMs FPasskey d1 of
                  (Inl e, d2) \<Rightarrow> (Inl e, d2)
                | (Inr fresh, d2) \<Rightarrow> (Inr (Inr fresh), d2))) d of
           (Inl e, d') \<Rightarrow> (Inl e, d')
         | (Inr (Inl e), d') \<Rightarrow> (Inl e, d')
         | (Inr (Inr fresh), d') \<Rightarrow> (Inr fresh, d'))"

definition verifyPasskeyConfirm ::
  "node_crypto \<Rightarrow> time \<Rightarrow> string \<Rightarrow> string \<Rightarrow> string \<Rightarrow> assertion_input \<Rightarrow> string \<times> string \<Rightarrow> db \<Rightarrow> unit result \<times> db" where
  "verifyPasskeyConfirm C nw sessionId adminId credentialId inp rp d =
     checkAssertion C nw (sha256Hex C sessionId) adminId PConfirm credentialId inp rp d"

definition removePasskey :: "node_crypto \<Rightarrow> string \<Rightarrow> string \<Rightarrow> string \<Rightarrow> db \<Rightarrow> passkey option \<times> db" where
  "removePasskey C adminId passkeyId keep d =
     (case find (\<lambda>p. p_id p = passkeyId \<and> p_admin_id p = adminId) (passkeys d) of
        None \<Rightarrow> (None, d)
      | Some p \<Rightarrow>
        let d1 = d\<lparr>passkeys := delete_where (\<lambda>q. p_id q = p_id p) (passkeys d)\<rparr>;
            d2 = dropRecoveryCodesIfUnused adminId d1
        in (Some (passkey_of p), delete_sessions (\<lambda>s. s_admin_id s = adminId \<and> s_id_hash s \<noteq> sha256Hex C keep) d2))"

section \<open>A challenge is used once\<close>

lemma takeChallenge_clears: "get_by s_id_hash h (sessions (snd (takeChallenge nw h purpose d))) = map_option clear_challenge (get_by s_id_hash h (sessions d))"
proof -
  have "\<And>s. s_id_hash (clear_challenge s) = s_id_hash s" by (simp add: clear_challenge_def)
  then show ?thesis by (simp add: takeChallenge_def Let_def get_by_update_same split: option.split)
qed

lemma takeChallenge_again: "\<exists>e d'. takeChallenge nw' h p' (snd (takeChallenge nw h p d)) = (Inl e, d')"
  using takeChallenge_clears [of h nw p d]
  by (cases "get_by s_id_hash h (sessions d)")
    (simp_all add: takeChallenge_def [of nw' h p'] Let_def clear_challenge_def truthy_def)

lemma takeChallenge_Inr:
  assumes "takeChallenge nw h purpose d = (Inr c, d1)"
  shows "\<exists>s t. get_by s_id_hash h (sessions d) = Some s \<and> s_wa_challenge s = Some c \<and> c \<noteq> [] \<and>
    s_wa_purpose s = Some purpose \<and> s_wa_expires_at s = Some t \<and> nw < t \<and>
    d1 = update_sessions (\<lambda>s. s_id_hash s = h) clear_challenge d"
  using assms by (auto simp: takeChallenge_def Let_def truthy_def split: option.splits if_splits)

lemma checkAssertion_sessions:
  "sessions (snd (checkAssertion C nw h i purpose cid inp rp d)) = sessions (snd (takeChallenge nw h purpose d))"
  by (auto simp: checkAssertion_def split: prod.splits sum.splits option.splits)

text \<open>A session whose challenge is spent: no assertion is accepted, and it stays spent.\<close>

definition spent :: "node_crypto \<Rightarrow> string \<Rightarrow> db \<Rightarrow> bool" where
  "spent C sid d \<longleftrightarrow> (\<forall>s \<in> set (sessions d). s_id_hash s = sha256Hex C sid \<longrightarrow> s_wa_challenge s = None)"

lemma take_spends: "spent C sid (snd (takeChallenge nw (sha256Hex C sid) purpose d))"
  by (auto simp: takeChallenge_def Let_def spent_def set_update_where clear_challenge_def split: option.split)

lemma check_spends: "spent C sid (snd (checkAssertion C nw (sha256Hex C sid) i purpose cid inp rp d))"
  using take_spends [of C sid nw purpose d] by (simp add: spent_def checkAssertion_sessions)

lemma spent_take: "spent C sid d \<Longrightarrow> \<exists>e d'. takeChallenge nw (sha256Hex C sid) purpose d = (Inl e, d')"
  by (auto simp: takeChallenge_def Let_def spent_def truthy_def dest!: get_by_SomeD split: option.split)

lemma spent_check: "spent C sid d \<Longrightarrow> \<exists>e d'. checkAssertion C nw (sha256Hex C sid) i purpose cid inp rp d = (Inl e, d')"
  using spent_take [of C sid d nw purpose] by (auto simp: checkAssertion_def)

lemma completeSecondFactor_Inl: "completeSecondFactor C nw rnd h adm ttl f d = (Inl e, d') \<Longrightarrow> e = SqliteConstraint"
  by (auto simp: completeSecondFactor_def createSession_def insert_session_def Let_def split: prod.splits sum.splits if_splits)

text \<open>The two ways to answer with an assertion on a session, and a sequence of them with no new ceremony in between.\<close>

datatype assertion_call =
    LoginCall time session_draws admin time string assertion_input "string \<times> string"
  | ConfirmCall time string string assertion_input "string \<times> string"

fun answer_call :: "node_crypto \<Rightarrow> string \<Rightarrow> assertion_call \<Rightarrow> db \<Rightarrow> unit result \<times> db" where
  "answer_call C sid (LoginCall nw rnd adm ttl cid inp rp) d =
     (case verifyPasskeyLogin C nw rnd sid adm ttl cid inp rp d of (Inl e, d') \<Rightarrow> (Inl e, d') | (Inr fresh, d') \<Rightarrow> (Inr (), d'))"
| "answer_call C sid (ConfirmCall nw i cid inp rp) d = verifyPasskeyConfirm C nw sid i cid inp rp d"

fun answer_calls :: "node_crypto \<Rightarrow> string \<Rightarrow> assertion_call list \<Rightarrow> db \<Rightarrow> unit result list" where
  "answer_calls C sid [] d = []"
| "answer_calls C sid (c # cs) d = (case answer_call C sid c d of (r, d') \<Rightarrow> r # answer_calls C sid cs d')"

lemma login_spends:
  assumes "verifyPasskeyLogin C nw rnd sid adm ttl cid inp rp d = (r, d')"
  shows "(r = Inl SqliteConstraint \<or> spent C sid d') \<and> (spent C sid d \<longrightarrow> (\<exists>e. r = Inl e) \<and> spent C sid d')"
proof -
  let ?h = "sha256Hex C sid"
  obtain x d1 where ca: "checkAssertion C nw ?h (ad_id adm) PLogin cid inp rp d = (x, d1)" by fastforce
  have one: "spent C sid d1" using check_spends [of C sid nw "ad_id adm" PLogin cid inp rp d] ca by simp
  show ?thesis
  proof (cases x)
    case (Inl e)
    then show ?thesis using assms ca one by (auto simp: verifyPasskeyLogin_def Let_def transaction_def)
  next
    case (Inr u)
    have "\<not> spent C sid d" using spent_check [of C sid d nw "ad_id adm" PLogin cid inp rp] ca Inr by auto
    moreover obtain y d2 where cf: "completeSecondFactor C nw rnd ?h adm ttl FPasskey d1 = (y, d2)" by fastforce
    moreover have "spent C sid d2" if "y = Inr (nsid, csrf)" for nsid csrf
    proof -
      have "completeSecondFactor C nw rnd ?h adm ttl FPasskey d1 = (Inr (nsid, csrf), d2)" using cf that by simp
      from completeSecondFactor_Inr [OF this] obtain row where "s_wa_challenge row = None"
        "sessions d2 = delete_where (\<lambda>s. s_id_hash s = ?h) (sessions d1) @ [row]" by blast
      then show ?thesis by (auto simp: spent_def set_delete_where)
    qed
    ultimately show ?thesis using assms ca Inr completeSecondFactor_Inl [of C nw rnd ?h adm ttl FPasskey d1]
      by (cases y) (auto simp: verifyPasskeyLogin_def Let_def transaction_def)
  qed
qed

lemma call_spends:
  assumes "answer_call C sid c d = (r, d')"
  shows "(r = Inl SqliteConstraint \<or> spent C sid d') \<and> (spent C sid d \<longrightarrow> (\<exists>e. r = Inl e) \<and> spent C sid d')"
proof (cases c)
  case (LoginCall nw rnd adm ttl cid inp rp)
  obtain x d1 where run: "verifyPasskeyLogin C nw rnd sid adm ttl cid inp rp d = (x, d1)" by fastforce
  then show ?thesis using assms LoginCall login_spends [OF run] by (cases x) auto
next
  case (ConfirmCall nw i cid inp rp)
  then have run: "checkAssertion C nw (sha256Hex C sid) i PConfirm cid inp rp d = (r, d')"
    using assms by (simp add: verifyPasskeyConfirm_def)
  then show ?thesis using check_spends [of C sid nw i PConfirm cid inp rp d] spent_check [of C sid d nw i PConfirm cid inp rp] by auto
qed

lemma spent_calls: "spent C sid d \<Longrightarrow> r \<in> set (answer_calls C sid cs d) \<Longrightarrow> \<exists>e. r = Inl e"
proof (induction cs arbitrary: d)
  case (Cons c cs)
  obtain q d1 where run: "answer_call C sid c d = (q, d1)" by fastforce
  then show ?case using Cons call_spends [OF run] by auto
qed simp

text \<open>C30: a challenge answers at most one assertion, whatever it is for: among any logins and confirmations on a session
  with no new ceremony in between, an accepted one comes first. Every attempt before it ended in an error
  of the database (the rollback of a session that could not be inserted), not in a refusal.\<close>

theorem assertion_challenge_once:
  assumes "j < k" "k < length cs" "answer_calls C sid cs d ! k = Inr ()"
  shows "answer_calls C sid cs d ! j = Inl SqliteConstraint"
  using assms
proof (induction cs arbitrary: d j k)
  case (Cons c cs)
  obtain r d1 where run: "answer_call C sid c d = (r, d1)" by fastforce
  have len: "length (answer_calls C sid cs d) = length cs" for d by (induction cs arbitrary: d) (simp_all split: prod.split)
  obtain m where k: "k = Suc m" using Cons.prems(1) by (cases k) auto
  then have rest: "m < length cs" "answer_calls C sid cs d1 ! m = Inr ()" using Cons.prems run by simp_all
  have "\<not> spent C sid d1" using spent_calls [of C sid d1 "Inr ()" cs] rest len by (metis nth_mem sum.distinct(1))
  then have "r = Inl SqliteConstraint" using call_spends [OF run] by blast
  then show ?case using Cons.IH [OF _ rest] Cons.prems(1) run k by (cases j) auto
qed simp

text \<open>A failed registration is rolled back whole: the database, and with it the pending challenge, is as before
  the call.\<close>

lemma failed_registration_rolls_back:
  assumes "registerPasskey C nw rnd sid i name inp rp d = (Inl e, d')"
  shows "d' = d"
  using assms transaction_Inl unfolding registerPasskey_def by blast

lemma find_SomeD: "find P xs = Some x \<Longrightarrow> P x \<and> x \<in> set xs"
  by (auto simp: find_Some_iff)

lemma checkAssertion_Inr:
  assumes "checkAssertion C nw h i purpose cid inp rp d = (Inr u, d1)"
  shows "\<exists>s t challenge cred n uv. get_by s_id_hash h (sessions d) = Some s \<and> s_wa_challenge s = Some challenge \<and>
    s_wa_purpose s = Some purpose \<and> s_wa_expires_at s = Some t \<and> nw < t \<and>
    cred \<in> set (passkeys d) \<and> p_credential_id cred = cid \<and> p_admin_id cred = i \<and>
    verifyAssertion C inp (stored_of cred) (expect rp challenge) = Inr (n, uv) \<and>
    d1 = update_passkeys (\<lambda>p. p_id p = p_id cred) (\<lambda>p. p\<lparr>p_sign_count := n, p_last_used_at := Some nw\<rparr>)
           (update_sessions (\<lambda>s. s_id_hash s = h) clear_challenge d)"
proof -
  obtain challenge d0 where tk: "takeChallenge nw h purpose d = (Inr challenge, d0)"
    using assms by (auto simp: checkAssertion_def split: prod.splits sum.splits)
  obtain s t where s: "get_by s_id_hash h (sessions d) = Some s" "s_wa_challenge s = Some challenge"
      "s_wa_purpose s = Some purpose" "s_wa_expires_at s = Some t" "nw < t"
      and d0: "d0 = update_sessions (\<lambda>s. s_id_hash s = h) clear_challenge d"
    using takeChallenge_Inr [OF tk] by blast
  obtain cred n uv where cred: "find (\<lambda>p. p_credential_id p = cid \<and> p_admin_id p = i) (passkeys d0) = Some cred"
      and v: "verifyAssertion C inp (stored_of cred) (expect rp challenge) = Inr (n, uv)"
      and d1: "d1 = update_passkeys (\<lambda>p. p_id p = p_id cred) (\<lambda>p. p\<lparr>p_sign_count := n, p_last_used_at := Some nw\<rparr>) d0"
    using assms tk by (auto simp: checkAssertion_def split: sum.splits option.splits)
  from find_SomeD [OF cred] d0 have "cred \<in> set (passkeys d)" "p_credential_id cred = cid" "p_admin_id cred = i" by simp_all
  with s v d1 d0 show ?thesis by blast
qed

text \<open>C19: a passkey login that succeeds answered the unexpired login challenge of that very session with an assertion
  by a passkey registered to the account; it moves the stored counter to the asserted one and replaces
  the pending session by a verified one marked as a passkey sign-in.\<close>

theorem passkey_login_sound:
  assumes "verifyPasskeyLogin C nw rnd sid adm ttl cid inp rp d = (Inr (nsid, csrf), d')"
  shows "\<exists>s t challenge cred n uv s'. get_by s_id_hash (sha256Hex C sid) (sessions d) = Some s \<and>
    s_wa_challenge s = Some challenge \<and> s_wa_purpose s = Some PLogin \<and> s_wa_expires_at s = Some t \<and> nw < t \<and>
    cred \<in> set (passkeys d) \<and> p_credential_id cred = cid \<and> p_admin_id cred = ad_id adm \<and>
    verifyAssertion C inp (stored_of cred) (expect rp challenge) = Inr (n, uv) \<and>
    passkeys d' = update_where (\<lambda>p. p_id p = p_id cred) (\<lambda>p. p\<lparr>p_sign_count := n, p_last_used_at := Some nw\<rparr>) (passkeys d) \<and>
    sessions d' = delete_where (\<lambda>s. s_id_hash s = sha256Hex C sid) (sessions d) @ [s'] \<and>
    s_id_hash s' = sha256Hex C nsid \<and> session_fields s' (ad_id adm) csrf (nw + ttl) \<and>
    s_totp_verified s' \<and> s_second_factor s' = Some FPasskey \<and> s_wa_challenge s' = None"
proof -
  let ?h = "sha256Hex C sid"
  obtain d1 where ca: "checkAssertion C nw ?h (ad_id adm) PLogin cid inp rp d = (Inr (), d1)"
      and cf: "completeSecondFactor C nw rnd ?h adm ttl FPasskey d1 = (Inr (nsid, csrf), d')"
    using assms by (auto simp: verifyPasskeyLogin_def Let_def transaction_def split: prod.splits sum.splits)
  obtain s t challenge cred n uv where s: "get_by s_id_hash ?h (sessions d) = Some s" "s_wa_challenge s = Some challenge"
      "s_wa_purpose s = Some PLogin" "s_wa_expires_at s = Some t" "nw < t"
      and cred: "cred \<in> set (passkeys d)" "p_credential_id cred = cid" "p_admin_id cred = ad_id adm"
        "verifyAssertion C inp (stored_of cred) (expect rp challenge) = Inr (n, uv)"
      and d1: "d1 = update_passkeys (\<lambda>p. p_id p = p_id cred) (\<lambda>p. p\<lparr>p_sign_count := n, p_last_used_at := Some nw\<rparr>)
           (update_sessions (\<lambda>s. s_id_hash s = ?h) clear_challenge d)"
    using checkAssertion_Inr [OF ca] by blast
  obtain row where row: "s_id_hash row = sha256Hex C nsid" "session_fields row (ad_id adm) csrf (nw + ttl)"
      "s_totp_verified row" "s_second_factor row = Some FPasskey" "s_wa_challenge row = None"
      "sessions d' = delete_where (\<lambda>s. s_id_hash s = ?h) (sessions d1) @ [row]" "passkeys d' = passkeys d1"
    using completeSecondFactor_Inr [OF cf] by blast
  have keep: "\<And>s. s_id_hash (clear_challenge s) = s_id_hash s" by (simp add: clear_challenge_def)
  have "delete_where (\<lambda>s. s_id_hash s = ?h) (update_where (\<lambda>s. s_id_hash s = ?h) clear_challenge ss) =
      delete_where (\<lambda>s. s_id_hash s = ?h) ss" for ss
    using keep by (induction ss) (auto simp: delete_where_def update_where_def)
  then have "sessions d' = delete_where (\<lambda>s. s_id_hash s = ?h) (sessions d) @ [row]" using row(6) d1 by simp
  moreover have "passkeys d' = update_where (\<lambda>p. p_id p = p_id cred) (\<lambda>p. p\<lparr>p_sign_count := n, p_last_used_at := Some nw\<rparr>) (passkeys d)"
    using row(7) d1 by simp
  ultimately show ?thesis using s cred row(1-5) by blast
qed

text \<open>C31: an account never holds more than ten passkeys, and a registered credential is new to the whole instance.\<close>

theorem passkey_limit:
  assumes "registerPasskey C nw rnd sid i name inp rp d = (Inr pk, d')"
  shows "passkey_count d' i = passkey_count d i + 1 \<and> passkey_count d' i \<le> MAX_PASSKEYS \<and>
    (\<forall>j. j \<noteq> i \<longrightarrow> passkey_count d' j = passkey_count d j) \<and>
    (\<exists>row. passkeys d' = passkeys d @ [row] \<and> p_credential_id row \<notin> p_credential_id ` set (passkeys d) \<and>
       length (p_name row) \<le> PASSKEY_NAME_MAX \<and> p_name row \<noteq> [])"
proof -
  obtain challenge d1 where tk: "takeChallenge nw (sha256Hex C sid) PRegister d = (Inr challenge, d1)"
    using assms by (auto simp: registerPasskey_def transaction_def split: prod.splits sum.splits)
  obtain reg d2 where few: "\<not> MAX_PASSKEYS \<le> passkey_count d1 i" and new: "vr_credentialId reg \<notin> p_credential_id ` set (passkeys d1)"
      and ins: "insert_passkey (new_passkey nw rnd i name reg) d1 = Inr d2"
      and d': "d' = update_sessions (\<lambda>s. s_id_hash s = sha256Hex C sid) (\<lambda>s. s\<lparr>s_totp_verified := True\<rparr>) d2"
    using assms tk
    by (auto simp: registerPasskey_def transaction_Inr Let_def split: sum.splits if_splits)
  define row where "row = new_passkey nw rnd i name reg"
  have row: "p_admin_id row = i" "p_credential_id row = vr_credentialId reg" "p_name row = or_else (take PASSKEY_NAME_MAX (js_trim name)) ''Passkey''"
    by (simp_all add: row_def new_passkey_def)
  have "passkeys d1 = passkeys d"
    using takeChallenge_Inr [OF tk] by (auto simp: takeChallenge_def)
  moreover have "passkeys d' = passkeys d1 @ [row]" using insert_passkey_Inr [OF ins] d' by (simp add: row_def)
  moreover have "length (p_name row) \<le> PASSKEY_NAME_MAX \<and> p_name row \<noteq> []"
    by (simp add: row(3) or_else_def PASSKEY_NAME_MAX_def)
  ultimately show ?thesis using few new row by (auto simp: passkey_count_def)
qed

section \<open>Examples\<close>

text \<open>An account with one passkey and a session that asked for a ceremony.\<close>

definition demo_passkey :: passkey_row where
  "demo_passkey =
     \<lparr>p_id = ''pk_1'', p_admin_id = ''a_1'', p_credential_id = ''cred'', p_public_key = ''AAAA'', p_algorithm = - 8,
      p_sign_count = 4, p_name = ''Key'', p_created_at = 0, p_last_used_at = None\<rparr>"

definition demo_waiting :: "ceremony \<Rightarrow> db" where
  "demo_waiting purpose = empty_db\<lparr>admins := [demo_admin ''a_1'' ''ann'' RoleAdmin],
     sessions := [(demo_session ''sx'' ''a_1'' False)\<lparr>s_wa_challenge := Some ''abcd'', s_wa_purpose := Some purpose, s_wa_expires_at := Some 9\<rparr>],
     passkeys := [demo_passkey]\<rparr>"

lemma demo_stored: "stored_of demo_passkey = demo_credential" "expect (''o'', demo_rp) ''abcd'' = demo_expected"
  by (simp_all add: stored_of_def demo_passkey_def demo_credential_def expect_def demo_expected_def)

definition demo_taken :: "ceremony \<Rightarrow> db" where
  "demo_taken purpose = update_sessions (\<lambda>s. s_id_hash s = sha256Hex demo_crypto ''sx'') clear_challenge (demo_waiting purpose)"

lemma demo_take: "takeChallenge 5 (sha256Hex demo_crypto ''sx'') p (demo_waiting p) = (Inr ''abcd'', demo_taken p)"
  by (simp add: takeChallenge_def demo_waiting_def demo_taken_def get_by_Cons demo_session_def truthy_def)

lemma demo_check:
  "checkAssertion demo_crypto 5 (sha256Hex demo_crypto ''sx'') ''a_1'' p ''cred'' (demo_assertion ''abcd'') (''o'', demo_rp) (demo_waiting p) =
    (Inr (), update_passkeys (\<lambda>p. p_id p = ''pk_1'') (\<lambda>p. p\<lparr>p_sign_count := 5, p_last_used_at := Some 5\<rparr>) (demo_taken p))"
proof -
  have "passkeys (demo_taken p) = [demo_passkey]" by (simp add: demo_taken_def demo_waiting_def)
  moreover have "p_credential_id demo_passkey = ''cred''" "p_admin_id demo_passkey = ''a_1''" "p_id demo_passkey = ''pk_1''"
    by (simp_all add: demo_passkey_def)
  ultimately show ?thesis by (simp add: checkAssertion_def demo_take demo_stored demo_assertion_accepted)
qed

lemma demo_complete:
  "\<exists>sid csrf d'. completeSecondFactor demo_crypto 5 demo_draws (sha256Hex demo_crypto ''sx'') (toAdmin (demo_waiting p) (demo_admin ''a_1'' ''ann'' RoleAdmin)) 1000 FPasskey
     (update_passkeys (\<lambda>p. p_id p = ''pk_1'') (\<lambda>p. p\<lparr>p_sign_count := 5, p_last_used_at := Some 5\<rparr>) (demo_taken p)) = (Inr (sid, csrf), d')"
  by (simp add: completeSecondFactor_def createSession_def insert_session_def demo_taken_def demo_waiting_def Let_def has_session_def
      has_admin_def toAdmin_def demo_admin_def delete_where_def update_where_def demo_session_def clear_challenge_def) auto

theorem passkey_login_sound_witness:
  "\<exists>nsid csrf d'. verifyPasskeyLogin demo_crypto 5 demo_draws ''sx'' (toAdmin (demo_waiting PLogin) (demo_admin ''a_1'' ''ann'' RoleAdmin)) 1000
       ''cred'' (demo_assertion ''abcd'') (''o'', demo_rp) (demo_waiting PLogin) = (Inr (nsid, csrf), d') \<and>
     (\<exists>s' \<in> set (sessions d'). s_totp_verified s' \<and> s_second_factor s' = Some FPasskey)"
proof -
  let ?adm = "toAdmin (demo_waiting PLogin) (demo_admin ''a_1'' ''ann'' RoleAdmin)"
  have "ad_id ?adm = ''a_1''" by (simp add: toAdmin_def demo_admin_def)
  then obtain nsid csrf d' where run: "verifyPasskeyLogin demo_crypto 5 demo_draws ''sx'' ?adm 1000 ''cred'' (demo_assertion ''abcd'')
      (''o'', demo_rp) (demo_waiting PLogin) = (Inr (nsid, csrf), d')"
    using demo_complete [of PLogin] demo_check [of PLogin] by (auto simp: verifyPasskeyLogin_def Let_def transaction_def)
  from passkey_login_sound [OF this] run show ?thesis by fastforce
qed

theorem assertion_challenge_once_witness:
  "\<exists>e. answer_calls demo_crypto ''sx'' [ConfirmCall 5 ''a_1'' ''cred'' (demo_assertion ''abcd'') (''o'', demo_rp),
      ConfirmCall 6 ''a_1'' ''cred'' (demo_assertion ''abcd'') (''o'', demo_rp)] (demo_waiting PConfirm) = [Inr (), Inl e]"
proof -
  let ?a = "ConfirmCall 5 ''a_1'' ''cred'' (demo_assertion ''abcd'') (''o'', demo_rp)"
  let ?b = "ConfirmCall 6 ''a_1'' ''cred'' (demo_assertion ''abcd'') (''o'', demo_rp)"
  have two: "\<exists>r. answer_calls C sid [c1, c2] d = [fst (answer_call C sid c1 d), r]" for C sid c1 c2 d by (simp add: split_beta)
  have "fst (answer_call demo_crypto ''sx'' ?a (demo_waiting PConfirm)) = Inr ()"
    using demo_check [of PConfirm] by (simp add: verifyPasskeyConfirm_def)
  with two [of demo_crypto "''sx''" ?a ?b "demo_waiting PConfirm"]
  obtain r where run: "answer_calls demo_crypto ''sx'' [?a, ?b] (demo_waiting PConfirm) = [Inr (), r]" by metis
  with assertion_challenge_once [of 0 1 "[?a, ?b]" demo_crypto "''sx''" "demo_waiting PConfirm"] have "r \<noteq> Inr ()" by auto
  then show ?thesis using run by (cases r) auto
qed

text \<open>A sign-in with a passkey does not ask whether wrong codes have locked the account, and lifts the lock.\<close>

lemma passkey_login_lifts_lock:
  assumes "verifyPasskeyLogin C nw rnd sid adm ttl cid inp rp d = (Inr fresh, d')" "adminById d (ad_id adm) = Some a"
  shows "\<exists>a'. adminById d' (ad_id adm) = Some a' \<and> a_totp_failed a' = 0 \<and> a_totp_locked_until a' = None"
proof -
  obtain nsid csrf where f: "fresh = (nsid, csrf)" by fastforce
  obtain d1 where ca: "checkAssertion C nw (sha256Hex C sid) (ad_id adm) PLogin cid inp rp d = (Inr (), d1)"
      and cf: "completeSecondFactor C nw rnd (sha256Hex C sid) adm ttl FPasskey d1 = (Inr (nsid, csrf), d')"
    using assms(1) by (auto simp: f verifyPasskeyLogin_def Let_def transaction_def split: prod.splits sum.splits)
  have "admins d1 = admins d" using checkAssertion_Inr [OF ca] by auto
  then have "adminById d1 (ad_id adm) = Some a" using assms(2) by (simp add: adminById_def)
  moreover obtain row where "adminById d' (ad_id adm) = map_option reset_lock (adminById d1 (ad_id adm))"
    using completeSecondFactor_login [OF cf] by blast
  ultimately show ?thesis by (simp add: reset_lock_def)
qed

lemma failed_registration_rolls_back_witness:
  "\<exists>e. registerPasskey demo_crypto 5 [] ''sx'' ''a_1'' ''Key'' \<lparr>rg_clientDataJSON = [], rg_authenticatorData = [], rg_publicKey = [], rg_algorithm = NaN,
     rg_credentialId = []\<rparr> (''o'', demo_rp) (demo_waiting PRegister) = (Inl e, demo_waiting PRegister)"
proof -
  let ?run = "registerPasskey demo_crypto 5 [] ''sx'' ''a_1'' ''Key'' \<lparr>rg_clientDataJSON = [], rg_authenticatorData = [], rg_publicKey = [],
     rg_algorithm = NaN, rg_credentialId = []\<rparr> (''o'', demo_rp) (demo_waiting PRegister)"
  have "\<exists>e d'. ?run = (Inl e, d')"
    by (simp add: registerPasskey_def transaction_def demo_take verifyRegistration_def fromB64url_def)
  then obtain e d' where run: "?run = (Inl e, d')" by blast
  from failed_registration_rolls_back [OF run] run show ?thesis by blast
qed

definition demo_registration :: registration_input where
  "demo_registration =
     \<lparr>rg_clientDataJSON = b64url_of (utf8 (demo_client_data Webauthn_create ''abcd'')),
      rg_authenticatorData = b64url_of (utf8 demo_rp @ [0x41, 0, 0, 0, 0] @ replicate 16 0 @ [0, 3, 7, 8, 9]),
      rg_publicKey = b64url_of [0, 0, 0], rg_algorithm = Num (- 8), rg_credentialId = b64url_of [7, 8, 9]\<rparr>"

lemma demo_registration_accepted:
  "\<exists>reg. verifyRegistration demo_crypto demo_registration demo_expected = Inr reg \<and> vr_credentialId reg = b64url_of [7, 8, 9]"
proof -
  let ?cd = "utf8 (demo_client_data Webauthn_create ''abcd'')"
  let ?ad = "utf8 demo_rp @ [0x41, 0, 0, 0, 0] @ replicate 16 0 @ [0, 3, 7, 8, 9]"
  have "?cd \<noteq> [] \<and> length ?cd \<le> 12000" "?ad \<noteq> [] \<and> length ?ad \<le> 12000" by code_simp+
  then have enc: "fromB64url (rg_clientDataJSON demo_registration) w = Inr ?cd" "fromB64url (rg_authenticatorData demo_registration) w = Inr ?ad"
    "fromB64url (rg_credentialId demo_registration) w = Inr [7, 8, 9]" "fromB64url (rg_publicKey demo_registration) w = Inr [0, 0, 0]" for w
    by (simp_all add: demo_registration_def fromB64url_enc)
  have "json_parse (utf8_decode ?cd) =
    Some (JObj [(units ''type'', JStr (units ''webauthn.create'')), (units ''challenge'', JStr (units ''abcd'')), (units ''origin'', JStr (units ''o''))])"
    by code_simp
  then have cd: "checkClientData ?cd Webauthn_create demo_expected = Inr ()" by (simp add: checkClientData_def) code_simp
  have ad: "parseAuthData ?ad = Inr \<lparr>ad_rpIdHash = utf8 demo_rp, ad_flags = 0x41, ad_signCount = 0, ad_credentialId = Some [7, 8, 9]\<rparr>"
    by code_simp
  have chk: "checkAuthData demo_crypto \<lparr>ad_rpIdHash = utf8 demo_rp, ad_flags = 0x41, ad_signCount = 0, ad_credentialId = Some [7, 8, 9]\<rparr> demo_expected = Inr ()"
    by (simp add: checkAuthData_def demo_expected_def demo_crypto_def check_def FLAG_UP_def)
  have alg: "cose_alg (rg_algorithm demo_registration) = Some (- 8)"
    by (simp add: cose_alg_def COSE_ALGS_def demo_registration_def)
  show ?thesis
    unfolding verifyRegistration_def enc cd ad chk and_then.simps alg
    by (simp add: check_def importCredentialKey_def demo_crypto_def key_fits_def b64url_def)
qed

theorem passkey_limit_witness:
  "\<exists>pk d'. registerPasskey demo_crypto 5 [] ''sx'' ''a_1'' ''Key'' demo_registration (''o'', demo_rp) (demo_waiting PRegister) = (Inr pk, d') \<and>
     passkey_count d' ''a_1'' = 2"
proof -
  obtain reg where reg: "verifyRegistration demo_crypto demo_registration demo_expected = Inr reg" "vr_credentialId reg = b64url_of [7, 8, 9]"
    using demo_registration_accepted by blast
  have pk: "passkeys (demo_taken PRegister) = [demo_passkey]" and ad: "admins (demo_taken PRegister) = [demo_admin ''a_1'' ''ann'' RoleAdmin]"
    by (simp_all add: demo_taken_def demo_waiting_def)
  have cnt: "passkey_count (demo_waiting PRegister) ''a_1'' = 1" "\<not> MAX_PASSKEYS \<le> passkey_count (demo_taken PRegister) ''a_1''"
    by (simp_all add: passkey_count_def demo_waiting_def pk demo_passkey_def MAX_PASSKEYS_def)
  have new: "b64url_of [7, 8, 9] \<noteq> ''cred''" "newId ''pk'' [] \<noteq> ''pk_1''" by code_simp+
  have "\<exists>d1. insert_passkey (new_passkey 5 [] ''a_1'' ''Key'' reg) (demo_taken PRegister) = Inr d1"
    using new reg(2) pk ad by (simp add: insert_passkey_def new_passkey_def demo_passkey_def has_admin_def demo_admin_def)
  then obtain pk' d' where run: "registerPasskey demo_crypto 5 [] ''sx'' ''a_1'' ''Key'' demo_registration (''o'', demo_rp) (demo_waiting PRegister) = (Inr pk', d')"
    using reg new pk cnt by (auto simp: registerPasskey_def transaction_def demo_take demo_stored Let_def demo_passkey_def)
  from passkey_limit [OF run] run cnt show ?thesis by auto
qed

end
