(* ===== verification/Sessions.thy ===== *)
theory Sessions
  imports Passkeys
begin

text \<open>
  src/services/sessions.ts: an account's view of its own sessions, and the server side of
  device-bound sessions: once a session is bound to a device key, its cookie counts only together
  with a short-lived bound cookie, and that one is renewed only for a fresh proof by the key.
\<close>

section \<open>The account's sessions\<close>

record session_summary =
  ss_public_id :: string
  ss_created_at :: time
  ss_last_seen_at :: time
  ss_expires_at :: time
  ss_ip :: "string option"
  ss_user_agent :: "string option"
  ss_second_factor :: "second_factor option"
  ss_pending :: bool
  ss_bound :: bool
  ss_current :: bool

text \<open>The \<open>LEFT JOIN\<close> with the bindings: at most one, by the unique column.\<close>

definition binding_of :: "db \<Rightarrow> string \<Rightarrow> binding_row option" where
  "binding_of d idHash = get_by b_session_hash idHash (bindings d)"

definition listSessions :: "node_crypto \<Rightarrow> time \<Rightarrow> db \<Rightarrow> string \<Rightarrow> string \<Rightarrow> session_summary list" where
  "listSessions C nw d adminId currentSessionId =
     (let currentHash = sha256Hex C currentSessionId
      in map (\<lambda>s. \<lparr>ss_public_id = s_public_id s, ss_created_at = s_created_at s, ss_last_seen_at = s_last_seen_at s,
                   ss_expires_at = s_expires_at s, ss_ip = s_ip s, ss_user_agent = s_user_agent s,
                   ss_second_factor = s_second_factor s, ss_pending = (\<not> s_totp_verified s),
                   ss_bound = (binding_of d (s_id_hash s) \<noteq> None), ss_current = (s_id_hash s = currentHash)\<rparr>)
           (sort_key (\<lambda>s. - s_last_seen_at s) (filter (\<lambda>s. s_admin_id s = adminId \<and> nw < s_expires_at s) (sessions d))))"

definition revokeSession :: "string \<Rightarrow> string \<Rightarrow> db \<Rightarrow> bool \<times> db" where
  "revokeSession adminId publicId d =
     (let hit = (\<lambda>s. s_admin_id s = adminId \<and> s_public_id s = publicId)
      in (0 < changes hit (sessions d), delete_sessions hit d))"

section \<open>Device-bound sessions\<close>

definition BOUND_COOKIE_TTL_MS :: time where "BOUND_COOKIE_TTL_MS = 10 * 60000"
definition DBSC_CHALLENGE_TTL_MS :: time where "DBSC_CHALLENGE_TTL_MS = 30 * 60000"
definition GRACE_MS :: time where "GRACE_MS = 60000"

definition challenge :: "byte list \<Rightarrow> string" where
  "challenge rnd = b64url_of rnd"

definition offerBinding :: "node_crypto \<Rightarrow> time \<Rightarrow> byte list \<Rightarrow> string \<Rightarrow> db \<Rightarrow> string option \<times> db" where
  "offerBinding C nw rnd sessionId d =
     (let idHash = sha256Hex C sessionId
      in case get_by s_id_hash idHash (sessions d) of
           None \<Rightarrow> (None, d)
         | Some s \<Rightarrow>
           if s_dbsc_offered_at s \<noteq> None \<or> binding_of d idHash \<noteq> None \<or> \<not> s_totp_verified s then (None, d)
           else
             let c = challenge rnd
             in (Some c, update_sessions (\<lambda>r. s_id_hash r = idHash) (\<lambda>r. r\<lparr>s_dbsc_challenge := Some c, s_dbsc_offered_at := Some nw\<rparr>) d))"

record issued_cookie =
  ic_bindingId :: string
  ic_cookie :: string
  ic_maxAgeSec :: int
  ic_nextChallenge :: "string option"

text \<open>The proof's challenge is parsed text; a stored challenge equals it when its code units do.\<close>

definition answers :: "dbsc_proof \<Rightarrow> string option \<Rightarrow> bool" where
  "answers pr c = (case c of None \<Rightarrow> False | Some c \<Rightarrow> c \<noteq> [] \<and> dp_jti pr = units c)"

record binding_draws =
  bd_cookie :: "byte list"
  bd_id :: "byte list"
  bd_challenge :: "byte list"

definition registerBinding ::
  "node_crypto \<Rightarrow> time \<Rightarrow> binding_draws \<Rightarrow> string \<Rightarrow> string \<Rightarrow> db \<Rightarrow> issued_cookie result \<times> db" where
  "registerBinding C nw rnd sessionId jwt d =
     (let idHash = sha256Hex C sessionId
      in case verifyProof C jwt None of
           Inl e \<Rightarrow> (Inl e, d)
         | Inr proof \<Rightarrow> transaction (\<lambda>d.
             case get_by s_id_hash idHash (sessions d) of
               None \<Rightarrow> (Inl (DbscError ''no session''), d)
             | Some s \<Rightarrow>
               if \<not> s_totp_verified s then (Inl (DbscError ''no session''), d)
               else if binding_of d idHash \<noteq> None then (Inl (DbscError ''session already bound''), d)
               else if \<not> answers proof (s_dbsc_challenge s) then (Inl (DbscError ''challenge mismatch''), d)
               else
                 let cookie = b64url_of (bd_cookie rnd); bindingId = newId ''b'' (bd_id rnd)
                 in case insert_binding
                        \<lparr>b_id = bindingId, b_session_hash = idHash, b_alg = dp_alg proof, b_jwk = the (dp_jwk proof),
                         b_cookie_hash = sha256Hex C cookie, b_cookie_expires_at = nw + BOUND_COOKIE_TTL_MS,
                         b_prev_cookie_hash = None, b_prev_cookie_expires_at = None, b_challenge = None,
                         b_challenge_expires_at = None, b_created_at = nw, b_refreshed_at = nw\<rparr> d of
                      Inl e \<Rightarrow> (Inl e, d)
                    | Inr d1 \<Rightarrow>
                      (Inr \<lparr>ic_bindingId = bindingId, ic_cookie = cookie, ic_maxAgeSec = BOUND_COOKIE_TTL_MS div 1000, ic_nextChallenge = None\<rparr>,
                       update_sessions (\<lambda>r. s_id_hash r = idHash) (\<lambda>r. r\<lparr>s_dbsc_challenge := None\<rparr>) d1)) d)"

datatype refresh_result =
    RefreshEnded
  | RefreshChallenge string string
  | RefreshOk issued_cookie

text \<open>The answer without a usable proof: a new challenge for the binding.\<close>

definition fresh :: "time \<Rightarrow> string \<Rightarrow> binding_row \<Rightarrow> db \<Rightarrow> refresh_result result \<times> db" where
  "fresh nw c b d =
     (Inr (RefreshChallenge (b_id b) c),
      update_bindings (\<lambda>r. b_id r = b_id b)
        (\<lambda>r. r\<lparr>b_challenge := Some c, b_challenge_expires_at := Some (nw + DBSC_CHALLENGE_TTL_MS)\<rparr>) d)"

definition rotate_cookie :: "node_crypto \<Rightarrow> time \<Rightarrow> string \<Rightarrow> string \<Rightarrow> binding_row \<Rightarrow> binding_row" where
  "rotate_cookie C nw cookie next r =
     r\<lparr>b_prev_cookie_hash := Some (b_cookie_hash r), b_prev_cookie_expires_at := Some (b_cookie_expires_at r),
       b_cookie_hash := sha256Hex C cookie, b_cookie_expires_at := nw + BOUND_COOKIE_TTL_MS, b_challenge := Some next,
       b_challenge_expires_at := Some (nw + DBSC_CHALLENGE_TTL_MS), b_refreshed_at := nw\<rparr>"

definition refreshBinding ::
  "node_crypto \<Rightarrow> time \<Rightarrow> binding_draws \<Rightarrow> string \<Rightarrow> string option \<Rightarrow> db \<Rightarrow> refresh_result result \<times> db" where
  "refreshBinding C nw rnd bindingId jwt d =
     (case get_by b_id bindingId (bindings d) of
        None \<Rightarrow> (Inr RefreshEnded, d)
      | Some b \<Rightarrow>
        (case get_by s_id_hash (b_session_hash b) (sessions d) of
           None \<Rightarrow> (Inr RefreshEnded, d)
         | Some s \<Rightarrow>
           (case adminById d (s_admin_id s) of
              None \<Rightarrow> (Inr RefreshEnded, d)
            | Some a \<Rightarrow>
              if s_expires_at s \<le> nw \<or> a_disabled_at a \<noteq> None then (Inr RefreshEnded, d)
              else if \<not> truthy jwt then fresh nw (challenge (bd_challenge rnd)) b d
              else
                (case verifyProof C (the jwt) (Some (b_alg b, b_jwk b)) of
                   Inl e \<Rightarrow> (Inl e, d)
                 | Inr proof \<Rightarrow>
                   if \<not> answers proof (b_challenge b) \<or>
                      (case b_challenge_expires_at b of None \<Rightarrow> True | Some t \<Rightarrow> t \<le> nw)
                   then fresh nw (challenge (bd_challenge rnd)) b d
                   else
                     let cookie = b64url_of (bd_cookie rnd); next = challenge (bd_challenge rnd)
                     in (Inr (RefreshOk \<lparr>ic_bindingId = b_id b, ic_cookie = cookie,
                                         ic_maxAgeSec = BOUND_COOKIE_TTL_MS div 1000, ic_nextChallenge = Some next\<rparr>),
                         update_bindings (\<lambda>r. b_id r = b_id b) (rotate_cookie C nw cookie next) d)))))"

datatype bound_state = Unbound | BoundOk | BoundRejected

definition checkBoundCookie :: "node_crypto \<Rightarrow> time \<Rightarrow> db \<Rightarrow> string \<Rightarrow> string option \<Rightarrow> bound_state" where
  "checkBoundCookie C nw d sessionId boundCookie =
     (case binding_of d (sha256Hex C sessionId) of
        None \<Rightarrow> Unbound
      | Some b \<Rightarrow>
        if \<not> truthy boundCookie \<or> 128 < length (the boundCookie) then BoundRejected
        else
          let h = sha256Hex C (the boundCookie); cutoff = nw - GRACE_MS
          in if safeEqual h (b_cookie_hash b) \<and> cutoff < b_cookie_expires_at b then BoundOk
             else if truthy (b_prev_cookie_hash b) \<and> b_prev_cookie_expires_at b \<noteq> None \<and>
                     safeEqual h (the (b_prev_cookie_hash b)) \<and> cutoff < the (b_prev_cookie_expires_at b) then BoundOk
             else BoundRejected)"

section \<open>What a bound session guarantees\<close>

lemma answers_iff: "answers pr c \<longleftrightarrow> (\<exists>x. c = Some x \<and> x \<noteq> [] \<and> dp_jti pr = units x)"
  by (auto simp: answers_def split: option.splits)

text \<open>A cookie value is current for a binding: it is the newest one, or the one before, and not out of
  date by more than the grace period.\<close>

definition cookie_current :: "node_crypto \<Rightarrow> time \<Rightarrow> binding_row \<Rightarrow> string \<Rightarrow> bool" where
  "cookie_current C nw b c \<longleftrightarrow>
     (sha256Hex C c = b_cookie_hash b \<and> nw < b_cookie_expires_at b + GRACE_MS) \<or>
     (b_prev_cookie_hash b = Some (sha256Hex C c) \<and> sha256Hex C c \<noteq> [] \<and>
      (\<exists>t. b_prev_cookie_expires_at b = Some t \<and> nw < t + GRACE_MS))"

lemma checkBoundCookie_bound:
  assumes "binding_of d (sha256Hex C sid) = Some b"
  shows "checkBoundCookie C nw d sid bc =
    (if \<exists>c. bc = Some c \<and> c \<noteq> [] \<and> length c \<le> 128 \<and> cookie_current C nw b c then BoundOk else BoundRejected)"
  using assms
  by (auto simp: checkBoundCookie_def cookie_current_def truthy_def Let_def algebra_simps split: option.splits)

text \<open>A session that is bound to a device passes only together with a bound cookie that is the newest one
  or its predecessor and at most a minute past its deadline; without one, or with any other value, the
  session cookie alone is rejected. A session that is not bound needs no bound cookie.\<close>

lemma bound_cookie_required:
  "(checkBoundCookie C nw d sid bc = Unbound \<longleftrightarrow> binding_of d (sha256Hex C sid) = None) \<and>
   (checkBoundCookie C nw d sid bc = BoundOk \<longleftrightarrow>
      (\<exists>b c. binding_of d (sha256Hex C sid) = Some b \<and> bc = Some c \<and> c \<noteq> [] \<and> length c \<le> 128 \<and> cookie_current C nw b c))"
proof (cases "binding_of d (sha256Hex C sid)")
  case None
  then show ?thesis by (simp add: checkBoundCookie_def)
next
  case (Some b)
  then show ?thesis by (simp add: checkBoundCookie_bound)
qed

lemma refreshBinding_ok:
  assumes "refreshBinding C nw rnd bid jwt d = (Inr (RefreshOk ic), d')"
  shows "\<exists>b s a j c t. get_by b_id bid (bindings d) = Some b \<and> get_by s_id_hash (b_session_hash b) (sessions d) = Some s \<and>
    adminById d (s_admin_id s) = Some a \<and> nw < s_expires_at s \<and> a_disabled_at a = None \<and> jwt = Some j \<and>
    signed_by C j (b_alg b) (b_jwk b) (units c) \<and> b_challenge b = Some c \<and> b_challenge_expires_at b = Some t \<and> nw < t \<and>
    ic_bindingId ic = bid \<and> ic_cookie ic = b64url_of (bd_cookie rnd) \<and>
    d' = update_bindings (\<lambda>r. b_id r = bid) (rotate_cookie C nw (ic_cookie ic) (challenge (bd_challenge rnd))) d"
proof -
  obtain b s a where b: "get_by b_id bid (bindings d) = Some b" and s: "get_by s_id_hash (b_session_hash b) (sessions d) = Some s"
      and a: "adminById d (s_admin_id s) = Some a" and live: "nw < s_expires_at s" "a_disabled_at a = None" and j: "truthy jwt"
    using assms by (auto simp: refreshBinding_def fresh_def split: option.splits if_splits)
  obtain j' where j': "jwt = Some j'" using j by (auto simp: truthy_def split: option.splits)
  obtain pr where pr: "verifyProof C j' (Some (b_alg b, b_jwk b)) = Inr pr"
    using assms b s a live j j' by (auto simp: refreshBinding_def split: sum.splits)
  have idb: "b_id b = bid" using get_by_SomeD [OF b] by simp
  have ok: "answers pr (b_challenge b) \<and> (\<exists>t. b_challenge_expires_at b = Some t \<and> nw < t)"
    and rest: "ic = \<lparr>ic_bindingId = bid, ic_cookie = b64url_of (bd_cookie rnd), ic_maxAgeSec = BOUND_COOKIE_TTL_MS div 1000,
        ic_nextChallenge = Some (challenge (bd_challenge rnd))\<rparr>"
      "d' = update_bindings (\<lambda>r. b_id r = bid) (rotate_cookie C nw (b64url_of (bd_cookie rnd)) (challenge (bd_challenge rnd))) d"
    using assms b s a live j j' pr idb
    by (auto simp: refreshBinding_def fresh_def Let_def split: if_splits option.splits)
  obtain c where c: "b_challenge b = Some c" "dp_jti pr = units c" using ok by (auto simp: answers_iff)
  have "signed_by C j' (b_alg b) (b_jwk b) (units c)" using verifyProof_known [OF pr] c by auto
  with b s a live j' ok rest c show ?thesis by fastforce
qed

lemma rotate_keys [simp]: "b_id (rotate_cookie C nw c n r) = b_id r" "b_session_hash (rotate_cookie C nw c n r) = b_session_hash r"
  by (simp_all add: rotate_cookie_def)

text \<open>The binding of a session after its row was rewritten.\<close>

lemma binding_of_rotated:
  assumes ok: "db_ok d" and b: "get_by b_id bid (bindings d) = Some b"
  shows "binding_of (update_bindings (\<lambda>r. b_id r = bid) (rotate_cookie C nw c n) d) (b_session_hash b) = Some (rotate_cookie C nw c n b)"
proof -
  have mem: "b \<in> set (bindings d)" "b_id b = bid" using get_by_SomeD [OF b] by simp_all
  have "get_by b_session_hash (b_session_hash b) (bindings d) = Some b"
    using get_by_SomeI [OF _ mem(1), of b_session_hash] ok by (simp add: db_ok_def ok_bindings_def)
  with mem show ?thesis by (simp add: binding_of_def get_by_update_keep)
qed

text \<open>C20: a bound cookie is renewed only for an unexpired session of an enabled account and a proof signed with the
  device key stored at registration over the challenge that was outstanding and unexpired. The new
  cookie then opens the session, and so does the one it replaces, for requests already under way.\<close>

theorem refresh_needs_device_key:
  assumes "refreshBinding C nw rnd bid jwt d = (Inr (RefreshOk ic), d')" and "db_ok d" and "length (bd_cookie rnd) = 32"
  shows "\<exists>b s a j c t. get_by b_id bid (bindings d) = Some b \<and> get_by s_id_hash (b_session_hash b) (sessions d) = Some s \<and>
    adminById d (s_admin_id s) = Some a \<and> nw < s_expires_at s \<and> a_disabled_at a = None \<and> jwt = Some j \<and>
    signed_by C j (b_alg b) (b_jwk b) (units c) \<and> b_challenge b = Some c \<and> b_challenge_expires_at b = Some t \<and> nw < t \<and>
    (\<forall>sid. sha256Hex C sid = b_session_hash b \<longrightarrow> checkBoundCookie C nw d' sid (Some (ic_cookie ic)) = BoundOk \<and>
       (\<forall>old. sha256Hex C old = b_cookie_hash b \<and> sha256Hex C old \<noteq> [] \<and> checkBoundCookie C nw d sid (Some old) = BoundOk \<and>
          nw < b_cookie_expires_at b + GRACE_MS \<longrightarrow> checkBoundCookie C nw d' sid (Some old) = BoundOk))"
proof -
  obtain b s a j c t where b: "get_by b_id bid (bindings d) = Some b" "get_by s_id_hash (b_session_hash b) (sessions d) = Some s"
      "adminById d (s_admin_id s) = Some a" "nw < s_expires_at s" "a_disabled_at a = None" "jwt = Some j"
      "signed_by C j (b_alg b) (b_jwk b) (units c)" "b_challenge b = Some c" "b_challenge_expires_at b = Some t" "nw < t"
      and ic: "ic_cookie ic = b64url_of (bd_cookie rnd)"
      and d': "d' = update_bindings (\<lambda>r. b_id r = bid) (rotate_cookie C nw (ic_cookie ic) (challenge (bd_challenge rnd))) d"
    using refreshBinding_ok [OF assms(1)] by blast
  let ?b = "rotate_cookie C nw (ic_cookie ic) (challenge (bd_challenge rnd)) b"
  have after: "binding_of d' (b_session_hash b) = Some ?b"
    unfolding d' by (rule binding_of_rotated [OF assms(2) b(1)])
  have len: "length (ic_cookie ic) = 43" using ic assms(3) by (simp add: b64url_of_def length_sextets)
  have new: "checkBoundCookie C nw d' sid (Some (ic_cookie ic)) = BoundOk" if "sha256Hex C sid = b_session_hash b" for sid
    using len after that checkBoundCookie_bound [of d' C sid ?b]
    by (auto simp: cookie_current_def rotate_cookie_def BOUND_COOKIE_TTL_MS_def GRACE_MS_def)
  have old: "checkBoundCookie C nw d' sid (Some old) = BoundOk"
    if "sha256Hex C sid = b_session_hash b" "sha256Hex C old = b_cookie_hash b" "sha256Hex C old \<noteq> []"
      "checkBoundCookie C nw d sid (Some old) = BoundOk" "nw < b_cookie_expires_at b + GRACE_MS" for sid old
  proof -
    have "old \<noteq> [] \<and> length old \<le> 128"
      using that(4) bound_cookie_required [of C nw d sid "Some old"] by auto
    with that after checkBoundCookie_bound [of d' C sid ?b] show ?thesis
      by (auto simp: cookie_current_def rotate_cookie_def)
  qed
  from b new old show ?thesis by blast
qed

text \<open>C32: a proof renews at most once: presented again, at any time, after a successful renewal it is answered with a new challenge,
  provided the two random challenges differ.\<close>

theorem refresh_proof_once:
  assumes "refreshBinding C nw rnd bid (Some j) d = (Inr (RefreshOk ic), d')"
    and "\<And>b. get_by b_id bid (bindings d) = Some b \<Longrightarrow> b_challenge b \<noteq> Some (challenge (bd_challenge rnd))"
  shows "\<forall>nw' rnd' ic' d''. refreshBinding C nw' rnd' bid (Some j) d' \<noteq> (Inr (RefreshOk ic'), d'')"
proof (intro allI notI)
  fix nw' rnd' ic' d''
  assume again: "refreshBinding C nw' rnd' bid (Some j) d' = (Inr (RefreshOk ic'), d'')"
  obtain b c where b: "get_by b_id bid (bindings d) = Some b" and j: "signed_by C j (b_alg b) (b_jwk b) (units c)" "b_challenge b = Some c"
      and d': "d' = update_bindings (\<lambda>r. b_id r = bid) (rotate_cookie C nw (ic_cookie ic) (challenge (bd_challenge rnd))) d"
    using refreshBinding_ok [OF assms(1)] by blast
  obtain b' c' where b': "get_by b_id bid (bindings d') = Some b'" and j': "signed_by C j (b_alg b') (b_jwk b') (units c')" "b_challenge b' = Some c'"
    using refreshBinding_ok [OF again] by blast
  have "b' = rotate_cookie C nw (ic_cookie ic) (challenge (bd_challenge rnd)) b"
    using b b' d' by (simp add: get_by_update_same)
  then have c': "c' = challenge (bd_challenge rnd)" using j'(2) by (simp add: rotate_cookie_def)
  have "units c = units c'" using j(1) j'(1) by (auto simp: signed_by_def)
  then have "c = c'" by (simp add: units_def inj_map_eq_map inj_def)
  with c' j(2) assms(2) [OF b] show False by simp
qed

text \<open>C33: a session is bound only when it is complete, not bound yet and its outstanding offer is answered by a proof
  signed with the key it names; that key is then the stored one, the challenge is spent, and the
  session cannot be bound a second time.\<close>

theorem binding_registered_once:
  assumes "registerBinding C nw rnd sid jwt d = (Inr ic, d')"
  shows "\<exists>s c b. get_by s_id_hash (sha256Hex C sid) (sessions d) = Some s \<and> s_totp_verified s \<and>
    binding_of d (sha256Hex C sid) = None \<and> s_dbsc_challenge s = Some c \<and> signed_by C jwt (b_alg b) (b_jwk b) (units c) \<and>
    binding_of d' (sha256Hex C sid) = Some b \<and> b_cookie_hash b = sha256Hex C (ic_cookie ic) \<and> b_challenge b = None \<and>
    (\<exists>s'. get_by s_id_hash (sha256Hex C sid) (sessions d') = Some s' \<and> s_dbsc_challenge s' = None) \<and>
    (\<forall>nw' rnd' jwt'. \<exists>e. registerBinding C nw' rnd' sid jwt' d' = (Inl e, d'))"
proof -
  let ?h = "sha256Hex C sid"
  obtain pr where pr: "verifyProof C jwt None = Inr pr"
    using assms by (auto simp: registerBinding_def Let_def split: sum.splits)
  obtain jwk where jwk: "dp_jwk pr = Some jwk" "signed_by C jwt (dp_alg pr) jwk (dp_jti pr)"
    using verifyProof_new [OF pr] by blast
  obtain s where s: "get_by s_id_hash ?h (sessions d) = Some s" "s_totp_verified s" "binding_of d ?h = None" "answers pr (s_dbsc_challenge s)"
    using assms pr by (auto simp: registerBinding_def Let_def transaction_Inr split: option.splits if_splits)
  obtain c where c: "s_dbsc_challenge s = Some c" "dp_jti pr = units c" using s(4) by (auto simp: answers_iff)
  define b where "b = \<lparr>b_id = newId ''b'' (bd_id rnd), b_session_hash = ?h, b_alg = dp_alg pr, b_jwk = the (dp_jwk pr),
      b_cookie_hash = sha256Hex C (b64url_of (bd_cookie rnd)), b_cookie_expires_at = nw + BOUND_COOKIE_TTL_MS,
      b_prev_cookie_hash = None, b_prev_cookie_expires_at = None, b_challenge = None,
      b_challenge_expires_at = None, b_created_at = nw, b_refreshed_at = nw\<rparr>"
  obtain d1 where ins: "insert_binding b d = Inr d1" and ic: "ic_cookie ic = b64url_of (bd_cookie rnd)"
      and d': "d' = update_sessions (\<lambda>r. s_id_hash r = ?h) (\<lambda>r. r\<lparr>s_dbsc_challenge := None\<rparr>) d1"
    using assms pr s by (auto simp: registerBinding_def Let_def transaction_Inr b_def split: sum.splits)
  have bd: "bindings d' = bindings d @ [b]" and sd: "sessions d1 = sessions d" using insert_binding_Inr [OF ins] d' by simp_all
  have bound: "binding_of d' ?h = Some b"
    using s(3) bd by (simp add: binding_of_def get_by_append get_by_Cons b_def)
  have s': "get_by s_id_hash ?h (sessions d') = Some (s\<lparr>s_dbsc_challenge := None\<rparr>)"
    using d' sd s(1) by (simp add: get_by_update_same)
  have again: "\<exists>e. registerBinding C nw' rnd' sid jwt' d' = (Inl e, d')" for nw' rnd' jwt'
    using s' s(2) bound by (auto simp: registerBinding_def Let_def transaction_def split: sum.splits)
  have "signed_by C jwt (b_alg b) (b_jwk b) (units c)" using jwk c by (simp add: b_def)
  moreover have "b_cookie_hash b = sha256Hex C (ic_cookie ic) \<and> b_challenge b = None" using ic by (simp add: b_def)
  ultimately show ?thesis using s c bound s' again by (intro exI [of _ s] exI [of _ c] exI [of _ b]) simp
qed

section \<open>Examples\<close>

text \<open>A complete session bound to a device key, whose cookie is due, and the same session before it was bound.\<close>

definition demo_binding :: binding_row where
  "demo_binding =
     \<lparr>b_id = ''b_1'', b_session_hash = sha256Hex demo_crypto ''sx'', b_alg = ES256, b_jwk = demo_jwk,
      b_cookie_hash = sha256Hex demo_crypto ''old'', b_cookie_expires_at = 4, b_prev_cookie_hash = None,
      b_prev_cookie_expires_at = None, b_challenge = Some ''abcd'', b_challenge_expires_at = Some 9, b_created_at = 0,
      b_refreshed_at = 0\<rparr>"

definition demo_unbound :: db where
  "demo_unbound = empty_db\<lparr>admins := [demo_admin ''a_1'' ''ann'' RoleAdmin],
     sessions := [(demo_session ''sx'' ''a_1'' True)\<lparr>s_dbsc_challenge := Some ''abcd'', s_dbsc_offered_at := Some 1\<rparr>]\<rparr>"

definition demo_bound :: db where
  "demo_bound = demo_unbound\<lparr>bindings := [demo_binding]\<rparr>"

definition demo_binding_draws :: binding_draws where
  "demo_binding_draws = \<lparr>bd_cookie = replicate 32 1, bd_id = [2], bd_challenge = [3]\<rparr>"

lemma demo_refresh:
  "\<exists>ic d'. refreshBinding demo_crypto 5 demo_binding_draws ''b_1'' (Some demo_jwt) demo_bound = (Inr (RefreshOk ic), d')"
proof -
  have "demo_jwt \<noteq> []" by (simp add: demo_jwt_def demo_signed_def)
  then show ?thesis
    by (simp add: refreshBinding_def demo_bound_def demo_unbound_def demo_binding_def demo_session_def get_by_Cons adminById_def
        demo_admin_def demo_jwt_accepted answers_def truthy_def Let_def)
qed

lemma demo_bound_ok: "db_ok demo_bound"
  by (simp add: db_ok_def ok_defs has_defs demo_bound_def demo_unbound_def demo_binding_def demo_session_def empty_db_def demo_admin_def)

theorem refresh_needs_device_key_witness:
  "\<exists>ic d'. refreshBinding demo_crypto 5 demo_binding_draws ''b_1'' (Some demo_jwt) demo_bound = (Inr (RefreshOk ic), d') \<and>
     checkBoundCookie demo_crypto 5 d' ''sx'' (Some (ic_cookie ic)) = BoundOk"
proof -
  obtain ic d' where run: "refreshBinding demo_crypto 5 demo_binding_draws ''b_1'' (Some demo_jwt) demo_bound = (Inr (RefreshOk ic), d')"
    using demo_refresh by blast
  have "get_by b_id ''b_1'' (bindings demo_bound) = Some demo_binding" "b_session_hash demo_binding = sha256Hex demo_crypto ''sx''"
    by (simp_all add: demo_bound_def get_by_Cons demo_binding_def)
  with refresh_needs_device_key [OF run demo_bound_ok] run show ?thesis by (auto simp: demo_binding_draws_def)
qed

theorem refresh_proof_once_witness:
  "\<exists>ic d'. refreshBinding demo_crypto 5 demo_binding_draws ''b_1'' (Some demo_jwt) demo_bound = (Inr (RefreshOk ic), d') \<and>
     (\<forall>ic' d''. refreshBinding demo_crypto 6 demo_binding_draws ''b_1'' (Some demo_jwt) d' \<noteq> (Inr (RefreshOk ic'), d''))"
proof -
  obtain ic d' where run: "refreshBinding demo_crypto 5 demo_binding_draws ''b_1'' (Some demo_jwt) demo_bound = (Inr (RefreshOk ic), d')"
    using demo_refresh by blast
  have "challenge (bd_challenge demo_binding_draws) \<noteq> ''abcd''" by code_simp
  then have "b_challenge b \<noteq> Some (challenge (bd_challenge demo_binding_draws))" if "get_by b_id ''b_1'' (bindings demo_bound) = Some b" for b
    using that by (auto simp: demo_bound_def get_by_Cons demo_binding_def)
  from refresh_proof_once [OF run this] run show ?thesis by blast
qed

theorem binding_registered_once_witness:
  "\<exists>ic d'. registerBinding demo_crypto 5 demo_binding_draws ''sx'' demo_jwt demo_unbound = (Inr ic, d') \<and>
     binding_of d' (sha256Hex demo_crypto ''sx'') \<noteq> None"
proof -
  have "\<exists>ic d'. registerBinding demo_crypto 5 demo_binding_draws ''sx'' demo_jwt demo_unbound = (Inr ic, d')"
    by (simp add: registerBinding_def demo_jwt_accepted transaction_def demo_unbound_def get_by_Cons demo_session_def binding_of_def
        empty_db_def answers_def insert_binding_def has_session_def Let_def)
  then obtain ic d' where run: "registerBinding demo_crypto 5 demo_binding_draws ''sx'' demo_jwt demo_unbound = (Inr ic, d')" by blast
  from binding_registered_once [OF run] run show ?thesis by blast
qed

end
