(* ===== verification/Pending.thy ===== *)
theory Pending
  imports Sessions Users
begin

text \<open>
  Across src/services/auth.ts, passkeys.ts and users.ts: a session that still waits for its second
  factor is never promoted by something else, in particular not by a factor being added, removed or
  reset. Each step below is what one request does to accounts and sessions, with the calls its
  handler makes in a row; \<open>keep\<close> is the session of the request, which the panel's middleware lets
  through only when it is complete.
\<close>

section \<open>Complete sessions\<close>

definition factor :: "db \<Rightarrow> string \<Rightarrow> bool" where
  "factor d i \<longleftrightarrow> (case adminById d i of None \<Rightarrow> False | Some a \<Rightarrow> hasSecondFactor (toAdmin d a))"

text \<open>What \<open>getSession\<close> calls verified.\<close>

definition complete_session :: "db \<Rightarrow> string \<Rightarrow> bool" where
  "complete_session d h \<longleftrightarrow> (case get_by s_id_hash h (sessions d) of
     None \<Rightarrow> False
   | Some s \<Rightarrow> adminById d (s_admin_id s) \<noteq> None \<and> (factor d (s_admin_id s) \<longrightarrow> s_totp_verified s))"

definition no_promotion :: "db \<Rightarrow> db \<Rightarrow> bool" where
  "no_promotion d d' \<longleftrightarrow> (\<forall>h. has_session h d \<and> complete_session d' h \<longrightarrow> complete_session d h)"

definition row_kept :: "db \<Rightarrow> db \<Rightarrow> session_row \<Rightarrow> bool" where
  "row_kept d d' s' \<longleftrightarrow> (\<exists>s \<in> set (sessions d). s_id_hash s = s_id_hash s' \<and> s_admin_id s = s_admin_id s' \<and>
     (s_totp_verified s' \<longrightarrow> s_totp_verified s)) \<and> (factor d (s_admin_id s') \<longrightarrow> factor d' (s_admin_id s'))"

lemma no_promotionI:
  assumes ok: "db_ok d"
    and rows: "\<And>s'. s' \<in> set (sessions d') \<Longrightarrow> row_kept d d' s' \<or> \<not> has_session (s_id_hash s') d \<or> complete_session d (s_id_hash s')"
  shows "no_promotion d d'"
  unfolding no_promotion_def
proof (intro allI impI)
  fix h assume h: "has_session h d \<and> complete_session d' h"
  then obtain s' where s': "get_by s_id_hash h (sessions d') = Some s'" "factor d' (s_admin_id s') \<longrightarrow> s_totp_verified s'"
    by (auto simp: complete_session_def split: option.splits)
  have id': "s' \<in> set (sessions d')" "s_id_hash s' = h" using get_by_SomeD [OF s'(1)] by simp_all
  from rows [OF id'(1)] h id'(2) have "row_kept d d' s' \<or> complete_session d h" by auto
  then show "complete_session d h"
  proof
    assume "row_kept d d' s'"
    then obtain s where s: "s \<in> set (sessions d)" "s_id_hash s = h" "s_admin_id s = s_admin_id s'"
        "s_totp_verified s' \<longrightarrow> s_totp_verified s" "factor d (s_admin_id s') \<longrightarrow> factor d' (s_admin_id s')"
      using id'(2) by (auto simp: row_kept_def)
    have dist: "distinct (map s_id_hash (sessions d))" and fk: "has_admin (s_admin_id s) d"
      using ok s(1) by (simp_all add: db_ok_def ok_sessions_def)
    have "get_by s_id_hash h (sessions d) = Some s" using get_by_SomeI [OF dist s(1)] s(2) by simp
    moreover have "adminById d (s_admin_id s) \<noteq> None"
      using fk get_by_None_iff [of a_id "s_admin_id s" "admins d"] by (auto simp: adminById_def has_admin_def)
    ultimately show ?thesis using s s'(2) by (simp add: complete_session_def)
  qed
qed

section \<open>Statements that cannot promote\<close>

lemma factor_mono:
  assumes "\<And>a. adminById d i = Some a \<Longrightarrow> \<exists>b. adminById d' i = Some b \<and> (a_totp_enabled_at a \<noteq> None \<longrightarrow> a_totp_enabled_at b \<noteq> None)"
    and "passkey_count d i \<noteq> 0 \<longrightarrow> passkey_count d' i \<noteq> 0"
  shows "factor d i \<longrightarrow> factor d' i"
proof
  assume "factor d i"
  then obtain a where a: "adminById d i = Some a" "hasSecondFactor (toAdmin d a)"
    by (auto simp: factor_def split: option.splits)
  obtain b where b: "adminById d' i = Some b" "a_totp_enabled_at a \<noteq> None \<longrightarrow> a_totp_enabled_at b \<noteq> None"
    using assms(1) [OF a(1)] by blast
  have "a_id a = i" "a_id b = i" using adminById_id a(1) b(1) by metis+
  with a(2) b assms(2) show "factor d' i" by (auto simp: factor_def hasSecondFactor_def toAdmin_def)
qed

lemma factor_same: "admins d' = admins d \<Longrightarrow> passkeys d' = passkeys d \<Longrightarrow> factor d' = factor d"
  by (auto simp: factor_def adminById_def toAdmin_def passkey_count_def hasSecondFactor_def split: option.splits intro!: ext)

lemma factor_update_admins:
  assumes "\<And>a. a_id (f a) = a_id a" and "\<And>a. a_totp_enabled_at a \<noteq> None \<Longrightarrow> a_totp_enabled_at (f a) \<noteq> None"
    and "admins d' = update_where P f (admins d)" and "passkeys d' = passkeys d"
  shows "factor d i \<longrightarrow> factor d' i"
proof (rule factor_mono)
  show "\<exists>b. adminById d' i = Some b \<and> (a_totp_enabled_at a \<noteq> None \<longrightarrow> a_totp_enabled_at b \<noteq> None)"
    if "adminById d i = Some a" for a
    using that assms(1-3) by (auto simp: adminById_def get_by_update_keep)
qed (simp add: passkey_count_def assms(4))

text \<open>
  Statements that promote nothing: every session row comes from a row of the same session, account and
  standing, and no account loses its last factor. They compose.
\<close>

definition calm_step :: "db \<Rightarrow> db \<Rightarrow> bool" where
  "calm_step d d' \<longleftrightarrow>
     (\<forall>s' \<in> set (sessions d'). \<exists>s \<in> set (sessions d). s_id_hash s = s_id_hash s' \<and> s_admin_id s = s_admin_id s' \<and>
        s_totp_verified s = s_totp_verified s') \<and>
     (\<forall>i. factor d i \<longrightarrow> factor d' i)"

definition calm :: "(session_row \<Rightarrow> session_row) \<Rightarrow> bool" where
  "calm f \<longleftrightarrow> (\<forall>s. s_id_hash (f s) = s_id_hash s \<and> s_admin_id (f s) = s_admin_id s \<and> s_totp_verified (f s) = s_totp_verified s)"

named_theorems calm_intros \<open>statements that promote nothing\<close>

lemma calm_step_refl [calm_intros]: "calm_step d d"
  by (auto simp: calm_step_def)

lemma calm_step_trans: "calm_step d d1 \<Longrightarrow> calm_step d1 d2 \<Longrightarrow> calm_step d d2"
  unfolding calm_step_def by (metis (no_types, lifting))

lemma calm_promotes_nothing: "db_ok d \<Longrightarrow> calm_step d d' \<Longrightarrow> no_promotion d d'"
  by (rule no_promotionI) (auto simp: calm_step_def row_kept_def)

text \<open>Changes of other tables only, or of sessions in fields that do not matter here.\<close>

lemma calm_same_accounts:
  assumes "admins d' = admins d" "passkeys d' = passkeys d" "set (sessions d') \<subseteq> set (sessions d)"
  shows "calm_step d d'"
  using assms factor_same [of d' d] by (auto simp: calm_step_def)

lemma calm_after_sessions [calm_intros]: "calm f \<Longrightarrow> calm_step d0 d \<Longrightarrow> calm_step d0 (update_sessions P f d)"
  by (erule calm_step_trans) (auto simp: calm_step_def calm_def set_update_where factor_same [of "update_sessions P f d" d])

lemma calm_after_delete [calm_intros]: "calm_step d0 d \<Longrightarrow> calm_step d0 (delete_sessions P d)"
  by (erule calm_step_trans, rule calm_same_accounts) (auto simp: set_delete_where)

lemma calm_after_recovery [calm_intros]: "calm_step d0 d \<Longrightarrow> calm_step d0 (d\<lparr>recovery_codes := x\<rparr>)"
  by (erule calm_step_trans, rule calm_same_accounts) auto

lemma calm_after_bindings [calm_intros]: "calm_step d0 d \<Longrightarrow> calm_step d0 (update_bindings P g d)"
  by (erule calm_step_trans, rule calm_same_accounts) auto

lemma calm_after_admins [calm_intros]:
  "(\<And>a. a_id (f a) = a_id a) \<Longrightarrow> (\<And>a. a_totp_enabled_at a \<noteq> None \<Longrightarrow> a_totp_enabled_at (f a) \<noteq> None) \<Longrightarrow>
   calm_step d0 d \<Longrightarrow> calm_step d0 (update_admins P f d)"
  by (erule calm_step_trans) (auto simp: calm_step_def intro: factor_update_admins [of f, THEN mp])

lemma calm_after_passkeys [calm_intros]:
  assumes "\<And>p. p_admin_id (g p) = p_admin_id p" and "calm_step d0 d"
  shows "calm_step d0 (update_passkeys P g d)"
proof (rule calm_step_trans [OF assms(2)])
  have "passkey_count (update_passkeys P g d) i = passkey_count d i" for i
    by (simp add: passkey_count_def filter_update_where assms(1) if_distrib cong: if_cong)
  then have "factor d i \<longrightarrow> factor (update_passkeys P g d) i" for i
    by (intro factor_mono) (auto simp: adminById_def)
  then show "calm_step d (update_passkeys P g d)" by (auto simp: calm_step_def)
qed

lemma calm_after_insert_passkey:
  assumes "insert_passkey p d = Inr d'" and "calm_step d0 d"
  shows "calm_step d0 d'"
proof (rule calm_step_trans [OF assms(2)])
  have d': "d' = d\<lparr>passkeys := passkeys d @ [p]\<rparr>" by (rule insert_passkey_Inr [OF assms(1)])
  then have "factor d i \<longrightarrow> factor d' i" for i
    by (intro factor_mono) (auto simp: adminById_def passkey_count_def)
  with d' show "calm_step d d'" by (auto simp: calm_step_def)
qed

lemma calm_after_drop [calm_intros]: "calm_step d0 d \<Longrightarrow> calm_step d0 (dropRecoveryCodesIfUnused i d)"
  by (erule calm_step_trans, rule calm_same_accounts) (simp_all add: dropRecoveryCodesIfUnused_def split: option.split)

text \<open>A factor went away: every session of the account but a complete one is gone too.\<close>

lemma promote_removed:
  assumes "db_ok d" and "set (sessions d') \<subseteq> {s \<in> set (sessions d). s_admin_id s \<noteq> i \<or> (s_id_hash s = keep \<and> complete_session d keep)}"
    and "\<And>j. j \<noteq> i \<Longrightarrow> factor d j \<longrightarrow> factor d' j"
  shows "no_promotion d d'"
  using assms by (intro no_promotionI) (auto simp: row_kept_def)

text \<open>A new session took the place of a pending one.\<close>

lemma promote_new:
  assumes ok: "db_ok d" and "calm_step d d1" and "set (sessions d') \<subseteq> insert s (set (sessions d1))" and "\<not> has_session (s_id_hash s) d"
    and "\<And>i. factor d1 i \<longrightarrow> factor d' i"
  shows "no_promotion d d'"
proof (rule no_promotionI [OF ok])
  fix s' assume s': "s' \<in> set (sessions d')"
  show "row_kept d d' s' \<or> \<not> has_session (s_id_hash s') d \<or> complete_session d (s_id_hash s')"
  proof (cases "s' = s")
    case False
    with s' assms(3) have "s' \<in> set (sessions d1)" by auto
    with assms(2,5) show ?thesis unfolding calm_step_def row_kept_def by metis
  qed (use assms(4) in simp)
qed

section \<open>Requests\<close>

lemma calm_failure: "calm_step d0 d \<Longrightarrow> calm_step d0 (snd (recordTotpFailure a nowMs d))"
  by (auto simp: recordTotpFailure_def Let_def intro!: calm_intros)

lemma calm_consume: "calm_step d0 d \<Longrightarrow> calm_step d0 (snd (consumeRecoveryCode C nw i cd d))"
  by (subst consume_frame) (rule calm_after_recovery)

lemma calm_session_factor:
  assumes "session_factor C nw a cd nowMs d = (r, d1)" and "calm_step d0 d" shows "calm_step d0 d1"
proof -
  obtain b d2 where c: "consumeRecoveryCode C nw (a_id a) cd d = (b, d2)" by (cases "consumeRecoveryCode C nw (a_id a) cd d")
  then have "calm_step d0 d2" using calm_consume [OF assms(2), of C nw "a_id a" cd] by simp
  with assms c show ?thesis
    by (cases b) (auto simp: session_factor_def intro!: calm_intros split: sum.splits option.splits)
qed

lemma completeSecondFactor_rows:
  assumes "completeSecondFactor C nw rnd pend adm ttl f d = (Inr x, d')"
    and "sha256Hex C (newSessionId (sd_id rnd)) \<noteq> pend"
  shows "\<exists>row. set (sessions d') \<subseteq> insert row (set (sessions d)) \<and> \<not> has_session (s_id_hash row) d \<and> (\<forall>i. factor d i \<longrightarrow> factor d' i)"
proof -
  obtain sid csrf where x: "x = (sid, csrf)" by (cases x)
  obtain row where row: "sid = newSessionId (sd_id rnd)" "s_id_hash row = sha256Hex C sid"
      "\<forall>s \<in> set (sessions d). s_id_hash s \<noteq> pend \<longrightarrow> s_id_hash s \<noteq> sha256Hex C sid"
      "sessions d' = delete_where (\<lambda>s. s_id_hash s = pend) (sessions d) @ [row]"
      "admins d' = update_where (\<lambda>a. a_id a = ad_id adm) reset_lock (admins d)" "passkeys d' = passkeys d"
    using completeSecondFactor_Inr [OF assms(1) [unfolded x]] by blast
  have "\<not> has_session (s_id_hash row) d" using row(1-3) assms(2) by (auto simp: has_session_def)
  moreover have "set (sessions d') \<subseteq> insert row (set (sessions d))" using row(4) by (auto simp: set_delete_where)
  moreover have "factor d i \<longrightarrow> factor d' i" for i
    by (rule factor_update_admins [OF _ _ row(5,6)]) (simp_all add: reset_lock_def)
  ultimately show ?thesis by blast
qed

lemma has_session_calm: "calm_step d d1 \<Longrightarrow> has_session h d1 \<Longrightarrow> has_session h d"
  unfolding calm_step_def has_session_def by (metis (no_types, lifting) image_iff)

lemma promote_login_totp:
  assumes ok: "db_ok d" and run: "verifySessionTotp C nw rnd sid cd ttl nowMs d = (r, d')"
    and new: "sha256Hex C (newSessionId (sd_id rnd)) \<noteq> sha256Hex C sid"
  shows "no_promotion d d'"
proof (cases r)
  case (Inl e)
  with run transaction_Inl have "d' = d" unfolding verifySessionTotp_def by blast
  then show ?thesis using calm_promotes_nothing [OF ok calm_step_refl] by simp
next
  case (Inr x)
  let ?h = "sha256Hex C sid"
  have body: "verifySessionTotp_body C nw rnd ?h cd ttl nowMs d = (Inr x, d')"
    using run Inr by (simp add: verifySessionTotp_def transaction_Inr)
  show ?thesis
  proof (cases "\<exists>s a. get_by s_id_hash ?h (sessions d) = Some s \<and> adminById d (s_admin_id s) = Some a \<and>
      hasSecondFactor (toAdmin d a) \<and> \<not> isTotpLocked a nowMs")
    case False
    with body have "d' = d" by (auto simp: verifySessionTotp_body_def split: option.splits if_splits)
    then show ?thesis using calm_promotes_nothing [OF ok calm_step_refl] by simp
  next
    case True
    then obtain s a where s: "get_by s_id_hash ?h (sessions d) = Some s" "adminById d (s_admin_id s) = Some a"
      "hasSecondFactor (toAdmin d a)" "\<not> isTotpLocked a nowMs" by blast
    obtain f d1 where sf: "session_factor C nw a cd nowMs d = (Inr f, d1)"
      using body s by (auto simp: verifySessionTotp_body_def split: prod.splits sum.splits)
    note c1 = calm_session_factor [OF sf calm_step_refl]
    show ?thesis
    proof (cases f)
      case (Some f1)
      obtain y where cf: "completeSecondFactor C nw rnd ?h (toAdmin d a) ttl f1 d1 = (Inr y, d')"
        using body s sf Some by (auto simp: verifySessionTotp_body_def split: prod.splits sum.splits)
      from completeSecondFactor_rows [OF cf new] obtain row where row: "set (sessions d') \<subseteq> insert row (set (sessions d1))"
          "\<not> has_session (s_id_hash row) d1" "\<forall>i. factor d1 i \<longrightarrow> factor d' i" by blast
      have "calm_step d1 d1" by (rule calm_step_refl)
      have "\<not> has_session (s_id_hash row) d"
      proof -
        have "sessions d1 = sessions d"
          using sf consume_frame [of C nw "a_id a" cd d]
          by (auto simp: session_factor_def split: sum.splits option.splits prod.splits bool.splits) (metis db.select_convs db.surjective db.update_convs(3) snd_conv)+
        with row(2) show ?thesis by (simp add: has_session_def)
      qed
      from promote_new [OF ok c1 row(1) this] row(3) show ?thesis by blast
    next
      case None
      obtain u d2 where rf: "recordTotpFailure a nowMs d1 = (u, d2)" by (cases "recordTotpFailure a nowMs d1")
      have c2: "calm_step d d2" using calm_failure [OF c1, of a nowMs] rf by simp
      have "d' = d2 \<or> d' = delete_sessions (\<lambda>r. s_id_hash r = ?h) d2 \<or>
          d' = update_sessions (\<lambda>r. s_id_hash r = ?h) (\<lambda>r. r\<lparr>s_totp_attempts := s_totp_attempts s + 1\<rparr>) d2"
        using body s sf None rf by (auto simp: verifySessionTotp_body_def Let_def split: option.splits if_splits)
      then have "calm_step d d'" using c2 by (auto simp: calm_def intro!: calm_intros)
      then show ?thesis by (rule calm_promotes_nothing [OF ok])
    qed
  qed
qed

end
