(* ===== verification/AccountSteps.thy ===== *)
theory AccountSteps
  imports Pending
begin

text \<open>
  The requests that touch accounts and sessions, as one step relation over the database, and what holds
  in every run of them: the schema's invariant, and that no session that waits for its second factor
  becomes complete without one.
\<close>

section \<open>The requests promote nothing\<close>

lemma calm_challenge: "calm clear_challenge"
  by (simp add: calm_def clear_challenge_def)

lemma takeChallenge_calm:
  assumes "takeChallenge nw h p d = (r, d1)"
  shows "calm_step d d1" "map s_id_hash (sessions d1) = map s_id_hash (sessions d)"
proof -
  have "d1 = update_sessions (\<lambda>s. s_id_hash s = h) clear_challenge d"
    using assms by (auto simp: takeChallenge_def Let_def split: option.splits if_splits)
  then show "calm_step d d1" "map s_id_hash (sessions d1) = map s_id_hash (sessions d)"
    using calm_challenge by (auto simp: clear_challenge_def intro!: calm_intros map_update_where)
qed

lemma checkAssertion_calm:
  assumes "checkAssertion C nw h i p cid inp rp d = (r, d1)"
  shows "calm_step d d1 \<and> map s_id_hash (sessions d1) = map s_id_hash (sessions d)"
proof -
  obtain r0 d0 where t: "takeChallenge nw h p d = (r0, d0)" by (cases "takeChallenge nw h p d")
  note tc = takeChallenge_calm [OF t]
  have "d1 = d0 \<or> (\<exists>(cred :: passkey_row) n. d1 = update_passkeys (\<lambda>p. p_id p = p_id cred) (\<lambda>p. p\<lparr>p_sign_count := n, p_last_used_at := Some nw\<rparr>) d0)"
    using assms t by (auto simp: checkAssertion_def split: sum.splits option.splits)
  then show ?thesis using tc by (auto intro!: calm_intros)
qed

lemma promote_login_passkey:
  assumes ok: "db_ok d" and run: "verifyPasskeyLogin C nw rnd sid adm ttl cid inp rp d = (r, d')"
    and new: "sha256Hex C (newSessionId (sd_id rnd)) \<noteq> sha256Hex C sid"
  shows "no_promotion d d'"
proof -
  let ?h = "sha256Hex C sid"
  obtain r1 d1 where ca: "checkAssertion C nw ?h (ad_id adm) PLogin cid inp rp d = (r1, d1)"
    by (cases "checkAssertion C nw ?h (ad_id adm) PLogin cid inp rp d")
  note c = checkAssertion_calm [OF ca]
  have calm: ?thesis if "calm_step d d'" using calm_promotes_nothing [OF ok that] .
  show ?thesis
  proof (cases r1)
    case (Inl e)
    with run ca have "d' = d1" by (auto simp: verifyPasskeyLogin_def Let_def transaction_def)
    with c calm show ?thesis by simp
  next
    case (Inr u)
    obtain r2 d2 where cf: "completeSecondFactor C nw rnd ?h adm ttl FPasskey d1 = (r2, d2)"
      by (cases "completeSecondFactor C nw rnd ?h adm ttl FPasskey d1")
    show ?thesis
    proof (cases r2)
      case (Inl e)
      with run ca Inr cf have "d' = d" by (auto simp: verifyPasskeyLogin_def Let_def transaction_def)
      with calm_step_refl calm show ?thesis by simp
    next
      case r2: (Inr y)
      with run ca Inr cf have d': "d' = d2" by (auto simp: verifyPasskeyLogin_def Let_def transaction_def)
      from completeSecondFactor_rows [OF cf [unfolded r2] new] obtain row where
        row: "set (sessions d2) \<subseteq> insert row (set (sessions d1))" "\<not> has_session (s_id_hash row) d1" "\<forall>i. factor d1 i \<longrightarrow> factor d2 i"
        by blast
      have "s_id_hash ` set (sessions d1) = s_id_hash ` set (sessions d)" using c by (metis list.set_map)
      with row(2) have "\<not> has_session (s_id_hash row) d" by (simp add: has_session_def)
      from promote_new [OF ok conjunct1 [OF c] row(1) this] row(3) d' show ?thesis by blast
    qed
  qed
qed

lemma transaction_cases: "transaction body d = (r, d') \<Longrightarrow> d' = d \<or> (\<exists>x. r = Inr x \<and> body d = (Inr x, d'))"
  by (auto simp: transaction_def split: prod.splits sum.splits)

lemma calm_confirm_code: "verifyConfirmCode C nw i cd nowMs d = (r, d') \<Longrightarrow> calm_step d d'"
proof -
  assume run: "verifyConfirmCode C nw i cd nowMs d = (r, d')"
  have "calm_step d (snd (verifyConfirmCode_body C nw i cd nowMs d))"
  proof -
    have c: "calm_step d d1 \<and> calm_step d (snd (recordTotpFailure a nowMs d1))" if "consumeRecoveryCode C nw i cd d = (b, d1)" for b d1 a
      using calm_consume [OF calm_step_refl [of d], where C = C and nw = nw and i = i and cd = cd] that calm_failure by simp
    show ?thesis
      unfolding verifyConfirmCode_body_def
      using c by (auto intro!: calm_intros split: option.split sum.split prod.split bool.split) (metis snd_conv)+
  qed
  with transaction_cases [OF run [unfolded verifyConfirmCode_def]] show ?thesis by (auto intro: calm_step_refl)
qed

lemma insert_codes_frame: "insert_codes C i cs d = Inr d' \<Longrightarrow> d' = d\<lparr>recovery_codes := recovery_codes d'\<rparr>"
proof (induction cs arbitrary: d)
  case (Cons c cs)
  then obtain d1 where d1: "insert_recovery \<lparr>r_admin_id = i, r_code_hash = sha256Hex C (normalizeRecoveryCode c), r_used_at = None\<rparr> d = Inr d1"
    "insert_codes C i cs d1 = Inr d'" by (auto split: sum.splits)
  from Cons.IH [OF d1(2)] insert_recovery_Inr [OF d1(1)] show ?case by simp
qed simp

lemma replace_frame: "replaceRecoveryCodes C rnds i d = (r, d') \<Longrightarrow> d' = d\<lparr>recovery_codes := recovery_codes d'\<rparr>"
  using insert_codes_frame [of C i "generateRecoveryCodes rnds"]
  by (force simp: replaceRecoveryCodes_def Let_def split: sum.splits)

text \<open>New recovery codes replace the old ones and touch nothing else: the sessions of the account all stay.\<close>

lemma regenerate_only_codes:
  "snd (regenerateRecoveryCodesConfirmed C rnds i d) = d\<lparr>recovery_codes := recovery_codes (snd (regenerateRecoveryCodesConfirmed C rnds i d))\<rparr>"
proof -
  obtain r d' where run: "regenerateRecoveryCodesConfirmed C rnds i d = (r, d')" by (cases "regenerateRecoveryCodesConfirmed C rnds i d")
  then have "d' = d\<lparr>recovery_codes := recovery_codes d'\<rparr>"
    unfolding regenerateRecoveryCodesConfirmed_def
    by (auto simp: transaction_def some_codes_def split: option.splits if_splits sum.splits prod.splits dest: replace_frame)
  then show ?thesis using run by simp
qed

lemma calm_replace: "replaceRecoveryCodes C rnds i d = (r, d') \<Longrightarrow> calm_step d0 d \<Longrightarrow> calm_step d0 d'"
  by (drule replace_frame, erule ssubst) (rule calm_after_recovery)

lemma some_codes_Inr: "some_codes p = (Inr x, d') \<longleftrightarrow> (\<exists>cs. p = (Inr cs, d') \<and> x = Some cs)"
  by (auto simp: some_codes_def split: prod.splits sum.splits)

lemma promote_enrolment:
  assumes ok: "db_ok d" and run: "confirmTotpEnrolment C nw rnds i cd nowMs d = (Inr (Some codes), d1)"
    and keep: "complete_session d (sha256Hex C keep)"
  shows "no_promotion d (destroyOtherSessions C i keep d1)"
proof -
  obtain step where rep: "replaceRecoveryCodes C rnds i
        (update_sessions (\<lambda>s. s_admin_id s = i) (\<lambda>s. s\<lparr>s_totp_verified := True\<rparr>)
          (update_admins (\<lambda>r. a_id r = i) (\<lambda>r. r\<lparr>a_totp_enabled_at := Some nw, a_totp_last_step := Some step\<rparr>) d)) = (Inr codes, d1)"
    using run
    by (auto simp: confirmTotpEnrolment_def confirmTotpEnrolment_body_def transaction_Inr some_codes_Inr Let_def
        split: option.splits if_splits sum.splits)
  let ?d0 = "update_sessions (\<lambda>s. s_admin_id s = i) (\<lambda>s. s\<lparr>s_totp_verified := True\<rparr>)
          (update_admins (\<lambda>r. a_id r = i) (\<lambda>r. r\<lparr>a_totp_enabled_at := Some nw, a_totp_last_step := Some step\<rparr>) d)"
  have d1: "d1 = ?d0\<lparr>recovery_codes := recovery_codes d1\<rparr>" using replace_frame [OF rep] by simp
  have fac: "factor d j \<longrightarrow> factor (destroyOtherSessions C i keep d1) j" for j
  proof -
    have "factor (destroyOtherSessions C i keep d1) = factor (update_admins (\<lambda>r. a_id r = i) (\<lambda>r. r\<lparr>a_totp_enabled_at := Some nw, a_totp_last_step := Some step\<rparr>) d)"
      by (rule factor_same) (subst d1, simp add: destroyOtherSessions_def)+
    then show ?thesis
      using factor_update_admins [where f = "\<lambda>r. r\<lparr>a_totp_enabled_at := Some nw, a_totp_last_step := Some step\<rparr>" and P = "\<lambda>r. a_id r = i"
          and d = d and i = j and d' = "update_admins (\<lambda>r. a_id r = i) (\<lambda>r. r\<lparr>a_totp_enabled_at := Some nw, a_totp_last_step := Some step\<rparr>) d"]
      by simp
  qed
  have rows: "s' \<in> set (sessions d) \<or> (s_id_hash s' = sha256Hex C keep)"
    if "s' \<in> set (sessions (destroyOtherSessions C i keep d1))" for s'
  proof -
    have "sessions d1 = sessions ?d0" by (subst d1) simp
    with that show ?thesis by (auto simp: destroyOtherSessions_def set_delete_where set_update_where)
  qed
  show ?thesis
  proof (rule no_promotionI [OF ok])
    fix s' assume "s' \<in> set (sessions (destroyOtherSessions C i keep d1))"
    from rows [OF this] show "row_kept d (destroyOtherSessions C i keep d1) s' \<or> \<not> has_session (s_id_hash s') d \<or> complete_session d (s_id_hash s')"
      using fac keep unfolding row_kept_def by metis
  qed
qed

lemma calm_regenerate: "regenerateRecoveryCodes C rnds i cd nowMs d = (r, d') \<Longrightarrow> calm_step d d'"
proof -
  assume "regenerateRecoveryCodes C rnds i cd nowMs d = (r, d')"
  from transaction_cases [OF this [unfolded regenerateRecoveryCodes_def]] show ?thesis
  proof
    assume "d' = d" then show ?thesis by (simp add: calm_step_refl)
  next
    assume "\<exists>x. r = Inr x \<and> (case adminById d i of None \<Rightarrow> (Inr None, d)
        | Some a \<Rightarrow> if \<not> truthy (a_totp_secret a) \<or> a_totp_enabled_at a = None then (Inr None, d)
          else case verifyTotp C (the (a_totp_secret a)) cd nowMs (a_totp_last_step a) of
             Inl e \<Rightarrow> (Inl e, d) | Inr None \<Rightarrow> (Inr None, d)
           | Inr (Some step) \<Rightarrow> some_codes (replaceRecoveryCodes C rnds i
               (update_admins (\<lambda>r. a_id r = i) (\<lambda>r. r\<lparr>a_totp_last_step := Some step\<rparr>) d))) = (Inr x, d')"
    then have "d' = d \<or> (\<exists>step cs. replaceRecoveryCodes C rnds i
        (update_admins (\<lambda>r. a_id r = i) (\<lambda>r. r\<lparr>a_totp_last_step := Some step\<rparr>) d) = (Inr cs, d'))"
      by (auto simp: some_codes_Inr split: option.splits if_splits sum.splits)
    then show ?thesis by (elim disjE exE) (simp add: calm_step_refl, erule calm_replace, intro calm_intros, simp_all)
  qed
qed

lemma calm_regenerate_confirmed: "regenerateRecoveryCodesConfirmed C rnds i d = (r, d') \<Longrightarrow> calm_step d d'"
proof -
  assume "regenerateRecoveryCodesConfirmed C rnds i d = (r, d')"
  from transaction_cases [OF this [unfolded regenerateRecoveryCodesConfirmed_def]]
  have "d' = d \<or> (\<exists>cs. replaceRecoveryCodes C rnds i d = (Inr cs, d'))"
    by (auto simp: some_codes_Inr split: option.splits if_splits)
  then show ?thesis by (elim disjE exE) (simp add: calm_step_refl, erule calm_replace, rule calm_step_refl)
qed

text \<open>What removes a factor: the accounts of others keep theirs.\<close>

lemma factor_other:
  assumes "\<And>a. a_id (f a) = a_id a" and "j \<noteq> i"
  shows "factor (update_admins (\<lambda>a. a_id a = i) f d) j = factor d j"
proof -
  have id: "a_id a = j" if "adminById d j = Some a" for a using adminById_id [OF that] by simp
  show ?thesis
    using assms id
    by (auto simp: factor_def adminById_def get_by_update_keep toAdmin_def passkey_count_def hasSecondFactor_def split: option.splits)
qed

lemma factor_passkeys_other:
  assumes "\<And>p. p \<in> set (passkeys d) \<Longrightarrow> P p \<Longrightarrow> p_admin_id p = i" and "j \<noteq> i"
  shows "factor (d\<lparr>passkeys := delete_where P (passkeys d)\<rparr>) j = factor d j"
proof -
  have "filter (\<lambda>p. p_admin_id p = j) (delete_where P (passkeys d)) = filter (\<lambda>p. p_admin_id p = j) (passkeys d)"
    using assms by (auto simp: delete_where_def filter_filter intro!: filter_cong)
  then have "passkey_count (d\<lparr>passkeys := delete_where P (passkeys d)\<rparr>) j = passkey_count d j" by (simp add: passkey_count_def)
  moreover have "a_id a = j" if "adminById d j = Some a" for a using adminById_id [OF that] by simp
  ultimately show ?thesis
    by (auto simp: factor_def adminById_def toAdmin_def hasSecondFactor_def split: option.splits)
qed

lemma endSessions_simps [simp]:
  "admins (endSessions C i keep d) = admins d" "passkeys (endSessions C i keep d) = passkeys d"
  by (simp_all add: endSessions_def)

lemma dropRecovery_simps [simp]:
  "admins (dropRecoveryCodesIfUnused i d) = admins d" "passkeys (dropRecoveryCodesIfUnused i d) = passkeys d"
  "sessions (dropRecoveryCodesIfUnused i d) = sessions d"
  by (simp_all add: dropRecoveryCodesIfUnused_def split: option.split)

lemma forceDisable_frame:
  "sessions (forceDisableTotp C i keep d) = delete_where (\<lambda>s. s_admin_id s = i \<and> (truthy keep \<longrightarrow> s_id_hash s \<noteq> sha256Hex C (the keep))) (sessions d)"
  "j \<noteq> i \<Longrightarrow> factor (forceDisableTotp C i keep d) j = factor d j"
proof -
  show "sessions (forceDisableTotp C i keep d) = delete_where (\<lambda>s. s_admin_id s = i \<and> (truthy keep \<longrightarrow> s_id_hash s \<noteq> sha256Hex C (the keep))) (sessions d)"
    by (simp add: forceDisableTotp_def endSessions_def)
  let ?f = "\<lambda>r. r\<lparr>a_totp_secret := None, a_totp_enabled_at := None, a_totp_last_step := None, a_totp_failed := 0, a_totp_locked_until := None\<rparr>"
  show "factor (forceDisableTotp C i keep d) j = factor d j" if "j \<noteq> i"
  proof -
    have "factor (forceDisableTotp C i keep d) = factor (update_admins (\<lambda>r. a_id r = i) ?f d)"
      by (rule factor_same) (simp_all add: forceDisableTotp_def)
    then show ?thesis using factor_other [of ?f j i d] that by simp
  qed
qed

lemma promote_disable:
  assumes ok: "db_ok d" and run: "disableTotp C nw i cd keep nowMs d = (r, d')" and keep: "complete_session d (sha256Hex C keep)"
  shows "no_promotion d d'"
proof -
  have "calm_step d d' \<or> (\<exists>d1. calm_step d d1 \<and> sessions d1 = sessions d \<and> factor d1 = factor d \<and> d' = forceDisableTotp C i (Some keep) d1)"
  proof -
    have calm: "calm_step d (snd (consumeRecoveryCode C nw i cd d))" by (rule calm_consume [OF calm_step_refl])
    have fr: "sessions (snd (consumeRecoveryCode C nw i cd d)) = sessions d" "factor (snd (consumeRecoveryCode C nw i cd d)) = factor d"
      by (subst consume_frame, simp) (rule factor_same; subst consume_frame, simp)
    from transaction_cases [OF run [unfolded disableTotp_def]] show ?thesis
    proof
      assume "d' = d" then show ?thesis by (simp add: calm_step_refl)
    next
      assume "\<exists>x. r = Inr x \<and> disableTotp_body C nw i cd keep nowMs d = (Inr x, d')"
      then obtain x where "disableTotp_body C nw i cd keep nowMs d = (Inr x, d')" by blast
      then have "d' = d \<or> d' = forceDisableTotp C i (Some keep) d \<or> d' = snd (consumeRecoveryCode C nw i cd d) \<or>
          d' = forceDisableTotp C i (Some keep) (snd (consumeRecoveryCode C nw i cd d))"
        by (auto simp: disableTotp_body_def split: option.splits if_splits sum.splits prod.splits bool.splits)
      with calm fr calm_step_refl show ?thesis by auto
    qed
  qed
  then show ?thesis
  proof
    assume "calm_step d d'" then show ?thesis by (rule calm_promotes_nothing [OF ok])
  next
    assume "\<exists>d1. calm_step d d1 \<and> sessions d1 = sessions d \<and> factor d1 = factor d \<and> d' = forceDisableTotp C i (Some keep) d1"
    then obtain d1 where d1: "sessions d1 = sessions d" "factor d1 = factor d" "d' = forceDisableTotp C i (Some keep) d1" by blast
    show ?thesis
    proof (cases "keep = []")
      case True
      show ?thesis
        by (rule promote_removed [OF ok, of d' i "[]"]) (use d1 True in \<open>auto simp: forceDisable_frame set_delete_where truthy_def\<close>)
    next
      case False
      show ?thesis
        by (rule promote_removed [OF ok, of d' i "sha256Hex C keep"])
          (use d1 False keep in \<open>auto simp: forceDisable_frame set_delete_where truthy_def\<close>)
    qed
  qed
qed

lemma promote_reset:
  assumes "db_ok d" shows "no_promotion d (resetSecondFactors C i d)"
proof (rule promote_removed [OF assms, of _ i "[]"])
  show "factor d j \<longrightarrow> factor (resetSecondFactors C i d) j" if "j \<noteq> i" for j
    using factor_passkeys_other [of d "\<lambda>p. p_admin_id p = i" i j] that
    by (simp add: resetSecondFactors_def forceDisable_frame)
qed (auto simp: resetSecondFactors_def forceDisable_frame set_delete_where truthy_def)

lemma promote_remove_passkey:
  assumes ok: "db_ok d" and run: "removePasskey C i pid keep d = (r, d')" and keep: "complete_session d (sha256Hex C keep)"
  shows "no_promotion d d'"
proof (cases "find (\<lambda>p. p_id p = pid \<and> p_admin_id p = i) (passkeys d)")
  case None
  with run show ?thesis using calm_promotes_nothing [OF ok calm_step_refl] by (simp add: removePasskey_def)
next
  case (Some p)
  have p: "p \<in> set (passkeys d)" "p_admin_id p = i" using find_SomeD [OF Some] by simp_all
  let ?d1 = "d\<lparr>passkeys := delete_where (\<lambda>q. p_id q = p_id p) (passkeys d)\<rparr>"
  have d': "d' = delete_sessions (\<lambda>s. s_admin_id s = i \<and> s_id_hash s \<noteq> sha256Hex C keep) (dropRecoveryCodesIfUnused i ?d1)"
    using run Some by (simp add: removePasskey_def Let_def)
  have own: "p_admin_id q = i" if "q \<in> set (passkeys d)" "p_id q = p_id p" for q
    using that p ok distinct_key_eq [of p_id "passkeys d" q p] by (simp add: db_ok_def ok_passkeys_def)
  have "factor d' = factor ?d1" unfolding d' by (rule factor_same) simp_all
  then have "factor d' j = factor d j" if "j \<noteq> i" for j
    using factor_passkeys_other [of d "\<lambda>q. p_id q = p_id p" i j] own that by simp
  then show ?thesis
    by (intro promote_removed [OF ok, of d' i "sha256Hex C keep"]) (use d' keep in \<open>auto simp: set_delete_where\<close>)
qed

lemma promote_register_passkey:
  assumes ok: "db_ok d" and run: "registerPasskey C nw rnd sid i name inp rp d = (Inr pk, d1)"
    and keep: "complete_session d (sha256Hex C sid)"
  shows "no_promotion d (destroyOtherSessions C i sid d1)"
proof -
  let ?h = "sha256Hex C sid"
  obtain challenge d0 where tk: "takeChallenge nw ?h PRegister d = (Inr challenge, d0)"
    using run by (auto simp: registerPasskey_def transaction_def split: prod.splits sum.splits)
  obtain reg d2 where ins: "insert_passkey (new_passkey nw rnd i name reg) d0 = Inr d2"
      and d1: "d1 = update_sessions (\<lambda>s. s_id_hash s = ?h) (\<lambda>s. s\<lparr>s_totp_verified := True\<rparr>) d2"
    using run tk by (auto simp: registerPasskey_def transaction_Inr Let_def split: sum.splits if_splits)
  have c: "calm_step d d2" using calm_after_insert_passkey [OF ins] takeChallenge_calm(1) [OF tk] by blast
  have fac: "factor (destroyOtherSessions C i sid d1) = factor d2"
    by (rule factor_same) (simp_all add: d1 destroyOtherSessions_def)
  show ?thesis
  proof (rule no_promotionI [OF ok])
    fix s' assume "s' \<in> set (sessions (destroyOtherSessions C i sid d1))"
    then have "s_id_hash s' = ?h \<or> s' \<in> set (sessions d2)"
      by (auto simp: destroyOtherSessions_def d1 set_delete_where set_update_where)
    then show "row_kept d (destroyOtherSessions C i sid d1) s' \<or> \<not> has_session (s_id_hash s') d \<or> complete_session d (s_id_hash s')"
      using c keep fac unfolding calm_step_def row_kept_def by metis
  qed
qed

lemma promote_delete_user:
  assumes ok: "db_ok d" shows "no_promotion d (delete_admins (\<lambda>a. a_id a = i) d)"
proof (rule promote_removed [OF ok, of _ i "[]"])
  show "set (sessions (delete_admins (\<lambda>a. a_id a = i) d)) \<subseteq> {s \<in> set (sessions d). s_admin_id s \<noteq> i \<or> (s_id_hash s = [] \<and> complete_session d [])}"
  proof
    fix s assume "s \<in> set (sessions (delete_admins (\<lambda>a. a_id a = i) d))"
    then have s: "s \<in> set (sessions d)" "s_admin_id s \<notin> a_id ` {a \<in> set (admins d). a_id a = i}"
      by (auto simp: delete_admins_def Let_def set_delete_where)
    have "has_admin (s_admin_id s) d" using ok s(1) by (simp add: db_ok_def ok_sessions_def)
    with s show "s \<in> {s \<in> set (sessions d). s_admin_id s \<noteq> i \<or> (s_id_hash s = [] \<and> complete_session d [])}"
      by (auto simp: has_admin_def)
  qed
  show "factor d j \<longrightarrow> factor (delete_admins (\<lambda>a. a_id a = i) d) j" if "j \<noteq> i" for j
  proof (rule factor_mono)
    show "\<exists>b. adminById (delete_admins (\<lambda>a. a_id a = i) d) j = Some b \<and> (a_totp_enabled_at a \<noteq> None \<longrightarrow> a_totp_enabled_at b \<noteq> None)"
      if "adminById d j = Some a" for a
      using that \<open>j \<noteq> i\<close> by (simp add: adminById_def get_by_delete_key)
    have "filter (\<lambda>p. p_admin_id p = j) (passkeys (delete_admins (\<lambda>a. a_id a = i) d)) = filter (\<lambda>p. p_admin_id p = j) (passkeys d)"
      using \<open>j \<noteq> i\<close> by (auto simp: delete_admins_def Let_def delete_where_def intro!: filter_cong)
    then show "passkey_count d j \<noteq> 0 \<longrightarrow> passkey_count (delete_admins (\<lambda>a. a_id a = i) d) j \<noteq> 0"
      by (simp add: passkey_count_def)
  qed
qed

section \<open>The step relation\<close>

text \<open>
  One constructor per request; \<open>keep\<close> is the session the request came with where the handler passes it
  on, and the premise that it is complete is the panel's middleware. The two logins draw a fresh session
  identifier; its hash differs from the one it replaces.
\<close>

inductive account_step :: "node_crypto \<Rightarrow> db \<Rightarrow> db \<Rightarrow> bool" for C :: node_crypto where
  login: "createSession C nw rnd adm ttl meta d = (Inr x, d') \<Longrightarrow> account_step C d d'"
| second_factor: "verifySessionTotp C nw rnd sid cd ttl nowMs d = (r, d') \<Longrightarrow>
    sha256Hex C (newSessionId (sd_id rnd)) \<noteq> sha256Hex C sid \<Longrightarrow> account_step C d d'"
| passkey_login: "verifyPasskeyLogin C nw rnd sid adm ttl cid inp rp d = (r, d') \<Longrightarrow>
    sha256Hex C (newSessionId (sd_id rnd)) \<noteq> sha256Hex C sid \<Longrightarrow> account_step C d d'"
| confirm_code: "verifyConfirmCode C nw i cd nowMs d = (r, d') \<Longrightarrow> account_step C d d'"
| confirm_passkey: "verifyPasskeyConfirm C nw sid i cid inp rp d = (r, d') \<Longrightarrow> account_step C d d'"
| confirmed: "markConfirmed C nw sid ms d = (r, d') \<Longrightarrow> account_step C d d'"
| ceremony: "beginCeremony C nw rnd sid p d = (r, d') \<Longrightarrow> account_step C d d'"
| enrol_begin: "beginTotpEnrolment rnd i d = (r, d') \<Longrightarrow> account_step C d d'"
| enrol: "confirmTotpEnrolment C nw rnds i cd nowMs d = (Inr (Some codes), d1) \<Longrightarrow> complete_session d (sha256Hex C keep) \<Longrightarrow>
    account_step C d (destroyOtherSessions C i keep d1)"
| add_passkey: "registerPasskey C nw rnd sid i name inp rp d = (Inr pk, d1) \<Longrightarrow> complete_session d (sha256Hex C sid) \<Longrightarrow>
    account_step C d (destroyOtherSessions C i sid d1)"
| drop_passkey: "removePasskey C i pid keep d = (r, d') \<Longrightarrow> complete_session d (sha256Hex C keep) \<Longrightarrow> account_step C d d'"
| disable: "disableTotp C nw i cd keep nowMs d = (r, d') \<Longrightarrow> complete_session d (sha256Hex C keep) \<Longrightarrow> account_step C d d'"
| regenerate: "regenerateRecoveryCodes C rnds i cd nowMs d = (r, d') \<Longrightarrow> account_step C d d'"
| regenerate_confirmed: "regenerateRecoveryCodesConfirmed C rnds i d = (r, d') \<Longrightarrow> account_step C d d'"
| reset_factors: "account_step C d (resetSecondFactors C i d)"
| set_role: "setUserRole actor i role d = (r, d') \<Longrightarrow> account_step C d d'"
| set_disabled: "setUserDisabled nw actor i b d = (r, d') \<Longrightarrow> account_step C d d'"
| delete_user: "deleteUser actor i d = (r, d') \<Longrightarrow> account_step C d d'"
| set_password: "setAdminPassword C salt u pw d = (r, d') \<Longrightarrow> account_step C d d'"
| change_password: "changeAdminPassword C salt i old new d = (r, d') \<Longrightarrow> account_step C d d'"
| look: "getSession C nw sid d = (r, d') \<Longrightarrow> account_step C d d'"
| logout: "account_step C d (destroySession C sid d)"
| logout_others: "account_step C d (destroyOtherSessions C i keep d)"
| revoke: "revokeSession i pub d = (r, d') \<Longrightarrow> account_step C d d'"
| purge: "purgeExpiredSessions nw d = (n, d') \<Longrightarrow> account_step C d d'"
| offer: "offerBinding C nw rnd sid d = (c, d') \<Longrightarrow> account_step C d d'"
| bind: "registerBinding C nw brnd sid jwt d = (ic, d') \<Longrightarrow> account_step C d d'"
| refresh: "refreshBinding C nw brnd bid jwt' d = (rr, d') \<Longrightarrow> account_step C d d'"

lemma calm_bind: "registerBinding C nw brnd sid jwt d = (ic, d') \<Longrightarrow> calm_step d d'"
proof -
  assume run: "registerBinding C nw brnd sid jwt d = (ic, d')"
  have "d' = d \<or> (\<exists>(b :: binding_row) d1. insert_binding b d = Inr d1 \<and>
      d' = update_sessions (\<lambda>r. s_id_hash r = sha256Hex C sid) (\<lambda>r. r\<lparr>s_dbsc_challenge := None\<rparr>) d1)"
    using run by (auto simp: registerBinding_def Let_def transaction_def split: sum.splits option.splits if_splits)
  then show ?thesis
  proof (elim disjE exE conjE)
    fix b :: binding_row and d1
    assume ins: "insert_binding b d = Inr d1"
      and d': "d' = update_sessions (\<lambda>r. s_id_hash r = sha256Hex C sid) (\<lambda>r. r\<lparr>s_dbsc_challenge := None\<rparr>) d1"
    have "calm_step d d1" using insert_binding_Inr [OF ins] by (intro calm_same_accounts) auto
    then show ?thesis unfolding d' by (intro calm_intros) (simp_all add: calm_def)
  qed (simp add: calm_step_refl)
qed

lemma calm_refresh: "refreshBinding C nw brnd bid jwt d = (r, d') \<Longrightarrow> calm_step d d'"
  by (auto simp: refreshBinding_def fresh_def Let_def intro!: calm_intros split: option.splits if_splits sum.splits)

lemma calm_requests:
  "markConfirmed C nw sid ms d = (t, d') \<Longrightarrow> calm_step d d'"
  "beginCeremony C nw rnd sid p d = (c, d') \<Longrightarrow> calm_step d d'"
  "beginTotpEnrolment rnd i d = (sec, d') \<Longrightarrow> calm_step d d'"
  "setUserRole actor i role d = (us, d') \<Longrightarrow> calm_step d d'"
  "setUserDisabled nw actor i b d = (us, d') \<Longrightarrow> calm_step d d'"
  "setAdminPassword C salt u pw d = (ok, d') \<Longrightarrow> calm_step d d'"
  "changeAdminPassword C salt i old new d = (ok, d') \<Longrightarrow> calm_step d d'"
  "getSession C nw sid d = (sv, d') \<Longrightarrow> calm_step d d'"
  "revokeSession i pub d = (gone, d') \<Longrightarrow> calm_step d d'"
  "purgeExpiredSessions nw d = (n, d') \<Longrightarrow> calm_step d d'"
  "offerBinding C nw rnd sid d = (off, d') \<Longrightarrow> calm_step d d'"
  "calm_step d (destroySession C sid d)" "calm_step d (destroyOtherSessions C i keep d)"
  subgoal by (auto simp: markConfirmed_def Let_def calm_def intro!: calm_intros)
  subgoal by (auto simp: beginCeremony_def Let_def calm_def intro!: calm_intros)
  subgoal by (auto simp: beginTotpEnrolment_def Let_def intro!: calm_intros split: option.splits if_splits)
  subgoal by (auto simp: setUserRole_def transaction_def intro!: calm_intros split: sum.splits if_splits)
  subgoal by (auto simp: setUserDisabled_def transaction_def Let_def intro!: calm_intros split: sum.splits if_splits)
  subgoal by (auto simp: setAdminPassword_def Let_def intro!: calm_intros split: sum.splits if_splits)
  subgoal by (auto simp: changeAdminPassword_def intro!: calm_intros split: sum.splits option.splits if_splits bool.splits)
  subgoal by (auto simp: getSession_def Let_def calm_def intro!: calm_intros split: option.splits if_splits)
  subgoal by (auto simp: revokeSession_def Let_def intro!: calm_intros)
  subgoal by (auto simp: purgeExpiredSessions_def intro!: calm_intros)
  subgoal by (auto simp: offerBinding_def Let_def calm_def intro!: calm_intros split: option.splits if_splits)
  subgoal by (auto simp: destroySession_def intro!: calm_intros)
  subgoal by (auto simp: destroyOtherSessions_def intro!: calm_intros)
  done

lemma promote_deleteUser: "db_ok d \<Longrightarrow> deleteUser actor i d = (r, d') \<Longrightarrow> no_promotion d d'"
  using promote_delete_user [of d i] calm_promotes_nothing [OF _ calm_step_refl, of d]
  by (auto simp: deleteUser_def transaction_def split: sum.splits if_splits)

lemma promote_createSession:
  assumes ok: "db_ok d" and run: "createSession C nw rnd adm ttl meta d = (Inr x, d')"
  shows "no_promotion d d'"
proof -
  obtain sid csrf where x: "x = (sid, csrf)" by (cases x)
  obtain row where "s_id_hash row = sha256Hex C sid" "\<not> has_session (sha256Hex C sid) d" "d' = d\<lparr>sessions := sessions d @ [row]\<rparr>"
    using createSession_Inr [OF run [unfolded x]] by blast
  then have rows: "set (sessions d') \<subseteq> insert row (set (sessions d))" "\<not> has_session (s_id_hash row) d" and "factor d' = factor d"
    by (auto intro: factor_same)
  then show ?thesis using promote_new [OF ok calm_step_refl rows] by simp
qed

lemma promote_confirm_passkey: "db_ok d \<Longrightarrow> verifyPasskeyConfirm C nw sid i cid inp rp d = (r, d') \<Longrightarrow> no_promotion d d'"
  using checkAssertion_calm calm_promotes_nothing unfolding verifyPasskeyConfirm_def by blast

lemma step_promotes_nothing:
  assumes "account_step C d d'" and ok: "db_ok d" shows "no_promotion d d'"
  using assms(1)
proof cases
  case enrol
  with promote_enrolment [OF ok] show ?thesis by blast
next
  case add_passkey
  with promote_register_passkey [OF ok] show ?thesis by blast
qed (blast intro: promote_createSession [OF ok] promote_login_totp [OF ok] promote_login_passkey [OF ok]
      promote_remove_passkey [OF ok] promote_disable [OF ok] promote_reset [OF ok] promote_deleteUser [OF ok]
      calm_promotes_nothing [OF ok] calm_confirm_code calm_regenerate calm_regenerate_confirmed calm_bind calm_refresh calm_requests promote_confirm_passkey [OF ok])+

section \<open>Every request keeps the schema's invariant\<close>

lemmas ok_updates = db_ok_update_admins db_ok_update_sessions db_ok_update_passkeys db_ok_update_bindings db_ok_update_recovery

lemmas ok_deletes = db_ok_delete_sessions db_ok_delete_recovery db_ok_delete_passkeys db_ok_delete_admins

lemma ok_createSession: "db_ok d \<Longrightarrow> createSession C nw rnd adm ttl meta d = (r, d') \<Longrightarrow> db_ok d'"
  by (auto simp: createSession_def Let_def split: sum.splits intro: db_ok_insert_session)

lemma ok_completeSecondFactor: "db_ok d \<Longrightarrow> completeSecondFactor C nw rnd pend adm ttl f d = (r, d') \<Longrightarrow> db_ok d'"
proof -
  assume ok: "db_ok d" and run: "completeSecondFactor C nw rnd pend adm ttl f d = (r, d')"
  let ?d2 = "delete_sessions (\<lambda>s. s_id_hash s = pend) (update_admins (\<lambda>a. a_id a = ad_id adm) (\<lambda>a. a\<lparr>a_totp_failed := 0, a_totp_locked_until := None\<rparr>) d)"
  have "db_ok ?d2" using ok by (simp add: db_ok_delete_sessions ok_updates)
  with run show ?thesis
    by (auto simp: completeSecondFactor_def Let_def ok_updates split: prod.splits sum.splits dest!: ok_createSession [rotated])
qed

lemma ok_failure: "db_ok d \<Longrightarrow> recordTotpFailure a nowMs d = (r, d') \<Longrightarrow> db_ok d'"
  by (auto simp: recordTotpFailure_def Let_def ok_updates db_ok_delete_sessions split: if_splits)

lemma ok_consume: "db_ok d \<Longrightarrow> consumeRecoveryCode C nw i cd d = (r, d') \<Longrightarrow> db_ok d'"
  by (auto simp: consumeRecoveryCode_def Let_def ok_updates split: if_splits)

lemma ok_session_factor: "db_ok d \<Longrightarrow> session_factor C nw a cd nowMs d = (r, d') \<Longrightarrow> db_ok d'"
  by (auto simp: session_factor_def ok_updates split: sum.splits option.splits prod.splits bool.splits dest!: ok_consume [rotated])

lemma ok_takeChallenge: "db_ok d \<Longrightarrow> takeChallenge nw h p d = (r, d') \<Longrightarrow> db_ok d'"
  by (auto simp: takeChallenge_def Let_def ok_updates clear_challenge_def split: option.splits if_splits)

lemma ok_checkAssertion: "db_ok d \<Longrightarrow> checkAssertion C nw h i p cid inp rp d = (r, d') \<Longrightarrow> db_ok d'"
  by (auto simp: checkAssertion_def ok_updates split: prod.splits sum.splits option.splits dest!: ok_takeChallenge [rotated])

lemma ok_transaction: "db_ok d \<Longrightarrow> transaction body d = (r, d') \<Longrightarrow> (\<And>r d'. db_ok d \<Longrightarrow> body d = (r, d') \<Longrightarrow> db_ok d') \<Longrightarrow> db_ok d'"
  using transaction_cases by blast

lemma ok_second_factor: "db_ok d \<Longrightarrow> verifySessionTotp C nw rnd sid cd ttl nowMs d = (r, d') \<Longrightarrow> db_ok d'"
  unfolding verifySessionTotp_def
proof (erule ok_transaction, assumption)
  fix r d' assume "db_ok d" "verifySessionTotp_body C nw rnd (sha256Hex C sid) cd ttl nowMs d = (r, d')"
  then show "db_ok d'"
    by (auto simp: verifySessionTotp_body_def Let_def ok_updates split: option.splits if_splits prod.splits sum.splits
        dest!: ok_session_factor [rotated] ok_completeSecondFactor [rotated] ok_failure [rotated] intro: ok_deletes)
qed

lemma ok_passkey_login: "db_ok d \<Longrightarrow> verifyPasskeyLogin C nw rnd sid adm ttl cid inp rp d = (r, d') \<Longrightarrow> db_ok d'"
  by (auto simp: verifyPasskeyLogin_def Let_def transaction_def split: prod.splits sum.splits
      dest!: ok_checkAssertion [rotated] ok_completeSecondFactor [rotated])

lemma ok_confirm_code: "db_ok d \<Longrightarrow> verifyConfirmCode C nw i cd nowMs d = (r, d') \<Longrightarrow> db_ok d'"
  unfolding verifyConfirmCode_def
  by (erule ok_transaction, assumption)
    (auto simp: verifyConfirmCode_body_def ok_updates split: option.splits if_splits prod.splits sum.splits bool.splits
      dest!: ok_consume [rotated] ok_failure [rotated])

lemma ok_insert_codes: "db_ok d \<Longrightarrow> insert_codes C i cs d = Inr d' \<Longrightarrow> db_ok d'"
proof (induction cs arbitrary: d)
  case (Cons c cs)
  then show ?case by (auto split: sum.splits dest!: db_ok_insert_recovery [rotated])
qed simp

lemma ok_replace: "db_ok d \<Longrightarrow> replaceRecoveryCodes C rnds i d = (r, d') \<Longrightarrow> db_ok d'"
  by (auto simp: replaceRecoveryCodes_def Let_def split: sum.splits intro: ok_insert_codes ok_deletes)

lemma ok_some_codes: "some_codes p = (r, d') \<Longrightarrow> \<exists>x. p = (x, d')"
  by (auto simp: some_codes_def split: prod.splits sum.splits)

lemma ok_enrol: "db_ok d \<Longrightarrow> confirmTotpEnrolment C nw rnds i cd nowMs d = (r, d') \<Longrightarrow> db_ok d'"
  unfolding confirmTotpEnrolment_def
  by (erule ok_transaction, assumption)
    (auto simp: confirmTotpEnrolment_body_def Let_def ok_updates split: option.splits if_splits sum.splits
      dest!: ok_some_codes intro: ok_replace [rotated])

lemma ok_regenerate: "db_ok d \<Longrightarrow> regenerateRecoveryCodes C rnds i cd nowMs d = (r, d') \<Longrightarrow> db_ok d'"
  unfolding regenerateRecoveryCodes_def
  by (erule ok_transaction, assumption)
    (auto simp: ok_updates split: option.splits if_splits sum.splits dest!: ok_some_codes intro: ok_replace [rotated])

lemma ok_regenerate_confirmed: "db_ok d \<Longrightarrow> regenerateRecoveryCodesConfirmed C rnds i d = (r, d') \<Longrightarrow> db_ok d'"
  unfolding regenerateRecoveryCodesConfirmed_def
  by (erule ok_transaction, assumption)
    (auto split: option.splits if_splits dest!: ok_some_codes intro: ok_replace)

lemma ok_drop: "db_ok d \<Longrightarrow> db_ok (dropRecoveryCodesIfUnused i d)"
  by (simp add: dropRecoveryCodesIfUnused_def ok_deletes split: option.split)

lemma ok_force: "db_ok d \<Longrightarrow> db_ok (forceDisableTotp C i keep d)"
  by (simp add: forceDisableTotp_def endSessions_def ok_deletes ok_drop ok_updates)

lemma ok_disable: "db_ok d \<Longrightarrow> disableTotp C nw i cd keep nowMs d = (r, d') \<Longrightarrow> db_ok d'"
  unfolding disableTotp_def
  by (erule ok_transaction, assumption)
    (auto simp: disableTotp_body_def ok_force split: option.splits if_splits sum.splits prod.splits bool.splits dest!: ok_consume [rotated])

lemma ok_register: "db_ok d \<Longrightarrow> registerPasskey C nw rnd sid i name inp rp d = (r, d') \<Longrightarrow> db_ok d'"
  unfolding registerPasskey_def
  by (erule ok_transaction, assumption)
    (auto simp: Let_def ok_updates split: prod.splits sum.splits if_splits dest!: ok_takeChallenge [rotated] intro: db_ok_insert_passkey)

lemma ok_remove_passkey: "db_ok d \<Longrightarrow> removePasskey C i pid keep d = (r, d') \<Longrightarrow> db_ok d'"
  by (auto simp: removePasskey_def Let_def ok_deletes ok_drop split: option.splits)

lemma ok_bind: "db_ok d \<Longrightarrow> registerBinding C nw brnd sid jwt d = (r, d') \<Longrightarrow> db_ok d'"
  by (auto simp: registerBinding_def Let_def transaction_def ok_updates split: sum.splits option.splits if_splits
      intro: db_ok_insert_binding)

lemma ok_refresh: "db_ok d \<Longrightarrow> refreshBinding C nw brnd bid jwt d = (r, d') \<Longrightarrow> db_ok d'"
  by (auto simp: refreshBinding_def fresh_def rotate_cookie_def Let_def ok_updates split: option.splits if_splits sum.splits)

lemma ok_requests:
  assumes "db_ok d"
  shows "markConfirmed C nw sid ms d = (t, d') \<Longrightarrow> db_ok d'"
    and "beginCeremony C nw rnd sid p d = (c, d') \<Longrightarrow> db_ok d'"
    and "beginTotpEnrolment rnd i d = (sec, d') \<Longrightarrow> db_ok d'"
    and "setUserRole actor i role d = (us, d') \<Longrightarrow> db_ok d'"
    and "setUserDisabled nw actor i b d = (us, d') \<Longrightarrow> db_ok d'"
    and "deleteUser actor i d = (us, d') \<Longrightarrow> db_ok d'"
    and "setAdminPassword C salt u pw d = (ok, d') \<Longrightarrow> db_ok d'"
    and "changeAdminPassword C salt i old new d = (ok, d') \<Longrightarrow> db_ok d'"
    and "getSession C nw sid d = (sv, d') \<Longrightarrow> db_ok d'"
    and "revokeSession i pub d = (gone, d') \<Longrightarrow> db_ok d'"
    and "purgeExpiredSessions nw d = (n, d') \<Longrightarrow> db_ok d'"
    and "offerBinding C nw rnd sid d = (off, d') \<Longrightarrow> db_ok d'"
    and "verifyPasskeyConfirm C nw sid i cid inp rp d = (conf, d') \<Longrightarrow> db_ok d'"
    and "db_ok (destroySession C sid d)" "db_ok (destroyOtherSessions C i keep d)" "db_ok (resetSecondFactors C i d)"
  subgoal using assms by (auto simp: markConfirmed_def Let_def ok_updates)
  subgoal using assms by (auto simp: beginCeremony_def Let_def ok_updates)
  subgoal using assms by (auto simp: beginTotpEnrolment_def Let_def ok_updates split: option.splits if_splits)
  subgoal using assms by (auto simp: setUserRole_def transaction_def ok_updates split: sum.splits if_splits)
  subgoal using assms by (auto simp: setUserDisabled_def transaction_def Let_def ok_updates ok_deletes split: sum.splits if_splits)
  subgoal using assms by (auto simp: deleteUser_def transaction_def ok_deletes split: sum.splits if_splits)
  subgoal using assms by (auto simp: setAdminPassword_def Let_def ok_updates ok_deletes split: sum.splits if_splits)
  subgoal using assms by (auto simp: changeAdminPassword_def ok_updates split: sum.splits option.splits if_splits bool.splits)
  subgoal using assms by (auto simp: getSession_def Let_def ok_updates ok_deletes split: option.splits if_splits)
  subgoal using assms by (auto simp: revokeSession_def Let_def ok_deletes)
  subgoal using assms by (auto simp: purgeExpiredSessions_def ok_deletes)
  subgoal using assms by (auto simp: offerBinding_def Let_def ok_updates split: option.splits if_splits)
  subgoal using assms ok_checkAssertion unfolding verifyPasskeyConfirm_def by blast
  subgoal using assms by (simp add: destroySession_def ok_deletes)
  subgoal using assms by (simp add: destroyOtherSessions_def ok_deletes)
  subgoal using assms by (simp add: resetSecondFactors_def ok_force ok_deletes)
  done

lemma account_step_ok:
  assumes "account_step C d d'" and ok: "db_ok d" shows "db_ok d'"
  using assms(1)
proof cases
  case enrol
  with ok_enrol [OF ok] ok_requests(15) show ?thesis by blast
next
  case add_passkey
  with ok_register [OF ok] ok_requests(15) show ?thesis by blast
qed (blast intro: ok_createSession [OF ok] ok_second_factor [OF ok] ok_passkey_login [OF ok] ok_confirm_code [OF ok]
    ok_remove_passkey [OF ok] ok_disable [OF ok] ok_regenerate [OF ok] ok_regenerate_confirmed [OF ok] ok_bind [OF ok]
    ok_refresh [OF ok] ok_requests [OF ok])+

text \<open>No run of requests leaves the accounts and sessions in a state the schema forbids: keys stay unique, and no
  session, recovery code, passkey or binding outlives what it belongs to.\<close>

lemma account_step_keeps_schema:
  assumes "(account_step C)\<^sup>*\<^sup>* d d'" and "db_ok d" shows "db_ok d'"
  using assms by (induction rule: rtranclp_induct) (auto intro: account_step_ok)

section \<open>A pending session stays pending\<close>

text \<open>A run of requests during which a session is never ended.\<close>

inductive account_run :: "node_crypto \<Rightarrow> string \<Rightarrow> db \<Rightarrow> db \<Rightarrow> bool" for C :: node_crypto and h :: string and d :: db where
  start: "account_run C h d d"
| more_steps: "account_run C h d d1 \<Longrightarrow> account_step C d1 d2 \<Longrightarrow> has_session h d2 \<Longrightarrow> account_run C h d d2"

text \<open>C5: a session that waits for its second factor never becomes a complete one: in every run of logins, codes, passkeys,
  enrolments, removals, resets and account changes that does not end the session, it stays pending. The
  only way on is the login that replaces it by a new session.\<close>

theorem pending_never_promoted:
  assumes "account_run C h d d'" and "db_ok d" and "has_session h d" and "\<not> complete_session d h"
  shows "\<not> complete_session d' h"
proof -
  have "db_ok d' \<and> has_session h d' \<and> \<not> complete_session d' h"
    using assms
  proof (induction rule: account_run.induct)
    case (more_steps d1 d2)
    then have d1: "db_ok d1" "has_session h d1" "\<not> complete_session d1 h" by simp_all
    have "no_promotion d1 d2" by (rule step_promotes_nothing [OF more_steps.hyps(2) d1(1)])
    with d1 more_steps.hyps(3) account_step_ok [OF more_steps.hyps(2) d1(1)] show ?case
      unfolding no_promotion_def by blast
  qed simp
  then show ?thesis by simp
qed

section \<open>Examples\<close>

lemma demo_2fa_ok: "db_ok demo_2fa"
  by (simp add: db_ok_def ok_defs has_defs demo_2fa_def empty_db_def demo_totp_admin_def demo_admin_def demo_session_def)
    code_simp

definition demo_wrong :: db where
  "demo_wrong = snd (verifySessionTotp demo_crypto 60000 demo_draws ''sx'' ''12'' 1000 60000 demo_2fa)"

lemma demo_wrong_step: "account_step demo_crypto demo_2fa demo_wrong"
proof (rule account_step.second_factor)
  show "verifySessionTotp demo_crypto 60000 demo_draws ''sx'' ''12'' 1000 60000 demo_2fa =
      (fst (verifySessionTotp demo_crypto 60000 demo_draws ''sx'' ''12'' 1000 60000 demo_2fa), demo_wrong)"
    by (simp add: demo_wrong_def)
  show "sha256Hex demo_crypto (newSessionId (sd_id demo_draws)) \<noteq> sha256Hex demo_crypto ''sx''" by code_simp
qed

lemma account_step_keeps_schema_witness: "db_ok demo_wrong"
  by (rule account_step_keeps_schema [OF r_into_rtranclp [of "account_step demo_crypto", OF demo_wrong_step] demo_2fa_ok])

theorem pending_never_promoted_witness:
  "has_session (sha256Hex demo_crypto ''sx'') demo_wrong \<and> \<not> complete_session demo_wrong (sha256Hex demo_crypto ''sx'')"
proof -
  have "has_session (sha256Hex demo_crypto ''sx'') demo_2fa" "has_session (sha256Hex demo_crypto ''sx'') demo_wrong"
    "\<not> complete_session demo_2fa (sha256Hex demo_crypto ''sx'')" by code_simp+
  with account_run.more_steps [OF account_run.start demo_wrong_step] show ?thesis
    using pending_never_promoted [OF _ demo_2fa_ok] by blast
qed

end
