(* ===== verification/Storage.thy ===== *)
theory Storage
  imports Paths Crypto
begin

text \<open>
  src/storage: the contract of a storage backend, the limiter every upload passes, and the backend
  that keeps objects as files of one directory (local.ts). The directory is the list of its entries;
  \<open>nw\<close> is the clock, and a stream is the chunks it delivers and the error it ends with, if any.
\<close>

section \<open>types.ts\<close>

definition KEY_RE :: "string \<Rightarrow> bool" where
  "KEY_RE s \<longleftrightarrow> 1 \<le> length s \<and> length s \<le> 128 \<and> list_all is_url_char s"

definition assertValidKey :: "string \<Rightarrow> unit result" where
  "assertValidKey key = (if KEY_RE key then Inr () else Inl (JsError ''invalid storage key''))"

record put_result =
  pr_size :: int
  pr_sha256 :: string

record source =
  src_chunks :: "byte list list"
  src_error :: "exn option"

text \<open>
  The operations of \<open>StorageBackend\<close> the program calls, on the state \<open>'s\<close> of what they store in;
  \<open>None\<close> of the sweep is not returning.
\<close>

record 's backend =
  bk_put :: "time \<Rightarrow> string \<Rightarrow> source \<Rightarrow> int \<Rightarrow> 's \<Rightarrow> put_result result \<times> 's"
  bk_get :: "string \<Rightarrow> 's \<Rightarrow> byte list result"
  bk_stat :: "string \<Rightarrow> 's \<Rightarrow> int option result"
  bk_delete :: "string \<Rightarrow> 's \<Rightarrow> unit result \<times> 's"
  bk_removeTusSidecar :: "string \<Rightarrow> 's \<Rightarrow> unit result \<times> 's"
  bk_cleanupOrphans :: "time \<Rightarrow> time \<Rightarrow> (string \<Rightarrow> bool) \<Rightarrow> 's \<Rightarrow> (nat result \<times> 's) option"

section \<open>limit.ts\<close>

record limiter =
  lim_size :: int
  lim_hashed :: "byte list"

definition new_limiter :: limiter where
  "new_limiter = \<lparr>lim_size = 0, lim_hashed = []\<rparr>"

definition limit_transform :: "int \<Rightarrow> byte list \<Rightarrow> limiter \<Rightarrow> byte list result \<times> limiter" where
  "limit_transform maxBytes chunk l =
     (let l1 = l\<lparr>lim_size := lim_size l + int (length chunk)\<rparr>
      in if maxBytes < lim_size l1 then (Inl (StorageLimitError maxBytes), l1)
         else (Inr chunk, l1\<lparr>lim_hashed := lim_hashed l1 @ chunk\<rparr>))"

definition digestHex :: "node_crypto \<Rightarrow> limiter \<Rightarrow> string" where
  "digestHex C l = hex (nc_sha256 C (lim_hashed l))"

text \<open>The source piped through the limiter: what came out, and how it ended.\<close>

fun pipe_limited :: "int \<Rightarrow> byte list list \<Rightarrow> exn option \<Rightarrow> limiter \<Rightarrow> byte list \<Rightarrow> exn option \<times> limiter \<times> byte list" where
  "pipe_limited maxBytes [] failure l out = (failure, l, out)"
| "pipe_limited maxBytes (c # cs) failure l out =
     (case limit_transform maxBytes c l of
        (Inl e, l') \<Rightarrow> (Some e, l', out)
      | (Inr data, l') \<Rightarrow> pipe_limited maxBytes cs failure l' (out @ data))"

lemma pipe_limited_ok:
  "pipe_limited mx cs failure l out = (None, l', out') \<longleftrightarrow>
   failure = None \<and> (\<forall>n \<le> length cs. n \<noteq> 0 \<longrightarrow> lim_size l + int (length (concat (take n cs))) \<le> mx) \<and>
   l' = \<lparr>lim_size = lim_size l + int (length (concat cs)), lim_hashed = lim_hashed l @ concat cs\<rparr> \<and> out' = out @ concat cs"
proof (induction cs arbitrary: l out)
  case Nil
  then show ?case by auto
next
  case (Cons c cs)
  have n: "(\<forall>n \<le> length (c # cs). n \<noteq> 0 \<longrightarrow> P n) \<longleftrightarrow> P 1 \<and> (\<forall>n \<le> length cs. n \<noteq> 0 \<longrightarrow> P (Suc n))" for P
    by (auto simp: Suc_le_eq gr0_conv_Suc) (metis Suc_le_mono not0_implies_Suc One_nat_def)
  show ?case
    unfolding n
    by (auto simp: limit_transform_def Let_def Cons.IH add.assoc)
qed

lemma pipe_limited_total:
  assumes "failure = None" "0 \<le> lim_size l" "lim_size l + int (length (concat cs)) \<le> mx"
  shows "fst (pipe_limited mx cs failure l out) = None"
  using assms
proof (induction cs arbitrary: l out)
  case (Cons c cs)
  then show ?case by (simp add: limit_transform_def Let_def)
qed simp

section \<open>local.ts\<close>

record fs_entry =
  fe_name :: string
  fe_is_file :: bool
  fe_data :: "byte list"
  fe_mtime :: time

type_synonym fs = "fs_entry list"

definition local_resolve :: "string \<Rightarrow> string \<Rightarrow> string \<Rightarrow> string result" where
  "local_resolve cwd directory key =
     and_then (assertValidKey key) (\<lambda>_.
       let full = path_join directory key
       in if path_dirname full \<noteq> path_resolve cwd directory then Inl (JsError ''invalid storage key'') else Inr full)"

text \<open>\<open>fsp.rm\<close> with \<open>force\<close>: a missing file is fine, a directory is not removed.\<close>

definition fs_rm :: "string \<Rightarrow> fs \<Rightarrow> unit result \<times> fs" where
  "fs_rm name d =
     (case get_by fe_name name d of
        None \<Rightarrow> (Inr (), d)
      | Some e \<Rightarrow> if fe_is_file e then (Inr (), delete_where (\<lambda>e. fe_name e = name) d) else (Inl (JsError ''EISDIR''), d))"

text \<open>Flag \<open>wx\<close> refuses an existing name; the failed pipeline then removes the path it was given.\<close>

definition local_put ::
  "node_crypto \<Rightarrow> string \<Rightarrow> string \<Rightarrow> time \<Rightarrow> string \<Rightarrow> source \<Rightarrow> int \<Rightarrow> fs \<Rightarrow> put_result result \<times> fs" where
  "local_put C cwd directory nw key src maxBytes d =
     (case local_resolve cwd directory key of
        Inl e \<Rightarrow> (Inl e, d)
      | Inr full \<Rightarrow>
        (let opened = get_by fe_name key d = None;
             run = pipe_limited maxBytes (src_chunks src) (src_error src) new_limiter [];
             err = (if opened then fst run else Some (JsError ''EEXIST''));
             d1 = (if opened then d @ [\<lparr>fe_name = key, fe_is_file = True, fe_data = snd (snd run), fe_mtime = nw\<rparr>] else d)
         in case err of
              Some e \<Rightarrow> (case fs_rm key d1 of (Inl e', d2) \<Rightarrow> (Inl e', d2) | (Inr _, d2) \<Rightarrow> (Inl e, d2))
            | None \<Rightarrow>
              let l = fst (snd run) in (Inr \<lparr>pr_size = lim_size l, pr_sha256 = digestHex C l\<rparr>, d1)))"

definition local_get :: "string \<Rightarrow> string \<Rightarrow> string \<Rightarrow> fs \<Rightarrow> byte list result" where
  "local_get cwd directory key d =
     and_then (local_resolve cwd directory key) (\<lambda>_.
       case get_by fe_name key d of
         None \<Rightarrow> Inl (StorageNotFoundError key)
       | Some e \<Rightarrow> if fe_is_file e then Inr (fe_data e) else Inl (JsError ''EISDIR''))"

definition local_stat :: "string \<Rightarrow> string \<Rightarrow> string \<Rightarrow> fs \<Rightarrow> int option result" where
  "local_stat cwd directory key d =
     and_then (local_resolve cwd directory key) (\<lambda>_.
       Inr (case get_by fe_name key d of
              None \<Rightarrow> None
            | Some e \<Rightarrow> if fe_is_file e then Some (int (length (fe_data e))) else None))"

definition local_removeTusSidecar :: "string \<Rightarrow> string \<Rightarrow> string \<Rightarrow> fs \<Rightarrow> unit result \<times> fs" where
  "local_removeTusSidecar cwd directory key d =
     (case local_resolve cwd directory key of
        Inl e \<Rightarrow> (Inl e, d)
      | Inr _ \<Rightarrow> fs_rm (key @ ''.json'') d)"

definition local_delete :: "string \<Rightarrow> string \<Rightarrow> string \<Rightarrow> fs \<Rightarrow> unit result \<times> fs" where
  "local_delete cwd directory key d =
     (case local_resolve cwd directory key of
        Inl e \<Rightarrow> (Inl e, d)
      | Inr _ \<Rightarrow>
        (case fs_rm key d of
           (Inl e, d1) \<Rightarrow> (Inl e, d1)
         | (Inr _, d1) \<Rightarrow> fs_rm (key @ ''.json'') d1))"

text \<open>Names this program creates, \<open>f_\<close> and sixteen characters, with the tus sidecar's suffix.\<close>

definition file_id_name :: "string \<Rightarrow> bool" where
  "file_id_name s \<longleftrightarrow> starts_with ''f_'' s \<and> length s = 18 \<and> list_all is_url_char (drop 2 s)"

definition own_artefact :: "string \<Rightarrow> bool" where
  "own_artefact s \<longleftrightarrow> file_id_name s \<or> (ends_with ''.json'' s \<and> file_id_name (take (length s - 5) s))"

definition artefact_key :: "string \<Rightarrow> string" where
  "artefact_key s = (if ends_with ''.json'' s then take (length s - 5) s else s)"

fun orphan_loop :: "time \<Rightarrow> (string \<Rightarrow> bool) \<Rightarrow> fs \<Rightarrow> nat \<Rightarrow> fs \<Rightarrow> nat result \<times> fs" where
  "orphan_loop cutoff isLive [] removed d = (Inr removed, d)"
| "orphan_loop cutoff isLive (e # es) removed d =
     (if \<not> fe_is_file e \<or> \<not> own_artefact (fe_name e) \<or> isLive (artefact_key (fe_name e))
      then orphan_loop cutoff isLive es removed d
      else
        (case get_by fe_name (fe_name e) d of
           None \<Rightarrow> orphan_loop cutoff isLive es removed d
         | Some st \<Rightarrow>
           if cutoff < fe_mtime st then orphan_loop cutoff isLive es removed d
           else
             (case fs_rm (fe_name e) d of
                (Inl err, d1) \<Rightarrow> (Inl err, d1)
              | (Inr _, d1) \<Rightarrow> orphan_loop cutoff isLive es (removed + 1) d1)))"

definition local_cleanupOrphans :: "time \<Rightarrow> time \<Rightarrow> (string \<Rightarrow> bool) \<Rightarrow> fs \<Rightarrow> nat result \<times> fs" where
  "local_cleanupOrphans nw olderThanMs isLive d = orphan_loop (nw - olderThanMs) isLive d 0 d"

definition local_backend :: "node_crypto \<Rightarrow> string \<Rightarrow> string \<Rightarrow> fs backend" where
  "local_backend C cwd directory =
     \<lparr>bk_put = local_put C cwd directory, bk_get = local_get cwd directory, bk_stat = local_stat cwd directory,
      bk_delete = local_delete cwd directory, bk_removeTusSidecar = local_removeTusSidecar cwd directory,
      bk_cleanupOrphans = (\<lambda>nw older live d. Some (local_cleanupOrphans nw older live d))\<rparr>"

section \<open>The contract of a backend\<close>

text \<open>
  \<open>obj\<close> reads off the objects a state holds. A put that succeeds stores exactly what the source
  delivered; one that fails may leave something under its own key, and nothing else changes; a delete or a sweep
  removes whole objects, a delete at most its own and a sweep no live one; reads never invent anything.
\<close>

locale storage_contract =
  fixes B :: "'s backend" and C :: node_crypto and obj :: "'s \<Rightarrow> string \<Rightarrow> byte list option" and good :: "'s \<Rightarrow> bool"
  assumes put_stores: "good s \<Longrightarrow> bk_put B nw k src mx s = (Inr r, s') \<Longrightarrow>
      good s' \<and> obj s' = (obj s)(k \<mapsto> concat (src_chunks src)) \<and> src_error src = None \<and>
      pr_size r = int (length (concat (src_chunks src))) \<and> pr_size r \<le> max 0 mx \<and>
      pr_sha256 r = hex (nc_sha256 C (concat (src_chunks src)))"
    and put_fails: "good s \<Longrightarrow> bk_put B nw k src mx s = (Inl e, s') \<Longrightarrow>
      good s' \<and> (\<forall>j. j \<noteq> k \<longrightarrow> obj s' j = obj s j)"
    and get_found: "good s \<Longrightarrow> bk_get B k s = Inr b \<Longrightarrow> obj s k = Some b"
    and get_missing: "good s \<Longrightarrow> bk_get B k s = Inl (StorageNotFoundError j) \<Longrightarrow> obj s k = None"
    and stat_found: "good s \<Longrightarrow> bk_stat B k s = Inr (Some n) \<Longrightarrow> \<exists>b. obj s k = Some b \<and> n = int (length b)"
    and stat_missing: "good s \<Longrightarrow> bk_stat B k s = Inr None \<Longrightarrow> obj s k = None"
    and delete_one: "good s \<Longrightarrow> bk_delete B k s = (res, s') \<Longrightarrow>
      good s' \<and> (\<forall>j. j \<noteq> k \<longrightarrow> obj s' j = obj s j) \<and> (obj s' k = None \<or> obj s' k = obj s k) \<and> (res = Inr () \<longrightarrow> obj s' k = None)"
    and sidecar_keeps: "good s \<Longrightarrow> bk_removeTusSidecar B k s = (res, s') \<Longrightarrow> good s' \<and> obj s' = obj s"
    and sweep_keeps: "good s \<Longrightarrow> bk_cleanupOrphans B nw older live s = Some (swept, s') \<Longrightarrow>
      good s' \<and> (\<forall>k. live k \<longrightarrow> obj s' k = obj s k) \<and> (\<forall>k. obj s' k = None \<or> obj s' k = obj s k)"
begin

text \<open>What a client relies on: stored data is read back, whole, until its own key is deleted or swept.\<close>

lemma put_get:
  assumes "good s" "bk_put B nw k src mx s = (Inr r, s')" "bk_get B k s' = Inr b"
  shows "b = concat (src_chunks src)"
  using put_stores [OF assms(1,2)] get_found [OF _ assms(3)] by auto

lemma put_stat:
  assumes "good s" "bk_put B nw k src mx s = (Inr r, s')" "bk_stat B k s' = Inr n"
  shows "n = Some (pr_size r)"
  using put_stores [OF assms(1,2)] stat_found [of s' k] stat_missing [of s' k] assms(3) by (cases n) auto

lemma delete_get:
  assumes "good s" "bk_delete B k s = (Inr (), s')"
  shows "bk_get B k s' \<noteq> Inr b \<and> bk_stat B k s' \<noteq> Inr (Some n)"
  using delete_one [OF assms] get_found [of s' k b] stat_found [of s' k n] by auto

end

section \<open>The directory keeps the contract\<close>

definition fs_ok :: "fs \<Rightarrow> bool" where
  "fs_ok d \<longleftrightarrow> distinct (map fe_name d)"

definition local_obj :: "fs \<Rightarrow> string \<Rightarrow> byte list option" where
  "local_obj d k =
     (if KEY_RE k then case get_by fe_name k d of Some e \<Rightarrow> if fe_is_file e then Some (fe_data e) else None | None \<Rightarrow> None
      else None)"

lemma fs_rm_frame:
  assumes "fs_ok d" "fs_rm n d = (res, d')"
  shows "fs_ok d' \<and> (\<forall>k. k \<noteq> n \<longrightarrow> get_by fe_name k d' = get_by fe_name k d) \<and>
    (get_by fe_name n d' = None \<or> (get_by fe_name n d' = get_by fe_name n d \<and> (\<forall>e. get_by fe_name n d = Some e \<longrightarrow> \<not> fe_is_file e))) \<and>
    (res = Inr () \<longrightarrow> get_by fe_name n d' = None)"
  using assms
  by (auto simp: fs_rm_def fs_ok_def get_by_delete_key distinct_delete_where split: option.splits if_splits)

lemma fs_rm_obj:
  assumes "fs_ok d" "fs_rm n d = (res, d')"
  shows "fs_ok d' \<and> local_obj d' = (local_obj d)(n := None)"
  using fs_rm_frame [OF assms] by (auto simp: local_obj_def split: option.splits)

lemma sidecar_no_key: "\<not> KEY_RE (k @ ''.json'')"
  by (simp add: KEY_RE_def is_url_char_def is_alnum_def is_alpha_def is_lower_def is_upper_def is_digit_def code_def)

lemma local_obj_invalid: "\<not> KEY_RE n \<Longrightarrow> (local_obj d)(n := None) = local_obj d"
  by (auto simp: local_obj_def)

lemma local_resolve_Inr: "local_resolve cwd dir k = Inr full \<Longrightarrow> KEY_RE k"
  by (auto simp: local_resolve_def and_then_Inr_iff assertValidKey_def split: if_splits)

lemma local_put_cases:
  assumes "local_put C cwd dir nw k src mx d = (r, d')" "local_resolve cwd dir k = Inr full"
  obtains (exists) e where "get_by fe_name k d \<noteq> None" "r = Inl e" "d' = snd (fs_rm k d)"
    | (failed) e where "get_by fe_name k d = None" "r = Inl e" "fs_ok d \<Longrightarrow> fs_ok d'" "fs_ok d \<Longrightarrow> local_obj d' = local_obj d"
    | (stored) l where "get_by fe_name k d = None" "pipe_limited mx (src_chunks src) (src_error src) new_limiter [] = (None, l, snd (snd (pipe_limited mx (src_chunks src) (src_error src) new_limiter [])))"
        "r = Inr \<lparr>pr_size = lim_size l, pr_sha256 = digestHex C l\<rparr>"
        "d' = d @ [\<lparr>fe_name = k, fe_is_file = True, fe_data = snd (snd (pipe_limited mx (src_chunks src) (src_error src) new_limiter [])), fe_mtime = nw\<rparr>]"
proof (cases "get_by fe_name k d")
  case (Some e)
  with assms have "\<exists>e. r = Inl e \<and> d' = snd (fs_rm k d)"
    by (auto simp: local_put_def Let_def split: prod.splits sum.splits)
  with Some that(1) show ?thesis by blast
next
  case None
  let ?run = "pipe_limited mx (src_chunks src) (src_error src) new_limiter []"
  let ?d1 = "d @ [\<lparr>fe_name = k, fe_is_file = True, fe_data = snd (snd ?run), fe_mtime = nw\<rparr>]"
  show ?thesis
  proof (cases "fst ?run")
    case None': None
    have "?run = (None, fst (snd ?run), snd (snd ?run))" using None' by (simp add: prod_eq_iff)
    with that(3) [OF None this] assms None None' show ?thesis by (simp add: local_put_def Let_def)
  next
    case (Some e)
    have new: "k \<notin> fe_name ` set d" using None by (simp add: get_by_None_iff)
    have rm: "fs_rm k ?d1 = (Inr (), d)"
    proof -
      have "get_by fe_name k ?d1 = Some \<lparr>fe_name = k, fe_is_file = True, fe_data = snd (snd ?run), fe_mtime = nw\<rparr>"
        using None by (simp add: get_by_append get_by_Cons)
      moreover have "delete_where (\<lambda>e. fe_name e = k) ?d1 = d"
        using new by (auto simp: delete_where_def intro!: filter_True)
      ultimately show ?thesis by (simp add: fs_rm_def)
    qed
    with assms None Some have "r = Inl e" "d' = d" by (simp_all add: local_put_def Let_def)
    with that(2) None show ?thesis by blast
  qed
qed

lemma local_put_Inr:
  assumes "fs_ok d" "local_put C cwd dir nw k src mx d = (Inr r, d')"
  shows "fs_ok d' \<and> local_obj d' = (local_obj d)(k \<mapsto> concat (src_chunks src)) \<and> src_error src = None \<and>
    pr_size r = int (length (concat (src_chunks src))) \<and> pr_size r \<le> max 0 mx \<and>
    pr_sha256 r = hex (nc_sha256 C (concat (src_chunks src)))"
proof -
  obtain full where full: "local_resolve cwd dir k = Inr full"
    using assms(2) by (auto simp: local_put_def split: sum.splits)
  show ?thesis
  proof (rule local_put_cases [OF assms(2) full])
    fix l
    let ?run = "pipe_limited mx (src_chunks src) (src_error src) new_limiter []"
    assume new: "get_by fe_name k d = None" and run: "?run = (None, l, snd (snd ?run))"
      and r: "Inr r = Inr \<lparr>pr_size = lim_size l, pr_sha256 = digestHex C l\<rparr>"
      and d': "d' = d @ [\<lparr>fe_name = k, fe_is_file = True, fe_data = snd (snd ?run), fe_mtime = nw\<rparr>]"
    note ok = run [unfolded pipe_limited_ok]
    have size: "pr_size r = int (length (concat (src_chunks src)))"
      using ok r by (simp add: new_limiter_def)
    have "pr_size r \<le> max 0 mx"
    proof (cases "src_chunks src")
      case Nil
      then show ?thesis using size by simp
    next
      case (Cons c cs)
      from ok have "\<forall>n \<le> length (src_chunks src). n \<noteq> 0 \<longrightarrow> int (length (concat (take n (src_chunks src)))) \<le> mx"
        by (simp add: new_limiter_def)
      from this [rule_format, of "length (src_chunks src)"] Cons size show ?thesis by simp
    qed
    moreover have "fs_ok d'" using assms(1) new d' by (simp add: fs_ok_def get_by_None_iff)
    moreover have "local_obj d' = (local_obj d)(k \<mapsto> concat (src_chunks src))"
    proof
      fix j
      show "local_obj d' j = ((local_obj d)(k \<mapsto> concat (src_chunks src))) j"
        using ok new local_resolve_Inr [OF full] unfolding d'
        by (auto simp: local_obj_def get_by_append get_by_Cons split: option.splits)
    qed
    ultimately show ?thesis using ok r size by (simp add: new_limiter_def digestHex_def)
  qed auto
qed

lemma local_put_Inl:
  assumes "fs_ok d" "local_put C cwd dir nw k src mx d = (Inl e, d')"
  shows "fs_ok d' \<and> (\<forall>j. j \<noteq> k \<longrightarrow> local_obj d' j = local_obj d j) \<and> (local_obj d k = None \<longrightarrow> local_obj d' k = None)"
proof (cases "local_resolve cwd dir k")
  case (Inl x)
  with assms show ?thesis by (simp add: local_put_def)
next
  case (Inr full)
  show ?thesis
  proof (rule local_put_cases [OF assms(2) Inr])
    fix x assume "d' = snd (fs_rm k d)"
    then have "fs_rm k d = (fst (fs_rm k d), d')" by simp
    from fs_rm_obj [OF assms(1) this] show ?thesis by auto
  qed (use assms in auto)
qed

lemma local_delete_frame:
  assumes "fs_ok d" "local_delete cwd dir k d = (res, d')"
  shows "fs_ok d' \<and> (\<forall>j. j \<noteq> k \<longrightarrow> local_obj d' j = local_obj d j) \<and> (local_obj d' k = None \<or> local_obj d' k = local_obj d k) \<and>
    (res = Inr () \<longrightarrow> local_obj d' k = None)"
proof (cases "local_resolve cwd dir k")
  case (Inl x)
  with assms show ?thesis by (auto simp: local_delete_def)
next
  case (Inr full)
  obtain r1 d1 where 1: "fs_rm k d = (r1, d1)" by (cases "fs_rm k d")
  note f1 = fs_rm_obj [OF assms(1) 1]
  show ?thesis
  proof (cases r1)
    case (Inl x)
    with assms(2) Inr 1 f1 show ?thesis by (auto simp: local_delete_def)
  next
    case r1: (Inr u)
    with assms(2) Inr 1 have "fs_rm (k @ ''.json'') d1 = (res, d')" by (simp add: local_delete_def)
    with fs_rm_obj f1 have "fs_ok d'" "local_obj d' = local_obj d1" by (metis local_obj_invalid sidecar_no_key)+
    with f1 show ?thesis by simp
  qed
qed

lemma own_live_base: "own_artefact n \<Longrightarrow> KEY_RE n \<Longrightarrow> artefact_key n = n"
proof -
  assume "own_artefact n" "KEY_RE n"
  then have "\<not> ends_with ''.json'' n"
    using sidecar_no_key by (metis ends_with_def rev_append rev_rev_ident starts_with_iff)
  then show ?thesis by (simp add: artefact_key_def)
qed

lemma orphan_loop_keeps:
  assumes "orphan_loop cutoff live es n d = (res, d')" "fs_ok d"
  shows "fs_ok d' \<and> (\<forall>k. live k \<longrightarrow> local_obj d' k = local_obj d k) \<and> (\<forall>k. local_obj d' k = None \<or> local_obj d' k = local_obj d k)"
  using assms
proof (induction es arbitrary: n d)
  case (Cons e es)
  show ?case
  proof (cases "\<not> fe_is_file e \<or> \<not> own_artefact (fe_name e) \<or> live (artefact_key (fe_name e)) \<or> get_by fe_name (fe_name e) d = None \<or>
      (\<exists>st. get_by fe_name (fe_name e) d = Some st \<and> cutoff < fe_mtime st)")
    case True
    with Cons.prems(1) have "orphan_loop cutoff live es n d = (res, d')"
      by (cases "get_by fe_name (fe_name e) d") (auto split: if_splits)
    from Cons.IH [OF this Cons.prems(2)] show ?thesis .
  next
    case False
    obtain r1 d1 where 1: "fs_rm (fe_name e) d = (r1, d1)" by (cases "fs_rm (fe_name e) d")
    note f = fs_rm_obj [OF Cons.prems(2) 1]
    have keep: "local_obj d1 k = local_obj d k" if "live k" for k
    proof (cases "k = fe_name e \<and> KEY_RE k")
      case True
      with False own_live_base [of k] that show ?thesis by auto
    next
      case False
      with f show ?thesis by (auto simp: local_obj_def)
    qed
    show ?thesis
    proof (cases r1)
      case (Inl x)
      with False 1 Cons.prems(1) have "d' = d1" by (auto split: option.splits)
      with f keep show ?thesis by auto
    next
      case (Inr u)
      with False 1 Cons.prems(1) have "orphan_loop cutoff live es (n + 1) d1 = (res, d')" by (auto split: option.splits)
      from Cons.IH [OF this] f keep show ?thesis by (metis fun_upd_apply)
    qed
  qed
qed simp

lemma local_sidecar_keeps:
  assumes "fs_ok d" "local_removeTusSidecar cwd dir k d = (res, d')" shows "fs_ok d' \<and> local_obj d' = local_obj d"
  using assms fs_rm_obj [OF assms(1), of "k @ ''.json''" res d']
  by (auto simp: local_removeTusSidecar_def local_obj_invalid sidecar_no_key split: sum.splits)

text \<open>The sweep of the directory leaves every name alone that is not one of the program's own.\<close>

lemma orphan_loop_own:
  assumes "orphan_loop cutoff live es n d = (res, d')" "fs_ok d" "\<not> own_artefact k"
  shows "get_by fe_name k d' = get_by fe_name k d"
  using assms(1,2)
proof (induction es arbitrary: n d)
  case (Cons e es)
  show ?case
  proof (cases "orphan_loop cutoff live es n d = (res, d')")
    case True
    then show ?thesis using Cons.IH Cons.prems(2) by blast
  next
    case False
    then have own: "own_artefact (fe_name e)" using Cons.prems(1) by (auto split: if_splits)
    obtain r1 d1 where rm: "fs_rm (fe_name e) d = (r1, d1)" by fastforce
    note one = fs_rm_frame [OF Cons.prems(2) rm]
    have same: "get_by fe_name k d1 = get_by fe_name k d" using one own assms(3) by metis
    have "(res, d') = (case r1 of Inl err \<Rightarrow> (Inl err, d1) | Inr _ \<Rightarrow> orphan_loop cutoff live es (n + 1) d1)"
      using Cons.prems(1) False rm by (auto split: if_splits option.splits sum.splits)
    then show ?thesis using same Cons.IH [of "n + 1" d1] one by (cases r1) auto
  qed
qed simp

interpretation dir: storage_contract "local_backend C cwd directory" C local_obj fs_ok for C cwd directory
proof unfold_locales
  show "local_obj s k = Some b" if "bk_get (local_backend C cwd directory) k s = Inr b" for s k b
    using that by (auto simp: local_backend_def local_get_def local_obj_def and_then_Inr_iff dest: local_resolve_Inr split: option.splits if_splits)
  show "local_obj s k = None" if "bk_get (local_backend C cwd directory) k s = Inl (StorageNotFoundError j)" for s k j
    using that by (cases "local_resolve cwd directory k")
      (auto simp: local_backend_def local_get_def local_obj_def local_resolve_def Let_def assertValidKey_def split: option.splits if_splits)
  show "\<exists>b. local_obj s k = Some b \<and> n = int (length b)" if "bk_stat (local_backend C cwd directory) k s = Inr (Some n)" for s k n
    using that by (auto simp: local_backend_def local_stat_def local_obj_def and_then_Inr_iff dest: local_resolve_Inr split: option.splits if_splits)
  show "local_obj s k = None" if "bk_stat (local_backend C cwd directory) k s = Inr None" for s k
    using that by (auto simp: local_backend_def local_stat_def local_obj_def and_then_Inr_iff split: option.splits if_splits)
qed (auto simp: local_backend_def local_cleanupOrphans_def dest: local_put_Inr local_put_Inl local_delete_frame local_sidecar_keeps orphan_loop_keeps)

section \<open>What storing in the directory means\<close>

text \<open>C17: storing an object in the directory refines the update of a map from keys to contents: a put that succeeds
  changes exactly its own key, reports the true size, within the limit, and the SHA-256 of the data,
  and the object reads back byte for byte.\<close>

theorem local_put_refines:
  assumes "fs_ok d" and "local_put C cwd directory nw k src mx d = (Inr r, d')"
  shows "fs_ok d' \<and> local_obj d' = (local_obj d)(k \<mapsto> concat (src_chunks src)) \<and> src_error src = None \<and>
    pr_size r = int (length (concat (src_chunks src))) \<and> pr_size r \<le> max 0 mx \<and>
    pr_sha256 r = hex (nc_sha256 C (concat (src_chunks src))) \<and>
    local_get cwd directory k d' = Inr (concat (src_chunks src)) \<and> local_stat cwd directory k d' = Inr (Some (pr_size r))"
proof -
  have "bk_put (local_backend C cwd directory) nw k src mx d = (Inr r, d')" using assms(2) by (simp add: local_backend_def)
  note st = dir.put_stores [OF assms(1) this]
  obtain full where full: "local_resolve cwd directory k = Inr full"
    using assms(2) by (auto simp: local_put_def split: sum.splits)
  have "local_obj d' k = Some (concat (src_chunks src))" using st by simp
  then obtain e where "get_by fe_name k d' = Some e" "fe_is_file e" "fe_data e = concat (src_chunks src)"
    by (auto simp: local_obj_def split: option.splits if_splits)
  with full st show ?thesis by (simp add: local_get_def local_stat_def)
qed

lemma path_resolve_fixed:
  assumes "dir = CHR ''/'' # js_join ''/'' segs" "segs \<noteq> []" "list_all clean_segment segs"
  shows "path_resolve cwd dir = dir"
proof -
  have "split_by is_slash dir = [] # segs" using assms split_js_join by (simp add: is_slash_def)
  then show ?thesis using normal_segments_id [OF assms(3), of False "[]"] assms(1)
    by (simp add: path_resolve_def path_absolute_def starts_with_def path_normal_def)
qed

lemma key_clean: "KEY_RE k \<Longrightarrow> clean_segment k"
  by (auto simp: KEY_RE_def clean_segment_def list_all_iff is_url_char_def is_alnum_def is_alpha_def is_lower_def is_upper_def
      is_digit_def code_def)

lemma resolved_directory:
  assumes "directory = path_resolve cwd p" "directory \<noteq> ''/''" "KEY_RE k"
  shows "local_resolve cwd directory k = Inr (directory @ ''/'' @ k)"
proof -
  obtain segs where segs: "directory = CHR ''/'' # js_join ''/'' segs" "list_all clean_segment segs"
    using path_resolve_segments [of cwd p] assms(1) by (auto simp: clean_segment_def list_all_iff)
  with assms(2) have "segs \<noteq> []" by auto
  from path_in_directory [OF segs(1) this segs(2) key_clean [OF assms(3)]] path_resolve_fixed [OF segs(1) this segs(2)]
  show ?thesis using assms(3) by (auto simp: local_resolve_def assertValidKey_def Let_def)
qed

lemma pipe_limited_exceeds:
  assumes "failure = None" "lim_size l \<le> mx" "mx < lim_size l + int (length (concat cs))"
  shows "fst (pipe_limited mx cs failure l out) = Some (StorageLimitError mx)"
  using assms
proof (induction cs arbitrary: l out)
  case (Cons c cs)
  then show ?case by (simp add: limit_transform_def Let_def)
qed simp

text \<open>C34: in a storage directory given by its resolved path, an upload under a valid key that is not taken is stored
  exactly when it stays within the limit; a longer one is refused with the limit as the reason and leaves
  nothing behind.\<close>

theorem local_put_accepts:
  assumes "directory = path_resolve cwd p" and "directory \<noteq> ''/''" and "KEY_RE k" and "get_by fe_name k d = None"
    and "src_error src = None" and "0 \<le> mx"
  shows "if int (length (concat (src_chunks src))) \<le> mx
    then \<exists>r d'. local_put C cwd directory nw k src mx d = (Inr r, d')
    else local_put C cwd directory nw k src mx d = (Inl (StorageLimitError mx), d)"
proof -
  let ?run = "pipe_limited mx (src_chunks src) (src_error src) new_limiter []"
  let ?d1 = "d @ [\<lparr>fe_name = k, fe_is_file = True, fe_data = snd (snd ?run), fe_mtime = nw\<rparr>]"
  note res = resolved_directory [OF assms(1-3)]
  show ?thesis
  proof (cases "int (length (concat (src_chunks src))) \<le> mx")
    case True
    then have "fst ?run = None" using assms(5) by (intro pipe_limited_total) (simp_all add: new_limiter_def)
    with True res assms(4) show ?thesis by (simp add: local_put_def Let_def)
  next
    case False
    then have run: "fst ?run = Some (StorageLimitError mx)"
      using assms(5,6) by (intro pipe_limited_exceeds) (simp_all add: new_limiter_def)
    have "k \<notin> fe_name ` set d" using assms(4) by (simp add: get_by_None_iff)
    then have "delete_where (\<lambda>e. fe_name e = k) ?d1 = d" by (auto simp: delete_where_def intro!: filter_True)
    then have "fs_rm k ?d1 = (Inr (), d)" using assms(4) by (simp add: fs_rm_def get_by_append get_by_Cons)
    with False res assms(4) run show ?thesis by (simp add: local_put_def Let_def)
  qed
qed

text \<open>A put on a key that is already stored fails without writing, but the clean-up of the failed pipeline then
  removes the object that was stored under the key before.\<close>

lemma local_put_existing_removes:
  assumes "local_resolve cwd directory k = Inr full" and "get_by fe_name k d = Some e" and "fe_is_file e" and "fs_ok d"
  shows "fst (local_put C cwd directory nw k src mx d) = Inl (JsError ''EEXIST'') \<and>
    local_obj d k = Some (fe_data e) \<and> local_obj (snd (local_put C cwd directory nw k src mx d)) k = None"
proof -
  have "KEY_RE k" using local_resolve_Inr [OF assms(1)] .
  with assms show ?thesis
    by (simp add: local_put_def fs_rm_def local_obj_def get_by_delete_key)
qed

section \<open>Examples\<close>

definition demo_source :: source where
  "demo_source = \<lparr>src_chunks = [[1, 2], [3]], src_error = None\<rparr>"

definition demo_key :: string where
  "demo_key = ''f_aaaaaaaaaaaaaaaa''"

definition demo_dir :: fs where
  "demo_dir = [\<lparr>fe_name = demo_key, fe_is_file = True, fe_data = [7], fe_mtime = 1\<rparr>]"

theorem local_put_refines_witness:
  "\<exists>r d'. local_put demo_crypto ''/'' ''/data'' 5 demo_key demo_source 3 [] = (Inr r, d') \<and>
     pr_size r = 3 \<and> local_get ''/'' ''/data'' demo_key d' = Inr [1, 2, 3]"
proof -
  have "case fst (local_put demo_crypto ''/'' ''/data'' 5 demo_key demo_source 3 []) of Inl _ \<Rightarrow> False | Inr _ \<Rightarrow> True"
    by code_simp
  then obtain r d' where run: "local_put demo_crypto ''/'' ''/data'' 5 demo_key demo_source 3 [] = (Inr r, d')"
    by (cases "local_put demo_crypto ''/'' ''/data'' 5 demo_key demo_source 3 []") (auto split: sum.splits)
  have "fs_ok []" by (simp add: fs_ok_def)
  from local_put_refines [OF this run] run show ?thesis by (simp add: demo_source_def)
qed

theorem local_put_accepts_witness:
  "(\<exists>r d'. local_put demo_crypto ''/srv'' ''/srv/data'' 5 demo_key demo_source 3 [] = (Inr r, d')) \<and>
   local_put demo_crypto ''/srv'' ''/srv/data'' 5 demo_key demo_source 2 [] = (Inl (StorageLimitError 2), [])"
proof -
  have dir: "''/srv/data'' = path_resolve ''/srv'' ''data''" "''/srv/data'' \<noteq> ''/''" and key: "KEY_RE demo_key"
    by code_simp+
  have len: "int (length (concat (src_chunks demo_source))) = 3" "src_error demo_source = None" by (simp_all add: demo_source_def)
  from local_put_accepts [OF dir key, of "[]" demo_source 3 demo_crypto 5] local_put_accepts [OF dir key, of "[]" demo_source 2 demo_crypto 5] len
  show ?thesis by simp
qed

lemma local_put_existing_removes_witness:
  "fst (local_put demo_crypto ''/'' ''/data'' 5 demo_key demo_source 3 demo_dir) = Inl (JsError ''EEXIST'') \<and>
   local_obj demo_dir demo_key = Some [7] \<and>
   local_obj (snd (local_put demo_crypto ''/'' ''/data'' 5 demo_key demo_source 3 demo_dir)) demo_key = None"
proof -
  have res: "local_resolve ''/'' ''/data'' demo_key = Inr (''/data/'' @ demo_key)" by code_simp
  have "get_by fe_name demo_key demo_dir = Some \<lparr>fe_name = demo_key, fe_is_file = True, fe_data = [7], fe_mtime = 1\<rparr>" "fs_ok demo_dir"
    by (simp_all add: demo_dir_def get_by_Cons fs_ok_def)
  from local_put_existing_removes [OF res this(1) _ this(2), of demo_crypto 5 demo_source 3] show ?thesis by simp
qed

end
