(* ===== verification/S3Store.thy ===== *)
theory S3Store
  imports Storage Config "HOL-Library.List_Lexorder"
begin

text \<open>
  src/storage/s3.ts and index.ts: the backend that keeps objects in an S3 bucket. The AWS SDK is the
  record of the calls the code sends, on the bucket state \<open>'s\<close>; a call fails with a name and an HTTP
  status. The two sweeps page through listings the service answers, so they may not return: \<open>None\<close>.
\<close>

section \<open>The service\<close>

record s3_error =
  se_name :: "string option"
  se_status :: "int option"

record upload_entry =
  ue_key :: "string option"
  ue_upload_id :: "string option"
  ue_initiated :: "time option"

record uploads_page =
  up_entries :: "upload_entry list"
  up_truncated :: bool
  up_next_key :: "string option"
  up_next_id :: "string option"

record object_entry =
  oe_key :: "string option"
  oe_modified :: "time option"

record objects_page =
  op_entries :: "object_entry list"
  op_truncated :: bool
  op_next :: "string option"

text \<open>\<open>sv_upload\<close> is \<open>Upload.done()\<close> of lib-storage: part size, key, and the body, which ended or was destroyed.\<close>

record 's s3_service =
  sv_upload :: "int \<Rightarrow> string \<Rightarrow> byte list result \<Rightarrow> 's \<Rightarrow> unit result \<times> 's"
  sv_get :: "string \<Rightarrow> 's \<Rightarrow> s3_error + byte list option"
  sv_head :: "string \<Rightarrow> 's \<Rightarrow> s3_error + int option"
  sv_delete :: "string \<Rightarrow> 's \<Rightarrow> s3_error option \<times> 's"
  sv_uploads :: "string option \<times> string option \<Rightarrow> 's \<Rightarrow> s3_error + uploads_page"
  sv_abort :: "string \<Rightarrow> string \<Rightarrow> 's \<Rightarrow> s3_error option \<times> 's"
  sv_objects :: "string option \<Rightarrow> 's \<Rightarrow> s3_error + objects_page"

definition isNotFound :: "s3_error \<Rightarrow> bool" where
  "isNotFound e \<longleftrightarrow> se_name e = Some ''NoSuchKey'' \<or> se_name e = Some ''NotFound'' \<or> se_status e = Some 404"

definition s3_exn :: "s3_error \<Rightarrow> exn" where
  "s3_exn e = JsError (case se_name e of None \<Rightarrow> [] | Some n \<Rightarrow> n)"

section \<open>The operations\<close>

definition s3_put ::
  "node_crypto \<Rightarrow> 's s3_service \<Rightarrow> int \<Rightarrow> string \<Rightarrow> source \<Rightarrow> int \<Rightarrow> 's \<Rightarrow> put_result result \<times> 's" where
  "s3_put C svc partSize key src maxBytes s =
     (case assertValidKey key of
        Inl e \<Rightarrow> (Inl e, s)
      | Inr _ \<Rightarrow>
        (let run = pipe_limited maxBytes (src_chunks src) (src_error src) new_limiter [];
             failure = fst run; l = fst (snd run);
             body = (case failure of Some e \<Rightarrow> Inl e | None \<Rightarrow> Inr (snd (snd run)))
         in case sv_upload svc (max partSize (5 * 1024 * 1024)) key body s of
              (Inl e, s1) \<Rightarrow> (Inl (case failure of Some f \<Rightarrow> f | None \<Rightarrow> e), s1)
            | (Inr _, s1) \<Rightarrow>
              (case failure of
                 Some f \<Rightarrow> (Inl f, s1)
               | None \<Rightarrow> (Inr \<lparr>pr_size = lim_size l, pr_sha256 = digestHex C l\<rparr>, s1))))"

definition s3_get :: "'s s3_service \<Rightarrow> string \<Rightarrow> 's \<Rightarrow> byte list result" where
  "s3_get svc key s =
     and_then (assertValidKey key) (\<lambda>_.
       case sv_get svc key s of
         Inr (Some b) \<Rightarrow> Inr b
       | Inr None \<Rightarrow> Inl (StorageNotFoundError key)
       | Inl e \<Rightarrow> if isNotFound e then Inl (StorageNotFoundError key) else Inl (s3_exn e))"

definition s3_stat :: "'s s3_service \<Rightarrow> string \<Rightarrow> 's \<Rightarrow> int option result" where
  "s3_stat svc key s =
     and_then (assertValidKey key) (\<lambda>_.
       case sv_head svc key s of
         Inr n \<Rightarrow> Inr (Some (case n of None \<Rightarrow> 0 | Some n \<Rightarrow> n))
       | Inl e \<Rightarrow> if isNotFound e then Inr None else Inl (s3_exn e))"

definition s3_send_delete :: "'s s3_service \<Rightarrow> string \<Rightarrow> 's \<Rightarrow> unit result \<times> 's" where
  "s3_send_delete svc key s =
     (case sv_delete svc key s of (None, s') \<Rightarrow> (Inr (), s') | (Some e, s') \<Rightarrow> (Inl (s3_exn e), s'))"

definition s3_delete :: "'s s3_service \<Rightarrow> string \<Rightarrow> 's \<Rightarrow> unit result \<times> 's" where
  "s3_delete svc key s =
     (case assertValidKey key of
        Inl e \<Rightarrow> (Inl e, s)
      | Inr _ \<Rightarrow>
        (case s3_send_delete svc key s of
           (Inl e, s1) \<Rightarrow> (Inl e, s1)
         | (Inr _, s1) \<Rightarrow> s3_send_delete svc (key @ ''.info'') s1))"

definition s3_removeTusSidecar :: "'s s3_service \<Rightarrow> string \<Rightarrow> 's \<Rightarrow> unit result \<times> 's" where
  "s3_removeTusSidecar svc key s =
     (case assertValidKey key of
        Inl e \<Rightarrow> (Inl e, s)
      | Inr _ \<Rightarrow> s3_send_delete svc (key @ ''.info'') s)"

text \<open>The multipart uploads of one page, then page after page while the listing is truncated.\<close>

definition upload_kept :: "time \<Rightarrow> (string \<Rightarrow> bool) \<Rightarrow> upload_entry \<Rightarrow> bool" where
  "upload_kept cutoff isLive u \<longleftrightarrow>
     \<not> truthy (ue_key u) \<or> \<not> truthy (ue_upload_id u) \<or>
     cutoff < (case ue_initiated u of None \<Rightarrow> 0 | Some t \<Rightarrow> t) \<or> isLive (the (ue_key u))"

fun abort_page ::
  "'s s3_service \<Rightarrow> time \<Rightarrow> (string \<Rightarrow> bool) \<Rightarrow> upload_entry list \<Rightarrow> nat \<Rightarrow> 's \<Rightarrow> nat result \<times> 's" where
  "abort_page svc cutoff isLive [] n s = (Inr n, s)"
| "abort_page svc cutoff isLive (u # us) n s =
     (if upload_kept cutoff isLive u then abort_page svc cutoff isLive us n s
      else (case sv_abort svc (the (ue_key u)) (the (ue_upload_id u)) s of
              (Some e, s1) \<Rightarrow> (Inl (s3_exn e), s1)
            | (None, s1) \<Rightarrow> abort_page svc cutoff isLive us (n + 1) s1))"

partial_function (option) abort_sweep ::
  "'s s3_service \<Rightarrow> time \<Rightarrow> (string \<Rightarrow> bool) \<Rightarrow> string option \<times> string option \<Rightarrow> nat \<Rightarrow> 's \<Rightarrow> (nat result \<times> 's) option" where
  [code]: "abort_sweep svc cutoff isLive markers n s =
     (case sv_uploads svc markers s of
        Inl e \<Rightarrow> Some (Inl (s3_exn e), s)
      | Inr pg \<Rightarrow>
        (case abort_page svc cutoff isLive (up_entries pg) n s of
           (Inl e, s1) \<Rightarrow> Some (Inl e, s1)
         | (Inr n1, s1) \<Rightarrow>
           let km = (if up_truncated pg then up_next_key pg else None);
               um = (if up_truncated pg then up_next_id pg else None)
           in if truthy km \<or> truthy um then abort_sweep svc cutoff isLive (km, um) n1 s1 else Some (Inr n1, s1)))"

text \<open>\<open>Key.replace(/\.(info|part)$/, '')\<close>.\<close>

definition object_base :: "string \<Rightarrow> string" where
  "object_base k = (if ends_with ''.info'' k \<or> ends_with ''.part'' k then take (length k - 5) k else k)"

definition object_kept :: "time \<Rightarrow> (string \<Rightarrow> bool) \<Rightarrow> object_entry \<Rightarrow> bool" where
  "object_kept cutoff isLive ob \<longleftrightarrow>
     \<not> truthy (oe_key ob) \<or> isLive (object_base (the (oe_key ob))) \<or>
     cutoff < (case oe_modified ob of None \<Rightarrow> 0 | Some t \<Rightarrow> t)"

fun delete_page ::
  "'s s3_service \<Rightarrow> time \<Rightarrow> (string \<Rightarrow> bool) \<Rightarrow> object_entry list \<Rightarrow> nat \<Rightarrow> 's \<Rightarrow> nat result \<times> 's" where
  "delete_page svc cutoff isLive [] n s = (Inr n, s)"
| "delete_page svc cutoff isLive (ob # obs) n s =
     (if object_kept cutoff isLive ob then delete_page svc cutoff isLive obs n s
      else (case s3_send_delete svc (the (oe_key ob)) s of
              (Inl e, s1) \<Rightarrow> (Inl e, s1)
            | (Inr _, s1) \<Rightarrow> delete_page svc cutoff isLive obs (n + 1) s1))"

partial_function (option) delete_sweep ::
  "'s s3_service \<Rightarrow> time \<Rightarrow> (string \<Rightarrow> bool) \<Rightarrow> string option \<Rightarrow> nat \<Rightarrow> 's \<Rightarrow> (nat result \<times> 's) option" where
  [code]: "delete_sweep svc cutoff isLive token n s =
     (case sv_objects svc token s of
        Inl e \<Rightarrow> Some (Inl (s3_exn e), s)
      | Inr pg \<Rightarrow>
        (case delete_page svc cutoff isLive (op_entries pg) n s of
           (Inl e, s1) \<Rightarrow> Some (Inl e, s1)
         | (Inr n1, s1) \<Rightarrow>
           let token' = (if op_truncated pg then op_next pg else None)
           in if truthy token' then delete_sweep svc cutoff isLive token' n1 s1 else Some (Inr n1, s1)))"

definition s3_cleanupOrphans ::
  "'s s3_service \<Rightarrow> time \<Rightarrow> time \<Rightarrow> (string \<Rightarrow> bool) \<Rightarrow> 's \<Rightarrow> (nat result \<times> 's) option" where
  "s3_cleanupOrphans svc nw olderThanMs isLive s =
     (let cutoff = nw - olderThanMs
      in case abort_sweep svc cutoff isLive (None, None) 0 s of
           None \<Rightarrow> None
         | Some (Inl e, s1) \<Rightarrow> Some (Inl e, s1)
         | Some (Inr n, s1) \<Rightarrow> delete_sweep svc cutoff isLive None n s1)"

definition s3_backend :: "node_crypto \<Rightarrow> 's s3_service \<Rightarrow> int \<Rightarrow> 's backend" where
  "s3_backend C svc partSize =
     \<lparr>bk_put = (\<lambda>nw. s3_put C svc partSize), bk_get = s3_get svc, bk_stat = s3_stat svc, bk_delete = s3_delete svc,
      bk_removeTusSidecar = s3_removeTusSidecar svc, bk_cleanupOrphans = s3_cleanupOrphans svc\<rparr>"

section \<open>createStorage and the client's configuration\<close>

record s3_client =
  sc_region :: string
  sc_endpoint :: "string option"
  sc_forcePathStyle :: bool
  sc_credentials :: "(string \<times> string) option"

definition clientConfig :: "s3_config \<Rightarrow> s3_client" where
  "clientConfig cfg =
     \<lparr>sc_region = s3_region cfg, sc_endpoint = s3_endpoint cfg, sc_forcePathStyle = s3_forcePathStyle cfg,
      sc_credentials =
        (if truthy (s3_accessKeyId cfg) \<and> truthy (s3_secretAccessKey cfg)
         then Some (the (s3_accessKeyId cfg), the (s3_secretAccessKey cfg)) else None)\<rparr>"

text \<open>The two kinds of backend; \<open>client\<close> makes the service a client configuration and a bucket speak to.\<close>

definition createStorage ::
  "node_crypto \<Rightarrow> string \<Rightarrow> (s3_client \<Rightarrow> string \<Rightarrow> 's s3_service) \<Rightarrow> config \<Rightarrow> fs backend + 's backend" where
  "createStorage C cwd client cfg =
     (case cf_storage cfg of
        S3 \<Rightarrow> Inr (s3_backend C (client (clientConfig (cf_s3 cfg)) (s3_bucket (cf_s3 cfg))) (s3_partSize (cf_s3 cfg)))
      | Local \<Rightarrow> Inl (local_backend C cwd (cf_localStorageDir cfg)))"

section \<open>The bucket keeps the contract\<close>

text \<open>
  What AWS documents of the calls: an upload that succeeds stores the whole object, reads return what is stored,
  a delete removes one key, and aborting a multipart upload changes no object. Of a call that failed it
  is only used that no other key has changed: an upload whose answer was lost may have stored its object, a
  delete may have removed it.
\<close>

definition s3_documented :: "'s s3_service \<Rightarrow> ('s \<Rightarrow> string \<Rightarrow> byte list option) \<Rightarrow> bool" where
  "s3_documented svc objs \<longleftrightarrow>
     (\<forall>p k b s s'. sv_upload svc p k (Inr b) s = (Inr (), s') \<longrightarrow> objs s' = (objs s)(k \<mapsto> b)) \<and>
     (\<forall>p k b e s s'. sv_upload svc p k b s = (Inl e, s') \<longrightarrow> (\<forall>j. j \<noteq> k \<longrightarrow> objs s' j = objs s j)) \<and>
     (\<forall>p k e s. \<exists>e' s'. sv_upload svc p k (Inl e) s = (Inl e', s')) \<and>
     (\<forall>k b s. sv_get svc k s = Inr b \<longrightarrow> b \<noteq> None \<and> objs s k = b) \<and>
     (\<forall>k e s. sv_get svc k s = Inl e \<and> isNotFound e \<longrightarrow> objs s k = None) \<and>
     (\<forall>k n s. sv_head svc k s = Inr n \<longrightarrow> (\<exists>b. objs s k = Some b \<and> n = Some (int (length b)))) \<and>
     (\<forall>k e s. sv_head svc k s = Inl e \<and> isNotFound e \<longrightarrow> objs s k = None) \<and>
     (\<forall>k s s'. sv_delete svc k s = (None, s') \<longrightarrow> objs s' = (objs s)(k := None)) \<and>
     (\<forall>k e s s'. sv_delete svc k s = (Some e, s') \<longrightarrow> objs s' = objs s \<or> objs s' = (objs s)(k := None)) \<and>
     (\<forall>k i r s s'. sv_abort svc k i s = (r, s') \<longrightarrow> objs s' = objs s)"

definition key_objs :: "('s \<Rightarrow> string \<Rightarrow> byte list option) \<Rightarrow> 's \<Rightarrow> string \<Rightarrow> byte list option" where
  "key_objs objs s k = (if KEY_RE k then objs s k else None)"

lemma s3_send_delete_objs:
  assumes "s3_documented svc objs" "s3_send_delete svc k s = (r, s')"
  shows "objs s' = objs s \<or> objs s' = (objs s)(k := None)" "r = Inr () \<Longrightarrow> objs s' = (objs s)(k := None)"
  using assms by (auto simp: s3_documented_def s3_send_delete_def split: prod.splits option.splits)

lemma info_no_key: "\<not> KEY_RE (k @ ''.info'')"
  by (simp add: KEY_RE_def is_url_char_def is_alnum_def is_alpha_def is_lower_def is_upper_def is_digit_def code_def)

lemma info_delete_keeps:
  assumes "s3_documented svc objs" "s3_send_delete svc (k @ ''.info'') s = (r, s')"
  shows "key_objs objs s' = key_objs objs s"
  using s3_send_delete_objs(1) [OF assms] info_no_key by (auto simp: key_objs_def)

lemma abort_page_objs:
  assumes "s3_documented svc objs" "abort_page svc cutoff live us n s = (r, s')" shows "objs s' = objs s"
  using assms(2)
proof (induction us arbitrary: n s)
  case (Cons u us)
  show ?case
  proof (cases "upload_kept cutoff live u")
    case True
    with Cons show ?thesis by simp
  next
    case False
    obtain e s1 where ab: "sv_abort svc (the (ue_key u)) (the (ue_upload_id u)) s = (e, s1)"
      by (cases "sv_abort svc (the (ue_key u)) (the (ue_upload_id u)) s")
    then have "objs s1 = objs s" using assms(1) unfolding s3_documented_def by blast
    with False ab Cons show ?thesis by (cases e) auto
  qed
qed simp

lemma abort_sweep_objs:
  assumes "s3_documented svc objs" "abort_sweep svc cutoff live m n s = Some y"
  shows "objs (snd y) = objs s"
proof -
  have "svc = svc \<longrightarrow> objs (snd y) = objs s"
  proof (rule abort_sweep.raw_induct [where P = "\<lambda>svc' cutoff live m n s y. svc' = svc \<longrightarrow> objs (snd y) = objs s", OF _ assms(2)])
    fix f svc' cutoff live m n s y
    assume IH: "\<And>svc' cutoff live m n s y. f svc' cutoff live m n s = Some y \<Longrightarrow> svc' = svc \<longrightarrow> objs (snd y) = objs s"
      and run: "(case sv_uploads svc' m s of
        Inl e \<Rightarrow> Some (Inl (s3_exn e), s)
      | Inr pg \<Rightarrow>
        (case abort_page svc' cutoff live (up_entries pg) n s of
           (Inl e, s1) \<Rightarrow> Some (Inl e, s1)
         | (Inr n1, s1) \<Rightarrow>
           let km = (if up_truncated pg then up_next_key pg else None);
               um = (if up_truncated pg then up_next_id pg else None)
           in if truthy km \<or> truthy um then f svc' cutoff live (km, um) n1 s1 else Some (Inr n1, s1))) = Some y"
    show "svc' = svc \<longrightarrow> objs (snd y) = objs s"
    proof (cases "sv_uploads svc' m s")
      case (Inl e)
      with run show ?thesis by auto
    next
      case (Inr pg)
      obtain r s1 where p: "abort_page svc' cutoff live (up_entries pg) n s = (r, s1)"
        by (cases "abort_page svc' cutoff live (up_entries pg) n s")
      show ?thesis
      proof
        assume [simp]: "svc' = svc"
        have s1: "objs s1 = objs s" using abort_page_objs [OF assms(1)] p by simp
        show "objs (snd y) = objs s"
        proof (cases r)
          case (Inl e)
          with run Inr p s1 show ?thesis by auto
        next
          case r: (Inr n1)
          with run Inr p have "y = (Inr n1, s1) \<or> (\<exists>km um. f svc cutoff live (km, um) n1 s1 = Some y)"
            by (auto simp: Let_def split: if_splits)
          then show ?thesis
          proof
            assume "\<exists>km um. f svc cutoff live (km, um) n1 s1 = Some y"
            then obtain km um where "f svc cutoff live (km, um) n1 s1 = Some y" by blast
            from IH [OF this] s1 show ?thesis by simp
          qed (simp add: s1)
        qed
      qed
    qed
  qed
  then show ?thesis by simp
qed

text \<open>Deleting what is not live never hits the object of a live key: that key is its own base name.\<close>

lemma base_of_key: "KEY_RE k \<Longrightarrow> object_base k = k"
proof -
  assume k: "KEY_RE k"
  have "CHR ''.'' \<notin> set k"
    using k by (auto simp: KEY_RE_def list_all_iff is_url_char_def is_alnum_def is_alpha_def is_lower_def is_upper_def is_digit_def code_def)
  then have "\<not> ends_with (CHR ''.'' # x) k" for x
    by (auto simp: ends_with_def starts_with_iff) (metis in_set_conv_decomp set_rev)
  then show ?thesis by (simp add: object_base_def)
qed

definition swept :: "(string \<Rightarrow> bool) \<Rightarrow> (string \<Rightarrow> byte list option) \<Rightarrow> (string \<Rightarrow> byte list option) \<Rightarrow> bool" where
  "swept live o1 o2 \<longleftrightarrow> (\<forall>k. live k \<longrightarrow> o2 k = o1 k) \<and> (\<forall>k. o2 k = None \<or> o2 k = o1 k)"

lemma swept_refl: "swept live o1 o1" by (simp add: swept_def)

lemma swept_trans: "swept live o1 o2 \<Longrightarrow> swept live o2 o3 \<Longrightarrow> swept live o1 o3"
  unfolding swept_def by metis

lemma delete_page_swept:
  assumes "s3_documented svc objs" "delete_page svc cutoff live obs n s = (r, s')"
  shows "swept live (key_objs objs s) (key_objs objs s')"
  using assms(2)
proof (induction obs arbitrary: n s)
  case (Cons ob obs)
  show ?case
  proof (cases "object_kept cutoff live ob")
    case True
    with Cons show ?thesis by simp
  next
    case False
    obtain r1 s1 where d: "s3_send_delete svc (the (oe_key ob)) s = (r1, s1)" by (cases "s3_send_delete svc (the (oe_key ob)) s")
    have "\<not> live (object_base (the (oe_key ob)))" using False by (simp add: object_kept_def)
    then have "swept live (key_objs objs s) (key_objs objs s1)"
      using s3_send_delete_objs(1) [OF assms(1) d] base_of_key [of "the (oe_key ob)"]
      by (auto simp: swept_def key_objs_def)
    with False d Cons show ?thesis by (cases r1) (auto intro: swept_trans)
  qed
qed (simp add: swept_refl)

lemma delete_sweep_swept:
  assumes "s3_documented svc objs" "delete_sweep svc cutoff live tok n s = Some y"
  shows "swept live (key_objs objs s) (key_objs objs (snd y))"
proof -
  have "svc = svc \<longrightarrow> swept live (key_objs objs s) (key_objs objs (snd y))"
  proof (rule delete_sweep.raw_induct [where P = "\<lambda>svc' cutoff live tok n s y. svc' = svc \<longrightarrow> swept live (key_objs objs s) (key_objs objs (snd y))", OF _ assms(2)])
    fix f svc' cutoff live tok n s y
    assume IH: "\<And>svc' cutoff live tok n s y. f svc' cutoff live tok n s = Some y \<Longrightarrow>
        svc' = svc \<longrightarrow> swept live (key_objs objs s) (key_objs objs (snd y))"
      and run: "(case sv_objects svc' tok s of
        Inl e \<Rightarrow> Some (Inl (s3_exn e), s)
      | Inr pg \<Rightarrow>
        (case delete_page svc' cutoff live (op_entries pg) n s of
           (Inl e, s1) \<Rightarrow> Some (Inl e, s1)
         | (Inr n1, s1) \<Rightarrow>
           let token' = (if op_truncated pg then op_next pg else None)
           in if truthy token' then f svc' cutoff live token' n1 s1 else Some (Inr n1, s1))) = Some y"
    show "svc' = svc \<longrightarrow> swept live (key_objs objs s) (key_objs objs (snd y))"
    proof (cases "sv_objects svc' tok s")
      case (Inl e)
      with run show ?thesis by (auto simp: swept_refl)
    next
      case (Inr pg)
      obtain r s1 where p: "delete_page svc' cutoff live (op_entries pg) n s = (r, s1)"
        by (cases "delete_page svc' cutoff live (op_entries pg) n s")
      show ?thesis
      proof
        assume [simp]: "svc' = svc"
        have s1: "swept live (key_objs objs s) (key_objs objs s1)" using delete_page_swept [OF assms(1)] p by simp
        show "swept live (key_objs objs s) (key_objs objs (snd y))"
        proof (cases r)
          case (Inl e)
          with run Inr p s1 show ?thesis by auto
        next
          case r: (Inr n1)
          with run Inr p have "y = (Inr n1, s1) \<or> (\<exists>tok. f svc cutoff live tok n1 s1 = Some y)"
            by (auto simp: Let_def split: if_splits)
          then show ?thesis
          proof
            assume "\<exists>tok. f svc cutoff live tok n1 s1 = Some y"
            then obtain tok where "f svc cutoff live tok n1 s1 = Some y" ..
            from IH [OF this] swept_trans [OF s1] show ?thesis by simp
          qed (simp add: s1)
        qed
      qed
    qed
  qed
  then show ?thesis by simp
qed

lemma s3_cleanup_swept:
  assumes "s3_documented svc objs" "s3_cleanupOrphans svc nw older live s = Some y"
  shows "swept live (key_objs objs s) (key_objs objs (snd y))"
proof -
  obtain z where z: "abort_sweep svc (nw - older) live (None, None) 0 s = Some z"
    using assms(2) by (auto simp: s3_cleanupOrphans_def Let_def split: option.splits)
  obtain r s1 where zz: "z = (r, s1)" by (cases z)
  have "objs s1 = objs s" using abort_sweep_objs [OF assms(1) z] zz by simp
  then have "key_objs objs s1 = key_objs objs s" by (auto simp: key_objs_def)
  show ?thesis
  proof (cases r)
    case (Inl e)
    with assms(2) z zz \<open>key_objs objs s1 = _\<close> show ?thesis by (auto simp: s3_cleanupOrphans_def swept_refl)
  next
    case (Inr n)
    with assms(2) z zz have "delete_sweep svc (nw - older) live None n s1 = Some y" by (simp add: s3_cleanupOrphans_def)
    from delete_sweep_swept [OF assms(1) this] \<open>key_objs objs s1 = _\<close> show ?thesis by simp
  qed
qed

lemma s3_put_objs:
  assumes doc: "s3_documented svc objs" and run: "s3_put C svc part k src mx s = (r, s')"
  shows "(\<forall>x. r = Inr x \<longrightarrow> KEY_RE k \<and> objs s' = (objs s)(k \<mapsto> concat (src_chunks src)) \<and> src_error src = None \<and>
      pr_size x = int (length (concat (src_chunks src))) \<and> pr_size x \<le> max 0 mx \<and> pr_sha256 x = hex (nc_sha256 C (concat (src_chunks src)))) \<and>
    (\<forall>e. r = Inl e \<longrightarrow> (\<forall>j. j \<noteq> k \<longrightarrow> objs s' j = objs s j))"
proof (cases "KEY_RE k")
  case False
  with run show ?thesis by (auto simp: s3_put_def assertValidKey_def)
next
  case key: True
  let ?run = "pipe_limited mx (src_chunks src) (src_error src) new_limiter []"
  let ?part = "max part (5 * 1024 * 1024)"
  obtain fl l out where pl: "?run = (fl, l, out)" by (cases ?run)
  show ?thesis
  proof (cases fl)
    case (Some f)
    obtain e s1 where up: "sv_upload svc ?part k (Inl f) s = (Inl e, s1)"
      using doc unfolding s3_documented_def by meson
    moreover have "\<forall>j. j \<noteq> k \<longrightarrow> objs s1 j = objs s j" using doc up unfolding s3_documented_def by meson
    ultimately show ?thesis using key run pl Some by (auto simp: s3_put_def assertValidKey_def Let_def)
  next
    case None
    note ok = pl [unfolded None pipe_limited_ok]
    have out: "out = concat (src_chunks src)" "l = \<lparr>lim_size = int (length out), lim_hashed = out\<rparr>" "src_error src = None"
      using ok by (simp_all add: new_limiter_def)
    have le: "int (length out) \<le> max 0 mx"
    proof (cases "src_chunks src")
      case (Cons c cs)
      from ok have "\<forall>n \<le> length (src_chunks src). n \<noteq> 0 \<longrightarrow> int (length (concat (take n (src_chunks src)))) \<le> mx"
        by (simp add: new_limiter_def)
      from this [rule_format, of "length (src_chunks src)"] Cons out show ?thesis by simp
    qed (use out in simp)
    obtain u s1 where up: "sv_upload svc ?part k (Inr out) s = (u, s1)" by (cases "sv_upload svc ?part k (Inr out) s")
    show ?thesis
    proof (cases u)
      case (Inl e)
      then have "\<forall>j. j \<noteq> k \<longrightarrow> objs s1 j = objs s j" using doc up unfolding s3_documented_def by meson
      with key run pl None up Inl show ?thesis by (auto simp: s3_put_def assertValidKey_def Let_def)
    next
      case (Inr x)
      then have "objs s1 = (objs s)(k \<mapsto> out)" using doc up unfolding s3_documented_def by (metis old.unit.exhaust)
      with key run pl None up Inr out le show ?thesis by (auto simp: s3_put_def assertValidKey_def Let_def digestHex_def)
    qed
  qed
qed

lemma s3_get_objs:
  assumes "s3_documented svc objs"
  shows "s3_get svc k s = Inr b \<Longrightarrow> key_objs objs s k = Some b"
    and "s3_get svc k s = Inl (StorageNotFoundError j) \<Longrightarrow> key_objs objs s k = None"
  using assms
  by (auto simp: s3_get_def s3_documented_def key_objs_def and_then_Inr_iff assertValidKey_def s3_exn_def
      split: sum.splits option.splits if_splits)

lemma s3_stat_objs:
  assumes "s3_documented svc objs"
  shows "s3_stat svc k s = Inr (Some n) \<Longrightarrow> \<exists>b. key_objs objs s k = Some b \<and> n = int (length b)"
    and "s3_stat svc k s = Inr None \<Longrightarrow> key_objs objs s k = None"
proof -
  show "\<exists>b. key_objs objs s k = Some b \<and> n = int (length b)" if st: "s3_stat svc k s = Inr (Some n)"
  proof -
    obtain m where m: "KEY_RE k" "sv_head svc k s = Inr m" "n = (case m of None \<Rightarrow> 0 | Some n \<Rightarrow> n)"
      using st by (cases "sv_head svc k s") (auto simp: s3_stat_def and_then_Inr_iff assertValidKey_def split: if_splits)
    then obtain b where "objs s k = Some b" "m = Some (int (length b))" using assms unfolding s3_documented_def by meson
    with m show ?thesis by (simp add: key_objs_def)
  qed
  show "key_objs objs s k = None" if "s3_stat svc k s = Inr None"
    using that assms by (auto simp: s3_stat_def s3_documented_def key_objs_def and_then_Inr_iff split: sum.splits if_splits)
qed

lemma s3_delete_objs:
  assumes doc: "s3_documented svc objs" and run: "s3_delete svc k s = (res, s')"
  shows "(\<forall>j. j \<noteq> k \<longrightarrow> key_objs objs s' j = key_objs objs s j) \<and>
    (key_objs objs s' k = None \<or> key_objs objs s' k = key_objs objs s k) \<and> (res = Inr () \<longrightarrow> key_objs objs s' k = None)"
proof (cases "KEY_RE k")
  case False
  with run show ?thesis by (auto simp: s3_delete_def assertValidKey_def)
next
  case True
  obtain r1 s1 where d: "s3_send_delete svc k s = (r1, s1)" by (cases "s3_send_delete svc k s")
  note s1 = s3_send_delete_objs [OF doc d]
  show ?thesis
  proof (cases r1)
    case (Inl e)
    with True run d s1(1) show ?thesis by (auto simp: s3_delete_def assertValidKey_def key_objs_def)
  next
    case (Inr u)
    with True run d have "s3_send_delete svc (k @ ''.info'') s1 = (res, s')" by (simp add: s3_delete_def assertValidKey_def)
    from info_delete_keeps [OF doc this] s1(2) Inr show ?thesis by (auto simp: key_objs_def)
  qed
qed

text \<open>C16: with a service that behaves as documented, where a call that failed may still have changed its own key, the S3
  backend keeps the contract \<open>storage_contract\<close>, which the local one keeps too: so every guarantee drawn from it
  holds for both kinds of storage. The contract does not say that a sweep takes only names of the program's
  own format: the local one does, the one of the bucket removes any object that is old and not live.\<close>

theorem s3_keeps_contract:
  assumes doc: "s3_documented svc objs"
  shows "storage_contract (s3_backend C svc part) C (key_objs objs) (\<lambda>_. True)"
proof
  show "True \<and> key_objs objs s' = (key_objs objs s)(k \<mapsto> concat (src_chunks src)) \<and> src_error src = None \<and>
      pr_size r = int (length (concat (src_chunks src))) \<and> pr_size r \<le> max 0 mx \<and>
      pr_sha256 r = hex (nc_sha256 C (concat (src_chunks src)))"
    if "bk_put (s3_backend C svc part) nw k src mx s = (Inr r, s')" for s s' nw k src mx r
    using s3_put_objs [OF doc, of C part k src mx s "Inr r" s'] that by (auto simp: s3_backend_def key_objs_def)
  show "True \<and> (\<forall>j. j \<noteq> k \<longrightarrow> key_objs objs s' j = key_objs objs s j)"
    if "bk_put (s3_backend C svc part) nw k src mx s = (Inl e, s')" for s s' nw k src mx e
    using s3_put_objs [OF doc, of C part k src mx s "Inl e" s'] that by (auto simp: s3_backend_def key_objs_def)
  show "True \<and> key_objs objs s' = key_objs objs s" if "bk_removeTusSidecar (s3_backend C svc part) k s = (res, s')" for s s' k res
    using that info_delete_keeps [OF doc, of k s res s'] by (auto simp: s3_backend_def s3_removeTusSidecar_def split: sum.splits)
  show "True \<and> (\<forall>k. live k \<longrightarrow> key_objs objs s' k = key_objs objs s k) \<and>
      (\<forall>k. key_objs objs s' k = None \<or> key_objs objs s' k = key_objs objs s k)"
    if "bk_cleanupOrphans (s3_backend C svc part) nw older live s = Some (n, s')" for s s' nw older live n
    using s3_cleanup_swept [OF doc, of nw older live s "(n, s')"] that by (simp add: s3_backend_def swept_def)
qed (auto simp: s3_backend_def dest: s3_get_objs [OF doc] s3_stat_objs [OF doc] s3_delete_objs [OF doc])

section \<open>The sweep of the bucket ends, and is complete\<close>

text \<open>
  What AWS documents of the two listings. The objects of a bucket are finitely many and listed in a fixed order
  of their keys; a page shows every object behind the last one shown before it, up to the last one on it, with
  the time it was modified; a page that is continued names a token that stands for such a last object. The
  unfinished uploads are listed the same way. Deletes and aborts add nothing to a listing and leave the times
  of the other objects. \<open>shown\<close> is the last entry shown before a token, None at the start. All of it is read in
  the state the bucket has when the page is asked for, which the sweep changes as it goes.
\<close>

definition behind :: "('k \<Rightarrow> 'k \<Rightarrow> bool) \<Rightarrow> 'k option \<Rightarrow> 'k \<Rightarrow> bool" where
  "behind before p k \<longleftrightarrow> (case p of None \<Rightarrow> True | Some q \<Rightarrow> before q k)"

definition objects_documented ::
  "'s s3_service \<Rightarrow> ('s \<Rightarrow> string \<Rightarrow> byte list option) \<Rightarrow> ('s \<Rightarrow> string \<Rightarrow> time) \<Rightarrow> (string option \<Rightarrow> string option)
    \<Rightarrow> (string \<Rightarrow> string \<Rightarrow> bool) \<Rightarrow> bool" where
  "objects_documented svc objs modified shown before \<longleftrightarrow>
     irreflp before \<and> transp before \<and> shown None = None \<and> (\<forall>s. finite (dom (objs s))) \<and>
     (\<forall>tok s pg. sv_objects svc tok s = Inr pg \<longrightarrow>
        (op_truncated pg \<and> truthy (op_next pg) \<longrightarrow> (\<exists>q. shown (op_next pg) = Some q \<and> q \<in> dom (objs s) \<and> behind before (shown tok) q)) \<and>
        (\<forall>k \<in> dom (objs s). k \<noteq> [] \<and> behind before (shown tok) k \<and>
           \<not> (op_truncated pg \<and> truthy (op_next pg) \<and> behind before (shown (op_next pg)) k) \<longrightarrow>
           (\<exists>ob \<in> set (op_entries pg). oe_key ob = Some k \<and> oe_modified ob = Some (modified s k)))) \<and>
     (\<forall>k j s. j \<noteq> k \<longrightarrow> modified (snd (sv_delete svc k s)) j = modified s j)"

definition uploads_documented ::
  "'s s3_service \<Rightarrow> ('s \<Rightarrow> 'u set) \<Rightarrow> (string option \<times> string option \<Rightarrow> 'u option) \<Rightarrow> ('u \<Rightarrow> 'u \<Rightarrow> bool) \<Rightarrow> bool" where
  "uploads_documented svc ups shown before \<longleftrightarrow>
     irreflp before \<and> transp before \<and> (\<forall>s. finite (ups s)) \<and> (\<forall>k i s. ups (snd (sv_abort svc k i s)) \<subseteq> ups s) \<and>
     (\<forall>m s pg. sv_uploads svc m s = Inr pg \<and> up_truncated pg \<and> (truthy (up_next_key pg) \<or> truthy (up_next_id pg)) \<longrightarrow>
        (\<exists>u \<in> ups s. shown (up_next_key pg, up_next_id pg) = Some u \<and> behind before (shown m) u))"

lemma truthy_None [simp]: "\<not> truthy None" by (simp add: truthy_def)

text \<open>Fewer entries are left behind the last one of a page than behind the last one before it.\<close>

lemma left_decreases:
  assumes "irreflp before" "transp before" "finite A" "B \<subseteq> A" "q \<in> A" "behind before p q"
  shows "card {k \<in> B. behind before (Some q) k} < card {k \<in> A. behind before p k}"
proof (rule psubset_card_mono)
  have "behind before p k" if "before q k" for k
    using assms(2,6) that by (auto simp: behind_def split: option.splits dest: transpD)
  moreover have "\<not> before q q" using assms(1) by (simp add: irreflpD)
  ultimately show "{k \<in> B. behind before (Some q) k} \<subset> {k \<in> A. behind before p k}"
    using assms(4-6) by (auto simp: behind_def)
qed (use assms(3) in simp)

lemma abort_page_ups:
  assumes "\<And>k i s. ups (snd (sv_abort svc k i s)) \<subseteq> ups s"
  shows "ups (snd (abort_page svc cutoff live us n s)) \<subseteq> ups s"
proof (induction us arbitrary: n s)
  case (Cons u us)
  have "ups (snd (sv_abort svc (the (ue_key u)) (the (ue_upload_id u)) s)) \<subseteq> ups s" by (rule assms)
  then show ?case using Cons by (auto split: prod.split option.split) blast+
qed simp

lemma abort_sweep_returns:
  assumes doc: "uploads_documented svc ups shown before" shows "abort_sweep svc cutoff live m n s \<noteq> None"
proof (induction "card {u \<in> ups s. behind before (shown m) u}" arbitrary: m n s rule: less_induct)
  case less
  show ?case
  proof (cases "sv_uploads svc m s")
    case (Inl e)
    then show ?thesis by (simp add: abort_sweep.simps [of _ _ _ m])
  next
    case (Inr pg)
    let ?m = "(up_next_key pg, up_next_id pg)"
    obtain r s1 where p: "abort_page svc cutoff live (up_entries pg) n s = (r, s1)" by fastforce
    have "card {u \<in> ups s1. behind before (shown ?m) u} < card {u \<in> ups s. behind before (shown m) u}"
      if "up_truncated pg" "truthy (up_next_key pg) \<or> truthy (up_next_id pg)"
    proof -
      have "\<exists>u \<in> ups s. shown ?m = Some u \<and> behind before (shown m) u"
        using doc Inr that unfolding uploads_documented_def by metis
      then obtain u where u: "u \<in> ups s" "shown ?m = Some u" "behind before (shown m) u" by blast
      have "ups s1 \<subseteq> ups s" using abort_page_ups [of ups svc] doc p unfolding uploads_documented_def by (metis snd_conv)
      then show ?thesis using doc u left_decreases [of before "ups s" "ups s1" u "shown m"] unfolding uploads_documented_def by metis
    qed
    with less p Inr show ?thesis by (cases r) (auto simp: abort_sweep.simps [of _ _ _ m] Let_def)
  qed
qed

lemma delete_page_effect:
  assumes doc: "s3_documented svc objs" and times: "\<And>k j s. j \<noteq> k \<Longrightarrow> modified (snd (sv_delete svc k s)) j = modified s j"
    and run: "delete_page svc cutoff live obs n s = (Inr m, s1)"
  shows "(\<forall>k \<in> dom (objs s1). k \<in> dom (objs s) \<and> modified s1 k = modified s k) \<and>
    (\<forall>ob \<in> set obs. object_kept cutoff live ob \<or> objs s1 (the (oe_key ob)) = None)"
  using run
proof (induction obs arbitrary: n s)
  case (Cons ob obs)
  show ?case
  proof (cases "object_kept cutoff live ob")
    case True
    with Cons show ?thesis by auto
  next
    case False
    let ?k = "the (oe_key ob)"
    obtain u s2 where d: "s3_send_delete svc ?k s = (u, s2)" by fastforce
    then have u: "u = Inr ()" and rest: "delete_page svc cutoff live obs (n + 1) s2 = (Inr m, s1)"
      using Cons.prems False by (auto split: sum.splits)
    have "snd (sv_delete svc ?k s) = s2" using d by (auto simp: s3_send_delete_def split: prod.splits option.splits)
    then have same: "modified s2 j = modified s j" if "j \<noteq> ?k" for j using times [OF that, of s] by simp
    have upd: "objs s2 = (objs s)(?k := None)" using s3_send_delete_objs(2) [OF doc d u] .
    note ih = Cons.IH [OF rest]
    have "k \<in> dom (objs s) \<and> modified s1 k = modified s k" if "k \<in> dom (objs s1)" for k
    proof -
      have "k \<in> dom (objs s2)" "modified s1 k = modified s2 k" using ih that by simp_all
      moreover from this(1) upd have "k \<noteq> ?k" "k \<in> dom (objs s)" by (simp_all split: if_splits)
      ultimately show ?thesis using same by simp
    qed
    moreover have "objs s1 ?k = None" using ih upd by (metis domIff fun_upd_same)
    ultimately show ?thesis using ih by simp
  qed
qed simp

definition swept_clean :: "('s \<Rightarrow> string \<Rightarrow> time) \<Rightarrow> time \<Rightarrow> (string \<Rightarrow> bool) \<Rightarrow> 's \<Rightarrow> string \<Rightarrow> bool" where
  "swept_clean modified cutoff live s k \<longleftrightarrow> live (object_base k) \<or> cutoff < modified s k"

lemma delete_sweep_complete:
  assumes doc: "s3_documented svc objs" and pages: "objects_documented svc objs modified shown before"
    and "(\<forall>k \<in> dom (objs s). behind before (shown tok) k \<or> swept_clean modified cutoff live s k) \<and> objs s [] = None"
  shows "\<exists>r s'. delete_sweep svc cutoff live tok n s = Some (r, s') \<and>
    (\<forall>m. r = Inr m \<longrightarrow> (\<forall>k \<in> dom (objs s'). swept_clean modified cutoff live s' k))"
  using assms(3)
proof (induction "card {k \<in> dom (objs s). behind before (shown tok) k}" arbitrary: tok n s rule: less_induct)
  case less
  show ?case
  proof (cases "sv_objects svc tok s")
    case (Inl e)
    then show ?thesis by (simp add: delete_sweep.simps [of _ _ _ tok])
  next
    case (Inr pg)
    obtain r s1 where p: "delete_page svc cutoff live (op_entries pg) n s = (r, s1)" by fastforce
    show ?thesis
    proof (cases r)
      case (Inl e)
      then show ?thesis using Inr p \<open>sv_objects svc tok s = Inr pg\<close> by (simp add: delete_sweep.simps [of _ _ _ tok])
    next
      case ok: (Inr m)
      let ?on = "op_truncated pg \<and> truthy (op_next pg)"
      have eff: "(\<forall>k \<in> dom (objs s1). k \<in> dom (objs s) \<and> modified s1 k = modified s k) \<and>
          (\<forall>ob \<in> set (op_entries pg). object_kept cutoff live ob \<or> objs s1 (the (oe_key ob)) = None)"
        using delete_page_effect [OF doc _ p [unfolded ok]] pages unfolding objects_documented_def by metis
      have clean: "swept_clean modified cutoff live s1 k" if there: "k \<in> dom (objs s1)" and last: "\<not> (?on \<and> behind before (shown (op_next pg)) k)" for k
      proof (cases "behind before (shown tok) k")
        case False
        have "k \<in> dom (objs s)" "modified s1 k = modified s k" using eff there by simp_all
        then show ?thesis using less.prems False by (auto simp: swept_clean_def)
      next
        case True
        have k: "k \<in> dom (objs s)" "modified s1 k = modified s k" "k \<noteq> []"
          using there eff less.prems by auto
        obtain ob where ob: "ob \<in> set (op_entries pg)" "oe_key ob = Some k" "oe_modified ob = Some (modified s k)"
          using pages Inr k(1,3) True last unfolding objects_documented_def by meson
        then have "object_kept cutoff live ob" using eff there by fastforce
        then show ?thesis using ob k by (simp add: object_kept_def swept_clean_def truthy_def)
      qed
      show ?thesis
      proof (cases ?on)
        case False
        then show ?thesis using Inr p ok clean by (auto simp: delete_sweep.simps [of _ _ _ tok] Let_def)
      next
        case True
        obtain q where q: "shown (op_next pg) = Some q" "q \<in> dom (objs s)" "behind before (shown tok) q"
          using pages Inr True unfolding objects_documented_def by meson
        have "card {k \<in> dom (objs s1). behind before (shown (op_next pg)) k} < card {k \<in> dom (objs s). behind before (shown tok) k}"
          unfolding q(1) using pages eff q by (intro left_decreases) (auto simp: objects_documented_def)
        moreover have "objs s1 [] = None" using eff less.prems by (metis domIff)
        moreover have "\<forall>k \<in> dom (objs s1). behind before (shown (op_next pg)) k \<or> swept_clean modified cutoff live s1 k"
          using clean True by blast
        ultimately show ?thesis using less.hyps [of s1 "op_next pg" m] Inr p ok True by (simp add: delete_sweep.simps [of _ _ _ tok] Let_def)
      qed
    qed
  qed
qed

text \<open>C39: the sweep of the bucket returns, however many pages the listings have and whatever it removes while it reads
  them; and when no call failed, every object that is left belongs to a live file or is younger than the limit.\<close>

theorem s3_sweep_complete:
  assumes doc: "s3_documented svc objs" and "objects_documented svc objs modified shown before"
    and "uploads_documented svc ups shown_ups before_ups" and "objs s [] = None"
  shows "\<exists>r s'. s3_cleanupOrphans svc nw older live s = Some (r, s') \<and>
    (\<forall>n. r = Inr n \<longrightarrow> (\<forall>k \<in> dom (objs s'). live (object_base k) \<or> nw - older < modified s' k))"
proof -
  obtain r1 s1 where one: "abort_sweep svc (nw - older) live (None, None) 0 s = Some (r1, s1)"
    using abort_sweep_returns [OF assms(3), of "nw - older" live "(None, None)" 0 s] by fastforce
  have "objs s1 = objs s" using abort_sweep_objs [OF doc one] by simp
  moreover have "behind before (shown None) k" for k using assms(2) by (simp add: objects_documented_def behind_def)
  ultimately have "\<exists>r s'. delete_sweep svc (nw - older) live None n s1 = Some (r, s') \<and>
      (\<forall>m. r = Inr m \<longrightarrow> (\<forall>k \<in> dom (objs s'). swept_clean modified (nw - older) live s' k))" for n
    using delete_sweep_complete [OF doc assms(2), of s1 None] assms(4) by simp
  then show ?thesis using one by (cases r1) (auto simp: s3_cleanupOrphans_def swept_clean_def)
qed

section \<open>A bucket\<close>

text \<open>A bucket of any content that lists one object a page, in the order of the keys; the token is the last key shown.\<close>

definition demo_get :: "string \<Rightarrow> (string \<times> byte list) list \<Rightarrow> s3_error + byte list" where
  "demo_get k b = (case map_of b k of None \<Rightarrow> Inl \<lparr>se_name = Some ''NoSuchKey'', se_status = Some 404\<rparr> | Some x \<Rightarrow> Inr x)"

definition key_before :: "string \<Rightarrow> string \<Rightarrow> bool" where
  "key_before a b \<longleftrightarrow> map code a < map code b"

definition demo_left :: "(string \<times> byte list) list \<Rightarrow> string option \<Rightarrow> string list" where
  "demo_left b tok = sort_key (map code) (remdups (filter (\<lambda>k. k \<noteq> [] \<and> behind key_before tok k) (map fst b)))"

definition demo_page :: "string list \<Rightarrow> objects_page" where
  "demo_page ks =
     \<lparr>op_entries = map (\<lambda>k. \<lparr>oe_key = Some k, oe_modified = Some 0\<rparr>) (take 1 ks), op_truncated = (1 < length ks),
      op_next = (if 1 < length ks then Some (hd ks) else None)\<rparr>"

definition demo_bucket :: "(string \<times> byte list) list s3_service" where
  "demo_bucket =
     \<lparr>sv_upload = (\<lambda>p k body b. case body of Inl e \<Rightarrow> (Inl e, b) | Inr x \<Rightarrow> (Inr (), (k, x) # b)),
      sv_get = (\<lambda>k b. map_sum id Some (demo_get k b)),
      sv_head = (\<lambda>k b. map_sum id (Some \<circ> int \<circ> length) (demo_get k b)),
      sv_delete = (\<lambda>k b. (None, filter (\<lambda>x. fst x \<noteq> k) b)),
      sv_uploads = (\<lambda>m b. Inr \<lparr>up_entries = [], up_truncated = False, up_next_key = None, up_next_id = None\<rparr>),
      sv_abort = (\<lambda>k i b. (None, b)),
      sv_objects = (\<lambda>tok b. Inr (demo_page (demo_left b tok)))\<rparr>"

lemma map_of_filter_key: "map_of (filter (\<lambda>x. fst x \<noteq> k) b) = (map_of b)(k := None)"
  by (induction b) (auto simp: fun_eq_iff)

lemma demo_bucket_documented: "s3_documented demo_bucket map_of"
  unfolding s3_documented_def demo_bucket_def
  by (auto simp: demo_get_def map_of_filter_key map_of_eq_None_iff fun_eq_iff map_sum_def
      split: option.splits sum.splits)

lemma key_order: "irreflp key_before" "transp key_before"
  by (auto simp: key_before_def irreflp_def transp_def)

lemma map_code_inject: "map code a = map code b \<longleftrightarrow> a = b"
  by (induction a arbitrary: b) (auto simp: Cons_eq_map_conv map_eq_Cons_conv)

lemma demo_objects_documented: "objects_documented demo_bucket map_of (\<lambda>_ _. 0) id key_before"
proof -
  have left: "set (demo_left b tok) = {k \<in> dom (map_of b). k \<noteq> [] \<and> behind key_before tok k}" for b tok
    by (auto simp: demo_left_def dom_map_of_conv_image_fst)
  have hd: "hd (demo_left b tok) \<in> set (demo_left b tok)" if "1 < length (demo_left b tok)" for b tok
    using that by (intro hd_in_set) auto
  have first: "k = hd (demo_left b tok) \<or> key_before (hd (demo_left b tok)) k" if "k \<in> set (demo_left b tok)" for b tok k
  proof -
    have "sorted (map (map code) (demo_left b tok))" by (simp add: demo_left_def)
    then have "map code (hd (demo_left b tok)) \<le> map code k" using that by (cases "demo_left b tok") auto
    then show ?thesis using map_code_inject [of "hd (demo_left b tok)" k] by (auto simp: key_before_def less_le)
  qed
  have page: "(op_truncated pg \<and> truthy (op_next pg) \<longrightarrow> (\<exists>q. op_next pg = Some q \<and> q \<in> dom (map_of b) \<and> behind key_before tok q)) \<and>
      (\<forall>k \<in> dom (map_of b). k \<noteq> [] \<and> behind key_before tok k \<and>
         \<not> (op_truncated pg \<and> truthy (op_next pg) \<and> behind key_before (op_next pg) k) \<longrightarrow>
         (\<exists>ob \<in> set (op_entries pg). oe_key ob = Some k \<and> oe_modified ob = Some 0))"
    if pg: "pg = demo_page (demo_left b tok)" for pg b tok
  proof (cases "1 < length (demo_left b tok)")
    case True
    have "hd (demo_left b tok) \<noteq> []" using hd [OF True] left by auto
    moreover have "take 1 (demo_left b tok) = [hd (demo_left b tok)]" using True by (cases "demo_left b tok") auto
    ultimately show ?thesis using pg True hd [OF True] left [of b tok] first [of _ b tok]
      by (auto simp: demo_page_def truthy_def behind_def)
  next
    case False
    then have "set (take 1 (demo_left b tok)) = set (demo_left b tok)" by simp
    then show ?thesis using pg False left [of b tok] by (auto simp: demo_page_def)
  qed
  show ?thesis unfolding objects_documented_def using key_order page by (simp add: demo_bucket_def finite_dom_map_of)
qed

theorem s3_keeps_contract_witness:
  "storage_contract (s3_backend demo_crypto demo_bucket 8388608) demo_crypto (key_objs map_of) (\<lambda>_. True)"
  by (rule s3_keeps_contract [OF demo_bucket_documented])

theorem s3_sweep_complete_witness:
  "\<exists>n s'. s3_cleanupOrphans demo_bucket 100 10 (\<lambda>k. k = ''f_b'') [(''f_c'', [1]), (''f_b'', [2]), (''f_b.info'', [3]), (''f_a'', [4])] = Some (Inr n, s') \<and>
     dom (map_of s') \<subseteq> {k. object_base k = ''f_b''}"
proof -
  let ?s = "[(''f_c'', [1]), (''f_b'', [2]), (''f_b.info'', [3]), (''f_a'', [4])]"
  let ?run = "s3_cleanupOrphans demo_bucket 100 10 (\<lambda>k. k = ''f_b'') ?s"
  have ups: "uploads_documented demo_bucket (\<lambda>_. {}) (\<lambda>_. None) (\<lambda>_ _. False)"
    by (simp add: uploads_documented_def demo_bucket_def irreflp_def transp_def)
  have "\<exists>r s'. ?run = Some (r, s') \<and> (\<forall>n. r = Inr n \<longrightarrow> (\<forall>k \<in> dom (map_of s'). object_base k = ''f_b'' \<or> 100 - 10 < (0::int)))"
    by (rule s3_sweep_complete [OF demo_bucket_documented demo_objects_documented ups]) simp
  moreover have "case ?run of Some (Inr n, s') \<Rightarrow> True | _ \<Rightarrow> False" by code_simp
  then obtain n s' where "?run = Some (Inr n, s')" by (auto split: option.splits sum.splits)
  ultimately show ?thesis by (intro exI [of _ n] exI [of _ s']) auto
qed

text \<open>An object of another program in the bucket: the sweep removes it, the one of a directory leaves it.\<close>

lemma s3_sweeps_foreign:
  "\<not> own_artefact ''backup-2024'' \<and>
   s3_cleanupOrphans demo_bucket 100 10 (\<lambda>k. False) [(''backup-2024'', [1])] = Some (Inr 1, []) \<and>
   local_cleanupOrphans 100 10 (\<lambda>k. False) [\<lparr>fe_name = ''backup-2024'', fe_is_file = True, fe_data = [1], fe_mtime = 0\<rparr>] =
     (Inr 0, [\<lparr>fe_name = ''backup-2024'', fe_is_file = True, fe_data = [1], fe_mtime = 0\<rparr>])"
  by (intro conjI) code_simp+

end
