(* ===== verification/I18n.thy ===== *)
theory I18n
  imports JsNumber Json "HOL-Library.Product_Lexorder"
begin

text \<open>
  src/i18n.ts: the languages of the interface, the translation of a message with its placeholders, and
  the choice of a language from the browser's \<open>Accept-Language\<close>. What is shown to a reader is a
  \<open>text\<close>, the list of its UTF-16 code units, because the languages need more than Latin-1. The
  dictionaries of src/locales are the argument \<open>D\<close>: the message of a language and key, if there is one.
\<close>

type_synonym "text" = "nat list"

section \<open>Languages\<close>

datatype lang =
    Bg | Cs | Da | De | El | En | Es | Et | Fi | Fr | Ga | Hr
  | Hu | It | Lt | Lv | Mt | Nl | Pl | Pt | Ro | Sk | Sl | Sv

definition DEFAULT_LANG :: lang where "DEFAULT_LANG = En"
definition LANG_COOKIE :: string where "LANG_COOKIE = ''inletbox_lang''"

definition LANGS :: "lang list" where
  "LANGS = [Bg, Cs, Da, De, El, En, Es, Et, Fi, Fr, Ga, Hr, Hu, It, Lt, Lv, Mt, Nl, Pl, Pt, Ro, Sk, Sl, Sv]"

primrec lang_code :: "lang \<Rightarrow> string" where
  "lang_code Bg = ''bg''" | "lang_code Cs = ''cs''" | "lang_code Da = ''da''" | "lang_code De = ''de''"
| "lang_code El = ''el''" | "lang_code En = ''en''" | "lang_code Es = ''es''" | "lang_code Et = ''et''"
| "lang_code Fi = ''fi''" | "lang_code Fr = ''fr''" | "lang_code Ga = ''ga''" | "lang_code Hr = ''hr''"
| "lang_code Hu = ''hu''" | "lang_code It = ''it''" | "lang_code Lt = ''lt''" | "lang_code Lv = ''lv''"
| "lang_code Mt = ''mt''" | "lang_code Nl = ''nl''" | "lang_code Pl = ''pl''" | "lang_code Pt = ''pt''"
| "lang_code Ro = ''ro''" | "lang_code Sk = ''sk''" | "lang_code Sl = ''sl''" | "lang_code Sv = ''sv''"

primrec LANG_NAMES :: "lang \<Rightarrow> text" where
  "LANG_NAMES Bg = [1041, 1098, 1083, 1075, 1072, 1088, 1089, 1082, 1080]"
| "LANG_NAMES Cs = [268, 101, 353, 116, 105, 110, 97]"
| "LANG_NAMES Da = units ''Dansk''"
| "LANG_NAMES De = units ''Deutsch''"
| "LANG_NAMES El = [917, 955, 955, 951, 957, 953, 954, 940]"
| "LANG_NAMES En = units ''English''"
| "LANG_NAMES Es = [69, 115, 112, 97, 241, 111, 108]"
| "LANG_NAMES Et = units ''Eesti''"
| "LANG_NAMES Fi = units ''Suomi''"
| "LANG_NAMES Fr = [70, 114, 97, 110, 231, 97, 105, 115]"
| "LANG_NAMES Ga = units ''Gaeilge''"
| "LANG_NAMES Hr = units ''Hrvatski''"
| "LANG_NAMES Hu = units ''Magyar''"
| "LANG_NAMES It = units ''Italiano''"
| "LANG_NAMES Lt = [76, 105, 101, 116, 117, 118, 105, 371]"
| "LANG_NAMES Lv = [76, 97, 116, 118, 105, 101, 353, 117]"
| "LANG_NAMES Mt = units ''Malti''"
| "LANG_NAMES Nl = units ''Nederlands''"
| "LANG_NAMES Pl = units ''Polski''"
| "LANG_NAMES Pt = [80, 111, 114, 116, 117, 103, 117, 234, 115]"
| "LANG_NAMES Ro = [82, 111, 109, 226, 110, 259]"
| "LANG_NAMES Sk = [83, 108, 111, 118, 101, 110, 269, 105, 110, 97]"
| "LANG_NAMES Sl = [83, 108, 111, 118, 101, 110, 353, 269, 105, 110, 97]"
| "LANG_NAMES Sv = units ''Svenska''"

definition dateLocale :: "lang \<Rightarrow> string" where
  "dateLocale l = (if l = En then ''en-GB'' else lang_code l)"

definition isLang :: "string \<Rightarrow> lang option" where
  "isLang v = find (\<lambda>l. lang_code l = v) LANGS"

section \<open>Messages\<close>

type_synonym dictionary = "lang \<Rightarrow> string \<Rightarrow> text option"
type_synonym params = "(string \<times> text) list"

text \<open>
  \<open>replace(/\{(\w+)\}/g, ...)\<close>: every \<open>{name}\<close> gives way to what the function makes of the name. The
  parameter objects of the program have no members but the ones listed.
\<close>

definition word_unit :: "nat \<Rightarrow> bool" where
  "word_unit n \<longleftrightarrow> n < 128 \<and> is_word_char (chr_of n)"

lemma drop_takeWhile_shorter: "length (drop (Suc (length (takeWhile P xs))) xs) < Suc (length xs)"
  by simp

function placeholders :: "(string \<Rightarrow> text) \<Rightarrow> text \<Rightarrow> text" where
  "placeholders f [] = []"
| "placeholders f (c # cs) =
     (let name = takeWhile word_unit cs; rest = dropWhile word_unit cs
      in if c = 123 \<and> name \<noteq> [] \<and> rest \<noteq> [] \<and> hd rest = 125
         then f (map chr_of name) @ placeholders f (tl rest)
         else c # placeholders f cs)"
  by pat_completeness auto
termination
  by (relation "measure (\<lambda>(f, cs). length cs)") (auto simp: less_Suc_eq_le intro: le_trans [OF diff_le_self length_dropWhile_le])

definition keep_placeholder :: "string \<Rightarrow> text" where
  "keep_placeholder name = units (''{'' @ name @ ''}'')"

definition t :: "dictionary \<Rightarrow> lang \<Rightarrow> string \<Rightarrow> params option \<Rightarrow> text" where
  "t D lang key params =
     (let msg = (case D lang key of
                   Some m \<Rightarrow> m
                 | None \<Rightarrow> (case D En key of Some m \<Rightarrow> m | None \<Rightarrow> units key))
      in case params of
           None \<Rightarrow> msg
         | Some ps \<Rightarrow> placeholders (\<lambda>name. case map_of ps name of Some v \<Rightarrow> v | None \<Rightarrow> keep_placeholder name) msg)"

definition translator :: "dictionary \<Rightarrow> lang \<Rightarrow> string \<Rightarrow> params option \<Rightarrow> text" where
  "translator D lang = t D lang"

section \<open>Accept-Language\<close>

definition q_char :: "char \<Rightarrow> bool" where
  "q_char c \<longleftrightarrow> is_digit c \<or> c = CHR ''.''"

text \<open>The group of \<open>/^\s*q=([0-9.]+)/\<close>.\<close>

definition q_match :: "string \<Rightarrow> string option" where
  "q_match p =
     (let s = dropWhile is_ws p; v = takeWhile q_char (drop 2 s)
      in if starts_with ''q='' s \<and> v \<noteq> [] then Some v else None)"

record ranked_tag =
  rt_tag :: string
  rt_q :: jsnum

definition ranked_of :: "string \<Rightarrow> ranked_tag" where
  "ranked_of part =
     (let pieces = split_by (\<lambda>c. c = CHR '';'') (js_trim part)
      in \<lparr>rt_tag = js_lower (js_trim (hd pieces)),
          rt_q = (case List.map_filter q_match (tl pieces) of [] \<Rightarrow> Num 1 | q # _ \<Rightarrow> js_Number q)\<rparr>)"

fun positive_q :: "jsnum \<Rightarrow> bool" where
  "positive_q (Num q) \<longleftrightarrow> 0 < q"
| "positive_q (Infinite neg) \<longleftrightarrow> \<not> neg"
| "positive_q NaN \<longleftrightarrow> False"

text \<open>The order of the comparison \<open>b.q - a.q || a.index - b.index\<close>: larger \<open>q\<close> first, ties as given.\<close>

fun q_rank :: "jsnum \<Rightarrow> bool \<times> rat" where
  "q_rank (Num q) = (True, - q)"
| "q_rank _ = (False, 0)"

definition negotiateLang :: "string option \<Rightarrow> lang" where
  "negotiateLang accept =
     (if \<not> truthy accept then DEFAULT_LANG
      else
        let ranked = sort_key (\<lambda>e. q_rank (rt_q e))
              (filter (\<lambda>e. rt_tag e \<noteq> [] \<and> positive_q (rt_q e))
                (map ranked_of (split_by (\<lambda>c. c = CHR '','') (the accept))))
        in case ranked of
             [] \<Rightarrow> DEFAULT_LANG
           | e # _ \<Rightarrow> (case isLang (hd (split_by (\<lambda>c. c = CHR ''-'') (rt_tag e))) of Some l \<Rightarrow> l | None \<Rightarrow> DEFAULT_LANG))"

definition client_keys :: "string list" where
  "client_keys =
    [''upload.js.queued'', ''upload.js.too_large'', ''upload.js.error'', ''upload.js.starting'', ''upload.js.resuming'', ''upload.js.retrying'',
     ''upload.js.done'', ''upload.js.finalising'', ''upload.js.cancelled'', ''upload.js.cancelled_local'',
     ''upload.js.status.uploading'', ''upload.js.status.complete'',
     ''upload.none_yet'', ''upload.list_failed'', ''common.copied'', ''common.copy_manual'', ''common.cancel'', ''common.retry'']"

definition clientMessages :: "dictionary \<Rightarrow> lang \<Rightarrow> (string \<times> text) list" where
  "clientMessages D lang = map (\<lambda>k. (k, t D lang k None)) client_keys"

end
