(* ===== verification/Html.thy ===== *)
theory Html
  imports I18n Totp Config
begin

text \<open>
  src/http/html.ts: the templates every page is written with. Interpolated values are escaped unless they
  are markup already; \<open>SafeHtml\<close> is a value of the type \<open>interp\<close> here, and the markup itself a \<open>text\<close>.
  The process-wide settings of the module (brand, asset version, release) are a record, and the locale
  formatting of a date, which is the platform's, is the argument \<open>local_date\<close>.
\<close>

section \<open>Escaping\<close>

definition ESCAPES :: "nat \<Rightarrow> text option" where
  "ESCAPES = map_of
    [(38, units ''&amp;''), (60, units ''&lt;''), (62, units ''&gt;''), (34, units ''&quot;''), (39, units ''&#39;'')]"

definition escape_unit :: "nat \<Rightarrow> text" where
  "escape_unit c = (case ESCAPES c of Some e \<Rightarrow> e | None \<Rightarrow> [c])"

definition escapeHtml :: "text \<Rightarrow> text" where
  "escapeHtml s = concat (map escape_unit s)"

datatype interp = IText "text" | INum int | IBool bool | INull | IRaw "text" | IList "interp list"

text \<open>\<open>escapeHtml\<close> of the text of a number or of \<open>true\<close> is that text.\<close>

fun render :: "interp \<Rightarrow> text" where
  "render INull = []"
| "render (IBool b) = (if b then escapeHtml (units ''true'') else [])"
| "render (IRaw v) = v"
| "render (IList vs) = concat (map render vs)"
| "render (IText s) = escapeHtml s"
| "render (INum n) = escapeHtml (units (string_of_int n))"

text \<open>A tagged template: literal, value, literal, value, and so on.\<close>

fun html :: "text list \<Rightarrow> interp list \<Rightarrow> text" where
  "html [] vs = []"
| "html (s # ss) [] = s @ html ss []"
| "html (s # ss) (v # vs) = s @ render v @ html ss vs"

text \<open>A literal of several lines.\<close>

definition lines_of :: "string list \<Rightarrow> text" where
  "lines_of ls = units (js_join [CHR 0x0A] ls)"

abbreviation lit :: "string \<Rightarrow> interp" where "lit s \<equiv> IText (units s)"

definition tHtml :: "dictionary \<Rightarrow> lang \<Rightarrow> string \<Rightarrow> (string \<times> interp) list \<Rightarrow> text" where
  "tHtml D lang key params =
     placeholders (\<lambda>name. case map_of params name of Some v \<Rightarrow> render v | None \<Rightarrow> keep_placeholder name)
       (escapeHtml (t D lang key None))"

section \<open>Dates\<close>

text \<open>\<open>toISOString\<close> of a time in the years 0 to 9999: the civil date of the proleptic Gregorian calendar.\<close>

definition pad2 :: "int \<Rightarrow> string" where
  "pad2 n = pad_start 2 (CHR ''0'') (string_of_int n)"

definition civil_date :: "int \<Rightarrow> int \<times> int \<times> int" where
  "civil_date days =
     (let z = days + 719468; era = z div 146097; doe = z mod 146097;
          yoe = (doe - doe div 1460 + doe div 36524 - doe div 146096) div 365;
          doy = doe - (365 * yoe + yoe div 4 - yoe div 100);
          mp = (5 * doy + 2) div 153;
          dd = doy - (153 * mp + 2) div 5 + 1;
          mm = (if mp < 10 then mp + 3 else mp - 9)
      in (yoe + era * 400 + (if mm \<le> 2 then 1 else 0), mm, dd))"

definition toISOString :: "time \<Rightarrow> string" where
  "toISOString ms =
     (case civil_date (ms div 86400000) of (y, mo, dd) \<Rightarrow>
        let r = ms mod 86400000
        in pad_start 4 (CHR ''0'') (string_of_int y) @ ''-'' @ pad2 mo @ ''-'' @ pad2 dd @ ''T'' @
           pad2 (r div 3600000) @ '':'' @ pad2 (r div 60000 mod 60) @ '':'' @ pad2 (r div 1000 mod 60) @ ''.'' @
           pad_start 3 (CHR ''0'') (string_of_int (r mod 1000)) @ ''Z'')"

definition fmtDate :: "(string \<Rightarrow> time \<Rightarrow> text) \<Rightarrow> time option \<Rightarrow> lang \<Rightarrow> text" where
  "fmtDate local_date moment lang =
     (case moment of
        None \<Rightarrow> [8212]
      | Some ms \<Rightarrow>
          html [units ''<time datetime=\"'', units ''\">'', units ''</time>'']
            [lit (toISOString ms), IText (local_date (dateLocale lang) ms @ units '' UTC'')])"

section \<open>JSON in a page\<close>

definition hex_unit_char :: "nat \<Rightarrow> nat" where
  "hex_unit_char n = (if n < 10 then 48 + n else 87 + n)"

definition u_escape :: "nat \<Rightarrow> text" where
  "u_escape c =
     [92, 117, hex_unit_char (c div 4096), hex_unit_char (c div 256 mod 16),
      hex_unit_char (c div 16 mod 16), hex_unit_char (c mod 16)]"

definition json_escape_unit :: "nat \<Rightarrow> text" where
  "json_escape_unit c =
     (case map_of [(34, 34), (92, 92), (8, 98), (12, 102), (10, 110), (13, 114), (9, 116)] c of
        Some e \<Rightarrow> [92, e]
      | None \<Rightarrow> if c < 32 then u_escape c else [c])"

text \<open>Surrogates are kept in pairs and escaped alone.\<close>

fun json_escape :: "text \<Rightarrow> text" where
  "json_escape [] = []"
| "json_escape (c # cs) =
     (if 55296 \<le> c \<and> c \<le> 57343
      then (case cs of
              d # ds \<Rightarrow> if c \<le> 56319 \<and> 56320 \<le> d \<and> d \<le> 57343 then c # d # json_escape ds
                       else u_escape c @ json_escape cs
            | [] \<Rightarrow> u_escape c)
      else json_escape_unit c @ json_escape cs)"

fun text_join :: "text \<Rightarrow> text list \<Rightarrow> text" where
  "text_join sep [] = []"
| "text_join sep [s] = s"
| "text_join sep (s # u # us) = s @ sep @ text_join sep (u # us)"

definition json_string :: "text \<Rightarrow> text" where
  "json_string s = [34] @ json_escape s @ [34]"

fun json_stringify :: "json \<Rightarrow> text" where
  "json_stringify JNull = units ''null''"
| "json_stringify (JBool b) = units (if b then ''true'' else ''false'')"
| "json_stringify (JNum n) = n"
| "json_stringify (JStr s) = json_string s"
| "json_stringify (JArr vs) = units ''['' @ text_join (units '','') (map json_stringify vs) @ units '']''"
| "json_stringify (JObj kvs) =
     units ''{'' @ text_join (units '','') (map (\<lambda>kv. json_string (fst kv) @ units '':'' @ json_stringify (snd kv)) kvs) @ units ''}''"

definition script_unit :: "nat \<Rightarrow> text" where
  "script_unit c = (if c = 60 \<or> c = 8232 \<or> c = 8233 then u_escape c else [c])"

definition jsonScript :: "string \<Rightarrow> json \<Rightarrow> text" where
  "jsonScript i data =
     units ''<script type=\"application/json\" id=\"'' @ escapeHtml (units i) @ units ''\">'' @
     concat (map script_unit (json_stringify data)) @ units ''</script>''"

section \<open>The page around the content\<close>

record chrome =
  ch_brand :: brand
  ch_assetVersion :: string
  ch_appVersion :: string

definition default_chrome :: chrome where
  "default_chrome =
     \<lparr>ch_brand = \<lparr>br_name = ''inletbox'', br_logoPath = None, br_colorPrimary = ''#1f6feb'', br_colorTopbar = ''#101418'',
        br_colorAccent = ''#1f6feb'', br_footerText = ''''\<rparr>,
      ch_assetVersion = ''dev'', ch_appVersion = ''0.0.0''\<rparr>"

definition setBrand :: "brand \<Rightarrow> chrome \<Rightarrow> chrome" where "setBrand b ch = ch\<lparr>ch_brand := b\<rparr>"
definition setAssetVersion :: "string \<Rightarrow> chrome \<Rightarrow> chrome" where "setAssetVersion v ch = ch\<lparr>ch_assetVersion := v\<rparr>"
definition setAppVersion :: "string \<Rightarrow> chrome \<Rightarrow> chrome" where "setAppVersion v ch = ch\<lparr>ch_appVersion := v\<rparr>"

definition asset :: "chrome \<Rightarrow> string \<Rightarrow> string" where
  "asset ch path = path @ ''?v='' @ ch_assetVersion ch"

record layout_options =
  lo_lang :: lang
  lo_title :: "text"
  lo_body :: "text"
  lo_scripts :: "string list"
  lo_nav :: "text option"
  lo_path :: "string option"

text \<open>An interpolation that is not there: \<open>''\<close>.\<close>

definition nothing :: interp where "nothing = IText []"

definition lang_item :: "lang \<Rightarrow> string \<Rightarrow> lang \<Rightarrow> interp" where
  "lang_item current next l =
     IRaw (if l = current
       then html [units ''<li><span class=\"lang-current\" lang=\"'', units ''\" aria-current=\"true\">'', units ''</span></li>'']
              [lit (lang_code l), IText (LANG_NAMES l)]
       else html [units ''<li><a href=\"/lang/'', units ''?next='', units ''\" hreflang=\"'', units ''\" lang=\"'', units ''\">'', units ''</a></li>'']
              [lit (lang_code l), lit (encodeURIComponent next), lit (lang_code l), lit (lang_code l), IText (LANG_NAMES l)])"

definition local_path :: "string option \<Rightarrow> string" where
  "local_path p =
     (case p of
        Some s \<Rightarrow> if starts_with ''/'' s \<and> \<not> starts_with ''//'' s then s else ''/''
      | None \<Rightarrow> ''/'')"

definition footer_text :: "dictionary \<Rightarrow> chrome \<Rightarrow> lang \<Rightarrow> text" where
  "footer_text D ch lang =
     (let b = ch_brand ch; tagline = t D lang ''app.tagline'' None
      in if br_footerText b \<noteq> [] then units (br_footerText b)
         else if br_name b = ''inletbox'' then tagline
         else units (br_name b) @ units '' '' @ [183] @ units '' '' @ tagline)"

definition layout :: "dictionary \<Rightarrow> chrome \<Rightarrow> layout_options \<Rightarrow> text" where
  "layout D ch opts =
     (let b = ch_brand ch; lang = lo_lang opts; msg = (\<lambda>k. IText (t D lang k None));
          next = local_path (lo_path opts);
          switcher = map (lang_item lang next) LANGS;
          scripts = map (\<lambda>s. IRaw (html [units ''<script src=\"'', units ''\" defer></script>''] [lit (asset ch s)]))
                      (''/static/time.js'' # lo_scripts opts)
      in html
        [lines_of [''<!doctype html>'', ''<html lang=\"''],
         lines_of [''\">'', ''<head>'', ''<meta charset=\"utf-8\">'',
           ''<meta name=\"viewport\" content=\"width=device-width, initial-scale=1\">'',
           ''<meta name=\"referrer\" content=\"no-referrer\">'', ''<title>''],
         units '' '' @ [183] @ units '' '',
         lines_of [''</title>'', ''<link rel=\"stylesheet\" href=\"''],
         lines_of [''\">'', ''<link rel=\"stylesheet\" href=\"/brand/theme.css\">'', ''''],
         lines_of ['''', ''</head>'', ''<body data-date-locale=\"''],
         units ''\" data-copied=\"'', units ''\" data-copy-manual=\"'',
         lines_of [''\">'', ''<header class=\"topbar\">'', ''  <div class=\"topbar-inner\">'', ''    <a class=\"brand\" href=\"''],
         units ''\">'',
         lines_of [''</a>'', ''    <div class=\"topbar-right\">'', ''      ''],
         lines_of ['''', ''      <!-- The project logo, opposite the operator's branding. Used unmodified, so it'',
           ''           brings its own white background; the top bar is dark in both themes and'',
           ''           neither brand colour is readable directly on it. -->'',
           ''      <img class=\"project-mark\" src=\"''],
         lines_of [''\" alt=\"inletbox\" title=\"inletbox\" width=\"59\" height=\"44\">'', ''    </div>'', ''  </div>'', ''</header>'',
           ''<main class=\"container\">'', ''''],
         lines_of ['''', ''</main>'', ''<footer class=\"footer\">''],
         units '' '' @ [183] @ units '' <span class=\"version\">inletbox v'',
         units ''</span> '' @ [183] @ units '' <details class=\"lang-switch\"><summary aria-label=\"'',
         units '': '', units ''\">'', units '' '' @ [183] @ units '' '',
         units ''</summary><ul>'',
         lines_of [''</ul></details></footer>'', ''''],
         lines_of ['''', ''</body>'', ''</html>'']]
        [lit (lang_code lang), IText (lo_title opts), lit (br_name b), lit (asset ch ''/static/style.css''),
         (if truthy (br_logoPath b) then IRaw (units ''<link rel=\"icon\" href=\"/brand/logo\">'') else nothing),
         lit (dateLocale lang), msg ''common.copied'', msg ''common.copy_manual'',
         lit (if lo_nav opts \<noteq> None then ''/admin'' else ''/''),
         (if truthy (br_logoPath b) then IRaw (html [units ''<img class=\"brand-logo\" src=\"/brand/logo\" alt=\"'', units ''\">''] [lit (br_name b)])
          else lit (br_name b)),
         (case lo_nav opts of Some nav \<Rightarrow> IRaw nav | None \<Rightarrow> nothing),
         lit (asset ch ''/static/inletbox-logo.png''), IRaw (lo_body opts),
         IText (footer_text D ch lang), lit (ch_appVersion ch),
         msg ''common.language'', IText (LANG_NAMES lang), lit (js_upper (lang_code lang)), IText (LANG_NAMES lang),
         IList switcher, IList scripts])"

section \<open>What a page can contain\<close>

text \<open>The characters that make markup, and the reading of the five entities.\<close>

definition markup :: "nat \<Rightarrow> bool" where
  "markup c \<longleftrightarrow> c \<in> {60, 62, 34, 39}"

definition entities :: "(text \<times> nat) list" where
  "entities = [(units ''amp;'', 38), (units ''lt;'', 60), (units ''gt;'', 62), (units ''quot;'', 34), (units ''#39;'', 39)]"

definition entity :: "text \<Rightarrow> (text \<times> nat) option" where
  "entity cs = find (\<lambda>(e, c). take (length e) cs = e) entities"

fun unescape :: "nat \<Rightarrow> text \<Rightarrow> text" where
  "unescape k [] = []"
| "unescape (Suc k) (c # cs) = unescape k cs"
| "unescape 0 (c # cs) =
     (if c = 38 then (case entity cs of Some (e, d) \<Rightarrow> d # unescape (length e) cs | None \<Rightarrow> c # unescape 0 cs)
      else c # unescape 0 cs)"

lemma escape_unit_cases:
  "escape_unit c =
     (if c = 38 then [38, 97, 109, 112, 59] else if c = 60 then [38, 108, 116, 59] else if c = 62 then [38, 103, 116, 59]
      else if c = 34 then [38, 113, 117, 111, 116, 59] else if c = 39 then [38, 35, 51, 57, 59] else [c])"
  by (simp add: escape_unit_def ESCAPES_def units_def code_def)

lemma entities_eq:
  "entities = [([97, 109, 112, 59], 38), ([108, 116, 59], 60), ([103, 116, 59], 62), ([113, 117, 111, 116, 59], 34), ([35, 51, 57, 59], 39)]"
  by (simp add: entities_def units_def code_def)

lemma unescape_skip: "unescape k s = unescape 0 (drop k s)"
  by (induction k s rule: unescape.induct) simp_all

lemma unescape_escape_unit: "unescape 0 (escape_unit c @ s) = c # unescape 0 s"
  by (simp add: escape_unit_cases entity_def entities_eq unescape_skip [of "numeral n" for n])

lemma escape_unit_plain: "list_all (\<lambda>x. \<not> markup x) (escape_unit c)"
  by (simp add: escape_unit_cases markup_def)

lemma escape_no_markup: "markup x \<Longrightarrow> x \<notin> set (escapeHtml s)"
  using escape_unit_plain unfolding escapeHtml_def by (fastforce simp: list_all_iff)

text \<open>C35: escaping loses nothing and leaves no markup: a reader of the entities gets the value back, and the escaped
  text holds no angle bracket and no quote.\<close>

theorem escapeHtml_roundtrip:
  "unescape 0 (escapeHtml s) = s \<and> set (escapeHtml s) \<inter> {60, 62, 34, 39} = {}"
proof
  show "unescape 0 (escapeHtml s) = s"
    by (induction s) (simp_all add: escapeHtml_def unescape_escape_unit)
qed (use escape_no_markup [unfolded markup_def] in blast)

text \<open>
  What an interpolation adds to the markup of a page: a value nothing, a piece of markup (the result of
  another template, the only other thing the views interpolate) its own.
\<close>

primrec bare :: "interp \<Rightarrow> interp" where
  "bare (IText s) = INull" | "bare (INum n) = INull" | "bare (IBool b) = INull" | "bare INull = INull"
| "bare (IRaw m) = IRaw (filter markup m)" | "bare (IList vs) = IList (map bare vs)"

lemma filter_escape: "filter markup (escapeHtml s) = []"
  using escape_no_markup by (auto simp: filter_empty_conv)

lemma render_bare: "filter markup (render (bare v)) = filter markup (render v)"
proof (induction v rule: render.induct)
  case (4 vs)
  then show ?case by (induction vs) simp_all
qed (simp_all add: filter_escape)

lemma html_bare: "filter markup (html ss (map bare vs)) = filter markup (html ss vs)"
  by (induction ss vs rule: html.induct) (simp_all add: render_bare)

lemma html_same: "map bare vs = map bare us \<Longrightarrow> filter markup (html ss vs) = filter markup (html ss us)"
  by (metis html_bare)

text \<open>Two pages with the same pieces of markup around which the layout writes its own, whatever else is in them.\<close>

definition same_pieces :: "chrome \<Rightarrow> layout_options \<Rightarrow> chrome \<Rightarrow> layout_options \<Rightarrow> bool" where
  "same_pieces c1 p1 c2 p2 \<longleftrightarrow>
     lo_lang p1 = lo_lang p2 \<and> filter markup (lo_body p1) = filter markup (lo_body p2) \<and>
     map_option (filter markup) (lo_nav p1) = map_option (filter markup) (lo_nav p2) \<and>
     length (lo_scripts p1) = length (lo_scripts p2) \<and> truthy (br_logoPath (ch_brand c1)) = truthy (br_logoPath (ch_brand c2))"

lemma lang_item_bare: "bare (lang_item cur n1 l) = bare (lang_item cur n2 l)"
  by (simp add: lang_item_def filter_escape)

lemma bare_map: "length xs = length ys \<Longrightarrow> (\<And>x y. bare (f x) = bare (g y)) \<Longrightarrow> map bare (map f xs) = map bare (map g ys)"
  by (induction xs ys rule: list_induct2) simp_all

lemma layout_same:
  assumes "same_pieces c1 p1 c2 p2" shows "filter markup (layout D1 c1 p1) = filter markup (layout D2 c2 p2)"
proof -
  have nav: "bare (case lo_nav p1 of Some nav \<Rightarrow> IRaw nav | None \<Rightarrow> nothing) = bare (case lo_nav p2 of Some nav \<Rightarrow> IRaw nav | None \<Rightarrow> nothing)"
    using assms by (auto simp: same_pieces_def split: option.splits)
  have logo: "bare (if q then IRaw (html ss [lit x]) else lit x) = bare (if q then IRaw (html ss [lit y]) else lit y)" for q ss x y
    using html_same [of "[lit x]" "[lit y]" ss] by simp
  have scripts: "map bare (map (\<lambda>s. IRaw (html ss [lit (asset c1 s)])) (x # lo_scripts p1)) =
      map bare (map (\<lambda>s. IRaw (html ss [lit (asset c2 s)])) (x # lo_scripts p2))" for ss x
  proof (rule bare_map)
    show "length (x # lo_scripts p1) = length (x # lo_scripts p2)" using assms by (simp add: same_pieces_def)
    show "bare (IRaw (html ss [lit (asset c1 s)])) = bare (IRaw (html ss [lit (asset c2 s')]))" for s s'
      using html_same [of "[lit (asset c1 s)]" "[lit (asset c2 s')]" ss] by simp
  qed
  have items: "map bare (map (lang_item (lo_lang p1) n1) LANGS) = map bare (map (lang_item (lo_lang p2) n2) LANGS)" for n1 n2
    using assms lang_item_bare [of "lo_lang p2" n1 _ n2] by (auto simp: same_pieces_def)
  have parts: "filter markup (lo_body p1) = filter markup (lo_body p2)" "truthy (br_logoPath (ch_brand c1)) = truthy (br_logoPath (ch_brand c2))"
    using assms by (simp_all add: same_pieces_def)
  have cons: "map bare [] = []" "map bare (v # vs) = bare v # map bare vs" for v vs by simp_all
  show ?thesis unfolding layout_def Let_def
    by (rule html_same) (simp only: cons bare.simps parts nav [unfolded nothing_def] items [of "local_path (lo_path p1)" "local_path (lo_path p2)"] scripts
      logo [of _ _ "br_name (ch_brand c1)" "br_name (ch_brand c2)"] nothing_def)
qed

text \<open>C36: the angle brackets and quotes of a page are those of its templates, in their order. In any template an
  interpolated text, number or truth value adds none; a nested piece of markup adds its own. So two pages of
  the site with the same language and pieces have the same markup, whatever the title, the name and footer
  of the brand, the versions, the path, the names of scripts and the messages of the dictionary are: no value
  opens a tag, closes one or leaves an attribute.\<close>

theorem markup_only_from_templates:
  assumes "same_pieces c1 p1 c2 p2"
  shows "filter markup (html ss vs) = filter markup (html ss (map bare vs)) \<and>
    filter markup (layout D1 c1 p1) = filter markup (layout D2 c2 p2)"
  using html_bare layout_same [OF assms] by metis

text \<open>A page whose title tries to close its element.\<close>

definition demo_page_options :: "text \<Rightarrow> layout_options" where
  "demo_page_options title = \<lparr>lo_lang = En, lo_title = title, lo_body = units ''<p>Hello</p>'', lo_scripts = [], lo_nav = None, lo_path = Some ''/''\<rparr>"

theorem markup_only_from_templates_witness:
  "\<forall>D. filter markup (layout D default_chrome (demo_page_options (units ''</title><script>alert(1)</script>''))) =
     filter markup (layout D default_chrome (demo_page_options []))"
proof -
  have "same_pieces default_chrome (demo_page_options (units ''</title><script>alert(1)</script>'')) default_chrome (demo_page_options [])"
    by (simp add: same_pieces_def demo_page_options_def)
  from markup_only_from_templates [OF this] show ?thesis by blast
qed

text \<open>The data of a script element cannot close it.\<close>

lemma jsonScript_two_tags: "filter (\<lambda>c. c = 60) (jsonScript i data) = [60, 60]"
proof -
  have "60 \<notin> set (concat (map script_unit xs))" for xs
    by (auto simp: script_unit_def u_escape_def hex_unit_char_def split: if_splits)
  then have payload: "filter (\<lambda>c. c = 60) (concat (map script_unit xs)) = []" for xs
    unfolding filter_empty_conv by blast
  have "60 \<notin> set (escapeHtml xs)" for xs by (rule escape_no_markup) (simp add: markup_def)
  then have ident: "filter (\<lambda>c. c = 60) (escapeHtml xs) = []" for xs
    unfolding filter_empty_conv by blast
  have "filter (\<lambda>c. c = 60) (units ''<script type=\"application/json\" id=\"'') = [60]"
    "filter (\<lambda>c. c = 60) (units ''\">'') = []" "filter (\<lambda>c. c = 60) (units ''</script>'') = [60]"
    by code_simp+
  then show ?thesis unfolding jsonScript_def filter_append payload ident by simp
qed
end
