(* ===== verification/Cleanup.thy ===== *)
theory Cleanup
  imports S3Store Quota
begin

text \<open>
  src/services/cleanup.ts: the housekeeping job that brings rows and stored objects back in step. It
  runs on any storage backend; \<open>tus_remove\<close> is \<open>remove\<close> of the tus data store. One reading of the clock
  stands for the ones of a run, and \<open>None\<close> is a sweep that does not return.
\<close>

section \<open>The job\<close>

record cleanup_report =
  rep_staleUploads :: nat
  rep_missingFiles :: nat
  rep_orphans :: nat
  rep_sessions :: nat

text \<open>Errors of both stores are swallowed.\<close>

definition discardUploadData :: "'s backend \<Rightarrow> (string \<Rightarrow> 's \<Rightarrow> unit result \<times> 's) \<Rightarrow> file_row \<Rightarrow> 's \<Rightarrow> 's" where
  "discardUploadData B tus_remove f s =
     (let s1 = (if f_upload_kind f = KTus then snd (tus_remove (f_id f) s) else s)
      in snd (bk_delete B (f_id f) s1))"

definition system_event :: "string \<Rightarrow> file_row \<Rightarrow> audit_event" where
  "system_event action f =
     \<lparr>ev_actorType = ActorSystem, ev_actorId = None, ev_action = action, ev_caseId = Some (f_case_id f),
      ev_linkId = Some (f_link_id f), ev_fileId = Some (f_id f), ev_ip = None, ev_details = None\<rparr>"

fun expire_loop ::
  "'s backend \<Rightarrow> (string \<Rightarrow> 's \<Rightarrow> unit result \<times> 's) \<Rightarrow> time \<Rightarrow> file_row list \<Rightarrow> nat \<Rightarrow> db \<Rightarrow> 's \<Rightarrow> nat \<times> db \<times> 's" where
  "expire_loop B tus_remove nw [] n d s = (n, d, s)"
| "expire_loop B tus_remove nw (f # fs) n d s =
     (let s1 = discardUploadData B tus_remove f s
      in case failUpload (f_id f) FailExpired d of
           (True, d1) \<Rightarrow> expire_loop B tus_remove nw fs (n + 1) (audit nw (system_event ''upload.expired'' f) d1) s1
         | (False, d1) \<Rightarrow> expire_loop B tus_remove nw fs n d1 s1)"

text \<open>A failing \<open>stat\<close> says nothing about the file, so it is skipped.\<close>

fun verify_loop_files :: "'s backend \<Rightarrow> time \<Rightarrow> file_row list \<Rightarrow> nat \<Rightarrow> db \<Rightarrow> 's \<Rightarrow> nat \<times> db" where
  "verify_loop_files B nw [] n d s = (n, d)"
| "verify_loop_files B nw (f # fs) n d s =
     (case bk_stat B (f_id f) s of
        Inr None \<Rightarrow>
          verify_loop_files B nw fs (n + 1) (audit nw (system_event ''file.missing'' f) (markMissing (f_id f) d)) s
      | _ \<Rightarrow> verify_loop_files B nw fs n d s)"

definition runCleanup ::
  "'s backend \<Rightarrow> (string \<Rightarrow> 's \<Rightarrow> unit result \<times> 's) \<Rightarrow> time \<Rightarrow> int \<Rightarrow> bool \<Rightarrow> db \<Rightarrow> 's \<Rightarrow> (cleanup_report \<times> db \<times> 's) option" where
  "runCleanup B tus_remove nw ttlMs verifyFiles d s =
     (case expire_loop B tus_remove nw (listStaleUploads nw ttlMs d) 0 d s of
        (stale, d1, s1) \<Rightarrow>
          (case (if verifyFiles then verify_loop_files B nw (listCompleteFiles d1) 0 d1 s1 else (0, d1)) of
             (missing, d2) \<Rightarrow>
               let live = liveStorageKeys d2
               in case bk_cleanupOrphans B nw ttlMs (\<lambda>k. k \<in> set live) s1 of
                    None \<Rightarrow> None
                  | Some (sw, s2) \<Rightarrow>
                    let orphans = (case sw of Inl _ \<Rightarrow> 0 | Inr n \<Rightarrow> n)
                    in case purgeExpiredSessions nw d2 of
                         (purged, d3) \<Rightarrow>
                           Some (\<lparr>rep_staleUploads = stale, rep_missingFiles = missing, rep_orphans = orphans, rep_sessions = purged\<rparr>, d3, s2)))"

section \<open>What the job does to rows\<close>

definition expire_row :: "string set \<Rightarrow> file_row \<Rightarrow> file_row" where
  "expire_row ids f = (if f_id f \<in> ids \<and> f_status f = Uploading then f\<lparr>f_status := Expired, f_reserved_bytes := 0\<rparr> else f)"

lemma files_failUpload: "files (snd (failUpload i FailExpired d)) = map (expire_row {i}) (files d)"
  by (simp add: failUpload_def Let_def update_where_def expire_row_def [abs_def] fail_as_def)

lemma expire_row_twice: "expire_row J \<circ> expire_row I = expire_row (I \<union> J)"
  by (auto simp: expire_row_def fun_eq_iff)

lemma audit_files [simp]: "files (audit nw ev d) = files d"
  by (simp add: audit_def)

lemma expire_loop_files: "files (fst (snd (expire_loop B tr nw fs n d s))) = map (expire_row (f_id ` set fs)) (files d)"
proof (induction fs arbitrary: n d s)
  case Nil
  show ?case by (simp add: expire_row_def [abs_def])
next
  case (Cons f fs)
  obtain b d1 where f: "failUpload (f_id f) FailExpired d = (b, d1)" by (cases "failUpload (f_id f) FailExpired d")
  then have "files d1 = map (expire_row {f_id f}) (files d)" using files_failUpload [of "f_id f" d] by simp
  with f Cons show ?case by (cases b) (simp_all add: Let_def expire_row_twice)
qed

definition miss_row :: "string set \<Rightarrow> file_row \<Rightarrow> file_row" where
  "miss_row ids f = (if f_id f \<in> ids \<and> f_status f = Complete then f\<lparr>f_status := Missing\<rparr> else f)"

lemma files_markMissing: "files (markMissing i d) = map (miss_row {i}) (files d)"
  by (simp add: markMissing_def update_where_def miss_row_def [abs_def])

lemma miss_row_twice: "miss_row J \<circ> miss_row I = miss_row (I \<union> J)"
  by (auto simp: miss_row_def fun_eq_iff)

definition gone :: "'s backend \<Rightarrow> 's \<Rightarrow> file_row \<Rightarrow> bool" where
  "gone B s f \<longleftrightarrow> bk_stat B (f_id f) s = Inr None"

lemma verify_files_rows:
  "files (snd (verify_loop_files B nw fs n d s)) = map (miss_row (f_id ` {f \<in> set fs. gone B s f})) (files d)"
proof (induction fs arbitrary: n d)
  case Nil
  show ?case by (simp add: miss_row_def [abs_def])
next
  case (Cons f fs)
  show ?case
  proof (cases "gone B s f")
    case True
    then have "{g \<in> set (f # fs). gone B s g} = insert f {g \<in> set fs. gone B s g}" by auto
    with True Cons show ?thesis by (simp add: gone_def files_markMissing miss_row_twice)
  next
    case False
    then have "{g \<in> set (f # fs). gone B s g} = {g \<in> set fs. gone B s g}" by auto
    with False Cons show ?thesis by (auto simp: gone_def split: sum.split option.split)
  qed
qed

lemma runCleanup_Some:
  assumes "runCleanup B tr nw ttl vf d s = Some (rep, d', s')"
  shows "\<exists>s1 sw d1. s1 = snd (snd (expire_loop B tr nw (listStaleUploads nw ttl d) 0 d s)) \<and>
    files d1 = map (expire_row (f_id ` set (listStaleUploads nw ttl d))) (files d) \<and>
    files d' = map (miss_row (if vf then f_id ` {f \<in> set (listCompleteFiles d1). gone B s1 f} else {})) (files d1) \<and>
    bk_cleanupOrphans B nw ttl (\<lambda>k. k \<in> set (liveStorageKeys d')) s1 = Some (sw, s')"
proof -
  obtain n1 d1 s1 where e: "expire_loop B tr nw (listStaleUploads nw ttl d) 0 d s = (n1, d1, s1)"
    by (cases "expire_loop B tr nw (listStaleUploads nw ttl d) 0 d s")
  obtain n2 d2 where v: "(if vf then verify_loop_files B nw (listCompleteFiles d1) 0 d1 s1 else (0, d1)) = (n2, d2)"
    by (cases "if vf then verify_loop_files B nw (listCompleteFiles d1) 0 d1 s1 else (0, d1)")
  have f1: "files d1 = map (expire_row (f_id ` set (listStaleUploads nw ttl d))) (files d)"
    using expire_loop_files [of B tr nw "listStaleUploads nw ttl d" 0 d s] e by simp
  have id: "map (miss_row {}) xs = xs" for xs by (simp add: miss_row_def map_idI)
  have f2: "files d2 = map (miss_row (if vf then f_id ` {f \<in> set (listCompleteFiles d1). gone B s1 f} else {})) (files d1)"
    using v verify_files_rows [of B nw "listCompleteFiles d1" 0 d1 s1] id by (cases vf) (auto simp: id)
  obtain r where sw: "bk_cleanupOrphans B nw ttl (\<lambda>k. k \<in> set (liveStorageKeys d2)) s1 = Some (r, s')"
      and d': "d' = snd (purgeExpiredSessions nw d2)"
    using assms e v by (auto simp: runCleanup_def Let_def split: option.splits prod.splits)
  have "files d' = files d2" by (simp add: d' purgeExpiredSessions_def)
  moreover from this have "liveStorageKeys d' = liveStorageKeys d2" by (simp add: liveStorageKeys_def)
  ultimately show ?thesis using e f1 f2 sw by auto
qed

section \<open>What the job does to stored objects\<close>

text \<open>The tus store's part: it removes at most the data of the upload it is asked to remove.\<close>

definition removes_only :: "('s \<Rightarrow> bool) \<Rightarrow> ('s \<Rightarrow> string \<Rightarrow> byte list option) \<Rightarrow> (string \<Rightarrow> 's \<Rightarrow> unit result \<times> 's) \<Rightarrow> bool" where
  "removes_only good obj tr \<longleftrightarrow> (\<forall>i s. good s \<longrightarrow> good (snd (tr i s)) \<and> (\<forall>k. k \<noteq> i \<longrightarrow> obj (snd (tr i s)) k = obj s k))"

lemma mem_map: "x \<in> set xs \<Longrightarrow> h x = y \<Longrightarrow> y \<in> set (map h xs)"
  by auto

context storage_contract
begin

lemma discard_one:
  assumes "good s" "removes_only good obj tr"
  shows "good (discardUploadData B tr f s) \<and> (\<forall>k. k \<noteq> f_id f \<longrightarrow> obj (discardUploadData B tr f s) k = obj s k)"
proof -
  let ?s1 = "if f_upload_kind f = KTus then snd (tr (f_id f) s) else s"
  have s1: "good ?s1" "\<forall>k. k \<noteq> f_id f \<longrightarrow> obj ?s1 k = obj s k" using assms by (auto simp: removes_only_def)
  have "bk_delete B (f_id f) ?s1 = (fst (bk_delete B (f_id f) ?s1), discardUploadData B tr f s)"
    by (simp add: discardUploadData_def Let_def)
  from delete_one [OF s1(1) this] s1(2) show ?thesis by metis
qed

lemma expire_loop_objs:
  "good s \<Longrightarrow> removes_only good obj tr \<Longrightarrow>
   good (snd (snd (expire_loop B tr nw fs n d s))) \<and>
   (\<forall>k. k \<notin> f_id ` set fs \<longrightarrow> obj (snd (snd (expire_loop B tr nw fs n d s))) k = obj s k)"
proof (induction fs arbitrary: n d s)
  case (Cons f fs)
  note one = discard_one [OF Cons.prems, of f]
  from Cons.IH one Cons.prems(2) show ?case by (auto simp: Let_def split: prod.split bool.split)
qed simp

lemma cleanup_keeps:
  assumes "good s" "removes_only good obj tr" and ids: "distinct (map f_id (files d))" and run: "runCleanup B tr nw ttl vf d s = Some (rep, d', s')"
    and row: "f' \<in> set (files d')" "f_status f' = Uploading \<or> f_status f' = Complete"
  shows "f' \<in> set (files d) \<and> obj s' (f_id f') = obj s (f_id f') \<and>
    (f_status f' = Uploading \<longrightarrow> nw - ttl \<le> f_created_at f') \<and>
    (vf \<and> f_status f' = Complete \<and> (\<exists>n. bk_stat B (f_id f') (snd (snd (expire_loop B tr nw (listStaleUploads nw ttl d) 0 d s))) = Inr n) \<longrightarrow>
      obj s' (f_id f') \<noteq> None)"
proof -
  let ?stale = "listStaleUploads nw ttl d" and ?s1 = "snd (snd (expire_loop B tr nw (listStaleUploads nw ttl d) 0 d s))"
  obtain d1 sw where f1: "files d1 = map (expire_row (f_id ` set ?stale)) (files d)"
      and f2: "files d' = map (miss_row (if vf then f_id ` {f \<in> set (listCompleteFiles d1). gone B ?s1 f} else {})) (files d1)"
      and sweep: "bk_cleanupOrphans B nw ttl (\<lambda>k. k \<in> set (liveStorageKeys d')) ?s1 = Some (sw, s')"
    using runCleanup_Some [OF run] by blast
  note s1 = expire_loop_objs [OF assms(1,2), of nw ?stale 0 d]
  obtain f where f: "f \<in> set (files d)"
      "f' = miss_row (if vf then f_id ` {f \<in> set (listCompleteFiles d1). gone B ?s1 f} else {}) (expire_row (f_id ` set ?stale) f)"
    using row(1) f1 f2 by auto
  have same: "f' = f" using row(2) f(2) by (auto simp: miss_row_def expire_row_def split: if_splits)
  have fresh: "f_id f \<notin> f_id ` set ?stale"
  proof
    assume "f_id f \<in> f_id ` set ?stale"
    then obtain g where g: "g \<in> set (files d)" "f_status g = Uploading" "f_id g = f_id f" "g \<in> set ?stale"
      by (auto simp: listStaleUploads_def)
    then have "g = f" using distinct_key_eq [OF ids] f(1) by metis
    with g f(2) row(2) show False by (auto simp: expire_row_def miss_row_def split: if_splits)
  qed
  have live: "f_id f' \<in> set (liveStorageKeys d')" using row by (auto simp: liveStorageKeys_def)
  have keep: "obj s' (f_id f') = obj ?s1 (f_id f')" using sweep_keeps [OF _ sweep] s1 live by blast
  with s1 fresh same have "obj s' (f_id f') = obj s (f_id f')" by simp
  moreover have "f_status f' = Uploading \<longrightarrow> nw - ttl \<le> f_created_at f'"
    using fresh f(1) same by (force simp: listStaleUploads_def)
  moreover have "obj s' (f_id f') \<noteq> None" if vf: "vf" and c: "f_status f' = Complete" and st: "bk_stat B (f_id f') ?s1 = Inr n" for n
  proof -
    have "f' \<in> set (listCompleteFiles d1)"
      using f(1) fresh same c f1 by (force simp: listCompleteFiles_def expire_row_def)
    moreover have "f_id f' \<notin> f_id ` {f \<in> set (listCompleteFiles d1). gone B ?s1 f}"
    proof
      assume *: "f_id f' \<in> f_id ` {f \<in> set (listCompleteFiles d1). gone B ?s1 f}"
      have "expire_row (f_id ` set ?stale) f = f" using fresh by (simp add: expire_row_def)
      with f(2) vf * c same have "f' = f\<lparr>f_status := Missing\<rparr>" by (simp add: miss_row_def)
      with c same show False by (metis file_status.distinct(9) file_row.select_convs(6) file_row.update_convs(6) file_row.surjective file_status.distinct)
    qed
    ultimately have "\<not> gone B ?s1 f'" by blast
    with st have "n \<noteq> None" by (auto simp: gone_def)
    with st s1 stat_found [of ?s1 "f_id f'"] keep show ?thesis by fastforce
  qed
  ultimately show ?thesis using f(1) same by blast
qed

text \<open>The other direction: what was there before a run and counts is there after it.\<close>

lemma cleanup_survives:
  assumes "good s" "removes_only good obj tr" and ids: "distinct (map f_id (files d))" and run: "runCleanup B tr nw ttl vf d s = Some (rep, d', s')"
    and f: "f \<in> set (files d)"
    and counts: "(f_status f = Uploading \<and> \<not> f_created_at f < nw - ttl) \<or> (f_status f = Complete \<and> \<not> (vf \<and> obj s (f_id f) = None))"
  shows "f \<in> set (files d') \<and> obj s' (f_id f) = obj s (f_id f)"
proof -
  let ?stale = "listStaleUploads nw ttl d" and ?s1 = "snd (snd (expire_loop B tr nw (listStaleUploads nw ttl d) 0 d s))"
  obtain d1 sw where f1: "files d1 = map (expire_row (f_id ` set ?stale)) (files d)"
      and f2: "files d' = map (miss_row (if vf then f_id ` {f \<in> set (listCompleteFiles d1). gone B ?s1 f} else {})) (files d1)"
      and sweep: "bk_cleanupOrphans B nw ttl (\<lambda>k. k \<in> set (liveStorageKeys d')) ?s1 = Some (sw, s')"
    using runCleanup_Some [OF run] by blast
  note s1 = expire_loop_objs [OF assms(1,2), of nw ?stale 0 d]
  have fresh: "f_id f \<notin> f_id ` set ?stale"
  proof
    assume "f_id f \<in> f_id ` set ?stale"
    then obtain g where "g \<in> set (files d)" "f_status g = Uploading" "f_created_at g < nw - ttl" "f_id g = f_id f"
      by (auto simp: listStaleUploads_def)
    moreover from this have "g = f" using distinct_key_eq [OF ids] f by metis
    ultimately show False using counts by simp
  qed
  then have same: "obj ?s1 (f_id f) = obj s (f_id f)" using s1 by blast
  have "expire_row (f_id ` set ?stale) f = f" using fresh by (simp add: expire_row_def)
  then have in1: "f \<in> set (files d1)" unfolding f1 by (rule mem_map [OF f])
  have "\<not> (vf \<and> f_status f = Complete \<and> gone B ?s1 g)" if "f_id g = f_id f" for g
    using counts stat_missing [of ?s1 "f_id f"] s1 same that by (auto simp: gone_def)
  then have "miss_row (if vf then f_id ` {f \<in> set (listCompleteFiles d1). gone B ?s1 f} else {}) f = f"
    unfolding miss_row_def by (smt (verit) empty_iff imageE mem_Collect_eq)
  then have in2: "f \<in> set (files d')" unfolding f2 by (rule mem_map [OF in1])
  then have "f_id f \<in> set (liveStorageKeys d')" using counts by (auto simp: liveStorageKeys_def)
  then show ?thesis using in2 same sweep_keeps [OF _ sweep] s1 by auto
qed

end

lemma cleanup_expires:
  assumes "runCleanup B tr nw ttl vf d s = Some (rep, d', s')" "f \<in> set (files d)" "f_status f = Uploading" "f_created_at f < nw - ttl"
  shows "f\<lparr>f_status := Expired, f_reserved_bytes := 0\<rparr> \<in> set (files d')"
proof -
  let ?x = "f\<lparr>f_status := Expired, f_reserved_bytes := 0\<rparr>" and ?ids = "f_id ` set (listStaleUploads nw ttl d)"
  obtain s1 sw d1 where f1: "files d1 = map (expire_row ?ids) (files d)"
      and f2: "files d' = map (miss_row (if vf then f_id ` {f \<in> set (listCompleteFiles d1). gone B s1 f} else {})) (files d1)"
    using runCleanup_Some [OF assms(1)] by blast
  have "f_id f \<in> ?ids" using assms(2-4) by (auto simp: listStaleUploads_def)
  then have "?x \<in> set (files d1)" unfolding f1 using assms(3) by (intro mem_map [OF assms(2)]) (simp add: expire_row_def)
  then show ?thesis unfolding f2 by (rule mem_map) (simp add: miss_row_def)
qed

text \<open>C12: housekeeping keeps the data that counts, on either kind of storage. An upload in progress that is not older
  than the limit, and a completed file whose object exists, has the same row after a run and its stored
  object is untouched; an older upload in progress is expired with nothing reserved. And nothing else comes
  to count: what is in progress or complete after a run was so before, with the same row and object, and a
  completed file that could be checked has its object.\<close>

theorem cleanup_keeps_data:
  assumes "storage_contract B C obj good" and "good s" and "removes_only good obj tr" and "distinct (map f_id (files d))"
    and "runCleanup B tr nw ttl vf d s = Some (rep, d', s')" and "f \<in> set (files d)"
  shows "(f_status f = Uploading \<longrightarrow>
      (if f_created_at f < nw - ttl then f\<lparr>f_status := Expired, f_reserved_bytes := 0\<rparr> \<in> set (files d')
       else f \<in> set (files d') \<and> obj s' (f_id f) = obj s (f_id f))) \<and>
    (f_status f = Complete \<and> obj s (f_id f) \<noteq> None \<longrightarrow> f \<in> set (files d') \<and> obj s' (f_id f) = obj s (f_id f)) \<and>
    (\<forall>g \<in> set (files d'). f_status g = Uploading \<or> f_status g = Complete \<longrightarrow> g \<in> set (files d) \<and> obj s' (f_id g) = obj s (f_id g) \<and>
       (vf \<and> f_status g = Complete \<and> (\<exists>n. bk_stat B (f_id g) (snd (snd (expire_loop B tr nw (listStaleUploads nw ttl d) 0 d s))) = Inr n) \<longrightarrow>
          obj s' (f_id g) \<noteq> None))"
proof (intro conjI)
  note survives = storage_contract.cleanup_survives [OF assms] and expires = cleanup_expires [OF assms(5,6)]
  show "f_status f = Uploading \<longrightarrow>
      (if f_created_at f < nw - ttl then f\<lparr>f_status := Expired, f_reserved_bytes := 0\<rparr> \<in> set (files d')
       else f \<in> set (files d') \<and> obj s' (f_id f) = obj s (f_id f))"
    "f_status f = Complete \<and> obj s (f_id f) \<noteq> None \<longrightarrow> f \<in> set (files d') \<and> obj s' (f_id f) = obj s (f_id f)"
    using survives expires by auto
qed (use storage_contract.cleanup_keeps [OF assms(1-5)] in blast)

section \<open>Example\<close>

definition demo_row :: "string \<Rightarrow> file_status \<Rightarrow> file_row" where
  "demo_row i st =
     \<lparr>f_id = i, f_case_id = ''c'', f_link_id = ''l'', f_original_name = ''n'', f_upload_kind = KTus, f_status = st,
      f_declared_size = None, f_reserved_bytes = 0, f_size = None, f_sha256 = None, f_client_ip = None, f_created_at = 0,
      f_completed_at = None, f_deleted_at = None\<rparr>"

definition demo_rows :: db where
  "demo_rows = empty_db\<lparr>files := [demo_row ''f_bbbbbbbbbbbbbbbb'' Uploading, demo_row demo_key Complete,
     (demo_row ''f_cccccccccccccccc'' Uploading)\<lparr>f_created_at := 45\<rparr>]\<rparr>"

theorem cleanup_keeps_data_witness:
  "\<exists>rep d' s'. runCleanup (local_backend demo_crypto ''/'' ''/data'') (\<lambda>i s. (Inr (), s)) 50 10 True demo_rows demo_dir = Some (rep, d', s') \<and>
     rep_staleUploads rep = 1 \<and> local_obj s' demo_key = Some [7] \<and>
     map f_status (files d') = [Expired, Complete, Uploading] \<and> demo_rows\<lparr>files := tl (files demo_rows)\<rparr> = demo_rows\<lparr>files := tl (files d')\<rparr>"
proof -
  let ?run = "runCleanup (local_backend demo_crypto ''/'' ''/data'') (\<lambda>i s. (Inr (), s)) 50 10 True demo_rows demo_dir"
  have "case ?run of None \<Rightarrow> False | Some (rep, d', s') \<Rightarrow> rep_staleUploads rep = 1 \<and> map f_status (files d') = [Expired, Complete, Uploading] \<and>
      files d' = hd (files d') # tl (files demo_rows)"
    by code_simp
  then obtain rep d' s' where run: "?run = Some (rep, d', s')" and one: "rep_staleUploads rep = 1"
    "map f_status (files d') = [Expired, Complete, Uploading]" "files d' = hd (files d') # tl (files demo_rows)"
    by (auto split: option.splits)
  have "fs_ok demo_dir" by (simp add: fs_ok_def demo_dir_def)
  moreover have "removes_only fs_ok local_obj (\<lambda>i s. (Inr (), s))" by (simp add: removes_only_def)
  moreover have "distinct (map f_id (files demo_rows))" by code_simp
  moreover have "f_status (demo_row demo_key Complete) = Complete" "f_id (demo_row demo_key Complete) = demo_key" by (simp_all add: demo_row_def)
  moreover have "demo_row demo_key Complete \<in> set (files demo_rows)" by (simp add: demo_rows_def)
  moreover have obj: "local_obj demo_dir demo_key = Some [7]" by code_simp
  ultimately have "local_obj s' demo_key = Some [7]"
    using cleanup_keeps_data [OF dir.storage_contract_axioms _ _ _ run, of "demo_row demo_key Complete"] by auto
  moreover have "tl (files d') = tl (files demo_rows)" using one(3) by (metis list.sel(3))
  ultimately show ?thesis using run one by auto
qed

end
