(* ===== verification/Pages.thy ===== *)
theory Pages
  imports Html Sessions Cleanup
begin

text \<open>
  What the pages of src/http/views are given to show, one constructor per view and its data. A handler
  answers with a page; the theories of the views say what a page looks like.
\<close>

text \<open>\<open>AdminViewContext\<close>.\<close>

record view_ctx =
  vc_lang :: lang
  vc_csrfToken :: string
  vc_username :: string
  vc_path :: string
  vc_role :: role
  vc_userId :: string

record totp_login_data =
  tl_csrfToken :: string
  tl_error :: "text option"
  tl_attemptsLeft :: "int option"
  tl_lockedUntil :: "time option"
  tl_passkey :: bool
  tl_totp :: bool
  tl_codes :: bool

record confirm_data =
  cd_lang :: lang
  cd_nav :: view_ctx
  cd_csrfToken :: string
  cd_next :: string
  cd_minutes :: int
  cd_passkey :: bool
  cd_codes :: bool
  cd_password :: bool
  cd_error :: "text option"

text \<open>An enrolment under way: the QR code (the qrcode package draws it), the secret and the URI.\<close>

record enrolment =
  en_qrSvg :: "text"
  en_secret :: string
  en_uri :: string

text \<open>What a handler adds to the security page: \<open>Partial<SecurityPageData>\<close>.\<close>

record security_extra =
  se_error :: "text option"
  se_ok :: "text option"
  se_recoveryCodes :: "string list option"

definition no_extra :: security_extra where
  "no_extra = \<lparr>se_error = None, se_ok = None, se_recoveryCodes = None\<rparr>"

record security_data =
  sp_lang :: lang
  sp_csrfToken :: string
  sp_username :: string
  sp_nav :: view_ctx
  sp_totpEnabled :: bool
  sp_totpRequired :: bool
  sp_issuer :: string
  sp_recoveryLeft :: nat
  sp_passkeys :: "passkey list"
  sp_sessions :: "session_summary list"
  sp_mustChangePassword :: bool
  sp_enrol :: "enrolment option"
  sp_extra :: security_extra

record case_page_data =
  cp_case :: case_row
  cp_links :: "(link_row \<times> link_usage) list"
  cp_files :: "(file_row \<times> string) list"
  cp_cfg :: config
  cp_members :: "case_member list"
  cp_assignable :: "case_member list"
  cp_newLink :: "(string \<times> string) option"
  cp_error :: "text option"
  cp_ok :: "text option"

record issued_password =
  ip_username :: string
  ip_password :: string
  ip_reset :: bool

record users_page_data =
  up_users :: "user_summary list"
  up_issued :: "issued_password option"
  up_error :: "text option"
  up_ok :: "text option"

record upload_page_data =
  ud_lang :: lang
  ud_cfg :: config
  ud_case :: case_row
  ud_link :: link_row
  ud_limits :: effective_limits
  ud_usage :: link_usage
  ud_token :: string
  ud_path :: string

datatype page =
    HomePage lang
  | LoginPage lang "text option"
  | TotpLoginPage lang totp_login_data
  | ConfirmPage confirm_data
  | SecurityPage security_data
  | CasesPage view_ctx "case_summary list" "text option"
  | CasePage view_ctx case_page_data
  | UsersPage view_ctx users_page_data
  | AuditPage view_ctx "audit_view list"
  | ErrorPage lang "text" "text" int string string
  | LinkUnavailablePage lang "text" "text"
  | UploadPage upload_page_data

end
