(* ===== verification/Http.thy ===== *)
theory Http
  imports Pages
begin

text \<open>
  src/http/context.ts and src/http/middleware.ts: requests and answers as the handlers see them, cookies,
  sessions, the gates of the panel, CSRF protection and the authentication of upload links. Express is
  third-party code: a \<open>request\<close> is what its parsers give a handler (a header, a query or a form field that
  is not one string is \<open>FOther\<close>), a middleware that calls \<open>next()\<close> hands over to its continuation.
\<close>

section \<open>Requests and answers\<close>

datatype field = FText string | FOther

record request =
  rq_method :: string
  rq_path :: string
  rq_originalUrl :: string
  rq_query :: "string \<Rightarrow> field option"
  rq_body :: "string \<Rightarrow> field option"
  rq_headers :: "string \<Rightarrow> string option"
  rq_ip :: "string option"
  rq_protocol :: string
  rq_lang :: lang
  rq_session :: "session option"
  rq_sessionId :: "string option"
  rq_uploadLink :: "resolved_link option"
  rq_uploadToken :: "string option"

datatype content =
    NoContent
  | PlainText "text"
  | HtmlPage page
  | JsonText json
  | Attachment "byte list"

record response =
  rs_status :: int
  rs_headers :: "(string \<times> string list) list"
  rs_content :: content

definition answer :: "int \<Rightarrow> content \<Rightarrow> response" where
  "answer status c = \<lparr>rs_status = status, rs_headers = [], rs_content = c\<rparr>"

definition setHeader :: "string \<Rightarrow> string list \<Rightarrow> response \<Rightarrow> response" where
  "setHeader name vs r = r\<lparr>rs_headers := obj_set name vs (rs_headers r)\<rparr>"

definition redirect :: "int \<Rightarrow> string \<Rightarrow> response" where
  "redirect status target = setHeader ''Location'' [target] (answer status NoContent)"

definition json_error :: "int \<Rightarrow> string \<Rightarrow> text \<Rightarrow> response" where
  "json_error status c message =
     answer status (JsonText (JObj [(units ''error'', JStr (units c)), (units ''message'', JStr message)]))"

text \<open>
  What the process knows: the configuration, \<open>node:crypto\<close>, the dictionaries, \<open>origin\<close> and \<open>hostname\<close> that
  \<open>new URL\<close> gives for a valid URL, whether the rate limiter of express-rate-limit refuses a request, the hash
  \<open>authenticate\<close> compares with for an unknown name, the QR code the qrcode package draws, and the moment
  \<open>new Date\<close> reads from a text. \<open>AppContext\<close> also holds the storage, which the operations that use it take
  as an argument.
\<close>

record limit_options =
  lim_windowMs :: int
  lim_limit :: jsnum
  lim_counts :: "int \<Rightarrow> bool"
  lim_message :: content

record app =
  ap_cfg :: config
  ap_crypto :: node_crypto
  ap_dict :: dictionary
  ap_origin :: "string \<Rightarrow> string"
  ap_hostname :: "string \<Rightarrow> string"
  ap_limited :: "limit_options \<Rightarrow> request \<Rightarrow> bool"
  ap_dummyHash :: string
  ap_qrSvg :: "string \<Rightarrow> text"
  ap_parseDate :: "string \<Rightarrow> time option"

definition SESSION_COOKIE :: string where "SESSION_COOKIE = ''inletbox_sid''"
definition BOUND_COOKIE :: string where "BOUND_COOKIE = ''inletbox_bound''"

definition is_get :: "request \<Rightarrow> bool" where
  "is_get req \<longleftrightarrow> rq_method req = ''GET'' \<or> rq_method req = ''HEAD''"

definition field_text :: "field option \<Rightarrow> string option" where
  "field_text v = (case v of Some (FText s) \<Rightarrow> Some s | _ \<Rightarrow> None)"

section \<open>Cookies\<close>

text \<open>One part of a \<open>Cookie\<close> header; a later cookie of the same name replaces an earlier one.\<close>

definition cookie_of :: "string \<Rightarrow> (string \<times> string) option" where
  "cookie_of piece =
     (let idx = index_of (CHR ''='') piece
      in if idx < 0 then None
         else
           let k = js_trim (take (nat idx) piece); v = js_trim (drop (Suc (nat idx)) piece)
           in if k = [] then None
              else case decodeURIComponent v of None \<Rightarrow> None | Some w \<Rightarrow> Some (k, w))"

fun parse_parts :: "string list \<Rightarrow> (string \<Rightarrow> string option) \<Rightarrow> string \<Rightarrow> string option" where
  "parse_parts [] m = m"
| "parse_parts (p # ps) m = parse_parts ps (case cookie_of p of None \<Rightarrow> m | Some (k, v) \<Rightarrow> m(k \<mapsto> v))"

definition parseCookies :: "string option \<Rightarrow> string \<Rightarrow> string option" where
  "parseCookies header =
     (if truthy header then parse_parts (split_by (\<lambda>c. c = CHR '';'') (the header)) Map.empty else Map.empty)"

definition cookie_text :: "string list \<Rightarrow> bool \<Rightarrow> string" where
  "cookie_text parts secure = js_join ''; '' (parts @ (if secure then [''Secure''] else []))"

definition sessionCookie :: "app \<Rightarrow> string \<Rightarrow> int \<Rightarrow> string" where
  "sessionCookie A v maxAgeSec =
     cookie_text [SESSION_COOKIE @ ''='' @ encodeURIComponent v, ''Path=/'', ''HttpOnly'', ''SameSite=Lax'', ''Max-Age='' @ string_of_int maxAgeSec]
       (cf_cookieSecure (ap_cfg A))"

definition langCookie :: "app \<Rightarrow> string \<Rightarrow> string" where
  "langCookie A lang =
     cookie_text [LANG_COOKIE @ ''='' @ lang, ''Path=/'', ''SameSite=Lax'', ''Max-Age='' @ string_of_int (365 * 24 * 3600)]
       (cf_cookieSecure (ap_cfg A))"

section \<open>Language and session of a request\<close>

definition languageMiddleware :: "request \<Rightarrow> request" where
  "languageMiddleware req =
     req\<lparr>rq_lang :=
       (case Option.bind (parseCookies (rq_headers req ''cookie'') LANG_COOKIE) isLang of
          Some l \<Rightarrow> l
        | None \<Rightarrow> negotiateLang (rq_headers req ''accept-language''))\<rparr>"

definition sessionMiddleware :: "app \<Rightarrow> time \<Rightarrow> request \<Rightarrow> db \<Rightarrow> request \<times> db" where
  "sessionMiddleware A nw req d =
     (let cookies = parseCookies (rq_headers req ''cookie'');
          anonymous = req\<lparr>rq_session := None, rq_sessionId := None\<rparr>
      in if \<not> truthy (cookies SESSION_COOKIE) then (anonymous, d)
         else
           let sid = the (cookies SESSION_COOKIE)
           in case getSession (ap_crypto A) nw sid d of
                (None, d1) \<Rightarrow> (anonymous, d1)
              | (Some s, d1) \<Rightarrow>
                  if checkBoundCookie (ap_crypto A) nw d1 sid (cookies BOUND_COOKIE) = BoundRejected then (anonymous, d1)
                  else (req\<lparr>rq_session := Some s, rq_sessionId := Some sid\<rparr>, d1))"

text \<open>The line \<open>requestLogger\<close> writes when the answer is finished, without its time and status.\<close>

definition logged_path :: "request \<Rightarrow> string" where
  "logged_path req = redact (rq_path req)"

section \<open>The gates of the panel\<close>

text \<open>A gate answers itself or hands over to what follows.\<close>

definition requireAdmin :: "bool \<Rightarrow> request \<Rightarrow> response option" where
  "requireAdmin verified req =
     (case rq_session req of
        Some s \<Rightarrow>
          if \<not> verified \<or> sv_totp_verified s then None
          else if is_get req then Some (redirect 302 ''/admin/totp'')
          else Some (answer 401 (PlainText (units ''Unauthorized'')))
      | None \<Rightarrow>
          if is_get req then Some (redirect 302 ''/admin/login'')
          else Some (answer 401 (PlainText (units ''Unauthorized''))))"

definition recently_confirmed :: "time \<Rightarrow> request \<Rightarrow> bool" where
  "recently_confirmed nw req \<longleftrightarrow>
     (case Option.bind (rq_session req) sv_confirmed_until of None \<Rightarrow> False | Some until \<Rightarrow> nw < until)"

definition requireConfirmed :: "time \<Rightarrow> string \<Rightarrow> request \<Rightarrow> response option" where
  "requireConfirmed nw back req =
     (if recently_confirmed nw req then None
      else
        let target = (if is_get req then rq_originalUrl req else back)
        in Some (redirect 303 (''/admin/confirm?next='' @ encodeURIComponent target)))"

definition safeNext :: "field option \<Rightarrow> string" where
  "safeNext v =
     (case field_text v of
        None \<Rightarrow> ''/admin''
      | Some s \<Rightarrow>
          if starts_with ''/admin'' s \<and> \<not> starts_with ''//'' s \<and> \<not> list_ex (\<lambda>c. c = CHR 0x5C \<or> c = CHR 0x0D \<or> c = CHR 0x0A) s
          then s else ''/admin'')"

definition same_site :: "app \<Rightarrow> request \<Rightarrow> bool" where
  "same_site A req \<longleftrightarrow>
     (let fetchSite = rq_headers req ''sec-fetch-site''; origin = rq_headers req ''origin'';
          host = (case rq_headers req ''host'' of Some h \<Rightarrow> h | None \<Rightarrow> ''undefined'')
      in (truthy fetchSite \<longrightarrow> the fetchSite \<in> {''same-origin'', ''none''}) \<and>
         (truthy origin \<longrightarrow>
            the origin = ''null'' \<or> the origin = ap_origin A (cf_publicUrl (ap_cfg A)) \<or>
            the origin = rq_protocol req @ ''://'' @ host))"

definition csrf_token_ok :: "request \<Rightarrow> bool" where
  "csrf_token_ok req \<longleftrightarrow>
     (case (rq_session req, field_text (rq_body req ''_csrf'')) of
        (Some s, Some token) \<Rightarrow> safeEqual token (sv_csrf_token s)
      | _ \<Rightarrow> False)"

definition csrfProtect :: "app \<Rightarrow> request \<Rightarrow> response option" where
  "csrfProtect A req =
     (if rq_method req \<in> {''GET'', ''HEAD'', ''OPTIONS''} then None
      else if \<not> same_site A req then Some (answer 403 (PlainText (t (ap_dict A) (rq_lang req) ''error.cross_site'' None)))
      else if \<not> csrf_token_ok req then Some (answer 403 (PlainText (t (ap_dict A) (rq_lang req) ''error.csrf'' None)))
      else None)"

section \<open>Rate limits\<close>

definition too_many :: "string \<Rightarrow> content" where
  "too_many message =
     JsonText (JObj [(units ''error'', JStr (units ''rate_limited'')), (units ''message'', JStr (units message))])"

definition loginLimiter :: "app \<Rightarrow> limit_options" where
  "loginLimiter A =
     \<lparr>lim_windowMs = 15 * 60000, lim_limit = cf_loginRateLimitPer15Min (ap_cfg A), lim_counts = (\<lambda>status. 400 \<le> status),
      lim_message = PlainText (units ''Too many login attempts. Try again later.'')\<rparr>"

definition tokenFailureLimiter :: "app \<Rightarrow> limit_options" where
  "tokenFailureLimiter A =
     \<lparr>lim_windowMs = 15 * 60000, lim_limit = cf_tokenFailureRateLimitPer15Min (ap_cfg A),
      lim_counts = (\<lambda>status. status = 401 \<or> status = 404),
      lim_message = too_many ''Too many failed attempts. Try again later.''\<rparr>"

definition publicLimiter :: "app \<Rightarrow> limit_options" where
  "publicLimiter A =
     \<lparr>lim_windowMs = 60000, lim_limit = cf_publicRateLimitPerMinute (ap_cfg A), lim_counts = (\<lambda>status. True),
      lim_message = too_many ''Too many requests. Slow down.''\<rparr>"

definition rateLimit :: "app \<Rightarrow> limit_options \<Rightarrow> request \<Rightarrow> response option" where
  "rateLimit A opts req = (if ap_limited A opts req then Some (answer 429 (lim_message opts)) else None)"

section \<open>Upload links\<close>

text \<open>\<open>/^Bearer\s+([A-Za-z0-9_-]+)\s*$/i\<close>.\<close>

definition bearer_match :: "string \<Rightarrow> string option" where
  "bearer_match h =
     (let r = drop 6 h; s = dropWhile is_ws r; token = takeWhile is_url_char s
      in if js_lower (take 6 h) = ''bearer'' \<and> r \<noteq> s \<and> token \<noteq> [] \<and> list_all is_ws (dropWhile is_url_char s)
         then Some token else None)"

definition extractBearer :: "request \<Rightarrow> string option" where
  "extractBearer req = Option.bind (rq_headers req ''authorization'') (\<lambda>h. if h = [] then None else bearer_match h)"

text \<open>Status, code and message of a link that is not active.\<close>

fun LINK_STATE_MESSAGES :: "link_state \<Rightarrow> (int \<times> string \<times> string) option" where
  "LINK_STATE_MESSAGES LinkExpired = Some (403, ''link_expired'', ''link.expired'')"
| "LINK_STATE_MESSAGES LinkRevoked = Some (403, ''link_revoked'', ''link.revoked'')"
| "LINK_STATE_MESSAGES LinkCaseClosed = Some (403, ''case_closed'', ''link.case_closed'')"
| "LINK_STATE_MESSAGES LinkActive = None"

definition requireLinkBearer :: "app \<Rightarrow> time \<Rightarrow> request \<Rightarrow> db \<Rightarrow> (response + request) \<times> db" where
  "requireLinkBearer A nw req d =
     (case extractBearer req of
        None \<Rightarrow> (Inl (json_error 401 ''missing_token'' (units ''Authorization: Bearer <token> header required'')), d)
      | Some token \<Rightarrow>
          (case resolveToken (ap_crypto A) nw token d of
             None \<Rightarrow> (Inl (json_error 404 ''invalid_token'' (units ''Unknown upload link'')), d)
           | Some resolved \<Rightarrow>
               (case LINK_STATE_MESSAGES (rl_state resolved) of
                  Some (status, c, key) \<Rightarrow> (Inl (json_error status c (t (ap_dict A) (rq_lang req) key None)), d)
                | None \<Rightarrow>
                    (Inr (req\<lparr>rq_uploadLink := Some resolved, rq_uploadToken := Some token\<rparr>),
                     touchLink nw (l_id (rl_link resolved)) d))))"

section \<open>Security headers\<close>

text \<open>The policy given to helmet: the directives of the Content-Security-Policy, and the plain settings.\<close>

definition keyword :: "string \<Rightarrow> string" where
  "keyword s = CHR 0x27 # s @ [CHR 0x27]"

definition csp_directives :: "(string \<times> string list) list" where
  "csp_directives =
     (let self = keyword ''self''; none = keyword ''none''
      in [(''default-src'', [none]), (''script-src'', [self]), (''style-src'', [self]), (''img-src'', [self, ''data:'']),
          (''connect-src'', [self]), (''font-src'', [self]), (''form-action'', [self]), (''frame-ancestors'', [none]),
          (''base-uri'', [none]), (''object-src'', [none])])"

record helmet_options =
  he_useDefaults :: bool
  he_directives :: "(string \<times> string list) list"
  he_referrerPolicy :: string
  he_frameAction :: string
  he_resourcePolicy :: string
  he_openerPolicy :: string
  he_strictTransport :: bool

definition securityHeaders :: helmet_options where
  "securityHeaders =
     \<lparr>he_useDefaults = False, he_directives = csp_directives, he_referrerPolicy = ''no-referrer'', he_frameAction = ''deny'',
      he_resourcePolicy = ''same-origin'', he_openerPolicy = ''same-origin'', he_strictTransport = False\<rparr>"

section \<open>The requests of the examples\<close>

definition demo_app :: app where
  "demo_app =
     \<lparr>ap_cfg = demo_config, ap_crypto = demo_crypto, ap_dict = (\<lambda>l k. None), ap_origin = (\<lambda>u. u), ap_hostname = (\<lambda>u. ''localhost''),
      ap_limited = (\<lambda>opts req. False), ap_dummyHash = [], ap_qrSvg = (\<lambda>u. []), ap_parseDate = (\<lambda>u. None)\<rparr>"

definition demo_request :: "string \<Rightarrow> request" where
  "demo_request m =
     \<lparr>rq_method = m, rq_path = ''/'', rq_originalUrl = ''/'', rq_query = Map.empty, rq_body = Map.empty, rq_headers = Map.empty,
      rq_ip = None, rq_protocol = ''https'', rq_lang = En, rq_session = None, rq_sessionId = None,
      rq_uploadLink = None, rq_uploadToken = None\<rparr>"

end
