(* ===== verification/Tus.thy ===== *)
theory Tus
  imports Http
begin

text \<open>
  src/http/tus.ts: the hooks of the resumable uploads. The tus server itself is a package; what it is
  documented to do is when it calls the hooks: \<open>onIncomingRequest\<close> before anything else, \<open>onUploadCreate\<close>
  for a creation, \<open>onUploadFinish\<close> when the data is complete, \<open>POST_TERMINATE\<close> after a removal. The hooks
  are functions here, and \<open>tus_step\<close> lets any number of requests interleave through them.
\<close>

section \<open>Errors of the hooks\<close>

definition TUS_PATH :: string where "TUS_PATH = ''/api/tus''"

text \<open>What a hook throws: an object with a status and a body, or any other error.\<close>

datatype tus_throw = TusHttp int "text" | TusOther exn

type_synonym 'a tus = "tus_throw + 'a"

definition tusError :: "int \<Rightarrow> string \<Rightarrow> text \<Rightarrow> (string \<times> json) list \<Rightarrow> tus_throw" where
  "tusError status c message extra =
     TusHttp status (json_stringify (JObj ([(units ''error'', JStr (units c)), (units ''message'', JStr message)] @
       map (\<lambda>(k, v). (units k, v)) extra)))"

definition linkOf :: "request \<Rightarrow> resolved_link tus" where
  "linkOf req =
     (case rq_uploadLink req of
        None \<Rightarrow> Inl (tusError 401 ''missing_token'' (units ''Authorization required'') [])
      | Some l \<Rightarrow> Inr l)"

fun limit_code_text :: "limit_code \<Rightarrow> string" where
  "limit_code_text FileTooLarge = ''file_too_large''"
| "limit_code_text TooManyFiles = ''too_many_files''"
| "limit_code_text QuotaExceeded = ''quota_exceeded''"

fun status_text :: "file_status \<Rightarrow> string" where
  "status_text Uploading = ''uploading''" | "status_text Complete = ''complete''" | "status_text Aborted = ''aborted''"
| "status_text Expired = ''expired''" | "status_text Missing = ''missing''" | "status_text Deleted = ''deleted''"

definition int_json :: "int \<Rightarrow> json" where "int_json n = JNum (units (string_of_int n))"

section \<open>The hooks\<close>

text \<open>The package's \<open>Upload\<close>: \<open>None\<close> is a size that is not known yet.\<close>

record tus_upload =
  tu_id :: string
  tu_size :: "int option"
  tu_sizeIsDeferred :: bool
  tu_offset :: int
  tu_filename :: "string option"

definition maxSize :: "app \<Rightarrow> request \<Rightarrow> int tus" where
  "maxSize A req =
     (case linkOf req of
        Inl e \<Rightarrow> Inl e
      | Inr resolved \<Rightarrow> Inr (el_maxFileBytes (effectiveLimits (ap_cfg A) (rl_link resolved))))"

definition onIncomingRequest :: "request \<Rightarrow> string \<Rightarrow> db \<Rightarrow> unit tus" where
  "onIncomingRequest req uploadId d =
     (case linkOf req of
        Inl e \<Rightarrow> Inl e
      | Inr resolved \<Rightarrow>
          if rq_method req = ''POST'' \<or> rq_method req = ''OPTIONS'' then Inr ()
          else case getFile d uploadId of
            None \<Rightarrow> Inl (tusError 404 ''upload_not_found'' (units ''Upload not found'') [])
          | Some file \<Rightarrow>
              if f_link_id file \<noteq> l_id (rl_link resolved) then Inl (tusError 404 ''upload_not_found'' (units ''Upload not found'') [])
              else if f_status file \<noteq> Uploading
              then Inl (tusError 410 ''upload_finished''
                (units (''Upload is '' @ status_text (f_status file) @ '' and can no longer be modified'')) [])
              else Inr ())"

definition link_event :: "string \<Rightarrow> resolved_link \<Rightarrow> string \<Rightarrow> string option \<Rightarrow> (string \<times> detail) list \<Rightarrow> audit_event" where
  "link_event action resolved fileId ip details =
     \<lparr>ev_actorType = ActorLink, ev_actorId = Some (l_id (rl_link resolved)), ev_action = action,
      ev_caseId = Some (c_id (rl_case resolved)), ev_linkId = Some (l_id (rl_link resolved)), ev_fileId = Some fileId,
      ev_ip = ip, ev_details = Some details\<rparr>"

definition onUploadCreate :: "app \<Rightarrow> time \<Rightarrow> request \<Rightarrow> tus_upload \<Rightarrow> db \<Rightarrow> unit tus \<times> db" where
  "onUploadCreate A nw req u d =
     (case linkOf req of
        Inl e \<Rightarrow> (Inl e, d)
      | Inr resolved \<Rightarrow>
          if tu_sizeIsDeferred u \<or> tu_size u = None
          then (Inl (tusError 400 ''length_required'' (units ''Upload-Length is required (deferred length is not supported)'') []), d)
          else
            let n = the (tu_size u);
                inp = \<lparr>ri_link = rl_link resolved,
                       ri_originalName = Some (case tu_filename u of Some f \<Rightarrow> f | None \<Rightarrow> ''unnamed''),
                       ri_uploadKind = KTus, ri_declaredSize = Some (Num (of_int n)), ri_clientIp = rq_ip req, ri_id = Some (tu_id u)\<rparr>
            in case reserveUpload nw [] (ap_cfg A) inp d of
                 (Inl (LimitError c message limit), d1) \<Rightarrow>
                   (Inl (tusError 413 (limit_code_text c) (units message) [(''limit'', int_json limit)]), d1)
               | (Inl e, d1) \<Rightarrow> (Inl (TusOther e), d1)
               | (Inr _, d1) \<Rightarrow>
                   (Inr (), audit nw (link_event ''upload.start'' resolved (tu_id u) (rq_ip req)
                      [(''kind'', DStr ''tus''), (''size'', DNum n)]) d1))"

definition onUploadFinish ::
  "app \<Rightarrow> 's backend \<Rightarrow> time \<Rightarrow> request \<Rightarrow> tus_upload \<Rightarrow> db \<Rightarrow> 's \<Rightarrow> int tus \<times> db \<times> 's" where
  "onUploadFinish A B nw req u d s =
     (case linkOf req of
        Inl e \<Rightarrow> (Inl e, d, s)
      | Inr resolved \<Rightarrow>
          (case tu_size u of
             None \<Rightarrow> (Inl (tusError 500 ''incomplete'' (units ''Upload finished with unexpected offset'') []), d, s)
           | Some n \<Rightarrow>
               if tu_offset u \<noteq> n
               then (Inl (tusError 500 ''incomplete'' (units ''Upload finished with unexpected offset'') []), d, s)
               else case completeUpload nw (tu_id u) n None d of
                 (changed, d1) \<Rightarrow>
                   if changed
                   then (Inr 204,
                     audit nw (link_event ''upload.complete'' resolved (tu_id u) (rq_ip req)
                       ([(''kind'', DStr ''tus''), (''size'', DNum n)] @
                        (case tu_filename u of None \<Rightarrow> [] | Some f \<Rightarrow> [(''name'', DStr f)]))) d1,
                     snd (bk_removeTusSidecar B (tu_id u) s))
                   else (Inr 204, d1, s)))"

text \<open>\<open>trim()\<close> of a text.\<close>

definition ws_unit :: "nat \<Rightarrow> bool" where
  "ws_unit c \<longleftrightarrow> (9 \<le> c \<and> c \<le> 13) \<or> (8192 \<le> c \<and> c \<le> 8202) \<or> c \<in> {32, 160, 5760, 8232, 8233, 8239, 8287, 12288, 65279}"

definition text_trim :: "text \<Rightarrow> text" where
  "text_trim s = rev (dropWhile ws_unit (rev (dropWhile ws_unit s)))"

definition onResponseError :: "tus_throw \<Rightarrow> int \<times> text" where
  "onResponseError err =
     (case err of
        TusHttp status body \<Rightarrow>
          if take 1 body = [123] then (status, body)
          else (status, json_stringify (JObj [(units ''error'', JStr (units ''tus_error'')), (units ''message'', JStr (text_trim body))]))
      | TusOther _ \<Rightarrow>
          (500, json_stringify (JObj [(units ''error'', JStr (units ''internal'')), (units ''message'', JStr (units ''Internal error''))])))"

text \<open>The bookkeeping after a removal: whatever goes wrong in it is only logged.\<close>

definition onTerminate :: "time \<Rightarrow> request \<Rightarrow> string \<Rightarrow> db \<Rightarrow> db" where
  "onTerminate nw req i d =
     (case linkOf req of
        Inl _ \<Rightarrow> d
      | Inr resolved \<Rightarrow>
          (case getFile d i of
             None \<Rightarrow> d
           | Some file \<Rightarrow>
               (case failUpload i FailAborted d of
                  (True, d1) \<Rightarrow>
                    audit nw \<lparr>ev_actorType = ActorLink, ev_actorId = Some (l_id (rl_link resolved)), ev_action = ''upload.cancel'',
                      ev_caseId = Some (f_case_id file), ev_linkId = Some (f_link_id file), ev_fileId = Some i,
                      ev_ip = None, ev_details = None\<rparr> d1
                | (False, d1) \<Rightarrow> d1)))"

text \<open>Reading an upload back is refused; everything else goes to the tus server.\<close>

definition tusHandler :: "request \<Rightarrow> response option" where
  "tusHandler req =
     (if rq_method req = ''GET''
      then Some (json_error 405 ''method_not_allowed'' (units ''Uploaded files cannot be read back''))
      else None)"

section \<open>Requests of different links\<close>

text \<open>
  Interleaved requests. The first component of a state holds the uploads the server was let through to,
  each with the link of the request; \<open>by\<close> is the link a step is made for, \<open>None\<close> for everything else the
  program does to links and files.
\<close>

inductive tus_step ::
  "app \<Rightarrow> 's backend \<Rightarrow> string option \<Rightarrow> (string \<times> string) set \<times> db \<Rightarrow> (string \<times> string) set \<times> db \<Rightarrow> bool" for A B where
  admit: "linkOf req = Inr r \<Longrightarrow> rq_method req \<notin> {''POST'', ''OPTIONS''} \<Longrightarrow> onIncomingRequest req i d = Inr () \<Longrightarrow>
    tus_step A B (Some (l_id (rl_link r))) (adm, d) (insert (l_id (rl_link r), i) adm, d)"
| create: "linkOf req = Inr r \<Longrightarrow> onUploadCreate A nw req u d = (Inr (), d') \<Longrightarrow>
    tus_step A B (Some (l_id (rl_link r))) (adm, d) (insert (l_id (rl_link r), tu_id u) adm, d')"
| refused: "linkOf req = Inr r \<Longrightarrow> onUploadCreate A nw req u d = (Inl e, d') \<Longrightarrow>
    tus_step A B (Some (l_id (rl_link r))) (adm, d) (adm, d')"
| finish: "linkOf req = Inr r \<Longrightarrow> (l_id (rl_link r), tu_id u) \<in> adm \<Longrightarrow> onUploadFinish A B nw req u d s = (x, d', s') \<Longrightarrow>
    tus_step A B (Some (l_id (rl_link r))) (adm, d) (adm, d')"
| terminate: "linkOf req = Inr r \<Longrightarrow> (l_id (rl_link r), i) \<in> adm \<Longrightarrow>
    tus_step A B (Some (l_id (rl_link r))) (adm, d) (adm, onTerminate nw req i d)"
| other: "upload_step (ap_crypto A) (ap_cfg A) d d' \<Longrightarrow> tus_step A B None (adm, d) (adm, d')"

inductive_cases tus_stepE: "tus_step A B by p q"

definition admitted_ok :: "(string \<times> string) set \<times> db \<Rightarrow> bool" where
  "admitted_ok p \<longleftrightarrow> distinct (map f_id (files (snd p))) \<and>
     (\<forall>(l, i) \<in> fst p. \<exists>f. getFile (snd p) i = Some f \<and> f_link_id f = l)"

text \<open>What a step may change: running uploads with one id, or one new row.\<close>

definition touches :: "string \<Rightarrow> db \<Rightarrow> db \<Rightarrow> bool" where
  "touches i d d' \<longleftrightarrow> map f_id (files d') = map f_id (files d) \<and> files_evolve d d' \<and>
     (\<forall>f \<in> set (files d). f_id f \<noteq> i \<or> f_status f \<noteq> Uploading \<longrightarrow> f \<in> set (files d')) \<and>
     (\<forall>g \<in> set (files d'). g \<notin> set (files d) \<longrightarrow> (\<exists>f \<in> set (files d). f_id f = i \<and> f_link_id g = f_link_id f))"

definition adds :: "string \<Rightarrow> string \<Rightarrow> db \<Rightarrow> db \<Rightarrow> bool" where
  "adds l i d d' \<longleftrightarrow> (\<exists>f. files d' = files d @ [f] \<and> f_id f = i \<and> f_link_id f = l \<and> f_status f = Uploading \<and> i \<notin> f_id ` set (files d))"

lemma touches_refl: "files d' = files d \<Longrightarrow> touches i d d'"
  by (simp add: touches_def evolve_same)

lemma touches_update:
  assumes "\<And>f. f_id (g f) = f_id f" "\<And>f. f_link_id (g f) = f_link_id f" "\<And>f. f_status f = Uploading \<Longrightarrow> later f (g f)"
    and "files d' = update_where (\<lambda>f. f_id f = i \<and> f_status f = Uploading) g (files d)"
  shows "touches i d d'"
proof -
  have "files_evolve d (update_files (\<lambda>f. f_id f = i \<and> f_status f = Uploading) g d)"
    by (rule evolve_update) (simp add: assms(3))
  then have "files_evolve d d'" by (simp add: files_evolve_def assms(4))
  then show ?thesis unfolding touches_def assms(4)
    by (auto simp: update_where_def assms(1,2) image_iff split: if_splits)
qed

lemma complete_touches: "files d' = files (snd (completeUpload nw i n sha d)) \<Longrightarrow> touches i d d'"
  by (rule touches_update [where g = "\<lambda>f. f\<lparr>f_status := Complete, f_size := Some n,
        f_sha256 := (case sha of None \<Rightarrow> f_sha256 f | Some h \<Rightarrow> Some h), f_reserved_bytes := 0, f_completed_at := Some nw\<rparr>"])
    (auto simp: completeUpload_def Let_def same_file_def intro: later_step)

lemma fail_touches: "files d' = files (snd (failUpload i st d)) \<Longrightarrow> touches i d d'"
  by (rule touches_update [where g = "\<lambda>f. f\<lparr>f_status := fail_as st, f_reserved_bytes := 0\<rparr>"])
    (auto simp: failUpload_def Let_def same_file_def fail_as_def intro!: later_step split: fail_status.split)

lemma finish_touches:
  assumes "onUploadFinish A B nw req u d s = (x, d', s')" shows "touches (tu_id u) d d'"
proof -
  have "touches (tu_id u) d e" if "completeUpload nw (tu_id u) n None d = (c, e')" "files e = files e'" for n c e e'
    using complete_touches [of e nw "tu_id u" n None d] that by simp
  then show ?thesis using assms
    by (auto simp: onUploadFinish_def touches_refl split: sum.splits option.splits if_splits prod.splits)
qed

lemma terminate_touches: "touches i d (onTerminate nw req i d)"
proof -
  have "touches i d e" if "failUpload i FailAborted d = (c, e')" "files e = files e'" for c e e'
    using fail_touches [of e i FailAborted d] that by simp
  then show ?thesis
    by (auto simp: onTerminate_def touches_refl split: sum.splits option.splits bool.splits prod.splits)
qed

lemma create_adds:
  assumes "linkOf req = Inr r" "onUploadCreate A nw req u d = (Inr (), d')"
  shows "adds (l_id (rl_link r)) (tu_id u) d d'"
  using assms
  by (auto simp: onUploadCreate_def Let_def adds_def reserved_row_def insert_file_def
      dest!: reserveUpload_Inr split: if_splits sum.splits prod.splits exn.splits)

lemma create_refused: "linkOf req = Inr r \<Longrightarrow> onUploadCreate A nw req u d = (Inl e, d') \<Longrightarrow> d' = d"
  by (auto simp: onUploadCreate_def Let_def dest: reserveUpload_Inl split: if_splits sum.splits prod.splits exn.splits)

lemma step_effect:
  assumes "tus_step A B (Some l) (adm, d) (adm', d')"
  shows "(\<exists>i. (l, i) \<in> adm \<and> touches i d d') \<or> (\<exists>i. adds l i d d') \<or> files d' = files d"
  using assms
proof (cases rule: tus_step.cases)
  case (create req r nw u)
  then show ?thesis using create_adds [OF create(3,4)] by simp blast
next
  case (refused req r nw u e)
  then show ?thesis using create_refused [OF refused(3,4)] by simp
next
  case (finish req r u nw s x s')
  then show ?thesis using finish_touches [OF finish(5)] by auto
next
  case (terminate req r i nw)
  then show ?thesis using terminate_touches [of i d nw req] by auto
qed simp

lemma touches_distinct: "touches i d d' \<Longrightarrow> distinct (map f_id (files d)) \<Longrightarrow> distinct (map f_id (files d'))"
  by (simp add: touches_def)

lemma adds_distinct: "adds l i d d' \<Longrightarrow> distinct (map f_id (files d)) \<Longrightarrow> distinct (map f_id (files d'))"
  by (auto simp: adds_def)

lemma adds_evolve: "adds l i d d' \<Longrightarrow> files_evolve d d'"
  unfolding adds_def files_evolve_def using later_refl by (metis (no_types, lifting) list.rel_refl empty_iff empty_set set_ConsD)

lemma other_distinct:
  assumes "upload_step C cfg d d'" and "distinct (map f_id (files d))" shows "distinct (map f_id (files d'))"
  using assms(1)
proof (cases rule: upload_step.cases)
  case (reserve rinp nw rnd)
  show ?thesis
  proof (cases "reserveUpload nw rnd cfg rinp d")
    case (Pair r e)
    then show ?thesis using assms(2) reserve(1)
      by (cases r) (auto simp: insert_file_def dest!: reserveUpload_Inl reserveUpload_Inr split: if_splits)
  qed
qed (use assms(2) in \<open>simp_all add: createLink_files revokeLink_def touchLink_def completeUpload_def failUpload_def markMissing_def
      markDeleted_def Let_def map_update_where [of f_id]\<close>)

lemma admitted_evolve:
  assumes "files_evolve d d'" and "admitted_ok (adm, d)" and "distinct (map f_id (files d'))" shows "admitted_ok (adm, d')"
  using assms(2,3) evolve_lookup [OF assms(1)] unfolding admitted_ok_def later_def same_file_def by fastforce

lemma admitted_insert:
  "admitted_ok (adm, d) \<Longrightarrow> getFile d i = Some f \<Longrightarrow> f_link_id f = l \<Longrightarrow> admitted_ok (insert (l, i) adm, d)"
  by (auto simp: admitted_ok_def)

lemma adds_getFile: "adds l i d d' \<Longrightarrow> \<exists>f. getFile d' i = Some f \<and> f_link_id f = l"
  by (auto simp: adds_def getFile_def get_by_append get_by_Cons get_by_None_iff [THEN iffD2])

lemma touches_ok: "touches i d d' \<Longrightarrow> admitted_ok (adm, d) \<Longrightarrow> admitted_ok (adm, d')"
  by (rule admitted_evolve) (auto simp: touches_def admitted_ok_def)

lemma tus_step_ok:
  assumes "tus_step A B by p q" and "admitted_ok p" shows "admitted_ok q"
  using assms
proof (induction rule: tus_step.induct)
  case (admit req r i d adm)
  then show ?case by (auto simp: onIncomingRequest_def intro!: admitted_insert split: option.splits if_splits)
next
  case (create req r nw u d d' adm)
  have a: "adds (l_id (rl_link r)) (tu_id u) d d'" using create(1,2) by (rule create_adds)
  then show ?case
    using admitted_evolve [OF adds_evolve [OF a] create(3)] adds_distinct [OF a] adds_getFile [OF a] create(3) admitted_insert
    by (auto simp: admitted_ok_def)
next
  case (refused req r nw u d e d' adm)
  then show ?case using create_refused by blast
next
  case (finish req r u adm nw d s x d' s')
  show ?case by (rule touches_ok [OF finish_touches [OF finish(3)] finish(4)])
next
  case (terminate req r i adm d nw)
  show ?case by (rule touches_ok [OF terminate_touches terminate(3)])
next
  case (other d d' adm)
  have "distinct (map f_id (files d))" using other(2) by (simp add: admitted_ok_def)
  then show ?case by (rule admitted_evolve [OF step_evolve [OF other(1)] other(2) other_distinct [OF other(1)]])
qed

inductive tus_run :: "app \<Rightarrow> 's backend \<Rightarrow> (string \<times> string) set \<times> db \<Rightarrow> (string \<times> string) set \<times> db \<Rightarrow> bool" for A B where
  start: "tus_run A B p p"
| more_steps: "tus_run A B p q \<Longrightarrow> tus_step A B by q r \<Longrightarrow> tus_run A B p r"

lemma tus_run_ok: "tus_run A B p q \<Longrightarrow> admitted_ok p \<Longrightarrow> admitted_ok q"
  by (induction rule: tus_run.induct) (use tus_step_ok in blast)+

text \<open>C11: uploads of different links cannot reach each other. However requests interleave, a step that the tus server
  makes for one link keeps every file row of every other link and every upload that is not running
  any more, and the rows it adds or changes belong to the link of the request.\<close>

theorem tus_links_isolated:
  assumes "tus_run A B ({}, d0) (adm, d)" and "distinct (map f_id (files d0))" and "tus_step A B (Some l) (adm, d) (adm', d')"
  shows "(\<forall>f \<in> set (files d). f_link_id f \<noteq> l \<or> f_status f \<noteq> Uploading \<longrightarrow> f \<in> set (files d')) \<and>
    (\<forall>g \<in> set (files d'). g \<notin> set (files d) \<longrightarrow> f_link_id g = l)"
proof -
  have ok: "admitted_ok (adm, d)" using tus_run_ok [OF assms(1)] assms(2) by (simp add: admitted_ok_def)
  have own: "f_link_id f = l" if "(l, i) \<in> adm" "f \<in> set (files d)" "f_id f = i" for i f
    using ok that get_by_SomeI [of f_id "files d" f] by (fastforce simp: admitted_ok_def getFile_def)
  from step_effect [OF assms(3)] show ?thesis
  proof (elim disjE exE conjE)
    fix i assume "(l, i) \<in> adm" "touches i d d'"
    then show ?thesis using own unfolding touches_def by metis
  qed (auto simp: adds_def)
qed

definition demo_link_request :: "string \<Rightarrow> request" where
  "demo_link_request m = (demo_request m)\<lparr>rq_uploadLink := Some \<lparr>rl_link = hd (links demo_q2), rl_case = demo_case, rl_state = LinkActive\<rparr>\<rparr>"

definition demo_upload :: tus_upload where
  "demo_upload = \<lparr>tu_id = ''f_1'', tu_size = Some 5, tu_sizeIsDeferred = False, tu_offset = 5, tu_filename = Some ''a.txt''\<rparr>"

definition demo_created :: db where
  "demo_created = snd (onUploadCreate demo_app 4 (demo_link_request ''POST'') demo_upload demo_q5)"

lemma demo_create: "onUploadCreate demo_app 4 (demo_link_request ''POST'') demo_upload demo_q5 = (Inr (), demo_created)"
proof -
  have "fst (onUploadCreate demo_app 4 (demo_link_request ''POST'') demo_upload demo_q5) = Inr ()" by code_simp
  then show ?thesis unfolding demo_created_def by (cases "onUploadCreate demo_app 4 (demo_link_request ''POST'') demo_upload demo_q5") simp
qed

theorem tus_links_isolated_witness:
  "{f \<in> set (files demo_q5). \<not> (f_link_id f = l_id (hd (links demo_q2)) \<and> f_status f = Uploading)} \<subseteq> set (files demo_created)"
proof -
  have "distinct (map f_id (files demo_q5))" by code_simp
  moreover have "tus_step demo_app (local_backend demo_crypto ''/'' ''/data'') (Some (l_id (hd (links demo_q2)))) ({}, demo_q5)
      (insert (l_id (hd (links demo_q2)), ''f_1'') {}, demo_created)"
    using tus_step.create [OF _ demo_create, of _ "local_backend demo_crypto ''/'' ''/data''" "{}"]
    by (simp add: linkOf_def demo_link_request_def demo_upload_def)
  ultimately show ?thesis
    using tus_links_isolated [OF tus_run.start] by blast
qed
end
