(* ===== verification/PublicApi.thy ===== *)
theory PublicApi
  imports Tus
begin

text \<open>
  src/http/public.ts: what the holder of an upload link can reach. The upload page, the JSON API behind
  \<open>Authorization: Bearer\<close>, and the direct upload, whose body is a \<open>source\<close> of the storage layer.
  The direct upload is split where it waits for the data: other requests run between its two halves.
\<close>

section \<open>Helpers\<close>

text \<open>\<open>(err as Error).message\<close>; SQLite names the constraint, which no caller reads.\<close>

fun exn_message :: "exn \<Rightarrow> string" where
  "exn_message (JsError m) = m"
| "exn_message (UserError key ps) = key"
| "exn_message (LimitError c m n) = m"
| "exn_message (WebAuthnError m) = m"
| "exn_message (DbscError m) = m"
| "exn_message (StorageLimitError n) = ''upload exceeds '' @ string_of_int n @ '' bytes''"
| "exn_message (StorageNotFoundError k) = ''object not found: '' @ k"
| "exn_message SqliteConstraint = ''constraint failed''"

definition declaredLength :: "request \<Rightarrow> jsnum option" where
  "declaredLength req =
     (if truthy (rq_headers req ''transfer-encoding'') then None
      else case rq_headers req ''content-length'' of
        None \<Rightarrow> None
      | Some raw \<Rightarrow> let n = js_Number raw in if is_safe_integer n \<and> 0 \<le> whole n then Some n else None)"

definition safeDecode :: "string \<Rightarrow> string" where
  "safeDecode v = (case decodeURIComponent v of Some s \<Rightarrow> s | None \<Rightarrow> v)"

text \<open>
  The data of a refused upload is read and dropped; past the cap the connection is cut. The result is
  whether it was, for the sizes of the chunks that arrive.
\<close>

fun discardBody :: "int \<Rightarrow> int \<Rightarrow> int list \<Rightarrow> bool" where
  "discardBody cap seen [] = False"
| "discardBody cap seen (n # ns) = (cap < seen + n \<or> discardBody cap (seen + n) ns)"

definition str_json :: "string \<Rightarrow> json" where "str_json s = JStr (units s)"
definition obj_json :: "(string \<times> json) list \<Rightarrow> json" where "obj_json kvs = JObj (map (\<lambda>(k, v). (units k, v)) kvs)"
definition opt_json :: "('a \<Rightarrow> json) \<Rightarrow> 'a option \<Rightarrow> json" where
  "opt_json f v = (case v of None \<Rightarrow> JNull | Some x \<Rightarrow> f x)"
definition time_json :: "time \<Rightarrow> json" where "time_json ms = str_json (toISOString ms)"

section \<open>The upload page\<close>

definition upload_page :: "app \<Rightarrow> time \<Rightarrow> request \<Rightarrow> string \<Rightarrow> db \<Rightarrow> response \<times> db" where
  "upload_page A nw req token d =
     (let msg = (\<lambda>k. t (ap_dict A) (rq_lang req) k None);
          unavailable = (\<lambda>status title message. answer status (HtmlPage (LinkUnavailablePage (rq_lang req) (msg title) (msg message))))
      in case (if TOKEN_RE token then resolveToken (ap_crypto A) nw token d else None) of
           None \<Rightarrow> (unavailable 404 ''link.invalid.title'' ''link.invalid'', d)
         | Some resolved \<Rightarrow>
             (case LINK_STATE_MESSAGES (rl_state resolved) of
                Some (status, c, key) \<Rightarrow> (unavailable status ''link.unavailable.title'' key, d)
              | None \<Rightarrow>
                  let d1 = touchLink nw (l_id (rl_link resolved)) d
                  in (setHeader ''Cache-Control'' [''no-store'']
                        (answer 200 (HtmlPage (UploadPage
                           \<lparr>ud_lang = rq_lang req, ud_cfg = ap_cfg A, ud_case = rl_case resolved, ud_link = rl_link resolved,
                            ud_limits = effectiveLimits (ap_cfg A) (rl_link resolved), ud_usage = linkUsage d1 (l_id (rl_link resolved)),
                            ud_token = token, ud_path = rq_originalUrl req\<rparr>))), d1)))"

section \<open>The JSON API\<close>

definition limits_json :: "effective_limits \<Rightarrow> json" where
  "limits_json l =
     obj_json [(''maxFileBytes'', int_json (el_maxFileBytes l)), (''maxFiles'', opt_json int_json (el_maxFiles l)),
               (''maxTotalBytes'', opt_json int_json (el_maxTotalBytes l))]"

definition usage_json :: "link_usage \<Rightarrow> json" where
  "usage_json u =
     obj_json [(''file_count'', int_json (int (lu_file_count u))), (''used_bytes'', int_json (lu_used_bytes u)),
               (''reserved_bytes'', int_json (lu_reserved_bytes u)), (''uploading_count'', int_json (int (lu_uploading_count u)))]"

definition api_link :: "app \<Rightarrow> resolved_link \<Rightarrow> db \<Rightarrow> response" where
  "api_link A r d =
     (let link = rl_link r
      in answer 200 (JsonText (obj_json
           [(''case'', obj_json [(''name'', str_json (c_name (rl_case r)))]),
            (''link'', obj_json [(''label'', str_json (l_label link)), (''expires_at'', opt_json time_json (l_expires_at link))]),
            (''limits'', limits_json (effectiveLimits (ap_cfg A) link)), (''usage'', usage_json (linkUsage d (l_id link)))])))"

definition file_json :: "public_file_view \<Rightarrow> json" where
  "file_json f =
     obj_json [(''id'', str_json (pf_id f)), (''name'', str_json (pf_name f)), (''size'', opt_json int_json (pf_size f)),
               (''status'', str_json (status_text (pf_status f))), (''created_at'', time_json (pf_created_at f)),
               (''completed_at'', opt_json time_json (pf_completed_at f))]"

definition api_files :: "resolved_link \<Rightarrow> db \<Rightarrow> response" where
  "api_files r d =
     setHeader ''Cache-Control'' [''no-store'']
       (answer 200 (JsonText (obj_json [(''files'', JArr (map file_json (listFilesForLink d (l_id (rl_link r)))))])))"

definition api_no_read :: response where
  "api_no_read = json_error 403 ''forbidden'' (units ''Uploaded files cannot be read back through an upload link'')"

definition api_no_delete :: response where
  "api_no_delete = json_error 403 ''forbidden'' (units ''Completed files cannot be deleted through an upload link'')"

section \<open>Direct uploads\<close>

text \<open>
  What arrives: the data with the error that ended it, if one did, whether the request was complete, and
  whether the connection still stands at the end.
\<close>

record transfer =
  tr_source :: source
  tr_complete :: bool
  tr_open :: bool

definition upload_name :: "request \<Rightarrow> string option \<Rightarrow> string" where
  "upload_name req name =
     (let nameParam = (case name of Some n \<Rightarrow> n | None \<Rightarrow> []);
          headerName = (case rq_headers req ''x-file-name'' of Some h \<Rightarrow> safeDecode h | None \<Rightarrow> [])
      in sanitizeFilename (Some (or_else nameParam headerName)))"

definition direct_start ::
  "app \<Rightarrow> time \<Rightarrow> byte list \<Rightarrow> request \<Rightarrow> resolved_link \<Rightarrow> string option \<Rightarrow> db \<Rightarrow> (response + file_row \<times> int) result \<times> db" where
  "direct_start A nw rnd req r name d =
     (let declared = declaredLength req;
          inp = \<lparr>ri_link = rl_link r, ri_originalName = Some (upload_name req name), ri_uploadKind = KDirect,
                 ri_declaredSize = declared, ri_clientIp = rq_ip req, ri_id = None\<rparr>
      in case reserveUpload nw rnd (ap_cfg A) inp d of
           (Inl (LimitError c message limit), d1) \<Rightarrow>
             (Inr (Inl (answer 413 (JsonText (obj_json
                [(''error'', str_json (limit_code_text c)), (''message'', str_json message), (''limit'', int_json limit)])))), d1)
         | (Inl e, d1) \<Rightarrow> (Inl e, d1)
         | (Inr (file, maxBytes), d1) \<Rightarrow>
             (Inr (Inr (file, maxBytes)),
              audit nw (link_event ''upload.start'' r (f_id file) (rq_ip req)
                [(''kind'', DStr ''direct''), (''size'', case declared of None \<Rightarrow> DNull | Some n \<Rightarrow> DNum (whole n))]) d1))"

text \<open>What the \<open>try\<close> around the transfer ends with.\<close>

definition receive ::
  "'s backend \<Rightarrow> time \<Rightarrow> string \<Rightarrow> transfer \<Rightarrow> int \<Rightarrow> jsnum option \<Rightarrow> 's \<Rightarrow> put_result result \<times> 's" where
  "receive B nw fileId tr maxBytes declared s =
     (case bk_put B nw fileId (tr_source tr) maxBytes s of
        (Inl e, s1) \<Rightarrow> (Inl e, s1)
      | (Inr res, s1) \<Rightarrow>
          if \<not> tr_complete tr then (Inl (JsError ''request ended before body was complete''), s1)
          else if (case declared of None \<Rightarrow> False | Some n \<Rightarrow> pr_size res \<noteq> whole n)
          then (Inl (JsError (''received '' @ string_of_int (pr_size res) @ '' bytes, Content-Length was '' @
                  string_of_int (whole (the declared)))), s1)
          else (Inr res, s1))"

definition direct_failed ::
  "'s backend \<Rightarrow> time \<Rightarrow> request \<Rightarrow> resolved_link \<Rightarrow> string \<Rightarrow> int \<Rightarrow> bool \<Rightarrow> exn \<Rightarrow> db \<Rightarrow> 's \<Rightarrow> response option \<times> db \<times> 's" where
  "direct_failed B nw req r fileId maxBytes still_open e d s =
     (let d1 = snd (failUpload fileId FailAborted d); s1 = snd (bk_delete B fileId s); close = setHeader ''Connection'' [''close'']
      in case e of
           StorageLimitError _ \<Rightarrow>
             (Some (close (answer 413 (JsonText (obj_json
                [(''error'', str_json ''file_too_large''),
                 (''message'', str_json (''Upload exceeded the allowed '' @ string_of_int maxBytes @ '' bytes'')),
                 (''limit'', int_json maxBytes)])))),
              audit nw (link_event ''upload.rejected'' r fileId (rq_ip req) [(''reason'', DStr ''limit''), (''maxBytes'', DNum maxBytes)]) d1, s1)
         | _ \<Rightarrow>
             (if still_open then Some (close (json_error 400 ''upload_incomplete'' (units ''Connection closed before the upload completed''))) else None,
              audit nw (link_event ''upload.aborted'' r fileId (rq_ip req) [(''reason'', DStr (exn_message e))]) d1, s1))"

definition direct_done :: "time \<Rightarrow> request \<Rightarrow> resolved_link \<Rightarrow> string \<Rightarrow> string \<Rightarrow> put_result \<Rightarrow> db \<Rightarrow> response \<times> db" where
  "direct_done nw req r fileId name res d =
     (answer 201 (JsonText (obj_json
        [(''id'', str_json fileId), (''name'', str_json name), (''size'', int_json (pr_size res)),
         (''sha256'', str_json (pr_sha256 res)), (''status'', str_json ''complete'')])),
      audit nw (link_event ''upload.complete'' r fileId (rq_ip req)
        [(''kind'', DStr ''direct''), (''size'', DNum (pr_size res)), (''name'', DStr name)])
        (snd (completeUpload nw fileId (pr_size res) (Some (pr_sha256 res)) d)))"

text \<open>The second half, on the database as it is when the data has ended; \<open>None\<close> is no answer at all.\<close>

definition direct_finish ::
  "'s backend \<Rightarrow> time \<Rightarrow> request \<Rightarrow> resolved_link \<Rightarrow> string option \<Rightarrow> string \<Rightarrow> int \<Rightarrow> transfer \<Rightarrow> db \<Rightarrow> 's
    \<Rightarrow> response option \<times> db \<times> 's" where
  "direct_finish B nw req r name fileId maxBytes tr d s =
     (case receive B nw fileId tr maxBytes (declaredLength req) s of
        (Inl e, s1) \<Rightarrow> direct_failed B nw req r fileId maxBytes (tr_open tr) e d s1
      | (Inr res, s1) \<Rightarrow>
          (case direct_done nw req r fileId (upload_name req name) res d of (resp, d1) \<Rightarrow> (Some resp, d1, s1)))"

text \<open>A direct upload no other request comes in between.\<close>

definition direct ::
  "app \<Rightarrow> 's backend \<Rightarrow> time \<Rightarrow> byte list \<Rightarrow> request \<Rightarrow> resolved_link \<Rightarrow> string option \<Rightarrow> transfer \<Rightarrow> db \<Rightarrow> 's
    \<Rightarrow> response option result \<times> db \<times> 's" where
  "direct A B nw rnd req r name tr d s =
     (case direct_start A nw rnd req r name d of
        (Inl e, d1) \<Rightarrow> (Inl e, d1, s)
      | (Inr (Inl resp), d1) \<Rightarrow> (Inr (Some resp), d1, s)
      | (Inr (Inr (file, maxBytes)), d1) \<Rightarrow>
          (case direct_finish B nw req r name (f_id file) maxBytes tr d1 s of (resp, d2, s2) \<Rightarrow> (Inr resp, d2, s2)))"

section \<open>Routes\<close>

text \<open>The path after \<open>/api\<close>, split at its slashes and decoded; Express compares the fixed words in any case.\<close>

datatype api_route =
    ApiLink | ApiFiles | ApiNoRead | ApiNoDelete | ApiUpload "string option" | ApiTus "string option" | ApiUnknown

definition api_route_of :: "string \<Rightarrow> string list \<Rightarrow> api_route" where
  "api_route_of m segs =
     (let reading = m \<in> {''GET'', ''HEAD''}; words = map js_lower segs; n = length segs
      in if words = [''link''] \<and> reading then ApiLink
         else if words = [''files''] \<and> reading then ApiFiles
         else if n = 2 \<and> hd words = ''files'' \<and> reading then ApiNoRead
         else if n = 3 \<and> hd words = ''files'' \<and> words ! 2 = ''download'' \<and> reading then ApiNoRead
         else if n = 2 \<and> hd words = ''files'' \<and> m = ''DELETE'' then ApiNoDelete
         else if words = [''upload''] \<and> m \<in> {''PUT'', ''POST''} then ApiUpload None
         else if n = 2 \<and> hd words = ''upload'' \<and> m \<in> {''PUT'', ''POST''} then ApiUpload (Some (segs ! 1))
         else if words = [''tus''] then ApiTus None
         else if n = 2 \<and> hd words = ''tus'' then ApiTus (Some (segs ! 1))
         else ApiUnknown)"

text \<open>What the API does with a request: it answers, leaves it to the tus server or to what follows in the app.\<close>

datatype api_outcome = ApiAnswer "response option result" | ApiToTus request "string option" | ApiNext

definition api_gate :: "app \<Rightarrow> time \<Rightarrow> request \<Rightarrow> db \<Rightarrow> (response + request) \<times> db" where
  "api_gate A nw req d =
     (case rateLimit A (publicLimiter A) req of
        Some resp \<Rightarrow> (Inl resp, d)
      | None \<Rightarrow>
          (case rateLimit A (tokenFailureLimiter A) req of
             Some resp \<Rightarrow> (Inl resp, d)
           | None \<Rightarrow> requireLinkBearer A nw req d))"

definition api ::
  "app \<Rightarrow> 's backend \<Rightarrow> time \<Rightarrow> byte list \<Rightarrow> request \<Rightarrow> string list \<Rightarrow> transfer \<Rightarrow> db \<Rightarrow> 's \<Rightarrow> api_outcome \<times> db \<times> 's" where
  "api A B nw rnd req0 segs tr d s =
     (case api_gate A nw req0 d of
        (Inl resp, d1) \<Rightarrow> (ApiAnswer (Inr (Some resp)), d1, s)
      | (Inr req, d1) \<Rightarrow>
          (case rq_uploadLink req of
             None \<Rightarrow> (ApiNext, d1, s)
           | Some r \<Rightarrow>
               (case api_route_of (rq_method req) segs of
                  ApiLink \<Rightarrow> (ApiAnswer (Inr (Some (api_link A r d1))), d1, s)
                | ApiFiles \<Rightarrow> (ApiAnswer (Inr (Some (api_files r d1))), d1, s)
                | ApiNoRead \<Rightarrow> (ApiAnswer (Inr (Some api_no_read)), d1, s)
                | ApiNoDelete \<Rightarrow> (ApiAnswer (Inr (Some api_no_delete)), d1, s)
                | ApiUpload name \<Rightarrow>
                    (case direct A B nw rnd req r name tr d1 s of (resp, d2, s2) \<Rightarrow> (ApiAnswer resp, d2, s2))
                | ApiTus i \<Rightarrow>
                    (case tusHandler req of
                       Some resp \<Rightarrow> (ApiAnswer (Inr (Some resp)), d1, s)
                     | None \<Rightarrow> (ApiToTus req i, d1, s))
                | ApiUnknown \<Rightarrow> (ApiNext, d1, s))))"

section \<open>A direct upload is whole or nothing\<close>

lemma reserve_room_limit:
  "reserve_room limits usage declared = Inr r0 \<Longrightarrow> (case declared of None \<Rightarrow> r0 | Some n \<Rightarrow> n) \<le> el_maxFileBytes limits"
  by (cases declared; cases "el_maxTotalBytes limits") (simp_all add: reserve_room_def Let_def split: if_splits)

lemma reserved_file:
  assumes "reserveUpload nw rnd cfg inp d = (Inr (file, mx), d1)"
  shows "files d1 = files d @ [file] \<and> f_id file \<notin> f_id ` set (files d) \<and> f_status file = Uploading \<and>
    f_link_id file = l_id (ri_link inp) \<and> f_original_name file = sanitizeFilename (ri_originalName inp) \<and>
    mx \<le> el_maxFileBytes (effectiveLimits cfg (ri_link inp))"
proof -
  from reserveUpload_Inr [OF assms] obtain declared r0 where
    r: "reserve_room (effectiveLimits cfg (ri_link inp)) (linkUsage d (l_id (ri_link inp))) declared = Inr r0"
      "mx = (case declared of None \<Rightarrow> r0 | Some n \<Rightarrow> n)" "file = reserved_row nw rnd inp declared mx" "insert_file file d = Inr d1"
    by blast
  have "f_id file \<notin> f_id ` set (files d)" "files d1 = files d @ [file]"
    using r(4) insert_file_Inr [OF r(4)] by (auto simp: insert_file_def split: if_splits)
  moreover have "f_status file = Uploading" "f_link_id file = l_id (ri_link inp)" "f_original_name file = sanitizeFilename (ri_originalName inp)"
    by (simp_all add: r(3) reserved_row_def)
  ultimately show ?thesis using reserve_room_limit [OF r(1)] r(2) by blast
qed

lemma direct_start_row:
  assumes "direct_start A nw rnd req r name d = (Inr (Inr (file, mx)), d1)"
  shows "files d1 = files d @ [file] \<and> f_id file \<notin> f_id ` set (files d) \<and> f_status file = Uploading \<and>
    f_link_id file = l_id (rl_link r) \<and> f_original_name file = sanitizeFilename (Some (upload_name req name)) \<and>
    mx \<le> el_maxFileBytes (effectiveLimits (ap_cfg A) (rl_link r))"
proof -
  define inp where "inp = \<lparr>ri_link = rl_link r, ri_originalName = Some (upload_name req name), ri_uploadKind = KDirect,
                 ri_declaredSize = declaredLength req, ri_clientIp = rq_ip req, ri_id = None\<rparr>"
  obtain x e where run: "reserveUpload nw rnd (ap_cfg A) inp d = (x, e)" by (cases "reserveUpload nw rnd (ap_cfg A) inp d")
  then have x: "x = Inr (file, mx)" "files d1 = files e"
    using assms unfolding direct_start_def Let_def inp_def [symmetric] by (auto split: sum.splits exn.splits)
  from reserved_file [OF run [unfolded x(1)]] x(2) show ?thesis by (simp add: inp_def)
qed

lemma direct_start_refused:
  assumes "direct_start A nw rnd req r name d = (Inr (Inl resp), d1)" shows "d1 = d \<and> rs_status resp = 413"
  using assms unfolding direct_start_def Let_def
  by (auto simp: answer_def dest: reserveUpload_Inl split: prod.splits sum.splits exn.splits)

text \<open>The row of an upload while it is still in progress, whole or given up; any other row, and a row that was settled in the
  meantime, stays.\<close>

definition settle :: "string \<Rightarrow> (file_row \<Rightarrow> file_row) \<Rightarrow> file_row list \<Rightarrow> file_row list" where
  "settle i g = map (\<lambda>f. if f_id f = i \<and> f_status f = Uploading then g f else f)"

lemma complete_settles: "files (snd (completeUpload nw i n (Some h) d)) =
    settle i (\<lambda>f. f\<lparr>f_status := Complete, f_size := Some n, f_sha256 := Some h, f_reserved_bytes := 0, f_completed_at := Some nw\<rparr>) (files d)"
  by (simp add: completeUpload_def settle_def Let_def update_where_def)

lemma fail_settles: "files (snd (failUpload i FailAborted d)) = settle i (\<lambda>f. f\<lparr>f_status := Aborted, f_reserved_bytes := 0\<rparr>) (files d)"
  by (simp add: failUpload_def fail_as_def settle_def Let_def update_where_def)

text \<open>The data arrived whole: no error ended it, and it is as long as declared.\<close>

definition arrived_whole :: "transfer \<Rightarrow> request \<Rightarrow> bool" where
  "arrived_whole tr req \<longleftrightarrow> src_error (tr_source tr) = None \<and> tr_complete tr \<and>
     (\<forall>n. declaredLength req = Some n \<longrightarrow> int (length (concat (src_chunks (tr_source tr)))) = whole n)"

lemma direct_failed_effect:
  assumes "direct_failed B nw req r i mx op e d s = (resp, d', s')"
  shows "files d' = files (snd (failUpload i FailAborted d)) \<and> s' = snd (bk_delete B i s) \<and> (\<forall>x. resp = Some x \<longrightarrow> rs_status x \<noteq> 201)"
  using assms unfolding direct_failed_def Let_def
  by (cases e) (auto simp: setHeader_def answer_def json_error_def split: if_splits)

lemma receive_effect:
  assumes con: "storage_contract B C obj good" and "good s" and "receive B nw i tr mx declared s = (res, s1)"
  shows "good s1 \<and> (\<forall>j. j \<noteq> i \<longrightarrow> obj s1 j = obj s j) \<and>
    (\<forall>r. res = Inr r \<longrightarrow> obj s1 i = Some (concat (src_chunks (tr_source tr))) \<and> src_error (tr_source tr) = None \<and> tr_complete tr \<and>
       pr_size r = int (length (concat (src_chunks (tr_source tr)))) \<and> pr_size r \<le> max 0 mx \<and>
       pr_sha256 r = hex (nc_sha256 C (concat (src_chunks (tr_source tr)))) \<and> (\<forall>n. declared = Some n \<longrightarrow> pr_size r = whole n))"
proof (cases "bk_put B nw i (tr_source tr) mx s")
  case (Pair x e)
  show ?thesis
  proof (cases x)
    case (Inl err)
    then show ?thesis using assms(3) storage_contract.put_fails [OF con assms(2) Pair [unfolded Inl]]
      by (auto simp: receive_def Pair)
  next
    case (Inr r)
    then show ?thesis using assms(3) storage_contract.put_stores [OF con assms(2) Pair [unfolded Inr]]
      by (auto simp: receive_def Pair split: if_splits option.splits)
  qed
qed

lemma direct_done_effect:
  assumes "direct_done nw req r i name res d = (resp, d')"
  shows "rs_status resp = 201 \<and> files d' = files (snd (completeUpload nw i (pr_size res) (Some (pr_sha256 res)) d))"
  using assms by (auto simp: direct_done_def answer_def)


definition demo_transfer :: transfer where
  "demo_transfer = \<lparr>tr_source = demo_source, tr_complete = True, tr_open = True\<rparr>"

definition demo_put :: request where
  "demo_put = (demo_link_request ''PUT'')\<lparr>rq_headers := [''content-length'' \<mapsto> ''3'']\<rparr>"

definition demo_link :: resolved_link where
  "demo_link = \<lparr>rl_link = hd (links demo_q2), rl_case = demo_case, rl_state = LinkActive\<rparr>"

end
