(* ===== verification/AdminAuth.thy ===== *)
theory AdminAuth
  imports PublicApi
begin

text \<open>
  The first half of src/http/admin.ts: sign-in, second factor, confirmation of sensitive actions, the
  security page and device binding. A handler is a function of the process, the clock, the random bytes
  it draws and the request; it gives the answer, or the error Express hands to the error handler, and the
  database. \<open>req.session!\<close> is \<open>sess\<close>: the gates of AdminRouter let no other request through.
\<close>

section \<open>Helpers\<close>

text \<open>The random bytes of one request, for whatever it creates.\<close>

record draws =
  dr_session :: session_draws
  dr_binding :: binding_draws
  dr_bytes :: "byte list"
  dr_id :: "byte list"
  dr_salt :: "byte list"
  dr_codes :: "byte list list"
  dr_password :: "byte list list"

type_synonym handled = "response result \<times> db"

definition sess :: "request \<Rightarrow> session" where "sess req = the (rq_session req)"
definition sess_id :: "request \<Rightarrow> string" where "sess_id req = the (rq_sessionId req)"
definition sess_admin :: "request \<Rightarrow> admin" where "sess_admin req = sv_admin (sess req)"

definition set_admin :: "(admin \<Rightarrow> admin) \<Rightarrow> request \<Rightarrow> request" where
  "set_admin f req = req\<lparr>rq_session := map_option (\<lambda>s. s\<lparr>sv_admin := f (sv_admin s)\<rparr>) (rq_session req)\<rparr>"

definition msg :: "app \<Rightarrow> request \<Rightarrow> string \<Rightarrow> text" where
  "msg A req key = t (ap_dict A) (rq_lang req) key None"

definition msg_with :: "app \<Rightarrow> request \<Rightarrow> string \<Rightarrow> params \<Rightarrow> text" where
  "msg_with A req key ps = t (ap_dict A) (rq_lang req) key (Some ps)"

definition viewCtx :: "request \<Rightarrow> view_ctx" where
  "viewCtx req =
     (let a = sess_admin req
      in \<lparr>vc_lang = rq_lang req, vc_csrfToken = sv_csrf_token (sess req), vc_username = ad_username a,
          vc_path = rq_originalUrl req, vc_role = ad_role a, vc_userId = ad_id a\<rparr>)"

definition send_page :: "int \<Rightarrow> page \<Rightarrow> response" where
  "send_page status p = answer status (HtmlPage p)"

definition sendError :: "app \<Rightarrow> request \<Rightarrow> string \<Rightarrow> string \<Rightarrow> int \<Rightarrow> response" where
  "sendError A req titleKey messageKey status =
     send_page status (ErrorPage (rq_lang req) (msg A req titleKey) (msg A req messageKey) status (rq_originalUrl req) ''/admin'')"

definition form_field :: "request \<Rightarrow> string \<Rightarrow> string" where
  "form_field req name = (case field_text (rq_body req name) of Some s \<Rightarrow> s | None \<Rightarrow> [])"

definition optionalSize :: "string \<Rightarrow> string \<Rightarrow> int option result" where
  "optionalSize raw name =
     (let v = js_trim raw in if v = [] then Inr None else and_then (parseSize v name) (\<lambda>n. Inr (Some n)))"

definition validId :: "string \<Rightarrow> string option" where
  "validId i = (if i \<noteq> [] \<and> ID_RE i then Some i else None)"

definition clearSessionCookie :: "response \<Rightarrow> response" where
  "clearSessionCookie =
     setHeader ''Set-Cookie'' [SESSION_COOKIE @ ''=; Path=/; HttpOnly; SameSite=Lax; Max-Age=0'',
       BOUND_COOKIE @ ''=; Path=/admin; HttpOnly; SameSite=Lax; Max-Age=0'']"

definition sessionMeta :: "request \<Rightarrow> session_meta" where
  "sessionMeta req = \<lparr>meta_ip = rq_ip req, meta_user_agent = rq_headers req ''user-agent''\<rparr>"

definition sendJson :: "int \<Rightarrow> (string \<times> json) list \<Rightarrow> response" where
  "sendJson status body = setHeader ''Cache-Control'' [''no-store''] (answer status (JsonText (obj_json body)))"

definition error_json :: "text \<Rightarrow> (string \<times> json) list" where
  "error_json m = [(''error'', JStr m)]"

text \<open>The events of the panel: what the signed-in account did.\<close>

definition panel_event :: "request \<Rightarrow> string \<Rightarrow> audit_event" where
  "panel_event req action =
     \<lparr>ev_actorType = ActorAdmin, ev_actorId = Some (ad_id (sess_admin req)), ev_action = action, ev_caseId = None,
      ev_linkId = None, ev_fileId = None, ev_ip = rq_ip req, ev_details = None\<rparr>"

definition panel_audit :: "time \<Rightarrow> request \<Rightarrow> string \<Rightarrow> (string \<times> detail) list \<Rightarrow> db \<Rightarrow> db" where
  "panel_audit nw req action details =
     audit nw ((panel_event req action)\<lparr>ev_details := (if details = [] then None else Some details)\<rparr>)"

definition rp :: "app \<Rightarrow> string \<times> string" where
  "rp A = (ap_origin A (cf_publicUrl (ap_cfg A)), ap_hostname A (cf_publicUrl (ap_cfg A)))"

definition session_ms :: "app \<Rightarrow> time" where "session_ms A = whole (cf_sessionTtlMs (ap_cfg A))"
definition reauth_ms :: "app \<Rightarrow> time" where "reauth_ms A = whole (cf_reauthWindowMs (ap_cfg A))"

definition full_cookie :: "app \<Rightarrow> string \<Rightarrow> response \<Rightarrow> response" where
  "full_cookie A sid = setHeader ''Set-Cookie'' [sessionCookie A sid (session_ms A div 1000)]"

section \<open>Device-bound sessions\<close>

definition boundCookie :: "app \<Rightarrow> issued_cookie \<Rightarrow> string" where
  "boundCookie A c =
     BOUND_COOKIE @ ''='' @ ic_cookie c @ ''; Path=/admin; HttpOnly; SameSite=Lax; Max-Age='' @ string_of_int (ic_maxAgeSec c) @
     (if cf_cookieSecure (ap_cfg A) then ''; Secure'' else [])"

definition dbscConfig :: "app \<Rightarrow> string \<Rightarrow> (string \<times> json) list" where
  "dbscConfig A bindingId =
     [(''session_identifier'', str_json bindingId), (''refresh_url'', str_json ''/admin/dbsc/refresh''),
      (''scope'', obj_json [(''origin'', str_json (fst (rp A))), (''include_site'', JBool False)]),
      (''credentials'', JArr [obj_json [(''type'', str_json ''cookie''), (''name'', str_json BOUND_COOKIE),
         (''attributes'', str_json (''Path=/admin; HttpOnly; SameSite=Lax'' @ (if cf_cookieSecure (ap_cfg A) then ''; Secure'' else [])))]])]"

definition proof_of :: "request \<Rightarrow> string option" where
  "proof_of req = proofFromHeader (map_option HOne (rq_headers req ''secure-session-response''))"

definition dbsc_register :: "app \<Rightarrow> time \<Rightarrow> draws \<Rightarrow> request \<Rightarrow> db \<Rightarrow> handled" where
  "dbsc_register A nw rnd req d =
     (let refused = sendJson 400 (error_json (units ''registration refused''))
      in case (rq_session req, rq_sessionId req, proof_of req) of
           (Some s, Some sid, Some jwt) \<Rightarrow>
             if \<not> sv_totp_verified s \<or> sid = [] then (Inr refused, d)
             else (case registerBinding (ap_crypto A) nw (dr_binding rnd) sid jwt d of
                     (Inr issued, d1) \<Rightarrow>
                       (Inr (setHeader ''Set-Cookie'' [boundCookie A issued] (sendJson 200 (dbscConfig A (ic_bindingId issued)))),
                        panel_audit nw req ''admin.session_bound'' [] d1)
                   | (Inl (DbscError m), d1) \<Rightarrow> (Inr refused, d1)
                   | (Inl e, d1) \<Rightarrow> (Inl e, d1))
         | _ \<Rightarrow> (Inr refused, d))"

text \<open>\<open>replace(/^"|"$/g, '')\<close>.\<close>

definition strip_quotes :: "string \<Rightarrow> string" where
  "strip_quotes s =
     (let u = (if take 1 s = [CHR 0x22] then drop 1 s else s)
      in if u \<noteq> [] \<and> last u = CHR 0x22 then butlast u else u)"

definition challenge_header :: "string \<Rightarrow> string \<Rightarrow> string" where
  "challenge_header c bindingId = [CHR 0x22] @ c @ [CHR 0x22] @ '';id='' @ [CHR 0x22] @ bindingId @ [CHR 0x22]"

definition dbsc_refresh :: "app \<Rightarrow> time \<Rightarrow> draws \<Rightarrow> request \<Rightarrow> db \<Rightarrow> handled" where
  "dbsc_refresh A nw rnd req d =
     (let bindingId = strip_quotes (case rq_headers req ''sec-secure-session-id'' of Some h \<Rightarrow> h | None \<Rightarrow> [])
      in if \<not> ID_RE bindingId then (Inr (sendJson 400 (error_json (units ''unknown session''))), d)
         else case refreshBinding (ap_crypto A) nw (dr_binding rnd) bindingId (proof_of req) d of
           (Inl (DbscError m), d1) \<Rightarrow> (Inr (sendJson 401 (error_json (units ''refresh refused''))), d1)
         | (Inl e, d1) \<Rightarrow> (Inl e, d1)
         | (Inr RefreshEnded, d1) \<Rightarrow> (Inr (sendJson 401 [(''continue'', JBool False)]), d1)
         | (Inr (RefreshChallenge bid c), d1) \<Rightarrow>
             (Inr (setHeader ''Secure-Session-Challenge'' [challenge_header c bid] (sendJson 403 (error_json (units ''challenge required'')))), d1)
         | (Inr (RefreshOk issued), d1) \<Rightarrow>
             (Inr (setHeader ''Secure-Session-Challenge''
                [challenge_header (case ic_nextChallenge issued of Some c \<Rightarrow> c | None \<Rightarrow> ''undefined'') (ic_bindingId issued)]
                (setHeader ''Set-Cookie'' [boundCookie A issued] (sendJson 200 (dbscConfig A (ic_bindingId issued))))), d1))"

section \<open>Login and logout\<close>

definition login_page :: "request \<Rightarrow> response" where
  "login_page req =
     (case rq_session req of
        Some s \<Rightarrow> redirect 302 (if sv_totp_verified s then ''/admin'' else ''/admin/totp'')
      | None \<Rightarrow> send_page 200 (LoginPage (rq_lang req) None))"

definition system_audit :: "time \<Rightarrow> request \<Rightarrow> string \<Rightarrow> db \<Rightarrow> db" where
  "system_audit nw req action =
     audit nw \<lparr>ev_actorType = ActorSystem, ev_actorId = None, ev_action = action, ev_caseId = None, ev_linkId = None,
       ev_fileId = None, ev_ip = rq_ip req, ev_details = None\<rparr>"

definition account_audit :: "time \<Rightarrow> request \<Rightarrow> admin \<Rightarrow> string \<Rightarrow> db \<Rightarrow> db" where
  "account_audit nw req a action =
     audit nw \<lparr>ev_actorType = ActorAdmin, ev_actorId = Some (ad_id a), ev_action = action, ev_caseId = None, ev_linkId = None,
       ev_fileId = None, ev_ip = rq_ip req, ev_details = None\<rparr>"

definition login_ok :: "app \<Rightarrow> time \<Rightarrow> draws \<Rightarrow> request \<Rightarrow> admin \<Rightarrow> db \<Rightarrow> handled" where
  "login_ok A nw rnd req a d =
     (case createSession (ap_crypto A) nw (dr_session rnd) a (session_ms A) (sessionMeta req) d of
        (Inl e, d1) \<Rightarrow> (Inl e, d1)
      | (Inr (sid, csrf), d1) \<Rightarrow>
          if hasSecondFactor a
          then (Inr (full_cookie A sid (redirect 303 ''/admin/totp'')), account_audit nw req a ''admin.login_password'' d1)
          else
            let d2 = recordLogin nw (ad_id a) (snd (markConfirmed (ap_crypto A) nw sid (reauth_ms A) d1))
            in (Inr (full_cookie A sid (redirect 303
                  (if cf_adminRequireTotp (ap_cfg A) \<or> ad_must_change a then ''/admin/security'' else ''/admin''))),
                account_audit nw req a ''admin.login'' d2))"

definition login :: "app \<Rightarrow> time \<Rightarrow> draws \<Rightarrow> request \<Rightarrow> db \<Rightarrow> handled" where
  "login A nw rnd req d =
     (let username = js_trim (form_field req ''username''); password = form_field req ''password''
      in case (if username \<noteq> [] \<and> password \<noteq> [] then authenticate (ap_crypto A) (ap_dummyHash A) username password d else Inr None) of
           Inl e \<Rightarrow> (Inl e, d)
         | Inr None \<Rightarrow>
             (Inr (send_page 401 (LoginPage (rq_lang req) (Some (msg A req ''login.failed'')))), system_audit nw req ''admin.login_failed'' d)
         | Inr (Some a) \<Rightarrow> login_ok A nw rnd req a d)"

definition logout :: "app \<Rightarrow> time \<Rightarrow> request \<Rightarrow> db \<Rightarrow> handled" where
  "logout A nw req d =
     (let d1 = (if truthy (rq_sessionId req) then destroySession (ap_crypto A) (sess_id req) d else d)
      in (Inr (clearSessionCookie (redirect 303 ''/admin/login'')), panel_audit nw req ''admin.logout'' [] d1))"

end
