(* ===== verification/AdminSecurity.thy ===== *)
theory AdminSecurity
  imports AdminAuth
begin

text \<open>
  The part of src/http/admin.ts between the two stages of a session: the second step of the login, the
  confirmation of sensitive actions, and the security page with its forms.
\<close>

section \<open>The second factor\<close>

record second_step =
  st_passkey :: bool
  st_totp :: bool
  st_codes :: bool

definition secondStep :: "admin \<Rightarrow> db \<Rightarrow> second_step" where
  "secondStep a d =
     \<lparr>st_passkey = (0 < ad_passkeys a), st_totp = ad_totp_enabled a,
      st_codes = (ad_totp_enabled a \<or> 0 < remainingRecoveryCodes d (ad_id a))\<rparr>"

definition factor_text :: "second_factor \<Rightarrow> string" where
  "factor_text f = (case f of FTotp \<Rightarrow> ''totp'' | FRecovery \<Rightarrow> ''recovery'' | FPasskey \<Rightarrow> ''passkey'')"

text \<open>A complete sign-in: where to go, and the database; the caller sets the cookie.\<close>

definition signedIn :: "app \<Rightarrow> time \<Rightarrow> request \<Rightarrow> string \<Rightarrow> second_factor \<Rightarrow> db \<Rightarrow> string \<times> db" where
  "signedIn A nw req sid factor d =
     (let a = sess_admin req; d1 = recordLogin nw (ad_id a) (snd (markConfirmed (ap_crypto A) nw sid (reauth_ms A) d))
      in (if ad_must_change a then ''/admin/security'' else ''/admin'',
          panel_audit nw req ''admin.login'' [(''second_factor'', DStr (factor_text factor))] d1))"

definition totp_page_data :: "request \<Rightarrow> db \<Rightarrow> text option \<Rightarrow> int option \<Rightarrow> time option \<Rightarrow> totp_login_data" where
  "totp_page_data req d err left locked =
     (let st = secondStep (sess_admin req) d
      in \<lparr>tl_csrfToken = sv_csrf_token (sess req), tl_error = err, tl_attemptsLeft = left, tl_lockedUntil = locked,
          tl_passkey = st_passkey st, tl_totp = st_totp st, tl_codes = st_codes st\<rparr>)"

definition totp_page :: "time \<Rightarrow> request \<Rightarrow> db \<Rightarrow> response" where
  "totp_page nw req d =
     (if sv_totp_verified (sess req) then redirect 302 ''/admin''
      else send_page 200 (TotpLoginPage (rq_lang req)
        (totp_page_data req d None None (totpLockedUntil d (ad_id (sess_admin req)) nw))))"

definition ceremony_options :: "app \<Rightarrow> string \<Rightarrow> string list \<Rightarrow> (string \<times> json) list" where
  "ceremony_options A c allow =
     [(''challenge'', str_json c), (''rpId'', str_json (snd (rp A))), (''allow'', JArr (map str_json allow)),
      (''timeout'', int_json CEREMONY_TTL_MS)]"

definition begin_assertion :: "app \<Rightarrow> time \<Rightarrow> draws \<Rightarrow> request \<Rightarrow> ceremony \<Rightarrow> db \<Rightarrow> handled" where
  "begin_assertion A nw rnd req purpose d =
     (let allow = credentialIds d (ad_id (sess_admin req))
      in if allow = [] then (Inr (sendJson 400 (error_json (msg A req ''passkey.failed''))), d)
         else case beginCeremony (ap_crypto A) nw (dr_bytes rnd) (sess_id req) purpose d of
           (c, d1) \<Rightarrow> (Inr (sendJson 200 (ceremony_options A c allow)), d1))"

definition webauthn_login_options :: "app \<Rightarrow> time \<Rightarrow> draws \<Rightarrow> request \<Rightarrow> db \<Rightarrow> handled" where
  "webauthn_login_options A nw rnd req d =
     (if sv_totp_verified (sess req) then (Inr (sendJson 200 [(''redirect'', str_json ''/admin'')]), d)
      else begin_assertion A nw rnd req PLogin d)"

definition assertion_of :: "request \<Rightarrow> assertion_input" where
  "assertion_of req =
     \<lparr>as_clientDataJSON = form_field req ''client_data'', as_authenticatorData = form_field req ''authenticator_data'',
      as_signature = form_field req ''signature''\<rparr>"

definition webauthn_login :: "app \<Rightarrow> time \<Rightarrow> draws \<Rightarrow> request \<Rightarrow> db \<Rightarrow> handled" where
  "webauthn_login A nw rnd req d =
     (if sv_totp_verified (sess req) then (Inr (sendJson 200 [(''redirect'', str_json ''/admin'')]), d)
      else case verifyPasskeyLogin (ap_crypto A) nw (dr_session rnd) (sess_id req) (sess_admin req) (session_ms A)
                  (form_field req ''credential_id'') (assertion_of req) (rp A) d of
        (Inr (sid, csrf), d1) \<Rightarrow>
          (case signedIn A nw req sid FPasskey d1 of
             (target, d2) \<Rightarrow> (Inr (full_cookie A sid (sendJson 200 [(''redirect'', str_json target)])), d2))
      | (Inl (WebAuthnError m), d1) \<Rightarrow>
          (Inr (sendJson 401 (error_json (msg A req ''passkey.failed''))),
           panel_audit nw req ''admin.passkey_failed'' [(''reason'', DStr m)] d1)
      | (Inl e, d1) \<Rightarrow> (Inl e, d1))"

definition totp_submit :: "app \<Rightarrow> time \<Rightarrow> draws \<Rightarrow> request \<Rightarrow> db \<Rightarrow> handled" where
  "totp_submit A nw rnd req d =
     (if sv_totp_verified (sess req) then (Inr (redirect 303 ''/admin''), d)
      else case verifySessionTotp (ap_crypto A) nw (dr_session rnd) (sess_id req) (form_field req ''code'') (session_ms A) nw d of
        (Inl e, d1) \<Rightarrow> (Inl e, d1)
      | (Inr (TotpOk sid csrf factor), d1) \<Rightarrow>
          (case signedIn A nw req sid factor d1 of (target, d2) \<Rightarrow> (Inr (full_cookie A sid (redirect 303 target)), d2))
      | (Inr (TotpLocked until), d1) \<Rightarrow>
          (Inr (clearSessionCookie (send_page 401 (LoginPage (rq_lang req)
             (Some (msg A req (if until \<noteq> None then ''login.account_locked'' else ''login.too_many_codes'')))))),
           panel_audit nw req ''admin.totp_locked''
             [(''account_locked_until'', case until of None \<Rightarrow> DNull | Some ms \<Rightarrow> DStr (toISOString ms))] d1)
      | (Inr TotpInvalid, d1) \<Rightarrow>
          (let d2 = panel_audit nw req ''admin.totp_failed'' [] d1
           in (Inr (send_page 401 (TotpLoginPage (rq_lang req) (totp_page_data req d2 (Some (msg A req ''totp.invalid''))
                 (Some (int MAX_TOTP_ATTEMPTS - int (sv_totp_attempts (sess req)) - 1)) None))), d2)))"

section \<open>Device binding is offered once\<close>

definition offer :: "app \<Rightarrow> time \<Rightarrow> draws \<Rightarrow> request \<Rightarrow> db \<Rightarrow> (response \<Rightarrow> response) \<times> db" where
  "offer A nw rnd req d =
     (if cf_deviceBoundSessions (ap_cfg A) \<and> cf_cookieSecure (ap_cfg A) \<and> rq_method req = ''GET'' \<and>
         rq_headers req ''sec-fetch-dest'' = Some ''document''
      then case offerBinding (ap_crypto A) nw (dr_bytes rnd) (sess_id req) d of
             (None, d1) \<Rightarrow> (id, d1)
           | (Some c, d1) \<Rightarrow>
               (setHeader ''Secure-Session-Registration''
                  [''(ES256 RS256);path='' @ [CHR 0x22] @ ''/admin/dbsc/register'' @ [CHR 0x22] @ '';challenge='' @ [CHR 0x22] @ c @ [CHR 0x22]], d1)
      else (id, d))"

section \<open>Confirmation of sensitive actions\<close>

text \<open>\<open>Math.round(ms / 60_000)\<close>.\<close>

fun minutes_of :: "jsnum \<Rightarrow> int" where
  "minutes_of (Num q) = \<lfloor>q / 60000 + 1 / 2\<rfloor>"
| "minutes_of _ = 0"

definition renderConfirm :: "app \<Rightarrow> request \<Rightarrow> text option \<Rightarrow> int \<Rightarrow> db \<Rightarrow> response" where
  "renderConfirm A req err status d =
     (let a = sess_admin req; st = secondStep a d
      in send_page status (ConfirmPage
           \<lparr>cd_lang = rq_lang req, cd_nav = viewCtx req, cd_csrfToken = sv_csrf_token (sess req),
            cd_next = safeNext (case rq_query req ''next'' of Some v \<Rightarrow> Some v | None \<Rightarrow> Some (FText (form_field req ''next''))),
            cd_minutes = minutes_of (cf_reauthWindowMs (ap_cfg A)), cd_passkey = st_passkey st, cd_codes = st_codes st,
            cd_password = (\<not> hasSecondFactor a), cd_error = err\<rparr>))"

definition confirmed :: "app \<Rightarrow> time \<Rightarrow> request \<Rightarrow> string \<Rightarrow> db \<Rightarrow> db" where
  "confirmed A nw req meth d =
     panel_audit nw req ''admin.confirmed'' [(''method'', DStr meth)]
       (snd (markConfirmed (ap_crypto A) nw (sess_id req) (reauth_ms A) d))"

definition back_to_next :: "request \<Rightarrow> response" where
  "back_to_next req = redirect 303 (safeNext (Some (FText (form_field req ''next''))))"

definition confirm_code :: "app \<Rightarrow> time \<Rightarrow> request \<Rightarrow> db \<Rightarrow> handled" where
  "confirm_code A nw req d =
     (case verifyConfirmCode (ap_crypto A) nw (ad_id (sess_admin req)) (form_field req ''code'') nw d of
        (Inl e, d1) \<Rightarrow> (Inl e, d1)
      | (Inr ConfirmOk, d1) \<Rightarrow> (Inr (back_to_next req), confirmed A nw req ''code'' d1)
      | (Inr r, d1) \<Rightarrow>
          (let d2 = panel_audit nw req ''admin.confirm_failed'' [(''method'', DStr ''code'')] d1
           in (Inr (renderConfirm A req (Some (msg A req (if r = ConfirmLocked then ''confirm.locked'' else ''confirm.invalid''))) 401 d2), d2)))"

definition confirm_password :: "app \<Rightarrow> time \<Rightarrow> request \<Rightarrow> db \<Rightarrow> handled" where
  "confirm_password A nw req d =
     (let a = sess_admin req
      in case (if hasSecondFactor a then Inr None
               else authenticate (ap_crypto A) (ap_dummyHash A) (ad_username a) (form_field req ''password'') d) of
           Inl e \<Rightarrow> (Inl e, d)
         | Inr None \<Rightarrow>
             (let d1 = panel_audit nw req ''admin.confirm_failed'' [(''method'', DStr ''password'')] d
              in (Inr (renderConfirm A req (Some (msg A req ''confirm.invalid'')) 401 d1), d1))
         | Inr (Some _) \<Rightarrow> (Inr (back_to_next req), confirmed A nw req ''password'' d))"

definition webauthn_confirm_options :: "app \<Rightarrow> time \<Rightarrow> draws \<Rightarrow> request \<Rightarrow> db \<Rightarrow> handled" where
  "webauthn_confirm_options A nw rnd req d = begin_assertion A nw rnd req PConfirm d"

definition confirm_passkey :: "app \<Rightarrow> time \<Rightarrow> request \<Rightarrow> db \<Rightarrow> handled" where
  "confirm_passkey A nw req d =
     (case verifyPasskeyConfirm (ap_crypto A) nw (sess_id req) (ad_id (sess_admin req)) (form_field req ''credential_id'')
             (assertion_of req) (rp A) d of
        (Inr _, d1) \<Rightarrow>
          (Inr (sendJson 200 [(''redirect'', str_json (safeNext (rq_query req ''next'')))]), confirmed A nw req ''passkey'' d1)
      | (Inl (WebAuthnError m), d1) \<Rightarrow>
          (Inr (sendJson 401 (error_json (msg A req ''passkey.failed''))),
           panel_audit nw req ''admin.confirm_failed'' [(''method'', DStr ''passkey''), (''reason'', DStr m)] d1)
      | (Inl e, d1) \<Rightarrow> (Inl e, d1))"

section \<open>The security page\<close>

text \<open>What waits for the next view of the page, by session id.\<close>

record flash =
  fl_ok :: "text option"
  fl_recoveryCodes :: "string list option"
  fl_at :: time

type_synonym flashes = "(string \<times> flash) list"

definition takeFlash :: "time \<Rightarrow> string \<Rightarrow> flashes \<Rightarrow> security_extra option \<times> flashes" where
  "takeFlash nw sid fl =
     (case map_of fl sid of
        Some f \<Rightarrow>
          (if nw - fl_at f < 60000 then Some \<lparr>se_error = None, se_ok = fl_ok f, se_recoveryCodes = fl_recoveryCodes f\<rparr> else None,
           filter (\<lambda>p. fst p \<noteq> sid) fl)
      | None \<Rightarrow> (None, fl))"

definition renderSecurity :: "app \<Rightarrow> time \<Rightarrow> request \<Rightarrow> security_extra \<Rightarrow> int \<Rightarrow> db \<Rightarrow> response" where
  "renderSecurity A nw req extra status d =
     (let a = sess_admin req;
          pending = (if ad_totp_enabled a then None else pendingTotpSecret d (ad_id a));
          enrol = (if truthy pending
                   then let uri = otpauthUri (the pending) (ad_username a) (br_name (cf_brand (ap_cfg A)))
                        in Some \<lparr>en_qrSvg = ap_qrSvg A uri, en_secret = the pending, en_uri = uri\<rparr>
                   else None)
      in send_page status (SecurityPage
           \<lparr>sp_lang = rq_lang req, sp_csrfToken = sv_csrf_token (sess req), sp_username = ad_username a, sp_nav = viewCtx req,
            sp_totpEnabled = ad_totp_enabled a, sp_totpRequired = cf_adminRequireTotp (ap_cfg A), sp_issuer = br_name (cf_brand (ap_cfg A)),
            sp_recoveryLeft = (if hasSecondFactor a then remainingRecoveryCodes d (ad_id a) else 0),
            sp_passkeys = listPasskeys d (ad_id a), sp_sessions = listSessions (ap_crypto A) nw d (ad_id a) (sess_id req),
            sp_mustChangePassword = ad_must_change a, sp_enrol = enrol, sp_extra = extra\<rparr>))"

definition with_error :: "text \<Rightarrow> security_extra" where "with_error m = no_extra\<lparr>se_error := Some m\<rparr>"
definition with_ok :: "text \<Rightarrow> security_extra" where "with_ok m = no_extra\<lparr>se_ok := Some m\<rparr>"

definition security_page :: "app \<Rightarrow> time \<Rightarrow> request \<Rightarrow> flashes \<Rightarrow> db \<Rightarrow> response \<times> flashes" where
  "security_page A nw req fl d =
     (case takeFlash nw (sess_id req) fl of
        (f, fl1) \<Rightarrow> (renderSecurity A nw req (case f of Some e \<Rightarrow> e | None \<Rightarrow> no_extra) 200 d, fl1))"

definition security_error :: "app \<Rightarrow> time \<Rightarrow> request \<Rightarrow> text \<Rightarrow> db \<Rightarrow> handled" where
  "security_error A nw req m d = (Inr (renderSecurity A nw req (with_error m) 400 d), d)"

definition security_ok :: "app \<Rightarrow> time \<Rightarrow> request \<Rightarrow> security_extra \<Rightarrow> db \<Rightarrow> handled" where
  "security_ok A nw req extra d = (Inr (renderSecurity A nw req extra 200 d), d)"

definition security_password :: "app \<Rightarrow> time \<Rightarrow> draws \<Rightarrow> request \<Rightarrow> db \<Rightarrow> handled" where
  "security_password A nw rnd req d =
     (let new = form_field req ''new_password''; i = ad_id (sess_admin req)
      in if new \<noteq> form_field req ''new_password_confirm'' then security_error A nw req (msg A req ''security.password.mismatch'') d
         else case changeAdminPassword (ap_crypto A) (dr_salt rnd) i (form_field req ''current_password'') new d of
           (Inl e, d1) \<Rightarrow> security_error A nw req (units (exn_message e)) d1
         | (Inr False, d1) \<Rightarrow> security_error A nw req (msg A req ''security.password.invalid_current'') d1
         | (Inr True, d1) \<Rightarrow>
             (let d2 = panel_audit nw req ''admin.password_changed'' [] (destroyOtherSessions (ap_crypto A) i (sess_id req) d1)
              in security_ok A nw (set_admin (\<lambda>a. a\<lparr>ad_must_change := False\<rparr>) req) (with_ok (msg A req ''security.password.changed'')) d2))"

definition totp_begin :: "app \<Rightarrow> time \<Rightarrow> draws \<Rightarrow> request \<Rightarrow> db \<Rightarrow> handled" where
  "totp_begin A nw rnd req d =
     (case beginTotpEnrolment (dr_bytes rnd) (ad_id (sess_admin req)) d of
        (Inl e, d1) \<Rightarrow> security_error A nw req (units (exn_message e)) d1
      | (Inr _, d1) \<Rightarrow> security_ok A nw req no_extra d1)"

definition with_codes :: "text \<Rightarrow> string list \<Rightarrow> security_extra" where
  "with_codes m codes = \<lparr>se_error = None, se_ok = Some m, se_recoveryCodes = Some codes\<rparr>"

definition totp_confirm :: "app \<Rightarrow> time \<Rightarrow> draws \<Rightarrow> request \<Rightarrow> db \<Rightarrow> handled" where
  "totp_confirm A nw rnd req d =
     (let i = ad_id (sess_admin req)
      in case confirmTotpEnrolment (ap_crypto A) nw (dr_codes rnd) i (form_field req ''code'') nw d of
           (Inl e, d1) \<Rightarrow> (Inl e, d1)
         | (Inr None, d1) \<Rightarrow> security_error A nw req (msg A req ''security.msg.code_mismatch'') d1
         | (Inr (Some codes), d1) \<Rightarrow>
             security_ok A nw (set_admin (\<lambda>a. a\<lparr>ad_totp_enabled := True\<rparr>) req) (with_codes (msg A req ''security.msg.enabled'') codes)
               (panel_audit nw req ''admin.totp_enabled'' [] (destroyOtherSessions (ap_crypto A) i (sess_id req) d1)))"

definition totp_recovery :: "app \<Rightarrow> time \<Rightarrow> draws \<Rightarrow> request \<Rightarrow> db \<Rightarrow> handled" where
  "totp_recovery A nw rnd req d =
     (case regenerateRecoveryCodes (ap_crypto A) (dr_codes rnd) (ad_id (sess_admin req)) (form_field req ''code'') nw d of
        (Inl e, d1) \<Rightarrow> (Inl e, d1)
      | (Inr None, d1) \<Rightarrow> security_error A nw req (msg A req ''security.msg.invalid_code'') d1
      | (Inr (Some codes), d1) \<Rightarrow>
          security_ok A nw req (with_codes (msg A req ''security.msg.regenerated'') codes)
            (panel_audit nw req ''admin.recovery_codes_regenerated'' [] d1))"

definition totp_disable :: "app \<Rightarrow> time \<Rightarrow> request \<Rightarrow> db \<Rightarrow> handled" where
  "totp_disable A nw req d =
     (let a = sess_admin req
      in if cf_adminRequireTotp (ap_cfg A) \<and> ad_passkeys a = 0 then security_error A nw req (msg A req ''security.msg.required'') d
         else case disableTotp (ap_crypto A) nw (ad_id a) (form_field req ''code'') (sess_id req) nw d of
           (Inl e, d1) \<Rightarrow> (Inl e, d1)
         | (Inr False, d1) \<Rightarrow>
             security_error A nw req (msg A req ''security.msg.invalid_code'')
               (panel_audit nw req ''admin.totp_failed'' [(''context'', DStr ''disable'')] d1)
         | (Inr True, d1) \<Rightarrow>
             security_ok A nw (set_admin (\<lambda>a. a\<lparr>ad_totp_enabled := False\<rparr>) req) (with_ok (msg A req ''security.msg.disabled''))
               (panel_audit nw req ''admin.totp_disabled'' [] d1))"

end
