(* ===== verification/AdminKeys.thy ===== *)
theory AdminKeys
  imports AdminSecurity
begin

text \<open>
  The passkeys and sessions of src/http/admin.ts's security page, and the gate behind it: an account that
  still has to change its password or to set up a second factor reaches nothing else.
\<close>

section \<open>Passkeys\<close>

definition confirm_first :: "(string \<times> json) list" where
  "confirm_first = [(''redirect'', str_json ''/admin/confirm?next=%2Fadmin%2Fsecurity'')]"

definition limit_param :: params where "limit_param = [(''n'', units (string_of_nat MAX_PASSKEYS))]"

definition passkey_options :: "app \<Rightarrow> time \<Rightarrow> draws \<Rightarrow> request \<Rightarrow> db \<Rightarrow> handled" where
  "passkey_options A nw rnd req d =
     (let a = sess_admin req
      in if \<not> recently_confirmed nw req then (Inr (sendJson 200 confirm_first), d)
         else
           let exclude = credentialIds d (ad_id a)
           in if MAX_PASSKEYS \<le> length exclude then (Inr (sendJson 400 (error_json (msg_with A req ''passkeys.limit'' limit_param))), d)
              else case beginCeremony (ap_crypto A) nw (dr_bytes rnd) (sess_id req) PRegister d of
                (c, d1) \<Rightarrow>
                  (Inr (sendJson 200
                     [(''challenge'', str_json c), (''rpId'', str_json (snd (rp A))), (''rpName'', str_json (br_name (cf_brand (ap_cfg A)))),
                      (''userId'', str_json (b64url_of (utf8 (ad_id a)))), (''userName'', str_json (ad_username a)),
                      (''exclude'', JArr (map str_json exclude)), (''timeout'', int_json CEREMONY_TTL_MS)]), d1))"

definition registration_of :: "request \<Rightarrow> registration_input" where
  "registration_of req =
     \<lparr>rg_clientDataJSON = form_field req ''client_data'', rg_authenticatorData = form_field req ''authenticator_data'',
      rg_publicKey = form_field req ''public_key'', rg_algorithm = js_Number (form_field req ''algorithm''),
      rg_credentialId = form_field req ''credential_id''\<rparr>"

definition passkey_refusal_key :: "string \<Rightarrow> string" where
  "passkey_refusal_key m =
     (if m = ''too many passkeys'' then ''passkeys.limit''
      else if m = ''passkey already registered'' then ''passkeys.duplicate'' else ''passkey.failed'')"

text \<open>The recovery codes of the account's first factor, shown once.\<close>

definition first_codes :: "app \<Rightarrow> draws \<Rightarrow> request \<Rightarrow> db \<Rightarrow> string list option result \<times> db" where
  "first_codes A rnd req d =
     (if hasSecondFactor (sess_admin req) then (Inr None, d)
      else regenerateRecoveryCodesConfirmed (ap_crypto A) (dr_codes rnd) (ad_id (sess_admin req)) d)"

definition passkey_added :: "app \<Rightarrow> time \<Rightarrow> draws \<Rightarrow> request \<Rightarrow> passkey \<Rightarrow> flashes \<Rightarrow> db \<Rightarrow> handled \<times> flashes" where
  "passkey_added A nw rnd req pk fl d =
     (let d1 = panel_audit nw req ''admin.passkey_added'' [(''passkey'', DStr (pk_id pk)), (''name'', DStr (pk_name pk))]
                 (destroyOtherSessions (ap_crypto A) (ad_id (sess_admin req)) (sess_id req) d)
      in case first_codes A rnd req d1 of
           (Inl e, d2) \<Rightarrow> ((Inl e, d2), fl)
         | (Inr codes, d2) \<Rightarrow>
             ((Inr (sendJson 200 [(''redirect'', str_json ''/admin/security'')]), d2),
              obj_set (sess_id req)
                \<lparr>fl_ok = Some (msg_with A req ''passkeys.added'' [(''name'', units (pk_name pk))]), fl_recoveryCodes = codes, fl_at = nw\<rparr>
                (filter (\<lambda>p. nw - fl_at (snd p) < 60000) fl)))"

definition passkey_register :: "app \<Rightarrow> time \<Rightarrow> draws \<Rightarrow> request \<Rightarrow> flashes \<Rightarrow> db \<Rightarrow> handled \<times> flashes" where
  "passkey_register A nw rnd req fl d =
     (case registerPasskey (ap_crypto A) nw (dr_id rnd) (sess_id req) (ad_id (sess_admin req)) (form_field req ''name'')
             (registration_of req) (rp A) d of
        (Inr pk, d1) \<Rightarrow> passkey_added A nw rnd req pk fl d1
      | (Inl (WebAuthnError m), d1) \<Rightarrow>
          ((Inr (sendJson 400 (error_json (msg_with A req (passkey_refusal_key m) limit_param))),
            panel_audit nw req ''admin.passkey_failed'' [(''context'', DStr ''register''), (''reason'', DStr m)] d1), fl)
      | (Inl e, d1) \<Rightarrow> ((Inl e, d1), fl))"

definition not_found :: "app \<Rightarrow> request \<Rightarrow> response" where
  "not_found A req = sendError A req ''error.not_found.title'' ''error.not_found.title'' 404"

definition passkey_remove :: "app \<Rightarrow> time \<Rightarrow> request \<Rightarrow> string \<Rightarrow> db \<Rightarrow> handled" where
  "passkey_remove A nw req i d =
     (let a = sess_admin req
      in if cf_adminRequireTotp (ap_cfg A) \<and> \<not> ad_totp_enabled a \<and> ad_passkeys a \<le> 1
         then security_error A nw req (msg A req ''passkeys.last_required'') d
         else case (case validId i of
                      None \<Rightarrow> (None, d)
                    | Some pid \<Rightarrow> removePasskey (ap_crypto A) (ad_id a) pid (sess_id req) d) of
           (None, d1) \<Rightarrow> (Inr (not_found A req), d1)
         | (Some pk, d1) \<Rightarrow>
             security_ok A nw (set_admin (\<lambda>x. x\<lparr>ad_passkeys := ad_passkeys x - 1\<rparr>) req)
               (with_ok (msg_with A req ''passkeys.removed'' [(''name'', units (pk_name pk))]))
               (panel_audit nw req ''admin.passkey_removed'' [(''passkey'', DStr (pk_id pk)), (''name'', DStr (pk_name pk))] d1))"

definition recovery_regenerate :: "app \<Rightarrow> time \<Rightarrow> draws \<Rightarrow> request \<Rightarrow> db \<Rightarrow> handled" where
  "recovery_regenerate A nw rnd req d =
     (case regenerateRecoveryCodesConfirmed (ap_crypto A) (dr_codes rnd) (ad_id (sess_admin req)) d of
        (Inl e, d1) \<Rightarrow> (Inl e, d1)
      | (Inr None, d1) \<Rightarrow> security_error A nw req (msg A req ''security.msg.invalid_code'') d1
      | (Inr (Some codes), d1) \<Rightarrow>
          security_ok A nw req (with_codes (msg A req ''security.msg.regenerated'') codes)
            (panel_audit nw req ''admin.recovery_codes_regenerated'' [] d1))"

section \<open>Sessions\<close>

definition sessions_revoke_others :: "app \<Rightarrow> time \<Rightarrow> request \<Rightarrow> db \<Rightarrow> handled" where
  "sessions_revoke_others A nw req d =
     security_ok A nw req (with_ok (msg A req ''sessions.revoked_others''))
       (panel_audit nw req ''admin.sessions_revoked'' [(''scope'', DStr ''others'')]
         (destroyOtherSessions (ap_crypto A) (ad_id (sess_admin req)) (sess_id req) d))"

text \<open>\<open>/^s_[0-9a-zA-Z_-]{16,32}$/\<close>.\<close>

definition public_id_re :: "string \<Rightarrow> bool" where
  "public_id_re i \<longleftrightarrow> take 2 i = ''s_'' \<and> 16 \<le> length (drop 2 i) \<and> length (drop 2 i) \<le> 32 \<and> list_all is_url_char (drop 2 i)"

definition session_revoke :: "app \<Rightarrow> time \<Rightarrow> request \<Rightarrow> string \<Rightarrow> db \<Rightarrow> handled" where
  "session_revoke A nw req i d =
     (if \<not> public_id_re i \<or> i = sv_public_id (sess req) then (Inr (not_found A req), d)
      else case revokeSession (ad_id (sess_admin req)) i d of
        (False, d1) \<Rightarrow> (Inr (not_found A req), d1)
      | (True, d1) \<Rightarrow>
          security_ok A nw req (with_ok (msg A req ''sessions.revoked''))
            (panel_audit nw req ''admin.sessions_revoked'' [(''session'', DStr i)] d1))"

section \<open>What an account owes before it may go on\<close>

definition requirements :: "app \<Rightarrow> request \<Rightarrow> response option" where
  "requirements A req =
     (let a = sess_admin req;
          missing = (if ad_must_change a then Some ''Password change required''
                     else if cf_adminRequireTotp (ap_cfg A) \<and> \<not> hasSecondFactor a then Some ''Second factor required'' else None)
      in case missing of
           None \<Rightarrow> None
         | Some m \<Rightarrow>
             if rq_method req = ''GET'' then Some (redirect 302 ''/admin/security'')
             else Some (answer 403 (PlainText (units m))))"

end
