(* ===== verification/AdminCases.thy ===== *)
theory AdminCases
  imports AdminKeys
begin

text \<open>
  The second half of src/http/admin.ts: cases, links, files, case members, accounts and the audit log. A
  case someone is not assigned to answers like one that does not exist.
\<close>

section \<open>Cases\<close>

definition caseFor :: "request \<Rightarrow> string option \<Rightarrow> db \<Rightarrow> case_row option" where
  "caseFor req i d =
     (case i of
        None \<Rightarrow> None
      | Some k \<Rightarrow>
          if k = [] then None
          else case getCase d k of
            None \<Rightarrow> None
          | Some c \<Rightarrow> if canAccessCase d (viewer_of (sess_admin req)) (c_id c) then Some c else None)"

definition adminsOnly :: "app \<Rightarrow> request \<Rightarrow> response option" where
  "adminsOnly A req =
     (if ad_role (sess_admin req) = RoleAdmin then None
      else Some (sendError A req ''error.forbidden.title'' ''error.forbidden'' 403))"

definition case_list :: "request \<Rightarrow> text option \<Rightarrow> db \<Rightarrow> page" where
  "case_list req err d = CasesPage (viewCtx req) (listCases d (viewer_of (sess_admin req))) err"

definition cases_page :: "request \<Rightarrow> db \<Rightarrow> response" where
  "cases_page req d = send_page 200 (case_list req None d)"

definition case_audit :: "time \<Rightarrow> request \<Rightarrow> string \<Rightarrow> string \<Rightarrow> (string \<times> detail) list \<Rightarrow> db \<Rightarrow> db" where
  "case_audit nw req action caseId details =
     audit nw ((panel_event req action)\<lparr>ev_caseId := Some caseId, ev_details := (if details = [] then None else Some details)\<rparr>)"

text \<open>Every error of the three statements ends in the list with the error's message.\<close>

definition case_create :: "app \<Rightarrow> time \<Rightarrow> draws \<Rightarrow> request \<Rightarrow> db \<Rightarrow> handled" where
  "case_create A nw rnd req d =
     (let failed = (\<lambda>e d1. (Inr (send_page 400 (case_list req (Some (units (exn_message e))) d1)), d1))
      in case createCase nw (dr_id rnd) (form_field req ''name'') (Some (form_field req ''description'')) d of
           (Inl e, d1) \<Rightarrow> failed e d1
         | (Inr c, d1) \<Rightarrow>
             (case (if ad_role (sess_admin req) \<noteq> RoleAdmin then addCaseMember nw (c_id c) (ad_id (sess_admin req)) d1 else (Inr True, d1)) of
                (Inl e, d2) \<Rightarrow> failed e d2
              | (Inr _, d2) \<Rightarrow>
                  (Inr (redirect 303 (''/admin/cases/'' @ c_id c)), case_audit nw req ''case.create'' (c_id c) [(''name'', DStr (c_name c))] d2)))"

record case_extra =
  ce_error :: "text option"
  ce_ok :: "text option"
  ce_newLink :: "(string \<times> string) option"

definition no_case_extra :: case_extra where "no_case_extra = \<lparr>ce_error = None, ce_ok = None, ce_newLink = None\<rparr>"

definition renderCase :: "app \<Rightarrow> request \<Rightarrow> string \<Rightarrow> case_extra \<Rightarrow> int \<Rightarrow> db \<Rightarrow> response" where
  "renderCase A req caseId extra status d =
     (case caseFor req (Some caseId) d of
        None \<Rightarrow> sendError A req ''error.not_found.title'' ''error.case_missing'' 404
      | Some c \<Rightarrow>
          send_page status (CasePage (viewCtx req)
            \<lparr>cp_case = c, cp_links = listLinksForCase d (c_id c), cp_files = listFilesForCase d (c_id c), cp_cfg = ap_cfg A,
             cp_members = caseMembers d (c_id c), cp_assignable = assignableUsers d (c_id c),
             cp_newLink = ce_newLink extra, cp_error = ce_error extra, cp_ok = ce_ok extra\<rparr>))"

definition case_missing :: "app \<Rightarrow> request \<Rightarrow> db \<Rightarrow> handled" where
  "case_missing A req d = (Inr (renderCase A req [] no_case_extra 200 d), d)"

definition case_error :: "app \<Rightarrow> request \<Rightarrow> string \<Rightarrow> text \<Rightarrow> int \<Rightarrow> db \<Rightarrow> handled" where
  "case_error A req i m status d = (Inr (renderCase A req i (no_case_extra\<lparr>ce_error := Some m\<rparr>) status d), d)"

definition case_ok :: "app \<Rightarrow> request \<Rightarrow> string \<Rightarrow> text \<Rightarrow> db \<Rightarrow> handled" where
  "case_ok A req i m d = (Inr (renderCase A req i (no_case_extra\<lparr>ce_ok := Some m\<rparr>) 200 d), d)"

definition case_page :: "app \<Rightarrow> request \<Rightarrow> string \<Rightarrow> db \<Rightarrow> response" where
  "case_page A req i d = renderCase A req (case validId i of None \<Rightarrow> [] | Some k \<Rightarrow> k) no_case_extra 200 d"

text \<open>The start of the handlers of one case: its id is well-formed and the account may open it.\<close>

definition with_case :: "app \<Rightarrow> request \<Rightarrow> string \<Rightarrow> (case_row \<Rightarrow> db \<Rightarrow> handled) \<Rightarrow> db \<Rightarrow> handled" where
  "with_case A req i f d =
     (case validId i of
        None \<Rightarrow> case_missing A req d
      | Some k \<Rightarrow> (case caseFor req (Some k) d of None \<Rightarrow> case_missing A req d | Some c \<Rightarrow> f c d))"

definition case_save :: "app \<Rightarrow> time \<Rightarrow> request \<Rightarrow> string \<Rightarrow> db \<Rightarrow> handled" where
  "case_save A nw req i =
     with_case A req i (\<lambda>c0 d.
       case updateCase nw i \<lparr>cu_name = Some (form_field req ''name''), cu_description = Some (form_field req ''description''), cu_status = None\<rparr> d of
         (Inl e, d1) \<Rightarrow> case_error A req i (units (exn_message e)) 400 d1
       | (Inr None, d1) \<Rightarrow> case_missing A req d1
       | (Inr (Some c), d1) \<Rightarrow> case_ok A req i (msg A req ''case.saved'') (case_audit nw req ''case.update'' i [] d1))"

definition case_status_change :: "app \<Rightarrow> time \<Rightarrow> request \<Rightarrow> string \<Rightarrow> db \<Rightarrow> handled" where
  "case_status_change A nw req i =
     with_case A req i (\<lambda>c0 d.
       let status = (if form_field req ''status'' = ''closed'' then CaseClosed else CaseOpen)
       in case updateCase nw i \<lparr>cu_name = None, cu_description = None, cu_status = Some status\<rparr> d of
            (Inl e, d1) \<Rightarrow> (Inl e, d1)
          | (Inr None, d1) \<Rightarrow> case_missing A req d1
          | (Inr (Some c), d1) \<Rightarrow>
              (Inr (redirect 303 (''/admin/cases/'' @ i)),
               case_audit nw req (if status = CaseClosed then ''case.close'' else ''case.reopen'') i [] d1))"

section \<open>Links\<close>

definition backToCase :: "string \<Rightarrow> string" where
  "backToCase i = ''/admin/cases/'' @ (case validId i of None \<Rightarrow> [] | Some k \<Rightarrow> k)"

text \<open>The fields of the form, in the order they are read; the first bad one stops it.\<close>

definition link_form :: "app \<Rightarrow> request \<Rightarrow> string \<Rightarrow> create_link_input result" where
  "link_form A req caseId =
     (let expiresRaw = js_trim (form_field req ''expires_at''); maxFilesRaw = js_trim (form_field req ''max_files'')
      in and_then
           (if expiresRaw = [] then Inr None
            else case ap_parseDate A (if ends_with ''Z'' expiresRaw then expiresRaw else expiresRaw @ ''Z'') of
                   None \<Rightarrow> Inl (UserError ''error.invalid_expiry'' [])
                 | Some ms \<Rightarrow> Inr (Some ms)) (\<lambda>expiresAt.
         and_then (optionalSize (form_field req ''max_file_size'') ''max file size'') (\<lambda>maxFile.
         and_then (optionalSize (form_field req ''max_total_size'') ''max total size'') (\<lambda>maxTotal.
           Inr \<lparr>ci_caseId = caseId, ci_label = form_field req ''label'', ci_expiresAt = expiresAt, ci_maxFileBytes = maxFile,
                ci_maxFiles = (if maxFilesRaw \<noteq> [] then Some (js_Number maxFilesRaw) else None), ci_maxTotalBytes = maxTotal\<rparr>))))"

text \<open>The message of the error: the translated one for the date, else the error's own.\<close>

definition link_error_text :: "app \<Rightarrow> request \<Rightarrow> exn \<Rightarrow> text" where
  "link_error_text A req e = (case e of UserError key ps \<Rightarrow> msg A req key | _ \<Rightarrow> units (exn_message e))"

definition opt_detail :: "('a \<Rightarrow> detail) \<Rightarrow> 'a option \<Rightarrow> detail" where
  "opt_detail f v = (case v of None \<Rightarrow> DNull | Some x \<Rightarrow> f x)"

definition link_details :: "link_row \<Rightarrow> (string \<times> detail) list" where
  "link_details l =
     [(''label'', DStr (l_label l)), (''expires_at'', opt_detail (\<lambda>ms. DStr (toISOString ms)) (l_expires_at l)),
      (''max_file_bytes'', opt_detail DNum (l_max_file_bytes l)), (''max_files'', opt_detail DNum (l_max_files l)),
      (''max_total_bytes'', opt_detail DNum (l_max_total_bytes l))]"

definition link_create :: "app \<Rightarrow> time \<Rightarrow> draws \<Rightarrow> request \<Rightarrow> string \<Rightarrow> db \<Rightarrow> handled" where
  "link_create A nw rnd req i =
     with_case A req i (\<lambda>c d.
       if c_status c \<noteq> CaseOpen then case_error A req i (msg A req ''case.closed_no_links'') 400 d
       else case link_form A req i of
         Inl e \<Rightarrow> case_error A req i (link_error_text A req e) 400 d
       | Inr inp \<Rightarrow>
           (case createLink (ap_crypto A) nw (dr_bytes rnd) (dr_id rnd) (ap_cfg A) inp d of
              (Inl e, d1) \<Rightarrow> case_error A req i (units (exn_message e)) 400 d1
            | (Inr (link, token, url), d1) \<Rightarrow>
                let d2 = audit nw ((panel_event req ''link.create'')\<lparr>ev_caseId := Some i, ev_linkId := Some (l_id link),
                           ev_details := Some (link_details link)\<rparr>) d1
                in (Inr (renderCase A req i (no_case_extra\<lparr>ce_newLink := Some (l_label link, url)\<rparr>) 200 d2), d2)))"

text \<open>The running uploads of the link, one by one: its data first, then its row.\<close>

fun discard_uploads ::
  "'s backend \<Rightarrow> (string \<Rightarrow> 's \<Rightarrow> unit result \<times> 's) \<Rightarrow> file_row list \<Rightarrow> db \<Rightarrow> 's \<Rightarrow> db \<times> 's" where
  "discard_uploads B tus_remove [] d s = (d, s)"
| "discard_uploads B tus_remove (f # fs) d s =
     discard_uploads B tus_remove fs (snd (failUpload (f_id f) FailAborted d)) (discardUploadData B tus_remove f s)"

definition link_revoke ::
  "app \<Rightarrow> 's backend \<Rightarrow> (string \<Rightarrow> 's \<Rightarrow> unit result \<times> 's) \<Rightarrow> time \<Rightarrow> request \<Rightarrow> string \<Rightarrow> db \<Rightarrow> 's \<Rightarrow> handled \<times> 's" where
  "link_revoke A B tus_remove nw req i d s =
     (case Option.bind (validId i) (getLink d) of
        None \<Rightarrow> ((Inr (sendError A req ''error.not_found.title'' ''error.link_missing'' 404), d), s)
      | Some link \<Rightarrow>
          if caseFor req (Some (l_case_id link)) d = None
          then ((Inr (sendError A req ''error.not_found.title'' ''error.link_missing'' 404), d), s)
          else
            let back = Inr (redirect 303 (''/admin/cases/'' @ l_case_id link))
            in case revokeLink nw (l_id link) d of
                 (False, d1) \<Rightarrow> ((back, d1), s)
               | (True, d1) \<Rightarrow>
                   let d2 = audit nw ((panel_event req ''link.revoke'')\<lparr>ev_caseId := Some (l_case_id link), ev_linkId := Some (l_id link)\<rparr>) d1
                   in case discard_uploads B tus_remove (listUploadingForLink d2 (l_id link)) d2 s of
                        (d3, s1) \<Rightarrow> ((back, d3), s1))"

section \<open>Files\<close>

definition file_event :: "request \<Rightarrow> string \<Rightarrow> file_row \<Rightarrow> audit_event" where
  "file_event req action f =
     (panel_event req action)\<lparr>ev_caseId := Some (f_case_id f), ev_linkId := Some (f_link_id f), ev_fileId := Some (f_id f)\<rparr>"

text \<open>The file of a route parameter, if the account may open its case.\<close>

definition fileFor :: "request \<Rightarrow> string \<Rightarrow> db \<Rightarrow> file_row option" where
  "fileFor req i d =
     (case Option.bind (validId i) (getFile d) of
        None \<Rightarrow> None
      | Some f \<Rightarrow> if caseFor req (Some (f_case_id f)) d = None then None else Some f)"

text \<open>The package's header value for an attachment is the argument \<open>disposition\<close>.\<close>

definition file_download :: "app \<Rightarrow> 's backend \<Rightarrow> (string \<Rightarrow> string) \<Rightarrow> time \<Rightarrow> request \<Rightarrow> string \<Rightarrow> db \<Rightarrow> 's \<Rightarrow> handled" where
  "file_download A B disposition nw req i d s =
     (case fileFor req i d of
        None \<Rightarrow> (Inr (sendError A req ''error.not_found.title'' ''error.file_missing'' 404), d)
      | Some f \<Rightarrow>
          if f_status f \<noteq> Complete then (Inr (sendError A req ''error.not_found.title'' ''error.file_missing'' 404), d)
          else case bk_get B (f_id f) s of
            Inl (StorageNotFoundError k) \<Rightarrow> (Inr (sendError A req ''error.storage_missing.title'' ''error.storage_missing'' 410), d)
          | Inl e \<Rightarrow> (Inl e, d)
          | Inr bytes \<Rightarrow>
              (Inr \<lparr>rs_status = 200,
                 rs_headers = [(''Content-Type'', [''application/octet-stream'']), (''Content-Disposition'', [disposition (f_original_name f)]),
                   (''X-Content-Type-Options'', [''nosniff'']), (''Content-Security-Policy'', [''default-src '' @ keyword ''none'' @ ''; sandbox'']),
                   (''Cache-Control'', [''no-store''])] @
                   (case f_size f of None \<Rightarrow> [] | Some n \<Rightarrow> [(''Content-Length'', [string_of_int n])]),
                 rs_content = Attachment bytes\<rparr>,
               audit nw (file_event req ''file.download'' f) d))"

definition file_delete :: "app \<Rightarrow> 's backend \<Rightarrow> time \<Rightarrow> request \<Rightarrow> string \<Rightarrow> db \<Rightarrow> 's \<Rightarrow> handled \<times> 's" where
  "file_delete A B nw req i d s =
     (case fileFor req i d of
        None \<Rightarrow> ((Inr (sendError A req ''error.not_found.title'' ''error.file_not_exist'' 404), d), s)
      | Some f \<Rightarrow>
          let back = Inr (redirect 303 (''/admin/cases/'' @ f_case_id f))
          in case markDeleted nw (f_id f) d of
               (False, d1) \<Rightarrow> ((back, d1), s)
             | (True, d1) \<Rightarrow>
                 (case bk_delete B (f_id f) s of
                    (Inl e, s1) \<Rightarrow> ((Inl e, d1), s1)
                  | (Inr _, s1) \<Rightarrow>
                      ((back, audit nw ((file_event req ''file.delete'' f)\<lparr>ev_details :=
                          Some [(''name'', DStr (f_original_name f)), (''size'', opt_detail DNum (f_size f))]\<rparr>) d1), s1)))"

end
