(* ===== verification/AdminUsers.thy ===== *)
theory AdminUsers
  imports AdminCases
begin

text \<open>
  Case assignments, accounts and the audit page of src/http/admin.ts.
\<close>

section \<open>Case assignments\<close>

definition opt_id :: "string \<Rightarrow> string" where "opt_id i = (case validId i of Some k \<Rightarrow> k | None \<Rightarrow> [])"

definition user_details :: "user_summary \<Rightarrow> (string \<times> detail) list" where
  "user_details u = [(''user'', DStr (us_id u)), (''username'', DStr (us_username u))]"

definition username_param :: "user_summary \<Rightarrow> params" where
  "username_param u = [(''username'', units (us_username u))]"

definition member_add :: "app \<Rightarrow> time \<Rightarrow> request \<Rightarrow> string \<Rightarrow> db \<Rightarrow> handled" where
  "member_add A nw req i =
     with_case A req i (\<lambda>c d.
       case getUser d (opt_id (form_field req ''user_id'')) of
         None \<Rightarrow> case_error A req (c_id c) (msg A req ''users.missing'') 400 d
       | Some u \<Rightarrow>
           if us_role u \<noteq> RoleUser \<or> us_disabled_at u \<noteq> None then case_error A req (c_id c) (msg A req ''users.missing'') 400 d
           else case addCaseMember nw (c_id c) (us_id u) d of
             (Inl e, d1) \<Rightarrow> (Inl e, d1)
           | (Inr added, d1) \<Rightarrow>
               case_ok A req (c_id c) (msg_with A req ''members.added'' (username_param u))
                 (if added then case_audit nw req ''case.member_add'' (c_id c) (user_details u) d1 else d1))"

definition member_remove :: "app \<Rightarrow> time \<Rightarrow> request \<Rightarrow> string \<Rightarrow> string \<Rightarrow> db \<Rightarrow> handled" where
  "member_remove A nw req i uid =
     with_case A req i (\<lambda>c d.
       case getUser d (opt_id uid) of
         None \<Rightarrow> case_error A req (c_id c) (msg A req ''users.missing'') 404 d
       | Some u \<Rightarrow>
           if us_id u = ad_id (sess_admin req) then case_error A req (c_id c) (msg A req ''members.not_self'') 400 d
           else case removeCaseMember (c_id c) (us_id u) d of
             (False, d1) \<Rightarrow> case_error A req (c_id c) (msg A req ''users.missing'') 404 d1
           | (True, d1) \<Rightarrow>
               case_ok A req (c_id c) (msg_with A req ''members.removed'' (username_param u))
                 (case_audit nw req ''case.member_remove'' (c_id c) (user_details u) d1))"

section \<open>Accounts\<close>

record users_extra =
  ue_issued :: "issued_password option"
  ue_error :: "text option"
  ue_ok :: "text option"

definition no_users_extra :: users_extra where "no_users_extra = \<lparr>ue_issued = None, ue_error = None, ue_ok = None\<rparr>"

definition renderUsers :: "request \<Rightarrow> users_extra \<Rightarrow> int \<Rightarrow> db \<Rightarrow> response" where
  "renderUsers req extra status d =
     send_page status (UsersPage (viewCtx req)
       \<lparr>up_users = listUsers d, up_issued = ue_issued extra, up_error = ue_error extra, up_ok = ue_ok extra\<rparr>)"

definition users_error :: "request \<Rightarrow> text \<Rightarrow> int \<Rightarrow> db \<Rightarrow> handled" where
  "users_error req m status d = (Inr (renderUsers req (no_users_extra\<lparr>ue_error := Some m\<rparr>) status d), d)"

text \<open>A refusal of the account rules is shown in the list; any other error goes on.\<close>

definition userErrorText :: "app \<Rightarrow> request \<Rightarrow> exn \<Rightarrow> text result" where
  "userErrorText A req e =
     (case e of
        UserError key ps \<Rightarrow> Inr (msg_with A req key (map (\<lambda>(k, v). (k, units v)) ps))
      | _ \<Rightarrow> Inl e)"

definition user_refused :: "app \<Rightarrow> request \<Rightarrow> exn \<Rightarrow> db \<Rightarrow> handled" where
  "user_refused A req e d =
     (case userErrorText A req e of Inl x \<Rightarrow> (Inl x, d) | Inr m \<Rightarrow> users_error req m 400 d)"

text \<open>The loop that draws a temporary password can in theory draw for ever: then there is no answer.\<close>

definition no_password :: exn where "no_password = JsError ''no password drawn''"

definition user_create :: "app \<Rightarrow> time \<Rightarrow> draws \<Rightarrow> request \<Rightarrow> db \<Rightarrow> handled" where
  "user_create A nw rnd req d =
     (let role = form_field req ''role'';
          r = (if isRole role \<noteq> None then role else ''user'')
      in case createUser (ap_crypto A) nw (dr_password rnd) (dr_id rnd) (dr_salt rnd) (form_field req ''username'') r d of
           None \<Rightarrow> (Inl no_password, d)
         | Some (Inl e, d1) \<Rightarrow> user_refused A req e d1
         | Some (Inr (u, password), d1) \<Rightarrow>
             let d2 = panel_audit nw req ''user.create''
                   [(''user'', DStr (ad_id u)), (''username'', DStr (ad_username u)), (''role'', DStr (role_text (ad_role u)))] d1
             in (Inr (renderUsers req (no_users_extra\<lparr>ue_issued :=
                   Some \<lparr>ip_username = ad_username u, ip_password = password, ip_reset = False\<rparr>\<rparr>) 200 d2), d2))"

text \<open>What one account action gives: the account, the message, further details and a password to show.\<close>

record user_done =
  dn_user :: user_summary
  dn_ok :: "text"
  dn_details :: "(string \<times> detail) list"
  dn_issued :: "issued_password option"

definition userAction ::
  "app \<Rightarrow> time \<Rightarrow> request \<Rightarrow> string \<Rightarrow> (string \<Rightarrow> string \<Rightarrow> db \<Rightarrow> user_done result \<times> db) \<Rightarrow> string \<Rightarrow> db \<Rightarrow> handled" where
  "userAction A nw req action f i d =
     (case validId i of
        None \<Rightarrow> users_error req (msg A req ''users.missing'') 404 d
      | Some uid \<Rightarrow>
          (case f (ad_id (sess_admin req)) uid d of
             (Inl e, d1) \<Rightarrow> user_refused A req e d1
           | (Inr x, d1) \<Rightarrow>
               let d2 = panel_audit nw req action (user_details (dn_user x) @ dn_details x) d1
               in (Inr (renderUsers req \<lparr>ue_issued = dn_issued x, ue_error = None, ue_ok = Some (dn_ok x)\<rparr> 200 d2), d2)))"

definition done_with :: "app \<Rightarrow> request \<Rightarrow> string \<Rightarrow> user_summary result \<times> db \<Rightarrow> user_done result \<times> db" where
  "done_with A req key p =
     (case p of
        (Inl e, d1) \<Rightarrow> (Inl e, d1)
      | (Inr u, d1) \<Rightarrow>
          (Inr \<lparr>dn_user = u, dn_ok = msg_with A req key (username_param u), dn_details = [], dn_issued = None\<rparr>, d1))"

definition action_role :: "app \<Rightarrow> request \<Rightarrow> string \<Rightarrow> string \<Rightarrow> db \<Rightarrow> user_done result \<times> db" where
  "action_role A req actor i d =
     (case isRole (form_field req ''role'') of
        None \<Rightarrow> (Inl (UserError ''users.invalid_role'' []), d)
      | Some r \<Rightarrow>
          (case setUserRole actor i r d of
             (Inl e, d1) \<Rightarrow> (Inl e, d1)
           | (Inr u, d1) \<Rightarrow>
               (Inr \<lparr>dn_user = u,
                  dn_ok = msg_with A req ''users.role_changed'' (username_param u @
                    [(''role'', msg A req (if r = RoleAdmin then ''users.role.admin'' else ''users.role.user''))]),
                  dn_details = [(''role'', DStr (role_text r))], dn_issued = None\<rparr>, d1)))"

definition action_password :: "app \<Rightarrow> draws \<Rightarrow> request \<Rightarrow> string \<Rightarrow> string \<Rightarrow> db \<Rightarrow> user_done result \<times> db" where
  "action_password A rnd req actor i d =
     (case resetUserPassword (ap_crypto A) (dr_password rnd) (dr_salt rnd) actor i d of
        None \<Rightarrow> (Inl no_password, d)
      | Some (Inl e, d1) \<Rightarrow> (Inl e, d1)
      | Some (Inr (u, password), d1) \<Rightarrow>
          (Inr \<lparr>dn_user = u, dn_ok = msg_with A req ''users.password_reset'' (username_param u), dn_details = [],
             dn_issued = Some \<lparr>ip_username = us_username u, ip_password = password, ip_reset = True\<rparr>\<rparr>, d1))"

definition action_totp :: "app \<Rightarrow> request \<Rightarrow> string \<Rightarrow> string \<Rightarrow> db \<Rightarrow> user_done result \<times> db" where
  "action_totp A req actor i d = done_with A req ''users.totp_reset'' (resetUserTotp (ap_crypto A) actor i d)"

definition action_disable :: "app \<Rightarrow> time \<Rightarrow> request \<Rightarrow> string \<Rightarrow> string \<Rightarrow> db \<Rightarrow> user_done result \<times> db" where
  "action_disable A nw req actor i d = done_with A req ''users.disabled'' (setUserDisabled nw actor i True d)"

definition action_enable :: "app \<Rightarrow> time \<Rightarrow> request \<Rightarrow> string \<Rightarrow> string \<Rightarrow> db \<Rightarrow> user_done result \<times> db" where
  "action_enable A nw req actor i d = done_with A req ''users.enabled'' (setUserDisabled nw actor i False d)"

definition action_delete :: "app \<Rightarrow> request \<Rightarrow> string \<Rightarrow> string \<Rightarrow> db \<Rightarrow> user_done result \<times> db" where
  "action_delete A req actor i d = done_with A req ''users.deleted'' (deleteUser actor i d)"

section \<open>The audit page\<close>

definition audit_page :: "request \<Rightarrow> db \<Rightarrow> response" where
  "audit_page req d = send_page 200 (AuditPage (viewCtx req) (listAudit d 300))"

end
