(* ===== verification/AdminRouter.thy ===== *)
theory AdminRouter
  imports AdminUsers
begin

text \<open>
  The panel as src/http/admin.ts mounts it: the routes in their order and the gates between them. A
  request comes with the segments of its path below \<open>/admin\<close>, as Express's router decodes them.
\<close>

section \<open>Routes\<close>

datatype endpoint =
    DbscRegister | DbscRefresh | GetLogin | PostLogin
  | PostLogout | GetTotp | PasskeyLoginOptions | PasskeyLogin | PostTotp
  | GetConfirm | ConfirmCode | ConfirmPassword | PasskeyConfirmOptions | ConfirmPasskey
  | GetSecurity | SecurityPassword | TotpBegin | TotpConfirm | TotpRecovery | TotpDisable
  | PasskeyOptions | PasskeyRegister | PasskeyRemove string | RecoveryRegenerate
  | RevokeOthers | RevokeSession string
  | GetCases | CreateCase | GetCase string | SaveCase string | CaseStatus string | CreateLink string | RevokeLink string
  | DownloadFile string | DeleteFile string | AddMember string | RemoveMember string string
  | GetUsers | CreateUser | UserRole string | UserPassword string | UserTotp string | UserDisable string
  | UserEnable string | UserDelete string | GetAudit

datatype segment = Lit string | Par

text \<open>
  A route matches segment by segment, its fixed words in any case (Express's default); the parameters are
  what stands in the open places.
\<close>

fun match_path :: "segment list \<Rightarrow> string list \<Rightarrow> string list option" where
  "match_path [] [] = Some []"
| "match_path (Lit s # ps) (x # xs) = (if s = js_lower x then match_path ps xs else None)"
| "match_path (Par # ps) (x # xs) = (if x = [] then None else map_option (Cons x) (match_path ps xs))"
| "match_path _ _ = None"

definition routes :: "(string \<times> segment list \<times> (string list \<Rightarrow> endpoint)) list" where
  "routes =
    [(''POST'', [Lit ''dbsc'', Lit ''register''], \<lambda>_. DbscRegister), (''POST'', [Lit ''dbsc'', Lit ''refresh''], \<lambda>_. DbscRefresh),
     (''GET'', [Lit ''login''], \<lambda>_. GetLogin), (''POST'', [Lit ''login''], \<lambda>_. PostLogin),
     (''POST'', [Lit ''logout''], \<lambda>_. PostLogout), (''GET'', [Lit ''totp''], \<lambda>_. GetTotp),
     (''POST'', [Lit ''webauthn'', Lit ''login'', Lit ''options''], \<lambda>_. PasskeyLoginOptions),
     (''POST'', [Lit ''webauthn'', Lit ''login''], \<lambda>_. PasskeyLogin), (''POST'', [Lit ''totp''], \<lambda>_. PostTotp),
     (''GET'', [Lit ''confirm''], \<lambda>_. GetConfirm), (''POST'', [Lit ''confirm'', Lit ''code''], \<lambda>_. ConfirmCode),
     (''POST'', [Lit ''confirm'', Lit ''password''], \<lambda>_. ConfirmPassword),
     (''POST'', [Lit ''webauthn'', Lit ''confirm'', Lit ''options''], \<lambda>_. PasskeyConfirmOptions),
     (''POST'', [Lit ''confirm'', Lit ''passkey''], \<lambda>_. ConfirmPasskey),
     (''GET'', [Lit ''security''], \<lambda>_. GetSecurity), (''POST'', [Lit ''security'', Lit ''password''], \<lambda>_. SecurityPassword),
     (''POST'', [Lit ''security'', Lit ''totp'', Lit ''begin''], \<lambda>_. TotpBegin),
     (''POST'', [Lit ''security'', Lit ''totp'', Lit ''confirm''], \<lambda>_. TotpConfirm),
     (''POST'', [Lit ''security'', Lit ''totp'', Lit ''recovery''], \<lambda>_. TotpRecovery),
     (''POST'', [Lit ''security'', Lit ''totp'', Lit ''disable''], \<lambda>_. TotpDisable),
     (''POST'', [Lit ''security'', Lit ''passkeys'', Lit ''options''], \<lambda>_. PasskeyOptions),
     (''POST'', [Lit ''security'', Lit ''passkeys''], \<lambda>_. PasskeyRegister),
     (''POST'', [Lit ''security'', Lit ''passkeys'', Par, Lit ''remove''], \<lambda>ps. PasskeyRemove (hd ps)),
     (''POST'', [Lit ''security'', Lit ''recovery'', Lit ''regenerate''], \<lambda>_. RecoveryRegenerate),
     (''POST'', [Lit ''security'', Lit ''sessions'', Lit ''revoke-others''], \<lambda>_. RevokeOthers),
     (''POST'', [Lit ''security'', Lit ''sessions'', Par, Lit ''revoke''], \<lambda>ps. RevokeSession (hd ps)),
     (''GET'', [], \<lambda>_. GetCases), (''POST'', [Lit ''cases''], \<lambda>_. CreateCase),
     (''GET'', [Lit ''cases'', Par], \<lambda>ps. GetCase (hd ps)), (''POST'', [Lit ''cases'', Par], \<lambda>ps. SaveCase (hd ps)),
     (''POST'', [Lit ''cases'', Par, Lit ''status''], \<lambda>ps. CaseStatus (hd ps)),
     (''POST'', [Lit ''cases'', Par, Lit ''links''], \<lambda>ps. CreateLink (hd ps)),
     (''POST'', [Lit ''links'', Par, Lit ''revoke''], \<lambda>ps. RevokeLink (hd ps)),
     (''GET'', [Lit ''files'', Par, Lit ''download''], \<lambda>ps. DownloadFile (hd ps)),
     (''POST'', [Lit ''files'', Par, Lit ''delete''], \<lambda>ps. DeleteFile (hd ps)),
     (''POST'', [Lit ''cases'', Par, Lit ''members''], \<lambda>ps. AddMember (hd ps)),
     (''POST'', [Lit ''cases'', Par, Lit ''members'', Par, Lit ''remove''], \<lambda>ps. RemoveMember (hd ps) (ps ! 1)),
     (''GET'', [Lit ''users''], \<lambda>_. GetUsers), (''POST'', [Lit ''users''], \<lambda>_. CreateUser),
     (''POST'', [Lit ''users'', Par, Lit ''role''], \<lambda>ps. UserRole (hd ps)),
     (''POST'', [Lit ''users'', Par, Lit ''password''], \<lambda>ps. UserPassword (hd ps)),
     (''POST'', [Lit ''users'', Par, Lit ''totp''], \<lambda>ps. UserTotp (hd ps)),
     (''POST'', [Lit ''users'', Par, Lit ''disable''], \<lambda>ps. UserDisable (hd ps)),
     (''POST'', [Lit ''users'', Par, Lit ''enable''], \<lambda>ps. UserEnable (hd ps)),
     (''POST'', [Lit ''users'', Par, Lit ''delete''], \<lambda>ps. UserDelete (hd ps)),
     (''GET'', [Lit ''audit''], \<lambda>_. GetAudit)]"

text \<open>Routes for GET answer HEAD as well.\<close>

definition endpoint_of :: "string \<Rightarrow> string list \<Rightarrow> endpoint option" where
  "endpoint_of m segs =
     (let verb = (if m = ''HEAD'' then ''GET'' else m)
      in case List.map_filter (\<lambda>(v, path, mk). if v = verb then map_option mk (match_path path segs) else None) routes of
           [] \<Rightarrow> None
         | e # _ \<Rightarrow> Some e)"

section \<open>The state and the handlers\<close>

record 's world =
  w_db :: db
  w_store :: 's
  w_flashes :: flashes

text \<open>The storage and the packages around it.\<close>

record 's services =
  sv_backend :: "'s backend"
  sv_tusRemove :: "string \<Rightarrow> 's \<Rightarrow> unit result \<times> 's"
  sv_disposition :: "string \<Rightarrow> string"

text \<open>What a router does: answer, fail, or leave the request to what is mounted after it.\<close>

datatype routed = Answered "response result" | NotRouted

type_synonym 's step = "routed \<times> 's world"

definition plain :: "'s world \<Rightarrow> handled \<Rightarrow> 's step" where
  "plain w h = (Answered (fst h), w\<lparr>w_db := snd h\<rparr>)"

definition page_only :: "'s world \<Rightarrow> response \<Rightarrow> 's step" where
  "page_only w r = (Answered (Inr r), w)"

text \<open>A gate in front of what follows.\<close>

definition gated :: "response option \<Rightarrow> 's world \<Rightarrow> 's step \<Rightarrow> 's step" where
  "gated g w rest = (case g of Some r \<Rightarrow> page_only w r | None \<Rightarrow> rest)"

definition limited :: "app \<Rightarrow> request \<Rightarrow> 's world \<Rightarrow> 's step \<Rightarrow> 's step" where
  "limited A req = gated (rateLimit A (loginLimiter A) req)"

definition confirmed_only :: "time \<Rightarrow> string \<Rightarrow> request \<Rightarrow> 's world \<Rightarrow> 's step \<Rightarrow> 's step" where
  "confirmed_only nw back req = gated (requireConfirmed nw back req)"

definition entrance :: "app \<Rightarrow> time \<Rightarrow> draws \<Rightarrow> request \<Rightarrow> endpoint \<Rightarrow> 's world \<Rightarrow> 's step option" where
  "entrance A nw rnd req e w =
     (case e of
        DbscRegister \<Rightarrow> Some (plain w (dbsc_register A nw rnd req (w_db w)))
      | DbscRefresh \<Rightarrow> Some (plain w (dbsc_refresh A nw rnd req (w_db w)))
      | GetLogin \<Rightarrow> Some (page_only w (login_page req))
      | PostLogin \<Rightarrow> Some (limited A req w (plain w (login A nw rnd req (w_db w))))
      | _ \<Rightarrow> None)"

definition pending_stage :: "app \<Rightarrow> time \<Rightarrow> draws \<Rightarrow> request \<Rightarrow> endpoint \<Rightarrow> 's world \<Rightarrow> 's step option" where
  "pending_stage A nw rnd req e w =
     (case e of
        PostLogout \<Rightarrow> Some (plain w (logout A nw req (w_db w)))
      | GetTotp \<Rightarrow> Some (page_only w (totp_page nw req (w_db w)))
      | PasskeyLoginOptions \<Rightarrow> Some (plain w (webauthn_login_options A nw rnd req (w_db w)))
      | PasskeyLogin \<Rightarrow> Some (limited A req w (plain w (webauthn_login A nw rnd req (w_db w))))
      | PostTotp \<Rightarrow> Some (limited A req w (plain w (totp_submit A nw rnd req (w_db w))))
      | _ \<Rightarrow> None)"

definition with_flashes :: "'s world \<Rightarrow> handled \<times> flashes \<Rightarrow> 's step" where
  "with_flashes w h = (Answered (fst (fst h)), w\<lparr>w_db := snd (fst h), w_flashes := snd h\<rparr>)"

definition complete_stage :: "app \<Rightarrow> time \<Rightarrow> draws \<Rightarrow> request \<Rightarrow> endpoint \<Rightarrow> 's world \<Rightarrow> 's step option" where
  "complete_stage A nw rnd req e w =
     (let d = w_db w; back = ''/admin/security''
      in case e of
        GetConfirm \<Rightarrow> Some (page_only w (renderConfirm A req None 200 d))
      | ConfirmCode \<Rightarrow> Some (limited A req w (plain w (confirm_code A nw req d)))
      | ConfirmPassword \<Rightarrow> Some (limited A req w (plain w (confirm_password A nw req d)))
      | PasskeyConfirmOptions \<Rightarrow> Some (plain w (webauthn_confirm_options A nw rnd req d))
      | ConfirmPasskey \<Rightarrow> Some (limited A req w (plain w (confirm_passkey A nw req d)))
      | GetSecurity \<Rightarrow>
          (case security_page A nw req (w_flashes w) d of (r, fl) \<Rightarrow> Some (Answered (Inr r), w\<lparr>w_flashes := fl\<rparr>))
      | SecurityPassword \<Rightarrow> Some (plain w (security_password A nw rnd req d))
      | TotpBegin \<Rightarrow> Some (confirmed_only nw back req w (plain w (totp_begin A nw rnd req d)))
      | TotpConfirm \<Rightarrow> Some (plain w (totp_confirm A nw rnd req d))
      | TotpRecovery \<Rightarrow> Some (plain w (totp_recovery A nw rnd req d))
      | TotpDisable \<Rightarrow> Some (plain w (totp_disable A nw req d))
      | PasskeyOptions \<Rightarrow> Some (plain w (passkey_options A nw rnd req d))
      | PasskeyRegister \<Rightarrow> Some (confirmed_only nw back req w (with_flashes w (passkey_register A nw rnd req (w_flashes w) d)))
      | PasskeyRemove i \<Rightarrow> Some (confirmed_only nw back req w (plain w (passkey_remove A nw req i d)))
      | RecoveryRegenerate \<Rightarrow> Some (confirmed_only nw back req w (plain w (recovery_regenerate A nw rnd req d)))
      | RevokeOthers \<Rightarrow> Some (plain w (sessions_revoke_others A nw req d))
      | RevokeSession i \<Rightarrow> Some (plain w (session_revoke A nw req i d))
      | _ \<Rightarrow> None)"

definition stored :: "'s world \<Rightarrow> handled \<times> 's \<Rightarrow> 's step" where
  "stored w h = (Answered (fst (fst h)), w\<lparr>w_db := snd (fst h), w_store := snd h\<rparr>)"

text \<open>The routes of the accounts: administrators only, and changes need a recent confirmation.\<close>

definition user_action_step ::
  "app \<Rightarrow> time \<Rightarrow> request \<Rightarrow> string \<Rightarrow> (string \<Rightarrow> string \<Rightarrow> db \<Rightarrow> user_done result \<times> db) \<Rightarrow> string \<Rightarrow> 's world \<Rightarrow> 's step" where
  "user_action_step A nw req action f i w =
     gated (adminsOnly A req) w (confirmed_only nw ''/admin/users'' req w (plain w (userAction A nw req action f i (w_db w))))"

definition accounts_stage :: "app \<Rightarrow> time \<Rightarrow> draws \<Rightarrow> request \<Rightarrow> endpoint \<Rightarrow> 's world \<Rightarrow> 's step" where
  "accounts_stage A nw rnd req e w =
     (let d = w_db w
      in case e of
        GetUsers \<Rightarrow> gated (adminsOnly A req) w (page_only w (renderUsers req no_users_extra 200 d))
      | CreateUser \<Rightarrow>
          gated (adminsOnly A req) w (confirmed_only nw ''/admin/users'' req w (plain w (user_create A nw rnd req d)))
      | UserRole i \<Rightarrow> user_action_step A nw req ''user.role'' (action_role A req) i w
      | UserPassword i \<Rightarrow> user_action_step A nw req ''user.password_reset'' (action_password A rnd req) i w
      | UserTotp i \<Rightarrow> user_action_step A nw req ''user.totp_reset'' (action_totp A req) i w
      | UserDisable i \<Rightarrow> user_action_step A nw req ''user.disable'' (action_disable A nw req) i w
      | UserEnable i \<Rightarrow> user_action_step A nw req ''user.enable'' (action_enable A nw req) i w
      | UserDelete i \<Rightarrow> user_action_step A nw req ''user.delete'' (action_delete A req) i w
      | GetAudit \<Rightarrow> gated (adminsOnly A req) w (page_only w (audit_page req d))
      | _ \<Rightarrow> (NotRouted, w))"

definition working_stage :: "app \<Rightarrow> 's services \<Rightarrow> time \<Rightarrow> draws \<Rightarrow> request \<Rightarrow> endpoint \<Rightarrow> 's world \<Rightarrow> 's step" where
  "working_stage A S nw rnd req e w =
     (let d = w_db w; s = w_store w; B = sv_backend S
      in case e of
        GetCases \<Rightarrow> page_only w (cases_page req d)
      | CreateCase \<Rightarrow> plain w (case_create A nw rnd req d)
      | GetCase i \<Rightarrow> page_only w (case_page A req i d)
      | SaveCase i \<Rightarrow> plain w (case_save A nw req i d)
      | CaseStatus i \<Rightarrow> plain w (case_status_change A nw req i d)
      | CreateLink i \<Rightarrow> confirmed_only nw (backToCase i) req w (plain w (link_create A nw rnd req i d))
      | RevokeLink i \<Rightarrow> stored w (link_revoke A B (sv_tusRemove S) nw req i d s)
      | DownloadFile i \<Rightarrow> confirmed_only nw ''/admin'' req w (plain w (file_download A B (sv_disposition S) nw req i d s))
      | DeleteFile i \<Rightarrow> stored w (file_delete A B nw req i d s)
      | AddMember i \<Rightarrow> plain w (member_add A nw req i d)
      | RemoveMember i u \<Rightarrow> plain w (member_remove A nw req i u d)
      | _ \<Rightarrow> accounts_stage A nw rnd req e w)"

section \<open>The panel\<close>

text \<open>After \<open>offer\<close> a response carries the registration header as well.\<close>

definition decorate :: "(response \<Rightarrow> response) \<Rightarrow> 's step \<Rightarrow> 's step" where
  "decorate h st = (case st of (Answered (Inr r), w) \<Rightarrow> (Answered (Inr (h r)), w) | _ \<Rightarrow> st)"

definition verified_panel ::
  "app \<Rightarrow> 's services \<Rightarrow> time \<Rightarrow> draws \<Rightarrow> request \<Rightarrow> endpoint option \<Rightarrow> 's world \<Rightarrow> 's step" where
  "verified_panel A S nw rnd req ep w0 =
     (case offer A nw rnd req (w_db w0) of
        (h, d1) \<Rightarrow>
          let w = w0\<lparr>w_db := d1\<rparr>
          in decorate h (case Option.bind ep (\<lambda>e. complete_stage A nw rnd req e w) of
               Some st \<Rightarrow> st
             | None \<Rightarrow>
                 gated (requirements A req) w
                   (case ep of None \<Rightarrow> (NotRouted, w) | Some e \<Rightarrow> working_stage A S nw rnd req e w)))"

definition adminRouter ::
  "app \<Rightarrow> 's services \<Rightarrow> time \<Rightarrow> draws \<Rightarrow> request \<Rightarrow> string list \<Rightarrow> 's world \<Rightarrow> 's step" where
  "adminRouter A S nw rnd req segs w =
     (let ep = endpoint_of (rq_method req) segs
      in case Option.bind ep (\<lambda>e. entrance A nw rnd req e w) of
           Some st \<Rightarrow> st
         | None \<Rightarrow>
             gated (requireAdmin False req) w (gated (csrfProtect A req) w
               (case Option.bind ep (\<lambda>e. pending_stage A nw rnd req e w) of
                  Some st \<Rightarrow> st
                | None \<Rightarrow> gated (requireAdmin True req) w (verified_panel A S nw rnd req ep w))))"

text \<open>A request to the panel: the session middleware first.\<close>

definition panel_request ::
  "app \<Rightarrow> 's services \<Rightarrow> time \<Rightarrow> draws \<Rightarrow> request \<Rightarrow> string list \<Rightarrow> 's world \<Rightarrow> 's step" where
  "panel_request A S nw rnd req segs w =
     (case sessionMiddleware A nw req (w_db w) of
        (req1, d1) \<Rightarrow> adminRouter A S nw rnd req1 segs (w\<lparr>w_db := d1\<rparr>))"

end
