(* ===== verification/AdminFrames.thy ===== *)
theory AdminFrames
  imports AdminRouter
begin

text \<open>
  What the operations behind the panel leave alone. A view of the database that does not look at
  sessions, bindings and recovery codes is unchanged by the services of a login (\<open>service_view\<close>), and by
  its handlers too if it does not look at the audit log (\<open>login_view\<close>). One that does not look at accounts
  and passkeys either is unchanged by the services of the security page (\<open>owner_view\<close>) and by its
  handlers (\<open>settings_view\<close>). The locales are interpreted for what a pending session must not touch and
  for the cases with everything in them.
\<close>

section \<open>The views\<close>

text \<open>Of an account: everything except what a login records; of a passkey: its credential.\<close>

type_synonym account_view = "string \<times> string \<times> string \<times> role \<times> time option \<times> bool \<times> string option \<times> time option"
type_synonym credential_view = "string \<times> string \<times> string \<times> string \<times> int"
type_synonym case_view = "case_row list \<times> member_row list \<times> link_row list \<times> file_row list"

definition account_core :: "admin_row \<Rightarrow> account_view" where
  "account_core a =
     (a_id a, a_username a, a_password_hash a, a_role a, a_disabled_at a, a_must_change a, a_totp_secret a, a_totp_enabled_at a)"

text \<open>Who an account is and what it may do, which its owner cannot change.\<close>

definition standing :: "admin_row \<Rightarrow> string \<times> string \<times> role \<times> time option" where
  "standing a = (a_id a, a_username a, a_role a, a_disabled_at a)"

definition credential_core :: "passkey_row \<Rightarrow> credential_view" where
  "credential_core p = (p_id p, p_admin_id p, p_credential_id p, p_public_key p, p_algorithm p)"

definition case_data :: "db \<Rightarrow> case_view" where
  "case_data d = (cases d, members d, links d, files d)"

definition assets :: "db \<Rightarrow> account_view list \<times> credential_view list \<times> case_view" where
  "assets d = (map account_core (admins d), map credential_core (passkeys d), case_data d)"

section \<open>A login\<close>

locale service_view =
  fixes view :: "db \<Rightarrow> 'v"
  assumes view_sessions: "view (sessions_update f d) = view d"
    and view_bindings: "view (bindings_update g d) = view d"
    and view_codes: "view (recovery_codes_update h d) = view d"
    and view_account: "(\<And>a. account_core (c a) = account_core a) \<Longrightarrow> view (update_admins P c d) = view d"
    and view_credential: "(\<And>p. credential_core (e p) = credential_core p) \<Longrightarrow> view (update_passkeys Q e d) = view d"
begin

lemma tables [simp]:
  "view (update_sessions P1 f1 d) = view d" "view (delete_sessions P2 d) = view d" "view (update_bindings P3 f3 d) = view d"
  "view (d\<lparr>recovery_codes := rs\<rparr>) = view d"
  by (simp_all add: update_sessions_def delete_sessions_def update_bindings_def view_sessions view_bindings view_codes)

lemma inserts:
  "insert_session s d = Inr d' \<Longrightarrow> view d' = view d" "insert_binding b d = Inr d' \<Longrightarrow> view d' = view d"
  "insert_recovery r d = Inr d' \<Longrightarrow> view d' = view d"
  by (auto simp: insert_session_def insert_binding_def insert_recovery_def view_sessions view_bindings view_codes split: if_splits)

lemma view_transaction: "view (snd (body d)) = view d \<Longrightarrow> view (snd (transaction body d)) = view d"
  by (auto simp: transaction_def split: prod.split sum.split)

lemma account_steps [simp]:
  "view (recordLogin nw i d) = view d" "view (snd (markConfirmed C nw sid ms d)) = view d"
  "view (destroySession C sid d) = view d" "view (destroyOtherSessions C i keep d) = view d"
  "view (snd (consumeRecoveryCode C nw i cd d)) = view d" "view (snd (recordTotpFailure a nw d)) = view d"
  by (simp_all add: recordLogin_def markConfirmed_def destroySession_def destroyOtherSessions_def consumeRecoveryCode_def
      recordTotpFailure_def Let_def account_core_def view_account)

lemma view_session [simp]: "view (snd (createSession C nw rnd adm ttl meta d)) = view d"
  by (auto simp: createSession_def Let_def split: sum.split dest: inserts)

lemma view_complete [simp]: "view (snd (completeSecondFactor C nw rnd pend adm ttl fac d)) = view d"
  using view_session [of C nw rnd adm ttl]
  by (simp add: completeSecondFactor_def Let_def account_core_def view_account split_beta split: sum.split)

lemma view_factor [simp]: "view (snd (session_factor C nw a cd now d)) = view d"
  by (simp add: session_factor_def split_beta account_core_def view_account split: sum.split option.split bool.split)

lemma view_totp [simp]: "view (snd (verifySessionTotp C nw rnd sid cd ttl now d)) = view d"
  unfolding verifySessionTotp_def
  by (rule view_transaction) (simp add: verifySessionTotp_body_def split_beta Let_def split: sum.split option.split)

lemma view_take [simp]: "view (snd (takeChallenge nw h p d)) = view d"
  by (simp add: takeChallenge_def Let_def split: option.split)

lemma view_assertion [simp]: "view (snd (checkAssertion C nw h i p cid inp site d)) = view d"
  by (simp add: checkAssertion_def split_beta credential_core_def view_credential split: sum.split option.split)

lemma view_passkey_login [simp]: "view (snd (verifyPasskeyLogin C nw rnd sid adm ttl cid inp site d)) = view d"
proof -
  let ?body = "\<lambda>d. case checkAssertion C nw (sha256Hex C sid) (ad_id adm) PLogin cid inp site d of
      (Inl e, d1) \<Rightarrow> (Inr (Inl e), d1)
    | (Inr _, d1) \<Rightarrow>
        (case completeSecondFactor C nw rnd (sha256Hex C sid) adm ttl FPasskey d1 of
           (Inl e, d2) \<Rightarrow> (Inl e, d2)
         | (Inr pair, d2) \<Rightarrow> (Inr (Inr pair), d2))"
  have "view (snd (transaction ?body d)) = view d"
    by (rule view_transaction) (simp add: split_beta split: sum.split)
  then show ?thesis by (simp add: verifyPasskeyLogin_def Let_def split_beta split: sum.split)
qed

lemma ceremonies [simp]:
  "view (snd (beginCeremony C nw rnd sid p d)) = view d" "view (snd (offerBinding C nw rnd sid d)) = view d"
  by (simp_all add: beginCeremony_def offerBinding_def Let_def split: option.split)

lemma view_register_binding [simp]: "view (snd (registerBinding C nw brnd sid jwt d)) = view d"
  by (auto simp: registerBinding_def Let_def split: sum.split option.split intro!: view_transaction dest: inserts)

lemma view_refresh [simp]: "view (snd (refreshBinding C nw brnd bid jwt d)) = view d"
  by (simp add: refreshBinding_def fresh_def Let_def split: option.split sum.split)

lemma view_look [simp]: "view (snd (getSession C nw sid d)) = view d"
  by (simp add: getSession_def Let_def split: option.split)

lemma view_passkey_confirm [simp]: "view (snd (verifyPasskeyConfirm C nw sid i cid inp site d)) = view d"
  by (simp add: verifyPasskeyConfirm_def)

end

locale login_view = service_view +
  assumes view_log: "view (audit_log_update k d) = view d"
begin

lemma view_audit [simp]: "view (audit nw ev d) = view d"
  by (simp add: audit_def Let_def view_log)

lemma view_panel_audit [simp]: "view (panel_audit nw req action details d) = view d"
  "view (system_audit nw req action d) = view d" "view (account_audit nw req a action d) = view d"
  by (simp_all add: panel_audit_def system_audit_def account_audit_def)

lemma view_middleware [simp]: "view (snd (sessionMiddleware A nw req d)) = view d"
  by (simp add: sessionMiddleware_def Let_def split_beta split: option.split)

lemma view_login [simp]: "view (snd (login A nw rnd req d)) = view d"
  by (simp add: login_def login_ok_def Let_def split_beta split: sum.split option.split)

lemma view_logout [simp]: "view (snd (logout A nw req d)) = view d"
  by (simp add: logout_def Let_def)

lemma view_signed_in [simp]: "view (snd (signedIn A nw req sid fac d)) = view d"
  by (simp add: signedIn_def Let_def)

lemma view_ceremony [simp]: "view (snd (begin_assertion A nw rnd req p d)) = view d"
  "view (snd (webauthn_login_options A nw rnd req d)) = view d" "view (snd (offer A nw rnd req d)) = view d"
  by (simp_all add: begin_assertion_def webauthn_login_options_def offer_def Let_def split_beta split: option.split)

lemma view_webauthn_login [simp]: "view (snd (webauthn_login A nw rnd req d)) = view d"
  by (simp add: webauthn_login_def split_beta split: sum.split exn.split)

lemma view_totp_submit [simp]: "view (snd (totp_submit A nw rnd req d)) = view d"
  by (simp add: totp_submit_def Let_def split_beta split: sum.split totp_login_result.split)

lemma view_dbsc [simp]: "view (snd (dbsc_register A nw rnd req d)) = view d" "view (snd (dbsc_refresh A nw rnd req d)) = view d"
  by (simp_all add: dbsc_register_def dbsc_refresh_def Let_def split_beta split: sum.split option.split exn.split refresh_result.split)

lemma view_plain [simp]: "view (w_db (snd (plain w h))) = view (snd h)"
  by (simp add: plain_def)

lemma view_gated [simp]: "view (w_db (snd rest)) = view (w_db w) \<Longrightarrow> view (w_db (snd (gated g w rest))) = view (w_db w)"
  by (simp add: gated_def page_only_def split: option.split)

lemma view_guards [simp]:
  "view (w_db (snd rest)) = view (w_db w) \<Longrightarrow> view (w_db (snd (limited A req w rest))) = view (w_db w)"
  "view (w_db (snd rest)) = view (w_db w) \<Longrightarrow> view (w_db (snd (confirmed_only nw b req w rest))) = view (w_db w)"
  "view (w_db (snd (page_only w r))) = view (w_db w)"
  by (simp_all add: limited_def confirmed_only_def page_only_def)

lemma view_entrance: "entrance A nw rnd req e w = Some st \<Longrightarrow> view (w_db (snd st)) = view (w_db w)"
  by (auto simp: entrance_def split: endpoint.splits)

lemma view_pending: "pending_stage A nw rnd req e w = Some st \<Longrightarrow> view (w_db (snd st)) = view (w_db w)"
  by (auto simp: pending_stage_def split: endpoint.splits)

end

interpretation assets: login_view assets
  by unfold_locales
    (auto simp: assets_def case_data_def update_admins_def update_passkeys_def map_update_where)

section \<open>The security page\<close>

locale owner_view = service_view +
  assumes view_accounts: "(\<And>a. standing (c a) = standing a) \<Longrightarrow> view (update_admins P c d) = view d"
    and view_credentials: "view (passkeys_update g d) = view d"
begin

lemma updates [simp]: "(\<And>a. standing (c a) = standing a) \<Longrightarrow> view (update_admins P c d) = view d"
  "view (update_passkeys Q g d) = view d" "view (d\<lparr>passkeys := ps\<rparr>) = view d"
  by (simp_all add: update_passkeys_def view_accounts view_credentials)

lemma view_insert_passkey: "insert_passkey p d = Inr d' \<Longrightarrow> view d' = view d"
  by (auto simp: insert_passkey_def view_credentials split: if_splits)

lemma view_insert_codes: "insert_codes C i cs d = Inr d' \<Longrightarrow> view d' = view d"
  by (induction cs arbitrary: d) (auto dest: inserts split: sum.splits)

lemma view_replace [simp]: "view (snd (replaceRecoveryCodes C rnds i d)) = view d"
  by (auto simp: replaceRecoveryCodes_def Let_def split: sum.split dest: view_insert_codes)

lemma view_some_codes [simp]: "view (snd (some_codes p)) = view (snd p)"
  by (simp add: some_codes_def split: prod.split sum.split)

lemma view_drop [simp]: "view (dropRecoveryCodesIfUnused i d) = view d"
  by (simp add: dropRecoveryCodesIfUnused_def split: option.split)

lemma view_force [simp]: "view (forceDisableTotp C i keep d) = view d"
  by (simp add: forceDisableTotp_def endSessions_def standing_def)

lemma view_confirm_code [simp]: "view (snd (verifyConfirmCode C nw i cd now d)) = view d"
  unfolding verifyConfirmCode_def
  by (rule view_transaction) (simp add: verifyConfirmCode_body_def standing_def split_beta split: sum.split option.split bool.split)

lemma view_enrolment [simp]: "view (snd (beginTotpEnrolment rnd i d)) = view d"
  "view (snd (confirmTotpEnrolment C nw rnds i cd now d)) = view d"
  by (auto simp: beginTotpEnrolment_def standing_def confirmTotpEnrolment_def confirmTotpEnrolment_body_def Let_def
      split: option.split sum.split intro!: view_transaction)

lemma view_regenerate [simp]: "view (snd (regenerateRecoveryCodes C rnds i cd now d)) = view d"
  "view (snd (regenerateRecoveryCodesConfirmed C rnds i d)) = view d"
  by (auto simp: regenerateRecoveryCodes_def standing_def regenerateRecoveryCodesConfirmed_def
      split: option.split sum.split intro!: view_transaction)

lemma view_disable [simp]: "view (snd (disableTotp C nw i cd keep now d)) = view d"
  unfolding disableTotp_def
  by (rule view_transaction) (simp add: disableTotp_body_def standing_def split_beta split: sum.split option.split bool.split)

lemma view_password [simp]: "view (snd (changeAdminPassword C salt i old new d)) = view d"
  by (auto simp: changeAdminPassword_def standing_def split: option.split sum.split bool.split)

lemma view_register_passkey [simp]: "view (snd (registerPasskey C nw rnd sid i name inp site d)) = view d"
  unfolding registerPasskey_def
  by (rule view_transaction) (auto simp: Let_def split_beta split: sum.split dest: view_insert_passkey)

lemma view_remove_passkey [simp]: "view (snd (removePasskey C i pid keep d)) = view d"
  by (simp add: removePasskey_def Let_def split: option.split)

lemma view_revoke [simp]: "view (snd (revokeSession i pub d)) = view d"
  by (simp add: revokeSession_def Let_def)

end

locale settings_view = login_view + owner_view
begin

lemma view_answers [simp]: "snd (security_error A nw req m d) = d" "snd (security_ok A nw req x d) = d"
  by (simp_all add: security_error_def security_ok_def)

lemma view_confirm [simp]: "view (confirmed A nw req m d) = view d" "view (snd (confirm_code A nw req d)) = view d"
  "view (snd (confirm_password A nw req d)) = view d" "view (snd (confirm_passkey A nw req d)) = view d"
  "view (snd (webauthn_confirm_options A nw rnd req d)) = view d"
  by (simp_all add: confirmed_def confirm_code_def confirm_password_def confirm_passkey_def webauthn_confirm_options_def
      Let_def split_beta split: sum.split confirm_result.split option.split exn.split)

lemma view_forms [simp]: "view (snd (security_password A nw rnd req d)) = view d" "view (snd (totp_begin A nw rnd req d)) = view d"
  "view (snd (totp_confirm A nw rnd req d)) = view d" "view (snd (totp_recovery A nw rnd req d)) = view d"
  "view (snd (totp_disable A nw req d)) = view d"
  by (simp_all add: security_password_def totp_begin_def totp_confirm_def totp_recovery_def totp_disable_def Let_def split_beta
      split: sum.split option.split bool.split)

lemma view_keys [simp]: "view (snd (passkey_options A nw rnd req d)) = view d"
  "view (snd (fst (passkey_register A nw rnd req fl d))) = view d" "view (snd (passkey_remove A nw req i d)) = view d"
  "view (snd (recovery_regenerate A nw rnd req d)) = view d" "view (snd (sessions_revoke_others A nw req d)) = view d"
  "view (snd (session_revoke A nw req i d)) = view d"
  by (simp_all add: passkey_options_def passkey_register_def passkey_added_def first_codes_def passkey_remove_def
      recovery_regenerate_def sessions_revoke_others_def session_revoke_def Let_def split_beta
      split: sum.split option.split bool.split exn.split)

lemma view_complete_stage: "complete_stage A nw rnd req e w = Some st \<Longrightarrow> view (w_db (snd st)) = view (w_db w)"
  by (auto simp: complete_stage_def with_flashes_def Let_def split_beta split: endpoint.splits)

end

section \<open>One case and everything in it\<close>

definition case_rows :: "string \<Rightarrow> db \<Rightarrow> case_view" where
  "case_rows c d =
     (filter (\<lambda>r. c_id r = c) (cases d), filter (\<lambda>m. m_case_id m = c) (members d),
      filter (\<lambda>l. l_case_id l = c) (links d), filter (\<lambda>f. f_case_id f = c) (files d))"

interpretation all_cases: settings_view case_data
  by unfold_locales (simp_all add: case_data_def update_admins_def update_passkeys_def)

interpretation one_case: settings_view "case_rows c"
  by unfold_locales (simp_all add: case_rows_def update_admins_def update_passkeys_def)

text \<open>The security page changes nobody's standing.\<close>

interpretation standings: settings_view "\<lambda>d. map standing (admins d)"
  by unfold_locales (auto simp: update_passkeys_def map_update_where account_core_def standing_def)

end
