(* ===== verification/AdminProps.thy ===== *)
theory AdminProps
  imports AdminFrames
begin

text \<open>
  What the gates of the panel guarantee for every request: cross-site requests change nothing, a session
  without its second factor reaches the login only, and a case is closed to accounts that are not
  assigned to it.
\<close>

section \<open>The gates\<close>

definition session_complete :: "request \<Rightarrow> bool" where
  "session_complete req = (case rq_session req of Some s \<Rightarrow> sv_totp_verified s | None \<Rightarrow> False)"

lemma endpoint_of_route:
  assumes "endpoint_of m segs = Some e"
  shows "\<exists>path mk ps. ((if m = ''HEAD'' then ''GET'' else m), path, mk) \<in> set routes \<and> e = mk ps"
proof -
  from assms obtain es where "List.map_filter (\<lambda>(v, path, mk). if v = (if m = ''HEAD'' then ''GET'' else m)
      then map_option mk (match_path path segs) else None) routes = e # es"
    by (auto simp: endpoint_of_def Let_def split: list.splits)
  then have "e \<in> set (List.map_filter (\<lambda>(v, path, mk). if v = (if m = ''HEAD'' then ''GET'' else m)
      then map_option mk (match_path path segs) else None) routes)" by simp
  then show ?thesis by (auto simp: map_filter_def split: if_splits) blast+
qed

lemma get_only: "endpoint_of m segs = Some e \<Longrightarrow> e = GetLogin \<or> (\<exists>i. e = DownloadFile i) \<Longrightarrow> m = ''GET'' \<or> m = ''HEAD''"
  by (drule endpoint_of_route) (auto simp: routes_def split: if_splits)

lemma requireAdmin_blocks: "\<not> session_complete req \<Longrightarrow> \<exists>r. requireAdmin True req = Some r \<and> rs_content r \<in> {NoContent, PlainText (units ''Unauthorized'')}"
  by (auto simp: requireAdmin_def session_complete_def redirect_def setHeader_def answer_def split: option.split)

lemma adminRouter_gates:
  assumes "Option.bind (endpoint_of (rq_method req) segs) (\<lambda>e. entrance A nw rnd req e w) = None"
  shows "adminRouter A S nw rnd req segs w = gated (requireAdmin False req) w (gated (csrfProtect A req) w
    (case Option.bind (endpoint_of (rq_method req) segs) (\<lambda>e. pending_stage A nw rnd req e w) of
       Some st \<Rightarrow> st
     | None \<Rightarrow> gated (requireAdmin True req) w (verified_panel A S nw rnd req (endpoint_of (rq_method req) segs) w)))"
  using assms by (simp add: adminRouter_def Let_def)

section \<open>Cross-site requests\<close>

text \<open>C3: a request that may change something and is not a login or a device-binding call is refused, and changes
  nothing at all, unless it comes from the site itself and carries the CSRF token of its session.\<close>

theorem csrf_required:
  assumes "rq_method req \<notin> {''GET'', ''HEAD'', ''OPTIONS''}"
    and "\<not> (same_site A req \<and> csrf_token_ok req)"
    and "endpoint_of (rq_method req) segs \<notin> Some ` {DbscRegister, DbscRefresh, PostLogin}"
  shows "\<exists>resp. adminRouter A S nw rnd req segs w = (Answered (Inr resp), w) \<and> rs_status resp \<in> {401, 403}"
proof -
  have "Option.bind (endpoint_of (rq_method req) segs) (\<lambda>e. entrance A nw rnd req e w) = None"
  proof (cases "endpoint_of (rq_method req) segs")
    case (Some e)
    then have "e \<noteq> GetLogin" using get_only [OF Some] assms(1) by auto
    then show ?thesis using Some assms(3) by (cases e) (auto simp: entrance_def)
  qed simp
  moreover have "\<exists>r. csrfProtect A req = Some r \<and> rs_status r = 403"
    using assms(1,2) by (auto simp: csrfProtect_def answer_def)
  ultimately show ?thesis using assms(1)
    by (auto simp: adminRouter_gates gated_def page_only_def requireAdmin_def is_get_def answer_def split: option.split)
qed

definition demo_panel_draws :: draws where
  "demo_panel_draws =
     \<lparr>dr_session = demo_draws, dr_binding = \<lparr>bd_cookie = replicate 32 1, bd_id = replicate 12 2, bd_challenge = replicate 32 3\<rparr>,
      dr_bytes = replicate 32 4, dr_id = replicate 12 5, dr_salt = replicate 16 6, dr_codes = [], dr_password = []\<rparr>"

definition demo_services :: "fs services" where
  "demo_services =
     \<lparr>sv_backend = local_backend demo_crypto ''/'' ''/data'', sv_tusRemove = (\<lambda>i s. (Inr (), s)),
      sv_disposition = (\<lambda>name. ''attachment'')\<rparr>"

definition demo_world :: "db \<Rightarrow> fs world" where
  "demo_world d = \<lparr>w_db = d, w_store = [], w_flashes = []\<rparr>"

theorem csrf_required_witness:
  "\<exists>resp. adminRouter demo_app demo_services 0 demo_panel_draws (demo_request ''POST'') [''cases''] (demo_world demo_q1) =
     (Answered (Inr resp), demo_world demo_q1) \<and> rs_status resp \<in> {401, 403}"
proof (rule csrf_required)
  show "rq_method (demo_request ''POST'') \<notin> {''GET'', ''HEAD'', ''OPTIONS''}" by (simp add: demo_request_def)
  show "\<not> (same_site demo_app (demo_request ''POST'') \<and> csrf_token_ok (demo_request ''POST''))"
    by (simp add: csrf_token_ok_def demo_request_def)
  have "endpoint_of ''POST'' [''cases''] = Some CreateCase" by code_simp
  then show "endpoint_of (rq_method (demo_request ''POST'')) [''cases''] \<notin> Some ` {DbscRegister, DbscRefresh, PostLogin}"
    by (simp add: demo_request_def)
qed

section \<open>Sessions without their second factor\<close>

text \<open>What a client without a complete session is shown: redirects, refusals, short JSON answers, the login pages.\<close>

definition short_keys :: "string list" where
  "short_keys = [''error'', ''message'', ''ok'', ''redirect'', ''continue'', ''challenge'', ''rpId'', ''rpName'', ''userId'', ''userName'', ''allow'',
     ''exclude'', ''timeout'', ''session_identifier'', ''refresh_url'', ''scope'', ''credentials'']"

text \<open>The JSON of a refusal, of a ceremony of passkeys or of a device binding: by its members, no list of files and no link.\<close>

fun short_json :: "json \<Rightarrow> bool" where
  "short_json (JObj kvs) = list_all (\<lambda>kv. fst kv \<in> units ` set short_keys) kvs"
| "short_json j = False"

fun sign_in_only :: "content \<Rightarrow> bool" where
  "sign_in_only (HtmlPage (LoginPage l m)) = True"
| "sign_in_only (HtmlPage (TotpLoginPage l d)) = True"
| "sign_in_only (HtmlPage p) = False"
| "sign_in_only (Attachment bytes) = False"
| "sign_in_only (JsonText j) = short_json j"
| "sign_in_only c = True"

lemma short_obj: "list_all (\<lambda>kv. fst kv \<in> set short_keys) kvs \<Longrightarrow> short_json (obj_json kvs)"
  by (auto simp: obj_json_def list_all_iff)

text \<open>Every JSON answer of the panel.\<close>

lemma short_answers [simp]:
  "short_json (obj_json (error_json m))" "short_json (obj_json (dbscConfig A i))" "short_json (obj_json (ceremony_options A c allow))"
  "short_json (obj_json [(''redirect'', v)])" "short_json (obj_json [(''continue'', v)])" "short_json (obj_json confirm_first)"
  "short_json (obj_json [(''challenge'', v1), (''rpId'', v2), (''rpName'', v3), (''userId'', v4), (''userName'', v5), (''exclude'', v6), (''timeout'', v7)])"
  by (rule short_obj; simp add: short_keys_def error_json_def dbscConfig_def ceremony_options_def confirm_first_def)+

fun answers_only :: "(content \<Rightarrow> bool) \<Rightarrow> response result \<Rightarrow> bool" where
  "answers_only Q (Inr r) = Q (rs_content r)"
| "answers_only Q (Inl e) = True"

lemma contents [simp]: "rs_content (redirect st u) = NoContent" "rs_content (setHeader n v r) = rs_content r"
  "rs_content (answer st c) = c" "rs_content (sendJson st b) = JsonText (obj_json b)" "rs_content (send_page st p) = HtmlPage p"
  "rs_content (clearSessionCookie r) = rs_content r" "rs_content (full_cookie A sid r) = rs_content r"
  by (simp_all add: redirect_def setHeader_def answer_def sendJson_def send_page_def clearSessionCookie_def full_cookie_def)

lemma login_stage_pages:
  "answers_only sign_in_only (fst (dbsc_register A nw rnd req d))" "answers_only sign_in_only (fst (dbsc_refresh A nw rnd req d))"
  "answers_only sign_in_only (Inr (login_page req))" "answers_only sign_in_only (fst (login A nw rnd req d))"
  "answers_only sign_in_only (fst (logout A nw req d))" "answers_only sign_in_only (Inr (totp_page nw req d))"
  "answers_only sign_in_only (fst (webauthn_login_options A nw rnd req d))"
  "answers_only sign_in_only (fst (webauthn_login A nw rnd req d))" "answers_only sign_in_only (fst (totp_submit A nw rnd req d))"
  by (simp_all add: dbsc_register_def dbsc_refresh_def login_page_def login_def login_ok_def logout_def totp_page_def
      webauthn_login_options_def begin_assertion_def webauthn_login_def totp_submit_def Let_def split_beta
      split: sum.split option.split exn.split refresh_result.split totp_login_result.split)

text \<open>What a step answers with, and what it leaves of the storage and the waiting messages.\<close>

definition step_content :: "(content \<Rightarrow> bool) \<Rightarrow> 's step \<Rightarrow> bool" where
  "step_content Q st = (case fst st of Answered r \<Rightarrow> answers_only Q r | NotRouted \<Rightarrow> True)"

definition keeps_rest :: "'s world \<Rightarrow> 's step \<Rightarrow> bool" where
  "keeps_rest w st \<longleftrightarrow> w_store (snd st) = w_store w \<and> w_flashes (snd st) = w_flashes w"

lemma step_contents [simp]:
  "step_content Q (plain w h) = answers_only Q (fst h)" "step_content Q (page_only w r) = Q (rs_content r)"
  "keeps_rest w (plain w h)" "keeps_rest w (page_only w r)"
  by (simp_all add: step_content_def keeps_rest_def plain_def page_only_def)

lemma gate_content:
  "(\<And>r. g = Some r \<Longrightarrow> Q (rs_content r)) \<Longrightarrow> step_content Q rest \<Longrightarrow> step_content Q (gated g w rest)"
  "keeps_rest w rest \<Longrightarrow> keeps_rest w (gated g w rest)"
  by (simp_all add: gated_def split: option.split)

lemma gate_pages:
  "csrfProtect A req = Some r \<Longrightarrow> sign_in_only (rs_content r)" "requireAdmin v req = Some r \<Longrightarrow> sign_in_only (rs_content r)"
  "rateLimit A (loginLimiter A) req = Some r \<Longrightarrow> sign_in_only (rs_content r)"
  by (auto simp: csrfProtect_def requireAdmin_def rateLimit_def loginLimiter_def split: if_splits option.splits)

definition confined :: "'s world \<Rightarrow> 's step \<Rightarrow> bool" where
  "confined w st \<longleftrightarrow> assets (w_db (snd st)) = assets (w_db w) \<and> keeps_rest w st \<and>
     (case fst st of Answered r \<Rightarrow> answers_only sign_in_only r | NotRouted \<Rightarrow> False)"

lemma confined_steps [simp]:
  "confined w (page_only w r) = sign_in_only (rs_content r)"
  "confined w (plain w h) \<longleftrightarrow> assets (snd h) = assets (w_db w) \<and> answers_only sign_in_only (fst h)"
  by (auto simp: confined_def keeps_rest_def page_only_def plain_def)

lemma confined_gate: "(\<And>r. g = Some r \<Longrightarrow> sign_in_only (rs_content r)) \<Longrightarrow> (g = None \<Longrightarrow> confined w rest) \<Longrightarrow> confined w (gated g w rest)"
  by (simp add: gated_def split: option.split)

lemma login_stages:
  "entrance A nw rnd req e w = Some st \<Longrightarrow> confined w st" "pending_stage A nw rnd req e w = Some st \<Longrightarrow> confined w st"
  using login_stage_pages
  by (auto simp: entrance_def pending_stage_def limited_def split: endpoint.splits intro!: confined_gate gate_pages(3))

lemma incomplete_confined:
  assumes "\<not> session_complete req" shows "confined w (adminRouter A S nw rnd req segs w)"
proof (cases "Option.bind (endpoint_of (rq_method req) segs) (\<lambda>e. entrance A nw rnd req e w)")
  case (Some st)
  then show ?thesis by (auto simp: adminRouter_def Let_def bind_eq_Some_conv intro: login_stages(1))
next
  case None
  let ?ep = "endpoint_of (rq_method req) segs"
  obtain r where r: "requireAdmin True req = Some r" using requireAdmin_blocks [OF assms] by blast
  show ?thesis unfolding adminRouter_gates [OF None]
  proof (rule confined_gate [OF gate_pages(2)], assumption, rule confined_gate [OF gate_pages(1)], assumption)
    show "confined w (case Option.bind ?ep (\<lambda>e. pending_stage A nw rnd req e w) of Some st \<Rightarrow> st
      | None \<Rightarrow> gated (requireAdmin True req) w (verified_panel A S nw rnd req ?ep w))"
      using gate_pages(2) [OF r] r
      by (auto simp: bind_eq_Some_conv gated_def split: option.split intro: login_stages(2))
  qed
qed

lemma confined_panel:
  assumes "\<not> session_complete req" "adminRouter A S nw rnd req segs w = (out, w')"
  obtains r where "out = Answered r" "answers_only sign_in_only r" "assets (w_db w') = assets (w_db w)" "w_store w' = w_store w"
  using incomplete_confined [OF assms(1), of w A S nw rnd segs] assms(2)
  by (auto simp: confined_def keeps_rest_def split: routed.splits)

text \<open>C10: without a complete session (no session, or one that waits for its second factor) no request changes
  a case, link or file, the storage, an account (its password, role, state or TOTP secret) or a passkey credential,
  and the answer is a redirect, a refusal, a login page or one of the login's JSON answers.\<close>

theorem incomplete_session_confined:
  assumes "\<not> session_complete req" and "adminRouter A S nw rnd req segs w = (out, w')"
  shows "assets (w_db w') = assets (w_db w) \<and> w_store w' = w_store w \<and> w_flashes w' = w_flashes w \<and>
    (case out of Answered r \<Rightarrow> answers_only sign_in_only r | NotRouted \<Rightarrow> False)"
  using incomplete_confined [OF assms(1), of w A S nw rnd segs] assms(2)
  by (auto simp: confined_def keeps_rest_def split: routed.splits)

theorem incomplete_session_confined_witness:
  "\<exists>out w'. adminRouter demo_app demo_services 0 demo_panel_draws (demo_request ''POST'') [''cases''] (demo_world demo_q1) = (out, w') \<and>
     assets (w_db w') = assets demo_q1"
proof -
  obtain out w' where run: "adminRouter demo_app demo_services 0 demo_panel_draws (demo_request ''POST'') [''cases''] (demo_world demo_q1) = (out, w')"
    by fastforce
  have "\<not> session_complete (demo_request ''POST'')" by (simp add: session_complete_def demo_request_def)
  from incomplete_session_confined [OF this run] run show ?thesis by (simp add: demo_world_def)
qed

end
