(* ===== verification/CaseIsolation.thy ===== *)
theory CaseIsolation
  imports AdminProps
begin

text \<open>
  Cases are closed to accounts that are not assigned to them: no request of such an account changes the
  case, its members, links, files or their stored bytes, or is told anything of it.
\<close>

section \<open>What an answer may show\<close>

text \<open>
  A page of the case, one of the pages about every case and account, the bytes of any file, or JSON that is more than
  a refusal or a ceremony.
\<close>

fun shows_case :: "string \<Rightarrow> content \<Rightarrow> bool" where
  "shows_case c (HtmlPage (CasePage v d)) = (c_id (cp_case d) = c)"
| "shows_case c (HtmlPage (CasesPage v cs m)) = (c \<in> (\<lambda>s. c_id (cs_case s)) ` set cs)"
| "shows_case c (HtmlPage (AuditPage v rows)) = True"
| "shows_case c (HtmlPage (UsersPage v d)) = True"
| "shows_case c (HtmlPage (UploadPage u)) = (c_id (ud_case u) = c)"
| "shows_case c (HtmlPage p) = False"
| "shows_case c (Attachment bytes) = True"
| "shows_case c (JsonText j) = (\<not> short_json j)"
| "shows_case c NoContent = False"
| "shows_case c (PlainText m) = False"

text \<open>What the login and the security page answer with: nothing of any case, and no file.\<close>

fun personal :: "content \<Rightarrow> bool" where
  "personal (HtmlPage (CasePage v d)) = False"
| "personal (HtmlPage (CasesPage v cs m)) = False"
| "personal (HtmlPage (AuditPage v rows)) = False"
| "personal (HtmlPage (UsersPage v d)) = False"
| "personal (HtmlPage (UploadPage u)) = False"
| "personal (Attachment bytes) = False"
| "personal (JsonText j) = short_json j"
| "personal x = True"

lemma personal_hides: "personal x \<Longrightarrow> \<not> shows_case c x"
  by (cases x rule: personal.cases) auto

lemma sign_in_personal: "sign_in_only x \<Longrightarrow> personal x"
  by (cases x rule: sign_in_only.cases) auto

lemma answers_hide: "answers_only personal r \<Longrightarrow> answers_only (\<lambda>x. \<not> shows_case c x) r"
  by (cases r) (auto dest: personal_hides)

lemma settings_personal:
  "answers_only personal (fst (confirm_code A nw req d))" "answers_only personal (fst (confirm_password A nw req d))"
  "answers_only personal (fst (confirm_passkey A nw req d))" "answers_only personal (fst (webauthn_confirm_options A nw rnd req d))"
  "answers_only personal (fst (security_password A nw rnd req d))" "answers_only personal (fst (totp_begin A nw rnd req d))"
  "answers_only personal (fst (totp_confirm A nw rnd req d))" "answers_only personal (fst (totp_recovery A nw rnd req d))"
  "answers_only personal (fst (totp_disable A nw req d))" "answers_only personal (fst (passkey_options A nw rnd req d))"
  "answers_only personal (fst (fst (passkey_register A nw rnd req fl d)))" "answers_only personal (fst (passkey_remove A nw req i d))"
  "answers_only personal (fst (recovery_regenerate A nw rnd req d))" "answers_only personal (fst (sessions_revoke_others A nw req d))"
  "answers_only personal (fst (session_revoke A nw req i d))"
  "personal (rs_content (renderConfirm A req m st d))" "personal (rs_content (renderSecurity A nw req x st d))"
  by (simp_all add: confirm_code_def back_to_next_def confirm_password_def confirm_passkey_def webauthn_confirm_options_def begin_assertion_def
      security_password_def totp_begin_def totp_confirm_def totp_recovery_def totp_disable_def security_error_def security_ok_def
      passkey_options_def passkey_register_def passkey_added_def first_codes_def passkey_remove_def recovery_regenerate_def
      sessions_revoke_others_def session_revoke_def not_found_def sendError_def renderConfirm_def renderSecurity_def Let_def split_beta
      split: sum.split option.split bool.split exn.split confirm_result.split)

lemma gates_personal:
  "requireConfirmed nw b req = Some r \<Longrightarrow> personal (rs_content r)" "adminsOnly A req = Some r \<Longrightarrow> personal (rs_content r)"
  "requirements A req = Some r \<Longrightarrow> personal (rs_content r)" "rateLimit A (loginLimiter A) req = Some r \<Longrightarrow> personal (rs_content r)"
  by (auto simp: requireConfirmed_def adminsOnly_def requirements_def rateLimit_def loginLimiter_def sendError_def Let_def split: if_splits option.splits)

lemma step_contents_more [simp]:
  "step_content Q (with_flashes w q) = answers_only Q (fst (fst q))" "step_content Q (stored w p) = answers_only Q (fst (fst p))"
  "step_content Q (Answered r, w') = answers_only Q r" "step_content Q (NotRouted, w')"
  by (simp_all add: step_content_def with_flashes_def stored_def)

lemma complete_stage_personal: "complete_stage A nw rnd req e w = Some st \<Longrightarrow> step_content personal st"
  using settings_personal
  by (auto simp: complete_stage_def limited_def confirmed_only_def security_page_def Let_def split_beta
      split: endpoint.splits intro!: gate_content dest: gates_personal)

definition hides :: "string \<Rightarrow> handled \<Rightarrow> bool" where
  "hides c h \<longleftrightarrow> answers_only (\<lambda>x. \<not> shows_case c x) (fst h)"

section \<open>The handlers of the other cases\<close>

text \<open>The rows of a case depend on its own rows only, and so does who may open it.\<close>

lemma access_from_rows: "case_rows c d' = case_rows c d \<Longrightarrow> canAccessCase d' v c = canAccessCase d v c"
proof -
  assume "case_rows c d' = case_rows c d"
  then have "{m \<in> set (members d'). m_case_id m = c} = {m \<in> set (members d). m_case_id m = c}"
    by (simp add: case_rows_def flip: set_filter)
  then show ?thesis by (auto simp: canAccessCase_def)
qed

lemma caseFor_access: "caseFor req i d = Some x \<Longrightarrow> canAccessCase d (viewer_of (sess_admin req)) (c_id x) \<and> i = Some (c_id x)"
  by (auto simp: caseFor_def getCase_def dest: get_by_SomeD split: option.splits if_splits)

definition closed_to :: "request \<Rightarrow> string \<Rightarrow> db \<Rightarrow> bool" where
  "closed_to req c d \<longleftrightarrow> \<not> canAccessCase d (viewer_of (sess_admin req)) c"

lemma closed_caseFor: "closed_to req c d \<Longrightarrow> caseFor req i d = Some x \<Longrightarrow> c_id x \<noteq> c"
  using caseFor_access by (auto simp: closed_to_def)

lemma renderCase_hides: "closed_to req c d \<Longrightarrow> \<not> shows_case c (rs_content (renderCase A req i x st d))"
  by (auto simp: renderCase_def sendError_def dest: closed_caseFor split: option.split)

lemma case_list_hides: "closed_to req c d \<Longrightarrow> \<not> shows_case c (HtmlPage (case_list req m d))"
  by (auto simp: case_list_def closed_to_def dest: listed_access)

text \<open>A step that leaves the case alone: its rows stay, and the answer is not about it.\<close>

definition leaves :: "string \<Rightarrow> db \<Rightarrow> handled \<Rightarrow> bool" where
  "leaves c d h \<longleftrightarrow> case_rows c (snd h) = case_rows c d \<and> hides c h"

lemma closed_after: "closed_to req c d \<Longrightarrow> case_rows c d' = case_rows c d \<Longrightarrow> closed_to req c d'"
  by (drule access_from_rows [where v = "viewer_of (sess_admin req)"]) (simp add: closed_to_def)

lemma leaves_page: "closed_to req c d \<Longrightarrow> case_rows c d' = case_rows c d \<Longrightarrow> leaves c d (Inr (renderCase A req i x st d'), d')"
  by (simp add: leaves_def hides_def renderCase_hides closed_after)

lemma leaves_answers:
  assumes "closed_to req c d" "case_rows c d' = case_rows c d"
  shows "leaves c d (case_missing A req d')" "leaves c d (case_error A req i m st d')" "leaves c d (case_ok A req i m d')"
    "leaves c d (Inr (redirect st u), d')" "leaves c d (Inl e, d')" "leaves c d (Inr (sendError A req k1 k2 st), d')"
  using assms leaves_page by (auto simp: case_missing_def case_error_def case_ok_def leaves_def hides_def sendError_def)

lemma rows_audit [simp]: "case_rows c (audit nw ev d) = case_rows c d" "case_rows c (case_audit nw req a k ds d) = case_rows c d"
  by (simp_all add: case_audit_def)

lemma leaves_with_case:
  assumes "closed_to req c d" and "\<And>x. getCase d i = Some x \<Longrightarrow> c_id x = i \<Longrightarrow> i \<noteq> c \<Longrightarrow> leaves c d (f x d)"
  shows "leaves c d (with_case A req i f d)"
proof -
  have "caseFor req (Some i) d = Some x \<Longrightarrow> getCase d i = Some x \<and> c_id x = i \<and> i \<noteq> c" for x
    using closed_caseFor [OF assms(1), of "Some i"] by (auto simp: caseFor_def getCase_def dest: get_by_SomeD split: option.splits if_splits)
  then show ?thesis using assms leaves_answers [OF assms(1) refl]
    by (auto simp: with_case_def validId_def split: option.split)
qed

lemma rows_create:
  assumes "createCase nw rnd n ds d = (r, d')" and "has_case c d"
  shows "case_rows c d' = case_rows c d \<and> (\<forall>x. r = Inr x \<longrightarrow> c_id x \<noteq> c)"
  using assms by (auto simp: createCase_def insert_case_def case_rows_def has_case_def Let_def split: if_splits sum.splits)

lemma rows_member: "i \<noteq> c \<Longrightarrow> case_rows c (snd (addCaseMember nw i u d)) = case_rows c d"
  "i \<noteq> c \<Longrightarrow> case_rows c (snd (removeCaseMember i u d)) = case_rows c d"
  by (auto simp: addCaseMember_def removeCaseMember_def case_rows_def delete_where_def Let_def intro!: filter_cong)

lemma filter_update_apart: "\<forall>r \<in> set xs. P r \<longrightarrow> \<not> Q r \<and> \<not> Q (f r) \<Longrightarrow> filter Q (update_where P f xs) = filter Q xs"
  by (induction xs) (auto simp: update_where_def)

lemma rows_update: "i \<noteq> c \<Longrightarrow> case_rows c (snd (updateCase nw i u d)) = case_rows c d"
  by (simp add: updateCase_def case_rows_def Let_def filter_update_apart split: option.split)

lemma case_create_leaves:
  assumes "closed_to req c d" "has_case c d"
  shows "leaves c d (case_create A nw rnd req d)"
proof -
  have failed: "leaves c d (Inr (send_page 400 (case_list req m d1)), d1)" if "case_rows c d1 = case_rows c d" for m d1
    using that case_list_hides [OF closed_after [OF assms(1) that]] by (simp add: leaves_def hides_def)
  obtain r d1 where r: "createCase nw (dr_id rnd) (form_field req ''name'') (Some (form_field req ''description'')) d = (r, d1)"
    by fastforce
  note one = rows_create [OF r assms(2)]
  show ?thesis
  proof (cases r)
    case (Inl e)
    then show ?thesis using r one failed by (simp add: case_create_def)
  next
    case (Inr x)
    then have "case_rows c (snd (addCaseMember nw (c_id x) u d1)) = case_rows c d" for u using one rows_member(1) by simp
    then show ?thesis using r one failed Inr leaves_answers(4) [OF assms(1)]
      by (simp add: case_create_def Let_def split_beta split: sum.split)
  qed
qed

lemma case_handlers_leave:
  assumes "closed_to req c d"
  shows "leaves c d (case_save A nw req i d)" "leaves c d (case_status_change A nw req i d)"
    "leaves c d (member_add A nw req i d)" "leaves c d (member_remove A nw req i u d)"
  using leaves_answers [OF assms] rows_update rows_member
  by (auto simp: case_save_def case_status_change_def member_add_def member_remove_def Let_def split_beta
      split: sum.split option.split bool.split intro!: leaves_with_case [OF assms])

section \<open>Links and files of the other cases\<close>

text \<open>A file belongs to the case of its link: reserveUpload writes it so.\<close>

definition files_of_links :: "db \<Rightarrow> bool" where
  "files_of_links d \<longleftrightarrow> (\<forall>f \<in> set (files d). \<forall>l \<in> set (links d). f_link_id f = l_id l \<longrightarrow> f_case_id f = l_case_id l)"

definition well_kept :: "db \<Rightarrow> bool" where
  "well_kept d \<longleftrightarrow> distinct (map l_id (links d)) \<and> distinct (map f_id (files d)) \<and> files_of_links d"

lemma well_kept_same: "case_data d' = case_data d \<Longrightarrow> well_kept d' = well_kept d"
  by (simp add: well_kept_def files_of_links_def case_data_def)

lemma link_of_case:
  assumes "well_kept d" "getLink d i = Some l" "l_case_id l \<noteq> c"
  shows "\<forall>x \<in> set (links d). l_id x = i \<longrightarrow> l_case_id x \<noteq> c" "l_id l = i"
    "\<forall>f \<in> set (files d). f_link_id f = i \<longrightarrow> f_case_id f \<noteq> c"
proof -
  have l: "l \<in> set (links d)" "l_id l = i" using assms(2) by (auto simp: getLink_def dest: get_by_SomeD)
  show "l_id l = i" by (fact l(2))
  show "\<forall>x \<in> set (links d). l_id x = i \<longrightarrow> l_case_id x \<noteq> c"
    using l assms(1,3) by (auto simp: well_kept_def distinct_map dest: inj_onD)
  show "\<forall>f \<in> set (files d). f_link_id f = i \<longrightarrow> f_case_id f \<noteq> c"
    using l assms(1,3) by (auto simp: well_kept_def files_of_links_def)
qed

lemma rows_files: "\<forall>f \<in> set (files d). P f \<longrightarrow> f_case_id f \<noteq> c \<and> f_case_id (g f) \<noteq> c \<Longrightarrow> case_rows c (update_files P g d) = case_rows c d"
  by (simp add: case_rows_def update_files_def filter_update_apart)

lemma rows_discard:
  "\<forall>f \<in> set fs. \<forall>g \<in> set (files d). f_id g = f_id f \<longrightarrow> f_case_id g \<noteq> c \<Longrightarrow>
    case_rows c (fst (discard_uploads B rm fs d s)) = case_rows c d"
proof (induction fs arbitrary: d s)
  case (Cons f fs)
  have ids: "\<exists>y \<in> set (files d). f_id y = f_id x \<and> f_case_id y = f_case_id x" if "x \<in> set (files (snd (failUpload (f_id f) FailAborted d)))" for x
    using that by (auto simp: failUpload_def update_files_def set_update_where Let_def)
  have "case_rows c (snd (failUpload (f_id f) FailAborted d)) = case_rows c d"
    using Cons.prems by (simp add: failUpload_def Let_def rows_files)
  moreover have "\<forall>h \<in> set fs. \<forall>g \<in> set (files (snd (failUpload (f_id f) FailAborted d))). f_id g = f_id h \<longrightarrow> f_case_id g \<noteq> c"
    using ids Cons.prems by fastforce
  ultimately show ?case using Cons.IH by simp
qed simp

lemma link_create_leaves:
  assumes "closed_to req c d"
  shows "leaves c d (link_create A nw rnd req i d)"
proof -
  have form: "ci_caseId inp = i" if "link_form A req i = Inr inp" for inp
    using that by (auto simp: link_form_def Let_def elim!: and_then_InrE)
  have rows: "case_rows c (snd (createLink C nw a b cfg inp d)) = case_rows c d" if "ci_caseId inp \<noteq> c" for C a b cfg inp
  proof (cases "createLink C nw a b cfg inp d")
    case (Pair r d1)
    show ?thesis
    proof (cases r)
      case (Inl e)
      then have "d1 = d" using Pair by (auto simp: createLink_def Let_def split: sum.splits)
      then show ?thesis using Pair by simp
    next
      case (Inr y)
      then obtain l token url where y: "r = Inr (l, token, url)" by (cases y) auto
      show ?thesis using createLink_Inr [OF Pair [unfolded y]] Pair that by (auto simp: insert_link_def case_rows_def split: if_splits)
    qed
  qed
  have made: "case_rows c (snd (createLink C nw a b cfg inp d)) = case_rows c d" if "link_form A req i = Inr inp" "i \<noteq> c" for C a b cfg inp
    using rows form [OF that(1)] that(2) by simp
  show ?thesis unfolding link_create_def
  proof (rule leaves_with_case [OF assms], goal_cases)
    case (1 x)
    then show ?case
      using leaves_answers(2) [OF assms] leaves_page [OF assms] made
      by (simp add: Let_def split_beta split: sum.split)
  qed
qed

lemma link_revoke_leaves:
  assumes "closed_to req c d" "well_kept d"
  shows "leaves c d (fst (link_revoke A B rm nw req i d s))"
proof (cases "Option.bind (validId i) (getLink d)")
  case None
  then show ?thesis using leaves_answers(6) [OF assms(1)] by (simp add: link_revoke_def)
next
  case (Some l)
  show ?thesis
  proof (cases "caseFor req (Some (l_case_id l)) d")
    case None
    then show ?thesis using Some leaves_answers(6) [OF assms(1)] by (simp add: link_revoke_def)
  next
    case (Some x)
    then have "l_case_id l \<noteq> c" using closed_caseFor [OF assms(1) Some] caseFor_access [OF Some] by simp
    from \<open>Option.bind (validId i) (getLink d) = Some l\<close> obtain k where k: "getLink d k = Some l" by (auto simp: bind_eq_Some_conv)
    note own = link_of_case [OF assms(2) k \<open>l_case_id l \<noteq> c\<close>]
    obtain ok d1 where rev: "revokeLink nw (l_id l) d = (ok, d1)" by fastforce
    have one: "case_rows c d1 = case_rows c d" "files d1 = files d"
      using rev own by (auto simp: revokeLink_def Let_def update_links_def case_rows_def filter_update_apart)
    have "\<forall>f \<in> set (listUploadingForLink d1 (l_id l)). \<forall>g \<in> set (files d1). f_id g = f_id f \<longrightarrow> f_case_id g \<noteq> c"
    proof (intro ballI impI)
      fix f g assume "f \<in> set (listUploadingForLink d1 (l_id l))" "g \<in> set (files d1)" "f_id g = f_id f"
      then have "g \<in> set (files d)" "f_link_id g = k"
        using assms(2) own(2) one(2) by (auto simp: listUploadingForLink_def well_kept_def distinct_map dest: inj_onD)
      then show "f_case_id g \<noteq> c" using own(3) by blast
    qed
    then have "case_rows c (fst (discard_uploads B rm (listUploadingForLink d2 (l_id l)) d2 s)) = case_rows c d" if "d2 = audit nw ev d1" for d2 ev
      using rows_discard [of "listUploadingForLink d2 (l_id l)" d2 c B rm s] that one(1)
      by (simp add: audit_def listUploadingForLink_def) (simp add: case_rows_def)
    then show ?thesis using Some \<open>Option.bind (validId i) (getLink d) = Some l\<close> rev one(1) leaves_answers(4) [OF assms(1)]
      by (simp add: link_revoke_def Let_def split_beta split: bool.split)
  qed
qed

lemma fileFor_open:
  assumes "fileFor req i d = Some f" "closed_to req c d" "well_kept d"
  shows "\<forall>g \<in> set (files d). f_id g = f_id f \<longrightarrow> f_case_id g \<noteq> c"
proof -
  obtain k x where k: "getFile d k = Some f" and x: "caseFor req (Some (f_case_id f)) d = Some x"
    using assms(1) by (auto simp: fileFor_def bind_eq_Some_conv split: option.splits if_splits)
  have f: "f \<in> set (files d)" "f_case_id f \<noteq> c"
    using k closed_caseFor [OF assms(2) x] caseFor_access [OF x] by (auto simp: getFile_def dest: get_by_SomeD)
  then show ?thesis using assms(3) by (auto simp: well_kept_def distinct_map dest: inj_onD)
qed

lemma file_delete_leaves:
  assumes "closed_to req c d" "well_kept d"
  shows "leaves c d (fst (file_delete A B nw req i d s))"
proof -
  note ans = leaves_answers [OF assms(1)]
  show ?thesis
  proof (cases "fileFor req i d")
    case None
    then show ?thesis using ans by (simp add: file_delete_def)
  next
    case (Some f)
    then have "case_rows c (snd (markDeleted nw (f_id f) d)) = case_rows c d"
      using fileFor_open [OF Some assms] by (simp add: markDeleted_def Let_def rows_files)
    then show ?thesis using Some ans by (simp add: file_delete_def Let_def split_beta split: bool.split sum.split)
  qed
qed

text \<open>The stored objects of the case: those under the ids of its files.\<close>

definition objects_stay :: "('s \<Rightarrow> string \<Rightarrow> byte list option) \<Rightarrow> string \<Rightarrow> db \<Rightarrow> 's \<Rightarrow> 's \<Rightarrow> bool" where
  "objects_stay obj c d s s' \<longleftrightarrow> (\<forall>f \<in> set (files d). f_case_id f = c \<longrightarrow> obj s' (f_id f) = obj s (f_id f))"

lemma objects_stay_refl [simp]: "objects_stay obj c d s s"
  by (simp add: objects_stay_def)

lemma discard_uploads_objs:
  assumes con: "storage_contract B C obj good" and rm: "removes_only good obj rm" and "good s"
  shows "good (snd (discard_uploads B rm fs d s)) \<and> (\<forall>k. k \<notin> f_id ` set fs \<longrightarrow> obj (snd (discard_uploads B rm fs d s)) k = obj s k)"
  using assms(3)
proof (induction fs arbitrary: d s)
  case (Cons f fs)
  from Cons.IH [of "discardUploadData B rm f s"] storage_contract.discard_one [OF con Cons.prems rm, of f] show ?case by simp
qed simp

text \<open>The uploads a revocation discards are those of the link: none of them has the id of a file of the case.\<close>

lemma link_revoke_objects:
  assumes "closed_to req c d" "well_kept d" and sto: "storage_contract B C obj good" "removes_only good obj rm" "good s"
  shows "objects_stay obj c d s (snd (link_revoke A B rm nw req i d s))"
proof (cases "\<exists>l x. Option.bind (validId i) (getLink d) = Some l \<and> caseFor req (Some (l_case_id l)) d = Some x")
  case False
  then show ?thesis by (auto simp: link_revoke_def split: option.split)
next
  case True
  then obtain l x where l: "Option.bind (validId i) (getLink d) = Some l" and x: "caseFor req (Some (l_case_id l)) d = Some x" by blast
  then obtain k where k: "getLink d k = Some l" by (auto simp: bind_eq_Some_conv)
  have "l_case_id l \<noteq> c" using closed_caseFor [OF assms(1) x] caseFor_access [OF x] by simp
  note own = link_of_case [OF assms(2) k this]
  obtain ok d1 where rev: "revokeLink nw (l_id l) d = (ok, d1)" by fastforce
  then have "files d1 = files d" by (auto simp: revokeLink_def Let_def update_links_def)
  then have one: "files (audit nw ev d1) = files d" for ev by simp
  have none: "f_id f \<notin> f_id ` set (listUploadingForLink d2 (l_id l))"
    if f: "f \<in> set (files d)" "f_case_id f = c" and d2: "files d2 = files d" for f d2
  proof
    assume "f_id f \<in> f_id ` set (listUploadingForLink d2 (l_id l))"
    then obtain g where g: "g \<in> set (files d)" "f_link_id g = l_id l" "f_id g = f_id f" using d2 by (auto simp: listUploadingForLink_def)
    then have "g = f" using assms(2) f(1) by (auto simp: well_kept_def distinct_map dest: inj_onD)
    then show False using own(2,3) g f by auto
  qed
  have "obj (snd (discard_uploads B rm (listUploadingForLink d2 (l_id l)) d2 s)) (f_id f) = obj s (f_id f)"
    if "f \<in> set (files d)" "f_case_id f = c" "files d2 = files d" for f d2
    using discard_uploads_objs [OF sto] none [OF that] by blast
  then show ?thesis using l x rev one by (auto simp: objects_stay_def link_revoke_def Let_def split_beta split: bool.split)
qed

lemma file_delete_objects:
  assumes "closed_to req c d" "well_kept d" and sto: "storage_contract B C obj good" "good s"
  shows "objects_stay obj c d s (snd (file_delete A B nw req i d s))"
proof (cases "fileFor req i d")
  case None
  then show ?thesis by (simp add: file_delete_def)
next
  case (Some f)
  have "obj (snd (bk_delete B (f_id f) s)) (f_id g) = obj s (f_id g)" if "g \<in> set (files d)" "f_case_id g = c" for g
  proof -
    have "f_id g \<noteq> f_id f" using fileFor_open [OF Some assms(1,2)] that by metis
    then show ?thesis using storage_contract.delete_one [OF sto, of "f_id f" "fst (bk_delete B (f_id f) s)" "snd (bk_delete B (f_id f) s)"] by simp
  qed
  then show ?thesis using Some by (auto simp: objects_stay_def file_delete_def Let_def split_beta split: bool.split sum.split)
qed

section \<open>Every request\<close>

text \<open>
  What an answer may tell: nothing of the case, except that the bytes of a completed file of another case may go out
  on the route of that file. Of a step: the rows and the stored objects of the case stay, and the answer
  tells no more than that.
\<close>

definition told :: "'s backend \<Rightarrow> endpoint option \<Rightarrow> db \<Rightarrow> 's \<Rightarrow> string \<Rightarrow> content \<Rightarrow> bool" where
  "told B ep d s c x \<longleftrightarrow> \<not> shows_case c x \<or>
     (\<exists>f \<in> set (files d). \<exists>bytes. f_case_id f \<noteq> c \<and> f_status f = Complete \<and> ep = Some (DownloadFile (f_id f)) \<and>
        bk_get B (f_id f) s = Inr bytes \<and> x = Attachment bytes)"

definition step_leaves ::
  "'s backend \<Rightarrow> ('s \<Rightarrow> string \<Rightarrow> byte list option) \<Rightarrow> endpoint option \<Rightarrow> string \<Rightarrow> 's world \<Rightarrow> 's step \<Rightarrow> bool" where
  "step_leaves B obj ep c w st \<longleftrightarrow> case_rows c (w_db (snd st)) = case_rows c (w_db w) \<and>
     objects_stay obj c (w_db w) (w_store w) (w_store (snd st)) \<and> step_content (told B ep (w_db w) (w_store w) c) st"

lemma told_silent: "\<not> shows_case c x \<Longrightarrow> told B ep d s c x"
  by (simp add: told_def)

lemma told_answers: "answers_only (\<lambda>x. \<not> shows_case c x) r \<Longrightarrow> answers_only (told B ep d s c) r"
  by (cases r) (auto simp: told_def)

lemma step_leaves_intros:
  "leaves c (w_db w) h \<Longrightarrow> step_leaves B obj ep c w (plain w h)"
  "\<not> shows_case c (rs_content r) \<Longrightarrow> step_leaves B obj ep c w (page_only w r)"
  "leaves c (w_db w) (fst p) \<Longrightarrow> objects_stay obj c (w_db w) (w_store w) (snd p) \<Longrightarrow> step_leaves B obj ep c w (stored w p)"
  "step_leaves B obj ep c w (NotRouted, w)"
  by (auto simp: step_leaves_def leaves_def hides_def step_content_def plain_def page_only_def stored_def intro: told_answers told_silent)

lemma step_leaves_gate:
  "(\<And>r. g = Some r \<Longrightarrow> \<not> shows_case c (rs_content r)) \<Longrightarrow> (g = None \<Longrightarrow> step_leaves B obj ep c w rest) \<Longrightarrow> step_leaves B obj ep c w (gated g w rest)"
  by (auto simp: gated_def intro: step_leaves_intros split: option.split)

lemmas gates_hide = gates_personal [THEN personal_hides]

lemmas sign_in_hides = sign_in_personal [THEN personal_hides]

lemma complete_stage_store: "complete_stage A nw rnd req e w = Some st \<Longrightarrow> w_store (snd st) = w_store w"
  by (auto simp: complete_stage_def limited_def confirmed_only_def gated_def plain_def page_only_def with_flashes_def Let_def split_beta
      split: endpoint.splits option.splits)

lemma complete_stage_leaves: "complete_stage A nw rnd req e w = Some st \<Longrightarrow> step_leaves B obj ep c w st"
  using complete_stage_personal [of A nw rnd req e w st] one_case.view_complete_stage [of A nw rnd req e w st c]
    complete_stage_store [of A nw rnd req e w st]
  by (auto simp: step_leaves_def step_content_def intro: told_answers answers_hide split: routed.splits)

lemma file_download_step:
  assumes "closed_to req c (w_db w)" "well_kept (w_db w)"
  shows "step_leaves B obj (Some (DownloadFile i)) c w (plain w (file_download A B disp nw req i (w_db w) (w_store w)))"
proof (cases "\<exists>f bytes. fileFor req i (w_db w) = Some f \<and> f_status f = Complete \<and> bk_get B (f_id f) (w_store w) = Inr bytes")
  case False
  then have "leaves c (w_db w) (file_download A B disp nw req i (w_db w) (w_store w))"
    using leaves_answers [OF assms(1) refl] by (auto simp: file_download_def split: option.split sum.split exn.split)
  then show ?thesis by (rule step_leaves_intros)
next
  case True
  then obtain f bytes where f: "fileFor req i (w_db w) = Some f" "f_status f = Complete" "bk_get B (f_id f) (w_store w) = Inr bytes" by blast
  then have "f \<in> set (files (w_db w))" "f_id f = i"
    by (auto simp: fileFor_def bind_eq_Some_conv validId_def getFile_def dest!: get_by_SomeD split: option.splits if_splits)
  moreover from this have "f_case_id f \<noteq> c" using fileFor_open [OF f(1) assms] by blast
  ultimately show ?thesis using f
    by (auto simp: step_leaves_def step_content_def plain_def file_download_def told_def)
qed

lemma working_stage_leaves:
  assumes closed: "closed_to req c (w_db w)" and kept: "well_kept (w_db w)" and ex: "has_case c (w_db w)"
    and sto: "storage_contract (sv_backend S) C obj good" "removes_only good obj (sv_tusRemove S)" "good (w_store w)"
  shows "step_leaves (sv_backend S) obj (Some e) c w (working_stage A S nw rnd req e w)"
proof -
  have role: "\<exists>r. adminsOnly A req = Some r" using closed by (auto simp: closed_to_def canAccessCase_def adminsOnly_def viewer_of_def)
  then have accounts: "step_leaves (sv_backend S) obj (Some e) c w (accounts_stage A nw rnd req e w)"
    by (auto simp: accounts_stage_def user_action_step_def Let_def split: endpoint.split intro!: step_leaves_gate step_leaves_intros dest: gates_hide)
  note hs = case_create_leaves [OF closed ex] case_handlers_leave [OF closed] link_create_leaves [OF closed]
    link_revoke_leaves [OF closed kept] file_delete_leaves [OF closed kept] case_list_hides [OF closed] renderCase_hides [OF closed]
    link_revoke_objects [OF closed kept sto] file_delete_objects [OF closed kept sto(1,3)]
  show ?thesis
  proof (cases "\<exists>i. e = DownloadFile i")
    case True
    then show ?thesis using file_download_step [OF closed kept]
      by (auto simp: working_stage_def confirmed_only_def Let_def intro!: step_leaves_gate dest: gates_hide)
  next
    case False
    then show ?thesis using accounts
      by (cases e) (auto simp: working_stage_def confirmed_only_def cases_page_def case_page_def Let_def hs
        intro!: step_leaves_gate step_leaves_intros dest: gates_hide)
  qed
qed

lemma offer_content: "rs_content (fst (offer A nw rnd req d) r) = rs_content r"
  by (simp add: offer_def split: prod.split option.split)

lemma decorate_leaves: "(\<And>r. rs_content (h r) = rs_content r) \<Longrightarrow> step_leaves B obj ep c w st \<Longrightarrow> step_leaves B obj ep c w (decorate h st)"
  by (auto simp: step_leaves_def step_content_def decorate_def split: prod.splits routed.splits sum.splits)

lemma step_leaves_same: "case_rows c d1 = case_rows c (w_db w) \<Longrightarrow> files d1 = files (w_db w) \<Longrightarrow>
    step_leaves B obj ep c (w\<lparr>w_db := d1\<rparr>) st = step_leaves B obj ep c w st"
  by (simp add: step_leaves_def objects_stay_def told_def [abs_def])

lemma verified_panel_leaves:
  assumes "closed_to req c (w_db w)" "well_kept (w_db w)" "has_case c (w_db w)"
    and sto: "storage_contract (sv_backend S) C obj good" "removes_only good obj (sv_tusRemove S)" "good (w_store w)"
  shows "step_leaves (sv_backend S) obj ep c w (verified_panel A S nw rnd req ep w)"
proof -
  obtain h d1 where off: "offer A nw rnd req (w_db w) = (h, d1)" by fastforce
  have same: "case_rows c d1 = case_rows c (w_db w)" "case_data d1 = case_data (w_db w)"
    using one_case.view_ceremony(3) [of c A nw rnd req "w_db w"] all_cases.view_ceremony(3) [of A nw rnd req "w_db w"] off by simp_all
  let ?w = "w\<lparr>w_db := d1\<rparr>"
  have at1: "closed_to req c (w_db ?w)" "well_kept (w_db ?w)" "has_case c (w_db ?w)"
    using closed_after [OF assms(1) same(1)] well_kept_same [OF same(2)] assms same(2) by (simp_all add: has_case_def case_data_def)
  let ?inner = "case Option.bind ep (\<lambda>e. complete_stage A nw rnd req e ?w) of Some st \<Rightarrow> st
      | None \<Rightarrow> gated (requirements A req) ?w (case ep of None \<Rightarrow> (NotRouted, ?w) | Some e \<Rightarrow> working_stage A S nw rnd req e ?w)"
  have "step_leaves (sv_backend S) obj ep c ?w (working_stage A S nw rnd req e ?w)" if "ep = Some e" for e
    using working_stage_leaves [OF at1 sto(1,2)] sto(3) that by simp
  then have "step_leaves (sv_backend S) obj ep c ?w ?inner"
    by (auto simp: bind_eq_Some_conv split: option.split intro!: step_leaves_gate step_leaves_intros dest: gates_hide complete_stage_leaves)
  then have "step_leaves (sv_backend S) obj ep c w ?inner"
    using step_leaves_same [OF same(1)] same(2) by (simp add: case_data_def)
  then show ?thesis using off offer_content [of A nw rnd req "w_db w"] by (simp add: verified_panel_def Let_def decorate_leaves)
qed

text \<open>C1: an account that is not assigned to a case (and is no administrator) changes nothing of it, whatever it asks
  for: the case row, its members, links and files stay, and so do the stored objects of its files; and it is told
  nothing of it: no answer is the page of the case, a list that has it, the trail or the accounts, its upload page, or
  JSON other than a refusal or a ceremony, and the bytes of a file go out only if the file is of another case.
  The storage is any that keeps its contract, with a tus store that removes only what it is asked to.\<close>

theorem case_isolation:
  assumes "\<not> canAccessCase (w_db w) (viewer_of (sess_admin req)) c" and "has_case c (w_db w)"
    and "well_kept (w_db w)" and "storage_contract (sv_backend S) C obj good" "removes_only good obj (sv_tusRemove S)" "good (w_store w)"
    and "adminRouter A S nw rnd req segs w = (out, w')"
  shows "case_rows c (w_db w') = case_rows c (w_db w) \<and>
    (\<forall>f \<in> set (files (w_db w)). f_case_id f = c \<longrightarrow> obj (w_store w') (f_id f) = obj (w_store w) (f_id f)) \<and>
    (case out of NotRouted \<Rightarrow> True | Answered r \<Rightarrow> answers_only (\<lambda>x. \<not> shows_case c x \<or>
       (\<exists>f \<in> set (files (w_db w)). \<exists>bytes. f_case_id f \<noteq> c \<and> f_status f = Complete \<and>
          endpoint_of (rq_method req) segs = Some (DownloadFile (f_id f)) \<and>
          bk_get (sv_backend S) (f_id f) (w_store w) = Inr bytes \<and> x = Attachment bytes)) r)"
proof -
  let ?ep = "endpoint_of (rq_method req) segs" and ?B = "sv_backend S"
  have early: "step_leaves ?B obj ?ep c w st" if "confined w st" "case_rows c (w_db (snd st)) = case_rows c (w_db w)" for st
  proof -
    have "answers_only sign_in_only r \<Longrightarrow> answers_only (told ?B ?ep (w_db w) (w_store w) c) r" for r
      using sign_in_hides by (cases r) (auto intro: told_silent)
    then show ?thesis using that by (auto simp: step_leaves_def confined_def keeps_rest_def step_content_def split: routed.splits)
  qed
  have "step_leaves ?B obj ?ep c w (adminRouter A S nw rnd req segs w)"
  proof (cases "Option.bind ?ep (\<lambda>e. entrance A nw rnd req e w)")
    case (Some st)
    then show ?thesis
      by (auto simp: adminRouter_def Let_def bind_eq_Some_conv intro!: early login_stages(1) one_case.view_entrance)
  next
    case None
    have "step_leaves ?B obj ?ep c w (verified_panel A S nw rnd req ?ep w)"
      using assms(1-3) by (intro verified_panel_leaves [OF _ _ _ assms(4-6)]) (simp_all add: closed_to_def)
    then have "step_leaves ?B obj ?ep c w (case Option.bind ?ep (\<lambda>e. pending_stage A nw rnd req e w) of Some st \<Rightarrow> st
      | None \<Rightarrow> gated (requireAdmin True req) w (verified_panel A S nw rnd req ?ep w))"
      by (auto simp: bind_eq_Some_conv split: option.split
          intro!: early login_stages(2) one_case.view_pending step_leaves_gate dest: gate_pages(2) [THEN sign_in_hides])
    then show ?thesis unfolding adminRouter_gates [OF None]
      by (auto intro!: step_leaves_gate dest: gate_pages [THEN sign_in_hides])
  qed
  then have "step_leaves ?B obj ?ep c w (out, w')" using assms(7) by simp
  then show ?thesis unfolding step_leaves_def step_content_def objects_stay_def told_def [abs_def] fst_conv snd_conv .
qed

section \<open>An example\<close>

definition demo_viewer :: "string \<Rightarrow> role \<Rightarrow> admin" where
  "demo_viewer i r =
     \<lparr>ad_id = i, ad_username = ''ann'', ad_created_at = 0, ad_totp_enabled = False, ad_role = r, ad_must_change = False, ad_passkeys = 0\<rparr>"

definition demo_login :: "role \<Rightarrow> session" where
  "demo_login r =
     \<lparr>sv_admin = demo_viewer ''a_1'' r, sv_csrf_token = ''tok'', sv_expires_at = 1000, sv_totp_verified = True, sv_totp_attempts = 0,
      sv_public_id = ''s_1'', sv_second_factor = None, sv_confirmed_until = Some 100\<rparr>"

definition signed_in_request :: "string \<Rightarrow> role \<Rightarrow> request" where
  "signed_in_request m r = (demo_request m)\<lparr>rq_session := Some (demo_login r), rq_sessionId := Some ''sx'',
     rq_body := [''_csrf'' \<mapsto> FText ''tok'', ''name'' \<mapsto> FText ''Stolen'']\<rparr>"

text \<open>The viewer of another account asks to delete the file of the example's case, with its object in the storage.\<close>

definition stored_file :: fs where
  "stored_file = [\<lparr>fe_name = newId ''f'' (replicate 12 2), fe_is_file = True, fe_data = [1, 2, 3], fe_mtime = 1\<rparr>]"

theorem case_isolation_witness:
  "\<exists>out w'. adminRouter demo_app demo_services 0 demo_panel_draws (signed_in_request ''POST'' RoleUser)
      [''files'', newId ''f'' (replicate 12 2), ''delete''] ((demo_world demo_q5)\<lparr>w_store := stored_file\<rparr>) = (out, w') \<and>
    case_rows (c_id demo_case) (w_db w') = case_rows (c_id demo_case) demo_q5 \<and>
    local_obj (w_store w') (newId ''f'' (replicate 12 2)) = Some [1, 2, 3]"
proof -
  let ?req = "signed_in_request ''POST'' RoleUser" and ?w = "(demo_world demo_q5)\<lparr>w_store := stored_file\<rparr>" and ?i = "newId ''f'' (replicate 12 2)"
  obtain out w' where run: "adminRouter demo_app demo_services 0 demo_panel_draws ?req [''files'', ?i, ''delete''] ?w = (out, w')" by fastforce
  have w: "w_db ?w = demo_q5" "w_store ?w = stored_file" by (simp_all add: demo_world_def)
  have m: "members demo_q5 = []" and ex: "has_case (c_id demo_case) demo_q5" and kept: "well_kept demo_q5"
    and f: "list_ex (\<lambda>f. f_id f = ?i \<and> f_case_id f = c_id demo_case) (files demo_q5)" and obj: "local_obj stored_file ?i = Some [1, 2, 3]" by code_simp+
  have closed: "\<not> canAccessCase demo_q5 (viewer_of (sess_admin ?req)) (c_id demo_case)"
    by (simp add: canAccessCase_def m viewer_of_def sess_admin_def sess_def signed_in_request_def demo_login_def demo_viewer_def)
  have con: "storage_contract (sv_backend demo_services) demo_crypto local_obj fs_ok" "removes_only fs_ok local_obj (sv_tusRemove demo_services)"
    "fs_ok stored_file"
    by (simp_all add: demo_services_def dir.storage_contract_axioms removes_only_def fs_ok_def stored_file_def)
  from case_isolation [OF _ _ _ con(1,2) _ run, unfolded w, OF closed ex kept con(3)] f obj run show ?thesis by (auto simp: list_ex_iff)
qed

end
