(* ===== verification/Downloads.thy ===== *)
theory Downloads
  imports CaseIsolation
begin

text \<open>
  The content of an uploaded file leaves the panel through one route only, and only after every check of it.
\<close>

section \<open>The other routes hand out no file\<close>

fun no_file :: "content \<Rightarrow> bool" where
  "no_file (Attachment bytes) = False"
| "no_file x = True"

lemma personal_no_file: "personal x \<Longrightarrow> no_file x"
  by (cases x) auto

lemma working_no_file:
  "answers_only no_file (fst (case_create A nw rnd req d))" "answers_only no_file (fst (case_save A nw req i d))"
  "answers_only no_file (fst (case_status_change A nw req i d))" "answers_only no_file (fst (link_create A nw rnd req i d))"
  "answers_only no_file (fst (fst (link_revoke A B rm nw req i d s)))" "answers_only no_file (fst (fst (file_delete A B nw req i d s)))"
  "answers_only no_file (fst (member_add A nw req i d))" "answers_only no_file (fst (member_remove A nw req i u d))"
  "answers_only no_file (fst (user_create A nw rnd req d))" "answers_only no_file (fst (userAction A nw req act g i d))"
  "no_file (rs_content (renderCase A req k x st d))"
proof -
  show [simp]: "no_file (rs_content (renderCase A req k x st d))" for k x st d
    by (simp add: renderCase_def sendError_def split: option.split)
  have [simp]: "answers_only no_file (fst (case_missing A req d))" "answers_only no_file (fst (case_error A req i m st d))"
    "answers_only no_file (fst (case_ok A req i m d))" "answers_only no_file (fst (users_error req m st d))"
    "answers_only no_file (fst (user_refused A req e d))" for i m st d e
    by (simp_all add: case_missing_def case_error_def case_ok_def users_error_def renderUsers_def user_refused_def userErrorText_def split: exn.split)
  have [simp]: "(\<And>c d. answers_only no_file (fst (h c d))) \<Longrightarrow> answers_only no_file (fst (with_case A req i h d))" for h i d
    by (simp add: with_case_def split: option.split)
  show "answers_only no_file (fst (case_create A nw rnd req d))" "answers_only no_file (fst (case_save A nw req i d))"
    "answers_only no_file (fst (case_status_change A nw req i d))" "answers_only no_file (fst (link_create A nw rnd req i d))"
    "answers_only no_file (fst (fst (link_revoke A B rm nw req i d s)))" "answers_only no_file (fst (fst (file_delete A B nw req i d s)))"
    "answers_only no_file (fst (member_add A nw req i d))" "answers_only no_file (fst (member_remove A nw req i u d))"
    "answers_only no_file (fst (user_create A nw rnd req d))" "answers_only no_file (fst (userAction A nw req act g i d))"
    by (simp_all add: case_create_def case_save_def case_status_change_def link_create_def link_revoke_def file_delete_def
        member_add_def member_remove_def user_create_def userAction_def renderUsers_def sendError_def Let_def split_beta
        split: sum.split option.split bool.split)
qed

section \<open>The download\<close>

lemma file_download_attachment:
  assumes "file_download A B disp nw req i d s = (Inr resp, d')" "rs_content resp = Attachment bytes"
  shows "\<exists>f. fileFor req i d = Some f \<and> f_status f = Complete \<and> bk_get B (f_id f) s = Inr bytes \<and> rs_status resp = 200 \<and>
    {(''Content-Type'', [''application/octet-stream'']), (''Content-Disposition'', [disp (f_original_name f)]), (''X-Content-Type-Options'', [''nosniff'']),
     (''Content-Security-Policy'', [''default-src '' @ keyword ''none'' @ ''; sandbox'']), (''Cache-Control'', [''no-store''])} \<subseteq> set (rs_headers resp) \<and>
    d' = audit nw (file_event req ''file.download'' f) d"
  using assms by (auto simp: file_download_def sendError_def split: option.splits sum.splits exn.splits if_splits)

lemma obj_set_other: "k \<noteq> k' \<Longrightarrow> (k, v) \<in> set kvs \<Longrightarrow> (k, v) \<in> set (obj_set k' x kvs)"
  by (induction k' x kvs rule: obj_set.induct) auto

text \<open>Where an answer with a file comes from: the working stage, behind a complete session.\<close>

lemma confined_no_file: "confined w st \<Longrightarrow> fst st = Answered (Inr r) \<Longrightarrow> no_file (rs_content r)"
  by (auto simp: confined_def dest: sign_in_personal personal_no_file)

lemma gated_file: "gated g w rest = (Answered (Inr r), w') \<Longrightarrow> \<not> no_file (rs_content r) \<Longrightarrow> (\<And>q. g = Some q \<Longrightarrow> personal (rs_content q)) \<Longrightarrow>
    g = None \<and> rest = (Answered (Inr r), w')"
  by (cases g) (auto simp: gated_def page_only_def dest: personal_no_file)

lemmas gates_no_file = gates_personal [THEN personal_no_file]

lemma working_stage_file:
  assumes "working_stage A S nw rnd req e w = (Answered (Inr r), w')" "\<not> no_file (rs_content r)"
  shows "\<exists>i. e = DownloadFile i \<and> requireConfirmed nw ''/admin'' req = None \<and>
    file_download A (sv_backend S) (sv_disposition S) nw req i (w_db w) (w_store w) = (Inr r, w_db w')"
proof (cases "\<exists>i. e = DownloadFile i")
  case True
  then obtain i where e: "e = DownloadFile i" by blast
  have "gated (requireConfirmed nw ''/admin'' req) w
      (plain w (file_download A (sv_backend S) (sv_disposition S) nw req i (w_db w) (w_store w))) = (Answered (Inr r), w')"
    using assms(1) e by (simp add: working_stage_def confirmed_only_def Let_def)
  from gated_file [OF this assms(2)] gates_personal(1) [of nw "''/admin''" req] show ?thesis
    using e by (auto simp: plain_def prod_eq_iff)
next
  case False
  have "step_content no_file (accounts_stage A nw rnd req e w)"
    using working_no_file
    by (auto simp: accounts_stage_def user_action_step_def confirmed_only_def renderUsers_def audit_page_def Let_def
        split: endpoint.split intro!: gate_content dest: gates_no_file)
  then have "step_content no_file (working_stage A S nw rnd req e w)"
    using working_no_file False
    by (auto simp: working_stage_def confirmed_only_def cases_page_def case_page_def case_list_def Let_def
        split: endpoint.split intro!: gate_content dest: gates_no_file)
  then show ?thesis using assms by (simp add: step_content_def)
qed

lemma offer_keeps: "audit_log (snd (offer A nw rnd req d)) = audit_log d" "case_data (snd (offer A nw rnd req d)) = case_data d"
  by (simp_all add: all_cases.view_ceremony) (simp add: offer_def offerBinding_def update_sessions_def Let_def split: option.split)

lemma fileFor_mono: "fileFor req i d = Some f \<Longrightarrow> case_data d = case_data d0 \<Longrightarrow>
    f \<in> set (files d0) \<and> canAccessCase d0 (viewer_of (sess_admin req)) (f_case_id f)"
  by (auto simp: fileFor_def bind_eq_Some_conv getFile_def case_data_def canAccessCase_def
      dest!: get_by_SomeD caseFor_access split: option.splits if_splits)

lemma verified_panel_file:
  assumes "verified_panel A S nw rnd req ep w = (Answered (Inr resp), w')" "\<not> no_file (rs_content resp)"
  shows "\<exists>i r0. requireConfirmed nw ''/admin'' req = None \<and> resp = fst (offer A nw rnd req (w_db w)) r0 \<and>
    file_download A (sv_backend S) (sv_disposition S) nw req i (snd (offer A nw rnd req (w_db w))) (w_store w) = (Inr r0, w_db w')"
proof -
  obtain h d1 where off: "offer A nw rnd req (w_db w) = (h, d1)" by fastforce
  let ?w = "w\<lparr>w_db := d1\<rparr>"
  let ?inner = "case Option.bind ep (\<lambda>e. complete_stage A nw rnd req e ?w) of Some st \<Rightarrow> st
    | None \<Rightarrow> gated (requirements A req) ?w (case ep of None \<Rightarrow> (NotRouted, ?w) | Some e \<Rightarrow> working_stage A S nw rnd req e ?w)"
  have "decorate h ?inner = (Answered (Inr resp), w')" using assms(1) off by (simp add: verified_panel_def Let_def)
  then obtain r0 where r0: "?inner = (Answered (Inr r0), w')" "resp = h r0"
    by (auto simp: decorate_def split: prod.splits routed.splits sum.splits)
  have sent: "\<not> no_file (rs_content r0)" using assms(2) r0(2) offer_content [of A nw rnd req "w_db w" r0] off by simp
  have "complete_stage A nw rnd req e ?w \<noteq> Some (Answered (Inr r0), w')" for e
    using complete_stage_personal [of A nw rnd req e ?w "(Answered (Inr r0), w')"] personal_no_file sent by auto
  then have "gated (requirements A req) ?w (case ep of None \<Rightarrow> (NotRouted, ?w) | Some e \<Rightarrow> working_stage A S nw rnd req e ?w) = (Answered (Inr r0), w')"
    using r0(1) by (auto simp: bind_eq_Some_conv split: option.splits)
  from gated_file [OF this sent] gates_personal(3) obtain e where "working_stage A S nw rnd req e ?w = (Answered (Inr r0), w')"
    by (auto split: option.splits)
  from working_stage_file [OF this sent] show ?thesis using off r0(2) by auto
qed

lemma offer_headers: "rs_status (fst (offer A nw rnd req d) r) = rs_status r"
  "k \<noteq> ''Secure-Session-Registration'' \<Longrightarrow> (k, v) \<in> set (rs_headers r) \<Longrightarrow> (k, v) \<in> set (rs_headers (fst (offer A nw rnd req d) r))"
  by (auto simp: offer_def setHeader_def obj_set_other split: prod.split option.split)

text \<open>An answer that carries a file comes from behind the gate of a complete session.\<close>

lemma file_from_panel:
  assumes "adminRouter A S nw rnd req segs w = (Answered (Inr resp), w')" and sent: "\<not> no_file (rs_content resp)"
  shows "verified_panel A S nw rnd req (endpoint_of (rq_method req) segs) w = (Answered (Inr resp), w')"
proof -
  let ?ep = "endpoint_of (rq_method req) segs"
  have None1: "Option.bind ?ep (\<lambda>e. entrance A nw rnd req e w) = None"
  proof (rule ccontr)
    assume "Option.bind ?ep (\<lambda>e. entrance A nw rnd req e w) \<noteq> None"
    then have "confined w (Answered (Inr resp), w')"
      using assms(1) by (auto simp: adminRouter_def Let_def bind_eq_Some_conv dest: login_stages(1))
    then show False using confined_no_file sent by fastforce
  qed
  have stages: "gated (requireAdmin False req) w (gated (csrfProtect A req) w
    (case Option.bind ?ep (\<lambda>e. pending_stage A nw rnd req e w) of Some st \<Rightarrow> st
     | None \<Rightarrow> gated (requireAdmin True req) w (verified_panel A S nw rnd req ?ep w))) = (Answered (Inr resp), w')"
    using assms(1) adminRouter_gates [OF None1] by simp
  note inside = gated_file [OF conjunct2 [OF gated_file [OF stages sent]] sent]
  have "(case Option.bind ?ep (\<lambda>e. pending_stage A nw rnd req e w) of Some st \<Rightarrow> st
     | None \<Rightarrow> gated (requireAdmin True req) w (verified_panel A S nw rnd req ?ep w)) = (Answered (Inr resp), w')"
    using inside gate_pages [THEN sign_in_personal] by blast
  moreover have "pending_stage A nw rnd req e w \<noteq> Some (Answered (Inr resp), w')" for e
    using login_stages(2) [of A nw rnd req e w] confined_no_file [of w "(Answered (Inr resp), w')" resp] sent by auto
  ultimately have "gated (requireAdmin True req) w (verified_panel A S nw rnd req ?ep w) = (Answered (Inr resp), w')"
    by (auto simp: bind_eq_Some_conv split: option.splits)
  from gated_file [OF this sent] show ?thesis using gate_pages(2) [THEN sign_in_personal] by blast
qed

text \<open>C2: bytes of an uploaded file leave the panel only for a complete session that confirmed itself a moment ago, for
  a completed file of a case its account may open; they are what the storage holds, sent as an opaque
  attachment under the name of the file, and the download is on record.\<close>

theorem download_guarded:
  assumes "adminRouter A S nw rnd req segs w = (Answered (Inr resp), w')" and "rs_content resp = Attachment bytes"
  shows "session_complete req \<and> recently_confirmed nw req \<and> rs_status resp = 200 \<and>
    (\<exists>f \<in> set (files (w_db w)). f_status f = Complete \<and>
      {(''Content-Type'', [''application/octet-stream'']), (''Content-Disposition'', [sv_disposition S (f_original_name f)]),
       (''X-Content-Type-Options'', [''nosniff'']), (''Content-Security-Policy'', [''default-src '' @ keyword ''none'' @ ''; sandbox'']),
       (''Cache-Control'', [''no-store''])} \<subseteq> set (rs_headers resp) \<and> bk_get (sv_backend S) (f_id f) (w_store w) = Inr bytes \<and>
      canAccessCase (w_db w) (viewer_of (sess_admin req)) (f_case_id f) \<and>
      (\<exists>row. audit_log (w_db w') = audit_log (w_db w) @ [row] \<and> au_action row = ''file.download'' \<and>
        au_file_id row = Some (f_id f) \<and> au_actor_id row = Some (ad_id (sess_admin req))))"
proof -
  let ?ep = "endpoint_of (rq_method req) segs"
  have sent: "\<not> no_file (rs_content resp)" using assms(2) by simp
  have complete: "session_complete req"
    using assms(2) by (cases "session_complete req") (auto elim: confined_panel [OF _ assms(1)])
  have panel: "verified_panel A S nw rnd req ?ep w = (Answered (Inr resp), w')" by (rule file_from_panel [OF assms(1) sent])
  from verified_panel_file [OF panel sent] obtain i r0 where ok: "requireConfirmed nw ''/admin'' req = None"
    and r0: "resp = fst (offer A nw rnd req (w_db w)) r0"
    and down: "file_download A (sv_backend S) (sv_disposition S) nw req i (snd (offer A nw rnd req (w_db w))) (w_store w) = (Inr r0, w_db w')"
    by blast
  have "rs_content r0 = Attachment bytes" using assms(2) r0 offer_content [of A nw rnd req "w_db w" r0] by simp
  from file_download_attachment [OF down this] obtain f where f: "fileFor req i (snd (offer A nw rnd req (w_db w))) = Some f"
    "f_status f = Complete" "bk_get (sv_backend S) (f_id f) (w_store w) = Inr bytes" "rs_status r0 = 200"
    "{(''Content-Type'', [''application/octet-stream'']), (''Content-Disposition'', [sv_disposition S (f_original_name f)]), (''X-Content-Type-Options'', [''nosniff'']),
      (''Content-Security-Policy'', [''default-src '' @ keyword ''none'' @ ''; sandbox'']), (''Cache-Control'', [''no-store''])} \<subseteq> set (rs_headers r0)"
    "w_db w' = audit nw (file_event req ''file.download'' f) (snd (offer A nw rnd req (w_db w)))"
    by blast
  have "recently_confirmed nw req" using ok by (auto simp: requireConfirmed_def Let_def split: if_splits)
  moreover have "rs_status resp = 200" using f(4) r0 offer_headers(1) by simp
  moreover note fileFor_mono [OF f(1) offer_keeps(2)]
  moreover have "\<exists>row. audit_log (w_db w') = audit_log (w_db w) @ [row] \<and> au_action row = ''file.download'' \<and>
      au_file_id row = Some (f_id f) \<and> au_actor_id row = Some (ad_id (sess_admin req))"
    using f(6) by (simp add: audit_def offer_keeps(1) file_event_def panel_event_def)
  moreover have "{(''Content-Type'', [''application/octet-stream'']), (''Content-Disposition'', [sv_disposition S (f_original_name f)]), (''X-Content-Type-Options'', [''nosniff'']),
     (''Content-Security-Policy'', [''default-src '' @ keyword ''none'' @ ''; sandbox'']), (''Cache-Control'', [''no-store''])} \<subseteq> set (rs_headers resp)"
    using f(5) by (auto simp: r0 intro!: offer_headers(2))
  ultimately show ?thesis using complete f(2,3) by blast
qed

theorem download_guarded_witness:
  "\<exists>resp w' f. adminRouter demo_app demo_services 5 demo_panel_draws (signed_in_request ''GET'' RoleAdmin)
      [''files'', newId ''f'' (replicate 12 2), ''download''] ((demo_world demo_q5)\<lparr>w_store := stored_file\<rparr>) = (Answered (Inr resp), w') \<and>
    rs_status resp = 200 \<and> f \<in> set (files demo_q5) \<and> f_status f = Complete \<and> length (audit_log (w_db w')) = Suc (length (audit_log demo_q5))"
proof -
  let ?run = "adminRouter demo_app demo_services 5 demo_panel_draws (signed_in_request ''GET'' RoleAdmin)
      [''files'', newId ''f'' (replicate 12 2), ''download''] ((demo_world demo_q5)\<lparr>w_store := stored_file\<rparr>)"
  have "case fst ?run of Answered (Inr resp) \<Rightarrow> rs_content resp = Attachment [1, 2, 3] | _ \<Rightarrow> False" by code_simp
  then obtain resp w' where run: "?run = (Answered (Inr resp), w')" and bytes: "rs_content resp = Attachment [1, 2, 3]"
    by (cases ?run) (auto split: routed.splits sum.splits)
  show ?thesis using download_guarded [OF run bytes] run by (auto simp: demo_world_def)
qed

end
