(* ===== verification/App.thy ===== *)
theory App
  imports Downloads
begin

text \<open>
  src/http/app.ts and src/http/brand.ts: what the process reads when it starts, the routes outside the
  panel and the API, and the order in which a request meets all of them, up to the 404 answer and the
  error handler. Express, its static file server and the file system are parameters.
\<close>

section \<open>Start\<close>

text \<open>UTF-8 of a JavaScript string, as \<open>hash.update\<close> encodes it; a lone surrogate becomes U+FFFD.\<close>

definition utf8_code :: "nat \<Rightarrow> byte list" where
  "utf8_code cp =
     (if cp < 0x80 then [of_nat cp]
      else if cp < 0x800 then [of_nat (0xC0 + cp div 64), of_nat (0x80 + cp mod 64)]
      else if cp < 0x10000 then [of_nat (0xE0 + cp div 4096), of_nat (0x80 + cp div 64 mod 64), of_nat (0x80 + cp mod 64)]
      else [of_nat (0xF0 + cp div 262144), of_nat (0x80 + cp div 4096 mod 64), of_nat (0x80 + cp div 64 mod 64), of_nat (0x80 + cp mod 64)])"

fun utf8_text :: "text \<Rightarrow> byte list" where
  "utf8_text [] = []"
| "utf8_text [u] = utf8_code (if 0xD800 \<le> u \<and> u < 0xE000 then 0xFFFD else u)"
| "utf8_text (u # v # us) =
     (if 0xD800 \<le> u \<and> u < 0xDC00 \<and> 0xDC00 \<le> v \<and> v < 0xE000
      then utf8_code (0x10000 + (u - 0xD800) * 1024 + (v - 0xDC00)) @ utf8_text us
      else utf8_code (if 0xD800 \<le> u \<and> u < 0xE000 then 0xFFFD else u) @ utf8_text (v # us))"

definition brand_json :: "brand \<Rightarrow> json" where
  "brand_json b =
     obj_json [(''name'', str_json (br_name b)), (''logoPath'', opt_json str_json (br_logoPath b)),
       (''colorPrimary'', str_json (br_colorPrimary b)), (''colorTopbar'', str_json (br_colorTopbar b)),
       (''colorAccent'', str_json (br_colorAccent b)), (''footerText'', str_json (br_footerText b))]"

definition hashed_assets :: "string list" where
  "hashed_assets = [''public/style.css'', ''public/upload.js'', ''public/admin.js'', ''public/inletbox-logo.png'',
     ''node_modules/tus-js-client/dist/tus.min.js'']"

text \<open>A file below the root of the installation, if it can be read.\<close>

type_synonym installed = "string \<Rightarrow> byte list option"

text \<open>
  The version of package.json. Without the file, or when it is not the JSON of an object, the default
  stays; a version that is no string is printed by the template as its text would be.
\<close>

definition package_version :: "installed \<Rightarrow> string option" where
  "package_version inst =
     (case Option.bind (inst ''package.json'') (\<lambda>bs. json_parse (utf8_decode bs)) of
        None \<Rightarrow> None
      | Some JNull \<Rightarrow> None
      | Some j \<Rightarrow>
          Some (case json_get ''version'' j of
                  None \<Rightarrow> ''0.0.0'' | Some JNull \<Rightarrow> ''0.0.0''
                | Some (JStr v) \<Rightarrow> map chr_of v | Some v \<Rightarrow> map chr_of (json_stringify v)))"

definition asset_version :: "node_crypto \<Rightarrow> installed \<Rightarrow> brand \<Rightarrow> string" where
  "asset_version C inst b =
     take 12 (hex (nc_sha256 C (concat (List.map_filter inst hashed_assets) @ utf8_text (json_stringify (brand_json b)))))"

definition site_chrome :: "app \<Rightarrow> installed \<Rightarrow> chrome" where
  "site_chrome A inst =
     (let b = cf_brand (ap_cfg A); c1 = setBrand b default_chrome;
          c2 = (case package_version inst of None \<Rightarrow> c1 | Some v \<Rightarrow> setAppVersion v c1)
      in setAssetVersion (asset_version (ap_crypto A) inst b) c2)"

section \<open>Branding\<close>

definition LOGO_TYPES :: "(string \<times> string) list" where
  "LOGO_TYPES = [(''.png'', ''image/png''), (''.svg'', ''image/svg+xml''), (''.jpg'', ''image/jpeg''), (''.jpeg'', ''image/jpeg''),
     (''.webp'', ''image/webp'')]"

definition theme_css :: "brand \<Rightarrow> string" where
  "theme_css b =
     js_join [CHR 0x0A] ['':root {'', ''  --primary: '' @ br_colorPrimary b @ '';'', ''  --topbar: '' @ br_colorTopbar b @ '';'',
       ''  --accent: '' @ br_colorAccent b @ '';'', ''}'', []]"

definition theme :: "brand \<Rightarrow> response" where
  "theme b =
     setHeader ''Content-Type'' [''text/css''] (setHeader ''Cache-Control'' [''public, max-age=300''] (answer 200 (PlainText (units (theme_css b)))))"

text \<open>
  The logo: \<open>disk\<close> reads a path of the file system, \<open>None\<close> when there is no such file and
  \<open>Some None\<close> when it exists but its stream fails.
\<close>

definition logo :: "(string \<Rightarrow> byte list option option) \<Rightarrow> brand \<Rightarrow> response" where
  "logo disk b =
     (if \<not> truthy (br_logoPath b) then answer 404 (PlainText (units ''No logo configured''))
      else
        let p = the (br_logoPath b)
        in case (map_of LOGO_TYPES (js_lower (path_extname p)), disk p) of
             (Some ty, Some data) \<Rightarrow>
               let r0 = (case data of Some bytes \<Rightarrow> answer 200 (Attachment bytes) | None \<Rightarrow> answer 404 NoContent);
                   r1 = setHeader ''X-Content-Type-Options'' [''nosniff''] (setHeader ''Cache-Control'' [''public, max-age=3600''] r0);
                   r2 = (if ty = ''image/svg+xml''
                         then setHeader ''Content-Security-Policy''
                           [''default-src '' @ keyword ''none'' @ ''; style-src '' @ keyword ''unsafe-inline'' @ ''; sandbox''] r1
                         else r1)
               in setHeader ''Content-Type'' [ty] r2
           | _ \<Rightarrow> answer 404 (PlainText (units ''Logo file not found'')))"

definition brandRouter :: "(string \<Rightarrow> byte list option option) \<Rightarrow> brand \<Rightarrow> string \<Rightarrow> string list \<Rightarrow> response option" where
  "brandRouter disk b m segs =
     (if m \<notin> {''GET'', ''HEAD''} then None
      else if map js_lower segs = [''theme.css''] then Some (theme b)
      else if map js_lower segs = [''logo''] then Some (logo disk b)
      else None)"

section \<open>The routes of the app\<close>

text \<open>Assets with a hash in their URL never change; the others are revalidated after an hour.\<close>

definition static_cache :: "request \<Rightarrow> response \<Rightarrow> response" where
  "static_cache req =
     setHeader ''Cache-Control''
       [if truthy (field_text (rq_query req ''v'')) then ''public, max-age=31536000, immutable'' else ''public, max-age=3600'']"

definition healthz :: response where
  "healthz = answer 200 (JsonText (obj_json [(''ok'', JBool True)]))"

definition lang_next :: "request \<Rightarrow> string" where
  "lang_next req =
     (let next = (case field_text (rq_query req ''next'') of Some s \<Rightarrow> s | None \<Rightarrow> ''/'')
      in if starts_with ''/'' next \<and> \<not> starts_with ''//'' next \<and> \<not> starts_with (CHR ''/'' # [CHR 0x5C]) next then next else ''/'')"

definition switch_lang :: "app \<Rightarrow> request \<Rightarrow> string \<Rightarrow> response" where
  "switch_lang A req l =
     (if isLang l = None then answer 404 (PlainText (units ''Unknown language''))
      else setHeader ''Set-Cookie'' [langCookie A l] (redirect 303 (lang_next req)))"

definition is_api :: "request \<Rightarrow> bool" where "is_api req \<longleftrightarrow> starts_with ''/api/'' (rq_path req)"

definition home_href :: "request \<Rightarrow> string" where
  "home_href req = (if starts_with ''/admin'' (rq_path req) then ''/admin'' else ''/'')"

definition not_routed :: "app \<Rightarrow> request \<Rightarrow> response" where
  "not_routed A req =
     (if is_api req then answer 404 (JsonText (obj_json [(''error'', str_json ''not_found'')]))
      else send_page 404 (ErrorPage (rq_lang req) (msg A req ''error.not_found.title'') (msg A req ''error.page_missing'') 404
        (rq_originalUrl req) (home_href req)))"

text \<open>
  What reaches the error handler: an error of the program, which has no status, or one of Express's body
  parsers, which has.
\<close>

record thrown =
  th_status :: "int option"
  th_statusCode :: "int option"
  th_message :: "string option"

definition thrown_exn :: "exn \<Rightarrow> thrown" where
  "thrown_exn e = \<lparr>th_status = None, th_statusCode = None, th_message = Some (exn_message e)\<rparr>"

definition error_status :: "thrown \<Rightarrow> int" where
  "error_status e = (case th_status e of Some n \<Rightarrow> n | None \<Rightarrow> (case th_statusCode e of Some n \<Rightarrow> n | None \<Rightarrow> 500))"

definition error_handler :: "app \<Rightarrow> bool \<Rightarrow> request \<Rightarrow> thrown \<Rightarrow> response option" where
  "error_handler A headersSent req e =
     (let status = error_status e; own = 500 \<le> status
      in if headersSent then None
         else if is_api req then
           Some (answer status (JsonText (obj_json ((''error'', str_json (if own then ''internal'' else ''bad_request'')) #
             (if own then [(''message'', str_json ''Internal error'')]
              else case th_message e of None \<Rightarrow> [] | Some m \<Rightarrow> [(''message'', str_json m)])))))
         else
           Some (send_page status (ErrorPage (rq_lang req) (msg A req (if own then ''error.server.title'' else ''error.bad_request.title''))
             (if own then msg A req ''error.server'' else units (case th_message e of None \<Rightarrow> ''Bad request'' | Some m \<Rightarrow> m))
             status (rq_originalUrl req) (home_href req))))"

section \<open>A request\<close>

text \<open>
  The outside of one request: the static files, the disk, and what the transfer of an upload brings. The
  tus server takes over the requests the API hands it.
\<close>

record outside =
  os_static :: "request \<Rightarrow> response option"
  os_disk :: "string \<Rightarrow> byte list option option"
  os_transfer :: transfer
  os_fileId :: "byte list"

datatype reply = Reply "response option" | ToTus request "string option"

definition finish :: "app \<Rightarrow> request \<Rightarrow> response option result \<Rightarrow> reply" where
  "finish A req r = Reply (case r of Inr resp \<Rightarrow> resp | Inl e \<Rightarrow> error_handler A False req (thrown_exn e))"

text \<open>The routes before the session middleware; the request already has its language.\<close>

definition front :: "app \<Rightarrow> outside \<Rightarrow> request \<Rightarrow> string list \<Rightarrow> response option" where
  "front A out req segs =
     (let words = map js_lower segs; get = is_get req
      in case words of
           [] \<Rightarrow> if get then Some (send_page 200 (HomePage (rq_lang req))) else None
         | w # ws \<Rightarrow>
             if w = ''brand'' then brandRouter (os_disk out) (cf_brand (ap_cfg A)) (rq_method req) (tl segs)
             else if w = ''static'' then map_option (static_cache req) (os_static out req)
             else if words = [''healthz''] \<and> get then Some healthz
             else if w = ''lang'' \<and> length segs = 2 \<and> get then Some (switch_lang A req (segs ! 1))
             else None)"

text \<open>What the panel leaves, and everything else: the upload page, the API, the 404 answer.\<close>

definition public_routes ::
  "app \<Rightarrow> 's services \<Rightarrow> outside \<Rightarrow> time \<Rightarrow> request \<Rightarrow> string list \<Rightarrow> 's world \<Rightarrow> reply \<times> 's world" where
  "public_routes A S out nw req segs w =
     (let words = map js_lower segs; missing = finish A req (Inr (Some
            (if take 1 words = [''static''] then static_cache req (not_routed A req) else not_routed A req)))
      in if length segs = 2 \<and> hd words = ''u'' \<and> is_get req then
           (case rateLimit A (tokenFailureLimiter A) req of
              Some r \<Rightarrow> (Reply (Some r), w)
            | None \<Rightarrow> (case upload_page A nw req (segs ! 1) (w_db w) of (r, d) \<Rightarrow> (Reply (Some r), w\<lparr>w_db := d\<rparr>)))
         else if take 1 words = [''api''] then
           (case api A (sv_backend S) nw (os_fileId out) req (tl segs) (os_transfer out) (w_db w) (w_store w) of
              (ApiAnswer r, d, s) \<Rightarrow> (finish A req r, w\<lparr>w_db := d, w_store := s\<rparr>)
            | (ApiToTus q i, d, s) \<Rightarrow> (ToTus q i, w\<lparr>w_db := d, w_store := s\<rparr>)
            | (ApiNext, d, s) \<Rightarrow> (missing, w\<lparr>w_db := d, w_store := s\<rparr>))
         else (missing, w))"

definition createApp ::
  "app \<Rightarrow> 's services \<Rightarrow> outside \<Rightarrow> time \<Rightarrow> draws \<Rightarrow> request \<Rightarrow> string list \<Rightarrow> 's world \<Rightarrow> reply \<times> 's world" where
  "createApp A S out nw rnd req0 segs w0 =
     (let req1 = languageMiddleware req0
      in case front A out req1 segs of
           Some r \<Rightarrow> (Reply (Some r), w0)
         | None \<Rightarrow>
             (case sessionMiddleware A nw req1 (w_db w0) of
                (req, d) \<Rightarrow>
                  let w = w0\<lparr>w_db := d\<rparr>
                  in if take 1 (map js_lower segs) = [''admin''] then
                       (case adminRouter A S nw rnd req (tl segs) w of
                          (Answered r, w1) \<Rightarrow> (finish A req (case r of Inl e \<Rightarrow> Inl e | Inr resp \<Rightarrow> Inr (Some resp)), w1)
                        | (NotRouted, w1) \<Rightarrow> public_routes A S out nw req segs w1)
                     else public_routes A S out nw req segs w))"

section \<open>Without a session and without a link\<close>

text \<open>Everything the site keeps, except what a login and a visit of an upload page record.\<close>

definition site_view :: "db \<Rightarrow> account_view list \<times> credential_view list \<times> case_view" where
  "site_view d =
     (map account_core (admins d), map credential_core (passkeys d), cases d, members d,
      map (\<lambda>l. l\<lparr>l_last_used_at := None\<rparr>) (links d), files d)"

interpretation site: login_view site_view
  by unfold_locales (auto simp: site_view_def update_admins_def update_passkeys_def map_update_where)

lemma site_assets: "assets d' = assets d \<Longrightarrow> site_view d' = site_view d"
  by (simp add: assets_def case_data_def site_view_def)

lemma touch_view: "site_view (touchLink nw i d) = site_view d"
  by (simp add: touchLink_def update_links_def site_view_def map_update_where)

text \<open>
  What anybody may be shown: the pages of the sign-in, the home page, an error, the notice that a link cannot be used,
  and JSON refusals. Not the upload page, which shows a case, nor the lists of the API.
\<close>

fun outsider :: "content \<Rightarrow> bool" where
  "outsider (HtmlPage (HomePage l)) = True"
| "outsider (HtmlPage (LoginPage l m)) = True"
| "outsider (HtmlPage (TotpLoginPage l d)) = True"
| "outsider (HtmlPage (ErrorPage l a b n u h)) = True"
| "outsider (HtmlPage (LinkUnavailablePage l a b)) = True"
| "outsider (HtmlPage p) = False"
| "outsider (Attachment bytes) = False"
| "outsider (JsonText j) = short_json j"
| "outsider x = True"

lemma sign_in_outsider: "sign_in_only x \<Longrightarrow> outsider x"
  by (cases x rule: sign_in_only.cases) auto

text \<open>The upload page of a usable link, which the token in the path resolves to.\<close>

definition own_link_page :: "app \<Rightarrow> time \<Rightarrow> string list \<Rightarrow> db \<Rightarrow> content \<Rightarrow> bool" where
  "own_link_page A nw segs d x \<longleftrightarrow>
     (\<exists>r u. length segs = 2 \<and> js_lower (hd segs) = ''u'' \<and> resolveToken (ap_crypto A) nw (segs ! 1) d = Some r \<and>
        LINK_STATE_MESSAGES (rl_state r) = None \<and> x = HtmlPage (UploadPage u) \<and> ud_case u = rl_case r \<and> ud_link u = rl_link r)"

lemma upload_page_view: "site_view (snd (upload_page A nw req token d)) = site_view d"
  by (simp add: upload_page_def Let_def touch_view split: option.split)

lemma upload_page_content:
  "length segs = 2 \<Longrightarrow> js_lower (hd segs) = ''u'' \<Longrightarrow>
   outsider (rs_content (fst (upload_page A nw req (segs ! 1) d))) \<or> own_link_page A nw segs d (rs_content (fst (upload_page A nw req (segs ! 1) d)))"
  by (auto simp: upload_page_def own_link_page_def Let_def split: option.split)

lemma refusal_json [simp]: "short_json (JObj [(units ''error'', a), (units ''message'', b)])"
  by (auto simp: short_keys_def)

lemma refusal_objs [simp]: "short_json (obj_json [(''error'', a)])" "short_json (obj_json [(''error'', a), (''message'', b)])"
  by (rule short_obj; simp add: short_keys_def)+

lemma api_closed:
  assumes "\<And>token. extractBearer req = Some token \<Longrightarrow> resolveToken (ap_crypto A) nw token d = None"
  shows "\<exists>resp. api A B nw rnd req segs tr d s = (ApiAnswer (Inr (Some resp)), d, s) \<and> outsider (rs_content resp)"
  using assms
  by (auto simp: api_def api_gate_def requireLinkBearer_def rateLimit_def publicLimiter_def tokenFailureLimiter_def too_many_def json_error_def
      simp del: short_json.simps split: option.split)

lemma finish_outsider:
  "(\<And>resp. r = Inr resp \<Longrightarrow> \<exists>x. resp = Some x \<and> outsider (rs_content x)) \<Longrightarrow> \<exists>x. finish A req r = Reply (Some x) \<and> outsider (rs_content x)"
  by (cases r) (auto simp: finish_def error_handler_def thrown_exn_def error_status_def Let_def)

lemma not_routed_outsider: "outsider (rs_content (not_routed A req))"
  by (simp add: not_routed_def)

lemma static_content [simp]: "rs_content (static_cache req r) = rs_content r"
  by (simp add: static_cache_def)

lemma public_routes_closed:
  assumes "\<forall>token. extractBearer req = Some token \<longrightarrow> resolveToken (ap_crypto A) nw token (w_db w) = None"
    and "public_routes A S out nw req segs w = (rep, w')"
  shows "site_view (w_db w') = site_view (w_db w) \<and> w_store w' = w_store w \<and>
    (\<exists>resp. rep = Reply (Some resp) \<and> (outsider (rs_content resp) \<or> own_link_page A nw segs (w_db w) (rs_content resp)))"
proof -
  obtain resp where api: "api A (sv_backend S) nw (os_fileId out) req (tl segs) (os_transfer out) (w_db w) (w_store w) =
      (ApiAnswer (Inr (Some resp)), w_db w, w_store w)" "outsider (rs_content resp)"
    using api_closed [of req A nw "w_db w"] assms(1) by meson
  have limited: "outsider (rs_content r)" if "rateLimit A (tokenFailureLimiter A) req = Some r" for r
    using that by (auto simp: rateLimit_def tokenFailureLimiter_def too_many_def simp del: short_json.simps split: if_splits)
  let ?page = "upload_page A nw req (segs ! 1) (w_db w)"
  obtain q d where page: "?page = (q, d)" by fastforce
  have hd: "hd (map js_lower segs) = js_lower (hd segs)" if "length segs = 2" using that by (cases segs) auto
  have "site_view d = site_view (w_db w)"
    "length segs = 2 \<Longrightarrow> js_lower (hd segs) = ''u'' \<Longrightarrow> outsider (rs_content q) \<or> own_link_page A nw segs (w_db w) (rs_content q)"
    using upload_page_view [of A nw req "segs ! 1" "w_db w"] upload_page_content [of segs A nw req "w_db w"] page by simp_all
  then show ?thesis
    using assms(2) api page limited hd not_routed_outsider [of A req]
    by (auto simp: public_routes_def finish_def Let_def split: if_splits option.splits)
qed

lemma middleware_headers: "rq_headers (fst (sessionMiddleware A nw (languageMiddleware req) d)) = rq_headers req"
  by (simp add: sessionMiddleware_def languageMiddleware_def Let_def split_beta split: option.split)

lemma resolve_same: "case_data d' = case_data d \<Longrightarrow> resolveToken C nw tok d' = resolveToken C nw tok d"
proof -
  assume same: "case_data d' = case_data d"
  then have "getCase d' = getCase d" by (intro ext) (simp add: getCase_def case_data_def)
  then show ?thesis using same by (simp add: resolveToken_def case_data_def split: option.split)
qed

text \<open>C6: without a complete session and without the token of a link in the request's header, no request to any address of
  the site changes an account, a passkey, a case, a link, a file or the storage; every request is answered, and
  the answer is a page of the sign-in, the home page, an error or a notice, a short JSON refusal, or what the routes
  answer that see neither database nor storage (static files, branding, health, language). The one exception is
  the upload page of a usable link whose own token is the path, with the case and limits of that link.\<close>

theorem site_closed_to_strangers:
  assumes "\<not> session_complete (fst (sessionMiddleware A nw (languageMiddleware req) (w_db w)))"
    and "\<forall>token. extractBearer req = Some token \<longrightarrow> resolveToken (ap_crypto A) nw token (w_db w) = None"
    and "createApp A S out nw rnd req segs w = (rep, w')"
  shows "site_view (w_db w') = site_view (w_db w) \<and> w_store w' = w_store w \<and>
    (\<exists>resp. rep = Reply (Some resp) \<and>
       (outsider (rs_content resp) \<or> front A out (languageMiddleware req) segs = Some resp \<or>
        own_link_page A nw segs (w_db w) (rs_content resp)))"
proof (cases "front A out (languageMiddleware req) segs")
  case (Some r)
  then show ?thesis using assms(3) by (auto simp: createApp_def Let_def)
next
  case None
  obtain req1 d1 where mid: "sessionMiddleware A nw (languageMiddleware req) (w_db w) = (req1, d1)" by fastforce
  let ?w = "w\<lparr>w_db := d1\<rparr>"
  have view: "site_view d1 = site_view (w_db w)" "case_data d1 = case_data (w_db w)"
    using site.view_middleware [of A nw "languageMiddleware req" "w_db w"]
      all_cases.view_middleware [of A nw "languageMiddleware req" "w_db w"] mid by simp_all
  have "extractBearer req1 = extractBearer req" using middleware_headers [of A nw req "w_db w"] mid by (simp add: extractBearer_def)
  then have no_link: "\<forall>token. extractBearer req1 = Some token \<longrightarrow> resolveToken (ap_crypto A) nw token (w_db ?w) = None"
    using assms(2) resolve_same [OF view(2)] by simp
  have page: "own_link_page A nw segs d1 x = own_link_page A nw segs (w_db w) x" for x
    using resolve_same [OF view(2)] by (simp add: own_link_page_def)
  note rest = public_routes_closed [OF no_link]
  have run: "(if take 1 (map js_lower segs) = [''admin''] then
      (case adminRouter A S nw rnd req1 (tl segs) ?w of
         (Answered r, w1) \<Rightarrow> (finish A req1 (case r of Inl e \<Rightarrow> Inl e | Inr resp \<Rightarrow> Inr (Some resp)), w1)
       | (NotRouted, w1) \<Rightarrow> public_routes A S out nw req1 segs w1)
    else public_routes A S out nw req1 segs ?w) = (rep, w')"
    using assms(3) None mid by (simp add: createApp_def Let_def)
  show ?thesis
  proof (cases "take 1 (map js_lower segs) = [''admin'']")
    case False
    then have "public_routes A S out nw req1 segs ?w = (rep, w')" using run by simp
    from rest [OF this] view(1) show ?thesis by (auto simp: page)
  next
    case True
    obtain res w1 where panel: "adminRouter A S nw rnd req1 (tl segs) ?w = (res, w1)" by fastforce
    have "\<not> session_complete req1" using assms(1) mid by simp
    from confined_panel [OF this panel] obtain r where r: "res = Answered r" "answers_only sign_in_only r"
      "assets (w_db w1) = assets d1" "w_store w1 = w_store w" by auto
    have "\<exists>x. finish A req1 (case r of Inl e \<Rightarrow> Inl e | Inr resp \<Rightarrow> Inr (Some resp)) = Reply (Some x) \<and> outsider (rs_content x)"
      using r(2) by (intro finish_outsider) (auto dest: sign_in_outsider split: sum.splits)
    then show ?thesis using run True panel r site_assets [OF r(3)] view(1) by auto
  qed
qed

definition nothing_outside :: outside where
  "nothing_outside = \<lparr>os_static = (\<lambda>req. None), os_disk = (\<lambda>p. None), os_transfer = demo_transfer, os_fileId = replicate 12 9\<rparr>"

theorem site_closed_to_strangers_witness:
  "\<exists>resp w'. createApp demo_app demo_services nothing_outside 5 demo_panel_draws (demo_request ''GET'') [''admin'', ''cases'', ''c_1'']
      (demo_world demo_q5) = (Reply (Some resp), w') \<and> site_view (w_db w') = site_view demo_q5 \<and> outsider (rs_content resp)"
proof -
  let ?run = "createApp demo_app demo_services nothing_outside 5 demo_panel_draws (demo_request ''GET'') [''admin'', ''cases'', ''c_1''] (demo_world demo_q5)"
  obtain rep w' where run: "?run = (rep, w')" by fastforce
  have "\<not> session_complete (fst (sessionMiddleware demo_app 5 (languageMiddleware (demo_request ''GET'')) (w_db (demo_world demo_q5))))"
    by code_simp
  moreover have "\<forall>token. extractBearer (demo_request ''GET'') = Some token \<longrightarrow>
      resolveToken (ap_crypto demo_app) 5 token (w_db (demo_world demo_q5)) = None"
    by (simp add: extractBearer_def demo_request_def)
  moreover have "front demo_app nothing_outside (languageMiddleware (demo_request ''GET'')) [''admin'', ''cases'', ''c_1''] = None"
    by code_simp
  ultimately show ?thesis using site_closed_to_strangers [OF _ _ run] run by (auto simp: demo_world_def own_link_page_def)
qed

end
