(* ===== verification/ViewsAdmin.thy ===== *)
theory ViewsAdmin
  imports App
begin

text \<open>
  src/http/views/admin.ts: the pages of the panel. A page is its template with the values in their
  places, segment by segment as the source has them.
\<close>

section \<open>Templates\<close>

text \<open>A tagged template as pairs of a literal and the value after it, and the last literal.\<close>

definition tpl :: "(text \<times> interp) list \<Rightarrow> text \<Rightarrow> text" where
  "tpl ps rest = html (map fst ps @ [rest]) (map snd ps)"

text \<open>What the pages are drawn with: the dictionaries, the layout's settings, the platform's dates and the clock.\<close>

record site =
  st_dict :: dictionary
  st_chrome :: chrome
  st_date :: "string \<Rightarrow> time \<Rightarrow> text"
  st_now :: time

definition say :: "site \<Rightarrow> lang \<Rightarrow> string \<Rightarrow> interp" where
  "say V l key = IText (t (st_dict V) l key None)"

definition say_with :: "site \<Rightarrow> lang \<Rightarrow> string \<Rightarrow> params \<Rightarrow> interp" where
  "say_with V l key ps = IText (t (st_dict V) l key (Some ps))"

definition date :: "site \<Rightarrow> lang \<Rightarrow> time option \<Rightarrow> interp" where
  "date V l moment = IRaw (fmtDate (st_date V) moment l)"

definition page_of :: "site \<Rightarrow> lang \<Rightarrow> interp \<Rightarrow> text option \<Rightarrow> string \<Rightarrow> string list \<Rightarrow> text \<Rightarrow> text" where
  "page_of V l title nav path scripts body =
     layout (st_dict V) (st_chrome V)
       \<lparr>lo_lang = l, lo_title = (case title of IText s \<Rightarrow> s | _ \<Rightarrow> []), lo_body = body, lo_scripts = scripts, lo_nav = nav, lo_path = Some path\<rparr>"

text \<open>\<open>cond ? html`...` : ''\<close> and \<open>xs.map((x) => html`...`)\<close>.\<close>

definition shown :: "bool \<Rightarrow> text \<Rightarrow> interp" where
  "shown b v = (if b then IRaw v else nothing)"

definition each :: "'a list \<Rightarrow> ('a \<Rightarrow> text) \<Rightarrow> interp" where
  "each xs f = IList (map (\<lambda>x. IRaw (f x)) xs)"

definition count :: "nat \<Rightarrow> interp" where "count n = INum (int n)"
definition num_param :: "int \<Rightarrow> text" where "num_param n = units (string_of_int n)"
definition size_text :: "int \<Rightarrow> text" where "size_text n = units (formatSize n)"
definition opt_text :: "string option \<Rightarrow> interp" where "opt_text v = (case v of Some s \<Rightarrow> lit s | None \<Rightarrow> nothing)"

definition case_status_text :: "case_status \<Rightarrow> string" where
  "case_status_text s = (case s of CaseOpen \<Rightarrow> ''open'' | CaseClosed \<Rightarrow> ''closed'')"

definition csrf_input :: "string \<Rightarrow> interp" where
  "csrf_input token = IRaw (tpl
      [(units ''<input type=\"hidden\" name=\"_csrf\" value=\"'', lit token)]
      (units ''\">''))"

section \<open>Small pages\<close>

definition adminNav :: "site \<Rightarrow> view_ctx \<Rightarrow> text" where
  "adminNav V v =
     (let tr = say V (vc_lang v)
      in tpl
      [(lines_of [''<nav class=\"nav\">'', ''    <a href=\"/admin\">''], tr ''nav.cases''),
       (lines_of [''</a>'', ''    ''], shown (vc_role v = RoleAdmin) (tpl
        [(units ''<a href=\"/admin/users\">'', tr ''nav.users''),
         (lines_of [''</a>'', ''    <a href=\"/admin/audit\">''], tr ''nav.audit'')]
        (units ''</a>''))),
       (lines_of [[], ''    <a href=\"/admin/security\">''], tr ''nav.security''),
       (lines_of [''</a>'', ''    <span class=\"muted\">''], lit (vc_username v)),
       (lines_of [''</span>'',
          ''    <form method=\"post\" action=\"/admin/logout\" class=\"inline\"><input type=\"hidden\" name=\"_csrf\" value=\"''], lit (vc_csrfToken v)),
       (units ''\"><button class=\"btn btn-link\" type=\"submit\">'', tr ''nav.logout'')]
      (lines_of [''</button></form>'', ''  </nav>'']))"

definition flash_note :: "text option \<Rightarrow> string \<Rightarrow> interp" where
  "flash_note m kind =
     (case m of
        None \<Rightarrow> IRaw []
      | Some s \<Rightarrow> if s = [] then IRaw [] else IRaw (tpl
      [(units ''<div class=\"flash flash-'', lit kind),
       (units ''\">'', IText s)]
      (units ''</div>'')))"

definition homePage :: "site \<Rightarrow> lang \<Rightarrow> text" where
  "homePage V l =
     (let tr = say V l
      in page_of V l (tr ''home.title'') None ''/'' []
           (tpl
      [(units ''<section class=\"card narrow\"><h1>'', tr ''home.title''),
       (units ''</h1><p>'', tr ''home.message'')]
      (units ''</p></section>'')))"

definition loginPage :: "site \<Rightarrow> lang \<Rightarrow> text option \<Rightarrow> text" where
  "loginPage V l err =
     (let tr = say V l
      in page_of V l (tr ''login.title'') None ''/admin/login'' []
           (tpl
      [(lines_of [''<section class=\"card narrow\">'', ''      <h1>''], tr ''login.title''),
       (lines_of [''</h1>'', ''      ''], flash_note err ''error''),
       (lines_of [[], ''      <form method=\"post\" action=\"/admin/login\">'', ''        <label>''], tr ''login.username''),
       (lines_of ['' <input name=\"username\" required autocomplete=\"username\" autofocus></label>'', ''        <label>''], tr ''login.password''),
       (lines_of ['' <input name=\"password\" type=\"password\" required autocomplete=\"current-password\"></label>'',
          ''        <button class=\"btn btn-primary\" type=\"submit\">''], tr ''login.submit'')]
      (lines_of [''</button>'', ''      </form>'', ''    </section>''])))"

definition errorPage :: "site \<Rightarrow> lang \<Rightarrow> text \<Rightarrow> text \<Rightarrow> string \<Rightarrow> string \<Rightarrow> text" where
  "errorPage V l title message path home =
     page_of V l (IText title) None path []
       (tpl
      [(units ''<section class=\"card narrow\"><h1>'', IText title),
       (units ''</h1><p>'', IText message),
       (units ''</p><p><a href=\"'', lit home),
       (units ''\">'', say V l ''common.home'')]
      (units ''</a></p></section>''))"

section \<open>Cases\<close>

definition casesPage :: "site \<Rightarrow> view_ctx \<Rightarrow> case_summary list \<Rightarrow> text option \<Rightarrow> text" where
  "casesPage V v cs err =
     (let l = vc_lang v; tr = say V l
      in page_of V l (tr ''nav.cases'') (Some (adminNav V v)) (vc_path v) []
           (tpl
      [(lines_of [[], ''      <section class=\"card\">'', ''        <h1>''], tr ''cases.new''),
       (lines_of [''</h1>'', ''        ''], flash_note err ''error''),
       (lines_of [[], ''        <form method=\"post\" action=\"/admin/cases\" class=\"row\">'',
          ''          <input type=\"hidden\" name=\"_csrf\" value=\"''], lit (vc_csrfToken v)),
       (lines_of [''\">'', ''          <label class=\"grow\">''], tr ''cases.name''),
       (units '' <input name=\"name\" required maxlength=\"200\" placeholder=\"'', tr ''cases.name_placeholder''),
       (lines_of [''\"></label>'', ''          <label class=\"grow\">''], tr ''cases.description_optional''),
       (lines_of ['' <input name=\"description\" maxlength=\"5000\"></label>'',
          ''          <button class=\"btn btn-primary\" type=\"submit\">''], tr ''common.create''),
       (lines_of [''</button>'', ''        </form>'', ''      </section>'', ''      <section class=\"card\">'', ''        <h1>''], tr ''cases.list''),
       (lines_of [''</h1>'', ''        ''], IRaw (if cs = [] then tpl
        [(units ''<p class=\"muted\">'', tr (if vc_role v = RoleAdmin then ''cases.empty'' else ''cases.empty_assigned''))]
        (units ''</p>'') else tpl
        [(lines_of [[], ''        <table>'', ''          <thead><tr><th>''], tr ''cases.col.name''),
         (units ''</th><th>'', tr ''cases.col.status''),
         (units ''</th><th>'', tr ''cases.col.links''),
         (units ''</th><th>'', tr ''cases.col.files''),
         (units ''</th><th>'', tr ''cases.col.size''),
         (units ''</th><th>'', tr ''cases.col.created''),
         (lines_of [''</th></tr></thead>'', ''          <tbody>'', ''          ''], each cs (\<lambda>s. let c = cs_case s in tpl
          [(lines_of [''<tr>'', ''            <td><a href=\"/admin/cases/''], lit (c_id c)),
           (units ''\">'', lit (c_name c)),
           (lines_of [''</a></td>'', ''            <td><span class=\"badge badge-''], lit (case_status_text (c_status c))),
           (units ''\">'', tr (if c_status c = CaseOpen then ''case.open'' else ''case.closed'')),
           (lines_of [''</span></td>'', ''            <td>''], count (cs_link_count s)),
           (units ''</td><td>'', count (cs_file_count s)),
           (units ''</td><td>'', IText (size_text (cs_total_bytes s))),
           (units ''</td><td>'', date V l (Some (c_created_at c)))]
          (lines_of [''</td>'', ''          </tr>''])))]
        (lines_of [[], ''          </tbody>'', ''        </table>''])))]
      (lines_of [[], ''      </section>''])))"

definition fileStatus :: "site \<Rightarrow> lang \<Rightarrow> string \<Rightarrow> interp" where
  "fileStatus V l status =
     (let key = ''files.status.'' @ status; m = t (st_dict V) l key None
      in if m = units key then lit status else IText m)"

definition membersSection :: "site \<Rightarrow> view_ctx \<Rightarrow> case_page_data \<Rightarrow> text" where
  "membersSection V v d =
     (let l = vc_lang v; tr = say V l; csrf = csrf_input (vc_csrfToken v); c = cp_case d
      in tpl
      [(lines_of [''<section class=\"card\">'', ''    <h2>''], tr ''members.title''),
       (lines_of [''</h2>'', ''    <p class=\"muted small\">''], tr ''members.intro''),
       (lines_of [''</p>'', ''    ''], IRaw (if cp_members d = [] then tpl
        [(units ''<p class=\"muted\">'', tr ''members.empty'')]
        (units ''</p>'') else tpl
        [(units ''<ul class=\"members\">'', each (cp_members d) (\<lambda>m. tpl
          [(lines_of [''<li>'', ''      <span>''], lit (cm_username m)),
           (lines_of [''</span>'', ''      ''], shown (cm_disabled_at m \<noteq> None) (tpl
            [(units ''<span class=\"badge badge-disabled\">'', tr ''users.status.disabled'')]
            (units ''</span>''))),
           (lines_of [[], ''      ''], shown (cm_id m \<noteq> vc_userId v) (tpl
            [(units ''<form method=\"post\" action=\"/admin/cases/'', lit (c_id c)),
             (units ''/members/'', lit (cm_id m)),
             (units ''/remove\" class=\"inline\" data-confirm=\"'', say_with V l ''members.remove_confirm'' [(''username'', units (cm_username m))]),
             (units ''\">'', csrf),
             (units ''<button class=\"btn\" type=\"submit\">'', tr ''members.remove'')]
            (units ''</button></form>'')))]
          (lines_of [[], ''    </li>''])))]
        (units ''</ul>''))),
       (lines_of [[], ''    ''], IRaw (if cp_assignable d \<noteq> [] then tpl
        [(units ''<form method=\"post\" action=\"/admin/cases/'', lit (c_id c)),
         (units ''/members\" class=\"row\">'', csrf),
         (lines_of [[], ''      <label class=\"grow\">''], tr ''members.user''),
         (lines_of ['' <select name=\"user_id\" required>'', ''        ''], each (cp_assignable d) (\<lambda>u. tpl
          [(units ''<option value=\"'', lit (cm_id u)),
           (units ''\">'', lit (cm_username u))]
          (units ''</option>''))),
         (lines_of [[], ''      </select></label>'', ''      <button class=\"btn btn-primary\" type=\"submit\">''], tr ''members.add'')]
        (lines_of [''</button>'', ''    </form>'']) else if vc_role v = RoleAdmin
      then tpl
        [(units ''<p class=\"muted small\">'', IRaw (t (st_dict V) l ''members.none_assignable'' (Some [(''link'', units ''<a href=\"/admin/users\">'' @ t (st_dict V) l ''nav.users'' None @ units ''</a>'')])))]
        (units ''</p>'')
      else tpl
        [(units ''<p class=\"muted small\">'', tr ''members.none_assignable_user'')]
        (units ''</p>'')))]
      (lines_of [[], ''  </section>'']))"

definition link_state_text :: "link_state \<Rightarrow> string" where
  "link_state_text s = (case s of LinkActive \<Rightarrow> ''active'' | LinkExpired \<Rightarrow> ''expired'' | LinkRevoked \<Rightarrow> ''revoked'' | LinkCaseClosed \<Rightarrow> ''case_closed'')"

definition link_line :: "site \<Rightarrow> lang \<Rightarrow> interp \<Rightarrow> case_row \<Rightarrow> config \<Rightarrow> link_row \<times> link_usage \<Rightarrow> text" where
  "link_line V l csrf c cfg p =
     (let k = fst p; u = snd p; tr = say V l; state = link_state_text (linkState (st_now V) k c)
      in tpl
      [(lines_of [''<tr>'', ''              <td>''], lit (l_label k)),
       (units ''<br><span class=\"muted small mono\">'', lit (l_token_hint k)),
       ([8230] @ lines_of [''</span></td>'', ''              <td><span class=\"badge badge-''], lit state),
       (units ''\">'', tr (''links.state.'' @ state)),
       (lines_of [''</span></td>'', ''              <td>''], if l_expires_at k \<noteq> None then date V l (l_expires_at k) else tr ''common.unlimited''),
       (lines_of [''</td>'', ''              <td class=\"small\">''], say_with V l ''links.limit.file'' [(''max'', size_text (min (cf_maxFileBytes cfg) (case l_max_file_bytes k of Some n \<Rightarrow> n | None \<Rightarrow> cf_maxFileBytes cfg)))]),
       (lines_of [''<br>'', ''                ''], case l_max_files k of None \<Rightarrow> nothing | Some n \<Rightarrow> IRaw (tpl
        [([], say_with V l ''links.limit.files'' [(''n'', num_param n)])]
        (units ''<br>''))),
       (lines_of [[], ''                ''], case l_max_total_bytes k of None \<Rightarrow> nothing | Some n \<Rightarrow> say_with V l ''links.limit.total'' [(''max'', size_text n)]),
       (lines_of [''</td>'', ''              <td class=\"small\">''], say_with V l ''links.usage'' [(''n'', num_param (int (lu_file_count u))), (''size'', size_text (lu_used_bytes u))]),
       ([], shown (0 < lu_uploading_count u) (tpl
        [(units ''<br>'', say_with V l ''links.usage_in_progress'' [(''n'', num_param (int (lu_uploading_count u))), (''size'', size_text (lu_reserved_bytes u))])]
        ([]))),
       (lines_of [''</td>'', ''              <td>''], date V l (l_last_used_at k)),
       (lines_of [''</td>'', ''              <td>''], shown (l_revoked_at k = None) (tpl
        [(units ''<form method=\"post\" action=\"/admin/links/'', lit (l_id k)),
         (units ''/revoke\" class=\"inline\" data-confirm=\"'', say_with V l ''links.revoke_confirm'' [(''label'', units (l_label k))]),
         (units ''\">'', csrf),
         (units ''<button class=\"btn btn-danger\" type=\"submit\">'', tr ''links.revoke'')]
        (units ''</button></form>'')))]
      (lines_of [''</td>'', ''            </tr>'']))"

definition file_line :: "site \<Rightarrow> lang \<Rightarrow> interp \<Rightarrow> file_row \<times> string \<Rightarrow> text" where
  "file_line V l csrf p =
     (let f = fst p; tr = say V l; dash = IText [8212]
      in tpl
      [(lines_of [''<tr>'', ''            <td class=\"filename\">''], lit (f_original_name f)),
       (lines_of [''</td>'', ''            <td>''], lit (snd p)),
       (lines_of [''</td>'', ''            <td>''], case f_size f of Some n \<Rightarrow> IText (size_text n) | None \<Rightarrow> (case f_declared_size f of Some n \<Rightarrow> IRaw (tpl
        [(units ''<span class=\"muted\">'', say_with V l ''files.declared'' [(''size'', size_text n)])]
        (units ''</span>'')) | None \<Rightarrow> dash)),
       (lines_of [''</td>'', ''            <td><span class=\"badge badge-''], lit (status_text (f_status f))),
       (units ''\">'', fileStatus V l (status_text (f_status f))),
       (lines_of [''</span></td>'', ''            <td>''], date V l (Some (case f_completed_at f of Some ms \<Rightarrow> ms | None \<Rightarrow> f_created_at f))),
       (lines_of [''</td>'', ''            <td class=\"mono small\">''], if truthy (f_sha256 f) then IText (units (take 12 (the (f_sha256 f))) @ [8230]) else dash),
       (lines_of [''</td>'', ''            <td class=\"nowrap\">'', ''              ''], shown (f_status f = Complete) (tpl
        [(units ''<a class=\"btn\" href=\"/admin/files/'', lit (f_id f)),
         (units ''/download\">'', tr ''files.download'')]
        (units ''</a> ''))),
       (lines_of [[], ''              ''], shown (f_status f \<in> {Complete, Missing}) (tpl
        [(units ''<form method=\"post\" action=\"/admin/files/'', lit (f_id f)),
         (units ''/delete\" class=\"inline\" data-confirm=\"'', say_with V l ''files.delete_confirm'' [(''name'', units (f_original_name f))]),
         (units ''\">'', csrf),
         (units ''<button class=\"btn btn-danger\" type=\"submit\">'', tr ''files.delete'')]
        (units ''</button></form>'')))]
      (lines_of [[], ''            </td>'', ''          </tr>'']))"

definition casePage :: "site \<Rightarrow> view_ctx \<Rightarrow> case_page_data \<Rightarrow> text" where
  "casePage V v d =
     (let l = vc_lang v; tr = say V l; c = cp_case d; open = (c_status c = CaseOpen); csrf = csrf_input (vc_csrfToken v)
      in page_of V l (lit (c_name c)) (Some (adminNav V v)) (vc_path v) [''/static/admin.js'']
           (tpl
      [(lines_of [[], ''      <p><a href=\"/admin\">''], tr ''common.back_to_cases''),
       (lines_of [''</a></p>'', ''      <section class=\"card\">'', ''        <div class=\"row space-between\">'', ''          <h1>''], lit (c_name c)),
       (units '' <span class=\"badge badge-'', lit (case_status_text (c_status c))),
       (units ''\">'', tr (if open then ''case.open'' else ''case.closed'')),
       (lines_of [''</span></h1>'', ''          <form method=\"post\" action=\"/admin/cases/''], lit (c_id c)),
       (units ''/status\" class=\"inline\">'', csrf),
       (lines_of [[], ''            <input type=\"hidden\" name=\"status\" value=\"''], lit (if open then ''closed'' else ''open'')),
       (lines_of [''\">'', ''            <button class=\"btn\" type=\"submit\">''], tr (if open then ''case.close'' else ''case.reopen'')),
       (lines_of [''</button>'', ''          </form>'', ''        </div>'', ''        ''], flash_note (cp_error d) ''error''),
       ([], flash_note (cp_ok d) ''ok''),
       (lines_of [[], ''        <form method=\"post\" action=\"/admin/cases/''], lit (c_id c)),
       (units ''\" class=\"row\">'', csrf),
       (lines_of [[], ''          <label class=\"grow\">''], tr ''cases.name''),
       (units '' <input name=\"name\" value=\"'', lit (c_name c)),
       (lines_of [''\" required maxlength=\"200\"></label>'', ''          <label class=\"grow\">''], tr ''cases.description''),
       (units '' <input name=\"description\" value=\"'', lit (c_description c)),
       (lines_of [''\" maxlength=\"5000\"></label>'', ''          <button class=\"btn\" type=\"submit\">''], tr ''common.save''),
       (lines_of [''</button>'', ''        </form>'', ''        <p class=\"muted small\">''], IRaw (tHtml (st_dict V) l ''case.meta'' [(''id'', lit (c_id c)), (''date'', date V l (Some (c_created_at c)))])),
       (lines_of [''</p>'', ''      </section>'', [], ''      ''], case cp_newLink d of None \<Rightarrow> nothing | Some (label, url) \<Rightarrow> IRaw (tpl
        [(lines_of [''<section class=\"card highlight\">'', ''        <h2>''], say_with V l ''case.new_link.title'' [(''label'', units label)]),
         (lines_of [''</h2>'', ''        <p><strong>''], tr ''case.new_link.copy_now''),
         (units ''</strong> '', tr ''case.new_link.intro''),
         (lines_of [''</p>'', ''        <div class=\"copy-row\"><input class=\"mono\" readonly value=\"''], lit url),
         (units ''\" data-copy-source><button class=\"btn\" type=\"button\" data-copy>'', tr ''common.copy'')]
        (lines_of [''</button></div>'', ''      </section>'']))),
       (lines_of [[], [], ''      <section class=\"card\">'', ''        <h2>''], tr ''links.title''),
       (lines_of [''</h2>'', ''        <p class=\"muted small\">''], tr ''links.intro''),
       (lines_of [''</p>'', ''        <details ''], lit (if open then ''open'' else [])),
       (lines_of [''>'', ''          <summary>''], tr ''links.generate''),
       (lines_of [''</summary>'', ''          <form method=\"post\" action=\"/admin/cases/''], lit (c_id c)),
       (units ''/links\" class=\"grid\">'', csrf),
       (lines_of [[], ''            <label>''], tr ''links.label''),
       (units '' <input name=\"label\" required maxlength=\"200\" placeholder=\"'', tr ''links.label_placeholder''),
       (lines_of [''\"></label>'', ''            <label>''], tr ''links.expires''),
       (lines_of ['' <input name=\"expires_at\" type=\"datetime-local\"></label>'', ''            <label>''], say_with V l ''links.max_file'' [(''max'', size_text (cf_maxFileBytes (cp_cfg d)))]),
       (units '' <input name=\"max_file_size\" placeholder=\"'', tr ''links.max_file_placeholder''),
       (lines_of [''\"></label>'', ''            <label>''], tr ''links.max_files''),
       (lines_of ['' <input name=\"max_files\" type=\"number\" min=\"1\" step=\"1\"></label>'', ''            <label>''], tr ''links.max_total''),
       (units '' <input name=\"max_total_size\" placeholder=\"'', tr ''links.max_total_placeholder''),
       (lines_of [''\"></label>'', ''            <div><button class=\"btn btn-primary\" type=\"submit\" ''], lit (if open then [] else ''disabled'')),
       (units ''>'', tr ''links.submit''),
       (lines_of [''</button></div>'', ''          </form>'', ''        </details>'', ''        ''], IRaw (if cp_links d = [] then tpl
        [(units ''<p class=\"muted\">'', tr ''links.empty'')]
        (units ''</p>'') else tpl
        [(lines_of [[], ''        <table>'', ''          <thead><tr><th>''], tr ''links.col.recipient''),
         (units ''</th><th>'', tr ''links.col.state''),
         (units ''</th><th>'', tr ''links.col.expires''),
         (units ''</th><th>'', tr ''links.col.limits''),
         (units ''</th><th>'', tr ''links.col.usage''),
         (units ''</th><th>'', tr ''links.col.last_used''),
         (lines_of [''</th><th></th></tr></thead>'', ''          <tbody>''], each (cp_links d) (link_line V l csrf c (cp_cfg d)))]
        (lines_of [''</tbody>'', ''        </table>'']))),
       (lines_of [[], ''      </section>'', [], ''      <section class=\"card\">'', ''        <h2>''], tr ''files.title''),
       (lines_of [''</h2>'', ''        ''], IRaw (if cp_files d = [] then tpl
        [(units ''<p class=\"muted\">'', tr ''files.empty'')]
        (units ''</p>'') else tpl
        [(lines_of [[], ''        <table>'', ''          <thead><tr><th>''], tr ''files.col.name''),
         (units ''</th><th>'', tr ''files.col.recipient''),
         (units ''</th><th>'', tr ''files.col.size''),
         (units ''</th><th>'', tr ''files.col.status''),
         (units ''</th><th>'', tr ''files.col.uploaded''),
         (lines_of [''</th><th>SHA-256</th><th></th></tr></thead>'', ''          <tbody>''], each (cp_files d) (file_line V l csrf))]
        (lines_of [''</tbody>'', ''        </table>'']))),
       (lines_of [[], ''        <p class=\"muted small\">''], tr ''files.untrusted''),
       (lines_of [''</p>'', ''      </section>'', [], ''      ''], IRaw (membersSection V v d))]
      ([])))"

section \<open>Accounts and the audit log\<close>

definition userStatus :: "site \<Rightarrow> lang \<Rightarrow> user_summary \<Rightarrow> text" where
  "userStatus V l u =
     (let tr = say V l
      in if us_disabled_at u \<noteq> None then tpl
      [(units ''<span class=\"badge badge-disabled\">'', tr ''users.status.disabled'')]
      (units ''</span>'')
         else if us_must_change u then tpl
      [(units ''<span class=\"badge badge-pending\">'', tr ''users.status.must_change'')]
      (units ''</span>'')
         else tpl
      [(units ''<span class=\"badge badge-active\">'', tr ''users.status.active'')]
      (units ''</span>''))"

text \<open>The form of one account action: path, label, a question to confirm, a field, and whether it is dangerous.\<close>

definition user_form :: "interp \<Rightarrow> user_summary \<Rightarrow> string \<Rightarrow> interp \<Rightarrow> bool \<Rightarrow> interp option \<Rightarrow> (string \<times> string) option \<Rightarrow> interp" where
  "user_form csrf u path label danger confirm fld =
     IRaw (tpl
      [(units ''<form method=\"post\" action=\"/admin/users/'', lit (us_id u)),
       (units ''/'', lit path),
       (units ''\" class=\"inline\"'', case confirm of None \<Rightarrow> nothing | Some q \<Rightarrow> IRaw (tpl
        [(units '' data-confirm=\"'', q)]
        (units ''\"''))),
       (units ''>'', csrf),
       ([], case fld of None \<Rightarrow> nothing | Some (n, v) \<Rightarrow> IRaw (tpl
        [(units ''<input type=\"hidden\" name=\"'', lit n),
         (units ''\" value=\"'', lit v)]
        (units ''\">''))),
       (units ''<button class=\"btn'', lit (if danger then '' btn-danger'' else [])),
       (units ''\" type=\"submit\">'', label)]
      (units ''</button></form>''))"

definition user_line :: "site \<Rightarrow> view_ctx \<Rightarrow> user_summary \<Rightarrow> text" where
  "user_line V v u =
     (let l = vc_lang v; tr = say V l; csrf = csrf_input (vc_csrfToken v); self = (us_id u = vc_userId v); adm = (us_role u = RoleAdmin);
          ask = (\<lambda>k. Some (say_with V l k [(''username'', units (us_username u))]))
      in tpl
      [(lines_of [''<tr>'', ''              <td>''], lit (us_username u)),
       ([], shown self (tpl
        [(units '' <span class=\"muted small\">('', tr ''users.you'')]
        (units '')</span>''))),
       (lines_of [''</td>'', ''              <td><span class=\"badge badge-role-''], lit (role_text (us_role u))),
       (units ''\">'', tr (if adm then ''users.role.admin'' else ''users.role.user'')),
       (lines_of [''</span></td>'', ''              <td>''], IRaw (userStatus V l u)),
       (lines_of [''</td>'', ''              <td>''], tr (if us_totp_enabled u then ''security.enabled'' else ''security.disabled'')),
       (lines_of [''</td>'', ''              <td>''], if adm then IRaw (tpl
        [(units ''<span class=\"muted\">'', tr ''users.all_cases'')]
        (units ''</span>'')) else count (us_case_count u)),
       (lines_of [''</td>'', ''              <td>''], date V l (us_last_login_at u)),
       (lines_of [''</td>'', ''              <td><div class=\"actions\">''], IRaw (if self then tpl
        [(units ''<a href=\"/admin/security\">'', tr ''nav.security'')]
        (units ''</a>'') else tpl
        [(lines_of [[], ''                ''], user_form csrf u ''role'' (tr (if adm then ''users.make_user'' else ''users.make_admin'')) False (ask ''users.role_confirm'') (Some (''role'', if adm then ''user'' else ''admin''))),
         (lines_of [[], ''                ''], user_form csrf u ''password'' (tr ''users.reset_password'') False (ask ''users.reset_password_confirm'') None),
         (lines_of [[], ''                ''], if us_totp_enabled u then user_form csrf u ''totp'' (tr ''users.reset_totp'') False (ask ''users.reset_totp_confirm'') None else nothing),
         (lines_of [[], ''                ''], if us_disabled_at u \<noteq> None then user_form csrf u ''enable'' (tr ''users.enable'') False None None else user_form csrf u ''disable'' (tr ''users.disable'') False (ask ''users.disable_confirm'') None),
         (lines_of [[], ''                ''], user_form csrf u ''delete'' (tr ''users.delete'') True (ask ''users.delete_confirm'') None)]
        ([])))]
      (lines_of [[], ''              </div></td>'', ''            </tr>'']))"

definition usersPage :: "site \<Rightarrow> view_ctx \<Rightarrow> users_page_data \<Rightarrow> text" where
  "usersPage V v d =
     (let l = vc_lang v; tr = say V l; csrf = csrf_input (vc_csrfToken v)
      in page_of V l (tr ''nav.users'') (Some (adminNav V v)) (vc_path v) [''/static/admin.js'']
           (tpl
      [(lines_of [[], ''      <section class=\"card\">'', ''        <h1>''], tr ''users.new''),
       (lines_of [''</h1>'', ''        ''], flash_note (up_error d) ''error''),
       ([], flash_note (up_ok d) ''ok''),
       (lines_of [[], ''        <form method=\"post\" action=\"/admin/users\" class=\"row\">''], csrf),
       (lines_of [[], ''          <label class=\"grow\">''], tr ''users.username''),
       (units '' <input name=\"username\" required maxlength=\"64\" autocomplete=\"off\" spellcheck=\"false\" placeholder=\"'', tr ''users.username_placeholder''),
       (lines_of [''\"></label>'', ''          <label>''], tr ''users.role''),
       (lines_of ['' <select name=\"role\">'', ''            <option value=\"user\" selected>''], tr ''users.role.user''),
       (lines_of [''</option>'', ''            <option value=\"admin\">''], tr ''users.role.admin''),
       (lines_of [''</option>'', ''          </select></label>'', ''          <button class=\"btn btn-primary\" type=\"submit\">''], tr ''common.create''),
       (lines_of [''</button>'', ''        </form>'', ''        <p class=\"muted small\">''], tr ''users.roles_hint''),
       (lines_of [''</p>'', ''      </section>'', [], ''      ''], case up_issued d of None \<Rightarrow> nothing | Some i \<Rightarrow> IRaw (tpl
        [(lines_of [''<section class=\"card highlight\">'', ''        <h2>''], say_with V l (if ip_reset i then ''users.issued.reset_title'' else ''users.issued.title'') [(''username'', units (ip_username i))]),
         (lines_of [''</h2>'', ''        <p><strong>''], tr ''users.issued.copy_now''),
         (units ''</strong> '', tr ''users.issued.intro''),
         (lines_of [''</p>'', ''        <div class=\"copy-row\"><input class=\"mono\" readonly value=\"''], lit (ip_password i)),
         (units ''\" data-copy-source><button class=\"btn\" type=\"button\" data-copy>'', tr ''common.copy'')]
        (lines_of [''</button></div>'', ''      </section>'']))),
       (lines_of [[], [], ''      <section class=\"card\">'', ''        <h1>''], tr ''users.list''),
       (lines_of [''</h1>'', ''        <div class=\"table-scroll\">'', ''        <table>'', ''          <thead><tr><th>''], tr ''users.col.username''),
       (units ''</th><th>'', tr ''users.role''),
       (units ''</th><th>'', tr ''users.col.status''),
       (units ''</th><th>'', tr ''users.col.totp''),
       (units ''</th><th>'', tr ''users.col.cases''),
       (units ''</th><th>'', tr ''users.col.last_login''),
       (lines_of [''</th><th></th></tr></thead>'', ''          <tbody>''], each (up_users d) (user_line V v))]
      (lines_of [''</tbody>'', ''        </table>'', ''        </div>'', ''      </section>''])))"

text \<open>The details of an event, as the database keeps them.\<close>

definition detail_json :: "detail \<Rightarrow> json" where
  "detail_json x = (case x of DStr s \<Rightarrow> str_json s | DNum n \<Rightarrow> int_json n | DNull \<Rightarrow> JNull)"

definition details_text :: "(string \<times> detail) list \<Rightarrow> text" where
  "details_text ds = json_stringify (obj_json (map (\<lambda>(k, x). (k, detail_json x)) ds))"

definition actor_text :: "actor_type \<Rightarrow> string" where
  "actor_text a = (case a of ActorAdmin \<Rightarrow> ''admin'' | ActorLink \<Rightarrow> ''link'' | ActorSystem \<Rightarrow> ''system'')"

definition audit_line :: "site \<Rightarrow> lang \<Rightarrow> audit_view \<Rightarrow> text" where
  "audit_line V l a =
     (let r = av_row a
      in tpl
      [(lines_of [''<tr>'', ''          <td class=\"nowrap\">''], date V l (Some (au_ts r))),
       (units ''</td><td class=\"id\">'', IRaw (if truthy (av_actor_name a) then tpl
        [([], opt_text (av_actor_name a)),
         (units ''<br><span class=\"muted\">'', opt_text (au_actor_id r))]
        (units ''</span>'') else tpl
        [([], lit (actor_text (au_actor_type r))),
         (units '':'', lit (case au_actor_id r of Some i \<Rightarrow> i | None \<Rightarrow> ''-''))]
        ([]))),
       (units ''</td><td>'', lit (au_action r)),
       (lines_of [''</td>'', ''          <td class=\"mono id\">''], shown (truthy (au_case_id r)) (tpl
        [(units ''<a href=\"/admin/cases/'', opt_text (au_case_id r)),
         (units ''\">'', opt_text (au_case_id r))]
        (units ''</a>''))),
       (lines_of [''</td>'', ''          <td class=\"mono id\">''], opt_text (au_link_id r)),
       (units ''</td><td class=\"mono id\">'', opt_text (au_file_id r)),
       (units ''</td><td class=\"nowrap\">'', opt_text (au_ip r)),
       (lines_of [''</td>'', ''          <td class=\"mono details\">''], case au_details r of None \<Rightarrow> nothing | Some ds \<Rightarrow> IRaw (tpl
        [(units ''<span>'', IText (details_text ds))]
        (units ''</span>'')))]
      (lines_of [''</td>'', ''        </tr>'']))"

definition auditPage :: "site \<Rightarrow> view_ctx \<Rightarrow> audit_view list \<Rightarrow> text" where
  "auditPage V v rows =
     (let l = vc_lang v; tr = say V l
      in page_of V l (tr ''nav.audit'') (Some (adminNav V v)) (vc_path v) []
           (tpl
      [(lines_of [''<section class=\"card\">'', ''      <h1>''], say_with V l ''audit.title'' [(''n'', num_param (int (length rows)))]),
       (lines_of [''</h1>'', ''      <!-- Opaque ids and a raw JSON details blob are both unbounded, so every wide cell'',
          ''           has to be breakable and the table scrolls inside its card rather than pushing'',
          ''           the page sideways. -->'', ''      <div class=\"table-scroll\">'', ''      <table class=\"small audit\">'',
          ''        <thead><tr><th>''], tr ''audit.col.time''),
       (units ''</th><th>'', tr ''audit.col.actor''),
       (units ''</th><th>'', tr ''audit.col.action''),
       (units ''</th><th>'', tr ''audit.col.case''),
       (units ''</th><th>'', tr ''audit.col.link''),
       (units ''</th><th>'', tr ''audit.col.file''),
       (units ''</th><th>'', tr ''audit.col.ip''),
       (units ''</th><th>'', tr ''audit.col.details''),
       (lines_of [''</th></tr></thead>'', ''        <tbody>''], each rows (audit_line V l))]
      (lines_of [''</tbody>'', ''      </table>'', ''      </div>'', ''    </section>''])))"

end
