(* ===== verification/ViewsSecurity.thy ===== *)
theory ViewsSecurity
  imports ViewsAdmin
begin

text \<open>
  src/http/views/security.ts: the second step of the login, the confirmation of sensitive actions and the
  security page.
\<close>

section \<open>The second step\<close>

text \<open>A passkey button: kind, the two addresses, label, and the input that names a new passkey.\<close>

definition passkeyButton :: "site \<Rightarrow> lang \<Rightarrow> string \<Rightarrow> string \<Rightarrow> string \<Rightarrow> string \<Rightarrow> interp \<Rightarrow> string option \<Rightarrow> interp" where
  "passkeyButton V l kind csrfToken options submit label nameInput =
     (let tr = say V l
      in IRaw (tpl
      [(units ''<button class=\"btn'', lit '' btn-primary''),
       (units ''\" type=\"button\" hidden data-passkey=\"'', lit kind),
       (units ''\" data-csrf=\"'', lit csrfToken),
       (lines_of [''\"'', ''      data-options=\"''], lit options),
       (units ''\" data-submit=\"'', lit submit),
       (units ''\" data-status=\"passkey-status-'', lit kind),
       (units ''\" '', case nameInput of None \<Rightarrow> nothing | Some n \<Rightarrow> IRaw (units ''data-name-input=\"'' @ units n @ units ''\"'')),
       (lines_of [[], ''      data-failed=\"''], tr ''passkey.failed''),
       (units ''\" data-cancelled=\"'', tr ''passkey.cancelled''),
       (units ''\" data-unsupported=\"'', tr ''passkey.unsupported''),
       (units ''\">'', label),
       (lines_of [''</button>'', ''    <p class=\"flash flash-error\" id=\"passkey-status-''], lit kind)]
      (units ''\" role=\"status\" hidden></p>'')))"

text \<open>\<open>lockedUntil.replace('T', ' ').slice(0, 16)\<close>.\<close>

definition until_minute :: "time \<Rightarrow> text" where
  "until_minute ms =
     (let s = toISOString ms; k = nat (index_of (CHR ''T'') s)
      in units (take 16 (take k s @ '' '' @ drop (Suc k) s)))"

definition error_note :: "text option \<Rightarrow> text \<Rightarrow> interp" where
  "error_note m rest =
     (case m of
        None \<Rightarrow> nothing
      | Some s \<Rightarrow> shown (s \<noteq> []) (tpl
      [(units ''<div class=\"flash flash-error\">'', IText s),
       ([], IRaw rest)]
      (units ''</div>'')))"

definition totpLoginPage :: "site \<Rightarrow> lang \<Rightarrow> totp_login_data \<Rightarrow> text" where
  "totpLoginPage V l d =
     (let tr = say V l; passkey = tl_passkey d; codes = tl_codes d; title = tr (if passkey then ''second.title'' else ''totp.title'');
          left = (case tl_attemptsLeft d of None \<Rightarrow> [] | Some n \<Rightarrow> tpl
      [(units '' '', say_with V l ''totp.attempts_left'' [(''n'', num_param n)])]
      ([]))
      in page_of V l title None ''/admin/totp'' (if passkey then [''/static/passkey.js''] else [])
           (tpl
      [(lines_of [''<section class=\"card narrow\">'', ''      <h1>''], title),
       (lines_of [''</h1>'', ''      ''], error_note (tl_error d) left),
       (lines_of [[], ''      ''], case tl_lockedUntil d of None \<Rightarrow> nothing | Some ms \<Rightarrow> IRaw (tpl
        [(units ''<div class=\"flash flash-error\">'', say_with V l ''totp.locked_until'' [(''until'', until_minute ms)])]
        (units ''</div>''))),
       (lines_of [[], ''      ''], shown passkey (tpl
        [(units ''<p>'', passkeyButton V l ''login'' (tl_csrfToken d) ''/admin/webauthn/login/options'' ''/admin/webauthn/login'' (tr ''passkey.use'') None)]
        (units ''</p>''))),
       (lines_of [[], ''      ''], shown (passkey \<and> codes) (tpl
        [(units ''<p class=\"muted small\">'', tr ''common.or'')]
        (units ''</p>''))),
       (lines_of [[], ''      ''], shown codes (tpl
        [(lines_of [''<form method=\"post\" action=\"/admin/totp\">'', ''        <input type=\"hidden\" name=\"_csrf\" value=\"''], lit (tl_csrfToken d)),
         (lines_of [''\">'', ''        <label>''], tr (if tl_totp d then ''totp.code_label'' else ''second.recovery_label'')),
         (lines_of [[], ''          <input name=\"code\" required autocomplete=\"one-time-code\" ''], if tl_totp d then IRaw (units ''inputmode=\"numeric\"'') else nothing),
         (units '' '', if passkey then nothing else IRaw (units ''autofocus'')),
         (units '' pattern=\"[0-9a-zA-Z'' @ [92] @ lines_of [''- ]{6,12}\">'', ''        </label>'', ''        <button class=\"btn''], lit (if passkey then [] else '' btn-primary'')),
         (units ''\" type=\"submit\">'', tr ''totp.confirm'')]
        (lines_of [''</button>'', ''      </form>'']))),
       (lines_of [[], ''      <form method=\"post\" action=\"/admin/logout\" class=\"inline\"><input type=\"hidden\" name=\"_csrf\" value=\"''], lit (tl_csrfToken d)),
       (units ''\"><button class=\"btn btn-link btn-link-muted\" type=\"submit\">'', tr ''totp.cancel_logout'')]
      (lines_of [''</button></form>'', ''    </section>''])))"

section \<open>Confirmation\<close>

definition confirm_parts :: "site \<Rightarrow> confirm_data \<Rightarrow> text list" where
  "confirm_parts V d =
     (let l = cd_lang d; tr = say V l;
          csrf = IRaw (tpl
      [(units ''<input type=\"hidden\" name=\"_csrf\" value=\"'', lit (cd_csrfToken d)),
       (units ''\"><input type=\"hidden\" name=\"next\" value=\"'', lit (cd_next d))]
      (units ''\">''))
      in (if cd_passkey d then [tpl
      [(units ''<p>'', passkeyButton V l ''confirm'' (cd_csrfToken d) ''/admin/webauthn/confirm/options'' (''/admin/confirm/passkey?next='' @ encodeURIComponent (cd_next d)) (tr ''passkey.use'') None)]
      (units ''</p>'')] else []) @
         (if cd_codes d then [tpl
      [(units ''<form method=\"post\" action=\"/admin/confirm/code\">'', csrf),
       (lines_of [[], ''      <label>''], tr ''confirm.code_label''),
       (units '' <input name=\"code\" required autocomplete=\"one-time-code\" '', if cd_passkey d then nothing else IRaw (units ''autofocus'')),
       (lines_of [''></label>'', ''      <button class=\"btn''], lit (if cd_passkey d then [] else '' btn-primary'')),
       (units ''\" type=\"submit\">'', tr ''confirm.submit'')]
      (units ''</button></form>'')] else []) @
         (if cd_password d then [tpl
      [(units ''<form method=\"post\" action=\"/admin/confirm/password\">'', csrf),
       (lines_of [[], ''      <label>''], tr ''confirm.password_label''),
       (lines_of ['' <input name=\"password\" type=\"password\" required autocomplete=\"current-password\" autofocus></label>'',
          ''      <button class=\"btn btn-primary\" type=\"submit\">''], tr ''confirm.submit'')]
      (units ''</button></form>'')] else []))"

fun with_or :: "interp \<Rightarrow> text list \<Rightarrow> text list" where
  "with_or word [] = []"
| "with_or word (p # ps) = p # map (\<lambda>q. tpl
      [(units ''<p class=\"muted small\">'', word),
       (units ''</p>'', IRaw q)]
      ([])) ps"

definition confirmPage :: "site \<Rightarrow> confirm_data \<Rightarrow> text" where
  "confirmPage V d =
     (let l = cd_lang d; tr = say V l
      in page_of V l (tr ''confirm.title'') (Some (adminNav V (cd_nav d))) ''/admin/confirm'' (if cd_passkey d then [''/static/passkey.js''] else [])
           (tpl
      [(lines_of [''<section class=\"card narrow\">'', ''      <h1>''], tr ''confirm.title''),
       (lines_of [''</h1>'', ''      ''], error_note (cd_error d) []),
       (lines_of [[], ''      <p>''], say_with V l ''confirm.intro'' [(''minutes'', num_param (cd_minutes d))]),
       (lines_of [''</p>'', ''      <p class=\"muted small\">''], tr ''confirm.repeat''),
       (lines_of [''</p>'', ''      ''], IList (map IRaw (with_or (tr ''common.or'') (confirm_parts V d))))]
      (lines_of [[], ''    </section>''])))"

section \<open>The security page\<close>

definition has_part :: "string \<Rightarrow> string \<Rightarrow> bool" where
  "has_part p s \<longleftrightarrow> list_ex (\<lambda>i. starts_with p (drop i s)) [0..<Suc (length s)]"

text \<open>The first entry one of whose patterns occurs.\<close>

definition first_match :: "(string list \<times> string) list \<Rightarrow> string \<Rightarrow> string option" where
  "first_match table ua = map_option snd (find (\<lambda>(ps, name). list_ex (\<lambda>p. has_part p ua) ps) table)"

definition browsers :: "(string list \<times> string) list" where
  "browsers = [([''Edg/''], ''Edge''), ([''OPR/''], ''Opera''), ([''Firefox/''], ''Firefox''), ([''Chrome/''], ''Chrome''),
     ([''Safari/''], ''Safari''), ([''curl/''], ''curl'')]"

definition systems :: "(string list \<times> string) list" where
  "systems = [([''iPhone'', ''iPad''], ''iOS''), ([''Android''], ''Android''), ([''Windows''], ''Windows''),
     ([''Mac OS X'', ''Macintosh''], ''macOS''), ([''CrOS''], ''ChromeOS''), ([''Linux''], ''Linux'')]"

definition describeUserAgent :: "string option \<Rightarrow> text option" where
  "describeUserAgent ua =
     (if \<not> truthy ua then None
      else case (first_match browsers (the ua), first_match systems (the ua)) of
        (None, None) \<Rightarrow> None
      | (Some b, None) \<Rightarrow> Some (units b)
      | (None, Some s) \<Rightarrow> Some (units s)
      | (Some b, Some s) \<Rightarrow> Some (units b @ [32, 183, 32] @ units s))"

text \<open>\<open>split('. ')\<close>: at every full stop before a space.\<close>

fun sentences :: "text \<Rightarrow> text \<Rightarrow> text list" where
  "sentences acc [] = [rev acc]"
| "sentences acc [c] = [rev (c # acc)]"
| "sentences acc (c # e # s) = (if c = 46 \<and> e = 32 then rev acc # sentences [] s else sentences (c # acc) (e # s))"

text \<open>\<open>replace(/(.{4})/g, '$1 ')\<close>.\<close>

fun groups_of_4 :: "string \<Rightarrow> string" where
  "groups_of_4 (a # b # c # e # s) = [a, b, c, e] @ '' '' @ groups_of_4 s"
| "groups_of_4 s = s"

definition strong :: "text \<Rightarrow> text" where "strong s = units ''<strong>'' @ s @ units ''</strong>''"

definition passkey_line :: "site \<Rightarrow> lang \<Rightarrow> interp \<Rightarrow> passkey \<Rightarrow> text" where
  "passkey_line V l csrf p =
     (let tr = say V l
      in tpl
      [(lines_of [''<tr>'', ''            <td>''], lit (pk_name p)),
       (units ''</td><td>'', date V l (Some (pk_created_at p))),
       (units ''</td><td>'', date V l (pk_last_used_at p)),
       (lines_of [''</td>'', ''            <td><form method=\"post\" action=\"/admin/security/passkeys/''], lit (pk_id p)),
       (units ''/remove\" class=\"inline\" data-confirm=\"'', tr ''passkeys.remove_confirm''),
       (units ''\">'', csrf),
       (units ''<button class=\"btn btn-danger btn-small\" type=\"submit\">'', tr ''passkeys.remove'')]
      (lines_of [''</button></form></td>'', ''          </tr>'']))"

definition session_line :: "site \<Rightarrow> lang \<Rightarrow> interp \<Rightarrow> session_summary \<Rightarrow> text" where
  "session_line V l csrf s =
     (let tr = say V l
      in tpl
      [(lines_of [''<tr>'', ''            <td>''], case describeUserAgent (ss_user_agent s) of Some ua \<Rightarrow> IText ua | None \<Rightarrow> tr ''sessions.unknown_device''),
       (lines_of [[], ''              ''], shown (ss_current s) (tpl
        [(units ''<br><span class=\"badge\">'', tr ''sessions.current'')]
        (units ''</span>''))),
       (lines_of [[], ''              ''], shown (ss_pending s) (tpl
        [(units ''<br><span class=\"badge badge-pending\">'', tr ''sessions.pending'')]
        (units ''</span>''))),
       (lines_of [[], ''              ''], shown (ss_bound s) (tpl
        [(units ''<br><span class=\"badge badge-active\">'', tr ''sessions.bound'')]
        (units ''</span>''))),
       (lines_of [[], ''              ''], case ss_second_factor s of None \<Rightarrow> nothing | Some f \<Rightarrow> IRaw (tpl
        [(units ''<br><span class=\"muted small\">'', say_with V l ''sessions.factor'' [(''factor'', t (st_dict V) l (''sessions.via.'' @ factor_text f) None)])]
        (units ''</span>''))),
       (lines_of [''</td>'', ''            <td class=\"mono\">''], case ss_ip s of Some ip \<Rightarrow> lit ip | None \<Rightarrow> IText [8212]),
       (units ''</td><td>'', date V l (Some (ss_created_at s))),
       (units ''</td><td>'', date V l (Some (ss_last_seen_at s))),
       (lines_of [''</td>'', ''            <td>''], shown (\<not> ss_current s) (tpl
        [(units ''<form method=\"post\" action=\"/admin/security/sessions/'', lit (ss_public_id s)),
         (units ''/revoke\" class=\"inline\">'', csrf),
         (units ''<button class=\"btn btn-small\" type=\"submit\">'', tr ''sessions.revoke'')]
        (units ''</button></form>'')))]
      (lines_of [''</td>'', ''          </tr>'']))"

definition codes_section :: "site \<Rightarrow> lang \<Rightarrow> string list \<Rightarrow> text" where
  "codes_section V l codes =
     (let tr = say V l; parts = sentences [] (t (st_dict V) l ''security.recovery.intro'' None)
      in tpl
      [(lines_of [''<section class=\"card highlight\">'', ''        <h2>''], tr ''security.recovery.title''),
       (lines_of [''</h2>'', ''        <p><strong>''], IText (hd parts)),
       (units ''.</strong> '', IText (text_join [46, 32] (tl parts))),
       (lines_of [''</p>'', ''        <pre class=\"mono\" data-copy-source>''], lit (js_join [CHR 0x0A] codes)),
       (lines_of [''</pre>'', ''        <p><button class=\"btn\" type=\"button\" data-copy>''], tr ''common.copy'')]
      (lines_of [''</button></p>'', ''      </section>'']))"

definition enrol_section :: "site \<Rightarrow> security_data \<Rightarrow> interp \<Rightarrow> enrolment \<Rightarrow> text" where
  "enrol_section V d csrf e =
     (let l = sp_lang d; tr = say V l
      in tpl
      [(lines_of [''<section class=\"card\">'', ''        <h2>''], tr ''security.step1''),
       (lines_of [''</h2>'', ''        <div class=\"row\">'', ''          <div class=\"qr\">''], IRaw (en_qrSvg e)),
       (lines_of [''</div>'', ''          <div class=\"grow small\">'', ''            <p>''], tr ''security.manual_key''),
       (lines_of [''</p>'', ''            <p class=\"mono breakable\">''], lit (js_trim (groups_of_4 (en_secret e)))),
       (lines_of [''</p>'', ''            <p class=\"muted\">''], say_with V l ''security.key_params'' [(''issuer'', units (sp_issuer d)), (''user'', units (sp_username d))]),
       (lines_of [''</p>'', ''            <p><a href=\"''], lit (en_uri e)),
       (units ''\">'', tr ''security.open_in_app''),
       (units ''</a> '', tr ''security.on_phone''),
       (lines_of [''</p>'', ''          </div>'', ''        </div>'', ''        <h2>''], tr ''security.step2''),
       (lines_of [''</h2>'', ''        <form method=\"post\" action=\"/admin/security/totp/confirm\" class=\"row\">''], csrf),
       (lines_of [[], ''          <label>''], tr ''security.code_from_app''),
       (lines_of ['' <input name=\"code\" required autocomplete=\"one-time-code\" inputmode=\"numeric\" pattern=\"[0-9 ]{6,7}\" autofocus></label>'',
          ''          <button class=\"btn btn-primary\" type=\"submit\">''], tr ''security.enable.submit''),
       (lines_of [''</button>'', ''        </form>'', ''        <p class=\"muted small\">''], tr ''security.pending_note'')]
      (lines_of [''</p>'', ''      </section>'']))"

definition totp_sections :: "site \<Rightarrow> lang \<Rightarrow> interp \<Rightarrow> text" where
  "totp_sections V l csrf =
     (let tr = say V l
      in tpl
      [(lines_of [''<section class=\"card\">'', ''        <h2>''], tr ''security.recovery.title''),
       (lines_of [''</h2>'', ''        <form method=\"post\" action=\"/admin/security/totp/recovery\" class=\"row\">''], csrf),
       (lines_of [[], ''          <label>''], tr ''security.current_code''),
       (lines_of ['' <input name=\"code\" required autocomplete=\"one-time-code\" inputmode=\"numeric\"></label>'',
          ''          <button class=\"btn\" type=\"submit\">''], tr ''security.regenerate''),
       (lines_of [''</button>'', ''        </form>'', ''      </section>'', ''      <section class=\"card\">'', ''        <h2>''], tr ''security.disable.title''),
       (lines_of [''</h2>'', ''        <p class=\"small\">''], IRaw (t (st_dict V) l ''security.disable.intro'' (Some [(''cmd'', units ''<code>node dist/cli.js disable-totp &lt;user&gt;</code>'')]))),
       (lines_of [''</p>'', ''        <form method=\"post\" action=\"/admin/security/totp/disable\" class=\"row\" data-confirm=\"''], tr ''security.disable.confirm''),
       (units ''\">'', csrf),
       (lines_of [[], ''          <label>''], tr ''security.disable.code''),
       (lines_of ['' <input name=\"code\" required autocomplete=\"one-time-code\"></label>'',
          ''          <button class=\"btn btn-danger\" type=\"submit\">''], tr ''security.disable.submit'')]
      (lines_of [''</button>'', ''        </form>'', ''      </section>'']))"

definition securityPage :: "site \<Rightarrow> security_data \<Rightarrow> text" where
  "securityPage V d =
     (let l = sp_lang d; tr = say V l; csrf = csrf_input (sp_csrfToken d); on = sp_totpEnabled d; keys = sp_passkeys d; x = sp_extra d
      in page_of V l (tr ''nav.security'') (Some (adminNav V (sp_nav d))) ''/admin/security'' [''/static/admin.js'', ''/static/passkey.js'']
           (tpl
      [(lines_of [[], ''      <section class=\"card\">'', ''        <h1>''], say_with V l ''security.title'' [(''user'', units (sp_username d))]),
       (lines_of [''</h1>'', ''        ''], error_note (se_error x) []),
       (lines_of [[], ''        ''], case se_ok x of None \<Rightarrow> nothing | Some m \<Rightarrow> shown (m \<noteq> []) (tpl
        [(units ''<div class=\"flash flash-ok\">'', IText m)]
        (units ''</div>''))),
       (lines_of [[], ''        ''], shown (sp_mustChangePassword d) (tpl
        [(units ''<div class=\"warning\">'', tr ''security.must_change_notice'')]
        (units ''</div>''))),
       (lines_of [[], ''        ''], shown (sp_totpRequired d \<and> \<not> on \<and> keys = []) (tpl
        [(units ''<div class=\"warning\">'', tr ''security.required_notice'')]
        (units ''</div>''))),
       (lines_of [[], ''        <p>''], IRaw (t (st_dict V) l ''security.status'' (Some [(''state'', strong (t (st_dict V) l (if on then ''security.enabled'' else ''security.disabled'') None))]))),
       (lines_of [[], ''        ''], if on \<or> keys \<noteq> [] then IRaw (t (st_dict V) l ''security.recovery_left'' (Some [(''n'', strong (num_param (int (sp_recoveryLeft d))))])) else nothing),
       (lines_of [''</p>'', ''      </section>'', [], ''      <section class=\"card\">'', ''        <h2>''], tr ''passkeys.title''),
       (lines_of [''</h2>'', ''        <p class=\"small\">''], tr ''passkeys.intro''),
       (lines_of [''</p>'', ''        ''], IRaw (if keys = [] then tpl
        [(units ''<p class=\"muted\">'', tr ''passkeys.none'')]
        (units ''</p>'') else tpl
        [(lines_of [''<table>'', ''          <thead><tr><th>''], tr ''passkeys.name''),
         (units ''</th><th>'', tr ''passkeys.added_at''),
         (units ''</th><th>'', tr ''passkeys.last_used''),
         (lines_of [''</th><th></th></tr></thead>'', ''          <tbody>''], each keys (passkey_line V l csrf))]
        (units ''</tbody></table>''))),
       (lines_of [[], ''        <div class=\"row\">'', ''          <label>''], tr ''passkeys.name''),
       (units '' <input id=\"passkey-name\" maxlength=\"64\" placeholder=\"'', tr ''passkeys.name_placeholder''),
       (lines_of [''\"></label>'', ''          ''], passkeyButton V l ''register'' (sp_csrfToken d) ''/admin/security/passkeys/options'' ''/admin/security/passkeys'' (tr ''passkeys.add'') (Some ''passkey-name'')),
       (lines_of [[], ''        </div>'', ''      </section>'', [], ''      <section class=\"card\">'', ''        <h2>''], tr ''security.password.title''),
       (lines_of [''</h2>'', ''        <form method=\"post\" action=\"/admin/security/password\" class=\"row\">''], csrf),
       (lines_of [[], ''          <label>''], tr ''security.password.current''),
       (lines_of ['' <input name=\"current_password\" type=\"password\" required autocomplete=\"current-password\"></label>'',
          ''          <label>''], tr ''security.password.new''),
       (lines_of ['' <input name=\"new_password\" type=\"password\" required autocomplete=\"new-password\" minlength=\"12\"></label>'',
          ''          <label>''], tr ''security.password.confirm''),
       (lines_of ['' <input name=\"new_password_confirm\" type=\"password\" required autocomplete=\"new-password\" minlength=\"12\"></label>'',
          ''          <button class=\"btn\" type=\"submit\">''], tr ''security.password.submit''),
       (lines_of [''</button>'', ''        </form>'', ''      </section>'', [], ''      ''], case se_recoveryCodes x of None \<Rightarrow> nothing | Some codes \<Rightarrow> IRaw (codes_section V l codes)),
       (lines_of [[], [], ''      ''], shown (\<not> on \<and> sp_enrol d = None) (tpl
        [(lines_of [''<section class=\"card\">'', ''        <h2>''], tr ''security.enable.title''),
         (lines_of [''</h2>'', ''        <p class=\"small\">''], tr ''security.enable.intro''),
         (lines_of [''</p>'', ''        <form method=\"post\" action=\"/admin/security/totp/begin\">''], csrf),
         (units ''<button class=\"btn btn-primary\" type=\"submit\">'', tr ''security.enable.start'')]
        (lines_of [''</button></form>'', ''      </section>'']))),
       (lines_of [[], [], ''      ''], case sp_enrol d of None \<Rightarrow> nothing | Some e \<Rightarrow> IRaw (enrol_section V d csrf e)),
       (lines_of [[], [], ''      ''], shown (\<not> on \<and> keys \<noteq> []) (tpl
        [(lines_of [''<section class=\"card\">'', ''        <h2>''], tr ''security.recovery.title''),
         (lines_of [''</h2>'', ''        <form method=\"post\" action=\"/admin/security/recovery/regenerate\">''], csrf),
         (units ''<button class=\"btn\" type=\"submit\">'', tr ''security.recovery.regenerate_confirmed'')]
        (lines_of [''</button></form>'', ''      </section>'']))),
       (lines_of [[], [], ''      ''], shown on (totp_sections V l csrf)),
       (lines_of [[], [], ''      <section class=\"card\">'', ''        <h2>''], tr ''sessions.title''),
       (lines_of [''</h2>'', ''        <p class=\"small\">''], tr ''sessions.intro''),
       (lines_of [''</p>'', ''        <table>'', ''          <thead><tr><th>''], tr ''sessions.device''),
       (units ''</th><th>'', tr ''sessions.ip''),
       (units ''</th><th>'', tr ''sessions.started''),
       (units ''</th><th>'', tr ''sessions.last_seen''),
       (lines_of [''</th><th></th></tr></thead>'', ''          <tbody>''], each (sp_sessions d) (session_line V l csrf)),
       (lines_of [''</tbody>'', ''        </table>'', ''        ''], shown (list_ex (\<lambda>s. \<not> ss_current s) (sp_sessions d)) (tpl
        [(units ''<form method=\"post\" action=\"/admin/security/sessions/revoke-others\">'', csrf),
         (units ''<button class=\"btn\" type=\"submit\">'', tr ''sessions.revoke_others'')]
        (units ''</button></form>'')))]
      (lines_of [[], ''      </section>''])))"

end
