(* ===== verification/ViewsUpload.thy ===== *)
theory ViewsUpload
  imports ViewsSecurity
begin

text \<open>
  src/http/views/upload.ts: the page of an upload link with its settings for the browser and the commands
  for a terminal; and every page of the site as text.
\<close>

section \<open>Commands for a shell\<close>

text \<open>A quote inside the quotes: close, an escaped quote, open again.\<close>

definition shellQuote :: "text \<Rightarrow> text" where
  "shellQuote v = [39] @ concat (map (\<lambda>c. if c = 39 then [39, 92, 39, 39] else [c]) v) @ [39]"

definition upload_commands :: "site \<Rightarrow> lang \<Rightarrow> config \<Rightarrow> string \<Rightarrow> (string \<times> text) list" where
  "upload_commands V l cfg token =
     (let tr = (\<lambda>k. t (st_dict V) l k None); api = units (cf_publicUrl cfg @ ''/api''); q = shellQuote;
          curl = units ''curl --fail-with-body -H ''; var = units ''\"Authorization: Bearer $INLETBOX_TOKEN\"'';
          auth = q (units (''Authorization: Bearer '' @ token)); p1 = q (tr ''upload.path_placeholder''); put = q (api @ units ''/upload/'')
      in [(''single'', curl @ auth @ units '' -T '' @ p1 @ units '' '' @ put),
          (''multi'', units ''for f in '' @ q (tr ''upload.path_placeholder2'') @ units '' '' @ q (tr ''upload.path_placeholder3'') @
             lines_of [''; do'', ''  curl --fail-with-body -H ''] @ auth @ units '' -T \"$f\" '' @ put @ lines_of [''; echo'', ''done'']),
          (''env'', units '' export INLETBOX_TOKEN='' @ q (units token) @ [10] @ curl @ var @ units '' -T '' @ p1 @ units '' '' @ put),
          (''list'', curl @ var @ units '' '' @ q (api @ units ''/files'')),
          (''resumable'', units ''INLETBOX_TOKEN=\"$INLETBOX_TOKEN\" ./inletbox-upload.sh '' @ q api @ units '' '' @ q (tr ''upload.path_placeholder_big''))])"

section \<open>The upload page\<close>

definition clientConfig :: "site \<Rightarrow> upload_page_data \<Rightarrow> json" where
  "clientConfig V d =
     (let api = cf_publicUrl (ud_cfg d) @ ''/api''; lim = ud_limits d
      in obj_json [(''tusEndpoint'', str_json (api @ ''/tus'')), (''filesEndpoint'', str_json (api @ ''/files'')),
           (''linkEndpoint'', str_json (api @ ''/link'')), (''chunkSize'', int_json (cf_uploadChunkBytes (ud_cfg d))),
           (''maxFileBytes'', int_json (el_maxFileBytes lim)), (''maxFiles'', opt_json int_json (el_maxFiles lim)),
           (''maxTotalBytes'', opt_json int_json (el_maxTotalBytes lim)), (''lang'', str_json (lang_code (ud_lang d))),
           (''i18n'', obj_json (map (\<lambda>(k, m). (k, JStr m)) (clientMessages (st_dict V) (ud_lang d))))])"

definition snippet :: "site \<Rightarrow> lang \<Rightarrow> interp \<Rightarrow> text \<Rightarrow> interp" where
  "snippet V l title cmd =
     IRaw (tpl
      [(units ''<div class=\"snippet\"><div class=\"snippet-head\">'', title),
       (units '' <button class=\"btn btn-small\" type=\"button\" data-copy>'', say V l ''common.copy''),
       (units ''</button></div><pre data-copy-source>'', IText cmd)]
      (units ''</pre></div>''))"

definition code_tag :: "text \<Rightarrow> text" where "code_tag s = units ''<code>'' @ s @ units ''</code>''"

definition uploadPage :: "site \<Rightarrow> upload_page_data \<Rightarrow> text" where
  "uploadPage V d =
     (let l = ud_lang d; tr = say V l; c = ud_case d; k = ud_link d; lim = ud_limits d; u = ud_usage d;
          raw = (\<lambda>key ps. IRaw (t (st_dict V) l key (Some ps)));
          cmd = (\<lambda>name. the (map_of (upload_commands V l (ud_cfg d) (ud_token d)) name))
      in page_of V l (say_with V l ''upload.title'' [(''case'', units (c_name c))]) None (ud_path d) [''/static/vendor/tus.min.js'', ''/static/upload.js'']
           (tpl
      [(lines_of [[], ''      ''], IRaw (jsonScript ''inletbox-config'' (clientConfig V d))),
       (lines_of [[], ''      <section class=\"card\">'', ''        <h1>''], lit (c_name c)),
       (lines_of [''</h1>'', ''        ''], shown (c_description c \<noteq> []) (tpl
        [(units ''<p>'', lit (c_description c))]
        (units ''</p>''))),
       (lines_of [[], ''        <p class=\"muted\">''], tr ''upload.link_for''),
       (units '' <strong>'', lit (l_label k)),
       (units ''</strong>'', shown (l_expires_at k \<noteq> None) (tpl
        [(units '' '' @ [183] @ units '' '', IRaw (tHtml (st_dict V) l ''upload.valid_until'' [(''date'', date V l (l_expires_at k))]))]
        ([]))),
       (lines_of [''</p>'', ''        <ul class=\"limits small\">'', ''          <li>''], tr ''upload.limit.file''),
       (units '' <strong>'', IText (size_text (el_maxFileBytes lim))),
       (lines_of [''</strong></li>'', ''          ''], case el_maxFiles lim of None \<Rightarrow> nothing | Some n \<Rightarrow> IRaw (tpl
        [(units ''<li>'', tr ''upload.limit.files''),
         (units '' <strong>'', INum n),
         (units ''</strong> '', say_with V l ''upload.used_n'' [(''n'', num_param (int (lu_file_count u)))])]
        (units ''</li>''))),
       (lines_of [[], ''          ''], case el_maxTotalBytes lim of None \<Rightarrow> nothing | Some n \<Rightarrow> IRaw (tpl
        [(units ''<li>'', tr ''upload.limit.total''),
         (units '' <strong>'', IText (size_text n)),
         (units ''</strong> '', say_with V l ''upload.used_size'' [(''size'', size_text (lu_used_bytes u))])]
        (units ''</li>''))),
       (lines_of [[], ''        </ul>'', ''      </section>'', [], ''      <section class=\"card\">'', ''        <h2>''], tr ''upload.send''),
       (lines_of [''</h2>'', ''        <div id=\"dropzone\" class=\"dropzone\" tabindex=\"0\">'',
          ''          <p class=\"dropzone-lead\"><strong>''], tr ''upload.drop_here''),
       (units ''</strong> '', tr ''upload.or''),
       (units '' <label class=\"link\" for=\"file-input\">'', tr ''upload.choose''),
       (lines_of [''</label>.</p>'', ''          <input id=\"file-input\" type=\"file\" multiple hidden>'',
          ''          <p class=\"muted small\">''], tr ''upload.resume_hint''),
       (lines_of [''</p>'', ''        </div>'', ''        <ul id=\"queue\" class=\"queue\"></ul>'', ''      </section>'', [],
          ''      <section class=\"card\">'', ''        <h2>''], tr ''upload.your_files''),
       (lines_of [''</h2>'', ''        <p class=\"muted small\">''], tr ''upload.your_files_intro''),
       (lines_of [''</p>'', ''        <table id=\"files-table\"><thead><tr><th>''], tr ''upload.col.name''),
       (units ''</th><th>'', tr ''upload.col.size''),
       (units ''</th><th>'', tr ''upload.col.date''),
       (units ''</th><th>'', tr ''upload.col.status''),
       (units ''</th></tr></thead><tbody><tr><td colspan=\"4\" class=\"muted\">'', tr ''common.loading''),
       (lines_of [''</td></tr></tbody></table>'', ''      </section>'', [], ''      <section class=\"card\">'',
          ''        <!-- Collapsed by default: most people drop a file, and the token-bearing'',
          ''             commands should not be on screen unless they are actually wanted. -->'',
          ''        <details class=\"collapsible\">'', ''          <summary>''], tr ''upload.terminal''),
       (units '' <span class=\"summary-hint\">'', tr ''upload.terminal_hint''),
       (lines_of [''</span></summary>'', ''          <p class=\"small\">''], raw ''upload.terminal_intro'' [(''path'', code_tag (t (st_dict V) l ''upload.path_placeholder'' None))]),
       (lines_of [''</p>'', ''          ''], snippet V l (tr ''upload.snippet.single'') (cmd ''single'')),
       (lines_of [[], ''          ''], snippet V l (tr ''upload.snippet.multi'') (cmd ''multi'')),
       (lines_of [[], ''          ''], snippet V l (tr ''upload.snippet.env'') (cmd ''env'')),
       (lines_of [[], ''          ''], snippet V l (tr ''upload.snippet.list'') (cmd ''list'')),
       (lines_of [[], ''          ''], snippet V l (raw ''upload.snippet.resumable'' [(''script'', units ''<a href=\"/static/inletbox-upload.sh\" download>inletbox-upload.sh</a>'')]) (cmd ''resumable'')),
       (lines_of [[], ''          <p class=\"warning small\">''], raw ''upload.history_warning'' [(''file'', code_tag (units ''~/.bash_history'')), (''opt'', code_tag (units ''HISTCONTROL=ignorespace''))])]
      (lines_of [''</p>'', ''        </details>'', ''      </section>''])))"

definition linkUnavailablePage :: "site \<Rightarrow> lang \<Rightarrow> text \<Rightarrow> text \<Rightarrow> text" where
  "linkUnavailablePage V l title message =
     page_of V l (IText title) None ''/'' []
       (tpl
      [(units ''<section class=\"card narrow\"><h1>'', IText title),
       (units ''</h1><p>'', IText message),
       (units ''</p><p class=\"muted small\">'', say V l ''link.contact'')]
      (units ''</p></section>''))"

section \<open>Every page\<close>

definition page_html :: "site \<Rightarrow> page \<Rightarrow> text" where
  "page_html V p =
     (case p of
        HomePage l \<Rightarrow> homePage V l
      | LoginPage l err \<Rightarrow> loginPage V l err
      | TotpLoginPage l d \<Rightarrow> totpLoginPage V l d
      | ConfirmPage d \<Rightarrow> confirmPage V d
      | SecurityPage d \<Rightarrow> securityPage V d
      | CasesPage v cs err \<Rightarrow> casesPage V v cs err
      | CasePage v d \<Rightarrow> casePage V v d
      | UsersPage v d \<Rightarrow> usersPage V v d
      | AuditPage v rows \<Rightarrow> auditPage V v rows
      | ErrorPage l title message status path home \<Rightarrow> errorPage V l title message path home
      | LinkUnavailablePage l title message \<Rightarrow> linkUnavailablePage V l title message
      | UploadPage d \<Rightarrow> uploadPage V d)"

end
