(* ===== verification/Cli.thy ===== *)
theory Cli
  imports Cleanup PublicApi
begin

text \<open>
  src/cli.ts: the commands an operator runs beside the server. A command is a function of the environment,
  of what is typed and of the random bytes it draws; it gives the lines it prints, how the process ends,
  and the database and storage. SQLite's execution of a migration file, the opening of the database and
  the storage of a configuration are arguments, as in the theories of those parts.
\<close>

section \<open>Reading a password\<close>

record key_press =
  kp_name :: "string option"
  kp_ctrl :: bool
  kp_meta :: bool
  kp_sequence :: "string option"

text \<open>What a prompt comes to: a line, an interrupt, or keys that have not ended it yet.\<close>

datatype prompt_end = Entered string | Interrupted | StillWaiting

fun ask_keys :: "key_press list \<Rightarrow> string \<Rightarrow> prompt_end" where
  "ask_keys [] value = StillWaiting"
| "ask_keys (k # ks) value =
     (if kp_name k \<in> {Some ''return'', Some ''enter''} then Entered value
      else if kp_name k = Some ''backspace'' then ask_keys ks (butlast value)
      else if kp_ctrl k \<and> kp_name k = Some ''c'' then Interrupted
      else if \<not> kp_ctrl k \<and> \<not> kp_meta k then
        ask_keys ks (value @ (case kp_sequence k of Some s \<Rightarrow> s | None \<Rightarrow> []))
      else ask_keys ks value)"

text \<open>\<open>replace(/\r?\n$/, '')\<close>: one line end at the very end.\<close>

definition strip_newline :: "string \<Rightarrow> string" where
  "strip_newline s =
     (if s = [] \<or> last s \<noteq> CHR 0x0A then s
      else let u = butlast s in if u \<noteq> [] \<and> last u = CHR 0x0D then butlast u else u)"

record typing =
  ty_stdin :: string
  ty_first :: "key_press list"
  ty_second :: "key_press list"

text \<open>How the rest of a command is reached: with a value, by an error, or not at all.\<close>

datatype 'a reached = Reached 'a | Thrown exn | Killed nat | Hanging

definition readPassword :: "bool \<Rightarrow> typing \<Rightarrow> string reached" where
  "readPassword fromStdin ty =
     (if fromStdin then Reached (strip_newline (ty_stdin ty))
      else case ask_keys (ty_first ty) [] of
        StillWaiting \<Rightarrow> Hanging
      | Interrupted \<Rightarrow> Killed 130
      | Entered p1 \<Rightarrow>
          (case ask_keys (ty_second ty) [] of
             StillWaiting \<Rightarrow> Hanging
           | Interrupted \<Rightarrow> Killed 130
           | Entered p2 \<Rightarrow> if p1 \<noteq> p2 then Thrown (JsError ''Passwords do not match'') else Reached p1))"

section \<open>The commands\<close>

record ('m, 's) cli_world =
  cw_schema :: "'m migration_state"
  cw_db :: db
  cw_store :: 's

record ('m, 's) machine =
  mc_platform :: platform
  mc_crypto :: node_crypto
  mc_open :: "config \<Rightarrow> unit result"
  mc_applySql :: "string \<Rightarrow> 'm \<Rightarrow> exn + 'm"
  mc_migrations :: "string list"
  mc_storage :: "config \<Rightarrow> 's backend"
  mc_tusRemove :: "config \<Rightarrow> string \<Rightarrow> 's \<Rightarrow> unit result \<times> 's"

datatype printed = PrintedOut string | PrintedErr string | PrintedReport cleanup_report

text \<open>How the process ends: with a code, or it is still there.\<close>

datatype process_end = Exits nat | Runs

type_synonym ('m, 's) command_result = "(printed list \<times> process_end) \<times> ('m, 's) cli_world"

definition failed_command :: "exn \<Rightarrow> ('m, 's) cli_world \<Rightarrow> ('m, 's) command_result" where
  "failed_command e w = (([PrintedErr (''Error: '' @ exn_message e)], Exits 1), w)"

definition printed_out :: "string \<Rightarrow> ('m, 's) cli_world \<Rightarrow> ('m, 's) command_result" where
  "printed_out s w = (([PrintedOut s], Exits 0), w)"

definition quoted :: "string \<Rightarrow> string" where
  "quoted s = [CHR 0x22] @ s @ [CHR 0x22]"

definition username_of :: "string list \<Rightarrow> string option" where
  "username_of rest = find (\<lambda>a. \<not> starts_with ''--'' a) rest"

definition no_admin :: "string \<Rightarrow> exn" where
  "no_admin u = JsError (''No admin named '' @ quoted u)"

definition password_command ::
  "('m, 's) machine \<Rightarrow> time \<Rightarrow> byte list \<Rightarrow> byte list \<Rightarrow> typing \<Rightarrow> string \<Rightarrow> string list \<Rightarrow> ('m, 's) cli_world \<Rightarrow> ('m, 's) command_result" where
  "password_command M nw id_rnd salt ty cmd rest w =
     (case username_of rest of
        None \<Rightarrow> failed_command (JsError (''usage: '' @ cmd @ '' <username> [--password-stdin]'')) w
      | Some username \<Rightarrow>
          if username = [] then failed_command (JsError (''usage: '' @ cmd @ '' <username> [--password-stdin]'')) w
          else case readPassword (''--password-stdin'' \<in> set rest) ty of
            Thrown e \<Rightarrow> failed_command e w
          | Killed n \<Rightarrow> (([], Exits n), w)
          | Hanging \<Rightarrow> (([], Runs), w)
          | Reached password \<Rightarrow>
              if cmd = ''create-admin'' then
                (case createAdmin (mc_crypto M) nw id_rnd salt username password RoleAdmin False (cw_db w) of
                   (Inl e, d) \<Rightarrow> failed_command e (w\<lparr>cw_db := d\<rparr>)
                 | (Inr a, d) \<Rightarrow>
                     printed_out (''Admin '' @ quoted (ad_username a) @ '' created ('' @ string_of_nat (countAdmins d) @ '' admin(s) total).'')
                       (w\<lparr>cw_db := d\<rparr>))
              else
                (case setAdminPassword (mc_crypto M) salt username password (cw_db w) of
                   (Inl e, d) \<Rightarrow> failed_command e (w\<lparr>cw_db := d\<rparr>)
                 | (Inr False, d) \<Rightarrow> failed_command (no_admin username) (w\<lparr>cw_db := d\<rparr>)
                 | (Inr True, d) \<Rightarrow>
                     printed_out (''Password for '' @ quoted username @ '' updated; existing sessions were revoked.'') (w\<lparr>cw_db := d\<rparr>)))"

definition disable_totp_command ::
  "('m, 's) machine \<Rightarrow> string list \<Rightarrow> ('m, 's) cli_world \<Rightarrow> ('m, 's) command_result" where
  "disable_totp_command M rest w =
     (case username_of rest of
        None \<Rightarrow> failed_command (JsError ''usage: disable-totp <username>'') w
      | Some username \<Rightarrow>
          if username = [] then failed_command (JsError ''usage: disable-totp <username>'') w
          else case findAdminByUsername (cw_db w) username of
            None \<Rightarrow> failed_command (no_admin username) w
          | Some a \<Rightarrow>
              printed_out (''Second factors (TOTP, passkeys, recovery codes) removed for '' @ quoted username @
                  ''; all their sessions were ended. They should set one up again under Security.'')
                (w\<lparr>cw_db := resetSecondFactors (mc_crypto M) (ad_id a) (cw_db w)\<rparr>))"

text \<open>
  The argument after the flag as hours; a date that cannot be written (no number, or too far away)
  throws when the cut-off is formatted, before anything is touched.
\<close>

definition ttl_argument :: "string list \<Rightarrow> jsnum option" where
  "ttl_argument rest =
     (case dropWhile (\<lambda>a. a \<noteq> ''--ttl-hours'') rest of
        [] \<Rightarrow> None
      | [_] \<Rightarrow> Some NaN
      | _ # v # _ \<Rightarrow> Some (js_mul (js_Number v) 3600000))"

definition cutoff_ms :: "time \<Rightarrow> jsnum \<Rightarrow> int result" where
  "cutoff_ms nw ttl =
     (case ttl of
        Num q \<Rightarrow> if \<bar>nw - \<lceil>q\<rceil>\<bar> \<le> 8640000000000000 then Inr \<lceil>q\<rceil> else Inl (JsError ''Invalid time value'')
      | _ \<Rightarrow> Inl (JsError ''Invalid time value''))"

definition cleanup_command ::
  "('m, 's) machine \<Rightarrow> config \<Rightarrow> time \<Rightarrow> string list \<Rightarrow> ('m, 's) cli_world \<Rightarrow> ('m, 's) command_result" where
  "cleanup_command M cfg nw rest w =
     (case cutoff_ms nw (case ttl_argument rest of None \<Rightarrow> cf_incompleteUploadTtlMs cfg | Some x \<Rightarrow> x) of
        Inl e \<Rightarrow> failed_command e w
      | Inr ttlMs \<Rightarrow>
          (case runCleanup (mc_storage M cfg) (mc_tusRemove M cfg) nw ttlMs True (cw_db w) (cw_store w) of
             None \<Rightarrow> (([], Runs), w)
           | Some (rep, d, s) \<Rightarrow> (([PrintedReport rep], Exits 0), w\<lparr>cw_db := d, cw_store := s\<rparr>)))"

text \<open>\<open>main\<close> and the handler of its failures; the migrations are applied before the command is looked at.\<close>

definition cli_main ::
  "('m, 's) machine \<Rightarrow> env \<Rightarrow> time \<Rightarrow> byte list \<Rightarrow> byte list \<Rightarrow> typing \<Rightarrow> string list \<Rightarrow> ('m, 's) cli_world \<Rightarrow> ('m, 's) command_result" where
  "cli_main M env nw id_rnd salt ty argv w0 =
     (case loadConfig (mc_platform M) env of
        Inl e \<Rightarrow> failed_command e w0
      | Inr cfg \<Rightarrow>
          (case mc_open M cfg of
             Inl e \<Rightarrow> failed_command e w0
           | Inr _ \<Rightarrow>
               (case migrate (mc_applySql M) nw (mc_migrations M) (cw_schema w0) of
                  (Inl e, st) \<Rightarrow> failed_command e (w0\<lparr>cw_schema := st\<rparr>)
                | (Inr _, st) \<Rightarrow>
                    let w = w0\<lparr>cw_schema := st\<rparr>; cmd = (case argv of [] \<Rightarrow> [] | c # _ \<Rightarrow> c); rest = tl argv
                    in if cmd = ''migrate'' then printed_out ''Migrations are up to date.'' w
                       else if cmd \<in> {''create-admin'', ''reset-password''} then password_command M nw id_rnd salt ty cmd rest w
                       else if cmd = ''disable-totp'' then disable_totp_command M rest w
                       else if cmd = ''cleanup'' then cleanup_command M cfg nw rest w
                       else (([PrintedErr ''usage: cli <create-admin|reset-password|disable-totp|migrate|cleanup> ...''], Exits 2), w))))"

end
