(* ===== verification/SiteLaws.thy ===== *)
theory SiteLaws
  imports App Cli
begin

text \<open>
  From the services to the whole site: a property of the database that every operation of the services
  keeps is kept by every handler, by every request and by every command. The laws of the operations are
  the locale \<open>service_law\<close>; what a handler does with them is proved once, in it.
\<close>

section \<open>What an upload may still bring\<close>

text \<open>An upload that may bring so many bytes, and one that brings them: the reservation of its row covers them.\<close>

definition promised :: "string \<Rightarrow> int \<Rightarrow> db \<Rightarrow> bool" where
  "promised i n d \<longleftrightarrow> (\<forall>f. getFile d i = Some f \<longrightarrow> f_status f = Uploading \<longrightarrow> n \<le> max 0 (f_reserved_bytes f))"

definition has_room :: "string \<Rightarrow> int \<Rightarrow> db \<Rightarrow> bool" where
  "has_room i n d \<longleftrightarrow> 0 \<le> n \<and> promised i n d"

lemma promised_room: "promised i mx d \<Longrightarrow> 0 \<le> n \<Longrightarrow> n \<le> max 0 mx \<Longrightarrow> has_room i n d"
  by (force simp: promised_def has_room_def)

text \<open>A backend that reports what it stored as within the limit it was given.\<close>

definition bounded_put :: "'s backend \<Rightarrow> bool" where
  "bounded_put B \<longleftrightarrow> (\<forall>nw k src mx s r s'. bk_put B nw k src mx s = (Inr r, s') \<longrightarrow> 0 \<le> pr_size r \<and> pr_size r \<le> max 0 mx)"

text \<open>What the gate of the API lets through carries a link that is in the database.\<close>

lemma gate_snapshot:
  assumes "api_gate A nw req d = (Inr req', d1)" "rq_uploadLink req' = Some r"
  shows "snapshot_of (rl_link r) d1"
proof -
  obtain token where "resolveToken (ap_crypto A) nw token d = Some r" "d1 = touchLink nw (l_id (rl_link r)) d"
    using assms by (auto simp: api_gate_def requireLinkBearer_def split: option.splits)
  then have "rl_link r \<in> set (links d)" "d1 = touchLink nw (l_id (rl_link r)) d"
    by (auto simp: resolveToken_iff dest: get_by_SomeD)
  then have "(rl_link r)\<lparr>l_last_used_at := Some nw\<rparr> \<in> set (links d1)"
    by (auto simp: touchLink_def update_links_def update_where_def)
  then show ?thesis unfolding snapshot_of_def by (rule rev_bexI) simp
qed

lemma start_promised:
  assumes "direct_start A nw rnd req r name d = (Inr (Inr (f, mx)), d1)"
  shows "promised (f_id f) mx d1"
proof -
  define inp where "inp = \<lparr>ri_link = rl_link r, ri_originalName = Some (upload_name req name), ri_uploadKind = KDirect,
                 ri_declaredSize = declaredLength req, ri_clientIp = rq_ip req, ri_id = None\<rparr>"
  obtain x e where run: "reserveUpload nw rnd (ap_cfg A) inp d = (x, e)" by fastforce
  then have x: "x = Inr (f, mx)" "files d1 = files e"
    using assms unfolding direct_start_def Let_def inp_def [symmetric] by (auto split: sum.splits exn.splits)
  have row: "f_reserved_bytes f = mx" using reserveUpload_Inr [OF run [unfolded x(1)]] by (auto simp: reserved_row_def)
  have "files d1 = files d @ [f]" "f_id f \<notin> f_id ` set (files d)" using direct_start_row [OF assms] by auto
  then have "getFile d1 (f_id f) = Some f" by (auto simp: getFile_def get_by_append get_by_Cons get_by_None_iff [THEN iffD2])
  then show ?thesis using row by (simp add: promised_def)
qed

section \<open>The laws\<close>

locale service_law =
  fixes A :: app and P :: "db \<Rightarrow> bool"
  assumes keeps_audit: "P d \<Longrightarrow> P (audit nw ev d)"
    and keeps_look: "P d \<Longrightarrow> P (snd (getSession (ap_crypto A) nw sid d))"
    and keeps_session: "P d \<Longrightarrow> P (snd (createSession (ap_crypto A) nw sdr adm ttl meta d))"
    and keeps_record: "P d \<Longrightarrow> P (recordLogin nw i d)"
    and keeps_confirmed: "P d \<Longrightarrow> P (snd (markConfirmed (ap_crypto A) nw sid ms d))"
    and keeps_destroy: "P d \<Longrightarrow> P (destroySession (ap_crypto A) sid d)"
    and keeps_destroy_others: "P d \<Longrightarrow> P (destroyOtherSessions (ap_crypto A) i keep d)"
    and keeps_totp: "P d \<Longrightarrow> P (snd (verifySessionTotp (ap_crypto A) nw sdr sid cd ttl now d))"
    and keeps_passkey_login: "P d \<Longrightarrow> P (snd (verifyPasskeyLogin (ap_crypto A) nw sdr sid adm ttl cid inp site d))"
    and keeps_passkey_confirm: "P d \<Longrightarrow> P (snd (verifyPasskeyConfirm (ap_crypto A) nw sid i cid inp site d))"
    and keeps_confirm_code: "P d \<Longrightarrow> P (snd (verifyConfirmCode (ap_crypto A) nw i cd now d))"
    and keeps_ceremony: "P d \<Longrightarrow> P (snd (beginCeremony (ap_crypto A) nw rnd sid pu d))"
    and keeps_begin: "P d \<Longrightarrow> P (snd (beginTotpEnrolment rnd i d))"
    and keeps_enrol: "P d \<Longrightarrow> P (snd (confirmTotpEnrolment (ap_crypto A) nw rnds i cd now d))"
    and keeps_codes: "P d \<Longrightarrow> P (snd (regenerateRecoveryCodes (ap_crypto A) rnds i cd now d))"
    and keeps_codes_confirmed: "P d \<Longrightarrow> P (snd (regenerateRecoveryCodesConfirmed (ap_crypto A) rnds i d))"
    and keeps_disable: "P d \<Longrightarrow> P (snd (disableTotp (ap_crypto A) nw i cd keep now d))"
    and keeps_password: "P d \<Longrightarrow> P (snd (changeAdminPassword (ap_crypto A) salt i old new d))"
    and keeps_register: "P d \<Longrightarrow> P (snd (registerPasskey (ap_crypto A) nw rnd sid i name inp' site d))"
    and keeps_remove: "P d \<Longrightarrow> P (snd (removePasskey (ap_crypto A) i pid keep d))"
    and keeps_revoke_session: "P d \<Longrightarrow> P (snd (revokeSession i pub d))"
    and keeps_purge: "P d \<Longrightarrow> P (snd (purgeExpiredSessions nw d))"
    and keeps_offer: "P d \<Longrightarrow> P (snd (offerBinding (ap_crypto A) nw rnd sid d))"
    and keeps_bind: "P d \<Longrightarrow> P (snd (registerBinding (ap_crypto A) nw bdr sid jwt d))"
    and keeps_refresh: "P d \<Longrightarrow> P (snd (refreshBinding (ap_crypto A) nw bdr bid jwt' d))"
    and keeps_admin: "P d \<Longrightarrow> P (snd (createAdmin (ap_crypto A) nw rnd salt u pw role mc d))"
    and keeps_set_password: "P d \<Longrightarrow> P (snd (setAdminPassword (ap_crypto A) salt u pw d))"
    and keeps_role: "P d \<Longrightarrow> P (snd (setUserRole actor i role d))"
    and keeps_disabled: "P d \<Longrightarrow> P (snd (setUserDisabled nw actor i b d))"
    and keeps_reset_password: "resetUserPassword (ap_crypto A) rnds salt actor i d = Some (r, d') \<Longrightarrow> P d \<Longrightarrow> P d'"
    and keeps_reset_factors: "P d \<Longrightarrow> P (resetSecondFactors (ap_crypto A) i d)"
    and keeps_delete_user: "P d \<Longrightarrow> P (snd (deleteUser actor i d))"
    and keeps_add_member: "P d \<Longrightarrow> P (snd (addCaseMember nw c i d))"
    and keeps_remove_member: "P d \<Longrightarrow> P (snd (removeCaseMember c i d))"
    and keeps_create_case: "P d \<Longrightarrow> P (snd (createCase nw rnd cname desc d))"
    and keeps_update_case: "P d \<Longrightarrow> P (snd (updateCase nw i up d))"
    and keeps_create_link: "P d \<Longrightarrow> P (snd (createLink (ap_crypto A) nw rnd rnd' (ap_cfg A) linp d))"
    and keeps_revoke_link: "P d \<Longrightarrow> P (snd (revokeLink nw i d))"
    and keeps_touch: "P d \<Longrightarrow> P (touchLink nw i d)"
    and keeps_reserve: "P d \<Longrightarrow> snapshot_of (ri_link rinp) d \<Longrightarrow> P (snd (reserveUpload nw rnd (ap_cfg A) rinp d))"
    and keeps_complete: "P d \<Longrightarrow> has_room i n d \<Longrightarrow> P (snd (completeUpload nw i n sha d))"
    and keeps_fail: "P d \<Longrightarrow> P (snd (failUpload i st d))"
    and keeps_missing: "P d \<Longrightarrow> P (markMissing i d)"
    and keeps_deleted: "P d \<Longrightarrow> P (snd (markDeleted nw i d))"
begin

lemmas sign_in_laws = keeps_audit keeps_look keeps_session keeps_record keeps_confirmed keeps_destroy keeps_destroy_others
  keeps_totp keeps_passkey_login keeps_passkey_confirm keeps_confirm_code keeps_ceremony keeps_offer keeps_bind keeps_refresh

lemmas settings_laws = keeps_begin keeps_enrol keeps_codes keeps_codes_confirmed keeps_disable keeps_password keeps_register
  keeps_remove keeps_revoke_session keeps_purge

lemmas account_laws = keeps_admin keeps_set_password keeps_role keeps_disabled keeps_reset_factors keeps_delete_user

lemmas case_laws = keeps_add_member keeps_remove_member keeps_create_case keeps_update_case keeps_create_link
  keeps_revoke_link keeps_touch keeps_fail keeps_missing keeps_deleted

lemmas laws [simp] = sign_in_laws settings_laws account_laws case_laws

section \<open>The panel\<close>

lemma kept_audits [simp]: "P d \<Longrightarrow> P (panel_audit nw req action details d)" "P d \<Longrightarrow> P (system_audit nw req action d)"
  "P d \<Longrightarrow> P (account_audit nw req a action d)" "P d \<Longrightarrow> P (case_audit nw req action i details d)"
  by (simp_all add: panel_audit_def system_audit_def account_audit_def case_audit_def)

lemma kept_middleware [simp]: "P d \<Longrightarrow> P (snd (sessionMiddleware A nw req d))"
  by (simp add: sessionMiddleware_def Let_def split_beta split: option.split)

lemma kept_sign_in [simp]:
  assumes "P d"
  shows "P (snd (login A nw rnd req d))" "P (snd (logout A nw req d))" "P (snd (signedIn A nw req sid fac d))"
    "P (snd (begin_assertion A nw rnd req pu d))" "P (snd (webauthn_login_options A nw rnd req d))" "P (snd (offer A nw rnd req d))"
  using assms
  by (simp_all add: login_def login_ok_def logout_def signedIn_def begin_assertion_def webauthn_login_options_def offer_def Let_def
      split_beta split: sum.split option.split)

lemma kept_second_factor [simp]:
  assumes "P d"
  shows "P (snd (webauthn_login A nw rnd req d))" "P (snd (totp_submit A nw rnd req d))"
    "P (snd (dbsc_register A nw rnd req d))" "P (snd (dbsc_refresh A nw rnd req d))"
  using assms
  by (simp_all add: webauthn_login_def totp_submit_def dbsc_register_def dbsc_refresh_def Let_def split_beta
      split: sum.split option.split exn.split refresh_result.split totp_login_result.split)

lemma kept_answers [simp]: "P (snd (security_error A nw req m d)) = P d" "P (snd (security_ok A nw req x d)) = P d"
  by (simp_all add: security_error_def security_ok_def)

lemma kept_confirm [simp]:
  assumes "P d"
  shows "P (confirmed A nw req m d)" "P (snd (confirm_code A nw req d))" "P (snd (confirm_password A nw req d))"
    "P (snd (confirm_passkey A nw req d))" "P (snd (webauthn_confirm_options A nw rnd req d))"
  using assms
  by (simp_all add: confirmed_def confirm_code_def confirm_password_def confirm_passkey_def webauthn_confirm_options_def
      Let_def split_beta split: sum.split confirm_result.split option.split exn.split)

lemma kept_forms [simp]:
  assumes "P d"
  shows "P (snd (security_password A nw rnd req d))" "P (snd (totp_begin A nw rnd req d))" "P (snd (totp_confirm A nw rnd req d))"
    "P (snd (totp_recovery A nw rnd req d))" "P (snd (totp_disable A nw req d))"
  using assms
  by (simp_all add: security_password_def totp_begin_def totp_confirm_def totp_recovery_def totp_disable_def Let_def split_beta
      split: sum.split option.split bool.split)

lemma kept_keys [simp]:
  assumes "P d"
  shows "P (snd (passkey_options A nw rnd req d))" "P (snd (fst (passkey_register A nw rnd req fl d)))"
    "P (snd (passkey_remove A nw req i d))" "P (snd (recovery_regenerate A nw rnd req d))"
    "P (snd (sessions_revoke_others A nw req d))" "P (snd (session_revoke A nw req i d))"
  using assms
  by (simp_all add: passkey_options_def passkey_register_def passkey_added_def first_codes_def passkey_remove_def
      recovery_regenerate_def sessions_revoke_others_def session_revoke_def Let_def split_beta
      split: sum.split option.split bool.split exn.split)

lemma kept_with_case: "P d \<Longrightarrow> (\<And>c. P (snd (f c d))) \<Longrightarrow> P (snd (with_case A req i f d))"
  by (simp add: with_case_def case_missing_def split: option.split)

lemma kept_case_answers [simp]: "P (snd (case_missing A req d)) = P d" "P (snd (case_error A req i m st d)) = P d"
  "P (snd (case_ok A req i m d)) = P d"
  by (simp_all add: case_missing_def case_error_def case_ok_def)

lemma kept_cases [simp]:
  assumes "P d"
  shows "P (snd (case_create A nw rnd req d))" "P (snd (case_save A nw req i d))" "P (snd (case_status_change A nw req i d))"
    "P (snd (member_add A nw req i d))" "P (snd (member_remove A nw req i u d))" "P (snd (link_create A nw rnd req i d))"
  using assms
  by (auto simp: case_create_def case_save_def case_status_change_def member_add_def member_remove_def link_create_def Let_def split_beta
      split: sum.split option.split bool.split intro!: kept_with_case)

lemma kept_discard [simp]: "P d \<Longrightarrow> P (fst (discard_uploads B rm fs d s))"
  by (induction fs arbitrary: d s) simp_all

lemma kept_files [simp]:
  assumes "P d"
  shows "P (snd (fst (link_revoke A B rm nw req i d s)))" "P (snd (file_download A B disp nw req i d s))"
    "P (snd (fst (file_delete A B nw req i d s)))"
  using assms
  by (simp_all add: link_revoke_def file_download_def file_delete_def Let_def split_beta
      split: sum.split option.split bool.split exn.split)

lemma kept_done [simp]: "P (snd (done_with A req key p)) = P (snd p)"
  by (simp add: done_with_def split_beta split: sum.split)

lemma kept_reset_user [simp]: "P d \<Longrightarrow> P (snd (resetUserTotp (ap_crypto A) actor i d))"
  by (simp add: resetUserTotp_def split: sum.split)

lemma kept_actions [simp]:
  assumes "P d"
  shows "P (snd (action_role A req actor i d))" "P (snd (action_password A rnd req actor i d))" "P (snd (action_totp A req actor i d))"
    "P (snd (action_disable A nw req actor i d))" "P (snd (action_enable A nw req actor i d))" "P (snd (action_delete A req actor i d))"
  using assms
  by (auto simp: action_role_def action_password_def action_totp_def action_disable_def action_enable_def action_delete_def split_beta
      split: sum.split option.split dest: keeps_reset_password)

lemma kept_user_action: "P d \<Longrightarrow> (\<And>actor j. P (snd (f actor j d))) \<Longrightarrow> P (snd (userAction A nw req action f i d))"
  by (simp add: userAction_def users_error_def user_refused_def Let_def split_beta split: option.split sum.split)

lemma kept_new_user: "createUser (ap_crypto A) nw rnds rnd salt u role d = Some (r, d') \<Longrightarrow> P d \<Longrightarrow> P d'"
  by (auto simp: createUser_def Let_def split_beta split: if_splits option.splits sum.splits)

lemma kept_user_create [simp]: "P d \<Longrightarrow> P (snd (user_create A nw rnd req d))"
  by (auto simp: user_create_def users_error_def user_refused_def Let_def split_beta split: option.split sum.split dest: kept_new_user)

section \<open>The router\<close>

lemma kept_plain [simp]: "P (w_db (snd (plain w h))) = P (snd h)" "P (w_db (snd (page_only w r))) = P (w_db w)"
  "P (w_db (snd (stored w hs))) = P (snd (fst hs))" "P (w_db (snd (with_flashes w hf))) = P (snd (fst hf))"
  by (simp_all add: plain_def page_only_def stored_def with_flashes_def)

lemma kept_gates [simp]:
  "P (w_db w) \<Longrightarrow> P (w_db (snd rest)) \<Longrightarrow> P (w_db (snd (gated g w rest)))"
  "P (w_db w) \<Longrightarrow> P (w_db (snd rest)) \<Longrightarrow> P (w_db (snd (limited A req w rest)))"
  "P (w_db w) \<Longrightarrow> P (w_db (snd rest)) \<Longrightarrow> P (w_db (snd (confirmed_only nw back req w rest)))"
  by (simp_all add: gated_def limited_def confirmed_only_def split: option.split)

lemma kept_entrance: "entrance A nw rnd req e w = Some st \<Longrightarrow> P (w_db w) \<Longrightarrow> P (w_db (snd st))"
  by (auto simp: entrance_def split: endpoint.splits)

lemma kept_pending: "pending_stage A nw rnd req e w = Some st \<Longrightarrow> P (w_db w) \<Longrightarrow> P (w_db (snd st))"
  by (auto simp: pending_stage_def split: endpoint.splits)

lemma kept_complete_stage: "complete_stage A nw rnd req e w = Some st \<Longrightarrow> P (w_db w) \<Longrightarrow> P (w_db (snd st))"
  by (auto simp: complete_stage_def Let_def split_beta split: endpoint.splits)

lemma kept_user_step [simp]:
  "P (w_db w) \<Longrightarrow> (\<And>actor j. P (snd (f actor j (w_db w)))) \<Longrightarrow> P (w_db (snd (user_action_step A nw req action f i w)))"
  by (simp add: user_action_step_def kept_user_action)

lemma kept_accounts_stage [simp]: "P (w_db w) \<Longrightarrow> P (w_db (snd (accounts_stage A nw rnd req e w)))"
  by (simp add: accounts_stage_def Let_def split: endpoint.split)

lemma kept_working_stage [simp]: "P (w_db w) \<Longrightarrow> P (w_db (snd (working_stage A S nw rnd req e w)))"
  by (simp add: working_stage_def Let_def split: endpoint.split)

lemma kept_decorate [simp]: "P (w_db (snd (decorate h st))) = P (w_db (snd st))"
  by (cases st) (auto simp: decorate_def split: routed.split sum.split)

lemma kept_verified [simp]:
  assumes "P (w_db w)" shows "P (w_db (snd (verified_panel A S nw rnd req ep w)))"
proof -
  let ?w = "w\<lparr>w_db := snd (offer A nw rnd req (w_db w))\<rparr>"
  have "P (w_db ?w)" using assms by simp
  then show ?thesis
    by (auto simp: verified_panel_def Let_def split_beta bind_eq_Some_conv split: option.split dest: kept_complete_stage)
qed

lemma kept_panel [simp]: "P (w_db w) \<Longrightarrow> P (w_db (snd (adminRouter A S nw rnd req segs w)))"
  by (auto simp: adminRouter_def Let_def bind_eq_Some_conv split: option.split dest: kept_entrance kept_pending intro!: kept_gates)

section \<open>Uploads\<close>

lemma kept_gate [simp]: "P d \<Longrightarrow> P (snd (api_gate A nw req d))"
  by (simp add: api_gate_def requireLinkBearer_def split: option.split)

lemma kept_start: "P d \<Longrightarrow> snapshot_of (rl_link r) d \<Longrightarrow> P (snd (direct_start A nw rnd req r name d))"
  using keeps_reserve by (simp add: direct_start_def Let_def split_beta split: sum.split exn.split)

lemma kept_failed [simp]: "P d \<Longrightarrow> P (fst (snd (direct_failed B nw req r i mx op e d s)))"
  by (simp add: direct_failed_def Let_def split: exn.split)

lemma kept_finish:
  assumes "P d" "bounded_put B" "promised i mx d"
  shows "P (fst (snd (direct_finish B nw req r name i mx tr d s)))"
proof (cases "receive B nw i tr mx (declaredLength req) s")
  case (Pair x s1)
  show ?thesis
  proof (cases x)
    case (Inl e)
    then show ?thesis using assms(1) Pair by (simp add: direct_finish_def)
  next
    case (Inr res)
    then obtain s2 where "bk_put B nw i (tr_source tr) mx s = (Inr res, s2)"
      using Pair by (auto simp: receive_def split: sum.splits prod.splits if_splits)
    then have "has_room i (pr_size res) d" using assms(2,3) promised_room unfolding bounded_put_def by blast
    then show ?thesis using assms(1) Pair Inr keeps_complete by (simp add: direct_finish_def direct_done_def)
  qed
qed

lemma kept_direct:
  assumes "P d" "bounded_put B" "snapshot_of (rl_link r) d"
  shows "P (fst (snd (direct A B nw rnd req r name tr d s)))"
proof (cases "direct_start A nw rnd req r name d")
  case (Pair x d1)
  then have "P d1" using kept_start [OF assms(1,3), of nw rnd req name] by simp
  then show ?thesis using Pair kept_finish [OF _ assms(2)] start_promised
    by (auto simp: direct_def split_beta split: sum.split)
qed

lemma kept_api:
  assumes "P d" "bounded_put B" shows "P (fst (snd (api A B nw rnd req segs tr d s)))"
proof (cases "api_gate A nw req d")
  case (Pair x d1)
  then have "P d1" using kept_gate [OF assms(1), of nw req] by simp
  then show ?thesis using Pair kept_direct [OF _ assms(2)] gate_snapshot [of A nw req d]
    by (auto simp: api_def split_beta split: sum.split option.split api_route.split)
qed

text \<open>The hooks of the tus server.\<close>

lemma kept_create:
  assumes "P d" "linkOf req = Inr r" "snapshot_of (rl_link r) d"
  shows "P (snd (onUploadCreate A nw req u d))"
  using assms keeps_reserve by (simp add: onUploadCreate_def Let_def split_beta split: sum.split exn.split)

lemma kept_upload_finish:
  assumes "P d" "\<And>n. tu_size u = Some n \<Longrightarrow> has_room (tu_id u) n d"
  shows "P (fst (snd (onUploadFinish A B nw req u d s)))"
  using assms keeps_complete by (simp add: onUploadFinish_def split_beta split: sum.split option.split)

lemma kept_terminate: "P d \<Longrightarrow> P (onTerminate nw req i d)"
  by (simp add: onTerminate_def split_beta split: sum.split option.split bool.split)

section \<open>Every address, housekeeping and the command line\<close>

lemma kept_upload_page [simp]: "P d \<Longrightarrow> P (snd (upload_page A nw req token d))"
  by (simp add: upload_page_def Let_def split: option.split)

lemma kept_public:
  assumes "P (w_db w)" "bounded_put (sv_backend S)"
  shows "P (w_db (snd (public_routes A S out nw req segs w)))"
proof -
  have "P (fst (snd (api A (sv_backend S) nw (os_fileId out) req (tl segs) (os_transfer out) (w_db w) (w_store w))))"
    by (rule kept_api [OF assms])
  then show ?thesis using assms(1) by (simp add: public_routes_def Let_def split_beta split: option.split api_outcome.split)
qed

lemma kept_request:
  assumes "P (w_db w)" "bounded_put (sv_backend S)"
  shows "P (w_db (snd (createApp A S out nw rnd req segs w)))"
proof -
  have start: "P (w_db (w\<lparr>w_db := snd (sessionMiddleware A nw q (w_db w))\<rparr>))" for q using assms(1) by simp
  show ?thesis using assms(1) kept_panel [OF start] kept_public [OF start assms(2)]
    by (simp add: createApp_def Let_def split_beta kept_public [OF _ assms(2)] split: option.split routed.split)
qed

lemma kept_expire: "P d \<Longrightarrow> P (fst (snd (expire_loop B tr nw fs n d s)))"
  by (induction fs arbitrary: n d s) (simp_all add: Let_def split_beta split: bool.split)

lemma kept_verify: "P d \<Longrightarrow> P (snd (verify_loop_files B nw fs n d s))"
  by (induction fs arbitrary: n d) (simp_all split: sum.split option.split)

lemma kept_cleanup: "runCleanup B tr nw ttl vf d s = Some (rep, d', s') \<Longrightarrow> P d \<Longrightarrow> P d'"
  by (auto simp: runCleanup_def Let_def split_beta kept_expire kept_verify split: option.splits if_splits)

lemma kept_command:
  assumes "P (cw_db w)" "mc_crypto M = ap_crypto A"
  shows "P (cw_db (snd (cli_main M env nw id_rnd salt ty argv w)))"
  using assms
  by (auto simp: cli_main_def password_command_def disable_totp_command_def cleanup_command_def failed_command_def printed_out_def
      Let_def split_beta split: sum.split option.split reached.split bool.split dest: kept_cleanup)

end

end
