(* ===== verification/SiteRuns.thy ===== *)
theory SiteRuns
  imports SiteLaws AccountSteps
begin

text \<open>
  The site as a whole: requests to any address, the two ends of a streamed upload, the hooks of the tus
  server, housekeeping and the commands of the operator, in any order. The laws of SiteLaws are met by
  the invariant of the schema, by the books of the uploads and by the rule that an active administrator
  remains, so each of them holds of the whole site.
\<close>

section \<open>The schema\<close>

lemma db_snd: "(\<And>r d'. f = (r, d') \<Longrightarrow> db_ok d') \<Longrightarrow> db_ok (snd f)"
  by (cases f) auto

lemmas db_pairs = ok_createSession ok_second_factor ok_passkey_login ok_confirm_code ok_enrol ok_regenerate
  ok_regenerate_confirmed ok_disable ok_register ok_remove_passkey ok_bind ok_refresh ok_requests

lemma db_ok_createAdmin: "db_ok d \<Longrightarrow> createAdmin C nw rnd salt u pw role mc d = (r, d') \<Longrightarrow> db_ok d'"
  by (auto simp: createAdmin_def Let_def split: if_splits sum.splits intro: db_intros)

lemma db_ok_user_services:
  "resetUserPassword C rnds salt actor i d = Some (r, d') \<Longrightarrow> db_ok d \<Longrightarrow> db_ok d'"
  "db_ok d \<Longrightarrow> addCaseMember nw c i d = (ad, d') \<Longrightarrow> db_ok d'"
  "db_ok d \<Longrightarrow> removeCaseMember c i d = (rm, d') \<Longrightarrow> db_ok d'"
  by (auto simp: resetUserPassword_def addCaseMember_def removeCaseMember_def Let_def ok_updates
      split: sum.splits option.splits if_splits intro!: db_ok_delete_sessions db_ok_delete_members)
    (auto simp: db_ok_def ok_defs has_defs)

lemma db_ok_case_services:
  "db_ok d \<Longrightarrow> createCase nw rnd cname desc d = (r, d') \<Longrightarrow> db_ok d'"
  "db_ok d \<Longrightarrow> updateCase nw i up d = (u, d') \<Longrightarrow> db_ok d'"
  by (auto simp: createCase_def updateCase_def Let_def split: if_splits sum.splits option.splits
      intro: db_ok_insert_case db_ok_update_case)

lemma db_ok_link_services:
  "db_ok d \<Longrightarrow> createLink C nw rnd rnd' cfg linp d = (r, d') \<Longrightarrow> db_ok d'"
  "db_ok d \<Longrightarrow> revokeLink nw i d = (b, d') \<Longrightarrow> db_ok d'" "db_ok d \<Longrightarrow> db_ok (touchLink nw i d)"
proof -
  show "db_ok d \<Longrightarrow> createLink C nw rnd rnd' cfg linp d = (r, d') \<Longrightarrow> db_ok d'"
  proof (cases r)
    case (Inr y)
    obtain l token url where "y = (l, token, url)" by (cases y) auto
    then show "db_ok d \<Longrightarrow> createLink C nw rnd rnd' cfg linp d = (r, d') \<Longrightarrow> ?thesis"
      using Inr createLink_Inr db_ok_insert_link by blast
  qed (auto simp: createLink_def Let_def split: sum.splits)
qed (auto simp: revokeLink_def touchLink_def Let_def db_ok_update_links)

lemma db_ok_file_services:
  "db_ok d \<Longrightarrow> reserveUpload nw rnd cfg rinp d = (r, d') \<Longrightarrow> db_ok d'"
  "db_ok d \<Longrightarrow> completeUpload nw i n sha d = (b, d') \<Longrightarrow> db_ok d'" "db_ok d \<Longrightarrow> failUpload i st d = (b, d') \<Longrightarrow> db_ok d'"
  "db_ok d \<Longrightarrow> db_ok (markMissing i d)" "db_ok d \<Longrightarrow> markDeleted nw i d = (b, d') \<Longrightarrow> db_ok d'"
proof -
  show "db_ok d \<Longrightarrow> reserveUpload nw rnd cfg rinp d = (r, d') \<Longrightarrow> db_ok d'"
  proof (cases r)
    case (Inr y)
    obtain f room where "y = (f, room)" by (cases y)
    then show "db_ok d \<Longrightarrow> reserveUpload nw rnd cfg rinp d = (r, d') \<Longrightarrow> ?thesis"
      using Inr reserveUpload_Inr db_ok_insert_file by blast
  qed (auto dest: reserveUpload_Inl)
qed (auto simp: completeUpload_def failUpload_def markMissing_def markDeleted_def Let_def db_ok_update_files)

lemmas db_more_pairs = db_ok_createAdmin db_ok_user_services(2,3) db_ok_case_services db_ok_link_services db_ok_file_services

lemma db_plain:
  assumes "db_ok d"
  shows "db_ok (audit nw ev d)" "db_ok (recordLogin nw i d)" "db_ok (destroySession C sid d)" "db_ok (destroyOtherSessions C i keep d)"
    "db_ok (resetSecondFactors C i d)" "db_ok (touchLink nw i d)" "db_ok (markMissing i d)"
  using assms ok_requests(14-16) [OF assms] db_ok_link_services(3) db_ok_file_services(4) by (simp_all add: recordLogin_def ok_updates)

interpretation schema: service_law A db_ok for A
  by unfold_locales
    ((rule db_plain, assumption) | (rule db_snd, rule db_pairs db_more_pairs, assumption, assumption)
      | (erule db_ok_user_services(1), assumption))+

section \<open>The books of the uploads\<close>

text \<open>
  A database that came from another by steps of uploads, within every limit, and with room for the
  uploads that were promised it.
\<close>

definition kept_promise :: "db \<Rightarrow> string \<times> int \<Rightarrow> bool" where
  "kept_promise d p \<longleftrightarrow> getFile d (fst p) \<noteq> None \<and> promised (fst p) (snd p) d"

definition books :: "app \<Rightarrow> (string \<times> int) set \<Rightarrow> db \<Rightarrow> db \<Rightarrow> bool" where
  "books A ps d0 d \<longleftrightarrow> 0 \<le> cf_maxFileBytes (ap_cfg A) \<and> upload_run (ap_crypto A) (ap_cfg A) d0 d \<and> quota_ok d \<and> db_ok d \<and>
     (\<forall>p \<in> ps. kept_promise d p)"

lemma promise_same: "files d' = files d \<Longrightarrow> kept_promise d p \<Longrightarrow> kept_promise d' p"
  by (simp add: kept_promise_def promised_def getFile_def)

lemma promise_update:
  assumes "\<And>f. f_id (g f) = f_id f" "\<And>f. Q f \<Longrightarrow> f_status (g f) \<noteq> Uploading" "kept_promise d p"
  shows "kept_promise (update_files Q g d) p"
  using assms by (auto simp: kept_promise_def promised_def getFile_def get_by_update_keep split: if_splits)

lemma promise_reserve:
  assumes "kept_promise d p" shows "kept_promise (snd (reserveUpload nw rnd cfg rinp d)) p"
proof (cases "reserveUpload nw rnd cfg rinp d")
  case (Pair r d')
  show ?thesis
  proof (cases r)
    case (Inl e)
    then show ?thesis using assms Pair reserveUpload_Inl [of nw rnd cfg rinp d e d'] by simp
  next
    case (Inr y)
    then obtain f where "insert_file f d = Inr d'" using reserveUpload_Inr Pair by (cases y) blast
    then have "files d' = files d @ [f]" using insert_file_Inr [of f d d'] by simp
    then have "getFile d' (fst p) = getFile d (fst p)"
      using assms by (auto simp: kept_promise_def getFile_def get_by_append split: option.split)
    then show ?thesis using assms Pair by (simp add: kept_promise_def promised_def)
  qed
qed

lemma promise_step:
  assumes "upload_step C cfg d d'" "kept_promise d p" shows "kept_promise d' p"
  using assms(1)
proof (cases rule: upload_step.cases)
  case create
  then show ?thesis using assms(2) createLink_files promise_same by metis
next
  case revoke
  then show ?thesis using assms(2) by (auto simp: revokeLink_def Let_def intro: promise_same)
next
  case touch
  then show ?thesis using assms(2) by (auto simp: touchLink_def intro: promise_same)
next
  case (reserve rinp nw rnd)
  then show ?thesis using promise_reserve [OF assms(2)] by simp
next
  case other
  then show ?thesis using promise_same assms(2) by blast
qed (use assms(2) in \<open>auto simp: completeUpload_def failUpload_def markMissing_def markDeleted_def Let_def fail_as_def
      intro!: promise_update split: fail_status.split\<close>)

lemma books_step: "books A ps d0 d \<Longrightarrow> upload_step (ap_crypto A) (ap_cfg A) d d' \<Longrightarrow> db_ok d' \<Longrightarrow> books A ps d0 d'"
  unfolding books_def using upload_step_quota promise_step by (meson rtranclp.rtrancl_into_rtrancl)

lemma books_cases:
  assumes "books A ps d0 d" "db_ok d'" "links d' = links d" "files d' = files d" "c_id ` set (cases d) \<subseteq> c_id ` set (cases d')"
  shows "books A ps d0 d'"
  using assms by (intro books_step [OF assms(1)] upload_step.other) (simp_all add: db_ok_def ok_links_def)

text \<open>What the rows of uploads depend on.\<close>

definition upload_tables :: "db \<Rightarrow> case_row list \<times> link_row list \<times> file_row list" where
  "upload_tables d = (cases d, links d, files d)"

interpretation uploads: settings_view upload_tables
  by unfold_locales (simp_all add: upload_tables_def update_admins_def update_passkeys_def)

lemma books_same: "books A ps d0 d \<Longrightarrow> db_ok d' \<Longrightarrow> upload_tables d' = upload_tables d \<Longrightarrow> books A ps d0 d'"
  by (rule books_cases) (auto simp: upload_tables_def)

lemma books_ok: "books A ps d0 d \<Longrightarrow> db_ok d"
  by (simp add: books_def)

text \<open>An upload step that reports, and one that does not.\<close>

lemma books_reserve:
  assumes "books A ps d0 d" "snapshot_of (ri_link rinp) d" shows "books A ps d0 (snd (reserveUpload nw rnd (ap_cfg A) rinp d))"
  by (rule books_step [OF assms(1) upload_step.reserve [OF assms(2)] schema.keeps_reserve [OF books_ok [OF assms(1)] assms(2)]])

lemma books_complete:
  assumes "books A ps d0 d" "has_room i n d" shows "books A ps d0 (snd (completeUpload nw i n sha d))"
proof (cases "\<exists>f. getFile d i = Some f \<and> f_status f = Uploading")
  case True
  then obtain f where f: "getFile d i = Some f" "f_status f = Uploading" by blast
  then have "row_sane f" using assms(1) by (auto simp: books_def quota_ok_def getFile_def dest: get_by_SomeD)
  then have "0 \<le> n" "n \<le> f_reserved_bytes f" using assms(2) f by (auto simp: has_room_def promised_def row_sane_def)
  then show ?thesis
    using books_step [OF assms(1) upload_step.complete [OF f(1)] schema.keeps_complete [OF books_ok [OF assms(1)] assms(2)]] by blast
next
  case False
  have "\<not> (f_id f = i \<and> f_status f = Uploading)" if "f \<in> set (files d)" for f
    using False that assms(1) get_by_SomeI [of f_id "files d" f] by (auto simp: books_def quota_ok_def ok_files_def getFile_def)
  then have "update_where (\<lambda>f. f_id f = i \<and> f_status f = Uploading) g (files d) = files d" for g
    by (intro update_where_none) blast
  then have "snd (completeUpload nw i n sha d) = d" by (simp add: completeUpload_def update_files_def)
  then show ?thesis using assms(1) by simp
qed

lemma accounts_tables:
  "upload_tables (snd (createAdmin C nw rnd salt u pw role mc d)) = upload_tables d"
  "upload_tables (snd (setAdminPassword C salt u pw d)) = upload_tables d"
  "upload_tables (snd (setUserRole actor i role d)) = upload_tables d"
  "upload_tables (snd (setUserDisabled nw actor i b d)) = upload_tables d"
  "upload_tables (snd (deleteUser actor i d)) = upload_tables d"
  "upload_tables (snd (purgeExpiredSessions nw d)) = upload_tables d"
  "upload_tables (snd (addCaseMember nw c i d)) = upload_tables d" "upload_tables (snd (removeCaseMember c i d)) = upload_tables d"
  by (auto simp: purgeExpiredSessions_def upload_tables_def createAdmin_def setAdminPassword_def
      setUserRole_def setUserDisabled_def deleteUser_def addCaseMember_def removeCaseMember_def transaction_def insert_admin_def Let_def
      split: sum.split)

lemma reset_tables: "upload_tables (resetSecondFactors C i d) = upload_tables d"
  by (simp add: resetSecondFactors_def)

lemma passkey_confirm_tables: "upload_tables (snd (verifyPasskeyConfirm C nw sid i cid inp site d)) = upload_tables d"
  by (simp add: verifyPasskeyConfirm_def)

lemma books_reset_password: "resetUserPassword C rnds salt actor i d = Some (r, d') \<Longrightarrow> books A ps d0 d \<Longrightarrow> books A ps d0 d'"
  by (rule books_same, assumption, erule db_ok_user_services(1), erule books_ok)
    (auto simp: upload_tables_def resetUserPassword_def split: sum.splits option.splits)

lemma case_services_keep:
  "links (snd (createCase nw rnd cname desc d)) = links d" "files (snd (createCase nw rnd cname desc d)) = files d"
  "c_id ` set (cases d) \<subseteq> c_id ` set (cases (snd (createCase nw rnd cname desc d)))"
  "links (snd (updateCase nw i up d)) = links d" "files (snd (updateCase nw i up d)) = files d"
  "c_id ` set (cases d) \<subseteq> c_id ` set (cases (snd (updateCase nw i up d)))"
proof -
  have "map c_id (cases (snd (updateCase nw i up d))) = map c_id (cases d)"
    by (simp add: updateCase_def Let_def map_update_where split: option.split)
  then show "c_id ` set (cases d) \<subseteq> c_id ` set (cases (snd (updateCase nw i up d)))" by (metis list.set_map order_refl)
qed (auto simp: createCase_def updateCase_def insert_case_def Let_def split: sum.split option.split)

lemma books_case_services:
  assumes "books A ps d0 d"
  shows "books A ps d0 (snd (createCase nw rnd cname desc d))" "books A ps d0 (snd (updateCase nw i up d))"
  by (rule books_cases [OF assms], rule schema.case_laws [OF books_ok [OF assms]], (rule case_services_keep)+)+

lemma books_uploads:
  assumes "books A ps d0 d"
  shows "books A ps d0 (snd (createLink (ap_crypto A) nw rnd rnd' (ap_cfg A) linp d))" "books A ps d0 (snd (revokeLink nw i d))"
    "books A ps d0 (touchLink nw i d)" "books A ps d0 (snd (failUpload i st d))" "books A ps d0 (markMissing i d)"
    "books A ps d0 (snd (markDeleted nw i d))"
  by (rule books_step [OF assms], rule upload_step.intros, rule schema.case_laws [OF books_ok [OF assms]])+

interpretation books: service_law A "books A ps d0" for A ps d0
  by unfold_locales
    ((rule books_case_services books_uploads, assumption) | (erule (1) books_reset_password) | (erule (1) books_reserve) | (erule (1) books_complete)
      | (rule books_same, assumption, (rule schema.laws, erule books_ok), simp add: accounts_tables reset_tables passkey_confirm_tables))+

section \<open>Administrators\<close>

lemma keeps_admin_standing:
  assumes "map standing (admins d') = map standing (admins d)" shows "keeps_admin d' = keeps_admin d"
proof -
  have "map f (admins d') = map f (admins d)" if "\<And>a. f a = h (standing a)" for f and h :: "_ \<Rightarrow> 'b"
  proof -
    have "map f xs = map h (map standing xs)" for xs using that by simp
    then show ?thesis using assms by metis
  qed
  from this [of a_id fst] this [of a_username "fst \<circ> snd"] this [of "\<lambda>a. a_role a = RoleAdmin \<and> a_disabled_at a = None" "\<lambda>(i, u, r, off). r = RoleAdmin \<and> off = None"]
  have same: "map a_id (admins d') = map a_id (admins d)" "map a_username (admins d') = map a_username (admins d)"
    "map (\<lambda>a. a_role a = RoleAdmin \<and> a_disabled_at a = None) (admins d') = map (\<lambda>a. a_role a = RoleAdmin \<and> a_disabled_at a = None) (admins d)"
    by (simp_all add: standing_def)
  have act: "active_admins e \<noteq> [] \<longleftrightarrow> True \<in> set (map (\<lambda>a. a_role a = RoleAdmin \<and> a_disabled_at a = None) (admins e))" for e
    by (auto simp: active_witness)
  show ?thesis unfolding keeps_admin_def act ok_admins_def same ..
qed

lemma standings_kept:
  "map standing (admins (snd (setAdminPassword C salt u pw d))) = map standing (admins d)"
  "map standing (admins (snd (purgeExpiredSessions nw d))) = map standing (admins d)"
  "map standing (admins (resetSecondFactors C i d)) = map standing (admins d)"
  "map standing (admins (snd (verifyPasskeyConfirm C nw sid i cid inp site d))) = map standing (admins d)"
  by (simp_all add: setAdminPassword_def purgeExpiredSessions_def resetSecondFactors_def verifyPasskeyConfirm_def Let_def
      map_update_where standing_def split: sum.split)

lemma admins_kept:
  "admins (snd (addCaseMember nw c i d)) = admins d" "admins (snd (removeCaseMember c i d)) = admins d"
  "admins (snd (createCase nw rnd cname desc d)) = admins d" "admins (snd (updateCase nw i up d)) = admins d"
  "admins (snd (revokeLink nw i d)) = admins d" "admins (touchLink nw i d) = admins d"
  "admins (snd (completeUpload nw i n sha d)) = admins d" "admins (snd (failUpload i st d)) = admins d"
  "admins (markMissing i d) = admins d" "admins (snd (markDeleted nw i d)) = admins d"
  by (auto simp: addCaseMember_def removeCaseMember_def createCase_def updateCase_def insert_case_def revokeLink_def touchLink_def
      completeUpload_def failUpload_def markMissing_def markDeleted_def Let_def split: sum.split option.split)

lemma admins_kept_inserts:
  "admins (snd (createLink C nw rnd rnd' cfg linp d)) = admins d" "admins (snd (reserveUpload nw rnd cfg rinp d)) = admins d"
  by (auto simp: createLink_def reserveUpload_def transaction_def insert_link_def insert_file_def Let_def split_beta
      split: sum.split option.split)

lemma keeps_admin_create: "keeps_admin d \<Longrightarrow> keeps_admin (snd (createAdmin C nw rnd salt u pw role mc d))"
  by (auto simp: createAdmin_def insert_admin_def has_admin_def keeps_admin_def ok_admins_def active_admins_def Let_def split: sum.split if_splits)

lemma keeps_admin_reset_password: "resetUserPassword C rnds salt actor i d = Some (r, d') \<Longrightarrow> keeps_admin d \<Longrightarrow> keeps_admin d'"
  by (rule iffD2 [OF keeps_admin_standing])
    (auto simp: resetUserPassword_def map_update_where standing_def split: sum.splits option.splits)

interpretation admins: service_law A keeps_admin for A
  by unfold_locales
    ((rule keeps_admin_create setUserRole_keeps setUserDisabled_keeps deleteUser_keeps, assumption) | (erule (1) keeps_admin_reset_password)
      | (subst keeps_admin_standing, (simp add: standings_kept admins_kept admins_kept_inserts; fail), assumption))+

section \<open>Steps of the site\<close>

text \<open>
  The first component of a state holds what running uploads may bring: for a direct upload the limit it
  was given, for a tus upload the length its creation announced, which the tus server keeps. Between the
  two ends of an upload anything may happen. The tus server writes the storage at any time, and the
  commands run beside the server on the same database and storage.
\<close>

inductive site_step ::
  "app \<Rightarrow> 's services \<Rightarrow> ('m, 's) machine \<Rightarrow> (string \<times> int) set \<times> 's world \<Rightarrow> (string \<times> int) set \<times> 's world \<Rightarrow> bool"
  for A :: app and S :: "'s services" and M :: "('m, 's) machine" where
  request: "createApp A S out nw rnd req segs w = (rep, w') \<Longrightarrow> site_step A S M (ps, w) (ps, w')"
| upload_begins: "api_gate A nw req0 (w_db w) = (Inr req, d1) \<Longrightarrow> rq_uploadLink req = Some r \<Longrightarrow>
    direct_start A nw newid req r name d1 = (Inr (Inr (f, mx)), d2) \<Longrightarrow>
    site_step A S M (ps, w) (insert (f_id f, mx) ps, w\<lparr>w_db := d2\<rparr>)"
| upload_ends: "(i, mx) \<in> ps \<Longrightarrow>
    direct_finish (sv_backend S) nw req r name i mx tr (w_db w) (w_store w) = (resp, d', s') \<Longrightarrow>
    site_step A S M (ps, w) (ps, w\<lparr>w_db := d', w_store := s'\<rparr>)"
| tus_begins: "linkOf req = Inr r \<Longrightarrow> snapshot_of (rl_link r) (w_db w) \<Longrightarrow> tu_size u = Some n \<Longrightarrow>
    onUploadCreate A nw req u (w_db w) = (Inr (), d') \<Longrightarrow> site_step A S M (ps, w) (insert (tu_id u, n) ps, w\<lparr>w_db := d'\<rparr>)"
| tus_refused: "linkOf req = Inr r \<Longrightarrow> snapshot_of (rl_link r) (w_db w) \<Longrightarrow>
    onUploadCreate A nw req u (w_db w) = (Inl e, d') \<Longrightarrow> site_step A S M (ps, w) (ps, w\<lparr>w_db := d'\<rparr>)"
| tus_ends: "tu_size u = Some n \<Longrightarrow> (tu_id u, n) \<in> ps \<Longrightarrow> 0 \<le> n \<Longrightarrow>
    onUploadFinish A (sv_backend S) nw req u (w_db w) (w_store w) = (x, d', s') \<Longrightarrow>
    site_step A S M (ps, w) (ps, w\<lparr>w_db := d', w_store := s'\<rparr>)"
| tus_terminates: "site_step A S M (ps, w) (ps, w\<lparr>w_db := onTerminate nw req i (w_db w)\<rparr>)"
| tus_writes: "site_step A S M (ps, w) (ps, w\<lparr>w_store := s'\<rparr>)"
| housekeeping: "runCleanup (sv_backend S) (sv_tusRemove S) nw ttl vf (w_db w) (w_store w) = Some (rep, d', s') \<Longrightarrow>
    site_step A S M (ps, w) (ps, w\<lparr>w_db := d', w_store := s'\<rparr>)"
| command: "mc_crypto M = ap_crypto A \<Longrightarrow>
    cli_main M env nw newid salt ty argv \<lparr>cw_schema = sch, cw_db = w_db w, cw_store = w_store w\<rparr> = (printed, cw) \<Longrightarrow>
    site_step A S M (ps, w) (ps, w\<lparr>w_db := cw_db cw, w_store := cw_store cw\<rparr>)"

abbreviation site_run ::
  "app \<Rightarrow> 's services \<Rightarrow> ('m, 's) machine \<Rightarrow> (string \<times> int) set \<times> 's world \<Rightarrow> (string \<times> int) set \<times> 's world \<Rightarrow> bool" where
  "site_run A S M \<equiv> (site_step A S M)\<^sup>*\<^sup>*"

inductive_cases site_stepE: "site_step A S M (ps, w) (ps', w')"

lemma promise_room: "kept_promise d (i, n) \<Longrightarrow> 0 \<le> n \<Longrightarrow> has_room i n d"
  by (simp add: kept_promise_def has_room_def)

context service_law
begin

text \<open>A law of the services is a law of the site.\<close>

lemma kept_step:
  assumes "site_step A S M (ps, w) (ps', w')" and "bounded_put (sv_backend S)" and "\<forall>p \<in> ps. kept_promise (w_db w) p" and "P (w_db w)"
  shows "P (w_db w')"
proof (rule site_stepE [OF assms(1)], goal_cases)
  case (1 out nw rnd req segs rep)
  then show ?case using kept_request [OF assms(4,2), of out nw rnd req segs] by simp
next
  case (2 nw req0 req d1 r newid name f mx d2)
  have "P d1" using kept_gate [OF assms(4), of nw req0] 2(1) by simp
  from kept_start [OF this gate_snapshot [OF 2(1,2)], of nw newid req name] show ?case using 2 by simp
next
  case (3 i mx nw req r name tr resp d' s')
  have "promised i mx (w_db w)" using assms(3) 3(1,3) by (auto simp: kept_promise_def)
  from kept_finish [OF assms(4,2) this, of nw req r name tr "w_store w"] show ?case using 3 by simp
next
  case (4 req r u n nw d')
  from kept_create [OF assms(4) 4(1,2), of nw u] show ?case using 4 by simp
next
  case (5 req r nw u e d')
  from kept_create [OF assms(4) 5(1,2), of nw u] show ?case using 5 by simp
next
  case (6 u n nw req x d' s')
  have "kept_promise (w_db w) (tu_id u, n)" using assms(3) 6(1,4) by blast
  then have "has_room (tu_id u) m (w_db w)" if "tu_size u = Some m" for m using that 6(3,5) promise_room by simp
  from kept_upload_finish [OF assms(4) this, of "sv_backend S" nw req "w_store w"] show ?case using 6 by simp
next
  case (7 nw req i)
  then show ?case using kept_terminate [OF assms(4)] by simp
next
  case (9 nw ttl vf rep d' s')
  then show ?case using kept_cleanup [OF 9(1) assms(4)] by simp
next
  case (10 env nw newid salt ty argv sch printed cw)
  have "P (cw_db \<lparr>cw_schema = sch, cw_db = w_db w, cw_store = w_store w\<rparr>)" using assms(4) by simp
  from kept_command [OF this 10(1), of env nw newid salt ty argv] show ?case using 10 by simp
qed (use assms(4) in simp)

end

section \<open>Runs of the site\<close>

lemma start_kept:
  assumes "direct_start A nw rnd req r name d = (Inr (Inr (f, mx)), d')" shows "kept_promise d' (f_id f, mx)"
proof -
  have "f \<in> set (files d')" using direct_start_row [OF assms] by simp
  then have "getFile d' (f_id f) \<noteq> None" by (auto simp: getFile_def get_by_None_iff)
  then show ?thesis using start_promised [OF assms] by (simp add: kept_promise_def)
qed

lemma create_kept:
  assumes "linkOf req = Inr r" "tu_size u = Some n" "onUploadCreate A nw req u d = (Inr (), d')"
  shows "kept_promise d' (tu_id u, n)"
proof -
  let ?inp = "\<lparr>ri_link = rl_link r, ri_originalName = Some (case tu_filename u of Some f \<Rightarrow> f | None \<Rightarrow> ''unnamed''),
                 ri_uploadKind = KTus, ri_declaredSize = Some (Num (of_int n)), ri_clientIp = rq_ip req, ri_id = Some (tu_id u)\<rparr>"
  obtain x d1 where run: "reserveUpload nw [] (ap_cfg A) ?inp d = (x, d1)" by fastforce
  with assms obtain f mx where x: "x = Inr (f, mx)" "files d' = files d1"
    by (auto simp: onUploadCreate_def Let_def split: sum.splits if_splits exn.splits)
  from reserveUpload_Inr [OF run [unfolded x(1)]] have f: "f_id f = tu_id u" "f_reserved_bytes f = n" "insert_file f d = Inr d1"
    by (auto simp: reserved_row_def)
  then have "files d' = files d @ [f]" "f_id f \<notin> f_id ` set (files d)"
    using insert_file_Inr [OF f(3)] x(2) by (auto simp: insert_file_def split: if_splits)
  then have "getFile d' (tu_id u) = Some f"
    using f(1) by (auto simp: getFile_def get_by_append get_by_Cons get_by_None_iff [THEN iffD2])
  then show ?thesis using f(2) by (simp add: kept_promise_def promised_def)
qed

lemma books_promises: "books A ps d0 d \<Longrightarrow> \<forall>p \<in> ps. kept_promise d p"
  by (simp add: books_def)

lemma books_insert: "books A ps d0 d \<Longrightarrow> kept_promise d p \<Longrightarrow> books A (insert p ps) d0 d"
  by (simp add: books_def)

lemma step_books:
  assumes "site_step A S M (ps, w) (ps', w')" "bounded_put (sv_backend S)" "books A ps d0 (w_db w)"
  shows "books A ps' d0 (w_db w')"
proof -
  have "books A ps d0 (w_db w')" by (rule books.kept_step [OF assms(1,2) books_promises [OF assms(3)] assms(3)])
  moreover have "ps' = ps \<or> (\<exists>p. ps' = insert p ps \<and> kept_promise (w_db w') p)"
    by (rule site_stepE [OF assms(1)]; simp; blast intro: start_kept create_kept)
  ultimately show ?thesis using books_insert by blast
qed

lemma run_books:
  assumes "site_run A S M (ps, w) (ps', w')" "bounded_put (sv_backend S)" "books A ps d0 (w_db w)"
  shows "books A ps' d0 (w_db w')"
  using assms(1) by (induction rule: rtranclp_induct2) (use assms(3) step_books [OF _ assms(2)] in blast)+

text \<open>Where a run may start: nothing is being uploaded, and the database is one the program made, such as the empty one.\<close>

definition site_start :: "app \<Rightarrow> 's services \<Rightarrow> db \<Rightarrow> bool" where
  "site_start A S d \<longleftrightarrow> 0 \<le> cf_maxFileBytes (ap_cfg A) \<and> bounded_put (sv_backend S) \<and> db_ok d \<and> quota_ok d"

lemma run_from_start:
  "site_run A S M ({}, w0) (ps, w) \<Longrightarrow> site_start A S (w_db w0) \<Longrightarrow> books A ps (w_db w0) (w_db w)"
  by (rule run_books) (auto simp: site_start_def books_def)

text \<open>So a law of the services that holds where a run starts holds where it ends.\<close>

context service_law
begin

lemma run_kept:
  assumes "site_run A S M ({}, w0) (ps, w)" "site_start A S (w_db w0)" "P (w_db w0)"
  shows "P (w_db w)"
proof -
  have put: "bounded_put (sv_backend S)" and start: "books A {} (w_db w0) (w_db w0)"
    using assms(2) by (simp_all add: site_start_def books_def)
  have "P (w_db w) \<and> books A ps (w_db w0) (w_db w)"
    using assms(1)
  proof (induction rule: rtranclp_induct2)
    case refl
    show ?case using assms(3) start by simp
  next
    case (step ps1 w1 ps2 w2)
    then show ?case using kept_step [OF step.hyps(2) put books_promises] step_books [OF step.hyps(2) put] by blast
  qed
  then show ?thesis by simp
qed

end

text \<open>C4: no run of the site, whatever requests, uploads, housekeeping and commands it is made of and however they
  interleave, lets a link hold more bytes (stored and reserved together) than its total limit or more
  files than its file limit.\<close>

theorem site_quota_kept:
  assumes "site_run A S M ({}, w0) (ps, w)" and "site_start A S (w_db w0)" and "l \<in> set (links (w_db w))"
  shows "(\<forall>n. l_max_total_bytes l = Some n \<longrightarrow>
      lu_used_bytes (linkUsage (w_db w) (l_id l)) + lu_reserved_bytes (linkUsage (w_db w) (l_id l)) \<le> n) \<and>
    (\<forall>n. l_max_files l = Some n \<longrightarrow>
      int (lu_file_count (linkUsage (w_db w) (l_id l))) + int (lu_uploading_count (linkUsage (w_db w) (l_id l))) \<le> n)"
proof -
  have "link_within (files (w_db w)) l"
    using run_from_start [OF assms(1,2)] assms(3) by (simp add: books_def quota_ok_def)
  then show ?thesis unfolding link_within_def usage_held(1) using usage_held(2) [of "w_db w" "l_id l"] by (metis of_nat_add)
qed

text \<open>C7: in no run of the site is a file row lost or taken back: it keeps its identity, link, name and declared
  size, its status only moves forward, and its size and hash are final once the upload ended.\<close>

theorem site_file_life:
  assumes "site_run A S M ({}, w0) (ps, w)" and "site_start A S (w_db w0)" and "getFile (w_db w0) i = Some f"
  shows "\<exists>g. getFile (w_db w) i = Some g \<and> same_file f g \<and> status_next\<^sup>*\<^sup>* (f_status f) (f_status g)"
  using run_from_start [OF assms(1,2)] file_life assms(3) unfolding books_def by blast

text \<open>No run of the site breaks the schema: keys stay unique, and no session, code, passkey, binding, assignment,
  link or file outlives what it belongs to.\<close>

lemma site_schema_kept:
  assumes "site_run A S M ({}, w0) (ps, w)" and "site_start A S (w_db w0)"
  shows "db_ok (w_db w)"
  using run_from_start [OF assms] by (rule books_ok)

text \<open>C9: no run of the site, neither the panel nor the command line, leaves it without an enabled administrator,
  if it had one at the start.\<close>

theorem site_admin_remains:
  assumes "site_run A S M ({}, w0) (ps, w)" and "site_start A S (w_db w0)"
    and "\<exists>a \<in> set (admins (w_db w0)). a_role a = RoleAdmin \<and> a_disabled_at a = None"
  shows "\<exists>a \<in> set (admins (w_db w)). a_role a = RoleAdmin \<and> a_disabled_at a = None"
  using admins.run_kept [OF assms(1,2)] assms(2,3) by (simp add: keeps_admin_def active_witness site_start_def db_ok_def)

section \<open>Both storages keep to their limit\<close>

lemma bounded_run: "pipe_limited mx cs failure new_limiter [] = (None, l, data) \<Longrightarrow> 0 \<le> lim_size l \<and> lim_size l \<le> max 0 mx"
  unfolding pipe_limited_ok by (cases "cs = []") (auto simp: new_limiter_def dest!: spec [of _ "length cs"])

lemma bounded_local: "bounded_put (local_backend C cwd directory)"
  unfolding bounded_put_def local_backend_def backend.simps
proof (intro allI impI)
  fix nw k mx s r s' and src :: source
  let ?run = "pipe_limited mx (src_chunks src) (src_error src) new_limiter []"
  assume "local_put C cwd directory nw k src mx s = (Inr r, s')"
  then have "fst ?run = None" "pr_size r = lim_size (fst (snd ?run))"
    by (auto simp: local_put_def Let_def split: sum.splits option.splits prod.splits if_splits)
  then show "0 \<le> pr_size r \<and> pr_size r \<le> max 0 mx"
    using bounded_run [of mx "src_chunks src" "src_error src" "fst (snd ?run)" "snd (snd ?run)"] by (metis prod.collapse)
qed

lemma bounded_s3: "bounded_put (s3_backend C svc partSize)"
  unfolding bounded_put_def s3_backend_def backend.simps
proof (intro allI impI)
  fix nw k mx s r s' and src :: source
  let ?run = "pipe_limited mx (src_chunks src) (src_error src) new_limiter []"
  assume "s3_put C svc partSize k src mx s = (Inr r, s')"
  then have "fst ?run = None" "pr_size r = lim_size (fst (snd ?run))"
    by (auto simp: s3_put_def Let_def split: sum.splits option.splits prod.splits)
  then show "0 \<le> pr_size r \<and> pr_size r \<le> max 0 mx"
    using bounded_run [of mx "src_chunks src" "src_error src" "fst (snd ?run)" "snd (snd ?run)"] by (metis prod.collapse)
qed

section \<open>A run\<close>

text \<open>A direct upload of three bytes to the link of the example, through the front door.\<close>

definition demo_upload :: request where
  "demo_upload = (demo_request ''PUT'')\<lparr>rq_path := ''/api/upload/b.txt'',
     rq_headers := [''authorization'' \<mapsto> ''Bearer '' @ newToken (replicate 32 7), ''content-length'' \<mapsto> ''3'']\<rparr>"

definition demo_uploaded :: "reply \<times> fs world" where
  "demo_uploaded = createApp demo_app demo_services nothing_outside 5 demo_panel_draws demo_upload [''api'', ''upload'', ''b.txt''] (demo_world demo_q5)"

definition demo_machine :: "(unit, fs) machine" where
  "demo_machine =
     \<lparr>mc_platform = \<lparr>pl_cwd = ''/srv'', pl_url_protocol = (\<lambda>u. Some ''https:'')\<rparr>, mc_crypto = demo_crypto, mc_open = (\<lambda>c. Inr ()),
      mc_applySql = (\<lambda>f s. Inr s), mc_migrations = [''001_init.sql''],
      mc_storage = (\<lambda>c. local_backend demo_crypto ''/'' ''/data''), mc_tusRemove = (\<lambda>c i s. (Inr (), s))\<rparr>"

lemma demo_start: "site_start demo_app demo_services demo_q5"
proof -
  have "db_ok demo_q5" by code_simp
  moreover have "quota_ok demo_q5"
    using upload_run_quota [OF rtranclp_trans [OF demo_run4 demo_run5] _ quota_ok_empty] by (simp add: demo_config_def)
  ultimately show ?thesis by (simp add: site_start_def demo_services_def bounded_local demo_app_def demo_config_def)
qed

lemma demo_run: "site_run demo_app demo_services demo_machine ({}, demo_world demo_q5) ({}, snd demo_uploaded)"
  by (rule r_into_rtranclp, rule site_step.request) (simp add: demo_uploaded_def prod_eq_iff)

lemma demo_uploaded_facts:
  "case demo_uploaded of (rep, w) \<Rightarrow>
     (case rep of Reply (Some resp) \<Rightarrow> rs_status resp = 201 | _ \<Rightarrow> False) \<and>
     map (\<lambda>l. (l_id l = l_id (hd (links demo_q5)), l_max_total_bytes l)) (links (w_db w)) = [(True, Some 100)]"
  by code_simp

theorem site_quota_kept_witness:
  "(case fst demo_uploaded of Reply (Some resp) \<Rightarrow> rs_status resp = 201 | _ \<Rightarrow> False) \<and>
   lu_used_bytes (linkUsage (w_db (snd demo_uploaded)) (l_id (hd (links demo_q5)))) +
   lu_reserved_bytes (linkUsage (w_db (snd demo_uploaded)) (l_id (hd (links demo_q5)))) \<le> 100"
proof -
  let ?l = "hd (links (w_db (snd demo_uploaded)))"
  obtain rep w where u: "demo_uploaded = (rep, w)" by fastforce
  have created: "case fst demo_uploaded of Reply (Some resp) \<Rightarrow> rs_status resp = 201 | _ \<Rightarrow> False"
    and linked: "map (\<lambda>l. (l_id l = l_id (hd (links demo_q5)), l_max_total_bytes l)) (links (w_db (snd demo_uploaded))) = [(True, Some 100)]"
    using demo_uploaded_facts by (simp_all only: u prod.case fst_conv snd_conv)
  from linked have "links (w_db (snd demo_uploaded)) \<noteq> []" "l_id ?l = l_id (hd (links demo_q5))" "l_max_total_bytes ?l = Some 100"
    by (auto simp: map_eq_Cons_conv)
  then show ?thesis using created site_quota_kept [OF demo_run _ hd_in_set] demo_start by (simp add: demo_world_def)
qed

theorem site_file_life_witness:
  "\<exists>f g. getFile demo_q5 (newId ''f'' (replicate 12 2)) = Some f \<and>
     getFile (w_db (snd demo_uploaded)) (newId ''f'' (replicate 12 2)) = Some g \<and> same_file f g"
proof -
  have "getFile demo_q5 (newId ''f'' (replicate 12 2)) \<noteq> None" by code_simp
  then show ?thesis using site_file_life [OF demo_run] demo_start by (fastforce simp: demo_world_def)
qed

text \<open>An operator resets the second factors of one of two administrators.\<close>

definition demo_disabled :: "(printed list \<times> process_end) \<times> (unit, fs) cli_world" where
  "demo_disabled = cli_main demo_machine [''PUBLIC_URL'' \<mapsto> ''https://box.example''] 5 [] []
     \<lparr>ty_stdin = [], ty_first = [], ty_second = []\<rparr> [''disable-totp'', ''ann'']
     \<lparr>cw_schema = \<lparr>mg_schema = (), mg_applied = []\<rparr>, cw_db = demo_accounts, cw_store = []\<rparr>"

theorem site_admin_remains_witness:
  "snd (fst demo_disabled) = Exits 0 \<and> (\<exists>a \<in> set (admins (cw_db (snd demo_disabled))). a_role a = RoleAdmin \<and> a_disabled_at a = None)"
proof -
  have step: "site_run demo_app demo_services demo_machine ({}, demo_world demo_accounts)
      ({}, (demo_world demo_accounts)\<lparr>w_db := cw_db (snd demo_disabled), w_store := cw_store (snd demo_disabled)\<rparr>)"
  proof (rule r_into_rtranclp, rule site_step.command)
    show "mc_crypto demo_machine = ap_crypto demo_app" by (simp add: demo_machine_def demo_app_def)
    show "cli_main demo_machine [''PUBLIC_URL'' \<mapsto> ''https://box.example''] 5 [] [] \<lparr>ty_stdin = [], ty_first = [], ty_second = []\<rparr>
        [''disable-totp'', ''ann''] \<lparr>cw_schema = \<lparr>mg_schema = (), mg_applied = []\<rparr>, cw_db = w_db (demo_world demo_accounts),
          cw_store = w_store (demo_world demo_accounts)\<rparr> = (fst demo_disabled, snd demo_disabled)"
      by (simp add: demo_disabled_def demo_world_def)
  qed
  have start: "site_start demo_app demo_services demo_accounts"
    by (simp add: site_start_def demo_services_def bounded_local demo_app_def demo_config_def demo_accounts_def db_ok_def ok_defs
        empty_db_def demo_admin_def quota_ok_def)
  have "snd (fst demo_disabled) = Exits 0" by code_simp
  then show ?thesis using site_admin_remains [OF step] start
    by (simp add: demo_world_def) (simp add: demo_accounts_def demo_admin_def)
qed

end
