(* ===== verification/SiteTrail.thy ===== *)
theory SiteTrail
  imports SiteRuns
begin

text \<open>
  Two more laws of the whole site: the audit trail only grows, and a link keeps what it was made with. The
  views of AdminFrames cover the services of the accounts, the locale of SiteLaws carries the laws through
  the handlers, the hooks, housekeeping and the commands.
\<close>

section \<open>The audit trail\<close>

definition trail_grows :: "db \<Rightarrow> db \<Rightarrow> bool" where
  "trail_grows d0 d \<longleftrightarrow> (\<exists>rows. audit_log d = audit_log d0 @ rows)"

lemma trail_refl: "trail_grows d d"
  by (simp add: trail_grows_def)

lemma trail_same: "trail_grows d0 d \<Longrightarrow> audit_log d' = audit_log d \<Longrightarrow> trail_grows d0 d'"
  by (simp add: trail_grows_def)

lemma trail_audit: "trail_grows d0 d \<Longrightarrow> trail_grows d0 (audit nw ev d)"
  by (auto simp: trail_grows_def audit_def Let_def)

interpretation trail: owner_view audit_log
  by unfold_locales (simp_all add: update_admins_def update_passkeys_def)

text \<open>No service writes the trail: the handlers do.\<close>

lemma trail_users:
  "audit_log (snd (createAdmin C nw rnd salt u pw role mc d)) = audit_log d"
  "audit_log (snd (setAdminPassword C salt u pw d)) = audit_log d"
  "audit_log (snd (setUserRole actor i role d)) = audit_log d"
  "audit_log (snd (setUserDisabled nw actor i b d)) = audit_log d"
  "audit_log (snd (deleteUser actor i d)) = audit_log d"
  "audit_log (snd (purgeExpiredSessions nw d)) = audit_log d"
  "audit_log (resetSecondFactors C i d) = audit_log d"
  "audit_log (snd (addCaseMember nw c i d)) = audit_log d" "audit_log (snd (removeCaseMember c i d)) = audit_log d"
  by (auto simp: purgeExpiredSessions_def createAdmin_def setAdminPassword_def resetSecondFactors_def
      setUserRole_def setUserDisabled_def deleteUser_def addCaseMember_def removeCaseMember_def transaction_def insert_admin_def Let_def
      split: sum.split)

lemma trail_uploads:
  "audit_log (snd (createCase nw rnd cname desc d)) = audit_log d" "audit_log (snd (updateCase nw i up d)) = audit_log d"
  "audit_log (snd (revokeLink nw i d)) = audit_log d" "audit_log (touchLink nw i d) = audit_log d"
  "audit_log (snd (completeUpload nw i n sha d)) = audit_log d" "audit_log (snd (failUpload i st d)) = audit_log d"
  "audit_log (markMissing i d) = audit_log d" "audit_log (snd (markDeleted nw i d)) = audit_log d"
  by (auto simp: createCase_def updateCase_def insert_case_def revokeLink_def touchLink_def
      completeUpload_def failUpload_def markMissing_def markDeleted_def Let_def split: sum.split option.split)

lemma trail_inserts:
  "audit_log (snd (createLink C nw rnd rnd' cfg linp d)) = audit_log d" "audit_log (snd (reserveUpload nw rnd cfg rinp d)) = audit_log d"
  by (auto simp: createLink_def reserveUpload_def transaction_def insert_link_def insert_file_def Let_def split_beta
      split: sum.split option.split)

lemma trail_reset_password: "resetUserPassword C rnds salt actor i d = Some (r, d') \<Longrightarrow> audit_log d' = audit_log d"
  by (auto simp: resetUserPassword_def split: sum.splits option.splits)

interpretation trails: service_law A "trail_grows d0" for A d0
  by unfold_locales
    ((rule trail_audit, assumption) | (erule trail_same, erule trail_reset_password)
      | (rule trail_same, assumption, simp add: trail_users trail_uploads trail_inserts))+

section \<open>The links\<close>

text \<open>What a link is made with: everything but its revocation and its last use.\<close>

definition link_core :: "link_row \<Rightarrow> link_row" where
  "link_core l = l\<lparr>l_revoked_at := None, l_last_used_at := None\<rparr>"

definition link_later :: "link_row \<Rightarrow> link_row \<Rightarrow> bool" where
  "link_later l l' \<longleftrightarrow> link_core l' = link_core l \<and> (l_revoked_at l \<noteq> None \<longrightarrow> l_revoked_at l' = l_revoked_at l)"

definition links_kept :: "db \<Rightarrow> db \<Rightarrow> bool" where
  "links_kept d0 d \<longleftrightarrow> (\<forall>l \<in> set (links d0). \<exists>l' \<in> set (links d). link_later l l')"

lemma links_kept_refl: "links_kept d d"
  by (auto simp: links_kept_def link_later_def)

lemma links_kept_trans: "links_kept d0 d1 \<Longrightarrow> links_kept d1 d2 \<Longrightarrow> links_kept d0 d2"
  unfolding links_kept_def link_later_def by metis

lemma links_same: "links_kept d0 d \<Longrightarrow> upload_tables d' = upload_tables d \<Longrightarrow> links_kept d0 d'"
  by (simp add: links_kept_def upload_tables_def)

lemma links_update:
  assumes "\<And>l. l \<in> set (links d) \<Longrightarrow> Q l \<Longrightarrow> link_later l (g l)" shows "links_kept d (update_links Q g d)"
  unfolding links_kept_def
proof
  fix l assume l: "l \<in> set (links d)"
  let ?l = "if Q l then g l else l"
  have "?l \<in> set (links (update_links Q g d))" using l by (auto simp: update_where_def)
  moreover have "link_later l ?l" using assms [OF l] by (simp add: link_later_def)
  ultimately show "\<exists>l' \<in> set (links (update_links Q g d)). link_later l l'" by blast
qed

lemma links_files: "links_kept d (update_files Q g d)"
  by (simp add: links_kept_def update_files_def link_later_def) blast

lemma links_insert:
  "links_kept d (snd (createLink C nw rnd rnd' cfg linp d))" "links_kept d (snd (reserveUpload nw rnd cfg rinp d))"
  using links_kept_refl [of d]
  by (auto simp: createLink_def reserveUpload_def transaction_def insert_link_def insert_file_def links_kept_def Let_def split_beta
      split: sum.split option.split)

lemma links_uploads:
  "links_kept d (snd (revokeLink nw i d))" "links_kept d (touchLink nw i d)"
  "links_kept d (snd (completeUpload nw i n sha d))" "links_kept d (snd (failUpload i st d))"
  "links_kept d (markMissing i d)" "links_kept d (snd (markDeleted nw i d))"
  by (auto simp: revokeLink_def touchLink_def completeUpload_def failUpload_def markMissing_def markDeleted_def Let_def
      link_later_def link_core_def intro!: links_update links_files)

lemma links_cases:
  "links_kept d (snd (createCase nw rnd cname desc d))" "links_kept d (snd (updateCase nw i up d))"
  using links_kept_refl [of d] case_services_keep by (simp_all add: links_kept_def)

lemma links_reset_password: "resetUserPassword C rnds salt actor i d = Some (r, d') \<Longrightarrow> upload_tables d' = upload_tables d"
  by (auto simp: upload_tables_def resetUserPassword_def split: sum.splits option.splits)

interpretation kept_links: service_law A "links_kept d0" for A d0
  by unfold_locales
    ((rule links_kept_trans, assumption, rule links_insert links_uploads links_cases) | (erule links_same, erule links_reset_password)
      | (rule links_same, assumption, simp add: accounts_tables reset_tables))+

section \<open>What no run of the site undoes\<close>

text \<open>C14: the audit trail only grows: no run of the site changes, reorders or removes a row that was written.\<close>

theorem site_trail_append_only:
  assumes "site_run A S M ({}, w0) (ps, w)" and "site_start A S (w_db w0)"
  shows "\<exists>rows. audit_log (w_db w) = audit_log (w_db w0) @ rows"
  using trails.run_kept [OF assms trail_refl] by (simp add: trail_grows_def)

lemma resolveToken_Some:
  "resolveToken C nw tok d = Some r \<longleftrightarrow> TOKEN_RE tok \<and> (\<exists>l c. get_by l_token_hash (sha256Hex C tok) (links d) = Some l \<and>
     getCase d (l_case_id l) = Some c \<and> r = \<lparr>rl_link = l, rl_case = c, rl_state = linkState nw l c\<rparr>)"
  by (auto simp: resolveToken_def split: option.splits if_splits)

lemma dead_link:
  "linkState nw l c \<in> {LinkRevoked, LinkExpired} \<longleftrightarrow>
     l_revoked_at l \<noteq> None \<or> (case l_expires_at l of None \<Rightarrow> False | Some e \<Rightarrow> e \<le> nw)"
  by (simp add: linkState_def)

lemma dead_link_later:
  assumes "link_later l l'" "linkState nw l c \<in> {LinkRevoked, LinkExpired}" "nw \<le> nw'"
  shows "linkState nw' l' c' \<in> {LinkRevoked, LinkExpired}"
proof -
  have "l_expires_at l' = l_expires_at l" using assms(1) by (auto simp: link_later_def link_core_def dest: arg_cong [of _ _ l_expires_at])
  then show ?thesis using assms unfolding dead_link by (auto simp: link_later_def split: option.splits)
qed

text \<open>C13: revocation and expiry are final: a token whose link is revoked or expired finds, after any run of the
  site and at any later time, the same link with the same case and limits, and it is still not usable.\<close>

theorem site_revocation_final:
  assumes "site_run A S M ({}, w0) (ps, w)" and "site_start A S (w_db w0)"
    and "resolveToken C nw tok (w_db w0) = Some r" and "rl_state r \<in> {LinkRevoked, LinkExpired}" and "nw \<le> nw'"
  shows "\<exists>r'. resolveToken C nw' tok (w_db w) = Some r' \<and> rl_state r' \<in> {LinkRevoked, LinkExpired} \<and>
    link_core (rl_link r') = link_core (rl_link r)"
proof -
  obtain l c where l: "TOKEN_RE tok" "l \<in> set (links (w_db w0))" "l_token_hash l = sha256Hex C tok"
    "getCase (w_db w0) (l_case_id l) = Some c" "r = \<lparr>rl_link = l, rl_case = c, rl_state = linkState nw l c\<rparr>"
    using assms(3) unfolding resolveToken_Some by (auto dest: get_by_SomeD)
  have kept: "links_kept (w_db w0) (w_db w)" by (rule kept_links.run_kept [OF assms(1,2) links_kept_refl])
  then obtain l' where l': "l' \<in> set (links (w_db w))" "link_later l l'" using l(2) by (auto simp: links_kept_def)
  then have same: "l_token_hash l' = l_token_hash l" "l_case_id l' = l_case_id l"
    by (auto simp: link_later_def link_core_def dest: arg_cong [of _ _ l_token_hash] arg_cong [of _ _ l_case_id])
  have ok: "db_ok (w_db w)" using run_from_start [OF assms(1,2)] by (rule books_ok)
  then have "has_case (l_case_id l) (w_db w)" using l'(1) same(2) by (auto simp: db_ok_def ok_links_def)
  then obtain c' where "getCase (w_db w) (l_case_id l) = Some c'"
    using get_by_None_iff [of c_id "l_case_id l" "cases (w_db w)"] by (auto simp: getCase_def has_case_def)
  moreover have "get_by l_token_hash (sha256Hex C tok) (links (w_db w)) = Some l'"
    using get_by_SomeI [of l_token_hash "links (w_db w)" l'] l'(1) ok same l(3) by (simp add: db_ok_def ok_links_def)
  ultimately have "resolveToken C nw' tok (w_db w) = Some \<lparr>rl_link = l', rl_case = c', rl_state = linkState nw' l' c'\<rparr>"
    using l(1) same unfolding resolveToken_Some by simp
  then show ?thesis using dead_link_later [OF l'(2) _ assms(5)] l(5) assms(4) l'(2) by (simp add: link_later_def)
qed

section \<open>A revoked link\<close>

text \<open>The link of the example is revoked, and the upload of SiteRuns is tried again.\<close>

definition demo_q6 :: db where
  "demo_q6 = snd (revokeLink 3 (l_id (hd (links demo_q5))) demo_q5)"

definition demo_refused :: "reply \<times> fs world" where
  "demo_refused = createApp demo_app demo_services nothing_outside 5 demo_panel_draws demo_upload [''api'', ''upload'', ''b.txt''] (demo_world demo_q6)"

lemma demo_refused_run: "site_run demo_app demo_services demo_machine ({}, demo_world demo_q6) ({}, snd demo_refused)"
  by (rule r_into_rtranclp, rule site_step.request) (simp add: demo_refused_def prod_eq_iff)

lemma demo_refused_start: "site_start demo_app demo_services demo_q6"
  using demo_start upload_step_quota [OF upload_step.revoke] db_ok_link_services(2) [OF _ prod.collapse [symmetric]]
  unfolding site_start_def demo_q6_def by blast

theorem site_trail_append_only_witness:
  "\<exists>rows. audit_log (w_db (snd demo_uploaded)) = audit_log demo_q5 @ rows"
  using site_trail_append_only [OF demo_run] demo_start by (simp add: demo_world_def)

theorem site_revocation_final_witness:
  "(case fst demo_refused of Reply (Some resp) \<Rightarrow> rs_status resp = 403 | _ \<Rightarrow> False) \<and>
   (\<exists>r. resolveToken demo_crypto 9 (newToken (replicate 32 7)) (w_db (snd demo_refused)) = Some r \<and>
      rl_state r \<in> {LinkRevoked, LinkExpired})"
proof -
  have "case fst demo_refused of Reply (Some resp) \<Rightarrow> rs_status resp = 403 | _ \<Rightarrow> False" by code_simp
  moreover have "map_option rl_state (resolveToken demo_crypto 5 (newToken (replicate 32 7)) demo_q6) = Some LinkRevoked" by code_simp
  then obtain r where "resolveToken demo_crypto 5 (newToken (replicate 32 7)) (w_db (demo_world demo_q6)) = Some r" "rl_state r = LinkRevoked"
    by (auto simp: demo_world_def)
  ultimately show ?thesis
    using site_revocation_final [OF demo_refused_run _ _ _, of demo_crypto 5 "newToken (replicate 32 7)" r 9] demo_refused_start
    by (auto simp: demo_world_def)
qed

end
