(* ===== verification/Server.thy ===== *)
theory Server
  imports Cli
begin

text \<open>
  src/server.ts: the start of the server, its housekeeping timers and its end. The start is a function of
  the environment like a command of the operator; what Node, SQLite and the storage answer is in the record
  of the host. The life of the running server is a step relation: timers fire, runs of housekeeping end,
  signals arrive and connections close in any order.
\<close>

section \<open>Starting\<close>

record ('m, 's) host =
  ho_machine :: "('m, 's) machine"
  ho_healthCheck :: "config \<Rightarrow> 's \<Rightarrow> unit result"
  ho_listen :: "string \<Rightarrow> jsnum \<Rightarrow> string result"

record http_timeouts =
  st_requestTimeout :: nat
  st_headersTimeout :: nat
  st_keepAliveTimeout :: nat
  st_timeout :: nat

definition server_timeouts :: http_timeouts where
  "server_timeouts = \<lparr>st_requestTimeout = 0, st_headersTimeout = 60000, st_keepAliveTimeout = 75000, st_timeout = 300000\<rparr>"

datatype server_note = Migrated string | Listening string storage_kind string | NoAdminYet

text \<open>
  Node's timers: a delay that is no number, below one millisecond or past 31 bits becomes one millisecond,
  a fraction is cut.
\<close>

fun timer_delay :: "jsnum \<Rightarrow> int" where
  "timer_delay (Num q) = (if 1 \<le> q \<and> q \<le> 2147483647 then \<lfloor>q\<rfloor> else 1)"
| "timer_delay _ = 1"

text \<open>The timers of housekeeping, if it is not switched off: the interval, and one tick after five seconds.\<close>

definition housekeeping_timers :: "config \<Rightarrow> (int \<times> int) option" where
  "housekeeping_timers cfg =
     (if positive_q (cf_cleanupIntervalMs cfg) then Some (timer_delay (cf_cleanupIntervalMs cfg), 5000) else None)"

record running_server =
  ru_config :: config
  ru_address :: string
  ru_timeouts :: http_timeouts
  ru_notes :: "server_note list"
  ru_timers :: "(int \<times> int) option"

definition startServer ::
  "('m, 's) host \<Rightarrow> env \<Rightarrow> string option \<Rightarrow> jsnum option \<Rightarrow> time \<Rightarrow> ('m, 's) cli_world
    \<Rightarrow> running_server result \<times> ('m, 's) cli_world" where
  "startServer H env listen_host listen_port nw w =
     (let M = ho_machine H
      in case loadConfig (mc_platform M) env of
           Inl e \<Rightarrow> (Inl e, w)
         | Inr cfg \<Rightarrow>
             (case mc_open M cfg of
                Inl e \<Rightarrow> (Inl e, w)
              | Inr _ \<Rightarrow>
                  (case migrate (mc_applySql M) nw (mc_migrations M) (cw_schema w) of
                     (Inl e, st) \<Rightarrow> (Inl e, w\<lparr>cw_schema := st\<rparr>)
                   | (Inr names, st) \<Rightarrow>
                       (let w' = w\<lparr>cw_schema := st\<rparr>
                        in case ho_healthCheck H cfg (cw_store w') of
                             Inl e \<Rightarrow> (Inl e, w')
                           | Inr _ \<Rightarrow>
                               (case ho_listen H (case listen_host of Some h \<Rightarrow> h | None \<Rightarrow> cf_host cfg)
                                       (case listen_port of Some p \<Rightarrow> p | None \<Rightarrow> cf_port cfg) of
                                  Inl e \<Rightarrow> (Inl e, w')
                                | Inr address \<Rightarrow>
                                    (Inr \<lparr>ru_config = cfg, ru_address = address, ru_timeouts = server_timeouts,
                                          ru_notes = map Migrated names @ [Listening address (cf_storage cfg) (cf_publicUrl cfg)] @
                                            (if countAdmins (cw_db w') = 0 then [NoAdminYet] else []),
                                          ru_timers = housekeeping_timers cfg\<rparr>, w'))))))"

text \<open>The program: a failed start is logged and ends the process with code 1.\<close>

definition server_main :: "('m, 's) host \<Rightarrow> env \<Rightarrow> time \<Rightarrow> ('m, 's) cli_world \<Rightarrow> process_end \<times> ('m, 's) cli_world" where
  "server_main H env nw w =
     (case startServer H env None None nw w of
        (Inl e, w') \<Rightarrow> (Exits 1, w')
      | (Inr r, w') \<Rightarrow> (Runs, w'))"

section \<open>The life of the server\<close>

text \<open>
  \<open>lf_runs\<close> counts the calls of \<open>runCleanup\<close> in progress, which the code does not; \<open>lf_last_resort\<close> is the
  timer of fifteen seconds a signal sets.
\<close>

record life =
  lf_interval :: bool
  lf_first :: bool
  lf_cleanupRunning :: bool
  lf_runs :: nat
  lf_listening :: bool
  lf_database :: bool
  lf_signalled :: bool
  lf_last_resort :: bool
  lf_exit :: "nat option"

definition started :: "running_server \<Rightarrow> life" where
  "started r =
     \<lparr>lf_interval = (ru_timers r \<noteq> None), lf_first = (ru_timers r \<noteq> None), lf_cleanupRunning = False, lf_runs = 0,
      lf_listening = True, lf_database = True, lf_signalled = False, lf_last_resort = False, lf_exit = None\<rparr>"

definition cleanupTick :: "life \<Rightarrow> life" where
  "cleanupTick s =
     (if lf_cleanupRunning s then s else s\<lparr>lf_cleanupRunning := True, lf_runs := Suc (lf_runs s)\<rparr>)"

text \<open>The \<open>finally\<close> of a run, whether it succeeded or threw.\<close>

definition cleanup_over :: "life \<Rightarrow> life" where
  "cleanup_over s = s\<lparr>lf_cleanupRunning := False, lf_runs := lf_runs s - 1\<rparr>"

text \<open>\<open>close\<close> up to its wait for the connections, and from there.\<close>

definition close_begins :: "life \<Rightarrow> life" where
  "close_begins s = s\<lparr>lf_interval := False, lf_listening := False\<rparr>"

definition close_ends :: "life \<Rightarrow> life" where
  "close_ends s = s\<lparr>lf_database := False, lf_exit := (if lf_signalled s then Some 0 else None)\<rparr>"

definition shutdown :: "life \<Rightarrow> life" where
  "shutdown s = close_begins (s\<lparr>lf_signalled := True, lf_last_resort := True\<rparr>)"

inductive server_step :: "life \<Rightarrow> life \<Rightarrow> bool" where
  interval_tick: "lf_exit s = None \<Longrightarrow> lf_interval s \<Longrightarrow> server_step s (cleanupTick s)"
| first_tick: "lf_exit s = None \<Longrightarrow> lf_first s \<Longrightarrow> server_step s (cleanupTick (s\<lparr>lf_first := False\<rparr>))"
| run_over: "lf_exit s = None \<Longrightarrow> 0 < lf_runs s \<Longrightarrow> server_step s (cleanup_over s)"
| signal: "lf_exit s = None \<Longrightarrow> server_step s (shutdown s)"
| close_call: "lf_exit s = None \<Longrightarrow> server_step s (close_begins s)"
| closed: "lf_exit s = None \<Longrightarrow> \<not> lf_listening s \<Longrightarrow> lf_database s \<Longrightarrow> server_step s (close_ends s)"
| last_resort: "lf_exit s = None \<Longrightarrow> lf_last_resort s \<Longrightarrow> server_step s (s\<lparr>lf_exit := Some 1\<rparr>)"

inductive_cases server_stepE: "server_step s s'"

lemmas life_defs = cleanupTick_def cleanup_over_def close_begins_def close_ends_def shutdown_def

section \<open>What the server starts on\<close>

lemma migrate_applies: "migrate f nw dir st = (Inr fs, st') \<Longrightarrow> {m \<in> set dir. ends_with ''.sql'' m} \<subseteq> fst ` set (mg_applied st')"
  unfolding migrate_def Let_def by (drule migrate_loop_applied) auto

lemma startServer_Inr:
  assumes "startServer H env lh lp nw w = (Inr r, w')"
  obtains fs where "loadConfig (mc_platform (ho_machine H)) env = Inr (ru_config r)"
    and "migrate (mc_applySql (ho_machine H)) nw (mc_migrations (ho_machine H)) (cw_schema w) = (Inr fs, cw_schema w')"
    and "ho_healthCheck H (ru_config r) (cw_store w) = Inr ()" and "cw_db w' = cw_db w" "cw_store w' = cw_store w"
    and "ru_timers r = housekeeping_timers (ru_config r)" "NoAdminYet \<in> set (ru_notes r) \<longleftrightarrow> countAdmins (cw_db w) = 0"
  using assms that by (auto simp: startServer_def Let_def image_iff split: sum.splits prod.splits)

text \<open>A server listens only with a configuration that loads, a database with every migration applied and a
  storage that answered; starting changes no row and no stored byte, and a missing administrator is reported.\<close>

lemma server_starts_migrated:
  assumes "startServer H env lh lp nw w = (Inr r, w')"
  shows "loadConfig (mc_platform (ho_machine H)) env = Inr (ru_config r) \<and>
    ho_healthCheck H (ru_config r) (cw_store w') = Inr () \<and>
    {m \<in> set (mc_migrations (ho_machine H)). ends_with ''.sql'' m} \<subseteq> fst ` set (mg_applied (cw_schema w')) \<and>
    cw_db w' = cw_db w \<and> cw_store w' = cw_store w \<and>
    (NoAdminYet \<in> set (ru_notes r) \<longleftrightarrow> countAdmins (cw_db w') = 0)"
  by (rule startServer_Inr [OF assms], frule migrate_applies) simp

section \<open>Housekeeping and the end\<close>

definition life_ok :: "bool \<Rightarrow> life \<Rightarrow> bool" where
  "life_ok timed s \<longleftrightarrow> lf_runs s = of_bool (lf_cleanupRunning s) \<and> (lf_interval s \<or> lf_first s \<or> lf_cleanupRunning s \<longrightarrow> timed) \<and>
     (lf_interval s \<longrightarrow> lf_listening s) \<and> (\<not> lf_database s \<longrightarrow> \<not> lf_listening s) \<and>
     (lf_signalled s \<longrightarrow> lf_last_resort s \<and> \<not> lf_listening s) \<and>
     (lf_exit s = Some 0 \<longrightarrow> \<not> lf_database s \<and> lf_signalled s) \<and> lf_exit s \<in> {None, Some 0, Some 1}"

lemma life_step: "server_step s s' \<Longrightarrow> life_ok timed s \<Longrightarrow> life_ok timed s'"
  by (erule server_stepE) (auto simp: life_ok_def life_defs split: if_splits)

lemma life_run: "server_step\<^sup>*\<^sup>* s s' \<Longrightarrow> life_ok timed s \<Longrightarrow> life_ok timed s'"
  by (induction rule: rtranclp_induct) (auto intro: life_step)

lemma life_started: "life_ok (ru_timers r \<noteq> None) (started r)"
  by (simp add: life_ok_def started_def)

text \<open>C37: of a server that has started, however ticks, runs, signals and closings interleave, at most one run of
  housekeeping is in progress; timers are set exactly when the configured interval is positive, so with zero (or
  what is no number) there is never a run; the process ends with code 0 only after a signal and with the
  server and the database closed.\<close>

theorem server_life:
  assumes "startServer H env lh lp nw w = (Inr r, w')" and "server_step\<^sup>*\<^sup>* (started r) s"
  shows "lf_runs s \<le> 1 \<and> (lf_interval (started r) \<longleftrightarrow> positive_q (cf_cleanupIntervalMs (ru_config r))) \<and>
    (if positive_q (cf_cleanupIntervalMs (ru_config r)) then ru_timers r = Some (timer_delay (cf_cleanupIntervalMs (ru_config r)), 5000)
     else lf_runs s = 0) \<and>
    (lf_exit s = Some 0 \<longrightarrow> lf_signalled s \<and> \<not> lf_listening s \<and> \<not> lf_database s) \<and> lf_exit s \<in> {None, Some 0, Some 1}"
proof -
  have "ru_timers r = housekeeping_timers (ru_config r)" by (rule startServer_Inr [OF assms(1)])
  then show ?thesis using life_run [OF assms(2) life_started]
    by (auto simp: life_ok_def housekeeping_timers_def started_def split: if_splits)
qed

text \<open>
  \<open>close\<close> stops the interval but not the first tick: a server closed within its first five seconds by its
  caller still starts a run, on the closed database.
\<close>

lemma first_tick_after_close:
  assumes "ru_timers r \<noteq> None"
  shows "\<exists>s. server_step\<^sup>*\<^sup>* (started r) s \<and> \<not> lf_database s \<and> lf_runs s = 1"
proof -
  let ?s1 = "close_begins (started r)" and ?s2 = "close_ends (close_begins (started r))"
  have "server_step (started r) ?s1" by (rule server_step.close_call) (simp add: started_def)
  moreover have "server_step ?s1 ?s2" by (rule server_step.closed) (simp_all add: started_def life_defs)
  moreover have "server_step ?s2 (cleanupTick (?s2\<lparr>lf_first := False\<rparr>))"
    by (rule server_step.first_tick) (use assms in \<open>simp_all add: started_def life_defs\<close>)
  ultimately have "server_step\<^sup>*\<^sup>* (started r) (cleanupTick (?s2\<lparr>lf_first := False\<rparr>))" by (meson rtranclp.rtrancl_refl rtranclp.rtrancl_into_rtrancl)
  moreover have "\<not> lf_database (cleanupTick (?s2\<lparr>lf_first := False\<rparr>)) \<and> lf_runs (cleanupTick (?s2\<lparr>lf_first := False\<rparr>)) = 1"
    by (simp add: started_def life_defs)
  ultimately show ?thesis by blast
qed

text \<open>An interval of thirty days is past 31 bits, so housekeeping runs every millisecond.\<close>

lemma monthly_interval_overflows: "timer_delay (js_mul (js_Number ''43200'') 60000) = 1"
  by code_simp

text \<open>A machine on which everything works; two ticks, a signal and the end of the connections.\<close>

definition demo_host :: "(unit, fs) host" where
  "demo_host =
     \<lparr>ho_machine = \<lparr>mc_platform = \<lparr>pl_cwd = ''/srv'', pl_url_protocol = (\<lambda>u. Some ''https:'')\<rparr>, mc_crypto = demo_crypto, mc_open = (\<lambda>c. Inr ()),
        mc_applySql = (\<lambda>f s. Inr s), mc_migrations = [''001_init.sql''], mc_storage = (\<lambda>c. local_backend demo_crypto ''/'' ''/data''),
        mc_tusRemove = (\<lambda>c i s. (Inr (), s))\<rparr>,
      ho_healthCheck = (\<lambda>c s. Inr ()), ho_listen = (\<lambda>h p. Inr h)\<rparr>"

definition demo_boot :: "env \<Rightarrow> running_server result \<times> (unit, fs) cli_world" where
  "demo_boot env = startServer demo_host env None None 5 \<lparr>cw_schema = \<lparr>mg_schema = (), mg_applied = []\<rparr>, cw_db = empty_db, cw_store = []\<rparr>"

definition demo_life :: "running_server \<Rightarrow> life" where
  "demo_life r = close_ends (shutdown (cleanupTick (cleanupTick (started r))))"

lemma demo_migrates: "migrate (\<lambda>f s. Inr s) 5 [''001_init.sql''] \<lparr>mg_schema = (), mg_applied = []\<rparr> =
    (Inr [''001_init.sql''], \<lparr>mg_schema = (), mg_applied = [(''001_init.sql'', 5)]\<rparr>)"
  by code_simp

lemma demo_boots:
  assumes "loadConfig (mc_platform (ho_machine demo_host)) env = Inr c"
  obtains r w' where "demo_boot env = (Inr r, w')" and "ru_config r = c" and "ru_timers r = housekeeping_timers c"
  using that assms by (simp add: demo_boot_def startServer_def demo_host_def demo_migrates Let_def)

lemma demo_intervals:
  "case loadConfig (mc_platform (ho_machine demo_host)) [''PUBLIC_URL'' \<mapsto> ''https://box.example''] of
     Inr c \<Rightarrow> housekeeping_timers c = Some (1800000, 5000) | Inl e \<Rightarrow> False"
  "case loadConfig (mc_platform (ho_machine demo_host)) [''PUBLIC_URL'' \<mapsto> ''https://box.example'', ''CLEANUP_INTERVAL_MINUTES'' \<mapsto> ''0''] of
     Inr c \<Rightarrow> \<not> positive_q (cf_cleanupIntervalMs c) | Inl e \<Rightarrow> False"
  by (simp only: demo_host_def host.simps machine.simps, code_simp)+

theorem server_life_witness:
  "(\<exists>r. fst (demo_boot [''PUBLIC_URL'' \<mapsto> ''https://box.example'']) = Inr r \<and> lf_runs (demo_life r) = 1 \<and>
     lf_exit (demo_life r) = Some 0 \<and> \<not> lf_database (demo_life r)) \<and>
   (\<exists>r. fst (demo_boot [''PUBLIC_URL'' \<mapsto> ''https://box.example'', ''CLEANUP_INTERVAL_MINUTES'' \<mapsto> ''0'']) = Inr r \<and> lf_runs (shutdown (started r)) = 0)"
proof
  obtain r w' where run: "demo_boot [''PUBLIC_URL'' \<mapsto> ''https://box.example''] = (Inr r, w')" and t: "ru_timers r = Some (1800000, 5000)"
    using demo_intervals(1) by (auto split: sum.splits elim!: demo_boots)
  let ?s1 = "cleanupTick (started r)" let ?s2 = "cleanupTick ?s1" let ?s3 = "shutdown ?s2"
  note defs = started_def life_defs t
  have "server_step (started r) ?s1" "server_step ?s1 ?s2" by (rule server_step.interval_tick; simp add: defs)+
  moreover have "server_step ?s2 ?s3" by (rule server_step.signal) (simp add: defs)
  moreover have "server_step ?s3 (demo_life r)" unfolding demo_life_def by (rule server_step.closed; simp add: defs)
  ultimately have "server_step\<^sup>*\<^sup>* (started r) (demo_life r)" by (meson rtranclp.rtrancl_refl rtranclp.rtrancl_into_rtrancl)
  from server_life [OF run [unfolded demo_boot_def] this]
  show "\<exists>r. fst (demo_boot [''PUBLIC_URL'' \<mapsto> ''https://box.example'']) = Inr r \<and> lf_runs (demo_life r) = 1 \<and>
     lf_exit (demo_life r) = Some 0 \<and> \<not> lf_database (demo_life r)" using run by (simp add: demo_life_def defs)
next
  let ?env = "[''PUBLIC_URL'' \<mapsto> ''https://box.example'', ''CLEANUP_INTERVAL_MINUTES'' \<mapsto> ''0'']"
  obtain r w' where run: "demo_boot ?env = (Inr r, w')" and t: "\<not> positive_q (cf_cleanupIntervalMs (ru_config r))"
    using demo_intervals(2) by (auto split: sum.splits elim!: demo_boots)
  have "server_step (started r) (shutdown (started r))" by (rule server_step.signal) (simp add: started_def)
  then have "server_step\<^sup>*\<^sup>* (started r) (shutdown (started r))" by blast
  from server_life [OF run [unfolded demo_boot_def] this] run t
  show "\<exists>r. fst (demo_boot ?env) = Inr r \<and> lf_runs (shutdown (started r)) = 0" by simp
qed

end
