(* ===== verification/Messages.thy ===== *)
theory Messages
  imports I18n
begin

text \<open>
  What the dictionaries of src/locales are made of. A message is written as in the source file; \<open>js\<close> reads
  it into code units. A unit outside ASCII (and a closing apostrophe)
  stands as \<open>`\<close> with its four hexadecimal digits.
\<close>

type_synonym messages = "(string \<times> text) list"

definition hex_digits :: "string \<Rightarrow> nat" where
  "hex_digits ds = foldl (\<lambda>n d. 16 * n + (case hex_unit (code d) of Some v \<Rightarrow> v | None \<Rightarrow> 0)) 0 ds"

fun js :: "string \<Rightarrow> text" where
  "js [] = []"
| "js (c # cs) = (if c = CHR ''`'' then hex_digits (take 4 cs) # js (drop 4 cs) else code c # js cs)"

text \<open>The placeholders of a message, as \<open>t\<close> finds them.\<close>

function placeholder_names :: "text \<Rightarrow> string list" where
  "placeholder_names [] = []"
| "placeholder_names (c # cs) =
     (if c = 123 then
        (let name = takeWhile word_unit cs; rest = dropWhile word_unit cs
         in if name \<noteq> [] \<and> rest \<noteq> [] \<and> hd rest = 125 then map chr_of name # placeholder_names (tl rest)
            else placeholder_names cs)
      else placeholder_names cs)"
  by pat_completeness auto
termination
  by (relation "measure length") (auto simp: less_Suc_eq_le intro: le_trans [OF diff_le_self length_dropWhile_le])

lemma placeholders_cong:
  assumes "\<And>n. n \<in> set (placeholder_names m) \<Longrightarrow> f n = g n"
  shows "placeholders f m = placeholders g m"
  using assms
proof (induction m rule: placeholder_names.induct)
  case (2 c cs)
  let ?name = "takeWhile word_unit cs" and ?rest = "dropWhile word_unit cs"
  let ?found = "?name \<noteq> [] \<and> ?rest \<noteq> [] \<and> hd ?rest = 125"
  show ?case
  proof (cases "c = 123")
    case True
    show ?thesis
    proof (cases ?found)
      case True
      then show ?thesis using 2 \<open>c = 123\<close> by (simp add: Let_def)
    next
      case False
      then have "?found = False" by blast
      then show ?thesis using 2 \<open>c = 123\<close> by (simp only: placeholders.simps placeholder_names.simps Let_def simp_thms if_True if_False)
    qed
  next
    case False
    then show ?thesis using 2 by simp
  qed
qed simp

section \<open>Translations\<close>

text \<open>A translation fits: the same keys in the same order, each message with the placeholders of the source.\<close>

type_synonym shape = "(string \<times> string list) list"

fun entry_fits :: "string \<times> text \<Rightarrow> string \<times> string list \<Rightarrow> bool" where
  "entry_fits (k, m) (k', ns) \<longleftrightarrow> k = k' \<and> placeholder_names m = ns"

definition fits :: "messages \<Rightarrow> shape \<Rightarrow> bool" where
  "fits ms shape \<longleftrightarrow> list_all2 entry_fits ms shape"

lemma fits_rows: "fits [] [] = True" "fits (e # es) (s # ss) = (entry_fits e s \<and> fits es ss)"
  by (simp_all add: fits_def)

lemma fits_unfold: "ms = xs \<Longrightarrow> shape = ys \<Longrightarrow> fits xs ys \<Longrightarrow> fits ms shape"
  by simp

lemma fits_append: "fits ms s \<Longrightarrow> fits ms' s' \<Longrightarrow> fits (ms @ ms') (s @ s')"
  by (simp add: fits_def list_all2_appendI)

lemma fits_lookup:
  assumes "fits ms shape" shows "map_option placeholder_names (map_of ms k) = map_of shape k"
  using assms unfolding fits_def
proof (induction ms shape rule: list_all2_induct)
  case (Cons e es s ss)
  then show ?case by (cases e; cases s) auto
qed simp

section \<open>Reading the placeholders off a literal\<close>

lemma no_placeholder: "c \<noteq> 123 \<Longrightarrow> placeholder_names (c # cs) = placeholder_names cs"
  by simp

lemma js_plain:
  assumes "c \<noteq> CHR ''`''" "c \<noteq> CHR 0x7B" shows "placeholder_names (js (c # cs)) = placeholder_names (js cs)"
proof -
  have "code c \<noteq> 123" using assms(2) code_inject [of c "CHR 0x7B"] unfolding code_def by simp
  then show ?thesis using assms(1) by simp
qed

lemma js_chars:
  "list_all (\<lambda>c. \<forall>cs. placeholder_names (js (c # cs)) = placeholder_names (js cs))
     ''abcdefghijklmnopqrstuvwxyzABCDEFGHIJKLMNOPQRSTUVWXYZ0123456789 .,:;!?()-_/@\\'}''"
  by (simp only: list.pred_inject) (intro conjI allI js_plain; simp)

lemmas word_class_defs = is_alnum_def is_alpha_def is_lower_def is_upper_def is_digit_def

lemma js_word:
  assumes "n \<noteq> []" "list_all is_word_char n"
  shows "placeholder_names (js (CHR 0x7B # n @ CHR 0x7D # cs)) = n # placeholder_names (js cs)"
proof -
  have "is_word_char x \<Longrightarrow> code x < 128 \<and> code x \<noteq> 96" for x
    by (auto simp: is_word_char_def word_class_defs code_def)
  moreover have "code (CHR ''`'') = 96" by (simp add: code_def)
  ultimately have word: "is_word_char x \<Longrightarrow> x \<noteq> CHR ''`'' \<and> word_unit (code x)" for x
    by (metis word_unit_def chr_of_code)
  have "js (n @ cs') = map code n @ js cs'" for cs'
    using assms(2) word by (induction n) auto
  then have lit: "js (CHR 0x7B # n @ CHR 0x7D # cs) = 123 # map code n @ 125 # js cs"
    by (simp add: code_def)
  have "\<not> word_unit 125" by code_simp
  moreover have "\<forall>y \<in> set (map code n). word_unit y" using assms(2) word by (auto simp: list_all_iff)
  ultimately have scan: "takeWhile word_unit (map code n @ 125 # js cs) = map code n" "dropWhile word_unit (map code n @ 125 # js cs) = 125 # js cs"
    by ((subst takeWhile_append2, auto) [1], subst dropWhile_append2, auto)
  show ?thesis
    unfolding lit using assms(1) by (subst placeholder_names.simps(2)) (simp add: scan Let_def comp_def)
qed

lemma js_names:
  "list_all (\<lambda>n. \<forall>cs. placeholder_names (js (CHR 0x7B # n @ CHR 0x7D # cs)) = n # placeholder_names (js cs))
     [''n'', ''file'', ''link'', ''user'', ''msg'', ''max'', ''name'', ''case'', ''path'', ''id'', ''script'', ''issuer'', ''date'',
      ''label'', ''cmd'', ''username'', ''role'', ''opt'', ''minutes'', ''size'', ''factor'', ''state'', ''until'']"
  by (simp only: list.pred_inject) (intro conjI allI js_word; simp add: is_word_char_def word_class_defs code_def)

lemma hex_digit_less: "hex_digits [d] < 16"
  by (auto simp: hex_digits_def hex_unit_def)

lemma brace_digits:
  assumes "4096 * x + 256 * y + 16 * z + u = 123" "u < (16 :: nat)" shows "x = 0 \<and> y = 0 \<and> z = 7"
proof -
  have "x < 1" "y < 1" using assms by linarith+
  moreover from this have "6 < z" "z < 8" using assms by linarith+
  ultimately show ?thesis by simp
qed

lemma js_escape:
  assumes "hex_digits [a] \<noteq> 0 \<or> hex_digits [b] \<noteq> 0 \<or> hex_digits [c] \<noteq> 7"
  shows "placeholder_names (js (CHR ''`'' # a # b # c # d # cs)) = placeholder_names (js cs)"
proof -
  have *: "hex_digits [a, b, c, d] = 4096 * hex_digits [a] + 256 * hex_digits [b] + 16 * hex_digits [c] + hex_digits [d]"
    by (simp add: hex_digits_def)
  have "hex_digits [a, b, c, d] \<noteq> 123" using assms brace_digits [OF _ hex_digit_less [of d]] by (metis *)
  then show ?thesis by simp
qed

lemma digits_apart:
  "list_all (\<lambda>c. hex_digits [c] \<noteq> 0 \<and> hex_digits [c] \<noteq> 7) ''1234ABCDEF''"
  by code_simp

lemma js_blocks:
  "list_all (\<lambda>(a, b). \<forall>c d cs. placeholder_names (js (CHR ''`'' # a # b # c # d # cs)) = placeholder_names (js cs))
     [(CHR ''0'', CHR ''1''), (CHR ''0'', CHR ''2''), (CHR ''0'', CHR ''3''), (CHR ''0'', CHR ''4''), (CHR ''2'', CHR ''0''),
      (CHR ''2'', CHR ''1''), (CHR ''2'', CHR ''2'')]"
  using digits_apart by (simp only: list.pred_inject prod.case) (intro conjI allI js_escape; simp)

lemma js_latin:
  "list_all (\<lambda>c. \<forall>d cs. placeholder_names (js (CHR ''`'' # CHR ''0'' # CHR ''0'' # c # d # cs)) = placeholder_names (js cs)) ''2ABCDEF''"
  using digits_apart by (simp only: list.pred_inject) (intro conjI allI js_escape; simp)

lemma js_end: "placeholder_names (js []) = []"
  by simp

text \<open>These rules read a literal from left to right; the congruences keep the rest of it untouched meanwhile.\<close>

lemmas literal_rules = js_end js_chars [unfolded list.pred_inject] js_names [unfolded list.pred_inject append.simps]
  js_blocks [unfolded list.pred_inject prod.case] js_latin [unfolded list.pred_inject]

lemma literal_congs: "placeholder_names m = placeholder_names m" "entry_fits e s = entry_fits e s" "fits ms shape = fits ms shape"
  by (rule refl)+

lemmas fits_rules = fits_rows entry_fits.simps literal_rules simp_thms

end
