(* ===== verification/Locale_En.thy ===== *)
theory Locale_En
  imports Messages
begin

text \<open>src/locales/en.ts: English, the source of the others.\<close>

definition en_1 :: messages where
  "en_1 = [
    (''app.tagline'', js ''private file drop box''),
    (''common.back_to_cases'', js ''`2190 Cases''),
    (''common.home'', js ''Home''),
    (''common.copy'', js ''Copy''),
    (''common.copied'', js ''Copied''),
    (''common.copy_manual'', js ''Select and copy manually''),
    (''common.save'', js ''Save''),
    (''common.create'', js ''Create''),
    (''common.cancel'', js ''Cancel''),
    (''common.retry'', js ''Retry''),
    (''common.never'', js ''never''),
    (''common.unlimited'', js ''no expiry''),
    (''common.none'', js ''`2014''),
    (''common.optional'', js ''optional''),
    (''common.loading'', js ''Loading`2026''),
    (''common.yes'', js ''Yes''),
    (''common.language'', js ''Language''),
    (''nav.cases'', js ''Cases''),
    (''nav.audit'', js ''Audit log''),
    (''nav.security'', js ''Security'')]"

definition en_2 :: messages where
  "en_2 = [
    (''nav.logout'', js ''Log out''),
    (''error.not_found.title'', js ''Not found''),
    (''error.page_missing'', js ''This page does not exist.''),
    (''error.case_missing'', js ''This case does not exist.''),
    (''error.link_missing'', js ''This link does not exist.''),
    (''error.file_missing'', js ''The file does not exist or is not available.''),
    (''error.file_not_exist'', js ''The file does not exist.''),
    (''error.storage_missing.title'', js ''File missing from storage''),
    (''error.storage_missing'', js ''The metadata exists but the object has disappeared from storage. Run the cleanup to flag the file as missing.''),
    (''error.server.title'', js ''Server error''),
    (''error.server'', js ''An unexpected error occurred.''),
    (''error.bad_request.title'', js ''Bad request''),
    (''error.cross_site'', js ''Cross-site request blocked''),
    (''error.csrf'', js ''Invalid CSRF token''),
    (''error.invalid_expiry'', js ''Invalid expiry date''),
    (''link.invalid.title'', js ''Invalid link''),
    (''link.invalid'', js ''This upload link does not exist.''),
    (''link.unavailable.title'', js ''Link unavailable''),
    (''link.expired'', js ''This link has expired.''),
    (''link.revoked'', js ''This link has been revoked.'')]"

definition en_3 :: messages where
  "en_3 = [
    (''link.case_closed'', js ''The case has been closed and no longer accepts files.''),
    (''link.contact'', js ''Contact the person who gave you the link.''),
    (''login.title'', js ''Administrator login''),
    (''login.username'', js ''Username''),
    (''login.password'', js ''Password''),
    (''login.submit'', js ''Log in''),
    (''login.failed'', js ''Invalid username or password.''),
    (''login.too_many_codes'', js ''Too many wrong codes. Log in again.''),
    (''login.account_locked'', js ''Too many wrong codes for this account. The second factor is locked for 15 minutes.''),
    (''totp.title'', js ''Code from your authenticator app''),
    (''totp.code_label'', js ''Code (6 digits) or recovery code''),
    (''totp.confirm'', js ''Confirm''),
    (''totp.cancel_logout'', js ''Cancel and log out''),
    (''totp.invalid'', js ''Invalid code.''),
    (''totp.attempts_left'', js ''Attempts left: {n}.''),
    (''totp.locked_until'', js ''The account is temporarily locked after many wrong codes (until {until} UTC).''),
    (''security.title'', js ''Security of account `201C{user}`201D''),
    (''security.required_notice'', js ''This instance requires a second factor. The panel stays unavailable until you add an authenticator app or a passkey below.''),
    (''security.status'', js ''Two-factor authentication (TOTP, RFC 6238): {state}.''),
    (''security.enabled'', js ''enabled'')]"

definition en_4 :: messages where
  "en_4 = [
    (''security.disabled'', js ''disabled''),
    (''security.recovery_left'', js ''Unused recovery codes: {n}.''),
    (''security.recovery.title'', js ''Recovery codes''),
    (''security.recovery.intro'', js ''Save them now in a safe place. Each works once and replaces the app code when you lose access to the app. They will not be shown again.''),
    (''security.enable.title'', js ''Enable TOTP''),
    (''security.enable.intro'', js ''You need an authenticator app (e.g. Aegis, Google Authenticator, 1Password, Bitwarden). Once enabled, logging in requires the password and a current code.''),
    (''security.enable.start'', js ''Start setup''),
    (''security.step1'', js ''Step 1: scan the code in your app''),
    (''security.manual_key'', js ''Or enter the key manually:''),
    (''security.key_params'', js ''Type: TOTP, SHA-1, 6 digits, 30 s. Issuer: {issuer}, account: {user}.''),
    (''security.open_in_app'', js ''Open in authenticator app''),
    (''security.on_phone'', js ''(on a phone)''),
    (''security.step2'', js ''Step 2: confirm with a code''),
    (''security.code_from_app'', js ''Code from the app''),
    (''security.enable.submit'', js ''Enable TOTP''),
    (''security.pending_note'', js ''The key is temporary until confirmed; starting the setup again generates a new one.''),
    (''security.current_code'', js ''Current code from the app''),
    (''security.regenerate'', js ''Generate new codes (old ones stop working)''),
    (''security.disable.title'', js ''Disable TOTP''),
    (''security.disable.intro'', js ''Requires a current code from the app or a recovery code: the session alone (e.g. a stolen cookie) is not enough. If both the app and the recovery codes are lost, an operator can run {cmd} on the server.'')]"

definition en_5 :: messages where
  "en_5 = [
    (''security.disable.code'', js ''Code''),
    (''security.disable.submit'', js ''Disable''),
    (''security.disable.confirm'', js ''Disable two-factor authentication?''),
    (''security.msg.enabled'', js ''Two-factor authentication is enabled.''),
    (''security.msg.code_mismatch'', js ''The code does not match. Check the time on your phone and try again.''),
    (''security.msg.invalid_code'', js ''Invalid code.''),
    (''security.msg.regenerated'', js ''New recovery codes generated.''),
    (''security.msg.required'', js ''This instance requires TOTP (ADMIN_REQUIRE_TOTP); it cannot be disabled.''),
    (''security.msg.disabled'', js ''Two-factor authentication has been disabled.''),
    (''security.password.title'', js ''Change password''),
    (''security.password.current'', js ''Current password''),
    (''security.password.new'', js ''New password (min. 12 characters)''),
    (''security.password.confirm'', js ''Confirm new password''),
    (''security.password.submit'', js ''Change password''),
    (''security.password.mismatch'', js ''The new password and its confirmation do not match.''),
    (''security.password.invalid_current'', js ''The current password is incorrect.''),
    (''security.password.changed'', js ''Password changed. Other sessions of this account have been logged out.''),
    (''home.title'', js ''inletbox''),
    (''home.message'', js ''This is a private file drop box. To upload files, use the link you were given by the person who requested them.''),
    (''cases.new'', js ''New case'')]"

definition en_6 :: messages where
  "en_6 = [
    (''cases.name'', js ''Name''),
    (''cases.name_placeholder'', js ''e.g. Audit 2026/09 `2013 Client X''),
    (''cases.description_optional'', js ''Description (optional)''),
    (''cases.description'', js ''Description''),
    (''cases.list'', js ''Cases''),
    (''cases.empty'', js ''No cases.''),
    (''cases.col.name'', js ''Name''),
    (''cases.col.status'', js ''Status''),
    (''cases.col.links'', js ''Active links''),
    (''cases.col.files'', js ''Files''),
    (''cases.col.size'', js ''Size''),
    (''cases.col.created'', js ''Created''),
    (''case.open'', js ''open''),
    (''case.closed'', js ''closed''),
    (''case.close'', js ''Close case''),
    (''case.reopen'', js ''Reopen''),
    (''case.meta'', js ''ID: {id} `00B7 created {date}. A closed case accepts no uploads through any of its links.''),
    (''case.saved'', js ''Saved.''),
    (''case.closed_no_links'', js ''The case is closed `2013 reopen it to generate links.''),
    (''case.new_link.title'', js ''New link for `201C{label}`201D'')]"

definition en_7 :: messages where
  "en_7 = [
    (''case.new_link.intro'', js ''Copy it now. The token is stored only as a hash and cannot be recovered later `2013 you can only generate a new link.''),
    (''case.new_link.copy_now'', js ''Copy it now.''),
    (''links.title'', js ''Upload links''),
    (''links.intro'', js ''Each link is a separate recipient and a separate visibility scope: a person with the link sees only files sent through that link and cannot download or delete them. Everyone who knows the same link has identical access `2013 the application does not distinguish between people using the same link.''),
    (''links.generate'', js ''Generate a new link''),
    (''links.label'', js ''Recipient label''),
    (''links.label_placeholder'', js ''e.g. Jane Doe `2013 accounting''),
    (''links.expires'', js ''Valid until (UTC, optional)''),
    (''links.max_file'', js ''Max file size (optional, `2264 {max})''),
    (''links.max_file_placeholder'', js ''e.g. 500MB''),
    (''links.max_files'', js ''Max number of files (optional)''),
    (''links.max_total'', js ''Max total size (optional)''),
    (''links.max_total_placeholder'', js ''e.g. 2GB''),
    (''links.submit'', js ''Generate link''),
    (''links.empty'', js ''No links.''),
    (''links.col.recipient'', js ''Recipient''),
    (''links.col.state'', js ''State''),
    (''links.col.expires'', js ''Valid until''),
    (''links.col.limits'', js ''Limits''),
    (''links.col.usage'', js ''Usage'')]"

definition en_8 :: messages where
  "en_8 = [
    (''links.col.last_used'', js ''Last used''),
    (''links.state.active'', js ''active''),
    (''links.state.expired'', js ''expired''),
    (''links.state.revoked'', js ''revoked''),
    (''links.state.case_closed'', js ''case closed''),
    (''links.limit.file'', js ''file `2264 {max}''),
    (''links.limit.files'', js ''files `2264 {n}''),
    (''links.limit.total'', js ''total `2264 {max}''),
    (''links.usage'', js ''{n} files, {size}''),
    (''links.usage_in_progress'', js ''{n} in progress ({size} reserved)''),
    (''links.revoke'', js ''Revoke''),
    (''links.revoke_confirm'', js ''Revoke link `201C{label}`201D? Uploads in progress will be aborted.''),
    (''files.title'', js ''Files''),
    (''files.empty'', js ''No files.''),
    (''files.col.name'', js ''Name''),
    (''files.col.recipient'', js ''Recipient (link)''),
    (''files.col.size'', js ''Size''),
    (''files.col.status'', js ''Status''),
    (''files.col.uploaded'', js ''Uploaded''),
    (''files.declared'', js ''{size} (declared)'')]"

definition en_9 :: messages where
  "en_9 = [
    (''files.download'', js ''Download''),
    (''files.delete'', js ''Delete''),
    (''files.delete_confirm'', js ''Delete file `201C{name}`201D? This cannot be undone.''),
    (''files.untrusted'', js ''Files are treated as untrusted: downloads are always attachments, nothing is rendered or executed on the server. Antivirus scanning is not part of this version.''),
    (''files.status.uploading'', js ''in progress''),
    (''files.status.complete'', js ''complete''),
    (''files.status.aborted'', js ''aborted''),
    (''files.status.expired'', js ''expired''),
    (''files.status.missing'', js ''missing from storage''),
    (''files.status.deleted'', js ''deleted''),
    (''audit.title'', js ''Audit log (last {n})''),
    (''audit.col.time'', js ''Time''),
    (''audit.col.actor'', js ''Actor''),
    (''audit.col.action'', js ''Event''),
    (''audit.col.case'', js ''Case''),
    (''audit.col.link'', js ''Link''),
    (''audit.col.file'', js ''File''),
    (''audit.col.ip'', js ''IP''),
    (''audit.col.details'', js ''Details''),
    (''upload.title'', js ''Upload: {case}'')]"

definition en_10 :: messages where
  "en_10 = [
    (''upload.link_for'', js ''Link for:''),
    (''upload.valid_until'', js ''valid until {date}''),
    (''upload.limit.file'', js ''Maximum file size:''),
    (''upload.limit.files'', js ''Maximum number of files:''),
    (''upload.limit.total'', js ''Total data limit:''),
    (''upload.used_n'', js ''({n} used)''),
    (''upload.used_size'', js ''({size} used)''),
    (''upload.send'', js ''Upload files''),
    (''upload.drop_here'', js ''Drag files here''),
    (''upload.or'', js ''or''),
    (''upload.choose'', js ''choose from disk''),
    (''upload.resume_hint'', js ''Large files are sent in parts and can be resumed after a lost connection. After reloading the page, pick the same file again and the upload resumes where it stopped.''),
    (''upload.your_files'', js ''Your files''),
    (''upload.your_files_intro'', js ''You only see files uploaded through this link. Files cannot be downloaded or deleted here `2013 the administrator collects them.''),
    (''upload.col.name'', js ''Name''),
    (''upload.col.size'', js ''Size''),
    (''upload.col.date'', js ''Date''),
    (''upload.col.status'', js ''Status''),
    (''upload.none_yet'', js ''No files uploaded yet.''),
    (''upload.list_failed'', js ''Could not load the list: {msg}'')]"

definition en_11 :: messages where
  "en_11 = [
    (''upload.terminal'', js ''Upload from the terminal''),
    (''upload.terminal_hint'', js ''(curl, scripts, resumable transfers)''),
    (''upload.terminal_intro'', js ''Replace {path} with the path to your file (spaces are fine). A non-zero exit code means an error; the response is JSON.''),
    (''upload.snippet.single'', js ''One file''),
    (''upload.snippet.multi'', js ''Several files''),
    (''upload.snippet.env'', js ''Token in an environment variable (recommended)''),
    (''upload.snippet.list'', js ''List uploaded files''),
    (''upload.snippet.resumable'', js ''Large file with resume (script {script})''),
    (''upload.history_warning'', js ''Note: a command containing the token ends up in your shell history (e.g. {file}). The export variant preceded by a space is not recorded when {opt} is set. Treat this link like a password and do not pass it on.''),
    (''upload.path_placeholder'', js ''/path/to/file.pdf''),
    (''upload.path_placeholder2'', js ''/path/report.pdf''),
    (''upload.path_placeholder3'', js ''/path/photo 1.jpg''),
    (''upload.path_placeholder_big'', js ''/path/to/large file.iso''),
    (''upload.js.queued'', js ''queued`2026''),
    (''upload.js.too_large'', js ''too large: limit {max}''),
    (''upload.js.error'', js ''error: {msg}''),
    (''upload.js.starting'', js ''starting`2026''),
    (''upload.js.resuming'', js ''resuming previous upload`2026''),
    (''upload.js.retrying'', js ''retrying`2026''),
    (''upload.js.done'', js ''complete'')]"

definition en_12 :: messages where
  "en_12 = [
    (''upload.js.finalising'', js ''all bytes sent, the server is finishing`2026''),
    (''upload.js.cancelled'', js ''cancelled''),
    (''upload.js.cancelled_local'', js ''cancelled (locally)''),
    (''upload.js.status.uploading'', js ''in progress''),
    (''upload.js.status.complete'', js ''complete''),
    (''nav.users'', js ''Users''),
    (''cases.empty_assigned'', js ''No cases are assigned to you yet. A colleague working on a case, or an administrator, can assign you to it, or you can create a new one above.''),
    (''error.forbidden.title'', js ''Not allowed''),
    (''error.forbidden'', js ''This page is for administrators only.''),
    (''security.must_change_notice'', js ''Your password was issued by an administrator. Set your own password below before you continue.''),
    (''members.title'', js ''Assigned users''),
    (''members.intro'', js ''A user sees only the cases they are assigned to. Administrators see every case.''),
    (''members.empty'', js ''No user is assigned to this case `2014 only administrators can see it.''),
    (''members.user'', js ''User''),
    (''members.add'', js ''Assign''),
    (''members.added'', js ''The account {username} is now assigned to this case.''),
    (''members.remove'', js ''Unassign''),
    (''members.remove_confirm'', js ''Unassign {username}? The account will no longer see this case.''),
    (''members.removed'', js ''The account {username} no longer has access to this case.''),
    (''members.none_assignable'', js ''There is no user account left to assign. Create one under {link}.'')]"

definition en_13 :: messages where
  "en_13 = [
    (''users.new'', js ''New account''),
    (''users.list'', js ''Accounts''),
    (''users.username'', js ''Username''),
    (''users.username_placeholder'', js ''e.g. anna.smith@example.com''),
    (''users.role'', js ''Role''),
    (''users.role.admin'', js ''Administrator''),
    (''users.role.user'', js ''User''),
    (''users.roles_hint'', js ''A user sees and works on only the cases they are assigned to. An administrator sees every case, manages accounts and reads the audit log. A temporary password is generated; it has to be changed at the first sign-in.''),
    (''users.col.username'', js ''Account''),
    (''users.col.status'', js ''Status''),
    (''users.col.totp'', js ''Two-factor''),
    (''users.col.cases'', js ''Cases''),
    (''users.col.last_login'', js ''Last sign-in''),
    (''users.status.active'', js ''active''),
    (''users.status.disabled'', js ''disabled''),
    (''users.status.must_change'', js ''must change password''),
    (''users.you'', js ''you''),
    (''users.all_cases'', js ''all''),
    (''users.issued.title'', js ''Account {username} created''),
    (''users.issued.reset_title'', js ''New password for {username}'')]"

definition en_14 :: messages where
  "en_14 = [
    (''users.issued.copy_now'', js ''Copy this password now `2014 it is shown only once.''),
    (''users.issued.intro'', js ''Hand it over through a different channel than the username. It has to be replaced at the first sign-in.''),
    (''users.make_admin'', js ''Make administrator''),
    (''users.make_user'', js ''Make user''),
    (''users.role_confirm'', js ''Change the role of the account {username}?''),
    (''users.role_changed'', js ''The account {username} now has the role: {role}.''),
    (''users.reset_password'', js ''New password''),
    (''users.reset_password_confirm'', js ''Issue a new password for {username}? The current one stops working and every session of the account ends.''),
    (''users.password_reset'', js ''A new password was issued for {username} and the account was signed out.''),
    (''users.reset_totp'', js ''Reset 2FA''),
    (''users.reset_totp_confirm'', js ''Remove the second factor of {username}? It is set up again after the next sign-in.''),
    (''users.totp_reset'', js ''Two-factor authentication was removed from the account {username}.''),
    (''users.disable'', js ''Disable''),
    (''users.disable_confirm'', js ''Disable {username}? The account is signed out and cannot sign in until it is enabled again.''),
    (''users.disabled'', js ''The account {username} was disabled and signed out.''),
    (''users.enable'', js ''Enable''),
    (''users.enabled'', js ''The account {username} can sign in again.''),
    (''users.delete'', js ''Delete''),
    (''users.delete_confirm'', js ''Delete the account {username}? Its case assignments go with it; the audit log keeps what it did.''),
    (''users.deleted'', js ''The account {username} was deleted.'')]"

definition en_15 :: messages where
  "en_15 = [
    (''users.missing'', js ''No such account.''),
    (''users.not_self'', js ''You cannot change your own account here `2014 your password and 2FA are under Security.''),
    (''users.last_admin'', js ''At least one active administrator must remain.''),
    (''users.exists'', js ''An account named {username} already exists.''),
    (''users.invalid_username'', js ''A username has 2`201364 characters: letters, digits and . _ @ -''),
    (''users.invalid_role'', js ''Unknown role.''),
    (''members.not_self'', js ''You cannot unassign yourself. Ask someone else on this case, or an administrator.''),
    (''members.none_assignable_user'', js ''There is no other user account to assign.''),
    (''second.title'', js ''Second step of the login''),
    (''second.recovery_label'', js ''Recovery code''),
    (''common.or'', js ''or''),
    (''passkey.use'', js ''Use a passkey''),
    (''passkey.unsupported'', js ''This browser does not support passkeys.''),
    (''passkey.failed'', js ''The passkey could not be verified. Try again.''),
    (''passkey.cancelled'', js ''Cancelled. Try again when you are ready.''),
    (''confirm.title'', js ''Confirm it is you''),
    (''confirm.intro'', js ''This action needs a recent confirmation. It then stays valid for {minutes} minutes, so you are not asked again at every step.''),
    (''confirm.repeat'', js ''After confirming, repeat what you were doing.''),
    (''confirm.code_label'', js ''Code from the app or a recovery code''),
    (''confirm.password_label'', js ''Your password'')]"

definition en_16 :: messages where
  "en_16 = [
    (''confirm.submit'', js ''Confirm''),
    (''confirm.invalid'', js ''That did not match. Try again.''),
    (''confirm.locked'', js ''Too many wrong codes for this account. Try again in 15 minutes.''),
    (''passkeys.title'', js ''Passkeys''),
    (''passkeys.intro'', js ''A passkey is kept by your device, your password manager or a security key, and cannot be phished. It works as the second step of the login and to confirm sensitive actions.''),
    (''passkeys.none'', js ''No passkeys yet.''),
    (''passkeys.name'', js ''Name''),
    (''passkeys.name_placeholder'', js ''e.g. laptop, security key''),
    (''passkeys.added_at'', js ''Added''),
    (''passkeys.last_used'', js ''Last used''),
    (''passkeys.add'', js ''Add a passkey''),
    (''passkeys.remove'', js ''Remove''),
    (''passkeys.remove_confirm'', js ''Remove this passkey? Other sessions of this account will be logged out.''),
    (''passkeys.added'', js ''Passkey `201C{name}`201D added.''),
    (''passkeys.removed'', js ''Passkey `201C{name}`201D removed. Other sessions of this account have been logged out.''),
    (''passkeys.last_required'', js ''This instance requires a second factor. Add another one before removing the last.''),
    (''passkeys.limit'', js ''An account can have at most {n} passkeys.''),
    (''passkeys.duplicate'', js ''This passkey is already registered.''),
    (''security.recovery.regenerate_confirmed'', js ''Generate new codes (old ones stop working)''),
    (''sessions.title'', js ''Active sessions'')]"

definition en_17 :: messages where
  "en_17 = [
    (''sessions.intro'', js ''Every place this account is signed in. Log out any you do not recognise, then change your password.''),
    (''sessions.device'', js ''Device''),
    (''sessions.ip'', js ''IP address''),
    (''sessions.started'', js ''Started''),
    (''sessions.last_seen'', js ''Last activity''),
    (''sessions.current'', js ''this session''),
    (''sessions.pending'', js ''password only, second step not done''),
    (''sessions.bound'', js ''bound to this device''),
    (''sessions.factor'', js ''second step: {factor}''),
    (''sessions.via.totp'', js ''app code''),
    (''sessions.via.recovery'', js ''recovery code''),
    (''sessions.via.passkey'', js ''passkey''),
    (''sessions.unknown_device'', js ''Unknown device''),
    (''sessions.revoke'', js ''Log out''),
    (''sessions.revoke_others'', js ''Log out all other sessions''),
    (''sessions.revoked'', js ''The session has been logged out.''),
    (''sessions.revoked_others'', js ''All other sessions have been logged out.'')]"

definition en_messages :: messages where
  "en_messages = en_1 @ en_2 @ en_3 @ en_4 @ en_5 @ en_6 @ en_7 @ en_8 @ en_9 @ en_10 @ en_11 @ en_12 @ en_13 @ en_14 @ en_15 @ en_16 @ en_17"

text \<open>The keys, each with the placeholders of its message.\<close>

definition shape_1 :: shape where
  "shape_1 = [
    (''app.tagline'', []), (''common.back_to_cases'', []), (''common.home'', []), (''common.copy'', []), (''common.copied'', []),
    (''common.copy_manual'', []), (''common.save'', []), (''common.create'', []), (''common.cancel'', []), (''common.retry'', []),
    (''common.never'', []), (''common.unlimited'', []), (''common.none'', []), (''common.optional'', []), (''common.loading'', []),
    (''common.yes'', []), (''common.language'', []), (''nav.cases'', []), (''nav.audit'', []), (''nav.security'', [])]"

definition shape_2 :: shape where
  "shape_2 = [
    (''nav.logout'', []), (''error.not_found.title'', []), (''error.page_missing'', []), (''error.case_missing'', []), (''error.link_missing'', []),
    (''error.file_missing'', []), (''error.file_not_exist'', []), (''error.storage_missing.title'', []), (''error.storage_missing'', []),
    (''error.server.title'', []), (''error.server'', []), (''error.bad_request.title'', []), (''error.cross_site'', []), (''error.csrf'', []),
    (''error.invalid_expiry'', []), (''link.invalid.title'', []), (''link.invalid'', []), (''link.unavailable.title'', []), (''link.expired'', []),
    (''link.revoked'', [])]"

definition shape_3 :: shape where
  "shape_3 = [
    (''link.case_closed'', []), (''link.contact'', []), (''login.title'', []), (''login.username'', []), (''login.password'', []),
    (''login.submit'', []), (''login.failed'', []), (''login.too_many_codes'', []), (''login.account_locked'', []), (''totp.title'', []),
    (''totp.code_label'', []), (''totp.confirm'', []), (''totp.cancel_logout'', []), (''totp.invalid'', []), (''totp.attempts_left'', [''n'']),
    (''totp.locked_until'', [''until'']), (''security.title'', [''user'']), (''security.required_notice'', []), (''security.status'', [''state'']),
    (''security.enabled'', [])]"

definition shape_4 :: shape where
  "shape_4 = [
    (''security.disabled'', []), (''security.recovery_left'', [''n'']), (''security.recovery.title'', []), (''security.recovery.intro'', []),
    (''security.enable.title'', []), (''security.enable.intro'', []), (''security.enable.start'', []), (''security.step1'', []),
    (''security.manual_key'', []), (''security.key_params'', [''issuer'', ''user'']), (''security.open_in_app'', []), (''security.on_phone'', []),
    (''security.step2'', []), (''security.code_from_app'', []), (''security.enable.submit'', []), (''security.pending_note'', []),
    (''security.current_code'', []), (''security.regenerate'', []), (''security.disable.title'', []), (''security.disable.intro'', [''cmd''])]"

definition shape_5 :: shape where
  "shape_5 = [
    (''security.disable.code'', []), (''security.disable.submit'', []), (''security.disable.confirm'', []), (''security.msg.enabled'', []),
    (''security.msg.code_mismatch'', []), (''security.msg.invalid_code'', []), (''security.msg.regenerated'', []), (''security.msg.required'', []),
    (''security.msg.disabled'', []), (''security.password.title'', []), (''security.password.current'', []), (''security.password.new'', []),
    (''security.password.confirm'', []), (''security.password.submit'', []), (''security.password.mismatch'', []),
    (''security.password.invalid_current'', []), (''security.password.changed'', []), (''home.title'', []), (''home.message'', []),
    (''cases.new'', [])]"

definition shape_6 :: shape where
  "shape_6 = [
    (''cases.name'', []), (''cases.name_placeholder'', []), (''cases.description_optional'', []), (''cases.description'', []), (''cases.list'', []),
    (''cases.empty'', []), (''cases.col.name'', []), (''cases.col.status'', []), (''cases.col.links'', []), (''cases.col.files'', []),
    (''cases.col.size'', []), (''cases.col.created'', []), (''case.open'', []), (''case.closed'', []), (''case.close'', []), (''case.reopen'', []),
    (''case.meta'', [''id'', ''date'']), (''case.saved'', []), (''case.closed_no_links'', []), (''case.new_link.title'', [''label''])]"

definition shape_7 :: shape where
  "shape_7 = [
    (''case.new_link.intro'', []), (''case.new_link.copy_now'', []), (''links.title'', []), (''links.intro'', []), (''links.generate'', []),
    (''links.label'', []), (''links.label_placeholder'', []), (''links.expires'', []), (''links.max_file'', [''max'']),
    (''links.max_file_placeholder'', []), (''links.max_files'', []), (''links.max_total'', []), (''links.max_total_placeholder'', []),
    (''links.submit'', []), (''links.empty'', []), (''links.col.recipient'', []), (''links.col.state'', []), (''links.col.expires'', []),
    (''links.col.limits'', []), (''links.col.usage'', [])]"

definition shape_8 :: shape where
  "shape_8 = [
    (''links.col.last_used'', []), (''links.state.active'', []), (''links.state.expired'', []), (''links.state.revoked'', []),
    (''links.state.case_closed'', []), (''links.limit.file'', [''max'']), (''links.limit.files'', [''n'']), (''links.limit.total'', [''max'']),
    (''links.usage'', [''n'', ''size'']), (''links.usage_in_progress'', [''n'', ''size'']), (''links.revoke'', []),
    (''links.revoke_confirm'', [''label'']), (''files.title'', []), (''files.empty'', []), (''files.col.name'', []), (''files.col.recipient'', []),
    (''files.col.size'', []), (''files.col.status'', []), (''files.col.uploaded'', []), (''files.declared'', [''size''])]"

definition shape_9 :: shape where
  "shape_9 = [
    (''files.download'', []), (''files.delete'', []), (''files.delete_confirm'', [''name'']), (''files.untrusted'', []),
    (''files.status.uploading'', []), (''files.status.complete'', []), (''files.status.aborted'', []), (''files.status.expired'', []),
    (''files.status.missing'', []), (''files.status.deleted'', []), (''audit.title'', [''n'']), (''audit.col.time'', []), (''audit.col.actor'', []),
    (''audit.col.action'', []), (''audit.col.case'', []), (''audit.col.link'', []), (''audit.col.file'', []), (''audit.col.ip'', []),
    (''audit.col.details'', []), (''upload.title'', [''case''])]"

definition shape_10 :: shape where
  "shape_10 = [
    (''upload.link_for'', []), (''upload.valid_until'', [''date'']), (''upload.limit.file'', []), (''upload.limit.files'', []),
    (''upload.limit.total'', []), (''upload.used_n'', [''n'']), (''upload.used_size'', [''size'']), (''upload.send'', []),
    (''upload.drop_here'', []), (''upload.or'', []), (''upload.choose'', []), (''upload.resume_hint'', []), (''upload.your_files'', []),
    (''upload.your_files_intro'', []), (''upload.col.name'', []), (''upload.col.size'', []), (''upload.col.date'', []), (''upload.col.status'', []),
    (''upload.none_yet'', []), (''upload.list_failed'', [''msg''])]"

definition shape_11 :: shape where
  "shape_11 = [
    (''upload.terminal'', []), (''upload.terminal_hint'', []), (''upload.terminal_intro'', [''path'']), (''upload.snippet.single'', []),
    (''upload.snippet.multi'', []), (''upload.snippet.env'', []), (''upload.snippet.list'', []), (''upload.snippet.resumable'', [''script'']),
    (''upload.history_warning'', [''file'', ''opt'']), (''upload.path_placeholder'', []), (''upload.path_placeholder2'', []),
    (''upload.path_placeholder3'', []), (''upload.path_placeholder_big'', []), (''upload.js.queued'', []), (''upload.js.too_large'', [''max'']),
    (''upload.js.error'', [''msg'']), (''upload.js.starting'', []), (''upload.js.resuming'', []), (''upload.js.retrying'', []),
    (''upload.js.done'', [])]"

definition shape_12 :: shape where
  "shape_12 = [
    (''upload.js.finalising'', []), (''upload.js.cancelled'', []), (''upload.js.cancelled_local'', []), (''upload.js.status.uploading'', []),
    (''upload.js.status.complete'', []), (''nav.users'', []), (''cases.empty_assigned'', []), (''error.forbidden.title'', []),
    (''error.forbidden'', []), (''security.must_change_notice'', []), (''members.title'', []), (''members.intro'', []), (''members.empty'', []),
    (''members.user'', []), (''members.add'', []), (''members.added'', [''username'']), (''members.remove'', []),
    (''members.remove_confirm'', [''username'']), (''members.removed'', [''username'']), (''members.none_assignable'', [''link''])]"

definition shape_13 :: shape where
  "shape_13 = [
    (''users.new'', []), (''users.list'', []), (''users.username'', []), (''users.username_placeholder'', []), (''users.role'', []),
    (''users.role.admin'', []), (''users.role.user'', []), (''users.roles_hint'', []), (''users.col.username'', []), (''users.col.status'', []),
    (''users.col.totp'', []), (''users.col.cases'', []), (''users.col.last_login'', []), (''users.status.active'', []),
    (''users.status.disabled'', []), (''users.status.must_change'', []), (''users.you'', []), (''users.all_cases'', []),
    (''users.issued.title'', [''username'']), (''users.issued.reset_title'', [''username''])]"

definition shape_14 :: shape where
  "shape_14 = [
    (''users.issued.copy_now'', []), (''users.issued.intro'', []), (''users.make_admin'', []), (''users.make_user'', []),
    (''users.role_confirm'', [''username'']), (''users.role_changed'', [''username'', ''role'']), (''users.reset_password'', []),
    (''users.reset_password_confirm'', [''username'']), (''users.password_reset'', [''username'']), (''users.reset_totp'', []),
    (''users.reset_totp_confirm'', [''username'']), (''users.totp_reset'', [''username'']), (''users.disable'', []),
    (''users.disable_confirm'', [''username'']), (''users.disabled'', [''username'']), (''users.enable'', []), (''users.enabled'', [''username'']),
    (''users.delete'', []), (''users.delete_confirm'', [''username'']), (''users.deleted'', [''username''])]"

definition shape_15 :: shape where
  "shape_15 = [
    (''users.missing'', []), (''users.not_self'', []), (''users.last_admin'', []), (''users.exists'', [''username'']),
    (''users.invalid_username'', []), (''users.invalid_role'', []), (''members.not_self'', []), (''members.none_assignable_user'', []),
    (''second.title'', []), (''second.recovery_label'', []), (''common.or'', []), (''passkey.use'', []), (''passkey.unsupported'', []),
    (''passkey.failed'', []), (''passkey.cancelled'', []), (''confirm.title'', []), (''confirm.intro'', [''minutes'']), (''confirm.repeat'', []),
    (''confirm.code_label'', []), (''confirm.password_label'', [])]"

definition shape_16 :: shape where
  "shape_16 = [
    (''confirm.submit'', []), (''confirm.invalid'', []), (''confirm.locked'', []), (''passkeys.title'', []), (''passkeys.intro'', []),
    (''passkeys.none'', []), (''passkeys.name'', []), (''passkeys.name_placeholder'', []), (''passkeys.added_at'', []), (''passkeys.last_used'', []),
    (''passkeys.add'', []), (''passkeys.remove'', []), (''passkeys.remove_confirm'', []), (''passkeys.added'', [''name'']),
    (''passkeys.removed'', [''name'']), (''passkeys.last_required'', []), (''passkeys.limit'', [''n'']), (''passkeys.duplicate'', []),
    (''security.recovery.regenerate_confirmed'', []), (''sessions.title'', [])]"

definition shape_17 :: shape where
  "shape_17 = [
    (''sessions.intro'', []), (''sessions.device'', []), (''sessions.ip'', []), (''sessions.started'', []), (''sessions.last_seen'', []),
    (''sessions.current'', []), (''sessions.pending'', []), (''sessions.bound'', []), (''sessions.factor'', [''factor'']),
    (''sessions.via.totp'', []), (''sessions.via.recovery'', []), (''sessions.via.passkey'', []), (''sessions.unknown_device'', []),
    (''sessions.revoke'', []), (''sessions.revoke_others'', []), (''sessions.revoked'', []), (''sessions.revoked_others'', [])]"

definition message_shape :: shape where
  "message_shape = shape_1 @ shape_2 @ shape_3 @ shape_4 @ shape_5 @ shape_6 @ shape_7 @ shape_8 @ shape_9 @ shape_10 @ shape_11 @ shape_12 @ shape_13 @ shape_14 @ shape_15 @ shape_16 @ shape_17"

lemmas shape_defs =
  shape_1_def shape_2_def shape_3_def shape_4_def shape_5_def shape_6_def shape_7_def shape_8_def shape_9_def shape_10_def shape_11_def
  shape_12_def shape_13_def shape_14_def shape_15_def shape_16_def shape_17_def

lemmas en_defs =
  en_1_def en_2_def en_3_def en_4_def en_5_def en_6_def en_7_def en_8_def en_9_def en_10_def en_11_def en_12_def en_13_def en_14_def
  en_15_def en_16_def en_17_def

lemma en_fits: "fits en_messages message_shape"
  unfolding en_messages_def message_shape_def
  by (intro fits_append; unfold en_defs shape_defs; simp only: fits_rules cong: literal_congs)

end
