(* ===== verification/Locale_Bg.thy ===== *)
theory Locale_Bg
  imports Locale_En
begin

text \<open>src/locales/bg.ts: Bulgarian.\<close>

definition bg_1 :: messages where
  "bg_1 = [
    (''app.tagline'', js ''`0447`0430`0441`0442`043D`0430 `043A`0443`0442`0438`044F `0437`0430 `043F`0440`0435`0434`0430`0432`0430`043D`0435 `043D`0430 `0444`0430`0439`043B`043E`0432`0435''),
    (''common.back_to_cases'', js ''`2190 `041F`0440`0435`043F`0438`0441`043A`0438''),
    (''common.home'', js ''`041D`0430`0447`0430`043B`043E''),
    (''common.copy'', js ''`041A`043E`043F`0438`0440`0430`0439''),
    (''common.copied'', js ''`041A`043E`043F`0438`0440`0430`043D`043E''),
    (''common.copy_manual'', js ''`041C`0430`0440`043A`0438`0440`0430`0439`0442`0435 `0438 `043A`043E`043F`0438`0440`0430`0439`0442`0435 `0440`044A`0447`043D`043E''),
    (''common.save'', js ''`0417`0430`043F`0430`0437`0438''),
    (''common.create'', js ''`0421`044A`0437`0434`0430`0439''),
    (''common.cancel'', js ''`041E`0442`043A`0430`0437''),
    (''common.retry'', js ''`041E`043F`0438`0442`0430`0439 `043E`0442`043D`043E`0432`043E''),
    (''common.never'', js ''`043D`0438`043A`043E`0433`0430''),
    (''common.unlimited'', js ''`0431`0435`0437`0441`0440`043E`0447`043D`043E''),
    (''common.none'', js ''`2014''),
    (''common.optional'', js ''`043F`043E `0438`0437`0431`043E`0440''),
    (''common.loading'', js ''`0417`0430`0440`0435`0436`0434`0430`043D`0435`2026''),
    (''common.yes'', js ''`0414`0430''),
    (''common.language'', js ''`0415`0437`0438`043A''),
    (''nav.cases'', js ''`041F`0440`0435`043F`0438`0441`043A`0438''),
    (''nav.audit'', js ''`041E`0434`0438`0442`0435`043D `0434`043D`0435`0432`043D`0438`043A''),
    (''nav.security'', js ''`0421`0438`0433`0443`0440`043D`043E`0441`0442'')]"

definition bg_2 :: messages where
  "bg_2 = [
    (''nav.logout'', js ''`0418`0437`0445`043E`0434''),
    (''error.not_found.title'', js ''`041D`0435 `0435 `043D`0430`043C`0435`0440`0435`043D`043E''),
    (''error.page_missing'', js ''`0422`0430`0437`0438 `0441`0442`0440`0430`043D`0438`0446`0430 `043D`0435 `0441`044A`0449`0435`0441`0442`0432`0443`0432`0430.''),
    (''error.case_missing'', js ''`0422`0430`0437`0438 `043F`0440`0435`043F`0438`0441`043A`0430 `043D`0435 `0441`044A`0449`0435`0441`0442`0432`0443`0432`0430.''),
    (''error.link_missing'', js ''`0422`0430`0437`0438 `0432`0440`044A`0437`043A`0430 `043D`0435 `0441`044A`0449`0435`0441`0442`0432`0443`0432`0430.''),
    (''error.file_missing'', js ''`0424`0430`0439`043B`044A`0442 `043D`0435 `0441`044A`0449`0435`0441`0442`0432`0443`0432`0430 `0438`043B`0438 `043D`0435 `0435 `0434`043E`0441`0442`044A`043F`0435`043D.''),
    (''error.file_not_exist'', js ''`0424`0430`0439`043B`044A`0442 `043D`0435 `0441`044A`0449`0435`0441`0442`0432`0443`0432`0430.''),
    (''error.storage_missing.title'', js ''`0424`0430`0439`043B`044A`0442 `043B`0438`043F`0441`0432`0430 `0432 `0445`0440`0430`043D`0438`043B`0438`0449`0435`0442`043E''),
    (''error.storage_missing'', js ''`041C`0435`0442`0430`0434`0430`043D`043D`0438`0442`0435 `0441`044A`0449`0435`0441`0442`0432`0443`0432`0430`0442, `043D`043E `043E`0431`0435`043A`0442`044A`0442 `0435 `0438`0437`0447`0435`0437`043D`0430`043B `043E`0442 `0445`0440`0430`043D`0438`043B`0438`0449`0435`0442`043E. `0421`0442`0430`0440`0442`0438`0440`0430`0439`0442`0435 `043F`043E`0447`0438`0441`0442`0432`0430`043D`0435`0442`043E, `0437`0430 `0434`0430 `0431`044A`0434`0435 `0444`0430`0439`043B`044A`0442 `043E`0442`0431`0435`043B`044F`0437`0430`043D `043A`0430`0442`043E `043B`0438`043F`0441`0432`0430`0449.''),
    (''error.server.title'', js ''`0413`0440`0435`0448`043A`0430 `043D`0430 `0441`044A`0440`0432`044A`0440`0430''),
    (''error.server'', js ''`0412`044A`0437`043D`0438`043A`043D`0430 `043D`0435`043E`0447`0430`043A`0432`0430`043D`0430 `0433`0440`0435`0448`043A`0430.''),
    (''error.bad_request.title'', js ''`041D`0435`0432`0430`043B`0438`0434`043D`0430 `0437`0430`044F`0432`043A`0430''),
    (''error.cross_site'', js ''`0417`0430`044F`0432`043A`0430 `043E`0442 `0434`0440`0443`0433 `0441`0430`0439`0442 `0435 `0431`043B`043E`043A`0438`0440`0430`043D`0430''),
    (''error.csrf'', js ''`041D`0435`0432`0430`043B`0438`0434`0435`043D CSRF `0442`043E`043A`0435`043D''),
    (''error.invalid_expiry'', js ''`041D`0435`0432`0430`043B`0438`0434`043D`0430 `0434`0430`0442`0430 `043D`0430 `0438`0437`0442`0438`0447`0430`043D`0435''),
    (''link.invalid.title'', js ''`041D`0435`0432`0430`043B`0438`0434`043D`0430 `0432`0440`044A`0437`043A`0430''),
    (''link.invalid'', js ''`0422`0430`0437`0438 `0432`0440`044A`0437`043A`0430 `0437`0430 `043A`0430`0447`0432`0430`043D`0435 `043D`0435 `0441`044A`0449`0435`0441`0442`0432`0443`0432`0430.''),
    (''link.unavailable.title'', js ''`0412`0440`044A`0437`043A`0430`0442`0430 `043D`0435 `0435 `0434`043E`0441`0442`044A`043F`043D`0430''),
    (''link.expired'', js ''`0422`0430`0437`0438 `0432`0440`044A`0437`043A`0430 `0435 `0438`0437`0442`0435`043A`043B`0430.''),
    (''link.revoked'', js ''`0422`0430`0437`0438 `0432`0440`044A`0437`043A`0430 `0435 `043E`0442`043C`0435`043D`0435`043D`0430.'')]"

definition bg_3 :: messages where
  "bg_3 = [
    (''link.case_closed'', js ''`041F`0440`0435`043F`0438`0441`043A`0430`0442`0430 `0435 `0437`0430`0442`0432`043E`0440`0435`043D`0430 `0438 `0432`0435`0447`0435 `043D`0435 `043F`0440`0438`0435`043C`0430 `0444`0430`0439`043B`043E`0432`0435.''),
    (''link.contact'', js ''`0421`0432`044A`0440`0436`0435`0442`0435 `0441`0435 `0441 `0447`043E`0432`0435`043A`0430, `043A`043E`0439`0442`043E `0432`0438 `0435 `0434`0430`043B `0432`0440`044A`0437`043A`0430`0442`0430.''),
    (''login.title'', js ''`0412`0445`043E`0434 `0437`0430 `0430`0434`043C`0438`043D`0438`0441`0442`0440`0430`0442`043E`0440''),
    (''login.username'', js ''`041F`043E`0442`0440`0435`0431`0438`0442`0435`043B`0441`043A`043E `0438`043C`0435''),
    (''login.password'', js ''`041F`0430`0440`043E`043B`0430''),
    (''login.submit'', js ''`0412`0445`043E`0434''),
    (''login.failed'', js ''`041D`0435`0432`0430`043B`0438`0434`043D`043E `043F`043E`0442`0440`0435`0431`0438`0442`0435`043B`0441`043A`043E `0438`043C`0435 `0438`043B`0438 `043F`0430`0440`043E`043B`0430.''),
    (''login.too_many_codes'', js ''`0422`0432`044A`0440`0434`0435 `043C`043D`043E`0433`043E `0433`0440`0435`0448`043D`0438 `043A`043E`0434`043E`0432`0435. `0412`043B`0435`0437`0442`0435 `043E`0442`043D`043E`0432`043E.''),
    (''login.account_locked'', js ''`0422`0432`044A`0440`0434`0435 `043C`043D`043E`0433`043E `0433`0440`0435`0448`043D`0438 `043A`043E`0434`043E`0432`0435 `0437`0430 `0442`043E`0437`0438 `0430`043A`0430`0443`043D`0442. `0412`0442`043E`0440`0438`044F`0442 `0444`0430`043A`0442`043E`0440 `0435 `0437`0430`043A`043B`044E`0447`0435`043D `0437`0430 15 `043C`0438`043D`0443`0442`0438.''),
    (''totp.title'', js ''`041A`043E`0434 `043E`0442 `043F`0440`0438`043B`043E`0436`0435`043D`0438`0435`0442`043E `0432`0438 `0437`0430 `0443`0434`043E`0441`0442`043E`0432`0435`0440`044F`0432`0430`043D`0435''),
    (''totp.code_label'', js ''`041A`043E`0434 (6 `0446`0438`0444`0440`0438) `0438`043B`0438 `043A`043E`0434 `0437`0430 `0432`044A`0437`0441`0442`0430`043D`043E`0432`044F`0432`0430`043D`0435''),
    (''totp.confirm'', js ''`041F`043E`0442`0432`044A`0440`0434`0438''),
    (''totp.cancel_logout'', js ''`041E`0442`043A`0430`0437 `0438 `0438`0437`0445`043E`0434''),
    (''totp.invalid'', js ''`041D`0435`0432`0430`043B`0438`0434`0435`043D `043A`043E`0434.''),
    (''totp.attempts_left'', js ''`041E`0441`0442`0430`0432`0430`0449`0438 `043E`043F`0438`0442`0438: {n}.''),
    (''totp.locked_until'', js ''`0410`043A`0430`0443`043D`0442`044A`0442 `0435 `0432`0440`0435`043C`0435`043D`043D`043E `0437`0430`043A`043B`044E`0447`0435`043D `0441`043B`0435`0434 `043C`043D`043E`0433`043E `0433`0440`0435`0448`043D`0438 `043A`043E`0434`043E`0432`0435 (`0434`043E {until} UTC).''),
    (''security.title'', js ''`0421`0438`0433`0443`0440`043D`043E`0441`0442 `043D`0430 `0430`043A`0430`0443`043D`0442`0430 `201E{user}`201C''),
    (''security.required_notice'', js ''`0422`0430`0437`0438 `0438`043D`0441`0442`0430`043D`0446`0438`044F `0438`0437`0438`0441`043A`0432`0430 `0432`0442`043E`0440`0438 `0444`0430`043A`0442`043E`0440. `041F`0430`043D`0435`043B`044A`0442 `043E`0441`0442`0430`0432`0430 `043D`0435`0434`043E`0441`0442`044A`043F`0435`043D, `0434`043E`043A`0430`0442`043E `043D`0435 `0434`043E`0431`0430`0432`0438`0442`0435 `043F`0440`0438`043B`043E`0436`0435`043D`0438`0435 `0437`0430 `0443`0434`043E`0441`0442`043E`0432`0435`0440`044F`0432`0430`043D`0435 `0438`043B`0438 `043A`043B`044E`0447 `0437`0430 `0434`043E`0441`0442`044A`043F `043F`043E-`0434`043E`043B`0443.''),
    (''security.status'', js ''`0414`0432`0443`0444`0430`043A`0442`043E`0440`043D`043E `0443`0434`043E`0441`0442`043E`0432`0435`0440`044F`0432`0430`043D`0435 (TOTP, RFC 6238): {state}.''),
    (''security.enabled'', js ''`0432`043A`043B`044E`0447`0435`043D`043E'')]"

definition bg_4 :: messages where
  "bg_4 = [
    (''security.disabled'', js ''`0438`0437`043A`043B`044E`0447`0435`043D`043E''),
    (''security.recovery_left'', js ''`041D`0435`0438`0437`043F`043E`043B`0437`0432`0430`043D`0438 `043A`043E`0434`043E`0432`0435 `0437`0430 `0432`044A`0437`0441`0442`0430`043D`043E`0432`044F`0432`0430`043D`0435: {n}.''),
    (''security.recovery.title'', js ''`041A`043E`0434`043E`0432`0435 `0437`0430 `0432`044A`0437`0441`0442`0430`043D`043E`0432`044F`0432`0430`043D`0435''),
    (''security.recovery.intro'', js ''`0417`0430`043F`0430`0437`0435`0442`0435 `0433`0438 `0441`0435`0433`0430 `043D`0430 `0441`0438`0433`0443`0440`043D`043E `043C`044F`0441`0442`043E. `0412`0441`0435`043A`0438 `0440`0430`0431`043E`0442`0438 `0432`0435`0434`043D`044A`0436 `0438 `0437`0430`043C`0435`0441`0442`0432`0430 `043A`043E`0434`0430 `043E`0442 `043F`0440`0438`043B`043E`0436`0435`043D`0438`0435`0442`043E, `0430`043A`043E `0437`0430`0433`0443`0431`0438`0442`0435 `0434`043E`0441`0442`044A`043F `0434`043E `043D`0435`0433`043E. `041D`044F`043C`0430 `0434`0430 `0431`044A`0434`0430`0442 `043F`043E`043A`0430`0437`0430`043D`0438 `043E`0442`043D`043E`0432`043E.''),
    (''security.enable.title'', js ''`0412`043A`043B`044E`0447`0432`0430`043D`0435 `043D`0430 TOTP''),
    (''security.enable.intro'', js ''`041D`0443`0436`043D`043E `0432`0438 `0435 `043F`0440`0438`043B`043E`0436`0435`043D`0438`0435 `0437`0430 `0443`0434`043E`0441`0442`043E`0432`0435`0440`044F`0432`0430`043D`0435 (`043D`0430`043F`0440. Aegis, Google Authenticator, 1Password, Bitwarden). `0421`043B`0435`0434 `0432`043A`043B`044E`0447`0432`0430`043D`0435 `0432`0445`043E`0434`044A`0442 `0438`0437`0438`0441`043A`0432`0430 `043F`0430`0440`043E`043B`0430`0442`0430 `0438 `0442`0435`043A`0443`0449 `043A`043E`0434.''),
    (''security.enable.start'', js ''`0417`0430`043F`043E`0447`043D`0438 `043D`0430`0441`0442`0440`043E`0439`043A`0430`0442`0430''),
    (''security.step1'', js ''`0421`0442`044A`043F`043A`0430 1: `0441`043A`0430`043D`0438`0440`0430`0439`0442`0435 `043A`043E`0434`0430 `0441 `043F`0440`0438`043B`043E`0436`0435`043D`0438`0435`0442`043E''),
    (''security.manual_key'', js ''`0418`043B`0438 `0432`044A`0432`0435`0434`0435`0442`0435 `043A`043B`044E`0447`0430 `0440`044A`0447`043D`043E:''),
    (''security.key_params'', js ''`0422`0438`043F: TOTP, SHA-1, 6 `0446`0438`0444`0440`0438, 30 s. `0418`0437`0434`0430`0442`0435`043B: {issuer}, `0430`043A`0430`0443`043D`0442: {user}.''),
    (''security.open_in_app'', js ''`041E`0442`0432`043E`0440`0438 `0432 `043F`0440`0438`043B`043E`0436`0435`043D`0438`0435`0442`043E `0437`0430 `0443`0434`043E`0441`0442`043E`0432`0435`0440`044F`0432`0430`043D`0435''),
    (''security.on_phone'', js ''(`043D`0430 `0442`0435`043B`0435`0444`043E`043D)''),
    (''security.step2'', js ''`0421`0442`044A`043F`043A`0430 2: `043F`043E`0442`0432`044A`0440`0434`0435`0442`0435 `0441 `043A`043E`0434''),
    (''security.code_from_app'', js ''`041A`043E`0434 `043E`0442 `043F`0440`0438`043B`043E`0436`0435`043D`0438`0435`0442`043E''),
    (''security.enable.submit'', js ''`0412`043A`043B`044E`0447`0438 TOTP''),
    (''security.pending_note'', js ''`041A`043B`044E`0447`044A`0442 `0435 `0432`0440`0435`043C`0435`043D`0435`043D `0434`043E `043F`043E`0442`0432`044A`0440`0436`0434`0430`0432`0430`043D`0435`0442`043E; `043F`043E`0432`0442`043E`0440`043D`043E`0442`043E `0441`0442`0430`0440`0442`0438`0440`0430`043D`0435 `043D`0430 `043D`0430`0441`0442`0440`043E`0439`043A`0430`0442`0430 `0433`0435`043D`0435`0440`0438`0440`0430 `043D`043E`0432.''),
    (''security.current_code'', js ''`0422`0435`043A`0443`0449 `043A`043E`0434 `043E`0442 `043F`0440`0438`043B`043E`0436`0435`043D`0438`0435`0442`043E''),
    (''security.regenerate'', js ''`0413`0435`043D`0435`0440`0438`0440`0430`0439 `043D`043E`0432`0438 `043A`043E`0434`043E`0432`0435 (`0441`0442`0430`0440`0438`0442`0435 `0441`043F`0438`0440`0430`0442 `0434`0430 `0440`0430`0431`043E`0442`044F`0442)''),
    (''security.disable.title'', js ''`0418`0437`043A`043B`044E`0447`0432`0430`043D`0435 `043D`0430 TOTP''),
    (''security.disable.intro'', js ''`0418`0437`0438`0441`043A`0432`0430 `0442`0435`043A`0443`0449 `043A`043E`0434 `043E`0442 `043F`0440`0438`043B`043E`0436`0435`043D`0438`0435`0442`043E `0438`043B`0438 `043A`043E`0434 `0437`0430 `0432`044A`0437`0441`0442`0430`043D`043E`0432`044F`0432`0430`043D`0435: `0441`0430`043C`0430`0442`0430 `0441`0435`0441`0438`044F (`043D`0430`043F`0440. `043E`0442`043A`0440`0430`0434`043D`0430`0442`0430 `201E`0431`0438`0441`043A`0432`0438`0442`043A`0430`201C) `043D`0435 `0435 `0434`043E`0441`0442`0430`0442`044A`0447`043D`0430. `0410`043A`043E `0438 `043F`0440`0438`043B`043E`0436`0435`043D`0438`0435`0442`043E, `0438 `043A`043E`0434`043E`0432`0435`0442`0435 `0437`0430 `0432`044A`0437`0441`0442`0430`043D`043E`0432`044F`0432`0430`043D`0435 `0441`0430 `0438`0437`0433`0443`0431`0435`043D`0438, `043E`043F`0435`0440`0430`0442`043E`0440`044A`0442 `043C`043E`0436`0435 `0434`0430 `0438`0437`043F`044A`043B`043D`0438 {cmd} `043D`0430 `0441`044A`0440`0432`044A`0440`0430.'')]"

definition bg_5 :: messages where
  "bg_5 = [
    (''security.disable.code'', js ''`041A`043E`0434''),
    (''security.disable.submit'', js ''`0418`0437`043A`043B`044E`0447`0438''),
    (''security.disable.confirm'', js ''`0414`0430 `0441`0435 `0438`0437`043A`043B`044E`0447`0438 `043B`0438 `0434`0432`0443`0444`0430`043A`0442`043E`0440`043D`043E`0442`043E `0443`0434`043E`0441`0442`043E`0432`0435`0440`044F`0432`0430`043D`0435?''),
    (''security.msg.enabled'', js ''`0414`0432`0443`0444`0430`043A`0442`043E`0440`043D`043E`0442`043E `0443`0434`043E`0441`0442`043E`0432`0435`0440`044F`0432`0430`043D`0435 `0435 `0432`043A`043B`044E`0447`0435`043D`043E.''),
    (''security.msg.code_mismatch'', js ''`041A`043E`0434`044A`0442 `043D`0435 `0441`044A`0432`043F`0430`0434`0430. `041F`0440`043E`0432`0435`0440`0435`0442`0435 `0447`0430`0441`0430 `043D`0430 `0442`0435`043B`0435`0444`043E`043D`0430 `0441`0438 `0438 `043E`043F`0438`0442`0430`0439`0442`0435 `043E`0442`043D`043E`0432`043E.''),
    (''security.msg.invalid_code'', js ''`041D`0435`0432`0430`043B`0438`0434`0435`043D `043A`043E`0434.''),
    (''security.msg.regenerated'', js ''`0413`0435`043D`0435`0440`0438`0440`0430`043D`0438 `0441`0430 `043D`043E`0432`0438 `043A`043E`0434`043E`0432`0435 `0437`0430 `0432`044A`0437`0441`0442`0430`043D`043E`0432`044F`0432`0430`043D`0435.''),
    (''security.msg.required'', js ''`0422`0430`0437`0438 `0438`043D`0441`0442`0430`043D`0446`0438`044F `0438`0437`0438`0441`043A`0432`0430 TOTP (ADMIN_REQUIRE_TOTP); `043D`0435 `043C`043E`0436`0435 `0434`0430 `0431`044A`0434`0435 `0438`0437`043A`043B`044E`0447`0435`043D.''),
    (''security.msg.disabled'', js ''`0414`0432`0443`0444`0430`043A`0442`043E`0440`043D`043E`0442`043E `0443`0434`043E`0441`0442`043E`0432`0435`0440`044F`0432`0430`043D`0435 `0435 `0438`0437`043A`043B`044E`0447`0435`043D`043E.''),
    (''security.password.title'', js ''`0421`043C`044F`043D`0430 `043D`0430 `043F`0430`0440`043E`043B`0430`0442`0430''),
    (''security.password.current'', js ''`0422`0435`043A`0443`0449`0430 `043F`0430`0440`043E`043B`0430''),
    (''security.password.new'', js ''`041D`043E`0432`0430 `043F`0430`0440`043E`043B`0430 (`043C`0438`043D. 12 `0437`043D`0430`043A`0430)''),
    (''security.password.confirm'', js ''`041F`043E`0442`0432`044A`0440`0434`0435`0442`0435 `043D`043E`0432`0430`0442`0430 `043F`0430`0440`043E`043B`0430''),
    (''security.password.submit'', js ''`0421`043C`0435`043D`0438 `043F`0430`0440`043E`043B`0430`0442`0430''),
    (''security.password.mismatch'', js ''`041D`043E`0432`0430`0442`0430 `043F`0430`0440`043E`043B`0430 `0438 `043F`043E`0442`0432`044A`0440`0436`0434`0435`043D`0438`0435`0442`043E `043D`0435 `0441`044A`0432`043F`0430`0434`0430`0442.''),
    (''security.password.invalid_current'', js ''`0422`0435`043A`0443`0449`0430`0442`0430 `043F`0430`0440`043E`043B`0430 `0435 `0433`0440`0435`0448`043D`0430.''),
    (''security.password.changed'', js ''`041F`0430`0440`043E`043B`0430`0442`0430 `0435 `0441`043C`0435`043D`0435`043D`0430. `0414`0440`0443`0433`0438`0442`0435 `0441`0435`0441`0438`0438 `043D`0430 `0442`043E`0437`0438 `0430`043A`0430`0443`043D`0442 `0441`0430 `043F`0440`0435`043A`0440`0430`0442`0435`043D`0438.''),
    (''home.title'', js ''inletbox''),
    (''home.message'', js ''`0422`043E`0432`0430 `0435 `0447`0430`0441`0442`043D`0430 `043A`0443`0442`0438`044F `0437`0430 `043F`0440`0435`0434`0430`0432`0430`043D`0435 `043D`0430 `0444`0430`0439`043B`043E`0432`0435. `0417`0430 `0434`0430 `043A`0430`0447`0438`0442`0435 `0444`0430`0439`043B`043E`0432`0435, `0438`0437`043F`043E`043B`0437`0432`0430`0439`0442`0435 `0432`0440`044A`0437`043A`0430`0442`0430, `043A`043E`044F`0442`043E `0441`0442`0435 `043F`043E`043B`0443`0447`0438`043B`0438 `043E`0442 `0447`043E`0432`0435`043A`0430, `043A`043E`0439`0442`043E `0433`0438 `0435 `043F`043E`0438`0441`043A`0430`043B.''),
    (''cases.new'', js ''`041D`043E`0432`0430 `043F`0440`0435`043F`0438`0441`043A`0430'')]"

definition bg_6 :: messages where
  "bg_6 = [
    (''cases.name'', js ''`0418`043C`0435''),
    (''cases.name_placeholder'', js ''`043D`0430`043F`0440. `041E`0434`0438`0442 2026/09 `2013 `041A`043B`0438`0435`043D`0442 X''),
    (''cases.description_optional'', js ''`041E`043F`0438`0441`0430`043D`0438`0435 (`043F`043E `0438`0437`0431`043E`0440)''),
    (''cases.description'', js ''`041E`043F`0438`0441`0430`043D`0438`0435''),
    (''cases.list'', js ''`041F`0440`0435`043F`0438`0441`043A`0438''),
    (''cases.empty'', js ''`041D`044F`043C`0430 `043F`0440`0435`043F`0438`0441`043A`0438.''),
    (''cases.col.name'', js ''`0418`043C`0435''),
    (''cases.col.status'', js ''`0421`044A`0441`0442`043E`044F`043D`0438`0435''),
    (''cases.col.links'', js ''`0410`043A`0442`0438`0432`043D`0438 `0432`0440`044A`0437`043A`0438''),
    (''cases.col.files'', js ''`0424`0430`0439`043B`043E`0432`0435''),
    (''cases.col.size'', js ''`0420`0430`0437`043C`0435`0440''),
    (''cases.col.created'', js ''`0421`044A`0437`0434`0430`0434`0435`043D`0430''),
    (''case.open'', js ''`043E`0442`0432`043E`0440`0435`043D`0430''),
    (''case.closed'', js ''`0437`0430`0442`0432`043E`0440`0435`043D`0430''),
    (''case.close'', js ''`0417`0430`0442`0432`043E`0440`0438 `043F`0440`0435`043F`0438`0441`043A`0430`0442`0430''),
    (''case.reopen'', js ''`041E`0442`0432`043E`0440`0438 `043E`0442`043D`043E`0432`043E''),
    (''case.meta'', js ''ID: {id} `00B7 `0441`044A`0437`0434`0430`0434`0435`043D`0430 {date}. `0417`0430`0442`0432`043E`0440`0435`043D`0430`0442`0430 `043F`0440`0435`043F`0438`0441`043A`0430 `043D`0435 `043F`0440`0438`0435`043C`0430 `043A`0430`0447`0432`0430`043D`0438`044F `043F`0440`0435`0437 `043D`0438`043A`043E`044F `043E`0442 `0432`0440`044A`0437`043A`0438`0442`0435 `0441`0438.''),
    (''case.saved'', js ''`0417`0430`043F`0430`0437`0435`043D`043E.''),
    (''case.closed_no_links'', js ''`041F`0440`0435`043F`0438`0441`043A`0430`0442`0430 `0435 `0437`0430`0442`0432`043E`0440`0435`043D`0430 `2013 `043E`0442`0432`043E`0440`0435`0442`0435 `044F `043E`0442`043D`043E`0432`043E, `0437`0430 `0434`0430 `0433`0435`043D`0435`0440`0438`0440`0430`0442`0435 `0432`0440`044A`0437`043A`0438.''),
    (''case.new_link.title'', js ''`041D`043E`0432`0430 `0432`0440`044A`0437`043A`0430 `0437`0430 `201E{label}`201C'')]"

definition bg_7 :: messages where
  "bg_7 = [
    (''case.new_link.intro'', js ''`041A`043E`043F`0438`0440`0430`0439`0442`0435 `044F `0441`0435`0433`0430. `0422`043E`043A`0435`043D`044A`0442 `0441`0435 `0441`044A`0445`0440`0430`043D`044F`0432`0430 `0441`0430`043C`043E `043A`0430`0442`043E `0445`0435`0448 `0438 `043D`0435 `043C`043E`0436`0435 `0434`0430 `0431`044A`0434`0435 `0432`044A`0437`0441`0442`0430`043D`043E`0432`0435`043D `043F`043E-`043A`044A`0441`043D`043E `2013 `043C`043E`0436`0435`0442`0435 `0441`0430`043C`043E `0434`0430 `0433`0435`043D`0435`0440`0438`0440`0430`0442`0435 `043D`043E`0432`0430 `0432`0440`044A`0437`043A`0430.''),
    (''case.new_link.copy_now'', js ''`041A`043E`043F`0438`0440`0430`0439`0442`0435 `044F `0441`0435`0433`0430.''),
    (''links.title'', js ''`0412`0440`044A`0437`043A`0438 `0437`0430 `043A`0430`0447`0432`0430`043D`0435''),
    (''links.intro'', js ''`0412`0441`044F`043A`0430 `0432`0440`044A`0437`043A`0430 `0435 `043E`0442`0434`0435`043B`0435`043D `043F`043E`043B`0443`0447`0430`0442`0435`043B `0438 `043E`0442`0434`0435`043B`043D`0430 `043E`0431`043B`0430`0441`0442 `043D`0430 `0432`0438`0434`0438`043C`043E`0441`0442: `043F`0440`0438`0442`0435`0436`0430`0442`0435`043B`044F`0442 `043D`0430 `0432`0440`044A`0437`043A`0430`0442`0430 `0432`0438`0436`0434`0430 `0441`0430`043C`043E `0444`0430`0439`043B`043E`0432`0435`0442`0435, `0438`0437`043F`0440`0430`0442`0435`043D`0438 `043F`0440`0435`0437 `043D`0435`044F, `0438 `043D`0435 `043C`043E`0436`0435 `0434`0430 `0433`0438 `0438`0437`0442`0435`0433`043B`044F `0438`043B`0438 `0438`0437`0442`0440`0438`0432`0430. `0412`0441`0438`0447`043A`0438, `043A`043E`0438`0442`043E `0437`043D`0430`044F`0442 `0435`0434`043D`0430 `0438 `0441`044A`0449`0430 `0432`0440`044A`0437`043A`0430, `0438`043C`0430`0442 `0435`0434`043D`0430`043A`044A`0432 `0434`043E`0441`0442`044A`043F `2013 `043F`0440`0438`043B`043E`0436`0435`043D`0438`0435`0442`043E `043D`0435 `043F`0440`0430`0432`0438 `0440`0430`0437`043B`0438`043A`0430 `043C`0435`0436`0434`0443 `0445`043E`0440`0430`0442`0430, `0438`0437`043F`043E`043B`0437`0432`0430`0449`0438 `0435`0434`043D`0430 `0438 `0441`044A`0449`0430 `0432`0440`044A`0437`043A`0430.''),
    (''links.generate'', js ''`0413`0435`043D`0435`0440`0438`0440`0430`0439 `043D`043E`0432`0430 `0432`0440`044A`0437`043A`0430''),
    (''links.label'', js ''`0415`0442`0438`043A`0435`0442 `043D`0430 `043F`043E`043B`0443`0447`0430`0442`0435`043B`044F''),
    (''links.label_placeholder'', js ''`043D`0430`043F`0440. `041C`0430`0440`0438`044F `0418`0432`0430`043D`043E`0432`0430 `2013 `0441`0447`0435`0442`043E`0432`043E`0434`0441`0442`0432`043E''),
    (''links.expires'', js ''`0412`0430`043B`0438`0434`043D`0430 `0434`043E (UTC, `043F`043E `0438`0437`0431`043E`0440)''),
    (''links.max_file'', js ''`041C`0430`043A`0441. `0440`0430`0437`043C`0435`0440 `043D`0430 `0444`0430`0439`043B (`043F`043E `0438`0437`0431`043E`0440, `2264 {max})''),
    (''links.max_file_placeholder'', js ''`043D`0430`043F`0440. 500MB''),
    (''links.max_files'', js ''`041C`0430`043A`0441. `0431`0440`043E`0439 `0444`0430`0439`043B`043E`0432`0435 (`043F`043E `0438`0437`0431`043E`0440)''),
    (''links.max_total'', js ''`041C`0430`043A`0441. `043E`0431`0449 `0440`0430`0437`043C`0435`0440 (`043F`043E `0438`0437`0431`043E`0440)''),
    (''links.max_total_placeholder'', js ''`043D`0430`043F`0440. 2GB''),
    (''links.submit'', js ''`0413`0435`043D`0435`0440`0438`0440`0430`0439 `0432`0440`044A`0437`043A`0430''),
    (''links.empty'', js ''`041D`044F`043C`0430 `0432`0440`044A`0437`043A`0438.''),
    (''links.col.recipient'', js ''`041F`043E`043B`0443`0447`0430`0442`0435`043B''),
    (''links.col.state'', js ''`0421`044A`0441`0442`043E`044F`043D`0438`0435''),
    (''links.col.expires'', js ''`0412`0430`043B`0438`0434`043D`0430 `0434`043E''),
    (''links.col.limits'', js ''`041E`0433`0440`0430`043D`0438`0447`0435`043D`0438`044F''),
    (''links.col.usage'', js ''`0418`0437`043F`043E`043B`0437`0432`0430`043D`0435'')]"

definition bg_8 :: messages where
  "bg_8 = [
    (''links.col.last_used'', js ''`041F`043E`0441`043B`0435`0434`043D`043E `0438`0437`043F`043E`043B`0437`0432`0430`043D`0430''),
    (''links.state.active'', js ''`0430`043A`0442`0438`0432`043D`0430''),
    (''links.state.expired'', js ''`0438`0437`0442`0435`043A`043B`0430''),
    (''links.state.revoked'', js ''`043E`0442`043C`0435`043D`0435`043D`0430''),
    (''links.state.case_closed'', js ''`043F`0440`0435`043F`0438`0441`043A`0430`0442`0430 `0435 `0437`0430`0442`0432`043E`0440`0435`043D`0430''),
    (''links.limit.file'', js ''`0444`0430`0439`043B `2264 {max}''),
    (''links.limit.files'', js ''`0444`0430`0439`043B`043E`0432`0435 `2264 {n}''),
    (''links.limit.total'', js ''`043E`0431`0449`043E `2264 {max}''),
    (''links.usage'', js ''`0444`0430`0439`043B`043E`0432`0435: {n}, {size}''),
    (''links.usage_in_progress'', js ''`0432 `043F`0440`043E`0446`0435`0441: {n} (`0440`0435`0437`0435`0440`0432`0438`0440`0430`043D`0438 {size})''),
    (''links.revoke'', js ''`041E`0442`043C`0435`043D`0438''),
    (''links.revoke_confirm'', js ''`0414`0430 `0441`0435 `043E`0442`043C`0435`043D`0438 `043B`0438 `0432`0440`044A`0437`043A`0430`0442`0430 `201E{label}`201C? `0422`0435`043A`0443`0449`0438`0442`0435 `043A`0430`0447`0432`0430`043D`0438`044F `0449`0435 `0431`044A`0434`0430`0442 `043F`0440`0435`043A`044A`0441`043D`0430`0442`0438.''),
    (''files.title'', js ''`0424`0430`0439`043B`043E`0432`0435''),
    (''files.empty'', js ''`041D`044F`043C`0430 `0444`0430`0439`043B`043E`0432`0435.''),
    (''files.col.name'', js ''`0418`043C`0435''),
    (''files.col.recipient'', js ''`041F`043E`043B`0443`0447`0430`0442`0435`043B (`0432`0440`044A`0437`043A`0430)''),
    (''files.col.size'', js ''`0420`0430`0437`043C`0435`0440''),
    (''files.col.status'', js ''`0421`044A`0441`0442`043E`044F`043D`0438`0435''),
    (''files.col.uploaded'', js ''`041A`0430`0447`0435`043D''),
    (''files.declared'', js ''{size} (`0434`0435`043A`043B`0430`0440`0438`0440`0430`043D)'')]"

definition bg_9 :: messages where
  "bg_9 = [
    (''files.download'', js ''`0418`0437`0442`0435`0433`043B`0438''),
    (''files.delete'', js ''`0418`0437`0442`0440`0438`0439''),
    (''files.delete_confirm'', js ''`0414`0430 `0441`0435 `0438`0437`0442`0440`0438`0435 `043B`0438 `0444`0430`0439`043B`044A`0442 `201E{name}`201C? `0422`043E`0432`0430 `043D`0435 `043C`043E`0436`0435 `0434`0430 `0431`044A`0434`0435 `043E`0442`043C`0435`043D`0435`043D`043E.''),
    (''files.untrusted'', js ''`0424`0430`0439`043B`043E`0432`0435`0442`0435 `0441`0435 `0442`0440`0435`0442`0438`0440`0430`0442 `043A`0430`0442`043E `043D`0435`043D`0430`0434`0435`0436`0434`043D`0438: `0438`0437`0442`0435`0433`043B`044F`043D`0438`044F`0442`0430 `0432`0438`043D`0430`0433`0438 `0441`0430 `043F`0440`0438`043A`0430`0447`0435`043D`0438 `0444`0430`0439`043B`043E`0432`0435 `0438 `043D`0438`0449`043E `043D`0435 `0441`0435 `043F`043E`043A`0430`0437`0432`0430 `0438`043B`0438 `0438`0437`043F`044A`043B`043D`044F`0432`0430 `043D`0430 `0441`044A`0440`0432`044A`0440`0430. `0410`043D`0442`0438`0432`0438`0440`0443`0441`043D`0430`0442`0430 `043F`0440`043E`0432`0435`0440`043A`0430 `043D`0435 `0435 `0447`0430`0441`0442 `043E`0442 `0442`0430`0437`0438 `0432`0435`0440`0441`0438`044F.''),
    (''files.status.uploading'', js ''`0432 `043F`0440`043E`0446`0435`0441''),
    (''files.status.complete'', js ''`0437`0430`0432`044A`0440`0448`0435`043D''),
    (''files.status.aborted'', js ''`043F`0440`0435`043A`044A`0441`043D`0430`0442''),
    (''files.status.expired'', js ''`0438`0437`0442`0435`043A`044A`043B''),
    (''files.status.missing'', js ''`043B`0438`043F`0441`0432`0430 `0432 `0445`0440`0430`043D`0438`043B`0438`0449`0435`0442`043E''),
    (''files.status.deleted'', js ''`0438`0437`0442`0440`0438`0442''),
    (''audit.title'', js ''`041E`0434`0438`0442`0435`043D `0434`043D`0435`0432`043D`0438`043A (`043F`043E`0441`043B`0435`0434`043D`0438 {n})''),
    (''audit.col.time'', js ''`0427`0430`0441''),
    (''audit.col.actor'', js ''`0418`0437`0432`044A`0440`0448`0438`0442`0435`043B''),
    (''audit.col.action'', js ''`0421`044A`0431`0438`0442`0438`0435''),
    (''audit.col.case'', js ''`041F`0440`0435`043F`0438`0441`043A`0430''),
    (''audit.col.link'', js ''`0412`0440`044A`0437`043A`0430''),
    (''audit.col.file'', js ''`0424`0430`0439`043B''),
    (''audit.col.ip'', js ''IP''),
    (''audit.col.details'', js ''`041F`043E`0434`0440`043E`0431`043D`043E`0441`0442`0438''),
    (''upload.title'', js ''`041A`0430`0447`0432`0430`043D`0435: {case}'')]"

definition bg_10 :: messages where
  "bg_10 = [
    (''upload.link_for'', js ''`0412`0440`044A`0437`043A`0430 `0437`0430:''),
    (''upload.valid_until'', js ''`0432`0430`043B`0438`0434`043D`0430 `0434`043E {date}''),
    (''upload.limit.file'', js ''`041C`0430`043A`0441`0438`043C`0430`043B`0435`043D `0440`0430`0437`043C`0435`0440 `043D`0430 `0444`0430`0439`043B:''),
    (''upload.limit.files'', js ''`041C`0430`043A`0441`0438`043C`0430`043B`0435`043D `0431`0440`043E`0439 `0444`0430`0439`043B`043E`0432`0435:''),
    (''upload.limit.total'', js ''`041E`0431`0449`043E `043E`0433`0440`0430`043D`0438`0447`0435`043D`0438`0435 `043D`0430 `0434`0430`043D`043D`0438`0442`0435:''),
    (''upload.used_n'', js ''(`0438`0437`043F`043E`043B`0437`0432`0430`043D`0438 {n})''),
    (''upload.used_size'', js ''(`0438`0437`043F`043E`043B`0437`0432`0430`043D`0438 {size})''),
    (''upload.send'', js ''`041A`0430`0447`0438 `0444`0430`0439`043B`043E`0432`0435''),
    (''upload.drop_here'', js ''`041F`043B`044A`0437`043D`0435`0442`0435 `0444`0430`0439`043B`043E`0432`0435`0442`0435 `0442`0443`043A''),
    (''upload.or'', js ''`0438`043B`0438''),
    (''upload.choose'', js ''`0438`0437`0431`0435`0440`0435`0442`0435 `043E`0442 `0434`0438`0441`043A`0430''),
    (''upload.resume_hint'', js ''`0413`043E`043B`0435`043C`0438`0442`0435 `0444`0430`0439`043B`043E`0432`0435 `0441`0435 `0438`0437`043F`0440`0430`0449`0430`0442 `043D`0430 `0447`0430`0441`0442`0438 `0438 `043A`0430`0447`0432`0430`043D`0435`0442`043E `043C`043E`0436`0435 `0434`0430 `043F`0440`043E`0434`044A`043B`0436`0438 `0441`043B`0435`0434 `043F`0440`0435`043A`044A`0441`0432`0430`043D`0435 `043D`0430 `0432`0440`044A`0437`043A`0430`0442`0430. `0421`043B`0435`0434 `043F`0440`0435`0437`0430`0440`0435`0436`0434`0430`043D`0435 `043D`0430 `0441`0442`0440`0430`043D`0438`0446`0430`0442`0430 `0438`0437`0431`0435`0440`0435`0442`0435 `043E`0442`043D`043E`0432`043E `0441`044A`0449`0438`044F `0444`0430`0439`043B `0438 `043A`0430`0447`0432`0430`043D`0435`0442`043E `043F`0440`043E`0434`044A`043B`0436`0430`0432`0430 `043E`0442`0442`0430`043C, `043A`044A`0434`0435`0442`043E `0435 `0441`043F`0440`044F`043B`043E.''),
    (''upload.your_files'', js ''`0412`0430`0448`0438`0442`0435 `0444`0430`0439`043B`043E`0432`0435''),
    (''upload.your_files_intro'', js ''`0412`0438`0436`0434`0430`0442`0435 `0441`0430`043C`043E `0444`0430`0439`043B`043E`0432`0435`0442`0435, `043A`0430`0447`0435`043D`0438 `043F`0440`0435`0437 `0442`0430`0437`0438 `0432`0440`044A`0437`043A`0430. `0422`0443`043A `0444`0430`0439`043B`043E`0432`0435`0442`0435 `043D`0435 `043C`043E`0433`0430`0442 `0434`0430 `0441`0435 `0438`0437`0442`0435`0433`043B`044F`0442 `0438`043B`0438 `0438`0437`0442`0440`0438`0432`0430`0442 `2013 `0430`0434`043C`0438`043D`0438`0441`0442`0440`0430`0442`043E`0440`044A`0442 `0433`0438 `043F`0440`0438`0431`0438`0440`0430.''),
    (''upload.col.name'', js ''`0418`043C`0435''),
    (''upload.col.size'', js ''`0420`0430`0437`043C`0435`0440''),
    (''upload.col.date'', js ''`0414`0430`0442`0430''),
    (''upload.col.status'', js ''`0421`044A`0441`0442`043E`044F`043D`0438`0435''),
    (''upload.none_yet'', js ''`0412`0441`0435 `043E`0449`0435 `043D`044F`043C`0430 `043A`0430`0447`0435`043D`0438 `0444`0430`0439`043B`043E`0432`0435.''),
    (''upload.list_failed'', js ''`0421`043F`0438`0441`044A`043A`044A`0442 `043D`0435 `043C`043E`0436`0430 `0434`0430 `0431`044A`0434`0435 `0437`0430`0440`0435`0434`0435`043D: {msg}'')]"

definition bg_11 :: messages where
  "bg_11 = [
    (''upload.terminal'', js ''`041A`0430`0447`0432`0430`043D`0435 `043E`0442 `0442`0435`0440`043C`0438`043D`0430`043B`0430''),
    (''upload.terminal_hint'', js ''(curl, `0441`043A`0440`0438`043F`0442`043E`0432`0435, `0432`044A`0437`043E`0431`043D`043E`0432`044F`0435`043C`0438 `0442`0440`0430`043D`0441`0444`0435`0440`0438)''),
    (''upload.terminal_intro'', js ''`0417`0430`043C`0435`043D`0435`0442`0435 {path} `0441 `043F`044A`0442`044F `0434`043E `0444`0430`0439`043B`0430 `0441`0438 (`0438`043D`0442`0435`0440`0432`0430`043B`0438`0442`0435 `043D`0435 `0441`0430 `043F`0440`043E`0431`043B`0435`043C). `041D`0435`043D`0443`043B`0435`0432 `043A`043E`0434 `043D`0430 `0438`0437`0445`043E`0434 `043E`0437`043D`0430`0447`0430`0432`0430 `0433`0440`0435`0448`043A`0430; `043E`0442`0433`043E`0432`043E`0440`044A`0442 `0435 JSON.''),
    (''upload.snippet.single'', js ''`0415`0434`0438`043D `0444`0430`0439`043B''),
    (''upload.snippet.multi'', js ''`041D`044F`043A`043E`043B`043A`043E `0444`0430`0439`043B`0430''),
    (''upload.snippet.env'', js ''`0422`043E`043A`0435`043D `0432 `043F`0440`043E`043C`0435`043D`043B`0438`0432`0430 `043D`0430 `0441`0440`0435`0434`0430`0442`0430 (`043F`0440`0435`043F`043E`0440`044A`0447`0438`0442`0435`043B`043D`043E)''),
    (''upload.snippet.list'', js ''`0421`043F`0438`0441`044A`043A `043D`0430 `043A`0430`0447`0435`043D`0438`0442`0435 `0444`0430`0439`043B`043E`0432`0435''),
    (''upload.snippet.resumable'', js ''`0413`043E`043B`044F`043C `0444`0430`0439`043B `0441 `0432`044A`0437`043E`0431`043D`043E`0432`044F`0432`0430`043D`0435 (`0441`043A`0440`0438`043F`0442 {script})''),
    (''upload.history_warning'', js ''`0412`043D`0438`043C`0430`043D`0438`0435: `043A`043E`043C`0430`043D`0434`0430, `0441`044A`0434`044A`0440`0436`0430`0449`0430 `0442`043E`043A`0435`043D`0430, `043F`043E`043F`0430`0434`0430 `0432 `0438`0441`0442`043E`0440`0438`044F`0442`0430 `043D`0430 `043E`0431`0432`0438`0432`043A`0430`0442`0430 (`043D`0430`043F`0440. {file}). `0412`0430`0440`0438`0430`043D`0442`044A`0442 `0441 export, `043F`0440`0435`0434`0448`0435`0441`0442`0432`0430`043D `043E`0442 `0438`043D`0442`0435`0440`0432`0430`043B, `043D`0435 `0441`0435 `0437`0430`043F`0438`0441`0432`0430, `043A`043E`0433`0430`0442`043E `0435 `0437`0430`0434`0430`0434`0435`043D`043E {opt}. `041E`0442`043D`0430`0441`044F`0439`0442`0435 `0441`0435 `043A`044A`043C `0442`0430`0437`0438 `0432`0440`044A`0437`043A`0430 `043A`0430`0442`043E `043A`044A`043C `043F`0430`0440`043E`043B`0430 `0438 `043D`0435 `044F `043F`0440`0435`0434`0430`0432`0430`0439`0442`0435 `043D`0430 `0434`0440`0443`0433`0438.''),
    (''upload.path_placeholder'', js ''/`043F`044A`0442/`0434`043E/`0444`0430`0439`043B.pdf''),
    (''upload.path_placeholder2'', js ''/`043F`044A`0442/`0434`043E`043A`043B`0430`0434.pdf''),
    (''upload.path_placeholder3'', js ''/`043F`044A`0442/`0441`043D`0438`043C`043A`0430 1.jpg''),
    (''upload.path_placeholder_big'', js ''/`043F`044A`0442/`0434`043E/`0433`043E`043B`044F`043C `0444`0430`0439`043B.iso''),
    (''upload.js.queued'', js ''`043D`0430 `043E`043F`0430`0448`043A`0430`2026''),
    (''upload.js.too_large'', js ''`0442`0432`044A`0440`0434`0435 `0433`043E`043B`044F`043C: `043E`0433`0440`0430`043D`0438`0447`0435`043D`0438`0435 {max}''),
    (''upload.js.error'', js ''`0433`0440`0435`0448`043A`0430: {msg}''),
    (''upload.js.starting'', js ''`0441`0442`0430`0440`0442`0438`0440`0430`043D`0435`2026''),
    (''upload.js.resuming'', js ''`043F`0440`043E`0434`044A`043B`0436`0430`0432`0430`043D`0435 `043D`0430 `043F`0440`0435`0434`0438`0448`043D`043E`0442`043E `043A`0430`0447`0432`0430`043D`0435`2026''),
    (''upload.js.retrying'', js ''`043D`043E`0432 `043E`043F`0438`0442`2026''),
    (''upload.js.done'', js ''`0437`0430`0432`044A`0440`0448`0435`043D'')]"

definition bg_12 :: messages where
  "bg_12 = [
    (''upload.js.finalising'', js ''`0432`0441`0438`0447`043A`0438 `0434`0430`043D`043D`0438 `0441`0430 `0438`0437`043F`0440`0430`0442`0435`043D`0438, `0441`044A`0440`0432`044A`0440`044A`0442 `043F`0440`0438`043A`043B`044E`0447`0432`0430`2026''),
    (''upload.js.cancelled'', js ''`043E`0442`043C`0435`043D`0435`043D`043E''),
    (''upload.js.cancelled_local'', js ''`043E`0442`043C`0435`043D`0435`043D`043E (`043B`043E`043A`0430`043B`043D`043E)''),
    (''upload.js.status.uploading'', js ''`0432 `043F`0440`043E`0446`0435`0441''),
    (''upload.js.status.complete'', js ''`0437`0430`0432`044A`0440`0448`0435`043D''),
    (''nav.users'', js ''`041F`043E`0442`0440`0435`0431`0438`0442`0435`043B`0438''),
    (''cases.empty_assigned'', js ''`0412`0441`0435 `043E`0449`0435 `043D`044F`043C`0430`0442`0435 `0432`044A`0437`043B`043E`0436`0435`043D`0438 `043F`0440`0435`043F`0438`0441`043A`0438. `041A`043E`043B`0435`0433`0430, `043A`043E`0439`0442`043E `0440`0430`0431`043E`0442`0438 `043F`043E `043F`0440`0435`043F`0438`0441`043A`0430, `0438`043B`0438 `0430`0434`043C`0438`043D`0438`0441`0442`0440`0430`0442`043E`0440 `043C`043E`0436`0435 `0434`0430 `0432`0438 `0432`044A`0437`043B`043E`0436`0438 `043A`044A`043C `043D`0435`044F, `0438`043B`0438 `043C`043E`0436`0435`0442`0435 `0434`0430 `0441`044A`0437`0434`0430`0434`0435`0442`0435 `043D`043E`0432`0430 `043F`043E-`0433`043E`0440`0435.''),
    (''error.forbidden.title'', js ''`041D`0435 `0435 `043F`043E`0437`0432`043E`043B`0435`043D`043E''),
    (''error.forbidden'', js ''`0422`0430`0437`0438 `0441`0442`0440`0430`043D`0438`0446`0430 `0435 `0441`0430`043C`043E `0437`0430 `0430`0434`043C`0438`043D`0438`0441`0442`0440`0430`0442`043E`0440`0438.''),
    (''security.must_change_notice'', js ''`041F`0430`0440`043E`043B`0430`0442`0430 `0432`0438 `0435 `0438`0437`0434`0430`0434`0435`043D`0430 `043E`0442 `0430`0434`043C`0438`043D`0438`0441`0442`0440`0430`0442`043E`0440. `0417`0430`0434`0430`0439`0442`0435 `0441`0432`043E`044F `043F`0430`0440`043E`043B`0430 `043F`043E-`0434`043E`043B`0443, `043F`0440`0435`0434`0438 `0434`0430 `043F`0440`043E`0434`044A`043B`0436`0438`0442`0435.''),
    (''members.title'', js ''`0412`044A`0437`043B`043E`0436`0435`043D`0438 `043F`043E`0442`0440`0435`0431`0438`0442`0435`043B`0438''),
    (''members.intro'', js ''`041F`043E`0442`0440`0435`0431`0438`0442`0435`043B`044F`0442 `0432`0438`0436`0434`0430 `0441`0430`043C`043E `043F`0440`0435`043F`0438`0441`043A`0438`0442`0435, `043A`043E`0438`0442`043E `0441`0430 `043C`0443 `0432`044A`0437`043B`043E`0436`0435`043D`0438. `0410`0434`043C`0438`043D`0438`0441`0442`0440`0430`0442`043E`0440`0438`0442`0435 `0432`0438`0436`0434`0430`0442 `0432`0441`0438`0447`043A`0438 `043F`0440`0435`043F`0438`0441`043A`0438.''),
    (''members.empty'', js ''`0422`0430`0437`0438 `043F`0440`0435`043F`0438`0441`043A`0430 `043D`0435 `0435 `0432`044A`0437`043B`043E`0436`0435`043D`0430 `043D`0430 `043D`0438`043A`043E`0439 `043F`043E`0442`0440`0435`0431`0438`0442`0435`043B `2014 `0432`0438`0436`0434`0430`0442 `044F `0441`0430`043C`043E `0430`0434`043C`0438`043D`0438`0441`0442`0440`0430`0442`043E`0440`0438`0442`0435.''),
    (''members.user'', js ''`041F`043E`0442`0440`0435`0431`0438`0442`0435`043B''),
    (''members.add'', js ''`0412`044A`0437`043B`043E`0436`0438''),
    (''members.added'', js ''`0410`043A`0430`0443`043D`0442`044A`0442 {username} `0432`0435`0447`0435 `0435 `0432`044A`0437`043B`043E`0436`0435`043D `043A`044A`043C `0442`0430`0437`0438 `043F`0440`0435`043F`0438`0441`043A`0430.''),
    (''members.remove'', js ''`041F`0440`0435`043C`0430`0445`043D`0438''),
    (''members.remove_confirm'', js ''`0414`0430 `0441`0435 `043F`0440`0435`043C`0430`0445`043D`0435 `043B`0438 {username}? `0410`043A`0430`0443`043D`0442`044A`0442 `0432`0435`0447`0435 `043D`044F`043C`0430 `0434`0430 `0432`0438`0436`0434`0430 `0442`0430`0437`0438 `043F`0440`0435`043F`0438`0441`043A`0430.''),
    (''members.removed'', js ''`0410`043A`0430`0443`043D`0442`044A`0442 {username} `0432`0435`0447`0435 `043D`044F`043C`0430 `0434`043E`0441`0442`044A`043F `0434`043E `0442`0430`0437`0438 `043F`0440`0435`043F`0438`0441`043A`0430.''),
    (''members.none_assignable'', js ''`041D`044F`043C`0430 `043F`043E`0432`0435`0447`0435 `043F`043E`0442`0440`0435`0431`0438`0442`0435`043B`0441`043A`0438 `0430`043A`0430`0443`043D`0442`0438 `0437`0430 `0432`044A`0437`043B`0430`0433`0430`043D`0435. `0421`044A`0437`0434`0430`0439`0442`0435 `043D`043E`0432 `0432 {link}.'')]"

definition bg_13 :: messages where
  "bg_13 = [
    (''users.new'', js ''`041D`043E`0432 `0430`043A`0430`0443`043D`0442''),
    (''users.list'', js ''`0410`043A`0430`0443`043D`0442`0438''),
    (''users.username'', js ''`041F`043E`0442`0440`0435`0431`0438`0442`0435`043B`0441`043A`043E `0438`043C`0435''),
    (''users.username_placeholder'', js ''`043D`0430`043F`0440. anna.ivanova@firma.bg''),
    (''users.role'', js ''`0420`043E`043B`044F''),
    (''users.role.admin'', js ''`0410`0434`043C`0438`043D`0438`0441`0442`0440`0430`0442`043E`0440''),
    (''users.role.user'', js ''`041F`043E`0442`0440`0435`0431`0438`0442`0435`043B''),
    (''users.roles_hint'', js ''`041F`043E`0442`0440`0435`0431`0438`0442`0435`043B`044F`0442 `0432`0438`0436`0434`0430 `0438 `0440`0430`0431`043E`0442`0438 `0441`0430`043C`043E `043F`043E `043F`0440`0435`043F`0438`0441`043A`0438`0442`0435, `043A`043E`0438`0442`043E `0441`0430 `043C`0443 `0432`044A`0437`043B`043E`0436`0435`043D`0438. `0410`0434`043C`0438`043D`0438`0441`0442`0440`0430`0442`043E`0440`044A`0442 `0432`0438`0436`0434`0430 `0432`0441`0438`0447`043A`0438 `043F`0440`0435`043F`0438`0441`043A`0438, `0443`043F`0440`0430`0432`043B`044F`0432`0430 `0430`043A`0430`0443`043D`0442`0438`0442`0435 `0438 `0447`0435`0442`0435 `043E`0434`0438`0442`043D`0438`044F `0434`043D`0435`0432`043D`0438`043A. `0413`0435`043D`0435`0440`0438`0440`0430 `0441`0435 `0432`0440`0435`043C`0435`043D`043D`0430 `043F`0430`0440`043E`043B`0430, `043A`043E`044F`0442`043E `0442`0440`044F`0431`0432`0430 `0434`0430 `0441`0435 `0441`043C`0435`043D`0438 `043F`0440`0438 `043F`044A`0440`0432`043E`0442`043E `0432`043B`0438`0437`0430`043D`0435.''),
    (''users.col.username'', js ''`0410`043A`0430`0443`043D`0442''),
    (''users.col.status'', js ''`0421`044A`0441`0442`043E`044F`043D`0438`0435''),
    (''users.col.totp'', js ''`0412`0442`043E`0440`0438 `0444`0430`043A`0442`043E`0440''),
    (''users.col.cases'', js ''`041F`0440`0435`043F`0438`0441`043A`0438''),
    (''users.col.last_login'', js ''`041F`043E`0441`043B`0435`0434`043D`043E `0432`043B`0438`0437`0430`043D`0435''),
    (''users.status.active'', js ''`0430`043A`0442`0438`0432`0435`043D''),
    (''users.status.disabled'', js ''`0434`0435`0430`043A`0442`0438`0432`0438`0440`0430`043D''),
    (''users.status.must_change'', js ''`0442`0440`044F`0431`0432`0430 `0434`0430 `0441`043C`0435`043D`0438 `043F`0430`0440`043E`043B`0430`0442`0430''),
    (''users.you'', js ''`0432`0438`0435''),
    (''users.all_cases'', js ''`0432`0441`0438`0447`043A`0438''),
    (''users.issued.title'', js ''`0410`043A`0430`0443`043D`0442`044A`0442 {username} `0435 `0441`044A`0437`0434`0430`0434`0435`043D''),
    (''users.issued.reset_title'', js ''`041D`043E`0432`0430 `043F`0430`0440`043E`043B`0430 `0437`0430 {username}'')]"

definition bg_14 :: messages where
  "bg_14 = [
    (''users.issued.copy_now'', js ''`041A`043E`043F`0438`0440`0430`0439`0442`0435 `043F`0430`0440`043E`043B`0430`0442`0430 `0441`0435`0433`0430 `2014 `0442`044F `0441`0435 `043F`043E`043A`0430`0437`0432`0430 `0441`0430`043C`043E `0432`0435`0434`043D`044A`0436.''),
    (''users.issued.intro'', js ''`041F`0440`0435`0434`0430`0439`0442`0435 `044F `043F`043E `043A`0430`043D`0430`043B, `0440`0430`0437`043B`0438`0447`0435`043D `043E`0442 `0442`043E`0437`0438 `0437`0430 `043F`043E`0442`0440`0435`0431`0438`0442`0435`043B`0441`043A`043E`0442`043E `0438`043C`0435. `041F`0440`0438 `043F`044A`0440`0432`043E`0442`043E `0432`043B`0438`0437`0430`043D`0435 `0442`0440`044F`0431`0432`0430 `0434`0430 `0431`044A`0434`0435 `0441`043C`0435`043D`0435`043D`0430.''),
    (''users.make_admin'', js ''`041D`0430`043F`0440`0430`0432`0438 `0430`0434`043C`0438`043D`0438`0441`0442`0440`0430`0442`043E`0440''),
    (''users.make_user'', js ''`041D`0430`043F`0440`0430`0432`0438 `043F`043E`0442`0440`0435`0431`0438`0442`0435`043B''),
    (''users.role_confirm'', js ''`0414`0430 `0441`0435 `0441`043C`0435`043D`0438 `043B`0438 `0440`043E`043B`044F`0442`0430 `043D`0430 `0430`043A`0430`0443`043D`0442`0430 {username}?''),
    (''users.role_changed'', js ''`0410`043A`0430`0443`043D`0442`044A`0442 {username} `0432`0435`0447`0435 `0438`043C`0430 `0440`043E`043B`044F: {role}.''),
    (''users.reset_password'', js ''`041D`043E`0432`0430 `043F`0430`0440`043E`043B`0430''),
    (''users.reset_password_confirm'', js ''`0414`0430 `0441`0435 `0438`0437`0434`0430`0434`0435 `043B`0438 `043D`043E`0432`0430 `043F`0430`0440`043E`043B`0430 `0437`0430 {username}? `0421`0435`0433`0430`0448`043D`0430`0442`0430 `043F`0440`0435`0441`0442`0430`0432`0430 `0434`0430 `0440`0430`0431`043E`0442`0438 `0438 `0432`0441`0438`0447`043A`0438 `0441`0435`0441`0438`0438 `043D`0430 `0430`043A`0430`0443`043D`0442`0430 `043F`0440`0438`043A`043B`044E`0447`0432`0430`0442.''),
    (''users.password_reset'', js ''`0418`0437`0434`0430`0434`0435`043D`0430 `0435 `043D`043E`0432`0430 `043F`0430`0440`043E`043B`0430 `0437`0430 {username} `0438 `0430`043A`0430`0443`043D`0442`044A`0442 `0435 `0438`0437`0432`0435`0434`0435`043D `043E`0442 `0441`0438`0441`0442`0435`043C`0430`0442`0430.''),
    (''users.reset_totp'', js ''`041D`0443`043B`0438`0440`0430`0439 2FA''),
    (''users.reset_totp_confirm'', js ''`0414`0430 `0441`0435 `043F`0440`0435`043C`0430`0445`043D`0435 `043B`0438 `0432`0442`043E`0440`0438`044F`0442 `0444`0430`043A`0442`043E`0440 `043D`0430 {username}? `0422`043E`0439 `0441`0435 `043D`0430`0441`0442`0440`043E`0439`0432`0430 `043E`0442`043D`043E`0432`043E `0441`043B`0435`0434 `0441`043B`0435`0434`0432`0430`0449`043E`0442`043E `0432`043B`0438`0437`0430`043D`0435.''),
    (''users.totp_reset'', js ''`0414`0432`0443`0444`0430`043A`0442`043E`0440`043D`043E`0442`043E `0443`0434`043E`0441`0442`043E`0432`0435`0440`044F`0432`0430`043D`0435 `0435 `043F`0440`0435`043C`0430`0445`043D`0430`0442`043E `043E`0442 `0430`043A`0430`0443`043D`0442`0430 {username}.''),
    (''users.disable'', js ''`0414`0435`0430`043A`0442`0438`0432`0438`0440`0430`0439''),
    (''users.disable_confirm'', js ''`0414`0430 `0441`0435 `0434`0435`0430`043A`0442`0438`0432`0438`0440`0430 `043B`0438 {username}? `0410`043A`0430`0443`043D`0442`044A`0442 `0441`0435 `0438`0437`0432`0435`0436`0434`0430 `043E`0442 `0441`0438`0441`0442`0435`043C`0430`0442`0430 `0438 `043D`0435 `043C`043E`0436`0435 `0434`0430 `0432`043B`0435`0437`0435, `0434`043E`043A`0430`0442`043E `043D`0435 `0431`044A`0434`0435 `0430`043A`0442`0438`0432`0438`0440`0430`043D `043E`0442`043D`043E`0432`043E.''),
    (''users.disabled'', js ''`0410`043A`0430`0443`043D`0442`044A`0442 {username} `0435 `0434`0435`0430`043A`0442`0438`0432`0438`0440`0430`043D `0438 `0438`0437`0432`0435`0434`0435`043D `043E`0442 `0441`0438`0441`0442`0435`043C`0430`0442`0430.''),
    (''users.enable'', js ''`0410`043A`0442`0438`0432`0438`0440`0430`0439''),
    (''users.enabled'', js ''`0410`043A`0430`0443`043D`0442`044A`0442 {username} `043E`0442`043D`043E`0432`043E `043C`043E`0436`0435 `0434`0430 `0432`043B`0438`0437`0430.''),
    (''users.delete'', js ''`0418`0437`0442`0440`0438`0439''),
    (''users.delete_confirm'', js ''`0414`0430 `0441`0435 `0438`0437`0442`0440`0438`0435 `043B`0438 `0430`043A`0430`0443`043D`0442`044A`0442 {username}? `0417`0430`0435`0434`043D`043E `0441 `043D`0435`0433`043E `0438`0437`0447`0435`0437`0432`0430`0442 `0438 `0432`044A`0437`043B`0430`0433`0430`043D`0438`044F`0442`0430 `043C`0443 `043F`043E `043F`0440`0435`043F`0438`0441`043A`0438; `043E`0434`0438`0442`043D`0438`044F`0442 `0434`043D`0435`0432`043D`0438`043A `043F`0430`0437`0438 `043A`0430`043A`0432`043E `0435 `043D`0430`043F`0440`0430`0432`0438`043B.''),
    (''users.deleted'', js ''`0410`043A`0430`0443`043D`0442`044A`0442 {username} `0435 `0438`0437`0442`0440`0438`0442.'')]"

definition bg_15 :: messages where
  "bg_15 = [
    (''users.missing'', js ''`041D`044F`043C`0430 `0442`0430`043A`044A`0432 `0430`043A`0430`0443`043D`0442.''),
    (''users.not_self'', js ''`0422`0443`043A `043D`0435 `043C`043E`0436`0435`0442`0435 `0434`0430 `043F`0440`043E`043C`0435`043D`044F`0442`0435 `0441`043E`0431`0441`0442`0432`0435`043D`0438`044F `0441`0438 `0430`043A`0430`0443`043D`0442 `2014 `043F`0430`0440`043E`043B`0430`0442`0430 `0438 2FA `0441`0430 `0432 `0440`0430`0437`0434`0435`043B `0421`0438`0433`0443`0440`043D`043E`0441`0442.''),
    (''users.last_admin'', js ''`0422`0440`044F`0431`0432`0430 `0434`0430 `043E`0441`0442`0430`043D`0435 `043F`043E`043D`0435 `0435`0434`0438`043D `0430`043A`0442`0438`0432`0435`043D `0430`0434`043C`0438`043D`0438`0441`0442`0440`0430`0442`043E`0440.''),
    (''users.exists'', js ''`0412`0435`0447`0435 `0441`044A`0449`0435`0441`0442`0432`0443`0432`0430 `0430`043A`0430`0443`043D`0442 `0441 `0438`043C`0435 {username}.''),
    (''users.invalid_username'', js ''`041F`043E`0442`0440`0435`0431`0438`0442`0435`043B`0441`043A`043E`0442`043E `0438`043C`0435 `0435 `043E`0442 2 `0434`043E 64 `0437`043D`0430`043A`0430: `0431`0443`043A`0432`0438, `0446`0438`0444`0440`0438 `0438 . _ @ -''),
    (''users.invalid_role'', js ''`041D`0435`043F`043E`0437`043D`0430`0442`0430 `0440`043E`043B`044F.''),
    (''members.not_self'', js ''`041D`0435 `043C`043E`0436`0435`0442`0435 `0434`0430 `043F`0440`0435`043C`0430`0445`043D`0435`0442`0435 `0441`0435`0431`0435 `0441`0438. `041F`043E`043C`043E`043B`0435`0442`0435 `0434`0440`0443`0433 `0447`043E`0432`0435`043A `043F`043E `043F`0440`0435`043F`0438`0441`043A`0430`0442`0430 `0438`043B`0438 `0430`0434`043C`0438`043D`0438`0441`0442`0440`0430`0442`043E`0440.''),
    (''members.none_assignable_user'', js ''`041D`044F`043C`0430 `0434`0440`0443`0433 `043F`043E`0442`0440`0435`0431`0438`0442`0435`043B`0441`043A`0438 `0430`043A`0430`0443`043D`0442 `0437`0430 `0432`044A`0437`043B`0430`0433`0430`043D`0435.''),
    (''second.title'', js ''`0412`0442`043E`0440`0430 `0441`0442`044A`043F`043A`0430 `043E`0442 `0432`0445`043E`0434`0430''),
    (''second.recovery_label'', js ''`041A`043E`0434 `0437`0430 `0432`044A`0437`0441`0442`0430`043D`043E`0432`044F`0432`0430`043D`0435''),
    (''common.or'', js ''`0438`043B`0438''),
    (''passkey.use'', js ''`0418`0437`043F`043E`043B`0437`0432`0430`0439 `043A`043B`044E`0447 `0437`0430 `0434`043E`0441`0442`044A`043F''),
    (''passkey.unsupported'', js ''`0422`043E`0437`0438 `0431`0440`0430`0443`0437`044A`0440 `043D`0435 `043F`043E`0434`0434`044A`0440`0436`0430 `043A`043B`044E`0447`043E`0432`0435 `0437`0430 `0434`043E`0441`0442`044A`043F.''),
    (''passkey.failed'', js ''`041A`043B`044E`0447`044A`0442 `0437`0430 `0434`043E`0441`0442`044A`043F `043D`0435 `043C`043E`0436`0430 `0434`0430 `0431`044A`0434`0435 `043F`043E`0442`0432`044A`0440`0434`0435`043D. `041E`043F`0438`0442`0430`0439`0442`0435 `043E`0442`043D`043E`0432`043E.''),
    (''passkey.cancelled'', js ''`041E`0442`043C`0435`043D`0435`043D`043E. `041E`043F`0438`0442`0430`0439`0442`0435 `043E`0442`043D`043E`0432`043E, `043A`043E`0433`0430`0442`043E `0441`0442`0435 `0432 `0433`043E`0442`043E`0432`043D`043E`0441`0442.''),
    (''confirm.title'', js ''`041F`043E`0442`0432`044A`0440`0434`0435`0442`0435, `0447`0435 `0442`043E`0432`0430 `0441`0442`0435 `0432`0438`0435''),
    (''confirm.intro'', js ''`0422`043E`0432`0430 `0434`0435`0439`0441`0442`0432`0438`0435 `0438`0437`0438`0441`043A`0432`0430 `0441`043A`043E`0440`043E`0448`043D`043E `043F`043E`0442`0432`044A`0440`0436`0434`0435`043D`0438`0435. `0422`043E `043E`0441`0442`0430`0432`0430 `0432`0430`043B`0438`0434`043D`043E `0437`0430 {minutes} `043C`0438`043D`0443`0442`0438, `0437`0430 `0434`0430 `043D`0435 `0431`044A`0434`0435`0442`0435 `043F`0438`0442`0430`043D`0438 `043E`0442`043D`043E`0432`043E `043F`0440`0438 `0432`0441`044F`043A`0430 `0441`0442`044A`043F`043A`0430.''),
    (''confirm.repeat'', js ''`0421`043B`0435`0434 `043A`0430`0442`043E `043F`043E`0442`0432`044A`0440`0434`0438`0442`0435, `043F`043E`0432`0442`043E`0440`0435`0442`0435 `0442`043E`0432`0430, `043A`043E`0435`0442`043E `043F`0440`0430`0432`0435`0445`0442`0435.''),
    (''confirm.code_label'', js ''`041A`043E`0434 `043E`0442 `043F`0440`0438`043B`043E`0436`0435`043D`0438`0435`0442`043E `0438`043B`0438 `043A`043E`0434 `0437`0430 `0432`044A`0437`0441`0442`0430`043D`043E`0432`044F`0432`0430`043D`0435''),
    (''confirm.password_label'', js ''`0412`0430`0448`0430`0442`0430 `043F`0430`0440`043E`043B`0430'')]"

definition bg_16 :: messages where
  "bg_16 = [
    (''confirm.submit'', js ''`041F`043E`0442`0432`044A`0440`0434`0438''),
    (''confirm.invalid'', js ''`041D`044F`043C`0430 `0441`044A`0432`043F`0430`0434`0435`043D`0438`0435. `041E`043F`0438`0442`0430`0439`0442`0435 `043E`0442`043D`043E`0432`043E.''),
    (''confirm.locked'', js ''`0422`0432`044A`0440`0434`0435 `043C`043D`043E`0433`043E `0433`0440`0435`0448`043D`0438 `043A`043E`0434`043E`0432`0435 `0437`0430 `0442`043E`0437`0438 `0430`043A`0430`0443`043D`0442. `041E`043F`0438`0442`0430`0439`0442`0435 `043E`0442`043D`043E`0432`043E `0441`043B`0435`0434 15 `043C`0438`043D`0443`0442`0438.''),
    (''passkeys.title'', js ''`041A`043B`044E`0447`043E`0432`0435 `0437`0430 `0434`043E`0441`0442`044A`043F''),
    (''passkeys.intro'', js ''`041A`043B`044E`0447`044A`0442 `0437`0430 `0434`043E`0441`0442`044A`043F `0441`0435 `0441`044A`0445`0440`0430`043D`044F`0432`0430 `043E`0442 `0432`0430`0448`0435`0442`043E `0443`0441`0442`0440`043E`0439`0441`0442`0432`043E, `043C`0435`043D`0438`0434`0436`044A`0440`0430 `0432`0438 `043D`0430 `043F`0430`0440`043E`043B`0438 `0438`043B`0438 `043A`043B`044E`0447 `0437`0430 `0441`0438`0433`0443`0440`043D`043E`0441`0442 `0438 `043D`0435 `043C`043E`0436`0435 `0434`0430 `0431`044A`0434`0435 `0444`0438`0448`0438`043D`0433`043D`0430`0442. `0422`043E`0439 `0441`043B`0443`0436`0438 `043A`0430`0442`043E `0432`0442`043E`0440`0430 `0441`0442`044A`043F`043A`0430 `043F`0440`0438 `0432`0445`043E`0434 `0438 `0437`0430 `043F`043E`0442`0432`044A`0440`0436`0434`0430`0432`0430`043D`0435 `043D`0430 `0447`0443`0432`0441`0442`0432`0438`0442`0435`043B`043D`0438 `0434`0435`0439`0441`0442`0432`0438`044F.''),
    (''passkeys.none'', js ''`0412`0441`0435 `043E`0449`0435 `043D`044F`043C`0430 `043A`043B`044E`0447`043E`0432`0435 `0437`0430 `0434`043E`0441`0442`044A`043F.''),
    (''passkeys.name'', js ''`0418`043C`0435''),
    (''passkeys.name_placeholder'', js ''`043D`0430`043F`0440. `043B`0430`043F`0442`043E`043F, `043A`043B`044E`0447 `0437`0430 `0441`0438`0433`0443`0440`043D`043E`0441`0442''),
    (''passkeys.added_at'', js ''`0414`043E`0431`0430`0432`0435`043D''),
    (''passkeys.last_used'', js ''`041F`043E`0441`043B`0435`0434`043D`043E `0438`0437`043F`043E`043B`0437`0432`0430`043D''),
    (''passkeys.add'', js ''`0414`043E`0431`0430`0432`0438 `043A`043B`044E`0447 `0437`0430 `0434`043E`0441`0442`044A`043F''),
    (''passkeys.remove'', js ''`041F`0440`0435`043C`0430`0445`043D`0438''),
    (''passkeys.remove_confirm'', js ''`0414`0430 `0441`0435 `043F`0440`0435`043C`0430`0445`043D`0435 `043B`0438 `0442`043E`0437`0438 `043A`043B`044E`0447 `0437`0430 `0434`043E`0441`0442`044A`043F? `0414`0440`0443`0433`0438`0442`0435 `0441`0435`0441`0438`0438 `043D`0430 `0442`043E`0437`0438 `0430`043A`0430`0443`043D`0442 `0449`0435 `0431`044A`0434`0430`0442 `043F`0440`0435`043A`0440`0430`0442`0435`043D`0438.''),
    (''passkeys.added'', js ''`041A`043B`044E`0447 `0437`0430 `0434`043E`0441`0442`044A`043F `201E{name}`201C `0435 `0434`043E`0431`0430`0432`0435`043D.''),
    (''passkeys.removed'', js ''`041A`043B`044E`0447 `0437`0430 `0434`043E`0441`0442`044A`043F `201E{name}`201C `0435 `043F`0440`0435`043C`0430`0445`043D`0430`0442. `0414`0440`0443`0433`0438`0442`0435 `0441`0435`0441`0438`0438 `043D`0430 `0442`043E`0437`0438 `0430`043A`0430`0443`043D`0442 `0441`0430 `043F`0440`0435`043A`0440`0430`0442`0435`043D`0438.''),
    (''passkeys.last_required'', js ''`0422`0430`0437`0438 `0438`043D`0441`0442`0430`043D`0446`0438`044F `0438`0437`0438`0441`043A`0432`0430 `0432`0442`043E`0440`0438 `0444`0430`043A`0442`043E`0440. `0414`043E`0431`0430`0432`0435`0442`0435 `0434`0440`0443`0433, `043F`0440`0435`0434`0438 `0434`0430 `043F`0440`0435`043C`0430`0445`043D`0435`0442`0435 `043F`043E`0441`043B`0435`0434`043D`0438`044F.''),
    (''passkeys.limit'', js ''`0415`0434`0438`043D `0430`043A`0430`0443`043D`0442 `043C`043E`0436`0435 `0434`0430 `0438`043C`0430 `043D`0430`0439-`043C`043D`043E`0433`043E {n} `043A`043B`044E`0447`0430 `0437`0430 `0434`043E`0441`0442`044A`043F.''),
    (''passkeys.duplicate'', js ''`0422`043E`0437`0438 `043A`043B`044E`0447 `0437`0430 `0434`043E`0441`0442`044A`043F `0432`0435`0447`0435 `0435 `0440`0435`0433`0438`0441`0442`0440`0438`0440`0430`043D.''),
    (''security.recovery.regenerate_confirmed'', js ''`0413`0435`043D`0435`0440`0438`0440`0430`0439 `043D`043E`0432`0438 `043A`043E`0434`043E`0432`0435 (`0441`0442`0430`0440`0438`0442`0435 `0441`043F`0438`0440`0430`0442 `0434`0430 `0440`0430`0431`043E`0442`044F`0442)''),
    (''sessions.title'', js ''`0410`043A`0442`0438`0432`043D`0438 `0441`0435`0441`0438`0438'')]"

definition bg_17 :: messages where
  "bg_17 = [
    (''sessions.intro'', js ''`0412`0441`0438`0447`043A`0438 `043C`0435`0441`0442`0430, `043A`044A`0434`0435`0442`043E `0442`043E`0437`0438 `0430`043A`0430`0443`043D`0442 `0435 `0432`043F`0438`0441`0430`043D. `041F`0440`0435`043A`0440`0430`0442`0435`0442`0435 `0442`0435`0437`0438, `043A`043E`0438`0442`043E `043D`0435 `0440`0430`0437`043F`043E`0437`043D`0430`0432`0430`0442`0435, `0441`043B`0435`0434 `043A`043E`0435`0442`043E `0441`043C`0435`043D`0435`0442`0435 `043F`0430`0440`043E`043B`0430`0442`0430 `0441`0438.''),
    (''sessions.device'', js ''`0423`0441`0442`0440`043E`0439`0441`0442`0432`043E''),
    (''sessions.ip'', js ''IP `0430`0434`0440`0435`0441''),
    (''sessions.started'', js ''`041D`0430`0447`0430`043B`043E''),
    (''sessions.last_seen'', js ''`041F`043E`0441`043B`0435`0434`043D`0430 `0430`043A`0442`0438`0432`043D`043E`0441`0442''),
    (''sessions.current'', js ''`0442`0430`0437`0438 `0441`0435`0441`0438`044F''),
    (''sessions.pending'', js ''`0441`0430`043C`043E `043F`0430`0440`043E`043B`0430, `0432`0442`043E`0440`0430`0442`0430 `0441`0442`044A`043F`043A`0430 `043D`0435 `0435 `0438`0437`0432`044A`0440`0448`0435`043D`0430''),
    (''sessions.bound'', js ''`043E`0431`0432`044A`0440`0437`0430`043D`0430 `0441 `0442`043E`0432`0430 `0443`0441`0442`0440`043E`0439`0441`0442`0432`043E''),
    (''sessions.factor'', js ''`0432`0442`043E`0440`0430 `0441`0442`044A`043F`043A`0430: {factor}''),
    (''sessions.via.totp'', js ''`043A`043E`0434 `043E`0442 `043F`0440`0438`043B`043E`0436`0435`043D`0438`0435''),
    (''sessions.via.recovery'', js ''`043A`043E`0434 `0437`0430 `0432`044A`0437`0441`0442`0430`043D`043E`0432`044F`0432`0430`043D`0435''),
    (''sessions.via.passkey'', js ''`043A`043B`044E`0447 `0437`0430 `0434`043E`0441`0442`044A`043F''),
    (''sessions.unknown_device'', js ''`041D`0435`043F`043E`0437`043D`0430`0442`043E `0443`0441`0442`0440`043E`0439`0441`0442`0432`043E''),
    (''sessions.revoke'', js ''`0418`0437`0445`043E`0434''),
    (''sessions.revoke_others'', js ''`0418`0437`0445`043E`0434 `043E`0442 `0432`0441`0438`0447`043A`0438 `0434`0440`0443`0433`0438 `0441`0435`0441`0438`0438''),
    (''sessions.revoked'', js ''`0421`0435`0441`0438`044F`0442`0430 `0435 `043F`0440`0435`043A`0440`0430`0442`0435`043D`0430.''),
    (''sessions.revoked_others'', js ''`0412`0441`0438`0447`043A`0438 `043E`0441`0442`0430`043D`0430`043B`0438 `0441`0435`0441`0438`0438 `0441`0430 `043F`0440`0435`043A`0440`0430`0442`0435`043D`0438.'')]"

definition bg_messages :: messages where
  "bg_messages = bg_1 @ bg_2 @ bg_3 @ bg_4 @ bg_5 @ bg_6 @ bg_7 @ bg_8 @ bg_9 @ bg_10 @ bg_11 @ bg_12 @ bg_13 @ bg_14 @ bg_15 @ bg_16 @ bg_17"

lemmas bg_defs =
  bg_1_def bg_2_def bg_3_def bg_4_def bg_5_def bg_6_def bg_7_def bg_8_def bg_9_def bg_10_def bg_11_def bg_12_def bg_13_def bg_14_def
  bg_15_def bg_16_def bg_17_def

lemma bg_fits: "fits bg_messages message_shape"
  unfolding bg_messages_def message_shape_def
  by (intro fits_append; unfold bg_defs shape_defs; simp only: fits_rules cong: literal_congs)

end
