(* ===== verification/Locale_Cs.thy ===== *)
theory Locale_Cs
  imports Locale_En
begin

text \<open>src/locales/cs.ts: Czech.\<close>

definition cs_1 :: messages where
  "cs_1 = [
    (''app.tagline'', js ''soukrom`00E1 schr`00E1nka pro soubory''),
    (''common.back_to_cases'', js ''`2190 P`0159`00EDpady''),
    (''common.home'', js ''`00DAvod''),
    (''common.copy'', js ''Kop`00EDrovat''),
    (''common.copied'', js ''Zkop`00EDrov`00E1no''),
    (''common.copy_manual'', js ''Ozna`010Dte a zkop`00EDrujte ru`010Dn`011B''),
    (''common.save'', js ''Ulo`017Eit''),
    (''common.create'', js ''Vytvo`0159it''),
    (''common.cancel'', js ''Zru`0161it''),
    (''common.retry'', js ''Zkusit znovu''),
    (''common.never'', js ''nikdy''),
    (''common.unlimited'', js ''bez omezen`00ED platnosti''),
    (''common.none'', js ''`2014''),
    (''common.optional'', js ''nepovinn`00E9''),
    (''common.loading'', js ''Na`010D`00EDt`00E1n`00ED`2026''),
    (''common.yes'', js ''Ano''),
    (''common.language'', js ''Jazyk''),
    (''nav.cases'', js ''P`0159`00EDpady''),
    (''nav.audit'', js ''Auditn`00ED protokol''),
    (''nav.security'', js ''Zabezpe`010Den`00ED'')]"

definition cs_2 :: messages where
  "cs_2 = [
    (''nav.logout'', js ''Odhl`00E1sit se''),
    (''error.not_found.title'', js ''Nenalezeno''),
    (''error.page_missing'', js ''Tato str`00E1nka neexistuje.''),
    (''error.case_missing'', js ''Tento p`0159`00EDpad neexistuje.''),
    (''error.link_missing'', js ''Tento odkaz neexistuje.''),
    (''error.file_missing'', js ''Soubor neexistuje nebo nen`00ED dostupn`00FD.''),
    (''error.file_not_exist'', js ''Soubor neexistuje.''),
    (''error.storage_missing.title'', js ''Soubor chyb`00ED v `00FAlo`017Ei`0161ti''),
    (''error.storage_missing'', js ''Metadata existuj`00ED, ale objekt z `00FAlo`017Ei`0161t`011B zmizel. Spus`0165te `00FAklid, aby byl soubor ozna`010Den jako chyb`011Bj`00EDc`00ED.''),
    (''error.server.title'', js ''Chyba serveru''),
    (''error.server'', js ''Do`0161lo k neo`010Dek`00E1van`00E9 chyb`011B.''),
    (''error.bad_request.title'', js ''Chybn`00FD po`017Eadavek''),
    (''error.cross_site'', js ''Po`017Eadavek z jin`00E9ho webu byl zablokov`00E1n''),
    (''error.csrf'', js ''Neplatn`00FD token CSRF''),
    (''error.invalid_expiry'', js ''Neplatn`00E9 datum platnosti''),
    (''link.invalid.title'', js ''Neplatn`00FD odkaz''),
    (''link.invalid'', js ''Tento odkaz pro nahr`00E1v`00E1n`00ED neexistuje.''),
    (''link.unavailable.title'', js ''Odkaz nen`00ED dostupn`00FD''),
    (''link.expired'', js ''Platnost tohoto odkazu vypr`0161ela.''),
    (''link.revoked'', js ''Tento odkaz byl zru`0161en.'')]"

definition cs_3 :: messages where
  "cs_3 = [
    (''link.case_closed'', js ''P`0159`00EDpad byl uzav`0159en a u`017E nep`0159ij`00EDm`00E1 soubory.''),
    (''link.contact'', js ''Obra`0165te se na osobu, kter`00E1 v`00E1m odkaz dala.''),
    (''login.title'', js ''P`0159ihl`00E1`0161en`00ED spr`00E1vce''),
    (''login.username'', js ''U`017Eivatelsk`00E9 jm`00E9no''),
    (''login.password'', js ''Heslo''),
    (''login.submit'', js ''P`0159ihl`00E1sit se''),
    (''login.failed'', js ''Neplatn`00E9 u`017Eivatelsk`00E9 jm`00E9no nebo heslo.''),
    (''login.too_many_codes'', js ''P`0159`00EDli`0161 mnoho chybn`00FDch k`00F3d`016F. P`0159ihlaste se znovu.''),
    (''login.account_locked'', js ''P`0159`00EDli`0161 mnoho chybn`00FDch k`00F3d`016F pro tento `00FA`010Det. Druh`00FD faktor je na 15 minut zablokov`00E1n.''),
    (''totp.title'', js ''K`00F3d z va`0161`00ED ov`011B`0159ovac`00ED aplikace''),
    (''totp.code_label'', js ''K`00F3d (6 `010D`00EDslic) nebo z`00E1lo`017En`00ED k`00F3d''),
    (''totp.confirm'', js ''Potvrdit''),
    (''totp.cancel_logout'', js ''Zru`0161it a odhl`00E1sit se''),
    (''totp.invalid'', js ''Neplatn`00FD k`00F3d.''),
    (''totp.attempts_left'', js ''Zb`00FDvaj`00EDc`00ED pokusy: {n}.''),
    (''totp.locked_until'', js ''`00DA`010Det je po mnoha chybn`00FDch k`00F3dech do`010Dasn`011B zablokov`00E1n (do {until} UTC).''),
    (''security.title'', js ''Zabezpe`010Den`00ED `00FA`010Dtu `201E{user}`201C''),
    (''security.required_notice'', js ''Tato instance vy`017Eaduje druh`00FD faktor. Panel z`016Fstane nedostupn`00FD, dokud n`00ED`017Ee nep`0159id`00E1te ov`011B`0159ovac`00ED aplikaci nebo p`0159`00EDstupov`00FD kl`00ED`010D.''),
    (''security.status'', js ''Dvouf`00E1zov`00E9 ov`011B`0159en`00ED (TOTP, RFC 6238): {state}.''),
    (''security.enabled'', js ''zapnuto'')]"

definition cs_4 :: messages where
  "cs_4 = [
    (''security.disabled'', js ''vypnuto''),
    (''security.recovery_left'', js ''Nepou`017Eit`00E9 z`00E1lo`017En`00ED k`00F3dy: {n}.''),
    (''security.recovery.title'', js ''Z`00E1lo`017En`00ED k`00F3dy''),
    (''security.recovery.intro'', js ''Ulo`017Ete si je hned na bezpe`010Dn`00E9 m`00EDsto. Ka`017Ed`00FD funguje jednou a nahrad`00ED k`00F3d z aplikace, pokud k n`00ED ztrat`00EDte p`0159`00EDstup. Znovu u`017E zobrazeny nebudou.''),
    (''security.enable.title'', js ''Zapnout TOTP''),
    (''security.enable.intro'', js ''Pot`0159ebujete ov`011B`0159ovac`00ED aplikaci (nap`0159. Aegis, Google Authenticator, 1Password, Bitwarden). Po zapnut`00ED vy`017Eaduje p`0159ihl`00E1`0161en`00ED heslo a aktu`00E1ln`00ED k`00F3d.''),
    (''security.enable.start'', js ''Zah`00E1jit nastaven`00ED''),
    (''security.step1'', js ''Krok 1: naskenujte k`00F3d v aplikaci''),
    (''security.manual_key'', js ''Nebo zadejte kl`00ED`010D ru`010Dn`011B:''),
    (''security.key_params'', js ''Typ: TOTP, SHA-1, 6 `010D`00EDslic, 30 s. Vydavatel: {issuer}, `00FA`010Det: {user}.''),
    (''security.open_in_app'', js ''Otev`0159`00EDt v ov`011B`0159ovac`00ED aplikaci''),
    (''security.on_phone'', js ''(v telefonu)''),
    (''security.step2'', js ''Krok 2: potvr`010Fte k`00F3dem''),
    (''security.code_from_app'', js ''K`00F3d z aplikace''),
    (''security.enable.submit'', js ''Zapnout TOTP''),
    (''security.pending_note'', js ''Kl`00ED`010D je do`010Dasn`00FD, dokud ho nepotvrd`00EDte; nov`00E9 zah`00E1jen`00ED nastaven`00ED vygeneruje nov`00FD.''),
    (''security.current_code'', js ''Aktu`00E1ln`00ED k`00F3d z aplikace''),
    (''security.regenerate'', js ''Vygenerovat nov`00E9 k`00F3dy (star`00E9 p`0159estanou fungovat)''),
    (''security.disable.title'', js ''Vypnout TOTP''),
    (''security.disable.intro'', js ''Vy`017Eaduje aktu`00E1ln`00ED k`00F3d z aplikace nebo z`00E1lo`017En`00ED k`00F3d: samotn`00E1 relace (nap`0159. ukraden`00E1 cookie) nesta`010D`00ED. Pokud je ztracena aplikace i z`00E1lo`017En`00ED k`00F3dy, m`016F`017Ee provozovatel na serveru spustit {cmd}.'')]"

definition cs_5 :: messages where
  "cs_5 = [
    (''security.disable.code'', js ''K`00F3d''),
    (''security.disable.submit'', js ''Vypnout''),
    (''security.disable.confirm'', js ''Vypnout dvouf`00E1zov`00E9 ov`011B`0159en`00ED?''),
    (''security.msg.enabled'', js ''Dvouf`00E1zov`00E9 ov`011B`0159en`00ED je zapnuto.''),
    (''security.msg.code_mismatch'', js ''K`00F3d nesouhlas`00ED. Zkontrolujte `010Das v telefonu a zkuste to znovu.''),
    (''security.msg.invalid_code'', js ''Neplatn`00FD k`00F3d.''),
    (''security.msg.regenerated'', js ''Byly vygenerov`00E1ny nov`00E9 z`00E1lo`017En`00ED k`00F3dy.''),
    (''security.msg.required'', js ''Tato instance vy`017Eaduje TOTP (ADMIN_REQUIRE_TOTP); nelze ho vypnout.''),
    (''security.msg.disabled'', js ''Dvouf`00E1zov`00E9 ov`011B`0159en`00ED bylo vypnuto.''),
    (''security.password.title'', js ''Zm`011Bnit heslo''),
    (''security.password.current'', js ''Sou`010Dasn`00E9 heslo''),
    (''security.password.new'', js ''Nov`00E9 heslo (min. 12 znak`016F)''),
    (''security.password.confirm'', js ''Potvrzen`00ED nov`00E9ho hesla''),
    (''security.password.submit'', js ''Zm`011Bnit heslo''),
    (''security.password.mismatch'', js ''Nov`00E9 heslo a jeho potvrzen`00ED se neshoduj`00ED.''),
    (''security.password.invalid_current'', js ''Sou`010Dasn`00E9 heslo je nespr`00E1vn`00E9.''),
    (''security.password.changed'', js ''Heslo bylo zm`011Bn`011Bno. Ostatn`00ED relace tohoto `00FA`010Dtu byly odhl`00E1`0161eny.''),
    (''home.title'', js ''inletbox''),
    (''home.message'', js ''Toto je soukrom`00E1 schr`00E1nka pro soubory. K nahr`00E1n`00ED soubor`016F pou`017Eijte odkaz, kter`00FD jste dostali od osoby, je`017E o n`011B po`017E`00E1dala.''),
    (''cases.new'', js ''Nov`00FD p`0159`00EDpad'')]"

definition cs_6 :: messages where
  "cs_6 = [
    (''cases.name'', js ''N`00E1zev''),
    (''cases.name_placeholder'', js ''nap`0159. Audit 2026/09 `2013 Klient X''),
    (''cases.description_optional'', js ''Popis (nepovinn`00FD)''),
    (''cases.description'', js ''Popis''),
    (''cases.list'', js ''P`0159`00EDpady''),
    (''cases.empty'', js ''`017D`00E1dn`00E9 p`0159`00EDpady.''),
    (''cases.col.name'', js ''N`00E1zev''),
    (''cases.col.status'', js ''Stav''),
    (''cases.col.links'', js ''Aktivn`00ED odkazy''),
    (''cases.col.files'', js ''Soubory''),
    (''cases.col.size'', js ''Velikost''),
    (''cases.col.created'', js ''Vytvo`0159eno''),
    (''case.open'', js ''otev`0159en`00FD''),
    (''case.closed'', js ''uzav`0159en`00FD''),
    (''case.close'', js ''Uzav`0159`00EDt p`0159`00EDpad''),
    (''case.reopen'', js ''Znovu otev`0159`00EDt''),
    (''case.meta'', js ''ID: {id} `00B7 vytvo`0159eno {date}. Uzav`0159en`00FD p`0159`00EDpad nep`0159ij`00EDm`00E1 nahr`00E1v`00E1n`00ED p`0159es `017E`00E1dn`00FD ze sv`00FDch odkaz`016F.''),
    (''case.saved'', js ''Ulo`017Eeno.''),
    (''case.closed_no_links'', js ''P`0159`00EDpad je uzav`0159en`00FD `2013 znovu ho otev`0159ete, abyste mohli generovat odkazy.''),
    (''case.new_link.title'', js ''Nov`00FD odkaz pro `201E{label}`201C'')]"

definition cs_7 :: messages where
  "cs_7 = [
    (''case.new_link.intro'', js ''Zkop`00EDrujte ho hned. Token se ukl`00E1d`00E1 jen jako hash a pozd`011Bji ho nelze obnovit `2013 m`016F`017Eete pouze vygenerovat nov`00FD odkaz.''),
    (''case.new_link.copy_now'', js ''Zkop`00EDrujte ho hned.''),
    (''links.title'', js ''Odkazy pro nahr`00E1v`00E1n`00ED''),
    (''links.intro'', js ''Ka`017Ed`00FD odkaz je samostatn`00FD p`0159`00EDjemce a samostatn`00FD rozsah viditelnosti: dr`017Eitel odkazu vid`00ED jen soubory odeslan`00E9 p`0159es tento odkaz a nem`016F`017Ee je stahovat ani mazat. V`0161ichni, kdo znaj`00ED stejn`00FD odkaz, maj`00ED toto`017En`00FD p`0159`00EDstup `2013 aplikace nerozli`0161uje mezi lidmi, kte`0159`00ED pou`017E`00EDvaj`00ED stejn`00FD odkaz.''),
    (''links.generate'', js ''Vygenerovat nov`00FD odkaz''),
    (''links.label'', js ''Ozna`010Den`00ED p`0159`00EDjemce''),
    (''links.label_placeholder'', js ''nap`0159. Jana Nov`00E1kov`00E1 `2013 `00FA`010Detnictv`00ED''),
    (''links.expires'', js ''Plat`00ED do (UTC, nepovinn`00E9)''),
    (''links.max_file'', js ''Max. velikost souboru (nepovinn`00E9, `2264 {max})''),
    (''links.max_file_placeholder'', js ''nap`0159. 500MB''),
    (''links.max_files'', js ''Max. po`010Det soubor`016F (nepovinn`00E9)''),
    (''links.max_total'', js ''Max. celkov`00E1 velikost (nepovinn`00E9)''),
    (''links.max_total_placeholder'', js ''nap`0159. 2GB''),
    (''links.submit'', js ''Vygenerovat odkaz''),
    (''links.empty'', js ''`017D`00E1dn`00E9 odkazy.''),
    (''links.col.recipient'', js ''P`0159`00EDjemce''),
    (''links.col.state'', js ''Stav''),
    (''links.col.expires'', js ''Plat`00ED do''),
    (''links.col.limits'', js ''Limity''),
    (''links.col.usage'', js ''Vyu`017Eit`00ED'')]"

definition cs_8 :: messages where
  "cs_8 = [
    (''links.col.last_used'', js ''Naposledy pou`017Eit''),
    (''links.state.active'', js ''aktivn`00ED''),
    (''links.state.expired'', js ''vypr`0161el''),
    (''links.state.revoked'', js ''zru`0161en''),
    (''links.state.case_closed'', js ''p`0159`00EDpad uzav`0159en''),
    (''links.limit.file'', js ''soubor `2264 {max}''),
    (''links.limit.files'', js ''soubory `2264 {n}''),
    (''links.limit.total'', js ''celkem `2264 {max}''),
    (''links.usage'', js ''soubor`016F: {n}, {size}''),
    (''links.usage_in_progress'', js ''prob`00EDh`00E1: {n} (rezervov`00E1no {size})''),
    (''links.revoke'', js ''Zru`0161it''),
    (''links.revoke_confirm'', js ''Zru`0161it odkaz `201E{label}`201C? Prob`00EDhaj`00EDc`00ED nahr`00E1v`00E1n`00ED budou p`0159eru`0161ena.''),
    (''files.title'', js ''Soubory''),
    (''files.empty'', js ''`017D`00E1dn`00E9 soubory.''),
    (''files.col.name'', js ''N`00E1zev''),
    (''files.col.recipient'', js ''P`0159`00EDjemce (odkaz)''),
    (''files.col.size'', js ''Velikost''),
    (''files.col.status'', js ''Stav''),
    (''files.col.uploaded'', js ''Nahr`00E1no''),
    (''files.declared'', js ''{size} (deklarov`00E1no)'')]"

definition cs_9 :: messages where
  "cs_9 = [
    (''files.download'', js ''St`00E1hnout''),
    (''files.delete'', js ''Smazat''),
    (''files.delete_confirm'', js ''Smazat soubor `201E{name}`201C? Tuto akci nelze vr`00E1tit.''),
    (''files.untrusted'', js ''Soubory jsou pova`017Eov`00E1ny za ned`016Fv`011Bryhodn`00E9: stahuj`00ED se v`017Edy jako p`0159`00EDlohy a na serveru se nic nezobrazuje ani nespou`0161t`00ED. Antivirov`00E1 kontrola nen`00ED sou`010D`00E1st`00ED t`00E9to verze.''),
    (''files.status.uploading'', js ''prob`00EDh`00E1''),
    (''files.status.complete'', js ''dokon`010Deno''),
    (''files.status.aborted'', js ''p`0159eru`0161eno''),
    (''files.status.expired'', js ''vypr`0161elo''),
    (''files.status.missing'', js ''chyb`00ED v `00FAlo`017Ei`0161ti''),
    (''files.status.deleted'', js ''smaz`00E1no''),
    (''audit.title'', js ''Auditn`00ED protokol (posledn`00EDch {n})''),
    (''audit.col.time'', js ''`010Cas''),
    (''audit.col.actor'', js ''Akt`00E9r''),
    (''audit.col.action'', js ''Ud`00E1lost''),
    (''audit.col.case'', js ''P`0159`00EDpad''),
    (''audit.col.link'', js ''Odkaz''),
    (''audit.col.file'', js ''Soubor''),
    (''audit.col.ip'', js ''IP''),
    (''audit.col.details'', js ''Podrobnosti''),
    (''upload.title'', js ''Nahr`00E1v`00E1n`00ED: {case}'')]"

definition cs_10 :: messages where
  "cs_10 = [
    (''upload.link_for'', js ''Odkaz pro:''),
    (''upload.valid_until'', js ''plat`00ED do {date}''),
    (''upload.limit.file'', js ''Maxim`00E1ln`00ED velikost souboru:''),
    (''upload.limit.files'', js ''Maxim`00E1ln`00ED po`010Det soubor`016F:''),
    (''upload.limit.total'', js ''Celkov`00FD limit dat:''),
    (''upload.used_n'', js ''(pou`017Eito {n})''),
    (''upload.used_size'', js ''(pou`017Eito {size})''),
    (''upload.send'', js ''Nahr`00E1t soubory''),
    (''upload.drop_here'', js ''P`0159et`00E1hn`011Bte soubory sem''),
    (''upload.or'', js ''nebo''),
    (''upload.choose'', js ''vyberte z disku''),
    (''upload.resume_hint'', js ''Velk`00E9 soubory se odes`00EDlaj`00ED po `010D`00E1stech a po v`00FDpadku spojen`00ED lze v nahr`00E1v`00E1n`00ED pokra`010Dovat. Po obnoven`00ED str`00E1nky vyberte znovu stejn`00FD soubor a nahr`00E1v`00E1n`00ED nav`00E1`017Ee tam, kde skon`010Dilo.''),
    (''upload.your_files'', js ''Va`0161e soubory''),
    (''upload.your_files_intro'', js ''Vid`00EDte jen soubory nahran`00E9 p`0159es tento odkaz. Soubory zde nelze stahovat ani mazat `2013 vyzvedne si je spr`00E1vce.''),
    (''upload.col.name'', js ''N`00E1zev''),
    (''upload.col.size'', js ''Velikost''),
    (''upload.col.date'', js ''Datum''),
    (''upload.col.status'', js ''Stav''),
    (''upload.none_yet'', js ''Zat`00EDm nebyly nahr`00E1ny `017E`00E1dn`00E9 soubory.''),
    (''upload.list_failed'', js ''Seznam se nepoda`0159ilo na`010D`00EDst: {msg}'')]"

definition cs_11 :: messages where
  "cs_11 = [
    (''upload.terminal'', js ''Nahr`00E1v`00E1n`00ED z termin`00E1lu''),
    (''upload.terminal_hint'', js ''(curl, skripty, obnoviteln`00E9 p`0159enosy)''),
    (''upload.terminal_intro'', js ''Nahra`010Fte {path} cestou k souboru (mezery nevad`00ED). Nenulov`00FD n`00E1vratov`00FD k`00F3d znamen`00E1 chybu; odpov`011B`010F je ve form`00E1tu JSON.''),
    (''upload.snippet.single'', js ''Jeden soubor''),
    (''upload.snippet.multi'', js ''V`00EDce soubor`016F''),
    (''upload.snippet.env'', js ''Token v prom`011Bnn`00E9 prost`0159ed`00ED (doporu`010Deno)''),
    (''upload.snippet.list'', js ''Vypsat nahran`00E9 soubory''),
    (''upload.snippet.resumable'', js ''Velk`00FD soubor s obnoven`00EDm (skript {script})''),
    (''upload.history_warning'', js ''Upozorn`011Bn`00ED: p`0159`00EDkaz obsahuj`00EDc`00ED token se ulo`017E`00ED do historie shellu (nap`0159. {file}). Varianta s export uvozen`00E1 mezerou se neukl`00E1d`00E1, pokud je nastaveno {opt}. Zach`00E1zejte s t`00EDmto odkazem jako s heslem a nep`0159ed`00E1vejte ho d`00E1l.''),
    (''upload.path_placeholder'', js ''/cesta/k/souboru.pdf''),
    (''upload.path_placeholder2'', js ''/cesta/zprava.pdf''),
    (''upload.path_placeholder3'', js ''/cesta/foto 1.jpg''),
    (''upload.path_placeholder_big'', js ''/cesta/k/velky soubor.iso''),
    (''upload.js.queued'', js ''ve front`011B`2026''),
    (''upload.js.too_large'', js ''p`0159`00EDli`0161 velk`00FD: limit {max}''),
    (''upload.js.error'', js ''chyba: {msg}''),
    (''upload.js.starting'', js ''zahajuji`2026''),
    (''upload.js.resuming'', js ''navazuji na p`0159edchoz`00ED nahr`00E1v`00E1n`00ED`2026''),
    (''upload.js.retrying'', js ''zkou`0161`00EDm znovu`2026''),
    (''upload.js.done'', js ''dokon`010Deno'')]"

definition cs_12 :: messages where
  "cs_12 = [
    (''upload.js.finalising'', js ''v`0161echna data odesl`00E1na, server dokon`010Duje`2026''),
    (''upload.js.cancelled'', js ''zru`0161eno''),
    (''upload.js.cancelled_local'', js ''zru`0161eno (lok`00E1ln`011B)''),
    (''upload.js.status.uploading'', js ''prob`00EDh`00E1''),
    (''upload.js.status.complete'', js ''dokon`010Deno''),
    (''nav.users'', js ''U`017Eivatel`00E9''),
    (''cases.empty_assigned'', js ''Zat`00EDm v`00E1m nebyl p`0159id`011Blen `017E`00E1dn`00FD p`0159`00EDpad. P`0159id`011Blit v`00E1m ho m`016F`017Ee kolega, kter`00FD na p`0159`00EDpadu pracuje, nebo administr`00E1tor. M`016F`017Eete tak`00E9 v`00FD`0161e zalo`017Eit nov`00FD.''),
    (''error.forbidden.title'', js ''Nepovoleno''),
    (''error.forbidden'', js ''Tato str`00E1nka je jen pro administr`00E1tory.''),
    (''security.must_change_notice'', js ''Va`0161e heslo vydal administr`00E1tor. Ne`017E budete pokra`010Dovat, nastavte si n`00ED`017Ee vlastn`00ED heslo.''),
    (''members.title'', js ''P`0159id`011Blen`00ED u`017Eivatel`00E9''),
    (''members.intro'', js ''U`017Eivatel vid`00ED jen p`0159`00EDpady, ke kter`00FDm je p`0159id`011Blen. Administr`00E1to`0159i vid`00ED v`0161echny p`0159`00EDpady.''),
    (''members.empty'', js ''K tomuto p`0159`00EDpadu nen`00ED p`0159id`011Blen `017E`00E1dn`00FD u`017Eivatel `2014 vid`00ED ho jen administr`00E1to`0159i.''),
    (''members.user'', js ''U`017Eivatel''),
    (''members.add'', js ''P`0159id`011Blit''),
    (''members.added'', js ''`00DA`010Det {username} je nyn`00ED p`0159id`011Blen k tomuto p`0159`00EDpadu.''),
    (''members.remove'', js ''Odebrat''),
    (''members.remove_confirm'', js ''Odebrat {username}? `00DA`010Det p`0159estane tento p`0159`00EDpad vid`011Bt.''),
    (''members.removed'', js ''`00DA`010Det {username} u`017E nem`00E1 k tomuto p`0159`00EDpadu p`0159`00EDstup.''),
    (''members.none_assignable'', js ''`017D`00E1dn`00FD dal`0161`00ED u`017Eivatelsk`00FD `00FA`010Det k p`0159id`011Blen`00ED nen`00ED. Vytvo`0159te ho v sekci {link}.'')]"

definition cs_13 :: messages where
  "cs_13 = [
    (''users.new'', js ''Nov`00FD `00FA`010Det''),
    (''users.list'', js ''`00DA`010Dty''),
    (''users.username'', js ''U`017Eivatelsk`00E9 jm`00E9no''),
    (''users.username_placeholder'', js ''nap`0159. anna.novakova@firma.cz''),
    (''users.role'', js ''Role''),
    (''users.role.admin'', js ''Administr`00E1tor''),
    (''users.role.user'', js ''U`017Eivatel''),
    (''users.roles_hint'', js ''U`017Eivatel vid`00ED a zpracov`00E1v`00E1 jen p`0159`00EDpady, ke kter`00FDm je p`0159id`011Blen. Administr`00E1tor vid`00ED v`0161echny p`0159`00EDpady, spravuje `00FA`010Dty a `010Dte auditn`00ED protokol. Vygeneruje se do`010Dasn`00E9 heslo, kter`00E9 je nutn`00E9 p`0159i prvn`00EDm p`0159ihl`00E1`0161en`00ED zm`011Bnit.''),
    (''users.col.username'', js ''`00DA`010Det''),
    (''users.col.status'', js ''Stav''),
    (''users.col.totp'', js ''Druh`00FD faktor''),
    (''users.col.cases'', js ''P`0159`00EDpady''),
    (''users.col.last_login'', js ''Posledn`00ED p`0159ihl`00E1`0161en`00ED''),
    (''users.status.active'', js ''aktivn`00ED''),
    (''users.status.disabled'', js ''zak`00E1zan`00FD''),
    (''users.status.must_change'', js ''nutn`00E1 zm`011Bna hesla''),
    (''users.you'', js ''vy''),
    (''users.all_cases'', js ''v`0161echny''),
    (''users.issued.title'', js ''`00DA`010Det {username} vytvo`0159en''),
    (''users.issued.reset_title'', js ''Nov`00E9 heslo pro {username}'')]"

definition cs_14 :: messages where
  "cs_14 = [
    (''users.issued.copy_now'', js ''Zkop`00EDrujte si toto heslo hned `2014 zobraz`00ED se jen jednou.''),
    (''users.issued.intro'', js ''P`0159edejte ho jin`00FDm kan`00E1lem ne`017E u`017Eivatelsk`00E9 jm`00E9no. P`0159i prvn`00EDm p`0159ihl`00E1`0161en`00ED je nutn`00E9 ho nahradit.''),
    (''users.make_admin'', js ''Ud`011Blat administr`00E1torem''),
    (''users.make_user'', js ''Ud`011Blat u`017Eivatelem''),
    (''users.role_confirm'', js ''Zm`011Bnit roli `00FA`010Dtu {username}?''),
    (''users.role_changed'', js ''`00DA`010Det {username} m`00E1 nyn`00ED roli: {role}.''),
    (''users.reset_password'', js ''Nov`00E9 heslo''),
    (''users.reset_password_confirm'', js ''Vydat nov`00E9 heslo pro {username}? St`00E1vaj`00EDc`00ED p`0159estane fungovat a v`0161echny relace `00FA`010Dtu skon`010D`00ED.''),
    (''users.password_reset'', js ''Pro {username} bylo vyd`00E1no nov`00E9 heslo a `00FA`010Det byl odhl`00E1`0161en.''),
    (''users.reset_totp'', js ''Resetovat 2FA''),
    (''users.reset_totp_confirm'', js ''Odebrat druh`00FD faktor `00FA`010Dtu {username}? Po p`0159`00ED`0161t`00EDm p`0159ihl`00E1`0161en`00ED se nastav`00ED znovu.''),
    (''users.totp_reset'', js ''Z `00FA`010Dtu {username} bylo odebr`00E1no dvouf`00E1zov`00E9 ov`011B`0159en`00ED.''),
    (''users.disable'', js ''Zak`00E1zat''),
    (''users.disable_confirm'', js ''Zak`00E1zat {username}? `00DA`010Det bude odhl`00E1`0161en a nep`0159ihl`00E1s`00ED se, dokud nebude znovu povolen.''),
    (''users.disabled'', js ''`00DA`010Det {username} byl zak`00E1z`00E1n a odhl`00E1`0161en.''),
    (''users.enable'', js ''Povolit''),
    (''users.enabled'', js ''`00DA`010Det {username} se m`016F`017Ee znovu p`0159ihl`00E1sit.''),
    (''users.delete'', js ''Smazat''),
    (''users.delete_confirm'', js ''Smazat `00FA`010Det {username}? Zmiz`00ED s n`00EDm i jeho p`0159id`011Blen`00ED k p`0159`00EDpad`016Fm; auditn`00ED protokol zachov`00E1, co ud`011Blal.''),
    (''users.deleted'', js ''`00DA`010Det {username} byl smaz`00E1n.'')]"

definition cs_15 :: messages where
  "cs_15 = [
    (''users.missing'', js ''Takov`00FD `00FA`010Det neexistuje.''),
    (''users.not_self'', js ''Vlastn`00ED `00FA`010Det zde m`011Bnit nem`016F`017Eete `2014 heslo a 2FA najdete v sekci Zabezpe`010Den`00ED.''),
    (''users.last_admin'', js ''Mus`00ED z`016Fstat alespo`0148 jeden aktivn`00ED administr`00E1tor.''),
    (''users.exists'', js ''`00DA`010Det se jm`00E9nem {username} u`017E existuje.''),
    (''users.invalid_username'', js ''U`017Eivatelsk`00E9 jm`00E9no m`00E1 2`201364 znak`016F: p`00EDsmena, `010D`00EDslice a . _ @ -''),
    (''users.invalid_role'', js ''Nezn`00E1m`00E1 role.''),
    (''members.not_self'', js ''Sami sebe odebrat nem`016F`017Eete. Po`017E`00E1dejte jin`00E9ho `010Dlov`011Bka na p`0159`00EDpadu nebo administr`00E1tora.''),
    (''members.none_assignable_user'', js ''`017D`00E1dn`00FD dal`0161`00ED u`017Eivatelsk`00FD `00FA`010Det k p`0159id`011Blen`00ED nen`00ED.''),
    (''second.title'', js ''Druh`00FD krok p`0159ihl`00E1`0161en`00ED''),
    (''second.recovery_label'', js ''Z`00E1lo`017En`00ED k`00F3d''),
    (''common.or'', js ''nebo''),
    (''passkey.use'', js ''Pou`017E`00EDt p`0159`00EDstupov`00FD kl`00ED`010D''),
    (''passkey.unsupported'', js ''Tento prohl`00ED`017Ee`010D nepodporuje p`0159`00EDstupov`00E9 kl`00ED`010De.''),
    (''passkey.failed'', js ''P`0159`00EDstupov`00FD kl`00ED`010D se nepoda`0159ilo ov`011B`0159it. Zkuste to znovu.''),
    (''passkey.cancelled'', js ''Zru`0161eno. Zkuste to znovu, a`017E budete p`0159ipraveni.''),
    (''confirm.title'', js ''Potvr`010Fte svou toto`017Enost''),
    (''confirm.intro'', js ''Tato akce vy`017Eaduje ned`00E1vn`00E9 potvrzen`00ED. Z`016Fstane platn`00E9 po dobu {minutes} minut, tak`017Ee nebudete znovu dotazov`00E1ni p`0159i ka`017Ed`00E9m kroku.''),
    (''confirm.repeat'', js ''Po potvrzen`00ED zopakujte to, co jste d`011Blali.''),
    (''confirm.code_label'', js ''K`00F3d z aplikace nebo z`00E1lo`017En`00ED k`00F3d''),
    (''confirm.password_label'', js ''Va`0161e heslo'')]"

definition cs_16 :: messages where
  "cs_16 = [
    (''confirm.submit'', js ''Potvrdit''),
    (''confirm.invalid'', js ''`00DAdaje neodpov`00EDdaj`00ED. Zkuste to znovu.''),
    (''confirm.locked'', js ''P`0159`00EDli`0161 mnoho chybn`00FDch k`00F3d`016F pro tento `00FA`010Det. Zkuste to znovu za 15 minut.''),
    (''passkeys.title'', js ''P`0159`00EDstupov`00E9 kl`00ED`010De''),
    (''passkeys.intro'', js ''P`0159`00EDstupov`00FD kl`00ED`010D je ulo`017Een ve va`0161em za`0159`00EDzen`00ED, spr`00E1vci hesel nebo bezpe`010Dnostn`00EDm kl`00ED`010Di a nelze jej z`00EDskat phishingem. Funguje jako druh`00FD krok p`0159ihl`00E1`0161en`00ED a pro potvrzen`00ED citliv`00FDch akc`00ED.''),
    (''passkeys.none'', js ''Zat`00EDm `017E`00E1dn`00E9 p`0159`00EDstupov`00E9 kl`00ED`010De.''),
    (''passkeys.name'', js ''N`00E1zev''),
    (''passkeys.name_placeholder'', js ''nap`0159. notebook, bezpe`010Dnostn`00ED kl`00ED`010D''),
    (''passkeys.added_at'', js ''P`0159id`00E1no''),
    (''passkeys.last_used'', js ''Naposledy pou`017Eito''),
    (''passkeys.add'', js ''P`0159idat p`0159`00EDstupov`00FD kl`00ED`010D''),
    (''passkeys.remove'', js ''Odebrat''),
    (''passkeys.remove_confirm'', js ''Odebrat tento p`0159`00EDstupov`00FD kl`00ED`010D? Ostatn`00ED relace tohoto `00FA`010Dtu budou odhl`00E1`0161eny.''),
    (''passkeys.added'', js ''P`0159`00EDstupov`00FD kl`00ED`010D `201E{name}`201C byl p`0159id`00E1n.''),
    (''passkeys.removed'', js ''P`0159`00EDstupov`00FD kl`00ED`010D `201E{name}`201C byl odebr`00E1n. Ostatn`00ED relace tohoto `00FA`010Dtu byly odhl`00E1`0161eny.''),
    (''passkeys.last_required'', js ''Tato instance vy`017Eaduje druh`00FD faktor. P`0159ed odebr`00E1n`00EDm posledn`00EDho p`0159idejte dal`0161`00ED.''),
    (''passkeys.limit'', js ''`00DA`010Det m`016F`017Ee m`00EDt maxim`00E1ln`011B {n} p`0159`00EDstupov`00FDch kl`00ED`010D`016F.''),
    (''passkeys.duplicate'', js ''Tento p`0159`00EDstupov`00FD kl`00ED`010D je ji`017E zaregistrov`00E1n.''),
    (''security.recovery.regenerate_confirmed'', js ''Vygenerovat nov`00E9 k`00F3dy (star`00E9 p`0159estanou fungovat)''),
    (''sessions.title'', js ''Aktivn`00ED relace'')]"

definition cs_17 :: messages where
  "cs_17 = [
    (''sessions.intro'', js ''V`0161echna m`00EDsta, kde je tento `00FA`010Det p`0159ihl`00E1`0161en. Odhlaste ta, kter`00E1 nepozn`00E1v`00E1te, a pot`00E9 si zm`011B`0148te heslo.''),
    (''sessions.device'', js ''Za`0159`00EDzen`00ED''),
    (''sessions.ip'', js ''IP adresa''),
    (''sessions.started'', js ''Zah`00E1jeno''),
    (''sessions.last_seen'', js ''Posledn`00ED aktivita''),
    (''sessions.current'', js ''tato relace''),
    (''sessions.pending'', js ''pouze heslo, druh`00FD krok nedokon`010Den''),
    (''sessions.bound'', js ''v`00E1z`00E1no na toto za`0159`00EDzen`00ED''),
    (''sessions.factor'', js ''druh`00FD krok: {factor}''),
    (''sessions.via.totp'', js ''k`00F3d z aplikace''),
    (''sessions.via.recovery'', js ''z`00E1lo`017En`00ED k`00F3d''),
    (''sessions.via.passkey'', js ''p`0159`00EDstupov`00FD kl`00ED`010D''),
    (''sessions.unknown_device'', js ''Nezn`00E1m`00E9 za`0159`00EDzen`00ED''),
    (''sessions.revoke'', js ''Odhl`00E1sit''),
    (''sessions.revoke_others'', js ''Odhl`00E1sit v`0161echny ostatn`00ED relace''),
    (''sessions.revoked'', js ''Relace byla odhl`00E1`0161ena.''),
    (''sessions.revoked_others'', js ''V`0161echny ostatn`00ED relace byly odhl`00E1`0161eny.'')]"

definition cs_messages :: messages where
  "cs_messages = cs_1 @ cs_2 @ cs_3 @ cs_4 @ cs_5 @ cs_6 @ cs_7 @ cs_8 @ cs_9 @ cs_10 @ cs_11 @ cs_12 @ cs_13 @ cs_14 @ cs_15 @ cs_16 @ cs_17"

lemmas cs_defs =
  cs_1_def cs_2_def cs_3_def cs_4_def cs_5_def cs_6_def cs_7_def cs_8_def cs_9_def cs_10_def cs_11_def cs_12_def cs_13_def cs_14_def
  cs_15_def cs_16_def cs_17_def

lemma cs_fits: "fits cs_messages message_shape"
  unfolding cs_messages_def message_shape_def
  by (intro fits_append; unfold cs_defs shape_defs; simp only: fits_rules cong: literal_congs)

end
