(* ===== verification/Locale_Da.thy ===== *)
theory Locale_Da
  imports Locale_En
begin

text \<open>src/locales/da.ts: Danish.\<close>

definition da_1 :: messages where
  "da_1 = [
    (''app.tagline'', js ''privat afleveringsboks til filer''),
    (''common.back_to_cases'', js ''`2190 Sager''),
    (''common.home'', js ''Forside''),
    (''common.copy'', js ''Kopi`00E9r''),
    (''common.copied'', js ''Kopieret''),
    (''common.copy_manual'', js ''Mark`00E9r og kopi`00E9r manuelt''),
    (''common.save'', js ''Gem''),
    (''common.create'', js ''Opret''),
    (''common.cancel'', js ''Annull`00E9r''),
    (''common.retry'', js ''Pr`00F8v igen''),
    (''common.never'', js ''aldrig''),
    (''common.unlimited'', js ''intet udl`00F8b''),
    (''common.none'', js ''`2014''),
    (''common.optional'', js ''valgfrit''),
    (''common.loading'', js ''Indl`00E6ser`2026''),
    (''common.yes'', js ''Ja''),
    (''common.language'', js ''Sprog''),
    (''nav.cases'', js ''Sager''),
    (''nav.audit'', js ''Revisionslog''),
    (''nav.security'', js ''Sikkerhed'')]"

definition da_2 :: messages where
  "da_2 = [
    (''nav.logout'', js ''Log ud''),
    (''error.not_found.title'', js ''Ikke fundet''),
    (''error.page_missing'', js ''Siden findes ikke.''),
    (''error.case_missing'', js ''Sagen findes ikke.''),
    (''error.link_missing'', js ''Linket findes ikke.''),
    (''error.file_missing'', js ''Filen findes ikke eller er ikke tilg`00E6ngelig.''),
    (''error.file_not_exist'', js ''Filen findes ikke.''),
    (''error.storage_missing.title'', js ''Filen mangler i lageret''),
    (''error.storage_missing'', js ''Metadata findes, men objektet er forsvundet fra lageret. K`00F8r oprydningen for at markere filen som manglende.''),
    (''error.server.title'', js ''Serverfejl''),
    (''error.server'', js ''Der opstod en uventet fejl.''),
    (''error.bad_request.title'', js ''Ugyldig anmodning''),
    (''error.cross_site'', js ''Anmodning fra andet websted blokeret''),
    (''error.csrf'', js ''Ugyldigt CSRF-token''),
    (''error.invalid_expiry'', js ''Ugyldig udl`00F8bsdato''),
    (''link.invalid.title'', js ''Ugyldigt link''),
    (''link.invalid'', js ''Upload-linket findes ikke.''),
    (''link.unavailable.title'', js ''Linket er ikke tilg`00E6ngeligt''),
    (''link.expired'', js ''Linket er udl`00F8bet.''),
    (''link.revoked'', js ''Linket er tilbagekaldt.'')]"

definition da_3 :: messages where
  "da_3 = [
    (''link.case_closed'', js ''Sagen er lukket og modtager ikke l`00E6ngere filer.''),
    (''link.contact'', js ''Kontakt den person, der gav dig linket.''),
    (''login.title'', js ''Administratorlogin''),
    (''login.username'', js ''Brugernavn''),
    (''login.password'', js ''Adgangskode''),
    (''login.submit'', js ''Log ind''),
    (''login.failed'', js ''Ugyldigt brugernavn eller adgangskode.''),
    (''login.too_many_codes'', js ''For mange forkerte koder. Log ind igen.''),
    (''login.account_locked'', js ''For mange forkerte koder for kontoen. Den anden faktor er l`00E5st i 15 minutter.''),
    (''totp.title'', js ''Kode fra din godkendelsesapp''),
    (''totp.code_label'', js ''Kode (6 cifre) eller gendannelseskode''),
    (''totp.confirm'', js ''Bekr`00E6ft''),
    (''totp.cancel_logout'', js ''Annull`00E9r og log ud''),
    (''totp.invalid'', js ''Ugyldig kode.''),
    (''totp.attempts_left'', js ''Resterende fors`00F8g: {n}.''),
    (''totp.locked_until'', js ''Kontoen er midlertidigt l`00E5st efter mange forkerte koder (indtil {until} UTC).''),
    (''security.title'', js ''Sikkerhed for kontoen `00BB{user}`00AB''),
    (''security.required_notice'', js ''Denne instans kr`00E6ver en anden faktor. Panelet er utilg`00E6ngeligt, indtil du tilf`00F8jer en godkendelsesapp eller en adgangsn`00F8gle nedenfor.''),
    (''security.status'', js ''Totrinsgodkendelse (TOTP, RFC 6238): {state}.''),
    (''security.enabled'', js ''aktiveret'')]"

definition da_4 :: messages where
  "da_4 = [
    (''security.disabled'', js ''deaktiveret''),
    (''security.recovery_left'', js ''Ubrugte gendannelseskoder: {n}.''),
    (''security.recovery.title'', js ''Gendannelseskoder''),
    (''security.recovery.intro'', js ''Gem dem nu et sikkert sted. Hver kode virker `00E9n gang og erstatter app-koden, hvis du mister adgangen til appen. De vises ikke igen.''),
    (''security.enable.title'', js ''Aktiv`00E9r TOTP''),
    (''security.enable.intro'', js ''Du skal bruge en godkendelsesapp (f.eks. Aegis, Google Authenticator, 1Password, Bitwarden). N`00E5r den er aktiveret, kr`00E6ver login adgangskoden og en aktuel kode.''),
    (''security.enable.start'', js ''Start ops`00E6tningen''),
    (''security.step1'', js ''Trin 1: scan koden i din app''),
    (''security.manual_key'', js ''Eller indtast n`00F8glen manuelt:''),
    (''security.key_params'', js ''Type: TOTP, SHA-1, 6 cifre, 30 s. Udsteder: {issuer}, konto: {user}.''),
    (''security.open_in_app'', js ''`00C5bn i godkendelsesappen''),
    (''security.on_phone'', js ''(p`00E5 en telefon)''),
    (''security.step2'', js ''Trin 2: bekr`00E6ft med en kode''),
    (''security.code_from_app'', js ''Kode fra appen''),
    (''security.enable.submit'', js ''Aktiv`00E9r TOTP''),
    (''security.pending_note'', js ''N`00F8glen er midlertidig, indtil den bekr`00E6ftes; starter du ops`00E6tningen igen, oprettes en ny.''),
    (''security.current_code'', js ''Aktuel kode fra appen''),
    (''security.regenerate'', js ''Opret nye koder (de gamle holder op med at virke)''),
    (''security.disable.title'', js ''Deaktiv`00E9r TOTP''),
    (''security.disable.intro'', js ''Kr`00E6ver en aktuel kode fra appen eller en gendannelseskode: sessionen alene (f.eks. en stj`00E5let cookie) er ikke nok. Hvis b`00E5de appen og gendannelseskoderne er tabt, kan en operat`00F8r k`00F8re {cmd} p`00E5 serveren.'')]"

definition da_5 :: messages where
  "da_5 = [
    (''security.disable.code'', js ''Kode''),
    (''security.disable.submit'', js ''Deaktiv`00E9r''),
    (''security.disable.confirm'', js ''Deaktiv`00E9r totrinsgodkendelse?''),
    (''security.msg.enabled'', js ''Totrinsgodkendelse er aktiveret.''),
    (''security.msg.code_mismatch'', js ''Koden passer ikke. Tjek klokken p`00E5 din telefon, og pr`00F8v igen.''),
    (''security.msg.invalid_code'', js ''Ugyldig kode.''),
    (''security.msg.regenerated'', js ''Nye gendannelseskoder er oprettet.''),
    (''security.msg.required'', js ''Denne instans kr`00E6ver TOTP (ADMIN_REQUIRE_TOTP); det kan ikke deaktiveres.''),
    (''security.msg.disabled'', js ''Totrinsgodkendelse er deaktiveret.''),
    (''security.password.title'', js ''Skift adgangskode''),
    (''security.password.current'', js ''Nuv`00E6rende adgangskode''),
    (''security.password.new'', js ''Ny adgangskode (mindst 12 tegn)''),
    (''security.password.confirm'', js ''Bekr`00E6ft ny adgangskode''),
    (''security.password.submit'', js ''Skift adgangskode''),
    (''security.password.mismatch'', js ''Den nye adgangskode og bekr`00E6ftelsen er ikke ens.''),
    (''security.password.invalid_current'', js ''Den nuv`00E6rende adgangskode er forkert.''),
    (''security.password.changed'', js ''Adgangskoden er skiftet. Kontoens andre sessioner er logget ud.''),
    (''home.title'', js ''inletbox''),
    (''home.message'', js ''Dette er en privat afleveringsboks til filer. Brug det link, du har f`00E5et af den person, der bad om filerne, for at uploade dem.''),
    (''cases.new'', js ''Ny sag'')]"

definition da_6 :: messages where
  "da_6 = [
    (''cases.name'', js ''Navn''),
    (''cases.name_placeholder'', js ''f.eks. Revision 2026/09 `2013 Kunde X''),
    (''cases.description_optional'', js ''Beskrivelse (valgfri)''),
    (''cases.description'', js ''Beskrivelse''),
    (''cases.list'', js ''Sager''),
    (''cases.empty'', js ''Ingen sager.''),
    (''cases.col.name'', js ''Navn''),
    (''cases.col.status'', js ''Status''),
    (''cases.col.links'', js ''Aktive links''),
    (''cases.col.files'', js ''Filer''),
    (''cases.col.size'', js ''St`00F8rrelse''),
    (''cases.col.created'', js ''Oprettet''),
    (''case.open'', js ''`00E5ben''),
    (''case.closed'', js ''lukket''),
    (''case.close'', js ''Luk sagen''),
    (''case.reopen'', js ''Gen`00E5bn''),
    (''case.meta'', js ''ID: {id} `00B7 oprettet {date}. En lukket sag modtager ingen uploads via nogen af sine links.''),
    (''case.saved'', js ''Gemt.''),
    (''case.closed_no_links'', js ''Sagen er lukket `2013 gen`00E5bn den for at oprette links.''),
    (''case.new_link.title'', js ''Nyt link til `00BB{label}`00AB'')]"

definition da_7 :: messages where
  "da_7 = [
    (''case.new_link.intro'', js ''Kopi`00E9r det nu. Tokenet gemmes kun som hash og kan ikke gendannes senere `2013 du kan kun oprette et nyt link.''),
    (''case.new_link.copy_now'', js ''Kopi`00E9r det nu.''),
    (''links.title'', js ''Upload-links''),
    (''links.intro'', js ''Hvert link er en separat modtager og et separat synlighedsomr`00E5de: den, der har linket, ser kun filer sendt via det link og kan hverken downloade eller slette dem. Alle, der kender det samme link, har identisk adgang `2013 programmet skelner ikke mellem personer, der bruger det samme link.''),
    (''links.generate'', js ''Opret et nyt link''),
    (''links.label'', js ''Modtagerens betegnelse''),
    (''links.label_placeholder'', js ''f.eks. Anne Jensen `2013 bogholderi''),
    (''links.expires'', js ''Gyldigt til (UTC, valgfrit)''),
    (''links.max_file'', js ''Maks. filst`00F8rrelse (valgfrit, `2264 {max})''),
    (''links.max_file_placeholder'', js ''f.eks. 500MB''),
    (''links.max_files'', js ''Maks. antal filer (valgfrit)''),
    (''links.max_total'', js ''Maks. samlet st`00F8rrelse (valgfrit)''),
    (''links.max_total_placeholder'', js ''f.eks. 2GB''),
    (''links.submit'', js ''Opret link''),
    (''links.empty'', js ''Ingen links.''),
    (''links.col.recipient'', js ''Modtager''),
    (''links.col.state'', js ''Tilstand''),
    (''links.col.expires'', js ''Gyldigt til''),
    (''links.col.limits'', js ''Gr`00E6nser''),
    (''links.col.usage'', js ''Forbrug'')]"

definition da_8 :: messages where
  "da_8 = [
    (''links.col.last_used'', js ''Sidst brugt''),
    (''links.state.active'', js ''aktivt''),
    (''links.state.expired'', js ''udl`00F8bet''),
    (''links.state.revoked'', js ''tilbagekaldt''),
    (''links.state.case_closed'', js ''sagen lukket''),
    (''links.limit.file'', js ''fil `2264 {max}''),
    (''links.limit.files'', js ''filer `2264 {n}''),
    (''links.limit.total'', js ''i alt `2264 {max}''),
    (''links.usage'', js ''{n} filer, {size}''),
    (''links.usage_in_progress'', js ''{n} i gang ({size} reserveret)''),
    (''links.revoke'', js ''Tilbagekald''),
    (''links.revoke_confirm'', js ''Tilbagekald linket `00BB{label}`00AB? Igangv`00E6rende uploads afbrydes.''),
    (''files.title'', js ''Filer''),
    (''files.empty'', js ''Ingen filer.''),
    (''files.col.name'', js ''Navn''),
    (''files.col.recipient'', js ''Modtager (link)''),
    (''files.col.size'', js ''St`00F8rrelse''),
    (''files.col.status'', js ''Status''),
    (''files.col.uploaded'', js ''Uploadet''),
    (''files.declared'', js ''{size} (angivet)'')]"

definition da_9 :: messages where
  "da_9 = [
    (''files.download'', js ''Download''),
    (''files.delete'', js ''Slet''),
    (''files.delete_confirm'', js ''Slet filen `00BB{name}`00AB? Det kan ikke fortrydes.''),
    (''files.untrusted'', js ''Filer behandles som up`00E5lidelige: downloads er altid vedh`00E6ftninger, og intet vises eller k`00F8res p`00E5 serveren. Virusscanning er ikke en del af denne version.''),
    (''files.status.uploading'', js ''i gang''),
    (''files.status.complete'', js ''f`00E6rdig''),
    (''files.status.aborted'', js ''afbrudt''),
    (''files.status.expired'', js ''udl`00F8bet''),
    (''files.status.missing'', js ''mangler i lageret''),
    (''files.status.deleted'', js ''slettet''),
    (''audit.title'', js ''Revisionslog (seneste {n})''),
    (''audit.col.time'', js ''Tid''),
    (''audit.col.actor'', js ''Akt`00F8r''),
    (''audit.col.action'', js ''H`00E6ndelse''),
    (''audit.col.case'', js ''Sag''),
    (''audit.col.link'', js ''Link''),
    (''audit.col.file'', js ''Fil''),
    (''audit.col.ip'', js ''IP''),
    (''audit.col.details'', js ''Detaljer''),
    (''upload.title'', js ''Upload: {case}'')]"

definition da_10 :: messages where
  "da_10 = [
    (''upload.link_for'', js ''Link til:''),
    (''upload.valid_until'', js ''gyldigt til {date}''),
    (''upload.limit.file'', js ''Maksimal filst`00F8rrelse:''),
    (''upload.limit.files'', js ''Maksimalt antal filer:''),
    (''upload.limit.total'', js ''Samlet datagr`00E6nse:''),
    (''upload.used_n'', js ''({n} brugt)''),
    (''upload.used_size'', js ''({size} brugt)''),
    (''upload.send'', js ''Upload filer''),
    (''upload.drop_here'', js ''Tr`00E6k filer hertil''),
    (''upload.or'', js ''eller''),
    (''upload.choose'', js ''v`00E6lg fra disken''),
    (''upload.resume_hint'', js ''Store filer sendes i dele og kan genoptages efter en afbrudt forbindelse. V`00E6lg den samme fil igen, n`00E5r du har genindl`00E6st siden, s`00E5 forts`00E6tter uploaden, hvor den stoppede.''),
    (''upload.your_files'', js ''Dine filer''),
    (''upload.your_files_intro'', js ''Du ser kun filer, der er uploadet via dette link. Filer kan hverken downloades eller slettes her `2013 administratoren henter dem.''),
    (''upload.col.name'', js ''Navn''),
    (''upload.col.size'', js ''St`00F8rrelse''),
    (''upload.col.date'', js ''Dato''),
    (''upload.col.status'', js ''Status''),
    (''upload.none_yet'', js ''Ingen filer uploadet endnu.''),
    (''upload.list_failed'', js ''Listen kunne ikke indl`00E6ses: {msg}'')]"

definition da_11 :: messages where
  "da_11 = [
    (''upload.terminal'', js ''Upload fra terminalen''),
    (''upload.terminal_hint'', js ''(curl, scripts, genoptagelige overf`00F8rsler)''),
    (''upload.terminal_intro'', js ''Erstat {path} med stien til din fil (mellemrum er fint). En afslutningskode forskellig fra nul betyder fejl; svaret er JSON.''),
    (''upload.snippet.single'', js ''`00C9n fil''),
    (''upload.snippet.multi'', js ''Flere filer''),
    (''upload.snippet.env'', js ''Token i en milj`00F8variabel (anbefales)''),
    (''upload.snippet.list'', js ''Vis uploadede filer''),
    (''upload.snippet.resumable'', js ''Stor fil med genoptagelse (script {script})''),
    (''upload.history_warning'', js ''Bem`00E6rk: En kommando med tokenet havner i din shell-historik (f.eks. {file}). Export-varianten med et foranstillet mellemrum gemmes ikke, n`00E5r {opt} er sat. Behandl linket som en adgangskode, og giv det ikke videre.''),
    (''upload.path_placeholder'', js ''/sti/til/fil.pdf''),
    (''upload.path_placeholder2'', js ''/sti/rapport.pdf''),
    (''upload.path_placeholder3'', js ''/sti/foto 1.jpg''),
    (''upload.path_placeholder_big'', js ''/sti/til/stor fil.iso''),
    (''upload.js.queued'', js ''i k`00F8`2026''),
    (''upload.js.too_large'', js ''for stor: gr`00E6nse {max}''),
    (''upload.js.error'', js ''fejl: {msg}''),
    (''upload.js.starting'', js ''starter`2026''),
    (''upload.js.resuming'', js ''genoptager tidligere upload`2026''),
    (''upload.js.retrying'', js ''pr`00F8ver igen`2026''),
    (''upload.js.done'', js ''f`00E6rdig'')]"

definition da_12 :: messages where
  "da_12 = [
    (''upload.js.finalising'', js ''alle data sendt, serveren afslutter`2026''),
    (''upload.js.cancelled'', js ''annulleret''),
    (''upload.js.cancelled_local'', js ''annulleret (lokalt)''),
    (''upload.js.status.uploading'', js ''i gang''),
    (''upload.js.status.complete'', js ''f`00E6rdig''),
    (''nav.users'', js ''Brugere''),
    (''cases.empty_assigned'', js ''Du er endnu ikke tildelt nogen sager. En kollega, der arbejder p`00E5 en sag, eller en administrator kan tildele dig den, eller du kan oprette en ny ovenfor.''),
    (''error.forbidden.title'', js ''Ikke tilladt''),
    (''error.forbidden'', js ''Denne side er kun for administratorer.''),
    (''security.must_change_notice'', js ''Din adgangskode er udstedt af en administrator. V`00E6lg din egen nedenfor, f`00F8r du forts`00E6tter.''),
    (''members.title'', js ''Tildelte brugere''),
    (''members.intro'', js ''En bruger ser kun de sager, vedkommende er tildelt. Administratorer ser alle sager.''),
    (''members.empty'', js ''Ingen bruger er tildelt denne sag `2014 kun administratorer kan se den.''),
    (''members.user'', js ''Bruger''),
    (''members.add'', js ''Tildel''),
    (''members.added'', js ''Kontoen {username} er nu tildelt denne sag.''),
    (''members.remove'', js ''Fjern''),
    (''members.remove_confirm'', js ''Fjern {username}? Kontoen vil ikke l`00E6ngere kunne se denne sag.''),
    (''members.removed'', js ''Kontoen {username} har ikke l`00E6ngere adgang til denne sag.''),
    (''members.none_assignable'', js ''Der er ingen flere brugerkonti at tildele. Opret en under {link}.'')]"

definition da_13 :: messages where
  "da_13 = [
    (''users.new'', js ''Ny konto''),
    (''users.list'', js ''Konti''),
    (''users.username'', js ''Brugernavn''),
    (''users.username_placeholder'', js ''f.eks. anna.hansen@firma.dk''),
    (''users.role'', js ''Rolle''),
    (''users.role.admin'', js ''Administrator''),
    (''users.role.user'', js ''Bruger''),
    (''users.roles_hint'', js ''En bruger ser og arbejder kun med de sager, vedkommende er tildelt. En administrator ser alle sager, administrerer konti og l`00E6ser revisionsloggen. Der dannes en midlertidig adgangskode, som skal skiftes ved f`00F8rste login.''),
    (''users.col.username'', js ''Konto''),
    (''users.col.status'', js ''Tilstand''),
    (''users.col.totp'', js ''Anden faktor''),
    (''users.col.cases'', js ''Sager''),
    (''users.col.last_login'', js ''Seneste login''),
    (''users.status.active'', js ''aktiv''),
    (''users.status.disabled'', js ''deaktiveret''),
    (''users.status.must_change'', js ''skal skifte adgangskode''),
    (''users.you'', js ''dig''),
    (''users.all_cases'', js ''alle''),
    (''users.issued.title'', js ''Kontoen {username} er oprettet''),
    (''users.issued.reset_title'', js ''Ny adgangskode til {username}'')]"

definition da_14 :: messages where
  "da_14 = [
    (''users.issued.copy_now'', js ''Kopi`00E9r adgangskoden nu `2014 den vises kun `00E9n gang.''),
    (''users.issued.intro'', js ''Giv den videre ad en anden kanal end brugernavnet. Den skal udskiftes ved f`00F8rste login.''),
    (''users.make_admin'', js ''G`00F8r til administrator''),
    (''users.make_user'', js ''G`00F8r til bruger''),
    (''users.role_confirm'', js ''Skift rollen for kontoen {username}?''),
    (''users.role_changed'', js ''Kontoen {username} har nu rollen: {role}.''),
    (''users.reset_password'', js ''Ny adgangskode''),
    (''users.reset_password_confirm'', js ''Udsted en ny adgangskode til {username}? Den nuv`00E6rende holder op med at virke, og alle kontoens sessioner afsluttes.''),
    (''users.password_reset'', js ''Der er udstedt en ny adgangskode til {username}, og kontoen er logget ud.''),
    (''users.reset_totp'', js ''Nulstil 2FA''),
    (''users.reset_totp_confirm'', js ''Fjern den anden faktor for {username}? Den s`00E6ttes op igen efter n`00E6ste login.''),
    (''users.totp_reset'', js ''Totrinsgodkendelse er fjernet fra kontoen {username}.''),
    (''users.disable'', js ''Deaktiv`00E9r''),
    (''users.disable_confirm'', js ''Deaktiv`00E9r {username}? Kontoen logges ud og kan ikke logge ind, f`00F8r den aktiveres igen.''),
    (''users.disabled'', js ''Kontoen {username} er deaktiveret og logget ud.''),
    (''users.enable'', js ''Aktiv`00E9r''),
    (''users.enabled'', js ''Kontoen {username} kan logge ind igen.''),
    (''users.delete'', js ''Slet''),
    (''users.delete_confirm'', js ''Slet kontoen {username}? Dens sagstildelinger forsvinder med den; revisionsloggen bevarer, hvad den har gjort.''),
    (''users.deleted'', js ''Kontoen {username} er slettet.'')]"

definition da_15 :: messages where
  "da_15 = [
    (''users.missing'', js ''Kontoen findes ikke.''),
    (''users.not_self'', js ''Din egen konto `00E6ndrer du ikke her `2014 adgangskode og 2FA finder du under Sikkerhed.''),
    (''users.last_admin'', js ''Der skal v`00E6re mindst `00E9n aktiv administrator tilbage.''),
    (''users.exists'', js ''Der findes allerede en konto med navnet {username}.''),
    (''users.invalid_username'', js ''Et brugernavn har 2`201364 tegn: bogstaver, cifre og . _ @ -''),
    (''users.invalid_role'', js ''Ukendt rolle.''),
    (''members.not_self'', js ''Du kan ikke fjerne dig selv. Bed en anden p`00E5 sagen eller en administrator om det.''),
    (''members.none_assignable_user'', js ''Der er ingen anden brugerkonto at tildele.''),
    (''second.title'', js ''Andet trin i login''),
    (''second.recovery_label'', js ''Gendannelseskode''),
    (''common.or'', js ''eller''),
    (''passkey.use'', js ''Brug en adgangsn`00F8gle''),
    (''passkey.unsupported'', js ''Denne browser underst`00F8tter ikke adgangsn`00F8gler.''),
    (''passkey.failed'', js ''Adgangsn`00F8glen kunne ikke bekr`00E6ftes. Pr`00F8v igen.''),
    (''passkey.cancelled'', js ''Annulleret. Pr`00F8v igen, n`00E5r du er klar.''),
    (''confirm.title'', js ''Bekr`00E6ft, at det er dig''),
    (''confirm.intro'', js ''Denne handling kr`00E6ver en nylig bekr`00E6ftelse. Den forbliver gyldig i {minutes} minutter, s`00E5 du ikke bliver spurgt igen ved hvert trin.''),
    (''confirm.repeat'', js ''Efter bekr`00E6ftelse skal du gentage det, du var i gang med.''),
    (''confirm.code_label'', js ''Kode fra appen eller en gendannelseskode''),
    (''confirm.password_label'', js ''Din adgangskode'')]"

definition da_16 :: messages where
  "da_16 = [
    (''confirm.submit'', js ''Bekr`00E6ft''),
    (''confirm.invalid'', js ''Det stemte ikke. Pr`00F8v igen.''),
    (''confirm.locked'', js ''For mange forkerte koder for kontoen. Pr`00F8v igen om 15 minutter.''),
    (''passkeys.title'', js ''Adgangsn`00F8gler''),
    (''passkeys.intro'', js ''En adgangsn`00F8gle opbevares af din enhed, din adgangskodemanager eller en sikkerhedsn`00F8gle og kan ikke phishes. Den fungerer som andet trin i login og til at bekr`00E6fte f`00F8lsomme handlinger.''),
    (''passkeys.none'', js ''Ingen adgangsn`00F8gler endnu.''),
    (''passkeys.name'', js ''Navn''),
    (''passkeys.name_placeholder'', js ''f.eks. b`00E6rbar, sikkerhedsn`00F8gle''),
    (''passkeys.added_at'', js ''Tilf`00F8jet''),
    (''passkeys.last_used'', js ''Sidst brugt''),
    (''passkeys.add'', js ''Tilf`00F8j en adgangsn`00F8gle''),
    (''passkeys.remove'', js ''Fjern''),
    (''passkeys.remove_confirm'', js ''Fjern denne adgangsn`00F8gle? Kontoens andre sessioner vil blive logget ud.''),
    (''passkeys.added'', js ''Adgangsn`00F8gle `00BB{name}`00AB tilf`00F8jet.''),
    (''passkeys.removed'', js ''Adgangsn`00F8gle `00BB{name}`00AB fjernet. Kontoens andre sessioner er logget ud.''),
    (''passkeys.last_required'', js ''Denne instans kr`00E6ver en anden faktor. Tilf`00F8j en anden, f`00F8r du fjerner den sidste.''),
    (''passkeys.limit'', js ''En konto kan h`00F8jst have {n} adgangsn`00F8gler.''),
    (''passkeys.duplicate'', js ''Denne adgangsn`00F8gle er allerede registreret.''),
    (''security.recovery.regenerate_confirmed'', js ''Opret nye koder (de gamle holder op med at virke)''),
    (''sessions.title'', js ''Aktive sessioner'')]"

definition da_17 :: messages where
  "da_17 = [
    (''sessions.intro'', js ''Alle steder, hvor denne konto er logget ind. Log ud af dem, du ikke genkender, og skift derefter din adgangskode.''),
    (''sessions.device'', js ''Enhed''),
    (''sessions.ip'', js ''IP-adresse''),
    (''sessions.started'', js ''Startet''),
    (''sessions.last_seen'', js ''Sidste aktivitet''),
    (''sessions.current'', js ''denne session''),
    (''sessions.pending'', js ''kun adgangskode, andet trin mangler''),
    (''sessions.bound'', js ''knyttet til denne enhed''),
    (''sessions.factor'', js ''andet trin: {factor}''),
    (''sessions.via.totp'', js ''app-kode''),
    (''sessions.via.recovery'', js ''gendannelseskode''),
    (''sessions.via.passkey'', js ''adgangsn`00F8gle''),
    (''sessions.unknown_device'', js ''Ukendt enhed''),
    (''sessions.revoke'', js ''Log ud''),
    (''sessions.revoke_others'', js ''Log alle andre sessioner ud''),
    (''sessions.revoked'', js ''Sessionen er logget ud.''),
    (''sessions.revoked_others'', js ''Alle andre sessioner er logget ud.'')]"

definition da_messages :: messages where
  "da_messages = da_1 @ da_2 @ da_3 @ da_4 @ da_5 @ da_6 @ da_7 @ da_8 @ da_9 @ da_10 @ da_11 @ da_12 @ da_13 @ da_14 @ da_15 @ da_16 @ da_17"

lemmas da_defs =
  da_1_def da_2_def da_3_def da_4_def da_5_def da_6_def da_7_def da_8_def da_9_def da_10_def da_11_def da_12_def da_13_def da_14_def
  da_15_def da_16_def da_17_def

lemma da_fits: "fits da_messages message_shape"
  unfolding da_messages_def message_shape_def
  by (intro fits_append; unfold da_defs shape_defs; simp only: fits_rules cong: literal_congs)

end
