(* ===== verification/Locale_De.thy ===== *)
theory Locale_De
  imports Locale_En
begin

text \<open>src/locales/de.ts: German.\<close>

definition de_1 :: messages where
  "de_1 = [
    (''app.tagline'', js ''private Dateiablage''),
    (''common.back_to_cases'', js ''`2190 Vorg`00E4nge''),
    (''common.home'', js ''Startseite''),
    (''common.copy'', js ''Kopieren''),
    (''common.copied'', js ''Kopiert''),
    (''common.copy_manual'', js ''Markieren und manuell kopieren''),
    (''common.save'', js ''Speichern''),
    (''common.create'', js ''Anlegen''),
    (''common.cancel'', js ''Abbrechen''),
    (''common.retry'', js ''Erneut versuchen''),
    (''common.never'', js ''nie''),
    (''common.unlimited'', js ''unbefristet''),
    (''common.none'', js ''`2014''),
    (''common.optional'', js ''optional''),
    (''common.loading'', js ''Wird geladen`2026''),
    (''common.yes'', js ''Ja''),
    (''common.language'', js ''Sprache''),
    (''nav.cases'', js ''Vorg`00E4nge''),
    (''nav.audit'', js ''Protokoll''),
    (''nav.security'', js ''Sicherheit'')]"

definition de_2 :: messages where
  "de_2 = [
    (''nav.logout'', js ''Abmelden''),
    (''error.not_found.title'', js ''Nicht gefunden''),
    (''error.page_missing'', js ''Diese Seite existiert nicht.''),
    (''error.case_missing'', js ''Dieser Vorgang existiert nicht.''),
    (''error.link_missing'', js ''Dieser Link existiert nicht.''),
    (''error.file_missing'', js ''Die Datei existiert nicht oder ist nicht verf`00FCgbar.''),
    (''error.file_not_exist'', js ''Die Datei existiert nicht.''),
    (''error.storage_missing.title'', js ''Datei fehlt im Speicher''),
    (''error.storage_missing'', js ''Die Metadaten sind vorhanden, aber das Objekt ist aus dem Speicher verschwunden. F`00FChren Sie die Bereinigung aus, um die Datei als fehlend zu markieren.''),
    (''error.server.title'', js ''Serverfehler''),
    (''error.server'', js ''Ein unerwarteter Fehler ist aufgetreten.''),
    (''error.bad_request.title'', js ''Ung`00FCltige Anfrage''),
    (''error.cross_site'', js ''Website`00FCbergreifende Anfrage blockiert''),
    (''error.csrf'', js ''Ung`00FCltiges CSRF-Token''),
    (''error.invalid_expiry'', js ''Ung`00FCltiges Ablaufdatum''),
    (''link.invalid.title'', js ''Ung`00FCltiger Link''),
    (''link.invalid'', js ''Dieser Upload-Link existiert nicht.''),
    (''link.unavailable.title'', js ''Link nicht verf`00FCgbar''),
    (''link.expired'', js ''Dieser Link ist abgelaufen.''),
    (''link.revoked'', js ''Dieser Link wurde widerrufen.'')]"

definition de_3 :: messages where
  "de_3 = [
    (''link.case_closed'', js ''Der Vorgang wurde geschlossen und nimmt keine Dateien mehr an.''),
    (''link.contact'', js ''Wenden Sie sich an die Person, die Ihnen den Link gegeben hat.''),
    (''login.title'', js ''Administrator-Anmeldung''),
    (''login.username'', js ''Benutzername''),
    (''login.password'', js ''Passwort''),
    (''login.submit'', js ''Anmelden''),
    (''login.failed'', js ''Benutzername oder Passwort ung`00FCltig.''),
    (''login.too_many_codes'', js ''Zu viele falsche Codes. Melden Sie sich erneut an.''),
    (''login.account_locked'', js ''Zu viele falsche Codes f`00FCr dieses Konto. Der zweite Faktor ist f`00FCr 15 Minuten gesperrt.''),
    (''totp.title'', js ''Code aus Ihrer Authenticator-App''),
    (''totp.code_label'', js ''Code (6 Ziffern) oder Wiederherstellungscode''),
    (''totp.confirm'', js ''Best`00E4tigen''),
    (''totp.cancel_logout'', js ''Abbrechen und abmelden''),
    (''totp.invalid'', js ''Ung`00FCltiger Code.''),
    (''totp.attempts_left'', js ''Verbleibende Versuche: {n}.''),
    (''totp.locked_until'', js ''Das Konto ist nach vielen falschen Codes vor`00FCbergehend gesperrt (bis {until} UTC).''),
    (''security.title'', js ''Sicherheit des Kontos `201E{user}`201C''),
    (''security.required_notice'', js ''Diese Instanz erfordert einen zweiten Faktor. Das Panel bleibt gesperrt, bis Sie unten eine Authenticator-App oder einen Passkey hinzuf`00FCgen.''),
    (''security.status'', js ''Zwei-Faktor-Authentifizierung (TOTP, RFC 6238): {state}.''),
    (''security.enabled'', js ''aktiviert'')]"

definition de_4 :: messages where
  "de_4 = [
    (''security.disabled'', js ''deaktiviert''),
    (''security.recovery_left'', js ''Unbenutzte Wiederherstellungscodes: {n}.''),
    (''security.recovery.title'', js ''Wiederherstellungscodes''),
    (''security.recovery.intro'', js ''Bewahren Sie sie jetzt an einem sicheren Ort auf. Jeder funktioniert einmal und ersetzt den App-Code, wenn Sie keinen Zugriff auf die App mehr haben. Sie werden nicht erneut angezeigt.''),
    (''security.enable.title'', js ''TOTP aktivieren''),
    (''security.enable.intro'', js ''Sie ben`00F6tigen eine Authenticator-App (z. B. Aegis, Google Authenticator, 1Password, Bitwarden). Nach der Aktivierung erfordert die Anmeldung das Passwort und einen aktuellen Code.''),
    (''security.enable.start'', js ''Einrichtung starten''),
    (''security.step1'', js ''Schritt 1: Code in Ihrer App scannen''),
    (''security.manual_key'', js ''Oder den Schl`00FCssel manuell eingeben:''),
    (''security.key_params'', js ''Typ: TOTP, SHA-1, 6 Ziffern, 30 s. Aussteller: {issuer}, Konto: {user}.''),
    (''security.open_in_app'', js ''In der Authenticator-App `00F6ffnen''),
    (''security.on_phone'', js ''(auf dem Smartphone)''),
    (''security.step2'', js ''Schritt 2: mit einem Code best`00E4tigen''),
    (''security.code_from_app'', js ''Code aus der App''),
    (''security.enable.submit'', js ''TOTP aktivieren''),
    (''security.pending_note'', js ''Der Schl`00FCssel ist bis zur Best`00E4tigung vorl`00E4ufig; ein erneuter Start der Einrichtung erzeugt einen neuen.''),
    (''security.current_code'', js ''Aktueller Code aus der App''),
    (''security.regenerate'', js ''Neue Codes erzeugen (die alten werden ung`00FCltig)''),
    (''security.disable.title'', js ''TOTP deaktivieren''),
    (''security.disable.intro'', js ''Erfordert einen aktuellen Code aus der App oder einen Wiederherstellungscode: Die Sitzung allein (z. B. ein gestohlenes Cookie) reicht nicht aus. Sind sowohl die App als auch die Wiederherstellungscodes verloren, kann ein Betreiber {cmd} auf dem Server ausf`00FChren.'')]"

definition de_5 :: messages where
  "de_5 = [
    (''security.disable.code'', js ''Code''),
    (''security.disable.submit'', js ''Deaktivieren''),
    (''security.disable.confirm'', js ''Zwei-Faktor-Authentifizierung deaktivieren?''),
    (''security.msg.enabled'', js ''Die Zwei-Faktor-Authentifizierung ist aktiviert.''),
    (''security.msg.code_mismatch'', js ''Der Code stimmt nicht. Pr`00FCfen Sie die Uhrzeit auf Ihrem Smartphone und versuchen Sie es erneut.''),
    (''security.msg.invalid_code'', js ''Ung`00FCltiger Code.''),
    (''security.msg.regenerated'', js ''Neue Wiederherstellungscodes erzeugt.''),
    (''security.msg.required'', js ''Diese Instanz erfordert TOTP (ADMIN_REQUIRE_TOTP); es kann nicht deaktiviert werden.''),
    (''security.msg.disabled'', js ''Die Zwei-Faktor-Authentifizierung wurde deaktiviert.''),
    (''security.password.title'', js ''Passwort `00E4ndern''),
    (''security.password.current'', js ''Aktuelles Passwort''),
    (''security.password.new'', js ''Neues Passwort (mind. 12 Zeichen)''),
    (''security.password.confirm'', js ''Neues Passwort best`00E4tigen''),
    (''security.password.submit'', js ''Passwort `00E4ndern''),
    (''security.password.mismatch'', js ''Das neue Passwort und die Best`00E4tigung stimmen nicht `00FCberein.''),
    (''security.password.invalid_current'', js ''Das aktuelle Passwort ist falsch.''),
    (''security.password.changed'', js ''Passwort ge`00E4ndert. Andere Sitzungen dieses Kontos wurden abgemeldet.''),
    (''home.title'', js ''inletbox''),
    (''home.message'', js ''Dies ist eine private Dateiablage. Um Dateien hochzuladen, verwenden Sie den Link, den Sie von der anfragenden Person erhalten haben.''),
    (''cases.new'', js ''Neuer Vorgang'')]"

definition de_6 :: messages where
  "de_6 = [
    (''cases.name'', js ''Name''),
    (''cases.name_placeholder'', js ''z. B. Pr`00FCfung 2026/09 `2013 Kunde X''),
    (''cases.description_optional'', js ''Beschreibung (optional)''),
    (''cases.description'', js ''Beschreibung''),
    (''cases.list'', js ''Vorg`00E4nge''),
    (''cases.empty'', js ''Keine Vorg`00E4nge.''),
    (''cases.col.name'', js ''Name''),
    (''cases.col.status'', js ''Status''),
    (''cases.col.links'', js ''Aktive Links''),
    (''cases.col.files'', js ''Dateien''),
    (''cases.col.size'', js ''Gr`00F6`00DFe''),
    (''cases.col.created'', js ''Angelegt''),
    (''case.open'', js ''offen''),
    (''case.closed'', js ''geschlossen''),
    (''case.close'', js ''Vorgang schlie`00DFen''),
    (''case.reopen'', js ''Wieder `00F6ffnen''),
    (''case.meta'', js ''ID: {id} `00B7 angelegt {date}. Ein geschlossener Vorgang nimmt `00FCber keinen seiner Links Uploads an.''),
    (''case.saved'', js ''Gespeichert.''),
    (''case.closed_no_links'', js ''Der Vorgang ist geschlossen `2013 `00F6ffnen Sie ihn wieder, um Links zu erzeugen.''),
    (''case.new_link.title'', js ''Neuer Link f`00FCr `201E{label}`201C'')]"

definition de_7 :: messages where
  "de_7 = [
    (''case.new_link.intro'', js ''Kopieren Sie ihn jetzt. Das Token wird nur als Hash gespeichert und kann sp`00E4ter nicht wiederhergestellt werden `2013 Sie k`00F6nnen nur einen neuen Link erzeugen.''),
    (''case.new_link.copy_now'', js ''Kopieren Sie ihn jetzt.''),
    (''links.title'', js ''Upload-Links''),
    (''links.intro'', js ''Jeder Link ist ein eigener Empf`00E4nger und ein eigener Sichtbarkeitsbereich: Wer den Link hat, sieht nur die `00FCber diesen Link gesendeten Dateien und kann sie weder herunterladen noch l`00F6schen. Alle, die denselben Link kennen, haben identischen Zugriff `2013 die Anwendung unterscheidet nicht zwischen Personen, die denselben Link verwenden.''),
    (''links.generate'', js ''Neuen Link erzeugen''),
    (''links.label'', js ''Bezeichnung des Empf`00E4ngers''),
    (''links.label_placeholder'', js ''z. B. Erika Mustermann `2013 Buchhaltung''),
    (''links.expires'', js ''G`00FCltig bis (UTC, optional)''),
    (''links.max_file'', js ''Max. Dateigr`00F6`00DFe (optional, `2264 {max})''),
    (''links.max_file_placeholder'', js ''z. B. 500MB''),
    (''links.max_files'', js ''Max. Anzahl Dateien (optional)''),
    (''links.max_total'', js ''Max. Gesamtgr`00F6`00DFe (optional)''),
    (''links.max_total_placeholder'', js ''z. B. 2GB''),
    (''links.submit'', js ''Link erzeugen''),
    (''links.empty'', js ''Keine Links.''),
    (''links.col.recipient'', js ''Empf`00E4nger''),
    (''links.col.state'', js ''Zustand''),
    (''links.col.expires'', js ''G`00FCltig bis''),
    (''links.col.limits'', js ''Limits''),
    (''links.col.usage'', js ''Nutzung'')]"

definition de_8 :: messages where
  "de_8 = [
    (''links.col.last_used'', js ''Zuletzt verwendet''),
    (''links.state.active'', js ''aktiv''),
    (''links.state.expired'', js ''abgelaufen''),
    (''links.state.revoked'', js ''widerrufen''),
    (''links.state.case_closed'', js ''Vorgang geschlossen''),
    (''links.limit.file'', js ''Datei `2264 {max}''),
    (''links.limit.files'', js ''Dateien `2264 {n}''),
    (''links.limit.total'', js ''gesamt `2264 {max}''),
    (''links.usage'', js ''{n} Dateien, {size}''),
    (''links.usage_in_progress'', js ''{n} laufend ({size} reserviert)''),
    (''links.revoke'', js ''Widerrufen''),
    (''links.revoke_confirm'', js ''Link `201E{label}`201C widerrufen? Laufende Uploads werden abgebrochen.''),
    (''files.title'', js ''Dateien''),
    (''files.empty'', js ''Keine Dateien.''),
    (''files.col.name'', js ''Name''),
    (''files.col.recipient'', js ''Empf`00E4nger (Link)''),
    (''files.col.size'', js ''Gr`00F6`00DFe''),
    (''files.col.status'', js ''Status''),
    (''files.col.uploaded'', js ''Hochgeladen''),
    (''files.declared'', js ''{size} (angegeben)'')]"

definition de_9 :: messages where
  "de_9 = [
    (''files.download'', js ''Herunterladen''),
    (''files.delete'', js ''L`00F6schen''),
    (''files.delete_confirm'', js ''Datei `201E{name}`201C l`00F6schen? Dies kann nicht r`00FCckg`00E4ngig gemacht werden.''),
    (''files.untrusted'', js ''Dateien gelten als nicht vertrauensw`00FCrdig: Downloads sind immer Anh`00E4nge, auf dem Server wird nichts dargestellt oder ausgef`00FChrt. Ein Virenscan ist nicht Teil dieser Version.''),
    (''files.status.uploading'', js ''l`00E4uft''),
    (''files.status.complete'', js ''vollst`00E4ndig''),
    (''files.status.aborted'', js ''abgebrochen''),
    (''files.status.expired'', js ''abgelaufen''),
    (''files.status.missing'', js ''fehlt im Speicher''),
    (''files.status.deleted'', js ''gel`00F6scht''),
    (''audit.title'', js ''Protokoll (letzte {n})''),
    (''audit.col.time'', js ''Zeit''),
    (''audit.col.actor'', js ''Akteur''),
    (''audit.col.action'', js ''Ereignis''),
    (''audit.col.case'', js ''Vorgang''),
    (''audit.col.link'', js ''Link''),
    (''audit.col.file'', js ''Datei''),
    (''audit.col.ip'', js ''IP''),
    (''audit.col.details'', js ''Details''),
    (''upload.title'', js ''Upload: {case}'')]"

definition de_10 :: messages where
  "de_10 = [
    (''upload.link_for'', js ''Link f`00FCr:''),
    (''upload.valid_until'', js ''g`00FCltig bis {date}''),
    (''upload.limit.file'', js ''Maximale Dateigr`00F6`00DFe:''),
    (''upload.limit.files'', js ''Maximale Anzahl Dateien:''),
    (''upload.limit.total'', js ''Gesamtes Datenlimit:''),
    (''upload.used_n'', js ''({n} verwendet)''),
    (''upload.used_size'', js ''({size} verwendet)''),
    (''upload.send'', js ''Dateien hochladen''),
    (''upload.drop_here'', js ''Dateien hierher ziehen''),
    (''upload.or'', js ''oder''),
    (''upload.choose'', js ''vom Datentr`00E4ger ausw`00E4hlen''),
    (''upload.resume_hint'', js ''Gro`00DFe Dateien werden in Teilen gesendet und k`00F6nnen nach einem Verbindungsabbruch fortgesetzt werden. W`00E4hlen Sie nach dem Neuladen der Seite dieselbe Datei erneut, und der Upload wird dort fortgesetzt, wo er stehen geblieben ist.''),
    (''upload.your_files'', js ''Ihre Dateien''),
    (''upload.your_files_intro'', js ''Sie sehen nur die `00FCber diesen Link hochgeladenen Dateien. Dateien k`00F6nnen hier weder heruntergeladen noch gel`00F6scht werden `2013 der Administrator holt sie ab.''),
    (''upload.col.name'', js ''Name''),
    (''upload.col.size'', js ''Gr`00F6`00DFe''),
    (''upload.col.date'', js ''Datum''),
    (''upload.col.status'', js ''Status''),
    (''upload.none_yet'', js ''Noch keine Dateien hochgeladen.''),
    (''upload.list_failed'', js ''Die Liste konnte nicht geladen werden: {msg}'')]"

definition de_11 :: messages where
  "de_11 = [
    (''upload.terminal'', js ''Upload `00FCber das Terminal''),
    (''upload.terminal_hint'', js ''(curl, Skripte, fortsetzbare `00DCbertragungen)''),
    (''upload.terminal_intro'', js ''Ersetzen Sie {path} durch den Pfad zu Ihrer Datei (Leerzeichen sind kein Problem). Ein Exit-Code ungleich null bedeutet einen Fehler; die Antwort ist JSON.''),
    (''upload.snippet.single'', js ''Eine Datei''),
    (''upload.snippet.multi'', js ''Mehrere Dateien''),
    (''upload.snippet.env'', js ''Token in einer Umgebungsvariablen (empfohlen)''),
    (''upload.snippet.list'', js ''Hochgeladene Dateien auflisten''),
    (''upload.snippet.resumable'', js ''Gro`00DFe Datei mit Fortsetzung (Skript {script})''),
    (''upload.history_warning'', js ''Hinweis: Ein Befehl mit dem Token landet in Ihrer Shell-Historie (z. B. {file}). Die Export-Variante mit vorangestelltem Leerzeichen wird nicht gespeichert, wenn {opt} gesetzt ist. Behandeln Sie diesen Link wie ein Passwort und geben Sie ihn nicht weiter.''),
    (''upload.path_placeholder'', js ''/pfad/zur/datei.pdf''),
    (''upload.path_placeholder2'', js ''/pfad/bericht.pdf''),
    (''upload.path_placeholder3'', js ''/pfad/foto 1.jpg''),
    (''upload.path_placeholder_big'', js ''/pfad/zur/grosse datei.iso''),
    (''upload.js.queued'', js ''in der Warteschlange`2026''),
    (''upload.js.too_large'', js ''zu gro`00DF: Limit {max}''),
    (''upload.js.error'', js ''Fehler: {msg}''),
    (''upload.js.starting'', js ''wird gestartet`2026''),
    (''upload.js.resuming'', js ''vorheriger Upload wird fortgesetzt`2026''),
    (''upload.js.retrying'', js ''neuer Versuch`2026''),
    (''upload.js.done'', js ''vollst`00E4ndig'')]"

definition de_12 :: messages where
  "de_12 = [
    (''upload.js.finalising'', js ''alle Daten gesendet, der Server schlie`00DFt ab`2026''),
    (''upload.js.cancelled'', js ''abgebrochen''),
    (''upload.js.cancelled_local'', js ''abgebrochen (lokal)''),
    (''upload.js.status.uploading'', js ''l`00E4uft''),
    (''upload.js.status.complete'', js ''vollst`00E4ndig''),
    (''nav.users'', js ''Benutzer''),
    (''cases.empty_assigned'', js ''Ihnen sind noch keine Vorg`00E4nge zugewiesen. Eine Kollegin oder ein Kollege, die an einem Vorgang arbeiten, oder ein Administrator kann Sie zuweisen, oder Sie legen oben einen neuen an.''),
    (''error.forbidden.title'', js ''Nicht erlaubt''),
    (''error.forbidden'', js ''Diese Seite ist nur f`00FCr Administratoren.''),
    (''security.must_change_notice'', js ''Ihr Passwort wurde von einem Administrator vergeben. Legen Sie unten ein eigenes fest, bevor Sie fortfahren.''),
    (''members.title'', js ''Zugewiesene Benutzer''),
    (''members.intro'', js ''Ein Benutzer sieht nur die Vorg`00E4nge, denen er zugewiesen ist. Administratoren sehen alle Vorg`00E4nge.''),
    (''members.empty'', js ''Diesem Vorgang ist niemand zugewiesen `2014 nur Administratoren sehen ihn.''),
    (''members.user'', js ''Benutzer''),
    (''members.add'', js ''Zuweisen''),
    (''members.added'', js ''Das Konto {username} ist jetzt diesem Vorgang zugewiesen.''),
    (''members.remove'', js ''Entfernen''),
    (''members.remove_confirm'', js ''{username} entfernen? Das Konto sieht diesen Vorgang dann nicht mehr.''),
    (''members.removed'', js ''Das Konto {username} hat keinen Zugriff mehr auf diesen Vorgang.''),
    (''members.none_assignable'', js ''Es gibt kein weiteres Benutzerkonto zum Zuweisen. Legen Sie eines unter {link} an.'')]"

definition de_13 :: messages where
  "de_13 = [
    (''users.new'', js ''Neues Konto''),
    (''users.list'', js ''Konten''),
    (''users.username'', js ''Benutzername''),
    (''users.username_placeholder'', js ''z. B. anna.schmidt@firma.de''),
    (''users.role'', js ''Rolle''),
    (''users.role.admin'', js ''Administrator''),
    (''users.role.user'', js ''Benutzer''),
    (''users.roles_hint'', js ''Ein Benutzer sieht und bearbeitet nur die Vorg`00E4nge, denen er zugewiesen ist. Ein Administrator sieht alle Vorg`00E4nge, verwaltet Konten und liest das Protokoll. Es wird ein vorl`00E4ufiges Passwort erzeugt; es muss bei der ersten Anmeldung ge`00E4ndert werden.''),
    (''users.col.username'', js ''Konto''),
    (''users.col.status'', js ''Zustand''),
    (''users.col.totp'', js ''Zweiter Faktor''),
    (''users.col.cases'', js ''Vorg`00E4nge''),
    (''users.col.last_login'', js ''Letzte Anmeldung''),
    (''users.status.active'', js ''aktiv''),
    (''users.status.disabled'', js ''gesperrt''),
    (''users.status.must_change'', js ''Passwort zu `00E4ndern''),
    (''users.you'', js ''Sie''),
    (''users.all_cases'', js ''alle''),
    (''users.issued.title'', js ''Konto {username} angelegt''),
    (''users.issued.reset_title'', js ''Neues Passwort f`00FCr {username}'')]"

definition de_14 :: messages where
  "de_14 = [
    (''users.issued.copy_now'', js ''Kopieren Sie dieses Passwort jetzt `2014 es wird nur einmal angezeigt.''),
    (''users.issued.intro'', js ''Geben Sie es auf einem anderen Weg weiter als den Benutzernamen. Bei der ersten Anmeldung muss es ersetzt werden.''),
    (''users.make_admin'', js ''Zum Administrator machen''),
    (''users.make_user'', js ''Zum Benutzer machen''),
    (''users.role_confirm'', js ''Rolle des Kontos {username} `00E4ndern?''),
    (''users.role_changed'', js ''Das Konto {username} hat jetzt die Rolle: {role}.''),
    (''users.reset_password'', js ''Neues Passwort''),
    (''users.reset_password_confirm'', js ''Ein neues Passwort f`00FCr {username} vergeben? Das bisherige wird ung`00FCltig und alle Sitzungen des Kontos enden.''),
    (''users.password_reset'', js ''F`00FCr {username} wurde ein neues Passwort vergeben und das Konto abgemeldet.''),
    (''users.reset_totp'', js ''2FA zur`00FCcksetzen''),
    (''users.reset_totp_confirm'', js ''Den zweiten Faktor von {username} entfernen? Er wird nach der n`00E4chsten Anmeldung neu eingerichtet.''),
    (''users.totp_reset'', js ''Die Zwei-Faktor-Authentifizierung des Kontos {username} wurde entfernt.''),
    (''users.disable'', js ''Sperren''),
    (''users.disable_confirm'', js ''{username} sperren? Das Konto wird abgemeldet und kann sich erst nach dem Entsperren wieder anmelden.''),
    (''users.disabled'', js ''Das Konto {username} wurde gesperrt und abgemeldet.''),
    (''users.enable'', js ''Entsperren''),
    (''users.enabled'', js ''Das Konto {username} kann sich wieder anmelden.''),
    (''users.delete'', js ''L`00F6schen''),
    (''users.delete_confirm'', js ''Konto {username} l`00F6schen? Seine Zuweisungen zu Vorg`00E4ngen verschwinden mit; das Protokoll beh`00E4lt, was es getan hat.''),
    (''users.deleted'', js ''Das Konto {username} wurde gel`00F6scht.'')]"

definition de_15 :: messages where
  "de_15 = [
    (''users.missing'', js ''Dieses Konto gibt es nicht.''),
    (''users.not_self'', js ''Das eigene Konto `00E4ndern Sie hier nicht `2014 Passwort und 2FA finden Sie unter Sicherheit.''),
    (''users.last_admin'', js ''Mindestens ein aktiver Administrator muss bleiben.''),
    (''users.exists'', js ''Ein Konto namens {username} gibt es bereits.''),
    (''users.invalid_username'', js ''Ein Benutzername hat 2`201364 Zeichen: Buchstaben, Ziffern und . _ @ -''),
    (''users.invalid_role'', js ''Unbekannte Rolle.''),
    (''members.not_self'', js ''Sie k`00F6nnen sich nicht selbst entfernen. Bitten Sie eine andere Person an diesem Vorgang oder einen Administrator darum.''),
    (''members.none_assignable_user'', js ''Es gibt kein weiteres Benutzerkonto zum Zuweisen.''),
    (''second.title'', js ''Zweiter Schritt der Anmeldung''),
    (''second.recovery_label'', js ''Wiederherstellungscode''),
    (''common.or'', js ''oder''),
    (''passkey.use'', js ''Einen Passkey verwenden''),
    (''passkey.unsupported'', js ''Dieser Browser unterst`00FCtzt keine Passkeys.''),
    (''passkey.failed'', js ''Der Passkey konnte nicht `00FCberpr`00FCft werden. Versuchen Sie es erneut.''),
    (''passkey.cancelled'', js ''Abgebrochen. Versuchen Sie es erneut, wenn Sie bereit sind.''),
    (''confirm.title'', js ''Best`00E4tigen Sie Ihre Identit`00E4t''),
    (''confirm.intro'', js ''Diese Aktion erfordert eine aktuelle Best`00E4tigung. Sie bleibt danach f`00FCr {minutes} Minuten g`00FCltig, sodass Sie nicht bei jedem Schritt erneut gefragt werden.''),
    (''confirm.repeat'', js ''Wiederholen Sie nach der Best`00E4tigung den vorherigen Vorgang.''),
    (''confirm.code_label'', js ''Code aus der App oder ein Wiederherstellungscode''),
    (''confirm.password_label'', js ''Ihr Passwort'')]"

definition de_16 :: messages where
  "de_16 = [
    (''confirm.submit'', js ''Best`00E4tigen''),
    (''confirm.invalid'', js ''Keine `00DCbereinstimmung. Versuchen Sie es erneut.''),
    (''confirm.locked'', js ''Zu viele falsche Codes f`00FCr dieses Konto. Versuchen Sie es in 15 Minuten erneut.''),
    (''passkeys.title'', js ''Passkeys''),
    (''passkeys.intro'', js ''Ein Passkey wird von Ihrem Ger`00E4t, Ihrem Passwort-Manager oder einem Sicherheitsschl`00FCssel verwaltet und ist vor Phishing gesch`00FCtzt. Er dient als zweiter Schritt bei der Anmeldung und zur Best`00E4tigung sensibler Aktionen.''),
    (''passkeys.none'', js ''Noch keine Passkeys vorhanden.''),
    (''passkeys.name'', js ''Name''),
    (''passkeys.name_placeholder'', js ''z. B. Laptop, Sicherheitsschl`00FCssel''),
    (''passkeys.added_at'', js ''Hinzugef`00FCgt''),
    (''passkeys.last_used'', js ''Zuletzt verwendet''),
    (''passkeys.add'', js ''Einen Passkey hinzuf`00FCgen''),
    (''passkeys.remove'', js ''Entfernen''),
    (''passkeys.remove_confirm'', js ''Diesen Passkey entfernen? Andere Sitzungen dieses Kontos werden abgemeldet.''),
    (''passkeys.added'', js ''Passkey `201E{name}`201C hinzugef`00FCgt.''),
    (''passkeys.removed'', js ''Passkey `201E{name}`201C entfernt. Andere Sitzungen dieses Kontos wurden abgemeldet.''),
    (''passkeys.last_required'', js ''Diese Instanz erfordert einen zweiten Faktor. F`00FCgen Sie einen weiteren hinzu, bevor Sie den letzten entfernen.''),
    (''passkeys.limit'', js ''Ein Konto kann maximal {n} Passkeys haben.''),
    (''passkeys.duplicate'', js ''Dieser Passkey ist bereits registriert.''),
    (''security.recovery.regenerate_confirmed'', js ''Neue Codes erzeugen (die alten werden ung`00FCltig)''),
    (''sessions.title'', js ''Aktive Sitzungen'')]"

definition de_17 :: messages where
  "de_17 = [
    (''sessions.intro'', js ''Alle Orte, an denen dieses Konto angemeldet ist. Melden Sie unbekannte Sitzungen ab und `00E4ndern Sie anschlie`00DFend Ihr Passwort.''),
    (''sessions.device'', js ''Ger`00E4t''),
    (''sessions.ip'', js ''IP-Adresse''),
    (''sessions.started'', js ''Gestartet''),
    (''sessions.last_seen'', js ''Letzte Aktivit`00E4t''),
    (''sessions.current'', js ''diese Sitzung''),
    (''sessions.pending'', js ''nur Passwort, zweiter Schritt ausstehend''),
    (''sessions.bound'', js ''an dieses Ger`00E4t gebunden''),
    (''sessions.factor'', js ''zweiter Schritt: {factor}''),
    (''sessions.via.totp'', js ''App-Code''),
    (''sessions.via.recovery'', js ''Wiederherstellungscode''),
    (''sessions.via.passkey'', js ''Passkey''),
    (''sessions.unknown_device'', js ''Unbekanntes Ger`00E4t''),
    (''sessions.revoke'', js ''Abmelden''),
    (''sessions.revoke_others'', js ''Alle anderen Sitzungen abmelden''),
    (''sessions.revoked'', js ''Die Sitzung wurde abgemeldet.''),
    (''sessions.revoked_others'', js ''Alle anderen Sitzungen wurden abgemeldet.'')]"

definition de_messages :: messages where
  "de_messages = de_1 @ de_2 @ de_3 @ de_4 @ de_5 @ de_6 @ de_7 @ de_8 @ de_9 @ de_10 @ de_11 @ de_12 @ de_13 @ de_14 @ de_15 @ de_16 @ de_17"

lemmas de_defs =
  de_1_def de_2_def de_3_def de_4_def de_5_def de_6_def de_7_def de_8_def de_9_def de_10_def de_11_def de_12_def de_13_def de_14_def
  de_15_def de_16_def de_17_def

lemma de_fits: "fits de_messages message_shape"
  unfolding de_messages_def message_shape_def
  by (intro fits_append; unfold de_defs shape_defs; simp only: fits_rules cong: literal_congs)

end
