(* ===== verification/Locale_El.thy ===== *)
theory Locale_El
  imports Locale_En
begin

text \<open>src/locales/el.ts: Greek.\<close>

definition el_1 :: messages where
  "el_1 = [
    (''app.tagline'', js ''`03B9`03B4`03B9`03C9`03C4`03B9`03BA`03CC `03BA`03BF`03C5`03C4`03AF `03C0`03B1`03C1`03AC`03B4`03BF`03C3`03B7`03C2 `03B1`03C1`03C7`03B5`03AF`03C9`03BD''),
    (''common.back_to_cases'', js ''`2190 `03A5`03C0`03BF`03B8`03AD`03C3`03B5`03B9`03C2''),
    (''common.home'', js ''`0391`03C1`03C7`03B9`03BA`03AE''),
    (''common.copy'', js ''`0391`03BD`03C4`03B9`03B3`03C1`03B1`03C6`03AE''),
    (''common.copied'', js ''`0391`03BD`03C4`03B9`03B3`03C1`03AC`03C6`03B7`03BA`03B5''),
    (''common.copy_manual'', js ''`0395`03C0`03B9`03BB`03AD`03BE`03C4`03B5 `03BA`03B1`03B9 `03B1`03BD`03C4`03B9`03B3`03C1`03AC`03C8`03C4`03B5 `03C7`03B5`03B9`03C1`03BF`03BA`03AF`03BD`03B7`03C4`03B1''),
    (''common.save'', js ''`0391`03C0`03BF`03B8`03AE`03BA`03B5`03C5`03C3`03B7''),
    (''common.create'', js ''`0394`03B7`03BC`03B9`03BF`03C5`03C1`03B3`03AF`03B1''),
    (''common.cancel'', js ''`0391`03BA`03CD`03C1`03C9`03C3`03B7''),
    (''common.retry'', js ''`0395`03C0`03B1`03BD`03AC`03BB`03B7`03C8`03B7''),
    (''common.never'', js ''`03C0`03BF`03C4`03AD''),
    (''common.unlimited'', js ''`03C7`03C9`03C1`03AF`03C2 `03BB`03AE`03BE`03B7''),
    (''common.none'', js ''`2014''),
    (''common.optional'', js ''`03C0`03C1`03BF`03B1`03B9`03C1`03B5`03C4`03B9`03BA`03CC''),
    (''common.loading'', js ''`03A6`03CC`03C1`03C4`03C9`03C3`03B7`2026''),
    (''common.yes'', js ''`039D`03B1`03B9''),
    (''common.language'', js ''`0393`03BB`03CE`03C3`03C3`03B1''),
    (''nav.cases'', js ''`03A5`03C0`03BF`03B8`03AD`03C3`03B5`03B9`03C2''),
    (''nav.audit'', js ''`0391`03C1`03C7`03B5`03AF`03BF `03B5`03BB`03AD`03B3`03C7`03BF`03C5''),
    (''nav.security'', js ''`0391`03C3`03C6`03AC`03BB`03B5`03B9`03B1'')]"

definition el_2 :: messages where
  "el_2 = [
    (''nav.logout'', js ''`0391`03C0`03BF`03C3`03CD`03BD`03B4`03B5`03C3`03B7''),
    (''error.not_found.title'', js ''`0394`03B5`03BD `03B2`03C1`03AD`03B8`03B7`03BA`03B5''),
    (''error.page_missing'', js ''`0391`03C5`03C4`03AE `03B7 `03C3`03B5`03BB`03AF`03B4`03B1 `03B4`03B5`03BD `03C5`03C0`03AC`03C1`03C7`03B5`03B9.''),
    (''error.case_missing'', js ''`0391`03C5`03C4`03AE `03B7 `03C5`03C0`03CC`03B8`03B5`03C3`03B7 `03B4`03B5`03BD `03C5`03C0`03AC`03C1`03C7`03B5`03B9.''),
    (''error.link_missing'', js ''`0391`03C5`03C4`03CC`03C2 `03BF `03C3`03CD`03BD`03B4`03B5`03C3`03BC`03BF`03C2 `03B4`03B5`03BD `03C5`03C0`03AC`03C1`03C7`03B5`03B9.''),
    (''error.file_missing'', js ''`03A4`03BF `03B1`03C1`03C7`03B5`03AF`03BF `03B4`03B5`03BD `03C5`03C0`03AC`03C1`03C7`03B5`03B9 `03AE `03B4`03B5`03BD `03B5`03AF`03BD`03B1`03B9 `03B4`03B9`03B1`03B8`03AD`03C3`03B9`03BC`03BF.''),
    (''error.file_not_exist'', js ''`03A4`03BF `03B1`03C1`03C7`03B5`03AF`03BF `03B4`03B5`03BD `03C5`03C0`03AC`03C1`03C7`03B5`03B9.''),
    (''error.storage_missing.title'', js ''`03A4`03BF `03B1`03C1`03C7`03B5`03AF`03BF `03BB`03B5`03AF`03C0`03B5`03B9 `03B1`03C0`03CC `03C4`03BF`03BD `03C7`03CE`03C1`03BF `03B1`03C0`03BF`03B8`03AE`03BA`03B5`03C5`03C3`03B7`03C2''),
    (''error.storage_missing'', js ''`03A4`03B1 `03BC`03B5`03C4`03B1`03B4`03B5`03B4`03BF`03BC`03AD`03BD`03B1 `03C5`03C0`03AC`03C1`03C7`03BF`03C5`03BD, `03B1`03BB`03BB`03AC `03C4`03BF `03B1`03BD`03C4`03B9`03BA`03B5`03AF`03BC`03B5`03BD`03BF `03AD`03C7`03B5`03B9 `03B5`03BE`03B1`03C6`03B1`03BD`03B9`03C3`03C4`03B5`03AF `03B1`03C0`03CC `03C4`03BF`03BD `03C7`03CE`03C1`03BF `03B1`03C0`03BF`03B8`03AE`03BA`03B5`03C5`03C3`03B7`03C2. `0395`03BA`03C4`03B5`03BB`03AD`03C3`03C4`03B5 `03C4`03BF`03BD `03BA`03B1`03B8`03B1`03C1`03B9`03C3`03BC`03CC `03B3`03B9`03B1 `03BD`03B1 `03B5`03C0`03B9`03C3`03B7`03BC`03B1`03BD`03B8`03B5`03AF `03C4`03BF `03B1`03C1`03C7`03B5`03AF`03BF `03C9`03C2 `03B5`03BB`03BB`03B5`03AF`03C0`03BF`03BD.''),
    (''error.server.title'', js ''`03A3`03C6`03AC`03BB`03BC`03B1 `03B4`03B9`03B1`03BA`03BF`03BC`03B9`03C3`03C4`03AE''),
    (''error.server'', js ''`03A0`03B1`03C1`03BF`03C5`03C3`03B9`03AC`03C3`03C4`03B7`03BA`03B5 `03B1`03C0`03C1`03CC`03C3`03BC`03B5`03BD`03BF `03C3`03C6`03AC`03BB`03BC`03B1.''),
    (''error.bad_request.title'', js ''`0395`03C3`03C6`03B1`03BB`03BC`03AD`03BD`03BF `03B1`03AF`03C4`03B7`03BC`03B1''),
    (''error.cross_site'', js ''`03A4`03BF `03B1`03AF`03C4`03B7`03BC`03B1 `03B1`03C0`03CC `03AC`03BB`03BB`03BF`03BD `03B9`03C3`03C4`03CC`03C4`03BF`03C0`03BF `03B1`03C0`03BF`03BA`03BB`03B5`03AF`03C3`03C4`03B7`03BA`03B5''),
    (''error.csrf'', js ''`039C`03B7 `03AD`03B3`03BA`03C5`03C1`03BF `03B4`03B9`03B1`03BA`03C1`03B9`03C4`03B9`03BA`03CC CSRF''),
    (''error.invalid_expiry'', js ''`039C`03B7 `03AD`03B3`03BA`03C5`03C1`03B7 `03B7`03BC`03B5`03C1`03BF`03BC`03B7`03BD`03AF`03B1 `03BB`03AE`03BE`03B7`03C2''),
    (''link.invalid.title'', js ''`039C`03B7 `03AD`03B3`03BA`03C5`03C1`03BF`03C2 `03C3`03CD`03BD`03B4`03B5`03C3`03BC`03BF`03C2''),
    (''link.invalid'', js ''`0391`03C5`03C4`03CC`03C2 `03BF `03C3`03CD`03BD`03B4`03B5`03C3`03BC`03BF`03C2 `03B1`03C0`03BF`03C3`03C4`03BF`03BB`03AE`03C2 `03B4`03B5`03BD `03C5`03C0`03AC`03C1`03C7`03B5`03B9.''),
    (''link.unavailable.title'', js ''`039F `03C3`03CD`03BD`03B4`03B5`03C3`03BC`03BF`03C2 `03B4`03B5`03BD `03B5`03AF`03BD`03B1`03B9 `03B4`03B9`03B1`03B8`03AD`03C3`03B9`03BC`03BF`03C2''),
    (''link.expired'', js ''`0391`03C5`03C4`03CC`03C2 `03BF `03C3`03CD`03BD`03B4`03B5`03C3`03BC`03BF`03C2 `03AD`03C7`03B5`03B9 `03BB`03AE`03BE`03B5`03B9.''),
    (''link.revoked'', js ''`0391`03C5`03C4`03CC`03C2 `03BF `03C3`03CD`03BD`03B4`03B5`03C3`03BC`03BF`03C2 `03AD`03C7`03B5`03B9 `03B1`03BD`03B1`03BA`03BB`03B7`03B8`03B5`03AF.'')]"

definition el_3 :: messages where
  "el_3 = [
    (''link.case_closed'', js ''`0397 `03C5`03C0`03CC`03B8`03B5`03C3`03B7 `03AD`03C7`03B5`03B9 `03BA`03BB`03B5`03AF`03C3`03B5`03B9 `03BA`03B1`03B9 `03B4`03B5`03BD `03B4`03AD`03C7`03B5`03C4`03B1`03B9 `03C0`03BB`03AD`03BF`03BD `03B1`03C1`03C7`03B5`03AF`03B1.''),
    (''link.contact'', js ''`0395`03C0`03B9`03BA`03BF`03B9`03BD`03C9`03BD`03AE`03C3`03C4`03B5 `03BC`03B5 `03C4`03BF `03AC`03C4`03BF`03BC`03BF `03C0`03BF`03C5 `03C3`03B1`03C2 `03AD`03B4`03C9`03C3`03B5 `03C4`03BF`03BD `03C3`03CD`03BD`03B4`03B5`03C3`03BC`03BF.''),
    (''login.title'', js ''`03A3`03CD`03BD`03B4`03B5`03C3`03B7 `03B4`03B9`03B1`03C7`03B5`03B9`03C1`03B9`03C3`03C4`03AE''),
    (''login.username'', js ''`038C`03BD`03BF`03BC`03B1 `03C7`03C1`03AE`03C3`03C4`03B7''),
    (''login.password'', js ''`039A`03C9`03B4`03B9`03BA`03CC`03C2 `03C0`03C1`03CC`03C3`03B2`03B1`03C3`03B7`03C2''),
    (''login.submit'', js ''`03A3`03CD`03BD`03B4`03B5`03C3`03B7''),
    (''login.failed'', js ''`039C`03B7 `03AD`03B3`03BA`03C5`03C1`03BF `03CC`03BD`03BF`03BC`03B1 `03C7`03C1`03AE`03C3`03C4`03B7 `03AE `03BA`03C9`03B4`03B9`03BA`03CC`03C2 `03C0`03C1`03CC`03C3`03B2`03B1`03C3`03B7`03C2.''),
    (''login.too_many_codes'', js ''`03A0`03AC`03C1`03B1 `03C0`03BF`03BB`03BB`03BF`03AF `03BB`03B1`03BD`03B8`03B1`03C3`03BC`03AD`03BD`03BF`03B9 `03BA`03C9`03B4`03B9`03BA`03BF`03AF. `03A3`03C5`03BD`03B4`03B5`03B8`03B5`03AF`03C4`03B5 `03BE`03B1`03BD`03AC.''),
    (''login.account_locked'', js ''`03A0`03AC`03C1`03B1 `03C0`03BF`03BB`03BB`03BF`03AF `03BB`03B1`03BD`03B8`03B1`03C3`03BC`03AD`03BD`03BF`03B9 `03BA`03C9`03B4`03B9`03BA`03BF`03AF `03B3`03B9`03B1 `03B1`03C5`03C4`03CC`03BD `03C4`03BF`03BD `03BB`03BF`03B3`03B1`03C1`03B9`03B1`03C3`03BC`03CC. `039F `03B4`03B5`03CD`03C4`03B5`03C1`03BF`03C2 `03C0`03B1`03C1`03AC`03B3`03BF`03BD`03C4`03B1`03C2 `03B5`03AF`03BD`03B1`03B9 `03BA`03BB`03B5`03B9`03B4`03C9`03BC`03AD`03BD`03BF`03C2 `03B3`03B9`03B1 15 `03BB`03B5`03C0`03C4`03AC.''),
    (''totp.title'', js ''`039A`03C9`03B4`03B9`03BA`03CC`03C2 `03B1`03C0`03CC `03C4`03B7`03BD `03B5`03C6`03B1`03C1`03BC`03BF`03B3`03AE `03B5`03BB`03AD`03B3`03C7`03BF`03C5 `03C4`03B1`03C5`03C4`03CC`03C4`03B7`03C4`03B1`03C2''),
    (''totp.code_label'', js ''`039A`03C9`03B4`03B9`03BA`03CC`03C2 (6 `03C8`03B7`03C6`03AF`03B1) `03AE `03BA`03C9`03B4`03B9`03BA`03CC`03C2 `03B1`03BD`03AC`03BA`03C4`03B7`03C3`03B7`03C2''),
    (''totp.confirm'', js ''`0395`03C0`03B9`03B2`03B5`03B2`03B1`03AF`03C9`03C3`03B7''),
    (''totp.cancel_logout'', js ''`0391`03BA`03CD`03C1`03C9`03C3`03B7 `03BA`03B1`03B9 `03B1`03C0`03BF`03C3`03CD`03BD`03B4`03B5`03C3`03B7''),
    (''totp.invalid'', js ''`039C`03B7 `03AD`03B3`03BA`03C5`03C1`03BF`03C2 `03BA`03C9`03B4`03B9`03BA`03CC`03C2.''),
    (''totp.attempts_left'', js ''`0391`03C0`03BF`03BC`03AD`03BD`03BF`03C5`03BD `03C0`03C1`03BF`03C3`03C0`03AC`03B8`03B5`03B9`03B5`03C2: {n}.''),
    (''totp.locked_until'', js ''`039F `03BB`03BF`03B3`03B1`03C1`03B9`03B1`03C3`03BC`03CC`03C2 `03B5`03AF`03BD`03B1`03B9 `03C0`03C1`03BF`03C3`03C9`03C1`03B9`03BD`03AC `03BA`03BB`03B5`03B9`03B4`03C9`03BC`03AD`03BD`03BF`03C2 `03BC`03B5`03C4`03AC `03B1`03C0`03CC `03C0`03BF`03BB`03BB`03BF`03CD`03C2 `03BB`03B1`03BD`03B8`03B1`03C3`03BC`03AD`03BD`03BF`03C5`03C2 `03BA`03C9`03B4`03B9`03BA`03BF`03CD`03C2 (`03AD`03C9`03C2 {until} UTC).''),
    (''security.title'', js ''`0391`03C3`03C6`03AC`03BB`03B5`03B9`03B1 `03C4`03BF`03C5 `03BB`03BF`03B3`03B1`03C1`03B9`03B1`03C3`03BC`03BF`03CD `00AB{user}`00BB''),
    (''security.required_notice'', js ''`0391`03C5`03C4`03AE `03B7 `03B5`03B3`03BA`03B1`03C4`03AC`03C3`03C4`03B1`03C3`03B7 `03B1`03C0`03B1`03B9`03C4`03B5`03AF `03B4`03B5`03CD`03C4`03B5`03C1`03BF `03C0`03B1`03C1`03AC`03B3`03BF`03BD`03C4`03B1. `039F `03C0`03AF`03BD`03B1`03BA`03B1`03C2 `03C0`03B1`03C1`03B1`03BC`03AD`03BD`03B5`03B9 `03BC`03B7 `03B4`03B9`03B1`03B8`03AD`03C3`03B9`03BC`03BF`03C2 `03AD`03C9`03C2 `03CC`03C4`03BF`03C5 `03C0`03C1`03BF`03C3`03B8`03AD`03C3`03B5`03C4`03B5 `03BC`03B9`03B1 `03B5`03C6`03B1`03C1`03BC`03BF`03B3`03AE `03B5`03BB`03AD`03B3`03C7`03BF`03C5 `03C4`03B1`03C5`03C4`03CC`03C4`03B7`03C4`03B1`03C2 `03AE `03AD`03BD`03B1 `03BA`03BB`03B5`03B9`03B4`03AF `03C0`03C1`03CC`03C3`03B2`03B1`03C3`03B7`03C2 `03C0`03B1`03C1`03B1`03BA`03AC`03C4`03C9.''),
    (''security.status'', js ''`0388`03BB`03B5`03B3`03C7`03BF`03C2 `03C4`03B1`03C5`03C4`03CC`03C4`03B7`03C4`03B1`03C2 `03B4`03CD`03BF `03C0`03B1`03C1`03B1`03B3`03CC`03BD`03C4`03C9`03BD (TOTP, RFC 6238): {state}.''),
    (''security.enabled'', js ''`03B5`03BD`03B5`03C1`03B3`03CC`03C2'')]"

definition el_4 :: messages where
  "el_4 = [
    (''security.disabled'', js ''`03B1`03BD`03B5`03BD`03B5`03C1`03B3`03CC`03C2''),
    (''security.recovery_left'', js ''`0391`03C7`03C1`03B7`03C3`03B9`03BC`03BF`03C0`03BF`03AF`03B7`03C4`03BF`03B9 `03BA`03C9`03B4`03B9`03BA`03BF`03AF `03B1`03BD`03AC`03BA`03C4`03B7`03C3`03B7`03C2: {n}.''),
    (''security.recovery.title'', js ''`039A`03C9`03B4`03B9`03BA`03BF`03AF `03B1`03BD`03AC`03BA`03C4`03B7`03C3`03B7`03C2''),
    (''security.recovery.intro'', js ''`0391`03C0`03BF`03B8`03B7`03BA`03B5`03CD`03C3`03C4`03B5 `03C4`03BF`03C5`03C2 `03C4`03CE`03C1`03B1 `03C3`03B5 `03B1`03C3`03C6`03B1`03BB`03AD`03C2 `03BC`03AD`03C1`03BF`03C2. `039F `03BA`03B1`03B8`03AD`03BD`03B1`03C2 `03BB`03B5`03B9`03C4`03BF`03C5`03C1`03B3`03B5`03AF `03BC`03AF`03B1 `03C6`03BF`03C1`03AC `03BA`03B1`03B9 `03B1`03BD`03C4`03B9`03BA`03B1`03B8`03B9`03C3`03C4`03AC `03C4`03BF`03BD `03BA`03C9`03B4`03B9`03BA`03CC `03C4`03B7`03C2 `03B5`03C6`03B1`03C1`03BC`03BF`03B3`03AE`03C2 `03B1`03BD `03C7`03AC`03C3`03B5`03C4`03B5 `03C4`03B7`03BD `03C0`03C1`03CC`03C3`03B2`03B1`03C3`03B7 `03C3`03B5 `03B1`03C5`03C4`03AE`03BD. `0394`03B5`03BD `03B8`03B1 `03B5`03BC`03C6`03B1`03BD`03B9`03C3`03C4`03BF`03CD`03BD `03BE`03B1`03BD`03AC.''),
    (''security.enable.title'', js ''`0395`03BD`03B5`03C1`03B3`03BF`03C0`03BF`03AF`03B7`03C3`03B7 TOTP''),
    (''security.enable.intro'', js ''`03A7`03C1`03B5`03B9`03AC`03B6`03B5`03C3`03C4`03B5 `03BC`03B9`03B1 `03B5`03C6`03B1`03C1`03BC`03BF`03B3`03AE `03B5`03BB`03AD`03B3`03C7`03BF`03C5 `03C4`03B1`03C5`03C4`03CC`03C4`03B7`03C4`03B1`03C2 (`03C0.`03C7. Aegis, Google Authenticator, 1Password, Bitwarden). `039C`03B5`03C4`03AC `03C4`03B7`03BD `03B5`03BD`03B5`03C1`03B3`03BF`03C0`03BF`03AF`03B7`03C3`03B7, `03B7 `03C3`03CD`03BD`03B4`03B5`03C3`03B7 `03B1`03C0`03B1`03B9`03C4`03B5`03AF `03C4`03BF`03BD `03BA`03C9`03B4`03B9`03BA`03CC `03C0`03C1`03CC`03C3`03B2`03B1`03C3`03B7`03C2 `03BA`03B1`03B9 `03AD`03BD`03B1`03BD `03C4`03C1`03AD`03C7`03BF`03BD`03C4`03B1 `03BA`03C9`03B4`03B9`03BA`03CC.''),
    (''security.enable.start'', js ''`0388`03BD`03B1`03C1`03BE`03B7 `03C1`03CD`03B8`03BC`03B9`03C3`03B7`03C2''),
    (''security.step1'', js ''`0392`03AE`03BC`03B1 1: `03C3`03B1`03C1`03CE`03C3`03C4`03B5 `03C4`03BF`03BD `03BA`03C9`03B4`03B9`03BA`03CC `03BC`03B5 `03C4`03B7`03BD `03B5`03C6`03B1`03C1`03BC`03BF`03B3`03AE''),
    (''security.manual_key'', js ''`0389 `03B5`03B9`03C3`03B1`03B3`03AC`03B3`03B5`03C4`03B5 `03C4`03BF `03BA`03BB`03B5`03B9`03B4`03AF `03C7`03B5`03B9`03C1`03BF`03BA`03AF`03BD`03B7`03C4`03B1:''),
    (''security.key_params'', js ''`03A4`03CD`03C0`03BF`03C2: TOTP, SHA-1, 6 `03C8`03B7`03C6`03AF`03B1, 30 s. `0395`03BA`03B4`03CC`03C4`03B7`03C2: {issuer}, `03BB`03BF`03B3`03B1`03C1`03B9`03B1`03C3`03BC`03CC`03C2: {user}.''),
    (''security.open_in_app'', js ''`0386`03BD`03BF`03B9`03B3`03BC`03B1 `03C3`03C4`03B7`03BD `03B5`03C6`03B1`03C1`03BC`03BF`03B3`03AE `03B5`03BB`03AD`03B3`03C7`03BF`03C5 `03C4`03B1`03C5`03C4`03CC`03C4`03B7`03C4`03B1`03C2''),
    (''security.on_phone'', js ''(`03C3`03B5 `03C4`03B7`03BB`03AD`03C6`03C9`03BD`03BF)''),
    (''security.step2'', js ''`0392`03AE`03BC`03B1 2: `03B5`03C0`03B9`03B2`03B5`03B2`03B1`03B9`03CE`03C3`03C4`03B5 `03BC`03B5 `03AD`03BD`03B1`03BD `03BA`03C9`03B4`03B9`03BA`03CC''),
    (''security.code_from_app'', js ''`039A`03C9`03B4`03B9`03BA`03CC`03C2 `03B1`03C0`03CC `03C4`03B7`03BD `03B5`03C6`03B1`03C1`03BC`03BF`03B3`03AE''),
    (''security.enable.submit'', js ''`0395`03BD`03B5`03C1`03B3`03BF`03C0`03BF`03AF`03B7`03C3`03B7 TOTP''),
    (''security.pending_note'', js ''`03A4`03BF `03BA`03BB`03B5`03B9`03B4`03AF `03B5`03AF`03BD`03B1`03B9 `03C0`03C1`03BF`03C3`03C9`03C1`03B9`03BD`03CC `03BC`03AD`03C7`03C1`03B9 `03C4`03B7`03BD `03B5`03C0`03B9`03B2`03B5`03B2`03B1`03AF`03C9`03C3`03B7`00B7 `03B7 `03B5`03C0`03B1`03BD`03B5`03BA`03BA`03AF`03BD`03B7`03C3`03B7 `03C4`03B7`03C2 `03C1`03CD`03B8`03BC`03B9`03C3`03B7`03C2 `03B4`03B7`03BC`03B9`03BF`03C5`03C1`03B3`03B5`03AF `03BD`03AD`03BF.''),
    (''security.current_code'', js ''`03A4`03C1`03AD`03C7`03C9`03BD `03BA`03C9`03B4`03B9`03BA`03CC`03C2 `03B1`03C0`03CC `03C4`03B7`03BD `03B5`03C6`03B1`03C1`03BC`03BF`03B3`03AE''),
    (''security.regenerate'', js ''`0394`03B7`03BC`03B9`03BF`03C5`03C1`03B3`03AF`03B1 `03BD`03AD`03C9`03BD `03BA`03C9`03B4`03B9`03BA`03CE`03BD (`03BF`03B9 `03C0`03B1`03BB`03B9`03BF`03AF `03C0`03B1`03CD`03BF`03C5`03BD `03BD`03B1 `03B9`03C3`03C7`03CD`03BF`03C5`03BD)''),
    (''security.disable.title'', js ''`0391`03C0`03B5`03BD`03B5`03C1`03B3`03BF`03C0`03BF`03AF`03B7`03C3`03B7 TOTP''),
    (''security.disable.intro'', js ''`0391`03C0`03B1`03B9`03C4`03B5`03AF `03C4`03C1`03AD`03C7`03BF`03BD`03C4`03B1 `03BA`03C9`03B4`03B9`03BA`03CC `03B1`03C0`03CC `03C4`03B7`03BD `03B5`03C6`03B1`03C1`03BC`03BF`03B3`03AE `03AE `03BA`03C9`03B4`03B9`03BA`03CC `03B1`03BD`03AC`03BA`03C4`03B7`03C3`03B7`03C2: `03B7 `03C3`03C5`03BD`03B5`03B4`03C1`03AF`03B1 `03BC`03CC`03BD`03B7 `03C4`03B7`03C2 (`03C0.`03C7. `03AD`03BD`03B1 `03BA`03BB`03B5`03BC`03BC`03AD`03BD`03BF cookie) `03B4`03B5`03BD `03B1`03C1`03BA`03B5`03AF. `0391`03BD `03AD`03C7`03BF`03C5`03BD `03C7`03B1`03B8`03B5`03AF `03C4`03CC`03C3`03BF `03B7 `03B5`03C6`03B1`03C1`03BC`03BF`03B3`03AE `03CC`03C3`03BF `03BA`03B1`03B9 `03BF`03B9 `03BA`03C9`03B4`03B9`03BA`03BF`03AF `03B1`03BD`03AC`03BA`03C4`03B7`03C3`03B7`03C2, `03AD`03BD`03B1`03C2 `03B4`03B9`03B1`03C7`03B5`03B9`03C1`03B9`03C3`03C4`03AE`03C2 `03C3`03C5`03C3`03C4`03AE`03BC`03B1`03C4`03BF`03C2 `03BC`03C0`03BF`03C1`03B5`03AF `03BD`03B1 `03B5`03BA`03C4`03B5`03BB`03AD`03C3`03B5`03B9 {cmd} `03C3`03C4`03BF`03BD `03B4`03B9`03B1`03BA`03BF`03BC`03B9`03C3`03C4`03AE.'')]"

definition el_5 :: messages where
  "el_5 = [
    (''security.disable.code'', js ''`039A`03C9`03B4`03B9`03BA`03CC`03C2''),
    (''security.disable.submit'', js ''`0391`03C0`03B5`03BD`03B5`03C1`03B3`03BF`03C0`03BF`03AF`03B7`03C3`03B7''),
    (''security.disable.confirm'', js ''`0391`03C0`03B5`03BD`03B5`03C1`03B3`03BF`03C0`03BF`03AF`03B7`03C3`03B7 `03C4`03BF`03C5 `03B5`03BB`03AD`03B3`03C7`03BF`03C5 `03C4`03B1`03C5`03C4`03CC`03C4`03B7`03C4`03B1`03C2 `03B4`03CD`03BF `03C0`03B1`03C1`03B1`03B3`03CC`03BD`03C4`03C9`03BD;''),
    (''security.msg.enabled'', js ''`039F `03AD`03BB`03B5`03B3`03C7`03BF`03C2 `03C4`03B1`03C5`03C4`03CC`03C4`03B7`03C4`03B1`03C2 `03B4`03CD`03BF `03C0`03B1`03C1`03B1`03B3`03CC`03BD`03C4`03C9`03BD `03B5`03AF`03BD`03B1`03B9 `03B5`03BD`03B5`03C1`03B3`03CC`03C2.''),
    (''security.msg.code_mismatch'', js ''`039F `03BA`03C9`03B4`03B9`03BA`03CC`03C2 `03B4`03B5`03BD `03C4`03B1`03B9`03C1`03B9`03AC`03B6`03B5`03B9. `0395`03BB`03AD`03B3`03BE`03C4`03B5 `03C4`03B7`03BD `03CE`03C1`03B1 `03C3`03C4`03BF `03C4`03B7`03BB`03AD`03C6`03C9`03BD`03CC `03C3`03B1`03C2 `03BA`03B1`03B9 `03B4`03BF`03BA`03B9`03BC`03AC`03C3`03C4`03B5 `03BE`03B1`03BD`03AC.''),
    (''security.msg.invalid_code'', js ''`039C`03B7 `03AD`03B3`03BA`03C5`03C1`03BF`03C2 `03BA`03C9`03B4`03B9`03BA`03CC`03C2.''),
    (''security.msg.regenerated'', js ''`0394`03B7`03BC`03B9`03BF`03C5`03C1`03B3`03AE`03B8`03B7`03BA`03B1`03BD `03BD`03AD`03BF`03B9 `03BA`03C9`03B4`03B9`03BA`03BF`03AF `03B1`03BD`03AC`03BA`03C4`03B7`03C3`03B7`03C2.''),
    (''security.msg.required'', js ''`0391`03C5`03C4`03AE `03B7 `03B5`03B3`03BA`03B1`03C4`03AC`03C3`03C4`03B1`03C3`03B7 `03B1`03C0`03B1`03B9`03C4`03B5`03AF TOTP (ADMIN_REQUIRE_TOTP)`00B7 `03B4`03B5`03BD `03BC`03C0`03BF`03C1`03B5`03AF `03BD`03B1 `03B1`03C0`03B5`03BD`03B5`03C1`03B3`03BF`03C0`03BF`03B9`03B7`03B8`03B5`03AF.''),
    (''security.msg.disabled'', js ''`039F `03AD`03BB`03B5`03B3`03C7`03BF`03C2 `03C4`03B1`03C5`03C4`03CC`03C4`03B7`03C4`03B1`03C2 `03B4`03CD`03BF `03C0`03B1`03C1`03B1`03B3`03CC`03BD`03C4`03C9`03BD `03B1`03C0`03B5`03BD`03B5`03C1`03B3`03BF`03C0`03BF`03B9`03AE`03B8`03B7`03BA`03B5.''),
    (''security.password.title'', js ''`0391`03BB`03BB`03B1`03B3`03AE `03BA`03C9`03B4`03B9`03BA`03BF`03CD `03C0`03C1`03CC`03C3`03B2`03B1`03C3`03B7`03C2''),
    (''security.password.current'', js ''`03A4`03C1`03AD`03C7`03C9`03BD `03BA`03C9`03B4`03B9`03BA`03CC`03C2 `03C0`03C1`03CC`03C3`03B2`03B1`03C3`03B7`03C2''),
    (''security.password.new'', js ''`039D`03AD`03BF`03C2 `03BA`03C9`03B4`03B9`03BA`03CC`03C2 `03C0`03C1`03CC`03C3`03B2`03B1`03C3`03B7`03C2 (`03C4`03BF`03C5`03BB`03AC`03C7`03B9`03C3`03C4`03BF`03BD 12 `03C7`03B1`03C1`03B1`03BA`03C4`03AE`03C1`03B5`03C2)''),
    (''security.password.confirm'', js ''`0395`03C0`03B9`03B2`03B5`03B2`03B1`03AF`03C9`03C3`03B7 `03BD`03AD`03BF`03C5 `03BA`03C9`03B4`03B9`03BA`03BF`03CD `03C0`03C1`03CC`03C3`03B2`03B1`03C3`03B7`03C2''),
    (''security.password.submit'', js ''`0391`03BB`03BB`03B1`03B3`03AE `03BA`03C9`03B4`03B9`03BA`03BF`03CD `03C0`03C1`03CC`03C3`03B2`03B1`03C3`03B7`03C2''),
    (''security.password.mismatch'', js ''`039F `03BD`03AD`03BF`03C2 `03BA`03C9`03B4`03B9`03BA`03CC`03C2 `03C0`03C1`03CC`03C3`03B2`03B1`03C3`03B7`03C2 `03BA`03B1`03B9 `03B7 `03B5`03C0`03B9`03B2`03B5`03B2`03B1`03AF`03C9`03C3`03AE `03C4`03BF`03C5 `03B4`03B5`03BD `03C4`03B1`03B9`03C1`03B9`03AC`03B6`03BF`03C5`03BD.''),
    (''security.password.invalid_current'', js ''`039F `03C4`03C1`03AD`03C7`03C9`03BD `03BA`03C9`03B4`03B9`03BA`03CC`03C2 `03C0`03C1`03CC`03C3`03B2`03B1`03C3`03B7`03C2 `03B5`03AF`03BD`03B1`03B9 `03BB`03B1`03BD`03B8`03B1`03C3`03BC`03AD`03BD`03BF`03C2.''),
    (''security.password.changed'', js ''`039F `03BA`03C9`03B4`03B9`03BA`03CC`03C2 `03C0`03C1`03CC`03C3`03B2`03B1`03C3`03B7`03C2 `03AC`03BB`03BB`03B1`03BE`03B5. `039F`03B9 `03AC`03BB`03BB`03B5`03C2 `03C3`03C5`03BD`03B5`03B4`03C1`03AF`03B5`03C2 `03B1`03C5`03C4`03BF`03CD `03C4`03BF`03C5 `03BB`03BF`03B3`03B1`03C1`03B9`03B1`03C3`03BC`03BF`03CD `03B1`03C0`03BF`03C3`03C5`03BD`03B4`03AD`03B8`03B7`03BA`03B1`03BD.''),
    (''home.title'', js ''inletbox''),
    (''home.message'', js ''`0391`03C5`03C4`03CC `03B5`03AF`03BD`03B1`03B9 `03AD`03BD`03B1 `03B9`03B4`03B9`03C9`03C4`03B9`03BA`03CC `03BA`03BF`03C5`03C4`03AF `03C0`03B1`03C1`03AC`03B4`03BF`03C3`03B7`03C2 `03B1`03C1`03C7`03B5`03AF`03C9`03BD. `0393`03B9`03B1 `03BD`03B1 `03B1`03BD`03B5`03B2`03AC`03C3`03B5`03C4`03B5 `03B1`03C1`03C7`03B5`03AF`03B1, `03C7`03C1`03B7`03C3`03B9`03BC`03BF`03C0`03BF`03B9`03AE`03C3`03C4`03B5 `03C4`03BF`03BD `03C3`03CD`03BD`03B4`03B5`03C3`03BC`03BF `03C0`03BF`03C5 `03C3`03B1`03C2 `03AD`03B4`03C9`03C3`03B5 `03C4`03BF `03AC`03C4`03BF`03BC`03BF `03C0`03BF`03C5 `03C4`03B1 `03B6`03AE`03C4`03B7`03C3`03B5.''),
    (''cases.new'', js ''`039D`03AD`03B1 `03C5`03C0`03CC`03B8`03B5`03C3`03B7'')]"

definition el_6 :: messages where
  "el_6 = [
    (''cases.name'', js ''`038C`03BD`03BF`03BC`03B1''),
    (''cases.name_placeholder'', js ''`03C0.`03C7. `0388`03BB`03B5`03B3`03C7`03BF`03C2 2026/09 `2013 `03A0`03B5`03BB`03AC`03C4`03B7`03C2 X''),
    (''cases.description_optional'', js ''`03A0`03B5`03C1`03B9`03B3`03C1`03B1`03C6`03AE (`03C0`03C1`03BF`03B1`03B9`03C1`03B5`03C4`03B9`03BA`03AE)''),
    (''cases.description'', js ''`03A0`03B5`03C1`03B9`03B3`03C1`03B1`03C6`03AE''),
    (''cases.list'', js ''`03A5`03C0`03BF`03B8`03AD`03C3`03B5`03B9`03C2''),
    (''cases.empty'', js ''`0394`03B5`03BD `03C5`03C0`03AC`03C1`03C7`03BF`03C5`03BD `03C5`03C0`03BF`03B8`03AD`03C3`03B5`03B9`03C2.''),
    (''cases.col.name'', js ''`038C`03BD`03BF`03BC`03B1''),
    (''cases.col.status'', js ''`039A`03B1`03C4`03AC`03C3`03C4`03B1`03C3`03B7''),
    (''cases.col.links'', js ''`0395`03BD`03B5`03C1`03B3`03BF`03AF `03C3`03CD`03BD`03B4`03B5`03C3`03BC`03BF`03B9''),
    (''cases.col.files'', js ''`0391`03C1`03C7`03B5`03AF`03B1''),
    (''cases.col.size'', js ''`039C`03AD`03B3`03B5`03B8`03BF`03C2''),
    (''cases.col.created'', js ''`0394`03B7`03BC`03B9`03BF`03C5`03C1`03B3`03AE`03B8`03B7`03BA`03B5''),
    (''case.open'', js ''`03B1`03BD`03BF`03B9`03C7`03C4`03AE''),
    (''case.closed'', js ''`03BA`03BB`03B5`03B9`03C3`03C4`03AE''),
    (''case.close'', js ''`039A`03BB`03B5`03AF`03C3`03B9`03BC`03BF `03C5`03C0`03CC`03B8`03B5`03C3`03B7`03C2''),
    (''case.reopen'', js ''`0395`03C0`03B1`03BD`03AC`03BD`03BF`03B9`03B3`03BC`03B1''),
    (''case.meta'', js ''ID: {id} `00B7 `03B4`03B7`03BC`03B9`03BF`03C5`03C1`03B3`03AE`03B8`03B7`03BA`03B5 {date}. `039C`03B9`03B1 `03BA`03BB`03B5`03B9`03C3`03C4`03AE `03C5`03C0`03CC`03B8`03B5`03C3`03B7 `03B4`03B5`03BD `03B4`03AD`03C7`03B5`03C4`03B1`03B9 `03B1`03C0`03BF`03C3`03C4`03BF`03BB`03AD`03C2 `03B1`03C0`03CC `03BA`03B1`03BD`03AD`03BD`03B1`03BD `03B1`03C0`03CC `03C4`03BF`03C5`03C2 `03C3`03C5`03BD`03B4`03AD`03C3`03BC`03BF`03C5`03C2 `03C4`03B7`03C2.''),
    (''case.saved'', js ''`0391`03C0`03BF`03B8`03B7`03BA`03B5`03CD`03C4`03B7`03BA`03B5.''),
    (''case.closed_no_links'', js ''`0397 `03C5`03C0`03CC`03B8`03B5`03C3`03B7 `03B5`03AF`03BD`03B1`03B9 `03BA`03BB`03B5`03B9`03C3`03C4`03AE `2013 `03B1`03BD`03BF`03AF`03BE`03C4`03B5 `03C4`03B7`03BD `03BE`03B1`03BD`03AC `03B3`03B9`03B1 `03BD`03B1 `03B4`03B7`03BC`03B9`03BF`03C5`03C1`03B3`03AE`03C3`03B5`03C4`03B5 `03C3`03C5`03BD`03B4`03AD`03C3`03BC`03BF`03C5`03C2.''),
    (''case.new_link.title'', js ''`039D`03AD`03BF`03C2 `03C3`03CD`03BD`03B4`03B5`03C3`03BC`03BF`03C2 `03B3`03B9`03B1 `00AB{label}`00BB'')]"

definition el_7 :: messages where
  "el_7 = [
    (''case.new_link.intro'', js ''`0391`03BD`03C4`03B9`03B3`03C1`03AC`03C8`03C4`03B5 `03C4`03BF`03BD `03C4`03CE`03C1`03B1. `03A4`03BF `03B4`03B9`03B1`03BA`03C1`03B9`03C4`03B9`03BA`03CC `03B1`03C0`03BF`03B8`03B7`03BA`03B5`03CD`03B5`03C4`03B1`03B9 `03BC`03CC`03BD`03BF `03C9`03C2 `03BA`03B1`03C4`03B1`03BA`03B5`03C1`03BC`03B1`03C4`03B9`03C3`03BC`03CC`03C2 `03BA`03B1`03B9 `03B4`03B5`03BD `03BC`03C0`03BF`03C1`03B5`03AF `03BD`03B1 `03B1`03BD`03B1`03BA`03C4`03B7`03B8`03B5`03AF `03B1`03C1`03B3`03CC`03C4`03B5`03C1`03B1 `2013 `03BC`03C0`03BF`03C1`03B5`03AF`03C4`03B5 `03BC`03CC`03BD`03BF `03BD`03B1 `03B4`03B7`03BC`03B9`03BF`03C5`03C1`03B3`03AE`03C3`03B5`03C4`03B5 `03BD`03AD`03BF `03C3`03CD`03BD`03B4`03B5`03C3`03BC`03BF.''),
    (''case.new_link.copy_now'', js ''`0391`03BD`03C4`03B9`03B3`03C1`03AC`03C8`03C4`03B5 `03C4`03BF`03BD `03C4`03CE`03C1`03B1.''),
    (''links.title'', js ''`03A3`03CD`03BD`03B4`03B5`03C3`03BC`03BF`03B9 `03B1`03C0`03BF`03C3`03C4`03BF`03BB`03AE`03C2''),
    (''links.intro'', js ''`039A`03AC`03B8`03B5 `03C3`03CD`03BD`03B4`03B5`03C3`03BC`03BF`03C2 `03B5`03AF`03BD`03B1`03B9 `03BE`03B5`03C7`03C9`03C1`03B9`03C3`03C4`03CC`03C2 `03C0`03B1`03C1`03B1`03BB`03AE`03C0`03C4`03B7`03C2 `03BA`03B1`03B9 `03BE`03B5`03C7`03C9`03C1`03B9`03C3`03C4`03CC `03C0`03B5`03B4`03AF`03BF `03BF`03C1`03B1`03C4`03CC`03C4`03B7`03C4`03B1`03C2: `03CC`03C0`03BF`03B9`03BF`03C2 `03AD`03C7`03B5`03B9 `03C4`03BF`03BD `03C3`03CD`03BD`03B4`03B5`03C3`03BC`03BF `03B2`03BB`03AD`03C0`03B5`03B9 `03BC`03CC`03BD`03BF `03C4`03B1 `03B1`03C1`03C7`03B5`03AF`03B1 `03C0`03BF`03C5 `03C3`03C4`03AC`03BB`03B8`03B7`03BA`03B1`03BD `03BC`03AD`03C3`03C9 `03B1`03C5`03C4`03BF`03CD `03BA`03B1`03B9 `03B4`03B5`03BD `03BC`03C0`03BF`03C1`03B5`03AF `03BD`03B1 `03C4`03B1 `03BA`03B1`03C4`03B5`03B2`03AC`03C3`03B5`03B9 `03AE `03BD`03B1 `03C4`03B1 `03B4`03B9`03B1`03B3`03C1`03AC`03C8`03B5`03B9. `038C`03BB`03BF`03B9 `03CC`03C3`03BF`03B9 `03B3`03BD`03C9`03C1`03AF`03B6`03BF`03C5`03BD `03C4`03BF`03BD `03AF`03B4`03B9`03BF `03C3`03CD`03BD`03B4`03B5`03C3`03BC`03BF `03AD`03C7`03BF`03C5`03BD `03B1`03BA`03C1`03B9`03B2`03CE`03C2 `03C4`03B7`03BD `03AF`03B4`03B9`03B1 `03C0`03C1`03CC`03C3`03B2`03B1`03C3`03B7 `2013 `03B7 `03B5`03C6`03B1`03C1`03BC`03BF`03B3`03AE `03B4`03B5`03BD `03B4`03B9`03B1`03BA`03C1`03AF`03BD`03B5`03B9 `03C4`03B1 `03AC`03C4`03BF`03BC`03B1 `03C0`03BF`03C5 `03C7`03C1`03B7`03C3`03B9`03BC`03BF`03C0`03BF`03B9`03BF`03CD`03BD `03C4`03BF`03BD `03AF`03B4`03B9`03BF `03C3`03CD`03BD`03B4`03B5`03C3`03BC`03BF.''),
    (''links.generate'', js ''`0394`03B7`03BC`03B9`03BF`03C5`03C1`03B3`03AF`03B1 `03BD`03AD`03BF`03C5 `03C3`03C5`03BD`03B4`03AD`03C3`03BC`03BF`03C5''),
    (''links.label'', js ''`0395`03C4`03B9`03BA`03AD`03C4`03B1 `03C0`03B1`03C1`03B1`03BB`03AE`03C0`03C4`03B7''),
    (''links.label_placeholder'', js ''`03C0.`03C7. `039C`03B1`03C1`03AF`03B1 `03A0`03B1`03C0`03B1`03B4`03BF`03C0`03BF`03CD`03BB`03BF`03C5 `2013 `03BB`03BF`03B3`03B9`03C3`03C4`03AE`03C1`03B9`03BF''),
    (''links.expires'', js ''`0399`03C3`03C7`03CD`03B5`03B9 `03AD`03C9`03C2 (UTC, `03C0`03C1`03BF`03B1`03B9`03C1`03B5`03C4`03B9`03BA`03CC)''),
    (''links.max_file'', js ''`039C`03AD`03B3. `03BC`03AD`03B3`03B5`03B8`03BF`03C2 `03B1`03C1`03C7`03B5`03AF`03BF`03C5 (`03C0`03C1`03BF`03B1`03B9`03C1`03B5`03C4`03B9`03BA`03CC, `2264 {max})''),
    (''links.max_file_placeholder'', js ''`03C0.`03C7. 500MB''),
    (''links.max_files'', js ''`039C`03AD`03B3. `03B1`03C1`03B9`03B8`03BC`03CC`03C2 `03B1`03C1`03C7`03B5`03AF`03C9`03BD (`03C0`03C1`03BF`03B1`03B9`03C1`03B5`03C4`03B9`03BA`03CC)''),
    (''links.max_total'', js ''`039C`03AD`03B3. `03C3`03C5`03BD`03BF`03BB`03B9`03BA`03CC `03BC`03AD`03B3`03B5`03B8`03BF`03C2 (`03C0`03C1`03BF`03B1`03B9`03C1`03B5`03C4`03B9`03BA`03CC)''),
    (''links.max_total_placeholder'', js ''`03C0.`03C7. 2GB''),
    (''links.submit'', js ''`0394`03B7`03BC`03B9`03BF`03C5`03C1`03B3`03AF`03B1 `03C3`03C5`03BD`03B4`03AD`03C3`03BC`03BF`03C5''),
    (''links.empty'', js ''`0394`03B5`03BD `03C5`03C0`03AC`03C1`03C7`03BF`03C5`03BD `03C3`03CD`03BD`03B4`03B5`03C3`03BC`03BF`03B9.''),
    (''links.col.recipient'', js ''`03A0`03B1`03C1`03B1`03BB`03AE`03C0`03C4`03B7`03C2''),
    (''links.col.state'', js ''`039A`03B1`03C4`03AC`03C3`03C4`03B1`03C3`03B7''),
    (''links.col.expires'', js ''`0399`03C3`03C7`03CD`03B5`03B9 `03AD`03C9`03C2''),
    (''links.col.limits'', js ''`038C`03C1`03B9`03B1''),
    (''links.col.usage'', js ''`03A7`03C1`03AE`03C3`03B7'')]"

definition el_8 :: messages where
  "el_8 = [
    (''links.col.last_used'', js ''`03A4`03B5`03BB`03B5`03C5`03C4`03B1`03AF`03B1 `03C7`03C1`03AE`03C3`03B7''),
    (''links.state.active'', js ''`03B5`03BD`03B5`03C1`03B3`03CC`03C2''),
    (''links.state.expired'', js ''`03AD`03BB`03B7`03BE`03B5''),
    (''links.state.revoked'', js ''`03B1`03BD`03B1`03BA`03BB`03AE`03B8`03B7`03BA`03B5''),
    (''links.state.case_closed'', js ''`03B7 `03C5`03C0`03CC`03B8`03B5`03C3`03B7 `03AD`03BA`03BB`03B5`03B9`03C3`03B5''),
    (''links.limit.file'', js ''`03B1`03C1`03C7`03B5`03AF`03BF `2264 {max}''),
    (''links.limit.files'', js ''`03B1`03C1`03C7`03B5`03AF`03B1 `2264 {n}''),
    (''links.limit.total'', js ''`03C3`03CD`03BD`03BF`03BB`03BF `2264 {max}''),
    (''links.usage'', js ''`03B1`03C1`03C7`03B5`03AF`03B1: {n}, {size}''),
    (''links.usage_in_progress'', js ''`03C3`03B5 `03B5`03BE`03AD`03BB`03B9`03BE`03B7: {n} (`03B4`03B5`03C3`03BC`03B5`03C5`03BC`03AD`03BD`03B1 {size})''),
    (''links.revoke'', js ''`0391`03BD`03AC`03BA`03BB`03B7`03C3`03B7''),
    (''links.revoke_confirm'', js ''`0391`03BD`03AC`03BA`03BB`03B7`03C3`03B7 `03C4`03BF`03C5 `03C3`03C5`03BD`03B4`03AD`03C3`03BC`03BF`03C5 `00AB{label}`00BB; `039F`03B9 `03B1`03C0`03BF`03C3`03C4`03BF`03BB`03AD`03C2 `03C3`03B5 `03B5`03BE`03AD`03BB`03B9`03BE`03B7 `03B8`03B1 `03B4`03B9`03B1`03BA`03BF`03C0`03BF`03CD`03BD.''),
    (''files.title'', js ''`0391`03C1`03C7`03B5`03AF`03B1''),
    (''files.empty'', js ''`0394`03B5`03BD `03C5`03C0`03AC`03C1`03C7`03BF`03C5`03BD `03B1`03C1`03C7`03B5`03AF`03B1.''),
    (''files.col.name'', js ''`038C`03BD`03BF`03BC`03B1''),
    (''files.col.recipient'', js ''`03A0`03B1`03C1`03B1`03BB`03AE`03C0`03C4`03B7`03C2 (`03C3`03CD`03BD`03B4`03B5`03C3`03BC`03BF`03C2)''),
    (''files.col.size'', js ''`039C`03AD`03B3`03B5`03B8`03BF`03C2''),
    (''files.col.status'', js ''`039A`03B1`03C4`03AC`03C3`03C4`03B1`03C3`03B7''),
    (''files.col.uploaded'', js ''`0391`03BD`03AD`03B2`03B7`03BA`03B5''),
    (''files.declared'', js ''{size} (`03B4`03B7`03BB`03C9`03BC`03AD`03BD`03BF)'')]"

definition el_9 :: messages where
  "el_9 = [
    (''files.download'', js ''`039B`03AE`03C8`03B7''),
    (''files.delete'', js ''`0394`03B9`03B1`03B3`03C1`03B1`03C6`03AE''),
    (''files.delete_confirm'', js ''`0394`03B9`03B1`03B3`03C1`03B1`03C6`03AE `03C4`03BF`03C5 `03B1`03C1`03C7`03B5`03AF`03BF`03C5 `00AB{name}`00BB; `0391`03C5`03C4`03CC `03B4`03B5`03BD `03BC`03C0`03BF`03C1`03B5`03AF `03BD`03B1 `03B1`03BD`03B1`03B9`03C1`03B5`03B8`03B5`03AF.''),
    (''files.untrusted'', js ''`03A4`03B1 `03B1`03C1`03C7`03B5`03AF`03B1 `03B8`03B5`03C9`03C1`03BF`03CD`03BD`03C4`03B1`03B9 `03BC`03B7 `03B1`03BE`03B9`03CC`03C0`03B9`03C3`03C4`03B1: `03BF`03B9 `03BB`03AE`03C8`03B5`03B9`03C2 `03B5`03AF`03BD`03B1`03B9 `03C0`03AC`03BD`03C4`03B1 `03C3`03C5`03BD`03B7`03BC`03BC`03AD`03BD`03B1 `03BA`03B1`03B9 `03C4`03AF`03C0`03BF`03C4`03B1 `03B4`03B5`03BD `03B5`03BC`03C6`03B1`03BD`03AF`03B6`03B5`03C4`03B1`03B9 `03BF`03CD`03C4`03B5 `03B5`03BA`03C4`03B5`03BB`03B5`03AF`03C4`03B1`03B9 `03C3`03C4`03BF`03BD `03B4`03B9`03B1`03BA`03BF`03BC`03B9`03C3`03C4`03AE. `039F `03AD`03BB`03B5`03B3`03C7`03BF`03C2 `03B3`03B9`03B1 `03B9`03BF`03CD`03C2 `03B4`03B5`03BD `03C0`03B5`03C1`03B9`03BB`03B1`03BC`03B2`03AC`03BD`03B5`03C4`03B1`03B9 `03C3`03B5 `03B1`03C5`03C4`03AE `03C4`03B7`03BD `03AD`03BA`03B4`03BF`03C3`03B7.''),
    (''files.status.uploading'', js ''`03C3`03B5 `03B5`03BE`03AD`03BB`03B9`03BE`03B7''),
    (''files.status.complete'', js ''`03BF`03BB`03BF`03BA`03BB`03B7`03C1`03CE`03B8`03B7`03BA`03B5''),
    (''files.status.aborted'', js ''`03B4`03B9`03B1`03BA`03CC`03C0`03B7`03BA`03B5''),
    (''files.status.expired'', js ''`03AD`03BB`03B7`03BE`03B5''),
    (''files.status.missing'', js ''`03BB`03B5`03AF`03C0`03B5`03B9 `03B1`03C0`03CC `03C4`03BF`03BD `03C7`03CE`03C1`03BF `03B1`03C0`03BF`03B8`03AE`03BA`03B5`03C5`03C3`03B7`03C2''),
    (''files.status.deleted'', js ''`03B4`03B9`03B1`03B3`03C1`03AC`03C6`03B7`03BA`03B5''),
    (''audit.title'', js ''`0391`03C1`03C7`03B5`03AF`03BF `03B5`03BB`03AD`03B3`03C7`03BF`03C5 (`03C4`03B5`03BB`03B5`03C5`03C4`03B1`03AF`03B1 {n})''),
    (''audit.col.time'', js ''`038F`03C1`03B1''),
    (''audit.col.actor'', js ''`0395`03BD`03B5`03C1`03B3`03CE`03BD''),
    (''audit.col.action'', js ''`03A3`03C5`03BC`03B2`03AC`03BD''),
    (''audit.col.case'', js ''`03A5`03C0`03CC`03B8`03B5`03C3`03B7''),
    (''audit.col.link'', js ''`03A3`03CD`03BD`03B4`03B5`03C3`03BC`03BF`03C2''),
    (''audit.col.file'', js ''`0391`03C1`03C7`03B5`03AF`03BF''),
    (''audit.col.ip'', js ''IP''),
    (''audit.col.details'', js ''`039B`03B5`03C0`03C4`03BF`03BC`03AD`03C1`03B5`03B9`03B5`03C2''),
    (''upload.title'', js ''`0391`03C0`03BF`03C3`03C4`03BF`03BB`03AE: {case}'')]"

definition el_10 :: messages where
  "el_10 = [
    (''upload.link_for'', js ''`03A3`03CD`03BD`03B4`03B5`03C3`03BC`03BF`03C2 `03B3`03B9`03B1:''),
    (''upload.valid_until'', js ''`03B9`03C3`03C7`03CD`03B5`03B9 `03AD`03C9`03C2 {date}''),
    (''upload.limit.file'', js ''`039C`03AD`03B3`03B9`03C3`03C4`03BF `03BC`03AD`03B3`03B5`03B8`03BF`03C2 `03B1`03C1`03C7`03B5`03AF`03BF`03C5:''),
    (''upload.limit.files'', js ''`039C`03AD`03B3`03B9`03C3`03C4`03BF`03C2 `03B1`03C1`03B9`03B8`03BC`03CC`03C2 `03B1`03C1`03C7`03B5`03AF`03C9`03BD:''),
    (''upload.limit.total'', js ''`03A3`03C5`03BD`03BF`03BB`03B9`03BA`03CC `03CC`03C1`03B9`03BF `03B4`03B5`03B4`03BF`03BC`03AD`03BD`03C9`03BD:''),
    (''upload.used_n'', js ''({n} `03C3`03B5 `03C7`03C1`03AE`03C3`03B7)''),
    (''upload.used_size'', js ''({size} `03C3`03B5 `03C7`03C1`03AE`03C3`03B7)''),
    (''upload.send'', js ''`0391`03C0`03BF`03C3`03C4`03BF`03BB`03AE `03B1`03C1`03C7`03B5`03AF`03C9`03BD''),
    (''upload.drop_here'', js ''`03A3`03CD`03C1`03B5`03C4`03B5 `03C4`03B1 `03B1`03C1`03C7`03B5`03AF`03B1 `03B5`03B4`03CE''),
    (''upload.or'', js ''`03AE''),
    (''upload.choose'', js ''`03B5`03C0`03B9`03BB`03AD`03BE`03C4`03B5 `03B1`03C0`03CC `03C4`03BF`03BD `03B4`03AF`03C3`03BA`03BF''),
    (''upload.resume_hint'', js ''`03A4`03B1 `03BC`03B5`03B3`03AC`03BB`03B1 `03B1`03C1`03C7`03B5`03AF`03B1 `03C3`03C4`03AD`03BB`03BD`03BF`03BD`03C4`03B1`03B9 `03C3`03B5 `03C4`03BC`03AE`03BC`03B1`03C4`03B1 `03BA`03B1`03B9 `03B7 `03B1`03C0`03BF`03C3`03C4`03BF`03BB`03AE `03BC`03C0`03BF`03C1`03B5`03AF `03BD`03B1 `03C3`03C5`03BD`03B5`03C7`03B9`03C3`03C4`03B5`03AF `03BC`03B5`03C4`03AC `03B1`03C0`03CC `03B4`03B9`03B1`03BA`03BF`03C0`03AE `03C4`03B7`03C2 `03C3`03CD`03BD`03B4`03B5`03C3`03B7`03C2. `0391`03C6`03BF`03CD `03C6`03BF`03C1`03C4`03CE`03C3`03B5`03C4`03B5 `03BE`03B1`03BD`03AC `03C4`03B7 `03C3`03B5`03BB`03AF`03B4`03B1, `03B5`03C0`03B9`03BB`03AD`03BE`03C4`03B5 `03BE`03B1`03BD`03AC `03C4`03BF `03AF`03B4`03B9`03BF `03B1`03C1`03C7`03B5`03AF`03BF `03BA`03B1`03B9 `03B7 `03B1`03C0`03BF`03C3`03C4`03BF`03BB`03AE `03C3`03C5`03BD`03B5`03C7`03AF`03B6`03B5`03B9 `03B1`03C0`03CC `03B5`03BA`03B5`03AF `03C0`03BF`03C5 `03C3`03C4`03B1`03BC`03AC`03C4`03B7`03C3`03B5.''),
    (''upload.your_files'', js ''`03A4`03B1 `03B1`03C1`03C7`03B5`03AF`03B1 `03C3`03B1`03C2''),
    (''upload.your_files_intro'', js ''`0392`03BB`03AD`03C0`03B5`03C4`03B5 `03BC`03CC`03BD`03BF `03C4`03B1 `03B1`03C1`03C7`03B5`03AF`03B1 `03C0`03BF`03C5 `03B1`03BD`03AD`03B2`03B7`03BA`03B1`03BD `03BC`03AD`03C3`03C9 `03B1`03C5`03C4`03BF`03CD `03C4`03BF`03C5 `03C3`03C5`03BD`03B4`03AD`03C3`03BC`03BF`03C5. `03A4`03B1 `03B1`03C1`03C7`03B5`03AF`03B1 `03B4`03B5`03BD `03BC`03C0`03BF`03C1`03BF`03CD`03BD `03BD`03B1 `03BA`03B1`03C4`03AD`03B2`03BF`03C5`03BD `03AE `03BD`03B1 `03B4`03B9`03B1`03B3`03C1`03B1`03C6`03BF`03CD`03BD `03B5`03B4`03CE `2013 `03C4`03B1 `03C0`03B1`03C1`03B1`03BB`03B1`03BC`03B2`03AC`03BD`03B5`03B9 `03BF `03B4`03B9`03B1`03C7`03B5`03B9`03C1`03B9`03C3`03C4`03AE`03C2.''),
    (''upload.col.name'', js ''`038C`03BD`03BF`03BC`03B1''),
    (''upload.col.size'', js ''`039C`03AD`03B3`03B5`03B8`03BF`03C2''),
    (''upload.col.date'', js ''`0397`03BC`03B5`03C1`03BF`03BC`03B7`03BD`03AF`03B1''),
    (''upload.col.status'', js ''`039A`03B1`03C4`03AC`03C3`03C4`03B1`03C3`03B7''),
    (''upload.none_yet'', js ''`0394`03B5`03BD `03AD`03C7`03BF`03C5`03BD `03B1`03BD`03AD`03B2`03B5`03B9 `03B1`03BA`03CC`03BC`03B7 `03B1`03C1`03C7`03B5`03AF`03B1.''),
    (''upload.list_failed'', js ''`0394`03B5`03BD `03AE`03C4`03B1`03BD `03B4`03C5`03BD`03B1`03C4`03AE `03B7 `03C6`03CC`03C1`03C4`03C9`03C3`03B7 `03C4`03B7`03C2 `03BB`03AF`03C3`03C4`03B1`03C2: {msg}'')]"

definition el_11 :: messages where
  "el_11 = [
    (''upload.terminal'', js ''`0391`03C0`03BF`03C3`03C4`03BF`03BB`03AE `03B1`03C0`03CC `03C4`03BF `03C4`03B5`03C1`03BC`03B1`03C4`03B9`03BA`03CC''),
    (''upload.terminal_hint'', js ''(curl, `03C3`03B5`03BD`03AC`03C1`03B9`03B1, `03BC`03B5`03C4`03B1`03C6`03BF`03C1`03AD`03C2 `03BC`03B5 `03C3`03C5`03BD`03AD`03C7`03B9`03C3`03B7)''),
    (''upload.terminal_intro'', js ''`0391`03BD`03C4`03B9`03BA`03B1`03C4`03B1`03C3`03C4`03AE`03C3`03C4`03B5 `03C4`03BF {path} `03BC`03B5 `03C4`03B7 `03B4`03B9`03B1`03B4`03C1`03BF`03BC`03AE `03C4`03BF`03C5 `03B1`03C1`03C7`03B5`03AF`03BF`03C5 `03C3`03B1`03C2 (`03C4`03B1 `03BA`03B5`03BD`03AC `03B4`03B5`03BD `03B5`03AF`03BD`03B1`03B9 `03C0`03C1`03CC`03B2`03BB`03B7`03BC`03B1). `039A`03C9`03B4`03B9`03BA`03CC`03C2 `03B5`03BE`03CC`03B4`03BF`03C5 `03B4`03B9`03AC`03C6`03BF`03C1`03BF`03C2 `03C4`03BF`03C5 `03BC`03B7`03B4`03B5`03BD`03CC`03C2 `03C3`03B7`03BC`03B1`03AF`03BD`03B5`03B9 `03C3`03C6`03AC`03BB`03BC`03B1`00B7 `03B7 `03B1`03C0`03AC`03BD`03C4`03B7`03C3`03B7 `03B5`03AF`03BD`03B1`03B9 JSON.''),
    (''upload.snippet.single'', js ''`0388`03BD`03B1 `03B1`03C1`03C7`03B5`03AF`03BF''),
    (''upload.snippet.multi'', js ''`03A0`03BF`03BB`03BB`03AC `03B1`03C1`03C7`03B5`03AF`03B1''),
    (''upload.snippet.env'', js ''`0394`03B9`03B1`03BA`03C1`03B9`03C4`03B9`03BA`03CC `03C3`03B5 `03BC`03B5`03C4`03B1`03B2`03BB`03B7`03C4`03AE `03C0`03B5`03C1`03B9`03B2`03AC`03BB`03BB`03BF`03BD`03C4`03BF`03C2 (`03C3`03C5`03BD`03B9`03C3`03C4`03AC`03C4`03B1`03B9)''),
    (''upload.snippet.list'', js ''`039B`03AF`03C3`03C4`03B1 `03B1`03C1`03C7`03B5`03AF`03C9`03BD `03C0`03BF`03C5 `03B1`03BD`03AD`03B2`03B7`03BA`03B1`03BD''),
    (''upload.snippet.resumable'', js ''`039C`03B5`03B3`03AC`03BB`03BF `03B1`03C1`03C7`03B5`03AF`03BF `03BC`03B5 `03C3`03C5`03BD`03AD`03C7`03B9`03C3`03B7 (`03C3`03B5`03BD`03AC`03C1`03B9`03BF {script})''),
    (''upload.history_warning'', js ''`03A0`03C1`03BF`03C3`03BF`03C7`03AE: `03BC`03B9`03B1 `03B5`03BD`03C4`03BF`03BB`03AE `03C0`03BF`03C5 `03C0`03B5`03C1`03B9`03AD`03C7`03B5`03B9 `03C4`03BF `03B4`03B9`03B1`03BA`03C1`03B9`03C4`03B9`03BA`03CC `03BA`03B1`03C4`03B1`03B3`03C1`03AC`03C6`03B5`03C4`03B1`03B9 `03C3`03C4`03BF `03B9`03C3`03C4`03BF`03C1`03B9`03BA`03CC `03C4`03BF`03C5 `03BA`03B5`03BB`03CD`03C6`03BF`03C5`03C2 (`03C0.`03C7. {file}). `0397 `03C0`03B1`03C1`03B1`03BB`03BB`03B1`03B3`03AE `03BC`03B5 export `03C0`03BF`03C5 `03BE`03B5`03BA`03B9`03BD`03AC `03BC`03B5 `03BA`03B5`03BD`03CC `03B4`03B5`03BD `03BA`03B1`03C4`03B1`03B3`03C1`03AC`03C6`03B5`03C4`03B1`03B9 `03CC`03C4`03B1`03BD `03AD`03C7`03B5`03B9 `03BF`03C1`03B9`03C3`03C4`03B5`03AF `03C4`03BF {opt}. `03A7`03B5`03B9`03C1`03B9`03C3`03C4`03B5`03AF`03C4`03B5 `03B1`03C5`03C4`03CC`03BD `03C4`03BF`03BD `03C3`03CD`03BD`03B4`03B5`03C3`03BC`03BF `03C3`03B1`03BD `03BA`03C9`03B4`03B9`03BA`03CC `03C0`03C1`03CC`03C3`03B2`03B1`03C3`03B7`03C2 `03BA`03B1`03B9 `03BC`03B7`03BD `03C4`03BF`03BD `03B4`03AF`03BD`03B5`03C4`03B5 `03C3`03B5 `03AC`03BB`03BB`03BF`03C5`03C2.''),
    (''upload.path_placeholder'', js ''/`03B4`03B9`03B1`03B4`03C1`03BF`03BC`03AE/`03C0`03C1`03BF`03C2/`03B1`03C1`03C7`03B5`03AF`03BF.pdf''),
    (''upload.path_placeholder2'', js ''/`03B4`03B9`03B1`03B4`03C1`03BF`03BC`03AE/`03B1`03BD`03B1`03C6`03BF`03C1`03AC.pdf''),
    (''upload.path_placeholder3'', js ''/`03B4`03B9`03B1`03B4`03C1`03BF`03BC`03AE/`03C6`03C9`03C4`03BF 1.jpg''),
    (''upload.path_placeholder_big'', js ''/`03B4`03B9`03B1`03B4`03C1`03BF`03BC`03AE/`03C0`03C1`03BF`03C2/`03BC`03B5`03B3`03AC`03BB`03BF `03B1`03C1`03C7`03B5`03AF`03BF.iso''),
    (''upload.js.queued'', js ''`03C3`03B5 `03B1`03BD`03B1`03BC`03BF`03BD`03AE`2026''),
    (''upload.js.too_large'', js ''`03C0`03BF`03BB`03CD `03BC`03B5`03B3`03AC`03BB`03BF: `03CC`03C1`03B9`03BF {max}''),
    (''upload.js.error'', js ''`03C3`03C6`03AC`03BB`03BC`03B1: {msg}''),
    (''upload.js.starting'', js ''`03AD`03BD`03B1`03C1`03BE`03B7`2026''),
    (''upload.js.resuming'', js ''`03C3`03C5`03BD`03AD`03C7`03B9`03C3`03B7 `03C0`03C1`03BF`03B7`03B3`03BF`03CD`03BC`03B5`03BD`03B7`03C2 `03B1`03C0`03BF`03C3`03C4`03BF`03BB`03AE`03C2`2026''),
    (''upload.js.retrying'', js ''`03BD`03AD`03B1 `03C0`03C1`03BF`03C3`03C0`03AC`03B8`03B5`03B9`03B1`2026''),
    (''upload.js.done'', js ''`03BF`03BB`03BF`03BA`03BB`03B7`03C1`03CE`03B8`03B7`03BA`03B5'')]"

definition el_12 :: messages where
  "el_12 = [
    (''upload.js.finalising'', js ''`03CC`03BB`03B1 `03C4`03B1 `03B4`03B5`03B4`03BF`03BC`03AD`03BD`03B1 `03C3`03C4`03AC`03BB`03B8`03B7`03BA`03B1`03BD, `03BF `03B4`03B9`03B1`03BA`03BF`03BC`03B9`03C3`03C4`03AE`03C2 `03BF`03BB`03BF`03BA`03BB`03B7`03C1`03CE`03BD`03B5`03B9`2026''),
    (''upload.js.cancelled'', js ''`03B1`03BA`03C5`03C1`03CE`03B8`03B7`03BA`03B5''),
    (''upload.js.cancelled_local'', js ''`03B1`03BA`03C5`03C1`03CE`03B8`03B7`03BA`03B5 (`03C4`03BF`03C0`03B9`03BA`03AC)''),
    (''upload.js.status.uploading'', js ''`03C3`03B5 `03B5`03BE`03AD`03BB`03B9`03BE`03B7''),
    (''upload.js.status.complete'', js ''`03BF`03BB`03BF`03BA`03BB`03B7`03C1`03CE`03B8`03B7`03BA`03B5''),
    (''nav.users'', js ''`03A7`03C1`03AE`03C3`03C4`03B5`03C2''),
    (''cases.empty_assigned'', js ''`0394`03B5`03BD `03C3`03B1`03C2 `03AD`03C7`03B5`03B9 `03B1`03BD`03B1`03C4`03B5`03B8`03B5`03AF `03B1`03BA`03CC`03BC`03B7 `03BA`03B1`03BC`03AF`03B1 `03C5`03C0`03CC`03B8`03B5`03C3`03B7. `0388`03BD`03B1`03C2 `03C3`03C5`03BD`03AC`03B4`03B5`03BB`03C6`03BF`03C2 `03C0`03BF`03C5 `03B5`03C1`03B3`03AC`03B6`03B5`03C4`03B1`03B9 `03C3`03B5 `03BC`03B9`03B1 `03C5`03C0`03CC`03B8`03B5`03C3`03B7 `03AE `03AD`03BD`03B1`03C2 `03B4`03B9`03B1`03C7`03B5`03B9`03C1`03B9`03C3`03C4`03AE`03C2 `03BC`03C0`03BF`03C1`03B5`03AF `03BD`03B1 `03C3`03B1`03C2 `03B1`03BD`03B1`03B8`03AD`03C3`03B5`03B9 `03C3`03B5 `03B1`03C5`03C4`03AE`03BD, `03AE `03BC`03C0`03BF`03C1`03B5`03AF`03C4`03B5 `03BD`03B1 `03B4`03B7`03BC`03B9`03BF`03C5`03C1`03B3`03AE`03C3`03B5`03C4`03B5 `03BD`03AD`03B1 `03C0`03B1`03C1`03B1`03C0`03AC`03BD`03C9.''),
    (''error.forbidden.title'', js ''`0394`03B5`03BD `03B5`03C0`03B9`03C4`03C1`03AD`03C0`03B5`03C4`03B1`03B9''),
    (''error.forbidden'', js ''`0391`03C5`03C4`03AE `03B7 `03C3`03B5`03BB`03AF`03B4`03B1 `03B5`03AF`03BD`03B1`03B9 `03BC`03CC`03BD`03BF `03B3`03B9`03B1 `03B4`03B9`03B1`03C7`03B5`03B9`03C1`03B9`03C3`03C4`03AD`03C2.''),
    (''security.must_change_notice'', js ''`039F `03BA`03C9`03B4`03B9`03BA`03CC`03C2 `03C0`03C1`03CC`03C3`03B2`03B1`03C3`03AE`03C2 `03C3`03B1`03C2 `03B5`03BA`03B4`03CC`03B8`03B7`03BA`03B5 `03B1`03C0`03CC `03B4`03B9`03B1`03C7`03B5`03B9`03C1`03B9`03C3`03C4`03AE. `039F`03C1`03AF`03C3`03C4`03B5 `03C4`03BF`03BD `03B4`03B9`03BA`03CC `03C3`03B1`03C2 `03C0`03B1`03C1`03B1`03BA`03AC`03C4`03C9 `03C0`03C1`03B9`03BD `03C3`03C5`03BD`03B5`03C7`03AF`03C3`03B5`03C4`03B5.''),
    (''members.title'', js ''`03A7`03C1`03AE`03C3`03C4`03B5`03C2 `03BC`03B5 `03B1`03BD`03AC`03B8`03B5`03C3`03B7''),
    (''members.intro'', js ''`0388`03BD`03B1`03C2 `03C7`03C1`03AE`03C3`03C4`03B7`03C2 `03B2`03BB`03AD`03C0`03B5`03B9 `03BC`03CC`03BD`03BF `03C4`03B9`03C2 `03C5`03C0`03BF`03B8`03AD`03C3`03B5`03B9`03C2 `03C0`03BF`03C5 `03C4`03BF`03C5 `03AD`03C7`03BF`03C5`03BD `03B1`03BD`03B1`03C4`03B5`03B8`03B5`03AF. `039F`03B9 `03B4`03B9`03B1`03C7`03B5`03B9`03C1`03B9`03C3`03C4`03AD`03C2 `03B2`03BB`03AD`03C0`03BF`03C5`03BD `03CC`03BB`03B5`03C2 `03C4`03B9`03C2 `03C5`03C0`03BF`03B8`03AD`03C3`03B5`03B9`03C2.''),
    (''members.empty'', js ''`0397 `03C5`03C0`03CC`03B8`03B5`03C3`03B7 `03B4`03B5`03BD `03AD`03C7`03B5`03B9 `03B1`03BD`03B1`03C4`03B5`03B8`03B5`03AF `03C3`03B5 `03BA`03B1`03BD`03AD`03BD`03B1`03BD `03C7`03C1`03AE`03C3`03C4`03B7 `2014 `03C4`03B7 `03B2`03BB`03AD`03C0`03BF`03C5`03BD `03BC`03CC`03BD`03BF `03BF`03B9 `03B4`03B9`03B1`03C7`03B5`03B9`03C1`03B9`03C3`03C4`03AD`03C2.''),
    (''members.user'', js ''`03A7`03C1`03AE`03C3`03C4`03B7`03C2''),
    (''members.add'', js ''`0391`03BD`03AC`03B8`03B5`03C3`03B7''),
    (''members.added'', js ''`039F `03BB`03BF`03B3`03B1`03C1`03B9`03B1`03C3`03BC`03CC`03C2 {username} `03AD`03C7`03B5`03B9 `03C0`03BB`03AD`03BF`03BD `03B1`03BD`03AC`03B8`03B5`03C3`03B7 `03C3`03B5 `03B1`03C5`03C4`03AE `03C4`03B7`03BD `03C5`03C0`03CC`03B8`03B5`03C3`03B7.''),
    (''members.remove'', js ''`0391`03C6`03B1`03AF`03C1`03B5`03C3`03B7''),
    (''members.remove_confirm'', js ''`0391`03C6`03B1`03AF`03C1`03B5`03C3`03B7 `03C4`03BF`03C5 {username}; `039F `03BB`03BF`03B3`03B1`03C1`03B9`03B1`03C3`03BC`03CC`03C2 `03B4`03B5`03BD `03B8`03B1 `03B2`03BB`03AD`03C0`03B5`03B9 `03C0`03BB`03AD`03BF`03BD `03B1`03C5`03C4`03AE `03C4`03B7`03BD `03C5`03C0`03CC`03B8`03B5`03C3`03B7.''),
    (''members.removed'', js ''`039F `03BB`03BF`03B3`03B1`03C1`03B9`03B1`03C3`03BC`03CC`03C2 {username} `03B4`03B5`03BD `03AD`03C7`03B5`03B9 `03C0`03BB`03AD`03BF`03BD `03C0`03C1`03CC`03C3`03B2`03B1`03C3`03B7 `03C3`03B5 `03B1`03C5`03C4`03AE `03C4`03B7`03BD `03C5`03C0`03CC`03B8`03B5`03C3`03B7.''),
    (''members.none_assignable'', js ''`0394`03B5`03BD `03B1`03C0`03BF`03BC`03AD`03BD`03BF`03C5`03BD `03BB`03BF`03B3`03B1`03C1`03B9`03B1`03C3`03BC`03BF`03AF `03C7`03C1`03B7`03C3`03C4`03CE`03BD `03B3`03B9`03B1 `03B1`03BD`03AC`03B8`03B5`03C3`03B7. `0394`03B7`03BC`03B9`03BF`03C5`03C1`03B3`03AE`03C3`03C4`03B5 `03AD`03BD`03B1`03BD `03C3`03C4`03B7`03BD `03B5`03BD`03CC`03C4`03B7`03C4`03B1 {link}.'')]"

definition el_13 :: messages where
  "el_13 = [
    (''users.new'', js ''`039D`03AD`03BF`03C2 `03BB`03BF`03B3`03B1`03C1`03B9`03B1`03C3`03BC`03CC`03C2''),
    (''users.list'', js ''`039B`03BF`03B3`03B1`03C1`03B9`03B1`03C3`03BC`03BF`03AF''),
    (''users.username'', js ''`038C`03BD`03BF`03BC`03B1 `03C7`03C1`03AE`03C3`03C4`03B7''),
    (''users.username_placeholder'', js ''`03C0.`03C7. anna.papadopoulou@etaireia.gr''),
    (''users.role'', js ''`03A1`03CC`03BB`03BF`03C2''),
    (''users.role.admin'', js ''`0394`03B9`03B1`03C7`03B5`03B9`03C1`03B9`03C3`03C4`03AE`03C2''),
    (''users.role.user'', js ''`03A7`03C1`03AE`03C3`03C4`03B7`03C2''),
    (''users.roles_hint'', js ''`0388`03BD`03B1`03C2 `03C7`03C1`03AE`03C3`03C4`03B7`03C2 `03B2`03BB`03AD`03C0`03B5`03B9 `03BA`03B1`03B9 `03C7`03B5`03B9`03C1`03AF`03B6`03B5`03C4`03B1`03B9 `03BC`03CC`03BD`03BF `03C4`03B9`03C2 `03C5`03C0`03BF`03B8`03AD`03C3`03B5`03B9`03C2 `03C0`03BF`03C5 `03C4`03BF`03C5 `03AD`03C7`03BF`03C5`03BD `03B1`03BD`03B1`03C4`03B5`03B8`03B5`03AF. `0388`03BD`03B1`03C2 `03B4`03B9`03B1`03C7`03B5`03B9`03C1`03B9`03C3`03C4`03AE`03C2 `03B2`03BB`03AD`03C0`03B5`03B9 `03CC`03BB`03B5`03C2 `03C4`03B9`03C2 `03C5`03C0`03BF`03B8`03AD`03C3`03B5`03B9`03C2, `03B4`03B9`03B1`03C7`03B5`03B9`03C1`03AF`03B6`03B5`03C4`03B1`03B9 `03BB`03BF`03B3`03B1`03C1`03B9`03B1`03C3`03BC`03BF`03CD`03C2 `03BA`03B1`03B9 `03B4`03B9`03B1`03B2`03AC`03B6`03B5`03B9 `03C4`03BF `03B1`03C1`03C7`03B5`03AF`03BF `03B5`03BB`03AD`03B3`03C7`03BF`03C5. `0394`03B7`03BC`03B9`03BF`03C5`03C1`03B3`03B5`03AF`03C4`03B1`03B9 `03C0`03C1`03BF`03C3`03C9`03C1`03B9`03BD`03CC`03C2 `03BA`03C9`03B4`03B9`03BA`03CC`03C2 `03C0`03C1`03CC`03C3`03B2`03B1`03C3`03B7`03C2, `03C0`03BF`03C5 `03C0`03C1`03AD`03C0`03B5`03B9 `03BD`03B1 `03B1`03BB`03BB`03AC`03BE`03B5`03B9 `03C3`03C4`03B7`03BD `03C0`03C1`03CE`03C4`03B7 `03C3`03CD`03BD`03B4`03B5`03C3`03B7.''),
    (''users.col.username'', js ''`039B`03BF`03B3`03B1`03C1`03B9`03B1`03C3`03BC`03CC`03C2''),
    (''users.col.status'', js ''`039A`03B1`03C4`03AC`03C3`03C4`03B1`03C3`03B7''),
    (''users.col.totp'', js ''`0394`03B5`03CD`03C4`03B5`03C1`03BF`03C2 `03C0`03B1`03C1`03AC`03B3`03BF`03BD`03C4`03B1`03C2''),
    (''users.col.cases'', js ''`03A5`03C0`03BF`03B8`03AD`03C3`03B5`03B9`03C2''),
    (''users.col.last_login'', js ''`03A4`03B5`03BB`03B5`03C5`03C4`03B1`03AF`03B1 `03C3`03CD`03BD`03B4`03B5`03C3`03B7''),
    (''users.status.active'', js ''`03B5`03BD`03B5`03C1`03B3`03CC`03C2''),
    (''users.status.disabled'', js ''`03B1`03C0`03B5`03BD`03B5`03C1`03B3`03BF`03C0`03BF`03B9`03B7`03BC`03AD`03BD`03BF`03C2''),
    (''users.status.must_change'', js ''`03B1`03BB`03BB`03B1`03B3`03AE `03BA`03C9`03B4`03B9`03BA`03BF`03CD''),
    (''users.you'', js ''`03B5`03C3`03B5`03AF`03C2''),
    (''users.all_cases'', js ''`03CC`03BB`03B5`03C2''),
    (''users.issued.title'', js ''`039F `03BB`03BF`03B3`03B1`03C1`03B9`03B1`03C3`03BC`03CC`03C2 {username} `03B4`03B7`03BC`03B9`03BF`03C5`03C1`03B3`03AE`03B8`03B7`03BA`03B5''),
    (''users.issued.reset_title'', js ''`039D`03AD`03BF`03C2 `03BA`03C9`03B4`03B9`03BA`03CC`03C2 `03C0`03C1`03CC`03C3`03B2`03B1`03C3`03B7`03C2 `03B3`03B9`03B1 {username}'')]"

definition el_14 :: messages where
  "el_14 = [
    (''users.issued.copy_now'', js ''`0391`03BD`03C4`03B9`03B3`03C1`03AC`03C8`03C4`03B5 `03C4`03CE`03C1`03B1 `03B1`03C5`03C4`03CC`03BD `03C4`03BF`03BD `03BA`03C9`03B4`03B9`03BA`03CC `2014 `03B5`03BC`03C6`03B1`03BD`03AF`03B6`03B5`03C4`03B1`03B9 `03BC`03CC`03BD`03BF `03BC`03AF`03B1 `03C6`03BF`03C1`03AC.''),
    (''users.issued.intro'', js ''`03A0`03B1`03C1`03B1`03B4`03CE`03C3`03C4`03B5 `03C4`03BF`03BD `03B1`03C0`03CC `03B4`03B9`03B1`03C6`03BF`03C1`03B5`03C4`03B9`03BA`03CC `03BA`03B1`03BD`03AC`03BB`03B9 `03B1`03C0`03CC `03C4`03BF `03CC`03BD`03BF`03BC`03B1 `03C7`03C1`03AE`03C3`03C4`03B7. `03A0`03C1`03AD`03C0`03B5`03B9 `03BD`03B1 `03B1`03BD`03C4`03B9`03BA`03B1`03C4`03B1`03C3`03C4`03B1`03B8`03B5`03AF `03C3`03C4`03B7`03BD `03C0`03C1`03CE`03C4`03B7 `03C3`03CD`03BD`03B4`03B5`03C3`03B7.''),
    (''users.make_admin'', js ''`039F`03C1`03B9`03C3`03BC`03CC`03C2 `03C9`03C2 `03B4`03B9`03B1`03C7`03B5`03B9`03C1`03B9`03C3`03C4`03AE''),
    (''users.make_user'', js ''`039F`03C1`03B9`03C3`03BC`03CC`03C2 `03C9`03C2 `03C7`03C1`03AE`03C3`03C4`03B7''),
    (''users.role_confirm'', js ''`0391`03BB`03BB`03B1`03B3`03AE `03C4`03BF`03C5 `03C1`03CC`03BB`03BF`03C5 `03C4`03BF`03C5 `03BB`03BF`03B3`03B1`03C1`03B9`03B1`03C3`03BC`03BF`03CD {username};''),
    (''users.role_changed'', js ''`039F `03BB`03BF`03B3`03B1`03C1`03B9`03B1`03C3`03BC`03CC`03C2 {username} `03AD`03C7`03B5`03B9 `03C0`03BB`03AD`03BF`03BD `03C4`03BF`03BD `03C1`03CC`03BB`03BF: {role}.''),
    (''users.reset_password'', js ''`039D`03AD`03BF`03C2 `03BA`03C9`03B4`03B9`03BA`03CC`03C2''),
    (''users.reset_password_confirm'', js ''`0388`03BA`03B4`03BF`03C3`03B7 `03BD`03AD`03BF`03C5 `03BA`03C9`03B4`03B9`03BA`03BF`03CD `03B3`03B9`03B1 {username}; `039F `03C4`03C1`03AD`03C7`03C9`03BD `03C0`03B1`03CD`03B5`03B9 `03BD`03B1 `03B9`03C3`03C7`03CD`03B5`03B9 `03BA`03B1`03B9 `03CC`03BB`03B5`03C2 `03BF`03B9 `03C3`03C5`03BD`03B5`03B4`03C1`03AF`03B5`03C2 `03C4`03BF`03C5 `03BB`03BF`03B3`03B1`03C1`03B9`03B1`03C3`03BC`03BF`03CD `03C4`03B5`03C1`03BC`03B1`03C4`03AF`03B6`03BF`03BD`03C4`03B1`03B9.''),
    (''users.password_reset'', js ''`0395`03BA`03B4`03CC`03B8`03B7`03BA`03B5 `03BD`03AD`03BF`03C2 `03BA`03C9`03B4`03B9`03BA`03CC`03C2 `03B3`03B9`03B1 {username} `03BA`03B1`03B9 `03BF `03BB`03BF`03B3`03B1`03C1`03B9`03B1`03C3`03BC`03CC`03C2 `03B1`03C0`03BF`03C3`03C5`03BD`03B4`03AD`03B8`03B7`03BA`03B5.''),
    (''users.reset_totp'', js ''`0395`03C0`03B1`03BD`03B1`03C6`03BF`03C1`03AC 2FA''),
    (''users.reset_totp_confirm'', js ''`0391`03C6`03B1`03AF`03C1`03B5`03C3`03B7 `03C4`03BF`03C5 `03B4`03B5`03CD`03C4`03B5`03C1`03BF`03C5 `03C0`03B1`03C1`03AC`03B3`03BF`03BD`03C4`03B1 `03C4`03BF`03C5 {username}; `0398`03B1 `03C1`03C5`03B8`03BC`03B9`03C3`03C4`03B5`03AF `03BE`03B1`03BD`03AC `03BC`03B5`03C4`03AC `03C4`03B7`03BD `03B5`03C0`03CC`03BC`03B5`03BD`03B7 `03C3`03CD`03BD`03B4`03B5`03C3`03B7.''),
    (''users.totp_reset'', js ''`039F `03AD`03BB`03B5`03B3`03C7`03BF`03C2 `03C4`03B1`03C5`03C4`03CC`03C4`03B7`03C4`03B1`03C2 `03B4`03CD`03BF `03C0`03B1`03C1`03B1`03B3`03CC`03BD`03C4`03C9`03BD `03B1`03C6`03B1`03B9`03C1`03AD`03B8`03B7`03BA`03B5 `03B1`03C0`03CC `03C4`03BF`03BD `03BB`03BF`03B3`03B1`03C1`03B9`03B1`03C3`03BC`03CC {username}.''),
    (''users.disable'', js ''`0391`03C0`03B5`03BD`03B5`03C1`03B3`03BF`03C0`03BF`03AF`03B7`03C3`03B7''),
    (''users.disable_confirm'', js ''`0391`03C0`03B5`03BD`03B5`03C1`03B3`03BF`03C0`03BF`03AF`03B7`03C3`03B7 `03C4`03BF`03C5 {username}; `039F `03BB`03BF`03B3`03B1`03C1`03B9`03B1`03C3`03BC`03CC`03C2 `03B1`03C0`03BF`03C3`03C5`03BD`03B4`03AD`03B5`03C4`03B1`03B9 `03BA`03B1`03B9 `03B4`03B5`03BD `03BC`03C0`03BF`03C1`03B5`03AF `03BD`03B1 `03C3`03C5`03BD`03B4`03B5`03B8`03B5`03AF `03BC`03AD`03C7`03C1`03B9 `03BD`03B1 `03B5`03BD`03B5`03C1`03B3`03BF`03C0`03BF`03B9`03B7`03B8`03B5`03AF `03BE`03B1`03BD`03AC.''),
    (''users.disabled'', js ''`039F `03BB`03BF`03B3`03B1`03C1`03B9`03B1`03C3`03BC`03CC`03C2 {username} `03B1`03C0`03B5`03BD`03B5`03C1`03B3`03BF`03C0`03BF`03B9`03AE`03B8`03B7`03BA`03B5 `03BA`03B1`03B9 `03B1`03C0`03BF`03C3`03C5`03BD`03B4`03AD`03B8`03B7`03BA`03B5.''),
    (''users.enable'', js ''`0395`03BD`03B5`03C1`03B3`03BF`03C0`03BF`03AF`03B7`03C3`03B7''),
    (''users.enabled'', js ''`039F `03BB`03BF`03B3`03B1`03C1`03B9`03B1`03C3`03BC`03CC`03C2 {username} `03BC`03C0`03BF`03C1`03B5`03AF `03BE`03B1`03BD`03AC `03BD`03B1 `03C3`03C5`03BD`03B4`03B5`03B8`03B5`03AF.''),
    (''users.delete'', js ''`0394`03B9`03B1`03B3`03C1`03B1`03C6`03AE''),
    (''users.delete_confirm'', js ''`0394`03B9`03B1`03B3`03C1`03B1`03C6`03AE `03C4`03BF`03C5 `03BB`03BF`03B3`03B1`03C1`03B9`03B1`03C3`03BC`03BF`03CD {username}; `039C`03B1`03B6`03AF `03C4`03BF`03C5 `03C7`03AC`03BD`03BF`03BD`03C4`03B1`03B9 `03BF`03B9 `03B1`03BD`03B1`03B8`03AD`03C3`03B5`03B9`03C2 `03C5`03C0`03BF`03B8`03AD`03C3`03B5`03C9`03BD`00B7 `03C4`03BF `03B1`03C1`03C7`03B5`03AF`03BF `03B5`03BB`03AD`03B3`03C7`03BF`03C5 `03BA`03C1`03B1`03C4`03AC `03CC,`03C4`03B9 `03AD`03BA`03B1`03BD`03B5.''),
    (''users.deleted'', js ''`039F `03BB`03BF`03B3`03B1`03C1`03B9`03B1`03C3`03BC`03CC`03C2 {username} `03B4`03B9`03B1`03B3`03C1`03AC`03C6`03B7`03BA`03B5.'')]"

definition el_15 :: messages where
  "el_15 = [
    (''users.missing'', js ''`0394`03B5`03BD `03C5`03C0`03AC`03C1`03C7`03B5`03B9 `03C4`03AD`03C4`03BF`03B9`03BF`03C2 `03BB`03BF`03B3`03B1`03C1`03B9`03B1`03C3`03BC`03CC`03C2.''),
    (''users.not_self'', js ''`0394`03B5`03BD `03BC`03C0`03BF`03C1`03B5`03AF`03C4`03B5 `03BD`03B1 `03B1`03BB`03BB`03AC`03BE`03B5`03C4`03B5 `03B5`03B4`03CE `03C4`03BF`03BD `03B4`03B9`03BA`03CC `03C3`03B1`03C2 `03BB`03BF`03B3`03B1`03C1`03B9`03B1`03C3`03BC`03CC `2014 `03BF `03BA`03C9`03B4`03B9`03BA`03CC`03C2 `03BA`03B1`03B9 `03C4`03BF 2FA `03B2`03C1`03AF`03C3`03BA`03BF`03BD`03C4`03B1`03B9 `03C3`03C4`03B7`03BD `0391`03C3`03C6`03AC`03BB`03B5`03B9`03B1.''),
    (''users.last_admin'', js ''`03A0`03C1`03AD`03C0`03B5`03B9 `03BD`03B1 `03C0`03B1`03C1`03B1`03BC`03B5`03AF`03BD`03B5`03B9 `03C4`03BF`03C5`03BB`03AC`03C7`03B9`03C3`03C4`03BF`03BD `03AD`03BD`03B1`03C2 `03B5`03BD`03B5`03C1`03B3`03CC`03C2 `03B4`03B9`03B1`03C7`03B5`03B9`03C1`03B9`03C3`03C4`03AE`03C2.''),
    (''users.exists'', js ''`03A5`03C0`03AC`03C1`03C7`03B5`03B9 `03AE`03B4`03B7 `03BB`03BF`03B3`03B1`03C1`03B9`03B1`03C3`03BC`03CC`03C2 `03BC`03B5 `03CC`03BD`03BF`03BC`03B1 {username}.''),
    (''users.invalid_username'', js ''`0388`03BD`03B1 `03CC`03BD`03BF`03BC`03B1 `03C7`03C1`03AE`03C3`03C4`03B7 `03AD`03C7`03B5`03B9 2`201364 `03C7`03B1`03C1`03B1`03BA`03C4`03AE`03C1`03B5`03C2: `03B3`03C1`03AC`03BC`03BC`03B1`03C4`03B1, `03C8`03B7`03C6`03AF`03B1 `03BA`03B1`03B9 . _ @ -''),
    (''users.invalid_role'', js ''`0386`03B3`03BD`03C9`03C3`03C4`03BF`03C2 `03C1`03CC`03BB`03BF`03C2.''),
    (''members.not_self'', js ''`0394`03B5`03BD `03BC`03C0`03BF`03C1`03B5`03AF`03C4`03B5 `03BD`03B1 `03B1`03C6`03B1`03B9`03C1`03AD`03C3`03B5`03C4`03B5 `03C4`03BF`03BD `03B5`03B1`03C5`03C4`03CC `03C3`03B1`03C2. `0396`03B7`03C4`03AE`03C3`03C4`03B5 `03C4`03BF `03B1`03C0`03CC `03BA`03AC`03C0`03BF`03B9`03BF`03BD `03AC`03BB`03BB`03BF`03BD `03C3`03C4`03B7`03BD `03C5`03C0`03CC`03B8`03B5`03C3`03B7 `03AE `03B1`03C0`03CC `03AD`03BD`03B1`03BD `03B4`03B9`03B1`03C7`03B5`03B9`03C1`03B9`03C3`03C4`03AE.''),
    (''members.none_assignable_user'', js ''`0394`03B5`03BD `03C5`03C0`03AC`03C1`03C7`03B5`03B9 `03AC`03BB`03BB`03BF`03C2 `03BB`03BF`03B3`03B1`03C1`03B9`03B1`03C3`03BC`03CC`03C2 `03C7`03C1`03AE`03C3`03C4`03B7 `03B3`03B9`03B1 `03B1`03BD`03AC`03B8`03B5`03C3`03B7.''),
    (''second.title'', js ''`0394`03B5`03CD`03C4`03B5`03C1`03BF `03B2`03AE`03BC`03B1 `03C4`03B7`03C2 `03C3`03CD`03BD`03B4`03B5`03C3`03B7`03C2''),
    (''second.recovery_label'', js ''`039A`03C9`03B4`03B9`03BA`03CC`03C2 `03B1`03BD`03AC`03BA`03C4`03B7`03C3`03B7`03C2''),
    (''common.or'', js ''`03AE''),
    (''passkey.use'', js ''`03A7`03C1`03AE`03C3`03B7 `03BA`03BB`03B5`03B9`03B4`03B9`03BF`03CD `03C0`03C1`03CC`03C3`03B2`03B1`03C3`03B7`03C2''),
    (''passkey.unsupported'', js ''`0391`03C5`03C4`03CC `03C4`03BF `03C0`03C1`03CC`03B3`03C1`03B1`03BC`03BC`03B1 `03C0`03B5`03C1`03B9`03AE`03B3`03B7`03C3`03B7`03C2 `03B4`03B5`03BD `03C5`03C0`03BF`03C3`03C4`03B7`03C1`03AF`03B6`03B5`03B9 `03BA`03BB`03B5`03B9`03B4`03B9`03AC `03C0`03C1`03CC`03C3`03B2`03B1`03C3`03B7`03C2.''),
    (''passkey.failed'', js ''`0394`03B5`03BD `03AE`03C4`03B1`03BD `03B4`03C5`03BD`03B1`03C4`03AE `03B7 `03B5`03C0`03B1`03BB`03AE`03B8`03B5`03C5`03C3`03B7 `03C4`03BF`03C5 `03BA`03BB`03B5`03B9`03B4`03B9`03BF`03CD `03C0`03C1`03CC`03C3`03B2`03B1`03C3`03B7`03C2. `0394`03BF`03BA`03B9`03BC`03AC`03C3`03C4`03B5 `03BE`03B1`03BD`03AC.''),
    (''passkey.cancelled'', js ''`0391`03BA`03C5`03C1`03CE`03B8`03B7`03BA`03B5. `0394`03BF`03BA`03B9`03BC`03AC`03C3`03C4`03B5 `03BE`03B1`03BD`03AC `03CC`03C4`03B1`03BD `03B5`03AF`03C3`03C4`03B5 `03AD`03C4`03BF`03B9`03BC`03BF`03B9.''),
    (''confirm.title'', js ''`0395`03C0`03B9`03B2`03B5`03B2`03B1`03B9`03CE`03C3`03C4`03B5 `03CC`03C4`03B9 `03B5`03AF`03C3`03C4`03B5 `03B5`03C3`03B5`03AF`03C2''),
    (''confirm.intro'', js ''`0391`03C5`03C4`03AE `03B7 `03B5`03BD`03AD`03C1`03B3`03B5`03B9`03B1 `03B1`03C0`03B1`03B9`03C4`03B5`03AF `03C0`03C1`03CC`03C3`03C6`03B1`03C4`03B7 `03B5`03C0`03B9`03B2`03B5`03B2`03B1`03AF`03C9`03C3`03B7. `03A3`03C4`03B7 `03C3`03C5`03BD`03AD`03C7`03B5`03B9`03B1 `03C0`03B1`03C1`03B1`03BC`03AD`03BD`03B5`03B9 `03AD`03B3`03BA`03C5`03C1`03B7 `03B3`03B9`03B1 {minutes} `03BB`03B5`03C0`03C4`03AC, `03CE`03C3`03C4`03B5 `03BD`03B1 `03BC`03B7`03BD `03B5`03C1`03C9`03C4`03AC`03C3`03C4`03B5 `03BE`03B1`03BD`03AC `03C3`03B5 `03BA`03AC`03B8`03B5 `03B2`03AE`03BC`03B1.''),
    (''confirm.repeat'', js ''`039C`03B5`03C4`03AC `03C4`03B7`03BD `03B5`03C0`03B9`03B2`03B5`03B2`03B1`03AF`03C9`03C3`03B7, `03B5`03C0`03B1`03BD`03B1`03BB`03AC`03B2`03B5`03C4`03B5 `03B1`03C5`03C4`03CC `03C0`03BF`03C5 `03BA`03AC`03BD`03B1`03C4`03B5.''),
    (''confirm.code_label'', js ''`039A`03C9`03B4`03B9`03BA`03CC`03C2 `03B1`03C0`03CC `03C4`03B7`03BD `03B5`03C6`03B1`03C1`03BC`03BF`03B3`03AE `03AE `03BA`03C9`03B4`03B9`03BA`03CC`03C2 `03B1`03BD`03AC`03BA`03C4`03B7`03C3`03B7`03C2''),
    (''confirm.password_label'', js ''`039F `03BA`03C9`03B4`03B9`03BA`03CC`03C2 `03C0`03C1`03CC`03C3`03B2`03B1`03C3`03AE`03C2 `03C3`03B1`03C2'')]"

definition el_16 :: messages where
  "el_16 = [
    (''confirm.submit'', js ''`0395`03C0`03B9`03B2`03B5`03B2`03B1`03AF`03C9`03C3`03B7''),
    (''confirm.invalid'', js ''`0394`03B5`03BD `03C5`03C0`03AE`03C1`03BE`03B5 `03B1`03BD`03C4`03B9`03C3`03C4`03BF`03AF`03C7`03B9`03C3`03B7. `0394`03BF`03BA`03B9`03BC`03AC`03C3`03C4`03B5 `03BE`03B1`03BD`03AC.''),
    (''confirm.locked'', js ''`03A0`03AC`03C1`03B1 `03C0`03BF`03BB`03BB`03BF`03AF `03BB`03B1`03BD`03B8`03B1`03C3`03BC`03AD`03BD`03BF`03B9 `03BA`03C9`03B4`03B9`03BA`03BF`03AF `03B3`03B9`03B1 `03B1`03C5`03C4`03CC`03BD `03C4`03BF`03BD `03BB`03BF`03B3`03B1`03C1`03B9`03B1`03C3`03BC`03CC. `0394`03BF`03BA`03B9`03BC`03AC`03C3`03C4`03B5 `03BE`03B1`03BD`03AC `03C3`03B5 15 `03BB`03B5`03C0`03C4`03AC.''),
    (''passkeys.title'', js ''`039A`03BB`03B5`03B9`03B4`03B9`03AC `03C0`03C1`03CC`03C3`03B2`03B1`03C3`03B7`03C2''),
    (''passkeys.intro'', js ''`0388`03BD`03B1 `03BA`03BB`03B5`03B9`03B4`03AF `03C0`03C1`03CC`03C3`03B2`03B1`03C3`03B7`03C2 `03C6`03C5`03BB`03AC`03C3`03C3`03B5`03C4`03B1`03B9 `03B1`03C0`03CC `03C4`03B7 `03C3`03C5`03C3`03BA`03B5`03C5`03AE `03C3`03B1`03C2, `03C4`03B7 `03B4`03B9`03B1`03C7`03B5`03AF`03C1`03B9`03C3`03B7 `03BA`03C9`03B4`03B9`03BA`03CE`03BD `03C0`03C1`03CC`03C3`03B2`03B1`03C3`03B7`03C2 `03AE `03AD`03BD`03B1 `03BA`03BB`03B5`03B9`03B4`03AF `03B1`03C3`03C6`03B1`03BB`03B5`03AF`03B1`03C2 `03BA`03B1`03B9 `03B4`03B5`03BD `03BC`03C0`03BF`03C1`03B5`03AF `03BD`03B1 `03C5`03C0`03BF`03BA`03BB`03B1`03C0`03B5`03AF `03BC`03AD`03C3`03C9 phishing. `039B`03B5`03B9`03C4`03BF`03C5`03C1`03B3`03B5`03AF `03C9`03C2 `03C4`03BF `03B4`03B5`03CD`03C4`03B5`03C1`03BF `03B2`03AE`03BC`03B1 `03C4`03B7`03C2 `03C3`03CD`03BD`03B4`03B5`03C3`03B7`03C2 `03BA`03B1`03B9 `03B3`03B9`03B1 `03C4`03B7`03BD `03B5`03C0`03B9`03B2`03B5`03B2`03B1`03AF`03C9`03C3`03B7 `03B5`03C5`03B1`03AF`03C3`03B8`03B7`03C4`03C9`03BD `03B5`03BD`03B5`03C1`03B3`03B5`03B9`03CE`03BD.''),
    (''passkeys.none'', js ''`0394`03B5`03BD `03C5`03C0`03AC`03C1`03C7`03BF`03C5`03BD `03BA`03BB`03B5`03B9`03B4`03B9`03AC `03C0`03C1`03CC`03C3`03B2`03B1`03C3`03B7`03C2 `03B1`03BA`03CC`03BC`03B1.''),
    (''passkeys.name'', js ''`038C`03BD`03BF`03BC`03B1''),
    (''passkeys.name_placeholder'', js ''`03C0.`03C7. `03C6`03BF`03C1`03B7`03C4`03CC`03C2 `03C5`03C0`03BF`03BB`03BF`03B3`03B9`03C3`03C4`03AE`03C2, `03BA`03BB`03B5`03B9`03B4`03AF `03B1`03C3`03C6`03B1`03BB`03B5`03AF`03B1`03C2''),
    (''passkeys.added_at'', js ''`03A0`03C1`03BF`03C3`03C4`03AD`03B8`03B7`03BA`03B5''),
    (''passkeys.last_used'', js ''`03A4`03B5`03BB`03B5`03C5`03C4`03B1`03AF`03B1 `03C7`03C1`03AE`03C3`03B7''),
    (''passkeys.add'', js ''`03A0`03C1`03BF`03C3`03B8`03AE`03BA`03B7 `03BA`03BB`03B5`03B9`03B4`03B9`03BF`03CD `03C0`03C1`03CC`03C3`03B2`03B1`03C3`03B7`03C2''),
    (''passkeys.remove'', js ''`0391`03C6`03B1`03AF`03C1`03B5`03C3`03B7''),
    (''passkeys.remove_confirm'', js ''`0391`03C6`03B1`03AF`03C1`03B5`03C3`03B7 `03B1`03C5`03C4`03BF`03CD `03C4`03BF`03C5 `03BA`03BB`03B5`03B9`03B4`03B9`03BF`03CD `03C0`03C1`03CC`03C3`03B2`03B1`03C3`03B7`03C2; `039F`03B9 `03AC`03BB`03BB`03B5`03C2 `03C3`03C5`03BD`03B5`03B4`03C1`03AF`03B5`03C2 `03B1`03C5`03C4`03BF`03CD `03C4`03BF`03C5 `03BB`03BF`03B3`03B1`03C1`03B9`03B1`03C3`03BC`03BF`03CD `03B8`03B1 `03B1`03C0`03BF`03C3`03C5`03BD`03B4`03B5`03B8`03BF`03CD`03BD.''),
    (''passkeys.added'', js ''`03A4`03BF `03BA`03BB`03B5`03B9`03B4`03AF `03C0`03C1`03CC`03C3`03B2`03B1`03C3`03B7`03C2 `00AB{name}`00BB `03C0`03C1`03BF`03C3`03C4`03AD`03B8`03B7`03BA`03B5.''),
    (''passkeys.removed'', js ''`03A4`03BF `03BA`03BB`03B5`03B9`03B4`03AF `03C0`03C1`03CC`03C3`03B2`03B1`03C3`03B7`03C2 `00AB{name}`00BB `03B1`03C6`03B1`03B9`03C1`03AD`03B8`03B7`03BA`03B5. `039F`03B9 `03AC`03BB`03BB`03B5`03C2 `03C3`03C5`03BD`03B5`03B4`03C1`03AF`03B5`03C2 `03B1`03C5`03C4`03BF`03CD `03C4`03BF`03C5 `03BB`03BF`03B3`03B1`03C1`03B9`03B1`03C3`03BC`03BF`03CD `03B1`03C0`03BF`03C3`03C5`03BD`03B4`03AD`03B8`03B7`03BA`03B1`03BD.''),
    (''passkeys.last_required'', js ''`0391`03C5`03C4`03AE `03B7 `03B5`03B3`03BA`03B1`03C4`03AC`03C3`03C4`03B1`03C3`03B7 `03B1`03C0`03B1`03B9`03C4`03B5`03AF `03B4`03B5`03CD`03C4`03B5`03C1`03BF `03C0`03B1`03C1`03AC`03B3`03BF`03BD`03C4`03B1. `03A0`03C1`03BF`03C3`03B8`03AD`03C3`03C4`03B5 `03AD`03BD`03B1`03BD `03AC`03BB`03BB`03BF `03C0`03C1`03B9`03BD `03B1`03C6`03B1`03B9`03C1`03AD`03C3`03B5`03C4`03B5 `03C4`03BF`03BD `03C4`03B5`03BB`03B5`03C5`03C4`03B1`03AF`03BF.''),
    (''passkeys.limit'', js ''`0388`03BD`03B1`03C2 `03BB`03BF`03B3`03B1`03C1`03B9`03B1`03C3`03BC`03CC`03C2 `03BC`03C0`03BF`03C1`03B5`03AF `03BD`03B1 `03AD`03C7`03B5`03B9 `03C4`03BF `03C0`03BF`03BB`03CD {n} `03BA`03BB`03B5`03B9`03B4`03B9`03AC `03C0`03C1`03CC`03C3`03B2`03B1`03C3`03B7`03C2.''),
    (''passkeys.duplicate'', js ''`0391`03C5`03C4`03CC `03C4`03BF `03BA`03BB`03B5`03B9`03B4`03AF `03C0`03C1`03CC`03C3`03B2`03B1`03C3`03B7`03C2 `03B5`03AF`03BD`03B1`03B9 `03AE`03B4`03B7 `03BA`03B1`03C4`03B1`03C7`03C9`03C1`03B9`03C3`03BC`03AD`03BD`03BF.''),
    (''security.recovery.regenerate_confirmed'', js ''`0394`03B7`03BC`03B9`03BF`03C5`03C1`03B3`03AF`03B1 `03BD`03AD`03C9`03BD `03BA`03C9`03B4`03B9`03BA`03CE`03BD (`03BF`03B9 `03C0`03B1`03BB`03B9`03BF`03AF `03C0`03B1`03CD`03BF`03C5`03BD `03BD`03B1 `03B9`03C3`03C7`03CD`03BF`03C5`03BD)''),
    (''sessions.title'', js ''`0395`03BD`03B5`03C1`03B3`03AD`03C2 `03C3`03C5`03BD`03B5`03B4`03C1`03AF`03B5`03C2'')]"

definition el_17 :: messages where
  "el_17 = [
    (''sessions.intro'', js ''`039A`03AC`03B8`03B5 `03C3`03B7`03BC`03B5`03AF`03BF `03C3`03C4`03BF `03BF`03C0`03BF`03AF`03BF `03B5`03AF`03BD`03B1`03B9 `03C3`03C5`03BD`03B4`03B5`03B4`03B5`03BC`03AD`03BD`03BF`03C2 `03B1`03C5`03C4`03CC`03C2 `03BF `03BB`03BF`03B3`03B1`03C1`03B9`03B1`03C3`03BC`03CC`03C2. `0391`03C0`03BF`03C3`03C5`03BD`03B4`03AD`03C3`03C4`03B5 `03CC`03C3`03B5`03C2 `03B4`03B5`03BD `03B1`03BD`03B1`03B3`03BD`03C9`03C1`03AF`03B6`03B5`03C4`03B5 `03BA`03B1`03B9, `03C3`03C4`03B7 `03C3`03C5`03BD`03AD`03C7`03B5`03B9`03B1, `03B1`03BB`03BB`03AC`03BE`03C4`03B5 `03C4`03BF`03BD `03BA`03C9`03B4`03B9`03BA`03CC `03C0`03C1`03CC`03C3`03B2`03B1`03C3`03AE`03C2 `03C3`03B1`03C2.''),
    (''sessions.device'', js ''`03A3`03C5`03C3`03BA`03B5`03C5`03AE''),
    (''sessions.ip'', js ''`0394`03B9`03B5`03CD`03B8`03C5`03BD`03C3`03B7 IP''),
    (''sessions.started'', js ''`0388`03BD`03B1`03C1`03BE`03B7''),
    (''sessions.last_seen'', js ''`03A4`03B5`03BB`03B5`03C5`03C4`03B1`03AF`03B1 `03B4`03C1`03B1`03C3`03C4`03B7`03C1`03B9`03CC`03C4`03B7`03C4`03B1''),
    (''sessions.current'', js ''`03B1`03C5`03C4`03AE `03B7 `03C3`03C5`03BD`03B5`03B4`03C1`03AF`03B1''),
    (''sessions.pending'', js ''`03BC`03CC`03BD`03BF `03BA`03C9`03B4`03B9`03BA`03CC`03C2 `03C0`03C1`03CC`03C3`03B2`03B1`03C3`03B7`03C2, `03C4`03BF `03B4`03B5`03CD`03C4`03B5`03C1`03BF `03B2`03AE`03BC`03B1 `03B4`03B5`03BD `03BF`03BB`03BF`03BA`03BB`03B7`03C1`03CE`03B8`03B7`03BA`03B5''),
    (''sessions.bound'', js ''`03C3`03C5`03BD`03B4`03B5`03B4`03B5`03BC`03AD`03BD`03B7 `03BC`03B5 `03B1`03C5`03C4`03AE `03C4`03B7 `03C3`03C5`03C3`03BA`03B5`03C5`03AE''),
    (''sessions.factor'', js ''`03B4`03B5`03CD`03C4`03B5`03C1`03BF `03B2`03AE`03BC`03B1: {factor}''),
    (''sessions.via.totp'', js ''`03BA`03C9`03B4`03B9`03BA`03CC`03C2 `03B5`03C6`03B1`03C1`03BC`03BF`03B3`03AE`03C2''),
    (''sessions.via.recovery'', js ''`03BA`03C9`03B4`03B9`03BA`03CC`03C2 `03B1`03BD`03AC`03BA`03C4`03B7`03C3`03B7`03C2''),
    (''sessions.via.passkey'', js ''`03BA`03BB`03B5`03B9`03B4`03AF `03C0`03C1`03CC`03C3`03B2`03B1`03C3`03B7`03C2''),
    (''sessions.unknown_device'', js ''`0386`03B3`03BD`03C9`03C3`03C4`03B7 `03C3`03C5`03C3`03BA`03B5`03C5`03AE''),
    (''sessions.revoke'', js ''`0391`03C0`03BF`03C3`03CD`03BD`03B4`03B5`03C3`03B7''),
    (''sessions.revoke_others'', js ''`0391`03C0`03BF`03C3`03CD`03BD`03B4`03B5`03C3`03B7 `03CC`03BB`03C9`03BD `03C4`03C9`03BD `03AC`03BB`03BB`03C9`03BD `03C3`03C5`03BD`03B5`03B4`03C1`03B9`03CE`03BD''),
    (''sessions.revoked'', js ''`0397 `03C3`03C5`03BD`03B5`03B4`03C1`03AF`03B1 `03B1`03C0`03BF`03C3`03C5`03BD`03B4`03AD`03B8`03B7`03BA`03B5.''),
    (''sessions.revoked_others'', js ''`038C`03BB`03B5`03C2 `03BF`03B9 `03AC`03BB`03BB`03B5`03C2 `03C3`03C5`03BD`03B5`03B4`03C1`03AF`03B5`03C2 `03B1`03C0`03BF`03C3`03C5`03BD`03B4`03AD`03B8`03B7`03BA`03B1`03BD.'')]"

definition el_messages :: messages where
  "el_messages = el_1 @ el_2 @ el_3 @ el_4 @ el_5 @ el_6 @ el_7 @ el_8 @ el_9 @ el_10 @ el_11 @ el_12 @ el_13 @ el_14 @ el_15 @ el_16 @ el_17"

lemmas el_defs =
  el_1_def el_2_def el_3_def el_4_def el_5_def el_6_def el_7_def el_8_def el_9_def el_10_def el_11_def el_12_def el_13_def el_14_def
  el_15_def el_16_def el_17_def

lemma el_fits: "fits el_messages message_shape"
  unfolding el_messages_def message_shape_def
  by (intro fits_append; unfold el_defs shape_defs; simp only: fits_rules cong: literal_congs)

end
