(* ===== verification/Locale_Es.thy ===== *)
theory Locale_Es
  imports Locale_En
begin

text \<open>src/locales/es.ts: Spanish.\<close>

definition es_1 :: messages where
  "es_1 = [
    (''app.tagline'', js ''buz`00F3n privado de archivos''),
    (''common.back_to_cases'', js ''`2190 Expedientes''),
    (''common.home'', js ''Inicio''),
    (''common.copy'', js ''Copiar''),
    (''common.copied'', js ''Copiado''),
    (''common.copy_manual'', js ''Selecciona y copia manualmente''),
    (''common.save'', js ''Guardar''),
    (''common.create'', js ''Crear''),
    (''common.cancel'', js ''Cancelar''),
    (''common.retry'', js ''Reintentar''),
    (''common.never'', js ''nunca''),
    (''common.unlimited'', js ''sin caducidad''),
    (''common.none'', js ''`2014''),
    (''common.optional'', js ''opcional''),
    (''common.loading'', js ''Cargando`2026''),
    (''common.yes'', js ''S`00ED''),
    (''common.language'', js ''Idioma''),
    (''nav.cases'', js ''Expedientes''),
    (''nav.audit'', js ''Registro de auditor`00EDa''),
    (''nav.security'', js ''Seguridad'')]"

definition es_2 :: messages where
  "es_2 = [
    (''nav.logout'', js ''Cerrar sesi`00F3n''),
    (''error.not_found.title'', js ''No encontrado''),
    (''error.page_missing'', js ''Esta p`00E1gina no existe.''),
    (''error.case_missing'', js ''Este expediente no existe.''),
    (''error.link_missing'', js ''Este enlace no existe.''),
    (''error.file_missing'', js ''El archivo no existe o no est`00E1 disponible.''),
    (''error.file_not_exist'', js ''El archivo no existe.''),
    (''error.storage_missing.title'', js ''Falta el archivo en el almacenamiento''),
    (''error.storage_missing'', js ''Los metadatos existen, pero el objeto ha desaparecido del almacenamiento. Ejecuta la limpieza para marcar el archivo como ausente.''),
    (''error.server.title'', js ''Error del servidor''),
    (''error.server'', js ''Se ha producido un error inesperado.''),
    (''error.bad_request.title'', js ''Solicitud incorrecta''),
    (''error.cross_site'', js ''Solicitud entre sitios bloqueada''),
    (''error.csrf'', js ''Token CSRF no v`00E1lido''),
    (''error.invalid_expiry'', js ''Fecha de caducidad no v`00E1lida''),
    (''link.invalid.title'', js ''Enlace no v`00E1lido''),
    (''link.invalid'', js ''Este enlace de subida no existe.''),
    (''link.unavailable.title'', js ''Enlace no disponible''),
    (''link.expired'', js ''Este enlace ha caducado.''),
    (''link.revoked'', js ''Este enlace ha sido revocado.'')]"

definition es_3 :: messages where
  "es_3 = [
    (''link.case_closed'', js ''El expediente se ha cerrado y ya no acepta archivos.''),
    (''link.contact'', js ''Ponte en contacto con la persona que te dio el enlace.''),
    (''login.title'', js ''Acceso de administrador''),
    (''login.username'', js ''Nombre de usuario''),
    (''login.password'', js ''Contrase`00F1a''),
    (''login.submit'', js ''Iniciar sesi`00F3n''),
    (''login.failed'', js ''Nombre de usuario o contrase`00F1a no v`00E1lidos.''),
    (''login.too_many_codes'', js ''Demasiados c`00F3digos incorrectos. Inicia sesi`00F3n de nuevo.''),
    (''login.account_locked'', js ''Demasiados c`00F3digos incorrectos para esta cuenta. El segundo factor queda bloqueado durante 15 minutos.''),
    (''totp.title'', js ''C`00F3digo de tu aplicaci`00F3n de autenticaci`00F3n''),
    (''totp.code_label'', js ''C`00F3digo (6 d`00EDgitos) o c`00F3digo de recuperaci`00F3n''),
    (''totp.confirm'', js ''Confirmar''),
    (''totp.cancel_logout'', js ''Cancelar y cerrar sesi`00F3n''),
    (''totp.invalid'', js ''C`00F3digo no v`00E1lido.''),
    (''totp.attempts_left'', js ''Intentos restantes: {n}.''),
    (''totp.locked_until'', js ''La cuenta est`00E1 bloqueada temporalmente tras muchos c`00F3digos incorrectos (hasta las {until} UTC).''),
    (''security.title'', js ''Seguridad de la cuenta `00AB{user}`00BB''),
    (''security.required_notice'', js ''Esta instancia requiere un segundo factor. El panel permanecer`00E1 inaccesible hasta que a`00F1adas una aplicaci`00F3n de autenticaci`00F3n o una llave de acceso a continuaci`00F3n.''),
    (''security.status'', js ''Autenticaci`00F3n en dos pasos (TOTP, RFC 6238): {state}.''),
    (''security.enabled'', js ''activada'')]"

definition es_4 :: messages where
  "es_4 = [
    (''security.disabled'', js ''desactivada''),
    (''security.recovery_left'', js ''C`00F3digos de recuperaci`00F3n sin usar: {n}.''),
    (''security.recovery.title'', js ''C`00F3digos de recuperaci`00F3n''),
    (''security.recovery.intro'', js ''Gu`00E1rdalos ahora en un lugar seguro. Cada uno funciona una sola vez y sustituye al c`00F3digo de la aplicaci`00F3n si pierdes el acceso a ella. No se volver`00E1n a mostrar.''),
    (''security.enable.title'', js ''Activar TOTP''),
    (''security.enable.intro'', js ''Necesitas una aplicaci`00F3n de autenticaci`00F3n (p. ej. Aegis, Google Authenticator, 1Password, Bitwarden). Una vez activada, el inicio de sesi`00F3n requiere la contrase`00F1a y un c`00F3digo vigente.''),
    (''security.enable.start'', js ''Iniciar configuraci`00F3n''),
    (''security.step1'', js ''Paso 1: escanea el c`00F3digo con tu aplicaci`00F3n''),
    (''security.manual_key'', js ''O introduce la clave manualmente:''),
    (''security.key_params'', js ''Tipo: TOTP, SHA-1, 6 d`00EDgitos, 30 s. Emisor: {issuer}, cuenta: {user}.''),
    (''security.open_in_app'', js ''Abrir en la aplicaci`00F3n de autenticaci`00F3n''),
    (''security.on_phone'', js ''(en un tel`00E9fono)''),
    (''security.step2'', js ''Paso 2: confirma con un c`00F3digo''),
    (''security.code_from_app'', js ''C`00F3digo de la aplicaci`00F3n''),
    (''security.enable.submit'', js ''Activar TOTP''),
    (''security.pending_note'', js ''La clave es provisional hasta que se confirme; si vuelves a iniciar la configuraci`00F3n se genera una nueva.''),
    (''security.current_code'', js ''C`00F3digo actual de la aplicaci`00F3n''),
    (''security.regenerate'', js ''Generar c`00F3digos nuevos (los antiguos dejan de funcionar)''),
    (''security.disable.title'', js ''Desactivar TOTP''),
    (''security.disable.intro'', js ''Requiere un c`00F3digo actual de la aplicaci`00F3n o un c`00F3digo de recuperaci`00F3n: la sesi`00F3n por s`00ED sola (p. ej. una cookie robada) no basta. Si se pierden tanto la aplicaci`00F3n como los c`00F3digos de recuperaci`00F3n, un operador puede ejecutar {cmd} en el servidor.'')]"

definition es_5 :: messages where
  "es_5 = [
    (''security.disable.code'', js ''C`00F3digo''),
    (''security.disable.submit'', js ''Desactivar''),
    (''security.disable.confirm'', js ''`00BFDesactivar la autenticaci`00F3n en dos pasos?''),
    (''security.msg.enabled'', js ''La autenticaci`00F3n en dos pasos est`00E1 activada.''),
    (''security.msg.code_mismatch'', js ''El c`00F3digo no coincide. Comprueba la hora de tu tel`00E9fono e int`00E9ntalo de nuevo.''),
    (''security.msg.invalid_code'', js ''C`00F3digo no v`00E1lido.''),
    (''security.msg.regenerated'', js ''Se han generado nuevos c`00F3digos de recuperaci`00F3n.''),
    (''security.msg.required'', js ''Esta instancia exige TOTP (ADMIN_REQUIRE_TOTP); no se puede desactivar.''),
    (''security.msg.disabled'', js ''La autenticaci`00F3n en dos pasos se ha desactivado.''),
    (''security.password.title'', js ''Cambiar contrase`00F1a''),
    (''security.password.current'', js ''Contrase`00F1a actual''),
    (''security.password.new'', js ''Nueva contrase`00F1a (m`00EDn. 12 caracteres)''),
    (''security.password.confirm'', js ''Confirmar la nueva contrase`00F1a''),
    (''security.password.submit'', js ''Cambiar contrase`00F1a''),
    (''security.password.mismatch'', js ''La nueva contrase`00F1a y su confirmaci`00F3n no coinciden.''),
    (''security.password.invalid_current'', js ''La contrase`00F1a actual no es correcta.''),
    (''security.password.changed'', js ''Contrase`00F1a cambiada. Se han cerrado las dem`00E1s sesiones de esta cuenta.''),
    (''home.title'', js ''inletbox''),
    (''home.message'', js ''Este es un buz`00F3n privado de archivos. Para subir archivos, usa el enlace que te dio la persona que los solicit`00F3.''),
    (''cases.new'', js ''Nuevo expediente'')]"

definition es_6 :: messages where
  "es_6 = [
    (''cases.name'', js ''Nombre''),
    (''cases.name_placeholder'', js ''p. ej. Auditor`00EDa 2026/09 `2013 Cliente X''),
    (''cases.description_optional'', js ''Descripci`00F3n (opcional)''),
    (''cases.description'', js ''Descripci`00F3n''),
    (''cases.list'', js ''Expedientes''),
    (''cases.empty'', js ''No hay expedientes.''),
    (''cases.col.name'', js ''Nombre''),
    (''cases.col.status'', js ''Estado''),
    (''cases.col.links'', js ''Enlaces activos''),
    (''cases.col.files'', js ''Archivos''),
    (''cases.col.size'', js ''Tama`00F1o''),
    (''cases.col.created'', js ''Creado''),
    (''case.open'', js ''abierto''),
    (''case.closed'', js ''cerrado''),
    (''case.close'', js ''Cerrar expediente''),
    (''case.reopen'', js ''Reabrir''),
    (''case.meta'', js ''ID: {id} `00B7 creado el {date}. Un expediente cerrado no acepta subidas por ninguno de sus enlaces.''),
    (''case.saved'', js ''Guardado.''),
    (''case.closed_no_links'', js ''El expediente est`00E1 cerrado: re`00E1brelo para generar enlaces.''),
    (''case.new_link.title'', js ''Nuevo enlace para `00AB{label}`00BB'')]"

definition es_7 :: messages where
  "es_7 = [
    (''case.new_link.intro'', js ''C`00F3pialo ahora. El token solo se guarda como hash y no se puede recuperar m`00E1s tarde: solo podr`00E1s generar un enlace nuevo.''),
    (''case.new_link.copy_now'', js ''C`00F3pialo ahora.''),
    (''links.title'', js ''Enlaces de subida''),
    (''links.intro'', js ''Cada enlace es un destinatario distinto y un `00E1mbito de visibilidad distinto: quien tiene el enlace solo ve los archivos enviados a trav`00E9s de `00E9l y no puede descargarlos ni eliminarlos. Todos los que conocen el mismo enlace tienen exactamente el mismo acceso: la aplicaci`00F3n no distingue entre las personas que usan el mismo enlace.''),
    (''links.generate'', js ''Generar un enlace nuevo''),
    (''links.label'', js ''Etiqueta del destinatario''),
    (''links.label_placeholder'', js ''p. ej. Ana Garc`00EDa `2013 contabilidad''),
    (''links.expires'', js ''V`00E1lido hasta (UTC, opcional)''),
    (''links.max_file'', js ''Tama`00F1o m`00E1x. de archivo (opcional, `2264 {max})''),
    (''links.max_file_placeholder'', js ''p. ej. 500MB''),
    (''links.max_files'', js ''N.`00BA m`00E1x. de archivos (opcional)''),
    (''links.max_total'', js ''Tama`00F1o total m`00E1x. (opcional)''),
    (''links.max_total_placeholder'', js ''p. ej. 2GB''),
    (''links.submit'', js ''Generar enlace''),
    (''links.empty'', js ''No hay enlaces.''),
    (''links.col.recipient'', js ''Destinatario''),
    (''links.col.state'', js ''Estado''),
    (''links.col.expires'', js ''V`00E1lido hasta''),
    (''links.col.limits'', js ''L`00EDmites''),
    (''links.col.usage'', js ''Uso'')]"

definition es_8 :: messages where
  "es_8 = [
    (''links.col.last_used'', js ''`00DAltimo uso''),
    (''links.state.active'', js ''activo''),
    (''links.state.expired'', js ''caducado''),
    (''links.state.revoked'', js ''revocado''),
    (''links.state.case_closed'', js ''expediente cerrado''),
    (''links.limit.file'', js ''archivo `2264 {max}''),
    (''links.limit.files'', js ''archivos `2264 {n}''),
    (''links.limit.total'', js ''total `2264 {max}''),
    (''links.usage'', js ''{n} archivos, {size}''),
    (''links.usage_in_progress'', js ''{n} en curso ({size} reservados)''),
    (''links.revoke'', js ''Revocar''),
    (''links.revoke_confirm'', js ''`00BFRevocar el enlace `00AB{label}`00BB? Las subidas en curso se interrumpir`00E1n.''),
    (''files.title'', js ''Archivos''),
    (''files.empty'', js ''No hay archivos.''),
    (''files.col.name'', js ''Nombre''),
    (''files.col.recipient'', js ''Destinatario (enlace)''),
    (''files.col.size'', js ''Tama`00F1o''),
    (''files.col.status'', js ''Estado''),
    (''files.col.uploaded'', js ''Subido''),
    (''files.declared'', js ''{size} (declarado)'')]"

definition es_9 :: messages where
  "es_9 = [
    (''files.download'', js ''Descargar''),
    (''files.delete'', js ''Eliminar''),
    (''files.delete_confirm'', js ''`00BFEliminar el archivo `00AB{name}`00BB? No se puede deshacer.''),
    (''files.untrusted'', js ''Los archivos se tratan como no fiables: las descargas son siempre adjuntos y en el servidor no se muestra ni se ejecuta nada. El an`00E1lisis antivirus no forma parte de esta versi`00F3n.''),
    (''files.status.uploading'', js ''en curso''),
    (''files.status.complete'', js ''completo''),
    (''files.status.aborted'', js ''interrumpido''),
    (''files.status.expired'', js ''caducado''),
    (''files.status.missing'', js ''falta en el almacenamiento''),
    (''files.status.deleted'', js ''eliminado''),
    (''audit.title'', js ''Registro de auditor`00EDa (`00FAltimos {n})''),
    (''audit.col.time'', js ''Hora''),
    (''audit.col.actor'', js ''Actor''),
    (''audit.col.action'', js ''Evento''),
    (''audit.col.case'', js ''Expediente''),
    (''audit.col.link'', js ''Enlace''),
    (''audit.col.file'', js ''Archivo''),
    (''audit.col.ip'', js ''IP''),
    (''audit.col.details'', js ''Detalles''),
    (''upload.title'', js ''Subida: {case}'')]"

definition es_10 :: messages where
  "es_10 = [
    (''upload.link_for'', js ''Enlace para:''),
    (''upload.valid_until'', js ''v`00E1lido hasta el {date}''),
    (''upload.limit.file'', js ''Tama`00F1o m`00E1ximo de archivo:''),
    (''upload.limit.files'', js ''N`00FAmero m`00E1ximo de archivos:''),
    (''upload.limit.total'', js ''L`00EDmite total de datos:''),
    (''upload.used_n'', js ''({n} usados)''),
    (''upload.used_size'', js ''({size} usados)''),
    (''upload.send'', js ''Subir archivos''),
    (''upload.drop_here'', js ''Arrastra los archivos aqu`00ED''),
    (''upload.or'', js ''o''),
    (''upload.choose'', js ''el`00EDgelos del disco''),
    (''upload.resume_hint'', js ''Los archivos grandes se env`00EDan por partes y la subida se puede reanudar tras perder la conexi`00F3n. Despu`00E9s de recargar la p`00E1gina, vuelve a elegir el mismo archivo y la subida continuar`00E1 donde se detuvo.''),
    (''upload.your_files'', js ''Tus archivos''),
    (''upload.your_files_intro'', js ''Solo ves los archivos subidos a trav`00E9s de este enlace. Aqu`00ED no se pueden descargar ni eliminar: los recoge el administrador.''),
    (''upload.col.name'', js ''Nombre''),
    (''upload.col.size'', js ''Tama`00F1o''),
    (''upload.col.date'', js ''Fecha''),
    (''upload.col.status'', js ''Estado''),
    (''upload.none_yet'', js ''Todav`00EDa no se ha subido ning`00FAn archivo.''),
    (''upload.list_failed'', js ''No se pudo cargar la lista: {msg}'')]"

definition es_11 :: messages where
  "es_11 = [
    (''upload.terminal'', js ''Subir desde el terminal''),
    (''upload.terminal_hint'', js ''(curl, scripts, transferencias reanudables)''),
    (''upload.terminal_intro'', js ''Sustituye {path} por la ruta de tu archivo (los espacios no son problema). Un c`00F3digo de salida distinto de cero indica un error; la respuesta es JSON.''),
    (''upload.snippet.single'', js ''Un archivo''),
    (''upload.snippet.multi'', js ''Varios archivos''),
    (''upload.snippet.env'', js ''Token en una variable de entorno (recomendado)''),
    (''upload.snippet.list'', js ''Listar los archivos subidos''),
    (''upload.snippet.resumable'', js ''Archivo grande con reanudaci`00F3n (script {script})''),
    (''upload.history_warning'', js ''Atenci`00F3n: un comando que contiene el token queda en el historial de tu shell (p. ej. {file}). La variante con export precedida de un espacio no se registra si {opt} est`00E1 activado. Trata este enlace como una contrase`00F1a y no lo compartas.''),
    (''upload.path_placeholder'', js ''/ruta/al/archivo.pdf''),
    (''upload.path_placeholder2'', js ''/ruta/informe.pdf''),
    (''upload.path_placeholder3'', js ''/ruta/foto 1.jpg''),
    (''upload.path_placeholder_big'', js ''/ruta/al/archivo grande.iso''),
    (''upload.js.queued'', js ''en cola`2026''),
    (''upload.js.too_large'', js ''demasiado grande: l`00EDmite {max}''),
    (''upload.js.error'', js ''error: {msg}''),
    (''upload.js.starting'', js ''iniciando`2026''),
    (''upload.js.resuming'', js ''reanudando la subida anterior`2026''),
    (''upload.js.retrying'', js ''reintentando`2026''),
    (''upload.js.done'', js ''completo'')]"

definition es_12 :: messages where
  "es_12 = [
    (''upload.js.finalising'', js ''todos los datos enviados, el servidor est`00E1 terminando`2026''),
    (''upload.js.cancelled'', js ''cancelado''),
    (''upload.js.cancelled_local'', js ''cancelado (localmente)''),
    (''upload.js.status.uploading'', js ''en curso''),
    (''upload.js.status.complete'', js ''completo''),
    (''nav.users'', js ''Usuarios''),
    (''cases.empty_assigned'', js ''Todav`00EDa no tiene expedientes asignados. Puede asignarle uno un compa`00F1ero que trabaje en `00E9l o un administrador, o puede crear uno nuevo arriba.''),
    (''error.forbidden.title'', js ''No permitido''),
    (''error.forbidden'', js ''Esta p`00E1gina es solo para administradores.''),
    (''security.must_change_notice'', js ''Su contrase`00F1a la asign`00F3 un administrador. Defina la suya propia abajo antes de continuar.''),
    (''members.title'', js ''Usuarios asignados''),
    (''members.intro'', js ''Un usuario solo ve los expedientes que tiene asignados. Los administradores ven todos los expedientes.''),
    (''members.empty'', js ''Ning`00FAn usuario tiene asignado este expediente `2014 solo lo ven los administradores.''),
    (''members.user'', js ''Usuario''),
    (''members.add'', js ''Asignar''),
    (''members.added'', js ''La cuenta {username} tiene ahora asignado este expediente.''),
    (''members.remove'', js ''Quitar''),
    (''members.remove_confirm'', js ''`00BFQuitar a {username}? La cuenta dejar`00E1 de ver este expediente.''),
    (''members.removed'', js ''La cuenta {username} ya no tiene acceso a este expediente.''),
    (''members.none_assignable'', js ''No queda ninguna cuenta de usuario por asignar. Cree una en {link}.'')]"

definition es_13 :: messages where
  "es_13 = [
    (''users.new'', js ''Nueva cuenta''),
    (''users.list'', js ''Cuentas''),
    (''users.username'', js ''Nombre de usuario''),
    (''users.username_placeholder'', js ''p. ej. ana.garcia@empresa.es''),
    (''users.role'', js ''Rol''),
    (''users.role.admin'', js ''Administrador''),
    (''users.role.user'', js ''Usuario''),
    (''users.roles_hint'', js ''Un usuario solo ve y trabaja en los expedientes que tiene asignados. Un administrador ve todos los expedientes, gestiona las cuentas y consulta el registro de auditor`00EDa. Se genera una contrase`00F1a temporal que debe cambiarse en el primer inicio de sesi`00F3n.''),
    (''users.col.username'', js ''Cuenta''),
    (''users.col.status'', js ''Estado''),
    (''users.col.totp'', js ''Segundo factor''),
    (''users.col.cases'', js ''Expedientes''),
    (''users.col.last_login'', js ''`00DAltimo acceso''),
    (''users.status.active'', js ''activa''),
    (''users.status.disabled'', js ''desactivada''),
    (''users.status.must_change'', js ''debe cambiar la contrase`00F1a''),
    (''users.you'', js ''usted''),
    (''users.all_cases'', js ''todos''),
    (''users.issued.title'', js ''Cuenta {username} creada''),
    (''users.issued.reset_title'', js ''Nueva contrase`00F1a para {username}'')]"

definition es_14 :: messages where
  "es_14 = [
    (''users.issued.copy_now'', js ''Copie esta contrase`00F1a ahora: solo se muestra una vez.''),
    (''users.issued.intro'', js ''Entr`00E9guela por un canal distinto al del nombre de usuario. Debe sustituirse en el primer inicio de sesi`00F3n.''),
    (''users.make_admin'', js ''Hacer administrador''),
    (''users.make_user'', js ''Hacer usuario''),
    (''users.role_confirm'', js ''`00BFCambiar el rol de la cuenta {username}?''),
    (''users.role_changed'', js ''La cuenta {username} tiene ahora el rol: {role}.''),
    (''users.reset_password'', js ''Nueva contrase`00F1a''),
    (''users.reset_password_confirm'', js ''`00BFAsignar una nueva contrase`00F1a a {username}? La actual deja de funcionar y se cierran todas las sesiones de la cuenta.''),
    (''users.password_reset'', js ''Se asign`00F3 una nueva contrase`00F1a a {username} y se cerr`00F3 la sesi`00F3n de la cuenta.''),
    (''users.reset_totp'', js ''Restablecer 2FA''),
    (''users.reset_totp_confirm'', js ''`00BFEliminar el segundo factor de {username}? Se configurar`00E1 de nuevo tras el pr`00F3ximo inicio de sesi`00F3n.''),
    (''users.totp_reset'', js ''Se elimin`00F3 la autenticaci`00F3n en dos pasos de la cuenta {username}.''),
    (''users.disable'', js ''Desactivar''),
    (''users.disable_confirm'', js ''`00BFDesactivar {username}? Se cierra la sesi`00F3n de la cuenta y no podr`00E1 entrar hasta que se reactive.''),
    (''users.disabled'', js ''La cuenta {username} se desactiv`00F3 y se cerr`00F3 su sesi`00F3n.''),
    (''users.enable'', js ''Reactivar''),
    (''users.enabled'', js ''La cuenta {username} puede volver a iniciar sesi`00F3n.''),
    (''users.delete'', js ''Eliminar''),
    (''users.delete_confirm'', js ''`00BFEliminar la cuenta {username}? Sus asignaciones de expedientes desaparecen con ella; el registro de auditor`00EDa conserva lo que hizo.''),
    (''users.deleted'', js ''Se elimin`00F3 la cuenta {username}.'')]"

definition es_15 :: messages where
  "es_15 = [
    (''users.missing'', js ''Esa cuenta no existe.''),
    (''users.not_self'', js ''Aqu`00ED no puede modificar su propia cuenta: la contrase`00F1a y la 2FA est`00E1n en Seguridad.''),
    (''users.last_admin'', js ''Debe quedar al menos un administrador activo.''),
    (''users.exists'', js ''Ya existe una cuenta llamada {username}.''),
    (''users.invalid_username'', js ''Un nombre de usuario tiene 2`201364 caracteres: letras, cifras y . _ @ -''),
    (''users.invalid_role'', js ''Rol desconocido.''),
    (''members.not_self'', js ''No puede quitarse a s`00ED mismo. P`00EDdaselo a otra persona del expediente o a un administrador.''),
    (''members.none_assignable_user'', js ''No hay ninguna otra cuenta de usuario que asignar.''),
    (''second.title'', js ''Segundo paso del inicio de sesi`00F3n''),
    (''second.recovery_label'', js ''C`00F3digo de recuperaci`00F3n''),
    (''common.or'', js ''o''),
    (''passkey.use'', js ''Usar una llave de acceso''),
    (''passkey.unsupported'', js ''Este navegador no admite llaves de acceso.''),
    (''passkey.failed'', js ''No se pudo verificar la llave de acceso. Int`00E9ntalo de nuevo.''),
    (''passkey.cancelled'', js ''Cancelado. Int`00E9ntalo de nuevo cuando tengas todo listo.''),
    (''confirm.title'', js ''Confirma que eres t`00FA''),
    (''confirm.intro'', js ''Esta acci`00F3n requiere una confirmaci`00F3n reciente. Seguir`00E1 siendo v`00E1lida durante {minutes} minutos para no pedirla de nuevo a cada paso.''),
    (''confirm.repeat'', js ''Tras confirmar, repite lo que estabas haciendo.''),
    (''confirm.code_label'', js ''C`00F3digo de la aplicaci`00F3n o c`00F3digo de recuperaci`00F3n''),
    (''confirm.password_label'', js ''Tu contrase`00F1a'')]"

definition es_16 :: messages where
  "es_16 = [
    (''confirm.submit'', js ''Confirmar''),
    (''confirm.invalid'', js ''No coincide. Int`00E9ntalo de nuevo.''),
    (''confirm.locked'', js ''Demasiados c`00F3digos incorrectos para esta cuenta. Int`00E9ntalo de nuevo en 15 minutos.''),
    (''passkeys.title'', js ''Llaves de acceso''),
    (''passkeys.intro'', js ''Una llave de acceso se guarda en tu dispositivo, en tu gestor de contrase`00F1as o en una llave de seguridad, y no puede ser objeto de phishing. Funciona como segundo paso del inicio de sesi`00F3n y para confirmar acciones confidenciales.''),
    (''passkeys.none'', js ''Todav`00EDa no hay llaves de acceso.''),
    (''passkeys.name'', js ''Nombre''),
    (''passkeys.name_placeholder'', js ''p. ej. port`00E1til, llave de seguridad''),
    (''passkeys.added_at'', js ''A`00F1adida''),
    (''passkeys.last_used'', js ''`00DAltimo uso''),
    (''passkeys.add'', js ''A`00F1adir una llave de acceso''),
    (''passkeys.remove'', js ''Eliminar''),
    (''passkeys.remove_confirm'', js ''`00BFEliminar esta llave de acceso? Se cerrar`00E1n las dem`00E1s sesiones de esta cuenta.''),
    (''passkeys.added'', js ''Llave de acceso `00AB{name}`00BB a`00F1adida.''),
    (''passkeys.removed'', js ''Llave de acceso `00AB{name}`00BB eliminada. Se han cerrado las dem`00E1s sesiones de esta cuenta.''),
    (''passkeys.last_required'', js ''Esta instancia requiere un segundo factor. A`00F1ade otro antes de eliminar el `00FAltimo.''),
    (''passkeys.limit'', js ''Una cuenta puede tener como m`00E1ximo {n} llaves de acceso.''),
    (''passkeys.duplicate'', js ''Esta llave de acceso ya est`00E1 registrada.''),
    (''security.recovery.regenerate_confirmed'', js ''Generar c`00F3digos nuevos (los antiguos dejan de funcionar)''),
    (''sessions.title'', js ''Sesiones activas'')]"

definition es_17 :: messages where
  "es_17 = [
    (''sessions.intro'', js ''Todos los lugares donde se ha iniciado sesi`00F3n con esta cuenta. Cierra la sesi`00F3n en los que no reconozcas y luego cambia tu contrase`00F1a.''),
    (''sessions.device'', js ''Dispositivo''),
    (''sessions.ip'', js ''Direcci`00F3n IP''),
    (''sessions.started'', js ''Iniciada''),
    (''sessions.last_seen'', js ''`00DAltima actividad''),
    (''sessions.current'', js ''esta sesi`00F3n''),
    (''sessions.pending'', js ''solo contrase`00F1a, segundo paso pendiente''),
    (''sessions.bound'', js ''vinculada a este dispositivo''),
    (''sessions.factor'', js ''segundo paso: {factor}''),
    (''sessions.via.totp'', js ''c`00F3digo de la app''),
    (''sessions.via.recovery'', js ''c`00F3digo de recuperaci`00F3n''),
    (''sessions.via.passkey'', js ''llave de acceso''),
    (''sessions.unknown_device'', js ''Dispositivo desconocido''),
    (''sessions.revoke'', js ''Cerrar sesi`00F3n''),
    (''sessions.revoke_others'', js ''Cerrar todas las dem`00E1s sesiones''),
    (''sessions.revoked'', js ''Se ha cerrado la sesi`00F3n.''),
    (''sessions.revoked_others'', js ''Se han cerrado todas las dem`00E1s sesiones.'')]"

definition es_messages :: messages where
  "es_messages = es_1 @ es_2 @ es_3 @ es_4 @ es_5 @ es_6 @ es_7 @ es_8 @ es_9 @ es_10 @ es_11 @ es_12 @ es_13 @ es_14 @ es_15 @ es_16 @ es_17"

lemmas es_defs =
  es_1_def es_2_def es_3_def es_4_def es_5_def es_6_def es_7_def es_8_def es_9_def es_10_def es_11_def es_12_def es_13_def es_14_def
  es_15_def es_16_def es_17_def

lemma es_fits: "fits es_messages message_shape"
  unfolding es_messages_def message_shape_def
  by (intro fits_append; unfold es_defs shape_defs; simp only: fits_rules cong: literal_congs)

end
