(* ===== verification/Locale_Et.thy ===== *)
theory Locale_Et
  imports Locale_En
begin

text \<open>src/locales/et.ts: Estonian.\<close>

definition et_1 :: messages where
  "et_1 = [
    (''app.tagline'', js ''privaatne failide `00FCleandmiskast''),
    (''common.back_to_cases'', js ''`2190 Toimikud''),
    (''common.home'', js ''Avaleht''),
    (''common.copy'', js ''Kopeeri''),
    (''common.copied'', js ''Kopeeritud''),
    (''common.copy_manual'', js ''M`00E4rgista ja kopeeri k`00E4sitsi''),
    (''common.save'', js ''Salvesta''),
    (''common.create'', js ''Loo''),
    (''common.cancel'', js ''T`00FChista''),
    (''common.retry'', js ''Proovi uuesti''),
    (''common.never'', js ''mitte kunagi''),
    (''common.unlimited'', js ''ei aegu''),
    (''common.none'', js ''`2014''),
    (''common.optional'', js ''valikuline''),
    (''common.loading'', js ''Laadimine`2026''),
    (''common.yes'', js ''Jah''),
    (''common.language'', js ''Keel''),
    (''nav.cases'', js ''Toimikud''),
    (''nav.audit'', js ''Auditilogi''),
    (''nav.security'', js ''Turvalisus'')]"

definition et_2 :: messages where
  "et_2 = [
    (''nav.logout'', js ''Logi v`00E4lja''),
    (''error.not_found.title'', js ''Ei leitud''),
    (''error.page_missing'', js ''Seda lehte ei ole olemas.''),
    (''error.case_missing'', js ''Seda toimikut ei ole olemas.''),
    (''error.link_missing'', js ''Seda linki ei ole olemas.''),
    (''error.file_missing'', js ''Faili ei ole olemas v`00F5i see ei ole saadaval.''),
    (''error.file_not_exist'', js ''Faili ei ole olemas.''),
    (''error.storage_missing.title'', js ''Fail puudub hoidlast''),
    (''error.storage_missing'', js ''Metaandmed on olemas, kuid objekt on hoidlast kadunud. K`00E4ivita puhastus, et fail puuduvaks m`00E4rkida.''),
    (''error.server.title'', js ''Serveri viga''),
    (''error.server'', js ''Tekkis ootamatu viga.''),
    (''error.bad_request.title'', js ''Vigane p`00E4ring''),
    (''error.cross_site'', js ''Teiselt saidilt tulnud p`00E4ring blokeeriti''),
    (''error.csrf'', js ''Vigane CSRF-t`00F5end''),
    (''error.invalid_expiry'', js ''Vigane aegumiskuup`00E4ev''),
    (''link.invalid.title'', js ''Vigane link''),
    (''link.invalid'', js ''Seda `00FCleslaadimislinki ei ole olemas.''),
    (''link.unavailable.title'', js ''Link ei ole saadaval''),
    (''link.expired'', js ''See link on aegunud.''),
    (''link.revoked'', js ''See link on t`00FChistatud.'')]"

definition et_3 :: messages where
  "et_3 = [
    (''link.case_closed'', js ''Toimik on suletud ega v`00F5ta enam faile vastu.''),
    (''link.contact'', js ''V`00F5ta `00FChendust inimesega, kes sulle lingi andis.''),
    (''login.title'', js ''Administraatori sisselogimine''),
    (''login.username'', js ''Kasutajanimi''),
    (''login.password'', js ''Parool''),
    (''login.submit'', js ''Logi sisse''),
    (''login.failed'', js ''Vale kasutajanimi v`00F5i parool.''),
    (''login.too_many_codes'', js ''Liiga palju valesid koode. Logi uuesti sisse.''),
    (''login.account_locked'', js ''Selle konto jaoks on sisestatud liiga palju valesid koode. Teine tegur on 15 minutiks lukus.''),
    (''totp.title'', js ''Kood sinu autentimisrakendusest''),
    (''totp.code_label'', js ''Kood (6 numbrit) v`00F5i taastekood''),
    (''totp.confirm'', js ''Kinnita''),
    (''totp.cancel_logout'', js ''T`00FChista ja logi v`00E4lja''),
    (''totp.invalid'', js ''Vigane kood.''),
    (''totp.attempts_left'', js ''Katseid j`00E4`00E4nud: {n}.''),
    (''totp.locked_until'', js ''Konto on paljude valede koodide j`00E4rel ajutiselt lukus (kuni {until} UTC).''),
    (''security.title'', js ''Konto `201E{user}`201C turvalisus''),
    (''security.required_notice'', js ''See eksemplar n`00F5uab teist tegurit. Paneel j`00E4`00E4b k`00E4ttesaamatuks, kuni lisate allpool autentimisrakenduse v`00F5i p`00E4`00E4suv`00F5tme.''),
    (''security.status'', js ''Kaheastmeline autentimine (TOTP, RFC 6238): {state}.''),
    (''security.enabled'', js ''sees'')]"

definition et_4 :: messages where
  "et_4 = [
    (''security.disabled'', js ''v`00E4ljas''),
    (''security.recovery_left'', js ''Kasutamata taastekoode: {n}.''),
    (''security.recovery.title'', js ''Taastekoodid''),
    (''security.recovery.intro'', js ''Salvesta need kohe turvalisse kohta. Iga kood t`00F6`00F6tab `00FChe korra ja asendab rakenduse koodi, kui kaotad rakendusele juurdep`00E4`00E4su. Neid ei n`00E4idata uuesti.''),
    (''security.enable.title'', js ''L`00FClita TOTP sisse''),
    (''security.enable.intro'', js ''Vajad autentimisrakendust (nt Aegis, Google Authenticator, 1Password, Bitwarden). P`00E4rast sissel`00FClitamist n`00F5uab sisselogimine parooli ja kehtivat koodi.''),
    (''security.enable.start'', js ''Alusta seadistamist''),
    (''security.step1'', js ''1. samm: skanni kood rakendusega''),
    (''security.manual_key'', js ''V`00F5i sisesta v`00F5ti k`00E4sitsi:''),
    (''security.key_params'', js ''T`00FC`00FCp: TOTP, SHA-1, 6 numbrit, 30 s. V`00E4ljaandja: {issuer}, konto: {user}.''),
    (''security.open_in_app'', js ''Ava autentimisrakenduses''),
    (''security.on_phone'', js ''(telefonis)''),
    (''security.step2'', js ''2. samm: kinnita koodiga''),
    (''security.code_from_app'', js ''Kood rakendusest''),
    (''security.enable.submit'', js ''L`00FClita TOTP sisse''),
    (''security.pending_note'', js ''V`00F5ti on ajutine kuni kinnitamiseni; seadistamise uuesti alustamine loob uue.''),
    (''security.current_code'', js ''Rakenduse praegune kood''),
    (''security.regenerate'', js ''Loo uued koodid (vanad lakkavad t`00F6`00F6tamast)''),
    (''security.disable.title'', js ''L`00FClita TOTP v`00E4lja''),
    (''security.disable.intro'', js ''N`00F5uab rakenduse praegust koodi v`00F5i taastekoodi: ainult seansist (nt varastatud k`00FCpsis) ei piisa. Kui nii rakendus kui ka taastekoodid on kadunud, saab haldaja serveris k`00E4ivitada k`00E4su {cmd}.'')]"

definition et_5 :: messages where
  "et_5 = [
    (''security.disable.code'', js ''Kood''),
    (''security.disable.submit'', js ''L`00FClita v`00E4lja''),
    (''security.disable.confirm'', js ''Kas l`00FClitada kaheastmeline autentimine v`00E4lja?''),
    (''security.msg.enabled'', js ''Kaheastmeline autentimine on sisse l`00FClitatud.''),
    (''security.msg.code_mismatch'', js ''Kood ei klapi. Kontrolli telefoni kellaaega ja proovi uuesti.''),
    (''security.msg.invalid_code'', js ''Vigane kood.''),
    (''security.msg.regenerated'', js ''Loodi uued taastekoodid.''),
    (''security.msg.required'', js ''See eksemplar n`00F5uab TOTP-d (ADMIN_REQUIRE_TOTP); seda ei saa v`00E4lja l`00FClitada.''),
    (''security.msg.disabled'', js ''Kaheastmeline autentimine on v`00E4lja l`00FClitatud.''),
    (''security.password.title'', js ''Muuda parooli''),
    (''security.password.current'', js ''Praegune parool''),
    (''security.password.new'', js ''Uus parool (v`00E4hemalt 12 m`00E4rki)''),
    (''security.password.confirm'', js ''Kinnita uus parool''),
    (''security.password.submit'', js ''Muuda parooli''),
    (''security.password.mismatch'', js ''Uus parool ja selle kinnitus ei `00FChti.''),
    (''security.password.invalid_current'', js ''Praegune parool on vale.''),
    (''security.password.changed'', js ''Parool on muudetud. Selle konto teised seansid on v`00E4lja logitud.''),
    (''home.title'', js ''inletbox''),
    (''home.message'', js ''See on privaatne failide `00FCleandmiskast. Failide `00FCleslaadimiseks kasuta linki, mille said failid k`00FCsinud inimeselt.''),
    (''cases.new'', js ''Uus toimik'')]"

definition et_6 :: messages where
  "et_6 = [
    (''cases.name'', js ''Nimi''),
    (''cases.name_placeholder'', js ''nt Audit 2026/09 `2013 klient X''),
    (''cases.description_optional'', js ''Kirjeldus (valikuline)''),
    (''cases.description'', js ''Kirjeldus''),
    (''cases.list'', js ''Toimikud''),
    (''cases.empty'', js ''Toimikuid pole.''),
    (''cases.col.name'', js ''Nimi''),
    (''cases.col.status'', js ''Olek''),
    (''cases.col.links'', js ''Aktiivsed lingid''),
    (''cases.col.files'', js ''Failid''),
    (''cases.col.size'', js ''Suurus''),
    (''cases.col.created'', js ''Loodud''),
    (''case.open'', js ''avatud''),
    (''case.closed'', js ''suletud''),
    (''case.close'', js ''Sulge toimik''),
    (''case.reopen'', js ''Ava uuesti''),
    (''case.meta'', js ''ID: {id} `00B7 loodud {date}. Suletud toimik ei v`00F5ta `00FCleslaadimisi vastu `00FChegi oma lingi kaudu.''),
    (''case.saved'', js ''Salvestatud.''),
    (''case.closed_no_links'', js ''Toimik on suletud `2013 linkide loomiseks ava see uuesti.''),
    (''case.new_link.title'', js ''Uus link: `201E{label}`201C'')]"

definition et_7 :: messages where
  "et_7 = [
    (''case.new_link.intro'', js ''Kopeeri see kohe. T`00F5endit hoitakse ainult r`00E4sina ja seda ei saa hiljem taastada `2013 saad luua ainult uue lingi.''),
    (''case.new_link.copy_now'', js ''Kopeeri see kohe.''),
    (''links.title'', js ''`00DCleslaadimislingid''),
    (''links.intro'', js ''Iga link on eraldi saaja ja eraldi n`00E4htavusala: lingi omanik n`00E4eb ainult selle lingi kaudu saadetud faile ega saa neid alla laadida ega kustutada. K`00F5igil, kes teavad sama linki, on t`00E4pselt sama juurdep`00E4`00E4s `2013 rakendus ei erista sama linki kasutavaid inimesi.''),
    (''links.generate'', js ''Loo uus link''),
    (''links.label'', js ''Saaja nimetus''),
    (''links.label_placeholder'', js ''nt Mari Tamm `2013 raamatupidamine''),
    (''links.expires'', js ''Kehtib kuni (UTC, valikuline)''),
    (''links.max_file'', js ''Faili max suurus (valikuline, `2264 {max})''),
    (''links.max_file_placeholder'', js ''nt 500MB''),
    (''links.max_files'', js ''Failide max arv (valikuline)''),
    (''links.max_total'', js ''Max kogumaht (valikuline)''),
    (''links.max_total_placeholder'', js ''nt 2GB''),
    (''links.submit'', js ''Loo link''),
    (''links.empty'', js ''Linke pole.''),
    (''links.col.recipient'', js ''Saaja''),
    (''links.col.state'', js ''Olek''),
    (''links.col.expires'', js ''Kehtib kuni''),
    (''links.col.limits'', js ''Piirangud''),
    (''links.col.usage'', js ''Kasutus'')]"

definition et_8 :: messages where
  "et_8 = [
    (''links.col.last_used'', js ''Viimati kasutatud''),
    (''links.state.active'', js ''aktiivne''),
    (''links.state.expired'', js ''aegunud''),
    (''links.state.revoked'', js ''t`00FChistatud''),
    (''links.state.case_closed'', js ''toimik suletud''),
    (''links.limit.file'', js ''fail `2264 {max}''),
    (''links.limit.files'', js ''faile `2264 {n}''),
    (''links.limit.total'', js ''kokku `2264 {max}''),
    (''links.usage'', js ''faile: {n}, {size}''),
    (''links.usage_in_progress'', js ''pooleli: {n} (reserveeritud {size})''),
    (''links.revoke'', js ''T`00FChista''),
    (''links.revoke_confirm'', js ''Kas t`00FChistada link `201E{label}`201C? Pooleliolevad `00FCleslaadimised katkestatakse.''),
    (''files.title'', js ''Failid''),
    (''files.empty'', js ''Faile pole.''),
    (''files.col.name'', js ''Nimi''),
    (''files.col.recipient'', js ''Saaja (link)''),
    (''files.col.size'', js ''Suurus''),
    (''files.col.status'', js ''Olek''),
    (''files.col.uploaded'', js ''`00DCles laaditud''),
    (''files.declared'', js ''{size} (deklareeritud)'')]"

definition et_9 :: messages where
  "et_9 = [
    (''files.download'', js ''Laadi alla''),
    (''files.delete'', js ''Kustuta''),
    (''files.delete_confirm'', js ''Kas kustutada fail `201E{name}`201C? Seda ei saa tagasi v`00F5tta.''),
    (''files.untrusted'', js ''Faile k`00E4sitletakse ebausaldusv`00E4`00E4rsetena: allalaadimised on alati manused ja serveris ei kuvata ega k`00E4ivitata midagi. Viirusekontroll ei kuulu sellesse versiooni.''),
    (''files.status.uploading'', js ''pooleli''),
    (''files.status.complete'', js ''valmis''),
    (''files.status.aborted'', js ''katkestatud''),
    (''files.status.expired'', js ''aegunud''),
    (''files.status.missing'', js ''hoidlast puudu''),
    (''files.status.deleted'', js ''kustutatud''),
    (''audit.title'', js ''Auditilogi (viimased {n})''),
    (''audit.col.time'', js ''Aeg''),
    (''audit.col.actor'', js ''Tegija''),
    (''audit.col.action'', js ''S`00FCndmus''),
    (''audit.col.case'', js ''Toimik''),
    (''audit.col.link'', js ''Link''),
    (''audit.col.file'', js ''Fail''),
    (''audit.col.ip'', js ''IP''),
    (''audit.col.details'', js ''`00DCksikasjad''),
    (''upload.title'', js ''`00DCleslaadimine: {case}'')]"

definition et_10 :: messages where
  "et_10 = [
    (''upload.link_for'', js ''Link saajale:''),
    (''upload.valid_until'', js ''kehtib kuni {date}''),
    (''upload.limit.file'', js ''Faili maksimaalne suurus:''),
    (''upload.limit.files'', js ''Failide maksimaalne arv:''),
    (''upload.limit.total'', js ''Andmete kogupiirang:''),
    (''upload.used_n'', js ''(kasutatud {n})''),
    (''upload.used_size'', js ''(kasutatud {size})''),
    (''upload.send'', js ''Laadi failid `00FCles''),
    (''upload.drop_here'', js ''Lohista failid siia''),
    (''upload.or'', js ''v`00F5i''),
    (''upload.choose'', js ''vali kettalt''),
    (''upload.resume_hint'', js ''Suured failid saadetakse osadena ja `00FCleslaadimist saab p`00E4rast `00FChenduse katkemist j`00E4tkata. P`00E4rast lehe uuesti laadimist vali sama fail uuesti ja `00FCleslaadimine j`00E4tkub sealt, kus see pooleli j`00E4i.''),
    (''upload.your_files'', js ''Sinu failid''),
    (''upload.your_files_intro'', js ''N`00E4ed ainult selle lingi kaudu `00FCles laaditud faile. Siin ei saa faile alla laadida ega kustutada `2013 administraator v`00F5tab need vastu.''),
    (''upload.col.name'', js ''Nimi''),
    (''upload.col.size'', js ''Suurus''),
    (''upload.col.date'', js ''Kuup`00E4ev''),
    (''upload.col.status'', js ''Olek''),
    (''upload.none_yet'', js ''Faile pole veel `00FCles laaditud.''),
    (''upload.list_failed'', js ''Loendit ei `00F5nnestunud laadida: {msg}'')]"

definition et_11 :: messages where
  "et_11 = [
    (''upload.terminal'', js ''`00DCleslaadimine terminalist''),
    (''upload.terminal_hint'', js ''(curl, skriptid, j`00E4tkatavad edastused)''),
    (''upload.terminal_intro'', js ''Asenda {path} oma faili teega (t`00FChikud ei sega). Nullist erinev v`00E4ljumiskood t`00E4hendab viga; vastus on JSON-vormingus.''),
    (''upload.snippet.single'', js ''`00DCks fail''),
    (''upload.snippet.multi'', js ''Mitu faili''),
    (''upload.snippet.env'', js ''T`00F5end keskkonnamuutujas (soovitatav)''),
    (''upload.snippet.list'', js ''`00DCles laaditud failide loend''),
    (''upload.snippet.resumable'', js ''Suur fail j`00E4tkamisega (skript {script})''),
    (''upload.history_warning'', js ''T`00E4helepanu: t`00F5endit sisaldav k`00E4sk j`00E4`00E4b kesta ajalukku (nt {file}). T`00FChikuga algavat export-varianti ei salvestata, kui {opt} on seatud. K`00E4sitle seda linki nagu parooli ja `00E4ra anna seda edasi.''),
    (''upload.path_placeholder'', js ''/tee/failini.pdf''),
    (''upload.path_placeholder2'', js ''/tee/aruanne.pdf''),
    (''upload.path_placeholder3'', js ''/tee/foto 1.jpg''),
    (''upload.path_placeholder_big'', js ''/tee/suur fail.iso''),
    (''upload.js.queued'', js ''j`00E4rjekorras`2026''),
    (''upload.js.too_large'', js ''liiga suur: piirang {max}''),
    (''upload.js.error'', js ''viga: {msg}''),
    (''upload.js.starting'', js ''alustan`2026''),
    (''upload.js.resuming'', js ''j`00E4tkan eelmist `00FCleslaadimist`2026''),
    (''upload.js.retrying'', js ''proovin uuesti`2026''),
    (''upload.js.done'', js ''valmis'')]"

definition et_12 :: messages where
  "et_12 = [
    (''upload.js.finalising'', js ''k`00F5ik andmed saadetud, server l`00F5petab`2026''),
    (''upload.js.cancelled'', js ''t`00FChistatud''),
    (''upload.js.cancelled_local'', js ''t`00FChistatud (kohalikult)''),
    (''upload.js.status.uploading'', js ''pooleli''),
    (''upload.js.status.complete'', js ''valmis''),
    (''nav.users'', js ''Kasutajad''),
    (''cases.empty_assigned'', js ''Sulle pole veel `00FChtegi toimikut m`00E4`00E4ratud. Sind saab toimikule m`00E4`00E4rata kolleeg, kes selle kallal t`00F6`00F6tab, v`00F5i administraator, v`00F5i saad `00FClal uue toimiku luua.''),
    (''error.forbidden.title'', js ''Pole lubatud''),
    (''error.forbidden'', js ''See leht on ainult administraatoritele.''),
    (''security.must_change_notice'', js ''Sinu parooli andis administraator. Enne j`00E4tkamist sea allpool oma parool.''),
    (''members.title'', js ''M`00E4`00E4ratud kasutajad''),
    (''members.intro'', js ''Kasutaja n`00E4eb ainult toimikuid, millele ta on m`00E4`00E4ratud. Administraatorid n`00E4evad k`00F5iki toimikuid.''),
    (''members.empty'', js ''Sellele toimikule pole `00FChtegi kasutajat m`00E4`00E4ratud `2014 seda n`00E4evad ainult administraatorid.''),
    (''members.user'', js ''Kasutaja''),
    (''members.add'', js ''M`00E4`00E4ra''),
    (''members.added'', js ''Konto {username} on n`00FC`00FCd sellele toimikule m`00E4`00E4ratud.''),
    (''members.remove'', js ''Eemalda''),
    (''members.remove_confirm'', js ''Kas eemaldada {username}? Konto ei n`00E4e seda toimikut enam.''),
    (''members.removed'', js ''Kontol {username} pole enam sellele toimikule juurdep`00E4`00E4su.''),
    (''members.none_assignable'', js ''M`00E4`00E4ramiseks pole rohkem kasutajakontosid. Loo uus jaotises {link}.'')]"

definition et_13 :: messages where
  "et_13 = [
    (''users.new'', js ''Uus konto''),
    (''users.list'', js ''Kontod''),
    (''users.username'', js ''Kasutajanimi''),
    (''users.username_placeholder'', js ''nt anna.tamm@ettevote.ee''),
    (''users.role'', js ''Roll''),
    (''users.role.admin'', js ''Administraator''),
    (''users.role.user'', js ''Kasutaja''),
    (''users.roles_hint'', js ''Kasutaja n`00E4eb ja menetleb ainult toimikuid, millele ta on m`00E4`00E4ratud. Administraator n`00E4eb k`00F5iki toimikuid, haldab kontosid ja loeb auditilogi. Luuakse ajutine parool, mis tuleb esimesel sisselogimisel `00E4ra vahetada.''),
    (''users.col.username'', js ''Konto''),
    (''users.col.status'', js ''Olek''),
    (''users.col.totp'', js ''Teine tegur''),
    (''users.col.cases'', js ''Toimikud''),
    (''users.col.last_login'', js ''Viimane sisselogimine''),
    (''users.status.active'', js ''aktiivne''),
    (''users.status.disabled'', js ''keelatud''),
    (''users.status.must_change'', js ''parool vahetada''),
    (''users.you'', js ''sina''),
    (''users.all_cases'', js ''k`00F5ik''),
    (''users.issued.title'', js ''Konto {username} on loodud''),
    (''users.issued.reset_title'', js ''Uus parool kontole {username}'')]"

definition et_14 :: messages where
  "et_14 = [
    (''users.issued.copy_now'', js ''Kopeeri see parool kohe `2014 seda n`00E4idatakse ainult `00FCks kord.''),
    (''users.issued.intro'', js ''Anna see `00FCle muu kanali kaudu kui kasutajanimi. Esimesel sisselogimisel tuleb see asendada.''),
    (''users.make_admin'', js ''Tee administraatoriks''),
    (''users.make_user'', js ''Tee kasutajaks''),
    (''users.role_confirm'', js ''Kas muuta konto {username} rolli?''),
    (''users.role_changed'', js ''Konto {username} roll on n`00FC`00FCd: {role}.''),
    (''users.reset_password'', js ''Uus parool''),
    (''users.reset_password_confirm'', js ''Kas anda kontole {username} uus parool? Praegune lakkab t`00F6`00F6tamast ja k`00F5ik konto seansid l`00F5pevad.''),
    (''users.password_reset'', js ''Kontole {username} anti uus parool ja konto logiti v`00E4lja.''),
    (''users.reset_totp'', js ''L`00E4htesta 2FA''),
    (''users.reset_totp_confirm'', js ''Kas eemaldada konto {username} teine tegur? See seadistatakse uuesti p`00E4rast j`00E4rgmist sisselogimist.''),
    (''users.totp_reset'', js ''Kontolt {username} eemaldati kaheastmeline autentimine.''),
    (''users.disable'', js ''Keela''),
    (''users.disable_confirm'', js ''Kas keelata {username}? Konto logitakse v`00E4lja ega saa sisse logida enne, kui see uuesti lubatakse.''),
    (''users.disabled'', js ''Konto {username} keelati ja logiti v`00E4lja.''),
    (''users.enable'', js ''Luba''),
    (''users.enabled'', js ''Konto {username} saab j`00E4lle sisse logida.''),
    (''users.delete'', js ''Kustuta''),
    (''users.delete_confirm'', js ''Kas kustutada konto {username}? Koos sellega kaovad selle toimikum`00E4`00E4rangud; auditilogi s`00E4ilitab, mida see tegi.''),
    (''users.deleted'', js ''Konto {username} kustutati.'')]"

definition et_15 :: messages where
  "et_15 = [
    (''users.missing'', js ''Sellist kontot pole.''),
    (''users.not_self'', js ''Oma kontot siin muuta ei saa `2014 parool ja 2FA on jaotises Turvalisus.''),
    (''users.last_admin'', js ''Alles peab j`00E4`00E4ma v`00E4hemalt `00FCks aktiivne administraator.''),
    (''users.exists'', js ''Konto nimega {username} on juba olemas.''),
    (''users.invalid_username'', js ''Kasutajanimes on 2`201364 m`00E4rki: t`00E4hed, numbrid ning . _ @ -''),
    (''users.invalid_role'', js ''Tundmatu roll.''),
    (''members.not_self'', js ''Iseennast ei saa eemaldada. Palu seda kelleltki teiselt selle toimiku juurest v`00F5i administraatorilt.''),
    (''members.none_assignable_user'', js ''M`00E4`00E4ramiseks pole `00FChtegi teist kasutajakontot.''),
    (''second.title'', js ''Sisselogimise teine samm''),
    (''second.recovery_label'', js ''Taastekood''),
    (''common.or'', js ''v`00F5i''),
    (''passkey.use'', js ''Kasuta p`00E4`00E4suv`00F5tit''),
    (''passkey.unsupported'', js ''See brauser ei toeta p`00E4`00E4suv`00F5tmeid.''),
    (''passkey.failed'', js ''P`00E4`00E4suv`00F5tit ei saanud kinnitada. Proovi uuesti.''),
    (''passkey.cancelled'', js ''T`00FChistatud. Proovi uuesti, kui oled valmis.''),
    (''confirm.title'', js ''Kinnita oma isik''),
    (''confirm.intro'', js ''See toiming vajab hiljutist kinnitust. See j`00E4`00E4b seej`00E4rel kehtima {minutes} minutiks, nii et sinult ei k`00FCsita uuesti igal sammul.''),
    (''confirm.repeat'', js ''P`00E4rast kinnitamist korda pooleli olnud toimingut.''),
    (''confirm.code_label'', js ''Kood rakendusest v`00F5i taastekood''),
    (''confirm.password_label'', js ''Sinu parool'')]"

definition et_16 :: messages where
  "et_16 = [
    (''confirm.submit'', js ''Kinnita''),
    (''confirm.invalid'', js ''Kood ei klappinud. Proovi uuesti.''),
    (''confirm.locked'', js ''Selle konto jaoks on sisestatud liiga palju valesid koode. Proovi 15 minuti p`00E4rast uuesti.''),
    (''passkeys.title'', js ''P`00E4`00E4suv`00F5tmed''),
    (''passkeys.intro'', js ''P`00E4`00E4suv`00F5tit hoitakse sinu seadmes, paroolihalduris v`00F5i turvav`00F5tmel ning seda ei saa andmep`00FC`00FCgiga varastada. See toimib sisselogimise teise sammuna ja tundlike toimingute kinnitamiseks.''),
    (''passkeys.none'', js ''P`00E4`00E4suv`00F5tmeid pole veel.''),
    (''passkeys.name'', js ''Nimi''),
    (''passkeys.name_placeholder'', js ''nt s`00FClearvuti, turvav`00F5ti''),
    (''passkeys.added_at'', js ''Lisatud''),
    (''passkeys.last_used'', js ''Viimati kasutatud''),
    (''passkeys.add'', js ''Lisa p`00E4`00E4suv`00F5ti''),
    (''passkeys.remove'', js ''Eemalda''),
    (''passkeys.remove_confirm'', js ''Kas eemaldada see p`00E4`00E4suv`00F5ti? Selle konto teised seansid logitakse v`00E4lja.''),
    (''passkeys.added'', js ''P`00E4`00E4suv`00F5ti `201E{name}`201C on lisatud.''),
    (''passkeys.removed'', js ''P`00E4`00E4suv`00F5ti `201E{name}`201C on eemaldatud. Selle konto teised seansid on v`00E4lja logitud.''),
    (''passkeys.last_required'', js ''See eksemplar n`00F5uab teist tegurit. Enne viimase eemaldamist lisa veel `00FCks.''),
    (''passkeys.limit'', js ''Kontol v`00F5ib olla kuni {n} p`00E4`00E4suv`00F5tit.''),
    (''passkeys.duplicate'', js ''See p`00E4`00E4suv`00F5ti on juba registreeritud.''),
    (''security.recovery.regenerate_confirmed'', js ''Loo uued koodid (vanad lakkavad t`00F6`00F6tamast)''),
    (''sessions.title'', js ''Aktiivsed seansid'')]"

definition et_17 :: messages where
  "et_17 = [
    (''sessions.intro'', js ''K`00F5ik kohad, kuhu see konto on sisse logitud. Logi v`00E4lja need, mida sa `00E4ra ei tunne, ja seej`00E4rel muuda oma parool.''),
    (''sessions.device'', js ''Seade''),
    (''sessions.ip'', js ''IP-aadress''),
    (''sessions.started'', js ''Alustatud''),
    (''sessions.last_seen'', js ''Viimane tegevus''),
    (''sessions.current'', js ''see seanss''),
    (''sessions.pending'', js ''ainult parool, teine samm tegemata''),
    (''sessions.bound'', js ''seotud selle seadmega''),
    (''sessions.factor'', js ''teine samm: {factor}''),
    (''sessions.via.totp'', js ''rakenduse kood''),
    (''sessions.via.recovery'', js ''taastekood''),
    (''sessions.via.passkey'', js ''p`00E4`00E4suv`00F5ti''),
    (''sessions.unknown_device'', js ''Tundmatu seade''),
    (''sessions.revoke'', js ''Logi v`00E4lja''),
    (''sessions.revoke_others'', js ''Logi k`00F5ik teised seansid v`00E4lja''),
    (''sessions.revoked'', js ''Seanss on v`00E4lja logitud.''),
    (''sessions.revoked_others'', js ''K`00F5ik teised seansid on v`00E4lja logitud.'')]"

definition et_messages :: messages where
  "et_messages = et_1 @ et_2 @ et_3 @ et_4 @ et_5 @ et_6 @ et_7 @ et_8 @ et_9 @ et_10 @ et_11 @ et_12 @ et_13 @ et_14 @ et_15 @ et_16 @ et_17"

lemmas et_defs =
  et_1_def et_2_def et_3_def et_4_def et_5_def et_6_def et_7_def et_8_def et_9_def et_10_def et_11_def et_12_def et_13_def et_14_def
  et_15_def et_16_def et_17_def

lemma et_fits: "fits et_messages message_shape"
  unfolding et_messages_def message_shape_def
  by (intro fits_append; unfold et_defs shape_defs; simp only: fits_rules cong: literal_congs)

end
