(* ===== verification/Locale_Fi.thy ===== *)
theory Locale_Fi
  imports Locale_En
begin

text \<open>src/locales/fi.ts: Finnish.\<close>

definition fi_1 :: messages where
  "fi_1 = [
    (''app.tagline'', js ''yksityinen tiedostojen palautuslaatikko''),
    (''common.back_to_cases'', js ''`2190 Asiat''),
    (''common.home'', js ''Etusivu''),
    (''common.copy'', js ''Kopioi''),
    (''common.copied'', js ''Kopioitu''),
    (''common.copy_manual'', js ''Valitse ja kopioi k`00E4sin''),
    (''common.save'', js ''Tallenna''),
    (''common.create'', js ''Luo''),
    (''common.cancel'', js ''Peruuta''),
    (''common.retry'', js ''Yrit`00E4 uudelleen''),
    (''common.never'', js ''ei koskaan''),
    (''common.unlimited'', js ''ei vanhene''),
    (''common.none'', js ''`2014''),
    (''common.optional'', js ''valinnainen''),
    (''common.loading'', js ''Ladataan`2026''),
    (''common.yes'', js ''Kyll`00E4''),
    (''common.language'', js ''Kieli''),
    (''nav.cases'', js ''Asiat''),
    (''nav.audit'', js ''Tapahtumaloki''),
    (''nav.security'', js ''Tietoturva'')]"

definition fi_2 :: messages where
  "fi_2 = [
    (''nav.logout'', js ''Kirjaudu ulos''),
    (''error.not_found.title'', js ''Ei l`00F6ytynyt''),
    (''error.page_missing'', js ''Sivua ei ole olemassa.''),
    (''error.case_missing'', js ''Asiaa ei ole olemassa.''),
    (''error.link_missing'', js ''Linkki`00E4 ei ole olemassa.''),
    (''error.file_missing'', js ''Tiedostoa ei ole olemassa tai se ei ole saatavilla.''),
    (''error.file_not_exist'', js ''Tiedostoa ei ole olemassa.''),
    (''error.storage_missing.title'', js ''Tiedosto puuttuu tallennustilasta''),
    (''error.storage_missing'', js ''Metatiedot ovat olemassa, mutta objekti on kadonnut tallennustilasta. Suorita siivous, jotta tiedosto merkit`00E4`00E4n puuttuvaksi.''),
    (''error.server.title'', js ''Palvelinvirhe''),
    (''error.server'', js ''Tapahtui odottamaton virhe.''),
    (''error.bad_request.title'', js ''Virheellinen pyynt`00F6''),
    (''error.cross_site'', js ''Sivustojen v`00E4linen pyynt`00F6 estettiin''),
    (''error.csrf'', js ''Virheellinen CSRF-tunniste''),
    (''error.invalid_expiry'', js ''Virheellinen vanhenemisp`00E4iv`00E4''),
    (''link.invalid.title'', js ''Virheellinen linkki''),
    (''link.invalid'', js ''T`00E4t`00E4 latauslinkki`00E4 ei ole olemassa.''),
    (''link.unavailable.title'', js ''Linkki ei ole k`00E4ytett`00E4viss`00E4''),
    (''link.expired'', js ''T`00E4m`00E4 linkki on vanhentunut.''),
    (''link.revoked'', js ''T`00E4m`00E4 linkki on peruttu.'')]"

definition fi_3 :: messages where
  "fi_3 = [
    (''link.case_closed'', js ''Asia on suljettu, eik`00E4 se en`00E4`00E4 vastaanota tiedostoja.''),
    (''link.contact'', js ''Ota yhteytt`00E4 henkil`00F6`00F6n, joka antoi sinulle linkin.''),
    (''login.title'', js ''Yll`00E4pit`00E4j`00E4n kirjautuminen''),
    (''login.username'', js ''K`00E4ytt`00E4j`00E4tunnus''),
    (''login.password'', js ''Salasana''),
    (''login.submit'', js ''Kirjaudu''),
    (''login.failed'', js ''Virheellinen k`00E4ytt`00E4j`00E4tunnus tai salasana.''),
    (''login.too_many_codes'', js ''Liian monta v`00E4`00E4r`00E4`00E4 koodia. Kirjaudu uudelleen.''),
    (''login.account_locked'', js ''T`00E4lle tilille on sy`00F6tetty liian monta v`00E4`00E4r`00E4`00E4 koodia. Toinen tunnistautumisvaihe on lukittu 15 minuutiksi.''),
    (''totp.title'', js ''Koodi todennussovelluksestasi''),
    (''totp.code_label'', js ''Koodi (6 numeroa) tai palautuskoodi''),
    (''totp.confirm'', js ''Vahvista''),
    (''totp.cancel_logout'', js ''Peruuta ja kirjaudu ulos''),
    (''totp.invalid'', js ''Virheellinen koodi.''),
    (''totp.attempts_left'', js ''Yrityksi`00E4 j`00E4ljell`00E4: {n}.''),
    (''totp.locked_until'', js ''Tili on tilap`00E4isesti lukittu monen v`00E4`00E4r`00E4n koodin j`00E4lkeen ({until} UTC asti).''),
    (''security.title'', js ''Tilin `201D{user}`201D tietoturva''),
    (''security.required_notice'', js ''T`00E4m`00E4 instanssi vaatii toisen tekij`00E4n. Hallintapaneeli pysyy poissa k`00E4yt`00F6st`00E4, kunnes lis`00E4`00E4t alta todennussovelluksen tai p`00E4`00E4syavaimen.''),
    (''security.status'', js ''Kaksivaiheinen tunnistautuminen (TOTP, RFC 6238): {state}.''),
    (''security.enabled'', js ''k`00E4yt`00F6ss`00E4'')]"

definition fi_4 :: messages where
  "fi_4 = [
    (''security.disabled'', js ''pois k`00E4yt`00F6st`00E4''),
    (''security.recovery_left'', js ''K`00E4ytt`00E4m`00E4tt`00F6mi`00E4 palautuskoodeja: {n}.''),
    (''security.recovery.title'', js ''Palautuskoodit''),
    (''security.recovery.intro'', js ''Tallenna ne nyt turvalliseen paikkaan. Kukin toimii kerran ja korvaa sovelluksen koodin, jos menet`00E4t p`00E4`00E4syn sovellukseen. Niit`00E4 ei n`00E4ytet`00E4 uudelleen.''),
    (''security.enable.title'', js ''Ota TOTP k`00E4ytt`00F6`00F6n''),
    (''security.enable.intro'', js ''Tarvitset todennussovelluksen (esim. Aegis, Google Authenticator, 1Password, Bitwarden). K`00E4ytt`00F6`00F6noton j`00E4lkeen kirjautuminen vaatii salasanan ja voimassa olevan koodin.''),
    (''security.enable.start'', js ''Aloita m`00E4`00E4ritys''),
    (''security.step1'', js ''Vaihe 1: skannaa koodi sovelluksellasi''),
    (''security.manual_key'', js ''Tai sy`00F6t`00E4 avain k`00E4sin:''),
    (''security.key_params'', js ''Tyyppi: TOTP, SHA-1, 6 numeroa, 30 s. My`00F6nt`00E4j`00E4: {issuer}, tili: {user}.''),
    (''security.open_in_app'', js ''Avaa todennussovelluksessa''),
    (''security.on_phone'', js ''(puhelimessa)''),
    (''security.step2'', js ''Vaihe 2: vahvista koodilla''),
    (''security.code_from_app'', js ''Sovelluksen koodi''),
    (''security.enable.submit'', js ''Ota TOTP k`00E4ytt`00F6`00F6n''),
    (''security.pending_note'', js ''Avain on v`00E4liaikainen vahvistukseen asti; m`00E4`00E4rityksen aloittaminen uudelleen luo uuden avaimen.''),
    (''security.current_code'', js ''Sovelluksen nykyinen koodi''),
    (''security.regenerate'', js ''Luo uudet koodit (vanhat lakkaavat toimimasta)''),
    (''security.disable.title'', js ''Poista TOTP k`00E4yt`00F6st`00E4''),
    (''security.disable.intro'', js ''Vaatii sovelluksen nykyisen koodin tai palautuskoodin: pelkk`00E4 istunto (esim. varastettu ev`00E4ste) ei riit`00E4. Jos sek`00E4 sovellus ett`00E4 palautuskoodit ovat kadonneet, yll`00E4pit`00E4j`00E4 voi ajaa palvelimella komennon {cmd}.'')]"

definition fi_5 :: messages where
  "fi_5 = [
    (''security.disable.code'', js ''Koodi''),
    (''security.disable.submit'', js ''Poista k`00E4yt`00F6st`00E4''),
    (''security.disable.confirm'', js ''Poistetaanko kaksivaiheinen tunnistautuminen k`00E4yt`00F6st`00E4?''),
    (''security.msg.enabled'', js ''Kaksivaiheinen tunnistautuminen on k`00E4yt`00F6ss`00E4.''),
    (''security.msg.code_mismatch'', js ''Koodi ei t`00E4sm`00E4`00E4. Tarkista puhelimesi kellonaika ja yrit`00E4 uudelleen.''),
    (''security.msg.invalid_code'', js ''Virheellinen koodi.''),
    (''security.msg.regenerated'', js ''Uudet palautuskoodit luotu.''),
    (''security.msg.required'', js ''T`00E4m`00E4 instanssi vaatii TOTP:n (ADMIN_REQUIRE_TOTP); sit`00E4 ei voi poistaa k`00E4yt`00F6st`00E4.''),
    (''security.msg.disabled'', js ''Kaksivaiheinen tunnistautuminen on poistettu k`00E4yt`00F6st`00E4.''),
    (''security.password.title'', js ''Vaihda salasana''),
    (''security.password.current'', js ''Nykyinen salasana''),
    (''security.password.new'', js ''Uusi salasana (v`00E4h. 12 merkki`00E4)''),
    (''security.password.confirm'', js ''Vahvista uusi salasana''),
    (''security.password.submit'', js ''Vaihda salasana''),
    (''security.password.mismatch'', js ''Uusi salasana ja sen vahvistus eiv`00E4t t`00E4sm`00E4`00E4.''),
    (''security.password.invalid_current'', js ''Nykyinen salasana on v`00E4`00E4rin.''),
    (''security.password.changed'', js ''Salasana vaihdettu. Tilin muut istunnot on kirjattu ulos.''),
    (''home.title'', js ''inletbox''),
    (''home.message'', js ''T`00E4m`00E4 on yksityinen tiedostojen palautuslaatikko. Lataa tiedostot k`00E4ytt`00E4m`00E4ll`00E4 linkki`00E4, jonka sait tiedostoja pyyt`00E4neelt`00E4 henkil`00F6lt`00E4.''),
    (''cases.new'', js ''Uusi asia'')]"

definition fi_6 :: messages where
  "fi_6 = [
    (''cases.name'', js ''Nimi''),
    (''cases.name_placeholder'', js ''esim. Tarkastus 2026/09 `2013 Asiakas X''),
    (''cases.description_optional'', js ''Kuvaus (valinnainen)''),
    (''cases.description'', js ''Kuvaus''),
    (''cases.list'', js ''Asiat''),
    (''cases.empty'', js ''Ei asioita.''),
    (''cases.col.name'', js ''Nimi''),
    (''cases.col.status'', js ''Tila''),
    (''cases.col.links'', js ''Aktiiviset linkit''),
    (''cases.col.files'', js ''Tiedostot''),
    (''cases.col.size'', js ''Koko''),
    (''cases.col.created'', js ''Luotu''),
    (''case.open'', js ''avoin''),
    (''case.closed'', js ''suljettu''),
    (''case.close'', js ''Sulje asia''),
    (''case.reopen'', js ''Avaa uudelleen''),
    (''case.meta'', js ''ID: {id} `00B7 luotu {date}. Suljettu asia ei vastaanota latauksia mink`00E4`00E4n linkkins`00E4 kautta.''),
    (''case.saved'', js ''Tallennettu.''),
    (''case.closed_no_links'', js ''Asia on suljettu `2013 avaa se uudelleen luodaksesi linkkej`00E4.''),
    (''case.new_link.title'', js ''Uusi linkki: `201D{label}`201D'')]"

definition fi_7 :: messages where
  "fi_7 = [
    (''case.new_link.intro'', js ''Kopioi se nyt. Tunniste tallennetaan vain tiivisteen`00E4, eik`00E4 sit`00E4 voi palauttaa my`00F6hemmin `2013 voit vain luoda uuden linkin.''),
    (''case.new_link.copy_now'', js ''Kopioi se nyt.''),
    (''links.title'', js ''Latauslinkit''),
    (''links.intro'', js ''Jokainen linkki on erillinen vastaanottaja ja erillinen n`00E4kyvyysalue: linkin haltija n`00E4kee vain sen kautta l`00E4hetetyt tiedostot eik`00E4 voi ladata tai poistaa niit`00E4. Kaikilla, jotka tuntevat saman linkin, on t`00E4sm`00E4lleen sama p`00E4`00E4sy `2013 sovellus ei erottele samaa linkki`00E4 k`00E4ytt`00E4vi`00E4 ihmisi`00E4.''),
    (''links.generate'', js ''Luo uusi linkki''),
    (''links.label'', js ''Vastaanottajan nimi''),
    (''links.label_placeholder'', js ''esim. Maija Meik`00E4l`00E4inen `2013 kirjanpito''),
    (''links.expires'', js ''Voimassa asti (UTC, valinnainen)''),
    (''links.max_file'', js ''Tiedoston enimm`00E4iskoko (valinnainen, `2264 {max})''),
    (''links.max_file_placeholder'', js ''esim. 500MB''),
    (''links.max_files'', js ''Tiedostojen enimm`00E4ism`00E4`00E4r`00E4 (valinnainen)''),
    (''links.max_total'', js ''Enimm`00E4iskokonaiskoko (valinnainen)''),
    (''links.max_total_placeholder'', js ''esim. 2GB''),
    (''links.submit'', js ''Luo linkki''),
    (''links.empty'', js ''Ei linkkej`00E4.''),
    (''links.col.recipient'', js ''Vastaanottaja''),
    (''links.col.state'', js ''Tila''),
    (''links.col.expires'', js ''Voimassa asti''),
    (''links.col.limits'', js ''Rajat''),
    (''links.col.usage'', js ''K`00E4ytt`00F6'')]"

definition fi_8 :: messages where
  "fi_8 = [
    (''links.col.last_used'', js ''Viimeksi k`00E4ytetty''),
    (''links.state.active'', js ''aktiivinen''),
    (''links.state.expired'', js ''vanhentunut''),
    (''links.state.revoked'', js ''peruttu''),
    (''links.state.case_closed'', js ''asia suljettu''),
    (''links.limit.file'', js ''tiedosto `2264 {max}''),
    (''links.limit.files'', js ''tiedostoja `2264 {n}''),
    (''links.limit.total'', js ''yhteens`00E4 `2264 {max}''),
    (''links.usage'', js ''{n} tiedostoa, {size}''),
    (''links.usage_in_progress'', js ''{n} kesken ({size} varattu)''),
    (''links.revoke'', js ''Peru''),
    (''links.revoke_confirm'', js ''Perutaanko linkki `201D{label}`201D? K`00E4ynniss`00E4 olevat lataukset keskeytet`00E4`00E4n.''),
    (''files.title'', js ''Tiedostot''),
    (''files.empty'', js ''Ei tiedostoja.''),
    (''files.col.name'', js ''Nimi''),
    (''files.col.recipient'', js ''Vastaanottaja (linkki)''),
    (''files.col.size'', js ''Koko''),
    (''files.col.status'', js ''Tila''),
    (''files.col.uploaded'', js ''Ladattu''),
    (''files.declared'', js ''{size} (ilmoitettu)'')]"

definition fi_9 :: messages where
  "fi_9 = [
    (''files.download'', js ''Lataa''),
    (''files.delete'', js ''Poista''),
    (''files.delete_confirm'', js ''Poistetaanko tiedosto `201D{name}`201D? Toimintoa ei voi kumota.''),
    (''files.untrusted'', js ''Tiedostoja kohdellaan ep`00E4luotettavina: lataukset ovat aina liitteit`00E4, eik`00E4 palvelimella n`00E4ytet`00E4 tai suoriteta mit`00E4`00E4n. Virustarkistus ei kuulu t`00E4h`00E4n versioon.''),
    (''files.status.uploading'', js ''kesken''),
    (''files.status.complete'', js ''valmis''),
    (''files.status.aborted'', js ''keskeytetty''),
    (''files.status.expired'', js ''vanhentunut''),
    (''files.status.missing'', js ''puuttuu tallennustilasta''),
    (''files.status.deleted'', js ''poistettu''),
    (''audit.title'', js ''Tapahtumaloki (viimeiset {n})''),
    (''audit.col.time'', js ''Aika''),
    (''audit.col.actor'', js ''Toimija''),
    (''audit.col.action'', js ''Tapahtuma''),
    (''audit.col.case'', js ''Asia''),
    (''audit.col.link'', js ''Linkki''),
    (''audit.col.file'', js ''Tiedosto''),
    (''audit.col.ip'', js ''IP''),
    (''audit.col.details'', js ''Tiedot''),
    (''upload.title'', js ''Lataus: {case}'')]"

definition fi_10 :: messages where
  "fi_10 = [
    (''upload.link_for'', js ''Linkki henkil`00F6lle:''),
    (''upload.valid_until'', js ''voimassa {date} asti''),
    (''upload.limit.file'', js ''Tiedoston enimm`00E4iskoko:''),
    (''upload.limit.files'', js ''Tiedostojen enimm`00E4ism`00E4`00E4r`00E4:''),
    (''upload.limit.total'', js ''Kokonaisdataraja:''),
    (''upload.used_n'', js ''({n} k`00E4ytetty)''),
    (''upload.used_size'', js ''({size} k`00E4ytetty)''),
    (''upload.send'', js ''Lataa tiedostoja''),
    (''upload.drop_here'', js ''Ved`00E4 tiedostot t`00E4h`00E4n''),
    (''upload.or'', js ''tai''),
    (''upload.choose'', js ''valitse levylt`00E4''),
    (''upload.resume_hint'', js ''Suuret tiedostot l`00E4hetet`00E4`00E4n osissa, ja latausta voi jatkaa yhteyden katkettua. Kun olet ladannut sivun uudelleen, valitse sama tiedosto uudelleen, niin lataus jatkuu siit`00E4, mihin se j`00E4i.''),
    (''upload.your_files'', js ''Tiedostosi''),
    (''upload.your_files_intro'', js ''N`00E4et vain t`00E4m`00E4n linkin kautta ladatut tiedostot. Tiedostoja ei voi ladata tai poistaa t`00E4`00E4ll`00E4 `2013 yll`00E4pit`00E4j`00E4 noutaa ne.''),
    (''upload.col.name'', js ''Nimi''),
    (''upload.col.size'', js ''Koko''),
    (''upload.col.date'', js ''P`00E4iv`00E4m`00E4`00E4r`00E4''),
    (''upload.col.status'', js ''Tila''),
    (''upload.none_yet'', js ''Tiedostoja ei ole viel`00E4 ladattu.''),
    (''upload.list_failed'', js ''Luetteloa ei voitu ladata: {msg}'')]"

definition fi_11 :: messages where
  "fi_11 = [
    (''upload.terminal'', js ''Lataus p`00E4`00E4tteest`00E4''),
    (''upload.terminal_hint'', js ''(curl, skriptit, jatkettavat siirrot)''),
    (''upload.terminal_intro'', js ''Korvaa {path} tiedostosi polulla (v`00E4lily`00F6nnit eiv`00E4t haittaa). Nollasta poikkeava paluukoodi tarkoittaa virhett`00E4; vastaus on JSON-muodossa.''),
    (''upload.snippet.single'', js ''Yksi tiedosto''),
    (''upload.snippet.multi'', js ''Useita tiedostoja''),
    (''upload.snippet.env'', js ''Tunniste ymp`00E4rist`00F6muuttujassa (suositeltu)''),
    (''upload.snippet.list'', js ''Luettele ladatut tiedostot''),
    (''upload.snippet.resumable'', js ''Suuri tiedosto jatkamisen kanssa (skripti {script})''),
    (''upload.history_warning'', js ''Huomio: tunnisteen sis`00E4lt`00E4v`00E4 komento p`00E4`00E4tyy komentotulkin historiaan (esim. {file}). V`00E4lily`00F6nnill`00E4 alkavaa export-muotoa ei tallenneta, kun {opt} on asetettu. K`00E4sittele t`00E4t`00E4 linkki`00E4 kuin salasanaa `00E4l`00E4k`00E4 anna sit`00E4 eteenp`00E4in.''),
    (''upload.path_placeholder'', js ''/polku/tiedostoon.pdf''),
    (''upload.path_placeholder2'', js ''/polku/raportti.pdf''),
    (''upload.path_placeholder3'', js ''/polku/kuva 1.jpg''),
    (''upload.path_placeholder_big'', js ''/polku/suuri tiedosto.iso''),
    (''upload.js.queued'', js ''jonossa`2026''),
    (''upload.js.too_large'', js ''liian suuri: raja {max}''),
    (''upload.js.error'', js ''virhe: {msg}''),
    (''upload.js.starting'', js ''aloitetaan`2026''),
    (''upload.js.resuming'', js ''jatketaan aiempaa latausta`2026''),
    (''upload.js.retrying'', js ''yritet`00E4`00E4n uudelleen`2026''),
    (''upload.js.done'', js ''valmis'')]"

definition fi_12 :: messages where
  "fi_12 = [
    (''upload.js.finalising'', js ''kaikki tiedot l`00E4hetetty, palvelin viimeistelee`2026''),
    (''upload.js.cancelled'', js ''peruttu''),
    (''upload.js.cancelled_local'', js ''peruttu (paikallisesti)''),
    (''upload.js.status.uploading'', js ''kesken''),
    (''upload.js.status.complete'', js ''valmis''),
    (''nav.users'', js ''K`00E4ytt`00E4j`00E4t''),
    (''cases.empty_assigned'', js ''Sinulle ei ole viel`00E4 m`00E4`00E4ritetty asioita. Asian parissa ty`00F6skentelev`00E4 kollega tai yll`00E4pit`00E4j`00E4 voi m`00E4`00E4ritt`00E4`00E4 sinut siihen, tai voit luoda uuden asian yll`00E4.''),
    (''error.forbidden.title'', js ''Ei sallittu''),
    (''error.forbidden'', js ''T`00E4m`00E4 sivu on vain yll`00E4pit`00E4jille.''),
    (''security.must_change_notice'', js ''Salasanasi on antanut yll`00E4pit`00E4j`00E4. Aseta oma salasanasi alla ennen kuin jatkat.''),
    (''members.title'', js ''M`00E4`00E4ritetyt k`00E4ytt`00E4j`00E4t''),
    (''members.intro'', js ''K`00E4ytt`00E4j`00E4 n`00E4kee vain asiat, joihin h`00E4net on m`00E4`00E4ritetty. Yll`00E4pit`00E4j`00E4t n`00E4kev`00E4t kaikki asiat.''),
    (''members.empty'', js ''T`00E4h`00E4n asiaan ei ole m`00E4`00E4ritetty ket`00E4`00E4n `2014 vain yll`00E4pit`00E4j`00E4t n`00E4kev`00E4t sen.''),
    (''members.user'', js ''K`00E4ytt`00E4j`00E4''),
    (''members.add'', js ''M`00E4`00E4rit`00E4''),
    (''members.added'', js ''Tili {username} on nyt m`00E4`00E4ritetty t`00E4h`00E4n asiaan.''),
    (''members.remove'', js ''Poista m`00E4`00E4ritys''),
    (''members.remove_confirm'', js ''Poistetaanko {username}? Tili ei en`00E4`00E4 n`00E4e t`00E4t`00E4 asiaa.''),
    (''members.removed'', js ''Tilill`00E4 {username} ei ole en`00E4`00E4 p`00E4`00E4sy`00E4 t`00E4h`00E4n asiaan.''),
    (''members.none_assignable'', js ''M`00E4`00E4ritett`00E4vi`00E4 k`00E4ytt`00E4j`00E4tilej`00E4 ei ole enemp`00E4`00E4. Luo uusi kohdassa {link}.'')]"

definition fi_13 :: messages where
  "fi_13 = [
    (''users.new'', js ''Uusi tili''),
    (''users.list'', js ''Tilit''),
    (''users.username'', js ''K`00E4ytt`00E4j`00E4tunnus''),
    (''users.username_placeholder'', js ''esim. anna.virtanen@yritys.fi''),
    (''users.role'', js ''Rooli''),
    (''users.role.admin'', js ''Yll`00E4pit`00E4j`00E4''),
    (''users.role.user'', js ''K`00E4ytt`00E4j`00E4''),
    (''users.roles_hint'', js ''K`00E4ytt`00E4j`00E4 n`00E4kee ja k`00E4sittelee vain asioita, joihin h`00E4net on m`00E4`00E4ritetty. Yll`00E4pit`00E4j`00E4 n`00E4kee kaikki asiat, hallinnoi tilej`00E4 ja lukee tapahtumalokia. Tilille luodaan v`00E4liaikainen salasana, joka on vaihdettava ensimm`00E4isell`00E4 kirjautumisella.''),
    (''users.col.username'', js ''Tili''),
    (''users.col.status'', js ''Tila''),
    (''users.col.totp'', js ''Toinen tekij`00E4''),
    (''users.col.cases'', js ''Asiat''),
    (''users.col.last_login'', js ''Viimeisin kirjautuminen''),
    (''users.status.active'', js ''aktiivinen''),
    (''users.status.disabled'', js ''poistettu k`00E4yt`00F6st`00E4''),
    (''users.status.must_change'', js ''salasana vaihdettava''),
    (''users.you'', js ''sin`00E4''),
    (''users.all_cases'', js ''kaikki''),
    (''users.issued.title'', js ''Tili {username} luotu''),
    (''users.issued.reset_title'', js ''Uusi salasana tilille {username}'')]"

definition fi_14 :: messages where
  "fi_14 = [
    (''users.issued.copy_now'', js ''Kopioi salasana nyt `2014 se n`00E4ytet`00E4`00E4n vain kerran.''),
    (''users.issued.intro'', js ''Toimita se eri kanavaa pitkin kuin k`00E4ytt`00E4j`00E4tunnus. Se on vaihdettava ensimm`00E4isell`00E4 kirjautumisella.''),
    (''users.make_admin'', js ''Tee yll`00E4pit`00E4j`00E4ksi''),
    (''users.make_user'', js ''Tee k`00E4ytt`00E4j`00E4ksi''),
    (''users.role_confirm'', js ''Vaihdetaanko tilin {username} rooli?''),
    (''users.role_changed'', js ''Tilin {username} rooli on nyt: {role}.''),
    (''users.reset_password'', js ''Uusi salasana''),
    (''users.reset_password_confirm'', js ''Annetaanko tilille {username} uusi salasana? Nykyinen lakkaa toimimasta ja kaikki tilin istunnot p`00E4`00E4ttyv`00E4t.''),
    (''users.password_reset'', js ''Tilille {username} annettiin uusi salasana ja tili kirjattiin ulos.''),
    (''users.reset_totp'', js ''Nollaa 2FA''),
    (''users.reset_totp_confirm'', js ''Poistetaanko tilin {username} toinen tekij`00E4? Se otetaan uudelleen k`00E4ytt`00F6`00F6n seuraavan kirjautumisen j`00E4lkeen.''),
    (''users.totp_reset'', js ''Kaksivaiheinen tunnistus poistettiin tililt`00E4 {username}.''),
    (''users.disable'', js ''Poista k`00E4yt`00F6st`00E4''),
    (''users.disable_confirm'', js ''Poistetaanko {username} k`00E4yt`00F6st`00E4? Tili kirjataan ulos, eik`00E4 se voi kirjautua ennen kuin se otetaan uudelleen k`00E4ytt`00F6`00F6n.''),
    (''users.disabled'', js ''Tili {username} poistettiin k`00E4yt`00F6st`00E4 ja kirjattiin ulos.''),
    (''users.enable'', js ''Ota k`00E4ytt`00F6`00F6n''),
    (''users.enabled'', js ''Tili {username} voi taas kirjautua.''),
    (''users.delete'', js ''Poista''),
    (''users.delete_confirm'', js ''Poistetaanko tili {username}? Sen asiam`00E4`00E4ritykset poistuvat samalla; tapahtumaloki s`00E4ilytt`00E4`00E4 sen toimet.''),
    (''users.deleted'', js ''Tili {username} poistettiin.'')]"

definition fi_15 :: messages where
  "fi_15 = [
    (''users.missing'', js ''Tili`00E4 ei ole.''),
    (''users.not_self'', js ''Omaa tili`00E4si et voi muuttaa t`00E4`00E4ll`00E4 `2014 salasana ja 2FA l`00F6ytyv`00E4t kohdasta Tietoturva.''),
    (''users.last_admin'', js ''V`00E4hint`00E4`00E4n yhden aktiivisen yll`00E4pit`00E4j`00E4n on j`00E4`00E4t`00E4v`00E4.''),
    (''users.exists'', js ''Tili nimelt`00E4 {username} on jo olemassa.''),
    (''users.invalid_username'', js ''K`00E4ytt`00E4j`00E4tunnuksessa on 2`201364 merkki`00E4: kirjaimia, numeroita sek`00E4 . _ @ -''),
    (''users.invalid_role'', js ''Tuntematon rooli.''),
    (''members.not_self'', js ''Et voi poistaa omaa m`00E4`00E4rityst`00E4si. Pyyd`00E4 sit`00E4 joltakulta toiselta asian parissa tai yll`00E4pit`00E4j`00E4lt`00E4.''),
    (''members.none_assignable_user'', js ''Muita m`00E4`00E4ritett`00E4vi`00E4 k`00E4ytt`00E4j`00E4tilej`00E4 ei ole.''),
    (''second.title'', js ''Kirjautumisen toinen vaihe''),
    (''second.recovery_label'', js ''Palautuskoodi''),
    (''common.or'', js ''tai''),
    (''passkey.use'', js ''K`00E4yt`00E4 p`00E4`00E4syavainta''),
    (''passkey.unsupported'', js ''T`00E4m`00E4 selain ei tue p`00E4`00E4syavaimia.''),
    (''passkey.failed'', js ''P`00E4`00E4syavainta ei voitu vahvistaa. Yrit`00E4 uudelleen.''),
    (''passkey.cancelled'', js ''Peruutettu. Yrit`00E4 uudelleen, kun olet valmis.''),
    (''confirm.title'', js ''Vahvista henkil`00F6llisyytesi''),
    (''confirm.intro'', js ''T`00E4m`00E4 toiminto vaatii `00E4skett`00E4isen vahvistuksen. Se pysyy sen j`00E4lkeen voimassa {minutes} minuuttia, jotta sinulta ei kysyt`00E4 sit`00E4 uudelleen joka vaiheessa.''),
    (''confirm.repeat'', js ''Vahvistamisen j`00E4lkeen toista toimenpide, jota olit tekem`00E4ss`00E4.''),
    (''confirm.code_label'', js ''Koodi sovelluksesta tai palautuskoodi''),
    (''confirm.password_label'', js ''Salasanasi'')]"

definition fi_16 :: messages where
  "fi_16 = [
    (''confirm.submit'', js ''Vahvista''),
    (''confirm.invalid'', js ''Koodi ei t`00E4sm`00E4nnyt. Yrit`00E4 uudelleen.''),
    (''confirm.locked'', js ''T`00E4lle tilille on sy`00F6tetty liian monta v`00E4`00E4r`00E4`00E4 koodia. Yrit`00E4 uudelleen 15 minuutin kuluttua.''),
    (''passkeys.title'', js ''P`00E4`00E4syavaimet''),
    (''passkeys.intro'', js ''P`00E4`00E4syavain s`00E4ilytet`00E4`00E4n laitteessasi, salasananhallintaohjelmassasi tai fyysisess`00E4 suojausavaimessa, eik`00E4 sit`00E4 voi kalastella. Se toimii kirjautumisen toisena vaiheena ja luottamuksellisten toimintojen vahvistamiseen.''),
    (''passkeys.none'', js ''Ei viel`00E4 p`00E4`00E4syavaimia.''),
    (''passkeys.name'', js ''Nimi''),
    (''passkeys.name_placeholder'', js ''esim. kannettava, suojausavain''),
    (''passkeys.added_at'', js ''Lis`00E4tty''),
    (''passkeys.last_used'', js ''Viimeksi k`00E4ytetty''),
    (''passkeys.add'', js ''Lis`00E4`00E4 p`00E4`00E4syavain''),
    (''passkeys.remove'', js ''Poista''),
    (''passkeys.remove_confirm'', js ''Poistetaanko t`00E4m`00E4 p`00E4`00E4syavain? Tilin muut istunnot kirjataan ulos.''),
    (''passkeys.added'', js ''P`00E4`00E4syavain `201D{name}`201D lis`00E4tty.''),
    (''passkeys.removed'', js ''P`00E4`00E4syavain `201D{name}`201D poistettu. Tilin muut istunnot on kirjattu ulos.''),
    (''passkeys.last_required'', js ''T`00E4m`00E4 instanssi vaatii toisen tekij`00E4n. Lis`00E4`00E4 toinen ennen viimeisen poistamista.''),
    (''passkeys.limit'', js ''Tilill`00E4 voi olla enint`00E4`00E4n {n} p`00E4`00E4syavainta.''),
    (''passkeys.duplicate'', js ''T`00E4m`00E4 p`00E4`00E4syavain on jo rekister`00F6ity.''),
    (''security.recovery.regenerate_confirmed'', js ''Luo uudet koodit (vanhat lakkaavat toimimasta)''),
    (''sessions.title'', js ''Aktiiviset istunnot'')]"

definition fi_17 :: messages where
  "fi_17 = [
    (''sessions.intro'', js ''Kaikki paikat, joihin t`00E4m`00E4 tili on kirjautuneena sis`00E4`00E4n. Kirjaa ulos kaikki, joita et tunnista, ja vaihda sitten salasanasi.''),
    (''sessions.device'', js ''Laite''),
    (''sessions.ip'', js ''IP-osoite''),
    (''sessions.started'', js ''Aloitettu''),
    (''sessions.last_seen'', js ''Viimeisin toiminta''),
    (''sessions.current'', js ''t`00E4m`00E4 istunto''),
    (''sessions.pending'', js ''vain salasana, toinen vaihe tekem`00E4tt`00E4''),
    (''sessions.bound'', js ''sidottu t`00E4h`00E4n laitteeseen''),
    (''sessions.factor'', js ''toinen vaihe: {factor}''),
    (''sessions.via.totp'', js ''sovelluskoodi''),
    (''sessions.via.recovery'', js ''palautuskoodi''),
    (''sessions.via.passkey'', js ''p`00E4`00E4syavain''),
    (''sessions.unknown_device'', js ''Tuntematon laite''),
    (''sessions.revoke'', js ''Kirjaudu ulos''),
    (''sessions.revoke_others'', js ''Kirjaa kaikki muut istunnot ulos''),
    (''sessions.revoked'', js ''Istunto on kirjattu ulos.''),
    (''sessions.revoked_others'', js ''Kaikki muut istunnot on kirjattu ulos.'')]"

definition fi_messages :: messages where
  "fi_messages = fi_1 @ fi_2 @ fi_3 @ fi_4 @ fi_5 @ fi_6 @ fi_7 @ fi_8 @ fi_9 @ fi_10 @ fi_11 @ fi_12 @ fi_13 @ fi_14 @ fi_15 @ fi_16 @ fi_17"

lemmas fi_defs =
  fi_1_def fi_2_def fi_3_def fi_4_def fi_5_def fi_6_def fi_7_def fi_8_def fi_9_def fi_10_def fi_11_def fi_12_def fi_13_def fi_14_def
  fi_15_def fi_16_def fi_17_def

lemma fi_fits: "fits fi_messages message_shape"
  unfolding fi_messages_def message_shape_def
  by (intro fits_append; unfold fi_defs shape_defs; simp only: fits_rules cong: literal_congs)

end
