(* ===== verification/Locale_Fr.thy ===== *)
theory Locale_Fr
  imports Locale_En
begin

text \<open>src/locales/fr.ts: French.\<close>

definition fr_1 :: messages where
  "fr_1 = [
    (''app.tagline'', js ''bo`00EEte de d`00E9p`00F4t de fichiers priv`00E9e''),
    (''common.back_to_cases'', js ''`2190 Dossiers''),
    (''common.home'', js ''Accueil''),
    (''common.copy'', js ''Copier''),
    (''common.copied'', js ''Copi`00E9''),
    (''common.copy_manual'', js ''S`00E9lectionnez et copiez manuellement''),
    (''common.save'', js ''Enregistrer''),
    (''common.create'', js ''Cr`00E9er''),
    (''common.cancel'', js ''Annuler''),
    (''common.retry'', js ''R`00E9essayer''),
    (''common.never'', js ''jamais''),
    (''common.unlimited'', js ''sans expiration''),
    (''common.none'', js ''`2014''),
    (''common.optional'', js ''facultatif''),
    (''common.loading'', js ''Chargement`2026''),
    (''common.yes'', js ''Oui''),
    (''common.language'', js ''Langue''),
    (''nav.cases'', js ''Dossiers''),
    (''nav.audit'', js ''Journal d`2019audit''),
    (''nav.security'', js ''S`00E9curit`00E9'')]"

definition fr_2 :: messages where
  "fr_2 = [
    (''nav.logout'', js ''Se d`00E9connecter''),
    (''error.not_found.title'', js ''Introuvable''),
    (''error.page_missing'', js ''Cette page n`2019existe pas.''),
    (''error.case_missing'', js ''Ce dossier n`2019existe pas.''),
    (''error.link_missing'', js ''Ce lien n`2019existe pas.''),
    (''error.file_missing'', js ''Le fichier n`2019existe pas ou n`2019est pas disponible.''),
    (''error.file_not_exist'', js ''Le fichier n`2019existe pas.''),
    (''error.storage_missing.title'', js ''Fichier absent du stockage''),
    (''error.storage_missing'', js ''Les m`00E9tadonn`00E9es existent, mais l`2019objet a disparu du stockage. Lancez le nettoyage pour marquer le fichier comme manquant.''),
    (''error.server.title'', js ''Erreur du serveur''),
    (''error.server'', js ''Une erreur inattendue s`2019est produite.''),
    (''error.bad_request.title'', js ''Requ`00EAte incorrecte''),
    (''error.cross_site'', js ''Requ`00EAte intersite bloqu`00E9e''),
    (''error.csrf'', js ''Jeton CSRF invalide''),
    (''error.invalid_expiry'', js ''Date d`2019expiration invalide''),
    (''link.invalid.title'', js ''Lien invalide''),
    (''link.invalid'', js ''Ce lien de d`00E9p`00F4t n`2019existe pas.''),
    (''link.unavailable.title'', js ''Lien indisponible''),
    (''link.expired'', js ''Ce lien a expir`00E9.''),
    (''link.revoked'', js ''Ce lien a `00E9t`00E9 r`00E9voqu`00E9.'')]"

definition fr_3 :: messages where
  "fr_3 = [
    (''link.case_closed'', js ''Le dossier a `00E9t`00E9 ferm`00E9 et n`2019accepte plus de fichiers.''),
    (''link.contact'', js ''Contactez la personne qui vous a donn`00E9 le lien.''),
    (''login.title'', js ''Connexion administrateur''),
    (''login.username'', js ''Nom d`2019utilisateur''),
    (''login.password'', js ''Mot de passe''),
    (''login.submit'', js ''Se connecter''),
    (''login.failed'', js ''Nom d`2019utilisateur ou mot de passe invalide.''),
    (''login.too_many_codes'', js ''Trop de codes erron`00E9s. Reconnectez-vous.''),
    (''login.account_locked'', js ''Trop de codes erron`00E9s pour ce compte. Le second facteur est bloqu`00E9 pendant 15 minutes.''),
    (''totp.title'', js ''Code de votre application d`2019authentification''),
    (''totp.code_label'', js ''Code (6 chiffres) ou code de r`00E9cup`00E9ration''),
    (''totp.confirm'', js ''Confirmer''),
    (''totp.cancel_logout'', js ''Annuler et se d`00E9connecter''),
    (''totp.invalid'', js ''Code invalide.''),
    (''totp.attempts_left'', js ''Tentatives restantes : {n}.''),
    (''totp.locked_until'', js ''Le compte est temporairement bloqu`00E9 apr`00E8s de nombreux codes erron`00E9s (jusqu`2019`00E0 {until} UTC).''),
    (''security.title'', js ''S`00E9curit`00E9 du compte `00AB {user} `00BB''),
    (''security.required_notice'', js ''Cette instance n`00E9cessite un second facteur. Le panneau reste inaccessible tant que vous n`2019ajoutez pas une application d`2019authentification ou une cl`00E9 d`2019acc`00E8s ci-dessous.''),
    (''security.status'', js ''Authentification `00E0 deux facteurs (TOTP, RFC 6238) : {state}.''),
    (''security.enabled'', js ''activ`00E9e'')]"

definition fr_4 :: messages where
  "fr_4 = [
    (''security.disabled'', js ''d`00E9sactiv`00E9e''),
    (''security.recovery_left'', js ''Codes de r`00E9cup`00E9ration inutilis`00E9s : {n}.''),
    (''security.recovery.title'', js ''Codes de r`00E9cup`00E9ration''),
    (''security.recovery.intro'', js ''Conservez-les maintenant en lieu s`00FBr. Chacun fonctionne une seule fois et remplace le code de l`2019application si vous n`2019y avez plus acc`00E8s. Ils ne seront plus affich`00E9s.''),
    (''security.enable.title'', js ''Activer TOTP''),
    (''security.enable.intro'', js ''Il vous faut une application d`2019authentification (par ex. Aegis, Google Authenticator, 1Password, Bitwarden). Une fois activ`00E9, la connexion exige le mot de passe et un code en cours de validit`00E9.''),
    (''security.enable.start'', js ''Commencer la configuration''),
    (''security.step1'', js ''`00C9tape 1 : scannez le code dans votre application''),
    (''security.manual_key'', js ''Ou saisissez la cl`00E9 manuellement :''),
    (''security.key_params'', js ''Type : TOTP, SHA-1, 6 chiffres, 30 s. `00C9metteur : {issuer}, compte : {user}.''),
    (''security.open_in_app'', js ''Ouvrir dans l`2019application d`2019authentification''),
    (''security.on_phone'', js ''(sur un t`00E9l`00E9phone)''),
    (''security.step2'', js ''`00C9tape 2 : confirmez avec un code''),
    (''security.code_from_app'', js ''Code de l`2019application''),
    (''security.enable.submit'', js ''Activer TOTP''),
    (''security.pending_note'', js ''La cl`00E9 est provisoire jusqu`2019`00E0 confirmation ; relancer la configuration en g`00E9n`00E8re une nouvelle.''),
    (''security.current_code'', js ''Code actuel de l`2019application''),
    (''security.regenerate'', js ''G`00E9n`00E9rer de nouveaux codes (les anciens cessent de fonctionner)''),
    (''security.disable.title'', js ''D`00E9sactiver TOTP''),
    (''security.disable.intro'', js ''N`00E9cessite un code actuel de l`2019application ou un code de r`00E9cup`00E9ration : la session seule (par ex. un cookie vol`00E9) ne suffit pas. Si l`2019application et les codes de r`00E9cup`00E9ration sont tous deux perdus, un op`00E9rateur peut ex`00E9cuter {cmd} sur le serveur.'')]"

definition fr_5 :: messages where
  "fr_5 = [
    (''security.disable.code'', js ''Code''),
    (''security.disable.submit'', js ''D`00E9sactiver''),
    (''security.disable.confirm'', js ''D`00E9sactiver l`2019authentification `00E0 deux facteurs ?''),
    (''security.msg.enabled'', js ''L`2019authentification `00E0 deux facteurs est activ`00E9e.''),
    (''security.msg.code_mismatch'', js ''Le code ne correspond pas. V`00E9rifiez l`2019heure de votre t`00E9l`00E9phone et r`00E9essayez.''),
    (''security.msg.invalid_code'', js ''Code invalide.''),
    (''security.msg.regenerated'', js ''Nouveaux codes de r`00E9cup`00E9ration g`00E9n`00E9r`00E9s.''),
    (''security.msg.required'', js ''Cette instance exige TOTP (ADMIN_REQUIRE_TOTP) ; il ne peut pas `00EAtre d`00E9sactiv`00E9.''),
    (''security.msg.disabled'', js ''L`2019authentification `00E0 deux facteurs a `00E9t`00E9 d`00E9sactiv`00E9e.''),
    (''security.password.title'', js ''Changer le mot de passe''),
    (''security.password.current'', js ''Mot de passe actuel''),
    (''security.password.new'', js ''Nouveau mot de passe (12 caract`00E8res min.)''),
    (''security.password.confirm'', js ''Confirmer le nouveau mot de passe''),
    (''security.password.submit'', js ''Changer le mot de passe''),
    (''security.password.mismatch'', js ''Le nouveau mot de passe et sa confirmation ne correspondent pas.''),
    (''security.password.invalid_current'', js ''Le mot de passe actuel est incorrect.''),
    (''security.password.changed'', js ''Mot de passe chang`00E9. Les autres sessions de ce compte ont `00E9t`00E9 d`00E9connect`00E9es.''),
    (''home.title'', js ''inletbox''),
    (''home.message'', js ''Ceci est une bo`00EEte de d`00E9p`00F4t de fichiers priv`00E9e. Pour envoyer des fichiers, utilisez le lien que vous a donn`00E9 la personne qui les demande.''),
    (''cases.new'', js ''Nouveau dossier'')]"

definition fr_6 :: messages where
  "fr_6 = [
    (''cases.name'', js ''Nom''),
    (''cases.name_placeholder'', js ''par ex. Audit 2026/09 `2013 Client X''),
    (''cases.description_optional'', js ''Description (facultative)''),
    (''cases.description'', js ''Description''),
    (''cases.list'', js ''Dossiers''),
    (''cases.empty'', js ''Aucun dossier.''),
    (''cases.col.name'', js ''Nom''),
    (''cases.col.status'', js ''Statut''),
    (''cases.col.links'', js ''Liens actifs''),
    (''cases.col.files'', js ''Fichiers''),
    (''cases.col.size'', js ''Taille''),
    (''cases.col.created'', js ''Cr`00E9`00E9''),
    (''case.open'', js ''ouvert''),
    (''case.closed'', js ''ferm`00E9''),
    (''case.close'', js ''Fermer le dossier''),
    (''case.reopen'', js ''Rouvrir''),
    (''case.meta'', js ''ID : {id} `00B7 cr`00E9`00E9 le {date}. Un dossier ferm`00E9 n`2019accepte aucun envoi, quel que soit le lien.''),
    (''case.saved'', js ''Enregistr`00E9.''),
    (''case.closed_no_links'', js ''Le dossier est ferm`00E9 `2013 rouvrez-le pour g`00E9n`00E9rer des liens.''),
    (''case.new_link.title'', js ''Nouveau lien pour `00AB {label} `00BB'')]"

definition fr_7 :: messages where
  "fr_7 = [
    (''case.new_link.intro'', js ''Copiez-le maintenant. Le jeton n`2019est conserv`00E9 que sous forme de hachage et ne peut pas `00EAtre r`00E9cup`00E9r`00E9 plus tard `2013 vous pourrez seulement g`00E9n`00E9rer un nouveau lien.''),
    (''case.new_link.copy_now'', js ''Copiez-le maintenant.''),
    (''links.title'', js ''Liens de d`00E9p`00F4t''),
    (''links.intro'', js ''Chaque lien correspond `00E0 un destinataire distinct et `00E0 un p`00E9rim`00E8tre de visibilit`00E9 distinct : la personne qui dispose du lien ne voit que les fichiers envoy`00E9s par ce lien et ne peut ni les t`00E9l`00E9charger ni les supprimer. Tous ceux qui connaissent le m`00EAme lien ont exactement le m`00EAme acc`00E8s `2013 l`2019application ne distingue pas les personnes qui utilisent le m`00EAme lien.''),
    (''links.generate'', js ''G`00E9n`00E9rer un nouveau lien''),
    (''links.label'', js ''Libell`00E9 du destinataire''),
    (''links.label_placeholder'', js ''par ex. Marie Dupont `2013 comptabilit`00E9''),
    (''links.expires'', js ''Valable jusqu`2019au (UTC, facultatif)''),
    (''links.max_file'', js ''Taille max. d`2019un fichier (facultatif, `2264 {max})''),
    (''links.max_file_placeholder'', js ''par ex. 500MB''),
    (''links.max_files'', js ''Nombre max. de fichiers (facultatif)''),
    (''links.max_total'', js ''Taille totale max. (facultatif)''),
    (''links.max_total_placeholder'', js ''par ex. 2GB''),
    (''links.submit'', js ''G`00E9n`00E9rer le lien''),
    (''links.empty'', js ''Aucun lien.''),
    (''links.col.recipient'', js ''Destinataire''),
    (''links.col.state'', js ''`00C9tat''),
    (''links.col.expires'', js ''Valable jusqu`2019au''),
    (''links.col.limits'', js ''Limites''),
    (''links.col.usage'', js ''Utilisation'')]"

definition fr_8 :: messages where
  "fr_8 = [
    (''links.col.last_used'', js ''Derni`00E8re utilisation''),
    (''links.state.active'', js ''actif''),
    (''links.state.expired'', js ''expir`00E9''),
    (''links.state.revoked'', js ''r`00E9voqu`00E9''),
    (''links.state.case_closed'', js ''dossier ferm`00E9''),
    (''links.limit.file'', js ''fichier `2264 {max}''),
    (''links.limit.files'', js ''fichiers `2264 {n}''),
    (''links.limit.total'', js ''total `2264 {max}''),
    (''links.usage'', js ''{n} fichiers, {size}''),
    (''links.usage_in_progress'', js ''{n} en cours ({size} r`00E9serv`00E9s)''),
    (''links.revoke'', js ''R`00E9voquer''),
    (''links.revoke_confirm'', js ''R`00E9voquer le lien `00AB {label} `00BB ? Les envois en cours seront interrompus.''),
    (''files.title'', js ''Fichiers''),
    (''files.empty'', js ''Aucun fichier.''),
    (''files.col.name'', js ''Nom''),
    (''files.col.recipient'', js ''Destinataire (lien)''),
    (''files.col.size'', js ''Taille''),
    (''files.col.status'', js ''Statut''),
    (''files.col.uploaded'', js ''Envoy`00E9''),
    (''files.declared'', js ''{size} (d`00E9clar`00E9e)'')]"

definition fr_9 :: messages where
  "fr_9 = [
    (''files.download'', js ''T`00E9l`00E9charger''),
    (''files.delete'', js ''Supprimer''),
    (''files.delete_confirm'', js ''Supprimer le fichier `00AB {name} `00BB ? Cette action est irr`00E9versible.''),
    (''files.untrusted'', js ''Les fichiers sont consid`00E9r`00E9s comme non fiables : les t`00E9l`00E9chargements sont toujours des pi`00E8ces jointes, rien n`2019est affich`00E9 ni ex`00E9cut`00E9 sur le serveur. L`2019analyse antivirus ne fait pas partie de cette version.''),
    (''files.status.uploading'', js ''en cours''),
    (''files.status.complete'', js ''termin`00E9''),
    (''files.status.aborted'', js ''interrompu''),
    (''files.status.expired'', js ''expir`00E9''),
    (''files.status.missing'', js ''absent du stockage''),
    (''files.status.deleted'', js ''supprim`00E9''),
    (''audit.title'', js ''Journal d`2019audit ({n} derniers)''),
    (''audit.col.time'', js ''Heure''),
    (''audit.col.actor'', js ''Acteur''),
    (''audit.col.action'', js ''`00C9v`00E9nement''),
    (''audit.col.case'', js ''Dossier''),
    (''audit.col.link'', js ''Lien''),
    (''audit.col.file'', js ''Fichier''),
    (''audit.col.ip'', js ''IP''),
    (''audit.col.details'', js ''D`00E9tails''),
    (''upload.title'', js ''D`00E9p`00F4t : {case}'')]"

definition fr_10 :: messages where
  "fr_10 = [
    (''upload.link_for'', js ''Lien pour :''),
    (''upload.valid_until'', js ''valable jusqu`2019au {date}''),
    (''upload.limit.file'', js ''Taille maximale d`2019un fichier :''),
    (''upload.limit.files'', js ''Nombre maximal de fichiers :''),
    (''upload.limit.total'', js ''Limite totale de donn`00E9es :''),
    (''upload.used_n'', js ''({n} utilis`00E9s)''),
    (''upload.used_size'', js ''({size} utilis`00E9s)''),
    (''upload.send'', js ''Envoyer des fichiers''),
    (''upload.drop_here'', js ''D`00E9posez les fichiers ici''),
    (''upload.or'', js ''ou''),
    (''upload.choose'', js ''choisissez-les sur le disque''),
    (''upload.resume_hint'', js ''Les gros fichiers sont envoy`00E9s par parties et l`2019envoi peut reprendre apr`00E8s une coupure de connexion. Apr`00E8s avoir recharg`00E9 la page, choisissez `00E0 nouveau le m`00EAme fichier : l`2019envoi reprend l`00E0 o`00F9 il s`2019`00E9tait arr`00EAt`00E9.''),
    (''upload.your_files'', js ''Vos fichiers''),
    (''upload.your_files_intro'', js ''Vous ne voyez que les fichiers envoy`00E9s par ce lien. Ils ne peuvent `00EAtre ni t`00E9l`00E9charg`00E9s ni supprim`00E9s ici `2013 c`2019est l`2019administrateur qui les r`00E9cup`00E8re.''),
    (''upload.col.name'', js ''Nom''),
    (''upload.col.size'', js ''Taille''),
    (''upload.col.date'', js ''Date''),
    (''upload.col.status'', js ''Statut''),
    (''upload.none_yet'', js ''Aucun fichier envoy`00E9 pour l`2019instant.''),
    (''upload.list_failed'', js ''Impossible de charger la liste : {msg}'')]"

definition fr_11 :: messages where
  "fr_11 = [
    (''upload.terminal'', js ''Envoi depuis le terminal''),
    (''upload.terminal_hint'', js ''(curl, scripts, transferts avec reprise)''),
    (''upload.terminal_intro'', js ''Remplacez {path} par le chemin de votre fichier (les espaces ne posent pas de probl`00E8me). Un code de sortie non nul signale une erreur ; la r`00E9ponse est au format JSON.''),
    (''upload.snippet.single'', js ''Un fichier''),
    (''upload.snippet.multi'', js ''Plusieurs fichiers''),
    (''upload.snippet.env'', js ''Jeton dans une variable d`2019environnement (recommand`00E9)''),
    (''upload.snippet.list'', js ''Lister les fichiers envoy`00E9s''),
    (''upload.snippet.resumable'', js ''Gros fichier avec reprise (script {script})''),
    (''upload.history_warning'', js ''Attention : une commande contenant le jeton est enregistr`00E9e dans l`2019historique de votre shell (par ex. {file}). La variante export pr`00E9c`00E9d`00E9e d`2019une espace n`2019est pas enregistr`00E9e lorsque {opt} est d`00E9fini. Traitez ce lien comme un mot de passe et ne le transmettez pas.''),
    (''upload.path_placeholder'', js ''/chemin/vers/fichier.pdf''),
    (''upload.path_placeholder2'', js ''/chemin/rapport.pdf''),
    (''upload.path_placeholder3'', js ''/chemin/photo 1.jpg''),
    (''upload.path_placeholder_big'', js ''/chemin/vers/gros fichier.iso''),
    (''upload.js.queued'', js ''en file d`2019attente`2026''),
    (''upload.js.too_large'', js ''trop volumineux : limite {max}''),
    (''upload.js.error'', js ''erreur : {msg}''),
    (''upload.js.starting'', js ''d`00E9marrage`2026''),
    (''upload.js.resuming'', js ''reprise de l`2019envoi pr`00E9c`00E9dent`2026''),
    (''upload.js.retrying'', js ''nouvelle tentative`2026''),
    (''upload.js.done'', js ''termin`00E9'')]"

definition fr_12 :: messages where
  "fr_12 = [
    (''upload.js.finalising'', js ''toutes les donn`00E9es sont envoy`00E9es, le serveur termine`2026''),
    (''upload.js.cancelled'', js ''annul`00E9''),
    (''upload.js.cancelled_local'', js ''annul`00E9 (localement)''),
    (''upload.js.status.uploading'', js ''en cours''),
    (''upload.js.status.complete'', js ''termin`00E9''),
    (''nav.users'', js ''Utilisateurs''),
    (''cases.empty_assigned'', js ''Aucun dossier ne vous est encore attribu`00E9. Un coll`00E8gue qui travaille sur un dossier, ou un administrateur, peut vous l`2019attribuer, ou vous pouvez en cr`00E9er un ci-dessus.''),
    (''error.forbidden.title'', js ''Acc`00E8s refus`00E9''),
    (''error.forbidden'', js ''Cette page est r`00E9serv`00E9e aux administrateurs.''),
    (''security.must_change_notice'', js ''Votre mot de passe a `00E9t`00E9 attribu`00E9 par un administrateur. Choisissez le v`00F4tre ci-dessous avant de continuer.''),
    (''members.title'', js ''Utilisateurs attribu`00E9s''),
    (''members.intro'', js ''Un utilisateur ne voit que les dossiers qui lui sont attribu`00E9s. Les administrateurs voient tous les dossiers.''),
    (''members.empty'', js ''Aucun utilisateur n`2019est attribu`00E9 `00E0 ce dossier `2014 seuls les administrateurs le voient.''),
    (''members.user'', js ''Utilisateur''),
    (''members.add'', js ''Attribuer''),
    (''members.added'', js ''Le compte {username} est d`00E9sormais attribu`00E9 `00E0 ce dossier.''),
    (''members.remove'', js ''Retirer''),
    (''members.remove_confirm'', js ''Retirer {username} ? Le compte ne verra plus ce dossier.''),
    (''members.removed'', js ''Le compte {username} n`2019a plus acc`00E8s `00E0 ce dossier.''),
    (''members.none_assignable'', js ''Il ne reste aucun compte utilisateur `00E0 attribuer. Cr`00E9ez-en un dans {link}.'')]"

definition fr_13 :: messages where
  "fr_13 = [
    (''users.new'', js ''Nouveau compte''),
    (''users.list'', js ''Comptes''),
    (''users.username'', js ''Nom d`2019utilisateur''),
    (''users.username_placeholder'', js ''p. ex. anne.martin@entreprise.fr''),
    (''users.role'', js ''R`00F4le''),
    (''users.role.admin'', js ''Administrateur''),
    (''users.role.user'', js ''Utilisateur''),
    (''users.roles_hint'', js ''Un utilisateur ne voit et ne traite que les dossiers qui lui sont attribu`00E9s. Un administrateur voit tous les dossiers, g`00E8re les comptes et consulte le journal d`2019audit. Un mot de passe temporaire est g`00E9n`00E9r`00E9 ; il doit `00EAtre chang`00E9 `00E0 la premi`00E8re connexion.''),
    (''users.col.username'', js ''Compte''),
    (''users.col.status'', js ''`00C9tat''),
    (''users.col.totp'', js ''Double authentification''),
    (''users.col.cases'', js ''Dossiers''),
    (''users.col.last_login'', js ''Derni`00E8re connexion''),
    (''users.status.active'', js ''actif''),
    (''users.status.disabled'', js ''d`00E9sactiv`00E9''),
    (''users.status.must_change'', js ''mot de passe `00E0 changer''),
    (''users.you'', js ''vous''),
    (''users.all_cases'', js ''tous''),
    (''users.issued.title'', js ''Compte {username} cr`00E9`00E9''),
    (''users.issued.reset_title'', js ''Nouveau mot de passe pour {username}'')]"

definition fr_14 :: messages where
  "fr_14 = [
    (''users.issued.copy_now'', js ''Copiez ce mot de passe maintenant `2014 il n`2019est affich`00E9 qu`2019une fois.''),
    (''users.issued.intro'', js ''Transmettez-le par un autre canal que le nom d`2019utilisateur. Il doit `00EAtre remplac`00E9 `00E0 la premi`00E8re connexion.''),
    (''users.make_admin'', js ''Nommer administrateur''),
    (''users.make_user'', js ''Passer en utilisateur''),
    (''users.role_confirm'', js ''Changer le r`00F4le du compte {username} ?''),
    (''users.role_changed'', js ''Le compte {username} a d`00E9sormais le r`00F4le : {role}.''),
    (''users.reset_password'', js ''Nouveau mot de passe''),
    (''users.reset_password_confirm'', js ''Attribuer un nouveau mot de passe `00E0 {username} ? L`2019actuel cesse de fonctionner et toutes les sessions du compte prennent fin.''),
    (''users.password_reset'', js ''Un nouveau mot de passe a `00E9t`00E9 attribu`00E9 `00E0 {username} et le compte a `00E9t`00E9 d`00E9connect`00E9.''),
    (''users.reset_totp'', js ''R`00E9initialiser la 2FA''),
    (''users.reset_totp_confirm'', js ''Supprimer le second facteur de {username} ? Il sera reconfigur`00E9 apr`00E8s la prochaine connexion.''),
    (''users.totp_reset'', js ''La double authentification a `00E9t`00E9 supprim`00E9e du compte {username}.''),
    (''users.disable'', js ''D`00E9sactiver''),
    (''users.disable_confirm'', js ''D`00E9sactiver {username} ? Le compte est d`00E9connect`00E9 et ne peut plus se connecter tant qu`2019il n`2019est pas r`00E9activ`00E9.''),
    (''users.disabled'', js ''Le compte {username} a `00E9t`00E9 d`00E9sactiv`00E9 et d`00E9connect`00E9.''),
    (''users.enable'', js ''R`00E9activer''),
    (''users.enabled'', js ''Le compte {username} peut de nouveau se connecter.''),
    (''users.delete'', js ''Supprimer''),
    (''users.delete_confirm'', js ''Supprimer le compte {username} ? Ses attributions de dossiers disparaissent avec lui ; le journal d`2019audit conserve ce qu`2019il a fait.''),
    (''users.deleted'', js ''Le compte {username} a `00E9t`00E9 supprim`00E9.'')]"

definition fr_15 :: messages where
  "fr_15 = [
    (''users.missing'', js ''Ce compte n`2019existe pas.''),
    (''users.not_self'', js ''Vous ne pouvez pas modifier votre propre compte ici `2014 mot de passe et 2FA se trouvent sous S`00E9curit`00E9.''),
    (''users.last_admin'', js ''Il doit rester au moins un administrateur actif.''),
    (''users.exists'', js ''Un compte nomm`00E9 {username} existe d`00E9j`00E0.''),
    (''users.invalid_username'', js ''Un nom d`2019utilisateur compte 2 `00E0 64 caract`00E8res : lettres, chiffres et . _ @ -''),
    (''users.invalid_role'', js ''R`00F4le inconnu.''),
    (''members.not_self'', js ''Vous ne pouvez pas vous retirer vous-m`00EAme. Demandez-le `00E0 une autre personne du dossier ou `00E0 un administrateur.''),
    (''members.none_assignable_user'', js ''Il n`2019y a aucun autre compte utilisateur `00E0 attribuer.''),
    (''second.title'', js ''Seconde `00E9tape de la connexion''),
    (''second.recovery_label'', js ''Code de r`00E9cup`00E9ration''),
    (''common.or'', js ''ou''),
    (''passkey.use'', js ''Utiliser une cl`00E9 d`2019acc`00E8s''),
    (''passkey.unsupported'', js ''Ce navigateur ne prend pas en charge les cl`00E9s d`2019acc`00E8s.''),
    (''passkey.failed'', js ''La cl`00E9 d`2019acc`00E8s n`2019a pas pu `00EAtre v`00E9rifi`00E9e. R`00E9essayez.''),
    (''passkey.cancelled'', js ''Annul`00E9. Vous pouvez r`00E9essayer `00E0 tout moment.''),
    (''confirm.title'', js ''Confirmez votre identit`00E9''),
    (''confirm.intro'', js ''Cette action n`00E9cessite une confirmation r`00E9cente. Elle reste ensuite valide pendant {minutes} minutes afin de ne pas vous redemander `00E0 chaque `00E9tape.''),
    (''confirm.repeat'', js ''Apr`00E8s confirmation, r`00E9p`00E9tez ce que vous `00E9tiez en train de faire.''),
    (''confirm.code_label'', js ''Code de l`2019application ou code de r`00E9cup`00E9ration''),
    (''confirm.password_label'', js ''Votre mot de passe'')]"

definition fr_16 :: messages where
  "fr_16 = [
    (''confirm.submit'', js ''Confirmer''),
    (''confirm.invalid'', js ''La saisie ne correspond pas. R`00E9essayez.''),
    (''confirm.locked'', js ''Trop de codes erron`00E9s pour ce compte. R`00E9essayez dans 15 minutes.''),
    (''passkeys.title'', js ''Cl`00E9s d`2019acc`00E8s''),
    (''passkeys.intro'', js ''Une cl`00E9 d`2019acc`00E8s est conserv`00E9e par votre appareil, votre gestionnaire de mots de passe ou une cl`00E9 de s`00E9curit`00E9 mat`00E9rielle, et ne peut pas `00EAtre hame`00E7onn`00E9e. Elle sert de seconde `00E9tape `00E0 la connexion et `00E0 la confirmation des actions sensibles.''),
    (''passkeys.none'', js ''Aucune cl`00E9 d`2019acc`00E8s pour l`2019instant.''),
    (''passkeys.name'', js ''Nom''),
    (''passkeys.name_placeholder'', js ''par ex. ordinateur portable, cl`00E9 de s`00E9curit`00E9''),
    (''passkeys.added_at'', js ''Ajout`00E9e''),
    (''passkeys.last_used'', js ''Derni`00E8re utilisation''),
    (''passkeys.add'', js ''Ajouter une cl`00E9 d`2019acc`00E8s''),
    (''passkeys.remove'', js ''Supprimer''),
    (''passkeys.remove_confirm'', js ''Supprimer cette cl`00E9 d`2019acc`00E8s ? Les autres sessions de ce compte seront d`00E9connect`00E9es.''),
    (''passkeys.added'', js ''Cl`00E9 d`2019acc`00E8s `00AB {name} `00BB ajout`00E9e.''),
    (''passkeys.removed'', js ''Cl`00E9 d`2019acc`00E8s `00AB {name} `00BB supprim`00E9e. Les autres sessions de ce compte ont `00E9t`00E9 d`00E9connect`00E9es.''),
    (''passkeys.last_required'', js ''Cette instance n`00E9cessite un second facteur. Ajoutez-en un autre avant de supprimer le dernier.''),
    (''passkeys.limit'', js ''Un compte peut avoir au plus {n} cl`00E9s d`2019acc`00E8s.''),
    (''passkeys.duplicate'', js ''Cette cl`00E9 d`2019acc`00E8s est d`00E9j`00E0 enregistr`00E9e.''),
    (''security.recovery.regenerate_confirmed'', js ''G`00E9n`00E9rer de nouveaux codes (les anciens cessent de fonctionner)''),
    (''sessions.title'', js ''Sessions actives'')]"

definition fr_17 :: messages where
  "fr_17 = [
    (''sessions.intro'', js ''Tous les emplacements o`00F9 ce compte est connect`00E9. D`00E9connectez ceux que vous ne reconnaissez pas, puis changez votre mot de passe.''),
    (''sessions.device'', js ''Appareil''),
    (''sessions.ip'', js ''Adresse IP''),
    (''sessions.started'', js ''D`00E9but''),
    (''sessions.last_seen'', js ''Derni`00E8re activit`00E9''),
    (''sessions.current'', js ''cette session''),
    (''sessions.pending'', js ''mot de passe uniquement, seconde `00E9tape non effectu`00E9e''),
    (''sessions.bound'', js ''li`00E9e `00E0 cet appareil''),
    (''sessions.factor'', js ''seconde `00E9tape : {factor}''),
    (''sessions.via.totp'', js ''code de l`2019app''),
    (''sessions.via.recovery'', js ''code de r`00E9cup`00E9ration''),
    (''sessions.via.passkey'', js ''cl`00E9 d`2019acc`00E8s''),
    (''sessions.unknown_device'', js ''Appareil inconnu''),
    (''sessions.revoke'', js ''D`00E9connecter''),
    (''sessions.revoke_others'', js ''D`00E9connecter toutes les autres sessions''),
    (''sessions.revoked'', js ''La session a `00E9t`00E9 d`00E9connect`00E9e.''),
    (''sessions.revoked_others'', js ''Toutes les autres sessions ont `00E9t`00E9 d`00E9connect`00E9es.'')]"

definition fr_messages :: messages where
  "fr_messages = fr_1 @ fr_2 @ fr_3 @ fr_4 @ fr_5 @ fr_6 @ fr_7 @ fr_8 @ fr_9 @ fr_10 @ fr_11 @ fr_12 @ fr_13 @ fr_14 @ fr_15 @ fr_16 @ fr_17"

lemmas fr_defs =
  fr_1_def fr_2_def fr_3_def fr_4_def fr_5_def fr_6_def fr_7_def fr_8_def fr_9_def fr_10_def fr_11_def fr_12_def fr_13_def fr_14_def
  fr_15_def fr_16_def fr_17_def

lemma fr_fits: "fits fr_messages message_shape"
  unfolding fr_messages_def message_shape_def
  by (intro fits_append; unfold fr_defs shape_defs; simp only: fits_rules cong: literal_congs)

end
