(* ===== verification/Locale_Ga.thy ===== *)
theory Locale_Ga
  imports Locale_En
begin

text \<open>src/locales/ga.ts: Irish.\<close>

definition ga_1 :: messages where
  "ga_1 = [
    (''app.tagline'', js ''bosca pr`00EDobh`00E1ideach chun comhaid a sheachadadh''),
    (''common.back_to_cases'', js ''`2190 C`00E1sanna''),
    (''common.home'', js ''Baile''),
    (''common.copy'', js ''C`00F3ipe`00E1il''),
    (''common.copied'', js ''C`00F3ipe`00E1ilte''),
    (''common.copy_manual'', js ''Roghnaigh agus c`00F3ipe`00E1il de l`00E1imh''),
    (''common.save'', js ''S`00E1bh`00E1il''),
    (''common.create'', js ''Cruthaigh''),
    (''common.cancel'', js ''Cealaigh''),
    (''common.retry'', js ''Bain triail eile as''),
    (''common.never'', js ''riamh''),
    (''common.unlimited'', js ''gan d`00E1ta `00E9aga''),
    (''common.none'', js ''`2014''),
    (''common.optional'', js ''roghnach''),
    (''common.loading'', js ''`00C1 l`00F3d`00E1il`2026''),
    (''common.yes'', js ''T`00E1''),
    (''common.language'', js ''Teanga''),
    (''nav.cases'', js ''C`00E1sanna''),
    (''nav.audit'', js ''Loga ini`00FAchta''),
    (''nav.security'', js ''Sl`00E1nd`00E1il'')]"

definition ga_2 :: messages where
  "ga_2 = [
    (''nav.logout'', js ''Log`00E1il amach''),
    (''error.not_found.title'', js ''N`00EDor aims`00EDodh''),
    (''error.page_missing'', js ''N`00EDl an leathanach seo ann.''),
    (''error.case_missing'', js ''N`00EDl an c`00E1s seo ann.''),
    (''error.link_missing'', js ''N`00EDl an nasc seo ann.''),
    (''error.file_missing'', js ''N`00EDl an comhad ann n`00F3 n`00EDl s`00E9 ar f`00E1il.''),
    (''error.file_not_exist'', js ''N`00EDl an comhad ann.''),
    (''error.storage_missing.title'', js ''Comhad in easnamh sa st`00F3ras''),
    (''error.storage_missing'', js ''T`00E1 na meiteashonra`00ED ann, ach t`00E1 an r`00E9ad imithe `00F3n st`00F3ras. Rith an glanadh chun an comhad a mharc`00E1il mar chomhad at`00E1 in easnamh.''),
    (''error.server.title'', js ''Earr`00E1id fhreastala`00ED''),
    (''error.server'', js ''Tharla earr`00E1id gan choinne.''),
    (''error.bad_request.title'', js ''Drochiarratas''),
    (''error.cross_site'', js ''Cuireadh bac ar iarratas `00F3 shu`00EDomh eile''),
    (''error.csrf'', js ''Comhartha CSRF neamhbhail`00ED''),
    (''error.invalid_expiry'', js ''D`00E1ta `00E9aga neamhbhail`00ED''),
    (''link.invalid.title'', js ''Nasc neamhbhail`00ED''),
    (''link.invalid'', js ''N`00EDl an nasc uasl`00F3d`00E1la seo ann.''),
    (''link.unavailable.title'', js ''N`00EDl an nasc ar f`00E1il''),
    (''link.expired'', js ''T`00E1 an nasc seo imithe in `00E9ag.''),
    (''link.revoked'', js ''C`00FAlghaireadh an nasc seo.'')]"

definition ga_3 :: messages where
  "ga_3 = [
    (''link.case_closed'', js ''D`00FAnadh an c`00E1s agus n`00ED ghlacann s`00E9 le comhaid a thuilleadh.''),
    (''link.contact'', js ''D`00E9an teagmh`00E1il leis an duine a thug an nasc duit.''),
    (''login.title'', js ''Log`00E1il isteach riarth`00F3ra''),
    (''login.username'', js ''Ainm `00FAs`00E1ideora''),
    (''login.password'', js ''Pasfhocal''),
    (''login.submit'', js ''Log`00E1il isteach''),
    (''login.failed'', js ''Ainm `00FAs`00E1ideora n`00F3 pasfhocal neamhbhail`00ED.''),
    (''login.too_many_codes'', js ''An iomarca c`00F3d m`00EDcheart. Log`00E1il isteach ar`00EDs.''),
    (''login.account_locked'', js ''An iomarca c`00F3d m`00EDcheart don chuntas seo. T`00E1 an dara facht`00F3ir faoi ghlas ar feadh 15 n`00F3im`00E9ad.''),
    (''totp.title'', js ''C`00F3d `00F3 d\\'aip f`00EDordheimhnithe''),
    (''totp.code_label'', js ''C`00F3d (6 dhigit) n`00F3 c`00F3d athshl`00E1naithe''),
    (''totp.confirm'', js ''Deimhnigh''),
    (''totp.cancel_logout'', js ''Cealaigh agus log`00E1il amach''),
    (''totp.invalid'', js ''C`00F3d neamhbhail`00ED.''),
    (''totp.attempts_left'', js ''Iarrachta`00ED f`00E1gtha: {n}.''),
    (''totp.locked_until'', js ''T`00E1 an cuntas faoi ghlas go sealadach tar `00E9is go leor c`00F3d m`00EDcheart (go dt`00ED {until} UTC).''),
    (''security.title'', js ''Sl`00E1nd`00E1il an chuntais `201C{user}`201D''),
    (''security.required_notice'', js ''`00C9il`00EDonn an sampla seo dara facht`00F3ir. Fanann an pain`00E9al dorochtana go dt`00ED go gcuireann t`00FA aip fh`00EDordheimhnithe n`00F3 passkey leis th`00EDos.''),
    (''security.status'', js ''F`00EDordheimhni`00FA dh`00E1 fhacht`00F3ir (TOTP, RFC 6238): {state}.''),
    (''security.enabled'', js ''cumasaithe'')]"

definition ga_4 :: messages where
  "ga_4 = [
    (''security.disabled'', js ''d`00EDchumasaithe''),
    (''security.recovery_left'', js ''C`00F3id athshl`00E1naithe gan `00FAs`00E1id: {n}.''),
    (''security.recovery.title'', js ''C`00F3id athshl`00E1naithe''),
    (''security.recovery.intro'', js ''S`00E1bh`00E1il anois iad in `00E1it sh`00E1bh`00E1ilte. Oibr`00EDonn gach ceann acu uair amh`00E1in agus tagann s`00E9 in `00E1it ch`00F3d na haipe m`00E1 chailleann t`00FA rochtain ar an aip. N`00ED thaispe`00E1nfar ar`00EDs iad.''),
    (''security.enable.title'', js ''Cumasaigh TOTP''),
    (''security.enable.intro'', js ''Teasta`00EDonn aip f`00EDordheimhnithe uait (m.sh. Aegis, Google Authenticator, 1Password, Bitwarden). Nuair a bheidh s`00E9 cumasaithe, beidh an pasfhocal agus c`00F3d reatha ag teast`00E1il chun log`00E1il isteach.''),
    (''security.enable.start'', js ''Tosaigh an socr`00FA''),
    (''security.step1'', js ''C`00E9im 1: scan an c`00F3d i d\\'aip''),
    (''security.manual_key'', js ''N`00F3 iontr`00E1il an eochair de l`00E1imh:''),
    (''security.key_params'', js ''Cine`00E1l: TOTP, SHA-1, 6 dhigit, 30 s. Eisitheoir: {issuer}, cuntas: {user}.''),
    (''security.open_in_app'', js ''Oscail san aip f`00EDordheimhnithe''),
    (''security.on_phone'', js ''(ar fh`00F3n)''),
    (''security.step2'', js ''C`00E9im 2: deimhnigh le c`00F3d''),
    (''security.code_from_app'', js ''C`00F3d `00F3n aip''),
    (''security.enable.submit'', js ''Cumasaigh TOTP''),
    (''security.pending_note'', js ''Is eochair shealadach `00ED go dt`00ED go ndeimhn`00EDtear `00ED; m`00E1 thosa`00EDonn t`00FA an socr`00FA ar`00EDs, crutha`00EDtear ceann nua.''),
    (''security.current_code'', js ''C`00F3d reatha `00F3n aip''),
    (''security.regenerate'', js ''Gin c`00F3id nua (stopfaidh na seancheanna ag obair)''),
    (''security.disable.title'', js ''D`00EDchumasaigh TOTP''),
    (''security.disable.intro'', js ''Teasta`00EDonn c`00F3d reatha `00F3n aip n`00F3 c`00F3d athshl`00E1naithe: n`00ED leor an seisi`00FAn f`00E9in (m.sh. fian`00E1n goidte). M`00E1 cailleadh an aip agus na c`00F3id athshl`00E1naithe araon, is f`00E9idir le hoibreoir {cmd} a rith ar an bhfreastala`00ED.'')]"

definition ga_5 :: messages where
  "ga_5 = [
    (''security.disable.code'', js ''C`00F3d''),
    (''security.disable.submit'', js ''D`00EDchumasaigh''),
    (''security.disable.confirm'', js ''An bhfuil t`00FA ag iarraidh f`00EDordheimhni`00FA dh`00E1 fhacht`00F3ir a dh`00EDchumas`00FA?''),
    (''security.msg.enabled'', js ''T`00E1 f`00EDordheimhni`00FA dh`00E1 fhacht`00F3ir cumasaithe.''),
    (''security.msg.code_mismatch'', js ''N`00ED hionann an c`00F3d. Seice`00E1il an t-am ar d\\'fh`00F3n agus bain triail eile as.''),
    (''security.msg.invalid_code'', js ''C`00F3d neamhbhail`00ED.''),
    (''security.msg.regenerated'', js ''Gineadh c`00F3id athshl`00E1naithe nua.''),
    (''security.msg.required'', js ''`00C9il`00EDonn an c`00E1s suite`00E1la seo TOTP (ADMIN_REQUIRE_TOTP); n`00ED f`00E9idir `00E9 a dh`00EDchumas`00FA.''),
    (''security.msg.disabled'', js ''D`00EDchumasa`00EDodh f`00EDordheimhni`00FA dh`00E1 fhacht`00F3ir.''),
    (''security.password.title'', js ''Athraigh an pasfhocal''),
    (''security.password.current'', js ''Pasfhocal reatha''),
    (''security.password.new'', js ''Pasfhocal nua (12 charachtar ar a laghad)''),
    (''security.password.confirm'', js ''Deimhnigh an pasfhocal nua''),
    (''security.password.submit'', js ''Athraigh an pasfhocal''),
    (''security.password.mismatch'', js ''N`00ED hionann an pasfhocal nua agus a dheimhni`00FA.''),
    (''security.password.invalid_current'', js ''T`00E1 an pasfhocal reatha m`00EDcheart.''),
    (''security.password.changed'', js ''Athra`00EDodh an pasfhocal. Log`00E1ladh amach seisi`00FAin eile an chuntais seo.''),
    (''home.title'', js ''inletbox''),
    (''home.message'', js ''Is bosca pr`00EDobh`00E1ideach `00E9 seo chun comhaid a sheachadadh. Chun comhaid a uasl`00F3d`00E1il, bain `00FAs`00E1id as an nasc a thug an duine a d\\'iarr iad duit.''),
    (''cases.new'', js ''C`00E1s nua'')]"

definition ga_6 :: messages where
  "ga_6 = [
    (''cases.name'', js ''Ainm''),
    (''cases.name_placeholder'', js ''m.sh. Ini`00FAchadh 2026/09 `2013 Cliant X''),
    (''cases.description_optional'', js ''Cur s`00EDos (roghnach)''),
    (''cases.description'', js ''Cur s`00EDos''),
    (''cases.list'', js ''C`00E1sanna''),
    (''cases.empty'', js ''N`00EDl aon ch`00E1sanna ann.''),
    (''cases.col.name'', js ''Ainm''),
    (''cases.col.status'', js ''St`00E1das''),
    (''cases.col.links'', js ''Naisc ghn`00EDomhacha''),
    (''cases.col.files'', js ''Comhaid''),
    (''cases.col.size'', js ''M`00E9id''),
    (''cases.col.created'', js ''Cruthaithe''),
    (''case.open'', js ''oscailte''),
    (''case.closed'', js ''d`00FAnta''),
    (''case.close'', js ''D`00FAn an c`00E1s''),
    (''case.reopen'', js ''Athoscail''),
    (''case.meta'', js ''Aitheantas: {id} `00B7 cruthaithe {date}. N`00ED ghlacann c`00E1s d`00FAnta le huasl`00F3d`00E1lacha tr`00ED aon cheann d`00E1 naisc.''),
    (''case.saved'', js ''S`00E1bh`00E1ilte.''),
    (''case.closed_no_links'', js ''T`00E1 an c`00E1s d`00FAnta `2013 athoscail `00E9 chun naisc a ghini`00FAint.''),
    (''case.new_link.title'', js ''Nasc nua do `201C{label}`201D'')]"

definition ga_7 :: messages where
  "ga_7 = [
    (''case.new_link.intro'', js ''C`00F3ipe`00E1il anois `00E9. N`00ED st`00F3r`00E1iltear an comhartha ach mar haisc agus n`00ED f`00E9idir `00E9 a aisghabh`00E1il n`00EDos d`00E9ana`00ED `2013 n`00ED f`00E9idir leat ach nasc nua a ghini`00FAint.''),
    (''case.new_link.copy_now'', js ''C`00F3ipe`00E1il anois `00E9.''),
    (''links.title'', js ''Naisc uasl`00F3d`00E1la''),
    (''links.intro'', js ''Is faighteoir ar leith agus raon infheictheachta ar leith gach nasc: n`00ED fheiceann sealbh`00F3ir an naisc ach na comhaid a seoladh tr`00EDd an nasc sin, agus n`00ED f`00E9idir leis iad a `00EDosl`00F3d`00E1il n`00E1 a scriosadh. T`00E1 an rochtain ch`00E9anna go d`00EDreach ag gach duine a bhfuil an nasc c`00E9anna aige `2013 n`00ED dh`00E9anann an feidhmchl`00E1r idirdheal`00FA idir daoine a `00FAs`00E1ideann an nasc c`00E9anna.''),
    (''links.generate'', js ''Gin nasc nua''),
    (''links.label'', js ''Lip`00E9ad an fhaighteora''),
    (''links.label_placeholder'', js ''m.sh. M`00E1ire N`00ED Bhriain `2013 cuntasa`00EDocht''),
    (''links.expires'', js ''Bail`00ED go dt`00ED (UTC, roghnach)''),
    (''links.max_file'', js ''Uasmh`00E9id comhaid (roghnach, `2264 {max})''),
    (''links.max_file_placeholder'', js ''m.sh. 500MB''),
    (''links.max_files'', js ''Uasl`00EDon comhad (roghnach)''),
    (''links.max_total'', js ''Uasmh`00E9id ioml`00E1n (roghnach)''),
    (''links.max_total_placeholder'', js ''m.sh. 2GB''),
    (''links.submit'', js ''Gin nasc''),
    (''links.empty'', js ''N`00EDl aon naisc ann.''),
    (''links.col.recipient'', js ''Faighteoir''),
    (''links.col.state'', js ''Staid''),
    (''links.col.expires'', js ''Bail`00ED go dt`00ED''),
    (''links.col.limits'', js ''Teorainneacha''),
    (''links.col.usage'', js ''`00DAs`00E1id'')]"

definition ga_8 :: messages where
  "ga_8 = [
    (''links.col.last_used'', js ''`00DAs`00E1idte go deireanach''),
    (''links.state.active'', js ''gn`00EDomhach''),
    (''links.state.expired'', js ''imithe in `00E9ag''),
    (''links.state.revoked'', js ''c`00FAlghairthe''),
    (''links.state.case_closed'', js ''c`00E1s d`00FAnta''),
    (''links.limit.file'', js ''comhad `2264 {max}''),
    (''links.limit.files'', js ''comhaid `2264 {n}''),
    (''links.limit.total'', js ''ioml`00E1n `2264 {max}''),
    (''links.usage'', js ''comhaid: {n}, {size}''),
    (''links.usage_in_progress'', js ''ar si`00FAl: {n} ({size} curtha in `00E1irithe)''),
    (''links.revoke'', js ''C`00FAlghair''),
    (''links.revoke_confirm'', js ''An bhfuil t`00FA ag iarraidh an nasc `201C{label}`201D a ch`00FAlghairm? Cuirfear deireadh le huasl`00F3d`00E1lacha at`00E1 ar si`00FAl.''),
    (''files.title'', js ''Comhaid''),
    (''files.empty'', js ''N`00EDl aon chomhaid ann.''),
    (''files.col.name'', js ''Ainm''),
    (''files.col.recipient'', js ''Faighteoir (nasc)''),
    (''files.col.size'', js ''M`00E9id''),
    (''files.col.status'', js ''St`00E1das''),
    (''files.col.uploaded'', js ''Uasl`00F3d`00E1ilte''),
    (''files.declared'', js ''{size} (dearbhaithe)'')]"

definition ga_9 :: messages where
  "ga_9 = [
    (''files.download'', js ''`00CDosl`00F3d`00E1il''),
    (''files.delete'', js ''Scrios''),
    (''files.delete_confirm'', js ''An bhfuil t`00FA ag iarraidh an comhad `201C{name}`201D a scriosadh? N`00ED f`00E9idir `00E9 seo a cheal`00FA.''),
    (''files.untrusted'', js ''Caitear le comhaid mar chomhaid neamhiontaofa: is ceangalt`00E1in iad na h`00EDosl`00F3d`00E1lacha i gc`00F3na`00ED, agus n`00ED thaispe`00E1ntar n`00E1 n`00ED ritear aon rud ar an bhfreastala`00ED. N`00EDl scanadh v`00EDreas mar chuid den leagan seo.''),
    (''files.status.uploading'', js ''ar si`00FAl''),
    (''files.status.complete'', js ''cr`00EDochnaithe''),
    (''files.status.aborted'', js ''tobscortha''),
    (''files.status.expired'', js ''imithe in `00E9ag''),
    (''files.status.missing'', js ''in easnamh sa st`00F3ras''),
    (''files.status.deleted'', js ''scriosta''),
    (''audit.title'', js ''Loga ini`00FAchta (na {n} is d`00E9ana`00ED)''),
    (''audit.col.time'', js ''Am''),
    (''audit.col.actor'', js ''Gn`00EDomha`00ED''),
    (''audit.col.action'', js ''Teagmhas''),
    (''audit.col.case'', js ''C`00E1s''),
    (''audit.col.link'', js ''Nasc''),
    (''audit.col.file'', js ''Comhad''),
    (''audit.col.ip'', js ''IP''),
    (''audit.col.details'', js ''Sonra`00ED''),
    (''upload.title'', js ''Uasl`00F3d`00E1il: {case}'')]"

definition ga_10 :: messages where
  "ga_10 = [
    (''upload.link_for'', js ''Nasc do:''),
    (''upload.valid_until'', js ''bail`00ED go dt`00ED {date}''),
    (''upload.limit.file'', js ''Uasmh`00E9id comhaid:''),
    (''upload.limit.files'', js ''Uasl`00EDon comhad:''),
    (''upload.limit.total'', js ''Teorainn ioml`00E1n sonra`00ED:''),
    (''upload.used_n'', js ''({n} in `00FAs`00E1id)''),
    (''upload.used_size'', js ''({size} in `00FAs`00E1id)''),
    (''upload.send'', js ''Uasl`00F3d`00E1il comhaid''),
    (''upload.drop_here'', js ''Tarraing comhaid anseo''),
    (''upload.or'', js ''n`00F3''),
    (''upload.choose'', js ''roghnaigh `00F3n diosca''),
    (''upload.resume_hint'', js ''Seoltar comhaid mh`00F3ra ina gcodanna agus is f`00E9idir lean`00FAint leis an uasl`00F3d`00E1il tar `00E9is don cheangal briseadh. Tar `00E9is duit an leathanach a athl`00F3d`00E1il, roghnaigh an comhad c`00E9anna ar`00EDs agus leanfaidh an uasl`00F3d`00E1il `00F3n `00E1it ar stop s`00ED.''),
    (''upload.your_files'', js ''Do chomhaid''),
    (''upload.your_files_intro'', js ''N`00ED fheiceann t`00FA ach na comhaid a uasl`00F3d`00E1ladh tr`00EDd an nasc seo. N`00ED f`00E9idir comhaid a `00EDosl`00F3d`00E1il n`00E1 a scriosadh anseo `2013 bail`00EDonn an riarth`00F3ir iad.''),
    (''upload.col.name'', js ''Ainm''),
    (''upload.col.size'', js ''M`00E9id''),
    (''upload.col.date'', js ''D`00E1ta''),
    (''upload.col.status'', js ''St`00E1das''),
    (''upload.none_yet'', js ''N`00EDor uasl`00F3d`00E1ladh aon chomhaid f`00F3s.''),
    (''upload.list_failed'', js ''N`00EDorbh fh`00E9idir an liosta a l`00F3d`00E1il: {msg}'')]"

definition ga_11 :: messages where
  "ga_11 = [
    (''upload.terminal'', js ''Uasl`00F3d`00E1il `00F3n teirmin`00E9al''),
    (''upload.terminal_hint'', js ''(curl, scripteanna, aistrithe inatosaithe)''),
    (''upload.terminal_intro'', js ''Cuir conair do chomhaid in ionad {path} (n`00EDl fadhb ar bith le sp`00E1sanna). Cialla`00EDonn c`00F3d scoir nach nialas `00E9 earr`00E1id; is JSON an freagra.''),
    (''upload.snippet.single'', js ''Comhad amh`00E1in''),
    (''upload.snippet.multi'', js ''Roinnt comhad''),
    (''upload.snippet.env'', js ''Comhartha in athr`00F3g timpeallachta (molta)''),
    (''upload.snippet.list'', js ''Liostaigh na comhaid uasl`00F3d`00E1ilte''),
    (''upload.snippet.resumable'', js ''Comhad m`00F3r le hatos`00FA (script {script})''),
    (''upload.history_warning'', js ''Tabhair faoi deara: s`00E1bh`00E1iltear ord`00FA ina bhfuil an comhartha i stair do bhlaoisce (m.sh. {file}). N`00ED thaifeadtar an leagan export a bhfuil sp`00E1s roimhe nuair at`00E1 {opt} socraithe. Caith leis an nasc seo mar phasfhocal agus n`00E1 tabhair do dhuine eile `00E9.''),
    (''upload.path_placeholder'', js ''/conair/go/comhad.pdf''),
    (''upload.path_placeholder2'', js ''/conair/tuairisc.pdf''),
    (''upload.path_placeholder3'', js ''/conair/grianghraf 1.jpg''),
    (''upload.path_placeholder_big'', js ''/conair/go/comhad mor.iso''),
    (''upload.js.queued'', js ''sa scuaine`2026''),
    (''upload.js.too_large'', js ''r`00F3mh`00F3r: teorainn {max}''),
    (''upload.js.error'', js ''earr`00E1id: {msg}''),
    (''upload.js.starting'', js ''ag tos`00FA`2026''),
    (''upload.js.resuming'', js ''ag atos`00FA an uasl`00F3d`00E1la roimhe seo`2026''),
    (''upload.js.retrying'', js ''ag triail ar`00EDs`2026''),
    (''upload.js.done'', js ''cr`00EDochnaithe'')]"

definition ga_12 :: messages where
  "ga_12 = [
    (''upload.js.finalising'', js ''seoladh na sonra`00ED go l`00E9ir, t`00E1 an freastala`00ED ag cr`00EDochn`00FA`2026''),
    (''upload.js.cancelled'', js ''cealaithe''),
    (''upload.js.cancelled_local'', js ''cealaithe (go h`00E1iti`00FAil)''),
    (''upload.js.status.uploading'', js ''ar si`00FAl''),
    (''upload.js.status.complete'', js ''cr`00EDochnaithe''),
    (''nav.users'', js ''`00DAs`00E1ideoir`00ED''),
    (''cases.empty_assigned'', js ''N`00EDl aon ch`00E1s sannta duit f`00F3s. Is f`00E9idir le comhghleaca`00ED at`00E1 ag obair ar ch`00E1s, n`00F3 le riarth`00F3ir, t`00FA a shannadh d`00F3, n`00F3 is f`00E9idir leat c`00E1s nua a chruth`00FA thuas.''),
    (''error.forbidden.title'', js ''N`00EDl cead''),
    (''error.forbidden'', js ''Is do riarth`00F3ir`00ED amh`00E1in an leathanach seo.''),
    (''security.must_change_notice'', js ''Riarth`00F3ir a d`2019eisigh do phasfhocal. Socraigh do phasfhocal f`00E9in th`00EDos sula leanfaidh t`00FA ar aghaidh.''),
    (''members.title'', js ''`00DAs`00E1ideoir`00ED sannta''),
    (''members.intro'', js ''N`00ED fheiceann `00FAs`00E1ideoir ach na c`00E1sanna at`00E1 sannta d`00F3. Feiceann riarth`00F3ir`00ED gach c`00E1s.''),
    (''members.empty'', js ''N`00EDl aon `00FAs`00E1ideoir sannta don ch`00E1s seo `2014 n`00ED fheiceann ach riarth`00F3ir`00ED `00E9.''),
    (''members.user'', js ''`00DAs`00E1ideoir''),
    (''members.add'', js ''Sann''),
    (''members.added'', js ''T`00E1 an cuntas {username} sannta don ch`00E1s seo anois.''),
    (''members.remove'', js ''D`00EDshann''),
    (''members.remove_confirm'', js ''{username} a dh`00EDshannadh? N`00ED fheicfidh an cuntas an c`00E1s seo a thuilleadh.''),
    (''members.removed'', js ''N`00EDl rochtain ag an gcuntas {username} ar an gc`00E1s seo a thuilleadh.''),
    (''members.none_assignable'', js ''N`00EDl aon chuntas `00FAs`00E1ideora eile le sannadh. Cruthaigh ceann faoi {link}.'')]"

definition ga_13 :: messages where
  "ga_13 = [
    (''users.new'', js ''Cuntas nua''),
    (''users.list'', js ''Cuntais''),
    (''users.username'', js ''Ainm `00FAs`00E1ideora''),
    (''users.username_placeholder'', js ''m.sh. aoife.ni.bhriain@comhlacht.ie''),
    (''users.role'', js ''R`00F3l''),
    (''users.role.admin'', js ''Riarth`00F3ir''),
    (''users.role.user'', js ''`00DAs`00E1ideoir''),
    (''users.roles_hint'', js ''N`00ED fheiceann agus n`00ED oibr`00EDonn `00FAs`00E1ideoir ach ar na c`00E1sanna at`00E1 sannta d`00F3. Feiceann riarth`00F3ir gach c`00E1s, bainist`00EDonn s`00E9 cuntais agus l`00E9ann s`00E9 an loga ini`00FAchta. Gintear pasfhocal sealadach, agus caithfear `00E9 a athr`00FA ag an gc`00E9ad s`00EDni`00FA isteach.''),
    (''users.col.username'', js ''Cuntas''),
    (''users.col.status'', js ''Staid''),
    (''users.col.totp'', js ''Dara facht`00F3ir''),
    (''users.col.cases'', js ''C`00E1sanna''),
    (''users.col.last_login'', js ''S`00EDni`00FA isteach deireanach''),
    (''users.status.active'', js ''gn`00EDomhach''),
    (''users.status.disabled'', js ''d`00EDchumasaithe''),
    (''users.status.must_change'', js ''pasfhocal le hathr`00FA''),
    (''users.you'', js ''tusa''),
    (''users.all_cases'', js ''gach ceann''),
    (''users.issued.title'', js ''Crutha`00EDodh an cuntas {username}''),
    (''users.issued.reset_title'', js ''Pasfhocal nua do {username}'')]"

definition ga_14 :: messages where
  "ga_14 = [
    (''users.issued.copy_now'', js ''C`00F3ipe`00E1il an pasfhocal seo anois `2014 n`00ED thaispe`00E1ntar `00E9 ach uair amh`00E1in.''),
    (''users.issued.intro'', js ''Tabhair uait `00E9 tr`00ED chain`00E9al eile seachas an t-ainm `00FAs`00E1ideora. Caithfear `00E9 a athshol`00E1thar ag an gc`00E9ad s`00EDni`00FA isteach.''),
    (''users.make_admin'', js ''D`00E9an riarth`00F3ir de''),
    (''users.make_user'', js ''D`00E9an `00FAs`00E1ideoir de''),
    (''users.role_confirm'', js ''R`00F3l an chuntais {username} a athr`00FA?''),
    (''users.role_changed'', js ''T`00E1 an r`00F3l seo ag an gcuntas {username} anois: {role}.''),
    (''users.reset_password'', js ''Pasfhocal nua''),
    (''users.reset_password_confirm'', js ''Pasfhocal nua a eisi`00FAint do {username}? Stopfaidh an ceann reatha ag obair agus cr`00EDochn`00F3idh gach seisi`00FAn den chuntas.''),
    (''users.password_reset'', js ''Eis`00EDodh pasfhocal nua do {username} agus s`00EDn`00EDodh an cuntas amach.''),
    (''users.reset_totp'', js ''Athshocraigh 2FA''),
    (''users.reset_totp_confirm'', js ''Dara facht`00F3ir {username} a bhaint? Socr`00F3far ar`00EDs `00E9 tar `00E9is an ch`00E9ad s`00EDni`00FA isteach eile.''),
    (''users.totp_reset'', js ''Baineadh f`00EDordheimhni`00FA dh`00E1 fhacht`00F3ir den chuntas {username}.''),
    (''users.disable'', js ''D`00EDchumasaigh''),
    (''users.disable_confirm'', js ''{username} a dh`00EDchumas`00FA? S`00EDneofar an cuntas amach agus n`00ED f`00E9idir leis s`00EDni`00FA isteach go dt`00ED go gcumas`00F3far ar`00EDs `00E9.''),
    (''users.disabled'', js ''D`00EDchumasa`00EDodh an cuntas {username} agus s`00EDn`00EDodh amach `00E9.''),
    (''users.enable'', js ''Cumasaigh''),
    (''users.enabled'', js ''Is f`00E9idir leis an gcuntas {username} s`00EDni`00FA isteach ar`00EDs.''),
    (''users.delete'', js ''Scrios''),
    (''users.delete_confirm'', js ''An cuntas {username} a scriosadh? Imeoidh a shannach`00E1in ch`00E1is leis; coinn`00EDonn an loga ini`00FAchta a ndearna s`00E9.''),
    (''users.deleted'', js ''Scriosadh an cuntas {username}.'')]"

definition ga_15 :: messages where
  "ga_15 = [
    (''users.missing'', js ''N`00EDl a leith`00E9id de chuntas ann.''),
    (''users.not_self'', js ''N`00ED f`00E9idir leat do chuntas f`00E9in a athr`00FA anseo `2014 t`00E1 do phasfhocal agus 2FA faoi Sl`00E1nd`00E1il.''),
    (''users.last_admin'', js ''Caithfidh riarth`00F3ir gn`00EDomhach amh`00E1in ar a laghad fanacht.''),
    (''users.exists'', js ''T`00E1 cuntas darb ainm {username} ann cheana.''),
    (''users.invalid_username'', js ''B`00EDonn 2`201364 carachtar in ainm `00FAs`00E1ideora: litreacha, digit`00ED agus . _ @ -''),
    (''users.invalid_role'', js ''R`00F3l anaithnid.''),
    (''members.not_self'', js ''N`00ED f`00E9idir leat t`00FA f`00E9in a dh`00EDshannadh. Iarr ar dhuine eile ar an gc`00E1s seo `00E9, n`00F3 ar riarth`00F3ir.''),
    (''members.none_assignable_user'', js ''N`00EDl aon chuntas `00FAs`00E1ideora eile le sannadh.''),
    (''second.title'', js ''An dara c`00E9im den s`00EDni`00FA isteach''),
    (''second.recovery_label'', js ''C`00F3d athshl`00E1naithe''),
    (''common.or'', js ''n`00F3''),
    (''passkey.use'', js ''`00DAs`00E1id passkey''),
    (''passkey.unsupported'', js ''N`00ED thaca`00EDonn an brabhs`00E1la`00ED seo le passkeys.''),
    (''passkey.failed'', js ''N`00EDorbh fh`00E9idir an passkey a fh`00EDor`00FA. Bain triail eile as.''),
    (''passkey.cancelled'', js ''Cealaithe. Bain triail eile as nuair a bheidh t`00FA r`00E9idh.''),
    (''confirm.title'', js ''Deimhnigh gur tusa at`00E1 ann''),
    (''confirm.intro'', js ''Teasta`00EDonn deimhni`00FA le d`00E9ana`00ED don ghn`00EDomh seo. Fanann s`00E9 bail`00ED ar feadh {minutes} n`00F3im`00E9ad ina dhiaidh sin, ionas nach gcuirfear ceist ort ar`00EDs ag gach c`00E9im.''),
    (''confirm.repeat'', js ''Tar `00E9is duit deimhni`00FA a dh`00E9anamh, d`00E9an an rud a bh`00ED `00E1 dh`00E9anamh agat ar`00EDs.''),
    (''confirm.code_label'', js ''C`00F3d `00F3n aip n`00F3 c`00F3d athshl`00E1naithe''),
    (''confirm.password_label'', js ''Do phasfhocal'')]"

definition ga_16 :: messages where
  "ga_16 = [
    (''confirm.submit'', js ''Deimhnigh''),
    (''confirm.invalid'', js ''N`00EDor mheaitse`00E1il sin. Bain triail eile as.''),
    (''confirm.locked'', js ''An iomarca c`00F3d m`00EDcheart don chuntas seo. Bain triail eile as i gceann 15 n`00F3im`00E9ad.''),
    (''passkeys.title'', js ''Passkeys''),
    (''passkeys.intro'', js ''Coinn`00EDonn do ghl`00E9as, do bhainisteoir pasfhocal n`00F3 eochair shl`00E1nd`00E1la passkey, agus n`00ED f`00E9idir `00E9 a ghoid tr`00ED bhr`00E9agaisn`00E9is. Feidhm`00EDonn s`00E9 mar an dara c`00E9im den s`00EDni`00FA isteach agus chun gn`00EDomhartha `00EDogaire a dheimhni`00FA.''),
    (''passkeys.none'', js ''N`00EDl aon passkeys ann f`00F3s.''),
    (''passkeys.name'', js ''Ainm''),
    (''passkeys.name_placeholder'', js ''m.sh. r`00EDomhaire gl`00FAine, eochair shl`00E1nd`00E1la''),
    (''passkeys.added_at'', js ''Curtha leis''),
    (''passkeys.last_used'', js ''`00DAs`00E1idte go deireanach''),
    (''passkeys.add'', js ''Cuir passkey leis''),
    (''passkeys.remove'', js ''Bain''),
    (''passkeys.remove_confirm'', js ''An passkey seo a bhaint? Log`00E1lfar amach seisi`00FAin eile an chuntais seo.''),
    (''passkeys.added'', js ''Passkey `201C{name}`201D curtha leis.''),
    (''passkeys.removed'', js ''Passkey `201C{name}`201D bainte. Log`00E1ladh amach seisi`00FAin eile an chuntais seo.''),
    (''passkeys.last_required'', js ''`00C9il`00EDonn an sampla seo dara facht`00F3ir. Cuir ceann eile leis sula mbainfidh t`00FA an ceann deireanach.''),
    (''passkeys.limit'', js ''N`00ED f`00E9idir n`00EDos m`00F3 n`00E1 {n} passkey a bheith ag cuntas.''),
    (''passkeys.duplicate'', js ''T`00E1 an passkey seo cl`00E1raithe cheana f`00E9in.''),
    (''security.recovery.regenerate_confirmed'', js ''Gin c`00F3id nua (stopfaidh na seancheanna ag obair)''),
    (''sessions.title'', js ''Seisi`00FAin ghn`00EDomhacha'')]"

definition ga_17 :: messages where
  "ga_17 = [
    (''sessions.intro'', js ''Gach `00E1it a bhfuil an cuntas seo s`00EDnithe isteach ann. Log`00E1il amach aon cheann nach n-aithn`00EDonn t`00FA, ansin athraigh do phasfhocal.''),
    (''sessions.device'', js ''Gl`00E9as''),
    (''sessions.ip'', js ''Seoladh IP''),
    (''sessions.started'', js ''Tosaithe''),
    (''sessions.last_seen'', js ''Gn`00EDomha`00EDocht dheireanach''),
    (''sessions.current'', js ''an seisi`00FAn seo''),
    (''sessions.pending'', js ''pasfhocal amh`00E1in, dara c`00E9im gan d`00E9anamh''),
    (''sessions.bound'', js ''ceangailte leis an ngl`00E9as seo''),
    (''sessions.factor'', js ''dara c`00E9im: {factor}''),
    (''sessions.via.totp'', js ''c`00F3d aipe''),
    (''sessions.via.recovery'', js ''c`00F3d athshl`00E1naithe''),
    (''sessions.via.passkey'', js ''passkey''),
    (''sessions.unknown_device'', js ''Gl`00E9as anaithnid''),
    (''sessions.revoke'', js ''Log`00E1il amach''),
    (''sessions.revoke_others'', js ''Log`00E1il amach gach seisi`00FAn eile''),
    (''sessions.revoked'', js ''Log`00E1ladh amach an seisi`00FAn.''),
    (''sessions.revoked_others'', js ''Log`00E1ladh amach gach seisi`00FAn eile.'')]"

definition ga_messages :: messages where
  "ga_messages = ga_1 @ ga_2 @ ga_3 @ ga_4 @ ga_5 @ ga_6 @ ga_7 @ ga_8 @ ga_9 @ ga_10 @ ga_11 @ ga_12 @ ga_13 @ ga_14 @ ga_15 @ ga_16 @ ga_17"

lemmas ga_defs =
  ga_1_def ga_2_def ga_3_def ga_4_def ga_5_def ga_6_def ga_7_def ga_8_def ga_9_def ga_10_def ga_11_def ga_12_def ga_13_def ga_14_def
  ga_15_def ga_16_def ga_17_def

lemma ga_fits: "fits ga_messages message_shape"
  unfolding ga_messages_def message_shape_def
  by (intro fits_append; unfold ga_defs shape_defs; simp only: fits_rules cong: literal_congs)

end
