(* ===== verification/Locale_Hr.thy ===== *)
theory Locale_Hr
  imports Locale_En
begin

text \<open>src/locales/hr.ts: Croatian.\<close>

definition hr_1 :: messages where
  "hr_1 = [
    (''app.tagline'', js ''privatni sandu`010Di`0107 za predaju datoteka''),
    (''common.back_to_cases'', js ''`2190 Predmeti''),
    (''common.home'', js ''Po`010Detna''),
    (''common.copy'', js ''Kopiraj''),
    (''common.copied'', js ''Kopirano''),
    (''common.copy_manual'', js ''Ozna`010Dite i kopirajte ru`010Dno''),
    (''common.save'', js ''Spremi''),
    (''common.create'', js ''Stvori''),
    (''common.cancel'', js ''Odustani''),
    (''common.retry'', js ''Poku`0161aj ponovno''),
    (''common.never'', js ''nikad''),
    (''common.unlimited'', js ''bez isteka''),
    (''common.none'', js ''`2014''),
    (''common.optional'', js ''neobavezno''),
    (''common.loading'', js ''U`010Ditavanje`2026''),
    (''common.yes'', js ''Da''),
    (''common.language'', js ''Jezik''),
    (''nav.cases'', js ''Predmeti''),
    (''nav.audit'', js ''Revizijski zapisnik''),
    (''nav.security'', js ''Sigurnost'')]"

definition hr_2 :: messages where
  "hr_2 = [
    (''nav.logout'', js ''Odjava''),
    (''error.not_found.title'', js ''Nije prona`0111eno''),
    (''error.page_missing'', js ''Ova stranica ne postoji.''),
    (''error.case_missing'', js ''Ovaj predmet ne postoji.''),
    (''error.link_missing'', js ''Ova poveznica ne postoji.''),
    (''error.file_missing'', js ''Datoteka ne postoji ili nije dostupna.''),
    (''error.file_not_exist'', js ''Datoteka ne postoji.''),
    (''error.storage_missing.title'', js ''Datoteka nedostaje u pohrani''),
    (''error.storage_missing'', js ''Metapodaci postoje, ali je objekt nestao iz pohrane. Pokrenite `010Di`0161`0107enje kako bi se datoteka ozna`010Dila kao nedostaju`0107a.''),
    (''error.server.title'', js ''Pogre`0161ka poslu`017Eitelja''),
    (''error.server'', js ''Do`0161lo je do neo`010Dekivane pogre`0161ke.''),
    (''error.bad_request.title'', js ''Neispravan zahtjev''),
    (''error.cross_site'', js ''Zahtjev s drugog web-mjesta je blokiran''),
    (''error.csrf'', js ''Neva`017Ee`0107i CSRF token''),
    (''error.invalid_expiry'', js ''Neva`017Ee`0107i datum isteka''),
    (''link.invalid.title'', js ''Neva`017Ee`0107a poveznica''),
    (''link.invalid'', js ''Ova poveznica za prijenos ne postoji.''),
    (''link.unavailable.title'', js ''Poveznica nije dostupna''),
    (''link.expired'', js ''Ova je poveznica istekla.''),
    (''link.revoked'', js ''Ova je poveznica opozvana.'')]"

definition hr_3 :: messages where
  "hr_3 = [
    (''link.case_closed'', js ''Predmet je zatvoren i vi`0161e ne prima datoteke.''),
    (''link.contact'', js ''Obratite se osobi koja vam je dala poveznicu.''),
    (''login.title'', js ''Prijava administratora''),
    (''login.username'', js ''Korisni`010Dko ime''),
    (''login.password'', js ''Lozinka''),
    (''login.submit'', js ''Prijava''),
    (''login.failed'', js ''Neva`017Ee`0107e korisni`010Dko ime ili lozinka.''),
    (''login.too_many_codes'', js ''Previ`0161e pogre`0161nih kodova. Ponovno se prijavite.''),
    (''login.account_locked'', js ''Previ`0161e pogre`0161nih kodova za ovaj ra`010Dun. Drugi faktor je zaklju`010Dan 15 minuta.''),
    (''totp.title'', js ''Kod iz va`0161e aplikacije za autentifikaciju''),
    (''totp.code_label'', js ''Kod (6 znamenki) ili kod za oporavak''),
    (''totp.confirm'', js ''Potvrdi''),
    (''totp.cancel_logout'', js ''Odustani i odjavi se''),
    (''totp.invalid'', js ''Neva`017Ee`0107i kod.''),
    (''totp.attempts_left'', js ''Preostali poku`0161aji: {n}.''),
    (''totp.locked_until'', js ''Ra`010Dun je privremeno zaklju`010Dan nakon mnogo pogre`0161nih kodova (do {until} UTC).''),
    (''security.title'', js ''Sigurnost ra`010Duna `201E{user}`201D''),
    (''security.required_notice'', js ''Ova instanca zahtijeva drugi faktor. Upravlja`010Dka plo`010Da ostaje nedostupna dok u nastavku ne dodate aplikaciju za autentifikaciju ili pristupni klju`010D.''),
    (''security.status'', js ''Dvofaktorska autentifikacija (TOTP, RFC 6238): {state}.''),
    (''security.enabled'', js ''uklju`010Dena'')]"

definition hr_4 :: messages where
  "hr_4 = [
    (''security.disabled'', js ''isklju`010Dena''),
    (''security.recovery_left'', js ''Neiskori`0161teni kodovi za oporavak: {n}.''),
    (''security.recovery.title'', js ''Kodovi za oporavak''),
    (''security.recovery.intro'', js ''Spremite ih sada na sigurno mjesto. Svaki radi jednom i zamjenjuje kod iz aplikacije ako izgubite pristup aplikaciji. Ne`0107e se ponovno prikazati.''),
    (''security.enable.title'', js ''Uklju`010Di TOTP''),
    (''security.enable.intro'', js ''Potrebna vam je aplikacija za autentifikaciju (npr. Aegis, Google Authenticator, 1Password, Bitwarden). Nakon uklju`010Divanja prijava zahtijeva lozinku i trenuta`010Dni kod.''),
    (''security.enable.start'', js ''Pokreni postavljanje''),
    (''security.step1'', js ''1. korak: skenirajte kod u aplikaciji''),
    (''security.manual_key'', js ''Ili ru`010Dno unesite klju`010D:''),
    (''security.key_params'', js ''Vrsta: TOTP, SHA-1, 6 znamenki, 30 s. Izdavatelj: {issuer}, ra`010Dun: {user}.''),
    (''security.open_in_app'', js ''Otvori u aplikaciji za autentifikaciju''),
    (''security.on_phone'', js ''(na telefonu)''),
    (''security.step2'', js ''2. korak: potvrdite kodom''),
    (''security.code_from_app'', js ''Kod iz aplikacije''),
    (''security.enable.submit'', js ''Uklju`010Di TOTP''),
    (''security.pending_note'', js ''Klju`010D je privremen dok se ne potvrdi; ponovno pokretanje postavljanja stvara novi.''),
    (''security.current_code'', js ''Trenuta`010Dni kod iz aplikacije''),
    (''security.regenerate'', js ''Stvori nove kodove (stari prestaju vrijediti)''),
    (''security.disable.title'', js ''Isklju`010Di TOTP''),
    (''security.disable.intro'', js ''Zahtijeva trenuta`010Dni kod iz aplikacije ili kod za oporavak: sama sesija (npr. ukradeni kola`010Di`0107) nije dovoljna. Ako su izgubljeni i aplikacija i kodovi za oporavak, operater mo`017Ee na poslu`017Eitelju pokrenuti {cmd}.'')]"

definition hr_5 :: messages where
  "hr_5 = [
    (''security.disable.code'', js ''Kod''),
    (''security.disable.submit'', js ''Isklju`010Di''),
    (''security.disable.confirm'', js ''Isklju`010Diti dvofaktorsku autentifikaciju?''),
    (''security.msg.enabled'', js ''Dvofaktorska autentifikacija je uklju`010Dena.''),
    (''security.msg.code_mismatch'', js ''Kod se ne podudara. Provjerite vrijeme na telefonu i poku`0161ajte ponovno.''),
    (''security.msg.invalid_code'', js ''Neva`017Ee`0107i kod.''),
    (''security.msg.regenerated'', js ''Stvoreni su novi kodovi za oporavak.''),
    (''security.msg.required'', js ''Ova instanca zahtijeva TOTP (ADMIN_REQUIRE_TOTP); ne mo`017Ee se isklju`010Diti.''),
    (''security.msg.disabled'', js ''Dvofaktorska autentifikacija je isklju`010Dena.''),
    (''security.password.title'', js ''Promjena lozinke''),
    (''security.password.current'', js ''Trenuta`010Dna lozinka''),
    (''security.password.new'', js ''Nova lozinka (najmanje 12 znakova)''),
    (''security.password.confirm'', js ''Potvrdite novu lozinku''),
    (''security.password.submit'', js ''Promijeni lozinku''),
    (''security.password.mismatch'', js ''Nova lozinka i potvrda se ne podudaraju.''),
    (''security.password.invalid_current'', js ''Trenuta`010Dna lozinka nije to`010Dna.''),
    (''security.password.changed'', js ''Lozinka je promijenjena. Ostale sesije ovog ra`010Duna su odjavljene.''),
    (''home.title'', js ''inletbox''),
    (''home.message'', js ''Ovo je privatni sandu`010Di`0107 za predaju datoteka. Za prijenos datoteka upotrijebite poveznicu koju ste dobili od osobe koja ih je zatra`017Eila.''),
    (''cases.new'', js ''Novi predmet'')]"

definition hr_6 :: messages where
  "hr_6 = [
    (''cases.name'', js ''Naziv''),
    (''cases.name_placeholder'', js ''npr. Revizija 2026/09 `2013 Klijent X''),
    (''cases.description_optional'', js ''Opis (neobavezno)''),
    (''cases.description'', js ''Opis''),
    (''cases.list'', js ''Predmeti''),
    (''cases.empty'', js ''Nema predmeta.''),
    (''cases.col.name'', js ''Naziv''),
    (''cases.col.status'', js ''Status''),
    (''cases.col.links'', js ''Aktivne poveznice''),
    (''cases.col.files'', js ''Datoteke''),
    (''cases.col.size'', js ''Veli`010Dina''),
    (''cases.col.created'', js ''Stvoreno''),
    (''case.open'', js ''otvoren''),
    (''case.closed'', js ''zatvoren''),
    (''case.close'', js ''Zatvori predmet''),
    (''case.reopen'', js ''Ponovno otvori''),
    (''case.meta'', js ''ID: {id} `00B7 stvoreno {date}. Zatvoreni predmet ne prima prijenose ni putem jedne svoje poveznice.''),
    (''case.saved'', js ''Spremljeno.''),
    (''case.closed_no_links'', js ''Predmet je zatvoren `2013 ponovno ga otvorite da biste stvarali poveznice.''),
    (''case.new_link.title'', js ''Nova poveznica za `201E{label}`201D'')]"

definition hr_7 :: messages where
  "hr_7 = [
    (''case.new_link.intro'', js ''Kopirajte je sada. Token se sprema samo kao sa`017Eetak i kasnije ga nije mogu`0107e vratiti `2013 mo`017Eete samo stvoriti novu poveznicu.''),
    (''case.new_link.copy_now'', js ''Kopirajte je sada.''),
    (''links.title'', js ''Poveznice za prijenos''),
    (''links.intro'', js ''Svaka je poveznica zaseban primatelj i zaseban opseg vidljivosti: tko ima poveznicu, vidi samo datoteke poslane tom poveznicom i ne mo`017Ee ih preuzeti ni izbrisati. Svi koji znaju istu poveznicu imaju jednak pristup `2013 aplikacija ne razlikuje osobe koje koriste istu poveznicu.''),
    (''links.generate'', js ''Stvori novu poveznicu''),
    (''links.label'', js ''Oznaka primatelja''),
    (''links.label_placeholder'', js ''npr. Ana Horvat `2013 ra`010Dunovodstvo''),
    (''links.expires'', js ''Vrijedi do (UTC, neobavezno)''),
    (''links.max_file'', js ''Najve`0107a veli`010Dina datoteke (neobavezno, `2264 {max})''),
    (''links.max_file_placeholder'', js ''npr. 500MB''),
    (''links.max_files'', js ''Najve`0107i broj datoteka (neobavezno)''),
    (''links.max_total'', js ''Najve`0107a ukupna veli`010Dina (neobavezno)''),
    (''links.max_total_placeholder'', js ''npr. 2GB''),
    (''links.submit'', js ''Stvori poveznicu''),
    (''links.empty'', js ''Nema poveznica.''),
    (''links.col.recipient'', js ''Primatelj''),
    (''links.col.state'', js ''Stanje''),
    (''links.col.expires'', js ''Vrijedi do''),
    (''links.col.limits'', js ''Ograni`010Denja''),
    (''links.col.usage'', js ''Iskori`0161tenost'')]"

definition hr_8 :: messages where
  "hr_8 = [
    (''links.col.last_used'', js ''Zadnja upotreba''),
    (''links.state.active'', js ''aktivna''),
    (''links.state.expired'', js ''istekla''),
    (''links.state.revoked'', js ''opozvana''),
    (''links.state.case_closed'', js ''predmet zatvoren''),
    (''links.limit.file'', js ''datoteka `2264 {max}''),
    (''links.limit.files'', js ''datoteke `2264 {n}''),
    (''links.limit.total'', js ''ukupno `2264 {max}''),
    (''links.usage'', js ''datoteka: {n}, {size}''),
    (''links.usage_in_progress'', js ''u tijeku: {n} (rezervirano {size})''),
    (''links.revoke'', js ''Opozovi''),
    (''links.revoke_confirm'', js ''Opozvati poveznicu `201E{label}`201D? Prijenosi u tijeku bit `0107e prekinuti.''),
    (''files.title'', js ''Datoteke''),
    (''files.empty'', js ''Nema datoteka.''),
    (''files.col.name'', js ''Naziv''),
    (''files.col.recipient'', js ''Primatelj (poveznica)''),
    (''files.col.size'', js ''Veli`010Dina''),
    (''files.col.status'', js ''Status''),
    (''files.col.uploaded'', js ''Preneseno''),
    (''files.declared'', js ''{size} (deklarirano)'')]"

definition hr_9 :: messages where
  "hr_9 = [
    (''files.download'', js ''Preuzmi''),
    (''files.delete'', js ''Izbri`0161i''),
    (''files.delete_confirm'', js ''Izbrisati datoteku `201E{name}`201D? Ovo se ne mo`017Ee poni`0161titi.''),
    (''files.untrusted'', js ''Datoteke se smatraju nepouzdanima: preuzimanja su uvijek privici, a na poslu`017Eitelju se ni`0161ta ne prikazuje niti izvr`0161ava. Antivirusno skeniranje nije dio ove verzije.''),
    (''files.status.uploading'', js ''u tijeku''),
    (''files.status.complete'', js ''dovr`0161eno''),
    (''files.status.aborted'', js ''prekinuto''),
    (''files.status.expired'', js ''isteklo''),
    (''files.status.missing'', js ''nedostaje u pohrani''),
    (''files.status.deleted'', js ''izbrisano''),
    (''audit.title'', js ''Revizijski zapisnik (zadnjih {n})''),
    (''audit.col.time'', js ''Vrijeme''),
    (''audit.col.actor'', js ''Izvr`0161itelj''),
    (''audit.col.action'', js ''Doga`0111aj''),
    (''audit.col.case'', js ''Predmet''),
    (''audit.col.link'', js ''Poveznica''),
    (''audit.col.file'', js ''Datoteka''),
    (''audit.col.ip'', js ''IP''),
    (''audit.col.details'', js ''Pojedinosti''),
    (''upload.title'', js ''Prijenos: {case}'')]"

definition hr_10 :: messages where
  "hr_10 = [
    (''upload.link_for'', js ''Poveznica za:''),
    (''upload.valid_until'', js ''vrijedi do {date}''),
    (''upload.limit.file'', js ''Najve`0107a veli`010Dina datoteke:''),
    (''upload.limit.files'', js ''Najve`0107i broj datoteka:''),
    (''upload.limit.total'', js ''Ukupno ograni`010Denje podataka:''),
    (''upload.used_n'', js ''(iskori`0161teno {n})''),
    (''upload.used_size'', js ''(iskori`0161teno {size})''),
    (''upload.send'', js ''Prenesi datoteke''),
    (''upload.drop_here'', js ''Povucite datoteke ovamo''),
    (''upload.or'', js ''ili''),
    (''upload.choose'', js ''odaberite s diska''),
    (''upload.resume_hint'', js ''Velike datoteke `0161alju se u dijelovima i prijenos se mo`017Ee nastaviti nakon prekida veze. Nakon ponovnog u`010Ditavanja stranice ponovno odaberite istu datoteku i prijenos se nastavlja gdje je stao.''),
    (''upload.your_files'', js ''Va`0161e datoteke''),
    (''upload.your_files_intro'', js ''Vidite samo datoteke prenesene ovom poveznicom. Ovdje se datoteke ne mogu preuzeti ni izbrisati `2013 preuzima ih administrator.''),
    (''upload.col.name'', js ''Naziv''),
    (''upload.col.size'', js ''Veli`010Dina''),
    (''upload.col.date'', js ''Datum''),
    (''upload.col.status'', js ''Status''),
    (''upload.none_yet'', js ''Jo`0161 nije prenesena nijedna datoteka.''),
    (''upload.list_failed'', js ''Popis se nije mogao u`010Ditati: {msg}'')]"

definition hr_11 :: messages where
  "hr_11 = [
    (''upload.terminal'', js ''Prijenos iz terminala''),
    (''upload.terminal_hint'', js ''(curl, skripte, prijenosi s nastavkom)''),
    (''upload.terminal_intro'', js ''Zamijenite {path} putanjom do svoje datoteke (razmaci nisu problem). Izlazni kod razli`010Dit od nule zna`010Di pogre`0161ku; odgovor je JSON.''),
    (''upload.snippet.single'', js ''Jedna datoteka''),
    (''upload.snippet.multi'', js ''Vi`0161e datoteka''),
    (''upload.snippet.env'', js ''Token u varijabli okru`017Eenja (preporu`010Deno)''),
    (''upload.snippet.list'', js ''Popis prenesenih datoteka''),
    (''upload.snippet.resumable'', js ''Velika datoteka s nastavkom (skripta {script})''),
    (''upload.history_warning'', js ''Napomena: naredba koja sadr`017Ei token zavr`0161ava u povijesti ljuske (npr. {file}). Varijanta s export ispred koje je razmak ne bilje`017Ei se kada je postavljeno {opt}. Postupajte s ovom poveznicom kao s lozinkom i ne proslje`0111ujte je.''),
    (''upload.path_placeholder'', js ''/putanja/do/datoteke.pdf''),
    (''upload.path_placeholder2'', js ''/putanja/izvjestaj.pdf''),
    (''upload.path_placeholder3'', js ''/putanja/foto 1.jpg''),
    (''upload.path_placeholder_big'', js ''/putanja/do/velika datoteka.iso''),
    (''upload.js.queued'', js ''u redu `010Dekanja`2026''),
    (''upload.js.too_large'', js ''prevelika: ograni`010Denje {max}''),
    (''upload.js.error'', js ''pogre`0161ka: {msg}''),
    (''upload.js.starting'', js ''pokretanje`2026''),
    (''upload.js.resuming'', js ''nastavak prethodnog prijenosa`2026''),
    (''upload.js.retrying'', js ''ponovni poku`0161aj`2026''),
    (''upload.js.done'', js ''dovr`0161eno'')]"

definition hr_12 :: messages where
  "hr_12 = [
    (''upload.js.finalising'', js ''svi podaci poslani, poslu`017Eitelj zavr`0161ava`2026''),
    (''upload.js.cancelled'', js ''otkazano''),
    (''upload.js.cancelled_local'', js ''otkazano (lokalno)''),
    (''upload.js.status.uploading'', js ''u tijeku''),
    (''upload.js.status.complete'', js ''dovr`0161eno''),
    (''nav.users'', js ''Korisnici''),
    (''cases.empty_assigned'', js ''Jo`0161 vam nije dodijeljen nijedan predmet. Mo`017Ee vam ga dodijeliti kolega koji radi na predmetu ili administrator, a mo`017Eete i gore stvoriti novi.''),
    (''error.forbidden.title'', js ''Nije dopu`0161teno''),
    (''error.forbidden'', js ''Ova je stranica samo za administratore.''),
    (''security.must_change_notice'', js ''Va`0161u je lozinku izdao administrator. Prije nastavka postavite ispod vlastitu lozinku.''),
    (''members.title'', js ''Dodijeljeni korisnici''),
    (''members.intro'', js ''Korisnik vidi samo predmete koji su mu dodijeljeni. Administratori vide sve predmete.''),
    (''members.empty'', js ''Ovom predmetu nije dodijeljen nijedan korisnik `2014 vide ga samo administratori.''),
    (''members.user'', js ''Korisnik''),
    (''members.add'', js ''Dodijeli''),
    (''members.added'', js ''Ra`010Dun {username} sada je dodijeljen ovom predmetu.''),
    (''members.remove'', js ''Ukloni''),
    (''members.remove_confirm'', js ''Ukloniti {username}? Ra`010Dun vi`0161e ne`0107e vidjeti ovaj predmet.''),
    (''members.removed'', js ''Ra`010Dun {username} vi`0161e nema pristup ovom predmetu.''),
    (''members.none_assignable'', js ''Nema vi`0161e korisni`010Dkih ra`010Duna za dodjelu. Stvorite novi u odjeljku {link}.'')]"

definition hr_13 :: messages where
  "hr_13 = [
    (''users.new'', js ''Novi ra`010Dun''),
    (''users.list'', js ''Ra`010Duni''),
    (''users.username'', js ''Korisni`010Dko ime''),
    (''users.username_placeholder'', js ''npr. ana.horvat@tvrtka.hr''),
    (''users.role'', js ''Uloga''),
    (''users.role.admin'', js ''Administrator''),
    (''users.role.user'', js ''Korisnik''),
    (''users.roles_hint'', js ''Korisnik vidi i obra`0111uje samo predmete koji su mu dodijeljeni. Administrator vidi sve predmete, upravlja ra`010Dunima i `010Dita revizijski zapisnik. Stvara se privremena lozinka koju treba promijeniti pri prvoj prijavi.''),
    (''users.col.username'', js ''Ra`010Dun''),
    (''users.col.status'', js ''Stanje''),
    (''users.col.totp'', js ''Drugi faktor''),
    (''users.col.cases'', js ''Predmeti''),
    (''users.col.last_login'', js ''Zadnja prijava''),
    (''users.status.active'', js ''aktivan''),
    (''users.status.disabled'', js ''onemogu`0107en''),
    (''users.status.must_change'', js ''treba promijeniti lozinku''),
    (''users.you'', js ''vi''),
    (''users.all_cases'', js ''svi''),
    (''users.issued.title'', js ''Ra`010Dun {username} je stvoren''),
    (''users.issued.reset_title'', js ''Nova lozinka za {username}'')]"

definition hr_14 :: messages where
  "hr_14 = [
    (''users.issued.copy_now'', js ''Kopirajte ovu lozinku sada `2014 prikazuje se samo jednom.''),
    (''users.issued.intro'', js ''Predajte je drugim kanalom od korisni`010Dkog imena. Pri prvoj prijavi treba je zamijeniti.''),
    (''users.make_admin'', js ''Postavi za administratora''),
    (''users.make_user'', js ''Postavi za korisnika''),
    (''users.role_confirm'', js ''Promijeniti ulogu ra`010Duna {username}?''),
    (''users.role_changed'', js ''Ra`010Dun {username} sada ima ulogu: {role}.''),
    (''users.reset_password'', js ''Nova lozinka''),
    (''users.reset_password_confirm'', js ''Izdati novu lozinku za {username}? Trenuta`010Dna prestaje vrijediti, a sve sesije ra`010Duna zavr`0161avaju.''),
    (''users.password_reset'', js ''Za {username} izdana je nova lozinka, a ra`010Dun je odjavljen.''),
    (''users.reset_totp'', js ''Poni`0161ti 2FA''),
    (''users.reset_totp_confirm'', js ''Ukloniti drugi faktor ra`010Duna {username}? Ponovno se postavlja nakon sljede`0107e prijave.''),
    (''users.totp_reset'', js ''S ra`010Duna {username} uklonjena je dvofaktorska autentifikacija.''),
    (''users.disable'', js ''Onemogu`0107i''),
    (''users.disable_confirm'', js ''Onemogu`0107iti {username}? Ra`010Dun se odjavljuje i ne mo`017Ee se prijaviti dok se ponovno ne omogu`0107i.''),
    (''users.disabled'', js ''Ra`010Dun {username} je onemogu`0107en i odjavljen.''),
    (''users.enable'', js ''Omogu`0107i''),
    (''users.enabled'', js ''Ra`010Dun {username} ponovno se mo`017Ee prijaviti.''),
    (''users.delete'', js ''Izbri`0161i''),
    (''users.delete_confirm'', js ''Izbrisati ra`010Dun {username}? S njim nestaju i njegove dodjele predmeta; revizijski zapisnik `010Duva ono `0161to je napravio.''),
    (''users.deleted'', js ''Ra`010Dun {username} je izbrisan.'')]"

definition hr_15 :: messages where
  "hr_15 = [
    (''users.missing'', js ''Takav ra`010Dun ne postoji.''),
    (''users.not_self'', js ''Ovdje ne mo`017Eete mijenjati vlastiti ra`010Dun `2014 lozinka i 2FA nalaze se pod Sigurnost.''),
    (''users.last_admin'', js ''Mora ostati barem jedan aktivan administrator.''),
    (''users.exists'', js ''Ra`010Dun s imenom {username} ve`0107 postoji.''),
    (''users.invalid_username'', js ''Korisni`010Dko ime ima 2`201364 znaka: slova, znamenke te . _ @ -''),
    (''users.invalid_role'', js ''Nepoznata uloga.''),
    (''members.not_self'', js ''Ne mo`017Eete ukloniti sami sebe. Zamolite nekoga drugog na predmetu ili administratora.''),
    (''members.none_assignable_user'', js ''Nema drugog korisni`010Dkog ra`010Duna za dodjelu.''),
    (''second.title'', js ''Drugi korak prijave''),
    (''second.recovery_label'', js ''Kod za oporavak''),
    (''common.or'', js ''ili''),
    (''passkey.use'', js ''Upotrijebi pristupni klju`010D''),
    (''passkey.unsupported'', js ''Ovaj preglednik ne podr`017Eava pristupne klju`010Deve.''),
    (''passkey.failed'', js ''Pristupni klju`010D nije bilo mogu`0107e provjeriti. Poku`0161ajte ponovno.''),
    (''passkey.cancelled'', js ''Otkazano. Poku`0161ajte ponovno kada budete spremni.''),
    (''confirm.title'', js ''Potvrdite svoj identitet''),
    (''confirm.intro'', js ''Ova radnja zahtijeva nedavnu potvrdu. Zatim ostaje va`017Ee`0107a {minutes} minuta, tako da se od vas ne tra`017Ei ponovno pri svakom koraku.''),
    (''confirm.repeat'', js ''Nakon potvrde ponovite ono `0161to ste radili.''),
    (''confirm.code_label'', js ''Kod iz aplikacije ili kod za oporavak''),
    (''confirm.password_label'', js ''Va`0161a lozinka'')]"

definition hr_16 :: messages where
  "hr_16 = [
    (''confirm.submit'', js ''Potvrdi''),
    (''confirm.invalid'', js ''To se ne podudara. Poku`0161ajte ponovno.''),
    (''confirm.locked'', js ''Previ`0161e pogre`0161nih kodova za ovaj ra`010Dun. Poku`0161ajte ponovno za 15 minuta.''),
    (''passkeys.title'', js ''Pristupni klju`010Devi''),
    (''passkeys.intro'', js ''Pristupni klju`010D `010Duva va`0161 ure`0111aj, upravitelj lozinki ili sigurnosni klju`010D i ne mo`017Ee se la`017Eirati (phishing). Slu`017Ei kao drugi korak prijave i za potvrdu osjetljivih radnji.''),
    (''passkeys.none'', js ''Jo`0161 nema pristupnih klju`010Deva.''),
    (''passkeys.name'', js ''Naziv''),
    (''passkeys.name_placeholder'', js ''npr. prijenosno ra`010Dunalo, sigurnosni klju`010D''),
    (''passkeys.added_at'', js ''Dodano''),
    (''passkeys.last_used'', js ''Zadnje kori`0161teno''),
    (''passkeys.add'', js ''Dodaj pristupni klju`010D''),
    (''passkeys.remove'', js ''Ukloni''),
    (''passkeys.remove_confirm'', js ''Ukloniti ovaj pristupni klju`010D? Ostale sesije ovog ra`010Duna bit `0107e odjavljene.''),
    (''passkeys.added'', js ''Pristupni klju`010D `201E{name}`201D je dodan.''),
    (''passkeys.removed'', js ''Pristupni klju`010D `201E{name}`201D je uklonjen. Ostale sesije ovog ra`010Duna su odjavljene.''),
    (''passkeys.last_required'', js ''Ova instanca zahtijeva drugi faktor. Dodajte drugi prije uklanjanja posljednjeg.''),
    (''passkeys.limit'', js ''Ra`010Dun mo`017Ee imati najvi`0161e {n} pristupnih klju`010Deva.''),
    (''passkeys.duplicate'', js ''Ovaj pristupni klju`010D ve`0107 je registriran.''),
    (''security.recovery.regenerate_confirmed'', js ''Stvori nove kodove (stari prestaju vrijediti)''),
    (''sessions.title'', js ''Aktivne sesije'')]"

definition hr_17 :: messages where
  "hr_17 = [
    (''sessions.intro'', js ''Sva mjesta na kojima je ovaj ra`010Dun prijavljen. Odjavite sve koje ne prepoznajete, a zatim promijenite lozinku.''),
    (''sessions.device'', js ''Ure`0111aj''),
    (''sessions.ip'', js ''IP adresa''),
    (''sessions.started'', js ''Zapo`010Deto''),
    (''sessions.last_seen'', js ''Zadnja aktivnost''),
    (''sessions.current'', js ''ova sesija''),
    (''sessions.pending'', js ''samo lozinka, drugi korak nije dovr`0161en''),
    (''sessions.bound'', js ''vezano uz ovaj ure`0111aj''),
    (''sessions.factor'', js ''drugi korak: {factor}''),
    (''sessions.via.totp'', js ''kod iz aplikacije''),
    (''sessions.via.recovery'', js ''kod za oporavak''),
    (''sessions.via.passkey'', js ''pristupni klju`010D''),
    (''sessions.unknown_device'', js ''Nepoznati ure`0111aj''),
    (''sessions.revoke'', js ''Odjavi''),
    (''sessions.revoke_others'', js ''Odjavi sve ostale sesije''),
    (''sessions.revoked'', js ''Sesija je odjavljena.''),
    (''sessions.revoked_others'', js ''Sve ostale sesije su odjavljene.'')]"

definition hr_messages :: messages where
  "hr_messages = hr_1 @ hr_2 @ hr_3 @ hr_4 @ hr_5 @ hr_6 @ hr_7 @ hr_8 @ hr_9 @ hr_10 @ hr_11 @ hr_12 @ hr_13 @ hr_14 @ hr_15 @ hr_16 @ hr_17"

lemmas hr_defs =
  hr_1_def hr_2_def hr_3_def hr_4_def hr_5_def hr_6_def hr_7_def hr_8_def hr_9_def hr_10_def hr_11_def hr_12_def hr_13_def hr_14_def
  hr_15_def hr_16_def hr_17_def

lemma hr_fits: "fits hr_messages message_shape"
  unfolding hr_messages_def message_shape_def
  by (intro fits_append; unfold hr_defs shape_defs; simp only: fits_rules cong: literal_congs)

end
