(* ===== verification/Locale_Hu.thy ===== *)
theory Locale_Hu
  imports Locale_En
begin

text \<open>src/locales/hu.ts: Hungarian.\<close>

definition hu_1 :: messages where
  "hu_1 = [
    (''app.tagline'', js ''priv`00E1t f`00E1jllead`00F3 doboz''),
    (''common.back_to_cases'', js ''`2190 `00DCgyek''),
    (''common.home'', js ''Kezd`0151lap''),
    (''common.copy'', js ''M`00E1sol`00E1s''),
    (''common.copied'', js ''M`00E1solva''),
    (''common.copy_manual'', js ''Jel`00F6lje ki `00E9s m`00E1solja k`00E9zzel''),
    (''common.save'', js ''Ment`00E9s''),
    (''common.create'', js ''L`00E9trehoz`00E1s''),
    (''common.cancel'', js ''M`00E9gse''),
    (''common.retry'', js ''`00DAjra''),
    (''common.never'', js ''soha''),
    (''common.unlimited'', js ''nem j`00E1r le''),
    (''common.none'', js ''`2014''),
    (''common.optional'', js ''nem k`00F6telez`0151''),
    (''common.loading'', js ''Bet`00F6lt`00E9s`2026''),
    (''common.yes'', js ''Igen''),
    (''common.language'', js ''Nyelv''),
    (''nav.cases'', js ''`00DCgyek''),
    (''nav.audit'', js ''Napl`00F3z`00E1s''),
    (''nav.security'', js ''Biztons`00E1g'')]"

definition hu_2 :: messages where
  "hu_2 = [
    (''nav.logout'', js ''Kijelentkez`00E9s''),
    (''error.not_found.title'', js ''Nem tal`00E1lhat`00F3''),
    (''error.page_missing'', js ''Ez az oldal nem l`00E9tezik.''),
    (''error.case_missing'', js ''Ez az `00FCgy nem l`00E9tezik.''),
    (''error.link_missing'', js ''Ez a hivatkoz`00E1s nem l`00E9tezik.''),
    (''error.file_missing'', js ''A f`00E1jl nem l`00E9tezik vagy nem `00E9rhet`0151 el.''),
    (''error.file_not_exist'', js ''A f`00E1jl nem l`00E9tezik.''),
    (''error.storage_missing.title'', js ''A f`00E1jl hi`00E1nyzik a t`00E1rol`00F3b`00F3l''),
    (''error.storage_missing'', js ''A metaadatok megvannak, de az objektum elt`0171nt a t`00E1rol`00F3b`00F3l. Futtassa a takar`00EDt`00E1st, hogy a f`00E1jl hi`00E1nyz`00F3k`00E9nt legyen megjel`00F6lve.''),
    (''error.server.title'', js ''Kiszolg`00E1l`00F3hiba''),
    (''error.server'', js ''V`00E1ratlan hiba t`00F6rt`00E9nt.''),
    (''error.bad_request.title'', js ''Hib`00E1s k`00E9r`00E9s''),
    (''error.cross_site'', js ''M`00E1s webhelyr`0151l `00E9rkez`0151 k`00E9r`00E9s letiltva''),
    (''error.csrf'', js ''`00C9rv`00E9nytelen CSRF-token''),
    (''error.invalid_expiry'', js ''`00C9rv`00E9nytelen lej`00E1rati d`00E1tum''),
    (''link.invalid.title'', js ''`00C9rv`00E9nytelen hivatkoz`00E1s''),
    (''link.invalid'', js ''Ez a felt`00F6lt`00E9si hivatkoz`00E1s nem l`00E9tezik.''),
    (''link.unavailable.title'', js ''A hivatkoz`00E1s nem `00E9rhet`0151 el''),
    (''link.expired'', js ''Ez a hivatkoz`00E1s lej`00E1rt.''),
    (''link.revoked'', js ''Ezt a hivatkoz`00E1st visszavont`00E1k.'')]"

definition hu_3 :: messages where
  "hu_3 = [
    (''link.case_closed'', js ''Az `00FCgyet lez`00E1rt`00E1k, `00E9s m`00E1r nem fogad f`00E1jlokat.''),
    (''link.contact'', js ''Forduljon ahhoz, akit`0151l a hivatkoz`00E1st kapta.''),
    (''login.title'', js ''Rendszergazdai bejelentkez`00E9s''),
    (''login.username'', js ''Felhaszn`00E1l`00F3n`00E9v''),
    (''login.password'', js ''Jelsz`00F3''),
    (''login.submit'', js ''Bejelentkez`00E9s''),
    (''login.failed'', js ''`00C9rv`00E9nytelen felhaszn`00E1l`00F3n`00E9v vagy jelsz`00F3.''),
    (''login.too_many_codes'', js ''T`00FAl sok hib`00E1s k`00F3d. Jelentkezzen be `00FAjra.''),
    (''login.account_locked'', js ''T`00FAl sok hib`00E1s k`00F3d ehhez a fi`00F3khoz. A m`00E1sodik t`00E9nyez`0151 15 percre z`00E1rolva van.''),
    (''totp.title'', js ''K`00F3d a hiteles`00EDt`0151 alkalmaz`00E1s`00E1b`00F3l''),
    (''totp.code_label'', js ''K`00F3d (6 sz`00E1mjegy) vagy helyre`00E1ll`00EDt`00E1si k`00F3d''),
    (''totp.confirm'', js ''Meger`0151s`00EDt`00E9s''),
    (''totp.cancel_logout'', js ''M`00E9gse `00E9s kijelentkez`00E9s''),
    (''totp.invalid'', js ''`00C9rv`00E9nytelen k`00F3d.''),
    (''totp.attempts_left'', js ''H`00E1tral`00E9v`0151 pr`00F3b`00E1lkoz`00E1sok: {n}.''),
    (''totp.locked_until'', js ''A fi`00F3k sok hib`00E1s k`00F3d ut`00E1n `00E1tmenetileg z`00E1rolva van ({until} UTC-ig).''),
    (''security.title'', js ''A(z) `201E{user}`201D fi`00F3k biztons`00E1ga''),
    (''security.required_notice'', js ''Ez a p`00E9ld`00E1ny egy m`00E1sodik t`00E9nyez`0151t ig`00E9nyel. A fel`00FClet mindaddig el`00E9rhetetlen marad, am`00EDg hozz`00E1 nem ad egy hiteles`00EDt`0151 alkalmaz`00E1st vagy egy azonos`00EDt`00F3kulcsot al`00E1bb.''),
    (''security.status'', js ''K`00E9tl`00E9pcs`0151s azonos`00EDt`00E1s (TOTP, RFC 6238): {state}.''),
    (''security.enabled'', js ''bekapcsolva'')]"

definition hu_4 :: messages where
  "hu_4 = [
    (''security.disabled'', js ''kikapcsolva''),
    (''security.recovery_left'', js ''Fel nem haszn`00E1lt helyre`00E1ll`00EDt`00E1si k`00F3dok: {n}.''),
    (''security.recovery.title'', js ''Helyre`00E1ll`00EDt`00E1si k`00F3dok''),
    (''security.recovery.intro'', js ''Mentse el `0151ket most biztons`00E1gos helyre. Mindegyik egyszer haszn`00E1lhat`00F3, `00E9s az alkalmaz`00E1s k`00F3dj`00E1t helyettes`00EDti, ha elvesz`00EDti a hozz`00E1f`00E9r`00E9st az alkalmaz`00E1shoz. T`00F6bb`00E9 nem jelennek meg.''),
    (''security.enable.title'', js ''TOTP bekapcsol`00E1sa''),
    (''security.enable.intro'', js ''Hiteles`00EDt`0151 alkalmaz`00E1sra van sz`00FCks`00E9ge (pl. Aegis, Google Authenticator, 1Password, Bitwarden). Bekapcsol`00E1s ut`00E1n a bejelentkez`00E9shez a jelsz`00F3 `00E9s egy aktu`00E1lis k`00F3d kell.''),
    (''security.enable.start'', js ''Be`00E1ll`00EDt`00E1s ind`00EDt`00E1sa''),
    (''security.step1'', js ''1. l`00E9p`00E9s: olvassa be a k`00F3dot az alkalmaz`00E1ssal''),
    (''security.manual_key'', js ''Vagy adja meg a kulcsot k`00E9zzel:''),
    (''security.key_params'', js ''T`00EDpus: TOTP, SHA-1, 6 sz`00E1mjegy, 30 mp. Kibocs`00E1t`00F3: {issuer}, fi`00F3k: {user}.''),
    (''security.open_in_app'', js ''Megnyit`00E1s a hiteles`00EDt`0151 alkalmaz`00E1sban''),
    (''security.on_phone'', js ''(telefonon)''),
    (''security.step2'', js ''2. l`00E9p`00E9s: er`0151s`00EDtse meg egy k`00F3ddal''),
    (''security.code_from_app'', js ''K`00F3d az alkalmaz`00E1sb`00F3l''),
    (''security.enable.submit'', js ''TOTP bekapcsol`00E1sa''),
    (''security.pending_note'', js ''A kulcs a meger`0151s`00EDt`00E9sig ideiglenes; a be`00E1ll`00EDt`00E1s `00FAjraind`00EDt`00E1sa `00FAjat hoz l`00E9tre.''),
    (''security.current_code'', js ''Aktu`00E1lis k`00F3d az alkalmaz`00E1sb`00F3l''),
    (''security.regenerate'', js ''`00DAj k`00F3dok l`00E9trehoz`00E1sa (a r`00E9giek `00E9rv`00E9ny`00FCket vesztik)''),
    (''security.disable.title'', js ''TOTP kikapcsol`00E1sa''),
    (''security.disable.intro'', js ''Aktu`00E1lis k`00F3d sz`00FCks`00E9ges az alkalmaz`00E1sb`00F3l vagy egy helyre`00E1ll`00EDt`00E1si k`00F3d: a munkamenet `00F6nmag`00E1ban (pl. egy ellopott s`00FCti) nem el`00E9g. Ha az alkalmaz`00E1s `00E9s a helyre`00E1ll`00EDt`00E1si k`00F3dok is elvesztek, az `00FCzemeltet`0151 a kiszolg`00E1l`00F3n futtathatja ezt: {cmd}.'')]"

definition hu_5 :: messages where
  "hu_5 = [
    (''security.disable.code'', js ''K`00F3d''),
    (''security.disable.submit'', js ''Kikapcsol`00E1s''),
    (''security.disable.confirm'', js ''Kikapcsolja a k`00E9tl`00E9pcs`0151s azonos`00EDt`00E1st?''),
    (''security.msg.enabled'', js ''A k`00E9tl`00E9pcs`0151s azonos`00EDt`00E1s be van kapcsolva.''),
    (''security.msg.code_mismatch'', js ''A k`00F3d nem egyezik. Ellen`0151rizze a telefonja `00F3r`00E1j`00E1t, `00E9s pr`00F3b`00E1lja `00FAjra.''),
    (''security.msg.invalid_code'', js ''`00C9rv`00E9nytelen k`00F3d.''),
    (''security.msg.regenerated'', js ''`00DAj helyre`00E1ll`00EDt`00E1si k`00F3dok j`00F6ttek l`00E9tre.''),
    (''security.msg.required'', js ''Ez a p`00E9ld`00E1ny megk`00F6veteli a TOTP-t (ADMIN_REQUIRE_TOTP); nem kapcsolhat`00F3 ki.''),
    (''security.msg.disabled'', js ''A k`00E9tl`00E9pcs`0151s azonos`00EDt`00E1s ki lett kapcsolva.''),
    (''security.password.title'', js ''Jelsz`00F3 m`00F3dos`00EDt`00E1sa''),
    (''security.password.current'', js ''Jelenlegi jelsz`00F3''),
    (''security.password.new'', js ''`00DAj jelsz`00F3 (legal`00E1bb 12 karakter)''),
    (''security.password.confirm'', js ''`00DAj jelsz`00F3 meger`0151s`00EDt`00E9se''),
    (''security.password.submit'', js ''Jelsz`00F3 m`00F3dos`00EDt`00E1sa''),
    (''security.password.mismatch'', js ''Az `00FAj jelsz`00F3 `00E9s a meger`0151s`00EDt`00E9se nem egyezik.''),
    (''security.password.invalid_current'', js ''A jelenlegi jelsz`00F3 helytelen.''),
    (''security.password.changed'', js ''A jelsz`00F3 megv`00E1ltozott. A fi`00F3k t`00F6bbi munkamenete ki lett jelentkeztetve.''),
    (''home.title'', js ''inletbox''),
    (''home.message'', js ''Ez egy priv`00E1t f`00E1jllead`00F3 doboz. F`00E1jlok felt`00F6lt`00E9s`00E9hez haszn`00E1lja azt a hivatkoz`00E1st, amelyet a f`00E1jlokat k`00E9r`0151 szem`00E9lyt`0151l kapott.''),
    (''cases.new'', js ''`00DAj `00FCgy'')]"

definition hu_6 :: messages where
  "hu_6 = [
    (''cases.name'', js ''N`00E9v''),
    (''cases.name_placeholder'', js ''pl. Audit 2026/09 `2013 X `00FCgyf`00E9l''),
    (''cases.description_optional'', js ''Le`00EDr`00E1s (nem k`00F6telez`0151)''),
    (''cases.description'', js ''Le`00EDr`00E1s''),
    (''cases.list'', js ''`00DCgyek''),
    (''cases.empty'', js ''Nincsenek `00FCgyek.''),
    (''cases.col.name'', js ''N`00E9v''),
    (''cases.col.status'', js ''`00C1llapot''),
    (''cases.col.links'', js ''Akt`00EDv hivatkoz`00E1sok''),
    (''cases.col.files'', js ''F`00E1jlok''),
    (''cases.col.size'', js ''M`00E9ret''),
    (''cases.col.created'', js ''L`00E9trehozva''),
    (''case.open'', js ''nyitott''),
    (''case.closed'', js ''lez`00E1rt''),
    (''case.close'', js ''`00DCgy lez`00E1r`00E1sa''),
    (''case.reopen'', js ''`00DAjranyit`00E1s''),
    (''case.meta'', js ''Azonos`00EDt`00F3: {id} `00B7 l`00E9trehozva: {date}. A lez`00E1rt `00FCgy egyik hivatkoz`00E1s`00E1n kereszt`00FCl sem fogad felt`00F6lt`00E9st.''),
    (''case.saved'', js ''Mentve.''),
    (''case.closed_no_links'', js ''Az `00FCgy le van z`00E1rva `2013 nyissa meg `00FAjra a hivatkoz`00E1sok l`00E9trehoz`00E1s`00E1hoz.''),
    (''case.new_link.title'', js ''`00DAj hivatkoz`00E1s: `201E{label}`201D'')]"

definition hu_7 :: messages where
  "hu_7 = [
    (''case.new_link.intro'', js ''M`00E1solja most. A token csak hash-k`00E9nt t`00E1rol`00F3dik, `00E9s k`00E9s`0151bb nem `00E1ll`00EDthat`00F3 helyre `2013 csak `00FAj hivatkoz`00E1st hozhat l`00E9tre.''),
    (''case.new_link.copy_now'', js ''M`00E1solja most.''),
    (''links.title'', js ''Felt`00F6lt`00E9si hivatkoz`00E1sok''),
    (''links.intro'', js ''Minden hivatkoz`00E1s k`00FCl`00F6n c`00EDmzett `00E9s k`00FCl`00F6n l`00E1that`00F3s`00E1gi k`00F6r: aki a hivatkoz`00E1ssal rendelkezik, csak az azon kereszt`00FCl k`00FCld`00F6tt f`00E1jlokat l`00E1tja, `00E9s nem t`00F6ltheti le vagy t`00F6r`00F6lheti `0151ket. Mindenki, aki ugyanazt a hivatkoz`00E1st ismeri, azonos hozz`00E1f`00E9r`00E9ssel rendelkezik `2013 az alkalmaz`00E1s nem tesz k`00FCl`00F6nbs`00E9get az ugyanazt a hivatkoz`00E1st haszn`00E1l`00F3 szem`00E9lyek k`00F6z`00F6tt.''),
    (''links.generate'', js ''`00DAj hivatkoz`00E1s l`00E9trehoz`00E1sa''),
    (''links.label'', js ''C`00EDmzett megnevez`00E9se''),
    (''links.label_placeholder'', js ''pl. Kov`00E1cs Anna `2013 k`00F6nyvel`00E9s''),
    (''links.expires'', js ''`00C9rv`00E9nyes eddig (UTC, nem k`00F6telez`0151)''),
    (''links.max_file'', js ''Max. f`00E1jlm`00E9ret (nem k`00F6telez`0151, `2264 {max})''),
    (''links.max_file_placeholder'', js ''pl. 500MB''),
    (''links.max_files'', js ''Max. f`00E1jlsz`00E1m (nem k`00F6telez`0151)''),
    (''links.max_total'', js ''Max. teljes m`00E9ret (nem k`00F6telez`0151)''),
    (''links.max_total_placeholder'', js ''pl. 2GB''),
    (''links.submit'', js ''Hivatkoz`00E1s l`00E9trehoz`00E1sa''),
    (''links.empty'', js ''Nincsenek hivatkoz`00E1sok.''),
    (''links.col.recipient'', js ''C`00EDmzett''),
    (''links.col.state'', js ''`00C1llapot''),
    (''links.col.expires'', js ''`00C9rv`00E9nyes eddig''),
    (''links.col.limits'', js ''Korl`00E1tok''),
    (''links.col.usage'', js ''Felhaszn`00E1l`00E1s'')]"

definition hu_8 :: messages where
  "hu_8 = [
    (''links.col.last_used'', js ''Utolj`00E1ra haszn`00E1lva''),
    (''links.state.active'', js ''akt`00EDv''),
    (''links.state.expired'', js ''lej`00E1rt''),
    (''links.state.revoked'', js ''visszavonva''),
    (''links.state.case_closed'', js ''`00FCgy lez`00E1rva''),
    (''links.limit.file'', js ''f`00E1jl `2264 {max}''),
    (''links.limit.files'', js ''f`00E1jlok `2264 {n}''),
    (''links.limit.total'', js ''`00F6sszesen `2264 {max}''),
    (''links.usage'', js ''{n} f`00E1jl, {size}''),
    (''links.usage_in_progress'', js ''{n} folyamatban ({size} lefoglalva)''),
    (''links.revoke'', js ''Visszavon`00E1s''),
    (''links.revoke_confirm'', js ''Visszavonja a(z) `201E{label}`201D hivatkoz`00E1st? A folyamatban l`00E9v`0151 felt`00F6lt`00E9sek megszakadnak.''),
    (''files.title'', js ''F`00E1jlok''),
    (''files.empty'', js ''Nincsenek f`00E1jlok.''),
    (''files.col.name'', js ''N`00E9v''),
    (''files.col.recipient'', js ''C`00EDmzett (hivatkoz`00E1s)''),
    (''files.col.size'', js ''M`00E9ret''),
    (''files.col.status'', js ''`00C1llapot''),
    (''files.col.uploaded'', js ''Felt`00F6ltve''),
    (''files.declared'', js ''{size} (megadott)'')]"

definition hu_9 :: messages where
  "hu_9 = [
    (''files.download'', js ''Let`00F6lt`00E9s''),
    (''files.delete'', js ''T`00F6rl`00E9s''),
    (''files.delete_confirm'', js ''T`00F6rli a(z) `201E{name}`201D f`00E1jlt? Ez nem vonhat`00F3 vissza.''),
    (''files.untrusted'', js ''A f`00E1jlokat megb`00EDzhatatlannak tekintj`00FCk: a let`00F6lt`00E9sek mindig mell`00E9kletek, a kiszolg`00E1l`00F3n semmi sem jelenik meg `00E9s semmi sem fut. A v`00EDruskeres`00E9s nem r`00E9sze ennek a verzi`00F3nak.''),
    (''files.status.uploading'', js ''folyamatban''),
    (''files.status.complete'', js ''k`00E9sz''),
    (''files.status.aborted'', js ''megszak`00EDtva''),
    (''files.status.expired'', js ''lej`00E1rt''),
    (''files.status.missing'', js ''hi`00E1nyzik a t`00E1rol`00F3b`00F3l''),
    (''files.status.deleted'', js ''t`00F6r`00F6lve''),
    (''audit.title'', js ''Napl`00F3z`00E1s (utols`00F3 {n})''),
    (''audit.col.time'', js ''Id`0151''),
    (''audit.col.actor'', js ''Szerepl`0151''),
    (''audit.col.action'', js ''Esem`00E9ny''),
    (''audit.col.case'', js ''`00DCgy''),
    (''audit.col.link'', js ''Hivatkoz`00E1s''),
    (''audit.col.file'', js ''F`00E1jl''),
    (''audit.col.ip'', js ''IP''),
    (''audit.col.details'', js ''R`00E9szletek''),
    (''upload.title'', js ''Felt`00F6lt`00E9s: {case}'')]"

definition hu_10 :: messages where
  "hu_10 = [
    (''upload.link_for'', js ''Hivatkoz`00E1s c`00EDmzettje:''),
    (''upload.valid_until'', js ''`00E9rv`00E9nyes eddig: {date}''),
    (''upload.limit.file'', js ''Maxim`00E1lis f`00E1jlm`00E9ret:''),
    (''upload.limit.files'', js ''Maxim`00E1lis f`00E1jlsz`00E1m:''),
    (''upload.limit.total'', js ''Teljes adatkorl`00E1t:''),
    (''upload.used_n'', js ''({n} felhaszn`00E1lva)''),
    (''upload.used_size'', js ''({size} felhaszn`00E1lva)''),
    (''upload.send'', js ''F`00E1jlok felt`00F6lt`00E9se''),
    (''upload.drop_here'', js ''H`00FAzza ide a f`00E1jlokat''),
    (''upload.or'', js ''vagy''),
    (''upload.choose'', js ''v`00E1lasszon a lemezr`0151l''),
    (''upload.resume_hint'', js ''A nagy f`00E1jlok r`00E9szletekben ker`00FClnek elk`00FCld`00E9sre, `00E9s a felt`00F6lt`00E9s a kapcsolat megszakad`00E1sa ut`00E1n folytathat`00F3. Az oldal `00FAjrat`00F6lt`00E9se ut`00E1n v`00E1lassza ki `00FAjra ugyanazt a f`00E1jlt, `00E9s a felt`00F6lt`00E9s ott folytat`00F3dik, ahol abbamaradt.''),
    (''upload.your_files'', js ''Az `00D6n f`00E1jljai''),
    (''upload.your_files_intro'', js ''Csak az ezen a hivatkoz`00E1son kereszt`00FCl felt`00F6lt`00F6tt f`00E1jlokat l`00E1tja. A f`00E1jlok itt nem t`00F6lthet`0151k le `00E9s nem t`00F6r`00F6lhet`0151k `2013 a rendszergazda gy`0171jti be `0151ket.''),
    (''upload.col.name'', js ''N`00E9v''),
    (''upload.col.size'', js ''M`00E9ret''),
    (''upload.col.date'', js ''D`00E1tum''),
    (''upload.col.status'', js ''`00C1llapot''),
    (''upload.none_yet'', js ''M`00E9g nincs felt`00F6lt`00F6tt f`00E1jl.''),
    (''upload.list_failed'', js ''A lista nem t`00F6lthet`0151 be: {msg}'')]"

definition hu_11 :: messages where
  "hu_11 = [
    (''upload.terminal'', js ''Felt`00F6lt`00E9s termin`00E1lb`00F3l''),
    (''upload.terminal_hint'', js ''(curl, szkriptek, folytathat`00F3 `00E1tvitel)''),
    (''upload.terminal_intro'', js ''Cser`00E9lje le a(z) {path} r`00E9szt a f`00E1jl el`00E9r`00E9si `00FAtj`00E1ra (a sz`00F3k`00F6z`00F6k nem okoznak gondot). A null`00E1t`00F3l elt`00E9r`0151 kil`00E9p`00E9si k`00F3d hib`00E1t jelent; a v`00E1lasz JSON.''),
    (''upload.snippet.single'', js ''Egy f`00E1jl''),
    (''upload.snippet.multi'', js ''T`00F6bb f`00E1jl''),
    (''upload.snippet.env'', js ''Token k`00F6rnyezeti v`00E1ltoz`00F3ban (aj`00E1nlott)''),
    (''upload.snippet.list'', js ''Felt`00F6lt`00F6tt f`00E1jlok list`00E1z`00E1sa''),
    (''upload.snippet.resumable'', js ''Nagy f`00E1jl folytat`00E1ssal ({script} szkript)''),
    (''upload.history_warning'', js ''Figyelem: a tokent tartalmaz`00F3 parancs beker`00FCl a shell el`0151zm`00E9nyeibe (pl. {file}). A sz`00F3k`00F6zzel kezd`0151d`0151 export-v`00E1ltozat nem ker`00FCl r`00F6gz`00EDt`00E9sre, ha a(z) {opt} be van `00E1ll`00EDtva. Kezelje ezt a hivatkoz`00E1st jelsz`00F3k`00E9nt, `00E9s ne adja tov`00E1bb.''),
    (''upload.path_placeholder'', js ''/eleresi/ut/fajl.pdf''),
    (''upload.path_placeholder2'', js ''/eleresi/ut/jelentes.pdf''),
    (''upload.path_placeholder3'', js ''/eleresi/ut/foto 1.jpg''),
    (''upload.path_placeholder_big'', js ''/eleresi/ut/nagy fajl.iso''),
    (''upload.js.queued'', js ''sorban `00E1ll`2026''),
    (''upload.js.too_large'', js ''t`00FAl nagy: korl`00E1t {max}''),
    (''upload.js.error'', js ''hiba: {msg}''),
    (''upload.js.starting'', js ''ind`00EDt`00E1s`2026''),
    (''upload.js.resuming'', js ''a kor`00E1bbi felt`00F6lt`00E9s folytat`00E1sa`2026''),
    (''upload.js.retrying'', js ''`00FAjrapr`00F3b`00E1lkoz`00E1s`2026''),
    (''upload.js.done'', js ''k`00E9sz'')]"

definition hu_12 :: messages where
  "hu_12 = [
    (''upload.js.finalising'', js ''minden adat elk`00FCldve, a kiszolg`00E1l`00F3 befejezi`2026''),
    (''upload.js.cancelled'', js ''megszak`00EDtva''),
    (''upload.js.cancelled_local'', js ''megszak`00EDtva (helyileg)''),
    (''upload.js.status.uploading'', js ''folyamatban''),
    (''upload.js.status.complete'', js ''k`00E9sz''),
    (''nav.users'', js ''Felhaszn`00E1l`00F3k''),
    (''cases.empty_assigned'', js ''M`00E9g nincs `00D6nh`00F6z rendelt `00FCgy. Egy `00FCgy`00F6n dolgoz`00F3 koll`00E9ga vagy egy rendszergazda hozz`00E1rendelheti `00D6nt, vagy fent l`00E9trehozhat egy `00FAjat.''),
    (''error.forbidden.title'', js ''Nem enged`00E9lyezett''),
    (''error.forbidden'', js ''Ez az oldal csak rendszergazd`00E1knak sz`00F3l.''),
    (''security.must_change_notice'', js ''A jelszav`00E1t egy rendszergazda adta ki. Miel`0151tt tov`00E1bbl`00E9p, `00E1ll`00EDtson be lent saj`00E1t jelsz`00F3t.''),
    (''members.title'', js ''Hozz`00E1rendelt felhaszn`00E1l`00F3k''),
    (''members.intro'', js ''A felhaszn`00E1l`00F3 csak azokat az `00FCgyeket l`00E1tja, amelyekhez hozz`00E1 van rendelve. A rendszergazd`00E1k minden `00FCgyet l`00E1tnak.''),
    (''members.empty'', js ''Ehhez az `00FCgyh`00F6z nincs felhaszn`00E1l`00F3 rendelve `2014 csak a rendszergazd`00E1k l`00E1tj`00E1k.''),
    (''members.user'', js ''Felhaszn`00E1l`00F3''),
    (''members.add'', js ''Hozz`00E1rendel`00E9s''),
    (''members.added'', js ''A(z) {username} fi`00F3k mostant`00F3l hozz`00E1 van rendelve ehhez az `00FCgyh`00F6z.''),
    (''members.remove'', js ''Elt`00E1vol`00EDt`00E1s''),
    (''members.remove_confirm'', js ''Elt`00E1vol`00EDtja: {username}? A fi`00F3k t`00F6bb`00E9 nem l`00E1tja ezt az `00FCgyet.''),
    (''members.removed'', js ''A(z) {username} fi`00F3knak m`00E1r nincs hozz`00E1f`00E9r`00E9se ehhez az `00FCgyh`00F6z.''),
    (''members.none_assignable'', js ''Nincs t`00F6bb hozz`00E1rendelhet`0151 felhaszn`00E1l`00F3i fi`00F3k. Hozzon l`00E9tre egyet itt: {link}.'')]"

definition hu_13 :: messages where
  "hu_13 = [
    (''users.new'', js ''`00DAj fi`00F3k''),
    (''users.list'', js ''Fi`00F3kok''),
    (''users.username'', js ''Felhaszn`00E1l`00F3n`00E9v''),
    (''users.username_placeholder'', js ''pl. kovacs.anna@ceg.hu''),
    (''users.role'', js ''Szerepk`00F6r''),
    (''users.role.admin'', js ''Rendszergazda''),
    (''users.role.user'', js ''Felhaszn`00E1l`00F3''),
    (''users.roles_hint'', js ''A felhaszn`00E1l`00F3 csak azokat az `00FCgyeket l`00E1tja `00E9s kezeli, amelyekhez hozz`00E1 van rendelve. A rendszergazda minden `00FCgyet l`00E1t, fi`00F3kokat kezel `00E9s olvassa a napl`00F3t. Ideiglenes jelsz`00F3 k`00E9sz`00FCl, amelyet az els`0151 bejelentkez`00E9skor meg kell v`00E1ltoztatni.''),
    (''users.col.username'', js ''Fi`00F3k''),
    (''users.col.status'', js ''`00C1llapot''),
    (''users.col.totp'', js ''M`00E1sodik t`00E9nyez`0151''),
    (''users.col.cases'', js ''`00DCgyek''),
    (''users.col.last_login'', js ''Utols`00F3 bejelentkez`00E9s''),
    (''users.status.active'', js ''akt`00EDv''),
    (''users.status.disabled'', js ''letiltva''),
    (''users.status.must_change'', js ''jelsz`00F3csere sz`00FCks`00E9ges''),
    (''users.you'', js ''`00D6n''),
    (''users.all_cases'', js ''mind''),
    (''users.issued.title'', js ''A(z) {username} fi`00F3k l`00E9trej`00F6tt''),
    (''users.issued.reset_title'', js ''`00DAj jelsz`00F3 ehhez: {username}'')]"

definition hu_14 :: messages where
  "hu_14 = [
    (''users.issued.copy_now'', js ''Most m`00E1solja ki ezt a jelsz`00F3t `2014 csak egyszer jelenik meg.''),
    (''users.issued.intro'', js ''M`00E1s csatorn`00E1n adja `00E1t, mint a felhaszn`00E1l`00F3nevet. Az els`0151 bejelentkez`00E9skor le kell cser`00E9lni.''),
    (''users.make_admin'', js ''Rendszergazd`00E1v`00E1 t`00E9tel''),
    (''users.make_user'', js ''Felhaszn`00E1l`00F3v`00E1 t`00E9tel''),
    (''users.role_confirm'', js ''M`00F3dos`00EDtja a(z) {username} fi`00F3k szerepk`00F6r`00E9t?''),
    (''users.role_changed'', js ''A(z) {username} fi`00F3k szerepk`00F6re mostant`00F3l: {role}.''),
    (''users.reset_password'', js ''`00DAj jelsz`00F3''),
    (''users.reset_password_confirm'', js ''`00DAj jelsz`00F3t ad ki ehhez: {username}? A jelenlegi `00E9rv`00E9ny`00E9t veszti, `00E9s a fi`00F3k minden munkamenete v`00E9get `00E9r.''),
    (''users.password_reset'', js ''`00DAj jelsz`00F3 k`00E9sz`00FClt ehhez: {username}, a fi`00F3k ki lett jelentkeztetve.''),
    (''users.reset_totp'', js ''2FA vissza`00E1ll`00EDt`00E1sa''),
    (''users.reset_totp_confirm'', js ''Elt`00E1vol`00EDtja a(z) {username} fi`00F3k m`00E1sodik t`00E9nyez`0151j`00E9t? A k`00F6vetkez`0151 bejelentkez`00E9s ut`00E1n `00FAjra be kell `00E1ll`00EDtani.''),
    (''users.totp_reset'', js ''A k`00E9tl`00E9pcs`0151s azonos`00EDt`00E1s elt`00E1vol`00EDtva a(z) {username} fi`00F3kb`00F3l.''),
    (''users.disable'', js ''Letilt`00E1s''),
    (''users.disable_confirm'', js ''Letiltja: {username}? A fi`00F3k kijelentkezik, `00E9s nem tud bejelentkezni, am`00EDg `00FAjra nem enged`00E9lyezik.''),
    (''users.disabled'', js ''A(z) {username} fi`00F3k le lett tiltva `00E9s ki lett jelentkeztetve.''),
    (''users.enable'', js ''Enged`00E9lyez`00E9s''),
    (''users.enabled'', js ''A(z) {username} fi`00F3k `00FAjra bejelentkezhet.''),
    (''users.delete'', js ''T`00F6rl`00E9s''),
    (''users.delete_confirm'', js ''T`00F6rli a(z) {username} fi`00F3kot? Vele egy`00FCtt elt`0171nnek az `00FCgy-hozz`00E1rendel`00E9sei; a napl`00F3 meg`0151rzi, amit tett.''),
    (''users.deleted'', js ''A(z) {username} fi`00F3k t`00F6r`00F6lve.'')]"

definition hu_15 :: messages where
  "hu_15 = [
    (''users.missing'', js ''Nincs ilyen fi`00F3k.''),
    (''users.not_self'', js ''A saj`00E1t fi`00F3kj`00E1t itt nem m`00F3dos`00EDthatja `2014 a jelsz`00F3 `00E9s a 2FA a Biztons`00E1g alatt tal`00E1lhat`00F3.''),
    (''users.last_admin'', js ''Legal`00E1bb egy akt`00EDv rendszergazd`00E1nak maradnia kell.''),
    (''users.exists'', js ''M`00E1r l`00E9tezik {username} nev`0171 fi`00F3k.''),
    (''users.invalid_username'', js ''A felhaszn`00E1l`00F3n`00E9v 2`201364 karakter: bet`0171k, sz`00E1mjegyek `00E9s . _ @ -''),
    (''users.invalid_role'', js ''Ismeretlen szerepk`00F6r.''),
    (''members.not_self'', js ''Saj`00E1t mag`00E1t nem t`00E1vol`00EDthatja el. K`00E9rje meg az `00FCgy egy m`00E1sik r`00E9sztvev`0151j`00E9t vagy egy rendszergazd`00E1t.''),
    (''members.none_assignable_user'', js ''Nincs m`00E1s hozz`00E1rendelhet`0151 felhaszn`00E1l`00F3i fi`00F3k.''),
    (''second.title'', js ''A bejelentkez`00E9s m`00E1sodik l`00E9p`00E9se''),
    (''second.recovery_label'', js ''Helyre`00E1ll`00EDt`00E1si k`00F3d''),
    (''common.or'', js ''vagy''),
    (''passkey.use'', js ''Azonos`00EDt`00F3kulcs haszn`00E1lata''),
    (''passkey.unsupported'', js ''Ez a b`00F6ng`00E9sz`0151 nem t`00E1mogatja az azonos`00EDt`00F3kulcsokat.''),
    (''passkey.failed'', js ''Az azonos`00EDt`00F3kulcsot nem siker`00FClt ellen`0151rizni. Pr`00F3b`00E1lja `00FAjra.''),
    (''passkey.cancelled'', js ''Megszak`00EDtva. Pr`00F3b`00E1lja `00FAjra, ha k`00E9szen `00E1ll.''),
    (''confirm.title'', js ''Er`0151s`00EDtse meg a szem`00E9lyazonoss`00E1g`00E1t''),
    (''confirm.intro'', js ''Ehhez a m`0171velethez friss meger`0151s`00EDt`00E9s sz`00FCks`00E9ges. Ezut`00E1n {minutes} percig `00E9rv`00E9nyes marad, `00EDgy nem kell minden l`00E9p`00E9sn`00E9l `00FAjra megadnia.''),
    (''confirm.repeat'', js ''A meger`0151s`00EDt`00E9s ut`00E1n ism`00E9telje meg az el`0151z`0151 m`0171veletet.''),
    (''confirm.code_label'', js ''K`00F3d az alkalmaz`00E1sb`00F3l vagy helyre`00E1ll`00EDt`00E1si k`00F3d''),
    (''confirm.password_label'', js ''Az `00D6n jelszava'')]"

definition hu_16 :: messages where
  "hu_16 = [
    (''confirm.submit'', js ''Meger`0151s`00EDt`00E9s''),
    (''confirm.invalid'', js ''Nem egyezik. Pr`00F3b`00E1lja `00FAjra.''),
    (''confirm.locked'', js ''T`00FAl sok hib`00E1s k`00F3d ehhez a fi`00F3khoz. Pr`00F3b`00E1lja `00FAjra 15 perc m`00FAlva.''),
    (''passkeys.title'', js ''Azonos`00EDt`00F3kulcsok''),
    (''passkeys.intro'', js ''Az azonos`00EDt`00F3kulcsot az eszk`00F6ze, a jelsz`00F3kezel`0151je vagy egy biztons`00E1gi kulcs t`00E1rolja, `00E9s nem szerezhet`0151 meg adathal`00E1szattal. A bejelentkez`00E9s m`00E1sodik l`00E9p`00E9sek`00E9nt `00E9s bizalmas m`0171veletek meger`0151s`00EDt`00E9s`00E9re szolg`00E1l.''),
    (''passkeys.none'', js ''M`00E9g nincsenek azonos`00EDt`00F3kulcsok.''),
    (''passkeys.name'', js ''N`00E9v''),
    (''passkeys.name_placeholder'', js ''pl. laptop, biztons`00E1gi kulcs''),
    (''passkeys.added_at'', js ''Hozz`00E1adva''),
    (''passkeys.last_used'', js ''Utolj`00E1ra haszn`00E1lva''),
    (''passkeys.add'', js ''Azonos`00EDt`00F3kulcs hozz`00E1ad`00E1sa''),
    (''passkeys.remove'', js ''Elt`00E1vol`00EDt`00E1s''),
    (''passkeys.remove_confirm'', js ''Elt`00E1vol`00EDtja ezt az azonos`00EDt`00F3kulcsot? A fi`00F3k t`00F6bbi munkamenete ki lesz jelentkeztetve.''),
    (''passkeys.added'', js ''`201E{name}`201D azonos`00EDt`00F3kulcs hozz`00E1adva.''),
    (''passkeys.removed'', js ''`201E{name}`201D azonos`00EDt`00F3kulcs elt`00E1vol`00EDtva. A fi`00F3k t`00F6bbi munkamenete ki lett jelentkeztetve.''),
    (''passkeys.last_required'', js ''Ez a p`00E9ld`00E1ny egy m`00E1sodik t`00E9nyez`0151t ig`00E9nyel. Az utols`00F3 elt`00E1vol`00EDt`00E1sa el`0151tt adjon hozz`00E1 egy m`00E1sikat.''),
    (''passkeys.limit'', js ''Egy fi`00F3khoz legfeljebb {n} azonos`00EDt`00F3kulcs tartozhat.''),
    (''passkeys.duplicate'', js ''Ez az azonos`00EDt`00F3kulcs m`00E1r regisztr`00E1lva van.''),
    (''security.recovery.regenerate_confirmed'', js ''`00DAj k`00F3dok l`00E9trehoz`00E1sa (a r`00E9giek `00E9rv`00E9ny`00FCket vesztik)''),
    (''sessions.title'', js ''Akt`00EDv munkamenetek'')]"

definition hu_17 :: messages where
  "hu_17 = [
    (''sessions.intro'', js ''Minden hely, ahol ez a fi`00F3k be van jelentkezve. Jelentkeztesse ki azokat, amelyeket nem ismer fel, majd v`00E1ltoztassa meg a jelszav`00E1t.''),
    (''sessions.device'', js ''Eszk`00F6z''),
    (''sessions.ip'', js ''IP-c`00EDm''),
    (''sessions.started'', js ''Kezdve''),
    (''sessions.last_seen'', js ''Utols`00F3 tev`00E9kenys`00E9g''),
    (''sessions.current'', js ''ez a munkamenet''),
    (''sessions.pending'', js ''csak jelsz`00F3, a m`00E1sodik l`00E9p`00E9s nincs k`00E9sz''),
    (''sessions.bound'', js ''ehhez az eszk`00F6zh`00F6z k`00F6tve''),
    (''sessions.factor'', js ''m`00E1sodik l`00E9p`00E9s: {factor}''),
    (''sessions.via.totp'', js ''alkalmaz`00E1sk`00F3d''),
    (''sessions.via.recovery'', js ''helyre`00E1ll`00EDt`00E1si k`00F3d''),
    (''sessions.via.passkey'', js ''azonos`00EDt`00F3kulcs''),
    (''sessions.unknown_device'', js ''Ismeretlen eszk`00F6z''),
    (''sessions.revoke'', js ''Kijelentkeztet`00E9s''),
    (''sessions.revoke_others'', js ''Minden m`00E1s munkamenet kijelentkeztet`00E9se''),
    (''sessions.revoked'', js ''A munkamenet ki lett jelentkeztetve.''),
    (''sessions.revoked_others'', js ''Minden m`00E1s munkamenet ki lett jelentkeztetve.'')]"

definition hu_messages :: messages where
  "hu_messages = hu_1 @ hu_2 @ hu_3 @ hu_4 @ hu_5 @ hu_6 @ hu_7 @ hu_8 @ hu_9 @ hu_10 @ hu_11 @ hu_12 @ hu_13 @ hu_14 @ hu_15 @ hu_16 @ hu_17"

lemmas hu_defs =
  hu_1_def hu_2_def hu_3_def hu_4_def hu_5_def hu_6_def hu_7_def hu_8_def hu_9_def hu_10_def hu_11_def hu_12_def hu_13_def hu_14_def
  hu_15_def hu_16_def hu_17_def

lemma hu_fits: "fits hu_messages message_shape"
  unfolding hu_messages_def message_shape_def
  by (intro fits_append; unfold hu_defs shape_defs; simp only: fits_rules cong: literal_congs)

end
