(* ===== verification/Locale_It.thy ===== *)
theory Locale_It
  imports Locale_En
begin

text \<open>src/locales/it.ts: Italian.\<close>

definition it_1 :: messages where
  "it_1 = [
    (''app.tagline'', js ''casella privata per il deposito di file''),
    (''common.back_to_cases'', js ''`2190 Pratiche''),
    (''common.home'', js ''Home''),
    (''common.copy'', js ''Copia''),
    (''common.copied'', js ''Copiato''),
    (''common.copy_manual'', js ''Seleziona e copia manualmente''),
    (''common.save'', js ''Salva''),
    (''common.create'', js ''Crea''),
    (''common.cancel'', js ''Annulla''),
    (''common.retry'', js ''Riprova''),
    (''common.never'', js ''mai''),
    (''common.unlimited'', js ''senza scadenza''),
    (''common.none'', js ''`2014''),
    (''common.optional'', js ''facoltativo''),
    (''common.loading'', js ''Caricamento`2026''),
    (''common.yes'', js ''S`00EC''),
    (''common.language'', js ''Lingua''),
    (''nav.cases'', js ''Pratiche''),
    (''nav.audit'', js ''Registro di audit''),
    (''nav.security'', js ''Sicurezza'')]"

definition it_2 :: messages where
  "it_2 = [
    (''nav.logout'', js ''Esci''),
    (''error.not_found.title'', js ''Non trovato''),
    (''error.page_missing'', js ''Questa pagina non esiste.''),
    (''error.case_missing'', js ''Questa pratica non esiste.''),
    (''error.link_missing'', js ''Questo link non esiste.''),
    (''error.file_missing'', js ''Il file non esiste o non `00E8 disponibile.''),
    (''error.file_not_exist'', js ''Il file non esiste.''),
    (''error.storage_missing.title'', js ''File mancante nello storage''),
    (''error.storage_missing'', js ''I metadati esistono, ma l`2019oggetto `00E8 scomparso dallo storage. Esegui la pulizia per contrassegnare il file come mancante.''),
    (''error.server.title'', js ''Errore del server''),
    (''error.server'', js ''Si `00E8 verificato un errore imprevisto.''),
    (''error.bad_request.title'', js ''Richiesta non valida''),
    (''error.cross_site'', js ''Richiesta cross-site bloccata''),
    (''error.csrf'', js ''Token CSRF non valido''),
    (''error.invalid_expiry'', js ''Data di scadenza non valida''),
    (''link.invalid.title'', js ''Link non valido''),
    (''link.invalid'', js ''Questo link di caricamento non esiste.''),
    (''link.unavailable.title'', js ''Link non disponibile''),
    (''link.expired'', js ''Questo link `00E8 scaduto.''),
    (''link.revoked'', js ''Questo link `00E8 stato revocato.'')]"

definition it_3 :: messages where
  "it_3 = [
    (''link.case_closed'', js ''La pratica `00E8 stata chiusa e non accetta pi`00F9 file.''),
    (''link.contact'', js ''Contatta la persona che ti ha dato il link.''),
    (''login.title'', js ''Accesso amministratore''),
    (''login.username'', js ''Nome utente''),
    (''login.password'', js ''Password''),
    (''login.submit'', js ''Accedi''),
    (''login.failed'', js ''Nome utente o password non validi.''),
    (''login.too_many_codes'', js ''Troppi codici errati. Accedi di nuovo.''),
    (''login.account_locked'', js ''Troppi codici errati per questo account. Il secondo fattore `00E8 bloccato per 15 minuti.''),
    (''totp.title'', js ''Codice dalla tua app di autenticazione''),
    (''totp.code_label'', js ''Codice (6 cifre) o codice di recupero''),
    (''totp.confirm'', js ''Conferma''),
    (''totp.cancel_logout'', js ''Annulla ed esci''),
    (''totp.invalid'', js ''Codice non valido.''),
    (''totp.attempts_left'', js ''Tentativi rimasti: {n}.''),
    (''totp.locked_until'', js ''L`2019account `00E8 temporaneamente bloccato dopo molti codici errati (fino alle {until} UTC).''),
    (''security.title'', js ''Sicurezza dell`2019account `00AB{user}`00BB''),
    (''security.required_notice'', js ''Questa istanza richiede un secondo fattore. Il pannello rimane inaccessibile finch`00E9 non aggiungi un`2019app di autenticazione o una passkey qui sotto.''),
    (''security.status'', js ''Autenticazione a due fattori (TOTP, RFC 6238): {state}.''),
    (''security.enabled'', js ''attiva'')]"

definition it_4 :: messages where
  "it_4 = [
    (''security.disabled'', js ''disattivata''),
    (''security.recovery_left'', js ''Codici di recupero non usati: {n}.''),
    (''security.recovery.title'', js ''Codici di recupero''),
    (''security.recovery.intro'', js ''Conservali ora in un luogo sicuro. Ognuno funziona una sola volta e sostituisce il codice dell`2019app se perdi l`2019accesso all`2019app. Non verranno mostrati di nuovo.''),
    (''security.enable.title'', js ''Attiva TOTP''),
    (''security.enable.intro'', js ''Ti serve un`2019app di autenticazione (ad es. Aegis, Google Authenticator, 1Password, Bitwarden). Una volta attivato, l`2019accesso richiede la password e un codice valido.''),
    (''security.enable.start'', js ''Avvia la configurazione''),
    (''security.step1'', js ''Passo 1: scansiona il codice con la tua app''),
    (''security.manual_key'', js ''Oppure inserisci la chiave manualmente:''),
    (''security.key_params'', js ''Tipo: TOTP, SHA-1, 6 cifre, 30 s. Emittente: {issuer}, account: {user}.''),
    (''security.open_in_app'', js ''Apri nell`2019app di autenticazione''),
    (''security.on_phone'', js ''(su uno smartphone)''),
    (''security.step2'', js ''Passo 2: conferma con un codice''),
    (''security.code_from_app'', js ''Codice dall`2019app''),
    (''security.enable.submit'', js ''Attiva TOTP''),
    (''security.pending_note'', js ''La chiave `00E8 provvisoria finch`00E9 non viene confermata; riavviare la configurazione ne genera una nuova.''),
    (''security.current_code'', js ''Codice attuale dall`2019app''),
    (''security.regenerate'', js ''Genera nuovi codici (quelli vecchi smettono di funzionare)''),
    (''security.disable.title'', js ''Disattiva TOTP''),
    (''security.disable.intro'', js ''Richiede un codice attuale dall`2019app o un codice di recupero: la sola sessione (ad es. un cookie rubato) non basta. Se sono andati persi sia l`2019app sia i codici di recupero, un operatore pu`00F2 eseguire {cmd} sul server.'')]"

definition it_5 :: messages where
  "it_5 = [
    (''security.disable.code'', js ''Codice''),
    (''security.disable.submit'', js ''Disattiva''),
    (''security.disable.confirm'', js ''Disattivare l`2019autenticazione a due fattori?''),
    (''security.msg.enabled'', js ''L`2019autenticazione a due fattori `00E8 attiva.''),
    (''security.msg.code_mismatch'', js ''Il codice non corrisponde. Controlla l`2019ora del telefono e riprova.''),
    (''security.msg.invalid_code'', js ''Codice non valido.''),
    (''security.msg.regenerated'', js ''Nuovi codici di recupero generati.''),
    (''security.msg.required'', js ''Questa istanza richiede TOTP (ADMIN_REQUIRE_TOTP); non pu`00F2 essere disattivato.''),
    (''security.msg.disabled'', js ''L`2019autenticazione a due fattori `00E8 stata disattivata.''),
    (''security.password.title'', js ''Cambia password''),
    (''security.password.current'', js ''Password attuale''),
    (''security.password.new'', js ''Nuova password (min. 12 caratteri)''),
    (''security.password.confirm'', js ''Conferma la nuova password''),
    (''security.password.submit'', js ''Cambia password''),
    (''security.password.mismatch'', js ''La nuova password e la conferma non coincidono.''),
    (''security.password.invalid_current'', js ''La password attuale non `00E8 corretta.''),
    (''security.password.changed'', js ''Password cambiata. Le altre sessioni di questo account sono state disconnesse.''),
    (''home.title'', js ''inletbox''),
    (''home.message'', js ''Questa `00E8 una casella privata per il deposito di file. Per caricare file, usa il link che ti ha dato la persona che li ha richiesti.''),
    (''cases.new'', js ''Nuova pratica'')]"

definition it_6 :: messages where
  "it_6 = [
    (''cases.name'', js ''Nome''),
    (''cases.name_placeholder'', js ''ad es. Audit 2026/09 `2013 Cliente X''),
    (''cases.description_optional'', js ''Descrizione (facoltativa)''),
    (''cases.description'', js ''Descrizione''),
    (''cases.list'', js ''Pratiche''),
    (''cases.empty'', js ''Nessuna pratica.''),
    (''cases.col.name'', js ''Nome''),
    (''cases.col.status'', js ''Stato''),
    (''cases.col.links'', js ''Link attivi''),
    (''cases.col.files'', js ''File''),
    (''cases.col.size'', js ''Dimensione''),
    (''cases.col.created'', js ''Creata''),
    (''case.open'', js ''aperta''),
    (''case.closed'', js ''chiusa''),
    (''case.close'', js ''Chiudi la pratica''),
    (''case.reopen'', js ''Riapri''),
    (''case.meta'', js ''ID: {id} `00B7 creata il {date}. Una pratica chiusa non accetta caricamenti da nessuno dei suoi link.''),
    (''case.saved'', js ''Salvato.''),
    (''case.closed_no_links'', js ''La pratica `00E8 chiusa `2013 riaprila per generare link.''),
    (''case.new_link.title'', js ''Nuovo link per `00AB{label}`00BB'')]"

definition it_7 :: messages where
  "it_7 = [
    (''case.new_link.intro'', js ''Copialo ora. Il token `00E8 memorizzato solo come hash e non pu`00F2 essere recuperato in seguito `2013 potrai solo generare un nuovo link.''),
    (''case.new_link.copy_now'', js ''Copialo ora.''),
    (''links.title'', js ''Link di caricamento''),
    (''links.intro'', js ''Ogni link `00E8 un destinatario distinto e un ambito di visibilit`00E0 distinto: chi ha il link vede solo i file inviati tramite quel link e non pu`00F2 scaricarli n`00E9 eliminarli. Chiunque conosca lo stesso link ha esattamente lo stesso accesso `2013 l`2019applicazione non distingue tra le persone che usano lo stesso link.''),
    (''links.generate'', js ''Genera un nuovo link''),
    (''links.label'', js ''Etichetta del destinatario''),
    (''links.label_placeholder'', js ''ad es. Mario Rossi `2013 contabilit`00E0''),
    (''links.expires'', js ''Valido fino al (UTC, facoltativo)''),
    (''links.max_file'', js ''Dimensione max. del file (facoltativa, `2264 {max})''),
    (''links.max_file_placeholder'', js ''ad es. 500MB''),
    (''links.max_files'', js ''Numero max. di file (facoltativo)''),
    (''links.max_total'', js ''Dimensione totale max. (facoltativa)''),
    (''links.max_total_placeholder'', js ''ad es. 2GB''),
    (''links.submit'', js ''Genera link''),
    (''links.empty'', js ''Nessun link.''),
    (''links.col.recipient'', js ''Destinatario''),
    (''links.col.state'', js ''Stato''),
    (''links.col.expires'', js ''Valido fino al''),
    (''links.col.limits'', js ''Limiti''),
    (''links.col.usage'', js ''Utilizzo'')]"

definition it_8 :: messages where
  "it_8 = [
    (''links.col.last_used'', js ''Ultimo utilizzo''),
    (''links.state.active'', js ''attivo''),
    (''links.state.expired'', js ''scaduto''),
    (''links.state.revoked'', js ''revocato''),
    (''links.state.case_closed'', js ''pratica chiusa''),
    (''links.limit.file'', js ''file `2264 {max}''),
    (''links.limit.files'', js ''file `2264 {n}''),
    (''links.limit.total'', js ''totale `2264 {max}''),
    (''links.usage'', js ''{n} file, {size}''),
    (''links.usage_in_progress'', js ''{n} in corso ({size} riservati)''),
    (''links.revoke'', js ''Revoca''),
    (''links.revoke_confirm'', js ''Revocare il link `00AB{label}`00BB? I caricamenti in corso verranno interrotti.''),
    (''files.title'', js ''File''),
    (''files.empty'', js ''Nessun file.''),
    (''files.col.name'', js ''Nome''),
    (''files.col.recipient'', js ''Destinatario (link)''),
    (''files.col.size'', js ''Dimensione''),
    (''files.col.status'', js ''Stato''),
    (''files.col.uploaded'', js ''Caricato''),
    (''files.declared'', js ''{size} (dichiarata)'')]"

definition it_9 :: messages where
  "it_9 = [
    (''files.download'', js ''Scarica''),
    (''files.delete'', js ''Elimina''),
    (''files.delete_confirm'', js ''Eliminare il file `00AB{name}`00BB? L`2019operazione `00E8 irreversibile.''),
    (''files.untrusted'', js ''I file sono considerati non attendibili: i download sono sempre allegati e sul server non viene visualizzato n`00E9 eseguito nulla. La scansione antivirus non fa parte di questa versione.''),
    (''files.status.uploading'', js ''in corso''),
    (''files.status.complete'', js ''completato''),
    (''files.status.aborted'', js ''interrotto''),
    (''files.status.expired'', js ''scaduto''),
    (''files.status.missing'', js ''mancante nello storage''),
    (''files.status.deleted'', js ''eliminato''),
    (''audit.title'', js ''Registro di audit (ultimi {n})''),
    (''audit.col.time'', js ''Ora''),
    (''audit.col.actor'', js ''Attore''),
    (''audit.col.action'', js ''Evento''),
    (''audit.col.case'', js ''Pratica''),
    (''audit.col.link'', js ''Link''),
    (''audit.col.file'', js ''File''),
    (''audit.col.ip'', js ''IP''),
    (''audit.col.details'', js ''Dettagli''),
    (''upload.title'', js ''Caricamento: {case}'')]"

definition it_10 :: messages where
  "it_10 = [
    (''upload.link_for'', js ''Link per:''),
    (''upload.valid_until'', js ''valido fino al {date}''),
    (''upload.limit.file'', js ''Dimensione massima del file:''),
    (''upload.limit.files'', js ''Numero massimo di file:''),
    (''upload.limit.total'', js ''Limite totale di dati:''),
    (''upload.used_n'', js ''({n} usati)''),
    (''upload.used_size'', js ''({size} usati)''),
    (''upload.send'', js ''Carica file''),
    (''upload.drop_here'', js ''Trascina qui i file''),
    (''upload.or'', js ''oppure''),
    (''upload.choose'', js ''scegli dal disco''),
    (''upload.resume_hint'', js ''I file grandi vengono inviati a parti e il caricamento pu`00F2 riprendere dopo un`2019interruzione della connessione. Dopo aver ricaricato la pagina, scegli di nuovo lo stesso file e il caricamento riprender`00E0 da dove si era fermato.''),
    (''upload.your_files'', js ''I tuoi file''),
    (''upload.your_files_intro'', js ''Vedi solo i file caricati tramite questo link. Qui i file non possono essere scaricati n`00E9 eliminati `2013 li ritira l`2019amministratore.''),
    (''upload.col.name'', js ''Nome''),
    (''upload.col.size'', js ''Dimensione''),
    (''upload.col.date'', js ''Data''),
    (''upload.col.status'', js ''Stato''),
    (''upload.none_yet'', js ''Nessun file ancora caricato.''),
    (''upload.list_failed'', js ''Impossibile caricare l`2019elenco: {msg}'')]"

definition it_11 :: messages where
  "it_11 = [
    (''upload.terminal'', js ''Caricamento dal terminale''),
    (''upload.terminal_hint'', js ''(curl, script, trasferimenti ripristinabili)''),
    (''upload.terminal_intro'', js ''Sostituisci {path} con il percorso del tuo file (gli spazi non sono un problema). Un codice di uscita diverso da zero indica un errore; la risposta `00E8 in JSON.''),
    (''upload.snippet.single'', js ''Un file''),
    (''upload.snippet.multi'', js ''Pi`00F9 file''),
    (''upload.snippet.env'', js ''Token in una variabile d`2019ambiente (consigliato)''),
    (''upload.snippet.list'', js ''Elenca i file caricati''),
    (''upload.snippet.resumable'', js ''File grande con ripresa (script {script})''),
    (''upload.history_warning'', js ''Attenzione: un comando che contiene il token finisce nella cronologia della shell (ad es. {file}). La variante con export preceduta da uno spazio non viene registrata se {opt} `00E8 impostato. Tratta questo link come una password e non passarlo ad altri.''),
    (''upload.path_placeholder'', js ''/percorso/del/file.pdf''),
    (''upload.path_placeholder2'', js ''/percorso/relazione.pdf''),
    (''upload.path_placeholder3'', js ''/percorso/foto 1.jpg''),
    (''upload.path_placeholder_big'', js ''/percorso/del/file grande.iso''),
    (''upload.js.queued'', js ''in coda`2026''),
    (''upload.js.too_large'', js ''troppo grande: limite {max}''),
    (''upload.js.error'', js ''errore: {msg}''),
    (''upload.js.starting'', js ''avvio`2026''),
    (''upload.js.resuming'', js ''ripresa del caricamento precedente`2026''),
    (''upload.js.retrying'', js ''nuovo tentativo`2026''),
    (''upload.js.done'', js ''completato'')]"

definition it_12 :: messages where
  "it_12 = [
    (''upload.js.finalising'', js ''tutti i dati inviati, il server sta completando`2026''),
    (''upload.js.cancelled'', js ''annullato''),
    (''upload.js.cancelled_local'', js ''annullato (localmente)''),
    (''upload.js.status.uploading'', js ''in corso''),
    (''upload.js.status.complete'', js ''completato''),
    (''nav.users'', js ''Utenti''),
    (''cases.empty_assigned'', js ''Non ti `00E8 ancora stata assegnata nessuna pratica. Pu`00F2 assegnartene una un collega che ci lavora o un amministratore, oppure puoi crearne una nuova qui sopra.''),
    (''error.forbidden.title'', js ''Non consentito''),
    (''error.forbidden'', js ''Questa pagina `00E8 riservata agli amministratori.''),
    (''security.must_change_notice'', js ''La tua password `00E8 stata assegnata da un amministratore. Imposta la tua qui sotto prima di continuare.''),
    (''members.title'', js ''Utenti assegnati''),
    (''members.intro'', js ''Un utente vede solo le pratiche a cui `00E8 assegnato. Gli amministratori vedono tutte le pratiche.''),
    (''members.empty'', js ''Nessun utente `00E8 assegnato a questa pratica `2014 la vedono solo gli amministratori.''),
    (''members.user'', js ''Utente''),
    (''members.add'', js ''Assegna''),
    (''members.added'', js ''L`2019account {username} `00E8 ora assegnato a questa pratica.''),
    (''members.remove'', js ''Rimuovi''),
    (''members.remove_confirm'', js ''Rimuovere {username}? L`2019account non vedr`00E0 pi`00F9 questa pratica.''),
    (''members.removed'', js ''L`2019account {username} non ha pi`00F9 accesso a questa pratica.''),
    (''members.none_assignable'', js ''Non resta nessun account utente da assegnare. Creane uno in {link}.'')]"

definition it_13 :: messages where
  "it_13 = [
    (''users.new'', js ''Nuovo account''),
    (''users.list'', js ''Account''),
    (''users.username'', js ''Nome utente''),
    (''users.username_placeholder'', js ''es. anna.rossi@azienda.it''),
    (''users.role'', js ''Ruolo''),
    (''users.role.admin'', js ''Amministratore''),
    (''users.role.user'', js ''Utente''),
    (''users.roles_hint'', js ''Un utente vede e gestisce solo le pratiche a cui `00E8 assegnato. Un amministratore vede tutte le pratiche, gestisce gli account e consulta il registro di audit. Viene generata una password temporanea, da cambiare al primo accesso.''),
    (''users.col.username'', js ''Account''),
    (''users.col.status'', js ''Stato''),
    (''users.col.totp'', js ''Secondo fattore''),
    (''users.col.cases'', js ''Pratiche''),
    (''users.col.last_login'', js ''Ultimo accesso''),
    (''users.status.active'', js ''attivo''),
    (''users.status.disabled'', js ''disattivato''),
    (''users.status.must_change'', js ''password da cambiare''),
    (''users.you'', js ''tu''),
    (''users.all_cases'', js ''tutte''),
    (''users.issued.title'', js ''Account {username} creato''),
    (''users.issued.reset_title'', js ''Nuova password per {username}'')]"

definition it_14 :: messages where
  "it_14 = [
    (''users.issued.copy_now'', js ''Copia ora questa password `2014 viene mostrata una sola volta.''),
    (''users.issued.intro'', js ''Consegnala tramite un canale diverso da quello del nome utente. Va sostituita al primo accesso.''),
    (''users.make_admin'', js ''Rendi amministratore''),
    (''users.make_user'', js ''Rendi utente''),
    (''users.role_confirm'', js ''Cambiare il ruolo dell`2019account {username}?''),
    (''users.role_changed'', js ''L`2019account {username} ha ora il ruolo: {role}.''),
    (''users.reset_password'', js ''Nuova password''),
    (''users.reset_password_confirm'', js ''Assegnare una nuova password a {username}? Quella attuale smette di funzionare e tutte le sessioni dell`2019account terminano.''),
    (''users.password_reset'', js ''`00C8 stata assegnata una nuova password a {username} e l`2019account `00E8 stato disconnesso.''),
    (''users.reset_totp'', js ''Reimposta 2FA''),
    (''users.reset_totp_confirm'', js ''Rimuovere il secondo fattore di {username}? Verr`00E0 configurato di nuovo dopo il prossimo accesso.''),
    (''users.totp_reset'', js ''L`2019autenticazione a due fattori `00E8 stata rimossa dall`2019account {username}.''),
    (''users.disable'', js ''Disattiva''),
    (''users.disable_confirm'', js ''Disattivare {username}? L`2019account viene disconnesso e non pu`00F2 accedere finch`00E9 non viene riattivato.''),
    (''users.disabled'', js ''L`2019account {username} `00E8 stato disattivato e disconnesso.''),
    (''users.enable'', js ''Riattiva''),
    (''users.enabled'', js ''L`2019account {username} pu`00F2 di nuovo accedere.''),
    (''users.delete'', js ''Elimina''),
    (''users.delete_confirm'', js ''Eliminare l`2019account {username}? Le sue assegnazioni alle pratiche spariscono con esso; il registro di audit conserva ci`00F2 che ha fatto.''),
    (''users.deleted'', js ''L`2019account {username} `00E8 stato eliminato.'')]"

definition it_15 :: messages where
  "it_15 = [
    (''users.missing'', js ''Questo account non esiste.''),
    (''users.not_self'', js ''Qui non puoi modificare il tuo account `2014 password e 2FA sono in Sicurezza.''),
    (''users.last_admin'', js ''Deve restare almeno un amministratore attivo.''),
    (''users.exists'', js ''Esiste gi`00E0 un account di nome {username}.''),
    (''users.invalid_username'', js ''Un nome utente ha 2`201364 caratteri: lettere, cifre e . _ @ -''),
    (''users.invalid_role'', js ''Ruolo sconosciuto.''),
    (''members.not_self'', js ''Non puoi rimuovere te stesso. Chiedi a un`2019altra persona della pratica o a un amministratore.''),
    (''members.none_assignable_user'', js ''Non c`2019`00E8 nessun altro account utente da assegnare.''),
    (''second.title'', js ''Secondo passaggio dell`2019accesso''),
    (''second.recovery_label'', js ''Codice di recupero''),
    (''common.or'', js ''o''),
    (''passkey.use'', js ''Usa una passkey''),
    (''passkey.unsupported'', js ''Questo browser non supporta le passkey.''),
    (''passkey.failed'', js ''Impossibile verificare la passkey. Riprova.''),
    (''passkey.cancelled'', js ''Annullato. Riprova quando sei pronto.''),
    (''confirm.title'', js ''Conferma la tua identit`00E0''),
    (''confirm.intro'', js ''Questa azione richiede una conferma recente. Rimarr`00E0 valida per {minutes} minuti, in modo da non doverla ripetere a ogni passaggio.''),
    (''confirm.repeat'', js ''Dopo aver confermato, ripeti l`2019operazione che stavi eseguendo.''),
    (''confirm.code_label'', js ''Codice dall`2019app o codice di recupero''),
    (''confirm.password_label'', js ''La tua password'')]"

definition it_16 :: messages where
  "it_16 = [
    (''confirm.submit'', js ''Conferma''),
    (''confirm.invalid'', js ''I dati non corrispondono. Riprova.''),
    (''confirm.locked'', js ''Troppi codici errati per questo account. Riprova tra 15 minuti.''),
    (''passkeys.title'', js ''Passkey''),
    (''passkeys.intro'', js ''Una passkey `00E8 custodita dal tuo dispositivo, dal tuo gestore di password o da una chiave di sicurezza, e non pu`00F2 essere sottratta tramite phishing. Funziona come secondo passaggio dell`2019accesso e per confermare azioni sensibili.''),
    (''passkeys.none'', js ''Nessuna passkey presente.''),
    (''passkeys.name'', js ''Nome''),
    (''passkeys.name_placeholder'', js ''es. portatile, chiave di sicurezza''),
    (''passkeys.added_at'', js ''Aggiunta''),
    (''passkeys.last_used'', js ''Ultimo utilizzo''),
    (''passkeys.add'', js ''Aggiungi una passkey''),
    (''passkeys.remove'', js ''Rimuovi''),
    (''passkeys.remove_confirm'', js ''Rimuovere questa passkey? Le altre sessioni di questo account verranno disconnesse.''),
    (''passkeys.added'', js ''Passkey `00AB{name}`00BB aggiunta.''),
    (''passkeys.removed'', js ''Passkey `00AB{name}`00BB rimossa. Le altre sessioni di questo account sono state disconnesse.''),
    (''passkeys.last_required'', js ''Questa istanza richiede un secondo fattore. Aggiungine un altro prima di rimuovere l`2019ultimo.''),
    (''passkeys.limit'', js ''Un account pu`00F2 avere al massimo {n} passkey.''),
    (''passkeys.duplicate'', js ''Questa passkey `00E8 gi`00E0 registrata.''),
    (''security.recovery.regenerate_confirmed'', js ''Genera nuovi codici (quelli vecchi smettono di funzionare)''),
    (''sessions.title'', js ''Sessioni attive'')]"

definition it_17 :: messages where
  "it_17 = [
    (''sessions.intro'', js ''Tutti i luoghi in cui questo account ha effettuato l`2019accesso. Disconnetti quelle che non riconosci, quindi modifica la tua password.''),
    (''sessions.device'', js ''Dispositivo''),
    (''sessions.ip'', js ''Indirizzo IP''),
    (''sessions.started'', js ''Avviata''),
    (''sessions.last_seen'', js ''Ultima attivit`00E0''),
    (''sessions.current'', js ''questa sessione''),
    (''sessions.pending'', js ''solo password, secondo passaggio non completato''),
    (''sessions.bound'', js ''vincolata a questo dispositivo''),
    (''sessions.factor'', js ''secondo passaggio: {factor}''),
    (''sessions.via.totp'', js ''codice dell`2019app''),
    (''sessions.via.recovery'', js ''codice di recupero''),
    (''sessions.via.passkey'', js ''passkey''),
    (''sessions.unknown_device'', js ''Dispositivo sconosciuto''),
    (''sessions.revoke'', js ''Disconnetti''),
    (''sessions.revoke_others'', js ''Disconnetti tutte le altre sessioni''),
    (''sessions.revoked'', js ''La sessione `00E8 stata disconnessa.''),
    (''sessions.revoked_others'', js ''Tutte le altre sessioni sono state disconnesse.'')]"

definition it_messages :: messages where
  "it_messages = it_1 @ it_2 @ it_3 @ it_4 @ it_5 @ it_6 @ it_7 @ it_8 @ it_9 @ it_10 @ it_11 @ it_12 @ it_13 @ it_14 @ it_15 @ it_16 @ it_17"

lemmas it_defs =
  it_1_def it_2_def it_3_def it_4_def it_5_def it_6_def it_7_def it_8_def it_9_def it_10_def it_11_def it_12_def it_13_def it_14_def
  it_15_def it_16_def it_17_def

lemma it_fits: "fits it_messages message_shape"
  unfolding it_messages_def message_shape_def
  by (intro fits_append; unfold it_defs shape_defs; simp only: fits_rules cong: literal_congs)

end
