(* ===== verification/Locale_Lt.thy ===== *)
theory Locale_Lt
  imports Locale_En
begin

text \<open>src/locales/lt.ts: Lithuanian.\<close>

definition lt_1 :: messages where
  "lt_1 = [
    (''app.tagline'', js ''privati fail`0173 pateikimo d`0117`017Eut`0117''),
    (''common.back_to_cases'', js ''`2190 Bylos''),
    (''common.home'', js ''Prad`017Eia''),
    (''common.copy'', js ''Kopijuoti''),
    (''common.copied'', js ''Nukopijuota''),
    (''common.copy_manual'', js ''Pa`017Eym`0117kite ir nukopijuokite rankiniu b`016Bdu''),
    (''common.save'', js ''I`0161saugoti''),
    (''common.create'', js ''Sukurti''),
    (''common.cancel'', js ''At`0161aukti''),
    (''common.retry'', js ''Bandyti dar kart`0105''),
    (''common.never'', js ''niekada''),
    (''common.unlimited'', js ''neterminuota''),
    (''common.none'', js ''`2014''),
    (''common.optional'', js ''neprivaloma''),
    (''common.loading'', js ''`012Ekeliama`2026''),
    (''common.yes'', js ''Taip''),
    (''common.language'', js ''Kalba''),
    (''nav.cases'', js ''Bylos''),
    (''nav.audit'', js ''Audito `017Eurnalas''),
    (''nav.security'', js ''Sauga'')]"

definition lt_2 :: messages where
  "lt_2 = [
    (''nav.logout'', js ''Atsijungti''),
    (''error.not_found.title'', js ''Nerasta''),
    (''error.page_missing'', js ''`0160is puslapis neegzistuoja.''),
    (''error.case_missing'', js ''`0160i byla neegzistuoja.''),
    (''error.link_missing'', js ''`0160i nuoroda neegzistuoja.''),
    (''error.file_missing'', js ''Failas neegzistuoja arba nepasiekiamas.''),
    (''error.file_not_exist'', js ''Failas neegzistuoja.''),
    (''error.storage_missing.title'', js ''Failo n`0117ra saugykloje''),
    (''error.storage_missing'', js ''Metaduomenys yra, bet objektas dingo i`0161 saugyklos. Paleiskite valym`0105, kad failas b`016Bt`0173 pa`017Eym`0117tas kaip tr`016Bkstamas.''),
    (''error.server.title'', js ''Serverio klaida''),
    (''error.server'', js ''`012Evyko netik`0117ta klaida.''),
    (''error.bad_request.title'', js ''Netinkama u`017Eklausa''),
    (''error.cross_site'', js ''U`017Eklausa i`0161 kitos svetain`0117s u`017Eblokuota''),
    (''error.csrf'', js ''Netinkamas CSRF prieigos raktas''),
    (''error.invalid_expiry'', js ''Netinkama galiojimo pabaigos data''),
    (''link.invalid.title'', js ''Netinkama nuoroda''),
    (''link.invalid'', js ''`0160i `012Fk`0117limo nuoroda neegzistuoja.''),
    (''link.unavailable.title'', js ''Nuoroda nepasiekiama''),
    (''link.expired'', js ''`0160ios nuorodos galiojimas baig`0117si.''),
    (''link.revoked'', js ''`0160i nuoroda at`0161aukta.'')]"

definition lt_3 :: messages where
  "lt_3 = [
    (''link.case_closed'', js ''Byla u`017Edaryta ir nebepriima fail`0173.''),
    (''link.contact'', js ''Susisiekite su asmeniu, kuris jums dav`0117 nuorod`0105.''),
    (''login.title'', js ''Administratoriaus prisijungimas''),
    (''login.username'', js ''Naudotojo vardas''),
    (''login.password'', js ''Slapta`017Eodis''),
    (''login.submit'', js ''Prisijungti''),
    (''login.failed'', js ''Netinkamas naudotojo vardas arba slapta`017Eodis.''),
    (''login.too_many_codes'', js ''Per daug neteising`0173 kod`0173. Prisijunkite i`0161 naujo.''),
    (''login.account_locked'', js ''`0160iai paskyrai `012Fvesta per daug neteising`0173 kod`0173. Antrasis veiksnys u`017Erakintas 15 minu`010Di`0173.''),
    (''totp.title'', js ''Kodas i`0161 j`016Bs`0173 autentifikavimo program`0117l`0117s''),
    (''totp.code_label'', js ''Kodas (6 skaitmenys) arba atk`016Brimo kodas''),
    (''totp.confirm'', js ''Patvirtinti''),
    (''totp.cancel_logout'', js ''At`0161aukti ir atsijungti''),
    (''totp.invalid'', js ''Netinkamas kodas.''),
    (''totp.attempts_left'', js ''Liko bandym`0173: {n}.''),
    (''totp.locked_until'', js ''Paskyra laikinai u`017Erakinta po daugelio neteising`0173 kod`0173 (iki {until} UTC).''),
    (''security.title'', js ''Paskyros `201E{user}`201C sauga''),
    (''security.required_notice'', js ''`0160is egzempliorius reikalauja antrojo veiksnio. Skydelis lieka nepasiekiamas, kol `017Eemiau neprid`0117site autentifikavimo program`0117l`0117s arba prieigos rakto.''),
    (''security.status'', js ''Dviej`0173 veiksni`0173 autentifikavimas (TOTP, RFC 6238): {state}.''),
    (''security.enabled'', js ''`012Fjungtas'')]"

definition lt_4 :: messages where
  "lt_4 = [
    (''security.disabled'', js ''i`0161jungtas''),
    (''security.recovery_left'', js ''Nepanaudot`0173 atk`016Brimo kod`0173: {n}.''),
    (''security.recovery.title'', js ''Atk`016Brimo kodai''),
    (''security.recovery.intro'', js ''I`0161saugokite juos dabar saugioje vietoje. Kiekvienas veikia vien`0105 kart`0105 ir pakei`010Dia program`0117l`0117s kod`0105, jei prarandate prieig`0105 prie program`0117l`0117s. Jie daugiau nebus rodomi.''),
    (''security.enable.title'', js ''`012Ejungti TOTP''),
    (''security.enable.intro'', js ''Jums reikia autentifikavimo program`0117l`0117s (pvz., Aegis, Google Authenticator, 1Password, Bitwarden). `012Ejungus, prisijungiant reik`0117s slapta`017Eod`017Eio ir galiojan`010Dio kodo.''),
    (''security.enable.start'', js ''Prad`0117ti s`0105rank`0105''),
    (''security.step1'', js ''1 `017Eingsnis: nuskaitykite kod`0105 program`0117le''),
    (''security.manual_key'', js ''Arba `012Fveskite rakt`0105 rankiniu b`016Bdu:''),
    (''security.key_params'', js ''Tipas: TOTP, SHA-1, 6 skaitmenys, 30 s. I`0161dav`0117jas: {issuer}, paskyra: {user}.''),
    (''security.open_in_app'', js ''Atidaryti autentifikavimo program`0117l`0117je''),
    (''security.on_phone'', js ''(telefone)''),
    (''security.step2'', js ''2 `017Eingsnis: patvirtinkite kodu''),
    (''security.code_from_app'', js ''Kodas i`0161 program`0117l`0117s''),
    (''security.enable.submit'', js ''`012Ejungti TOTP''),
    (''security.pending_note'', js ''Raktas laikinas, kol bus patvirtintas; i`0161 naujo prad`0117jus s`0105rank`0105 sukuriamas naujas.''),
    (''security.current_code'', js ''Dabartinis program`0117l`0117s kodas''),
    (''security.regenerate'', js ''Sukurti naujus kodus (senieji nustos veikti)''),
    (''security.disable.title'', js ''I`0161jungti TOTP''),
    (''security.disable.intro'', js ''Reikia dabartinio program`0117l`0117s kodo arba atk`016Brimo kodo: vien seanso (pvz., pavogto slapuko) nepakanka. Jei prarasta ir program`0117l`0117, ir atk`016Brimo kodai, operatorius serveryje gali paleisti {cmd}.'')]"

definition lt_5 :: messages where
  "lt_5 = [
    (''security.disable.code'', js ''Kodas''),
    (''security.disable.submit'', js ''I`0161jungti''),
    (''security.disable.confirm'', js ''I`0161jungti dviej`0173 veiksni`0173 autentifikavim`0105?''),
    (''security.msg.enabled'', js ''Dviej`0173 veiksni`0173 autentifikavimas `012Fjungtas.''),
    (''security.msg.code_mismatch'', js ''Kodas nesutampa. Patikrinkite laik`0105 telefone ir bandykite dar kart`0105.''),
    (''security.msg.invalid_code'', js ''Netinkamas kodas.''),
    (''security.msg.regenerated'', js ''Sukurti nauji atk`016Brimo kodai.''),
    (''security.msg.required'', js ''`0160iam egzemplioriui b`016Btinas TOTP (ADMIN_REQUIRE_TOTP); jo negalima i`0161jungti.''),
    (''security.msg.disabled'', js ''Dviej`0173 veiksni`0173 autentifikavimas i`0161jungtas.''),
    (''security.password.title'', js ''Keisti slapta`017Eod`012F''),
    (''security.password.current'', js ''Dabartinis slapta`017Eodis''),
    (''security.password.new'', js ''Naujas slapta`017Eodis (ne ma`017Eiau kaip 12 simboli`0173)''),
    (''security.password.confirm'', js ''Patvirtinkite nauj`0105 slapta`017Eod`012F''),
    (''security.password.submit'', js ''Keisti slapta`017Eod`012F''),
    (''security.password.mismatch'', js ''Naujas slapta`017Eodis ir jo patvirtinimas nesutampa.''),
    (''security.password.invalid_current'', js ''Dabartinis slapta`017Eodis neteisingas.''),
    (''security.password.changed'', js ''Slapta`017Eodis pakeistas. Kiti `0161ios paskyros seansai atjungti.''),
    (''home.title'', js ''inletbox''),
    (''home.message'', js ''Tai privati fail`0173 pateikimo d`0117`017Eut`0117. Nor`0117dami `012Fkelti failus, naudokite nuorod`0105, kuri`0105 gavote i`0161 juos papra`0161iusio asmens.''),
    (''cases.new'', js ''Nauja byla'')]"

definition lt_6 :: messages where
  "lt_6 = [
    (''cases.name'', js ''Pavadinimas''),
    (''cases.name_placeholder'', js ''pvz., Auditas 2026/09 `2013 klientas X''),
    (''cases.description_optional'', js ''Apra`0161ymas (neprivaloma)''),
    (''cases.description'', js ''Apra`0161ymas''),
    (''cases.list'', js ''Bylos''),
    (''cases.empty'', js ''Byl`0173 n`0117ra.''),
    (''cases.col.name'', js ''Pavadinimas''),
    (''cases.col.status'', js ''B`016Bsena''),
    (''cases.col.links'', js ''Aktyvios nuorodos''),
    (''cases.col.files'', js ''Failai''),
    (''cases.col.size'', js ''Dydis''),
    (''cases.col.created'', js ''Sukurta''),
    (''case.open'', js ''atidaryta''),
    (''case.closed'', js ''u`017Edaryta''),
    (''case.close'', js ''U`017Edaryti byl`0105''),
    (''case.reopen'', js ''Atidaryti i`0161 naujo''),
    (''case.meta'', js ''ID: {id} `00B7 sukurta {date}. U`017Edaryta byla nepriima `012Fk`0117lim`0173 per joki`0105 savo nuorod`0105.''),
    (''case.saved'', js ''I`0161saugota.''),
    (''case.closed_no_links'', js ''Byla u`017Edaryta `2013 atidarykite j`0105 i`0161 naujo, kad gal`0117tum`0117te kurti nuorodas.''),
    (''case.new_link.title'', js ''Nauja nuoroda: `201E{label}`201C'')]"

definition lt_7 :: messages where
  "lt_7 = [
    (''case.new_link.intro'', js ''Nukopijuokite j`0105 dabar. Prieigos raktas saugomas tik kaip mai`0161a ir v`0117liau jo atkurti negalima `2013 galite tik sukurti nauj`0105 nuorod`0105.''),
    (''case.new_link.copy_now'', js ''Nukopijuokite j`0105 dabar.''),
    (''links.title'', js ''`012Ek`0117limo nuorodos''),
    (''links.intro'', js ''Kiekviena nuoroda yra atskiras gav`0117jas ir atskira matomumo sritis: nuorodos tur`0117tojas mato tik per t`0105 nuorod`0105 atsi`0173stus failus ir negali j`0173 atsisi`0173sti ar i`0161trinti. Visi, `017Einantys t`0105 pa`010Di`0105 nuorod`0105, turi vienod`0105 prieig`0105 `2013 programa neskiria `017Emoni`0173, kurie naudoja t`0105 pa`010Di`0105 nuorod`0105.''),
    (''links.generate'', js ''Sukurti nauj`0105 nuorod`0105''),
    (''links.label'', js ''Gav`0117jo `017Eym`0117''),
    (''links.label_placeholder'', js ''pvz., Ona Petraitien`0117 `2013 buhalterija''),
    (''links.expires'', js ''Galioja iki (UTC, neprivaloma)''),
    (''links.max_file'', js ''Did`017E. failo dydis (neprivaloma, `2264 {max})''),
    (''links.max_file_placeholder'', js ''pvz., 500MB''),
    (''links.max_files'', js ''Did`017E. fail`0173 skai`010Dius (neprivaloma)''),
    (''links.max_total'', js ''Did`017E. bendras dydis (neprivaloma)''),
    (''links.max_total_placeholder'', js ''pvz., 2GB''),
    (''links.submit'', js ''Sukurti nuorod`0105''),
    (''links.empty'', js ''Nuorod`0173 n`0117ra.''),
    (''links.col.recipient'', js ''Gav`0117jas''),
    (''links.col.state'', js ''B`016Bsena''),
    (''links.col.expires'', js ''Galioja iki''),
    (''links.col.limits'', js ''Ribos''),
    (''links.col.usage'', js ''Naudojimas'')]"

definition lt_8 :: messages where
  "lt_8 = [
    (''links.col.last_used'', js ''Paskutin`012F kart`0105 naudota''),
    (''links.state.active'', js ''aktyvi''),
    (''links.state.expired'', js ''nebegalioja''),
    (''links.state.revoked'', js ''at`0161aukta''),
    (''links.state.case_closed'', js ''byla u`017Edaryta''),
    (''links.limit.file'', js ''failas `2264 {max}''),
    (''links.limit.files'', js ''failai `2264 {n}''),
    (''links.limit.total'', js ''i`0161 viso `2264 {max}''),
    (''links.usage'', js ''fail`0173: {n}, {size}''),
    (''links.usage_in_progress'', js ''vykdoma: {n} (rezervuota {size})''),
    (''links.revoke'', js ''At`0161aukti''),
    (''links.revoke_confirm'', js ''At`0161aukti nuorod`0105 `201E{label}`201C? Vykstantys `012Fk`0117limai bus nutraukti.''),
    (''files.title'', js ''Failai''),
    (''files.empty'', js ''Fail`0173 n`0117ra.''),
    (''files.col.name'', js ''Pavadinimas''),
    (''files.col.recipient'', js ''Gav`0117jas (nuoroda)''),
    (''files.col.size'', js ''Dydis''),
    (''files.col.status'', js ''B`016Bsena''),
    (''files.col.uploaded'', js ''`012Ekelta''),
    (''files.declared'', js ''{size} (deklaruota)'')]"

definition lt_9 :: messages where
  "lt_9 = [
    (''files.download'', js ''Atsisi`0173sti''),
    (''files.delete'', js ''I`0161trinti''),
    (''files.delete_confirm'', js ''I`0161trinti fail`0105 `201E{name}`201C? To at`0161aukti negalima.''),
    (''files.untrusted'', js ''Failai laikomi nepatikimais: atsisiuntimai visada yra priedai, o serveryje niekas nerodoma ir nevykdoma. Antivirusinis tikrinimas `012F `0161i`0105 versij`0105 ne`012Ftrauktas.''),
    (''files.status.uploading'', js ''vykdoma''),
    (''files.status.complete'', js ''baigta''),
    (''files.status.aborted'', js ''nutraukta''),
    (''files.status.expired'', js ''nebegalioja''),
    (''files.status.missing'', js ''tr`016Bksta saugykloje''),
    (''files.status.deleted'', js ''i`0161trinta''),
    (''audit.title'', js ''Audito `017Eurnalas (paskutiniai {n})''),
    (''audit.col.time'', js ''Laikas''),
    (''audit.col.actor'', js ''Vykdytojas''),
    (''audit.col.action'', js ''`012Evykis''),
    (''audit.col.case'', js ''Byla''),
    (''audit.col.link'', js ''Nuoroda''),
    (''audit.col.file'', js ''Failas''),
    (''audit.col.ip'', js ''IP''),
    (''audit.col.details'', js ''I`0161sami informacija''),
    (''upload.title'', js ''`012Ek`0117limas: {case}'')]"

definition lt_10 :: messages where
  "lt_10 = [
    (''upload.link_for'', js ''Nuoroda gav`0117jui:''),
    (''upload.valid_until'', js ''galioja iki {date}''),
    (''upload.limit.file'', js ''Did`017Eiausias failo dydis:''),
    (''upload.limit.files'', js ''Did`017Eiausias fail`0173 skai`010Dius:''),
    (''upload.limit.total'', js ''Bendra duomen`0173 riba:''),
    (''upload.used_n'', js ''(panaudota {n})''),
    (''upload.used_size'', js ''(panaudota {size})''),
    (''upload.send'', js ''`012Ekelti failus''),
    (''upload.drop_here'', js ''Nuvilkite failus `010Dia''),
    (''upload.or'', js ''arba''),
    (''upload.choose'', js ''pasirinkite i`0161 disko''),
    (''upload.resume_hint'', js ''Dideli failai siun`010Diami dalimis, o `012Fk`0117lim`0105 galima t`0119sti nutr`016Bkus ry`0161iui. I`0161 naujo `012Fk`0117l`0119 puslap`012F, v`0117l pasirinkite t`0105 pat`012F fail`0105 ir `012Fk`0117limas t`0119sis nuo ten, kur sustojo.''),
    (''upload.your_files'', js ''J`016Bs`0173 failai''),
    (''upload.your_files_intro'', js ''Matote tik per `0161i`0105 nuorod`0105 `012Fkeltus failus. `010Cia fail`0173 negalima atsisi`0173sti ar i`0161trinti `2013 juos pasiima administratorius.''),
    (''upload.col.name'', js ''Pavadinimas''),
    (''upload.col.size'', js ''Dydis''),
    (''upload.col.date'', js ''Data''),
    (''upload.col.status'', js ''B`016Bsena''),
    (''upload.none_yet'', js ''Dar ne`012Fkelta joki`0173 fail`0173.''),
    (''upload.list_failed'', js ''Nepavyko `012Fkelti s`0105ra`0161o: {msg}'')]"

definition lt_11 :: messages where
  "lt_11 = [
    (''upload.terminal'', js ''`012Ek`0117limas i`0161 terminalo''),
    (''upload.terminal_hint'', js ''(curl, scenarijai, t`0119siami perdavimai)''),
    (''upload.terminal_intro'', js ''Pakeiskite {path} savo failo keliu (tarpai netrukdo). Nenulinis i`0161`0117jimo kodas rei`0161kia klaid`0105; atsakymas pateikiamas JSON formatu.''),
    (''upload.snippet.single'', js ''Vienas failas''),
    (''upload.snippet.multi'', js ''Keli failai''),
    (''upload.snippet.env'', js ''Prieigos raktas aplinkos kintamajame (rekomenduojama)''),
    (''upload.snippet.list'', js ''`012Ekelt`0173 fail`0173 s`0105ra`0161as''),
    (''upload.snippet.resumable'', js ''Didelis failas su t`0119simu (scenarijus {script})''),
    (''upload.history_warning'', js ''D`0117mesio: komanda su prieigos raktu patenka `012F apvalkalo istorij`0105 (pvz., {file}). Variantas su export, prie`0161 kur`012F yra tarpas, ne`012Fra`0161omas, kai nustatyta {opt}. Elkit`0117s su `0161ia nuoroda kaip su slapta`017Eod`017Eiu ir niekam jos neperduokite.''),
    (''upload.path_placeholder'', js ''/kelias/iki/failo.pdf''),
    (''upload.path_placeholder2'', js ''/kelias/ataskaita.pdf''),
    (''upload.path_placeholder3'', js ''/kelias/nuotrauka 1.jpg''),
    (''upload.path_placeholder_big'', js ''/kelias/iki/didelis failas.iso''),
    (''upload.js.queued'', js ''eil`0117je`2026''),
    (''upload.js.too_large'', js ''per didelis: riba {max}''),
    (''upload.js.error'', js ''klaida: {msg}''),
    (''upload.js.starting'', js ''pradedama`2026''),
    (''upload.js.resuming'', js ''t`0119siamas ankstesnis `012Fk`0117limas`2026''),
    (''upload.js.retrying'', js ''bandoma dar kart`0105`2026''),
    (''upload.js.done'', js ''baigta'')]"

definition lt_12 :: messages where
  "lt_12 = [
    (''upload.js.finalising'', js ''visi duomenys i`0161si`0173sti, serveris baigia`2026''),
    (''upload.js.cancelled'', js ''at`0161aukta''),
    (''upload.js.cancelled_local'', js ''at`0161aukta (vietoje)''),
    (''upload.js.status.uploading'', js ''vykdoma''),
    (''upload.js.status.complete'', js ''baigta''),
    (''nav.users'', js ''Naudotojai''),
    (''cases.empty_assigned'', js ''Jums dar nepriskirta n`0117 viena byla. Jus bylai gali priskirti kolega, kuris su ja dirba, arba administratorius, arba galite sukurti nauj`0105 byl`0105 auk`0161`010Diau.''),
    (''error.forbidden.title'', js ''Neleid`017Eiama''),
    (''error.forbidden'', js ''`0160is puslapis skirtas tik administratoriams.''),
    (''security.must_change_notice'', js ''J`016Bs`0173 slapta`017Eod`012F i`0161dav`0117 administratorius. Prie`0161 t`0119sdami nustatykite savo slapta`017Eod`012F `017Eemiau.''),
    (''members.title'', js ''Priskirti naudotojai''),
    (''members.intro'', js ''Naudotojas mato tik tas bylas, kurioms yra priskirtas. Administratoriai mato visas bylas.''),
    (''members.empty'', js ''`0160iai bylai nepriskirtas n`0117 vienas naudotojas `2014 j`0105 mato tik administratoriai.''),
    (''members.user'', js ''Naudotojas''),
    (''members.add'', js ''Priskirti''),
    (''members.added'', js ''Paskyra {username} dabar priskirta `0161iai bylai.''),
    (''members.remove'', js ''At`0161aukti priskyrim`0105''),
    (''members.remove_confirm'', js ''At`0161aukti {username} priskyrim`0105? Paskyra nebematys `0161ios bylos.''),
    (''members.removed'', js ''Paskyra {username} nebeturi prieigos prie `0161ios bylos.''),
    (''members.none_assignable'', js ''Neb`0117ra naudotoj`0173 paskyr`0173, kurias b`016Bt`0173 galima priskirti. Sukurkite nauj`0105 skiltyje {link}.'')]"

definition lt_13 :: messages where
  "lt_13 = [
    (''users.new'', js ''Nauja paskyra''),
    (''users.list'', js ''Paskyros''),
    (''users.username'', js ''Naudotojo vardas''),
    (''users.username_placeholder'', js ''pvz., ona.petraitiene@imone.lt''),
    (''users.role'', js ''Vaidmuo''),
    (''users.role.admin'', js ''Administratorius''),
    (''users.role.user'', js ''Naudotojas''),
    (''users.roles_hint'', js ''Naudotojas mato ir tvarko tik tas bylas, kurioms yra priskirtas. Administratorius mato visas bylas, tvarko paskyras ir skaito audito `017Eurnal`0105. Sugeneruojamas laikinas slapta`017Eodis, kur`012F reikia pakeisti pirmojo prisijungimo metu.''),
    (''users.col.username'', js ''Paskyra''),
    (''users.col.status'', js ''B`016Bsena''),
    (''users.col.totp'', js ''Antrasis veiksnys''),
    (''users.col.cases'', js ''Bylos''),
    (''users.col.last_login'', js ''Paskutinis prisijungimas''),
    (''users.status.active'', js ''aktyvi''),
    (''users.status.disabled'', js ''i`0161jungta''),
    (''users.status.must_change'', js ''reikia pakeisti slapta`017Eod`012F''),
    (''users.you'', js ''j`016Bs''),
    (''users.all_cases'', js ''visos''),
    (''users.issued.title'', js ''Paskyra {username} sukurta''),
    (''users.issued.reset_title'', js ''Naujas slapta`017Eodis paskyrai {username}'')]"

definition lt_14 :: messages where
  "lt_14 = [
    (''users.issued.copy_now'', js ''Nukopijuokite `0161`012F slapta`017Eod`012F dabar `2014 jis rodomas tik vien`0105 kart`0105.''),
    (''users.issued.intro'', js ''Perduokite j`012F kitu kanalu nei naudotojo vard`0105. Pirmojo prisijungimo metu j`012F reik`0117s pakeisti.''),
    (''users.make_admin'', js ''Paversti administratoriumi''),
    (''users.make_user'', js ''Paversti naudotoju''),
    (''users.role_confirm'', js ''Pakeisti paskyros {username} vaidmen`012F?''),
    (''users.role_changed'', js ''Paskyros {username} vaidmuo dabar: {role}.''),
    (''users.reset_password'', js ''Naujas slapta`017Eodis''),
    (''users.reset_password_confirm'', js ''I`0161duoti nauj`0105 slapta`017Eod`012F paskyrai {username}? Dabartinis nustos veikti, o visos paskyros sesijos baigsis.''),
    (''users.password_reset'', js ''Paskyrai {username} i`0161duotas naujas slapta`017Eodis, paskyra atjungta.''),
    (''users.reset_totp'', js ''Atstatyti 2FA''),
    (''users.reset_totp_confirm'', js ''Pa`0161alinti paskyros {username} antr`0105j`012F veiksn`012F? Jis bus nustatytas i`0161 naujo po kito prisijungimo.''),
    (''users.totp_reset'', js ''I`0161 paskyros {username} pa`0161alintas dviej`0173 veiksni`0173 autentifikavimas.''),
    (''users.disable'', js ''I`0161jungti''),
    (''users.disable_confirm'', js ''I`0161jungti {username}? Paskyra atjungiama ir negal`0117s prisijungti, kol nebus v`0117l `012Fjungta.''),
    (''users.disabled'', js ''Paskyra {username} i`0161jungta ir atjungta.''),
    (''users.enable'', js ''`012Ejungti''),
    (''users.enabled'', js ''Paskyra {username} v`0117l gali prisijungti.''),
    (''users.delete'', js ''I`0161trinti''),
    (''users.delete_confirm'', js ''I`0161trinti paskyr`0105 {username}? Kartu dings jos byl`0173 priskyrimai; audito `017Eurnalas i`0161saugo, k`0105 ji dar`0117.''),
    (''users.deleted'', js ''Paskyra {username} i`0161trinta.'')]"

definition lt_15 :: messages where
  "lt_15 = [
    (''users.missing'', js ''Tokios paskyros n`0117ra.''),
    (''users.not_self'', js ''`010Cia savo paskyros keisti negalite `2014 slapta`017Eodis ir 2FA yra skiltyje Sauga.''),
    (''users.last_admin'', js ''Turi likti bent vienas aktyvus administratorius.''),
    (''users.exists'', js ''Paskyra pavadinimu {username} jau yra.''),
    (''users.invalid_username'', js ''Naudotojo vard`0105 sudaro 2`201364 simboliai: raid`0117s, skaitmenys ir . _ @ -''),
    (''users.invalid_role'', js ''Ne`017Einomas vaidmuo.''),
    (''members.not_self'', js ''Negalite at`0161aukti savo paties priskyrimo. Papra`0161ykite kito `0161ios bylos dalyvio arba administratoriaus.''),
    (''members.none_assignable_user'', js ''N`0117ra kitos naudotojo paskyros, kuri`0105 b`016Bt`0173 galima priskirti.''),
    (''second.title'', js ''Antrasis prisijungimo `017Eingsnis''),
    (''second.recovery_label'', js ''Atk`016Brimo kodas''),
    (''common.or'', js ''arba''),
    (''passkey.use'', js ''Naudoti prieigos rakt`0105''),
    (''passkey.unsupported'', js ''`0160i nar`0161ykl`0117 nepalaiko prieigos rakt`0173.''),
    (''passkey.failed'', js ''Nepavyko patvirtinti prieigos rakto. Bandykite dar kart`0105.''),
    (''passkey.cancelled'', js ''At`0161aukta. Bandykite dar kart`0105, kai b`016Bsite pasireng`0119.''),
    (''confirm.title'', js ''Patvirtinkite savo tapatyb`0119''),
    (''confirm.intro'', js ''`0160iam veiksmui atlikti reikalingas nesenas patvirtinimas. Jis galios {minutes} min., tod`0117l j`016Bs`0173 nebus klausiama kiekviename `017Eingsnyje.''),
    (''confirm.repeat'', js ''Patvirtin`0119 pakartokite tai, k`0105 dar`0117te.''),
    (''confirm.code_label'', js ''Kodas i`0161 program`0117l`0117s arba atk`016Brimo kodas''),
    (''confirm.password_label'', js ''J`016Bs`0173 slapta`017Eodis'')]"

definition lt_16 :: messages where
  "lt_16 = [
    (''confirm.submit'', js ''Patvirtinti''),
    (''confirm.invalid'', js ''Kodas nesutampa. Bandykite dar kart`0105.''),
    (''confirm.locked'', js ''`0160iai paskyrai `012Fvesta per daug neteising`0173 kod`0173. Bandykite dar kart`0105 po 15 minu`010Di`0173.''),
    (''passkeys.title'', js ''Prieigos raktai''),
    (''passkeys.intro'', js ''Prieigos raktas saugomas j`016Bs`0173 `012Frenginyje, slapta`017Eod`017Ei`0173 tvarkykl`0117je arba saugos rakte ir jo negalima i`0161vilioti fi`0161ingo b`016Bdu. Jis naudojamas kaip antrasis prisijungimo `017Eingsnis ir jautriems veiksmams patvirtinti.''),
    (''passkeys.none'', js ''Prieigos rakt`0173 dar n`0117ra.''),
    (''passkeys.name'', js ''Pavadinimas''),
    (''passkeys.name_placeholder'', js ''pvz., ne`0161iojamasis kompiuteris, saugos raktas''),
    (''passkeys.added_at'', js ''Prid`0117ta''),
    (''passkeys.last_used'', js ''Paskutin`012F kart`0105 naudota''),
    (''passkeys.add'', js ''Prid`0117ti prieigos rakt`0105''),
    (''passkeys.remove'', js ''Pa`0161alinti''),
    (''passkeys.remove_confirm'', js ''Pa`0161alinti `0161`012F prieigos rakt`0105? Kiti `0161ios paskyros seansai bus atjungti.''),
    (''passkeys.added'', js ''Prieigos raktas `201E{name}`201C prid`0117tas.''),
    (''passkeys.removed'', js ''Prieigos raktas `201E{name}`201C pa`0161alintas. Kiti `0161ios paskyros seansai atjungti.''),
    (''passkeys.last_required'', js ''`0160is egzempliorius reikalauja antrojo veiksnio. Prie`0161 pa`0161alindami paskutin`012F, prid`0117kite kit`0105.''),
    (''passkeys.limit'', js ''Paskyra gali tur`0117ti ne daugiau kaip {n} prieigos rakt`0173.''),
    (''passkeys.duplicate'', js ''`0160is prieigos raktas jau u`017Eregistruotas.''),
    (''security.recovery.regenerate_confirmed'', js ''Sukurti naujus kodus (senieji nustos veikti)''),
    (''sessions.title'', js ''Aktyv`016Bs seansai'')]"

definition lt_17 :: messages where
  "lt_17 = [
    (''sessions.intro'', js ''Visos vietos, kuriose `0161i paskyra yra prijungta. Atjunkite tuos, kuri`0173 neatpa`017E`012Fstate, tada pakeiskite slapta`017Eod`012F.''),
    (''sessions.device'', js ''`012Erenginys''),
    (''sessions.ip'', js ''IP adresas''),
    (''sessions.started'', js ''Prad`0117ta''),
    (''sessions.last_seen'', js ''Paskutin`0117 veikla''),
    (''sessions.current'', js ''`0161is seansas''),
    (''sessions.pending'', js ''tik slapta`017Eodis, antrasis `017Eingsnis neatliktas''),
    (''sessions.bound'', js ''susietas su `0161iuo `012Frenginiu''),
    (''sessions.factor'', js ''antrasis `017Eingsnis: {factor}''),
    (''sessions.via.totp'', js ''program`0117l`0117s kodas''),
    (''sessions.via.recovery'', js ''atk`016Brimo kodas''),
    (''sessions.via.passkey'', js ''prieigos raktas''),
    (''sessions.unknown_device'', js ''Ne`017Einomas `012Frenginys''),
    (''sessions.revoke'', js ''Atjungti''),
    (''sessions.revoke_others'', js ''Atjungti visus kitus seansus''),
    (''sessions.revoked'', js ''Seansas atjungtas.''),
    (''sessions.revoked_others'', js ''Visi kiti seansai atjungti.'')]"

definition lt_messages :: messages where
  "lt_messages = lt_1 @ lt_2 @ lt_3 @ lt_4 @ lt_5 @ lt_6 @ lt_7 @ lt_8 @ lt_9 @ lt_10 @ lt_11 @ lt_12 @ lt_13 @ lt_14 @ lt_15 @ lt_16 @ lt_17"

lemmas lt_defs =
  lt_1_def lt_2_def lt_3_def lt_4_def lt_5_def lt_6_def lt_7_def lt_8_def lt_9_def lt_10_def lt_11_def lt_12_def lt_13_def lt_14_def
  lt_15_def lt_16_def lt_17_def

lemma lt_fits: "fits lt_messages message_shape"
  unfolding lt_messages_def message_shape_def
  by (intro fits_append; unfold lt_defs shape_defs; simp only: fits_rules cong: literal_congs)

end
