(* ===== verification/Locale_Lv.thy ===== *)
theory Locale_Lv
  imports Locale_En
begin

text \<open>src/locales/lv.ts: Latvian.\<close>

definition lv_1 :: messages where
  "lv_1 = [
    (''app.tagline'', js ''priv`0101ta failu nodo`0161anas kaste''),
    (''common.back_to_cases'', js ''`2190 Lietas''),
    (''common.home'', js ''S`0101kums''),
    (''common.copy'', js ''Kop`0113t''),
    (''common.copied'', js ''Nokop`0113ts''),
    (''common.copy_manual'', js ''Atlasiet un kop`0113jiet manu`0101li''),
    (''common.save'', js ''Saglab`0101t''),
    (''common.create'', js ''Izveidot''),
    (''common.cancel'', js ''Atcelt''),
    (''common.retry'', js ''M`0113`0123in`0101t v`0113lreiz''),
    (''common.never'', js ''nekad''),
    (''common.unlimited'', js ''bez termi`0146a''),
    (''common.none'', js ''`2014''),
    (''common.optional'', js ''neoblig`0101ti''),
    (''common.loading'', js ''Iel`0101d`0113`2026''),
    (''common.yes'', js ''J`0101''),
    (''common.language'', js ''Valoda''),
    (''nav.cases'', js ''Lietas''),
    (''nav.audit'', js ''Audita `017Eurn`0101ls''),
    (''nav.security'', js ''Dro`0161`012Bba'')]"

definition lv_2 :: messages where
  "lv_2 = [
    (''nav.logout'', js ''Iziet''),
    (''error.not_found.title'', js ''Nav atrasts''),
    (''error.page_missing'', js ''`0160`012B lapa neeksist`0113.''),
    (''error.case_missing'', js ''`0160`012B lieta neeksist`0113.''),
    (''error.link_missing'', js ''`0160`012B saite neeksist`0113.''),
    (''error.file_missing'', js ''Fails neeksist`0113 vai nav pieejams.''),
    (''error.file_not_exist'', js ''Fails neeksist`0113.''),
    (''error.storage_missing.title'', js ''Fails kr`0101tuv`0113 nav atrodams''),
    (''error.storage_missing'', js ''Metadati past`0101v, bet objekts ir pazudis no kr`0101tuves. Palaidiet t`012Br`012B`0161anu, lai atz`012Bm`0113tu failu k`0101 tr`016Bksto`0161u.''),
    (''error.server.title'', js ''Servera k`013C`016Bda''),
    (''error.server'', js ''Rad`0101s neparedz`0113ta k`013C`016Bda.''),
    (''error.bad_request.title'', js ''Neder`012Bgs piepras`012Bjums''),
    (''error.cross_site'', js ''Piepras`012Bjums no citas vietnes blo`0137`0113ts''),
    (''error.csrf'', js ''Neder`012Bgs CSRF mar`0137ieris''),
    (''error.invalid_expiry'', js ''Neder`012Bgs der`012Bguma termi`0146`0161''),
    (''link.invalid.title'', js ''Neder`012Bga saite''),
    (''link.invalid'', js ''`0160`012B aug`0161upiel`0101des saite neeksist`0113.''),
    (''link.unavailable.title'', js ''Saite nav pieejama''),
    (''link.expired'', js ''`0160`012Bs saites der`012Bguma termi`0146`0161 ir beidzies.''),
    (''link.revoked'', js ''`0160`012B saite ir atsaukta.'')]"

definition lv_3 :: messages where
  "lv_3 = [
    (''link.case_closed'', js ''Lieta ir sl`0113gta un vairs nepie`0146em failus.''),
    (''link.contact'', js ''Sazinieties ar personu, kas jums iedeva saiti.''),
    (''login.title'', js ''Administratora pieteik`0161an`0101s''),
    (''login.username'', js ''Lietot`0101jv`0101rds''),
    (''login.password'', js ''Parole''),
    (''login.submit'', js ''Pieteikties''),
    (''login.failed'', js ''Neder`012Bgs lietot`0101jv`0101rds vai parole.''),
    (''login.too_many_codes'', js ''P`0101r`0101k daudz nepareizu kodu. Piesakieties v`0113lreiz.''),
    (''login.account_locked'', js ''`0160im kontam ievad`012Bts p`0101r`0101k daudz nepareizu kodu. Otrais faktors ir blo`0137`0113ts uz 15 min`016Bt`0113m.''),
    (''totp.title'', js ''Kods no j`016Bsu autentifik`0101cijas lietotnes''),
    (''totp.code_label'', js ''Kods (6 cipari) vai atkop`0161anas kods''),
    (''totp.confirm'', js ''Apstiprin`0101t''),
    (''totp.cancel_logout'', js ''Atcelt un iziet''),
    (''totp.invalid'', js ''Neder`012Bgs kods.''),
    (''totp.attempts_left'', js ''Atliku`0161ie m`0113`0123in`0101jumi: {n}.''),
    (''totp.locked_until'', js ''Konts p`0113c daudziem nepareiziem kodiem ir `012Bslaic`012Bgi blo`0137`0113ts (l`012Bdz {until} UTC).''),
    (''security.title'', js ''Konta `201C{user}`201D dro`0161`012Bba''),
    (''security.required_notice'', js ''`0160`012B instance pieprasa otro faktoru. Panelis paliek nepieejams, l`012Bdz t`0101l`0101k pievienojat autentifik`0101cijas lietotni vai piek`013Cuves atsl`0113gu.''),
    (''security.status'', js ''Divu faktoru autentifik`0101cija (TOTP, RFC 6238): {state}.''),
    (''security.enabled'', js ''iesl`0113gta'')]"

definition lv_4 :: messages where
  "lv_4 = [
    (''security.disabled'', js ''izsl`0113gta''),
    (''security.recovery_left'', js ''Neizmantoti atkop`0161anas kodi: {n}.''),
    (''security.recovery.title'', js ''Atkop`0161anas kodi''),
    (''security.recovery.intro'', js ''Saglab`0101jiet tos t`016Bl`012Bt dro`0161`0101 viet`0101. Katrs darbojas vienu reizi un aizst`0101j lietotnes kodu, ja zaud`0113jat piek`013Cuvi lietotnei. Tie vairs netiks par`0101d`012Bti.''),
    (''security.enable.title'', js ''Iesl`0113gt TOTP''),
    (''security.enable.intro'', js ''Jums nepiecie`0161ama autentifik`0101cijas lietotne (piem., Aegis, Google Authenticator, 1Password, Bitwarden). P`0113c iesl`0113g`0161anas pieteik`0161an`0101s prasa paroli un aktu`0101lu kodu.''),
    (''security.enable.start'', js ''S`0101kt iestat`012B`0161anu''),
    (''security.step1'', js ''1. solis: nosken`0113jiet kodu lietotn`0113''),
    (''security.manual_key'', js ''Vai ievadiet atsl`0113gu manu`0101li:''),
    (''security.key_params'', js ''Tips: TOTP, SHA-1, 6 cipari, 30 s. Izdev`0113js: {issuer}, konts: {user}.''),
    (''security.open_in_app'', js ''Atv`0113rt autentifik`0101cijas lietotn`0113''),
    (''security.on_phone'', js ''(t`0101lrun`012B)''),
    (''security.step2'', js ''2. solis: apstipriniet ar kodu''),
    (''security.code_from_app'', js ''Kods no lietotnes''),
    (''security.enable.submit'', js ''Iesl`0113gt TOTP''),
    (''security.pending_note'', js ''Atsl`0113ga ir pagaidu l`012Bdz apstiprin`0101`0161anai; atk`0101rtoti s`0101kot iestat`012B`0161anu, tiek `0123ener`0113ta jauna.''),
    (''security.current_code'', js ''Pa`0161reiz`0113jais kods no lietotnes''),
    (''security.regenerate'', js ''`0122ener`0113t jaunus kodus (vecie vairs nedarbosies)''),
    (''security.disable.title'', js ''Izsl`0113gt TOTP''),
    (''security.disable.intro'', js ''Nepiecie`0161ams pa`0161reiz`0113jais kods no lietotnes vai atkop`0161anas kods: ar sesiju vien (piem., nozagtu s`012Bkfailu) nepietiek. Ja pazaud`0113ta gan lietotne, gan atkop`0161anas kodi, operators server`012B var palaist {cmd}.'')]"

definition lv_5 :: messages where
  "lv_5 = [
    (''security.disable.code'', js ''Kods''),
    (''security.disable.submit'', js ''Izsl`0113gt''),
    (''security.disable.confirm'', js ''Izsl`0113gt divu faktoru autentifik`0101ciju?''),
    (''security.msg.enabled'', js ''Divu faktoru autentifik`0101cija ir iesl`0113gta.''),
    (''security.msg.code_mismatch'', js ''Kods nesakr`012Bt. P`0101rbaudiet laiku t`0101lrun`012B un m`0113`0123iniet v`0113lreiz.''),
    (''security.msg.invalid_code'', js ''Neder`012Bgs kods.''),
    (''security.msg.regenerated'', js ''`0122ener`0113ti jauni atkop`0161anas kodi.''),
    (''security.msg.required'', js ''`0160ai instancei nepiecie`0161ams TOTP (ADMIN_REQUIRE_TOTP); to nevar izsl`0113gt.''),
    (''security.msg.disabled'', js ''Divu faktoru autentifik`0101cija ir izsl`0113gta.''),
    (''security.password.title'', js ''Main`012Bt paroli''),
    (''security.password.current'', js ''Pa`0161reiz`0113j`0101 parole''),
    (''security.password.new'', js ''Jaun`0101 parole (vismaz 12 rakstz`012Bmes)''),
    (''security.password.confirm'', js ''Apstipriniet jauno paroli''),
    (''security.password.submit'', js ''Main`012Bt paroli''),
    (''security.password.mismatch'', js ''Jaun`0101 parole un t`0101s apstiprin`0101jums nesakr`012Bt.''),
    (''security.password.invalid_current'', js ''Pa`0161reiz`0113j`0101 parole ir nepareiza.''),
    (''security.password.changed'', js ''Parole nomain`012Bta. P`0101r`0113j`0101s `0161`012B konta sesijas ir izbeigtas.''),
    (''home.title'', js ''inletbox''),
    (''home.message'', js ''`0160`012B ir priv`0101ta failu nodo`0161anas kaste. Lai aug`0161upiel`0101d`0113tu failus, izmantojiet saiti, ko sa`0146`0113m`0101t no personas, kura tos piepras`012Bja.''),
    (''cases.new'', js ''Jauna lieta'')]"

definition lv_6 :: messages where
  "lv_6 = [
    (''cases.name'', js ''Nosaukums''),
    (''cases.name_placeholder'', js ''piem., Audits 2026/09 `2013 klients X''),
    (''cases.description_optional'', js ''Apraksts (neoblig`0101ti)''),
    (''cases.description'', js ''Apraksts''),
    (''cases.list'', js ''Lietas''),
    (''cases.empty'', js ''Nav lietu.''),
    (''cases.col.name'', js ''Nosaukums''),
    (''cases.col.status'', js ''Statuss''),
    (''cases.col.links'', js ''Akt`012Bv`0101s saites''),
    (''cases.col.files'', js ''Faili''),
    (''cases.col.size'', js ''Lielums''),
    (''cases.col.created'', js ''Izveidota''),
    (''case.open'', js ''atv`0113rta''),
    (''case.closed'', js ''sl`0113gta''),
    (''case.close'', js ''Sl`0113gt lietu''),
    (''case.reopen'', js ''Atv`0113rt no jauna''),
    (''case.meta'', js ''ID: {id} `00B7 izveidota {date}. Sl`0113gta lieta nepie`0146em aug`0161upiel`0101des nevien`0101 no sav`0101m sait`0113m.''),
    (''case.saved'', js ''Saglab`0101ts.''),
    (''case.closed_no_links'', js ''Lieta ir sl`0113gta `2013 atveriet to no jauna, lai `0123ener`0113tu saites.''),
    (''case.new_link.title'', js ''Jauna saite: `201C{label}`201D'')]"

definition lv_7 :: messages where
  "lv_7 = [
    (''case.new_link.intro'', js ''Nokop`0113jiet to t`016Bl`012Bt. Mar`0137ieris tiek glab`0101ts tikai k`0101 jauc`0113jv`0113rt`012Bba, un v`0113l`0101k to nevar atg`016Bt `2013 varat tikai `0123ener`0113t jaunu saiti.''),
    (''case.new_link.copy_now'', js ''Nokop`0113jiet to t`016Bl`012Bt.''),
    (''links.title'', js ''Aug`0161upiel`0101des saites''),
    (''links.intro'', js ''Katra saite ir atsevi`0161`0137s sa`0146`0113m`0113js un atsevi`0161`0137a redzam`012Bbas joma: saites tur`0113t`0101js redz tikai failus, kas nos`016Bt`012Bti ar `0161o saiti, un nevar tos lejupiel`0101d`0113t vai dz`0113st. Visiem, kas zina vienu un to pa`0161u saiti, ir vien`0101da piek`013Cuve `2013 lietotne neat`0161`0137ir cilv`0113kus, kuri izmanto vienu un to pa`0161u saiti.''),
    (''links.generate'', js ''`0122ener`0113t jaunu saiti''),
    (''links.label'', js ''Sa`0146`0113m`0113ja apz`012Bm`0113jums''),
    (''links.label_placeholder'', js ''piem., Anna B`0113rzi`0146a `2013 gr`0101matved`012Bba''),
    (''links.expires'', js ''Der`012Bga l`012Bdz (UTC, neoblig`0101ti)''),
    (''links.max_file'', js ''Maks. faila lielums (neoblig`0101ti, `2264 {max})''),
    (''links.max_file_placeholder'', js ''piem., 500MB''),
    (''links.max_files'', js ''Maks. failu skaits (neoblig`0101ti)''),
    (''links.max_total'', js ''Maks. kop`0113jais lielums (neoblig`0101ti)''),
    (''links.max_total_placeholder'', js ''piem., 2GB''),
    (''links.submit'', js ''`0122ener`0113t saiti''),
    (''links.empty'', js ''Nav sai`0161u.''),
    (''links.col.recipient'', js ''Sa`0146`0113m`0113js''),
    (''links.col.state'', js ''St`0101voklis''),
    (''links.col.expires'', js ''Der`012Bga l`012Bdz''),
    (''links.col.limits'', js ''Ierobe`017Eojumi''),
    (''links.col.usage'', js ''Izmantojums'')]"

definition lv_8 :: messages where
  "lv_8 = [
    (''links.col.last_used'', js ''P`0113d`0113joreiz izmantota''),
    (''links.state.active'', js ''akt`012Bva''),
    (''links.state.expired'', js ''beigusies''),
    (''links.state.revoked'', js ''atsaukta''),
    (''links.state.case_closed'', js ''lieta sl`0113gta''),
    (''links.limit.file'', js ''fails `2264 {max}''),
    (''links.limit.files'', js ''faili `2264 {n}''),
    (''links.limit.total'', js ''kop`0101 `2264 {max}''),
    (''links.usage'', js ''faili: {n}, {size}''),
    (''links.usage_in_progress'', js ''proces`0101: {n} (rezerv`0113ts {size})''),
    (''links.revoke'', js ''Atsaukt''),
    (''links.revoke_confirm'', js ''Atsaukt saiti `201C{label}`201D? Notieko`0161`0101s aug`0161upiel`0101des tiks p`0101rtrauktas.''),
    (''files.title'', js ''Faili''),
    (''files.empty'', js ''Nav failu.''),
    (''files.col.name'', js ''Nosaukums''),
    (''files.col.recipient'', js ''Sa`0146`0113m`0113js (saite)''),
    (''files.col.size'', js ''Lielums''),
    (''files.col.status'', js ''Statuss''),
    (''files.col.uploaded'', js ''Aug`0161upiel`0101d`0113ts''),
    (''files.declared'', js ''{size} (deklar`0113ts)'')]"

definition lv_9 :: messages where
  "lv_9 = [
    (''files.download'', js ''Lejupiel`0101d`0113t''),
    (''files.delete'', js ''Dz`0113st''),
    (''files.delete_confirm'', js ''Dz`0113st failu `201C{name}`201D? To nevar atsaukt.''),
    (''files.untrusted'', js ''Faili tiek uzskat`012Bti par neuzticamiem: lejupiel`0101des vienm`0113r ir pielikumi, un server`012B nekas netiek att`0113lots vai izpild`012Bts. Pretv`012Brusu p`0101rbaude `0161aj`0101 versij`0101 nav iek`013Cauta.''),
    (''files.status.uploading'', js ''proces`0101''),
    (''files.status.complete'', js ''pabeigts''),
    (''files.status.aborted'', js ''p`0101rtraukts''),
    (''files.status.expired'', js ''beidzies''),
    (''files.status.missing'', js ''tr`016Bkst kr`0101tuv`0113''),
    (''files.status.deleted'', js ''dz`0113sts''),
    (''audit.title'', js ''Audita `017Eurn`0101ls (p`0113d`0113jie {n})''),
    (''audit.col.time'', js ''Laiks''),
    (''audit.col.actor'', js ''Izpild`012Bt`0101js''),
    (''audit.col.action'', js ''Notikums''),
    (''audit.col.case'', js ''Lieta''),
    (''audit.col.link'', js ''Saite''),
    (''audit.col.file'', js ''Fails''),
    (''audit.col.ip'', js ''IP''),
    (''audit.col.details'', js ''S`012Bk`0101ka inform`0101cija''),
    (''upload.title'', js ''Aug`0161upiel`0101de: {case}'')]"

definition lv_10 :: messages where
  "lv_10 = [
    (''upload.link_for'', js ''Saite sa`0146`0113m`0113jam:''),
    (''upload.valid_until'', js ''der`012Bga l`012Bdz {date}''),
    (''upload.limit.file'', js ''Maksim`0101lais faila lielums:''),
    (''upload.limit.files'', js ''Maksim`0101lais failu skaits:''),
    (''upload.limit.total'', js ''Kop`0113jais datu ierobe`017Eojums:''),
    (''upload.used_n'', js ''(izmantoti {n})''),
    (''upload.used_size'', js ''(izmantoti {size})''),
    (''upload.send'', js ''Aug`0161upiel`0101d`0113t failus''),
    (''upload.drop_here'', js ''Velciet failus `0161eit''),
    (''upload.or'', js ''vai''),
    (''upload.choose'', js ''izv`0113lieties no diska''),
    (''upload.resume_hint'', js ''Lieli faili tiek s`016Bt`012Bti pa da`013C`0101m, un aug`0161upiel`0101di var turpin`0101t p`0113c savienojuma p`0101rtraukuma. P`0113c lapas p`0101rl`0101d`0113`0161anas v`0113lreiz izv`0113lieties to pa`0161u failu, un aug`0161upiel`0101de turpin`0101sies no vietas, kur apst`0101j`0101s.''),
    (''upload.your_files'', js ''J`016Bsu faili''),
    (''upload.your_files_intro'', js ''J`016Bs redzat tikai failus, kas aug`0161upiel`0101d`0113ti ar `0161o saiti. `0160eit failus nevar lejupiel`0101d`0113t vai dz`0113st `2013 tos sa`0146em administrators.''),
    (''upload.col.name'', js ''Nosaukums''),
    (''upload.col.size'', js ''Lielums''),
    (''upload.col.date'', js ''Datums''),
    (''upload.col.status'', js ''Statuss''),
    (''upload.none_yet'', js ''V`0113l nav aug`0161upiel`0101d`0113ts neviens fails.''),
    (''upload.list_failed'', js ''Sarakstu neizdev`0101s iel`0101d`0113t: {msg}'')]"

definition lv_11 :: messages where
  "lv_11 = [
    (''upload.terminal'', js ''Aug`0161upiel`0101de no termin`0101`013Ca''),
    (''upload.terminal_hint'', js ''(curl, skripti, ats`0101kamas p`0101rs`016Bt`012B`0161anas)''),
    (''upload.terminal_intro'', js ''Aizst`0101jiet {path} ar ce`013Cu uz savu failu (atstarpes nav probl`0113ma). Izejas kods, kas nav nulle, noz`012Bm`0113 k`013C`016Bdu; atbilde ir JSON form`0101t`0101.''),
    (''upload.snippet.single'', js ''Viens fails''),
    (''upload.snippet.multi'', js ''Vair`0101ki faili''),
    (''upload.snippet.env'', js ''Mar`0137ieris vides main`012Bgaj`0101 (ieteicams)''),
    (''upload.snippet.list'', js ''Aug`0161upiel`0101d`0113to failu saraksts''),
    (''upload.snippet.resumable'', js ''Liels fails ar ats`0101k`0161anu (skripts {script})''),
    (''upload.history_warning'', js ''Uzman`012Bbu: komanda ar mar`0137ieri non`0101k `010Daulas v`0113stur`0113 (piem., {file}). Variants ar export, kura priek`0161`0101 ir atstarpe, netiek saglab`0101ts, ja iestat`012Bts {opt}. Izturieties pret `0161o saiti k`0101 pret paroli un nenododiet to t`0101l`0101k.''),
    (''upload.path_placeholder'', js ''/cels/uz/failu.pdf''),
    (''upload.path_placeholder2'', js ''/cels/atskaite.pdf''),
    (''upload.path_placeholder3'', js ''/cels/foto 1.jpg''),
    (''upload.path_placeholder_big'', js ''/cels/uz/liels fails.iso''),
    (''upload.js.queued'', js ''rind`0101`2026''),
    (''upload.js.too_large'', js ''p`0101r`0101k liels: ierobe`017Eojums {max}''),
    (''upload.js.error'', js ''k`013C`016Bda: {msg}''),
    (''upload.js.starting'', js ''s`0101k`2026''),
    (''upload.js.resuming'', js ''turpina iepriek`0161`0113jo aug`0161upiel`0101di`2026''),
    (''upload.js.retrying'', js ''m`0113`0123ina v`0113lreiz`2026''),
    (''upload.js.done'', js ''pabeigts'')]"

definition lv_12 :: messages where
  "lv_12 = [
    (''upload.js.finalising'', js ''visi dati nos`016Bt`012Bti, serveris pabeidz`2026''),
    (''upload.js.cancelled'', js ''atcelts''),
    (''upload.js.cancelled_local'', js ''atcelts (lok`0101li)''),
    (''upload.js.status.uploading'', js ''proces`0101''),
    (''upload.js.status.complete'', js ''pabeigts''),
    (''nav.users'', js ''Lietot`0101ji''),
    (''cases.empty_assigned'', js ''Jums v`0113l nav pie`0161`0137irta neviena lieta. J`016Bs lietai var pie`0161`0137irt kol`0113`0123is, kas pie t`0101s str`0101d`0101, vai administrators, vai ar`012B j`016Bs varat izveidot jaunu lietu augst`0101k.''),
    (''error.forbidden.title'', js ''Nav at`013Cauts''),
    (''error.forbidden'', js ''`0160`012B lapa ir tikai administratoriem.''),
    (''security.must_change_notice'', js ''J`016Bsu paroli izsniedza administrators. Pirms turpin`0101t, iestatiet zem`0101k savu paroli.''),
    (''members.title'', js ''Pie`0161`0137irtie lietot`0101ji''),
    (''members.intro'', js ''Lietot`0101js redz tikai t`0101s lietas, kur`0101m ir pie`0161`0137irts. Administratori redz visas lietas.''),
    (''members.empty'', js ''`0160ai lietai nav pie`0161`0137irts neviens lietot`0101js `2014 to redz tikai administratori.''),
    (''members.user'', js ''Lietot`0101js''),
    (''members.add'', js ''Pie`0161`0137irt''),
    (''members.added'', js ''Konts {username} tagad ir pie`0161`0137irts `0161ai lietai.''),
    (''members.remove'', js ''No`0146emt''),
    (''members.remove_confirm'', js ''No`0146emt {username}? Konts vairs neredz`0113s `0161o lietu.''),
    (''members.removed'', js ''Kontam {username} vairs nav piek`013Cuves `0161ai lietai.''),
    (''members.none_assignable'', js ''Vairs nav lietot`0101ju kontu, ko pie`0161`0137irt. Izveidojiet jaunu sada`013C`0101 {link}.'')]"

definition lv_13 :: messages where
  "lv_13 = [
    (''users.new'', js ''Jauns konts''),
    (''users.list'', js ''Konti''),
    (''users.username'', js ''Lietot`0101jv`0101rds''),
    (''users.username_placeholder'', js ''piem. anna.berzina@uznemums.lv''),
    (''users.role'', js ''Loma''),
    (''users.role.admin'', js ''Administrators''),
    (''users.role.user'', js ''Lietot`0101js''),
    (''users.roles_hint'', js ''Lietot`0101js redz un apstr`0101d`0101 tikai t`0101s lietas, kur`0101m ir pie`0161`0137irts. Administrators redz visas lietas, p`0101rvalda kontus un lasa audita `017Eurn`0101lu. Tiek izveidota pagaidu parole, kas j`0101nomaina pirmaj`0101 pieteik`0161an`0101s reiz`0113.''),
    (''users.col.username'', js ''Konts''),
    (''users.col.status'', js ''St`0101voklis''),
    (''users.col.totp'', js ''Otrais faktors''),
    (''users.col.cases'', js ''Lietas''),
    (''users.col.last_login'', js ''P`0113d`0113j`0101 pieteik`0161an`0101s''),
    (''users.status.active'', js ''akt`012Bvs''),
    (''users.status.disabled'', js ''atsp`0113jots''),
    (''users.status.must_change'', js ''j`0101maina parole''),
    (''users.you'', js ''j`016Bs''),
    (''users.all_cases'', js ''visas''),
    (''users.issued.title'', js ''Konts {username} izveidots''),
    (''users.issued.reset_title'', js ''Jauna parole kontam {username}'')]"

definition lv_14 :: messages where
  "lv_14 = [
    (''users.issued.copy_now'', js ''Nokop`0113jiet `0161o paroli tagad `2014 t`0101 tiek par`0101d`012Bta tikai vienu reizi.''),
    (''users.issued.intro'', js ''Nododiet to pa citu kan`0101lu nek`0101 lietot`0101jv`0101rdu. Pirmaj`0101 pieteik`0161an`0101s reiz`0113 t`0101 j`0101nomaina.''),
    (''users.make_admin'', js ''Padar`012Bt par administratoru''),
    (''users.make_user'', js ''Padar`012Bt par lietot`0101ju''),
    (''users.role_confirm'', js ''Main`012Bt konta {username} lomu?''),
    (''users.role_changed'', js ''Konta {username} loma tagad ir: {role}.''),
    (''users.reset_password'', js ''Jauna parole''),
    (''users.reset_password_confirm'', js ''Izsniegt jaunu paroli kontam {username}? Pa`0161reiz`0113j`0101 p`0101rst`0101s darboties, un visas konta sesijas beigsies.''),
    (''users.password_reset'', js ''Kontam {username} izsniegta jauna parole, un konts ir izrakst`012Bts.''),
    (''users.reset_totp'', js ''Atiestat`012Bt 2FA''),
    (''users.reset_totp_confirm'', js ''No`0146emt konta {username} otro faktoru? Tas tiks iestat`012Bts no jauna p`0113c n`0101kam`0101s pieteik`0161an`0101s.''),
    (''users.totp_reset'', js ''Kontam {username} no`0146emta divfaktoru autentifik`0101cija.''),
    (''users.disable'', js ''Atsp`0113jot''),
    (''users.disable_confirm'', js ''Atsp`0113jot {username}? Konts tiek izrakst`012Bts un nevar pieteikties, kam`0113r to atkal neiesp`0113jo.''),
    (''users.disabled'', js ''Konts {username} ir atsp`0113jots un izrakst`012Bts.''),
    (''users.enable'', js ''Iesp`0113jot''),
    (''users.enabled'', js ''Konts {username} atkal var pieteikties.''),
    (''users.delete'', js ''Dz`0113st''),
    (''users.delete_confirm'', js ''Dz`0113st kontu {username}? L`012Bdz ar to paz`016Bd t`0101 lietu pie`0161`0137`012Brumi; audita `017Eurn`0101ls saglab`0101, ko tas dar`012Bja.''),
    (''users.deleted'', js ''Konts {username} ir dz`0113sts.'')]"

definition lv_15 :: messages where
  "lv_15 = [
    (''users.missing'', js ''`0160`0101da konta nav.''),
    (''users.not_self'', js ''Savu kontu `0161eit main`012Bt nevar `2014 parole un 2FA ir sada`013C`0101 Dro`0161`012Bba.''),
    (''users.last_admin'', js ''J`0101paliek vismaz vienam akt`012Bvam administratoram.''),
    (''users.exists'', js ''Konts ar nosaukumu {username} jau past`0101v.''),
    (''users.invalid_username'', js ''Lietot`0101jv`0101rd`0101 ir 2`201364 rakstz`012Bmes: burti, cipari un . _ @ -''),
    (''users.invalid_role'', js ''Nezin`0101ma loma.''),
    (''members.not_self'', js ''J`016Bs nevarat no`0146emt pats sevi. Pal`016Bdziet to k`0101dam citam `0161aj`0101 liet`0101 vai administratoram.''),
    (''members.none_assignable_user'', js ''Nav cita lietot`0101ja konta, ko pie`0161`0137irt.''),
    (''second.title'', js ''Pieteik`0161an`0101s otrais solis''),
    (''second.recovery_label'', js ''Atkop`0161anas kods''),
    (''common.or'', js ''vai''),
    (''passkey.use'', js ''Izmantot piek`013Cuves atsl`0113gu''),
    (''passkey.unsupported'', js ''`0160`012B p`0101rl`016Bkprogramma neatbalsta piek`013Cuves atsl`0113gas.''),
    (''passkey.failed'', js ''Piek`013Cuves atsl`0113gu neizdev`0101s verific`0113t. M`0113`0123iniet v`0113lreiz.''),
    (''passkey.cancelled'', js ''Atcelts. M`0113`0123iniet v`0113lreiz, kad b`016Bsiet gatavs.''),
    (''confirm.title'', js ''Apstipriniet savu identit`0101ti''),
    (''confirm.intro'', js ''`0160ai darb`012Bbai nepiecie`0161ams nesens apstiprin`0101jums. P`0113c tam tas paliek der`012Bgs {minutes} min`016Btes, t`0101p`0113c jums netiks pras`012Bts v`0113lreiz katr`0101 sol`012B.''),
    (''confirm.repeat'', js ''P`0113c apstiprin`0101`0161anas atk`0101rtojiet ies`0101kto darb`012Bbu.''),
    (''confirm.code_label'', js ''Kods no lietotnes vai atkop`0161anas kods''),
    (''confirm.password_label'', js ''J`016Bsu parole'')]"

definition lv_16 :: messages where
  "lv_16 = [
    (''confirm.submit'', js ''Apstiprin`0101t''),
    (''confirm.invalid'', js ''Kodi nesakrita. M`0113`0123iniet v`0113lreiz.''),
    (''confirm.locked'', js ''`0160im kontam ievad`012Bts p`0101r`0101k daudz nepareizu kodu. M`0113`0123iniet v`0113lreiz p`0113c 15 min`016Bt`0113m.''),
    (''passkeys.title'', js ''Piek`013Cuves atsl`0113gas''),
    (''passkeys.intro'', js ''Piek`013Cuves atsl`0113ga tiek glab`0101ta j`016Bsu ier`012Bc`0113, paro`013Cu p`0101rvaldniek`0101 vai dro`0161`012Bbas atsl`0113g`0101, un to nevar izkr`0101pt ar fi`0161ingu. T`0101 kalpo k`0101 pieteik`0161an`0101s otrais solis un sensit`012Bvu darb`012Bbu apstiprin`0101`0161anai.''),
    (''passkeys.none'', js ''Piek`013Cuves atsl`0113gu v`0113l nav.''),
    (''passkeys.name'', js ''Nosaukums''),
    (''passkeys.name_placeholder'', js ''piem., kl`0113pjdators, dro`0161`012Bbas atsl`0113ga''),
    (''passkeys.added_at'', js ''Pievienota''),
    (''passkeys.last_used'', js ''P`0113d`0113jo reizi izmantota''),
    (''passkeys.add'', js ''Pievienot piek`013Cuves atsl`0113gu''),
    (''passkeys.remove'', js ''No`0146emt''),
    (''passkeys.remove_confirm'', js ''No`0146emt `0161o piek`013Cuves atsl`0113gu? P`0101r`0113j`0101s `0161`012B konta sesijas tiks izbeigtas.''),
    (''passkeys.added'', js ''Piek`013Cuves atsl`0113ga `201C{name}`201D pievienota.''),
    (''passkeys.removed'', js ''Piek`013Cuves atsl`0113ga `201C{name}`201D no`0146emta. P`0101r`0113j`0101s `0161`012B konta sesijas ir izbeigtas.''),
    (''passkeys.last_required'', js ''`0160`012B instance pieprasa otro faktoru. Pirms p`0113d`0113j`0101 no`0146em`0161anas pievienojiet citu.''),
    (''passkeys.limit'', js ''Kontam var b`016Bt ne vair`0101k k`0101 {n} piek`013Cuves atsl`0113gas.''),
    (''passkeys.duplicate'', js ''`0160`012B piek`013Cuves atsl`0113ga jau ir re`0123istr`0113ta.''),
    (''security.recovery.regenerate_confirmed'', js ''`0122ener`0113t jaunus kodus (vecie vairs nedarbosies)''),
    (''sessions.title'', js ''Akt`012Bv`0101s sesijas'')]"

definition lv_17 :: messages where
  "lv_17 = [
    (''sessions.intro'', js ''Visas vietas, kur`0101s `0161is konts ir pieteicies. Izbeidziet t`0101s, kuras neatpaz`012Bstat, un p`0113c tam nomainiet paroli.''),
    (''sessions.device'', js ''Ier`012Bce''),
    (''sessions.ip'', js ''IP adrese''),
    (''sessions.started'', js ''S`0101kta''),
    (''sessions.last_seen'', js ''P`0113d`0113j`0101 aktivit`0101te''),
    (''sessions.current'', js ''`0161`012B sesija''),
    (''sessions.pending'', js ''tikai parole, otrais solis nav pabeigts''),
    (''sessions.bound'', js ''piesaist`012Bta `0161ai ier`012Bcei''),
    (''sessions.factor'', js ''otrais solis: {factor}''),
    (''sessions.via.totp'', js ''lietotnes kods''),
    (''sessions.via.recovery'', js ''atkop`0161anas kods''),
    (''sessions.via.passkey'', js ''piek`013Cuves atsl`0113ga''),
    (''sessions.unknown_device'', js ''Nezin`0101ma ier`012Bce''),
    (''sessions.revoke'', js ''Iziet''),
    (''sessions.revoke_others'', js ''Izbeigt visas p`0101r`0113j`0101s sesijas''),
    (''sessions.revoked'', js ''Sesija ir izbeigta.''),
    (''sessions.revoked_others'', js ''Visas p`0101r`0113j`0101s sesijas ir izbeigtas.'')]"

definition lv_messages :: messages where
  "lv_messages = lv_1 @ lv_2 @ lv_3 @ lv_4 @ lv_5 @ lv_6 @ lv_7 @ lv_8 @ lv_9 @ lv_10 @ lv_11 @ lv_12 @ lv_13 @ lv_14 @ lv_15 @ lv_16 @ lv_17"

lemmas lv_defs =
  lv_1_def lv_2_def lv_3_def lv_4_def lv_5_def lv_6_def lv_7_def lv_8_def lv_9_def lv_10_def lv_11_def lv_12_def lv_13_def lv_14_def
  lv_15_def lv_16_def lv_17_def

lemma lv_fits: "fits lv_messages message_shape"
  unfolding lv_messages_def message_shape_def
  by (intro fits_append; unfold lv_defs shape_defs; simp only: fits_rules cong: literal_congs)

end
