(* ===== verification/Locale_Mt.thy ===== *)
theory Locale_Mt
  imports Locale_En
begin

text \<open>src/locales/mt.ts: Maltese.\<close>

definition mt_1 :: messages where
  "mt_1 = [
    (''app.tagline'', js ''kaxxa privata g`0127all-kunsinna tal-fajls''),
    (''common.back_to_cases'', js ''`2190 Ka`017Cijiet''),
    (''common.home'', js ''Pa`0121na ewlenija''),
    (''common.copy'', js ''Ikkopja''),
    (''common.copied'', js ''Ikkopjat''),
    (''common.copy_manual'', js ''Ag`0127`017Cel u kkopja manwalment''),
    (''common.save'', js ''Issejvja''),
    (''common.create'', js ''O`0127loq''),
    (''common.cancel'', js ''Ikkan`010Bella''),
    (''common.retry'', js ''Er`0121a\\' pprova''),
    (''common.never'', js ''qatt''),
    (''common.unlimited'', js ''bla skadenza''),
    (''common.none'', js ''`2014''),
    (''common.optional'', js ''mhux obbligatorju''),
    (''common.loading'', js ''Qed jillowdja`2026''),
    (''common.yes'', js ''Iva''),
    (''common.language'', js ''Lingwa''),
    (''nav.cases'', js ''Ka`017Cijiet''),
    (''nav.audit'', js ''Re`0121istru tal-awditjar''),
    (''nav.security'', js ''Sigurt`00E0'')]"

definition mt_2 :: messages where
  "mt_2 = [
    (''nav.logout'', js ''O`0127ro`0121''),
    (''error.not_found.title'', js ''Ma nstabx''),
    (''error.page_missing'', js ''Din il-pa`0121na ma te`017Cistix.''),
    (''error.case_missing'', js ''Dan il-ka`017C ma je`017Cistix.''),
    (''error.link_missing'', js ''Din il-link ma te`017Cistix.''),
    (''error.file_missing'', js ''Il-fajl ma je`017Cistix jew mhuwiex disponibbli.''),
    (''error.file_not_exist'', js ''Il-fajl ma je`017Cistix.''),
    (''error.storage_missing.title'', js ''Il-fajl nieqes mill-`0127a`017Cna''),
    (''error.storage_missing'', js ''Il-metadata te`017Cisti, i`017Cda l-o`0121`0121ett sparixxa mill-`0127a`017Cna. `0126addem it-tindif biex il-fajl ji`0121i mmarkat b`0127ala nieqes.''),
    (''error.server.title'', js ''`017Bball tas-server''),
    (''error.server'', js ''Se`0127`0127 `017Cball mhux mistenni.''),
    (''error.bad_request.title'', js ''Talba `0127a`017Cina''),
    (''error.cross_site'', js ''Talba minn sit ie`0127or `0121iet imblukkata''),
    (''error.csrf'', js ''Token CSRF invalidu''),
    (''error.invalid_expiry'', js ''Data ta\\' skadenza invalida''),
    (''link.invalid.title'', js ''Link invalida''),
    (''link.invalid'', js ''Din il-link tat-tlug`0127 ma te`017Cistix.''),
    (''link.unavailable.title'', js ''Link mhux disponibbli''),
    (''link.expired'', js ''Din il-link skadiet.''),
    (''link.revoked'', js ''Din il-link `0121iet revokata.'')]"

definition mt_3 :: messages where
  "mt_3 = [
    (''link.case_closed'', js ''Il-ka`017C ing`0127alaq u ma g`0127adux ja`010B`010Betta fajls.''),
    (''link.contact'', js ''Ikkuntattja lill-persuna li tatek il-link.''),
    (''login.title'', js ''D`0127ul tal-amministratur''),
    (''login.username'', js ''Isem tal-utent''),
    (''login.password'', js ''Password''),
    (''login.submit'', js ''Id`0127ol''),
    (''login.failed'', js ''Isem tal-utent jew password invalidi.''),
    (''login.too_many_codes'', js ''Wisq kodi`010Bijiet `0127`017Ciena. Er`0121a\\' id`0127ol.''),
    (''login.account_locked'', js ''Wisq kodi`010Bijiet `0127`017Ciena g`0127al dan il-kont. It-tieni fattur huwa msakkar g`0127al 15-il minuta.''),
    (''totp.title'', js ''Kodi`010Bi mill-app tal-awtentikazzjoni tieg`0127ek''),
    (''totp.code_label'', js ''Kodi`010Bi (6 `010Bifri) jew kodi`010Bi ta\\' rkupru''),
    (''totp.confirm'', js ''Ikkonferma''),
    (''totp.cancel_logout'', js ''Ikkan`010Bella u o`0127ro`0121''),
    (''totp.invalid'', js ''Kodi`010Bi invalidu.''),
    (''totp.attempts_left'', js ''Tentattivi li fadal: {n}.''),
    (''totp.locked_until'', js ''Il-kont huwa msakkar temporanjament wara `0127afna kodi`010Bijiet `0127`017Ciena (sa {until} UTC).''),
    (''security.title'', js ''Sigurt`00E0 tal-kont `201C{user}`201D''),
    (''security.required_notice'', js ''Din l-istanza te`0127tie`0121 it-tieni fattur. Il-pannell jibqa\\' mhux disponibbli sakemm i`017C`017Cid app tal-awtentikazzjoni jew passkey hawn ta`0127t.''),
    (''security.status'', js ''Awtentikazzjoni b\\'`017Cew`0121 fatturi (TOTP, RFC 6238): {state}.''),
    (''security.enabled'', js ''attivata'')]"

definition mt_4 :: messages where
  "mt_4 = [
    (''security.disabled'', js ''di`017Cattivata''),
    (''security.recovery_left'', js ''Kodi`010Bijiet ta\\' rkupru mhux u`017Cati: {n}.''),
    (''security.recovery.title'', js ''Kodi`010Bijiet ta\\' rkupru''),
    (''security.recovery.intro'', js ''A`0127`017Cinhom issa f\\'post sigur. Kull wie`0127ed ja`0127dem darba u jie`0127u post il-kodi`010Bi tal-app jekk titlef l-a`010B`010Bess g`0127all-app. Mhux se jintwerew mill-`0121did.''),
    (''security.enable.title'', js ''Attiva t-TOTP''),
    (''security.enable.intro'', js ''G`0127andek b`017Conn app tal-awtentikazzjoni (e`017C. Aegis, Google Authenticator, 1Password, Bitwarden). Ladarba ji`0121i attivat, id-d`0127ul je`0127tie`0121 il-password u kodi`010Bi kurrenti.''),
    (''security.enable.start'', js ''Ibda l-konfigurazzjoni''),
    (''security.step1'', js ''Pass 1: skennja l-kodi`010Bi fl-app tieg`0127ek''),
    (''security.manual_key'', js ''Jew da`0127`0127al i`010B-`010Bavetta manwalment:''),
    (''security.key_params'', js ''Tip: TOTP, SHA-1, 6 `010Bifri, 30 s. Emittent: {issuer}, kont: {user}.''),
    (''security.open_in_app'', js ''Ifta`0127 fl-app tal-awtentikazzjoni''),
    (''security.on_phone'', js ''(fuq telefon)''),
    (''security.step2'', js ''Pass 2: ikkonferma b\\'kodi`010Bi''),
    (''security.code_from_app'', js ''Kodi`010Bi mill-app''),
    (''security.enable.submit'', js ''Attiva t-TOTP''),
    (''security.pending_note'', js ''I`010B-`010Bavetta hija temporanja sakemm ti`0121i kkonfermata; jekk ter`0121a\\' tibda l-konfigurazzjoni tin`0127oloq wa`0127da `0121dida.''),
    (''security.current_code'', js ''Kodi`010Bi kurrenti mill-app''),
    (''security.regenerate'', js ''O`0127loq kodi`010Bijiet `0121odda (il-qodma jieqfu ja`0127dmu)''),
    (''security.disable.title'', js ''Iddi`017Cattiva t-TOTP''),
    (''security.disable.intro'', js ''Je`0127tie`0121 kodi`010Bi kurrenti mill-app jew kodi`010Bi ta\\' rkupru: is-sessjoni wa`0127edha (e`017C. cookie misruq) mhijiex bi`017C`017Cejjed. Jekk kemm l-app kif ukoll il-kodi`010Bijiet ta\\' rkupru jintilfu, operatur jista\\' j`0127addem {cmd} fuq is-server.'')]"

definition mt_5 :: messages where
  "mt_5 = [
    (''security.disable.code'', js ''Kodi`010Bi''),
    (''security.disable.submit'', js ''Iddi`017Cattiva''),
    (''security.disable.confirm'', js ''Tiddi`017Cattiva l-awtentikazzjoni b\\'`017Cew`0121 fatturi?''),
    (''security.msg.enabled'', js ''L-awtentikazzjoni b\\'`017Cew`0121 fatturi hija attivata.''),
    (''security.msg.code_mismatch'', js ''Il-kodi`010Bi ma jaqbilx. I`010B`010Bekkja l-`0127in fuq it-telefon tieg`0127ek u er`0121a\\' pprova.''),
    (''security.msg.invalid_code'', js ''Kodi`010Bi invalidu.''),
    (''security.msg.regenerated'', js ''In`0127olqu kodi`010Bijiet ta\\' rkupru `0121odda.''),
    (''security.msg.required'', js ''Din l-istanza te`0127tie`0121 it-TOTP (ADMIN_REQUIRE_TOTP); ma jistax ji`0121i di`017Cattivat.''),
    (''security.msg.disabled'', js ''L-awtentikazzjoni b\\'`017Cew`0121 fatturi `0121iet di`017Cattivata.''),
    (''security.password.title'', js ''Ibdel il-password''),
    (''security.password.current'', js ''Password kurrenti''),
    (''security.password.new'', js ''Password `0121dida (mill-inqas 12-il karattru)''),
    (''security.password.confirm'', js ''Ikkonferma l-password il-`0121dida''),
    (''security.password.submit'', js ''Ibdel il-password''),
    (''security.password.mismatch'', js ''Il-password il-`0121dida u l-konferma tag`0127ha ma jaqblux.''),
    (''security.password.invalid_current'', js ''Il-password kurrenti mhijiex korretta.''),
    (''security.password.changed'', js ''Il-password inbidlet. Is-sessjonijiet l-o`0127ra ta\\' dan il-kont `0121ew mag`0127luqa.''),
    (''home.title'', js ''inletbox''),
    (''home.message'', js ''Din hija kaxxa privata g`0127all-kunsinna tal-fajls. Biex ttella\\' fajls, u`017Ca l-link li ng`0127atajt mill-persuna li talbithom.''),
    (''cases.new'', js ''Ka`017C `0121did'')]"

definition mt_6 :: messages where
  "mt_6 = [
    (''cases.name'', js ''Isem''),
    (''cases.name_placeholder'', js ''e`017C. Awditjar 2026/09 `2013 Klijent X''),
    (''cases.description_optional'', js ''Deskrizzjoni (mhux obbligatorja)''),
    (''cases.description'', js ''Deskrizzjoni''),
    (''cases.list'', js ''Ka`017Cijiet''),
    (''cases.empty'', js ''L-ebda ka`017C.''),
    (''cases.col.name'', js ''Isem''),
    (''cases.col.status'', js ''Status''),
    (''cases.col.links'', js ''Links attivi''),
    (''cases.col.files'', js ''Fajls''),
    (''cases.col.size'', js ''Daqs''),
    (''cases.col.created'', js ''Ma`0127luq''),
    (''case.open'', js ''miftu`0127''),
    (''case.closed'', js ''mag`0127luq''),
    (''case.close'', js ''Ag`0127laq il-ka`017C''),
    (''case.reopen'', js ''Er`0121a\\' ifta`0127''),
    (''case.meta'', js ''ID: {id} `00B7 ma`0127luq {date}. Ka`017C mag`0127luq ma ja`010B`010Betta l-ebda tlug`0127 minn ebda wa`0127da mil-links tieg`0127u.''),
    (''case.saved'', js ''Issejvjat.''),
    (''case.closed_no_links'', js ''Il-ka`017C huwa mag`0127luq `2013 er`0121a\\' ift`0127u biex to`0127loq links.''),
    (''case.new_link.title'', js ''Link `0121dida g`0127al `201C{label}`201D'')]"

definition mt_7 :: messages where
  "mt_7 = [
    (''case.new_link.intro'', js ''Ikkopjaha issa. It-token jin`0127a`017Cen biss b`0127ala hash u ma jistax ji`0121i rkuprat aktar tard `2013 tista\\' to`0127loq biss link `0121dida.''),
    (''case.new_link.copy_now'', js ''Ikkopjaha issa.''),
    (''links.title'', js ''Links tat-tlug`0127''),
    (''links.intro'', js ''Kull link hija ri`010Bevitur separat u ambitu ta\\' vi`017Cibilit`00E0 separat: min g`0127andu l-link jara biss il-fajls mibg`0127uta permezz ta\\' dik il-link u ma jistax ini`017C`017Cilhom jew i`0127assarhom. Kull min jaf l-istess link g`0127andu l-istess a`010B`010Bess e`017Catt `2013 l-applikazzjoni ma tiddistingwix bejn nies li ju`017Caw l-istess link.''),
    (''links.generate'', js ''O`0127loq link `0121dida''),
    (''links.label'', js ''Tikketta tar-ri`010Bevitur''),
    (''links.label_placeholder'', js ''e`017C. Maria Borg `2013 kontabilit`00E0''),
    (''links.expires'', js ''Valida sa (UTC, mhux obbligatorju)''),
    (''links.max_file'', js ''Daqs massimu tal-fajl (mhux obbligatorju, `2264 {max})''),
    (''links.max_file_placeholder'', js ''e`017C. 500MB''),
    (''links.max_files'', js ''Numru massimu ta\\' fajls (mhux obbligatorju)''),
    (''links.max_total'', js ''Daqs totali massimu (mhux obbligatorju)''),
    (''links.max_total_placeholder'', js ''e`017C. 2GB''),
    (''links.submit'', js ''O`0127loq il-link''),
    (''links.empty'', js ''L-ebda link.''),
    (''links.col.recipient'', js ''Ri`010Bevitur''),
    (''links.col.state'', js ''Stat''),
    (''links.col.expires'', js ''Valida sa''),
    (''links.col.limits'', js ''Limiti''),
    (''links.col.usage'', js ''U`017Cu'')]"

definition mt_8 :: messages where
  "mt_8 = [
    (''links.col.last_used'', js ''L-a`0127`0127ar u`017Cu''),
    (''links.state.active'', js ''attiva''),
    (''links.state.expired'', js ''skadiet''),
    (''links.state.revoked'', js ''revokata''),
    (''links.state.case_closed'', js ''ka`017C mag`0127luq''),
    (''links.limit.file'', js ''fajl `2264 {max}''),
    (''links.limit.files'', js ''fajls `2264 {n}''),
    (''links.limit.total'', js ''total `2264 {max}''),
    (''links.usage'', js ''fajls: {n}, {size}''),
    (''links.usage_in_progress'', js ''g`0127addejjin: {n} ({size} ri`017Cervati)''),
    (''links.revoke'', js ''Irrevoka''),
    (''links.revoke_confirm'', js ''Tirrevoka l-link `201C{label}`201D? It-tlug`0127 li g`0127addej ji`0121i mwaqqaf.''),
    (''files.title'', js ''Fajls''),
    (''files.empty'', js ''L-ebda fajl.''),
    (''files.col.name'', js ''Isem''),
    (''files.col.recipient'', js ''Ri`010Bevitur (link)''),
    (''files.col.size'', js ''Daqs''),
    (''files.col.status'', js ''Status''),
    (''files.col.uploaded'', js ''Mtella`0027''),
    (''files.declared'', js ''{size} (iddikjarat)'')]"

definition mt_9 :: messages where
  "mt_9 = [
    (''files.download'', js ''Ni`017C`017Cel''),
    (''files.delete'', js ''`0126assar''),
    (''files.delete_confirm'', js ''T`0127assar il-fajl `201C{name}`201D? Dan ma jistax jitre`0121`0121a\\' lura.''),
    (''files.untrusted'', js ''Il-fajls ji`0121u ttrattati b`0127ala mhux affidabbli: it-tni`017C`017Cil huwa dejjem b`0127ala anness, u xejn ma jintwera jew jit`0127addem fuq is-server. L-iskannjar g`0127all-virus mhuwiex parti minn din il-ver`017Cjoni.''),
    (''files.status.uploading'', js ''g`0127addej''),
    (''files.status.complete'', js ''komplut''),
    (''files.status.aborted'', js ''imwaqqaf''),
    (''files.status.expired'', js ''skada''),
    (''files.status.missing'', js ''nieqes mill-`0127a`017Cna''),
    (''files.status.deleted'', js ''im`0127assar''),
    (''audit.title'', js ''Re`0121istru tal-awditjar (l-a`0127`0127ar {n})''),
    (''audit.col.time'', js ''`0126in''),
    (''audit.col.actor'', js ''Attur''),
    (''audit.col.action'', js ''Avveniment''),
    (''audit.col.case'', js ''Ka`017C''),
    (''audit.col.link'', js ''Link''),
    (''audit.col.file'', js ''Fajl''),
    (''audit.col.ip'', js ''IP''),
    (''audit.col.details'', js ''Dettalji''),
    (''upload.title'', js ''Tlug`0127: {case}'')]"

definition mt_10 :: messages where
  "mt_10 = [
    (''upload.link_for'', js ''Link g`0127al:''),
    (''upload.valid_until'', js ''valida sa {date}''),
    (''upload.limit.file'', js ''Daqs massimu tal-fajl:''),
    (''upload.limit.files'', js ''Numru massimu ta\\' fajls:''),
    (''upload.limit.total'', js ''Limitu totali tad-data:''),
    (''upload.used_n'', js ''({n} u`017Cati)''),
    (''upload.used_size'', js ''({size} u`017Cati)''),
    (''upload.send'', js ''Tella\\' fajls''),
    (''upload.drop_here'', js ''Kaxkar il-fajls hawn''),
    (''upload.or'', js ''jew''),
    (''upload.choose'', js ''ag`0127`017Cel mid-diska''),
    (''upload.resume_hint'', js ''Il-fajls kbar jintbag`0127tu f\\'partijiet u t-tlug`0127 jista\\' jkompli wara li tinqata\\' l-konnessjoni. Wara li ter`0121a\\' tillowdja l-pa`0121na, ag`0127`017Cel l-istess fajl mill-`0121did u t-tlug`0127 ikompli minn fejn waqaf.''),
    (''upload.your_files'', js ''Il-fajls tieg`0127ek''),
    (''upload.your_files_intro'', js ''Tara biss il-fajls imtella\\' permezz ta\\' din il-link. Il-fajls ma jistg`0127ux jitni`017C`017Clu jew jit`0127assru hawnhekk `2013 ji`0121borhom l-amministratur.''),
    (''upload.col.name'', js ''Isem''),
    (''upload.col.size'', js ''Daqs''),
    (''upload.col.date'', js ''Data''),
    (''upload.col.status'', js ''Status''),
    (''upload.none_yet'', js ''G`0127adu ma tella\\' l-ebda fajl.''),
    (''upload.list_failed'', js ''Il-lista ma setg`0127etx tillowdja: {msg}'')]"

definition mt_11 :: messages where
  "mt_11 = [
    (''upload.terminal'', js ''Tlug`0127 mit-terminal''),
    (''upload.terminal_hint'', js ''(curl, skripts, trasferimenti li jistg`0127u jkomplu)''),
    (''upload.terminal_intro'', js ''Ibdel {path} bil-mog`0127dija g`0127all-fajl tieg`0127ek (l-ispazji mhumiex problema). Kodi`010Bi tal-`0127ru`0121 li mhux `017Cero jfisser `017Cball; it-twe`0121iba hija JSON.''),
    (''upload.snippet.single'', js ''Fajl wie`0127ed''),
    (''upload.snippet.multi'', js ''Diversi fajls''),
    (''upload.snippet.env'', js ''Token f\\'varjabbli tal-ambjent (rakkomandat)''),
    (''upload.snippet.list'', js ''Elenka l-fajls imtella`0027''),
    (''upload.snippet.resumable'', js ''Fajl kbir b\\'kontinwazzjoni (skript {script})''),
    (''upload.history_warning'', js ''Nota: kmand li fih it-token jispi`010B`010Ba fl-istorja tax-shell tieg`0127ek (e`017C. {file}). Il-varjant bl-export li jibda bi spazju ma ji`0121ix irre`0121istrat meta {opt} ikun issettjat. Ittratta din il-link b`0127al password u tg`0127addihiex lil `0127addie`0127or.''),
    (''upload.path_placeholder'', js ''/mog`0127dija/g`0127al/fajl.pdf''),
    (''upload.path_placeholder2'', js ''/mog`0127dija/rapport.pdf''),
    (''upload.path_placeholder3'', js ''/mog`0127dija/ritratt 1.jpg''),
    (''upload.path_placeholder_big'', js ''/mog`0127dija/g`0127al/fajl kbir.iso''),
    (''upload.js.queued'', js ''fil-kju`2026''),
    (''upload.js.too_large'', js ''kbir wisq: limitu {max}''),
    (''upload.js.error'', js ''`017Cball: {msg}''),
    (''upload.js.starting'', js ''qed jibda`2026''),
    (''upload.js.resuming'', js ''qed ikompli t-tlug`0127 ta\\' qabel`2026''),
    (''upload.js.retrying'', js ''qed jer`0121a\\' jipprova`2026''),
    (''upload.js.done'', js ''komplut'')]"

definition mt_12 :: messages where
  "mt_12 = [
    (''upload.js.finalising'', js ''id-data kollha ntbag`0127tet, is-server qed jispi`010B`010Ba`2026''),
    (''upload.js.cancelled'', js ''ikkan`010Bellat''),
    (''upload.js.cancelled_local'', js ''ikkan`010Bellat (lokalment)''),
    (''upload.js.status.uploading'', js ''g`0127addej''),
    (''upload.js.status.complete'', js ''komplut''),
    (''nav.users'', js ''Utenti''),
    (''cases.empty_assigned'', js ''G`0127adek ma `0121ejt assenjat l-ebda ka`017C. Kollega li qed ja`0127dem fuq ka`017C, jew amministratur, jista`2019 jassenjak g`0127alih, jew tista`2019 to`0127loq wie`0127ed `0121did hawn fuq.''),
    (''error.forbidden.title'', js ''Mhux permess''),
    (''error.forbidden'', js ''Din il-pa`0121na hija g`0127all-amministraturi biss.''),
    (''security.must_change_notice'', js ''Il-password tieg`0127ek `0127ar`0121itha amministratur. Issettja l-password tieg`0127ek hawn ta`0127t qabel tkompli.''),
    (''members.title'', js ''Utenti assenjati''),
    (''members.intro'', js ''Utent jara biss il-ka`017Cijiet li huwa assenjat g`0127alihom. L-amministraturi jaraw il-ka`017Cijiet kollha.''),
    (''members.empty'', js ''L-ebda utent mhu assenjat g`0127al dan il-ka`017C `2014 jarawh l-amministraturi biss.''),
    (''members.user'', js ''Utent''),
    (''members.add'', js ''Assenja''),
    (''members.added'', js ''Il-kont {username} issa huwa assenjat g`0127al dan il-ka`017C.''),
    (''members.remove'', js ''Ne`0127`0127i''),
    (''members.remove_confirm'', js ''Tne`0127`0127i lil {username}? Il-kont ma jibqax jara dan il-ka`017C.''),
    (''members.removed'', js ''Il-kont {username} m`2019g`0127adx g`0127andu a`010B`010Bess g`0127al dan il-ka`017C.''),
    (''members.none_assignable'', js ''M`2019hemmx aktar kontijiet tal-utenti x`2019tassenja. O`0127loq wie`0127ed ta`0127t {link}.'')]"

definition mt_13 :: messages where
  "mt_13 = [
    (''users.new'', js ''Kont `0121did''),
    (''users.list'', js ''Kontijiet''),
    (''users.username'', js ''Isem tal-utent''),
    (''users.username_placeholder'', js ''e`017C. anna.borg@kumpanija.mt''),
    (''users.role'', js ''Rwol''),
    (''users.role.admin'', js ''Amministratur''),
    (''users.role.user'', js ''Utent''),
    (''users.roles_hint'', js ''Utent jara u ja`0127dem biss fuq il-ka`017Cijiet li huwa assenjat g`0127alihom. Amministratur jara l-ka`017Cijiet kollha, jimmani`0121`0121ja l-kontijiet u jaqra r-re`0121istru tal-awditjar. Tin`0127oloq password temporanja, li trid tinbidel mal-ewwel d`0127ul.''),
    (''users.col.username'', js ''Kont''),
    (''users.col.status'', js ''Stat''),
    (''users.col.totp'', js ''It-tieni fattur''),
    (''users.col.cases'', js ''Ka`017Cijiet''),
    (''users.col.last_login'', js ''L-a`0127`0127ar d`0127ul''),
    (''users.status.active'', js ''attiv''),
    (''users.status.disabled'', js ''di`017Cattivat''),
    (''users.status.must_change'', js ''irid ibiddel il-password''),
    (''users.you'', js ''int''),
    (''users.all_cases'', js ''kollha''),
    (''users.issued.title'', js ''Il-kont {username} in`0127oloq''),
    (''users.issued.reset_title'', js ''Password `0121dida g`0127al {username}'')]"

definition mt_14 :: messages where
  "mt_14 = [
    (''users.issued.copy_now'', js ''Ikkopja din il-password issa `2014 tintwera darba biss.''),
    (''users.issued.intro'', js ''G`0127addiha minn mezz ie`0127or minbarra dak tal-isem tal-utent. Trid tinbidel mal-ewwel d`0127ul.''),
    (''users.make_admin'', js ''Ag`0127mel amministratur''),
    (''users.make_user'', js ''Ag`0127mel utent''),
    (''users.role_confirm'', js ''Tbiddel ir-rwol tal-kont {username}?''),
    (''users.role_changed'', js ''Il-kont {username} issa g`0127andu r-rwol: {role}.''),
    (''users.reset_password'', js ''Password `0121dida''),
    (''users.reset_password_confirm'', js ''To`0127ro`0121 password `0121dida g`0127al {username}? Dik attwali tieqaf ta`0127dem u s-sessjonijiet kollha tal-kont jintemmu.''),
    (''users.password_reset'', js ''In`0127ar`0121et password `0121dida g`0127al {username} u l-kont `0121ie skonnettjat.''),
    (''users.reset_totp'', js ''Irrisettja 2FA''),
    (''users.reset_totp_confirm'', js ''Tne`0127`0127i t-tieni fattur ta`2019 {username}? Jer`0121a`2019 ji`0121i kkonfigurat wara d-d`0127ul li jmiss.''),
    (''users.totp_reset'', js ''L-awtentikazzjoni b`2019`017Cew`0121 fatturi tne`0127`0127iet mill-kont {username}.''),
    (''users.disable'', js ''Iddi`017Cattiva''),
    (''users.disable_confirm'', js ''Tiddi`017Cattiva lil {username}? Il-kont ji`0121i skonnettjat u ma jistax jid`0127ol sakemm ma jer`0121ax ji`0121i attivat.''),
    (''users.disabled'', js ''Il-kont {username} `0121ie di`017Cattivat u skonnettjat.''),
    (''users.enable'', js ''Attiva''),
    (''users.enabled'', js ''Il-kont {username} jista`2019 jer`0121a`2019 jid`0127ol.''),
    (''users.delete'', js ''`0126assar''),
    (''users.delete_confirm'', js ''T`0127assar il-kont {username}? L-assenjazzjonijiet tieg`0127u g`0127all-ka`017Cijiet imorru mieg`0127u; ir-re`0121istru tal-awditjar i`017Comm dak li g`0127amel.''),
    (''users.deleted'', js ''Il-kont {username} t`0127assar.'')]"

definition mt_15 :: messages where
  "mt_15 = [
    (''users.missing'', js ''Dan il-kont ma je`017Cistix.''),
    (''users.not_self'', js ''Hawn ma tistax tibdel il-kont tieg`0127ek `2014 il-password u l-2FA jinsabu ta`0127t Sigurt`00E0.''),
    (''users.last_admin'', js ''Irid jibqa`2019 mill-inqas amministratur attiv wie`0127ed.''),
    (''users.exists'', js ''Di`0121`00E0 je`017Cisti kont bl-isem {username}.''),
    (''users.invalid_username'', js ''Isem tal-utent g`0127andu 2`201364 karattru: ittri, numri u . _ @ -''),
    (''users.invalid_role'', js ''Rwol mhux mag`0127ruf.''),
    (''members.not_self'', js ''Ma tistax tne`0127`0127i lilek innifsek. Itlob lil xi `0127add ie`0127or fuq dan il-ka`017C jew lil amministratur.''),
    (''members.none_assignable_user'', js ''M`2019hemmx kont ie`0127or tal-utent x`2019tassenja.''),
    (''second.title'', js ''It-tieni pass tad-d`0127ul''),
    (''second.recovery_label'', js ''Kodi`010Bi ta\\' rkupru''),
    (''common.or'', js ''jew''),
    (''passkey.use'', js ''U`017Ca passkey''),
    (''passkey.unsupported'', js ''Dan il-braw`017Cer ma jappo`0121`0121jax passkeys.''),
    (''passkey.failed'', js ''Il-passkey ma setg`0127etx ti`0121i vverifikata. Er`0121a\\' pprova.''),
    (''passkey.cancelled'', js ''Ikkan`010Bellat. Er`0121a\\' pprova meta tkun lest.''),
    (''confirm.title'', js ''Ikkonferma li int int''),
    (''confirm.intro'', js ''Din l-azzjoni te`0127tie`0121 konferma re`010Benti. Imbag`0127ad tibqa\\' valida g`0127al {minutes} minuti, sabiex ma ter`0121ax tintalab f\\'kull pass.''),
    (''confirm.repeat'', js ''Wara li tikkonferma, irrepeti dak li kont qed tag`0127mel.''),
    (''confirm.code_label'', js ''Kodi`010Bi mill-app jew kodi`010Bi ta\\' rkupru''),
    (''confirm.password_label'', js ''Il-password tieg`0127ek'')]"

definition mt_16 :: messages where
  "mt_16 = [
    (''confirm.submit'', js ''Ikkonferma''),
    (''confirm.invalid'', js ''Dak ma qabilx. Er`0121a\\' pprova.''),
    (''confirm.locked'', js ''Wisq kodi`010Bijiet `0127`017Ciena g`0127al dan il-kont. Er`0121a\\' pprova fi `017Cmien 15-il minuta.''),
    (''passkeys.title'', js ''Passkeys''),
    (''passkeys.intro'', js ''Passkey tin`017Camm mit-tag`0127mir tieg`0127ek, mill-mani`0121er tal-passwords tieg`0127ek jew minn security key, u ma tistax tinsteraq b\\'phishing. Ta`0127dem b`0127ala t-tieni pass tad-d`0127ul u biex tikkonferma azzjonijiet sensittivi.''),
    (''passkeys.none'', js ''G`0127ad m\\'hemmx passkeys.''),
    (''passkeys.name'', js ''Isem''),
    (''passkeys.name_placeholder'', js ''e`017C. laptop, security key''),
    (''passkeys.added_at'', js ''Mi`017Cjuda''),
    (''passkeys.last_used'', js ''L-a`0127`0127ar u`017Cata''),
    (''passkeys.add'', js ''`017Bid passkey''),
    (''passkeys.remove'', js ''Ne`0127`0127i''),
    (''passkeys.remove_confirm'', js ''Tne`0127`0127i din il-passkey? Is-sessjonijiet l-o`0127ra ta\\' dan il-kont se jing`0127alqu.''),
    (''passkeys.added'', js ''Passkey `201C{name}`201D mi`017Cjuda.''),
    (''passkeys.removed'', js ''Passkey `201C{name}`201D imne`0127`0127ija. Is-sessjonijiet l-o`0127ra ta\\' dan il-kont `0121ew mag`0127luqa.''),
    (''passkeys.last_required'', js ''Din l-istanza te`0127tie`0121 it-tieni fattur. `017Bid ie`0127or qabel ma tne`0127`0127i l-a`0127`0127ar wie`0127ed.''),
    (''passkeys.limit'', js ''Kont jista\\' jkollu l-iktar {n} passkeys.''),
    (''passkeys.duplicate'', js ''Din il-passkey hija di`0121`00E0 rre`0121istrata.''),
    (''security.recovery.regenerate_confirmed'', js ''O`0127loq kodi`010Bijiet `0121odda (il-qodma jieqfu ja`0127dmu)''),
    (''sessions.title'', js ''Sessjonijiet attivi'')]"

definition mt_17 :: messages where
  "mt_17 = [
    (''sessions.intro'', js ''Kull post fejn dan il-kont huwa illoggjat. O`0127ro`0121 minn kwalunkwe wa`0127da li ma tag`0127rafx, imbag`0127ad ibdel il-password tieg`0127ek.''),
    (''sessions.device'', js ''Tag`0127mir''),
    (''sessions.ip'', js ''Indirizz IP''),
    (''sessions.started'', js ''Mibdija''),
    (''sessions.last_seen'', js ''L-a`0127`0127ar attivit`00E0''),
    (''sessions.current'', js ''din is-sessjoni''),
    (''sessions.pending'', js ''password biss, it-tieni pass mhux lest''),
    (''sessions.bound'', js ''marbuta ma\\' dan it-tag`0127mir''),
    (''sessions.factor'', js ''it-tieni pass: {factor}''),
    (''sessions.via.totp'', js ''kodi`010Bi tal-app''),
    (''sessions.via.recovery'', js ''kodi`010Bi ta\\' rkupru''),
    (''sessions.via.passkey'', js ''passkey''),
    (''sessions.unknown_device'', js ''Tag`0127mir mhux mag`0127ruf''),
    (''sessions.revoke'', js ''O`0127ro`0121''),
    (''sessions.revoke_others'', js ''O`0127ro`0121 mis-sessjonijiet l-o`0127ra kollha''),
    (''sessions.revoked'', js ''Is-sessjoni `0121iet mag`0127luqa.''),
    (''sessions.revoked_others'', js ''Is-sessjonijiet l-o`0127ra kollha `0121ew mag`0127luqa.'')]"

definition mt_messages :: messages where
  "mt_messages = mt_1 @ mt_2 @ mt_3 @ mt_4 @ mt_5 @ mt_6 @ mt_7 @ mt_8 @ mt_9 @ mt_10 @ mt_11 @ mt_12 @ mt_13 @ mt_14 @ mt_15 @ mt_16 @ mt_17"

lemmas mt_defs =
  mt_1_def mt_2_def mt_3_def mt_4_def mt_5_def mt_6_def mt_7_def mt_8_def mt_9_def mt_10_def mt_11_def mt_12_def mt_13_def mt_14_def
  mt_15_def mt_16_def mt_17_def

lemma mt_fits: "fits mt_messages message_shape"
  unfolding mt_messages_def message_shape_def
  by (intro fits_append; unfold mt_defs shape_defs; simp only: fits_rules cong: literal_congs)

end
