(* ===== verification/Locale_Nl.thy ===== *)
theory Locale_Nl
  imports Locale_En
begin

text \<open>src/locales/nl.ts: Dutch.\<close>

definition nl_1 :: messages where
  "nl_1 = [
    (''app.tagline'', js ''priv`00E9-inleverbox voor bestanden''),
    (''common.back_to_cases'', js ''`2190 Dossiers''),
    (''common.home'', js ''Start''),
    (''common.copy'', js ''Kopi`00EBren''),
    (''common.copied'', js ''Gekopieerd''),
    (''common.copy_manual'', js ''Selecteer en kopieer handmatig''),
    (''common.save'', js ''Opslaan''),
    (''common.create'', js ''Aanmaken''),
    (''common.cancel'', js ''Annuleren''),
    (''common.retry'', js ''Opnieuw proberen''),
    (''common.never'', js ''nooit''),
    (''common.unlimited'', js ''geen vervaldatum''),
    (''common.none'', js ''`2014''),
    (''common.optional'', js ''optioneel''),
    (''common.loading'', js ''Laden`2026''),
    (''common.yes'', js ''Ja''),
    (''common.language'', js ''Taal''),
    (''nav.cases'', js ''Dossiers''),
    (''nav.audit'', js ''Auditlog''),
    (''nav.security'', js ''Beveiliging'')]"

definition nl_2 :: messages where
  "nl_2 = [
    (''nav.logout'', js ''Afmelden''),
    (''error.not_found.title'', js ''Niet gevonden''),
    (''error.page_missing'', js ''Deze pagina bestaat niet.''),
    (''error.case_missing'', js ''Dit dossier bestaat niet.''),
    (''error.link_missing'', js ''Deze link bestaat niet.''),
    (''error.file_missing'', js ''Het bestand bestaat niet of is niet beschikbaar.''),
    (''error.file_not_exist'', js ''Het bestand bestaat niet.''),
    (''error.storage_missing.title'', js ''Bestand ontbreekt in de opslag''),
    (''error.storage_missing'', js ''De metadata bestaan, maar het object is uit de opslag verdwenen. Voer de opschoning uit om het bestand als ontbrekend te markeren.''),
    (''error.server.title'', js ''Serverfout''),
    (''error.server'', js ''Er is een onverwachte fout opgetreden.''),
    (''error.bad_request.title'', js ''Ongeldig verzoek''),
    (''error.cross_site'', js ''Cross-site-verzoek geblokkeerd''),
    (''error.csrf'', js ''Ongeldig CSRF-token''),
    (''error.invalid_expiry'', js ''Ongeldige vervaldatum''),
    (''link.invalid.title'', js ''Ongeldige link''),
    (''link.invalid'', js ''Deze uploadlink bestaat niet.''),
    (''link.unavailable.title'', js ''Link niet beschikbaar''),
    (''link.expired'', js ''Deze link is verlopen.''),
    (''link.revoked'', js ''Deze link is ingetrokken.'')]"

definition nl_3 :: messages where
  "nl_3 = [
    (''link.case_closed'', js ''Het dossier is gesloten en accepteert geen bestanden meer.''),
    (''link.contact'', js ''Neem contact op met de persoon die u de link heeft gegeven.''),
    (''login.title'', js ''Aanmelden als beheerder''),
    (''login.username'', js ''Gebruikersnaam''),
    (''login.password'', js ''Wachtwoord''),
    (''login.submit'', js ''Aanmelden''),
    (''login.failed'', js ''Ongeldige gebruikersnaam of wachtwoord.''),
    (''login.too_many_codes'', js ''Te veel onjuiste codes. Meld u opnieuw aan.''),
    (''login.account_locked'', js ''Te veel onjuiste codes voor dit account. De tweede factor is 15 minuten geblokkeerd.''),
    (''totp.title'', js ''Code uit uw authenticator-app''),
    (''totp.code_label'', js ''Code (6 cijfers) of herstelcode''),
    (''totp.confirm'', js ''Bevestigen''),
    (''totp.cancel_logout'', js ''Annuleren en afmelden''),
    (''totp.invalid'', js ''Ongeldige code.''),
    (''totp.attempts_left'', js ''Resterende pogingen: {n}.''),
    (''totp.locked_until'', js ''Het account is tijdelijk geblokkeerd na veel onjuiste codes (tot {until} UTC).''),
    (''security.title'', js ''Beveiliging van account `2018{user}`2019''),
    (''security.required_notice'', js ''Deze instantie vereist een tweede factor. Het paneel blijft ontoegankelijk totdat u hieronder een authenticator-app of een passkey toevoegt.''),
    (''security.status'', js ''Tweestapsverificatie (TOTP, RFC 6238): {state}.''),
    (''security.enabled'', js ''ingeschakeld'')]"

definition nl_4 :: messages where
  "nl_4 = [
    (''security.disabled'', js ''uitgeschakeld''),
    (''security.recovery_left'', js ''Ongebruikte herstelcodes: {n}.''),
    (''security.recovery.title'', js ''Herstelcodes''),
    (''security.recovery.intro'', js ''Bewaar ze nu op een veilige plek. Elke code werkt `00E9`00E9n keer en vervangt de app-code als u geen toegang meer hebt tot de app. Ze worden niet opnieuw getoond.''),
    (''security.enable.title'', js ''TOTP inschakelen''),
    (''security.enable.intro'', js ''U hebt een authenticator-app nodig (bijv. Aegis, Google Authenticator, 1Password, Bitwarden). Na het inschakelen vereist aanmelden het wachtwoord en een actuele code.''),
    (''security.enable.start'', js ''Instellen starten''),
    (''security.step1'', js ''Stap 1: scan de code met uw app''),
    (''security.manual_key'', js ''Of voer de sleutel handmatig in:''),
    (''security.key_params'', js ''Type: TOTP, SHA-1, 6 cijfers, 30 s. Uitgever: {issuer}, account: {user}.''),
    (''security.open_in_app'', js ''Openen in authenticator-app''),
    (''security.on_phone'', js ''(op een telefoon)''),
    (''security.step2'', js ''Stap 2: bevestig met een code''),
    (''security.code_from_app'', js ''Code uit de app''),
    (''security.enable.submit'', js ''TOTP inschakelen''),
    (''security.pending_note'', js ''De sleutel is voorlopig tot hij bevestigd is; opnieuw beginnen met instellen genereert een nieuwe.''),
    (''security.current_code'', js ''Actuele code uit de app''),
    (''security.regenerate'', js ''Nieuwe codes genereren (de oude werken niet meer)''),
    (''security.disable.title'', js ''TOTP uitschakelen''),
    (''security.disable.intro'', js ''Vereist een actuele code uit de app of een herstelcode: de sessie alleen (bijv. een gestolen cookie) is niet genoeg. Als zowel de app als de herstelcodes kwijt zijn, kan een beheerder van de server {cmd} uitvoeren.'')]"

definition nl_5 :: messages where
  "nl_5 = [
    (''security.disable.code'', js ''Code''),
    (''security.disable.submit'', js ''Uitschakelen''),
    (''security.disable.confirm'', js ''Tweestapsverificatie uitschakelen?''),
    (''security.msg.enabled'', js ''Tweestapsverificatie is ingeschakeld.''),
    (''security.msg.code_mismatch'', js ''De code klopt niet. Controleer de tijd op uw telefoon en probeer het opnieuw.''),
    (''security.msg.invalid_code'', js ''Ongeldige code.''),
    (''security.msg.regenerated'', js ''Nieuwe herstelcodes gegenereerd.''),
    (''security.msg.required'', js ''Deze instantie vereist TOTP (ADMIN_REQUIRE_TOTP); het kan niet worden uitgeschakeld.''),
    (''security.msg.disabled'', js ''Tweestapsverificatie is uitgeschakeld.''),
    (''security.password.title'', js ''Wachtwoord wijzigen''),
    (''security.password.current'', js ''Huidig wachtwoord''),
    (''security.password.new'', js ''Nieuw wachtwoord (min. 12 tekens)''),
    (''security.password.confirm'', js ''Nieuw wachtwoord bevestigen''),
    (''security.password.submit'', js ''Wachtwoord wijzigen''),
    (''security.password.mismatch'', js ''Het nieuwe wachtwoord en de bevestiging komen niet overeen.''),
    (''security.password.invalid_current'', js ''Het huidige wachtwoord is onjuist.''),
    (''security.password.changed'', js ''Wachtwoord gewijzigd. Andere sessies van dit account zijn afgemeld.''),
    (''home.title'', js ''inletbox''),
    (''home.message'', js ''Dit is een priv`00E9-inleverbox voor bestanden. Gebruik om bestanden te uploaden de link die u hebt gekregen van de persoon die erom vroeg.''),
    (''cases.new'', js ''Nieuw dossier'')]"

definition nl_6 :: messages where
  "nl_6 = [
    (''cases.name'', js ''Naam''),
    (''cases.name_placeholder'', js ''bijv. Audit 2026/09 `2013 Klant X''),
    (''cases.description_optional'', js ''Omschrijving (optioneel)''),
    (''cases.description'', js ''Omschrijving''),
    (''cases.list'', js ''Dossiers''),
    (''cases.empty'', js ''Geen dossiers.''),
    (''cases.col.name'', js ''Naam''),
    (''cases.col.status'', js ''Status''),
    (''cases.col.links'', js ''Actieve links''),
    (''cases.col.files'', js ''Bestanden''),
    (''cases.col.size'', js ''Grootte''),
    (''cases.col.created'', js ''Aangemaakt''),
    (''case.open'', js ''open''),
    (''case.closed'', js ''gesloten''),
    (''case.close'', js ''Dossier sluiten''),
    (''case.reopen'', js ''Heropenen''),
    (''case.meta'', js ''ID: {id} `00B7 aangemaakt {date}. Een gesloten dossier accepteert via geen van zijn links uploads.''),
    (''case.saved'', js ''Opgeslagen.''),
    (''case.closed_no_links'', js ''Het dossier is gesloten `2013 heropen het om links te genereren.''),
    (''case.new_link.title'', js ''Nieuwe link voor `2018{label}`2019'')]"

definition nl_7 :: messages where
  "nl_7 = [
    (''case.new_link.intro'', js ''Kopieer hem nu. Het token wordt alleen als hash opgeslagen en kan later niet worden hersteld `2013 u kunt alleen een nieuwe link genereren.''),
    (''case.new_link.copy_now'', js ''Kopieer hem nu.''),
    (''links.title'', js ''Uploadlinks''),
    (''links.intro'', js ''Elke link is een aparte ontvanger en een apart zichtbaarheidsbereik: wie de link heeft, ziet alleen de bestanden die via die link zijn verzonden en kan ze niet downloaden of verwijderen. Iedereen die dezelfde link kent, heeft precies dezelfde toegang `2013 de applicatie maakt geen onderscheid tussen mensen die dezelfde link gebruiken.''),
    (''links.generate'', js ''Nieuwe link genereren''),
    (''links.label'', js ''Label van de ontvanger''),
    (''links.label_placeholder'', js ''bijv. Jan Jansen `2013 boekhouding''),
    (''links.expires'', js ''Geldig tot (UTC, optioneel)''),
    (''links.max_file'', js ''Max. bestandsgrootte (optioneel, `2264 {max})''),
    (''links.max_file_placeholder'', js ''bijv. 500MB''),
    (''links.max_files'', js ''Max. aantal bestanden (optioneel)''),
    (''links.max_total'', js ''Max. totale grootte (optioneel)''),
    (''links.max_total_placeholder'', js ''bijv. 2GB''),
    (''links.submit'', js ''Link genereren''),
    (''links.empty'', js ''Geen links.''),
    (''links.col.recipient'', js ''Ontvanger''),
    (''links.col.state'', js ''Toestand''),
    (''links.col.expires'', js ''Geldig tot''),
    (''links.col.limits'', js ''Limieten''),
    (''links.col.usage'', js ''Gebruik'')]"

definition nl_8 :: messages where
  "nl_8 = [
    (''links.col.last_used'', js ''Laatst gebruikt''),
    (''links.state.active'', js ''actief''),
    (''links.state.expired'', js ''verlopen''),
    (''links.state.revoked'', js ''ingetrokken''),
    (''links.state.case_closed'', js ''dossier gesloten''),
    (''links.limit.file'', js ''bestand `2264 {max}''),
    (''links.limit.files'', js ''bestanden `2264 {n}''),
    (''links.limit.total'', js ''totaal `2264 {max}''),
    (''links.usage'', js ''{n} bestanden, {size}''),
    (''links.usage_in_progress'', js ''{n} bezig ({size} gereserveerd)''),
    (''links.revoke'', js ''Intrekken''),
    (''links.revoke_confirm'', js ''Link `2018{label}`2019 intrekken? Lopende uploads worden afgebroken.''),
    (''files.title'', js ''Bestanden''),
    (''files.empty'', js ''Geen bestanden.''),
    (''files.col.name'', js ''Naam''),
    (''files.col.recipient'', js ''Ontvanger (link)''),
    (''files.col.size'', js ''Grootte''),
    (''files.col.status'', js ''Status''),
    (''files.col.uploaded'', js ''Ge`00FCpload''),
    (''files.declared'', js ''{size} (opgegeven)'')]"

definition nl_9 :: messages where
  "nl_9 = [
    (''files.download'', js ''Downloaden''),
    (''files.delete'', js ''Verwijderen''),
    (''files.delete_confirm'', js ''Bestand `2018{name}`2019 verwijderen? Dit kan niet ongedaan worden gemaakt.''),
    (''files.untrusted'', js ''Bestanden worden als onbetrouwbaar behandeld: downloads zijn altijd bijlagen en op de server wordt niets weergegeven of uitgevoerd. Virusscannen maakt geen deel uit van deze versie.''),
    (''files.status.uploading'', js ''bezig''),
    (''files.status.complete'', js ''voltooid''),
    (''files.status.aborted'', js ''afgebroken''),
    (''files.status.expired'', js ''verlopen''),
    (''files.status.missing'', js ''ontbreekt in de opslag''),
    (''files.status.deleted'', js ''verwijderd''),
    (''audit.title'', js ''Auditlog (laatste {n})''),
    (''audit.col.time'', js ''Tijd''),
    (''audit.col.actor'', js ''Actor''),
    (''audit.col.action'', js ''Gebeurtenis''),
    (''audit.col.case'', js ''Dossier''),
    (''audit.col.link'', js ''Link''),
    (''audit.col.file'', js ''Bestand''),
    (''audit.col.ip'', js ''IP''),
    (''audit.col.details'', js ''Details''),
    (''upload.title'', js ''Upload: {case}'')]"

definition nl_10 :: messages where
  "nl_10 = [
    (''upload.link_for'', js ''Link voor:''),
    (''upload.valid_until'', js ''geldig tot {date}''),
    (''upload.limit.file'', js ''Maximale bestandsgrootte:''),
    (''upload.limit.files'', js ''Maximaal aantal bestanden:''),
    (''upload.limit.total'', js ''Totale datalimiet:''),
    (''upload.used_n'', js ''({n} gebruikt)''),
    (''upload.used_size'', js ''({size} gebruikt)''),
    (''upload.send'', js ''Bestanden uploaden''),
    (''upload.drop_here'', js ''Sleep bestanden hierheen''),
    (''upload.or'', js ''of''),
    (''upload.choose'', js ''kies ze op de schijf''),
    (''upload.resume_hint'', js ''Grote bestanden worden in delen verzonden en de upload kan na een verbroken verbinding worden hervat. Kies na het herladen van de pagina hetzelfde bestand opnieuw; de upload gaat verder waar hij stopte.''),
    (''upload.your_files'', js ''Uw bestanden''),
    (''upload.your_files_intro'', js ''U ziet alleen bestanden die via deze link zijn ge`00FCpload. Bestanden kunnen hier niet worden gedownload of verwijderd `2013 de beheerder haalt ze op.''),
    (''upload.col.name'', js ''Naam''),
    (''upload.col.size'', js ''Grootte''),
    (''upload.col.date'', js ''Datum''),
    (''upload.col.status'', js ''Status''),
    (''upload.none_yet'', js ''Nog geen bestanden ge`00FCpload.''),
    (''upload.list_failed'', js ''De lijst kon niet worden geladen: {msg}'')]"

definition nl_11 :: messages where
  "nl_11 = [
    (''upload.terminal'', js ''Uploaden vanuit de terminal''),
    (''upload.terminal_hint'', js ''(curl, scripts, hervatbare overdrachten)''),
    (''upload.terminal_intro'', js ''Vervang {path} door het pad naar uw bestand (spaties zijn geen probleem). Een exitcode anders dan nul betekent een fout; het antwoord is JSON.''),
    (''upload.snippet.single'', js ''E`00E9n bestand''),
    (''upload.snippet.multi'', js ''Meerdere bestanden''),
    (''upload.snippet.env'', js ''Token in een omgevingsvariabele (aanbevolen)''),
    (''upload.snippet.list'', js ''Ge`00FCploade bestanden weergeven''),
    (''upload.snippet.resumable'', js ''Groot bestand met hervatten (script {script})''),
    (''upload.history_warning'', js ''Let op: een opdracht met het token komt in uw shellgeschiedenis terecht (bijv. {file}). De export-variant met een spatie ervoor wordt niet opgeslagen als {opt} is ingesteld. Behandel deze link als een wachtwoord en geef hem niet door.''),
    (''upload.path_placeholder'', js ''/pad/naar/bestand.pdf''),
    (''upload.path_placeholder2'', js ''/pad/rapport.pdf''),
    (''upload.path_placeholder3'', js ''/pad/foto 1.jpg''),
    (''upload.path_placeholder_big'', js ''/pad/naar/groot bestand.iso''),
    (''upload.js.queued'', js ''in de wachtrij`2026''),
    (''upload.js.too_large'', js ''te groot: limiet {max}''),
    (''upload.js.error'', js ''fout: {msg}''),
    (''upload.js.starting'', js ''starten`2026''),
    (''upload.js.resuming'', js ''vorige upload wordt hervat`2026''),
    (''upload.js.retrying'', js ''opnieuw proberen`2026''),
    (''upload.js.done'', js ''voltooid'')]"

definition nl_12 :: messages where
  "nl_12 = [
    (''upload.js.finalising'', js ''alle gegevens verzonden, de server rondt af`2026''),
    (''upload.js.cancelled'', js ''geannuleerd''),
    (''upload.js.cancelled_local'', js ''geannuleerd (lokaal)''),
    (''upload.js.status.uploading'', js ''bezig''),
    (''upload.js.status.complete'', js ''voltooid''),
    (''nav.users'', js ''Gebruikers''),
    (''cases.empty_assigned'', js ''Er zijn u nog geen dossiers toegewezen. Een collega die aan een dossier werkt, of een beheerder, kan u eraan toewijzen, of u maakt hierboven een nieuw dossier aan.''),
    (''error.forbidden.title'', js ''Niet toegestaan''),
    (''error.forbidden'', js ''Deze pagina is alleen voor beheerders.''),
    (''security.must_change_notice'', js ''Uw wachtwoord is door een beheerder uitgegeven. Stel hieronder uw eigen wachtwoord in voordat u verdergaat.''),
    (''members.title'', js ''Toegewezen gebruikers''),
    (''members.intro'', js ''Een gebruiker ziet alleen de dossiers die hem zijn toegewezen. Beheerders zien alle dossiers.''),
    (''members.empty'', js ''Aan dit dossier is geen gebruiker toegewezen `2014 alleen beheerders zien het.''),
    (''members.user'', js ''Gebruiker''),
    (''members.add'', js ''Toewijzen''),
    (''members.added'', js ''Het account {username} is nu aan dit dossier toegewezen.''),
    (''members.remove'', js ''Ontkoppelen''),
    (''members.remove_confirm'', js ''{username} ontkoppelen? Het account ziet dit dossier dan niet meer.''),
    (''members.removed'', js ''Het account {username} heeft geen toegang meer tot dit dossier.''),
    (''members.none_assignable'', js ''Er is geen gebruikersaccount meer om toe te wijzen. Maak er een aan onder {link}.'')]"

definition nl_13 :: messages where
  "nl_13 = [
    (''users.new'', js ''Nieuw account''),
    (''users.list'', js ''Accounts''),
    (''users.username'', js ''Gebruikersnaam''),
    (''users.username_placeholder'', js ''bijv. anna.jansen@bedrijf.nl''),
    (''users.role'', js ''Rol''),
    (''users.role.admin'', js ''Beheerder''),
    (''users.role.user'', js ''Gebruiker''),
    (''users.roles_hint'', js ''Een gebruiker ziet en behandelt alleen de dossiers die hem zijn toegewezen. Een beheerder ziet alle dossiers, beheert accounts en leest de auditlog. Er wordt een tijdelijk wachtwoord aangemaakt; dat moet bij de eerste aanmelding worden gewijzigd.''),
    (''users.col.username'', js ''Account''),
    (''users.col.status'', js ''Toestand''),
    (''users.col.totp'', js ''Tweede factor''),
    (''users.col.cases'', js ''Dossiers''),
    (''users.col.last_login'', js ''Laatste aanmelding''),
    (''users.status.active'', js ''actief''),
    (''users.status.disabled'', js ''uitgeschakeld''),
    (''users.status.must_change'', js ''wachtwoord wijzigen''),
    (''users.you'', js ''u''),
    (''users.all_cases'', js ''alle''),
    (''users.issued.title'', js ''Account {username} aangemaakt''),
    (''users.issued.reset_title'', js ''Nieuw wachtwoord voor {username}'')]"

definition nl_14 :: messages where
  "nl_14 = [
    (''users.issued.copy_now'', js ''Kopieer dit wachtwoord nu `2014 het wordt maar `00E9`00E9n keer getoond.''),
    (''users.issued.intro'', js ''Geef het via een ander kanaal door dan de gebruikersnaam. Het moet bij de eerste aanmelding worden vervangen.''),
    (''users.make_admin'', js ''Beheerder maken''),
    (''users.make_user'', js ''Gebruiker maken''),
    (''users.role_confirm'', js ''De rol van het account {username} wijzigen?''),
    (''users.role_changed'', js ''Het account {username} heeft nu de rol: {role}.''),
    (''users.reset_password'', js ''Nieuw wachtwoord''),
    (''users.reset_password_confirm'', js ''Een nieuw wachtwoord uitgeven voor {username}? Het huidige werkt dan niet meer en alle sessies van het account eindigen.''),
    (''users.password_reset'', js ''Er is een nieuw wachtwoord uitgegeven voor {username} en het account is afgemeld.''),
    (''users.reset_totp'', js ''2FA resetten''),
    (''users.reset_totp_confirm'', js ''De tweede factor van {username} verwijderen? Die wordt na de volgende aanmelding opnieuw ingesteld.''),
    (''users.totp_reset'', js ''Tweestapsverificatie is verwijderd van het account {username}.''),
    (''users.disable'', js ''Uitschakelen''),
    (''users.disable_confirm'', js ''{username} uitschakelen? Het account wordt afgemeld en kan zich pas weer aanmelden als het opnieuw is ingeschakeld.''),
    (''users.disabled'', js ''Het account {username} is uitgeschakeld en afgemeld.''),
    (''users.enable'', js ''Inschakelen''),
    (''users.enabled'', js ''Het account {username} kan zich weer aanmelden.''),
    (''users.delete'', js ''Verwijderen''),
    (''users.delete_confirm'', js ''Het account {username} verwijderen? De dossiertoewijzingen gaan mee; de auditlog bewaart wat het heeft gedaan.''),
    (''users.deleted'', js ''Het account {username} is verwijderd.'')]"

definition nl_15 :: messages where
  "nl_15 = [
    (''users.missing'', js ''Dit account bestaat niet.''),
    (''users.not_self'', js ''Uw eigen account wijzigt u hier niet `2014 wachtwoord en 2FA staan onder Beveiliging.''),
    (''users.last_admin'', js ''Er moet ten minste `00E9`00E9n actieve beheerder overblijven.''),
    (''users.exists'', js ''Er bestaat al een account met de naam {username}.''),
    (''users.invalid_username'', js ''Een gebruikersnaam heeft 2`201364 tekens: letters, cijfers en . _ @ -''),
    (''users.invalid_role'', js ''Onbekende rol.''),
    (''members.not_self'', js ''U kunt uzelf niet ontkoppelen. Vraag het iemand anders op dit dossier of een beheerder.''),
    (''members.none_assignable_user'', js ''Er is geen ander gebruikersaccount om toe te wijzen.''),
    (''second.title'', js ''Tweede stap van de aanmelding''),
    (''second.recovery_label'', js ''Herstelcode''),
    (''common.or'', js ''of''),
    (''passkey.use'', js ''Een passkey gebruiken''),
    (''passkey.unsupported'', js ''Deze browser ondersteunt geen passkeys.''),
    (''passkey.failed'', js ''De passkey kon niet worden geverifieerd. Probeer het opnieuw.''),
    (''passkey.cancelled'', js ''Geannuleerd. Probeer het opnieuw wanneer u er klaar voor bent.''),
    (''confirm.title'', js ''Bevestig dat u het bent''),
    (''confirm.intro'', js ''Deze actie vereist een recente bevestiging. Deze blijft daarna {minutes} minuten geldig, zodat u niet bij elke stap opnieuw wordt gevraagd.''),
    (''confirm.repeat'', js ''Herhaal na het bevestigen wat u aan het doen was.''),
    (''confirm.code_label'', js ''Code uit de app of een herstelcode''),
    (''confirm.password_label'', js ''Uw wachtwoord'')]"

definition nl_16 :: messages where
  "nl_16 = [
    (''confirm.submit'', js ''Bevestigen''),
    (''confirm.invalid'', js ''Dat kwam niet overeen. Probeer het opnieuw.''),
    (''confirm.locked'', js ''Te veel onjuiste codes voor dit account. Probeer het over 15 minuten opnieuw.''),
    (''passkeys.title'', js ''Passkeys''),
    (''passkeys.intro'', js ''Een passkey wordt bewaard door uw apparaat, uw wachtwoordmanager of een beveiligingssleutel, en kan niet worden gephished. Deze werkt als tweede stap bij het aanmelden en om gevoelige acties te bevestigen.''),
    (''passkeys.none'', js ''Nog geen passkeys.''),
    (''passkeys.name'', js ''Naam''),
    (''passkeys.name_placeholder'', js ''bijv. laptop, beveiligingssleutel''),
    (''passkeys.added_at'', js ''Toegevoegd''),
    (''passkeys.last_used'', js ''Laatst gebruikt''),
    (''passkeys.add'', js ''Een passkey toevoegen''),
    (''passkeys.remove'', js ''Verwijderen''),
    (''passkeys.remove_confirm'', js ''Deze passkey verwijderen? Andere sessies van dit account worden afgemeld.''),
    (''passkeys.added'', js ''Passkey `2018{name}`2019 toegevoegd.''),
    (''passkeys.removed'', js ''Passkey `2018{name}`2019 verwijderd. Andere sessies van dit account zijn afgemeld.''),
    (''passkeys.last_required'', js ''Deze instantie vereist een tweede factor. Voeg een andere toe voordat u de laatste verwijdert.''),
    (''passkeys.limit'', js ''Een account kan maximaal {n} passkeys hebben.''),
    (''passkeys.duplicate'', js ''Deze passkey is al geregistreerd.''),
    (''security.recovery.regenerate_confirmed'', js ''Nieuwe codes genereren (de oude werken niet meer)''),
    (''sessions.title'', js ''Actieve sessies'')]"

definition nl_17 :: messages where
  "nl_17 = [
    (''sessions.intro'', js ''Elke plek waar dit account is aangemeld. Meld sessies af die u niet herkent en wijzig daarna uw wachtwoord.''),
    (''sessions.device'', js ''Apparaat''),
    (''sessions.ip'', js ''IP-adres''),
    (''sessions.started'', js ''Gestart''),
    (''sessions.last_seen'', js ''Laatste activiteit''),
    (''sessions.current'', js ''deze sessie''),
    (''sessions.pending'', js ''alleen wachtwoord, tweede stap niet voltooid''),
    (''sessions.bound'', js ''gebonden aan dit apparaat''),
    (''sessions.factor'', js ''tweede stap: {factor}''),
    (''sessions.via.totp'', js ''app-code''),
    (''sessions.via.recovery'', js ''herstelcode''),
    (''sessions.via.passkey'', js ''passkey''),
    (''sessions.unknown_device'', js ''Onbekend apparaat''),
    (''sessions.revoke'', js ''Afmelden''),
    (''sessions.revoke_others'', js ''Alle andere sessies afmelden''),
    (''sessions.revoked'', js ''De sessie is afgemeld.''),
    (''sessions.revoked_others'', js ''Alle andere sessies zijn afgemeld.'')]"

definition nl_messages :: messages where
  "nl_messages = nl_1 @ nl_2 @ nl_3 @ nl_4 @ nl_5 @ nl_6 @ nl_7 @ nl_8 @ nl_9 @ nl_10 @ nl_11 @ nl_12 @ nl_13 @ nl_14 @ nl_15 @ nl_16 @ nl_17"

lemmas nl_defs =
  nl_1_def nl_2_def nl_3_def nl_4_def nl_5_def nl_6_def nl_7_def nl_8_def nl_9_def nl_10_def nl_11_def nl_12_def nl_13_def nl_14_def
  nl_15_def nl_16_def nl_17_def

lemma nl_fits: "fits nl_messages message_shape"
  unfolding nl_messages_def message_shape_def
  by (intro fits_append; unfold nl_defs shape_defs; simp only: fits_rules cong: literal_congs)

end
