(* ===== verification/Locale_Pl.thy ===== *)
theory Locale_Pl
  imports Locale_En
begin

text \<open>src/locales/pl.ts: Polish.\<close>

definition pl_1 :: messages where
  "pl_1 = [
    (''app.tagline'', js ''prywatna skrzynka wrzutowa''),
    (''common.back_to_cases'', js ''`2190 Sprawy''),
    (''common.home'', js ''Strona g`0142`00F3wna''),
    (''common.copy'', js ''Kopiuj''),
    (''common.copied'', js ''Skopiowano''),
    (''common.copy_manual'', js ''Zaznacz i skopiuj r`0119cznie''),
    (''common.save'', js ''Zapisz''),
    (''common.create'', js ''Utw`00F3rz''),
    (''common.cancel'', js ''Anuluj''),
    (''common.retry'', js ''Pon`00F3w''),
    (''common.never'', js ''nigdy''),
    (''common.unlimited'', js ''bezterminowo''),
    (''common.none'', js ''`2014''),
    (''common.optional'', js ''opcjonalnie''),
    (''common.loading'', js ''`0141adowanie`2026''),
    (''common.yes'', js ''Tak''),
    (''common.language'', js ''J`0119zyk''),
    (''nav.cases'', js ''Sprawy''),
    (''nav.audit'', js ''Dziennik''),
    (''nav.security'', js ''Bezpiecze`0144stwo'')]"

definition pl_2 :: messages where
  "pl_2 = [
    (''nav.logout'', js ''Wyloguj''),
    (''error.not_found.title'', js ''Nie znaleziono''),
    (''error.page_missing'', js ''Strona nie istnieje.''),
    (''error.case_missing'', js ''Taka sprawa nie istnieje.''),
    (''error.link_missing'', js ''Taki link nie istnieje.''),
    (''error.file_missing'', js ''Plik nie istnieje lub nie jest dost`0119pny.''),
    (''error.file_not_exist'', js ''Plik nie istnieje.''),
    (''error.storage_missing.title'', js ''Brak pliku w storage''),
    (''error.storage_missing'', js ''Metadane istniej`0105, ale obiekt znikn`0105`0142 ze storage. Uruchom sprz`0105tanie, aby oznaczy`0107 plik jako brakuj`0105cy.''),
    (''error.server.title'', js ''B`0142`0105d serwera''),
    (''error.server'', js ''Wyst`0105pi`0142 nieoczekiwany b`0142`0105d.''),
    (''error.bad_request.title'', js ''Nieprawid`0142owe `017C`0105danie''),
    (''error.cross_site'', js ''`017B`0105danie z innej witryny zosta`0142o zablokowane''),
    (''error.csrf'', js ''Nieprawid`0142owy token CSRF''),
    (''error.invalid_expiry'', js ''Nieprawid`0142owa data wa`017Cno`015Bci''),
    (''link.invalid.title'', js ''Nieprawid`0142owy link''),
    (''link.invalid'', js ''Ten link do uploadu nie istnieje.''),
    (''link.unavailable.title'', js ''Link niedost`0119pny''),
    (''link.expired'', js ''Ten link wygas`0142.''),
    (''link.revoked'', js ''Ten link zosta`0142 uniewa`017Cniony.'')]"

definition pl_3 :: messages where
  "pl_3 = [
    (''link.case_closed'', js ''Sprawa zosta`0142a zamkni`0119ta i nie przyjmuje ju`017C plik`00F3w.''),
    (''link.contact'', js ''Skontaktuj si`0119 z osob`0105, kt`00F3ra przekaza`0142a Ci link.''),
    (''login.title'', js ''Logowanie administratora''),
    (''login.username'', js ''Nazwa u`017Cytkownika''),
    (''login.password'', js ''Has`0142o''),
    (''login.submit'', js ''Zaloguj''),
    (''login.failed'', js ''Nieprawid`0142owa nazwa u`017Cytkownika lub has`0142o.''),
    (''login.too_many_codes'', js ''Zbyt wiele b`0142`0119dnych kod`00F3w. Zaloguj si`0119 ponownie.''),
    (''login.account_locked'', js ''Zbyt wiele b`0142`0119dnych kod`00F3w dla tego konta. Logowanie drugim sk`0142adnikiem jest zablokowane na 15 minut.''),
    (''totp.title'', js ''Kod z aplikacji uwierzytelniaj`0105cej''),
    (''totp.code_label'', js ''Kod (6 cyfr) lub kod zapasowy''),
    (''totp.confirm'', js ''Potwierd`017A''),
    (''totp.cancel_logout'', js ''Anuluj i wyloguj''),
    (''totp.invalid'', js ''Nieprawid`0142owy kod.''),
    (''totp.attempts_left'', js ''Pozosta`0142e pr`00F3by: {n}.''),
    (''totp.locked_until'', js ''Konto jest tymczasowo zablokowane po wielu b`0142`0119dnych kodach (do {until} UTC).''),
    (''security.title'', js ''Bezpiecze`0144stwo konta `201E{user}`201D''),
    (''security.required_notice'', js ''Ta instancja wymaga drugiego sk`0142adnika. Panel pozostanie niedost`0119pny, dop`00F3ki nie dodasz poni`017Cej aplikacji uwierzytelniaj`0105cej albo klucza dost`0119pu.''),
    (''security.status'', js ''Uwierzytelnianie dwusk`0142adnikowe (TOTP, RFC 6238): {state}.''),
    (''security.enabled'', js ''w`0142`0105czone'')]"

definition pl_4 :: messages where
  "pl_4 = [
    (''security.disabled'', js ''wy`0142`0105czone''),
    (''security.recovery_left'', js ''Niewykorzystane kody zapasowe: {n}.''),
    (''security.recovery.title'', js ''Kody zapasowe''),
    (''security.recovery.intro'', js ''Zapisz je teraz w bezpiecznym miejscu. Ka`017Cdy dzia`0142a jeden raz i zast`0119puje kod z aplikacji, gdy stracisz do niej dost`0119p. Nie b`0119d`0105 pokazane ponownie.''),
    (''security.enable.title'', js ''W`0142`0105cz TOTP''),
    (''security.enable.intro'', js ''Potrzebna jest aplikacja uwierzytelniaj`0105ca (np. Aegis, Google Authenticator, 1Password, Bitwarden). Po w`0142`0105czeniu logowanie wymaga has`0142a i bie`017C`0105cego kodu.''),
    (''security.enable.start'', js ''Rozpocznij konfiguracj`0119''),
    (''security.step1'', js ''Krok 1: zeskanuj kod w aplikacji''),
    (''security.manual_key'', js ''Albo wpisz klucz r`0119cznie:''),
    (''security.key_params'', js ''Typ: TOTP, SHA-1, 6 cyfr, 30 s. Wystawca: {issuer}, konto: {user}.''),
    (''security.open_in_app'', js ''Otw`00F3rz w aplikacji uwierzytelniaj`0105cej''),
    (''security.on_phone'', js ''(na telefonie)''),
    (''security.step2'', js ''Krok 2: potwierd`017A kodem''),
    (''security.code_from_app'', js ''Kod z aplikacji''),
    (''security.enable.submit'', js ''W`0142`0105cz TOTP''),
    (''security.pending_note'', js ''Klucz jest tymczasowy do czasu potwierdzenia; ponowne rozpocz`0119cie konfiguracji generuje nowy.''),
    (''security.current_code'', js ''Bie`017C`0105cy kod z aplikacji''),
    (''security.regenerate'', js ''Wygeneruj nowe kody (stare przestan`0105 dzia`0142a`0107)''),
    (''security.disable.title'', js ''Wy`0142`0105cz TOTP''),
    (''security.disable.intro'', js ''Wymaga bie`017C`0105cego kodu z aplikacji albo kodu zapasowego: sama sesja (np. skradzione ciasteczko) nie wystarczy. Gdy dost`0119p do aplikacji i kod`00F3w zapasowych jest utracony, operator mo`017Ce u`017Cy`0107 {cmd} na serwerze.'')]"

definition pl_5 :: messages where
  "pl_5 = [
    (''security.disable.code'', js ''Kod''),
    (''security.disable.submit'', js ''Wy`0142`0105cz''),
    (''security.disable.confirm'', js ''Wy`0142`0105czy`0107 uwierzytelnianie dwusk`0142adnikowe?''),
    (''security.msg.enabled'', js ''Uwierzytelnianie dwusk`0142adnikowe jest w`0142`0105czone.''),
    (''security.msg.code_mismatch'', js ''Kod nie pasuje. Sprawd`017A czas w telefonie i spr`00F3buj ponownie.''),
    (''security.msg.invalid_code'', js ''Nieprawid`0142owy kod.''),
    (''security.msg.regenerated'', js ''Wygenerowano nowe kody zapasowe.''),
    (''security.msg.required'', js ''Ta instancja wymaga TOTP (ADMIN_REQUIRE_TOTP); nie mo`017Cna go wy`0142`0105czy`0107.''),
    (''security.msg.disabled'', js ''Uwierzytelnianie dwusk`0142adnikowe zosta`0142o wy`0142`0105czone.''),
    (''security.password.title'', js ''Zmiana has`0142a''),
    (''security.password.current'', js ''Bie`017C`0105ce has`0142o''),
    (''security.password.new'', js ''Nowe has`0142o (min. 12 znak`00F3w)''),
    (''security.password.confirm'', js ''Potwierd`017A nowe has`0142o''),
    (''security.password.submit'', js ''Zmie`0144 has`0142o''),
    (''security.password.mismatch'', js ''Nowe has`0142o i jego potwierdzenie nie s`0105 zgodne.''),
    (''security.password.invalid_current'', js ''Bie`017C`0105ce has`0142o jest nieprawid`0142owe.''),
    (''security.password.changed'', js ''Has`0142o zosta`0142o zmienione. Inne sesje tego konta zosta`0142y wylogowane.''),
    (''home.title'', js ''inletbox''),
    (''home.message'', js ''To prywatna skrzynka do przesy`0142ania plik`00F3w. Aby przes`0142a`0107 pliki, skorzystaj z linku otrzymanego od osoby, kt`00F3ra ich potrzebuje.''),
    (''cases.new'', js ''Nowa sprawa'')]"

definition pl_6 :: messages where
  "pl_6 = [
    (''cases.name'', js ''Nazwa''),
    (''cases.name_placeholder'', js ''np. Audyt 2026/09 `2013 Klient X''),
    (''cases.description_optional'', js ''Opis (opcjonalnie)''),
    (''cases.description'', js ''Opis''),
    (''cases.list'', js ''Sprawy''),
    (''cases.empty'', js ''Brak spraw.''),
    (''cases.col.name'', js ''Nazwa''),
    (''cases.col.status'', js ''Status''),
    (''cases.col.links'', js ''Aktywne linki''),
    (''cases.col.files'', js ''Pliki''),
    (''cases.col.size'', js ''Rozmiar''),
    (''cases.col.created'', js ''Utworzono''),
    (''case.open'', js ''otwarta''),
    (''case.closed'', js ''zamkni`0119ta''),
    (''case.close'', js ''Zamknij spraw`0119''),
    (''case.reopen'', js ''Otw`00F3rz ponownie''),
    (''case.meta'', js ''ID: {id} `00B7 utworzono {date}. Zamkni`0119ta sprawa nie przyjmuje upload`00F3w przez `017Caden ze swoich link`00F3w.''),
    (''case.saved'', js ''Zapisano.''),
    (''case.closed_no_links'', js ''Sprawa jest zamkni`0119ta `2013 otw`00F3rz j`0105 ponownie, aby generowa`0107 linki.''),
    (''case.new_link.title'', js ''Nowy link dla `201E{label}`201D'')]"

definition pl_7 :: messages where
  "pl_7 = [
    (''case.new_link.intro'', js ''Token jest przechowywany wy`0142`0105cznie jako skr`00F3t i nie da si`0119 go p`00F3`017Aniej odzyska`0107 `2013 mo`017Cna jedynie wygenerowa`0107 nowy link.''),
    (''case.new_link.copy_now'', js ''Skopiuj go teraz.''),
    (''links.title'', js ''Linki do uploadu''),
    (''links.intro'', js ''Ka`017Cdy link to osobny odbiorca i osobny zakres widoczno`015Bci: osoba z linkiem widzi tylko pliki wys`0142ane tym linkiem, nie mo`017Ce ich pobra`0107 ani usun`0105`0107. Wszyscy, kt`00F3rzy znaj`0105 ten sam link, maj`0105 identyczny dost`0119p `2013 aplikacja nie rozr`00F3`017Cnia os`00F3b pos`0142uguj`0105cych si`0119 tym samym linkiem.''),
    (''links.generate'', js ''Wygeneruj nowy link''),
    (''links.label'', js ''Etykieta odbiorcy''),
    (''links.label_placeholder'', js ''np. Jan Kowalski `2013 ksi`0119gowo`015B`0107''),
    (''links.expires'', js ''Wa`017Cny do (UTC, opcjonalnie)''),
    (''links.max_file'', js ''Maks. rozmiar pliku (opcjonalnie, `2264 {max})''),
    (''links.max_file_placeholder'', js ''np. 500MB''),
    (''links.max_files'', js ''Maks. liczba plik`00F3w (opcjonalnie)''),
    (''links.max_total'', js ''Maks. `0142`0105czny rozmiar (opcjonalnie)''),
    (''links.max_total_placeholder'', js ''np. 2GB''),
    (''links.submit'', js ''Wygeneruj link''),
    (''links.empty'', js ''Brak link`00F3w.''),
    (''links.col.recipient'', js ''Odbiorca''),
    (''links.col.state'', js ''Stan''),
    (''links.col.expires'', js ''Wa`017Cny do''),
    (''links.col.limits'', js ''Limity''),
    (''links.col.usage'', js ''U`017Cycie'')]"

definition pl_8 :: messages where
  "pl_8 = [
    (''links.col.last_used'', js ''Ostatnio u`017Cyty''),
    (''links.state.active'', js ''aktywny''),
    (''links.state.expired'', js ''wygas`0142''),
    (''links.state.revoked'', js ''uniewa`017Cniony''),
    (''links.state.case_closed'', js ''sprawa zamkni`0119ta''),
    (''links.limit.file'', js ''plik `2264 {max}''),
    (''links.limit.files'', js ''pliki `2264 {n}''),
    (''links.limit.total'', js ''`0142`0105cznie `2264 {max}''),
    (''links.usage'', js ''{n} plik`00F3w, {size}''),
    (''links.usage_in_progress'', js ''{n} w trakcie ({size} zarezerwowane)''),
    (''links.revoke'', js ''Uniewa`017Cnij''),
    (''links.revoke_confirm'', js ''Uniewa`017Cni`0107 link `201E{label}`201D? Trwaj`0105ce uploady zostan`0105 przerwane.''),
    (''files.title'', js ''Pliki''),
    (''files.empty'', js ''Brak plik`00F3w.''),
    (''files.col.name'', js ''Nazwa''),
    (''files.col.recipient'', js ''Odbiorca (link)''),
    (''files.col.size'', js ''Rozmiar''),
    (''files.col.status'', js ''Status''),
    (''files.col.uploaded'', js ''Przes`0142ano''),
    (''files.declared'', js ''{size} (deklarowany)'')]"

definition pl_9 :: messages where
  "pl_9 = [
    (''files.download'', js ''Pobierz''),
    (''files.delete'', js ''Usu`0144''),
    (''files.delete_confirm'', js ''Usun`0105`0107 plik `201E{name}`201D? Tej operacji nie da si`0119 cofn`0105`0107.''),
    (''files.untrusted'', js ''Pliki s`0105 traktowane jako niezaufane: pobieranie odbywa si`0119 zawsze jako za`0142`0105cznik, nic nie jest renderowane ani wykonywane po stronie serwera. Skanowanie antywirusowe nie jest cz`0119`015Bci`0105 tej wersji.''),
    (''files.status.uploading'', js ''w trakcie''),
    (''files.status.complete'', js ''uko`0144czony''),
    (''files.status.aborted'', js ''przerwany''),
    (''files.status.expired'', js ''wygas`0142y''),
    (''files.status.missing'', js ''brak w storage''),
    (''files.status.deleted'', js ''usuni`0119ty''),
    (''audit.title'', js ''Dziennik zdarze`0144 (ostatnie {n})''),
    (''audit.col.time'', js ''Czas''),
    (''audit.col.actor'', js ''Aktor''),
    (''audit.col.action'', js ''Zdarzenie''),
    (''audit.col.case'', js ''Sprawa''),
    (''audit.col.link'', js ''Link''),
    (''audit.col.file'', js ''Plik''),
    (''audit.col.ip'', js ''IP''),
    (''audit.col.details'', js ''Szczeg`00F3`0142y''),
    (''upload.title'', js ''Upload: {case}'')]"

definition pl_10 :: messages where
  "pl_10 = [
    (''upload.link_for'', js ''Link dla:''),
    (''upload.valid_until'', js ''wa`017Cny do {date}''),
    (''upload.limit.file'', js ''Maksymalny rozmiar pliku:''),
    (''upload.limit.files'', js ''Maksymalna liczba plik`00F3w:''),
    (''upload.limit.total'', js ''`0141`0105czny limit danych:''),
    (''upload.used_n'', js ''(u`017Cyto {n})''),
    (''upload.used_size'', js ''(u`017Cyto {size})''),
    (''upload.send'', js ''Prze`015Blij pliki''),
    (''upload.drop_here'', js ''Przeci`0105gnij pliki tutaj''),
    (''upload.or'', js ''albo''),
    (''upload.choose'', js ''wybierz z dysku''),
    (''upload.resume_hint'', js ''Du`017Ce pliki s`0105 przesy`0142ane w cz`0119`015Bciach i mo`017Cna je wznowi`0107 po utracie po`0142`0105czenia. Po od`015Bwie`017Ceniu strony wska`017C ten sam plik ponownie, a upload zostanie wznowiony od miejsca przerwania.''),
    (''upload.your_files'', js ''Twoje pliki''),
    (''upload.your_files_intro'', js ''Widzisz wy`0142`0105cznie pliki przes`0142ane tym linkiem. Pliki nie mog`0105 by`0107 pobrane ani usuni`0119te z tego miejsca `2013 odbiera je administrator.''),
    (''upload.col.name'', js ''Nazwa''),
    (''upload.col.size'', js ''Rozmiar''),
    (''upload.col.date'', js ''Data''),
    (''upload.col.status'', js ''Status''),
    (''upload.none_yet'', js ''Brak przes`0142anych plik`00F3w.''),
    (''upload.list_failed'', js ''Nie uda`0142o si`0119 pobra`0107 listy: {msg}'')]"

definition pl_11 :: messages where
  "pl_11 = [
    (''upload.terminal'', js ''Upload z terminala''),
    (''upload.terminal_hint'', js ''(curl, skrypty, wznawiane transfery)''),
    (''upload.terminal_intro'', js ''Zast`0105p {path} `015Bcie`017Ck`0105 do swojego pliku (mo`017Ce zawiera`0107 spacje). Kod wyj`015Bcia r`00F3`017Cny od zera oznacza b`0142`0105d; odpowied`017A to JSON.''),
    (''upload.snippet.single'', js ''Jeden plik''),
    (''upload.snippet.multi'', js ''Kilka plik`00F3w''),
    (''upload.snippet.env'', js ''Token w zmiennej `015Brodowiskowej (zalecane)''),
    (''upload.snippet.list'', js ''Lista przes`0142anych plik`00F3w''),
    (''upload.snippet.resumable'', js ''Du`017Cy plik z wznawianiem (skrypt {script})''),
    (''upload.history_warning'', js ''Uwaga: polecenie zawieraj`0105ce token trafia do historii pow`0142oki (np. {file}). Wariant z export poprzedzony spacj`0105 nie jest zapisywany w historii, gdy ustawione jest {opt}. Traktuj ten link jak has`0142o i nie przekazuj go dalej.''),
    (''upload.path_placeholder'', js ''/`015Bcie`017Cka/do/pliku.pdf''),
    (''upload.path_placeholder2'', js ''/`015Bcie`017Cka/raport.pdf''),
    (''upload.path_placeholder3'', js ''/`015Bcie`017Cka/zdj`0119cie 1.jpg''),
    (''upload.path_placeholder_big'', js ''/`015Bcie`017Cka/do/du`017Cego pliku.iso''),
    (''upload.js.queued'', js ''w kolejce`2026''),
    (''upload.js.too_large'', js ''za du`017Cy: limit {max}''),
    (''upload.js.error'', js ''b`0142`0105d: {msg}''),
    (''upload.js.starting'', js ''rozpoczynanie`2026''),
    (''upload.js.resuming'', js ''wznawianie poprzedniego uploadu`2026''),
    (''upload.js.retrying'', js ''ponawianie`2026''),
    (''upload.js.done'', js ''uko`0144czony'')]"

definition pl_12 :: messages where
  "pl_12 = [
    (''upload.js.finalising'', js ''wys`0142ano wszystkie dane, serwer ko`0144czy zapis`2026''),
    (''upload.js.cancelled'', js ''anulowano''),
    (''upload.js.cancelled_local'', js ''anulowano (lokalnie)''),
    (''upload.js.status.uploading'', js ''w trakcie''),
    (''upload.js.status.complete'', js ''uko`0144czony''),
    (''nav.users'', js ''U`017Cytkownicy''),
    (''cases.empty_assigned'', js ''Nie masz jeszcze przypisanych spraw. Mo`017Ce Ci`0119 do sprawy przypisa`0107 osoba, kt`00F3ra nad ni`0105 pracuje, albo administrator. Mo`017Cesz te`017C za`0142o`017Cy`0107 now`0105 spraw`0119 powy`017Cej.''),
    (''error.forbidden.title'', js ''Brak dost`0119pu''),
    (''error.forbidden'', js ''Ta strona jest tylko dla administrator`00F3w.''),
    (''security.must_change_notice'', js ''Twoje has`0142o nada`0142 administrator. Zanim przejdziesz dalej, ustaw poni`017Cej w`0142asne has`0142o.''),
    (''members.title'', js ''Przypisani u`017Cytkownicy''),
    (''members.intro'', js ''U`017Cytkownik widzi tylko sprawy, do kt`00F3rych jest przypisany. Administratorzy widz`0105 wszystkie sprawy.''),
    (''members.empty'', js ''Do tej sprawy nikt nie jest przypisany `2014 widz`0105 j`0105 tylko administratorzy.''),
    (''members.user'', js ''U`017Cytkownik''),
    (''members.add'', js ''Przypisz''),
    (''members.added'', js ''Konto {username} jest teraz przypisane do tej sprawy.''),
    (''members.remove'', js ''Odepnij''),
    (''members.remove_confirm'', js ''Odpi`0105`0107 {username}? To konto przestanie widzie`0107 t`0119 spraw`0119.''),
    (''members.removed'', js ''Konto {username} nie ma ju`017C dost`0119pu do tej sprawy.''),
    (''members.none_assignable'', js ''Nie ma wi`0119cej kont u`017Cytkownik`00F3w do przypisania. Utw`00F3rz nowe w zak`0142adce {link}.'')]"

definition pl_13 :: messages where
  "pl_13 = [
    (''users.new'', js ''Nowe konto''),
    (''users.list'', js ''Konta''),
    (''users.username'', js ''Nazwa u`017Cytkownika''),
    (''users.username_placeholder'', js ''np. anna.nowak@firma.pl''),
    (''users.role'', js ''Rola''),
    (''users.role.admin'', js ''Administrator''),
    (''users.role.user'', js ''U`017Cytkownik''),
    (''users.roles_hint'', js ''U`017Cytkownik widzi i obs`0142uguje tylko sprawy, do kt`00F3rych go przypisano. Administrator widzi wszystkie sprawy, zarz`0105dza kontami i przegl`0105da dziennik. Has`0142o tymczasowe generuje si`0119 samo; trzeba je zmieni`0107 przy pierwszym logowaniu.''),
    (''users.col.username'', js ''Konto''),
    (''users.col.status'', js ''Stan''),
    (''users.col.totp'', js ''Drugi sk`0142adnik''),
    (''users.col.cases'', js ''Sprawy''),
    (''users.col.last_login'', js ''Ostatnie logowanie''),
    (''users.status.active'', js ''aktywne''),
    (''users.status.disabled'', js ''wy`0142`0105czone''),
    (''users.status.must_change'', js ''do zmiany has`0142a''),
    (''users.you'', js ''Ty''),
    (''users.all_cases'', js ''wszystkie''),
    (''users.issued.title'', js ''Utworzono konto {username}''),
    (''users.issued.reset_title'', js ''Nowe has`0142o dla {username}'')]"

definition pl_14 :: messages where
  "pl_14 = [
    (''users.issued.copy_now'', js ''Skopiuj to has`0142o teraz `2014 jest pokazywane tylko raz.''),
    (''users.issued.intro'', js ''Przeka`017C je innym kana`0142em ni`017C nazw`0119 u`017Cytkownika. Przy pierwszym logowaniu trzeba je zmieni`0107.''),
    (''users.make_admin'', js ''Nadaj rol`0119 administratora''),
    (''users.make_user'', js ''Zmie`0144 na u`017Cytkownika''),
    (''users.role_confirm'', js ''Zmieni`0107 rol`0119 konta {username}?''),
    (''users.role_changed'', js ''Konto {username} ma teraz rol`0119: {role}.''),
    (''users.reset_password'', js ''Nowe has`0142o''),
    (''users.reset_password_confirm'', js ''Nada`0107 nowe has`0142o dla {username}? Obecne przestanie dzia`0142a`0107, a wszystkie sesje konta zostan`0105 zako`0144czone.''),
    (''users.password_reset'', js ''Nadano nowe has`0142o dla {username}, konto zosta`0142o wylogowane.''),
    (''users.reset_totp'', js ''Resetuj 2FA''),
    (''users.reset_totp_confirm'', js ''Usun`0105`0107 drugi sk`0142adnik konta {username}? Zostanie skonfigurowany ponownie po nast`0119pnym logowaniu.''),
    (''users.totp_reset'', js ''Z konta {username} usuni`0119to uwierzytelnianie dwusk`0142adnikowe.''),
    (''users.disable'', js ''Wy`0142`0105cz''),
    (''users.disable_confirm'', js ''Wy`0142`0105czy`0107 {username}? Konto zostanie wylogowane i nie zaloguje si`0119, dop`00F3ki nie zostanie w`0142`0105czone.''),
    (''users.disabled'', js ''Konto {username} zosta`0142o wy`0142`0105czone i wylogowane.''),
    (''users.enable'', js ''W`0142`0105cz''),
    (''users.enabled'', js ''Konto {username} znowu mo`017Ce si`0119 logowa`0107.''),
    (''users.delete'', js ''Usu`0144''),
    (''users.delete_confirm'', js ''Usun`0105`0107 konto {username}? Razem z nim znikn`0105 jego przypisania do spraw; dziennik zachowa to, co zrobi`0142o.''),
    (''users.deleted'', js ''Usuni`0119to konto {username}.'')]"

definition pl_15 :: messages where
  "pl_15 = [
    (''users.missing'', js ''Nie ma takiego konta.''),
    (''users.not_self'', js ''Tutaj nie zmienisz w`0142asnego konta `2014 has`0142o i 2FA s`0105 w zak`0142adce Bezpiecze`0144stwo.''),
    (''users.last_admin'', js ''Musi zosta`0107 co najmniej jeden aktywny administrator.''),
    (''users.exists'', js ''Konto {username} ju`017C istnieje.''),
    (''users.invalid_username'', js ''Nazwa u`017Cytkownika ma 2`201364 znaki: litery, cyfry oraz . _ @ -''),
    (''users.invalid_role'', js ''Nieznana rola.''),
    (''members.not_self'', js ''Nie mo`017Cesz odpi`0105`0107 samego siebie. Popro`015B o to inn`0105 osob`0119 przypisan`0105 do sprawy albo administratora.''),
    (''members.none_assignable_user'', js ''Nie ma innych kont u`017Cytkownik`00F3w do przypisania.''),
    (''second.title'', js ''Drugi krok logowania''),
    (''second.recovery_label'', js ''Kod odzyskiwania''),
    (''common.or'', js ''albo''),
    (''passkey.use'', js ''U`017Cyj klucza dost`0119pu''),
    (''passkey.unsupported'', js ''Ta przegl`0105darka nie obs`0142uguje kluczy dost`0119pu.''),
    (''passkey.failed'', js ''Nie uda`0142o si`0119 zweryfikowa`0107 klucza dost`0119pu. Spr`00F3buj ponownie.''),
    (''passkey.cancelled'', js ''Anulowano. Mo`017Cesz spr`00F3bowa`0107 ponownie w dowolnej chwili.''),
    (''confirm.title'', js ''Potwierd`017A, `017Ce to Ty''),
    (''confirm.intro'', js ''Ta czynno`015B`0107 wymaga `015Bwie`017Cego potwierdzenia. B`0119dzie ono wa`017Cne przez {minutes} min, wi`0119c nie zapytamy o nie przy ka`017Cdym kroku.''),
    (''confirm.repeat'', js ''Po potwierdzeniu powt`00F3rz ostatni`0105 czynno`015B`0107.''),
    (''confirm.code_label'', js ''Kod z aplikacji albo kod odzyskiwania''),
    (''confirm.password_label'', js ''Twoje has`0142o'')]"

definition pl_16 :: messages where
  "pl_16 = [
    (''confirm.submit'', js ''Potwierd`017A''),
    (''confirm.invalid'', js ''To si`0119 nie zgadza. Spr`00F3buj ponownie.''),
    (''confirm.locked'', js ''Za du`017Co b`0142`0119dnych kod`00F3w dla tego konta. Spr`00F3buj ponownie za 15 minut.''),
    (''passkeys.title'', js ''Klucze dost`0119pu''),
    (''passkeys.intro'', js ''Klucz dost`0119pu (passkey) przechowuje Twoje urz`0105dzenie, mened`017Cer hase`0142 albo klucz sprz`0119towy i nie da si`0119 go wy`0142udzi`0107 phishingiem. S`0142u`017Cy jako drugi krok logowania i do potwierdzania wra`017Cliwych czynno`015Bci.''),
    (''passkeys.none'', js ''Brak kluczy dost`0119pu.''),
    (''passkeys.name'', js ''Nazwa''),
    (''passkeys.name_placeholder'', js ''np. laptop, klucz sprz`0119towy''),
    (''passkeys.added_at'', js ''Dodano''),
    (''passkeys.last_used'', js ''Ostatnio u`017Cyty''),
    (''passkeys.add'', js ''Dodaj klucz dost`0119pu''),
    (''passkeys.remove'', js ''Usu`0144''),
    (''passkeys.remove_confirm'', js ''Usun`0105`0107 ten klucz dost`0119pu? Pozosta`0142e sesje tego konta zostan`0105 wylogowane.''),
    (''passkeys.added'', js ''Dodano klucz dost`0119pu `201E{name}`201D.''),
    (''passkeys.removed'', js ''Usuni`0119to klucz dost`0119pu `201E{name}`201D. Pozosta`0142e sesje tego konta zosta`0142y wylogowane.''),
    (''passkeys.last_required'', js ''Ta instancja wymaga drugiego sk`0142adnika. Dodaj inny, zanim usuniesz ostatni.''),
    (''passkeys.limit'', js ''Konto mo`017Ce mie`0107 najwy`017Cej {n} kluczy dost`0119pu.''),
    (''passkeys.duplicate'', js ''Ten klucz dost`0119pu jest ju`017C zarejestrowany.''),
    (''security.recovery.regenerate_confirmed'', js ''Wygeneruj nowe kody (stare przestan`0105 dzia`0142a`0107)''),
    (''sessions.title'', js ''Aktywne sesje'')]"

definition pl_17 :: messages where
  "pl_17 = [
    (''sessions.intro'', js ''Wszystkie miejsca, w kt`00F3rych to konto jest zalogowane. Wyloguj te, kt`00F3rych nie rozpoznajesz, a potem zmie`0144 has`0142o.''),
    (''sessions.device'', js ''Urz`0105dzenie''),
    (''sessions.ip'', js ''Adres IP''),
    (''sessions.started'', js ''Pocz`0105tek''),
    (''sessions.last_seen'', js ''Ostatnia aktywno`015B`0107''),
    (''sessions.current'', js ''ta sesja''),
    (''sessions.pending'', js ''tylko has`0142o, bez drugiego kroku''),
    (''sessions.bound'', js ''powi`0105zana z tym urz`0105dzeniem''),
    (''sessions.factor'', js ''drugi krok: {factor}''),
    (''sessions.via.totp'', js ''kod z aplikacji''),
    (''sessions.via.recovery'', js ''kod odzyskiwania''),
    (''sessions.via.passkey'', js ''klucz dost`0119pu''),
    (''sessions.unknown_device'', js ''Nieznane urz`0105dzenie''),
    (''sessions.revoke'', js ''Wyloguj''),
    (''sessions.revoke_others'', js ''Wyloguj wszystkie pozosta`0142e sesje''),
    (''sessions.revoked'', js ''Sesja zosta`0142a wylogowana.''),
    (''sessions.revoked_others'', js ''Wszystkie pozosta`0142e sesje zosta`0142y wylogowane.'')]"

definition pl_messages :: messages where
  "pl_messages = pl_1 @ pl_2 @ pl_3 @ pl_4 @ pl_5 @ pl_6 @ pl_7 @ pl_8 @ pl_9 @ pl_10 @ pl_11 @ pl_12 @ pl_13 @ pl_14 @ pl_15 @ pl_16 @ pl_17"

lemmas pl_defs =
  pl_1_def pl_2_def pl_3_def pl_4_def pl_5_def pl_6_def pl_7_def pl_8_def pl_9_def pl_10_def pl_11_def pl_12_def pl_13_def pl_14_def
  pl_15_def pl_16_def pl_17_def

lemma pl_fits: "fits pl_messages message_shape"
  unfolding pl_messages_def message_shape_def
  by (intro fits_append; unfold pl_defs shape_defs; simp only: fits_rules cong: literal_congs)

end
