(* ===== verification/Locale_Pt.thy ===== *)
theory Locale_Pt
  imports Locale_En
begin

text \<open>src/locales/pt.ts: Portuguese.\<close>

definition pt_1 :: messages where
  "pt_1 = [
    (''app.tagline'', js ''caixa privada de rece`00E7`00E3o de ficheiros''),
    (''common.back_to_cases'', js ''`2190 Processos''),
    (''common.home'', js ''In`00EDcio''),
    (''common.copy'', js ''Copiar''),
    (''common.copied'', js ''Copiado''),
    (''common.copy_manual'', js ''Selecione e copie manualmente''),
    (''common.save'', js ''Guardar''),
    (''common.create'', js ''Criar''),
    (''common.cancel'', js ''Cancelar''),
    (''common.retry'', js ''Tentar novamente''),
    (''common.never'', js ''nunca''),
    (''common.unlimited'', js ''sem validade''),
    (''common.none'', js ''`2014''),
    (''common.optional'', js ''opcional''),
    (''common.loading'', js ''A carregar`2026''),
    (''common.yes'', js ''Sim''),
    (''common.language'', js ''Idioma''),
    (''nav.cases'', js ''Processos''),
    (''nav.audit'', js ''Registo de auditoria''),
    (''nav.security'', js ''Seguran`00E7a'')]"

definition pt_2 :: messages where
  "pt_2 = [
    (''nav.logout'', js ''Terminar sess`00E3o''),
    (''error.not_found.title'', js ''N`00E3o encontrado''),
    (''error.page_missing'', js ''Esta p`00E1gina n`00E3o existe.''),
    (''error.case_missing'', js ''Este processo n`00E3o existe.''),
    (''error.link_missing'', js ''Esta liga`00E7`00E3o n`00E3o existe.''),
    (''error.file_missing'', js ''O ficheiro n`00E3o existe ou n`00E3o est`00E1 dispon`00EDvel.''),
    (''error.file_not_exist'', js ''O ficheiro n`00E3o existe.''),
    (''error.storage_missing.title'', js ''Ficheiro em falta no armazenamento''),
    (''error.storage_missing'', js ''Os metadados existem, mas o objeto desapareceu do armazenamento. Execute a limpeza para marcar o ficheiro como em falta.''),
    (''error.server.title'', js ''Erro do servidor''),
    (''error.server'', js ''Ocorreu um erro inesperado.''),
    (''error.bad_request.title'', js ''Pedido inv`00E1lido''),
    (''error.cross_site'', js ''Pedido entre sites bloqueado''),
    (''error.csrf'', js ''Token CSRF inv`00E1lido''),
    (''error.invalid_expiry'', js ''Data de validade inv`00E1lida''),
    (''link.invalid.title'', js ''Liga`00E7`00E3o inv`00E1lida''),
    (''link.invalid'', js ''Esta liga`00E7`00E3o de envio n`00E3o existe.''),
    (''link.unavailable.title'', js ''Liga`00E7`00E3o indispon`00EDvel''),
    (''link.expired'', js ''Esta liga`00E7`00E3o expirou.''),
    (''link.revoked'', js ''Esta liga`00E7`00E3o foi revogada.'')]"

definition pt_3 :: messages where
  "pt_3 = [
    (''link.case_closed'', js ''O processo foi fechado e j`00E1 n`00E3o aceita ficheiros.''),
    (''link.contact'', js ''Contacte a pessoa que lhe deu a liga`00E7`00E3o.''),
    (''login.title'', js ''In`00EDcio de sess`00E3o do administrador''),
    (''login.username'', js ''Nome de utilizador''),
    (''login.password'', js ''Palavra-passe''),
    (''login.submit'', js ''Iniciar sess`00E3o''),
    (''login.failed'', js ''Nome de utilizador ou palavra-passe inv`00E1lidos.''),
    (''login.too_many_codes'', js ''Demasiados c`00F3digos errados. Inicie sess`00E3o novamente.''),
    (''login.account_locked'', js ''Demasiados c`00F3digos errados para esta conta. O segundo fator fica bloqueado durante 15 minutos.''),
    (''totp.title'', js ''C`00F3digo da sua aplica`00E7`00E3o de autentica`00E7`00E3o''),
    (''totp.code_label'', js ''C`00F3digo (6 d`00EDgitos) ou c`00F3digo de recupera`00E7`00E3o''),
    (''totp.confirm'', js ''Confirmar''),
    (''totp.cancel_logout'', js ''Cancelar e terminar sess`00E3o''),
    (''totp.invalid'', js ''C`00F3digo inv`00E1lido.''),
    (''totp.attempts_left'', js ''Tentativas restantes: {n}.''),
    (''totp.locked_until'', js ''A conta est`00E1 temporariamente bloqueada ap`00F3s muitos c`00F3digos errados (at`00E9 `00E0s {until} UTC).''),
    (''security.title'', js ''Seguran`00E7a da conta `00AB{user}`00BB''),
    (''security.required_notice'', js ''Esta inst`00E2ncia requer um segundo fator. O painel permanece inacess`00EDvel at`00E9 adicionar uma aplica`00E7`00E3o de autentica`00E7`00E3o ou uma chave de acesso abaixo.''),
    (''security.status'', js ''Autentica`00E7`00E3o de dois fatores (TOTP, RFC 6238): {state}.''),
    (''security.enabled'', js ''ativada'')]"

definition pt_4 :: messages where
  "pt_4 = [
    (''security.disabled'', js ''desativada''),
    (''security.recovery_left'', js ''C`00F3digos de recupera`00E7`00E3o por usar: {n}.''),
    (''security.recovery.title'', js ''C`00F3digos de recupera`00E7`00E3o''),
    (''security.recovery.intro'', js ''Guarde-os agora num local seguro. Cada um funciona uma `00FAnica vez e substitui o c`00F3digo da aplica`00E7`00E3o se perder o acesso a ela. N`00E3o voltar`00E3o a ser mostrados.''),
    (''security.enable.title'', js ''Ativar TOTP''),
    (''security.enable.intro'', js ''Precisa de uma aplica`00E7`00E3o de autentica`00E7`00E3o (p. ex. Aegis, Google Authenticator, 1Password, Bitwarden). Depois de ativado, o in`00EDcio de sess`00E3o exige a palavra-passe e um c`00F3digo atual.''),
    (''security.enable.start'', js ''Iniciar configura`00E7`00E3o''),
    (''security.step1'', js ''Passo 1: leia o c`00F3digo com a sua aplica`00E7`00E3o''),
    (''security.manual_key'', js ''Ou introduza a chave manualmente:''),
    (''security.key_params'', js ''Tipo: TOTP, SHA-1, 6 d`00EDgitos, 30 s. Emissor: {issuer}, conta: {user}.''),
    (''security.open_in_app'', js ''Abrir na aplica`00E7`00E3o de autentica`00E7`00E3o''),
    (''security.on_phone'', js ''(num telem`00F3vel)''),
    (''security.step2'', js ''Passo 2: confirme com um c`00F3digo''),
    (''security.code_from_app'', js ''C`00F3digo da aplica`00E7`00E3o''),
    (''security.enable.submit'', js ''Ativar TOTP''),
    (''security.pending_note'', js ''A chave `00E9 provis`00F3ria at`00E9 ser confirmada; reiniciar a configura`00E7`00E3o gera uma nova.''),
    (''security.current_code'', js ''C`00F3digo atual da aplica`00E7`00E3o''),
    (''security.regenerate'', js ''Gerar novos c`00F3digos (os antigos deixam de funcionar)''),
    (''security.disable.title'', js ''Desativar TOTP''),
    (''security.disable.intro'', js ''Requer um c`00F3digo atual da aplica`00E7`00E3o ou um c`00F3digo de recupera`00E7`00E3o: a sess`00E3o por si s`00F3 (p. ex. um cookie roubado) n`00E3o basta. Se a aplica`00E7`00E3o e os c`00F3digos de recupera`00E7`00E3o se perderem, um operador pode executar {cmd} no servidor.'')]"

definition pt_5 :: messages where
  "pt_5 = [
    (''security.disable.code'', js ''C`00F3digo''),
    (''security.disable.submit'', js ''Desativar''),
    (''security.disable.confirm'', js ''Desativar a autentica`00E7`00E3o de dois fatores?''),
    (''security.msg.enabled'', js ''A autentica`00E7`00E3o de dois fatores est`00E1 ativada.''),
    (''security.msg.code_mismatch'', js ''O c`00F3digo n`00E3o corresponde. Verifique a hora do telem`00F3vel e tente novamente.''),
    (''security.msg.invalid_code'', js ''C`00F3digo inv`00E1lido.''),
    (''security.msg.regenerated'', js ''Foram gerados novos c`00F3digos de recupera`00E7`00E3o.''),
    (''security.msg.required'', js ''Esta inst`00E2ncia exige TOTP (ADMIN_REQUIRE_TOTP); n`00E3o pode ser desativado.''),
    (''security.msg.disabled'', js ''A autentica`00E7`00E3o de dois fatores foi desativada.''),
    (''security.password.title'', js ''Alterar palavra-passe''),
    (''security.password.current'', js ''Palavra-passe atual''),
    (''security.password.new'', js ''Nova palavra-passe (m`00EDn. 12 caracteres)''),
    (''security.password.confirm'', js ''Confirmar a nova palavra-passe''),
    (''security.password.submit'', js ''Alterar palavra-passe''),
    (''security.password.mismatch'', js ''A nova palavra-passe e a confirma`00E7`00E3o n`00E3o coincidem.''),
    (''security.password.invalid_current'', js ''A palavra-passe atual est`00E1 incorreta.''),
    (''security.password.changed'', js ''Palavra-passe alterada. As outras sess`00F5es desta conta foram terminadas.''),
    (''home.title'', js ''inletbox''),
    (''home.message'', js ''Esta `00E9 uma caixa privada de rece`00E7`00E3o de ficheiros. Para enviar ficheiros, utilize a liga`00E7`00E3o que lhe foi dada pela pessoa que os pediu.''),
    (''cases.new'', js ''Novo processo'')]"

definition pt_6 :: messages where
  "pt_6 = [
    (''cases.name'', js ''Nome''),
    (''cases.name_placeholder'', js ''p. ex. Auditoria 2026/09 `2013 Cliente X''),
    (''cases.description_optional'', js ''Descri`00E7`00E3o (opcional)''),
    (''cases.description'', js ''Descri`00E7`00E3o''),
    (''cases.list'', js ''Processos''),
    (''cases.empty'', js ''Sem processos.''),
    (''cases.col.name'', js ''Nome''),
    (''cases.col.status'', js ''Estado''),
    (''cases.col.links'', js ''Liga`00E7`00F5es ativas''),
    (''cases.col.files'', js ''Ficheiros''),
    (''cases.col.size'', js ''Tamanho''),
    (''cases.col.created'', js ''Criado''),
    (''case.open'', js ''aberto''),
    (''case.closed'', js ''fechado''),
    (''case.close'', js ''Fechar processo''),
    (''case.reopen'', js ''Reabrir''),
    (''case.meta'', js ''ID: {id} `00B7 criado em {date}. Um processo fechado n`00E3o aceita envios por nenhuma das suas liga`00E7`00F5es.''),
    (''case.saved'', js ''Guardado.''),
    (''case.closed_no_links'', js ''O processo est`00E1 fechado `2013 reabra-o para gerar liga`00E7`00F5es.''),
    (''case.new_link.title'', js ''Nova liga`00E7`00E3o para `00AB{label}`00BB'')]"

definition pt_7 :: messages where
  "pt_7 = [
    (''case.new_link.intro'', js ''Copie-a agora. O token `00E9 guardado apenas como hash e n`00E3o pode ser recuperado mais tarde `2013 s`00F3 poder`00E1 gerar uma nova liga`00E7`00E3o.''),
    (''case.new_link.copy_now'', js ''Copie-a agora.''),
    (''links.title'', js ''Liga`00E7`00F5es de envio''),
    (''links.intro'', js ''Cada liga`00E7`00E3o `00E9 um destinat`00E1rio distinto e um `00E2mbito de visibilidade distinto: quem tem a liga`00E7`00E3o v`00EA apenas os ficheiros enviados atrav`00E9s dela e n`00E3o os pode descarregar nem eliminar. Todos os que conhecem a mesma liga`00E7`00E3o t`00EAm exatamente o mesmo acesso `2013 a aplica`00E7`00E3o n`00E3o distingue as pessoas que usam a mesma liga`00E7`00E3o.''),
    (''links.generate'', js ''Gerar uma nova liga`00E7`00E3o''),
    (''links.label'', js ''Designa`00E7`00E3o do destinat`00E1rio''),
    (''links.label_placeholder'', js ''p. ex. Ana Silva `2013 contabilidade''),
    (''links.expires'', js ''V`00E1lida at`00E9 (UTC, opcional)''),
    (''links.max_file'', js ''Tamanho m`00E1x. do ficheiro (opcional, `2264 {max})''),
    (''links.max_file_placeholder'', js ''p. ex. 500MB''),
    (''links.max_files'', js ''N.`00BA m`00E1x. de ficheiros (opcional)''),
    (''links.max_total'', js ''Tamanho total m`00E1x. (opcional)''),
    (''links.max_total_placeholder'', js ''p. ex. 2GB''),
    (''links.submit'', js ''Gerar liga`00E7`00E3o''),
    (''links.empty'', js ''Sem liga`00E7`00F5es.''),
    (''links.col.recipient'', js ''Destinat`00E1rio''),
    (''links.col.state'', js ''Estado''),
    (''links.col.expires'', js ''V`00E1lida at`00E9''),
    (''links.col.limits'', js ''Limites''),
    (''links.col.usage'', js ''Utiliza`00E7`00E3o'')]"

definition pt_8 :: messages where
  "pt_8 = [
    (''links.col.last_used'', js ''`00DAltima utiliza`00E7`00E3o''),
    (''links.state.active'', js ''ativa''),
    (''links.state.expired'', js ''expirada''),
    (''links.state.revoked'', js ''revogada''),
    (''links.state.case_closed'', js ''processo fechado''),
    (''links.limit.file'', js ''ficheiro `2264 {max}''),
    (''links.limit.files'', js ''ficheiros `2264 {n}''),
    (''links.limit.total'', js ''total `2264 {max}''),
    (''links.usage'', js ''{n} ficheiros, {size}''),
    (''links.usage_in_progress'', js ''{n} em curso ({size} reservados)''),
    (''links.revoke'', js ''Revogar''),
    (''links.revoke_confirm'', js ''Revogar a liga`00E7`00E3o `00AB{label}`00BB? Os envios em curso ser`00E3o interrompidos.''),
    (''files.title'', js ''Ficheiros''),
    (''files.empty'', js ''Sem ficheiros.''),
    (''files.col.name'', js ''Nome''),
    (''files.col.recipient'', js ''Destinat`00E1rio (liga`00E7`00E3o)''),
    (''files.col.size'', js ''Tamanho''),
    (''files.col.status'', js ''Estado''),
    (''files.col.uploaded'', js ''Enviado''),
    (''files.declared'', js ''{size} (declarado)'')]"

definition pt_9 :: messages where
  "pt_9 = [
    (''files.download'', js ''Descarregar''),
    (''files.delete'', js ''Eliminar''),
    (''files.delete_confirm'', js ''Eliminar o ficheiro `00AB{name}`00BB? Esta a`00E7`00E3o n`00E3o pode ser anulada.''),
    (''files.untrusted'', js ''Os ficheiros s`00E3o tratados como n`00E3o fidedignos: as transfer`00EAncias s`00E3o sempre anexos e nada `00E9 apresentado ou executado no servidor. A verifica`00E7`00E3o antiv`00EDrus n`00E3o faz parte desta vers`00E3o.''),
    (''files.status.uploading'', js ''em curso''),
    (''files.status.complete'', js ''conclu`00EDdo''),
    (''files.status.aborted'', js ''interrompido''),
    (''files.status.expired'', js ''expirado''),
    (''files.status.missing'', js ''em falta no armazenamento''),
    (''files.status.deleted'', js ''eliminado''),
    (''audit.title'', js ''Registo de auditoria (`00FAltimos {n})''),
    (''audit.col.time'', js ''Hora''),
    (''audit.col.actor'', js ''Autor''),
    (''audit.col.action'', js ''Evento''),
    (''audit.col.case'', js ''Processo''),
    (''audit.col.link'', js ''Liga`00E7`00E3o''),
    (''audit.col.file'', js ''Ficheiro''),
    (''audit.col.ip'', js ''IP''),
    (''audit.col.details'', js ''Detalhes''),
    (''upload.title'', js ''Envio: {case}'')]"

definition pt_10 :: messages where
  "pt_10 = [
    (''upload.link_for'', js ''Liga`00E7`00E3o para:''),
    (''upload.valid_until'', js ''v`00E1lida at`00E9 {date}''),
    (''upload.limit.file'', js ''Tamanho m`00E1ximo do ficheiro:''),
    (''upload.limit.files'', js ''N`00FAmero m`00E1ximo de ficheiros:''),
    (''upload.limit.total'', js ''Limite total de dados:''),
    (''upload.used_n'', js ''({n} usados)''),
    (''upload.used_size'', js ''({size} usados)''),
    (''upload.send'', js ''Enviar ficheiros''),
    (''upload.drop_here'', js ''Arraste os ficheiros para aqui''),
    (''upload.or'', js ''ou''),
    (''upload.choose'', js ''escolha no disco''),
    (''upload.resume_hint'', js ''Os ficheiros grandes s`00E3o enviados por partes e o envio pode ser retomado ap`00F3s uma quebra de liga`00E7`00E3o. Depois de recarregar a p`00E1gina, escolha novamente o mesmo ficheiro e o envio continua onde parou.''),
    (''upload.your_files'', js ''Os seus ficheiros''),
    (''upload.your_files_intro'', js ''V`00EA apenas os ficheiros enviados atrav`00E9s desta liga`00E7`00E3o. Aqui n`00E3o `00E9 poss`00EDvel descarreg`00E1-los nem elimin`00E1-los `2013 `00E9 o administrador que os recolhe.''),
    (''upload.col.name'', js ''Nome''),
    (''upload.col.size'', js ''Tamanho''),
    (''upload.col.date'', js ''Data''),
    (''upload.col.status'', js ''Estado''),
    (''upload.none_yet'', js ''Ainda n`00E3o foram enviados ficheiros.''),
    (''upload.list_failed'', js ''N`00E3o foi poss`00EDvel carregar a lista: {msg}'')]"

definition pt_11 :: messages where
  "pt_11 = [
    (''upload.terminal'', js ''Envio a partir do terminal''),
    (''upload.terminal_hint'', js ''(curl, scripts, transfer`00EAncias retom`00E1veis)''),
    (''upload.terminal_intro'', js ''Substitua {path} pelo caminho do seu ficheiro (os espa`00E7os n`00E3o s`00E3o problema). Um c`00F3digo de sa`00EDda diferente de zero indica erro; a resposta `00E9 JSON.''),
    (''upload.snippet.single'', js ''Um ficheiro''),
    (''upload.snippet.multi'', js ''V`00E1rios ficheiros''),
    (''upload.snippet.env'', js ''Token numa vari`00E1vel de ambiente (recomendado)''),
    (''upload.snippet.list'', js ''Listar os ficheiros enviados''),
    (''upload.snippet.resumable'', js ''Ficheiro grande com retoma (script {script})''),
    (''upload.history_warning'', js ''Aten`00E7`00E3o: um comando que cont`00E9m o token fica no hist`00F3rico da sua shell (p. ex. {file}). A variante export precedida de um espa`00E7o n`00E3o `00E9 registada quando {opt} est`00E1 definido. Trate esta liga`00E7`00E3o como uma palavra-passe e n`00E3o a partilhe.''),
    (''upload.path_placeholder'', js ''/caminho/para/ficheiro.pdf''),
    (''upload.path_placeholder2'', js ''/caminho/relatorio.pdf''),
    (''upload.path_placeholder3'', js ''/caminho/foto 1.jpg''),
    (''upload.path_placeholder_big'', js ''/caminho/para/ficheiro grande.iso''),
    (''upload.js.queued'', js ''em fila`2026''),
    (''upload.js.too_large'', js ''demasiado grande: limite {max}''),
    (''upload.js.error'', js ''erro: {msg}''),
    (''upload.js.starting'', js ''a iniciar`2026''),
    (''upload.js.resuming'', js ''a retomar o envio anterior`2026''),
    (''upload.js.retrying'', js ''a tentar novamente`2026''),
    (''upload.js.done'', js ''conclu`00EDdo'')]"

definition pt_12 :: messages where
  "pt_12 = [
    (''upload.js.finalising'', js ''todos os dados enviados, o servidor est`00E1 a concluir`2026''),
    (''upload.js.cancelled'', js ''cancelado''),
    (''upload.js.cancelled_local'', js ''cancelado (localmente)''),
    (''upload.js.status.uploading'', js ''em curso''),
    (''upload.js.status.complete'', js ''conclu`00EDdo''),
    (''nav.users'', js ''Utilizadores''),
    (''cases.empty_assigned'', js ''Ainda n`00E3o tem processos atribu`00EDdos. Um colega que trabalhe num processo, ou um administrador, pode atribuir-lhe esse processo, ou pode criar um novo acima.''),
    (''error.forbidden.title'', js ''N`00E3o permitido''),
    (''error.forbidden'', js ''Esta p`00E1gina `00E9 apenas para administradores.''),
    (''security.must_change_notice'', js ''A sua palavra-passe foi atribu`00EDda por um administrador. Defina a sua pr`00F3pria abaixo antes de continuar.''),
    (''members.title'', js ''Utilizadores atribu`00EDdos''),
    (''members.intro'', js ''Um utilizador s`00F3 v`00EA os processos que lhe est`00E3o atribu`00EDdos. Os administradores veem todos os processos.''),
    (''members.empty'', js ''Nenhum utilizador est`00E1 atribu`00EDdo a este processo `2014 s`00F3 os administradores o veem.''),
    (''members.user'', js ''Utilizador''),
    (''members.add'', js ''Atribuir''),
    (''members.added'', js ''A conta {username} est`00E1 agora atribu`00EDda a este processo.''),
    (''members.remove'', js ''Retirar''),
    (''members.remove_confirm'', js ''Retirar {username}? A conta deixar`00E1 de ver este processo.''),
    (''members.removed'', js ''A conta {username} j`00E1 n`00E3o tem acesso a este processo.''),
    (''members.none_assignable'', js ''N`00E3o resta nenhuma conta de utilizador por atribuir. Crie uma em {link}.'')]"

definition pt_13 :: messages where
  "pt_13 = [
    (''users.new'', js ''Nova conta''),
    (''users.list'', js ''Contas''),
    (''users.username'', js ''Nome de utilizador''),
    (''users.username_placeholder'', js ''p. ex. ana.silva@empresa.pt''),
    (''users.role'', js ''Fun`00E7`00E3o''),
    (''users.role.admin'', js ''Administrador''),
    (''users.role.user'', js ''Utilizador''),
    (''users.roles_hint'', js ''Um utilizador s`00F3 v`00EA e trabalha nos processos que lhe est`00E3o atribu`00EDdos. Um administrador v`00EA todos os processos, gere as contas e consulta o registo de auditoria. `00C9 gerada uma palavra-passe tempor`00E1ria, que tem de ser alterada no primeiro in`00EDcio de sess`00E3o.''),
    (''users.col.username'', js ''Conta''),
    (''users.col.status'', js ''Estado''),
    (''users.col.totp'', js ''Segundo fator''),
    (''users.col.cases'', js ''Processos''),
    (''users.col.last_login'', js ''`00DAltimo in`00EDcio de sess`00E3o''),
    (''users.status.active'', js ''ativa''),
    (''users.status.disabled'', js ''desativada''),
    (''users.status.must_change'', js ''palavra-passe por alterar''),
    (''users.you'', js ''voc`00EA''),
    (''users.all_cases'', js ''todos''),
    (''users.issued.title'', js ''Conta {username} criada''),
    (''users.issued.reset_title'', js ''Nova palavra-passe para {username}'')]"

definition pt_14 :: messages where
  "pt_14 = [
    (''users.issued.copy_now'', js ''Copie j`00E1 esta palavra-passe `2014 s`00F3 `00E9 mostrada uma vez.''),
    (''users.issued.intro'', js ''Entregue-a por um canal diferente do nome de utilizador. Tem de ser substitu`00EDda no primeiro in`00EDcio de sess`00E3o.''),
    (''users.make_admin'', js ''Tornar administrador''),
    (''users.make_user'', js ''Tornar utilizador''),
    (''users.role_confirm'', js ''Alterar a fun`00E7`00E3o da conta {username}?''),
    (''users.role_changed'', js ''A conta {username} tem agora a fun`00E7`00E3o: {role}.''),
    (''users.reset_password'', js ''Nova palavra-passe''),
    (''users.reset_password_confirm'', js ''Atribuir uma nova palavra-passe a {username}? A atual deixa de funcionar e todas as sess`00F5es da conta terminam.''),
    (''users.password_reset'', js ''Foi atribu`00EDda uma nova palavra-passe a {username} e a sess`00E3o da conta foi terminada.''),
    (''users.reset_totp'', js ''Repor 2FA''),
    (''users.reset_totp_confirm'', js ''Remover o segundo fator de {username}? Ser`00E1 configurado de novo ap`00F3s o pr`00F3ximo in`00EDcio de sess`00E3o.''),
    (''users.totp_reset'', js ''A autentica`00E7`00E3o de dois fatores foi removida da conta {username}.''),
    (''users.disable'', js ''Desativar''),
    (''users.disable_confirm'', js ''Desativar {username}? A sess`00E3o da conta termina e n`00E3o pode voltar a entrar at`00E9 ser reativada.''),
    (''users.disabled'', js ''A conta {username} foi desativada e a sess`00E3o terminada.''),
    (''users.enable'', js ''Reativar''),
    (''users.enabled'', js ''A conta {username} pode voltar a iniciar sess`00E3o.''),
    (''users.delete'', js ''Eliminar''),
    (''users.delete_confirm'', js ''Eliminar a conta {username}? As suas atribui`00E7`00F5es a processos desaparecem com ela; o registo de auditoria guarda o que fez.''),
    (''users.deleted'', js ''A conta {username} foi eliminada.'')]"

definition pt_15 :: messages where
  "pt_15 = [
    (''users.missing'', js ''Essa conta n`00E3o existe.''),
    (''users.not_self'', js ''Aqui n`00E3o pode alterar a sua pr`00F3pria conta `2014 a palavra-passe e a 2FA est`00E3o em Seguran`00E7a.''),
    (''users.last_admin'', js ''Tem de ficar pelo menos um administrador ativo.''),
    (''users.exists'', js ''J`00E1 existe uma conta chamada {username}.''),
    (''users.invalid_username'', js ''Um nome de utilizador tem 2`201364 caracteres: letras, algarismos e . _ @ -''),
    (''users.invalid_role'', js ''Fun`00E7`00E3o desconhecida.''),
    (''members.not_self'', js ''N`00E3o pode retirar-se a si pr`00F3prio. Pe`00E7a a outra pessoa do processo ou a um administrador.''),
    (''members.none_assignable_user'', js ''N`00E3o h`00E1 nenhuma outra conta de utilizador por atribuir.''),
    (''second.title'', js ''Segundo passo do in`00EDcio de sess`00E3o''),
    (''second.recovery_label'', js ''C`00F3digo de recupera`00E7`00E3o''),
    (''common.or'', js ''ou''),
    (''passkey.use'', js ''Usar uma chave de acesso''),
    (''passkey.unsupported'', js ''Este navegador n`00E3o suporta chaves de acesso.''),
    (''passkey.failed'', js ''N`00E3o foi poss`00EDvel verificar a chave de acesso. Tente novamente.''),
    (''passkey.cancelled'', js ''Cancelado. Tente novamente quando estiver pronto.''),
    (''confirm.title'', js ''Confirme a sua identidade''),
    (''confirm.intro'', js ''Esta a`00E7`00E3o requer uma confirma`00E7`00E3o recente. Fica v`00E1lida durante {minutes} minutos, para que n`00E3o lhe seja pedida novamente a cada passo.''),
    (''confirm.repeat'', js ''Ap`00F3s confirmar, repita o que estava a fazer.''),
    (''confirm.code_label'', js ''C`00F3digo da aplica`00E7`00E3o ou c`00F3digo de recupera`00E7`00E3o''),
    (''confirm.password_label'', js ''A sua palavra-passe'')]"

definition pt_16 :: messages where
  "pt_16 = [
    (''confirm.submit'', js ''Confirmar''),
    (''confirm.invalid'', js ''Os dados n`00E3o correspondem. Tente novamente.''),
    (''confirm.locked'', js ''Demasiados c`00F3digos errados para esta conta. Tente novamente daqui a 15 minutos.''),
    (''passkeys.title'', js ''Chaves de acesso''),
    (''passkeys.intro'', js ''Uma chave de acesso `00E9 guardada pelo seu dispositivo, pelo seu gestor de palavras-passe ou por uma chave de seguran`00E7a f`00EDsica, e n`00E3o pode ser intercetada por phishing. Funciona como segundo passo do in`00EDcio de sess`00E3o e para confirmar a`00E7`00F5es confidenciais.''),
    (''passkeys.none'', js ''Ainda n`00E3o existem chaves de acesso.''),
    (''passkeys.name'', js ''Nome''),
    (''passkeys.name_placeholder'', js ''p. ex. port`00E1til, chave de seguran`00E7a''),
    (''passkeys.added_at'', js ''Adicionada''),
    (''passkeys.last_used'', js ''`00DAltima utiliza`00E7`00E3o''),
    (''passkeys.add'', js ''Adicionar uma chave de acesso''),
    (''passkeys.remove'', js ''Remover''),
    (''passkeys.remove_confirm'', js ''Remover esta chave de acesso? As outras sess`00F5es desta conta ser`00E3o terminadas.''),
    (''passkeys.added'', js ''Chave de acesso `00AB{name}`00BB adicionada.''),
    (''passkeys.removed'', js ''Chave de acesso `00AB{name}`00BB removida. As outras sess`00F5es desta conta foram terminadas.''),
    (''passkeys.last_required'', js ''Esta inst`00E2ncia requer um segundo fator. Adicione outro antes de remover o `00FAltimo.''),
    (''passkeys.limit'', js ''Uma conta pode ter no m`00E1ximo {n} chaves de acesso.''),
    (''passkeys.duplicate'', js ''Esta chave de acesso j`00E1 se encontra registada.''),
    (''security.recovery.regenerate_confirmed'', js ''Gerar novos c`00F3digos (os antigos deixam de funcionar)''),
    (''sessions.title'', js ''Sess`00F5es ativas'')]"

definition pt_17 :: messages where
  "pt_17 = [
    (''sessions.intro'', js ''Todos os locais onde esta conta tem sess`00E3o iniciada. Termine qualquer sess`00E3o que n`00E3o reconhe`00E7a e depois altere a sua palavra-passe.''),
    (''sessions.device'', js ''Dispositivo''),
    (''sessions.ip'', js ''Endere`00E7o IP''),
    (''sessions.started'', js ''Iniciada''),
    (''sessions.last_seen'', js ''`00DAltima atividade''),
    (''sessions.current'', js ''esta sess`00E3o''),
    (''sessions.pending'', js ''apenas palavra-passe, segundo passo pendente''),
    (''sessions.bound'', js ''associada a este dispositivo''),
    (''sessions.factor'', js ''segundo passo: {factor}''),
    (''sessions.via.totp'', js ''c`00F3digo da app''),
    (''sessions.via.recovery'', js ''c`00F3digo de recupera`00E7`00E3o''),
    (''sessions.via.passkey'', js ''chave de acesso''),
    (''sessions.unknown_device'', js ''Dispositivo desconhecido''),
    (''sessions.revoke'', js ''Terminar sess`00E3o''),
    (''sessions.revoke_others'', js ''Terminar todas as outras sess`00F5es''),
    (''sessions.revoked'', js ''A sess`00E3o foi terminada.''),
    (''sessions.revoked_others'', js ''Todas as outras sess`00F5es foram terminadas.'')]"

definition pt_messages :: messages where
  "pt_messages = pt_1 @ pt_2 @ pt_3 @ pt_4 @ pt_5 @ pt_6 @ pt_7 @ pt_8 @ pt_9 @ pt_10 @ pt_11 @ pt_12 @ pt_13 @ pt_14 @ pt_15 @ pt_16 @ pt_17"

lemmas pt_defs =
  pt_1_def pt_2_def pt_3_def pt_4_def pt_5_def pt_6_def pt_7_def pt_8_def pt_9_def pt_10_def pt_11_def pt_12_def pt_13_def pt_14_def
  pt_15_def pt_16_def pt_17_def

lemma pt_fits: "fits pt_messages message_shape"
  unfolding pt_messages_def message_shape_def
  by (intro fits_append; unfold pt_defs shape_defs; simp only: fits_rules cong: literal_congs)

end
