(* ===== verification/Locale_Ro.thy ===== *)
theory Locale_Ro
  imports Locale_En
begin

text \<open>src/locales/ro.ts: Romanian.\<close>

definition ro_1 :: messages where
  "ro_1 = [
    (''app.tagline'', js ''cutie privat`0103 pentru depunerea fi`0219ierelor''),
    (''common.back_to_cases'', js ''`2190 Dosare''),
    (''common.home'', js ''Acas`0103''),
    (''common.copy'', js ''Copiaz`0103''),
    (''common.copied'', js ''Copiat''),
    (''common.copy_manual'', js ''Selecta`021Bi `0219i copia`021Bi manual''),
    (''common.save'', js ''Salveaz`0103''),
    (''common.create'', js ''Creeaz`0103''),
    (''common.cancel'', js ''Anuleaz`0103''),
    (''common.retry'', js ''Re`00EEncearc`0103''),
    (''common.never'', js ''niciodat`0103''),
    (''common.unlimited'', js ''f`0103r`0103 expirare''),
    (''common.none'', js ''`2014''),
    (''common.optional'', js ''op`021Bional''),
    (''common.loading'', js ''Se `00EEncarc`0103`2026''),
    (''common.yes'', js ''Da''),
    (''common.language'', js ''Limb`0103''),
    (''nav.cases'', js ''Dosare''),
    (''nav.audit'', js ''Jurnal de audit''),
    (''nav.security'', js ''Securitate'')]"

definition ro_2 :: messages where
  "ro_2 = [
    (''nav.logout'', js ''Deconectare''),
    (''error.not_found.title'', js ''Neg`0103sit''),
    (''error.page_missing'', js ''Aceast`0103 pagin`0103 nu exist`0103.''),
    (''error.case_missing'', js ''Acest dosar nu exist`0103.''),
    (''error.link_missing'', js ''Acest link nu exist`0103.''),
    (''error.file_missing'', js ''Fi`0219ierul nu exist`0103 sau nu este disponibil.''),
    (''error.file_not_exist'', js ''Fi`0219ierul nu exist`0103.''),
    (''error.storage_missing.title'', js ''Fi`0219ier lips`0103 din stocare''),
    (''error.storage_missing'', js ''Metadatele exist`0103, dar obiectul a disp`0103rut din stocare. Rula`021Bi cur`0103`021Barea pentru a marca fi`0219ierul ca lips`0103.''),
    (''error.server.title'', js ''Eroare de server''),
    (''error.server'', js ''A ap`0103rut o eroare nea`0219teptat`0103.''),
    (''error.bad_request.title'', js ''Cerere gre`0219it`0103''),
    (''error.cross_site'', js ''Cerere de pe alt site blocat`0103''),
    (''error.csrf'', js ''Token CSRF nevalid''),
    (''error.invalid_expiry'', js ''Dat`0103 de expirare nevalid`0103''),
    (''link.invalid.title'', js ''Link nevalid''),
    (''link.invalid'', js ''Acest link de `00EEnc`0103rcare nu exist`0103.''),
    (''link.unavailable.title'', js ''Link indisponibil''),
    (''link.expired'', js ''Acest link a expirat.''),
    (''link.revoked'', js ''Acest link a fost revocat.'')]"

definition ro_3 :: messages where
  "ro_3 = [
    (''link.case_closed'', js ''Dosarul a fost `00EEnchis `0219i nu mai accept`0103 fi`0219iere.''),
    (''link.contact'', js ''Contacta`021Bi persoana care v-a dat linkul.''),
    (''login.title'', js ''Autentificare administrator''),
    (''login.username'', js ''Nume de utilizator''),
    (''login.password'', js ''Parol`0103''),
    (''login.submit'', js ''Autentificare''),
    (''login.failed'', js ''Nume de utilizator sau parol`0103 nevalide.''),
    (''login.too_many_codes'', js ''Prea multe coduri gre`0219ite. Autentifica`021Bi-v`0103 din nou.''),
    (''login.account_locked'', js ''Prea multe coduri gre`0219ite pentru acest cont. Al doilea factor este blocat timp de 15 minute.''),
    (''totp.title'', js ''Codul din aplica`021Bia de autentificare''),
    (''totp.code_label'', js ''Cod (6 cifre) sau cod de recuperare''),
    (''totp.confirm'', js ''Confirm`0103''),
    (''totp.cancel_logout'', js ''Anuleaz`0103 `0219i deconecteaz`0103-te''),
    (''totp.invalid'', js ''Cod nevalid.''),
    (''totp.attempts_left'', js ''`00CEncerc`0103ri r`0103mase: {n}.''),
    (''totp.locked_until'', js ''Contul este blocat temporar dup`0103 multe coduri gre`0219ite (p`00E2n`0103 la {until} UTC).''),
    (''security.title'', js ''Securitatea contului `201E{user}`201D''),
    (''security.required_notice'', js ''Aceast`0103 instan`021B`0103 necesit`0103 un al doilea factor. Panoul r`0103m`00E2ne indisponibil p`00E2n`0103 c`00E2nd ad`0103uga`021Bi o aplica`021Bie de autentificare sau o cheie de acces mai jos.''),
    (''security.status'', js ''Autentificare `00EEn doi pa`0219i (TOTP, RFC 6238): {state}.''),
    (''security.enabled'', js ''activat`0103'')]"

definition ro_4 :: messages where
  "ro_4 = [
    (''security.disabled'', js ''dezactivat`0103''),
    (''security.recovery_left'', js ''Coduri de recuperare nefolosite: {n}.''),
    (''security.recovery.title'', js ''Coduri de recuperare''),
    (''security.recovery.intro'', js ''Salva`021Bi-le acum `00EEntr-un loc sigur. Fiecare func`021Bioneaz`0103 o singur`0103 dat`0103 `0219i `00EEnlocuie`0219te codul din aplica`021Bie dac`0103 pierde`021Bi accesul la aceasta. Nu vor mai fi afi`0219ate.''),
    (''security.enable.title'', js ''Activeaz`0103 TOTP''),
    (''security.enable.intro'', js ''Ave`021Bi nevoie de o aplica`021Bie de autentificare (de ex. Aegis, Google Authenticator, 1Password, Bitwarden). Dup`0103 activare, autentificarea necesit`0103 parola `0219i un cod curent.''),
    (''security.enable.start'', js ''`00CEncepe configurarea''),
    (''security.step1'', js ''Pasul 1: scana`021Bi codul `00EEn aplica`021Bie''),
    (''security.manual_key'', js ''Sau introduce`021Bi cheia manual:''),
    (''security.key_params'', js ''Tip: TOTP, SHA-1, 6 cifre, 30 s. Emitent: {issuer}, cont: {user}.''),
    (''security.open_in_app'', js ''Deschide `00EEn aplica`021Bia de autentificare''),
    (''security.on_phone'', js ''(pe telefon)''),
    (''security.step2'', js ''Pasul 2: confirma`021Bi cu un cod''),
    (''security.code_from_app'', js ''Codul din aplica`021Bie''),
    (''security.enable.submit'', js ''Activeaz`0103 TOTP''),
    (''security.pending_note'', js ''Cheia este provizorie p`00E2n`0103 la confirmare; repornirea configur`0103rii genereaz`0103 una nou`0103.''),
    (''security.current_code'', js ''Codul curent din aplica`021Bie''),
    (''security.regenerate'', js ''Genereaz`0103 coduri noi (cele vechi nu mai func`021Bioneaz`0103)''),
    (''security.disable.title'', js ''Dezactiveaz`0103 TOTP''),
    (''security.disable.intro'', js ''Necesit`0103 un cod curent din aplica`021Bie sau un cod de recuperare: sesiunea singur`0103 (de ex. un cookie furat) nu este suficient`0103. Dac`0103 s-au pierdut at`00E2t aplica`021Bia, c`00E2t `0219i codurile de recuperare, un operator poate rula {cmd} pe server.'')]"

definition ro_5 :: messages where
  "ro_5 = [
    (''security.disable.code'', js ''Cod''),
    (''security.disable.submit'', js ''Dezactiveaz`0103''),
    (''security.disable.confirm'', js ''Dezactiva`021Bi autentificarea `00EEn doi pa`0219i?''),
    (''security.msg.enabled'', js ''Autentificarea `00EEn doi pa`0219i este activat`0103.''),
    (''security.msg.code_mismatch'', js ''Codul nu corespunde. Verifica`021Bi ora telefonului `0219i `00EEncerca`021Bi din nou.''),
    (''security.msg.invalid_code'', js ''Cod nevalid.''),
    (''security.msg.regenerated'', js ''Au fost generate coduri de recuperare noi.''),
    (''security.msg.required'', js ''Aceast`0103 instan`021B`0103 necesit`0103 TOTP (ADMIN_REQUIRE_TOTP); nu poate fi dezactivat.''),
    (''security.msg.disabled'', js ''Autentificarea `00EEn doi pa`0219i a fost dezactivat`0103.''),
    (''security.password.title'', js ''Schimb`0103 parola''),
    (''security.password.current'', js ''Parola actual`0103''),
    (''security.password.new'', js ''Parola nou`0103 (min. 12 caractere)''),
    (''security.password.confirm'', js ''Confirma`021Bi parola nou`0103''),
    (''security.password.submit'', js ''Schimb`0103 parola''),
    (''security.password.mismatch'', js ''Parola nou`0103 `0219i confirmarea nu coincid.''),
    (''security.password.invalid_current'', js ''Parola actual`0103 este incorect`0103.''),
    (''security.password.changed'', js ''Parola a fost schimbat`0103. Celelalte sesiuni ale acestui cont au fost deconectate.''),
    (''home.title'', js ''inletbox''),
    (''home.message'', js ''Aceasta este o cutie privat`0103 pentru depunerea fi`0219ierelor. Pentru a `00EEnc`0103rca fi`0219iere, folosi`021Bi linkul primit de la persoana care le-a solicitat.''),
    (''cases.new'', js ''Dosar nou'')]"

definition ro_6 :: messages where
  "ro_6 = [
    (''cases.name'', js ''Nume''),
    (''cases.name_placeholder'', js ''de ex. Audit 2026/09 `2013 Client X''),
    (''cases.description_optional'', js ''Descriere (op`021Bional)''),
    (''cases.description'', js ''Descriere''),
    (''cases.list'', js ''Dosare''),
    (''cases.empty'', js ''Niciun dosar.''),
    (''cases.col.name'', js ''Nume''),
    (''cases.col.status'', js ''Stare''),
    (''cases.col.links'', js ''Linkuri active''),
    (''cases.col.files'', js ''Fi`0219iere''),
    (''cases.col.size'', js ''Dimensiune''),
    (''cases.col.created'', js ''Creat''),
    (''case.open'', js ''deschis''),
    (''case.closed'', js ''`00EEnchis''),
    (''case.close'', js ''`00CEnchide dosarul''),
    (''case.reopen'', js ''Redeschide''),
    (''case.meta'', js ''ID: {id} `00B7 creat {date}. Un dosar `00EEnchis nu accept`0103 `00EEnc`0103rc`0103ri prin niciunul dintre linkurile sale.''),
    (''case.saved'', js ''Salvat.''),
    (''case.closed_no_links'', js ''Dosarul este `00EEnchis `2013 redeschide`021Bi-l pentru a genera linkuri.''),
    (''case.new_link.title'', js ''Link nou pentru `201E{label}`201D'')]"

definition ro_7 :: messages where
  "ro_7 = [
    (''case.new_link.intro'', js ''Copia`021Bi-l acum. Tokenul este stocat doar ca hash `0219i nu poate fi recuperat ulterior `2013 pute`021Bi doar genera un link nou.''),
    (''case.new_link.copy_now'', js ''Copia`021Bi-l acum.''),
    (''links.title'', js ''Linkuri de `00EEnc`0103rcare''),
    (''links.intro'', js ''Fiecare link este un destinatar separat `0219i un domeniu de vizibilitate separat: cine are linkul vede doar fi`0219ierele trimise prin acel link `0219i nu le poate desc`0103rca sau `0219terge. To`021Bi cei care cunosc acela`0219i link au exact acela`0219i acces `2013 aplica`021Bia nu face distinc`021Bie `00EEntre persoanele care folosesc acela`0219i link.''),
    (''links.generate'', js ''Genereaz`0103 un link nou''),
    (''links.label'', js ''Eticheta destinatarului''),
    (''links.label_placeholder'', js ''de ex. Ana Popescu `2013 contabilitate''),
    (''links.expires'', js ''Valabil p`00E2n`0103 la (UTC, op`021Bional)''),
    (''links.max_file'', js ''Dimensiune max. a fi`0219ierului (op`021Bional, `2264 {max})''),
    (''links.max_file_placeholder'', js ''de ex. 500MB''),
    (''links.max_files'', js ''Num`0103r max. de fi`0219iere (op`021Bional)''),
    (''links.max_total'', js ''Dimensiune total`0103 max. (op`021Bional)''),
    (''links.max_total_placeholder'', js ''de ex. 2GB''),
    (''links.submit'', js ''Genereaz`0103 linkul''),
    (''links.empty'', js ''Niciun link.''),
    (''links.col.recipient'', js ''Destinatar''),
    (''links.col.state'', js ''Stare''),
    (''links.col.expires'', js ''Valabil p`00E2n`0103 la''),
    (''links.col.limits'', js ''Limite''),
    (''links.col.usage'', js ''Utilizare'')]"

definition ro_8 :: messages where
  "ro_8 = [
    (''links.col.last_used'', js ''Ultima utilizare''),
    (''links.state.active'', js ''activ''),
    (''links.state.expired'', js ''expirat''),
    (''links.state.revoked'', js ''revocat''),
    (''links.state.case_closed'', js ''dosar `00EEnchis''),
    (''links.limit.file'', js ''fi`0219ier `2264 {max}''),
    (''links.limit.files'', js ''fi`0219iere `2264 {n}''),
    (''links.limit.total'', js ''total `2264 {max}''),
    (''links.usage'', js ''fi`0219iere: {n}, {size}''),
    (''links.usage_in_progress'', js ''`00EEn curs: {n} ({size} rezerva`021Bi)''),
    (''links.revoke'', js ''Revoc`0103''),
    (''links.revoke_confirm'', js ''Revoca`021Bi linkul `201E{label}`201D? `00CEnc`0103rc`0103rile `00EEn curs vor fi `00EEntrerupte.''),
    (''files.title'', js ''Fi`0219iere''),
    (''files.empty'', js ''Niciun fi`0219ier.''),
    (''files.col.name'', js ''Nume''),
    (''files.col.recipient'', js ''Destinatar (link)''),
    (''files.col.size'', js ''Dimensiune''),
    (''files.col.status'', js ''Stare''),
    (''files.col.uploaded'', js ''`00CEnc`0103rcat''),
    (''files.declared'', js ''{size} (declarat`0103)'')]"

definition ro_9 :: messages where
  "ro_9 = [
    (''files.download'', js ''Descarc`0103''),
    (''files.delete'', js ''`0218terge''),
    (''files.delete_confirm'', js ''`0218terge`021Bi fi`0219ierul `201E{name}`201D? Ac`021Biunea nu poate fi anulat`0103.''),
    (''files.untrusted'', js ''Fi`0219ierele sunt tratate ca nesigure: desc`0103rc`0103rile sunt `00EEntotdeauna ata`0219amente, iar pe server nimic nu este afi`0219at sau executat. Scanarea antivirus nu face parte din aceast`0103 versiune.''),
    (''files.status.uploading'', js ''`00EEn curs''),
    (''files.status.complete'', js ''finalizat''),
    (''files.status.aborted'', js ''`00EEntrerupt''),
    (''files.status.expired'', js ''expirat''),
    (''files.status.missing'', js ''lips`0103 din stocare''),
    (''files.status.deleted'', js ''`0219ters''),
    (''audit.title'', js ''Jurnal de audit (ultimele {n})''),
    (''audit.col.time'', js ''Ora''),
    (''audit.col.actor'', js ''Actor''),
    (''audit.col.action'', js ''Eveniment''),
    (''audit.col.case'', js ''Dosar''),
    (''audit.col.link'', js ''Link''),
    (''audit.col.file'', js ''Fi`0219ier''),
    (''audit.col.ip'', js ''IP''),
    (''audit.col.details'', js ''Detalii''),
    (''upload.title'', js ''`00CEnc`0103rcare: {case}'')]"

definition ro_10 :: messages where
  "ro_10 = [
    (''upload.link_for'', js ''Link pentru:''),
    (''upload.valid_until'', js ''valabil p`00E2n`0103 la {date}''),
    (''upload.limit.file'', js ''Dimensiunea maxim`0103 a fi`0219ierului:''),
    (''upload.limit.files'', js ''Num`0103rul maxim de fi`0219iere:''),
    (''upload.limit.total'', js ''Limita total`0103 de date:''),
    (''upload.used_n'', js ''({n} folosite)''),
    (''upload.used_size'', js ''({size} folosi`021Bi)''),
    (''upload.send'', js ''`00CEncarc`0103 fi`0219iere''),
    (''upload.drop_here'', js ''Trage`021Bi fi`0219ierele aici''),
    (''upload.or'', js ''sau''),
    (''upload.choose'', js ''alege`021Bi de pe disc''),
    (''upload.resume_hint'', js ''Fi`0219ierele mari sunt trimise pe buc`0103`021Bi, iar `00EEnc`0103rcarea poate fi reluat`0103 dup`0103 o `00EEntrerupere a conexiunii. Dup`0103 re`00EEnc`0103rcarea paginii, alege`021Bi din nou acela`0219i fi`0219ier `0219i `00EEnc`0103rcarea continu`0103 de unde s-a oprit.''),
    (''upload.your_files'', js ''Fi`0219ierele dumneavoastr`0103''),
    (''upload.your_files_intro'', js ''Vede`021Bi doar fi`0219ierele `00EEnc`0103rcate prin acest link. Aici fi`0219ierele nu pot fi desc`0103rcate sau `0219terse `2013 le preia administratorul.''),
    (''upload.col.name'', js ''Nume''),
    (''upload.col.size'', js ''Dimensiune''),
    (''upload.col.date'', js ''Data''),
    (''upload.col.status'', js ''Stare''),
    (''upload.none_yet'', js ''Niciun fi`0219ier `00EEnc`0103rcat `00EEnc`0103.''),
    (''upload.list_failed'', js ''Lista nu a putut fi `00EEnc`0103rcat`0103: {msg}'')]"

definition ro_11 :: messages where
  "ro_11 = [
    (''upload.terminal'', js ''`00CEnc`0103rcare din terminal''),
    (''upload.terminal_hint'', js ''(curl, scripturi, transferuri reluabile)''),
    (''upload.terminal_intro'', js ''`00CEnlocui`021Bi {path} cu calea c`0103tre fi`0219ier (spa`021Biile nu sunt o problem`0103). Un cod de ie`0219ire diferit de zero `00EEnseamn`0103 eroare; r`0103spunsul este JSON.''),
    (''upload.snippet.single'', js ''Un fi`0219ier''),
    (''upload.snippet.multi'', js ''Mai multe fi`0219iere''),
    (''upload.snippet.env'', js ''Token `00EEntr-o variabil`0103 de mediu (recomandat)''),
    (''upload.snippet.list'', js ''Listeaz`0103 fi`0219ierele `00EEnc`0103rcate''),
    (''upload.snippet.resumable'', js ''Fi`0219ier mare cu reluare (script {script})''),
    (''upload.history_warning'', js ''Aten`021Bie: o comand`0103 care con`021Bine tokenul ajunge `00EEn istoricul shell-ului (de ex. {file}). Varianta cu export precedat`0103 de un spa`021Biu nu este `00EEnregistrat`0103 c`00E2nd {opt} este setat. Trata`021Bi acest link ca pe o parol`0103 `0219i nu `00EEl transmite`021Bi mai departe.''),
    (''upload.path_placeholder'', js ''/cale/catre/fisier.pdf''),
    (''upload.path_placeholder2'', js ''/cale/raport.pdf''),
    (''upload.path_placeholder3'', js ''/cale/foto 1.jpg''),
    (''upload.path_placeholder_big'', js ''/cale/catre/fisier mare.iso''),
    (''upload.js.queued'', js ''`00EEn coad`0103`2026''),
    (''upload.js.too_large'', js ''prea mare: limit`0103 {max}''),
    (''upload.js.error'', js ''eroare: {msg}''),
    (''upload.js.starting'', js ''se porne`0219te`2026''),
    (''upload.js.resuming'', js ''se reia `00EEnc`0103rcarea anterioar`0103`2026''),
    (''upload.js.retrying'', js ''se re`00EEncearc`0103`2026''),
    (''upload.js.done'', js ''finalizat'')]"

definition ro_12 :: messages where
  "ro_12 = [
    (''upload.js.finalising'', js ''toate datele au fost trimise, serverul finalizeaz`0103`2026''),
    (''upload.js.cancelled'', js ''anulat''),
    (''upload.js.cancelled_local'', js ''anulat (local)''),
    (''upload.js.status.uploading'', js ''`00EEn curs''),
    (''upload.js.status.complete'', js ''finalizat''),
    (''nav.users'', js ''Utilizatori''),
    (''cases.empty_assigned'', js ''`00CEnc`0103 nu vi s-a atribuit niciun dosar. Un coleg care lucreaz`0103 la un dosar sau un administrator v`0103 poate atribui acel dosar, sau pute`021Bi crea unul nou mai sus.''),
    (''error.forbidden.title'', js ''Nepermis''),
    (''error.forbidden'', js ''Aceast`0103 pagin`0103 este doar pentru administratori.''),
    (''security.must_change_notice'', js ''Parola v-a fost emis`0103 de un administrator. Seta`021Bi-v`0103 mai jos propria parol`0103 `00EEnainte de a continua.''),
    (''members.title'', js ''Utilizatori atribui`021Bi''),
    (''members.intro'', js ''Un utilizator vede doar dosarele care i-au fost atribuite. Administratorii v`0103d toate dosarele.''),
    (''members.empty'', js ''Niciun utilizator nu este atribuit acestui dosar `2014 `00EEl v`0103d doar administratorii.''),
    (''members.user'', js ''Utilizator''),
    (''members.add'', js ''Atribuie''),
    (''members.added'', js ''Contul {username} este acum atribuit acestui dosar.''),
    (''members.remove'', js ''Retrage''),
    (''members.remove_confirm'', js ''Retrage`021Bi {username}? Contul nu va mai vedea acest dosar.''),
    (''members.removed'', js ''Contul {username} nu mai are acces la acest dosar.''),
    (''members.none_assignable'', js ''Nu mai exist`0103 conturi de utilizator de atribuit. Crea`021Bi unul `00EEn {link}.'')]"

definition ro_13 :: messages where
  "ro_13 = [
    (''users.new'', js ''Cont nou''),
    (''users.list'', js ''Conturi''),
    (''users.username'', js ''Nume de utilizator''),
    (''users.username_placeholder'', js ''de ex. ana.popescu@firma.ro''),
    (''users.role'', js ''Rol''),
    (''users.role.admin'', js ''Administrator''),
    (''users.role.user'', js ''Utilizator''),
    (''users.roles_hint'', js ''Un utilizator vede `0219i lucreaz`0103 doar cu dosarele care i-au fost atribuite. Un administrator vede toate dosarele, gestioneaz`0103 conturile `0219i cite`0219te jurnalul de audit. Se genereaz`0103 o parol`0103 temporar`0103, care trebuie schimbat`0103 la prima autentificare.''),
    (''users.col.username'', js ''Cont''),
    (''users.col.status'', js ''Stare''),
    (''users.col.totp'', js ''Al doilea factor''),
    (''users.col.cases'', js ''Dosare''),
    (''users.col.last_login'', js ''Ultima autentificare''),
    (''users.status.active'', js ''activ''),
    (''users.status.disabled'', js ''dezactivat''),
    (''users.status.must_change'', js ''parol`0103 de schimbat''),
    (''users.you'', js ''dvs.''),
    (''users.all_cases'', js ''toate''),
    (''users.issued.title'', js ''Contul {username} a fost creat''),
    (''users.issued.reset_title'', js ''Parol`0103 nou`0103 pentru {username}'')]"

definition ro_14 :: messages where
  "ro_14 = [
    (''users.issued.copy_now'', js ''Copia`021Bi parola acum `2014 este afi`0219at`0103 o singur`0103 dat`0103.''),
    (''users.issued.intro'', js ''Transmite`021Bi-o pe alt canal dec`00E2t numele de utilizator. Trebuie `00EEnlocuit`0103 la prima autentificare.''),
    (''users.make_admin'', js ''F`0103 administrator''),
    (''users.make_user'', js ''F`0103 utilizator''),
    (''users.role_confirm'', js ''Schimba`021Bi rolul contului {username}?''),
    (''users.role_changed'', js ''Contul {username} are acum rolul: {role}.''),
    (''users.reset_password'', js ''Parol`0103 nou`0103''),
    (''users.reset_password_confirm'', js ''Emite`021Bi o parol`0103 nou`0103 pentru {username}? Cea actual`0103 nu mai func`021Bioneaz`0103 `0219i toate sesiunile contului se `00EEncheie.''),
    (''users.password_reset'', js ''S-a emis o parol`0103 nou`0103 pentru {username}, iar contul a fost deconectat.''),
    (''users.reset_totp'', js ''Reseteaz`0103 2FA''),
    (''users.reset_totp_confirm'', js ''Elimina`021Bi al doilea factor al contului {username}? Va fi configurat din nou dup`0103 urm`0103toarea autentificare.''),
    (''users.totp_reset'', js ''Autentificarea `00EEn doi pa`0219i a fost eliminat`0103 din contul {username}.''),
    (''users.disable'', js ''Dezactiveaz`0103''),
    (''users.disable_confirm'', js ''Dezactiva`021Bi {username}? Contul este deconectat `0219i nu se poate autentifica p`00E2n`0103 nu este reactivat.''),
    (''users.disabled'', js ''Contul {username} a fost dezactivat `0219i deconectat.''),
    (''users.enable'', js ''Reactiveaz`0103''),
    (''users.enabled'', js ''Contul {username} se poate autentifica din nou.''),
    (''users.delete'', js ''`0218terge''),
    (''users.delete_confirm'', js ''`0218terge`021Bi contul {username}? Atribuirile sale la dosare dispar odat`0103 cu el; jurnalul de audit p`0103streaz`0103 ce a f`0103cut.''),
    (''users.deleted'', js ''Contul {username} a fost `0219ters.'')]"

definition ro_15 :: messages where
  "ro_15 = [
    (''users.missing'', js ''Acest cont nu exist`0103.''),
    (''users.not_self'', js ''Aici nu v`0103 pute`021Bi modifica propriul cont `2014 parola `0219i 2FA sunt la Securitate.''),
    (''users.last_admin'', js ''Trebuie s`0103 r`0103m`00E2n`0103 cel pu`021Bin un administrator activ.''),
    (''users.exists'', js ''Exist`0103 deja un cont numit {username}.''),
    (''users.invalid_username'', js ''Un nume de utilizator are 2`201364 de caractere: litere, cifre `0219i . _ @ -''),
    (''users.invalid_role'', js ''Rol necunoscut.''),
    (''members.not_self'', js ''Nu v`0103 pute`021Bi retrage pe dumneavoastr`0103 `00EEn`0219iv`0103. Cere`021Bi acest lucru altei persoane de la dosar sau unui administrator.''),
    (''members.none_assignable_user'', js ''Nu exist`0103 niciun alt cont de utilizator de atribuit.''),
    (''second.title'', js ''Al doilea pas al autentific`0103rii''),
    (''second.recovery_label'', js ''Cod de recuperare''),
    (''common.or'', js ''sau''),
    (''passkey.use'', js ''Folosi`021Bi o cheie de acces''),
    (''passkey.unsupported'', js ''Acest browser nu accept`0103 chei de acces.''),
    (''passkey.failed'', js ''Cheia de acces nu a putut fi verificat`0103. `00CEncerca`021Bi din nou.''),
    (''passkey.cancelled'', js ''Anulat. `00CEncerca`021Bi din nou c`00E2nd sunte`021Bi gata.''),
    (''confirm.title'', js ''Confirma`021Bi c`0103 sunte`021Bi dumneavoastr`0103''),
    (''confirm.intro'', js ''Aceast`0103 ac`021Biune necesit`0103 o confirmare recent`0103. R`0103m`00E2ne valabil`0103 timp de {minutes} minute, astfel `00EEnc`00E2t s`0103 nu vi se mai cear`0103 la fiecare pas.''),
    (''confirm.repeat'', js ''Dup`0103 confirmare, repeta`021Bi ceea ce f`0103cea`021Bi.''),
    (''confirm.code_label'', js ''Codul din aplica`021Bie sau un cod de recuperare''),
    (''confirm.password_label'', js ''Parola dumneavoastr`0103'')]"

definition ro_16 :: messages where
  "ro_16 = [
    (''confirm.submit'', js ''Confirm`0103''),
    (''confirm.invalid'', js ''Nu s-a potrivit. `00CEncerca`021Bi din nou.''),
    (''confirm.locked'', js ''Prea multe coduri gre`0219ite pentru acest cont. `00CEncerca`021Bi din nou peste 15 minute.''),
    (''passkeys.title'', js ''Chei de acces''),
    (''passkeys.intro'', js ''O cheie de acces este p`0103strat`0103 de dispozitivul dvs., de managerul de parole sau de o cheie de securitate fizic`0103 `0219i nu poate fi sustras`0103 prin phishing. Func`021Bioneaz`0103 ca al doilea pas al autentific`0103rii `0219i pentru a confirma ac`021Biuni sensibile.''),
    (''passkeys.none'', js ''`00CEnc`0103 nu exist`0103 chei de acces.''),
    (''passkeys.name'', js ''Nume''),
    (''passkeys.name_placeholder'', js ''de ex. laptop, cheie de securitate''),
    (''passkeys.added_at'', js ''Ad`0103ugat`0103''),
    (''passkeys.last_used'', js ''Ultima utilizare''),
    (''passkeys.add'', js ''Ad`0103uga`021Bi o cheie de acces''),
    (''passkeys.remove'', js ''Elimin`0103''),
    (''passkeys.remove_confirm'', js ''Elimina`021Bi aceast`0103 cheie de acces? Celelalte sesiuni ale acestui cont vor fi deconectate.''),
    (''passkeys.added'', js ''Cheia de acces `201E{name}`201D a fost ad`0103ugat`0103.''),
    (''passkeys.removed'', js ''Cheia de acces `201E{name}`201D a fost eliminat`0103. Celelalte sesiuni ale acestui cont au fost deconectate.''),
    (''passkeys.last_required'', js ''Aceast`0103 instan`021B`0103 necesit`0103 un al doilea factor. Ad`0103uga`021Bi altul `00EEnainte de a-l elimina pe ultimul.''),
    (''passkeys.limit'', js ''Un cont poate avea cel mult {n} chei de acces.''),
    (''passkeys.duplicate'', js ''Aceast`0103 cheie de acces este deja `00EEnregistrat`0103.''),
    (''security.recovery.regenerate_confirmed'', js ''Genereaz`0103 coduri noi (cele vechi nu mai func`021Bioneaz`0103)''),
    (''sessions.title'', js ''Sesiuni active'')]"

definition ro_17 :: messages where
  "ro_17 = [
    (''sessions.intro'', js ''Fiecare loc `00EEn care acest cont este conectat. Deconecta`021Bi-le pe cele pe care nu le recunoa`0219te`021Bi, apoi schimba`021Bi parola.''),
    (''sessions.device'', js ''Dispozitiv''),
    (''sessions.ip'', js ''Adres`0103 IP''),
    (''sessions.started'', js ''`00CEnceput`0103''),
    (''sessions.last_seen'', js ''Ultima activitate''),
    (''sessions.current'', js ''aceast`0103 sesiune''),
    (''sessions.pending'', js ''doar parol`0103, al doilea pas nefinalizat''),
    (''sessions.bound'', js ''asociat`0103 cu acest dispozitiv''),
    (''sessions.factor'', js ''al doilea pas: {factor}''),
    (''sessions.via.totp'', js ''cod din aplica`021Bie''),
    (''sessions.via.recovery'', js ''cod de recuperare''),
    (''sessions.via.passkey'', js ''cheie de acces''),
    (''sessions.unknown_device'', js ''Dispozitiv necunoscut''),
    (''sessions.revoke'', js ''Deconectare''),
    (''sessions.revoke_others'', js ''Deconecteaz`0103 toate celelalte sesiuni''),
    (''sessions.revoked'', js ''Sesiunea a fost deconectat`0103.''),
    (''sessions.revoked_others'', js ''Toate celelalte sesiuni au fost deconectate.'')]"

definition ro_messages :: messages where
  "ro_messages = ro_1 @ ro_2 @ ro_3 @ ro_4 @ ro_5 @ ro_6 @ ro_7 @ ro_8 @ ro_9 @ ro_10 @ ro_11 @ ro_12 @ ro_13 @ ro_14 @ ro_15 @ ro_16 @ ro_17"

lemmas ro_defs =
  ro_1_def ro_2_def ro_3_def ro_4_def ro_5_def ro_6_def ro_7_def ro_8_def ro_9_def ro_10_def ro_11_def ro_12_def ro_13_def ro_14_def
  ro_15_def ro_16_def ro_17_def

lemma ro_fits: "fits ro_messages message_shape"
  unfolding ro_messages_def message_shape_def
  by (intro fits_append; unfold ro_defs shape_defs; simp only: fits_rules cong: literal_congs)

end
