(* ===== verification/Locale_Sk.thy ===== *)
theory Locale_Sk
  imports Locale_En
begin

text \<open>src/locales/sk.ts: Slovak.\<close>

definition sk_1 :: messages where
  "sk_1 = [
    (''app.tagline'', js ''s`00FAkromn`00E1 schr`00E1nka na s`00FAbory''),
    (''common.back_to_cases'', js ''`2190 Pr`00EDpady''),
    (''common.home'', js ''`00DAvod''),
    (''common.copy'', js ''Kop`00EDrova`0165''),
    (''common.copied'', js ''Skop`00EDrovan`00E9''),
    (''common.copy_manual'', js ''Ozna`010Dte a skop`00EDrujte ru`010Dne''),
    (''common.save'', js ''Ulo`017Ei`0165''),
    (''common.create'', js ''Vytvori`0165''),
    (''common.cancel'', js ''Zru`0161i`0165''),
    (''common.retry'', js ''Sk`00FAsi`0165 znova''),
    (''common.never'', js ''nikdy''),
    (''common.unlimited'', js ''bez obmedzenia platnosti''),
    (''common.none'', js ''`2014''),
    (''common.optional'', js ''nepovinn`00E9''),
    (''common.loading'', js ''Na`010D`00EDtava sa`2026''),
    (''common.yes'', js ''`00C1no''),
    (''common.language'', js ''Jazyk''),
    (''nav.cases'', js ''Pr`00EDpady''),
    (''nav.audit'', js ''Auditn`00FD z`00E1znam''),
    (''nav.security'', js ''Zabezpe`010Denie'')]"

definition sk_2 :: messages where
  "sk_2 = [
    (''nav.logout'', js ''Odhl`00E1si`0165 sa''),
    (''error.not_found.title'', js ''Nen`00E1jden`00E9''),
    (''error.page_missing'', js ''T`00E1to str`00E1nka neexistuje.''),
    (''error.case_missing'', js ''Tento pr`00EDpad neexistuje.''),
    (''error.link_missing'', js ''Tento odkaz neexistuje.''),
    (''error.file_missing'', js ''S`00FAbor neexistuje alebo nie je dostupn`00FD.''),
    (''error.file_not_exist'', js ''S`00FAbor neexistuje.''),
    (''error.storage_missing.title'', js ''S`00FAbor ch`00FDba v `00FAlo`017Eisku''),
    (''error.storage_missing'', js ''Metad`00E1ta existuj`00FA, ale objekt z `00FAlo`017Eiska zmizol. Spustite `010Distenie, aby sa s`00FAbor ozna`010Dil ako ch`00FDbaj`00FAci.''),
    (''error.server.title'', js ''Chyba servera''),
    (''error.server'', js ''Vyskytla sa neo`010Dak`00E1van`00E1 chyba.''),
    (''error.bad_request.title'', js ''Chybn`00E1 po`017Eiadavka''),
    (''error.cross_site'', js ''Po`017Eiadavka z inej str`00E1nky bola zablokovan`00E1''),
    (''error.csrf'', js ''Neplatn`00FD token CSRF''),
    (''error.invalid_expiry'', js ''Neplatn`00FD d`00E1tum platnosti''),
    (''link.invalid.title'', js ''Neplatn`00FD odkaz''),
    (''link.invalid'', js ''Tento odkaz na nahr`00E1vanie neexistuje.''),
    (''link.unavailable.title'', js ''Odkaz nie je dostupn`00FD''),
    (''link.expired'', js ''Platnos`0165 tohto odkazu vypr`0161ala.''),
    (''link.revoked'', js ''Tento odkaz bol zru`0161en`00FD.'')]"

definition sk_3 :: messages where
  "sk_3 = [
    (''link.case_closed'', js ''Pr`00EDpad bol uzavret`00FD a u`017E neprij`00EDma s`00FAbory.''),
    (''link.contact'', js ''Obr`00E1`0165te sa na osobu, ktor`00E1 v`00E1m odkaz dala.''),
    (''login.title'', js ''Prihl`00E1senie spr`00E1vcu''),
    (''login.username'', js ''Pou`017E`00EDvate`013Esk`00E9 meno''),
    (''login.password'', js ''Heslo''),
    (''login.submit'', js ''Prihl`00E1si`0165 sa''),
    (''login.failed'', js ''Neplatn`00E9 pou`017E`00EDvate`013Esk`00E9 meno alebo heslo.''),
    (''login.too_many_codes'', js ''Pr`00EDli`0161 ve`013Ea nespr`00E1vnych k`00F3dov. Prihl`00E1ste sa znova.''),
    (''login.account_locked'', js ''Pr`00EDli`0161 ve`013Ea nespr`00E1vnych k`00F3dov pre tento `00FA`010Det. Druh`00FD faktor je na 15 min`00FAt zablokovan`00FD.''),
    (''totp.title'', js ''K`00F3d z va`0161ej overovacej aplik`00E1cie''),
    (''totp.code_label'', js ''K`00F3d (6 `010D`00EDslic) alebo z`00E1lo`017En`00FD k`00F3d''),
    (''totp.confirm'', js ''Potvrdi`0165''),
    (''totp.cancel_logout'', js ''Zru`0161i`0165 a odhl`00E1si`0165 sa''),
    (''totp.invalid'', js ''Neplatn`00FD k`00F3d.''),
    (''totp.attempts_left'', js ''Zost`00E1vaj`00FAce pokusy: {n}.''),
    (''totp.locked_until'', js ''`00DA`010Det je po mnoh`00FDch nespr`00E1vnych k`00F3doch do`010Dasne zablokovan`00FD (do {until} UTC).''),
    (''security.title'', js ''Zabezpe`010Denie `00FA`010Dtu `201E{user}`201C''),
    (''security.required_notice'', js ''T`00E1to in`0161tancia vy`017Eaduje druh`00FD faktor. Panel zostane nedostupn`00FD, k`00FDm ni`017E`0161ie neprid`00E1te overovaciu aplik`00E1ciu alebo pr`00EDstupov`00FD k`013E`00FA`010D.''),
    (''security.status'', js ''Dvojfaktorov`00E9 overenie (TOTP, RFC 6238): {state}.''),
    (''security.enabled'', js ''zapnut`00E9'')]"

definition sk_4 :: messages where
  "sk_4 = [
    (''security.disabled'', js ''vypnut`00E9''),
    (''security.recovery_left'', js ''Nepou`017Eit`00E9 z`00E1lo`017En`00E9 k`00F3dy: {n}.''),
    (''security.recovery.title'', js ''Z`00E1lo`017En`00E9 k`00F3dy''),
    (''security.recovery.intro'', js ''Ulo`017Ete si ich hne`010F na bezpe`010Dn`00E9 miesto. Ka`017Ed`00FD funguje raz a nahrad`00ED k`00F3d z aplik`00E1cie, ak k nej strat`00EDte pr`00EDstup. Znova sa u`017E nezobrazia.''),
    (''security.enable.title'', js ''Zapn`00FA`0165 TOTP''),
    (''security.enable.intro'', js ''Potrebujete overovaciu aplik`00E1ciu (napr. Aegis, Google Authenticator, 1Password, Bitwarden). Po zapnut`00ED prihl`00E1senie vy`017Eaduje heslo a aktu`00E1lny k`00F3d.''),
    (''security.enable.start'', js ''Za`010Da`0165 nastavenie''),
    (''security.step1'', js ''Krok 1: naskenujte k`00F3d v aplik`00E1cii''),
    (''security.manual_key'', js ''Alebo zadajte k`013E`00FA`010D ru`010Dne:''),
    (''security.key_params'', js ''Typ: TOTP, SHA-1, 6 `010D`00EDslic, 30 s. Vydavate`013E: {issuer}, `00FA`010Det: {user}.''),
    (''security.open_in_app'', js ''Otvori`0165 v overovacej aplik`00E1cii''),
    (''security.on_phone'', js ''(v telef`00F3ne)''),
    (''security.step2'', js ''Krok 2: potvr`010Fte k`00F3dom''),
    (''security.code_from_app'', js ''K`00F3d z aplik`00E1cie''),
    (''security.enable.submit'', js ''Zapn`00FA`0165 TOTP''),
    (''security.pending_note'', js ''K`013E`00FA`010D je do`010Dasn`00FD, k`00FDm ho nepotvrd`00EDte; nov`00E9 spustenie nastavenia vygeneruje nov`00FD.''),
    (''security.current_code'', js ''Aktu`00E1lny k`00F3d z aplik`00E1cie''),
    (''security.regenerate'', js ''Vygenerova`0165 nov`00E9 k`00F3dy (star`00E9 prestan`00FA fungova`0165)''),
    (''security.disable.title'', js ''Vypn`00FA`0165 TOTP''),
    (''security.disable.intro'', js ''Vy`017Eaduje aktu`00E1lny k`00F3d z aplik`00E1cie alebo z`00E1lo`017En`00FD k`00F3d: samotn`00E1 rel`00E1cia (napr. ukradnut`00FD s`00FAbor cookie) nesta`010D`00ED. Ak sa stratila aplik`00E1cia aj z`00E1lo`017En`00E9 k`00F3dy, prev`00E1dzkovate`013E m`00F4`017Ee na serveri spusti`0165 {cmd}.'')]"

definition sk_5 :: messages where
  "sk_5 = [
    (''security.disable.code'', js ''K`00F3d''),
    (''security.disable.submit'', js ''Vypn`00FA`0165''),
    (''security.disable.confirm'', js ''Vypn`00FA`0165 dvojfaktorov`00E9 overenie?''),
    (''security.msg.enabled'', js ''Dvojfaktorov`00E9 overenie je zapnut`00E9.''),
    (''security.msg.code_mismatch'', js ''K`00F3d nesed`00ED. Skontrolujte `010Das v telef`00F3ne a sk`00FAste to znova.''),
    (''security.msg.invalid_code'', js ''Neplatn`00FD k`00F3d.''),
    (''security.msg.regenerated'', js ''Boli vygenerovan`00E9 nov`00E9 z`00E1lo`017En`00E9 k`00F3dy.''),
    (''security.msg.required'', js ''T`00E1to in`0161tancia vy`017Eaduje TOTP (ADMIN_REQUIRE_TOTP); nemo`017Eno ho vypn`00FA`0165.''),
    (''security.msg.disabled'', js ''Dvojfaktorov`00E9 overenie bolo vypnut`00E9.''),
    (''security.password.title'', js ''Zmeni`0165 heslo''),
    (''security.password.current'', js ''S`00FA`010Dasn`00E9 heslo''),
    (''security.password.new'', js ''Nov`00E9 heslo (min. 12 znakov)''),
    (''security.password.confirm'', js ''Potvrdenie nov`00E9ho hesla''),
    (''security.password.submit'', js ''Zmeni`0165 heslo''),
    (''security.password.mismatch'', js ''Nov`00E9 heslo a jeho potvrdenie sa nezhoduj`00FA.''),
    (''security.password.invalid_current'', js ''S`00FA`010Dasn`00E9 heslo je nespr`00E1vne.''),
    (''security.password.changed'', js ''Heslo bolo zmenen`00E9. Ostatn`00E9 rel`00E1cie tohto `00FA`010Dtu boli odhl`00E1sen`00E9.''),
    (''home.title'', js ''inletbox''),
    (''home.message'', js ''Toto je s`00FAkromn`00E1 schr`00E1nka na s`00FAbory. Na nahranie s`00FAborov pou`017Eite odkaz, ktor`00FD ste dostali od osoby, ktor`00E1 o ne po`017Eiadala.''),
    (''cases.new'', js ''Nov`00FD pr`00EDpad'')]"

definition sk_6 :: messages where
  "sk_6 = [
    (''cases.name'', js ''N`00E1zov''),
    (''cases.name_placeholder'', js ''napr. Audit 2026/09 `2013 Klient X''),
    (''cases.description_optional'', js ''Popis (nepovinn`00FD)''),
    (''cases.description'', js ''Popis''),
    (''cases.list'', js ''Pr`00EDpady''),
    (''cases.empty'', js ''`017Diadne pr`00EDpady.''),
    (''cases.col.name'', js ''N`00E1zov''),
    (''cases.col.status'', js ''Stav''),
    (''cases.col.links'', js ''Akt`00EDvne odkazy''),
    (''cases.col.files'', js ''S`00FAbory''),
    (''cases.col.size'', js ''Ve`013Ekos`0165''),
    (''cases.col.created'', js ''Vytvoren`00E9''),
    (''case.open'', js ''otvoren`00FD''),
    (''case.closed'', js ''uzavret`00FD''),
    (''case.close'', js ''Uzavrie`0165 pr`00EDpad''),
    (''case.reopen'', js ''Znova otvori`0165''),
    (''case.meta'', js ''ID: {id} `00B7 vytvoren`00E9 {date}. Uzavret`00FD pr`00EDpad neprij`00EDma nahr`00E1vanie cez `017Eiadny zo svojich odkazov.''),
    (''case.saved'', js ''Ulo`017Een`00E9.''),
    (''case.closed_no_links'', js ''Pr`00EDpad je uzavret`00FD `2013 znova ho otvorte, aby ste mohli generova`0165 odkazy.''),
    (''case.new_link.title'', js ''Nov`00FD odkaz pre `201E{label}`201C'')]"

definition sk_7 :: messages where
  "sk_7 = [
    (''case.new_link.intro'', js ''Skop`00EDrujte ho hne`010F. Token sa uklad`00E1 iba ako hash a nesk`00F4r ho nemo`017Eno obnovi`0165 `2013 m`00F4`017Eete len vygenerova`0165 nov`00FD odkaz.''),
    (''case.new_link.copy_now'', js ''Skop`00EDrujte ho hne`010F.''),
    (''links.title'', js ''Odkazy na nahr`00E1vanie''),
    (''links.intro'', js ''Ka`017Ed`00FD odkaz je samostatn`00FD pr`00EDjemca a samostatn`00FD rozsah vidite`013Enosti: dr`017Eite`013E odkazu vid`00ED iba s`00FAbory odoslan`00E9 cez tento odkaz a nem`00F4`017Ee ich s`0165ahova`0165 ani maza`0165. V`0161etci, ktor`00ED poznaj`00FA rovnak`00FD odkaz, maj`00FA rovnak`00FD pr`00EDstup `2013 aplik`00E1cia nerozli`0161uje medzi `013Eu`010Fmi, ktor`00ED pou`017E`00EDvaj`00FA rovnak`00FD odkaz.''),
    (''links.generate'', js ''Vygenerova`0165 nov`00FD odkaz''),
    (''links.label'', js ''Ozna`010Denie pr`00EDjemcu''),
    (''links.label_placeholder'', js ''napr. Jana Nov`00E1kov`00E1 `2013 `00FA`010Dtovn`00EDctvo''),
    (''links.expires'', js ''Plat`00ED do (UTC, nepovinn`00E9)''),
    (''links.max_file'', js ''Max. ve`013Ekos`0165 s`00FAboru (nepovinn`00E9, `2264 {max})''),
    (''links.max_file_placeholder'', js ''napr. 500MB''),
    (''links.max_files'', js ''Max. po`010Det s`00FAborov (nepovinn`00E9)''),
    (''links.max_total'', js ''Max. celkov`00E1 ve`013Ekos`0165 (nepovinn`00E9)''),
    (''links.max_total_placeholder'', js ''napr. 2GB''),
    (''links.submit'', js ''Vygenerova`0165 odkaz''),
    (''links.empty'', js ''`017Diadne odkazy.''),
    (''links.col.recipient'', js ''Pr`00EDjemca''),
    (''links.col.state'', js ''Stav''),
    (''links.col.expires'', js ''Plat`00ED do''),
    (''links.col.limits'', js ''Limity''),
    (''links.col.usage'', js ''Vyu`017Eitie'')]"

definition sk_8 :: messages where
  "sk_8 = [
    (''links.col.last_used'', js ''Naposledy pou`017Eit`00FD''),
    (''links.state.active'', js ''akt`00EDvny''),
    (''links.state.expired'', js ''vypr`0161al''),
    (''links.state.revoked'', js ''zru`0161en`00FD''),
    (''links.state.case_closed'', js ''pr`00EDpad uzavret`00FD''),
    (''links.limit.file'', js ''s`00FAbor `2264 {max}''),
    (''links.limit.files'', js ''s`00FAbory `2264 {n}''),
    (''links.limit.total'', js ''spolu `2264 {max}''),
    (''links.usage'', js ''s`00FAborov: {n}, {size}''),
    (''links.usage_in_progress'', js ''prebieha: {n} (rezervovan`00E9 {size})''),
    (''links.revoke'', js ''Zru`0161i`0165''),
    (''links.revoke_confirm'', js ''Zru`0161i`0165 odkaz `201E{label}`201C? Prebiehaj`00FAce nahr`00E1vania sa preru`0161ia.''),
    (''files.title'', js ''S`00FAbory''),
    (''files.empty'', js ''`017Diadne s`00FAbory.''),
    (''files.col.name'', js ''N`00E1zov''),
    (''files.col.recipient'', js ''Pr`00EDjemca (odkaz)''),
    (''files.col.size'', js ''Ve`013Ekos`0165''),
    (''files.col.status'', js ''Stav''),
    (''files.col.uploaded'', js ''Nahran`00E9''),
    (''files.declared'', js ''{size} (deklarovan`00E9)'')]"

definition sk_9 :: messages where
  "sk_9 = [
    (''files.download'', js ''Stiahnu`0165''),
    (''files.delete'', js ''Odstr`00E1ni`0165''),
    (''files.delete_confirm'', js ''Odstr`00E1ni`0165 s`00FAbor `201E{name}`201C? T`00FAto akciu nemo`017Eno vr`00E1ti`0165.''),
    (''files.untrusted'', js ''S`00FAbory sa pova`017Euj`00FA za ned`00F4veryhodn`00E9: s`0165ahuj`00FA sa v`017Edy ako pr`00EDlohy a na serveri sa ni`010D nezobrazuje ani nesp`00FA`0161`0165a. Antiv`00EDrusov`00E1 kontrola nie je s`00FA`010Das`0165ou tejto verzie.''),
    (''files.status.uploading'', js ''prebieha''),
    (''files.status.complete'', js ''dokon`010Den`00E9''),
    (''files.status.aborted'', js ''preru`0161en`00E9''),
    (''files.status.expired'', js ''vypr`0161alo''),
    (''files.status.missing'', js ''ch`00FDba v `00FAlo`017Eisku''),
    (''files.status.deleted'', js ''odstr`00E1nen`00E9''),
    (''audit.title'', js ''Auditn`00FD z`00E1znam (posledn`00FDch {n})''),
    (''audit.col.time'', js ''`010Cas''),
    (''audit.col.actor'', js ''Akt`00E9r''),
    (''audit.col.action'', js ''Udalos`0165''),
    (''audit.col.case'', js ''Pr`00EDpad''),
    (''audit.col.link'', js ''Odkaz''),
    (''audit.col.file'', js ''S`00FAbor''),
    (''audit.col.ip'', js ''IP''),
    (''audit.col.details'', js ''Podrobnosti''),
    (''upload.title'', js ''Nahr`00E1vanie: {case}'')]"

definition sk_10 :: messages where
  "sk_10 = [
    (''upload.link_for'', js ''Odkaz pre:''),
    (''upload.valid_until'', js ''plat`00ED do {date}''),
    (''upload.limit.file'', js ''Maxim`00E1lna ve`013Ekos`0165 s`00FAboru:''),
    (''upload.limit.files'', js ''Maxim`00E1lny po`010Det s`00FAborov:''),
    (''upload.limit.total'', js ''Celkov`00FD limit d`00E1t:''),
    (''upload.used_n'', js ''(pou`017Eit`00E9 {n})''),
    (''upload.used_size'', js ''(pou`017Eit`00E9 {size})''),
    (''upload.send'', js ''Nahra`0165 s`00FAbory''),
    (''upload.drop_here'', js ''Presu`0148te s`00FAbory sem''),
    (''upload.or'', js ''alebo''),
    (''upload.choose'', js ''vyberte z disku''),
    (''upload.resume_hint'', js ''Ve`013Ek`00E9 s`00FAbory sa odosielaj`00FA po `010Dastiach a po v`00FDpadku pripojenia mo`017Eno v nahr`00E1van`00ED pokra`010Dova`0165. Po obnoven`00ED str`00E1nky vyberte znova ten ist`00FD s`00FAbor a nahr`00E1vanie nadvia`017Ee tam, kde skon`010Dilo.''),
    (''upload.your_files'', js ''Va`0161e s`00FAbory''),
    (''upload.your_files_intro'', js ''Vid`00EDte iba s`00FAbory nahran`00E9 cez tento odkaz. S`00FAbory tu nemo`017Eno s`0165ahova`0165 ani maza`0165 `2013 vyzdvihne si ich spr`00E1vca.''),
    (''upload.col.name'', js ''N`00E1zov''),
    (''upload.col.size'', js ''Ve`013Ekos`0165''),
    (''upload.col.date'', js ''D`00E1tum''),
    (''upload.col.status'', js ''Stav''),
    (''upload.none_yet'', js ''Zatia`013E neboli nahran`00E9 `017Eiadne s`00FAbory.''),
    (''upload.list_failed'', js ''Zoznam sa nepodarilo na`010D`00EDta`0165: {msg}'')]"

definition sk_11 :: messages where
  "sk_11 = [
    (''upload.terminal'', js ''Nahr`00E1vanie z termin`00E1lu''),
    (''upload.terminal_hint'', js ''(curl, skripty, obnovite`013En`00E9 prenosy)''),
    (''upload.terminal_intro'', js ''Nahra`010Fte {path} cestou k s`00FAboru (medzery nevadia). Nenulov`00FD n`00E1vratov`00FD k`00F3d znamen`00E1 chybu; odpove`010F je vo form`00E1te JSON.''),
    (''upload.snippet.single'', js ''Jeden s`00FAbor''),
    (''upload.snippet.multi'', js ''Viac s`00FAborov''),
    (''upload.snippet.env'', js ''Token v premennej prostredia (odpor`00FA`010Da sa)''),
    (''upload.snippet.list'', js ''Vyp`00EDsa`0165 nahran`00E9 s`00FAbory''),
    (''upload.snippet.resumable'', js ''Ve`013Ek`00FD s`00FAbor s obnoven`00EDm (skript {script})''),
    (''upload.history_warning'', js ''Upozornenie: pr`00EDkaz obsahuj`00FAci token sa ulo`017E`00ED do hist`00F3rie shellu (napr. {file}). Variant s export, ktor`00E9mu predch`00E1dza medzera, sa neuklad`00E1, ak je nastaven`00E9 {opt}. Zaobch`00E1dzajte s t`00FDmto odkazom ako s heslom a nikomu ho nepos`00FAvajte.''),
    (''upload.path_placeholder'', js ''/cesta/k/suboru.pdf''),
    (''upload.path_placeholder2'', js ''/cesta/sprava.pdf''),
    (''upload.path_placeholder3'', js ''/cesta/foto 1.jpg''),
    (''upload.path_placeholder_big'', js ''/cesta/k/velky subor.iso''),
    (''upload.js.queued'', js ''v porad`00ED`2026''),
    (''upload.js.too_large'', js ''pr`00EDli`0161 ve`013Ek`00FD: limit {max}''),
    (''upload.js.error'', js ''chyba: {msg}''),
    (''upload.js.starting'', js ''sp`00FA`0161`0165a sa`2026''),
    (''upload.js.resuming'', js ''pokra`010Duje sa v predch`00E1dzaj`00FAcom nahr`00E1van`00ED`2026''),
    (''upload.js.retrying'', js ''sk`00FA`0161a sa znova`2026''),
    (''upload.js.done'', js ''dokon`010Den`00E9'')]"

definition sk_12 :: messages where
  "sk_12 = [
    (''upload.js.finalising'', js ''v`0161etky d`00E1ta odoslan`00E9, server dokon`010Duje`2026''),
    (''upload.js.cancelled'', js ''zru`0161en`00E9''),
    (''upload.js.cancelled_local'', js ''zru`0161en`00E9 (lok`00E1lne)''),
    (''upload.js.status.uploading'', js ''prebieha''),
    (''upload.js.status.complete'', js ''dokon`010Den`00E9''),
    (''nav.users'', js ''Pou`017E`00EDvatelia''),
    (''cases.empty_assigned'', js ''Zatia`013E v`00E1m nebol pridelen`00FD `017Eiadny pr`00EDpad. Prideli`0165 v`00E1m ho m`00F4`017Ee kolega, ktor`00FD na pr`00EDpade pracuje, alebo administr`00E1tor. M`00F4`017Eete tie`017E vy`0161`0161ie zalo`017Ei`0165 nov`00FD.''),
    (''error.forbidden.title'', js ''Nepovolen`00E9''),
    (''error.forbidden'', js ''T`00E1to str`00E1nka je len pre administr`00E1torov.''),
    (''security.must_change_notice'', js ''Va`0161e heslo vydal administr`00E1tor. Sk`00F4r ne`017E budete pokra`010Dova`0165, nastavte si ni`017E`0161ie vlastn`00E9 heslo.''),
    (''members.title'', js ''Pridelen`00ED pou`017E`00EDvatelia''),
    (''members.intro'', js ''Pou`017E`00EDvate`013E vid`00ED len pr`00EDpady, ku ktor`00FDm je pridelen`00FD. Administr`00E1tori vidia v`0161etky pr`00EDpady.''),
    (''members.empty'', js ''K tomuto pr`00EDpadu nie je pridelen`00FD `017Eiadny pou`017E`00EDvate`013E `2014 vidia ho len administr`00E1tori.''),
    (''members.user'', js ''Pou`017E`00EDvate`013E''),
    (''members.add'', js ''Prideli`0165''),
    (''members.added'', js ''`00DA`010Det {username} je teraz pridelen`00FD k tomuto pr`00EDpadu.''),
    (''members.remove'', js ''Odobra`0165''),
    (''members.remove_confirm'', js ''Odobra`0165 {username}? `00DA`010Det prestane tento pr`00EDpad vidie`0165.''),
    (''members.removed'', js ''`00DA`010Det {username} u`017E nem`00E1 k tomuto pr`00EDpadu pr`00EDstup.''),
    (''members.none_assignable'', js ''`017Diadny `010Fal`0161`00ED pou`017E`00EDvate`013Esk`00FD `00FA`010Det na pridelenie nie je. Vytvorte ho v sekcii {link}.'')]"

definition sk_13 :: messages where
  "sk_13 = [
    (''users.new'', js ''Nov`00FD `00FA`010Det''),
    (''users.list'', js ''`00DA`010Dty''),
    (''users.username'', js ''Pou`017E`00EDvate`013Esk`00E9 meno''),
    (''users.username_placeholder'', js ''napr. anna.kovacova@firma.sk''),
    (''users.role'', js ''Rola''),
    (''users.role.admin'', js ''Administr`00E1tor''),
    (''users.role.user'', js ''Pou`017E`00EDvate`013E''),
    (''users.roles_hint'', js ''Pou`017E`00EDvate`013E vid`00ED a sprac`00FAva len pr`00EDpady, ku ktor`00FDm je pridelen`00FD. Administr`00E1tor vid`00ED v`0161etky pr`00EDpady, spravuje `00FA`010Dty a `010D`00EDta auditn`00FD z`00E1znam. Vygeneruje sa do`010Dasn`00E9 heslo, ktor`00E9 treba pri prvom prihl`00E1sen`00ED zmeni`0165.''),
    (''users.col.username'', js ''`00DA`010Det''),
    (''users.col.status'', js ''Stav''),
    (''users.col.totp'', js ''Druh`00FD faktor''),
    (''users.col.cases'', js ''Pr`00EDpady''),
    (''users.col.last_login'', js ''Posledn`00E9 prihl`00E1senie''),
    (''users.status.active'', js ''akt`00EDvny''),
    (''users.status.disabled'', js ''zak`00E1zan`00FD''),
    (''users.status.must_change'', js ''treba zmeni`0165 heslo''),
    (''users.you'', js ''vy''),
    (''users.all_cases'', js ''v`0161etky''),
    (''users.issued.title'', js ''`00DA`010Det {username} vytvoren`00FD''),
    (''users.issued.reset_title'', js ''Nov`00E9 heslo pre {username}'')]"

definition sk_14 :: messages where
  "sk_14 = [
    (''users.issued.copy_now'', js ''Skop`00EDrujte si toto heslo hne`010F `2014 zobraz`00ED sa len raz.''),
    (''users.issued.intro'', js ''Odovzdajte ho in`00FDm kan`00E1lom ne`017E pou`017E`00EDvate`013Esk`00E9 meno. Pri prvom prihl`00E1sen`00ED ho treba nahradi`0165.''),
    (''users.make_admin'', js ''Urobi`0165 administr`00E1torom''),
    (''users.make_user'', js ''Urobi`0165 pou`017E`00EDvate`013Eom''),
    (''users.role_confirm'', js ''Zmeni`0165 rolu `00FA`010Dtu {username}?''),
    (''users.role_changed'', js ''`00DA`010Det {username} m`00E1 teraz rolu: {role}.''),
    (''users.reset_password'', js ''Nov`00E9 heslo''),
    (''users.reset_password_confirm'', js ''Vyda`0165 nov`00E9 heslo pre {username}? S`00FA`010Dasn`00E9 prestane fungova`0165 a v`0161etky rel`00E1cie `00FA`010Dtu skon`010Dia.''),
    (''users.password_reset'', js ''Pre {username} bolo vydan`00E9 nov`00E9 heslo a `00FA`010Det bol odhl`00E1sen`00FD.''),
    (''users.reset_totp'', js ''Resetova`0165 2FA''),
    (''users.reset_totp_confirm'', js ''Odobra`0165 druh`00FD faktor `00FA`010Dtu {username}? Po najbli`017E`0161om prihl`00E1sen`00ED sa nastav`00ED znova.''),
    (''users.totp_reset'', js ''Z `00FA`010Dtu {username} bolo odobrat`00E9 dvojfaktorov`00E9 overenie.''),
    (''users.disable'', js ''Zak`00E1za`0165''),
    (''users.disable_confirm'', js ''Zak`00E1za`0165 {username}? `00DA`010Det bude odhl`00E1sen`00FD a neprihl`00E1si sa, k`00FDm nebude znova povolen`00FD.''),
    (''users.disabled'', js ''`00DA`010Det {username} bol zak`00E1zan`00FD a odhl`00E1sen`00FD.''),
    (''users.enable'', js ''Povoli`0165''),
    (''users.enabled'', js ''`00DA`010Det {username} sa m`00F4`017Ee znova prihl`00E1si`0165.''),
    (''users.delete'', js ''Zmaza`0165''),
    (''users.delete_confirm'', js ''Zmaza`0165 `00FA`010Det {username}? Zmizn`00FA s n`00EDm aj jeho pridelenia k pr`00EDpadom; auditn`00FD z`00E1znam zachov`00E1, `010Do urobil.''),
    (''users.deleted'', js ''`00DA`010Det {username} bol zmazan`00FD.'')]"

definition sk_15 :: messages where
  "sk_15 = [
    (''users.missing'', js ''Tak`00FD `00FA`010Det neexistuje.''),
    (''users.not_self'', js ''Vlastn`00FD `00FA`010Det tu meni`0165 nem`00F4`017Eete `2014 heslo a 2FA n`00E1jdete v sekcii Zabezpe`010Denie.''),
    (''users.last_admin'', js ''Mus`00ED zosta`0165 aspo`0148 jeden akt`00EDvny administr`00E1tor.''),
    (''users.exists'', js ''`00DA`010Det s menom {username} u`017E existuje.''),
    (''users.invalid_username'', js ''Pou`017E`00EDvate`013Esk`00E9 meno m`00E1 2`201364 znakov: p`00EDsmen`00E1, `010D`00EDslice a . _ @ -''),
    (''users.invalid_role'', js ''Nezn`00E1ma rola.''),
    (''members.not_self'', js ''Sami seba odobra`0165 nem`00F4`017Eete. Po`017Eiadajte in`00E9ho `010Dloveka na pr`00EDpade alebo administr`00E1tora.''),
    (''members.none_assignable_user'', js ''`017Diadny `010Fal`0161`00ED pou`017E`00EDvate`013Esk`00FD `00FA`010Det na pridelenie nie je.''),
    (''second.title'', js ''Druh`00FD krok prihl`00E1senia''),
    (''second.recovery_label'', js ''Z`00E1lo`017En`00FD k`00F3d''),
    (''common.or'', js ''alebo''),
    (''passkey.use'', js ''Pou`017Ei`0165 pr`00EDstupov`00FD k`013E`00FA`010D''),
    (''passkey.unsupported'', js ''Tento prehliada`010D nepodporuje pr`00EDstupov`00E9 k`013E`00FA`010De.''),
    (''passkey.failed'', js ''Pr`00EDstupov`00FD k`013E`00FA`010D sa nepodarilo overi`0165. Sk`00FAste to znova.''),
    (''passkey.cancelled'', js ''Zru`0161en`00E9. Sk`00FAste to znova, ke`010F budete pripraven`00ED.''),
    (''confirm.title'', js ''Potvr`010Fte svoju toto`017Enos`0165''),
    (''confirm.intro'', js ''T`00E1to akcia vy`017Eaduje ned`00E1vne potvrdenie. Zost`00E1va potom platn`00E1 {minutes} min`00FAt, aby sa od v`00E1s nevy`017Eadovala znova pri ka`017Edom kroku.''),
    (''confirm.repeat'', js ''Po potvrden`00ED zopakujte to, `010Do ste robili.''),
    (''confirm.code_label'', js ''K`00F3d z aplik`00E1cie alebo z`00E1lo`017En`00FD k`00F3d''),
    (''confirm.password_label'', js ''Va`0161e heslo'')]"

definition sk_16 :: messages where
  "sk_16 = [
    (''confirm.submit'', js ''Potvrdi`0165''),
    (''confirm.invalid'', js ''`00DAdaje sa nezhoduj`00FA. Sk`00FAste to znova.''),
    (''confirm.locked'', js ''Pr`00EDli`0161 ve`013Ea nespr`00E1vnych k`00F3dov pre tento `00FA`010Det. Sk`00FAste to znova o 15 min`00FAt.''),
    (''passkeys.title'', js ''Pr`00EDstupov`00E9 k`013E`00FA`010De''),
    (''passkeys.intro'', js ''Pr`00EDstupov`00FD k`013E`00FA`010D je ulo`017Een`00FD vo va`0161om zariaden`00ED, spr`00E1vcovi hesiel alebo bezpe`010Dnostnom k`013E`00FA`010Di a ned`00E1 sa z`00EDska`0165 phishingom. Funguje ako druh`00FD krok prihl`00E1senia a na potvrdenie citliv`00FDch akci`00ED.''),
    (''passkeys.none'', js ''Zatia`013E `017Eiadne pr`00EDstupov`00E9 k`013E`00FA`010De.''),
    (''passkeys.name'', js ''N`00E1zov''),
    (''passkeys.name_placeholder'', js ''napr. notebook, bezpe`010Dnostn`00FD k`013E`00FA`010D''),
    (''passkeys.added_at'', js ''Pridan`00E9''),
    (''passkeys.last_used'', js ''Naposledy pou`017Eit`00E9''),
    (''passkeys.add'', js ''Prida`0165 pr`00EDstupov`00FD k`013E`00FA`010D''),
    (''passkeys.remove'', js ''Odobra`0165''),
    (''passkeys.remove_confirm'', js ''Odobra`0165 tento pr`00EDstupov`00FD k`013E`00FA`010D? Ostatn`00E9 rel`00E1cie tohto `00FA`010Dtu bud`00FA odhl`00E1sen`00E9.''),
    (''passkeys.added'', js ''Pr`00EDstupov`00FD k`013E`00FA`010D `201E{name}`201C bol pridan`00FD.''),
    (''passkeys.removed'', js ''Pr`00EDstupov`00FD k`013E`00FA`010D `201E{name}`201C bol odobran`00FD. Ostatn`00E9 rel`00E1cie tohto `00FA`010Dtu boli odhl`00E1sen`00E9.''),
    (''passkeys.last_required'', js ''T`00E1to in`0161tancia vy`017Eaduje druh`00FD faktor. Pred odobrat`00EDm posledn`00E9ho pridajte `010Fal`0161`00ED.''),
    (''passkeys.limit'', js ''`00DA`010Det m`00F4`017Ee ma`0165 najviac {n} pr`00EDstupov`00FDch k`013E`00FA`010Dov.''),
    (''passkeys.duplicate'', js ''Tento pr`00EDstupov`00FD k`013E`00FA`010D je u`017E zaregistrovan`00FD.''),
    (''security.recovery.regenerate_confirmed'', js ''Vygenerova`0165 nov`00E9 k`00F3dy (star`00E9 prestan`00FA fungova`0165)''),
    (''sessions.title'', js ''Akt`00EDvne rel`00E1cie'')]"

definition sk_17 :: messages where
  "sk_17 = [
    (''sessions.intro'', js ''V`0161etky miesta, kde je tento `00FA`010Det prihl`00E1sen`00FD. Odhl`00E1ste tie, ktor`00E9 nespozn`00E1vate, a potom si zme`0148te heslo.''),
    (''sessions.device'', js ''Zariadenie''),
    (''sessions.ip'', js ''IP adresa''),
    (''sessions.started'', js ''Spusten`00E9''),
    (''sessions.last_seen'', js ''Posledn`00E1 aktivita''),
    (''sessions.current'', js ''t`00E1to rel`00E1cia''),
    (''sessions.pending'', js ''iba heslo, druh`00FD krok nedokon`010Den`00FD''),
    (''sessions.bound'', js ''viazan`00E9 na toto zariadenie''),
    (''sessions.factor'', js ''druh`00FD krok: {factor}''),
    (''sessions.via.totp'', js ''k`00F3d z aplik`00E1cie''),
    (''sessions.via.recovery'', js ''z`00E1lo`017En`00FD k`00F3d''),
    (''sessions.via.passkey'', js ''pr`00EDstupov`00FD k`013E`00FA`010D''),
    (''sessions.unknown_device'', js ''Nezn`00E1me zariadenie''),
    (''sessions.revoke'', js ''Odhl`00E1si`0165''),
    (''sessions.revoke_others'', js ''Odhl`00E1si`0165 v`0161etky ostatn`00E9 rel`00E1cie''),
    (''sessions.revoked'', js ''Rel`00E1cia bola odhl`00E1sen`00E1.''),
    (''sessions.revoked_others'', js ''V`0161etky ostatn`00E9 rel`00E1cie boli odhl`00E1sen`00E9.'')]"

definition sk_messages :: messages where
  "sk_messages = sk_1 @ sk_2 @ sk_3 @ sk_4 @ sk_5 @ sk_6 @ sk_7 @ sk_8 @ sk_9 @ sk_10 @ sk_11 @ sk_12 @ sk_13 @ sk_14 @ sk_15 @ sk_16 @ sk_17"

lemmas sk_defs =
  sk_1_def sk_2_def sk_3_def sk_4_def sk_5_def sk_6_def sk_7_def sk_8_def sk_9_def sk_10_def sk_11_def sk_12_def sk_13_def sk_14_def
  sk_15_def sk_16_def sk_17_def

lemma sk_fits: "fits sk_messages message_shape"
  unfolding sk_messages_def message_shape_def
  by (intro fits_append; unfold sk_defs shape_defs; simp only: fits_rules cong: literal_congs)

end
