(* ===== verification/Locale_Sl.thy ===== *)
theory Locale_Sl
  imports Locale_En
begin

text \<open>src/locales/sl.ts: Slovenian.\<close>

definition sl_1 :: messages where
  "sl_1 = [
    (''app.tagline'', js ''zasebni predal za oddajo datotek''),
    (''common.back_to_cases'', js ''`2190 Zadeve''),
    (''common.home'', js ''Domov''),
    (''common.copy'', js ''Kopiraj''),
    (''common.copied'', js ''Kopirano''),
    (''common.copy_manual'', js ''Ozna`010Dite in kopirajte ro`010Dno''),
    (''common.save'', js ''Shrani''),
    (''common.create'', js ''Ustvari''),
    (''common.cancel'', js ''Prekli`010Di''),
    (''common.retry'', js ''Poskusi znova''),
    (''common.never'', js ''nikoli''),
    (''common.unlimited'', js ''brez poteka''),
    (''common.none'', js ''`2014''),
    (''common.optional'', js ''neobvezno''),
    (''common.loading'', js ''Nalaganje`2026''),
    (''common.yes'', js ''Da''),
    (''common.language'', js ''Jezik''),
    (''nav.cases'', js ''Zadeve''),
    (''nav.audit'', js ''Revizijski dnevnik''),
    (''nav.security'', js ''Varnost'')]"

definition sl_2 :: messages where
  "sl_2 = [
    (''nav.logout'', js ''Odjava''),
    (''error.not_found.title'', js ''Ni najdeno''),
    (''error.page_missing'', js ''Ta stran ne obstaja.''),
    (''error.case_missing'', js ''Ta zadeva ne obstaja.''),
    (''error.link_missing'', js ''Ta povezava ne obstaja.''),
    (''error.file_missing'', js ''Datoteka ne obstaja ali ni na voljo.''),
    (''error.file_not_exist'', js ''Datoteka ne obstaja.''),
    (''error.storage_missing.title'', js ''Datoteke ni v shrambi''),
    (''error.storage_missing'', js ''Metapodatki obstajajo, vendar je predmet izginil iz shrambe. Za`017Eenite `010Di`0161`010Denje, da se datoteka ozna`010Di kot manjkajo`010Da.''),
    (''error.server.title'', js ''Napaka stre`017Enika''),
    (''error.server'', js ''Pri`0161lo je do nepri`010Dakovane napake.''),
    (''error.bad_request.title'', js ''Neveljavna zahteva''),
    (''error.cross_site'', js ''Zahteva z drugega spletnega mesta je bila blokirana''),
    (''error.csrf'', js ''Neveljaven `017Eeton CSRF''),
    (''error.invalid_expiry'', js ''Neveljaven datum poteka''),
    (''link.invalid.title'', js ''Neveljavna povezava''),
    (''link.invalid'', js ''Ta povezava za nalaganje ne obstaja.''),
    (''link.unavailable.title'', js ''Povezava ni na voljo''),
    (''link.expired'', js ''Ta povezava je potekla.''),
    (''link.revoked'', js ''Ta povezava je bila preklicana.'')]"

definition sl_3 :: messages where
  "sl_3 = [
    (''link.case_closed'', js ''Zadeva je bila zaprta in ne sprejema ve`010D datotek.''),
    (''link.contact'', js ''Obrnite se na osebo, ki vam je dala povezavo.''),
    (''login.title'', js ''Prijava skrbnika''),
    (''login.username'', js ''Uporabni`0161ko ime''),
    (''login.password'', js ''Geslo''),
    (''login.submit'', js ''Prijava''),
    (''login.failed'', js ''Neveljavno uporabni`0161ko ime ali geslo.''),
    (''login.too_many_codes'', js ''Preve`010D napa`010Dnih kod. Znova se prijavite.''),
    (''login.account_locked'', js ''Preve`010D napa`010Dnih kod za ta ra`010Dun. Drugi faktor je zaklenjen za 15 minut.''),
    (''totp.title'', js ''Koda iz va`0161e aplikacije za preverjanje pristnosti''),
    (''totp.code_label'', js ''Koda (6 `0161tevk) ali obnovitvena koda''),
    (''totp.confirm'', js ''Potrdi''),
    (''totp.cancel_logout'', js ''Prekli`010Di in se odjavi''),
    (''totp.invalid'', js ''Neveljavna koda.''),
    (''totp.attempts_left'', js ''Preostali poskusi: {n}.''),
    (''totp.locked_until'', js ''Ra`010Dun je po `0161tevilnih napa`010Dnih kodah za`010Dasno zaklenjen (do {until} UTC).''),
    (''security.title'', js ''Varnost ra`010Duna `00BB{user}`00AB''),
    (''security.required_notice'', js ''Ta primerek zahteva drugi faktor. Plo`0161`010Da ostane nedostopna, dokler spodaj ne dodate aplikacije za preverjanje pristnosti ali klju`010Da za dostop.''),
    (''security.status'', js ''Dvofaktorsko preverjanje pristnosti (TOTP, RFC 6238): {state}.''),
    (''security.enabled'', js ''omogo`010Deno'')]"

definition sl_4 :: messages where
  "sl_4 = [
    (''security.disabled'', js ''onemogo`010Deno''),
    (''security.recovery_left'', js ''Neuporabljene obnovitvene kode: {n}.''),
    (''security.recovery.title'', js ''Obnovitvene kode''),
    (''security.recovery.intro'', js ''Zdaj jih shranite na varno mesto. Vsaka deluje enkrat in nadomesti kodo iz aplikacije, `010De izgubite dostop do nje. Ne bodo ve`010D prikazane.''),
    (''security.enable.title'', js ''Omogo`010Di TOTP''),
    (''security.enable.intro'', js ''Potrebujete aplikacijo za preverjanje pristnosti (npr. Aegis, Google Authenticator, 1Password, Bitwarden). Ko je omogo`010Den, prijava zahteva geslo in trenutno kodo.''),
    (''security.enable.start'', js ''Za`010Dni nastavitev''),
    (''security.step1'', js ''1. korak: skenirajte kodo v aplikaciji''),
    (''security.manual_key'', js ''Ali klju`010D vnesite ro`010Dno:''),
    (''security.key_params'', js ''Vrsta: TOTP, SHA-1, 6 `0161tevk, 30 s. Izdajatelj: {issuer}, ra`010Dun: {user}.''),
    (''security.open_in_app'', js ''Odpri v aplikaciji za preverjanje pristnosti''),
    (''security.on_phone'', js ''(na telefonu)''),
    (''security.step2'', js ''2. korak: potrdite s kodo''),
    (''security.code_from_app'', js ''Koda iz aplikacije''),
    (''security.enable.submit'', js ''Omogo`010Di TOTP''),
    (''security.pending_note'', js ''Klju`010D je za`010Dasen, dokler ga ne potrdite; ponovni za`010Detek nastavitve ustvari novega.''),
    (''security.current_code'', js ''Trenutna koda iz aplikacije''),
    (''security.regenerate'', js ''Ustvari nove kode (stare prenehajo delovati)''),
    (''security.disable.title'', js ''Onemogo`010Di TOTP''),
    (''security.disable.intro'', js ''Zahteva trenutno kodo iz aplikacije ali obnovitveno kodo: sama seja (npr. ukraden pi`0161kotek) ne zado`0161`010Da. `010Ce sta izgubljeni tako aplikacija kot obnovitvene kode, lahko upravljavec na stre`017Eniku za`017Eene {cmd}.'')]"

definition sl_5 :: messages where
  "sl_5 = [
    (''security.disable.code'', js ''Koda''),
    (''security.disable.submit'', js ''Onemogo`010Di''),
    (''security.disable.confirm'', js ''Onemogo`010Dim dvofaktorsko preverjanje pristnosti?''),
    (''security.msg.enabled'', js ''Dvofaktorsko preverjanje pristnosti je omogo`010Deno.''),
    (''security.msg.code_mismatch'', js ''Koda se ne ujema. Preverite `010Das na telefonu in poskusite znova.''),
    (''security.msg.invalid_code'', js ''Neveljavna koda.''),
    (''security.msg.regenerated'', js ''Ustvarjene so nove obnovitvene kode.''),
    (''security.msg.required'', js ''Ta primerek zahteva TOTP (ADMIN_REQUIRE_TOTP); ni ga mogo`010De onemogo`010Diti.''),
    (''security.msg.disabled'', js ''Dvofaktorsko preverjanje pristnosti je onemogo`010Deno.''),
    (''security.password.title'', js ''Spremeni geslo''),
    (''security.password.current'', js ''Trenutno geslo''),
    (''security.password.new'', js ''Novo geslo (najmanj 12 znakov)''),
    (''security.password.confirm'', js ''Potrdite novo geslo''),
    (''security.password.submit'', js ''Spremeni geslo''),
    (''security.password.mismatch'', js ''Novo geslo in potrditev se ne ujemata.''),
    (''security.password.invalid_current'', js ''Trenutno geslo ni pravilno.''),
    (''security.password.changed'', js ''Geslo je spremenjeno. Druge seje tega ra`010Duna so bile odjavljene.''),
    (''home.title'', js ''inletbox''),
    (''home.message'', js ''To je zasebni predal za oddajo datotek. Za nalaganje datotek uporabite povezavo, ki vam jo je dala oseba, ki jih je zahtevala.''),
    (''cases.new'', js ''Nova zadeva'')]"

definition sl_6 :: messages where
  "sl_6 = [
    (''cases.name'', js ''Ime''),
    (''cases.name_placeholder'', js ''npr. Revizija 2026/09 `2013 Stranka X''),
    (''cases.description_optional'', js ''Opis (neobvezno)''),
    (''cases.description'', js ''Opis''),
    (''cases.list'', js ''Zadeve''),
    (''cases.empty'', js ''Ni zadev.''),
    (''cases.col.name'', js ''Ime''),
    (''cases.col.status'', js ''Stanje''),
    (''cases.col.links'', js ''Aktivne povezave''),
    (''cases.col.files'', js ''Datoteke''),
    (''cases.col.size'', js ''Velikost''),
    (''cases.col.created'', js ''Ustvarjeno''),
    (''case.open'', js ''odprta''),
    (''case.closed'', js ''zaprta''),
    (''case.close'', js ''Zapri zadevo''),
    (''case.reopen'', js ''Znova odpri''),
    (''case.meta'', js ''ID: {id} `00B7 ustvarjeno {date}. Zaprta zadeva ne sprejema nalaganj prek nobene od svojih povezav.''),
    (''case.saved'', js ''Shranjeno.''),
    (''case.closed_no_links'', js ''Zadeva je zaprta `2013 znova jo odprite, `010De `017Eelite ustvariti povezave.''),
    (''case.new_link.title'', js ''Nova povezava za `00BB{label}`00AB'')]"

definition sl_7 :: messages where
  "sl_7 = [
    (''case.new_link.intro'', js ''Kopirajte jo zdaj. `017Deton je shranjen samo kot zgo`0161`010Dena vrednost in ga pozneje ni mogo`010De obnoviti `2013 ustvarite lahko le novo povezavo.''),
    (''case.new_link.copy_now'', js ''Kopirajte jo zdaj.''),
    (''links.title'', js ''Povezave za nalaganje''),
    (''links.intro'', js ''Vsaka povezava je lo`010Den prejemnik in lo`010Deno obmo`010Dje vidnosti: imetnik povezave vidi samo datoteke, poslane prek te povezave, in jih ne more prenesti ali izbrisati. Vsi, ki poznajo isto povezavo, imajo enak dostop `2013 aplikacija ne razlikuje med ljudmi, ki uporabljajo isto povezavo.''),
    (''links.generate'', js ''Ustvari novo povezavo''),
    (''links.label'', js ''Oznaka prejemnika''),
    (''links.label_placeholder'', js ''npr. Ana Novak `2013 ra`010Dunovodstvo''),
    (''links.expires'', js ''Velja do (UTC, neobvezno)''),
    (''links.max_file'', js ''Najve`010Dja velikost datoteke (neobvezno, `2264 {max})''),
    (''links.max_file_placeholder'', js ''npr. 500MB''),
    (''links.max_files'', js ''Najve`010Dje `0161tevilo datotek (neobvezno)''),
    (''links.max_total'', js ''Najve`010Dja skupna velikost (neobvezno)''),
    (''links.max_total_placeholder'', js ''npr. 2GB''),
    (''links.submit'', js ''Ustvari povezavo''),
    (''links.empty'', js ''Ni povezav.''),
    (''links.col.recipient'', js ''Prejemnik''),
    (''links.col.state'', js ''Stanje''),
    (''links.col.expires'', js ''Velja do''),
    (''links.col.limits'', js ''Omejitve''),
    (''links.col.usage'', js ''Poraba'')]"

definition sl_8 :: messages where
  "sl_8 = [
    (''links.col.last_used'', js ''Nazadnje uporabljena''),
    (''links.state.active'', js ''aktivna''),
    (''links.state.expired'', js ''potekla''),
    (''links.state.revoked'', js ''preklicana''),
    (''links.state.case_closed'', js ''zadeva zaprta''),
    (''links.limit.file'', js ''datoteka `2264 {max}''),
    (''links.limit.files'', js ''datoteke `2264 {n}''),
    (''links.limit.total'', js ''skupaj `2264 {max}''),
    (''links.usage'', js ''datotek: {n}, {size}''),
    (''links.usage_in_progress'', js ''v teku: {n} (rezervirano {size})''),
    (''links.revoke'', js ''Prekli`010Di''),
    (''links.revoke_confirm'', js ''Prekli`010Dem povezavo `00BB{label}`00AB? Nalaganja v teku bodo prekinjena.''),
    (''files.title'', js ''Datoteke''),
    (''files.empty'', js ''Ni datotek.''),
    (''files.col.name'', js ''Ime''),
    (''files.col.recipient'', js ''Prejemnik (povezava)''),
    (''files.col.size'', js ''Velikost''),
    (''files.col.status'', js ''Stanje''),
    (''files.col.uploaded'', js ''Nalo`017Eeno''),
    (''files.declared'', js ''{size} (navedeno)'')]"

definition sl_9 :: messages where
  "sl_9 = [
    (''files.download'', js ''Prenesi''),
    (''files.delete'', js ''Izbri`0161i''),
    (''files.delete_confirm'', js ''Izbri`0161em datoteko `00BB{name}`00AB? Tega ni mogo`010De razveljaviti.''),
    (''files.untrusted'', js ''Datoteke veljajo za nezaupanja vredne: prenosi so vedno priloge, na stre`017Eniku se ni`010D ne prikazuje ali izvaja. Protivirusni pregled ni del te razli`010Dice.''),
    (''files.status.uploading'', js ''v teku''),
    (''files.status.complete'', js ''dokon`010Dano''),
    (''files.status.aborted'', js ''prekinjeno''),
    (''files.status.expired'', js ''poteklo''),
    (''files.status.missing'', js ''manjka v shrambi''),
    (''files.status.deleted'', js ''izbrisano''),
    (''audit.title'', js ''Revizijski dnevnik (zadnjih {n})''),
    (''audit.col.time'', js ''`010Cas''),
    (''audit.col.actor'', js ''Izvajalec''),
    (''audit.col.action'', js ''Dogodek''),
    (''audit.col.case'', js ''Zadeva''),
    (''audit.col.link'', js ''Povezava''),
    (''audit.col.file'', js ''Datoteka''),
    (''audit.col.ip'', js ''IP''),
    (''audit.col.details'', js ''Podrobnosti''),
    (''upload.title'', js ''Nalaganje: {case}'')]"

definition sl_10 :: messages where
  "sl_10 = [
    (''upload.link_for'', js ''Povezava za:''),
    (''upload.valid_until'', js ''velja do {date}''),
    (''upload.limit.file'', js ''Najve`010Dja velikost datoteke:''),
    (''upload.limit.files'', js ''Najve`010Dje `0161tevilo datotek:''),
    (''upload.limit.total'', js ''Skupna omejitev podatkov:''),
    (''upload.used_n'', js ''(porabljeno {n})''),
    (''upload.used_size'', js ''(porabljeno {size})''),
    (''upload.send'', js ''Nalo`017Ei datoteke''),
    (''upload.drop_here'', js ''Povlecite datoteke sem''),
    (''upload.or'', js ''ali''),
    (''upload.choose'', js ''izberite z diska''),
    (''upload.resume_hint'', js ''Velike datoteke se po`0161iljajo po delih in nalaganje je mogo`010De nadaljevati po prekinitvi povezave. Po ponovnem nalaganju strani znova izberite isto datoteko in nalaganje se nadaljuje tam, kjer se je ustavilo.''),
    (''upload.your_files'', js ''Va`0161e datoteke''),
    (''upload.your_files_intro'', js ''Vidite samo datoteke, nalo`017Eene prek te povezave. Tukaj jih ni mogo`010De prenesti ali izbrisati `2013 prevzame jih skrbnik.''),
    (''upload.col.name'', js ''Ime''),
    (''upload.col.size'', js ''Velikost''),
    (''upload.col.date'', js ''Datum''),
    (''upload.col.status'', js ''Stanje''),
    (''upload.none_yet'', js ''Nalo`017Eena ni `0161e nobena datoteka.''),
    (''upload.list_failed'', js ''Seznama ni bilo mogo`010De nalo`017Eiti: {msg}'')]"

definition sl_11 :: messages where
  "sl_11 = [
    (''upload.terminal'', js ''Nalaganje iz terminala''),
    (''upload.terminal_hint'', js ''(curl, skripte, prenosi z nadaljevanjem)''),
    (''upload.terminal_intro'', js ''Zamenjajte {path} s potjo do svoje datoteke (presledki niso te`017Eava). Izhodna koda, razli`010Dna od ni`010D, pomeni napako; odgovor je v obliki JSON.''),
    (''upload.snippet.single'', js ''Ena datoteka''),
    (''upload.snippet.multi'', js ''Ve`010D datotek''),
    (''upload.snippet.env'', js ''`017Deton v spremenljivki okolja (priporo`010Deno)''),
    (''upload.snippet.list'', js ''Seznam nalo`017Eenih datotek''),
    (''upload.snippet.resumable'', js ''Velika datoteka z nadaljevanjem (skripta {script})''),
    (''upload.history_warning'', js ''Opomba: ukaz z `017Eetonom se zapi`0161e v zgodovino lupine (npr. {file}). Razli`010Dica z export, pred katero je presledek, se ne zapi`0161e, `010De je nastavljen {opt}. S to povezavo ravnajte kot z geslom in je ne posredujte naprej.''),
    (''upload.path_placeholder'', js ''/pot/do/datoteke.pdf''),
    (''upload.path_placeholder2'', js ''/pot/porocilo.pdf''),
    (''upload.path_placeholder3'', js ''/pot/foto 1.jpg''),
    (''upload.path_placeholder_big'', js ''/pot/do/velika datoteka.iso''),
    (''upload.js.queued'', js ''v `010Dakalni vrsti`2026''),
    (''upload.js.too_large'', js ''prevelika: omejitev {max}''),
    (''upload.js.error'', js ''napaka: {msg}''),
    (''upload.js.starting'', js ''za`010Denjam`2026''),
    (''upload.js.resuming'', js ''nadaljujem prej`0161nje nalaganje`2026''),
    (''upload.js.retrying'', js ''posku`0161am znova`2026''),
    (''upload.js.done'', js ''dokon`010Dano'')]"

definition sl_12 :: messages where
  "sl_12 = [
    (''upload.js.finalising'', js ''vsi podatki poslani, stre`017Enik zaklju`010Duje`2026''),
    (''upload.js.cancelled'', js ''preklicano''),
    (''upload.js.cancelled_local'', js ''preklicano (lokalno)''),
    (''upload.js.status.uploading'', js ''v teku''),
    (''upload.js.status.complete'', js ''dokon`010Dano''),
    (''nav.users'', js ''Uporabniki''),
    (''cases.empty_assigned'', js ''Dodeljena vam `0161e ni nobena zadeva. Dodeli vam jo lahko sodelavec, ki dela na zadevi, ali skrbnik, lahko pa zgoraj ustvarite novo.''),
    (''error.forbidden.title'', js ''Ni dovoljeno''),
    (''error.forbidden'', js ''Ta stran je samo za skrbnike.''),
    (''security.must_change_notice'', js ''Va`0161e geslo je izdal skrbnik. Preden nadaljujete, spodaj nastavite svoje geslo.''),
    (''members.title'', js ''Dodeljeni uporabniki''),
    (''members.intro'', js ''Uporabnik vidi samo zadeve, ki so mu dodeljene. Skrbniki vidijo vse zadeve.''),
    (''members.empty'', js ''Tej zadevi ni dodeljen noben uporabnik `2014 vidijo jo samo skrbniki.''),
    (''members.user'', js ''Uporabnik''),
    (''members.add'', js ''Dodeli''),
    (''members.added'', js ''Ra`010Dun {username} je zdaj dodeljen tej zadevi.''),
    (''members.remove'', js ''Odvzemi''),
    (''members.remove_confirm'', js ''Odvzeti {username}? Ra`010Dun te zadeve ne bo ve`010D videl.''),
    (''members.removed'', js ''Ra`010Dun {username} nima ve`010D dostopa do te zadeve.''),
    (''members.none_assignable'', js ''Ni ve`010D uporabni`0161kih ra`010Dunov za dodelitev. Ustvarite novega v razdelku {link}.'')]"

definition sl_13 :: messages where
  "sl_13 = [
    (''users.new'', js ''Nov ra`010Dun''),
    (''users.list'', js ''Ra`010Duni''),
    (''users.username'', js ''Uporabni`0161ko ime''),
    (''users.username_placeholder'', js ''npr. ana.novak@podjetje.si''),
    (''users.role'', js ''Vloga''),
    (''users.role.admin'', js ''Skrbnik''),
    (''users.role.user'', js ''Uporabnik''),
    (''users.roles_hint'', js ''Uporabnik vidi in obravnava samo zadeve, ki so mu dodeljene. Skrbnik vidi vse zadeve, upravlja ra`010Dune in bere revizijski dnevnik. Ustvari se za`010Dasno geslo, ki ga je treba ob prvi prijavi zamenjati.''),
    (''users.col.username'', js ''Ra`010Dun''),
    (''users.col.status'', js ''Stanje''),
    (''users.col.totp'', js ''Drugi faktor''),
    (''users.col.cases'', js ''Zadeve''),
    (''users.col.last_login'', js ''Zadnja prijava''),
    (''users.status.active'', js ''aktiven''),
    (''users.status.disabled'', js ''onemogo`010Den''),
    (''users.status.must_change'', js ''zamenjati geslo''),
    (''users.you'', js ''vi''),
    (''users.all_cases'', js ''vse''),
    (''users.issued.title'', js ''Ra`010Dun {username} je ustvarjen''),
    (''users.issued.reset_title'', js ''Novo geslo za {username}'')]"

definition sl_14 :: messages where
  "sl_14 = [
    (''users.issued.copy_now'', js ''To geslo kopirajte zdaj `2014 prika`017Ee se samo enkrat.''),
    (''users.issued.intro'', js ''Predajte ga po drugem kanalu kot uporabni`0161ko ime. Ob prvi prijavi ga je treba zamenjati.''),
    (''users.make_admin'', js ''Nastavi za skrbnika''),
    (''users.make_user'', js ''Nastavi za uporabnika''),
    (''users.role_confirm'', js ''Spremeniti vlogo ra`010Duna {username}?''),
    (''users.role_changed'', js ''Ra`010Dun {username} ima zdaj vlogo: {role}.''),
    (''users.reset_password'', js ''Novo geslo''),
    (''users.reset_password_confirm'', js ''Izdati novo geslo za {username}? Trenutno bo prenehalo delovati, vse seje ra`010Duna pa se bodo kon`010Dale.''),
    (''users.password_reset'', js ''Za {username} je bilo izdano novo geslo, ra`010Dun je bil odjavljen.''),
    (''users.reset_totp'', js ''Ponastavi 2FA''),
    (''users.reset_totp_confirm'', js ''Odstraniti drugi faktor ra`010Duna {username}? Po naslednji prijavi se nastavi znova.''),
    (''users.totp_reset'', js ''Z ra`010Duna {username} je bilo odstranjeno dvostopenjsko preverjanje.''),
    (''users.disable'', js ''Onemogo`010Di''),
    (''users.disable_confirm'', js ''Onemogo`010Diti {username}? Ra`010Dun se odjavi in se ne more prijaviti, dokler ga znova ne omogo`010Dite.''),
    (''users.disabled'', js ''Ra`010Dun {username} je onemogo`010Den in odjavljen.''),
    (''users.enable'', js ''Omogo`010Di''),
    (''users.enabled'', js ''Ra`010Dun {username} se lahko znova prijavi.''),
    (''users.delete'', js ''Izbri`0161i''),
    (''users.delete_confirm'', js ''Izbrisati ra`010Dun {username}? Z njim izginejo tudi dodelitve zadev; revizijski dnevnik ohrani, kaj je naredil.''),
    (''users.deleted'', js ''Ra`010Dun {username} je izbrisan.'')]"

definition sl_15 :: messages where
  "sl_15 = [
    (''users.missing'', js ''Takega ra`010Duna ni.''),
    (''users.not_self'', js ''Svojega ra`010Duna tu ne morete spreminjati `2014 geslo in 2FA sta v razdelku Varnost.''),
    (''users.last_admin'', js ''Ostati mora vsaj en aktiven skrbnik.''),
    (''users.exists'', js ''Ra`010Dun z imenom {username} `017Ee obstaja.''),
    (''users.invalid_username'', js ''Uporabni`0161ko ime ima 2`201364 znakov: `010Drke, `0161tevilke ter . _ @ -''),
    (''users.invalid_role'', js ''Neznana vloga.''),
    (''members.not_self'', js ''Samega sebe ne morete odvzeti. Prosite nekoga drugega na tej zadevi ali skrbnika.''),
    (''members.none_assignable_user'', js ''Ni drugega uporabni`0161kega ra`010Duna za dodelitev.''),
    (''second.title'', js ''Drugi korak prijave''),
    (''second.recovery_label'', js ''Obnovitvena koda''),
    (''common.or'', js ''ali''),
    (''passkey.use'', js ''Uporabi klju`010D za dostop''),
    (''passkey.unsupported'', js ''Ta brskalnik ne podpira klju`010Dev za dostop.''),
    (''passkey.failed'', js ''Klju`010Da za dostop ni bilo mogo`010De preveriti. Poskusite znova.''),
    (''passkey.cancelled'', js ''Preklicano. Poskusite znova, ko boste pripravljeni.''),
    (''confirm.title'', js ''Potrdite svojo istovetnost''),
    (''confirm.intro'', js ''To dejanje zahteva nedavno potrditev. Nato ostane veljavno {minutes} minut, tako da vas ne bo treba znova spra`0161evati pri vsakem koraku.''),
    (''confirm.repeat'', js ''Po potrditvi ponovite to, kar ste po`010Deli.''),
    (''confirm.code_label'', js ''Koda iz aplikacije ali obnovitvena koda''),
    (''confirm.password_label'', js ''Va`0161e geslo'')]"

definition sl_16 :: messages where
  "sl_16 = [
    (''confirm.submit'', js ''Potrdi''),
    (''confirm.invalid'', js ''Podatka se ne ujemata. Poskusite znova.''),
    (''confirm.locked'', js ''Preve`010D napa`010Dnih kod za ta ra`010Dun. Poskusite znova `010Dez 15 minut.''),
    (''passkeys.title'', js ''Klju`010Di za dostop''),
    (''passkeys.intro'', js ''Klju`010D za dostop hrani va`0161a naprava, upravitelj gesel ali varnostni klju`010D in ga ni mogo`010De izmakniti z la`017Enim predstavljanjem. Deluje kot drugi korak prijave in za potrditev ob`010Dutljivih dejanj.''),
    (''passkeys.none'', js ''Klju`010Dev za dostop `0161e ni.''),
    (''passkeys.name'', js ''Ime''),
    (''passkeys.name_placeholder'', js ''npr. prenosnik, varnostni klju`010D''),
    (''passkeys.added_at'', js ''Dodano''),
    (''passkeys.last_used'', js ''Zadnji`010D uporabljeno''),
    (''passkeys.add'', js ''Dodaj klju`010D za dostop''),
    (''passkeys.remove'', js ''Odstrani''),
    (''passkeys.remove_confirm'', js ''Odstraniti ta klju`010D za dostop? Druge seje tega ra`010Duna bodo odjavljene.''),
    (''passkeys.added'', js ''Klju`010D za dostop `00BB{name}`00AB je dodan.''),
    (''passkeys.removed'', js ''Klju`010D za dostop `00BB{name}`00AB je odstranjen. Druge seje tega ra`010Duna so bile odjavljene.''),
    (''passkeys.last_required'', js ''Ta primerek zahteva drugi faktor. Preden odstranite zadnjega, dodajte drugega.''),
    (''passkeys.limit'', js ''Ra`010Dun ima lahko najve`010D {n} klju`010Dev za dostop.''),
    (''passkeys.duplicate'', js ''Ta klju`010D za dostop je `017Ee registriran.''),
    (''security.recovery.regenerate_confirmed'', js ''Ustvari nove kode (stare prenehajo delovati)''),
    (''sessions.title'', js ''Aktivne seje'')]"

definition sl_17 :: messages where
  "sl_17 = [
    (''sessions.intro'', js ''Vsa mesta, kjer je ta ra`010Dun prijavljen. Odjavite tista, ki jih ne prepoznate, nato pa spremenite geslo.''),
    (''sessions.device'', js ''Naprava''),
    (''sessions.ip'', js ''Naslov IP''),
    (''sessions.started'', js ''Za`010Deto''),
    (''sessions.last_seen'', js ''Zadnja dejavnost''),
    (''sessions.current'', js ''ta seja''),
    (''sessions.pending'', js ''samo geslo, drugi korak ni opravljen''),
    (''sessions.bound'', js ''vezano na to napravo''),
    (''sessions.factor'', js ''drugi korak: {factor}''),
    (''sessions.via.totp'', js ''koda iz aplikacije''),
    (''sessions.via.recovery'', js ''obnovitvena koda''),
    (''sessions.via.passkey'', js ''klju`010D za dostop''),
    (''sessions.unknown_device'', js ''Neznana naprava''),
    (''sessions.revoke'', js ''Odjavi''),
    (''sessions.revoke_others'', js ''Odjavi vse druge seje''),
    (''sessions.revoked'', js ''Seja je bila odjavljena.''),
    (''sessions.revoked_others'', js ''Vse druge seje so bile odjavljene.'')]"

definition sl_messages :: messages where
  "sl_messages = sl_1 @ sl_2 @ sl_3 @ sl_4 @ sl_5 @ sl_6 @ sl_7 @ sl_8 @ sl_9 @ sl_10 @ sl_11 @ sl_12 @ sl_13 @ sl_14 @ sl_15 @ sl_16 @ sl_17"

lemmas sl_defs =
  sl_1_def sl_2_def sl_3_def sl_4_def sl_5_def sl_6_def sl_7_def sl_8_def sl_9_def sl_10_def sl_11_def sl_12_def sl_13_def sl_14_def
  sl_15_def sl_16_def sl_17_def

lemma sl_fits: "fits sl_messages message_shape"
  unfolding sl_messages_def message_shape_def
  by (intro fits_append; unfold sl_defs shape_defs; simp only: fits_rules cong: literal_congs)

end
