(* ===== verification/Locale_Sv.thy ===== *)
theory Locale_Sv
  imports Locale_En
begin

text \<open>src/locales/sv.ts: Swedish.\<close>

definition sv_1 :: messages where
  "sv_1 = [
    (''app.tagline'', js ''privat inl`00E4mningsl`00E5da f`00F6r filer''),
    (''common.back_to_cases'', js ''`2190 `00C4renden''),
    (''common.home'', js ''Start''),
    (''common.copy'', js ''Kopiera''),
    (''common.copied'', js ''Kopierat''),
    (''common.copy_manual'', js ''Markera och kopiera manuellt''),
    (''common.save'', js ''Spara''),
    (''common.create'', js ''Skapa''),
    (''common.cancel'', js ''Avbryt''),
    (''common.retry'', js ''F`00F6rs`00F6k igen''),
    (''common.never'', js ''aldrig''),
    (''common.unlimited'', js ''ingen utg`00E5ng''),
    (''common.none'', js ''`2014''),
    (''common.optional'', js ''valfritt''),
    (''common.loading'', js ''L`00E4ser in`2026''),
    (''common.yes'', js ''Ja''),
    (''common.language'', js ''Spr`00E5k''),
    (''nav.cases'', js ''`00C4renden''),
    (''nav.audit'', js ''Granskningslogg''),
    (''nav.security'', js ''S`00E4kerhet'')]"

definition sv_2 :: messages where
  "sv_2 = [
    (''nav.logout'', js ''Logga ut''),
    (''error.not_found.title'', js ''Hittades inte''),
    (''error.page_missing'', js ''Sidan finns inte.''),
    (''error.case_missing'', js ''`00C4rendet finns inte.''),
    (''error.link_missing'', js ''L`00E4nken finns inte.''),
    (''error.file_missing'', js ''Filen finns inte eller `00E4r inte tillg`00E4nglig.''),
    (''error.file_not_exist'', js ''Filen finns inte.''),
    (''error.storage_missing.title'', js ''Filen saknas i lagringen''),
    (''error.storage_missing'', js ''Metadata finns, men objektet har f`00F6rsvunnit fr`00E5n lagringen. K`00F6r rensningen f`00F6r att markera filen som saknad.''),
    (''error.server.title'', js ''Serverfel''),
    (''error.server'', js ''Ett ov`00E4ntat fel uppstod.''),
    (''error.bad_request.title'', js ''Felaktig beg`00E4ran''),
    (''error.cross_site'', js ''Beg`00E4ran fr`00E5n annan webbplats blockerades''),
    (''error.csrf'', js ''Ogiltig CSRF-token''),
    (''error.invalid_expiry'', js ''Ogiltigt utg`00E5ngsdatum''),
    (''link.invalid.title'', js ''Ogiltig l`00E4nk''),
    (''link.invalid'', js ''Uppladdningsl`00E4nken finns inte.''),
    (''link.unavailable.title'', js ''L`00E4nken `00E4r inte tillg`00E4nglig''),
    (''link.expired'', js ''L`00E4nken har g`00E5tt ut.''),
    (''link.revoked'', js ''L`00E4nken har `00E5terkallats.'')]"

definition sv_3 :: messages where
  "sv_3 = [
    (''link.case_closed'', js ''`00C4rendet har st`00E4ngts och tar inte l`00E4ngre emot filer.''),
    (''link.contact'', js ''Kontakta den som gav dig l`00E4nken.''),
    (''login.title'', js ''Inloggning f`00F6r administrat`00F6r''),
    (''login.username'', js ''Anv`00E4ndarnamn''),
    (''login.password'', js ''L`00F6senord''),
    (''login.submit'', js ''Logga in''),
    (''login.failed'', js ''Ogiltigt anv`00E4ndarnamn eller l`00F6senord.''),
    (''login.too_many_codes'', js ''F`00F6r m`00E5nga felaktiga koder. Logga in igen.''),
    (''login.account_locked'', js ''F`00F6r m`00E5nga felaktiga koder f`00F6r kontot. Den andra faktorn `00E4r l`00E5st i 15 minuter.''),
    (''totp.title'', js ''Kod fr`00E5n din autentiseringsapp''),
    (''totp.code_label'', js ''Kod (6 siffror) eller `00E5terst`00E4llningskod''),
    (''totp.confirm'', js ''Bekr`00E4fta''),
    (''totp.cancel_logout'', js ''Avbryt och logga ut''),
    (''totp.invalid'', js ''Ogiltig kod.''),
    (''totp.attempts_left'', js ''`00C5terst`00E5ende f`00F6rs`00F6k: {n}.''),
    (''totp.locked_until'', js ''Kontot `00E4r tillf`00E4lligt l`00E5st efter m`00E5nga felaktiga koder (till {until} UTC).''),
    (''security.title'', js ''S`00E4kerhet f`00F6r kontot `201D{user}`201D''),
    (''security.required_notice'', js ''Den h`00E4r instansen kr`00E4ver en andra faktor. Panelen `00E4r otillg`00E4nglig tills du l`00E4gger till en autentiseringsapp eller en l`00F6sennyckel nedan.''),
    (''security.status'', js ''Tv`00E5faktorsautentisering (TOTP, RFC 6238): {state}.''),
    (''security.enabled'', js ''aktiverad'')]"

definition sv_4 :: messages where
  "sv_4 = [
    (''security.disabled'', js ''inaktiverad''),
    (''security.recovery_left'', js ''Oanv`00E4nda `00E5terst`00E4llningskoder: {n}.''),
    (''security.recovery.title'', js ''`00C5terst`00E4llningskoder''),
    (''security.recovery.intro'', js ''Spara dem nu p`00E5 ett s`00E4kert st`00E4lle. Varje kod fungerar en g`00E5ng och ers`00E4tter appkoden om du f`00F6rlorar `00E5tkomsten till appen. De visas inte igen.''),
    (''security.enable.title'', js ''Aktivera TOTP''),
    (''security.enable.intro'', js ''Du beh`00F6ver en autentiseringsapp (t.ex. Aegis, Google Authenticator, 1Password, Bitwarden). N`00E4r den `00E4r aktiverad kr`00E4ver inloggning l`00F6senordet och en aktuell kod.''),
    (''security.enable.start'', js ''Starta konfigurationen''),
    (''security.step1'', js ''Steg 1: skanna koden i din app''),
    (''security.manual_key'', js ''Eller ange nyckeln manuellt:''),
    (''security.key_params'', js ''Typ: TOTP, SHA-1, 6 siffror, 30 s. Utf`00E4rdare: {issuer}, konto: {user}.''),
    (''security.open_in_app'', js ''`00D6ppna i autentiseringsappen''),
    (''security.on_phone'', js ''(p`00E5 en telefon)''),
    (''security.step2'', js ''Steg 2: bekr`00E4fta med en kod''),
    (''security.code_from_app'', js ''Kod fr`00E5n appen''),
    (''security.enable.submit'', js ''Aktivera TOTP''),
    (''security.pending_note'', js ''Nyckeln `00E4r tillf`00E4llig tills den bekr`00E4ftas; om du startar konfigurationen igen skapas en ny.''),
    (''security.current_code'', js ''Aktuell kod fr`00E5n appen''),
    (''security.regenerate'', js ''Skapa nya koder (de gamla slutar fungera)''),
    (''security.disable.title'', js ''Inaktivera TOTP''),
    (''security.disable.intro'', js ''Kr`00E4ver en aktuell kod fr`00E5n appen eller en `00E5terst`00E4llningskod: sessionen ensam (t.ex. en stulen cookie) r`00E4cker inte. Om b`00E5de appen och `00E5terst`00E4llningskoderna har g`00E5tt f`00F6rlorade kan en operat`00F6r k`00F6ra {cmd} p`00E5 servern.'')]"

definition sv_5 :: messages where
  "sv_5 = [
    (''security.disable.code'', js ''Kod''),
    (''security.disable.submit'', js ''Inaktivera''),
    (''security.disable.confirm'', js ''Inaktivera tv`00E5faktorsautentisering?''),
    (''security.msg.enabled'', js ''Tv`00E5faktorsautentisering `00E4r aktiverad.''),
    (''security.msg.code_mismatch'', js ''Koden st`00E4mmer inte. Kontrollera tiden p`00E5 telefonen och f`00F6rs`00F6k igen.''),
    (''security.msg.invalid_code'', js ''Ogiltig kod.''),
    (''security.msg.regenerated'', js ''Nya `00E5terst`00E4llningskoder har skapats.''),
    (''security.msg.required'', js ''Den h`00E4r instansen kr`00E4ver TOTP (ADMIN_REQUIRE_TOTP); det kan inte inaktiveras.''),
    (''security.msg.disabled'', js ''Tv`00E5faktorsautentisering har inaktiverats.''),
    (''security.password.title'', js ''Byt l`00F6senord''),
    (''security.password.current'', js ''Nuvarande l`00F6senord''),
    (''security.password.new'', js ''Nytt l`00F6senord (minst 12 tecken)''),
    (''security.password.confirm'', js ''Bekr`00E4fta det nya l`00F6senordet''),
    (''security.password.submit'', js ''Byt l`00F6senord''),
    (''security.password.mismatch'', js ''Det nya l`00F6senordet och bekr`00E4ftelsen st`00E4mmer inte `00F6verens.''),
    (''security.password.invalid_current'', js ''Det nuvarande l`00F6senordet `00E4r fel.''),
    (''security.password.changed'', js ''L`00F6senordet har bytts. Kontots `00F6vriga sessioner har loggats ut.''),
    (''home.title'', js ''inletbox''),
    (''home.message'', js ''Det h`00E4r `00E4r en privat inl`00E4mningsl`00E5da f`00F6r filer. Anv`00E4nd l`00E4nken du fick av den som beg`00E4rde filerna f`00F6r att ladda upp dem.''),
    (''cases.new'', js ''Nytt `00E4rende'')]"

definition sv_6 :: messages where
  "sv_6 = [
    (''cases.name'', js ''Namn''),
    (''cases.name_placeholder'', js ''t.ex. Revision 2026/09 `2013 Kund X''),
    (''cases.description_optional'', js ''Beskrivning (valfritt)''),
    (''cases.description'', js ''Beskrivning''),
    (''cases.list'', js ''`00C4renden''),
    (''cases.empty'', js ''Inga `00E4renden.''),
    (''cases.col.name'', js ''Namn''),
    (''cases.col.status'', js ''Status''),
    (''cases.col.links'', js ''Aktiva l`00E4nkar''),
    (''cases.col.files'', js ''Filer''),
    (''cases.col.size'', js ''Storlek''),
    (''cases.col.created'', js ''Skapat''),
    (''case.open'', js ''`00F6ppet''),
    (''case.closed'', js ''st`00E4ngt''),
    (''case.close'', js ''St`00E4ng `00E4rendet''),
    (''case.reopen'', js ''`00D6ppna igen''),
    (''case.meta'', js ''ID: {id} `00B7 skapat {date}. Ett st`00E4ngt `00E4rende tar inte emot uppladdningar via n`00E5gon av sina l`00E4nkar.''),
    (''case.saved'', js ''Sparat.''),
    (''case.closed_no_links'', js ''`00C4rendet `00E4r st`00E4ngt `2013 `00F6ppna det igen f`00F6r att skapa l`00E4nkar.''),
    (''case.new_link.title'', js ''Ny l`00E4nk f`00F6r `201D{label}`201D'')]"

definition sv_7 :: messages where
  "sv_7 = [
    (''case.new_link.intro'', js ''Kopiera den nu. Token lagras bara som hash och kan inte `00E5terst`00E4llas senare `2013 du kan bara skapa en ny l`00E4nk.''),
    (''case.new_link.copy_now'', js ''Kopiera den nu.''),
    (''links.title'', js ''Uppladdningsl`00E4nkar''),
    (''links.intro'', js ''Varje l`00E4nk `00E4r en separat mottagare och ett separat synlighetsomr`00E5de: den som har l`00E4nken ser bara filer som skickats via den l`00E4nken och kan inte ladda ned eller radera dem. Alla som k`00E4nner till samma l`00E4nk har identisk `00E5tkomst `2013 programmet skiljer inte mellan personer som anv`00E4nder samma l`00E4nk.''),
    (''links.generate'', js ''Skapa en ny l`00E4nk''),
    (''links.label'', js ''Mottagarens etikett''),
    (''links.label_placeholder'', js ''t.ex. Anna Andersson `2013 ekonomi''),
    (''links.expires'', js ''Giltig till (UTC, valfritt)''),
    (''links.max_file'', js ''Max filstorlek (valfritt, `2264 {max})''),
    (''links.max_file_placeholder'', js ''t.ex. 500MB''),
    (''links.max_files'', js ''Max antal filer (valfritt)''),
    (''links.max_total'', js ''Max total storlek (valfritt)''),
    (''links.max_total_placeholder'', js ''t.ex. 2GB''),
    (''links.submit'', js ''Skapa l`00E4nk''),
    (''links.empty'', js ''Inga l`00E4nkar.''),
    (''links.col.recipient'', js ''Mottagare''),
    (''links.col.state'', js ''Tillst`00E5nd''),
    (''links.col.expires'', js ''Giltig till''),
    (''links.col.limits'', js ''Gr`00E4nser''),
    (''links.col.usage'', js ''Anv`00E4ndning'')]"

definition sv_8 :: messages where
  "sv_8 = [
    (''links.col.last_used'', js ''Senast anv`00E4nd''),
    (''links.state.active'', js ''aktiv''),
    (''links.state.expired'', js ''utg`00E5ngen''),
    (''links.state.revoked'', js ''`00E5terkallad''),
    (''links.state.case_closed'', js ''`00E4rendet st`00E4ngt''),
    (''links.limit.file'', js ''fil `2264 {max}''),
    (''links.limit.files'', js ''filer `2264 {n}''),
    (''links.limit.total'', js ''totalt `2264 {max}''),
    (''links.usage'', js ''{n} filer, {size}''),
    (''links.usage_in_progress'', js ''{n} p`00E5g`00E5r ({size} reserverat)''),
    (''links.revoke'', js ''`00C5terkalla''),
    (''links.revoke_confirm'', js ''`00C5terkalla l`00E4nken `201D{label}`201D? P`00E5g`00E5ende uppladdningar avbryts.''),
    (''files.title'', js ''Filer''),
    (''files.empty'', js ''Inga filer.''),
    (''files.col.name'', js ''Namn''),
    (''files.col.recipient'', js ''Mottagare (l`00E4nk)''),
    (''files.col.size'', js ''Storlek''),
    (''files.col.status'', js ''Status''),
    (''files.col.uploaded'', js ''Uppladdad''),
    (''files.declared'', js ''{size} (angiven)'')]"

definition sv_9 :: messages where
  "sv_9 = [
    (''files.download'', js ''Ladda ned''),
    (''files.delete'', js ''Radera''),
    (''files.delete_confirm'', js ''Radera filen `201D{name}`201D? Det g`00E5r inte att `00E5ngra.''),
    (''files.untrusted'', js ''Filer behandlas som op`00E5litliga: nedladdningar `00E4r alltid bilagor och ingenting visas eller k`00F6rs p`00E5 servern. Viruss`00F6kning ing`00E5r inte i den h`00E4r versionen.''),
    (''files.status.uploading'', js ''p`00E5g`00E5r''),
    (''files.status.complete'', js ''klar''),
    (''files.status.aborted'', js ''avbruten''),
    (''files.status.expired'', js ''utg`00E5ngen''),
    (''files.status.missing'', js ''saknas i lagringen''),
    (''files.status.deleted'', js ''raderad''),
    (''audit.title'', js ''Granskningslogg (senaste {n})''),
    (''audit.col.time'', js ''Tid''),
    (''audit.col.actor'', js ''Akt`00F6r''),
    (''audit.col.action'', js ''H`00E4ndelse''),
    (''audit.col.case'', js ''`00C4rende''),
    (''audit.col.link'', js ''L`00E4nk''),
    (''audit.col.file'', js ''Fil''),
    (''audit.col.ip'', js ''IP''),
    (''audit.col.details'', js ''Detaljer''),
    (''upload.title'', js ''Uppladdning: {case}'')]"

definition sv_10 :: messages where
  "sv_10 = [
    (''upload.link_for'', js ''L`00E4nk f`00F6r:''),
    (''upload.valid_until'', js ''giltig till {date}''),
    (''upload.limit.file'', js ''Maximal filstorlek:''),
    (''upload.limit.files'', js ''Maximalt antal filer:''),
    (''upload.limit.total'', js ''Total datagr`00E4ns:''),
    (''upload.used_n'', js ''({n} anv`00E4nda)''),
    (''upload.used_size'', js ''({size} anv`00E4nt)''),
    (''upload.send'', js ''Ladda upp filer''),
    (''upload.drop_here'', js ''Dra filer hit''),
    (''upload.or'', js ''eller''),
    (''upload.choose'', js ''v`00E4lj fr`00E5n disken''),
    (''upload.resume_hint'', js ''Stora filer skickas i delar och kan `00E5terupptas efter ett avbrott i anslutningen. V`00E4lj samma fil igen efter att du laddat om sidan, s`00E5 forts`00E4tter uppladdningen d`00E4r den stannade.''),
    (''upload.your_files'', js ''Dina filer''),
    (''upload.your_files_intro'', js ''Du ser bara filer som laddats upp via den h`00E4r l`00E4nken. Filer kan inte laddas ned eller raderas h`00E4r `2013 administrat`00F6ren h`00E4mtar dem.''),
    (''upload.col.name'', js ''Namn''),
    (''upload.col.size'', js ''Storlek''),
    (''upload.col.date'', js ''Datum''),
    (''upload.col.status'', js ''Status''),
    (''upload.none_yet'', js ''Inga filer uppladdade `00E4nnu.''),
    (''upload.list_failed'', js ''Det gick inte att l`00E4sa in listan: {msg}'')]"

definition sv_11 :: messages where
  "sv_11 = [
    (''upload.terminal'', js ''Ladda upp fr`00E5n terminalen''),
    (''upload.terminal_hint'', js ''(curl, skript, `00E5terupptagbara `00F6verf`00F6ringar)''),
    (''upload.terminal_intro'', js ''Ers`00E4tt {path} med s`00F6kv`00E4gen till din fil (mellanslag g`00E5r bra). En slutkod som inte `00E4r noll betyder fel; svaret `00E4r JSON.''),
    (''upload.snippet.single'', js ''En fil''),
    (''upload.snippet.multi'', js ''Flera filer''),
    (''upload.snippet.env'', js ''Token i en milj`00F6variabel (rekommenderas)''),
    (''upload.snippet.list'', js ''Lista uppladdade filer''),
    (''upload.snippet.resumable'', js ''Stor fil med `00E5terupptagning (skript {script})''),
    (''upload.history_warning'', js ''Obs! Ett kommando som inneh`00E5ller token hamnar i skalets historik (t.ex. {file}). Export-varianten med ett inledande mellanslag sparas inte n`00E4r {opt} `00E4r satt. Behandla l`00E4nken som ett l`00F6senord och l`00E4mna inte ut den.''),
    (''upload.path_placeholder'', js ''/s`00F6kv`00E4g/till/fil.pdf''),
    (''upload.path_placeholder2'', js ''/s`00F6kv`00E4g/rapport.pdf''),
    (''upload.path_placeholder3'', js ''/s`00F6kv`00E4g/foto 1.jpg''),
    (''upload.path_placeholder_big'', js ''/s`00F6kv`00E4g/till/stor fil.iso''),
    (''upload.js.queued'', js ''i k`00F6`2026''),
    (''upload.js.too_large'', js ''f`00F6r stor: gr`00E4ns {max}''),
    (''upload.js.error'', js ''fel: {msg}''),
    (''upload.js.starting'', js ''startar`2026''),
    (''upload.js.resuming'', js ''`00E5terupptar tidigare uppladdning`2026''),
    (''upload.js.retrying'', js ''f`00F6rs`00F6ker igen`2026''),
    (''upload.js.done'', js ''klar'')]"

definition sv_12 :: messages where
  "sv_12 = [
    (''upload.js.finalising'', js ''all data skickad, servern slutf`00F6r`2026''),
    (''upload.js.cancelled'', js ''avbruten''),
    (''upload.js.cancelled_local'', js ''avbruten (lokalt)''),
    (''upload.js.status.uploading'', js ''p`00E5g`00E5r''),
    (''upload.js.status.complete'', js ''klar''),
    (''nav.users'', js ''Anv`00E4ndare''),
    (''cases.empty_assigned'', js ''Du har `00E4nnu inte tilldelats n`00E5gra `00E4renden. En kollega som arbetar med ett `00E4rende, eller en administrat`00F6r, kan tilldela dig det, eller s`00E5 kan du skapa ett nytt ovan.''),
    (''error.forbidden.title'', js ''Inte till`00E5tet''),
    (''error.forbidden'', js ''Den h`00E4r sidan `00E4r bara f`00F6r administrat`00F6rer.''),
    (''security.must_change_notice'', js ''Ditt l`00F6senord har utf`00E4rdats av en administrat`00F6r. V`00E4lj ett eget nedan innan du forts`00E4tter.''),
    (''members.title'', js ''Tilldelade anv`00E4ndare''),
    (''members.intro'', js ''En anv`00E4ndare ser bara de `00E4renden hen har tilldelats. Administrat`00F6rer ser alla `00E4renden.''),
    (''members.empty'', js ''Ingen anv`00E4ndare har tilldelats det h`00E4r `00E4rendet `2014 bara administrat`00F6rer ser det.''),
    (''members.user'', js ''Anv`00E4ndare''),
    (''members.add'', js ''Tilldela''),
    (''members.added'', js ''Kontot {username} `00E4r nu tilldelat det h`00E4r `00E4rendet.''),
    (''members.remove'', js ''Ta bort''),
    (''members.remove_confirm'', js ''Ta bort {username}? Kontot kommer inte l`00E4ngre att se det h`00E4r `00E4rendet.''),
    (''members.removed'', js ''Kontot {username} har inte l`00E4ngre `00E5tkomst till det h`00E4r `00E4rendet.''),
    (''members.none_assignable'', js ''Det finns inga fler anv`00E4ndarkonton att tilldela. Skapa ett under {link}.'')]"

definition sv_13 :: messages where
  "sv_13 = [
    (''users.new'', js ''Nytt konto''),
    (''users.list'', js ''Konton''),
    (''users.username'', js ''Anv`00E4ndarnamn''),
    (''users.username_placeholder'', js ''t.ex. anna.andersson@foretag.se''),
    (''users.role'', js ''Roll''),
    (''users.role.admin'', js ''Administrat`00F6r''),
    (''users.role.user'', js ''Anv`00E4ndare''),
    (''users.roles_hint'', js ''En anv`00E4ndare ser och arbetar bara med de `00E4renden hen har tilldelats. En administrat`00F6r ser alla `00E4renden, hanterar konton och l`00E4ser granskningsloggen. Ett tillf`00E4lligt l`00F6senord skapas; det m`00E5ste bytas vid f`00F6rsta inloggningen.''),
    (''users.col.username'', js ''Konto''),
    (''users.col.status'', js ''L`00E4ge''),
    (''users.col.totp'', js ''Andra faktor''),
    (''users.col.cases'', js ''`00C4renden''),
    (''users.col.last_login'', js ''Senaste inloggning''),
    (''users.status.active'', js ''aktivt''),
    (''users.status.disabled'', js ''inaktiverat''),
    (''users.status.must_change'', js ''l`00F6senord ska bytas''),
    (''users.you'', js ''du''),
    (''users.all_cases'', js ''alla''),
    (''users.issued.title'', js ''Kontot {username} har skapats''),
    (''users.issued.reset_title'', js ''Nytt l`00F6senord f`00F6r {username}'')]"

definition sv_14 :: messages where
  "sv_14 = [
    (''users.issued.copy_now'', js ''Kopiera l`00F6senordet nu `2014 det visas bara en g`00E5ng.''),
    (''users.issued.intro'', js ''L`00E4mna `00F6ver det via en annan kanal `00E4n anv`00E4ndarnamnet. Det m`00E5ste bytas vid f`00F6rsta inloggningen.''),
    (''users.make_admin'', js ''G`00F6r till administrat`00F6r''),
    (''users.make_user'', js ''G`00F6r till anv`00E4ndare''),
    (''users.role_confirm'', js ''`00C4ndra rollen f`00F6r kontot {username}?''),
    (''users.role_changed'', js ''Kontot {username} har nu rollen: {role}.''),
    (''users.reset_password'', js ''Nytt l`00F6senord''),
    (''users.reset_password_confirm'', js ''Utf`00E4rda ett nytt l`00F6senord f`00F6r {username}? Det nuvarande slutar fungera och alla kontots sessioner avslutas.''),
    (''users.password_reset'', js ''Ett nytt l`00F6senord har utf`00E4rdats f`00F6r {username} och kontot har loggats ut.''),
    (''users.reset_totp'', js ''`00C5terst`00E4ll 2FA''),
    (''users.reset_totp_confirm'', js ''Ta bort den andra faktorn f`00F6r {username}? Den st`00E4lls in igen efter n`00E4sta inloggning.''),
    (''users.totp_reset'', js ''Tv`00E5faktorsautentisering har tagits bort fr`00E5n kontot {username}.''),
    (''users.disable'', js ''Inaktivera''),
    (''users.disable_confirm'', js ''Inaktivera {username}? Kontot loggas ut och kan inte logga in f`00F6rr`00E4n det aktiveras igen.''),
    (''users.disabled'', js ''Kontot {username} har inaktiverats och loggats ut.''),
    (''users.enable'', js ''Aktivera''),
    (''users.enabled'', js ''Kontot {username} kan logga in igen.''),
    (''users.delete'', js ''Radera''),
    (''users.delete_confirm'', js ''Radera kontot {username}? Dess `00E4rendetilldelningar f`00F6rsvinner med det; granskningsloggen beh`00E5ller vad det har gjort.''),
    (''users.deleted'', js ''Kontot {username} har raderats.'')]"

definition sv_15 :: messages where
  "sv_15 = [
    (''users.missing'', js ''Kontot finns inte.''),
    (''users.not_self'', js ''Ditt eget konto `00E4ndrar du inte h`00E4r `2014 l`00F6senord och 2FA finns under S`00E4kerhet.''),
    (''users.last_admin'', js ''Minst en aktiv administrat`00F6r m`00E5ste finnas kvar.''),
    (''users.exists'', js ''Det finns redan ett konto som heter {username}.''),
    (''users.invalid_username'', js ''Ett anv`00E4ndarnamn har 2`201364 tecken: bokst`00E4ver, siffror och . _ @ -''),
    (''users.invalid_role'', js ''Ok`00E4nd roll.''),
    (''members.not_self'', js ''Du kan inte ta bort dig sj`00E4lv. Be n`00E5gon annan i `00E4rendet eller en administrat`00F6r.''),
    (''members.none_assignable_user'', js ''Det finns inget annat anv`00E4ndarkonto att tilldela.''),
    (''second.title'', js ''Andra steget i inloggningen''),
    (''second.recovery_label'', js ''`00C5terst`00E4llningskod''),
    (''common.or'', js ''eller''),
    (''passkey.use'', js ''Anv`00E4nd en l`00F6sennyckel''),
    (''passkey.unsupported'', js ''Den h`00E4r webbl`00E4saren st`00F6der inte l`00F6sennycklar.''),
    (''passkey.failed'', js ''Det gick inte att verifiera l`00F6sennyckeln. F`00F6rs`00F6k igen.''),
    (''passkey.cancelled'', js ''Avbr`00F6ts. F`00F6rs`00F6k igen n`00E4r du `00E4r redo.''),
    (''confirm.title'', js ''Bekr`00E4fta att det `00E4r du''),
    (''confirm.intro'', js ''Den h`00E4r `00E5tg`00E4rden kr`00E4ver en nyligen gjord bekr`00E4ftelse. Den f`00F6rblir sedan giltig i {minutes} minuter, s`00E5 du inte tillfr`00E5gas igen vid varje steg.''),
    (''confirm.repeat'', js ''Upprepa det du h`00F6ll p`00E5 med efter bekr`00E4ftelsen.''),
    (''confirm.code_label'', js ''Kod fr`00E5n appen eller en `00E5terst`00E4llningskod''),
    (''confirm.password_label'', js ''Ditt l`00F6senord'')]"

definition sv_16 :: messages where
  "sv_16 = [
    (''confirm.submit'', js ''Bekr`00E4fta''),
    (''confirm.invalid'', js ''Det st`00E4mde inte. F`00F6rs`00F6k igen.''),
    (''confirm.locked'', js ''F`00F6r m`00E5nga felaktiga koder f`00F6r kontot. F`00F6rs`00F6k igen om 15 minuter.''),
    (''passkeys.title'', js ''L`00F6sennycklar''),
    (''passkeys.intro'', js ''En l`00F6sennyckel sparas p`00E5 din enhet, i din l`00F6senordshanterare eller p`00E5 en s`00E4kerhetsnyckel och kan inte n`00E4tfiskas. Den fungerar som det andra steget i inloggningen och f`00F6r att bekr`00E4fta k`00E4nsliga `00E5tg`00E4rder.''),
    (''passkeys.none'', js ''Inga l`00F6sennycklar `00E4nnu.''),
    (''passkeys.name'', js ''Namn''),
    (''passkeys.name_placeholder'', js ''t.ex. b`00E4rbar dator, s`00E4kerhetsnyckel''),
    (''passkeys.added_at'', js ''Tillagd''),
    (''passkeys.last_used'', js ''Senast anv`00E4nd''),
    (''passkeys.add'', js ''L`00E4gg till en l`00F6sennyckel''),
    (''passkeys.remove'', js ''Ta bort''),
    (''passkeys.remove_confirm'', js ''Ta bort denna l`00F6sennyckel? Kontots `00F6vriga sessioner loggas ut.''),
    (''passkeys.added'', js ''L`00F6sennyckeln `201D{name}`201D har lagts till.''),
    (''passkeys.removed'', js ''L`00F6sennyckeln `201D{name}`201D har tagits bort. Kontots `00F6vriga sessioner har loggats ut.''),
    (''passkeys.last_required'', js ''Den h`00E4r instansen kr`00E4ver en andra faktor. L`00E4gg till en till innan du tar bort den sista.''),
    (''passkeys.limit'', js ''Ett konto kan ha h`00F6gst {n} l`00F6sennycklar.''),
    (''passkeys.duplicate'', js ''Den h`00E4r l`00F6sennyckeln `00E4r redan registrerad.''),
    (''security.recovery.regenerate_confirmed'', js ''Skapa nya koder (de gamla slutar fungera)''),
    (''sessions.title'', js ''Aktiva sessioner'')]"

definition sv_17 :: messages where
  "sv_17 = [
    (''sessions.intro'', js ''Alla platser d`00E4r det h`00E4r kontot `00E4r inloggat. Logga ut sessioner du inte k`00E4nner igen och byt sedan ditt l`00F6senord.''),
    (''sessions.device'', js ''Enhet''),
    (''sessions.ip'', js ''IP-adress''),
    (''sessions.started'', js ''Startades''),
    (''sessions.last_seen'', js ''Senaste aktivitet''),
    (''sessions.current'', js ''denna session''),
    (''sessions.pending'', js ''endast l`00F6senord, andra steget inte slutf`00F6rt''),
    (''sessions.bound'', js ''bunden till denna enhet''),
    (''sessions.factor'', js ''andra steget: {factor}''),
    (''sessions.via.totp'', js ''appkod''),
    (''sessions.via.recovery'', js ''`00E5terst`00E4llningskod''),
    (''sessions.via.passkey'', js ''l`00F6sennyckel''),
    (''sessions.unknown_device'', js ''Ok`00E4nd enhet''),
    (''sessions.revoke'', js ''Logga ut''),
    (''sessions.revoke_others'', js ''Logga ut alla andra sessioner''),
    (''sessions.revoked'', js ''Sessionen har loggats ut.''),
    (''sessions.revoked_others'', js ''Alla andra sessioner har loggats ut.'')]"

definition sv_messages :: messages where
  "sv_messages = sv_1 @ sv_2 @ sv_3 @ sv_4 @ sv_5 @ sv_6 @ sv_7 @ sv_8 @ sv_9 @ sv_10 @ sv_11 @ sv_12 @ sv_13 @ sv_14 @ sv_15 @ sv_16 @ sv_17"

lemmas sv_defs =
  sv_1_def sv_2_def sv_3_def sv_4_def sv_5_def sv_6_def sv_7_def sv_8_def sv_9_def sv_10_def sv_11_def sv_12_def sv_13_def sv_14_def
  sv_15_def sv_16_def sv_17_def

lemma sv_fits: "fits sv_messages message_shape"
  unfolding sv_messages_def message_shape_def
  by (intro fits_append; unfold sv_defs shape_defs; simp only: fits_rules cong: literal_congs)

end
