(* ===== verification/Locales.thy ===== *)
theory Locales
  imports Locale_Bg Locale_Cs Locale_Da Locale_De Locale_El Locale_En Locale_Es Locale_Et Locale_Fi Locale_Fr Locale_Ga Locale_Hr Locale_Hu Locale_It Locale_Lt Locale_Lv Locale_Mt Locale_Nl Locale_Pl Locale_Pt Locale_Ro Locale_Sk Locale_Sl Locale_Sv
begin

text \<open>
  The dictionaries together: \<open>DICT\<close> of src/i18n.ts. The theories of the languages prove that each of them
  fits the English one; here that is said of what a reader sees.
\<close>

primrec messages_of :: "lang \<Rightarrow> messages" where
  "messages_of Bg = bg_messages"
| "messages_of Cs = cs_messages"
| "messages_of Da = da_messages"
| "messages_of De = de_messages"
| "messages_of El = el_messages"
| "messages_of En = en_messages"
| "messages_of Es = es_messages"
| "messages_of Et = et_messages"
| "messages_of Fi = fi_messages"
| "messages_of Fr = fr_messages"
| "messages_of Ga = ga_messages"
| "messages_of Hr = hr_messages"
| "messages_of Hu = hu_messages"
| "messages_of It = it_messages"
| "messages_of Lt = lt_messages"
| "messages_of Lv = lv_messages"
| "messages_of Mt = mt_messages"
| "messages_of Nl = nl_messages"
| "messages_of Pl = pl_messages"
| "messages_of Pt = pt_messages"
| "messages_of Ro = ro_messages"
| "messages_of Sk = sk_messages"
| "messages_of Sl = sl_messages"
| "messages_of Sv = sv_messages"

definition DICT :: dictionary where
  "DICT l key = map_of (messages_of l) key"

lemma every_language_fits: "fits (messages_of l) message_shape"
  by (cases l) (simp_all only: messages_of.simps bg_fits cs_fits da_fits de_fits el_fits en_fits es_fits et_fits fi_fits fr_fits ga_fits hr_fits
      hu_fits it_fits lt_fits lv_fits mt_fits nl_fits pl_fits pt_fits ro_fits sk_fits sl_fits sv_fits)

lemma same_placeholders: "map_option placeholder_names (DICT l key) = map_option placeholder_names (DICT En key)"
  unfolding DICT_def fits_lookup [OF every_language_fits] ..

text \<open>C38: every language has a message for each key that English has, with the same placeholders in the same order; so
  parameters that fill the English message fill the translation, and nothing is left in braces.\<close>

theorem translations_complete:
  assumes "DICT En key = Some m" and "set (placeholder_names m) \<subseteq> fst ` set ps"
  shows "\<exists>m'. DICT l key = Some m' \<and> placeholder_names m' = placeholder_names m \<and>
    t DICT l key (Some ps) = placeholders (\<lambda>name. the (map_of ps name)) m'"
proof -
  obtain m' where m': "DICT l key = Some m'" "placeholder_names m' = placeholder_names m"
    using same_placeholders [of l key] assms(1) by auto
  have "(case map_of ps n of Some v \<Rightarrow> v | None \<Rightarrow> keep_placeholder n) = the (map_of ps n)" if "n \<in> set (placeholder_names m')" for n
  proof -
    have "map_of ps n \<noteq> None" using that m'(2) assms(2) by (auto simp: map_of_eq_None_iff)
    then show ?thesis by auto
  qed
  then have "t DICT l key (Some ps) = placeholders (\<lambda>name. the (map_of ps name)) m'"
    by (simp add: t_def m'(1)) (rule placeholders_cong, blast)
  then show ?thesis using m' by blast
qed

lemma lookup_parts:
  "map_of xs k = None \<Longrightarrow> map_of (xs @ ys) k = map_of ys k" "map_of xs k = Some v \<Longrightarrow> map_of (xs @ ys) k = Some v"
  by (simp_all add: map_add_def)

lemma demo_message: "DICT En ''totp.attempts_left'' = Some (js ''Attempts left: {n}.'')"
proof -
  have "map_of en_1 ''totp.attempts_left'' = None" by (simp add: en_1_def del: js.simps)
  moreover have "map_of en_2 ''totp.attempts_left'' = None" by (simp add: en_2_def del: js.simps)
  moreover have "map_of en_3 ''totp.attempts_left'' = Some (js ''Attempts left: {n}.'')" by (simp add: en_3_def del: js.simps)
  ultimately show ?thesis by (simp only: DICT_def messages_of.simps en_messages_def lookup_parts)
qed

theorem translations_complete_witness:
  "\<exists>m'. DICT El ''totp.attempts_left'' = Some m' \<and> t DICT El ''totp.attempts_left'' (Some [(''n'', units ''3'')]) =
     placeholders (\<lambda>name. the (map_of [(''n'', units ''3'')] name)) m'"
proof -
  have "placeholder_names (js ''Attempts left: {n}.'') = [''n'']" by code_simp
  then show ?thesis using translations_complete [OF demo_message, of "[(''n'', units ''3'')]" El] by fastforce
qed

end
