(* ===== verification/Spec2Isabelle.thy ===== *)
theory Spec2Isabelle
  imports AuthProps Users Cases Config Log Uri Totp Links Quota AccountSteps Sessions Passkeys S3Store ViewsUpload SiteTrail Server Locales
begin

text \<open>
  inletbox, a self-hosted drop box: people who hold the token of an upload link send files into a case, people with an
  account manage cases, links and files in a panel, and an operator runs commands beside the server. The program is
  TypeScript on Node: src/server.ts starts it, src/http answers requests, src/services holds the rules and the SQL,
  src/storage keeps the bytes on a disk or in an S3 bucket. This development models these parts, one theory for each
  file or group of routes, and proves what makes them correct.

  \<^bold>\<open>Conventions.\<close> A string of the program is the list of its code units below 256 (\<open>string\<close>), a text shown to a
  reader the list of its UTF-16 units (\<open>text\<close>), a number an \<open>int\<close> where the code guarantees one and a \<open>jsnum\<close>
  (rational, infinite or NaN) where it does not; bytes are \<open>8 word\<close>. An operation that may throw gives \<open>exn + 'a\<close>, and the
  state it leaves comes beside it, so every throw and early return is a branch. The database is the record \<open>db\<close> of
  its tables; a statement is an update of one of them, with the keys and cascades of the schema. Random bytes and
  the clock are arguments. Names of files are therefore Latin-1, for which the NFC step of \<open>sanitizeFilename\<close> is the identity. What is not under src/ is an argument too: the primitives of node:crypto
  (\<open>node_crypto\<close>), the calls of S3 (\<open>s3_service\<close>), the platform's paths and dates, the decision of a rate limiter,
  the content-disposition header, the tus server around the hooks.

  \<^bold>\<open>Foundations.\<close>
  \<^item> Prelude, JsNumber, Paths, Uri, Json: strings, numbers, paths, URI and JSON as JavaScript has them; the tables; the
    locales \<open>codec\<close> and \<open>invariant_machine\<close>.
  \<^item> Crypto (src/crypto.ts), Totp (src/totp.ts), Config (src/config.ts), Log (src/log.ts), Db (src/db.ts and the
    schema of migrations/).

  \<^bold>\<open>Services.\<close>
  \<^item> Auth, AuthProps (src/services/auth.ts): accounts, sessions, the second factor, recovery codes; what a login proves.
  \<^item> WebAuthn, Passkeys, Dbsc, Sessions (src/webauthn.ts, src/dbsc.ts, src/services/passkeys.ts and sessions.ts):
    passkeys and device-bound sessions, each challenge used once.
  \<^item> Users, Cases (src/services/users.ts, cases.ts, audit.ts): roles, assignments, cases, the audit trail.
  \<^item> Links, Files, Quota (src/services/links.ts, files.ts): upload links, the reservation and life of a file; Quota
    proves limits and life over every run of these operations.
  \<^item> Pending, AccountSteps: all account operations as one step relation; a waiting session stays waiting.
  \<^item> Storage, S3Store, Cleanup (src/storage, src/services/cleanup.ts): \<open>storage_contract\<close> is the contract of a
    backend, kept by the directory and, for a service that behaves as documented, by the bucket; housekeeping on either.
    A put that fails may have changed its own key, never another. The contract lets a sweep remove what is old and not
    live: the directory spares names that are not the program's, the bucket does not (\<open>s3_sweeps_foreign\<close>).

  \<^bold>\<open>HTTP.\<close>
  \<^item> I18n, Messages, Locale_En and the other 23, Locales (src/i18n.ts, src/locales): the choice of a language, every
    message, and that the translations fit.
  \<^item> Html, ViewsAdmin, ViewsSecurity, ViewsUpload (src/http/html.ts, src/http/views): the templates, segment by segment.
  \<^item> Pages, Http (src/http/context.ts, middleware.ts): requests, answers, cookies, gates, limits, headers.
  \<^item> PublicApi (src/http/public.ts), Tus (src/http/tus.ts): uploads, direct and resumable.
  \<^item> AdminAuth, AdminSecurity, AdminKeys, AdminCases, AdminUsers, AdminRouter (src/http/admin.ts): the handlers of the
    panel and the order of its gates. AdminFrames, AdminProps, CaseIsolation, Downloads: what they leave alone, who gets
    past the gates, that cases are apart, what a download needs.
  \<^item> App (src/http/app.ts, brand.ts): the front door; what a stranger can reach.

  \<^bold>\<open>The whole.\<close>
  \<^item> Cli (src/cli.ts), Server (src/server.ts): the commands; start, housekeeping timers and end of the server.
  \<^item> SiteLaws: the locale \<open>service_law\<close>. Its assumptions say that each service keeps a property of the database; its
    lemmas carry the property through every handler, the router, the upload hooks, housekeeping and the commands.
  \<^item> SiteRuns: \<open>site_step\<close>, the steps of the site in any order, and the law interpreted for the schema, the books of
    the uploads (limits, life of files, room for running uploads) and the last administrator.
  \<^item> SiteTrail: the law interpreted for the audit trail and for the links; revocation is final.

  \<^bold>\<open>Interfaces.\<close> The locales are interpreted on the model itself: \<open>codec\<close> by base32, base64url and URI components;
  \<open>invariant_machine\<close> by the account operations; \<open>storage_contract\<close> by the local directory (its S3 counterpart is the
  refinement theorem of S3Store, because the service is an argument there); \<open>service_view\<close>, \<open>login_view\<close>,
  \<open>owner_view\<close> and \<open>settings_view\<close> by the tables that logins and the security page must not touch and by the audit
  log; \<open>service_law\<close> by five invariants.

  \<^bold>\<open>Loops.\<close> Loops over data are structural or have a measure. The sweeps of a bucket follow continuation tokens that
  the service gives, so they are partial functions into \<open>option\<close>. S3Store proves that they return, for a service
  that lists in the order of the keys and resumes behind the last one shown (\<open>objects_documented\<close>,
  \<open>uploads_documented\<close>), whatever the bucket holds and however many pages it is listed in; and that a
  sweep none of whose calls failed leaves only live and young objects. A prompt that is never answered is \<open>Hanging\<close>.
  No other operation needs fuel.

  \<^bold>\<open>Atomicity.\<close> node:sqlite is synchronous, so a handler runs without interruption between two awaits. Uploads are
  split where the code waits: the beginning and the end of a direct upload and the hooks of the tus server are steps of
  their own. Housekeeping and commands are one step each in \<open>site_step\<close>; Server proves that runs of housekeeping never
  overlap.

  \<^bold>\<open>Not modelled.\<close> The packages (express, helmet, express-rate-limit, tus, the AWS client, qrcode, SQLite itself):
  their documented behaviour is an argument or a hypothesis. Opening the database file and its pragmas, the health checks
  of the storages and the writing of log lines to the streams: plain I/O. The scripts of public/, which run in the
  browser and which the server does not trust; scripts/inletbox-upload.sh, a client; tests, build and deployment files.
\<close>

end
